(* ===== verification/Tlns_Prelude.thy ===== *)
theory Tlns_Prelude
  imports Main "HOL-Library.Word"
begin

unbundle bit_operations_syntax

text \<open>
  Shared material of the development: the machine integers of the C++ code, raw memory
  as lists of bytes (\<open>memmove\<close>, \<open>memset\<close>, \<open>memcmp\<close>), little-endian views of
  integers (the unions of \<open>lorawan-types.h\<close>), bit fields, and the facts about words that
  the component theories use.  The target is a little-endian machine (x86 and ESP32), the
  only one the bit-field layouts of the sources are written for.
\<close>

section \<open>Machine integers and error codes\<close>

type_synonym u8 = "8 word"
type_synonym u16 = "16 word"
type_synonym u32 = "32 word"
type_synonym u64 = "64 word"
type_synonym bytes = "u8 list"

named_theorems word_bounds \<open>bounds of masked, shifted and truncated words\<close>
named_theorems mem_simps \<open>reading and writing memory as byte lists\<close>

lemma take_bit_eq_self_word [word_bounds]:
  fixes v :: "'a::len word"
  assumes "v < 2 ^ k" and "k < LENGTH('a)"
  shows "take_bit k v = v"
proof -
  have "uint v < uint ((2::'a word) ^ k)"
    using assms(1) by (simp add: word_less_def)
  also have "\<dots> = 2 ^ k"
    using assms(2) uint_word_of_int [where 'a = 'a, of "2 ^ k"] by simp
  finally have "take_bit k (uint v) = uint v"
    by (simp add: take_bit_int_eq_self)
  then show ?thesis
    by (simp add: word_uint_eq_iff unsigned_take_bit_eq)
qed

lemma bit_less_bound:
  fixes v :: "'a::len word"
  assumes "v < 2 ^ k" and "k < LENGTH('a)" and "k \<le> n"
  shows "\<not> bit v n"
proof -
  from assms have "take_bit k v = v" by (simp add: take_bit_eq_self_word)
  then have "bit v n = bit (take_bit k v) n" by simp
  with assms show ?thesis by (simp add: bit_take_bit_iff)
qed

lemma less_8_cases: "n < (8::nat) \<Longrightarrow> n \<in> {0, 1, 2, 3, 4, 5, 6, 7}"
  by auto

lemma less_32_cases:
  "n < (32::nat) \<Longrightarrow>
   n \<in> {0, 1, 2, 3, 4, 5, 6, 7, 8, 9, 10, 11, 12, 13, 14, 15,
         16, 17, 18, 19, 20, 21, 22, 23, 24, 25, 26, 27, 28, 29, 30, 31}"
  by (simp add: numeral_eq_Suc less_Suc_eq)

lemma u8_eq_iff:
  "(p::u8) = q \<longleftrightarrow>
     bit p 0 = bit q 0 \<and> bit p 1 = bit q 1 \<and> bit p 2 = bit q 2 \<and> bit p 3 = bit q 3 \<and>
     bit p 4 = bit q 4 \<and> bit p 5 = bit q 5 \<and> bit p 6 = bit q 6 \<and> bit p 7 = bit q 7"
  (is "?l = ?r")
proof
  assume ?r
  then show ?l by (intro bit_word_eqI) (auto dest!: less_8_cases)
qed simp

lemma u32_eqI:
  assumes "\<forall>n \<in> {0, 1, 2, 3, 4, 5, 6, 7, 8, 9, 10, 11, 12, 13, 14, 15,
    16, 17, 18, 19, 20, 21, 22, 23, 24, 25, 26, 27, 28, 29, 30, 31}. bit (a::u32) n = bit b n"
  shows "a = b"
proof (rule bit_word_eqI)
  fix n assume "n < LENGTH(32)"
  then have "n < 32" by simp
  then show "bit a n = bit b n" by (rule bspec [OF assms less_32_cases])
qed

lemma bit_times_2: "bit (w * 2) n \<longleftrightarrow> n < LENGTH('a) \<and> n \<noteq> 0 \<and> bit w (n - 1)"
  for w :: "'a::len word"
  by (simp add: mult.commute [of w] bit_double_iff possible_bit_def conj_commute)

lemma take_bit_less_exp [word_bounds]: "k < LENGTH('a) \<Longrightarrow> take_bit k v < 2 ^ k"
  for v :: "'a::len word"
  by (simp add: take_bit_eq_mask and_mask_less')

lemma bit_u8_ge [simp]: "8 \<le> n \<Longrightarrow> \<not> bit (b::u8) n"
  by (auto dest: bit_imp_le_length)

lemma ucast_back: "LENGTH('a) \<le> LENGTH('b) \<Longrightarrow> ucast (ucast w :: 'b::len word) = w" for w :: "'a::len word"
  by (rule bit_word_eqI) (auto simp: bit_simps)

text \<open>A field that fits its width is its own truncation, whose high bits \<open>simp\<close> computes.\<close>

lemma take_bit_of_less:
  fixes v :: "'a::len word"
  assumes "v < 2 ^ k" and "k < LENGTH('a)"
  obtains w where "v = take_bit k w"
  using assms by (metis take_bit_eq_self_word)

section \<open>Memory as byte lists\<close>

text \<open>
  \<open>memmove(p + off, src, n)\<close>: the bytes of \<open>src\<close> replace those at \<open>off\<close>.  It is used
  where the destination holds \<open>off + n\<close> bytes, and keeps the length then.
\<close>

definition mem_write :: "bytes \<Rightarrow> nat \<Rightarrow> bytes \<Rightarrow> bytes" where
  "mem_write m off src = take off m @ src @ drop (off + length src) m"

definition mem_read :: "bytes \<Rightarrow> nat \<Rightarrow> nat \<Rightarrow> bytes" where
  "mem_read m off n = take n (drop off m)"

lemma length_mem_write [mem_simps, simp]:
  "off + length src \<le> length m \<Longrightarrow> length (mem_write m off src) = length m"
  by (simp add: mem_write_def)

lemma length_mem_read [mem_simps, simp]:
  "off + n \<le> length m \<Longrightarrow> length (mem_read m off n) = n"
  by (simp add: mem_read_def)

lemma mem_read_write_same [mem_simps, simp]:
  "off \<le> length m \<Longrightarrow> n = length src \<Longrightarrow> mem_read (mem_write m off src) off n = src"
  by (simp add: mem_read_def mem_write_def)

lemma mem_read_write_before [mem_simps]:
  "o2 + n \<le> off \<Longrightarrow> off \<le> length m \<Longrightarrow> mem_read (mem_write m off src) o2 n = mem_read m o2 n"
  by (simp add: mem_read_def mem_write_def take_drop min_absorb1 min_absorb2)

lemma mem_read_write_after [mem_simps]:
  "off + length src \<le> o2 \<Longrightarrow> off + length src \<le> length m \<Longrightarrow>
   mem_read (mem_write m off src) o2 n = mem_read m o2 n"
  by (simp add: mem_read_def mem_write_def)

lemma mem_write_nth [mem_simps]:
  "off + length src \<le> length m \<Longrightarrow> i < length m \<Longrightarrow>
   mem_write m off src ! i =
     (if off \<le> i \<and> i < off + length src then src ! (i - off) else m ! i)"
  by (auto simp: mem_write_def nth_append min_def)

lemma mem_write_append [mem_simps]:
  "off + length v + length w \<le> length m \<Longrightarrow>
   mem_write (mem_write m off v) (off + length v) w = mem_write m off (v @ w)"
  by (cases v) (auto simp: mem_write_def min_def ac_simps)

lemma mem_write_read_same [mem_simps]:
  "off + n \<le> length m \<Longrightarrow> mem_write m off (mem_read m off n) = m"
  by (rule nth_equalityI) (auto simp: mem_write_nth mem_read_def)

lemma mem_write_write [mem_simps]:
  "off + length v \<le> length m \<Longrightarrow> length w = length v \<Longrightarrow>
   mem_write (mem_write m off v) off w = mem_write m off w"
  by (rule nth_equalityI) (auto simp: mem_write_nth)

text \<open>\<open>memcmp\<close>: the sign of the first difference, bytes compared unsigned.\<close>

fun memcmp :: "bytes \<Rightarrow> bytes \<Rightarrow> int" where
  "memcmp (x # xs) (y # ys) = (if x < y then -1 else if y < x then 1 else memcmp xs ys)"
| "memcmp _ _ = 0"

lemma memcmp_refl [simp]: "memcmp xs xs = 0"
  by (induction xs) auto

lemma memcmp_eq_0_iff: "length xs = length ys \<Longrightarrow> memcmp xs ys = 0 \<longleftrightarrow> xs = ys"
  by (induction xs ys rule: list_induct2) auto

lemma memcmp_antisym: "length xs = length ys \<Longrightarrow> memcmp ys xs = - memcmp xs ys"
  by (induction xs ys rule: list_induct2) auto

section \<open>Little-endian views\<close>

text \<open>
  \<open>byte_at w i\<close> is \<open>c[i]\<close> of a union of an integer \<open>w\<close> with a byte array \<open>c\<close>;
  \<open>set_byte\<close> assigns it.
\<close>

definition byte_at :: "'a::len word \<Rightarrow> nat \<Rightarrow> u8" where
  "byte_at w i = ucast (drop_bit (8 * i) w)"

definition set_byte :: "'a::len word \<Rightarrow> nat \<Rightarrow> u8 \<Rightarrow> 'a word" where
  "set_byte w i b =
     (w AND NOT (push_bit (8 * i) 0xff)) OR push_bit (8 * i) (ucast b)"

definition le_bytes :: "nat \<Rightarrow> 'a::len word \<Rightarrow> bytes" where
  "le_bytes n w = map (byte_at w) [0..<n]"

fun from_le :: "bytes \<Rightarrow> 'a::len word" where
  "from_le [] = 0"
| "from_le (b # bs) = ucast b OR push_bit 8 (from_le bs)"

lemma length_le_bytes [simp]: "length (le_bytes n w) = n"
  by (simp add: le_bytes_def)

lemma bit_byte_at: "bit (byte_at w i) k \<longleftrightarrow> k < 8 \<and> bit w (8 * i + k)"
  for w :: "'a::len word"
  by (auto simp: byte_at_def bit_simps dest: bit_imp_le_length)

lemma ff_eq_mask: "(0xff :: 'a::len word) = mask 8"
  by (simp add: mask_eq_exp_minus_1)

lemma bit_set_byte:
  "bit (set_byte w i b) n \<longleftrightarrow>
     (if 8 * i \<le> n \<and> n < 8 * i + 8 then n < LENGTH('a) \<and> bit b (n - 8 * i) else bit w n)"
  for w :: "'a::len word"
  unfolding set_byte_def ff_eq_mask
  by (auto simp: bit_simps dest: bit_imp_le_length)

lemma bit_from_le:
  "bit (from_le bs :: 'a::len word) n \<longleftrightarrow>
     n < LENGTH('a) \<and> n div 8 < length bs \<and> bit (bs ! (n div 8)) (n mod 8)"
proof (induction bs arbitrary: n)
  case Nil
  then show ?case by simp
next
  case (Cons b bs)
  show ?case
  proof (cases "n < 8")
    case True
    then show ?thesis
      by (auto simp: bit_or_iff bit_push_bit_iff bit_ucast_iff)
  next
    case False
    then have "\<not> bit b n" by (auto dest: bit_imp_le_length)
    moreover have "n div 8 = Suc ((n - 8) div 8)" "n mod 8 = (n - 8) mod 8"
      using False by (simp_all add: le_div_geq le_mod_geq)
    moreover have "n - 8 < LENGTH('a)" if "n < LENGTH('a)" using that by simp
    ultimately show ?thesis
      using False Cons.IH [of "n - 8"]
      by (auto simp: bit_or_iff bit_push_bit_iff bit_ucast_iff)
  qed
qed

lemma from_le_le_bytes:
  "LENGTH('a) \<le> 8 * n \<Longrightarrow> from_le (le_bytes n w) = (w :: 'a::len word)"
  by (rule bit_word_eqI)
    (auto simp: bit_from_le le_bytes_def bit_byte_at div_less_iff_less_mult)

lemma from_le_inj_bytes:
  assumes "LENGTH('a) = 8 * length bs"
  shows "le_bytes (length bs) (from_le bs :: 'a::len word) = bs"
proof (rule nth_equalityI)
  show "length (le_bytes (length bs) (from_le bs :: 'a word)) = length bs" by simp
next
  fix i assume "i < length (le_bytes (length bs) (from_le bs :: 'a word))"
  then have i: "i < length bs" by simp
  show "le_bytes (length bs) (from_le bs :: 'a word) ! i = bs ! i"
  proof (rule bit_word_eqI)
    fix k assume "k < LENGTH(8)"
    then have k: "k < 8" by simp
    from i k assms have "8 * i + k < LENGTH('a)" by simp
    with i k show "bit (le_bytes (length bs) (from_le bs :: 'a word) ! i) k = bit (bs ! i) k"
      by (simp add: le_bytes_def bit_byte_at bit_from_le)
  qed
qed


lemma le_bytes_from_le:
  "n = length bs \<Longrightarrow> LENGTH('a) = 8 * length bs \<Longrightarrow> le_bytes n (from_le bs :: 'a::len word) = bs"
  using from_le_inj_bytes by blast

end
