(* ===== verification/Error_Codes.thy ===== *)
theory Error_Codes
  imports Tlns_Prelude
begin

text \<open>
  The error codes of \<open>lorawan/lorawan-error.h\<close> that the modelled operations return.
  A function of the sources that returns \<open>int\<close> returns \<open>CODE_OK\<close> on success and one
  of these negative codes on failure; the model keeps the numbers.
\<close>

type_synonym code = int

abbreviation CODE_OK :: code where "CODE_OK \<equiv> 0"
abbreviation ERR_CODE_INVALID_ADDRESS :: code where "ERR_CODE_INVALID_ADDRESS \<equiv> - 5011"
abbreviation ERR_CODE_SOCKET_CREATE :: code where "ERR_CODE_SOCKET_CREATE \<equiv> - 5013"
abbreviation ERR_CODE_INVALID_PACKET :: code where "ERR_CODE_INVALID_PACKET \<equiv> - 5025"
abbreviation ERR_CODE_INVALID_JSON :: code where "ERR_CODE_INVALID_JSON \<equiv> - 5026"
abbreviation ERR_CODE_INIT_REGION_NO_DEFAULT :: code where "ERR_CODE_INIT_REGION_NO_DEFAULT \<equiv> - 5104"
abbreviation ERR_CODE_DEVICE_ADDRESS_NOTFOUND :: code where "ERR_CODE_DEVICE_ADDRESS_NOTFOUND \<equiv> - 5027"
abbreviation ERR_CODE_WRONG_PARAM :: code where "ERR_CODE_WRONG_PARAM \<equiv> - 5042"
abbreviation ERR_CODE_SEND_ACK :: code where "ERR_CODE_SEND_ACK \<equiv> - 5045"
abbreviation ERR_CODE_MAC_TOO_SHORT :: code where "ERR_CODE_MAC_TOO_SHORT \<equiv> - 5050"
abbreviation ERR_CODE_MAC_INVALID :: code where "ERR_CODE_MAC_INVALID \<equiv> - 5051"
abbreviation ERR_CODE_MAC_UNKNOWN_EXTENSION :: code where "ERR_CODE_MAC_UNKNOWN_EXTENSION \<equiv> - 5052"
abbreviation ERR_CODE_PARAM_INVALID :: code where "ERR_CODE_PARAM_INVALID \<equiv> - 5053"
abbreviation ERR_CODE_GATEWAY_NOT_FOUND :: code where "ERR_CODE_GATEWAY_NOT_FOUND \<equiv> - 5093"
abbreviation ERR_CODE_DEVICE_EUI_NOT_FOUND :: code where "ERR_CODE_DEVICE_EUI_NOT_FOUND \<equiv> - 5099"
abbreviation ERR_CODE_NETTYPE_OUT_OF_RANGE :: code where "ERR_CODE_NETTYPE_OUT_OF_RANGE \<equiv> - 5110"
abbreviation ERR_CODE_NETID_OUT_OF_RANGE :: code where "ERR_CODE_NETID_OUT_OF_RANGE \<equiv> - 5111"
abbreviation ERR_CODE_TYPE_OUT_OF_RANGE :: code where "ERR_CODE_TYPE_OUT_OF_RANGE \<equiv> - 5112"
abbreviation ERR_CODE_NWK_OUT_OF_RANGE :: code where "ERR_CODE_NWK_OUT_OF_RANGE \<equiv> - 5113"
abbreviation ERR_CODE_ADDR_OUT_OF_RANGE :: code where "ERR_CODE_ADDR_OUT_OF_RANGE \<equiv> - 5114"
abbreviation ERR_CODE_ADDR_SPACE_FULL :: code where "ERR_CODE_ADDR_SPACE_FULL \<equiv> - 5115"

end
