(* ===== verification/Dev_Addr.thy ===== *)
theory Dev_Addr
  imports Error_Codes
begin

text \<open>
  Network identifiers and device addresses (\<open>NETID\<close>, \<open>DEVADDR\<close> of
  \<open>lorawan/lorawan-types.h\<close> and \<open>.cpp\<close>): the bit layouts of the LoRaWAN back-end
  interfaces, their getters and range-checked setters in the 1.0 and the 1.1 variants, and
  the address arithmetic.  A setter returns its code together with the object it leaves
  behind, also when it fails.
\<close>

section \<open>NETID\<close>

text \<open>\<open>class NETID { union { unsigned char c[3]; }; }\<close>\<close>

record NETID =
  nid_c0 :: u8
  nid_c1 :: u8
  nid_c2 :: u8

definition NETID2int :: "NETID \<Rightarrow> u32" where
  "NETID2int n = ucast (nid_c0 n) + push_bit 8 (ucast (nid_c1 n)) + push_bit 16 (ucast (nid_c2 n))"

definition int2NETID :: "u32 \<Rightarrow> NETID" where
  "int2NETID v =
     \<lparr> nid_c0 = ucast (v AND 0xff),
       nid_c1 = ucast (drop_bit 8 v AND 0xff),
       nid_c2 = ucast (drop_bit 16 v AND 0xff) \<rparr>"

text \<open>\<open>networkType\<close> is the 3-bit field above the 5-bit \<open>v2\<close> of the last byte.\<close>

definition netid_getType :: "NETID \<Rightarrow> u8" where
  "netid_getType n = drop_bit 5 (nid_c2 n)"

definition netid_setType :: "u8 \<Rightarrow> NETID \<Rightarrow> NETID" where
  "netid_setType v n = n\<lparr> nid_c2 := (nid_c2 n AND 0x1f) OR push_bit 5 v \<rparr>"

definition MASK_NWK_ID :: "u32 list" where
  "MASK_NWK_ID =
     [push_bit 6 1 - 1, push_bit 6 1 - 1, push_bit 9 1 - 1, push_bit 10 1 - 1,
      push_bit 11 1 - 1, push_bit 13 1 - 1, push_bit 15 1 - 1, push_bit 17 1 - 1]"

definition netid_getTypeMask :: "NETID \<Rightarrow> u32" where
  "netid_getTypeMask n =
     (let t = netid_getType n in
      if t = 0 \<or> t = 1 then push_bit 6 1 - 1
      else if t = 2 then push_bit 9 1 - 1
      else push_bit 21 1 - 1)"

definition netid_getNetId :: "NETID \<Rightarrow> u32" where
  "netid_getNetId n = NETID2int n AND netid_getTypeMask n"

definition netid_getNwkId :: "NETID \<Rightarrow> u32" where
  "netid_getNwkId n = NETID2int n AND (MASK_NWK_ID ! unat (netid_getType n))"

text \<open>\<open>int NETID::set(uint8_t netType, uint32_t value)\<close>\<close>

definition netid_set :: "u8 \<Rightarrow> u32 \<Rightarrow> NETID \<Rightarrow> code \<times> NETID" where
  "netid_set netType value n =
     (if netType > 7 then (ERR_CODE_NETTYPE_OUT_OF_RANGE, n)
      else if (netType = 0 \<or> netType = 1) \<and> value \<ge> push_bit 6 1
        then (ERR_CODE_NETID_OUT_OF_RANGE, n)
      else if netType = 2 \<and> value \<ge> push_bit 9 1
        then (ERR_CODE_NETID_OUT_OF_RANGE, n)
      else if netType > 2 \<and> value \<ge> push_bit 21 1
        then (ERR_CODE_NETID_OUT_OF_RANGE, n)
      else (0, netid_setType netType (int2NETID value)))"

definition netid_applyTypeMask :: "NETID \<Rightarrow> NETID" where
  "netid_applyTypeMask n = int2NETID (NETID2int n AND netid_getTypeMask n)"

definition netid_getRFUBitsCount :: "NETID \<Rightarrow> nat" where
  "netid_getRFUBitsCount n =
     (let t = netid_getType n in
      if t = 0 \<or> t = 1 then 15 else if t = 2 then 12 else 0)"

definition netid_getNetIdBitsCount :: "NETID \<Rightarrow> nat" where
  "netid_getNetIdBitsCount n =
     (let t = netid_getType n in
      if t = 0 \<or> t = 1 then 6 else if t = 2 then 9 else 21)"

text \<open>\<open>DEVADDR_TYPE_SIZE\<close>: (networkIdBits, devDddrBits) per type.\<close>

definition DEVADDR_TYPE_SIZES_1_0 :: "(nat \<times> nat) list" where
  "DEVADDR_TYPE_SIZES_1_0 =
     [(6, 25), (6, 24), (9, 20), (10, 18), (11, 16), (13, 13), (15, 10), (17, 7)]"

definition DEVADDR_TYPE_SIZES_1_1 :: "(nat \<times> nat) list" where
  "DEVADDR_TYPE_SIZES_1_1 =
     [(6, 25), (6, 24), (9, 20), (11, 17), (12, 15), (13, 13), (15, 10), (17, 7)]"

text \<open>
  \<open>NETID::size\<close> precedes the definition of \<open>DEFAULT_LORAWAN_BACKEND_VERSION_MINOR\<close> in
  its file, so the preprocessor takes the 1.0 branch here and the 1.1 branch in
  \<open>DEVADDR::size\<close> below.
\<close>

definition netid_size :: "NETID \<Rightarrow> nat" where
  "netid_size n = 2 ^ snd (DEVADDR_TYPE_SIZES_1_0 ! unat (netid_getType n)) - 1"

section \<open>DEVADDR\<close>

text \<open>\<open>class DEVADDR { union { unsigned char c[4]; uint32_t u; }; }\<close>; \<open>c[i]\<close>, promoted.\<close>

type_synonym DEVADDR = u32

definition dc :: "DEVADDR \<Rightarrow> nat \<Rightarrow> u32" where
  "dc a i = ucast (byte_at a i)"

definition INVALID_ID :: u32 where
  "INVALID_ID = 0xffffffff"

definition getNetIdType :: "DEVADDR \<Rightarrow> u8" where
  "getNetIdType a =
     (let p = byte_at a 3 in
      if p = 0xfe then 7
      else if drop_bit 1 p = 0x7e then 6
      else if drop_bit 2 p = 0x3e then 5
      else if drop_bit 3 p = 0x1e then 4
      else if drop_bit 4 p = 0xe then 3
      else if drop_bit 5 p = 6 then 2
      else if drop_bit 6 p = 2 then 1
      else if drop_bit 7 p = 0 then 0
      else 8)"

definition setNetIdType :: "u8 \<Rightarrow> DEVADDR \<Rightarrow> code \<times> DEVADDR" where
  "setNetIdType value a =
     (let c3 = byte_at a 3 in
      if value = 0 then (0, set_byte a 3 (c3 AND 0x7f))
      else if value = 1 then (0, set_byte a 3 ((c3 AND 0x3f) OR 0x80))
      else if value = 2 then (0, set_byte a 3 ((c3 AND 0x1f) OR 0xc0))
      else if value = 3 then (0, set_byte a 3 ((c3 AND 0xf) OR 0xe0))
      else if value = 4 then (0, set_byte a 3 ((c3 AND 7) OR 0xf0))
      else if value = 5 then (0, set_byte a 3 ((c3 AND 3) OR 0xf8))
      else if value = 6 then (0, set_byte a 3 ((c3 AND 1) OR 0xfc))
      else if value = 7 then (0, set_byte a 3 0xfe)
      else (ERR_CODE_TYPE_OUT_OF_RANGE, a))"

definition getNwkId_1_0 :: "DEVADDR \<Rightarrow> u32" where
  "getNwkId_1_0 a =
     (let t = getNetIdType a in
      if t = 0 then drop_bit 1 (dc a 3 AND 0x7f)
      else if t = 1 then dc a 3 AND 0x3f
      else if t = 2 then push_bit 4 (dc a 3 AND 0x1f) OR drop_bit 4 (dc a 2)
      else if t = 3 then push_bit 6 (dc a 3 AND 0xf) OR drop_bit 2 (dc a 2)
      else if t = 4 then push_bit 8 (dc a 3 AND 7) OR dc a 2
      else if t = 5 then push_bit 11 (dc a 3 AND 3) OR push_bit 3 (dc a 2) OR drop_bit 5 (dc a 1)
      else if t = 6 then push_bit 14 (dc a 3 AND 1) OR push_bit 6 (dc a 2) OR drop_bit 2 (dc a 1)
      else if t = 7 then push_bit 9 (dc a 2) OR push_bit 1 (dc a 1) OR drop_bit 7 (dc a 0)
      else INVALID_ID)"

definition getNwkId_1_1 :: "DEVADDR \<Rightarrow> u32" where
  "getNwkId_1_1 a =
     (let t = getNetIdType a in
      if t = 0 then drop_bit 1 (dc a 3 AND 0x7f)
      else if t = 1 then dc a 3 AND 0x3f
      else if t = 2 then push_bit 4 (dc a 3 AND 0x1f) OR drop_bit 4 (dc a 2)
      else if t = 3 then push_bit 7 (dc a 3 AND 0xf) OR drop_bit 1 (dc a 2)
      else if t = 4 then push_bit 9 (dc a 3 AND 7) OR push_bit 1 (dc a 2) OR drop_bit 7 (dc a 0)
      else if t = 5 then push_bit 11 (dc a 3 AND 3) OR push_bit 3 (dc a 2) OR drop_bit 5 (dc a 1)
      else if t = 6 then push_bit 14 (dc a 3 AND 1) OR push_bit 6 (dc a 2) OR drop_bit 2 (dc a 1)
      else if t = 7 then push_bit 9 (dc a 2) OR push_bit 1 (dc a 1) OR drop_bit 7 (dc a 0)
      else INVALID_ID)"

definition getNwkAddr_1_0 :: "DEVADDR \<Rightarrow> u32" where
  "getNwkAddr_1_0 a =
     (let t = getNetIdType a in
      if t = 0 then push_bit 24 (dc a 3 AND 1) OR push_bit 16 (dc a 2) OR push_bit 8 (dc a 1) OR dc a 0
      else if t = 1 then push_bit 16 (dc a 2) OR push_bit 8 (dc a 1) OR dc a 0
      else if t = 2 then push_bit 16 (dc a 2 AND 0xf) OR push_bit 8 (dc a 1) OR dc a 0
      else if t = 3 then push_bit 16 (dc a 2 AND 3) OR push_bit 8 (dc a 1) OR dc a 0
      else if t = 4 then push_bit 8 (dc a 1) OR dc a 0
      else if t = 5 then push_bit 8 (dc a 1 AND 0x1f) OR dc a 0
      else if t = 6 then push_bit 8 (dc a 1 AND 3) OR dc a 0
      else if t = 7 then dc a 0 AND 0x7f
      else INVALID_ID)"

definition getNwkAddr_1_1 :: "DEVADDR \<Rightarrow> u32" where
  "getNwkAddr_1_1 a =
     (let t = getNetIdType a in
      if t = 0 then push_bit 24 (dc a 3 AND 1) OR push_bit 16 (dc a 2) OR push_bit 8 (dc a 1) OR dc a 0
      else if t = 1 then push_bit 16 (dc a 2) OR push_bit 8 (dc a 1) OR dc a 0
      else if t = 2 then push_bit 16 (dc a 2 AND 0xf) OR push_bit 8 (dc a 1) OR dc a 0
      else if t = 3 then push_bit 16 (dc a 2 AND 1) OR push_bit 8 (dc a 1) OR dc a 0
      else if t = 4 then push_bit 8 (dc a 1 AND 0x7f) OR dc a 0
      else if t = 5 then push_bit 8 (dc a 1 AND 0x1f) OR dc a 0
      else if t = 6 then push_bit 8 (dc a 1 AND 3) OR dc a 0
      else if t = 7 then dc a 0 AND 0x7f
      else INVALID_ID)"

text \<open>The compiled variant is the 1.1 one.\<close>

definition getNwkId :: "DEVADDR \<Rightarrow> u32" where
  "getNwkId a = getNwkId_1_1 a"

definition getNwkAddr :: "DEVADDR \<Rightarrow> u32" where
  "getNwkAddr a = getNwkAddr_1_1 a"

text \<open>
  The macros \<open>DEVADDR_SET_NWK_ID_*\<close> and \<open>DEVADDR_SET_NWK_ADDR_*\<close>, with the clear
  mask selected by the type.
\<close>

definition DEVADDR_SET_NWK_ID :: "u32 \<Rightarrow> u32 \<Rightarrow> nat \<Rightarrow> DEVADDR \<Rightarrow> DEVADDR" where
  "DEVADDR_SET_NWK_ID clear u len a = (a AND clear) OR push_bit (32 - len) u"

definition DEVADDR_SET_NWK_ADDR :: "u32 \<Rightarrow> u32 \<Rightarrow> DEVADDR \<Rightarrow> DEVADDR" where
  "DEVADDR_SET_NWK_ADDR clear u a = (a AND clear) OR u"

definition set_nwk_id_checked ::
    "u32 \<Rightarrow> u32 \<Rightarrow> u32 \<Rightarrow> nat \<Rightarrow> DEVADDR \<Rightarrow> code \<times> DEVADDR" where
  "set_nwk_id_checked limit clear value len a =
     (if value \<ge> limit then (ERR_CODE_NWK_OUT_OF_RANGE, a)
      else (0, DEVADDR_SET_NWK_ID clear value len a))"

definition set_nwk_addr_checked ::
    "u32 \<Rightarrow> u32 \<Rightarrow> u32 \<Rightarrow> DEVADDR \<Rightarrow> code \<times> DEVADDR" where
  "set_nwk_addr_checked limit clear value a =
     (if value \<ge> limit then (ERR_CODE_ADDR_OUT_OF_RANGE, a)
      else (0, DEVADDR_SET_NWK_ADDR clear value a))"

definition setNwkId_1_0 :: "u8 \<Rightarrow> u32 \<Rightarrow> DEVADDR \<Rightarrow> code \<times> DEVADDR" where
  "setNwkId_1_0 t value a =
     (if t = 0 then set_nwk_id_checked 0x40 0x81FFFFFF value 7 a
      else if t = 1 then set_nwk_id_checked 0x40 0xC0FFFFFF value 8 a
      else if t = 2 then set_nwk_id_checked 0x200 0xE00FFFFF value 12 a
      else if t = 3 then set_nwk_id_checked 0x400 0xF003FFFF value 14 a
      else if t = 4 then set_nwk_id_checked 0x800 0xF800FFFF value 16 a
      else if t = 5 then set_nwk_id_checked 0x2000 0xFC007FFF value 19 a
      else if t = 6 then set_nwk_id_checked 0x8000 0xFE0003FF value 22 a
      else if t = 7 then set_nwk_id_checked 0x20000 0xFF00007F value 25 a
      else (ERR_CODE_NWK_OUT_OF_RANGE, a))"

definition setNwkId_1_1 :: "u8 \<Rightarrow> u32 \<Rightarrow> DEVADDR \<Rightarrow> code \<times> DEVADDR" where
  "setNwkId_1_1 t value a =
     (if t = 0 then set_nwk_id_checked 0x40 0x81FFFFFF value 7 a
      else if t = 1 then set_nwk_id_checked 0x40 0xC0FFFFFF value 8 a
      else if t = 2 then set_nwk_id_checked 0x200 0xE00FFFFF value 12 a
      else if t = 3 then set_nwk_id_checked 0x800 0xF001FFFF value 14 a
      else if t = 4 then set_nwk_id_checked 0x1000 0xF8007FFF value 16 a
      else if t = 5 then set_nwk_id_checked 0x2000 0xFC007FFF value 19 a
      else if t = 6 then set_nwk_id_checked 0x8000 0xFE0003FF value 22 a
      else if t = 7 then set_nwk_id_checked 0x20000 0xFF00007F value 25 a
      else (ERR_CODE_NWK_OUT_OF_RANGE, a))"

definition setNwkAddr_1_0 :: "u8 \<Rightarrow> u32 \<Rightarrow> DEVADDR \<Rightarrow> code \<times> DEVADDR" where
  "setNwkAddr_1_0 t value a =
     (if t = 0 then set_nwk_addr_checked 0x2000000 0xFE000000 value a
      else if t = 1 then set_nwk_addr_checked 0x1000000 0xFF000000 value a
      else if t = 2 then set_nwk_addr_checked 0x100000 0xFFF00000 value a
      else if t = 3 then set_nwk_addr_checked 0x40000 0xFFFC0000 value a
      else if t = 4 then set_nwk_addr_checked 0x10000 0xFFFF0000 value a
      else if t = 5 then set_nwk_addr_checked 0x2000 0xFFFF8000 value a
      else if t = 6 then set_nwk_addr_checked 0x400 0xFFFFFC00 value a
      else if t = 7 then set_nwk_addr_checked 0x80 0xFFFFFF80 value a
      else (ERR_CODE_ADDR_OUT_OF_RANGE, a))"

definition setNwkAddr_1_1 :: "u8 \<Rightarrow> u32 \<Rightarrow> DEVADDR \<Rightarrow> code \<times> DEVADDR" where
  "setNwkAddr_1_1 t value a =
     (if t = 0 then set_nwk_addr_checked 0x2000000 0xFE000000 value a
      else if t = 1 then set_nwk_addr_checked 0x1000000 0xFF000000 value a
      else if t = 2 then set_nwk_addr_checked 0x100000 0xFFF00000 value a
      else if t = 3 then set_nwk_addr_checked 0x20000 0xFFFE0000 value a
      else if t = 4 then set_nwk_addr_checked 0x8000 0xFFFF8000 value a
      else if t = 5 then set_nwk_addr_checked 0x2000 0xFFFF8000 value a
      else if t = 6 then set_nwk_addr_checked 0x400 0xFFFFFC00 value a
      else if t = 7 then set_nwk_addr_checked 0x80 0xFFFFFF80 value a
      else (ERR_CODE_ADDR_OUT_OF_RANGE, a))"

definition setNwkId :: "u8 \<Rightarrow> u32 \<Rightarrow> DEVADDR \<Rightarrow> code \<times> DEVADDR" where
  "setNwkId t value a = setNwkId_1_1 t value a"

definition setNwkAddr :: "u8 \<Rightarrow> u32 \<Rightarrow> DEVADDR \<Rightarrow> code \<times> DEVADDR" where
  "setNwkAddr t value a = setNwkAddr_1_1 t value a"

text \<open>\<open>int DEVADDR::set(netTypeId, nwkId, nwkAddr)\<close>: three steps, the first failure returned.\<close>

definition devaddr_set3 :: "u8 \<Rightarrow> u32 \<Rightarrow> u32 \<Rightarrow> DEVADDR \<Rightarrow> code \<times> DEVADDR" where
  "devaddr_set3 t nwkId nwkAddr a =
     (let (r, a1) = setNetIdType t a in
      if r \<noteq> 0 then (r, a1)
      else let (r, a2) = setNwkId t nwkId a1 in
        if r \<noteq> 0 then (r, a2)
        else setNwkAddr t nwkAddr a2)"

definition setAddr :: "u32 \<Rightarrow> DEVADDR \<Rightarrow> code \<times> DEVADDR" where
  "setAddr nwkAddr a = setNwkAddr (getNetIdType a) nwkAddr a"

definition devaddr_set_netid :: "NETID \<Rightarrow> u32 \<Rightarrow> DEVADDR \<Rightarrow> code \<times> DEVADDR" where
  "devaddr_set_netid n nwkAddr a = devaddr_set3 (netid_getType n) (netid_getNwkId n) nwkAddr a"

definition increment :: "DEVADDR \<Rightarrow> code \<times> DEVADDR" where
  "increment a = setAddr (getNwkAddr a + 1) a"

definition decrement :: "DEVADDR \<Rightarrow> code \<times> DEVADDR" where
  "decrement a = setAddr (getNwkAddr a - 1) a"

definition getMaxNwkId :: "u8 \<Rightarrow> u32" where
  "getMaxNwkId t =
     (if t = 0 then 0x40 - 1 else if t = 1 then 0x40 - 1 else if t = 2 then 0x200 - 1
      else if t = 3 then 0x400 - 1 else if t = 4 then 0x800 - 1 else if t = 5 then 0x2000 - 1
      else if t = 6 then 0x8000 - 1 else if t = 7 then 0x20000 - 1
      else word_of_int ERR_CODE_NWK_OUT_OF_RANGE)"

definition getMaxNwkAddr_1_0 :: "u8 \<Rightarrow> u32" where
  "getMaxNwkAddr_1_0 t =
     (if t = 0 then 0x2000000 - 1 else if t = 1 then 0x1000000 - 1 else if t = 2 then 0x100000 - 1
      else if t = 3 then 0x40000 - 1 else if t = 4 then 0x10000 - 1 else if t = 5 then 0x2000 - 1
      else if t = 6 then 0x400 - 1 else if t = 7 then 0x80 - 1
      else word_of_int ERR_CODE_ADDR_OUT_OF_RANGE)"

definition getMaxNwkAddr_1_1 :: "u8 \<Rightarrow> u32" where
  "getMaxNwkAddr_1_1 t =
     (if t = 0 then 0x2000000 - 1 else if t = 1 then 0x1000000 - 1 else if t = 2 then 0x100000 - 1
      else if t = 3 then 0x20000 - 1 else if t = 4 then 0x8000 - 1 else if t = 5 then 0x2000 - 1
      else if t = 6 then 0x400 - 1 else if t = 7 then 0x80 - 1
      else word_of_int ERR_CODE_ADDR_OUT_OF_RANGE)"

definition getMaxNwkAddr :: "u8 \<Rightarrow> u32" where
  "getMaxNwkAddr t = getMaxNwkAddr_1_1 t"

definition setMaxAddress :: "NETID \<Rightarrow> DEVADDR \<Rightarrow> code \<times> DEVADDR" where
  "setMaxAddress n a =
     (let t = netid_getType n; (r, a1) = setNetIdType t a in
      if r \<noteq> 0 then (r, a1)
      else let (r, a2) = setNwkId t (netid_getNwkId n) a1 in
        if r \<noteq> 0 then (r, a2)
        else setNwkAddr t (getMaxNwkAddr t) a2)"

definition setMinAddress :: "NETID \<Rightarrow> DEVADDR \<Rightarrow> code \<times> DEVADDR" where
  "setMinAddress n a =
     (let t = netid_getType n; (r, a1) = setNetIdType t a in
      if r \<noteq> 0 then (r, a1)
      else let (r, a2) = setNwkId t (netid_getNwkId n) a1 in
        if r \<noteq> 0 then (r, a2)
        else setNwkAddr t 0 a2)"

definition devaddr_size :: "DEVADDR \<Rightarrow> nat" where
  "devaddr_size a =
     (let t = getNetIdType a in
      if t \<ge> 8 then 0 else 2 ^ snd (DEVADDR_TYPE_SIZES_1_1 ! unat t) - 1)"

text \<open>The bit counts index a table of eight entries: beyond it the read is undefined.\<close>

definition getTypePrefixBitsCount :: "u8 \<Rightarrow> u8" where
  "getTypePrefixBitsCount t = t + 1"

definition getNwkIdBitsCount :: "u8 \<Rightarrow> nat option" where
  "getNwkIdBitsCount t =
     (if t < 8 then Some (fst (DEVADDR_TYPE_SIZES_1_1 ! unat t)) else None)"

definition getNwkAddrBitsCount :: "u8 \<Rightarrow> nat option" where
  "getNwkAddrBitsCount t =
     (if t < 8 then Some (snd (DEVADDR_TYPE_SIZES_1_1 ! unat t)) else None)"

section \<open>The bits of an address\<close>

lemma bit_dc: "bit (dc a i) n \<longleftrightarrow> n < 8 \<and> bit a (8 * i + n)"
  by (auto simp: dc_def bit_ucast_iff bit_byte_at dest: bit_imp_le_length)

lemma getNetIdType_bits:
  "getNetIdType a =
     (if \<not> bit a 31 then 0 else if \<not> bit a 30 then 1 else if \<not> bit a 29 then 2
      else if \<not> bit a 28 then 3 else if \<not> bit a 27 then 4 else if \<not> bit a 26 then 5
      else if \<not> bit a 25 then 6 else if \<not> bit a 24 then 7 else 8)"
  by (simp add: getNetIdType_def u8_eq_iff bit_drop_bit_eq bit_byte_at Let_def)

text \<open>The widths of the fields of type \<open>t\<close> and the bounds they give.\<close>

definition nwk_id_bits :: "u8 \<Rightarrow> nat" where
  "nwk_id_bits t = fst (DEVADDR_TYPE_SIZES_1_1 ! unat t)"

definition nwk_addr_bits :: "u8 \<Rightarrow> nat" where
  "nwk_addr_bits t = snd (DEVADDR_TYPE_SIZES_1_1 ! unat t)"

lemmas addr_widths = nwk_id_bits_def nwk_addr_bits_def DEVADDR_TYPE_SIZES_1_1_def
lemmas addr_getters = getNwkId_def getNwkId_1_1_def getNwkAddr_def getNwkAddr_1_1_def Let_def
lemmas id_setters =
  setNwkId_def setNwkId_1_1_def set_nwk_id_checked_def DEVADDR_SET_NWK_ID_def
lemmas addr_setters =
  setNwkAddr_def setNwkAddr_1_1_def set_nwk_addr_checked_def DEVADDR_SET_NWK_ADDR_def

lemma netid_type_cases [consumes 1, case_names 0 1 2 3 4 5 6 7]:
  assumes "t < (8::u8)"
    and "t = 0 \<Longrightarrow> P" "t = 1 \<Longrightarrow> P" "t = 2 \<Longrightarrow> P" "t = 3 \<Longrightarrow> P"
    and "t = 4 \<Longrightarrow> P" "t = 5 \<Longrightarrow> P" "t = 6 \<Longrightarrow> P" "t = 7 \<Longrightarrow> P"
  shows P
proof -
  have "unat t < 8" using assms(1) by (simp add: word_less_nat_alt)
  then have "unat t \<in> {0, 1, 2, 3, 4, 5, 6, 7}" by (rule less_8_cases)
  moreover have "t = of_nat (unat t)" by simp
  ultimately have "t \<in> {0, 1, 2, 3, 4, 5, 6, 7}" by (elim insertE emptyE) simp_all
  with assms(2-) show P by blast
qed

lemma netid_type_split:
  fixes t :: u8
  obtains (0) "t = 0" | (1) "t = 1" | (2) "t = 2" | (3) "t = 3" | (4) "t = 4" | (5) "t = 5"
    | (6) "t = 6" | (7) "t = 7"
    | (invalid) "8 \<le> t" "t \<noteq> 0" "t \<noteq> 1" "t \<noteq> 2" "t \<noteq> 3" "t \<noteq> 4" "t \<noteq> 5" "t \<noteq> 6" "t \<noteq> 7"
proof (cases "t < 8")
  case True
  then show thesis by (cases rule: netid_type_cases) (use that in blast)+
next
  case False
  then show thesis by (intro invalid) (auto simp: word_le_nat_alt word_less_nat_alt)
qed

section \<open>Setters\<close>

lemma setNetIdType_ok:
  "t < 8 \<Longrightarrow> fst (setNetIdType t a) = 0 \<and> getNetIdType (snd (setNetIdType t a)) = t"
  by (erule netid_type_cases)
    (simp_all add: setNetIdType_def getNetIdType_bits bit_set_byte bit_simps)

lemma setNetIdType_error: "t \<ge> 8 \<Longrightarrow> setNetIdType t a = (ERR_CODE_TYPE_OUT_OF_RANGE, a)"
  by (auto simp: setNetIdType_def Let_def word_le_nat_alt)

lemma nwk_widths_lt: "t < 8 \<Longrightarrow> nwk_addr_bits t < 32 \<and> nwk_id_bits t < 32"
  by (erule netid_type_cases) (simp_all add: addr_widths)

text \<open>
  The address setter: it stores the address, and it leaves the type and (types 4 and 5
  apart) the network alone.
\<close>

lemma setNwkAddr_code:
  "t < 8 \<Longrightarrow> fst (setNwkAddr t v a) = (if v < 2 ^ nwk_addr_bits t then 0 else ERR_CODE_ADDR_OUT_OF_RANGE)"
  by (erule netid_type_cases) (simp_all add: addr_setters addr_widths not_le not_less)

lemma setNwkAddr_error:
  "t \<ge> 8 \<or> 2 ^ nwk_addr_bits t \<le> v \<Longrightarrow> setNwkAddr t v a = (ERR_CODE_ADDR_OUT_OF_RANGE, a)"
  by (rule netid_type_split [of t])
    (simp_all add: addr_setters addr_widths word_le_nat_alt split: if_splits)

definition addr_clear :: "u8 \<Rightarrow> u32" where
  "addr_clear t =
     [0xFE000000, 0xFF000000, 0xFFF00000, 0xFFFE0000, 0xFFFF8000, 0xFFFF8000, 0xFFFFFC00,
      0xFFFFFF80] ! unat t"

lemma setNwkAddr_value:
  "t < 8 \<Longrightarrow> v < 2 ^ nwk_addr_bits t \<Longrightarrow> setNwkAddr t v a = (0, (a AND addr_clear t) OR v)"
  by (erule netid_type_cases) (auto simp: addr_setters addr_widths addr_clear_def)

lemma setNwkAddr_type:
  assumes "t < 8" "getNetIdType a = t" "v < 2 ^ nwk_addr_bits t"
  shows "getNetIdType (snd (setNwkAddr t v a)) = t"
proof -
  from nwk_widths_lt assms obtain w where v: "v = take_bit (nwk_addr_bits t) w"
    by (auto elim: take_bit_of_less)
  from assms show ?thesis
    by (cases rule: netid_type_cases)
      (simp_all add: setNwkAddr_value addr_clear_def addr_widths getNetIdType_bits bit_simps v
         split: if_splits)
qed

lemma setNwkAddr_get:
  assumes "t < 8" "getNetIdType a = t" "v < 2 ^ nwk_addr_bits t"
  shows "getNwkAddr (snd (setNwkAddr t v a)) = v"
proof -
  note ty = setNwkAddr_type [OF assms]
  from nwk_widths_lt assms obtain w where v: "v = take_bit (nwk_addr_bits t) w"
    by (auto elim: take_bit_of_less)
  from assms(1) ty assms(3) show ?thesis
    by (cases rule: netid_type_cases)
      (simp_all add: addr_getters, simp_all add: setNwkAddr_value addr_clear_def v addr_widths,
       (rule u32_eqI, simp add: bit_simps bit_dc bit_times_2 flip: numeral_2_eq_2)+)
qed

lemma setNwkAddr_keeps_NwkId:
  assumes "t < 8" "t \<noteq> 4" "t \<noteq> 5" "getNetIdType a = t" "v < 2 ^ nwk_addr_bits t"
  shows "getNwkId (snd (setNwkAddr t v a)) = getNwkId a"
proof -
  note ty = setNwkAddr_type [OF assms(1,4,5)]
  from nwk_widths_lt assms obtain w where v: "v = take_bit (nwk_addr_bits t) w"
    by (auto elim: take_bit_of_less)
  from assms(1) ty assms(2-5) show ?thesis
    by (cases rule: netid_type_cases)
      (simp_all add: addr_getters, simp_all add: setNwkAddr_value addr_clear_def v addr_widths,
       (rule u32_eqI, simp add: bit_simps bit_dc bit_times_2 flip: numeral_2_eq_2)+)
qed

text \<open>The network setter, for the types whose shift and mask agree with the getter.\<close>

definition sound_id_type :: "u8 \<Rightarrow> bool" where
  "sound_id_type t \<longleftrightarrow> t = 0 \<or> t = 1 \<or> t = 2 \<or> t = 6 \<or> t = 7"

lemma setNwkId_code:
  "t < 8 \<Longrightarrow> fst (setNwkId t v a) = (if v < 2 ^ nwk_id_bits t then 0 else ERR_CODE_NWK_OUT_OF_RANGE)"
  by (erule netid_type_cases) (simp_all add: id_setters addr_widths not_le not_less)

lemma setNwkId_error:
  "t \<ge> 8 \<or> 2 ^ nwk_id_bits t \<le> v \<Longrightarrow> setNwkId t v a = (ERR_CODE_NWK_OUT_OF_RANGE, a)"
  by (rule netid_type_split [of t])
    (simp_all add: id_setters addr_widths word_le_nat_alt split: if_splits)

definition id_place :: "u8 \<Rightarrow> u32 \<times> nat" where
  "id_place t =
     [(0x81FFFFFF, 25), (0xC0FFFFFF, 24), (0xE00FFFFF, 20), (0xF001FFFF, 18), (0xF8007FFF, 16),
      (0xFC007FFF, 13), (0xFE0003FF, 10), (0xFF00007F, 7)] ! unat t"

lemma setNwkId_value:
  "t < 8 \<Longrightarrow> v < 2 ^ nwk_id_bits t \<Longrightarrow>
   setNwkId t v a = (0, (a AND fst (id_place t)) OR push_bit (snd (id_place t)) v)"
  by (erule netid_type_cases) (auto simp: id_setters addr_widths id_place_def)

lemma setNwkId_type:
  assumes "sound_id_type t" "getNetIdType a = t" "v < 2 ^ nwk_id_bits t"
  shows "getNetIdType (snd (setNwkId t v a)) = t"
proof -
  have "t < 8" using assms(1) by (auto simp: sound_id_type_def word_less_nat_alt)
  with nwk_widths_lt assms obtain w where v: "v = take_bit (nwk_id_bits t) w"
    by (auto elim: take_bit_of_less)
  from \<open>t < 8\<close> assms show ?thesis
    by (cases rule: netid_type_cases)
      (simp_all add: sound_id_type_def setNwkId_value id_place_def addr_widths getNetIdType_bits bit_simps v
         split: if_splits)
qed

lemma setNwkId_get:
  assumes "sound_id_type t" "getNetIdType a = t" "v < 2 ^ nwk_id_bits t"
  shows "getNwkId (snd (setNwkId t v a)) = v"
proof -
  note ty = setNwkId_type [OF assms]
  have "t < 8" using assms(1) by (auto simp: sound_id_type_def word_less_nat_alt)
  with nwk_widths_lt assms obtain w where v: "v = take_bit (nwk_id_bits t) w"
    by (auto elim: take_bit_of_less)
  from \<open>t < 8\<close> ty assms(1,3) show ?thesis
    by (cases rule: netid_type_cases)
      (simp_all add: sound_id_type_def addr_getters,
       simp_all add: setNwkId_value id_place_def v addr_widths,
       (rule u32_eqI, simp add: bit_simps bit_dc bit_times_2 flip: numeral_2_eq_2)+)
qed

section \<open>Whole addresses\<close>

text \<open>
  The three-part setter: what each of its outcomes leaves behind.  The type is written
  first, so a failing \<open>set\<close> has already changed it.
\<close>

lemma devaddr_set3_ok:
  assumes "sound_id_type t" "i < 2 ^ nwk_id_bits t" "v < 2 ^ nwk_addr_bits t"
  shows "fst (devaddr_set3 t i v a) = 0"
    and "getNetIdType (snd (devaddr_set3 t i v a)) = t"
    and "getNwkId (snd (devaddr_set3 t i v a)) = i"
    and "getNwkAddr (snd (devaddr_set3 t i v a)) = v"
proof -
  have t: "t < 8" "t \<noteq> 4" "t \<noteq> 5"
    using assms(1) by (auto simp: sound_id_type_def word_less_nat_alt)
  define a1 where "a1 = snd (setNetIdType t a)"
  define a2 where "a2 = snd (setNwkId t i a1)"
  have s1: "setNetIdType t a = (0, a1)" "getNetIdType a1 = t"
    using setNetIdType_ok [OF t(1), of a] by (simp_all add: a1_def prod_eq_iff)
  have s2: "setNwkId t i a1 = (0, a2)" "getNetIdType a2 = t" "getNwkId a2 = i"
    using setNwkId_code [OF t(1), of i a1] setNwkId_type setNwkId_get assms s1
    by (simp_all add: a2_def prod_eq_iff)
  have eq: "devaddr_set3 t i v a = setNwkAddr t v a2"
    by (simp add: devaddr_set3_def s1 s2)
  show "fst (devaddr_set3 t i v a) = 0"
    using assms(3) t by (simp add: eq setNwkAddr_code)
  show "getNetIdType (snd (devaddr_set3 t i v a)) = t"
    using setNwkAddr_type [OF t(1) s2(2) assms(3)] by (simp add: eq)
  show "getNwkId (snd (devaddr_set3 t i v a)) = i"
    using setNwkAddr_keeps_NwkId [OF t s2(2) assms(3)] s2(3) by (simp add: eq)
  show "getNwkAddr (snd (devaddr_set3 t i v a)) = v"
    using setNwkAddr_get [OF t(1) s2(2) assms(3)] by (simp add: eq)
qed

lemma devaddr_set3_code:
  "fst (devaddr_set3 t i v a) =
     (if t \<ge> 8 then ERR_CODE_TYPE_OUT_OF_RANGE
      else if 2 ^ nwk_id_bits t \<le> i then ERR_CODE_NWK_OUT_OF_RANGE
      else if 2 ^ nwk_addr_bits t \<le> v then ERR_CODE_ADDR_OUT_OF_RANGE
      else 0)"
  using setNetIdType_ok [of t a] setNwkId_code [of t i "snd (setNetIdType t a)"]
    setNwkAddr_code [of t v "snd (setNwkId t i (snd (setNetIdType t a)))"]
  by (auto simp: devaddr_set3_def setNetIdType_error not_le Let_def split_beta)

text \<open>The address arithmetic.\<close>

lemma getNwkAddr_less:
  assumes "t < 8" "getNetIdType a = t"
  shows "getNwkAddr a < 2 ^ nwk_addr_bits t"
proof -
  have "getNwkAddr a = take_bit (nwk_addr_bits t) a"
    using assms
    by (cases rule: netid_type_cases)
      (simp_all add: addr_getters addr_widths,
       (rule u32_eqI, simp add: bit_simps bit_dc bit_times_2 flip: numeral_2_eq_2)+)
  moreover have "take_bit (nwk_addr_bits t) a < 2 ^ nwk_addr_bits t"
    using nwk_widths_lt [OF assms(1)]
    by (simp add: take_bit_less_exp)
  ultimately show ?thesis by simp
qed

lemma increment_ok:
  assumes "getNetIdType a = t" "t < 8" "t \<noteq> 4" "t \<noteq> 5"
    and "getNwkAddr a + 1 < 2 ^ nwk_addr_bits t"
  shows "fst (increment a) = 0"
    and "getNetIdType (snd (increment a)) = t"
    and "getNwkId (snd (increment a)) = getNwkId a"
    and "getNwkAddr (snd (increment a)) = getNwkAddr a + 1"
  using assms setNwkAddr_code setNwkAddr_type setNwkAddr_get setNwkAddr_keeps_NwkId
  by (simp_all add: increment_def setAddr_def)

lemma decrement_ok:
  assumes "getNetIdType a = t" "t < 8" "t \<noteq> 4" "t \<noteq> 5" and "getNwkAddr a \<noteq> 0"
  shows "fst (decrement a) = 0"
    and "getNetIdType (snd (decrement a)) = t"
    and "getNwkId (snd (decrement a)) = getNwkId a"
    and "getNwkAddr (snd (decrement a)) = getNwkAddr a - 1"
proof -
  have "getNwkAddr a - 1 < 2 ^ nwk_addr_bits t"
    using getNwkAddr_less [OF assms(2,1)] assms(5)
    by (simp add: word_less_nat_alt unat_minus_one)
  then show "fst (decrement a) = 0"
    and "getNetIdType (snd (decrement a)) = t"
    and "getNwkId (snd (decrement a)) = getNwkId a"
    and "getNwkAddr (snd (decrement a)) = getNwkAddr a - 1"
    using assms setNwkAddr_code setNwkAddr_type setNwkAddr_get setNwkAddr_keeps_NwkId
    by (simp_all add: decrement_def setAddr_def)
qed

lemma two_power_addr_bits: "t < 8 \<Longrightarrow> unat ((2::u32) ^ nwk_addr_bits t) = 2 ^ nwk_addr_bits t"
  by (erule netid_type_cases) (simp_all add: addr_widths)

lemma increment_below:
  assumes "getNetIdType a = t" "t < 8" "unat (getNwkAddr a) + 1 < 2 ^ nwk_addr_bits t"
  shows "getNwkAddr a + 1 < 2 ^ nwk_addr_bits t"
    and "unat (getNwkAddr a + 1) = unat (getNwkAddr a) + 1"
proof -
  have "(2::nat) ^ nwk_addr_bits t < 2 ^ 32"
    using nwk_widths_lt [OF assms(2)] power_strict_increasing [of "nwk_addr_bits t" 32 "2::nat"]
    by simp
  with assms(3) have "unat (getNwkAddr a) + 1 < 2 ^ LENGTH(32)" by simp
  then show *: "unat (getNwkAddr a + 1) = unat (getNwkAddr a) + 1"
    by (simp add: unat_word_ariths)
  show "getNwkAddr a + 1 < 2 ^ nwk_addr_bits t"
    using assms two_power_addr_bits by (simp add: word_less_nat_alt *)
qed

lemma increment_at_max:
  assumes "getNetIdType a = t" "t < 8" "getNwkAddr a = getMaxNwkAddr t"
  shows "increment a = (ERR_CODE_ADDR_OUT_OF_RANGE, a)"
proof -
  have "2 ^ nwk_addr_bits t \<le> getNwkAddr a + 1"
    using assms(2) by (cases rule: netid_type_cases)
      (simp_all add: assms(3) addr_widths getMaxNwkAddr_def getMaxNwkAddr_1_1_def)
  with assms show ?thesis by (simp add: increment_def setAddr_def setNwkAddr_error)
qed

definition next_addr :: "DEVADDR \<Rightarrow> DEVADDR" where
  "next_addr a = snd (increment a)"

lemma increment_walk_aux:
  assumes "getNetIdType a = t" "t < 8" "t \<noteq> 4" "t \<noteq> 5"
  shows "unat (getNwkAddr a) + k < 2 ^ nwk_addr_bits t \<Longrightarrow>
    getNetIdType ((next_addr ^^ k) a) = t \<and>
    getNwkId ((next_addr ^^ k) a) = getNwkId a \<and>
    unat (getNwkAddr ((next_addr ^^ k) a)) = unat (getNwkAddr a) + k"
proof (induction k)
  case 0
  with assms show ?case by simp
next
  case (Suc k)
  let ?b = "(next_addr ^^ k) a"
  from Suc have b: "getNetIdType ?b = t" "getNwkId ?b = getNwkId a"
    "unat (getNwkAddr ?b) = unat (getNwkAddr a) + k" by auto
  with Suc.prems have "unat (getNwkAddr ?b) + 1 < 2 ^ nwk_addr_bits t" by simp
  note lt = increment_below [OF b(1) assms(2) this]
  from increment_ok [OF b(1) assms(2-4) lt(1)] b lt(2) show ?case by (simp add: next_addr_def [of ?b])
qed

section \<open>Network identifiers\<close>

lemma NETID2int_or:
  "NETID2int n = ucast (nid_c0 n) OR push_bit 8 (ucast (nid_c1 n)) OR push_bit 16 (ucast (nid_c2 n))"
proof -
  have "ucast (nid_c0 n) + push_bit 8 (ucast (nid_c1 n)) =
      (ucast (nid_c0 n) OR push_bit 8 (ucast (nid_c1 n)) :: u32)"
    by (rule disjunctive_add) (auto simp: bit_simps dest: bit_imp_le_length)
  moreover have "(ucast (nid_c0 n) OR push_bit 8 (ucast (nid_c1 n))) + push_bit 16 (ucast (nid_c2 n)) =
      ((ucast (nid_c0 n) OR push_bit 8 (ucast (nid_c1 n))) OR push_bit 16 (ucast (nid_c2 n)) :: u32)"
    by (rule disjunctive_add) (auto simp: bit_simps dest: bit_imp_le_length)
  ultimately show ?thesis by (simp add: NETID2int_def or.assoc)
qed

lemma NETID2int_int2NETID: "NETID2int (int2NETID v) = take_bit 24 v"
  by (rule u32_eqI) (simp add: NETID2int_or int2NETID_def bit_simps)

lemma int2NETID_NETID2int: "int2NETID (NETID2int n) = n"
proof -
  have "nid_c0 (int2NETID (NETID2int n)) = nid_c0 n" "nid_c1 (int2NETID (NETID2int n)) = nid_c1 n"
    "nid_c2 (int2NETID (NETID2int n)) = nid_c2 n"
    by (simp_all add: u8_eq_iff NETID2int_or int2NETID_def bit_simps)
  then show ?thesis by simp
qed

lemma netid_getType_less: "netid_getType n < 8"
proof -
  have "unat (drop_bit 5 (nid_c2 n)) = unat (nid_c2 n) div 32"
    by (simp add: drop_bit_eq_div unat_div)
  then show ?thesis
    using unsigned_less [of "nid_c2 n", where 'a = nat] by (simp add: netid_getType_def word_less_nat_alt)
qed

lemma netid_setType_type: "v < 8 \<Longrightarrow> netid_getType (netid_setType v n) = v"
  by (erule netid_type_cases)
    (simp_all add: netid_getType_def netid_setType_def u8_eq_iff bit_simps)

lemma netid_setType_int:
  "NETID2int (netid_setType v n) = (NETID2int n AND 0x1fffff) OR push_bit 21 (ucast v AND 7)"
  by (rule u32_eqI) (simp add: NETID2int_or netid_setType_def bit_simps)

definition netid_value_bits :: "u8 \<Rightarrow> nat" where
  "netid_value_bits t = (if t = 0 \<or> t = 1 then 6 else if t = 2 then 9 else 21)"

lemma netid_set_code:
  "fst (netid_set t v n) =
     (if t > 7 then ERR_CODE_NETTYPE_OUT_OF_RANGE
      else if v < 2 ^ netid_value_bits t then 0 else ERR_CODE_NETID_OUT_OF_RANGE)"
  by (rule netid_type_split [of t])
    (auto simp: netid_set_def netid_value_bits_def not_le word_le_nat_alt word_less_nat_alt)

lemma netid_set_value:
  "t < 8 \<Longrightarrow> v < 2 ^ netid_value_bits t \<Longrightarrow> netid_set t v n = (0, netid_setType t (int2NETID v))"
  by (erule netid_type_cases) (auto simp: netid_set_def netid_value_bits_def)

text \<open>
  The three layouts that do not round-trip.  Type 3 stores the network one bit too high,
  type 4 reads its last network bit out of the address, type 5 keeps two stale or cleared bits.
\<close>

lemma devaddr_set3_value:
  assumes "t < 8" "i < 2 ^ nwk_id_bits t" "v < 2 ^ nwk_addr_bits t"
  shows "devaddr_set3 t i v a =
    (0, ((snd (setNetIdType t a) AND fst (id_place t)) OR push_bit (snd (id_place t)) i)
        AND addr_clear t OR v)"
proof -
  obtain a1 where "setNetIdType t a = (0, a1)"
    using setNetIdType_ok [OF assms(1), of a] by (cases "setNetIdType t a") auto
  with assms show ?thesis by (simp add: devaddr_set3_def setNwkId_value setNwkAddr_value)
qed

lemma type3_NwkId_doubled:
  assumes "i < 0x400" "v < 0x20000"
  shows "getNwkId (snd (devaddr_set3 3 i v a)) = 2 * i"
proof -
  from assms obtain i' v' where iv: "i = take_bit 10 i'" "v = take_bit 17 v'"
    using take_bit_of_less [of i 10 thesis] take_bit_of_less [of v 17 thesis] by auto
  have "i < 0x800" using assms(1) by (rule less_trans) simp
  with assms have "i < 2 ^ nwk_id_bits 3" "v < 2 ^ nwk_addr_bits 3"
    by (simp_all add: addr_widths)
  then show ?thesis
    by (simp add: devaddr_set3_value id_place_def addr_clear_def setNetIdType_def)
      (simp add: addr_getters getNetIdType_bits bit_set_byte iv bit_simps,
       rule u32_eqI, simp add: bit_simps bit_dc bit_set_byte)
qed

lemma type4_increment_changes_network:
  assumes "getNetIdType a = 4" "getNwkAddr a = 0x7f"
  shows "fst (increment a) = 0" "getNwkId (snd (increment a)) = getNwkId a OR 1"
    "\<not> bit (getNwkId a) 0"
proof -
  have lt: "getNwkAddr a + 1 < 2 ^ nwk_addr_bits 4" by (simp add: assms(2) addr_widths)
  have inc: "increment a = (0, (a AND 0xFFFF8000) OR 0x80)"
    using assms lt by (simp add: increment_def setAddr_def setNwkAddr_value addr_clear_def)
  then show "fst (increment a) = 0" by simp
  have "bit (getNwkAddr a) 7 = bit (0x7f :: u32) 7" using assms(2) by simp
  then have b7: "\<not> bit a 7" using assms(1) by (simp add: addr_getters bit_simps bit_dc)
  then show "\<not> bit (getNwkId a) 0"
    using assms(1) by (simp add: addr_getters bit_simps bit_dc bit_times_2)
  have "getNetIdType ((a AND 0xFFFF8000) OR 0x80) = 4"
    using setNwkAddr_type [of 4 a "getNwkAddr a + 1"] assms lt inc
    by (simp add: increment_def setAddr_def)
  then show "getNwkId (snd (increment a)) = getNwkId a OR 1"
    using assms(1) b7 unfolding inc
    by (simp add: addr_getters)
      (rule u32_eqI, simp add: bit_simps bit_dc bit_times_2 flip: numeral_2_eq_2)
qed

lemma type5_NwkId_truncated:
  assumes "i < 0x2000" "v < 0x2000"
  shows "getNwkId (snd (devaddr_set3 5 i v a)) = i AND NOT 3"
proof -
  from assms obtain i' v' where iv: "i = take_bit 13 i'" "v = take_bit 13 v'"
    using take_bit_of_less [of i 13 thesis] take_bit_of_less [of v 13 thesis] by auto
  from assms have "i < 2 ^ nwk_id_bits 5" "v < 2 ^ nwk_addr_bits 5"
    by (simp_all add: addr_widths)
  then show ?thesis
    by (simp add: devaddr_set3_value id_place_def addr_clear_def setNetIdType_def)
      (simp add: addr_getters getNetIdType_bits bit_set_byte iv bit_simps,
       rule u32_eqI, simp add: bit_simps bit_dc bit_set_byte flip: numeral_2_eq_2)
qed

text \<open>The number of addresses after the first, by the table and by the limits.\<close>

lemma devaddr_size_max:
  "getNetIdType a < 8 \<Longrightarrow> devaddr_size a = unat (getMaxNwkAddr (getNetIdType a))"
  by (erule netid_type_cases)
    (simp_all add: devaddr_size_def DEVADDR_TYPE_SIZES_1_1_def getMaxNwkAddr_def getMaxNwkAddr_1_1_def
      word_le_nat_alt)

section \<open>Properties\<close>

text \<open>C15: an address assembled from an in-range type, network and address part (types 0, 1, 2,
  6 and 7) reports success and reads back exactly those parts, whatever the object held before.\<close>

theorem devaddr_set_roundtrip:
  assumes "sound_id_type t" "i < 2 ^ nwk_id_bits t" "v < 2 ^ nwk_addr_bits t"
  shows "fst (devaddr_set3 t i v a) = 0 \<and>
    getNetIdType (snd (devaddr_set3 t i v a)) = t \<and>
    getNwkId (snd (devaddr_set3 t i v a)) = i \<and>
    getNwkAddr (snd (devaddr_set3 t i v a)) = v"
  using devaddr_set3_ok [OF assms] by simp

theorem devaddr_set_roundtrip_witness:
  "fst (devaddr_set3 6 0x1234 0x155 0xffffffff) = 0 \<and>
   getNetIdType (snd (devaddr_set3 6 0x1234 0x155 0xffffffff)) = 6 \<and>
   getNwkId (snd (devaddr_set3 6 0x1234 0x155 0xffffffff)) = 0x1234 \<and>
   getNwkAddr (snd (devaddr_set3 6 0x1234 0x155 0xffffffff)) = 0x155"
  by (rule devaddr_set_roundtrip) (simp_all add: sound_id_type_def addr_widths)

text \<open>the code of the three-part setter on every input: the type, the network and the
  address are checked in this order, each against the width of the type's field.\<close>

theorem devaddr_set_codes:
  "fst (devaddr_set3 t i v a) =
     (if t \<ge> 8 then ERR_CODE_TYPE_OUT_OF_RANGE
      else if 2 ^ nwk_id_bits t \<le> i then ERR_CODE_NWK_OUT_OF_RANGE
      else if 2 ^ nwk_addr_bits t \<le> v then ERR_CODE_ADDR_OUT_OF_RANGE
      else 0)"
  by (rule devaddr_set3_code)

text \<open>C16: stepping an address \<open>k\<close> times inside its block (types other than 4 and 5) visits
  the \<open>k\<close>-th following address of the same network and type.\<close>

theorem increment_walk:
  assumes "getNetIdType a = t" "t < 8" "t \<noteq> 4" "t \<noteq> 5"
    and "unat (getNwkAddr a) + k < 2 ^ nwk_addr_bits t"
  shows "getNetIdType ((next_addr ^^ k) a) = t \<and>
    getNwkId ((next_addr ^^ k) a) = getNwkId a \<and>
    unat (getNwkAddr ((next_addr ^^ k) a)) = unat (getNwkAddr a) + k"
  by (rule increment_walk_aux [OF assms])

theorem increment_walk_witness:
  "getNetIdType ((next_addr ^^ 3) 0xfc001234) = 6 \<and>
   getNwkId ((next_addr ^^ 3) 0xfc001234) = getNwkId 0xfc001234 \<and>
   unat (getNwkAddr ((next_addr ^^ 3) 0xfc001234)) = unat (getNwkAddr 0xfc001234) + 3"
proof (rule increment_walk)
  show ty: "getNetIdType 0xfc001234 = 6" by (simp add: getNetIdType_bits)
  show "unat (getNwkAddr 0xfc001234) + 3 < 2 ^ nwk_addr_bits 6"
    by (simp add: addr_getters ty addr_widths dc_def byte_at_def)
qed simp_all

text \<open>the last address of a block does not step: the object is kept and the code says so.\<close>

theorem increment_stops_at_max:
  assumes "getNetIdType a < 8" "getNwkAddr a = getMaxNwkAddr (getNetIdType a)"
  shows "increment a = (ERR_CODE_ADDR_OUT_OF_RANGE, a)"
  by (rule increment_at_max [OF refl assms])

theorem increment_stops_at_max_witness:
  "increment 0xfe00007f = (ERR_CODE_ADDR_OUT_OF_RANGE, 0xfe00007f)"
proof (rule increment_stops_at_max)
  show "getNetIdType 0xfe00007f < 8" by (simp add: getNetIdType_bits)
  show "getNwkAddr 0xfe00007f = getMaxNwkAddr (getNetIdType 0xfe00007f)"
    by (simp add: addr_getters getNetIdType_bits getMaxNwkAddr_def getMaxNwkAddr_1_1_def
        dc_def byte_at_def)
qed

text \<open>the type 3, 4 and 5 layouts break the round trip: the network reads back doubled
  (type 3) or with its two low bits lost (type 5).\<close>

theorem devaddr_broken_types:
  assumes "i < 0x400" "v < 0x2000"
  shows "getNwkId (snd (devaddr_set3 3 i v a)) = 2 * i \<and>
    getNwkId (snd (devaddr_set3 5 i v a)) = i AND NOT 3"
proof -
  have "i < 0x2000" using assms(1) by (rule less_trans) simp
  moreover have "v < 0x20000" using assms(2) by (rule less_trans) simp
  ultimately show ?thesis using assms by (simp add: type3_NwkId_doubled type5_NwkId_truncated)
qed

theorem devaddr_broken_types_witness:
  "getNwkId (snd (devaddr_set3 3 5 1 0)) = 2 * 5 \<and>
   getNwkId (snd (devaddr_set3 5 5 1 0)) = 5 AND NOT 3"
  by (rule devaddr_broken_types) simp_all

text \<open>stepping a type 4 address from 0x7f to 0x80 succeeds and changes its network, since
  the getter reads the network's last bit from the lowest address byte.\<close>

theorem type4_step_changes_network:
  assumes "getNetIdType a = 4" "getNwkAddr a = 0x7f"
  shows "fst (increment a) = 0 \<and> getNwkId (snd (increment a)) = getNwkId a OR 1 \<and>
    getNwkId (snd (increment a)) \<noteq> getNwkId a"
  using type4_increment_changes_network [OF assms] by (metis bit_or_iff bit_1_0)

theorem type4_step_changes_network_witness:
  "fst (increment 0xf000007f) = 0 \<and>
   getNwkId (snd (increment 0xf000007f)) = getNwkId 0xf000007f OR 1 \<and>
   getNwkId (snd (increment 0xf000007f)) \<noteq> getNwkId 0xf000007f"
proof (rule type4_step_changes_network)
  show ty: "getNetIdType 0xf000007f = 4" by (simp add: getNetIdType_bits)
  show "getNwkAddr 0xf000007f = 0x7f" by (simp add: addr_getters ty dc_def byte_at_def)
qed

text \<open>a network identifier set from an in-range type and value succeeds, and gives both
  back through \<open>getType\<close> and \<open>getNetId\<close>.\<close>

theorem netid_set_roundtrip:
  assumes "t < 8" "v < 2 ^ netid_value_bits t"
  shows "fst (netid_set t v n) = 0 \<and> netid_getType (snd (netid_set t v n)) = t \<and>
    netid_getNetId (snd (netid_set t v n)) = v"
proof -
  have "netid_value_bits t < 32" by (simp add: netid_value_bits_def)
  with assms obtain w where v: "v = take_bit (netid_value_bits t) w"
    by (auto elim: take_bit_of_less)
  have ty: "netid_getType (netid_setType t (int2NETID v)) = t"
    using assms(1) by (rule netid_setType_type)
  have "netid_getNetId (netid_setType t (int2NETID v)) = v"
    using assms(1) ty by (cases rule: netid_type_cases)
      (simp_all add: netid_getNetId_def netid_getTypeMask_def netid_setType_int
         NETID2int_int2NETID v netid_value_bits_def, (rule u32_eqI, simp add: bit_simps)+)
  with ty show ?thesis by (simp add: netid_set_value [OF assms])
qed

theorem netid_set_roundtrip_witness:
  "fst (netid_set 3 0x12345 (int2NETID 0)) = 0 \<and>
   netid_getType (snd (netid_set 3 0x12345 (int2NETID 0))) = 3 \<and>
   netid_getNetId (snd (netid_set 3 0x12345 (int2NETID 0))) = 0x12345"
  by (rule netid_set_roundtrip) (simp_all add: netid_value_bits_def)

end
