(* ===== verification/Lora_Types.thy ===== *)
theory Lora_Types
  imports Dev_Addr
begin

text \<open>
  The plain types of \<open>lorawan/lorawan-types.h\<close>, \<open>.cpp\<close> and their conversions in
  \<open>lorawan/lorawan-conv.cpp\<close>: keys, nonces, names, versions, MAC headers, join frames and their
  orderings, data rates, and the reads of a radio packet buffer.  Keys, three-byte nonces and
  names are byte lists of fixed length; the unions of an integer with its bytes are words.
\<close>

section \<open>Byte order\<close>

text \<open>
  \<open>NTOH2\<close>, \<open>NTOH4\<close>, \<open>NTOH8\<close> swap the bytes on the little-endian target.
\<close>

definition NTOH2 :: "u16 \<Rightarrow> u16" where
  "NTOH2 v = from_le (rev (le_bytes 2 v))"

definition NTOH4 :: "u32 \<Rightarrow> u32" where
  "NTOH4 v = from_le (rev (le_bytes 4 v))"

definition NTOH8 :: "u64 \<Rightarrow> u64" where
  "NTOH8 v = from_le (rev (le_bytes 8 v))"

lemma NTOH_twice: "NTOH2 (NTOH2 a) = a" "NTOH4 (NTOH4 b) = b" "NTOH8 (NTOH8 c) = c"
  by (simp_all add: NTOH2_def NTOH4_def NTOH8_def le_bytes_from_le from_le_le_bytes)

section \<open>Keys\<close>

type_synonym KEY128 = bytes

definition wf_KEY128 :: "KEY128 \<Rightarrow> bool" where
  "wf_KEY128 k \<longleftrightarrow> length k = 16"

definition KEY128_zero :: KEY128 where
  "KEY128_zero = replicate 16 0"

definition KEY128_hi_lo :: "u64 \<Rightarrow> u64 \<Rightarrow> KEY128" where
  "KEY128_hi_lo hi lo = le_bytes 8 (NTOH8 hi) @ le_bytes 8 (NTOH8 lo)"

definition KEY128_eq :: "KEY128 \<Rightarrow> KEY128 \<Rightarrow> bool" where
  "KEY128_eq a b \<longleftrightarrow> memcmp a b = 0"

definition KEY128_less :: "KEY128 \<Rightarrow> KEY128 \<Rightarrow> bool" where
  "KEY128_less a b \<longleftrightarrow> memcmp a b < 0"

definition KEY128_greater :: "KEY128 \<Rightarrow> KEY128 \<Rightarrow> bool" where
  "KEY128_greater a b \<longleftrightarrow> memcmp a b > 0"

definition KEY128_neq :: "KEY128 \<Rightarrow> KEY128 \<Rightarrow> bool" where
  "KEY128_neq a b \<longleftrightarrow> memcmp b a \<noteq> 0"

section \<open>Identifiers, nonces, names, versions\<close>

type_synonym DEVEUI = u64
type_synonym JOINNONCE = bytes
type_synonym APPNONCE = bytes
type_synonym DEVNONCE = u16
type_synonym DEVICENAME = bytes

definition isDEVADDREmpty :: "DEVADDR \<Rightarrow> bool" where
  "isDEVADDREmpty a \<longleftrightarrow> a = 0"

definition isDEVEUIEmpty :: "DEVEUI \<Rightarrow> bool" where
  "isDEVEUIEmpty e \<longleftrightarrow> e = 0"

definition DEVADDR2int :: "DEVADDR \<Rightarrow> u32" where
  "DEVADDR2int a = NTOH4 a"

definition int2DEVADDR :: "u32 \<Rightarrow> DEVADDR" where
  "int2DEVADDR v = v"

text \<open>\<open>int2JOINNONCE\<close> swaps the four bytes and keeps the three low ones of the result.\<close>

definition int2JOINNONCE :: "u32 \<Rightarrow> JOINNONCE" where
  "int2JOINNONCE value =
     (let r = NTOH4 value in
      [ucast (r AND 0xff), ucast (drop_bit 8 r AND 0xff), ucast (drop_bit 16 r AND 0xff)])"

definition int2APPNONCE :: "u32 \<Rightarrow> APPNONCE" where
  "int2APPNONCE value =
     (let r = NTOH4 value in
      [ucast (r AND 0xff), ucast (drop_bit 8 r AND 0xff), ucast (drop_bit 16 r AND 0xff)])"

definition JOINNONCE2int :: "JOINNONCE \<Rightarrow> u32" where
  "JOINNONCE2int v = ucast (v ! 0) + push_bit 8 (ucast (v ! 1)) + push_bit 16 (ucast (v ! 2))"

definition FREQUENCY2int :: "bytes \<Rightarrow> u32" where
  "FREQUENCY2int v = ucast (v ! 0) + push_bit 8 (ucast (v ! 1)) + push_bit 16 (ucast (v ! 2))"

text \<open>
  \<open>DEVICENAME(const std::string &)\<close> copies at most eight bytes and stops at a NUL, after
  which \<open>strncpy\<close> pads up to its own count; the bytes beyond keep what the object held.
  The \<open>const char *\<close> constructor clears the rest.
\<close>

definition c_str :: "bytes \<Rightarrow> bytes" where
  "c_str s = takeWhile (\<lambda>b. b \<noteq> 0) s"

definition strncpy :: "bytes \<Rightarrow> bytes \<Rightarrow> nat \<Rightarrow> bytes" where
  "strncpy dest s n =
     (let t = take n (c_str s) in mem_write dest 0 (t @ replicate (n - length t) 0))"

definition DEVICENAME_string :: "bytes \<Rightarrow> DEVICENAME \<Rightarrow> DEVICENAME" where
  "DEVICENAME_string value obj =
     (let sz = (if length value > 8 then 8 else length value) in strncpy obj value sz)"

definition DEVICENAME_cstr :: "bytes \<Rightarrow> DEVICENAME \<Rightarrow> DEVICENAME" where
  "DEVICENAME_cstr value obj =
     (let sz = min 8 (length (c_str value)); c = strncpy obj value sz in
      if sz < 8 then mem_write c sz (replicate (8 - sz) 0) else c)"

definition string2DEVICENAME :: "bytes \<Rightarrow> DEVICENAME \<Rightarrow> DEVICENAME" where
  "string2DEVICENAME str obj = strncpy obj str 8"

definition DEVICENAME2string :: "DEVICENAME \<Rightarrow> bytes" where
  "DEVICENAME2string n = take 8 (c_str n)"

definition DEVICENAME_empty :: "DEVICENAME \<Rightarrow> bool" where
  "DEVICENAME_empty n \<longleftrightarrow> n ! 0 = 0"

text \<open>\<open>LORAWAN_VERSION\<close>: major in bits 0-1, minor in bits 2-3, release in bits 4-7.\<close>

type_synonym LORAWAN_VERSION = u8

definition LORAWAN_VERSION_default :: LORAWAN_VERSION where
  "LORAWAN_VERSION_default = 1"

definition LORAWAN_VERSION_make :: "u8 \<Rightarrow> u8 \<Rightarrow> u8 \<Rightarrow> LORAWAN_VERSION" where
  "LORAWAN_VERSION_make amajor aminor arelease =
     take_bit 2 amajor OR push_bit 2 (take_bit 2 aminor) OR push_bit 4 arelease"

definition version_major :: "LORAWAN_VERSION \<Rightarrow> u8" where
  "version_major c = take_bit 2 c"

definition version_minor :: "LORAWAN_VERSION \<Rightarrow> u8" where
  "version_minor c = take_bit 2 (drop_bit 2 c)"

definition version_release :: "LORAWAN_VERSION \<Rightarrow> u8" where
  "version_release c = drop_bit 4 c"

definition version_set_major :: "u8 \<Rightarrow> LORAWAN_VERSION \<Rightarrow> LORAWAN_VERSION" where
  "version_set_major m c = (c AND 0xfc) OR take_bit 2 m"

section \<open>MAC headers\<close>

text \<open>\<open>MHDR\<close>: major in bits 0-1, RFU in bits 2-4, the message type in bits 5-7.\<close>

type_synonym MHDR = u8

definition mhdr_major :: "MHDR \<Rightarrow> u8" where
  "mhdr_major h = take_bit 2 h"

definition mhdr_rfu :: "MHDR \<Rightarrow> u8" where
  "mhdr_rfu h = take_bit 3 (drop_bit 2 h)"

definition mhdr_mtype :: "MHDR \<Rightarrow> u8" where
  "mhdr_mtype h = drop_bit 5 h"

definition mhdr_set_mtype :: "u8 \<Rightarrow> MHDR \<Rightarrow> MHDR" where
  "mhdr_set_mtype t h = (h AND 0x1f) OR push_bit 5 t"

abbreviation (input) MTYPE_JOIN_REQUEST :: u8 where "MTYPE_JOIN_REQUEST \<equiv> 0"
abbreviation (input) MTYPE_JOIN_ACCEPT :: u8 where "MTYPE_JOIN_ACCEPT \<equiv> 1"
abbreviation (input) MTYPE_UNCONFIRMED_DATA_UP :: u8 where "MTYPE_UNCONFIRMED_DATA_UP \<equiv> 2"
abbreviation (input) MTYPE_UNCONFIRMED_DATA_DOWN :: u8 where "MTYPE_UNCONFIRMED_DATA_DOWN \<equiv> 3"
abbreviation (input) MTYPE_CONFIRMED_DATA_UP :: u8 where "MTYPE_CONFIRMED_DATA_UP \<equiv> 4"
abbreviation (input) MTYPE_CONFIRMED_DATA_DOWN :: u8 where "MTYPE_CONFIRMED_DATA_DOWN \<equiv> 5"
abbreviation (input) MTYPE_REJOIN_REQUEST :: u8 where "MTYPE_REJOIN_REQUEST \<equiv> 6"
abbreviation (input) MTYPE_PROPRIETARYRADIO :: u8 where "MTYPE_PROPRIETARYRADIO \<equiv> 7"

text \<open>\<open>FHDR\<close>: device address, frame control byte, frame counter.\<close>

record FHDR =
  devaddr :: DEVADDR
  fctrl :: u8
  fcnt :: u16

definition foptslen :: "u8 \<Rightarrow> u8" where
  "foptslen c = take_bit 4 c"

definition set_foptslen :: "u8 \<Rightarrow> u8 \<Rightarrow> u8" where
  "set_foptslen n c = (c AND 0xf0) OR take_bit 4 n"

definition fctrl_ack :: "u8 \<Rightarrow> bool" where
  "fctrl_ack c = bit c 5"

definition set_fctrl_ack :: "bool \<Rightarrow> u8 \<Rightarrow> u8" where
  "set_fctrl_ack b c = (c AND 0xdf) OR (if b then 0x20 else 0)"

definition fctrl_adr :: "u8 \<Rightarrow> bool" where
  "fctrl_adr c = bit c 7"

section \<open>Reads of a radio packet buffer\<close>

text \<open>
  A buffer of \<open>size\<close> bytes starts with the 8-byte \<open>RFM_HEADER\<close>: MHDR, address, frame control
  (byte 5), counter.  A \<open>None\<close> from \<open>hasPayload\<close> is the null pointer, \<open>Some k\<close> the pointer
  \<open>value + k\<close>.
\<close>

definition SIZE_RFM_HEADER :: nat where "SIZE_RFM_HEADER = 8"
definition SIZE_FPORT :: nat where "SIZE_FPORT = 1"
definition SIZE_MIC :: nat where "SIZE_MIC = 4"

definition rfm_foptslen :: "bytes \<Rightarrow> nat" where
  "rfm_foptslen value = unat (foptslen (value ! 5))"

definition hasFPort :: "bytes option \<Rightarrow> nat \<Rightarrow> int option" where
  "hasFPort value n =
     (case value of
        None \<Rightarrow> Some (- 1)
      | Some b \<Rightarrow>
          if n \<le> SIZE_RFM_HEADER then Some (- 1)
          else if n < SIZE_RFM_HEADER + rfm_foptslen b then Some (- 1)
          else if SIZE_RFM_HEADER + rfm_foptslen b < length b
            then Some (uint (b ! (SIZE_RFM_HEADER + rfm_foptslen b)))
          else None)"

definition hasPayload :: "bytes option \<Rightarrow> nat \<Rightarrow> nat option" where
  "hasPayload value n =
     (case value of
        None \<Rightarrow> None
      | Some b \<Rightarrow>
          if n \<le> SIZE_RFM_HEADER then None
          else if n \<ge> SIZE_RFM_HEADER + rfm_foptslen b + SIZE_FPORT + SIZE_MIC
            then Some (SIZE_RFM_HEADER + rfm_foptslen b + SIZE_FPORT)
          else None)"

text \<open>The subtraction is on \<open>size_t\<close>: it wraps for sizes 9 to 12.\<close>

definition payloadSize :: "bytes option \<Rightarrow> u64 \<Rightarrow> u8" where
  "payloadSize value n =
     (case value of
        None \<Rightarrow> 0
      | Some b \<Rightarrow>
          if n \<le> 8 then 0
          else let sz = n - 8 - 1 - 4 in if sz > 0 then ucast sz else 0)"

definition getFPort :: "bytes \<Rightarrow> u8" where
  "getFPort value = value ! (SIZE_RFM_HEADER + rfm_foptslen value)"

section \<open>Join frames\<close>

record JOIN_REQUEST_FRAME =
  joinEUI :: DEVEUI
  jr_devEUI :: DEVEUI
  jr_devNonce :: DEVNONCE

definition JOIN_REQUEST_eq :: "JOIN_REQUEST_FRAME \<Rightarrow> JOIN_REQUEST_FRAME \<Rightarrow> bool" where
  "JOIN_REQUEST_eq a b \<longleftrightarrow> joinEUI b = joinEUI a \<and> jr_devEUI b = jr_devEUI a"

definition JOIN_REQUEST_less :: "JOIN_REQUEST_FRAME \<Rightarrow> JOIN_REQUEST_FRAME \<Rightarrow> bool" where
  "JOIN_REQUEST_less a b =
     (if joinEUI a < joinEUI b then True
      else if joinEUI a = joinEUI b then
        (if jr_devEUI a < jr_devEUI b then True
         else if jr_devEUI a = jr_devEUI b then jr_devNonce a < jr_devNonce b
         else False)
      else False)"

definition JOIN_REQUEST_greater :: "JOIN_REQUEST_FRAME \<Rightarrow> JOIN_REQUEST_FRAME \<Rightarrow> bool" where
  "JOIN_REQUEST_greater a b =
     (if joinEUI a > joinEUI b then True
      else if joinEUI a = joinEUI b then
        (if jr_devEUI a > jr_devEUI b then True
         else if jr_devEUI a = jr_devEUI b then jr_devNonce a > jr_devNonce b
         else False)
      else False)"

definition JOIN_REQUEST_le :: "JOIN_REQUEST_FRAME \<Rightarrow> JOIN_REQUEST_FRAME \<Rightarrow> bool" where
  "JOIN_REQUEST_le a b =
     (if joinEUI a \<le> joinEUI b then True
      else if joinEUI a = joinEUI b then
        (if jr_devEUI a \<le> jr_devEUI b then True
         else if jr_devEUI a = jr_devEUI b then jr_devNonce a \<le> jr_devNonce b
         else False)
      else False)"

definition JOIN_REQUEST_ge :: "JOIN_REQUEST_FRAME \<Rightarrow> JOIN_REQUEST_FRAME \<Rightarrow> bool" where
  "JOIN_REQUEST_ge a b =
     (if joinEUI a \<ge> joinEUI b then True
      else if joinEUI a = joinEUI b then
        (if jr_devEUI a \<ge> jr_devEUI b then True
         else if jr_devEUI a = jr_devEUI b then jr_devNonce a \<ge> jr_devNonce b
         else False)
      else False)"

definition JOIN_REQUEST_neq :: "JOIN_REQUEST_FRAME \<Rightarrow> JOIN_REQUEST_FRAME \<Rightarrow> bool" where
  "JOIN_REQUEST_neq a b \<longleftrightarrow>
     joinEUI a \<noteq> joinEUI b \<or> jr_devEUI a \<noteq> jr_devEUI b \<or> jr_devNonce a \<noteq> jr_devNonce b"

text \<open>\<open>JOIN_ACCEPT_FRAME_HEADER\<close> (12 bytes) and the frame with its integrity code.\<close>

record JOIN_ACCEPT_FRAME_HEADER =
  ja_joinNonce :: JOINNONCE
  ja_netId :: NETID
  ja_devAddr :: DEVADDR
  ja_dlSettings :: u8
  ja_rxDelay :: u8

record JOIN_ACCEPT_FRAME =
  ja_hdr :: JOIN_ACCEPT_FRAME_HEADER
  ja_mic :: u32

definition netid_bytes :: "NETID \<Rightarrow> bytes" where
  "netid_bytes n = [nid_c0 n, nid_c1 n, nid_c2 n]"

definition join_accept_header_bytes :: "JOIN_ACCEPT_FRAME_HEADER \<Rightarrow> bytes" where
  "join_accept_header_bytes h =
     ja_joinNonce h @ netid_bytes (ja_netId h) @ le_bytes 4 (ja_devAddr h) @
     [ja_dlSettings h, ja_rxDelay h]"

definition join_accept_bytes :: "JOIN_ACCEPT_FRAME \<Rightarrow> bytes" where
  "join_accept_bytes f = join_accept_header_bytes (ja_hdr f) @ le_bytes 4 (ja_mic f)"

definition JOIN_ACCEPT_eq :: "JOIN_ACCEPT_FRAME \<Rightarrow> JOIN_ACCEPT_FRAME \<Rightarrow> bool" where
  "JOIN_ACCEPT_eq a b \<longleftrightarrow> memcmp (join_accept_bytes a) (join_accept_bytes b) = 0"

definition DLSETTINGS_RX2DataRate :: "u8 \<Rightarrow> u8" where
  "DLSETTINGS_RX2DataRate c = take_bit 4 c"

definition DLSETTINGS_RX1DROffset :: "u8 \<Rightarrow> u8" where
  "DLSETTINGS_RX1DROffset c = take_bit 3 (drop_bit 4 c)"

definition DLSETTINGS_optNeg :: "u8 \<Rightarrow> bool" where
  "DLSETTINGS_optNeg c = bit c 7"

section \<open>Profile identifiers and data rates\<close>

type_synonym PROFILEID = u32

definition PROFILEID_default :: PROFILEID where
  "PROFILEID_default = 0xffff0000"

text \<open>The enumerations, as the numbers they are stored as.\<close>

abbreviation (input) "BW_7 \<equiv> 0 :: u32"
abbreviation (input) "BW_10 \<equiv> 1 :: u32"
abbreviation (input) "BW_15 \<equiv> 2 :: u32"
abbreviation (input) "BW_20 \<equiv> 3 :: u32"
abbreviation (input) "BW_31 \<equiv> 4 :: u32"
abbreviation (input) "BW_41 \<equiv> 5 :: u32"
abbreviation (input) "BW_62 \<equiv> 6 :: u32"
abbreviation (input) "BW_125 \<equiv> 7 :: u32"
abbreviation (input) "BW_250 \<equiv> 8 :: u32"
abbreviation (input) "BW_500 \<equiv> 9 :: u32"

abbreviation (input) "SF5 \<equiv> 5 :: u32"
abbreviation (input) "SF11 \<equiv> 11 :: u32"

abbreviation (input) "CR_OFF \<equiv> 0 :: u32"
abbreviation (input) "CR_4_5 \<equiv> 1 :: u32"
abbreviation (input) "CR_4_6 \<equiv> 2 :: u32"
abbreviation (input) "CR_4_7 \<equiv> 3 :: u32"
abbreviation (input) "CR_4_8 \<equiv> 4 :: u32"
abbreviation (input) "CR_LI_4_5 \<equiv> 5 :: u32"
abbreviation (input) "CR_LI_4_6 \<equiv> 6 :: u32"
abbreviation (input) "CR_LI_4_8 \<equiv> 7 :: u32"

abbreviation (input) "MOD_UNDEFINED \<equiv> 0 :: u32"
abbreviation (input) "MOD_LORA \<equiv> 0x10 :: u32"
abbreviation (input) "MOD_FSK \<equiv> 0x20 :: u32"

record DATA_RATE =
  dr_uplink :: bool
  dr_downlink :: bool
  dr_modulation :: u32
  dr_bandwidth :: u32
  dr_spreadingFactor :: u32
  dr_bps :: u32

definition DataRate_default :: DATA_RATE where
  "DataRate_default =
     \<lparr> dr_uplink = True, dr_downlink = True, dr_modulation = MOD_LORA,
       dr_bandwidth = BW_125, dr_spreadingFactor = SF11, dr_bps = 0 \<rparr>"

definition DataRate_lora :: "u32 \<Rightarrow> u32 \<Rightarrow> DATA_RATE" where
  "DataRate_lora aBandwidth aSpreadingFactor =
     \<lparr> dr_uplink = True, dr_downlink = True, dr_modulation = MOD_LORA,
       dr_bandwidth = aBandwidth, dr_spreadingFactor = aSpreadingFactor, dr_bps = 0 \<rparr>"

definition DataRate_fsk :: "u32 \<Rightarrow> DATA_RATE" where
  "DataRate_fsk aBps =
     \<lparr> dr_uplink = True, dr_downlink = True, dr_modulation = MOD_FSK,
       dr_bandwidth = BW_125, dr_spreadingFactor = SF5, dr_bps = aBps \<rparr>"

definition setLora :: "u32 \<Rightarrow> u32 \<Rightarrow> DATA_RATE \<Rightarrow> DATA_RATE" where
  "setLora aBandwidth aSpreadingFactor v =
     v\<lparr> dr_uplink := True, dr_downlink := True, dr_modulation := MOD_LORA,
       dr_bandwidth := aBandwidth, dr_spreadingFactor := aSpreadingFactor, dr_bps := 0 \<rparr>"

definition setFSK :: "u32 \<Rightarrow> DATA_RATE \<Rightarrow> DATA_RATE" where
  "setFSK aBps v =
     v\<lparr> dr_uplink := True, dr_downlink := True, dr_modulation := MOD_FSK,
       dr_bandwidth := BW_125, dr_spreadingFactor := SF5, dr_bps := aBps \<rparr>"

definition int2BANDWIDTH :: "int \<Rightarrow> u32" where
  "int2BANDWIDTH value =
     (if value = 125 then BW_125
      else if value = 250 then BW_250
      else if value = 500 then BW_500
      else BW_125)"

section \<open>Byte order and key order\<close>

fun be_val :: "bytes \<Rightarrow> nat" where
  "be_val [] = 0"
| "be_val (b # bs) = unat b * 256 ^ length bs + be_val bs"

lemma be_val_bound: "be_val bs < 256 ^ length bs"
proof (induction bs)
  case (Cons b bs)
  have "unat b < 256" using unsigned_less [of b, where 'a = nat] by simp
  then have "unat b * 256 ^ length bs \<le> 255 * 256 ^ length bs"
    by (intro mult_le_mono1) simp
  moreover have "(256::nat) ^ length (b # bs) = 256 * 256 ^ length bs" by simp
  ultimately show ?case using Cons unfolding be_val.simps by linarith
qed simp

lemma digit_less:
  fixes p q n x y :: nat
  assumes "x < n" "y < n" "p < q"
  shows "p * n + x < q * n + y"
proof -
  have "Suc p * n \<le> q * n" using assms(3) by (intro mult_le_mono1) simp
  with assms show ?thesis by simp
qed

lemma memcmp_be_val:
  "length xs = length ys \<Longrightarrow>
   memcmp xs ys = (if be_val xs < be_val ys then -1 else if be_val ys < be_val xs then 1 else 0)"
proof (induction xs ys rule: list_induct2)
  case (Cons x xs y ys)
  consider "x < y" | "y < x" | "x = y" by fastforce
  then show ?case
  proof cases
    case 1
    then have "be_val (x # xs) < be_val (y # ys)"
      using Cons.hyps be_val_bound [of xs] be_val_bound [of ys]
      by (simp add: digit_less word_less_nat_alt)
    with 1 show ?thesis by simp
  next
    case 2
    then have "be_val (y # ys) < be_val (x # xs)"
      using Cons.hyps be_val_bound [of xs] be_val_bound [of ys]
      by (simp add: digit_less word_less_nat_alt)
    with 2 show ?thesis by simp
  next
    case 3
    with Cons show ?thesis by simp
  qed
qed simp

lemma be_val_append: "be_val (xs @ ys) = be_val xs * 256 ^ length ys + be_val ys"
  by (induction xs) (simp_all add: power_add algebra_simps)

lemma be_val_le_bytes: "be_val (rev (le_bytes n w)) = unat (take_bit (8 * n) w)"
proof (induction n)
  case (Suc n)
  have "rev (le_bytes (Suc n) w) = byte_at w n # rev (le_bytes n w)"
    by (simp add: le_bytes_def)
  moreover have "unat (byte_at w n) = drop_bit (8 * n) (unat w) mod 256"
    by (simp add: byte_at_def unsigned_ucast_eq unsigned_drop_bit_eq take_bit_eq_mod)
  moreover have "take_bit (8 * Suc n) (unat w) = drop_bit (8 * n) (unat w) mod 256 * 2 ^ (8 * n) + take_bit (8 * n) (unat w)"
    using mod_mult2_eq [of "unat w" "2 ^ (8 * n)" 256]
    by (simp add: take_bit_eq_mod drop_bit_eq_div power_add ac_simps)
  ultimately show ?case using Suc 
    by (simp add: unsigned_take_bit_eq power_mult)
qed (simp add: le_bytes_def)

lemma NTOH8_bytes: "le_bytes 8 (NTOH8 v) = rev (le_bytes 8 v)"
  unfolding NTOH8_def using from_le_inj_bytes [of "rev (le_bytes 8 v)", where 'a = 64] by simp

lemma NTOH8_invol: "NTOH8 (NTOH8 v) = v"
proof -
  have "le_bytes 8 (NTOH8 (NTOH8 v)) = le_bytes 8 v" by (simp add: NTOH8_bytes)
  then have "from_le (le_bytes 8 (NTOH8 (NTOH8 v))) = (from_le (le_bytes 8 v) :: u64)" by simp
  then show ?thesis by (simp add: from_le_le_bytes)
qed

lemma key_value: "be_val (KEY128_hi_lo hi lo) = unat hi * 2 ^ 64 + unat lo"
proof -
  have "be_val (rev (le_bytes 8 v)) = unat v" for v :: u64
    by (simp add: be_val_le_bytes take_bit_word_eq_self)
  then show ?thesis by (simp add: KEY128_hi_lo_def NTOH8_bytes be_val_append)
qed

lemma wf_KEY128_hi_lo: "wf_KEY128 (KEY128_hi_lo hi lo)"
  by (simp add: wf_KEY128_def KEY128_hi_lo_def)

lemma KEY128_less_hi_lo:
  "KEY128_less (KEY128_hi_lo h1 l1) (KEY128_hi_lo h2 l2) \<longleftrightarrow>
     h1 < h2 \<or> h1 = h2 \<and> l1 < l2"
proof -
  have len: "length (KEY128_hi_lo h l) = 16" for h l using wf_KEY128_hi_lo by (simp add: wf_KEY128_def)
  have b: "unat v < 2 ^ 64" for v :: u64 using unsigned_less [of v, where 'a = nat] by simp
  have "KEY128_less (KEY128_hi_lo h1 l1) (KEY128_hi_lo h2 l2) \<longleftrightarrow>
      unat h1 * 2 ^ 64 + unat l1 < unat h2 * 2 ^ 64 + unat l2"
    by (simp add: KEY128_less_def memcmp_be_val len key_value)
  also have "\<dots> \<longleftrightarrow> h1 < h2 \<or> h1 = h2 \<and> l1 < l2"
    using digit_less [OF b b, of "unat h1" "unat h2" l1 l2] digit_less [OF b b, of "unat h2" "unat h1" l2 l1]
    by (cases "h1 = h2") (auto simp: word_less_nat_alt neq_iff)
  finally show ?thesis .
qed

lemma KEY128_order:
  assumes "wf_KEY128 a" "wf_KEY128 b"
  shows "KEY128_eq a b \<longleftrightarrow> a = b" "KEY128_neq a b \<longleftrightarrow> a \<noteq> b"
    "KEY128_greater a b \<longleftrightarrow> KEY128_less b a"
  using assms memcmp_eq_0_iff [of a b] memcmp_eq_0_iff [of b a] memcmp_antisym [of a b]
  by (auto simp: KEY128_eq_def KEY128_neq_def KEY128_greater_def KEY128_less_def wf_KEY128_def)

section \<open>Join frames\<close>

lemmas join_orders =
  JOIN_REQUEST_less_def JOIN_REQUEST_greater_def JOIN_REQUEST_le_def JOIN_REQUEST_ge_def
  JOIN_REQUEST_eq_def JOIN_REQUEST_neq_def

lemma JOIN_REQUEST_less_irrefl: "\<not> JOIN_REQUEST_less a a"
  by (simp add: join_orders)

lemma JOIN_REQUEST_less_trans:
  "JOIN_REQUEST_less a b \<Longrightarrow> JOIN_REQUEST_less b c \<Longrightarrow> JOIN_REQUEST_less a c"
  by (auto simp: join_orders split: if_splits)

lemma JOIN_REQUEST_less_total:
  fixes a b :: JOIN_REQUEST_FRAME
  shows "a = b \<or> JOIN_REQUEST_less a b \<or> JOIN_REQUEST_less b a"
  by (cases a; cases b) (auto simp: join_orders)

lemma JOIN_REQUEST_greater_less: "JOIN_REQUEST_greater a b = JOIN_REQUEST_less b a"
  by (auto simp: join_orders)

lemma JOIN_REQUEST_le_join: "JOIN_REQUEST_le a b \<longleftrightarrow> joinEUI a \<le> joinEUI b"
  by (auto simp: join_orders)

section \<open>Nonces and names\<close>

lemma JOINNONCE_value: "JOINNONCE2int (int2JOINNONCE v) = NTOH4 v AND 0xffffff"
proof -
  have "JOINNONCE2int [x, y, z] = NETID2int \<lparr>nid_c0 = x, nid_c1 = y, nid_c2 = z\<rparr>" for x y z
    by (simp add: JOINNONCE2int_def NETID2int_def)
  then have "JOINNONCE2int (int2JOINNONCE v) = NETID2int (int2NETID (NTOH4 v))"
    by (simp add: int2JOINNONCE_def int2NETID_def Let_def)
  then show ?thesis by (simp add: NETID2int_int2NETID take_bit_eq_mask mask_eq_exp_minus_1)
qed

lemma bit_NTOH4: "bit (NTOH4 v) n \<longleftrightarrow> n < 32 \<and> bit v (8 * (3 - n div 8) + n mod 8)"
  by (auto simp: NTOH4_def bit_from_le rev_nth le_bytes_def bit_byte_at nth_append)

lemma JOINNONCE_small_lost:
  assumes "v < 256" shows "JOINNONCE2int (int2JOINNONCE v) = 0"
proof -
  obtain w where v: "v = take_bit 8 w" using take_bit_of_less [of v 8] assms by auto
  show ?thesis unfolding JOINNONCE_value v by (rule u32_eqI) (simp add: bit_simps bit_NTOH4)
qed

section \<open>Packet buffers\<close>

lemma payloadSize_small:
  assumes "8 < n" "n < 13"
  shows "payloadSize (Some b) n = ucast n + 243"
proof -
  have "unat n \<in> {9, 10, 11, 12}" using assms by (auto simp: word_less_nat_alt)
  moreover have "n = of_nat (unat n)" by simp
  ultimately have "n = 9 \<or> n = 10 \<or> n = 11 \<or> n = 12" by (elim insertE emptyE) simp_all
  then show ?thesis by (elim disjE) (simp_all add: payloadSize_def word_gt_0 Let_def u8_eq_iff bit_simps)
qed

text \<open>When there is a payload, it follows the port inside the buffer and leaves room for the MIC.\<close>

lemma rfm_foptslen_le: "rfm_foptslen b \<le> 15"
proof -
  have "unat (take_bit 4 (b ! 5)) = unat (b ! 5) mod 16"
    by (simp add: take_bit_eq_mod unat_mod)
  then show ?thesis by (simp add: rfm_foptslen_def foptslen_def)
qed

lemma hasPayload_bounds:
  "hasPayload (Some b) n = Some k \<Longrightarrow> 9 \<le> k \<and> k \<le> 24 \<and> k + 4 \<le> n"
  using rfm_foptslen_le [of b]
  by (auto simp: hasPayload_def SIZE_RFM_HEADER_def SIZE_FPORT_def SIZE_MIC_def split: if_splits)

lemma hasFPort_hasPayload:
  "hasPayload (Some b) n = Some k \<Longrightarrow> n \<le> length b \<Longrightarrow>
   hasFPort (Some b) n = Some (uint (b ! (k - 1)))"
  by (auto simp: hasPayload_def hasFPort_def SIZE_RFM_HEADER_def SIZE_FPORT_def SIZE_MIC_def
      split: if_splits)

text \<open>Names.\<close>

lemma length_strncpy: "n \<le> length d \<Longrightarrow> length (strncpy d s n) = length d"
  by (simp add: strncpy_def Let_def)

lemma c_str_no_nul: "0 \<notin> set s \<Longrightarrow> c_str s = s"
  by (induction s) (auto simp: c_str_def)

lemma c_str_append_nul: "0 \<notin> set s \<Longrightarrow> c_str (s @ 0 # t) = s"
  by (induction s) (auto simp: c_str_def)

lemma string2DEVICENAME_roundtrip:
  assumes "0 \<notin> set s" "length obj = 8"
  shows "DEVICENAME2string (string2DEVICENAME s obj) = take 8 s"
proof -
  have e: "string2DEVICENAME s obj = take 8 s @ replicate (8 - length s) 0"
    using assms by (auto simp: string2DEVICENAME_def strncpy_def c_str_no_nul mem_write_def Let_def min_def)
  have "0 \<notin> set (take 8 s)" using assms(1) by (auto dest: in_set_takeD)
  then show ?thesis
    by (cases "length s < 8") (auto simp: e DEVICENAME2string_def c_str_no_nul c_str_append_nul
        simp flip: Suc_diff_Suc)
qed

lemma DEVICENAME_string_keeps_tail:
  "length obj = 8 \<Longrightarrow> 0 \<notin> set s \<Longrightarrow> length s \<le> 8 \<Longrightarrow>
   DEVICENAME_string s obj = s @ drop (length s) obj"
  by (simp add: DEVICENAME_string_def strncpy_def c_str_no_nul mem_write_def)

section \<open>Properties\<close>

text \<open>keys built from two 64-bit halves compare as the 128-bit numbers the halves spell.\<close>

theorem key_order_numeric:
  "KEY128_less (KEY128_hi_lo h1 l1) (KEY128_hi_lo h2 l2) \<longleftrightarrow>
     h1 < h2 \<or> h1 = h2 \<and> l1 < l2"
  by (rule KEY128_less_hi_lo)

text \<open>\<open>operator<\<close> of join requests, the order of the sets and maps keyed by them, is a
  strict total order over all three fields, and \<open>operator>\<close> is its converse.\<close>

theorem join_request_order:
  fixes a b c :: JOIN_REQUEST_FRAME
  shows "\<not> JOIN_REQUEST_less a a \<and>
    (JOIN_REQUEST_less a b \<longrightarrow> JOIN_REQUEST_less b c \<longrightarrow> JOIN_REQUEST_less a c) \<and>
    (a = b \<or> JOIN_REQUEST_less a b \<or> JOIN_REQUEST_greater a b)"
  using JOIN_REQUEST_less_irrefl JOIN_REQUEST_less_trans JOIN_REQUEST_less_total
    JOIN_REQUEST_greater_less by blast

theorem join_request_order_witness:
  "JOIN_REQUEST_less \<lparr>joinEUI = 1, jr_devEUI = 2, jr_devNonce = 3\<rparr>
     \<lparr>joinEUI = 2, jr_devEUI = 0, jr_devNonce = 0\<rparr>"
proof -
  have "JOIN_REQUEST_less \<lparr>joinEUI = 1, jr_devEUI = 2, jr_devNonce = 3\<rparr>
      \<lparr>joinEUI = 1, jr_devEUI = 3, jr_devNonce = 0\<rparr>"
    "JOIN_REQUEST_less \<lparr>joinEUI = 1, jr_devEUI = 3, jr_devNonce = 0\<rparr>
      \<lparr>joinEUI = 2, jr_devEUI = 0, jr_devNonce = 0\<rparr>"
    by (simp_all add: JOIN_REQUEST_less_def)
  then show ?thesis using join_request_order by blast
qed

text \<open>\<open>operator<=\<close> of join requests compares the join identifiers only: it does not
  distinguish requests of one join server, in either direction.\<close>

theorem join_request_le_ignores_device:
  "JOIN_REQUEST_le a b \<longleftrightarrow> joinEUI a \<le> joinEUI b"
  by (rule JOIN_REQUEST_le_join)

text \<open>a join nonce stored from an integer reads back as the three high bytes of the
  integer in reverse order: its low byte, the one that counts joins, is lost.\<close>

theorem join_nonce_loses_low_byte:
  "JOINNONCE2int (int2JOINNONCE v) = NTOH4 v AND 0xffffff \<and>
   JOINNONCE2int (int2JOINNONCE (v AND 0xff)) = 0"
proof -
  have "v AND 0xff < 256"
    using take_bit_less_exp [of 8 v] by (simp add: take_bit_eq_mask mask_eq_exp_minus_1)
  then show ?thesis using JOINNONCE_value [of v] JOINNONCE_small_lost by blast
qed

text \<open>the payload length of a packet shorter than header, port and MIC together wraps
  around: sizes 9 to 12 give 252 to 255.\<close>

theorem payload_size_wraps:
  assumes "8 < n" "n < 13"
  shows "payloadSize (Some b) n = ucast n + 243"
  by (rule payloadSize_small [OF assms])

theorem payload_size_wraps_witness: "payloadSize (Some []) 12 = ucast (12 :: u64) + 243"
  by (rule payload_size_wraps) simp_all

text \<open>where \<open>hasPayload\<close> finds a payload it lies behind header, options and port and
  before the MIC, and the byte before it is the port \<open>hasFPort\<close> reads.\<close>

theorem payload_position:
  assumes "hasPayload (Some b) n = Some k" "n \<le> length b"
  shows "9 \<le> k \<and> k \<le> 24 \<and> k + 4 \<le> n \<and> hasFPort (Some b) n = Some (uint (b ! (k - 1)))"
  using hasPayload_bounds [OF assms(1)] hasFPort_hasPayload [OF assms] by simp

theorem payload_position_witness:
  "(9::nat) \<le> 11 \<and> (11::nat) \<le> 24 \<and> 11 + 4 \<le> (16::nat) \<and>
   hasFPort (Some [0x40, 1, 2, 3, 4, 2, 0, 0, 8, 9, 7, 1, 2, 3, 4, 5]) 16 = Some 7"
proof -
  let ?b = "[0x40, 1, 2, 3, 4, 2, 0, 0, 8, 9, 7, 1, 2, 3, 4, 5] :: bytes"
  have "hasPayload (Some ?b) 16 = Some 11"
    by (simp add: hasPayload_def rfm_foptslen_def foptslen_def SIZE_RFM_HEADER_def SIZE_FPORT_def
        SIZE_MIC_def)
  from payload_position [OF this] show ?thesis by simp
qed

end
