(* ===== verification/Device_Id.thy ===== *)
theory Device_Id
  imports Lora_Types
begin

text \<open>
  Device identities (\<open>DEVICE_ID\<close>, \<open>DEVICEID\<close>, \<open>NETWORKIDENTITY\<close> of
  \<open>lorawan/lorawan-types.h\<close> and \<open>.cpp\<close>): constructors, copies, the 102-byte array form and the
  search filters over identity properties.  The two enumerations are stored as 4-byte integers
  of which the array form carries the low byte.
\<close>

section \<open>Identities\<close>

abbreviation (input) ABP :: u32 where "ABP \<equiv> 0"
abbreviation (input) OTAA :: u32 where "OTAA \<equiv> 1"
abbreviation (input) CLASS_A :: u32 where "CLASS_A \<equiv> 0"
abbreviation (input) CLASS_B :: u32 where "CLASS_B \<equiv> 1"
abbreviation (input) CLASS_C :: u32 where "CLASS_C \<equiv> 2"

record DEVICE_ID =
  activation :: u32
  deviceclass :: u32
  devEUI :: DEVEUI
  nwkSKey :: KEY128
  appSKey :: KEY128
  version :: LORAWAN_VERSION
  appEUI :: DEVEUI
  appKey :: KEY128
  nwkKey :: KEY128
  devNonce :: DEVNONCE
  joinNonce :: JOINNONCE
  token :: u32
  region :: u8
  subRegion :: u8
  name :: DEVICENAME

definition DEVICEID_default :: DEVICE_ID where
  "DEVICEID_default =
     \<lparr> activation = ABP, deviceclass = CLASS_A, devEUI = 0,
       nwkSKey = KEY128_zero, appSKey = KEY128_zero,
       version = version_set_major 1 LORAWAN_VERSION_default,
       appEUI = 0, appKey = KEY128_zero, nwkKey = KEY128_zero, devNonce = 0,
       joinNonce = replicate 3 0, token = 0, region = 0, subRegion = 0, name = replicate 8 0 \<rparr>"

definition DEVICEID_eui :: "DEVEUI \<Rightarrow> DEVICE_ID" where
  "DEVICEID_eui deveui =
     \<lparr> activation = ABP, deviceclass = CLASS_A, devEUI = deveui,
       nwkSKey = KEY128_zero, appSKey = KEY128_zero,
       version = version_set_major 1 LORAWAN_VERSION_default,
       appEUI = 0, appKey = KEY128_zero, nwkKey = KEY128_zero, devNonce = 0,
       joinNonce = replicate 3 0, token = 0, region = 0, subRegion = 0, name = replicate 8 0 \<rparr>"

text \<open>The constructor from an integer stores it and clears it three lines later.\<close>

definition DEVICEID_u64 :: "u64 \<Rightarrow> DEVICE_ID" where
  "DEVICEID_u64 did =
     \<lparr> activation = ABP, deviceclass = CLASS_A,
       devEUI = (let u = did; u = 0 in u),
       nwkSKey = KEY128_zero, appSKey = KEY128_zero,
       version = version_set_major 1 LORAWAN_VERSION_default,
       appEUI = 0, appKey = KEY128_zero, nwkKey = KEY128_zero, devNonce = 0,
       joinNonce = replicate 3 0, token = 0, region = 0, subRegion = 0, name = replicate 8 0 \<rparr>"

definition DEVICEID_full ::
    "u32 \<Rightarrow> u32 \<Rightarrow> DEVEUI \<Rightarrow> KEY128 \<Rightarrow> KEY128 \<Rightarrow> LORAWAN_VERSION \<Rightarrow> DEVEUI \<Rightarrow> KEY128 \<Rightarrow> KEY128 \<Rightarrow>
     DEVNONCE \<Rightarrow> JOINNONCE \<Rightarrow> u32 \<Rightarrow> u8 \<Rightarrow> u8 \<Rightarrow> DEVICENAME \<Rightarrow> DEVICE_ID" where
  "DEVICEID_full a c e nk ak v ae apk nwk dn jn t r sr n =
     \<lparr> activation = a, deviceclass = c, devEUI = e, nwkSKey = nk, appSKey = ak, version = v,
       appEUI = ae, appKey = apk, nwkKey = nwk, devNonce = dn, joinNonce = jn,
       token = t, region = r, subRegion = sr, name = n \<rparr>"

definition DEVICEID_abp ::
    "u32 \<Rightarrow> DEVEUI \<Rightarrow> KEY128 \<Rightarrow> KEY128 \<Rightarrow> LORAWAN_VERSION \<Rightarrow> u32 \<Rightarrow> u8 \<Rightarrow> u8 \<Rightarrow> DEVICENAME \<Rightarrow>
     DEVICE_ID" where
  "DEVICEID_abp c e nk ak v t r sr n =
     \<lparr> activation = ABP, deviceclass = c, devEUI = e, nwkSKey = nk, appSKey = ak, version = v,
       appEUI = 0, appKey = KEY128_zero, nwkKey = KEY128_zero, devNonce = 0,
       joinNonce = replicate 3 0, token = t, region = r, subRegion = sr, name = n \<rparr>"

text \<open>\<open>DEVICEID::set\<close> and \<open>operator=\<close>, member by member.\<close>

definition DEVICEID_set :: "DEVICE_ID \<Rightarrow> DEVICE_ID \<Rightarrow> DEVICE_ID" where
  "DEVICEID_set value d =
     d\<lparr> activation := activation value, deviceclass := deviceclass value, devEUI := devEUI value,
        nwkSKey := nwkSKey value, appSKey := appSKey value, version := version value,
        appEUI := appEUI value, appKey := appKey value, nwkKey := nwkKey value,
        devNonce := devNonce value, joinNonce := joinNonce value, token := token value,
        region := region value, subRegion := subRegion value, name := name value \<rparr>"

definition DEVICEID_assign :: "DEVICE_ID \<Rightarrow> DEVICE_ID \<Rightarrow> DEVICE_ID" where
  "DEVICEID_assign value d =
     d\<lparr> activation := activation value, deviceclass := deviceclass value, devEUI := devEUI value,
        nwkSKey := nwkSKey value, appSKey := appSKey value, version := version value,
        appEUI := appEUI value, appKey := appKey value, nwkKey := nwkKey value,
        devNonce := devNonce value, joinNonce := joinNonce value, name := name value,
        token := token value, region := region value, subRegion := subRegion value \<rparr>"

definition DEVICEID_setClass :: "u32 \<Rightarrow> DEVICE_ID \<Rightarrow> DEVICE_ID" where
  "DEVICEID_setClass value d = d\<lparr> deviceclass := value \<rparr>"

definition DEVICEID_setName :: "bytes \<Rightarrow> DEVICE_ID \<Rightarrow> DEVICE_ID" where
  "DEVICEID_setName value d = d\<lparr> name := string2DEVICENAME value (name d) \<rparr>"

definition DEVICEID_empty :: "DEVICE_ID \<Rightarrow> bool" where
  "DEVICEID_empty d \<longleftrightarrow> devEUI d = 0"

definition DEVICEID_eq :: "DEVICE_ID \<Rightarrow> DEVICE_ID \<Rightarrow> bool" where
  "DEVICEID_eq lhs rhs \<longleftrightarrow> devEUI rhs = devEUI lhs"

definition DEVICEID_less :: "DEVICE_ID \<Rightarrow> DEVICE_ID \<Rightarrow> bool" where
  "DEVICEID_less lhs rhs \<longleftrightarrow> devEUI rhs < devEUI lhs"

definition DEVICEID_greater :: "DEVICE_ID \<Rightarrow> DEVICE_ID \<Rightarrow> bool" where
  "DEVICEID_greater lhs rhs \<longleftrightarrow> devEUI rhs > devEUI lhs"

definition DEVICEID_neq :: "DEVICE_ID \<Rightarrow> DEVICE_ID \<Rightarrow> bool" where
  "DEVICEID_neq lhs rhs \<longleftrightarrow> devEUI rhs \<noteq> devEUI lhs"

record NETWORKIDENTITY =
  ni_devaddr :: DEVADDR
  ni_devid :: DEVICE_ID

definition NETWORKIDENTITY_make :: "DEVADDR \<Rightarrow> DEVICE_ID \<Rightarrow> NETWORKIDENTITY" where
  "NETWORKIDENTITY_make a i =
     \<lparr> ni_devaddr = a, ni_devid = DEVICEID_assign i DEVICEID_default \<rparr>"

definition NETWORKIDENTITY_devid :: "DEVICE_ID \<Rightarrow> NETWORKIDENTITY" where
  "NETWORKIDENTITY_devid i = \<lparr> ni_devaddr = 0, ni_devid = DEVICEID_set i DEVICEID_default \<rparr>"

definition NETWORKIDENTITY_addr :: "DEVADDR \<Rightarrow> NETWORKIDENTITY" where
  "NETWORKIDENTITY_addr a =
     \<lparr> ni_devaddr = a, ni_devid = DEVICEID_set (DEVICEID_u64 0) DEVICEID_default \<rparr>"

definition NETWORKIDENTITY_set :: "DEVADDR \<Rightarrow> DEVICE_ID \<Rightarrow> NETWORKIDENTITY \<Rightarrow> NETWORKIDENTITY" where
  "NETWORKIDENTITY_set a v n =
     n\<lparr> ni_devaddr := a, ni_devid := DEVICEID_set v (ni_devid n) \<rparr>"

section \<open>The array form\<close>

definition SIZE_DEVICEID :: nat where
  "SIZE_DEVICEID = 102"

definition device_bytes :: "DEVICE_ID \<Rightarrow> bytes" where
  "device_bytes d =
     [byte_at (activation d) 0] @ [byte_at (deviceclass d) 0] @ le_bytes 8 (devEUI d) @
     nwkSKey d @ appSKey d @ [version d] @ le_bytes 8 (appEUI d) @ appKey d @ nwkKey d @
     le_bytes 2 (devNonce d) @ joinNonce d @ le_bytes 4 (token d) @
     [region d] @ [subRegion d] @ name d"

definition DEVICEID_toArray :: "DEVICE_ID \<Rightarrow> bytes option \<Rightarrow> nat \<Rightarrow> bytes option" where
  "DEVICEID_toArray d buffer n =
     (case buffer of
        None \<Rightarrow> None
      | Some b \<Rightarrow> if n < SIZE_DEVICEID then Some b else Some (mem_write b 0 (device_bytes d)))"

definition DEVICEID_fromArray :: "bytes option \<Rightarrow> nat \<Rightarrow> DEVICE_ID \<Rightarrow> DEVICE_ID" where
  "DEVICEID_fromArray buffer n d =
     (case buffer of
        None \<Rightarrow> d
      | Some p \<Rightarrow>
          if n < SIZE_DEVICEID then d
          else
            d\<lparr> activation := set_byte (activation d) 0 (p ! 0),
               deviceclass := set_byte (deviceclass d) 0 (p ! 1),
               devEUI := from_le (mem_read p 2 8),
               nwkSKey := mem_read p 10 16,
               appSKey := mem_read p 26 16,
               version := p ! 42,
               appEUI := from_le (mem_read p 43 8),
               appKey := mem_read p 51 16,
               nwkKey := mem_read p 67 16,
               devNonce := from_le (mem_read p 83 2),
               joinNonce := mem_read p 85 3,
               token := from_le (mem_read p 88 4),
               region := p ! 92,
               subRegion := p ! 93,
               name := mem_read p 94 8 \<rparr>)"

section \<open>Filters\<close>

text \<open>The enumerations of a filter come from outside: they are integers here.\<close>

abbreviation (input) NIP_ADDRESS :: int where "NIP_ADDRESS \<equiv> 1"
abbreviation (input) NIP_ACTIVATION :: int where "NIP_ACTIVATION \<equiv> 2"
abbreviation (input) NIP_DEVICE_CLASS :: int where "NIP_DEVICE_CLASS \<equiv> 3"
abbreviation (input) NIP_DEVEUI :: int where "NIP_DEVEUI \<equiv> 4"
abbreviation (input) NIP_NWKSKEY :: int where "NIP_NWKSKEY \<equiv> 5"
abbreviation (input) NIP_APPSKEY :: int where "NIP_APPSKEY \<equiv> 6"
abbreviation (input) NIP_LORAWAN_VERSION :: int where "NIP_LORAWAN_VERSION \<equiv> 7"
abbreviation (input) NIP_APPEUI :: int where "NIP_APPEUI \<equiv> 8"
abbreviation (input) NIP_APPKEY :: int where "NIP_APPKEY \<equiv> 9"
abbreviation (input) NIP_NWKKEY :: int where "NIP_NWKKEY \<equiv> 10"
abbreviation (input) NIP_DEVNONCE :: int where "NIP_DEVNONCE \<equiv> 11"
abbreviation (input) NIP_JOINNONCE :: int where "NIP_JOINNONCE \<equiv> 12"
abbreviation (input) NIP_DEVICENAME :: int where "NIP_DEVICENAME \<equiv> 13"

abbreviation (input) NICO_EQ :: int where "NICO_EQ \<equiv> 1"
abbreviation (input) NICO_NE :: int where "NICO_NE \<equiv> 2"
abbreviation (input) NICO_GT :: int where "NICO_GT \<equiv> 3"
abbreviation (input) NICO_LT :: int where "NICO_LT \<equiv> 4"
abbreviation (input) NICO_GE :: int where "NICO_GE \<equiv> 5"
abbreviation (input) NICO_LE :: int where "NICO_LE \<equiv> 6"

abbreviation (input) NILPO_AND :: int where "NILPO_AND \<equiv> 1"
abbreviation (input) NILPO_OR :: int where "NILPO_OR \<equiv> 2"

record NETWORK_IDENTITY_FILTER =
  pre :: int
  property :: int
  comparisonOperator :: int
  filter_length :: u8
  filterData :: bytes

definition getDeviceIdPropertyPtr :: "DEVICE_ID \<Rightarrow> int \<Rightarrow> bytes" where
  "getDeviceIdPropertyPtr d p =
     (if p = NIP_ACTIVATION then le_bytes 4 (activation d)
      else if p = NIP_DEVICE_CLASS then le_bytes 4 (deviceclass d)
      else if p = NIP_DEVEUI then le_bytes 8 (devEUI d)
      else if p = NIP_NWKSKEY then nwkSKey d
      else if p = NIP_APPSKEY then appSKey d
      else if p = NIP_LORAWAN_VERSION then [version d]
      else if p = NIP_APPEUI then le_bytes 8 (appEUI d)
      else if p = NIP_APPKEY then appKey d
      else if p = NIP_NWKKEY then nwkKey d
      else if p = NIP_DEVNONCE then le_bytes 2 (devNonce d)
      else if p = NIP_JOINNONCE then joinNonce d
      else if p = NIP_DEVICENAME then name d
      else le_bytes 4 (activation d))"

definition getNetworkIdentityPropertyPtr :: "NETWORKIDENTITY \<Rightarrow> int \<Rightarrow> bytes" where
  "getNetworkIdentityPropertyPtr i p =
     (if p = NIP_ADDRESS then le_bytes 4 (ni_devaddr i)
      else if p = NIP_ACTIVATION then le_bytes 4 (activation (ni_devid i))
      else if p = NIP_DEVICE_CLASS then le_bytes 4 (deviceclass (ni_devid i))
      else if p = NIP_DEVEUI then le_bytes 8 (devEUI (ni_devid i))
      else if p = NIP_NWKSKEY then nwkSKey (ni_devid i)
      else if p = NIP_APPSKEY then appSKey (ni_devid i)
      else if p = NIP_LORAWAN_VERSION then [version (ni_devid i)]
      else if p = NIP_APPEUI then le_bytes 8 (appEUI (ni_devid i))
      else if p = NIP_APPKEY then appKey (ni_devid i)
      else if p = NIP_NWKKEY then nwkKey (ni_devid i)
      else if p = NIP_DEVNONCE then le_bytes 2 (devNonce (ni_devid i))
      else if p = NIP_JOINNONCE then joinNonce (ni_devid i)
      else if p = NIP_DEVICENAME then name (ni_devid i)
      else le_bytes 4 (ni_devaddr i))"

definition NETWORK_IDENTITY_PROPERTY_SIZES :: "nat list" where
  "NETWORK_IDENTITY_PROPERTY_SIZES = [0, 4, 4, 4, 8, 16, 16, 1, 8, 16, 16, 2, 3, 8]"

definition getNetworkIdentityPropertySize :: "int \<Rightarrow> nat" where
  "getNetworkIdentityPropertySize p =
     (if p < 0 \<or> p \<ge> 14 then 0 else NETWORK_IDENTITY_PROPERTY_SIZES ! nat p)"

definition isIdentityFiltered :: "NETWORKIDENTITY \<Rightarrow> NETWORK_IDENTITY_FILTER \<Rightarrow> bool" where
  "isIdentityFiltered i f =
     (let sz = getNetworkIdentityPropertySize (property f);
          sz = (if unat (filter_length f) < sz then unat (filter_length f) else sz);
          c = memcmp (take sz (getNetworkIdentityPropertyPtr i (property f))) (take sz (filterData f));
          op = comparisonOperator f
      in if op = NICO_EQ then c = 0
         else if op = NICO_GT then c > 0
         else if op = NICO_LT then c < 0
         else if op = NICO_GE then c \<ge> 0
         else if op = NICO_LE then c \<le> 0
         else if op = NICO_NE then c \<noteq> 0
         else False)"

definition isIdentityFiltered2 :: "DEVADDR \<Rightarrow> DEVICE_ID \<Rightarrow> NETWORK_IDENTITY_FILTER \<Rightarrow> bool" where
  "isIdentityFiltered2 a d f =
     (let sz = getNetworkIdentityPropertySize (property f);
          sz = (if unat (filter_length f) < sz then unat (filter_length f) else sz);
          c = (if property f = NIP_ADDRESS
               then memcmp (take sz (le_bytes 4 a)) (take sz (filterData f))
               else memcmp (take sz (getDeviceIdPropertyPtr d (property f))) (take sz (filterData f)));
          op = comparisonOperator f
      in if op = NICO_EQ then c = 0
         else if op = NICO_GT then c > 0
         else if op = NICO_LT then c < 0
         else if op = NICO_GE then c \<ge> 0
         else if op = NICO_LE then c \<le> 0
         else if op = NICO_NE then c \<noteq> 0
         else False)"

text \<open>The loop over the filters, with its running result \<open>r\<close> and its early exit.\<close>

fun filter_loop :: "('f \<Rightarrow> bool) \<Rightarrow> ('f \<Rightarrow> int) \<Rightarrow> bool \<Rightarrow> 'f list \<Rightarrow> bool" where
  "filter_loop matches preop r [] = r"
| "filter_loop matches preop r (f # fs) =
     (let c = matches f; r' = (if preop f = NILPO_OR then r \<or> c else r \<and> c) in
      if \<not> r' then r' else filter_loop matches preop r' fs)"

definition isIdentityFilteredV :: "NETWORKIDENTITY \<Rightarrow> NETWORK_IDENTITY_FILTER list \<Rightarrow> bool" where
  "isIdentityFilteredV i filters = filter_loop (isIdentityFiltered i) pre True filters"

definition isIdentityFilteredV2 ::
    "DEVADDR \<Rightarrow> DEVICE_ID \<Rightarrow> NETWORK_IDENTITY_FILTER list \<Rightarrow> bool" where
  "isIdentityFilteredV2 a d filters = filter_loop (isIdentityFiltered2 a d) pre True filters"

section \<open>Lemmas\<close>

text \<open>The sizes of the fixed-length members; the enumerations fit the byte they travel in.\<close>

definition wf_device :: "DEVICE_ID \<Rightarrow> bool" where
  "wf_device d \<longleftrightarrow>
     activation d < 256 \<and> deviceclass d < 256 \<and> wf_KEY128 (nwkSKey d) \<and> wf_KEY128 (appSKey d) \<and>
     wf_KEY128 (appKey d) \<and> wf_KEY128 (nwkKey d) \<and> length (joinNonce d) = 3 \<and> length (name d) = 8"

lemma wf_device_constructors:
  "wf_device DEVICEID_default" "wf_device (DEVICEID_eui e)" "wf_device (DEVICEID_u64 u)"
  by (simp_all add: wf_device_def DEVICEID_default_def DEVICEID_eui_def DEVICEID_u64_def
      wf_KEY128_def KEY128_zero_def)

lemma DEVICEID_set_eq:
  fixes v d :: DEVICE_ID
  shows "DEVICEID_set v d = v" "DEVICEID_assign v d = v"
  by (simp_all add: DEVICEID_set_def DEVICEID_assign_def)

lemma length_device_bytes: "wf_device d \<Longrightarrow> length (device_bytes d) = 102"
  by (simp add: wf_device_def wf_KEY128_def device_bytes_def)

lemma wf_device_toArray:
  "wf_device d \<Longrightarrow> 102 \<le> length b \<Longrightarrow> DEVICEID_toArray d (Some b) n = Some b' \<Longrightarrow> length b' = length b"
  by (auto simp: DEVICEID_toArray_def length_device_bytes split: if_splits)

lemma set_byte_low: "w < 256 \<Longrightarrow> v < 256 \<Longrightarrow> set_byte w 0 (byte_at v 0) = v" for v w :: u32
proof -
  assume "w < 256" "v < 256"
  then obtain v' w' where "v = take_bit 8 v'" "w = take_bit 8 w'"
    using take_bit_of_less [of v 8 thesis] take_bit_of_less [of w 8 thesis] by auto
  then show ?thesis by (intro u32_eqI) (simp add: bit_set_byte bit_byte_at bit_simps flip: numeral_2_eq_2)
qed

lemma fromArray_device_bytes:
  fixes d d0 :: DEVICE_ID
  assumes "wf_device d" "wf_device d0"
  shows "DEVICEID_fromArray (Some (device_bytes d @ rest)) 102 d0 = d"
proof -
  have keys: "length (nwkSKey d) = 16" "length (appSKey d) = 16" "length (appKey d) = 16"
    "length (nwkKey d) = 16" "length (joinNonce d) = 3" "length (name d) = 8"
    using assms(1) by (simp_all add: wf_device_def wf_KEY128_def)
  have enums: "activation d < 256" "deviceclass d < 256" "activation d0 < 256" "deviceclass d0 < 256"
    using assms by (simp_all add: wf_device_def)
  show ?thesis
    by (simp add: DEVICEID_fromArray_def SIZE_DEVICEID_def device_bytes_def mem_read_def keys enums
        nth_append from_le_le_bytes set_byte_low)
qed


lemma fromArray_ignores_rest:
  assumes "102 \<le> length b" "102 \<le> n"
  shows "DEVICEID_fromArray (Some b) n d0 = DEVICEID_fromArray (Some (take 102 b)) 102 d0"
  using assms by (simp add: DEVICEID_fromArray_def SIZE_DEVICEID_def mem_read_def take_drop min_def)

lemma fromArray_toArray:
  fixes d d0 :: DEVICE_ID
  assumes "wf_device d" "wf_device d0" "102 \<le> length b" "102 \<le> n"
  shows "DEVICEID_fromArray (DEVICEID_toArray d (Some b) n) n d0 = d"
proof -
  have "DEVICEID_toArray d (Some b) n = Some (device_bytes d @ drop 102 b)"
    using assms by (simp add: DEVICEID_toArray_def SIZE_DEVICEID_def mem_write_def length_device_bytes)
  moreover have "take 102 (device_bytes d @ drop 102 b) = device_bytes d"
    using assms(1) by (simp add: length_device_bytes)
  ultimately show ?thesis
    using assms fromArray_device_bytes [of d d0 "[]"]
    by (simp add: fromArray_ignores_rest [of "device_bytes d @ drop 102 b" n] length_device_bytes)
qed

lemma wf_fromArray:
  assumes "wf_device d" "102 \<le> length b"
  shows "wf_device (DEVICEID_fromArray (Some b) n d)"
proof -
  have low: "set_byte w 0 v < 256" if w: "w < 256" for w :: u32 and v
  proof -
    from w obtain w' where "w = take_bit 8 w'" using take_bit_of_less [of w 8 thesis] by auto
    then have "set_byte w 0 v = take_bit 8 (set_byte w 0 v)"
      by (intro u32_eqI) (simp add: bit_set_byte bit_simps)
    then show ?thesis using take_bit_less_exp [of 8 "set_byte w 0 v"] by simp
  qed
  from assms show ?thesis
    by (simp add: DEVICEID_fromArray_def wf_device_def wf_KEY128_def low)
qed

text \<open>Filters.\<close>

lemma property_size_outside:
  "p \<le> 0 \<or> 14 \<le> p \<Longrightarrow> getNetworkIdentityPropertySize p = 0"
  by (cases "p = 0")
    (auto simp: getNetworkIdentityPropertySize_def NETWORK_IDENTITY_PROPERTY_SIZES_def)

lemma filtered_versions_agree:
  "isIdentityFiltered2 a d f = isIdentityFiltered \<lparr>ni_devaddr = a, ni_devid = d\<rparr> f"
proof (cases "property f \<le> 0 \<or> 14 \<le> property f")
  case True
  then have "getNetworkIdentityPropertySize (property f) = 0" "property f \<noteq> NIP_ADDRESS"
    using property_size_outside [of "property f"] by auto
  then show ?thesis by (simp add: isIdentityFiltered2_def isIdentityFiltered_def Let_def)
next
  case False
  have "getNetworkIdentityPropertyPtr \<lparr>ni_devaddr = a, ni_devid = d\<rparr> (property f) =
      (if property f = NIP_ADDRESS then le_bytes 4 a else getDeviceIdPropertyPtr d (property f))"
  proof -
    have "property f = 1 \<or> property f = 2 \<or> property f = 3 \<or> property f = 4 \<or> property f = 5 \<or>
        property f = 6 \<or> property f = 7 \<or> property f = 8 \<or> property f = 9 \<or> property f = 10 \<or>
        property f = 11 \<or> property f = 12 \<or> property f = 13"
      using False by presburger
    then show ?thesis
      by (elim disjE) (simp_all add: getNetworkIdentityPropertyPtr_def getDeviceIdPropertyPtr_def)
  qed
  then show ?thesis by (simp add: isIdentityFiltered2_def isIdentityFiltered_def Let_def)
qed

lemma filter_loop_cong: "(\<And>f. m f = m' f) \<Longrightarrow> filter_loop m p r fs = filter_loop m' p r fs"
  by (induction fs arbitrary: r) (auto simp: Let_def)

text \<open>Since the running result is true until the loop ends, a filter joined by OR never decides.\<close>

lemma filter_loop_True:
  "filter_loop m p True fs \<longleftrightarrow> (\<forall>f \<in> set fs. p f \<noteq> NILPO_OR \<longrightarrow> m f)"
  by (induction fs) (auto simp: Let_def)

lemma filteredV_versions_agree:
  "isIdentityFilteredV2 a d fs = isIdentityFilteredV \<lparr>ni_devaddr = a, ni_devid = d\<rparr> fs"
  unfolding isIdentityFilteredV2_def isIdentityFilteredV_def
  by (rule filter_loop_cong) (rule filtered_versions_agree)

section \<open>Properties\<close>

text \<open>an identity written to an array of at least 102 bytes and read back, into any
  identity, is the identity that was written.\<close>

theorem device_id_array_roundtrip:
  fixes d d0 :: DEVICE_ID
  assumes "wf_device d" "wf_device d0" "102 \<le> length b" "102 \<le> n"
  shows "DEVICEID_fromArray (DEVICEID_toArray d (Some b) n) n d0 = d"
  by (rule fromArray_toArray [OF assms])

theorem device_id_array_roundtrip_witness:
  "DEVICEID_fromArray (DEVICEID_toArray (DEVICEID_eui 0x1122334455667788) (Some (replicate 120 9)) 120)
     120 DEVICEID_default = DEVICEID_eui 0x1122334455667788"
  by (rule device_id_array_roundtrip) (simp_all add: wf_device_constructors)

text \<open>the two forms of a filter, over a stored identity and over its address and device,
  decide the same, for every property and operator, known or not.\<close>

theorem filter_forms_agree:
  "isIdentityFilteredV2 a d fs = isIdentityFilteredV \<lparr>ni_devaddr = a, ni_devid = d\<rparr> fs"
  by (rule filteredV_versions_agree)

text \<open>a filter list accepts exactly the identities every filter not joined by OR accepts:
  the filters joined by OR have no effect.\<close>

theorem filter_or_has_no_effect:
  "isIdentityFilteredV i fs \<longleftrightarrow>
     (\<forall>f \<in> set (filter (\<lambda>f. pre f \<noteq> NILPO_OR) fs). isIdentityFiltered i f)"
  by (auto simp: isIdentityFilteredV_def filter_loop_True)

theorem filter_or_has_no_effect_witness:
  "isIdentityFilteredV \<lparr>ni_devaddr = 5, ni_devid = DEVICEID_default\<rparr>
     [\<lparr>pre = NILPO_OR, property = NIP_ADDRESS, comparisonOperator = NICO_EQ, filter_length = 4,
       filterData = replicate 16 7\<rparr>]"
  by (simp add: filter_or_has_no_effect)

text \<open>identities compare in the reverse order of their device identifiers, and the
  constructor from an integer ignores it.\<close>

theorem device_id_reversed_order:
  "DEVICEID_less (DEVICEID_eui a) (DEVICEID_eui b) = (b < a) \<and>
   DEVICEID_u64 u = DEVICEID_default"
  by (simp add: DEVICEID_less_def DEVICEID_eui_def DEVICEID_u64_def DEVICEID_default_def)

end
