(* ===== verification/Ordered_Map.thy ===== *)
theory Ordered_Map
  imports Tlns_Prelude
begin

text \<open>
  \<open>std::map\<close> as a list of entries in strictly increasing order of keys, which is the order
  its iterators visit: \<open>find\<close>, \<open>insert\<close> (which keeps an existing entry), assignment through
  \<open>operator[]\<close>, \<open>erase\<close>, and the paging loop the storage services share.  The locale
  \<open>key_store\<close> is the contract a keyed storage gives to its clients.
\<close>

type_synonym ('k, 'v) omap = "('k \<times> 'v) list"

fun om_find :: "'k::linorder \<Rightarrow> ('k, 'v) omap \<Rightarrow> 'v option" where
  "om_find k [] = None"
| "om_find k ((k', v) # m) = (if k = k' then Some v else if k < k' then None else om_find k m)"

text \<open>\<open>storage[k] = v\<close>\<close>

fun om_assign :: "'k::linorder \<Rightarrow> 'v \<Rightarrow> ('k, 'v) omap \<Rightarrow> ('k, 'v) omap" where
  "om_assign k v [] = [(k, v)]"
| "om_assign k v ((k', v') # m) =
     (if k = k' then (k, v) # m
      else if k < k' then (k, v) # (k', v') # m
      else (k', v') # om_assign k v m)"

text \<open>\<open>storage.insert(std::pair(k, v))\<close> does not replace.\<close>

definition om_insert :: "'k::linorder \<Rightarrow> 'v \<Rightarrow> ('k, 'v) omap \<Rightarrow> ('k, 'v) omap" where
  "om_insert k v m = (case om_find k m of None \<Rightarrow> om_assign k v m | Some _ \<Rightarrow> m)"

definition om_erase :: "'k::linorder \<Rightarrow> ('k, 'v) omap \<Rightarrow> ('k, 'v) omap" where
  "om_erase k m = filter (\<lambda>e. fst e \<noteq> k) m"

definition om_sorted :: "('k::linorder, 'v) omap \<Rightarrow> bool" where
  "om_sorted m \<longleftrightarrow> sorted_wrt (<) (map fst m)"

named_theorems om_simps \<open>lookups in updated ordered maps\<close>

lemma om_sorted_Nil [simp]: "om_sorted []"
  by (simp add: om_sorted_def)

lemma om_sorted_Cons [simp]:
  "om_sorted ((k, v) # m) \<longleftrightarrow> (\<forall>k' \<in> fst ` set m. k < k') \<and> om_sorted m"
  by (auto simp: om_sorted_def)

lemma om_find_map_of: "om_sorted m \<Longrightarrow> om_find k m = map_of m k"
proof (induction m)
  case (Cons e m)
  obtain k' v where e: "e = (k', v)" by fastforce
  with Cons.prems have "k < k' \<Longrightarrow> map_of m k = None"
    by (fastforce simp: map_of_eq_None_iff)
  with Cons e show ?case by auto
qed simp

lemma fst_om_assign: "fst ` set (om_assign k v m) = insert k (fst ` set m)"
  by (induction k v m rule: om_assign.induct) auto

lemma om_sorted_assign [simp]: "om_sorted m \<Longrightarrow> om_sorted (om_assign k v m)"
  by (induction k v m rule: om_assign.induct)
    (auto simp: fst_om_assign dest: less_trans)

lemma map_of_om_assign: "om_sorted m \<Longrightarrow> map_of (om_assign k v m) = (map_of m)(k \<mapsto> v)"
  by (induction k v m rule: om_assign.induct) (auto simp: fun_eq_iff)

lemma om_find_assign [om_simps]:
  "om_sorted m \<Longrightarrow> om_find k' (om_assign k v m) = (if k' = k then Some v else om_find k' m)"
  by (simp add: om_find_map_of map_of_om_assign)

lemma om_sorted_erase [simp]: "om_sorted m \<Longrightarrow> om_sorted (om_erase k m)"
  unfolding om_sorted_def om_erase_def by (induction m) (auto simp: sorted_wrt_filter)

lemma om_find_erase [om_simps]:
  "om_sorted m \<Longrightarrow> om_find k' (om_erase k m) = (if k' = k then None else om_find k' m)"
proof -
  assume m: "om_sorted m"
  have "map_of (om_erase k m) k' = (if k' = k then None else map_of m k')"
    by (induction m) (auto simp: om_erase_def)
  with m show ?thesis by (simp add: om_find_map_of)
qed

lemma om_sorted_insert [simp]: "om_sorted m \<Longrightarrow> om_sorted (om_insert k v m)"
  by (simp add: om_insert_def split: option.splits)

lemma om_find_insert [om_simps]:
  "om_sorted m \<Longrightarrow> om_find k' (om_insert k v m) =
     (if k' = k \<and> om_find k m = None then Some v else om_find k' m)"
  by (auto simp: om_insert_def om_simps split: option.splits)

lemma om_find_in_set: "om_sorted m \<Longrightarrow> om_find k m = Some v \<longleftrightarrow> (k, v) \<in> set m"
  by (auto simp: om_find_map_of om_sorted_def map_of_is_SomeI strict_sorted_iff dest: map_of_SomeD)

lemma om_distinct: "om_sorted m \<Longrightarrow> distinct (map fst m)"
  by (simp add: om_sorted_def strict_sorted_iff)

lemma om_erase_absent: "om_sorted m \<Longrightarrow> om_find k m = None \<Longrightarrow> om_erase k m = m"
  unfolding om_erase_def
  by (intro filter_True) (auto simp: om_find_map_of map_of_eq_None_iff)

lemma length_om_erase:
  "om_sorted m \<Longrightarrow> om_find k m = Some v \<Longrightarrow> Suc (length (om_erase k m)) = length m"
proof (induction m)
  case (Cons e m)
  obtain k' w where e: "e = (k', w)" by fastforce
  show ?case
  proof (cases "k' = k")
    case True
    with Cons.prems e have "filter (\<lambda>e. fst e \<noteq> k) m = m" by (intro filter_True) auto
    with True e show ?thesis by (simp add: om_erase_def)
  next
    case False
    with Cons e show ?thesis by (auto simp: om_erase_def split: if_splits)
  qed
qed simp

lemma om_assign_length:
  "om_sorted m \<Longrightarrow> length (om_assign k v m) = (if om_find k m = None then Suc (length m) else length m)"
  by (induction k v m rule: om_assign.induct) auto

section \<open>The paging loop of the services\<close>

text \<open>
  \<open>for (auto &it : storage) { if (o < offset) { o++; continue; } sz++; if (sz > size) break; ... }\<close>
\<close>

fun page_loop :: "nat \<Rightarrow> nat \<Rightarrow> nat \<Rightarrow> nat \<Rightarrow> 'a list \<Rightarrow> 'a list" where
  "page_loop k sz offs n [] = []"
| "page_loop k sz offs n (x # xs) =
     (if k < offs then page_loop (Suc k) sz offs n xs
      else if Suc sz > n then []
      else x # page_loop k (Suc sz) offs n xs)"

lemma page_loop_take: "k \<ge> offs \<Longrightarrow> page_loop k sz offs n xs = take (n - sz) xs"
proof (induction xs arbitrary: sz)
  case (Cons x xs)
  then have "Suc sz \<le> n \<Longrightarrow> n - sz = Suc (n - Suc sz)" by simp
  with Cons show ?case by auto
qed simp

lemma page_loop_eq: "k \<le> offs \<Longrightarrow> page_loop k 0 offs n xs = take n (drop (offs - k) xs)"
proof (induction xs arbitrary: k)
  case (Cons x xs)
  show ?case
  proof (cases "k < offs")
    case True
    then have "offs - k = Suc (offs - Suc k)" by simp
    with True Cons show ?thesis by simp
  next
    case False
    with Cons.prems page_loop_take [of offs k 0 n "x # xs"] show ?thesis by simp
  qed
qed simp

text \<open>The same loop behind a filter that skips entries before they are counted.\<close>

fun filter_page_loop :: "('a \<Rightarrow> bool) \<Rightarrow> nat \<Rightarrow> nat \<Rightarrow> nat \<Rightarrow> nat \<Rightarrow> 'a list \<Rightarrow> 'a list" where
  "filter_page_loop P k sz offs n [] = []"
| "filter_page_loop P k sz offs n (x # xs) =
     (if \<not> P x then filter_page_loop P k sz offs n xs
      else if k < offs then filter_page_loop P (Suc k) sz offs n xs
      else if Suc sz > n then []
      else x # filter_page_loop P k (Suc sz) offs n xs)"

lemma filter_page_loop_eq: "filter_page_loop P k sz offs n xs = page_loop k sz offs n (filter P xs)"
  by (induction xs arbitrary: k sz) auto

lemma concat_pages:
  "n > 0 \<Longrightarrow> concat (map (\<lambda>i. take n (drop (i * n) xs)) [0..<k]) = take (k * n) xs"
proof (induction k)
  case (Suc k)
  have "take (Suc k * n) xs = take (k * n) xs @ take n (drop (k * n) xs)"
    using take_add [of "k * n" n xs] by (simp add: add.commute)
  with Suc show ?case by simp
qed simp

section \<open>The contract of a keyed storage\<close>

datatype ('k, 'v) store_op = Put 'k 'v | Rm 'k

fun store_exec :: "('k \<Rightarrow> 'v \<Rightarrow> 's \<Rightarrow> 's) \<Rightarrow> ('k \<Rightarrow> 's \<Rightarrow> 's) \<Rightarrow> ('k, 'v) store_op \<Rightarrow> 's \<Rightarrow> 's" where
  "store_exec store remove (Put k v) s = store k v s"
| "store_exec store remove (Rm k) s = remove k s"

text \<open>What a history of writes and removals leaves under each key.\<close>

fun store_spec :: "('k, 'v) store_op \<Rightarrow> ('k \<Rightarrow> 'v option) \<Rightarrow> ('k \<Rightarrow> 'v option)" where
  "store_spec (Put k v) m = m(k \<mapsto> v)"
| "store_spec (Rm k) m = m(k := None)"

locale key_store =
  fixes lookup :: "'s \<Rightarrow> 'k \<Rightarrow> 'v option"
    and store :: "'k \<Rightarrow> 'v \<Rightarrow> 's \<Rightarrow> 's"
    and remove :: "'k \<Rightarrow> 's \<Rightarrow> 's"
    and inv :: "'s \<Rightarrow> bool"
    and initial :: 's
  assumes inv_initial: "inv initial"
    and inv_store: "inv s \<Longrightarrow> inv (store k v s)"
    and inv_remove: "inv s \<Longrightarrow> inv (remove k s)"
    and lookup_initial: "lookup initial k = None"
    and lookup_store: "inv s \<Longrightarrow> lookup (store k v s) = (lookup s)(k \<mapsto> v)"
    and lookup_remove: "inv s \<Longrightarrow> lookup (remove k s) = (lookup s)(k := None)"
begin

lemma inv_exec: "inv s \<Longrightarrow> inv (store_exec store remove p s)"
  by (cases p) (simp_all add: inv_store inv_remove)

lemma lookup_exec: "inv s \<Longrightarrow> lookup (store_exec store remove p s) = store_spec p (lookup s)"
  by (cases p) (simp_all add: lookup_store lookup_remove)

lemma history:
  "inv s \<Longrightarrow> inv (fold (store_exec store remove) ps s) \<and>
    lookup (fold (store_exec store remove) ps s) = fold store_spec ps (lookup s)"
  by (induction ps arbitrary: s) (simp_all add: inv_exec lookup_exec)

lemma history_initial:
  "lookup (fold (store_exec store remove) ps initial) = fold store_spec ps Map.empty"
proof -
  have "lookup initial = Map.empty" by (rule ext) (simp add: lookup_initial)
  with history [OF inv_initial] show ?thesis by simp
qed

lemma inv_history: "inv (fold (store_exec store remove) ps initial)"
  using history [OF inv_initial] by simp

lemma store_last_wins: "inv s \<Longrightarrow> lookup (store k v (store k w s)) = lookup (store k v s)"
  by (simp add: lookup_store inv_store)

lemma store_commute:
  "inv s \<Longrightarrow> k \<noteq> l \<Longrightarrow> lookup (store k v (store l w s)) = lookup (store l w (store k v s))"
  by (simp add: lookup_store inv_store fun_upd_twist)

end

interpretation std_map: key_store "\<lambda>m k. om_find k m" om_assign om_erase om_sorted "[]"
  by unfold_locales (auto simp: om_simps fun_eq_iff)

end
