(* ===== verification/Identity_Service.thy ===== *)
theory Identity_Service
  imports Device_Id Ordered_Map
begin

text \<open>
  \<open>MemoryIdentityService\<close> (\<open>lorawan/storage/service/identity-service-mem.cpp\<close>): the
  address-to-device storage, its synchronous operations and the asynchronous ones that report to
  a response client.  An operation returns its code with the new value of its output argument.
\<close>

type_synonym identity_storage = "(DEVADDR, DEVICE_ID) omap"

section \<open>Synchronous operations\<close>

definition ids_get :: "identity_storage \<Rightarrow> DEVICE_ID \<Rightarrow> DEVADDR \<Rightarrow> code \<times> DEVICE_ID" where
  "ids_get storage retVal request =
     (case om_find request storage of
        Some d \<Rightarrow> (CODE_OK, d)
      | None \<Rightarrow> (ERR_CODE_GATEWAY_NOT_FOUND, retVal))"

definition ids_list ::
    "identity_storage \<Rightarrow> NETWORKIDENTITY list \<Rightarrow> u32 \<Rightarrow> u8 \<Rightarrow> code \<times> NETWORKIDENTITY list" where
  "ids_list storage retVal offset sz =
     (CODE_OK, retVal @ map (\<lambda>(a, d). NETWORKIDENTITY_make a d)
        (page_loop 0 0 (unat offset) (unat sz) storage))"

definition ids_size :: "identity_storage \<Rightarrow> nat" where
  "ids_size storage = length storage"

fun ids_getNetworkIdentity ::
    "identity_storage \<Rightarrow> NETWORKIDENTITY \<Rightarrow> DEVEUI \<Rightarrow> code \<times> NETWORKIDENTITY" where
  "ids_getNetworkIdentity [] retVal eui = (ERR_CODE_DEVICE_EUI_NOT_FOUND, retVal)"
| "ids_getNetworkIdentity ((a, d) # storage) retVal eui =
     (if devEUI d = eui then (CODE_OK, retVal\<lparr> ni_devaddr := a, ni_devid := d \<rparr>)
      else ids_getNetworkIdentity storage retVal eui)"

definition ids_put :: "identity_storage \<Rightarrow> DEVADDR \<Rightarrow> DEVICE_ID \<Rightarrow> code \<times> identity_storage" where
  "ids_put storage a d = (CODE_OK, om_assign a d storage)"

definition ids_rm :: "identity_storage \<Rightarrow> DEVADDR \<Rightarrow> code \<times> identity_storage" where
  "ids_rm storage a =
     (case om_find a storage of
        Some _ \<Rightarrow> (CODE_OK, om_erase a storage)
      | None \<Rightarrow> (ERR_CODE_DEVICE_ADDRESS_NOTFOUND, storage))"

definition ids_done :: "identity_storage \<Rightarrow> identity_storage" where
  "ids_done storage = []"

definition ids_next :: "identity_storage \<Rightarrow> NETWORKIDENTITY \<Rightarrow> code \<times> NETWORKIDENTITY" where
  "ids_next storage retVal = (ERR_CODE_ADDR_SPACE_FULL, retVal)"

definition ids_filter ::
    "identity_storage \<Rightarrow> NETWORKIDENTITY list \<Rightarrow> NETWORK_IDENTITY_FILTER list \<Rightarrow> u32 \<Rightarrow> u8 \<Rightarrow>
     code \<times> NETWORKIDENTITY list" where
  "ids_filter storage retVal filters offset sz =
     (CODE_OK, retVal @ map (\<lambda>(a, d). NETWORKIDENTITY_make a d)
        (filter_page_loop (\<lambda>(a, d). isIdentityFilteredV2 a d filters) 0 0
           (unat offset) (unat sz) storage))"

section \<open>Asynchronous imitation\<close>

text \<open>
  The calls on the response client, each with the members of the response that the service
  sets; without a client nothing is called.
\<close>

datatype identity_event =
    OnIdentityGet NETWORKIDENTITY
  | OnIdentityOperation code u8
  | OnIdentityList code u8 "NETWORKIDENTITY list"

definition notify :: "bool \<Rightarrow> identity_event \<Rightarrow> identity_event list" where
  "notify responseClient e = (if responseClient then [e] else [])"

definition NETWORKIDENTITY_default :: NETWORKIDENTITY where
  "NETWORKIDENTITY_default = \<lparr> ni_devaddr = 0, ni_devid = DEVICEID_default \<rparr>"

definition ids_cGet :: "bool \<Rightarrow> identity_storage \<Rightarrow> DEVADDR \<Rightarrow> code \<times> identity_event list" where
  "ids_cGet client storage request =
     (let r = NETWORKIDENTITY_default\<lparr> ni_devaddr := request \<rparr>;
          (_, d) = ids_get storage (ni_devid r) request
      in (CODE_OK, notify client (OnIdentityGet (r\<lparr> ni_devid := d \<rparr>))))"

definition ids_cGetNetworkIdentity :: "bool \<Rightarrow> identity_storage \<Rightarrow> DEVEUI \<Rightarrow> code \<times> identity_event list" where
  "ids_cGetNetworkIdentity client storage eui =
     (let (_, r) = ids_getNetworkIdentity storage NETWORKIDENTITY_default eui
      in (CODE_OK, notify client (OnIdentityGet r)))"

definition ids_cPut ::
    "bool \<Rightarrow> identity_storage \<Rightarrow> DEVADDR \<Rightarrow> DEVICE_ID \<Rightarrow>
     code \<times> identity_event list \<times> identity_storage" where
  "ids_cPut client storage a d =
     (let (response, storage') = ids_put storage a d
      in (CODE_OK, notify client (OnIdentityOperation response 0), storage'))"

definition ids_cRm ::
    "bool \<Rightarrow> identity_storage \<Rightarrow> DEVADDR \<Rightarrow> code \<times> identity_event list \<times> identity_storage" where
  "ids_cRm client storage a =
     (let (response, storage') = ids_rm storage a
      in (CODE_OK, notify client (OnIdentityOperation response 0), storage'))"

definition ids_cList :: "bool \<Rightarrow> identity_storage \<Rightarrow> u32 \<Rightarrow> u8 \<Rightarrow> code \<times> identity_event list" where
  "ids_cList client storage offset sz =
     (let (response, identities) = ids_list storage [] offset sz
      in (CODE_OK, notify client
            (OnIdentityList response (of_nat (length identities)) identities)))"

definition ids_cFilter ::
    "bool \<Rightarrow> identity_storage \<Rightarrow> NETWORK_IDENTITY_FILTER list \<Rightarrow> u32 \<Rightarrow> u8 \<Rightarrow>
     code \<times> identity_event list" where
  "ids_cFilter client storage filters offset sz =
     (let (response, identities) = ids_filter storage [] filters offset sz
      in (CODE_OK, notify client
            (OnIdentityList response (of_nat (length identities)) identities)))"

definition ids_cSize :: "bool \<Rightarrow> identity_storage \<Rightarrow> code \<times> identity_event list" where
  "ids_cSize client storage =
     (CODE_OK, notify client (OnIdentityOperation 0 (of_nat (ids_size storage))))"

definition ids_cNext :: "bool \<Rightarrow> identity_storage \<Rightarrow> code \<times> identity_event list" where
  "ids_cNext client storage =
     (let (_, r) = ids_next storage NETWORKIDENTITY_default
      in (CODE_OK, notify client (OnIdentityGet r)))"

section \<open>The storage contract\<close>

definition ids_lookup :: "identity_storage \<Rightarrow> DEVADDR \<Rightarrow> DEVICE_ID option" where
  "ids_lookup storage a =
     (case ids_get storage DEVICEID_default a of
        (r, d) \<Rightarrow> if r = CODE_OK then Some d else None)"

lemma ids_lookup_find: "ids_lookup storage a = om_find a storage"
  by (simp add: ids_lookup_def ids_get_def split: option.splits)

lemma ids_rm_storage: "snd (ids_rm storage a) = om_erase a storage" if "om_sorted storage"
  using that by (simp add: ids_rm_def om_erase_absent split: option.splits)

interpretation ids_store: key_store ids_lookup "\<lambda>a d s. snd (ids_put s a d)" "\<lambda>a s. snd (ids_rm s a)"
    om_sorted "[]"
  by unfold_locales (auto simp: ids_lookup_find ids_put_def ids_rm_storage om_simps fun_eq_iff)

lemma ids_get_lookup:
  "ids_get storage retVal a =
     (case ids_lookup storage a of Some d \<Rightarrow> (CODE_OK, d) | None \<Rightarrow> (ERR_CODE_GATEWAY_NOT_FOUND, retVal))"
  by (simp add: ids_lookup_find ids_get_def)

section \<open>Paging and search\<close>

lemma ids_list_page:
  "snd (ids_list storage [] offset sz) =
     map (\<lambda>(a, d). NETWORKIDENTITY_make a d) (take (unat sz) (drop (unat offset) storage))"
  by (simp add: ids_list_def page_loop_eq)

lemma ids_filter_page:
  "snd (ids_filter storage [] fs offset sz) =
     map (\<lambda>(a, d). NETWORKIDENTITY_make a d)
       (take (unat sz) (drop (unat offset)
          (filter (\<lambda>(a, d). isIdentityFilteredV2 a d fs) storage)))"
  by (simp add: ids_filter_def filter_page_loop_eq page_loop_eq)

lemma NETWORKIDENTITY_make_eq: "NETWORKIDENTITY_make a d = \<lparr> ni_devaddr = a, ni_devid = d \<rparr>"
  by (simp add: NETWORKIDENTITY_make_def DEVICEID_set_eq)

lemma ids_getNetworkIdentity_find:
  "ids_getNetworkIdentity storage retVal eui =
     (case find (\<lambda>(a, d). devEUI d = eui) storage of
        Some (a, d) \<Rightarrow> (CODE_OK, retVal\<lparr> ni_devaddr := a, ni_devid := d \<rparr>)
      | None \<Rightarrow> (ERR_CODE_DEVICE_EUI_NOT_FOUND, retVal))"
  by (induction storage retVal eui rule: ids_getNetworkIdentity.induct) auto

section \<open>Properties\<close>

text \<open>C38: after any history of insertions and removals, a request for an address answers with
  the device last stored under it and not removed since, and with the error code otherwise.\<close>

theorem identity_service_history:
  "ids_get (fold (store_exec (\<lambda>a d s. snd (ids_put s a d)) (\<lambda>a s. snd (ids_rm s a))) ops []) retVal a =
     (case fold store_spec ops Map.empty a of
        Some d \<Rightarrow> (CODE_OK, d)
      | None \<Rightarrow> (ERR_CODE_GATEWAY_NOT_FOUND, retVal))"
  by (simp only: ids_get_lookup ids_store.history_initial)

text \<open>consecutive pages of a positive size list the whole storage in address order, each
  identity once.\<close>

theorem identity_pages_cover:
  assumes "0 < sz" "k * unat sz < 2 ^ 32"
  shows "concat (map (\<lambda>i. snd (ids_list storage [] (of_nat (i * unat sz)) sz)) [0..<k]) =
    map (\<lambda>(a, d). \<lparr> ni_devaddr = a, ni_devid = d \<rparr>) (take (k * unat sz) storage)"
proof -
  have n: "0 < unat sz" using assms(1) by (simp add: word_less_nat_alt)
  have "unat (of_nat (i * unat sz) :: u32) = i * unat sz" if "i < k" for i
  proof -
    have "i * unat sz \<le> k * unat sz" using that by (intro mult_le_mono1) simp
    also note assms(2)
    finally have "i * unat sz < 2 ^ LENGTH(32)" by simp
    then show ?thesis by (simp only: unat_of_nat mod_less)
  qed
  then have "map (\<lambda>i. snd (ids_list storage [] (of_nat (i * unat sz)) sz)) [0..<k] =
      map (map (\<lambda>(a, d). NETWORKIDENTITY_make a d))
        (map (\<lambda>i. take (unat sz) (drop (i * unat sz) storage)) [0..<k])"
    by (simp add: ids_list_page)
  then show ?thesis
    by (simp only: concat_pages [OF n] NETWORKIDENTITY_make_eq flip: map_concat)
qed

theorem identity_pages_cover_witness:
  "concat (map (\<lambda>i. snd (ids_list [(7, DEVICEID_default), (9, DEVICEID_default)] []
       (of_nat (i * unat (1 :: u8))) 1)) [0..<2]) =
    map (\<lambda>(a, d). \<lparr> ni_devaddr = a, ni_devid = d \<rparr>)
      (take (2 * unat (1 :: u8)) [(7, DEVICEID_default), (9, DEVICEID_default)])"
  by (rule identity_pages_cover) simp_all

text \<open>a page of size zero is empty whatever is stored, and the size reported to a client is
  the number of entries modulo 256.\<close>

theorem identity_size_limits:
  "ids_list storage retVal offset 0 = (CODE_OK, retVal) \<and>
   ids_cSize True storage =
     (CODE_OK, [OnIdentityOperation 0 (of_nat (length storage mod 256))])"
proof -
  have "(of_nat (length storage mod 256) :: u8) = of_nat (length storage)"
    by (simp only: word_unat_eq_iff unat_of_nat) simp
  then show ?thesis
    by (simp add: ids_list_def page_loop_eq ids_cSize_def notify_def ids_size_def)
qed

end
