(* ===== verification/Identity_Binary.thy ===== *)
theory Identity_Binary
  imports Identity_Service
begin

text \<open>
  The binary protocol of the identity service
  (\<open>lorawan/storage/serialization/service-serialization.cpp\<close> and
  \<open>identity-binary-serialization.cpp\<close>): the messages and their bytes, the checks of a
  request, and \<open>query\<close>, which answers a request from an identity service.  Message classes
  are records that extend each other as the classes do.  A constructor from a buffer that is too
  short leaves memory as it is, which is the record it is given; \<open>serialize\<close> is the bytes
  written at \<open>retBuf\<close>.
\<close>

abbreviation (input) ERR_CODE_ACCESS_DENIED :: code where "ERR_CODE_ACCESS_DENIED \<equiv> - 5182"

section \<open>ServiceMessage\<close>

abbreviation (input) SIZE_SERVICE_MESSAGE :: nat where "SIZE_SERVICE_MESSAGE \<equiv> 13"

record ServiceMessage =
  sm_tag :: u8
  sm_code :: u32
  sm_accessCode :: u64

definition ServiceMessage_parse ::
    "'a ServiceMessage_scheme \<Rightarrow> bytes \<Rightarrow> 'a ServiceMessage_scheme" where
  "ServiceMessage_parse m buf =
    (if SIZE_SERVICE_MESSAGE \<le> length buf
     then m\<lparr>sm_tag := buf ! 0, sm_code := from_le (mem_read buf 1 4),
            sm_accessCode := from_le (mem_read buf 5 8)\<rparr>
     else m)"

definition ServiceMessage_ntoh :: "'a ServiceMessage_scheme \<Rightarrow> 'a ServiceMessage_scheme" where
  "ServiceMessage_ntoh m =
    m\<lparr>sm_code := NTOH4 (sm_code m), sm_accessCode := NTOH8 (sm_accessCode m)\<rparr>"

definition ServiceMessage_serialize :: "'a ServiceMessage_scheme \<Rightarrow> bytes" where
  "ServiceMessage_serialize m =
    [sm_tag m] @ le_bytes 4 (sm_code m) @ le_bytes 8 (sm_accessCode m)"

section \<open>Network identities on the wire\<close>

abbreviation (input) SIZE_NETWORK_IDENTITY :: nat where "SIZE_NETWORK_IDENTITY \<equiv> 106"

definition serializeNETWORKIDENTITY :: "NETWORKIDENTITY \<Rightarrow> bytes" where
  "serializeNETWORKIDENTITY r =
    (let d = ni_devid r in
     le_bytes 4 (ni_devaddr r) @ [ucast (activation d)] @ [ucast (deviceclass d)] @
     le_bytes 8 (devEUI d) @ nwkSKey d @ appSKey d @ [version d] @ le_bytes 8 (appEUI d) @
     appKey d @ nwkKey d @ le_bytes 2 (devNonce d) @ joinNonce d @ le_bytes 4 (token d) @
     [region d] @ [subRegion d] @ name d)"

definition deserializeNETWORKIDENTITY :: "bytes \<Rightarrow> NETWORKIDENTITY \<Rightarrow> NETWORKIDENTITY" where
  "deserializeNETWORKIDENTITY buf r =
    r\<lparr>ni_devaddr := from_le (mem_read buf 0 4),
      ni_devid := (ni_devid r)\<lparr>
        activation := ucast (buf ! 4),
        deviceclass := ucast (buf ! 5),
        devEUI := from_le (mem_read buf 6 8),
        nwkSKey := mem_read buf 14 16,
        appSKey := mem_read buf 30 16,
        version := buf ! 46,
        appEUI := from_le (mem_read buf 47 8),
        appKey := mem_read buf 55 16,
        nwkKey := mem_read buf 71 16,
        devNonce := from_le (mem_read buf 87 2),
        joinNonce := mem_read buf 89 3,
        token := from_le (mem_read buf 92 4),
        region := buf ! 96,
        subRegion := buf ! 97,
        name := mem_read buf 98 8\<rparr>\<rparr>"

definition ntohNETWORKIDENTITY :: "NETWORKIDENTITY \<Rightarrow> NETWORKIDENTITY" where
  "ntohNETWORKIDENTITY r =
    r\<lparr>ni_devaddr := NTOH4 (ni_devaddr r),
      ni_devid := (ni_devid r)\<lparr>
        devEUI := NTOH8 (devEUI (ni_devid r)),
        appEUI := NTOH8 (appEUI (ni_devid r)),
        devNonce := NTOH2 (devNonce (ni_devid r)),
        token := NTOH4 (token (ni_devid r))\<rparr>\<rparr>"

section \<open>Requests\<close>

abbreviation (input) QUERY_IDENTITY_NONE :: u8 where "QUERY_IDENTITY_NONE \<equiv> 0"
abbreviation (input) QUERY_IDENTITY_ADDR :: u8 where "QUERY_IDENTITY_ADDR \<equiv> 0x61"
abbreviation (input) QUERY_IDENTITY_EUI :: u8 where "QUERY_IDENTITY_EUI \<equiv> 0x69"
abbreviation (input) QUERY_IDENTITY_LIST :: u8 where "QUERY_IDENTITY_LIST \<equiv> 0x6C"
abbreviation (input) QUERY_IDENTITY_COUNT :: u8 where "QUERY_IDENTITY_COUNT \<equiv> 0x63"
abbreviation (input) QUERY_IDENTITY_NEXT :: u8 where "QUERY_IDENTITY_NEXT \<equiv> 0x6E"
abbreviation (input) QUERY_IDENTITY_ASSIGN :: u8 where "QUERY_IDENTITY_ASSIGN \<equiv> 0x70"
abbreviation (input) QUERY_IDENTITY_RM :: u8 where "QUERY_IDENTITY_RM \<equiv> 0x72"
abbreviation (input) QUERY_IDENTITY_FORCE_SAVE :: u8 where "QUERY_IDENTITY_FORCE_SAVE \<equiv> 0x73"
abbreviation (input) QUERY_IDENTITY_CLOSE_RESOURCES :: u8
  where "QUERY_IDENTITY_CLOSE_RESOURCES \<equiv> 0x65"

abbreviation (input) SIZE_OPERATION_REQUEST :: nat where "SIZE_OPERATION_REQUEST \<equiv> 18"
abbreviation (input) SIZE_OPERATION_RESPONSE :: nat where "SIZE_OPERATION_RESPONSE \<equiv> 22"
abbreviation (input) SIZE_DEVICE_EUI_REQUEST :: nat where "SIZE_DEVICE_EUI_REQUEST \<equiv> 21"
abbreviation (input) SIZE_DEVICE_ADDR_REQUEST :: nat where "SIZE_DEVICE_ADDR_REQUEST \<equiv> 17"
abbreviation (input) SIZE_ASSIGN_REQUEST :: nat where "SIZE_ASSIGN_REQUEST \<equiv> 119"
abbreviation (input) SIZE_GET_RESPONSE :: nat where "SIZE_GET_RESPONSE \<equiv> 119"

record IdentityEUIRequest = ServiceMessage +
  ier_eui :: DEVEUI

definition IdentityEUIRequest_parse :: "IdentityEUIRequest \<Rightarrow> bytes \<Rightarrow> IdentityEUIRequest" where
  "IdentityEUIRequest_parse m buf =
    (let m = ServiceMessage_parse m buf in
     if SIZE_DEVICE_EUI_REQUEST \<le> length buf
     then m\<lparr>ier_eui := from_le (mem_read buf SIZE_SERVICE_MESSAGE 8)\<rparr> else m)"

definition IdentityEUIRequest_ntoh :: "IdentityEUIRequest \<Rightarrow> IdentityEUIRequest" where
  "IdentityEUIRequest_ntoh m = (ServiceMessage_ntoh m)\<lparr>ier_eui := NTOH8 (ier_eui m)\<rparr>"

definition IdentityEUIRequest_serialize :: "IdentityEUIRequest \<Rightarrow> bytes" where
  "IdentityEUIRequest_serialize m = ServiceMessage_serialize m @ le_bytes 8 (ier_eui m)"

record IdentityAddrRequest = ServiceMessage +
  iar_addr :: DEVADDR

definition IdentityAddrRequest_parse :: "IdentityAddrRequest \<Rightarrow> bytes \<Rightarrow> IdentityAddrRequest" where
  "IdentityAddrRequest_parse m buf =
    (let m = ServiceMessage_parse m buf in
     if SIZE_DEVICE_ADDR_REQUEST \<le> length buf
     then m\<lparr>iar_addr := from_le (mem_read buf SIZE_SERVICE_MESSAGE 4)\<rparr> else m)"

definition IdentityAddrRequest_ntoh :: "IdentityAddrRequest \<Rightarrow> IdentityAddrRequest" where
  "IdentityAddrRequest_ntoh m = (ServiceMessage_ntoh m)\<lparr>iar_addr := NTOH4 (iar_addr m)\<rparr>"

definition IdentityAddrRequest_serialize :: "IdentityAddrRequest \<Rightarrow> bytes" where
  "IdentityAddrRequest_serialize m = ServiceMessage_serialize m @ le_bytes 4 (iar_addr m)"

record IdentityAssignRequest = ServiceMessage +
  ias_identity :: NETWORKIDENTITY

definition IdentityAssignRequest_parse :: "IdentityAssignRequest \<Rightarrow> bytes \<Rightarrow> IdentityAssignRequest" where
  "IdentityAssignRequest_parse m buf =
    (let m = ServiceMessage_parse m buf in
     if SIZE_ASSIGN_REQUEST \<le> length buf
     then m\<lparr>ias_identity :=
       deserializeNETWORKIDENTITY (drop SIZE_SERVICE_MESSAGE buf) (ias_identity m)\<rparr> else m)"

text \<open>Only the address and the device identifier of the identity change their byte order.\<close>

definition IdentityAssignRequest_ntoh :: "IdentityAssignRequest \<Rightarrow> IdentityAssignRequest" where
  "IdentityAssignRequest_ntoh m =
    (let i = ias_identity m in
     (ServiceMessage_ntoh m)\<lparr>ias_identity :=
       i\<lparr>ni_devaddr := NTOH4 (ni_devaddr i),
         ni_devid := (ni_devid i)\<lparr>devEUI := NTOH8 (devEUI (ni_devid i))\<rparr>\<rparr>\<rparr>)"

definition IdentityAssignRequest_serialize :: "IdentityAssignRequest \<Rightarrow> bytes" where
  "IdentityAssignRequest_serialize m =
    ServiceMessage_serialize m @ serializeNETWORKIDENTITY (ias_identity m)"

record IdentityOperationRequest = ServiceMessage +
  iop_offset :: u32
  iop_size :: u8

definition IdentityOperationRequest_parse ::
    "'a IdentityOperationRequest_scheme \<Rightarrow> bytes \<Rightarrow> 'a IdentityOperationRequest_scheme" where
  "IdentityOperationRequest_parse m buf =
    (let m = ServiceMessage_parse m buf in
     if SIZE_OPERATION_REQUEST \<le> length buf
     then m\<lparr>iop_offset := from_le (mem_read buf SIZE_SERVICE_MESSAGE 4), iop_size := buf ! 17\<rparr>
     else m)"

definition IdentityOperationRequest_ntoh ::
    "'a IdentityOperationRequest_scheme \<Rightarrow> 'a IdentityOperationRequest_scheme" where
  "IdentityOperationRequest_ntoh m = (ServiceMessage_ntoh m)\<lparr>iop_offset := NTOH4 (iop_offset m)\<rparr>"

definition IdentityOperationRequest_serialize :: "'a IdentityOperationRequest_scheme \<Rightarrow> bytes" where
  "IdentityOperationRequest_serialize m =
    ServiceMessage_serialize m @ le_bytes 4 (iop_offset m) @ [iop_size m]"

section \<open>Responses\<close>

record IdentityGetResponse = ServiceMessage +
  igr_response :: NETWORKIDENTITY

definition IdentityGetResponse_addr :: "IdentityAddrRequest \<Rightarrow> IdentityGetResponse" where
  "IdentityGetResponse_addr req =
    \<lparr>sm_tag = sm_tag req, sm_code = sm_code req, sm_accessCode = sm_accessCode req,
     igr_response = NETWORKIDENTITY_addr (iar_addr req)\<rparr>"

definition IdentityGetResponse_eui :: "IdentityEUIRequest \<Rightarrow> IdentityGetResponse" where
  "IdentityGetResponse_eui req =
    \<lparr>sm_tag = sm_tag req, sm_code = sm_code req, sm_accessCode = sm_accessCode req,
     igr_response = NETWORKIDENTITY_devid (DEVICEID_eui (ier_eui req))\<rparr>"

definition IdentityGetResponse_parse :: "IdentityGetResponse \<Rightarrow> bytes \<Rightarrow> IdentityGetResponse" where
  "IdentityGetResponse_parse m buf =
    (let m = ServiceMessage_parse m buf in
     if SIZE_GET_RESPONSE \<le> length buf
     then m\<lparr>igr_response :=
       deserializeNETWORKIDENTITY (drop SIZE_SERVICE_MESSAGE buf) (igr_response m)\<rparr> else m)"

definition IdentityGetResponse_ntoh :: "IdentityGetResponse \<Rightarrow> IdentityGetResponse" where
  "IdentityGetResponse_ntoh m =
    (ServiceMessage_ntoh m)\<lparr>igr_response := ntohNETWORKIDENTITY (igr_response m)\<rparr>"

definition IdentityGetResponse_serialize :: "IdentityGetResponse \<Rightarrow> bytes" where
  "IdentityGetResponse_serialize m =
    ServiceMessage_serialize m @ serializeNETWORKIDENTITY (igr_response m)"

record IdentityOperationResponse = IdentityOperationRequest +
  ior_response :: u32

definition IdentityOperationResponse_default :: IdentityOperationResponse where
  "IdentityOperationResponse_default =
    \<lparr>sm_tag = QUERY_IDENTITY_LIST, sm_code = 0, sm_accessCode = 0, iop_offset = 0, iop_size = 0,
     ior_response = 0\<rparr>"

definition IdentityOperationResponse_parse ::
    "'a IdentityOperationResponse_scheme \<Rightarrow> bytes \<Rightarrow> 'a IdentityOperationResponse_scheme" where
  "IdentityOperationResponse_parse m buf =
    (let m = IdentityOperationRequest_parse m buf in
     if SIZE_OPERATION_RESPONSE \<le> length buf
     then m\<lparr>ior_response := from_le (mem_read buf SIZE_OPERATION_REQUEST 4)\<rparr> else m)"

definition IdentityOperationResponse_of :: "'a ServiceMessage_scheme \<Rightarrow> IdentityOperationResponse" where
  "IdentityOperationResponse_of req =
    \<lparr>sm_tag = sm_tag req, sm_code = sm_code req, sm_accessCode = sm_accessCode req,
     iop_offset = 0, iop_size = 0, ior_response = 0\<rparr>"

definition IdentityOperationResponse_op :: "IdentityOperationRequest \<Rightarrow> IdentityOperationResponse" where
  "IdentityOperationResponse_op req =
    \<lparr>sm_tag = sm_tag req, sm_code = sm_code req, sm_accessCode = sm_accessCode req,
     iop_offset = iop_offset req, iop_size = iop_size req, ior_response = 0\<rparr>"

definition IdentityOperationResponse_ntoh ::
    "'a IdentityOperationResponse_scheme \<Rightarrow> 'a IdentityOperationResponse_scheme" where
  "IdentityOperationResponse_ntoh m =
    (IdentityOperationRequest_ntoh m)\<lparr>ior_response := NTOH4 (ior_response m)\<rparr>"

definition IdentityOperationResponse_serialize :: "'a IdentityOperationResponse_scheme \<Rightarrow> bytes" where
  "IdentityOperationResponse_serialize m =
    IdentityOperationRequest_serialize m @ le_bytes 4 (ior_response m)"

record IdentityListResponse = IdentityOperationResponse +
  ilr_identities :: "NETWORKIDENTITY list"

text \<open>The copy constructor copies the base class and leaves the list empty.\<close>

definition IdentityListResponse_copy :: "IdentityListResponse \<Rightarrow> IdentityListResponse" where
  "IdentityListResponse_copy m = m\<lparr>ilr_identities := []\<rparr>"

definition IdentityListResponse_op :: "IdentityOperationRequest \<Rightarrow> IdentityListResponse" where
  "IdentityListResponse_op req =
    IdentityOperationResponse.extend (IdentityOperationResponse_op req)
      (IdentityListResponse.fields [])"

fun identity_list_loop :: "bytes \<Rightarrow> NETWORKIDENTITY list" where
  "identity_list_loop buf =
    (if length buf < SIZE_NETWORK_IDENTITY then []
     else deserializeNETWORKIDENTITY buf NETWORKIDENTITY_default #
       identity_list_loop (drop SIZE_NETWORK_IDENTITY buf))"

declare identity_list_loop.simps [simp del]

definition IdentityListResponse_parse :: "IdentityListResponse \<Rightarrow> bytes \<Rightarrow> IdentityListResponse" where
  "IdentityListResponse_parse m buf =
    (let m = IdentityOperationResponse_parse m buf;
         ids = identity_list_loop (drop SIZE_OPERATION_RESPONSE buf)
     in m\<lparr>ilr_identities := ids, ior_response := of_nat (length ids)\<rparr>)"

definition IdentityListResponse_ntoh :: "IdentityListResponse \<Rightarrow> IdentityListResponse" where
  "IdentityListResponse_ntoh m =
    (IdentityOperationResponse_ntoh m)\<lparr>ilr_identities := map ntohNETWORKIDENTITY (ilr_identities m)\<rparr>"

definition IdentityListResponse_serialize :: "IdentityListResponse \<Rightarrow> bytes" where
  "IdentityListResponse_serialize m =
    IdentityOperationResponse_serialize m @ concat (map serializeNETWORKIDENTITY (ilr_identities m))"

text \<open>\<open>serialize(nullptr)\<close>\<close>

definition IdentityListResponse_size :: "IdentityListResponse \<Rightarrow> nat" where
  "IdentityListResponse_size m =
    SIZE_OPERATION_RESPONSE + SIZE_NETWORK_IDENTITY * length (ilr_identities m)"

function shortenList2Fit :: "nat \<Rightarrow> IdentityListResponse \<Rightarrow> IdentityListResponse" where
  "shortenList2Fit serializedSize m =
    (if ilr_identities m \<noteq> [] \<and> serializedSize < IdentityListResponse_size m
     then shortenList2Fit serializedSize (m\<lparr>ilr_identities := butlast (ilr_identities m)\<rparr>)
     else m)"
  by pat_completeness auto
termination
  by (relation "measure (\<lambda>(_, m). length (ilr_identities m))") auto

declare shortenList2Fit.simps [simp del]

section \<open>Recognising requests\<close>

datatype identity_message =
    M_EUI IdentityEUIRequest
  | M_Addr IdentityAddrRequest
  | M_Assign IdentityAssignRequest
  | M_Operation IdentityOperationRequest

text \<open>
  \<open>deserializeIdentity\<close>: \<open>junk\<close> is what the allocated message holds before its
  constructor reads the buffer.
\<close>

definition deserializeIdentity :: "IdentityOperationRequest \<Rightarrow> bytes \<Rightarrow> identity_message option" where
  "deserializeIdentity junk buf =
    (let base = ServiceMessage.truncate junk;
         eui = ServiceMessage.extend base (IdentityEUIRequest.fields 0);
         addr = ServiceMessage.extend base (IdentityAddrRequest.fields 0);
         assign = ServiceMessage.extend base (IdentityAssignRequest.fields NETWORKIDENTITY_default);
         op = M_Operation (IdentityOperationRequest_ntoh (IdentityOperationRequest_parse junk buf))
     in
     if length buf < SIZE_SERVICE_MESSAGE then None
     else if buf ! 0 = QUERY_IDENTITY_ADDR then
       (if length buf < SIZE_DEVICE_EUI_REQUEST then None
        else Some (M_EUI (IdentityEUIRequest_ntoh (IdentityEUIRequest_parse eui buf))))
     else if buf ! 0 = QUERY_IDENTITY_EUI then
       (if length buf < SIZE_DEVICE_ADDR_REQUEST then None
        else Some (M_Addr (IdentityAddrRequest_ntoh (IdentityAddrRequest_parse addr buf))))
     else if buf ! 0 = QUERY_IDENTITY_ASSIGN then
       (if length buf < SIZE_ASSIGN_REQUEST then None
        else Some (M_Assign (IdentityAssignRequest_ntoh (IdentityAssignRequest_parse assign buf))))
     else if buf ! 0 = QUERY_IDENTITY_RM then
       (if length buf < SIZE_DEVICE_ADDR_REQUEST then None
        else Some (M_Addr (IdentityAddrRequest_ntoh (IdentityAddrRequest_parse addr buf))))
     else if buf ! 0 = QUERY_IDENTITY_LIST then
       (if length buf < SIZE_OPERATION_REQUEST then None else Some op)
     else if buf ! 0 = QUERY_IDENTITY_COUNT then
       (if length buf < SIZE_OPERATION_REQUEST then None else Some op)
     else if buf ! 0 = QUERY_IDENTITY_NEXT then
       (if length buf < SIZE_OPERATION_REQUEST then None else Some op)
     else if buf ! 0 = QUERY_IDENTITY_FORCE_SAVE then
       (if length buf < SIZE_OPERATION_REQUEST then None else Some op)
     else if buf ! 0 = QUERY_IDENTITY_CLOSE_RESOURCES then
       (if length buf < SIZE_OPERATION_REQUEST then None else Some op)
     else None)"

definition sized_tag :: "bytes \<Rightarrow> nat \<Rightarrow> u8 \<Rightarrow> u8" where
  "sized_tag buf n t = (if length buf < n then QUERY_IDENTITY_NONE else t)"

definition validateIdentityQuery :: "bytes \<Rightarrow> u8" where
  "validateIdentityQuery buf =
    (if length buf = 0 then QUERY_IDENTITY_NONE
     else let t = buf ! 0 in
       if t = QUERY_IDENTITY_ADDR then sized_tag buf SIZE_DEVICE_EUI_REQUEST t
       else if t = QUERY_IDENTITY_EUI then sized_tag buf SIZE_DEVICE_ADDR_REQUEST t
       else if t = QUERY_IDENTITY_ASSIGN then sized_tag buf SIZE_DEVICE_ADDR_REQUEST t
       else if t = QUERY_IDENTITY_RM then sized_tag buf SIZE_DEVICE_ADDR_REQUEST t
       else if t = QUERY_IDENTITY_LIST then sized_tag buf SIZE_OPERATION_REQUEST t
       else if t = QUERY_IDENTITY_COUNT then sized_tag buf SIZE_OPERATION_REQUEST t
       else if t = QUERY_IDENTITY_NEXT then sized_tag buf SIZE_OPERATION_REQUEST t
       else if t = QUERY_IDENTITY_FORCE_SAVE then sized_tag buf SIZE_OPERATION_REQUEST t
       else if t = QUERY_IDENTITY_CLOSE_RESOURCES then sized_tag buf SIZE_OPERATION_REQUEST t
       else QUERY_IDENTITY_NONE)"

definition validateIdentityResponse :: "bytes \<Rightarrow> u8" where
  "validateIdentityResponse buf =
    (if length buf = 0 then QUERY_IDENTITY_NONE
     else let t = buf ! 0 in
       if t = QUERY_IDENTITY_ADDR then sized_tag buf SIZE_GET_RESPONSE t
       else if t = QUERY_IDENTITY_EUI then sized_tag buf SIZE_GET_RESPONSE t
       else if t = QUERY_IDENTITY_ASSIGN then sized_tag buf SIZE_OPERATION_RESPONSE t
       else if t = QUERY_IDENTITY_RM then sized_tag buf SIZE_OPERATION_RESPONSE t
       else if t = QUERY_IDENTITY_LIST then sized_tag buf SIZE_GET_RESPONSE t
       else if t = QUERY_IDENTITY_COUNT then sized_tag buf SIZE_OPERATION_RESPONSE t
       else if t = QUERY_IDENTITY_NEXT then sized_tag buf SIZE_OPERATION_RESPONSE t
       else if t = QUERY_IDENTITY_FORCE_SAVE then sized_tag buf SIZE_OPERATION_RESPONSE t
       else if t = QUERY_IDENTITY_CLOSE_RESOURCES then sized_tag buf SIZE_OPERATION_RESPONSE t
       else QUERY_IDENTITY_NONE)"

definition isIdentityTag :: "bytes \<Rightarrow> bool" where
  "isIdentityTag buf \<longleftrightarrow> length buf \<noteq> 0 \<and>
    buf ! 0 \<in> {QUERY_IDENTITY_ADDR, QUERY_IDENTITY_EUI, QUERY_IDENTITY_LIST, QUERY_IDENTITY_COUNT,
      QUERY_IDENTITY_ASSIGN, QUERY_IDENTITY_RM, QUERY_IDENTITY_FORCE_SAVE,
      QUERY_IDENTITY_CLOSE_RESOURCES}"

definition getMaxIdentityListResponseSize :: "nat \<Rightarrow> nat" where
  "getMaxIdentityListResponseSize n = SIZE_OPERATION_RESPONSE + n * SIZE_NETWORK_IDENTITY"

definition responseSizeForIdentityRequest :: "IdentityOperationRequest \<Rightarrow> bytes \<Rightarrow> nat" where
  "responseSizeForIdentityRequest junk buf =
    (let tag = validateIdentityQuery buf in
     if tag = QUERY_IDENTITY_ADDR \<or> tag = QUERY_IDENTITY_EUI then SIZE_GET_RESPONSE
     else if tag = QUERY_IDENTITY_LIST then
       getMaxIdentityListResponseSize (unat (iop_size (IdentityOperationRequest_parse junk buf)))
     else SIZE_OPERATION_RESPONSE)"

section \<open>Answering a request\<close>

text \<open>The virtual functions of \<open>IdentityService\<close> that \<open>query\<close> calls, on a state \<open>'s\<close>.\<close>

record 's IdentityService =
  svc_get :: "'s \<Rightarrow> DEVICE_ID \<Rightarrow> DEVADDR \<Rightarrow> code \<times> DEVICE_ID"
  svc_getNetworkIdentity :: "'s \<Rightarrow> NETWORKIDENTITY \<Rightarrow> DEVEUI \<Rightarrow> code \<times> NETWORKIDENTITY"
  svc_put :: "'s \<Rightarrow> DEVADDR \<Rightarrow> DEVICE_ID \<Rightarrow> code \<times> 's"
  svc_rm :: "'s \<Rightarrow> DEVADDR \<Rightarrow> code \<times> 's"
  svc_list :: "'s \<Rightarrow> NETWORKIDENTITY list \<Rightarrow> u32 \<Rightarrow> u8 \<Rightarrow> code \<times> NETWORKIDENTITY list"
  svc_size :: "'s \<Rightarrow> nat"
  svc_next :: "'s \<Rightarrow> NETWORKIDENTITY \<Rightarrow> code \<times> NETWORKIDENTITY"

definition MemoryIdentityService :: "identity_storage IdentityService" where
  "MemoryIdentityService =
    \<lparr>svc_get = ids_get, svc_getNetworkIdentity = ids_getNetworkIdentity, svc_put = ids_put,
     svc_rm = ids_rm, svc_list = ids_list, svc_size = ids_size, svc_next = ids_next\<rparr>"

definition answer_get :: "IdentityGetResponse \<Rightarrow> bytes" where
  "answer_get r = IdentityGetResponse_serialize (IdentityGetResponse_ntoh r)"

definition answer_op :: "IdentityOperationResponse \<Rightarrow> bytes" where
  "answer_op r = IdentityOperationResponse_serialize (IdentityOperationResponse_ntoh r)"

definition answer_list :: "IdentityListResponse \<Rightarrow> bytes" where
  "answer_list r = IdentityListResponse_serialize (IdentityListResponse_ntoh r)"

definition query_ADDR :: "'s IdentityService \<Rightarrow> 's \<Rightarrow> IdentityEUIRequest \<Rightarrow> bytes" where
  "query_ADDR svc s gr =
    (let r = IdentityGetResponse_eui gr;
         i = (igr_response r)\<lparr>ni_devid := (ni_devid (igr_response r))\<lparr>devEUI := ier_eui gr\<rparr>\<rparr>;
         (errCode, i) =
           (if isDEVADDREmpty (ni_devaddr i)
            then svc_getNetworkIdentity svc s i (devEUI (ni_devid i))
            else let (e, d) = svc_get svc s (ni_devid i) (ni_devaddr i) in (e, i\<lparr>ni_devid := d\<rparr>));
         i = (if errCode \<noteq> 0 then i\<lparr>ni_devid := (ni_devid i)\<lparr>devEUI := 0\<rparr>\<rparr> else i)
     in answer_get (r\<lparr>igr_response := i\<rparr>))"

definition query_EUI :: "'s IdentityService \<Rightarrow> 's \<Rightarrow> IdentityAddrRequest \<Rightarrow> bytes" where
  "query_EUI svc s gr =
    (let r = IdentityGetResponse_addr gr;
         i = (igr_response r)\<lparr>ni_devaddr := iar_addr gr\<rparr>;
         (_, d) = svc_get svc s (ni_devid i) (ni_devaddr i)
     in answer_get (r\<lparr>igr_response := i\<lparr>ni_devid := d\<rparr>\<rparr>))"

definition query_ASSIGN :: "'s IdentityService \<Rightarrow> 's \<Rightarrow> IdentityAssignRequest \<Rightarrow> bytes \<times> 's" where
  "query_ASSIGN svc s gr =
    (let r = IdentityOperationResponse_of gr;
         (c, s') = svc_put svc s (ni_devaddr (ias_identity gr)) (ni_devid (ias_identity gr));
         r = r\<lparr>ior_response := word_of_int c\<rparr>;
         r = (if ior_response r = 0 then r\<lparr>iop_size := 1\<rparr> else r)
     in (answer_op r, s'))"

definition query_RM :: "'s IdentityService \<Rightarrow> 's \<Rightarrow> IdentityAddrRequest \<Rightarrow> bytes \<times> 's" where
  "query_RM svc s gr =
    (let r = IdentityOperationResponse_of gr;
         (c, s') = svc_rm svc s (iar_addr gr);
         r = r\<lparr>ior_response := word_of_int c\<rparr>;
         r = (if ior_response r = 0 then r\<lparr>iop_size := 1\<rparr> else r)
     in (answer_op r, s'))"

definition query_LIST :: "'s IdentityService \<Rightarrow> 's \<Rightarrow> nat \<Rightarrow> IdentityOperationRequest \<Rightarrow> bytes" where
  "query_LIST svc s retSize gr =
    (let r = IdentityListResponse_op gr;
         (c, ids) = svc_list svc s (ilr_identities r) (iop_offset gr) (iop_size gr);
         r = r\<lparr>ilr_identities := ids, ior_response := word_of_int c\<rparr>;
         serSize = SIZE_OPERATION_RESPONSE + length (ilr_identities r) * SIZE_NETWORK_IDENTITY
     in
     if retSize < serSize then
       (let r = shortenList2Fit retSize r in
        if retSize < IdentityListResponse_size r then [] else answer_list r)
     else answer_list r)"

text \<open>The two copies of \<open>query\<close> differ in the width of the count.\<close>

definition query_COUNT ::
    "(nat \<Rightarrow> u32) \<Rightarrow> 's IdentityService \<Rightarrow> 's \<Rightarrow> IdentityOperationRequest \<Rightarrow> bytes" where
  "query_COUNT cast svc s gr =
    answer_op ((IdentityOperationResponse_op gr)
      \<lparr>sm_tag := sm_tag gr, sm_code := word_of_int CODE_OK, sm_accessCode := sm_accessCode gr,
       ior_response := cast (svc_size svc s)\<rparr>)"

definition query_NEXT :: "'s IdentityService \<Rightarrow> 's \<Rightarrow> IdentityOperationRequest \<Rightarrow> bytes" where
  "query_NEXT svc s gr =
    (let (_, ni) = svc_next svc s NETWORKIDENTITY_default
     in answer_get \<lparr>sm_tag = sm_tag gr, sm_code = word_of_int CODE_OK,
                    sm_accessCode = sm_accessCode gr, igr_response = ni\<rparr>)"

definition access_denied :: bytes where
  "access_denied =
    answer_op (IdentityOperationResponse_default\<lparr>sm_code := word_of_int ERR_CODE_ACCESS_DENIED\<rparr>)"

fun message_header :: "identity_message \<Rightarrow> ServiceMessage" where
  "message_header (M_EUI m) = ServiceMessage.truncate m"
| "message_header (M_Addr m) = ServiceMessage.truncate m"
| "message_header (M_Assign m) = ServiceMessage.truncate m"
| "message_header (M_Operation m) = ServiceMessage.truncate m"

text \<open>
  The request is dispatched on its first byte; the message was built for that byte, so a cast
  to another class does not occur.
\<close>

definition identity_dispatch ::
    "(nat \<Rightarrow> u32) \<Rightarrow> 's IdentityService \<Rightarrow> 's \<Rightarrow> nat \<Rightarrow> u8 \<Rightarrow> identity_message \<Rightarrow> bytes \<times> 's" where
  "identity_dispatch cast svc s retSize tag msg =
    (case msg of
       M_EUI gr \<Rightarrow> (query_ADDR svc s gr, s)
     | M_Addr gr \<Rightarrow> if tag = QUERY_IDENTITY_RM then query_RM svc s gr else (query_EUI svc s gr, s)
     | M_Assign gr \<Rightarrow> query_ASSIGN svc s gr
     | M_Operation gr \<Rightarrow>
         if tag = QUERY_IDENTITY_LIST then (query_LIST svc s retSize gr, s)
         else if tag = QUERY_IDENTITY_COUNT then (query_COUNT cast svc s gr, s)
         else if tag = QUERY_IDENTITY_NEXT then (query_NEXT svc s gr, s)
         else ([], s))"

definition identity_query ::
    "(nat \<Rightarrow> u32) \<Rightarrow> 's IdentityService option \<Rightarrow> u32 \<Rightarrow> u64 \<Rightarrow> IdentityOperationRequest \<Rightarrow> 's \<Rightarrow> nat \<Rightarrow>
     bytes \<Rightarrow> bytes \<times> 's" where
  "identity_query cast svc code accessCode junk s retSize request =
    (case svc of None \<Rightarrow> ([], s)
     | Some svc \<Rightarrow>
         if length request < SIZE_SERVICE_MESSAGE then ([], s)
         else case deserializeIdentity junk request of None \<Rightarrow> ([], s)
         | Some msg \<Rightarrow>
             if sm_code (message_header msg) \<noteq> code \<or> sm_accessCode (message_header msg) \<noteq> accessCode
             then (access_denied, s)
             else identity_dispatch cast svc s retSize (request ! 0) msg)"

definition IdentitySerialization_query ::
    "'s IdentityService option \<Rightarrow> u32 \<Rightarrow> u64 \<Rightarrow> IdentityOperationRequest \<Rightarrow> 's \<Rightarrow> nat \<Rightarrow> bytes \<Rightarrow> bytes \<times> 's"
  where "IdentitySerialization_query = identity_query of_nat"

definition IdentityBinarySerialization_query ::
    "'s IdentityService option \<Rightarrow> u32 \<Rightarrow> u64 \<Rightarrow> IdentityOperationRequest \<Rightarrow> 's \<Rightarrow> nat \<Rightarrow> bytes \<Rightarrow> bytes \<times> 's"
  where "IdentityBinarySerialization_query = identity_query (\<lambda>n. ucast (of_nat n :: u8))"

section \<open>Reading back what was written\<close>

named_theorems wire_simps \<open>messages and their bytes\<close>

declare NTOH_twice [simp]

lemma ntoh_twice [simp]: "ntohNETWORKIDENTITY (ntohNETWORKIDENTITY i) = i"
  by (simp add: ntohNETWORKIDENTITY_def)

definition wf_identity :: "NETWORKIDENTITY \<Rightarrow> bool" where
  "wf_identity i \<longleftrightarrow> wf_device (ni_devid i)"

lemma wf_identity_ntoh [simp]: "wf_identity (ntohNETWORKIDENTITY i) = wf_identity i"
  by (simp add: wf_identity_def wf_device_def ntohNETWORKIDENTITY_def)

lemma wf_identity_keys:
  assumes "wf_identity i"
  shows "length (nwkSKey (ni_devid i)) = 16" "length (appSKey (ni_devid i)) = 16"
    "length (appKey (ni_devid i)) = 16" "length (nwkKey (ni_devid i)) = 16"
    "length (joinNonce (ni_devid i)) = 3" "length (name (ni_devid i)) = 8"
    "activation (ni_devid i) < 256" "deviceclass (ni_devid i) < 256"
  using assms by (simp_all add: wf_identity_def wf_device_def wf_KEY128_def)

lemma length_serializeNETWORKIDENTITY [simp]:
  "wf_identity i \<Longrightarrow> length (serializeNETWORKIDENTITY i) = 106"
  by (simp add: serializeNETWORKIDENTITY_def wf_identity_keys Let_def)

lemma length_ServiceMessage [simp]: "length (ServiceMessage_serialize m) = 13"
  by (simp add: ServiceMessage_serialize_def)

lemma ucast_low: "v < 256 \<Longrightarrow> ucast (ucast (v::u32) :: u8) = v"
proof -
  assume "v < 256"
  then obtain w where "v = take_bit 8 w" using take_bit_of_less [of v 8 thesis] by auto
  then show ?thesis by (auto intro!: bit_word_eqI simp: bit_simps)
qed

lemma mem_read_skip:
  "length xs \<le> off \<Longrightarrow> mem_read (xs @ ys) off n = mem_read ys (off - length xs) n"
  by (simp add: mem_read_def)

lemma mem_read_head: "length xs = n \<Longrightarrow> mem_read (xs @ ys) 0 n = xs"
  by (simp add: mem_read_def)

lemma mem_read_cons: "mem_read (x # xs) off n = (if off = 0 then take n (x # xs) else mem_read xs (off - 1) n)"
  by (simp add: mem_read_def drop_Cons')

lemma deserialize_serialize [wire_simps]:
  assumes "wf_identity i"
  shows "deserializeNETWORKIDENTITY (serializeNETWORKIDENTITY i @ rest) j = i"
proof -
  note k = wf_identity_keys [OF assms]
  show ?thesis
    by (simp add: deserializeNETWORKIDENTITY_def serializeNETWORKIDENTITY_def Let_def
      mem_read_skip mem_read_head mem_read_cons nth_append k ucast_low from_le_le_bytes)
qed

lemma ServiceMessage_parse_serialize [wire_simps]:
  "ServiceMessage_parse j (ServiceMessage_serialize m @ rest) =
    j\<lparr>sm_tag := sm_tag m, sm_code := sm_code m, sm_accessCode := sm_accessCode m\<rparr>"
  by (simp add: ServiceMessage_parse_def ServiceMessage_serialize_def mem_read_def from_le_le_bytes)

lemma header_fields [simp]:
  "sm_tag (ServiceMessage_ntoh m) = sm_tag m"
  "ServiceMessage_serialize m ! 0 = sm_tag m"
  "(ServiceMessage_serialize m @ rest) ! 0 = sm_tag m"
  by (simp_all add: ServiceMessage_ntoh_def ServiceMessage_serialize_def)

lemma EUI_parse_serialize [wire_simps]:
  "IdentityEUIRequest_parse j (IdentityEUIRequest_serialize m @ rest) = m"
  by (simp add: IdentityEUIRequest_parse_def IdentityEUIRequest_serialize_def Let_def wire_simps
    mem_read_skip mem_read_head from_le_le_bytes)

lemma Addr_parse_serialize [wire_simps]:
  "IdentityAddrRequest_parse j (IdentityAddrRequest_serialize m @ rest) = m"
  by (simp add: IdentityAddrRequest_parse_def IdentityAddrRequest_serialize_def Let_def wire_simps
    mem_read_skip mem_read_head from_le_le_bytes)

lemma Assign_parse_serialize [wire_simps]:
  "wf_identity (ias_identity m) \<Longrightarrow>
   IdentityAssignRequest_parse j (IdentityAssignRequest_serialize m @ rest) = m"
  by (simp add: IdentityAssignRequest_parse_def IdentityAssignRequest_serialize_def Let_def wire_simps)

lemma Operation_parse_serialize [wire_simps]:
  "IdentityOperationRequest_parse j (IdentityOperationRequest_serialize m @ rest) =
    j\<lparr>sm_tag := sm_tag m, sm_code := sm_code m, sm_accessCode := sm_accessCode m,
      iop_offset := iop_offset m, iop_size := iop_size m\<rparr>"
  by (simp add: IdentityOperationRequest_parse_def IdentityOperationRequest_serialize_def Let_def
    wire_simps mem_read_skip mem_read_head nth_append from_le_le_bytes)

lemma Operation_parse_exact:
  fixes j m :: IdentityOperationRequest
  shows "IdentityOperationRequest_parse j (IdentityOperationRequest_serialize m @ rest) = m"
  by (simp add: wire_simps)

lemma Get_parse_serialize [wire_simps]:
  "wf_identity (igr_response m) \<Longrightarrow>
   IdentityGetResponse_parse j (IdentityGetResponse_serialize m @ rest) = m"
  by (simp add: IdentityGetResponse_parse_def IdentityGetResponse_serialize_def Let_def wire_simps)

lemma length_Operation [simp]: "length (IdentityOperationRequest_serialize m) = 18"
  by (simp add: IdentityOperationRequest_serialize_def)

lemma length_OperationResponse [simp]: "length (IdentityOperationResponse_serialize m) = 22"
  by (simp add: IdentityOperationResponse_serialize_def)

lemma OperationResponse_parse_serialize [wire_simps]:
  "IdentityOperationResponse_parse j (IdentityOperationResponse_serialize m @ rest) =
    j\<lparr>sm_tag := sm_tag m, sm_code := sm_code m, sm_accessCode := sm_accessCode m,
      iop_offset := iop_offset m, iop_size := iop_size m, ior_response := ior_response m\<rparr>"
  by (simp add: IdentityOperationResponse_parse_def IdentityOperationResponse_serialize_def Let_def
    wire_simps mem_read_skip mem_read_head from_le_le_bytes)

lemma identity_list_loop_serialize [wire_simps]:
  "\<forall>i \<in> set ids. wf_identity i \<Longrightarrow>
   identity_list_loop (concat (map serializeNETWORKIDENTITY ids)) = ids"
  by (induction ids) (simp_all add: identity_list_loop.simps wire_simps)

lemma List_parse_serialize [wire_simps]:
  assumes "\<forall>i \<in> set (ilr_identities m). wf_identity i"
  shows "IdentityListResponse_parse j (IdentityListResponse_serialize m) =
    m\<lparr>ior_response := of_nat (length (ilr_identities m))\<rparr>"
  using assms
  by (simp add: IdentityListResponse_parse_def IdentityListResponse_serialize_def Let_def wire_simps)

lemma ntoh_ntoh [simp]:
  "IdentityEUIRequest_ntoh (IdentityEUIRequest_ntoh e) = e"
  "IdentityAddrRequest_ntoh (IdentityAddrRequest_ntoh a) = a"
  "IdentityAssignRequest_ntoh (IdentityAssignRequest_ntoh s) = s"
  "IdentityOperationRequest_ntoh (IdentityOperationRequest_ntoh q) = q"
  "IdentityGetResponse_ntoh (IdentityGetResponse_ntoh g) = g"
  "IdentityOperationResponse_ntoh (IdentityOperationResponse_ntoh r) = r"
  "IdentityListResponse_ntoh (IdentityListResponse_ntoh l) = l"
  by (simp_all add: ServiceMessage_ntoh_def IdentityEUIRequest_ntoh_def IdentityAddrRequest_ntoh_def
    IdentityAssignRequest_ntoh_def IdentityOperationRequest_ntoh_def IdentityGetResponse_ntoh_def
    IdentityOperationResponse_ntoh_def IdentityListResponse_ntoh_def Let_def comp_def)

lemma ntoh_tags [simp]:
  "sm_tag (IdentityEUIRequest_ntoh e) = sm_tag e"
  "sm_tag (IdentityAddrRequest_ntoh a) = sm_tag a"
  "sm_tag (IdentityAssignRequest_ntoh s) = sm_tag s"
  "sm_tag (IdentityOperationRequest_ntoh q) = sm_tag q"
  by (simp_all add: IdentityEUIRequest_ntoh_def IdentityAddrRequest_ntoh_def
    IdentityAssignRequest_ntoh_def IdentityOperationRequest_ntoh_def ServiceMessage_ntoh_def Let_def)

lemma wf_identity_Assign_ntoh [simp]:
  "wf_identity (ias_identity (IdentityAssignRequest_ntoh m)) = wf_identity (ias_identity m)"
  by (simp add: IdentityAssignRequest_ntoh_def wf_identity_def wf_device_def ServiceMessage_ntoh_def Let_def)

section \<open>Requests on the server\<close>

lemma deserialize_EUI:
  "sm_tag m = QUERY_IDENTITY_ADDR \<Longrightarrow>
   deserializeIdentity junk (IdentityEUIRequest_serialize (IdentityEUIRequest_ntoh m) @ rest) = Some (M_EUI m)"
  by (simp add: deserializeIdentity_def Let_def wire_simps)
    (simp add: IdentityEUIRequest_serialize_def)

lemma deserialize_Addr:
  "sm_tag m \<in> {QUERY_IDENTITY_EUI, QUERY_IDENTITY_RM} \<Longrightarrow>
   deserializeIdentity junk (IdentityAddrRequest_serialize (IdentityAddrRequest_ntoh m) @ rest) = Some (M_Addr m)"
  by (simp add: deserializeIdentity_def Let_def wire_simps)
    (auto simp: IdentityAddrRequest_serialize_def)

lemma deserialize_Assign:
  "sm_tag m = QUERY_IDENTITY_ASSIGN \<Longrightarrow> wf_identity (ias_identity m) \<Longrightarrow>
   deserializeIdentity junk (IdentityAssignRequest_serialize (IdentityAssignRequest_ntoh m) @ rest) = Some (M_Assign m)"
  by (simp add: deserializeIdentity_def Let_def wire_simps)
    (simp add: IdentityAssignRequest_serialize_def)

lemma deserialize_Operation:
  "sm_tag m \<in> {QUERY_IDENTITY_LIST, QUERY_IDENTITY_COUNT, QUERY_IDENTITY_NEXT, QUERY_IDENTITY_FORCE_SAVE,
     QUERY_IDENTITY_CLOSE_RESOURCES} \<Longrightarrow>
   deserializeIdentity junk (IdentityOperationRequest_serialize (IdentityOperationRequest_ntoh m) @ rest) =
     Some (M_Operation m)"
  by (simp add: deserializeIdentity_def Let_def Operation_parse_exact)
    (auto simp: IdentityOperationRequest_serialize_def)

lemma shortenList2Fit_spec:
  "SIZE_OPERATION_RESPONSE \<le> n \<Longrightarrow>
   shortenList2Fit n m = m\<lparr>ilr_identities := take ((n - 22) div 106) (ilr_identities m)\<rparr>"
proof (induction n m rule: shortenList2Fit.induct)
  case (1 n m)
  define k where "k = (n - 22) div 106"
  define l where "l = ilr_identities m"
  show ?case
  proof (cases "l \<noteq> [] \<and> n < IdentityListResponse_size m")
    case True
    then have "n - 22 < length l * 106"
      using 1(2) by (auto simp: IdentityListResponse_size_def l_def)
    then have "k < length l" by (simp add: k_def div_less_iff_less_mult)
    then have "take k (butlast l) = take k l" by (cases l rule: rev_cases) simp_all
    with 1 True show ?thesis
      by (simp add: shortenList2Fit.simps [of n m] k_def l_def)
  next
    case False
    then have "l = [] \<or> 106 * length l \<le> n - 22"
      by (auto simp: IdentityListResponse_size_def l_def)
    then have "length l \<le> k"
      by (auto simp: k_def less_eq_div_iff_mult_less_eq)
    with False show ?thesis
      by (auto simp: shortenList2Fit.simps [of n m] k_def l_def)
  qed
qed

section \<open>Properties\<close>

definition sends :: "'a ServiceMessage_scheme \<Rightarrow> u32 \<Rightarrow> u64 \<Rightarrow> bool" where
  "sends m c ac \<longleftrightarrow> sm_code m = c \<and> sm_accessCode m = ac"

lemma header_sends:
  "sm_code (message_header (M_EUI e)) = sm_code e"
  "sm_accessCode (message_header (M_EUI e)) = sm_accessCode e"
  "sm_code (message_header (M_Addr a)) = sm_code a"
  "sm_accessCode (message_header (M_Addr a)) = sm_accessCode a"
  "sm_code (message_header (M_Assign s)) = sm_code s"
  "sm_accessCode (message_header (M_Assign s)) = sm_accessCode s"
  "sm_code (message_header (M_Operation q)) = sm_code q"
  "sm_accessCode (message_header (M_Operation q)) = sm_accessCode q"
  by (simp_all add: ServiceMessage.defs)

lemma request_first [simp]:
  "(IdentityAddrRequest_serialize a @ rest) ! 0 = sm_tag a"
  "(IdentityAssignRequest_serialize s @ rest) ! 0 = sm_tag s"
  "(IdentityOperationRequest_serialize q @ rest) ! 0 = sm_tag q"
  by (simp_all add: IdentityAddrRequest_serialize_def IdentityAssignRequest_serialize_def
    IdentityOperationRequest_serialize_def)

lemma request_long [simp]:
  "\<not> length (IdentityAddrRequest_serialize a @ rest) < 13"
  "\<not> length (IdentityAssignRequest_serialize s @ rest) < 13"
  "\<not> length (IdentityOperationRequest_serialize q @ rest) < 13"
  by (simp_all add: IdentityAddrRequest_serialize_def IdentityAssignRequest_serialize_def
    IdentityOperationRequest_serialize_def)

lemma query_Assign:
  assumes "sm_tag m = QUERY_IDENTITY_ASSIGN" "sends m c ac" "wf_identity (ias_identity m)"
  shows "identity_query cast (Some svc) c ac junk s n
     (IdentityAssignRequest_serialize (IdentityAssignRequest_ntoh m) @ rest) = query_ASSIGN svc s m"
  using assms
  by (simp add: identity_query_def deserialize_Assign sends_def header_sends identity_dispatch_def
      del: message_header.simps length_append)

lemma query_Addr:
  assumes "sm_tag m \<in> {QUERY_IDENTITY_EUI, QUERY_IDENTITY_RM}" "sends m c ac"
  shows "identity_query cast (Some svc) c ac junk s n
     (IdentityAddrRequest_serialize (IdentityAddrRequest_ntoh m) @ rest) =
     (if sm_tag m = QUERY_IDENTITY_RM then query_RM svc s m else (query_EUI svc s m, s))"
  using assms deserialize_Addr [OF assms(1), of junk rest]
  by (auto simp: identity_query_def sends_def header_sends identity_dispatch_def
      simp del: message_header.simps length_append)

lemma query_Operation:
  assumes "sm_tag m \<in> {QUERY_IDENTITY_LIST, QUERY_IDENTITY_COUNT, QUERY_IDENTITY_NEXT}" "sends m c ac"
  shows "identity_query cast (Some svc) c ac junk s n
     (IdentityOperationRequest_serialize (IdentityOperationRequest_ntoh m) @ rest) =
     ((if sm_tag m = QUERY_IDENTITY_LIST then query_LIST svc s n m
       else if sm_tag m = QUERY_IDENTITY_COUNT then query_COUNT cast svc s m
       else query_NEXT svc s m), s)"
  using assms deserialize_Operation [of m junk rest]
  by (auto simp: identity_query_def sends_def header_sends identity_dispatch_def
      simp del: message_header.simps length_append)

text \<open>Every request survives the wire: what the client writes after \<open>ntoh\<close> is what
  \<open>deserializeIdentity\<close> finds, whatever memory it is built in and whatever follows it.\<close>

theorem identity_request_roundtrip:
  assumes "sm_tag e = 0x61" "sm_tag a \<in> {0x69, 0x72}" "sm_tag s = 0x70"
    "sm_tag q \<in> {0x6C, 0x63, 0x6E, 0x73, 0x65}" "wf_identity (ias_identity s)"
  shows "deserializeIdentity junk (IdentityEUIRequest_serialize (IdentityEUIRequest_ntoh e) @ rest) =
      Some (M_EUI e) \<and>
    deserializeIdentity junk (IdentityAddrRequest_serialize (IdentityAddrRequest_ntoh a) @ rest) =
      Some (M_Addr a) \<and>
    deserializeIdentity junk (IdentityAssignRequest_serialize (IdentityAssignRequest_ntoh s) @ rest) =
      Some (M_Assign s) \<and>
    deserializeIdentity junk (IdentityOperationRequest_serialize (IdentityOperationRequest_ntoh q) @ rest) =
      Some (M_Operation q)"
  using assms by (simp add: deserialize_EUI deserialize_Addr deserialize_Assign deserialize_Operation)

lemma wf_identity_default [simp]: "wf_identity NETWORKIDENTITY_default"
  by (simp add: wf_identity_def NETWORKIDENTITY_default_def wf_device_constructors)

lemma identity_request_roundtrip_witness:
  "deserializeIdentity \<lparr>sm_tag = 9, sm_code = 9, sm_accessCode = 9, iop_offset = 9, iop_size = 9\<rparr>
     (IdentityOperationRequest_serialize (IdentityOperationRequest_ntoh
       \<lparr>sm_tag = 0x6C, sm_code = 42, sm_accessCode = 7, iop_offset = 5, iop_size = 10\<rparr>) @ [1, 2]) =
   Some (M_Operation \<lparr>sm_tag = 0x6C, sm_code = 42, sm_accessCode = 7, iop_offset = 5, iop_size = 10\<rparr>)"
  using identity_request_roundtrip [of
      "\<lparr>sm_tag = 0x61, sm_code = 42, sm_accessCode = 7, ier_eui = 1\<rparr>"
      "\<lparr>sm_tag = 0x69, sm_code = 42, sm_accessCode = 7, iar_addr = 1\<rparr>"
      "\<lparr>sm_tag = 0x70, sm_code = 42, sm_accessCode = 7, ias_identity = NETWORKIDENTITY_default\<rparr>"
      "\<lparr>sm_tag = 0x6C, sm_code = 42, sm_accessCode = 7, iop_offset = 5, iop_size = 10\<rparr>"
      "\<lparr>sm_tag = 9, sm_code = 9, sm_accessCode = 9, iop_offset = 9, iop_size = 9\<rparr>" "[1, 2]"]
  by simp

text \<open>C36: Only an authorised assign or remove request changes the service: when the state after
  \<open>query\<close> differs, the request decoded to a message with the code and access code of the
  service and its first byte is one of the two.\<close>

theorem identity_query_guard:
  assumes "snd (IdentityBinarySerialization_query svc c ac junk s n request) \<noteq> s"
  shows "\<exists>msg. deserializeIdentity junk request = Some msg \<and>
    sm_code (message_header msg) = c \<and> sm_accessCode (message_header msg) = ac \<and>
    request ! 0 \<in> {0x70, 0x72}"
proof (cases "deserializeIdentity junk request")
  case None
  with assms show ?thesis
    by (simp add: IdentityBinarySerialization_query_def identity_query_def split: option.splits if_splits)
next
  case (Some msg)
  with assms have ok: "sm_code (message_header msg) = c" "sm_accessCode (message_header msg) = ac"
    and d: "\<exists>svc'. snd (identity_dispatch (\<lambda>n. ucast (of_nat n :: u8)) svc' s n (request ! 0) msg) \<noteq> s"
    by (auto simp: IdentityBinarySerialization_query_def identity_query_def split: option.splits if_splits)
  have "request ! 0 = 0x70" if "msg = M_Assign gr" for gr
    using Some that by (simp add: deserializeIdentity_def Let_def split: if_splits)
  then have "request ! 0 \<in> {0x70, 0x72}"
    using d by (cases msg) (auto simp: identity_dispatch_def split: if_splits)
  with Some ok show ?thesis by blast
qed

lemma identity_query_guard_witness:
  "let m = \<lparr>sm_tag = 0x70, sm_code = 42, sm_accessCode = 7, ias_identity = NETWORKIDENTITY_default\<rparr>;
       junk = \<lparr>sm_tag = 9, sm_code = 9, sm_accessCode = 9, iop_offset = 9, iop_size = 9\<rparr>;
       req = IdentityAssignRequest_serialize (IdentityAssignRequest_ntoh m)
   in snd (IdentityBinarySerialization_query (Some MemoryIdentityService) 42 7 junk [] 200 req) \<noteq> [] \<and>
      (\<exists>msg. deserializeIdentity junk req = Some msg \<and> sm_code (message_header msg) = 42 \<and>
         sm_accessCode (message_header msg) = 7 \<and> req ! 0 \<in> {0x70, 0x72})"
proof -
  define m where "m = \<lparr>sm_tag = 0x70, sm_code = 42, sm_accessCode = 7, ias_identity = NETWORKIDENTITY_default\<rparr>"
  define junk :: IdentityOperationRequest
    where "junk = \<lparr>sm_tag = 9, sm_code = 9, sm_accessCode = 9, iop_offset = 9, iop_size = 9\<rparr>"
  define req where "req = IdentityAssignRequest_serialize (IdentityAssignRequest_ntoh m)"
  have "IdentityBinarySerialization_query (Some MemoryIdentityService) 42 7 junk [] 200 (req @ []) =
      query_ASSIGN MemoryIdentityService [] m"
    unfolding IdentityBinarySerialization_query_def req_def
    by (rule query_Assign) (simp_all add: m_def sends_def)
  then have ne: "snd (IdentityBinarySerialization_query (Some MemoryIdentityService) 42 7 junk [] 200 req) \<noteq> []"
    by (simp add: query_ASSIGN_def MemoryIdentityService_def ids_put_def Let_def)
  from identity_query_guard [OF this] ne show ?thesis
    unfolding m_def [symmetric] junk_def [symmetric] req_def [symmetric] Let_def by blast
qed

lemma OperationResponse_parse_exact:
  fixes j m :: IdentityOperationResponse
  shows "IdentityOperationResponse_parse j (IdentityOperationResponse_serialize m) = m"
  using OperationResponse_parse_serialize [of j m "[]"] by simp

lemma identity_eta [simp]: "\<lparr>ni_devaddr = ni_devaddr i, ni_devid = ni_devid i\<rparr> = i"
  by simp

text \<open>C26: An assign request followed by a request for the same address, both on the wire and
  with the access code of the service, answers the second with the identity of the first: the
  client decodes exactly the device it stored.\<close>

theorem identity_assign_then_get:
  fixes j3 :: IdentityOperationResponse
  assumes "sm_tag m = 0x70" "sends m c ac" "wf_identity (ias_identity m)"
    and "sm_tag g = 0x69" "sends g c ac" "iar_addr g = ni_devaddr (ias_identity m)"
    and "om_sorted storage"
    and put: "IdentityBinarySerialization_query (Some MemoryIdentityService) c ac j1 storage n1
        (IdentityAssignRequest_serialize (IdentityAssignRequest_ntoh m)) = (ans1, storage')"
    and get: "IdentityBinarySerialization_query (Some MemoryIdentityService) c ac j2 storage' n2
        (IdentityAddrRequest_serialize (IdentityAddrRequest_ntoh g)) = (ans2, storage'')"
  shows "ior_response (IdentityOperationResponse_ntoh (IdentityOperationResponse_parse j3 ans1)) = 0 \<and>
    igr_response (IdentityGetResponse_ntoh (IdentityGetResponse_parse j4 ans2)) = ias_identity m"
proof -
  define i where "i = ias_identity m"
  from put have 1: "(ans1, storage') = query_ASSIGN MemoryIdentityService storage m"
    using query_Assign [OF assms(1-3), where rest = "[]" and svc = MemoryIdentityService]
    by (simp add: IdentityBinarySerialization_query_def)
  then have st: "storage' = om_assign (ni_devaddr i) (ni_devid i) storage"
    by (simp add: query_ASSIGN_def MemoryIdentityService_def ids_put_def Let_def i_def)
  have r1: "ans1 = answer_op ((IdentityOperationResponse_of m)\<lparr>ior_response := 0, iop_size := 1\<rparr>)"
    using 1 by (simp add: query_ASSIGN_def MemoryIdentityService_def ids_put_def Let_def)
  have "om_find (ni_devaddr i) storage' = Some (ni_devid i)"
    using \<open>om_sorted storage\<close> by (simp add: st om_simps)
  moreover from get have "ans2 = query_EUI MemoryIdentityService storage' g"
    using query_Addr [of g c ac, where rest = "[]" and svc = MemoryIdentityService] assms(4,5)
    by (auto simp: IdentityBinarySerialization_query_def)
  ultimately have r2: "ans2 = answer_get ((IdentityGetResponse_addr g)\<lparr>igr_response := i\<rparr>)"
    using assms(6)
    by (simp add: query_EUI_def MemoryIdentityService_def ids_get_def IdentityGetResponse_addr_def
      NETWORKIDENTITY_addr_def i_def Let_def)
  have "IdentityGetResponse_parse j4 (answer_get r @ []) = IdentityGetResponse_ntoh r"
    if "wf_identity (igr_response r)" for r
    unfolding answer_get_def
    by (rule Get_parse_serialize) (use that in \<open>simp add: IdentityGetResponse_ntoh_def ServiceMessage_ntoh_def\<close>)
  from this [of "(IdentityGetResponse_addr g)\<lparr>igr_response := i\<rparr>"] assms(3) r2
  have "igr_response (IdentityGetResponse_ntoh (IdentityGetResponse_parse j4 ans2)) = i"
    by (simp add: i_def)
  moreover have "ior_response (IdentityOperationResponse_ntoh (IdentityOperationResponse_parse j3 ans1)) = 0"
    by (simp add: r1 answer_op_def OperationResponse_parse_exact)
  ultimately show ?thesis by (simp add: i_def)
qed

lemma identity_assign_then_get_witness:
  "let m = \<lparr>sm_tag = 0x70, sm_code = 42, sm_accessCode = 7, ias_identity = NETWORKIDENTITY_default\<rparr>;
       g = \<lparr>sm_tag = 0x69, sm_code = 42, sm_accessCode = 7, iar_addr = 0\<rparr>;
       j = \<lparr>sm_tag = 9, sm_code = 9, sm_accessCode = 9, iop_offset = 9, iop_size = 9\<rparr>;
       j4 = \<lparr>sm_tag = 9, sm_code = 9, sm_accessCode = 9, igr_response = NETWORKIDENTITY_addr 5\<rparr>;
       (a1, s1) = IdentityBinarySerialization_query (Some MemoryIdentityService) 42 7 j [] 200
         (IdentityAssignRequest_serialize (IdentityAssignRequest_ntoh m));
       (a2, s2) = IdentityBinarySerialization_query (Some MemoryIdentityService) 42 7 j s1 200
         (IdentityAddrRequest_serialize (IdentityAddrRequest_ntoh g))
   in igr_response (IdentityGetResponse_ntoh (IdentityGetResponse_parse j4 a2)) = NETWORKIDENTITY_default"
proof -
  define m where "m = \<lparr>sm_tag = 0x70, sm_code = 42, sm_accessCode = 7, ias_identity = NETWORKIDENTITY_default\<rparr>"
  define g where "g = \<lparr>sm_tag = 0x69, sm_code = 42, sm_accessCode = 7, iar_addr = 0\<rparr>"
  define j :: IdentityOperationRequest
    where "j = \<lparr>sm_tag = 9, sm_code = 9, sm_accessCode = 9, iop_offset = 9, iop_size = 9\<rparr>"
  obtain a1 s1 where 1: "IdentityBinarySerialization_query (Some MemoryIdentityService) 42 7 j [] 200
      (IdentityAssignRequest_serialize (IdentityAssignRequest_ntoh m)) = (a1, s1)" by fastforce
  obtain a2 s2 where 2: "IdentityBinarySerialization_query (Some MemoryIdentityService) 42 7 j s1 200
      (IdentityAddrRequest_serialize (IdentityAddrRequest_ntoh g)) = (a2, s2)" by fastforce
  have "om_sorted ([] :: identity_storage)" "sends m 42 7" "sends g 42 7"
    by (simp_all add: m_def g_def sends_def)
  with identity_assign_then_get [of m 42 7 g "[]", OF _ _ _ _ _ _ _ 1 2,
      of IdentityOperationResponse_default
        "\<lparr>sm_tag = 9, sm_code = 9, sm_accessCode = 9, igr_response = NETWORKIDENTITY_addr 5\<rparr>"]
  have "igr_response (IdentityGetResponse_ntoh (IdentityGetResponse_parse
      \<lparr>sm_tag = 9, sm_code = 9, sm_accessCode = 9, igr_response = NETWORKIDENTITY_addr 5\<rparr> a2)) =
    NETWORKIDENTITY_default"
    by (simp add: m_def g_def) (simp add: NETWORKIDENTITY_default_def)
  with 1 2 show ?thesis
    unfolding m_def [symmetric] g_def [symmetric] j_def [symmetric] by simp
qed

lemma page_wf:
  assumes "\<forall>(a, d) \<in> set storage. wf_device d"
  shows "\<forall>i \<in> set (snd (ids_list storage [] offset sz)). wf_identity i"
proof -
  have "set (snd (ids_list storage [] offset sz)) \<subseteq> (\<lambda>(a, d). \<lparr>ni_devaddr = a, ni_devid = d\<rparr>) ` set storage"
    by (auto simp: ids_list_page NETWORKIDENTITY_make_eq dest!: in_set_takeD in_set_dropD)
  then show ?thesis using assms by (fastforce simp: wf_identity_def)
qed

text \<open>A page is answered with as much of it as the buffer holds.\<close>

lemma query_LIST_page:
  assumes "22 \<le> retSize"
  shows "query_LIST MemoryIdentityService storage retSize q =
    answer_list ((IdentityListResponse_op q)\<lparr>ior_response := 0, ilr_identities :=
      take ((retSize - 22) div 106) (snd (ids_list storage [] (iop_offset q) (iop_size q)))\<rparr>)"
proof -
  define page where "page = snd (ids_list storage [] (iop_offset q) (iop_size q))"
  define k where "k = (retSize - 22) div 106"
  define r where "r = (IdentityListResponse_op q)\<lparr>ilr_identities := page, ior_response := 0\<rparr>"
  have list: "svc_list MemoryIdentityService storage [] (iop_offset q) (iop_size q) = (0, page)"
    by (simp add: MemoryIdentityService_def page_def ids_list_def)
  have ids0: "ilr_identities (IdentityListResponse_op q) = []"
    by (simp add: IdentityListResponse_op_def IdentityOperationResponse.defs
      IdentityListResponse.defs)
  have ids: "ilr_identities (r\<lparr>ilr_identities := take k page\<rparr>) = take k page" "ilr_identities r = page"
    by (simp_all add: r_def)
  have all: "take k page = page" if "22 + length page * 106 \<le> retSize"
  proof -
    have "length page * 106 \<le> retSize - 22" using that by simp
    then have "length page \<le> k" by (simp add: k_def less_eq_div_iff_mult_less_eq)
    then show ?thesis by simp
  qed
  have k: "22 + 106 * k \<le> retSize"
    using assms div_times_less_eq_dividend [of "retSize - 22" 106] by (simp add: k_def)
  have size: "\<not> retSize < IdentityListResponse_size (r\<lparr>ilr_identities := take k page\<rparr>)"
    using k min.cobounded2 [of "length page" k] by (simp add: IdentityListResponse_size_def)
  have short: "shortenList2Fit retSize r = r\<lparr>ilr_identities := take k page\<rparr>"
    using shortenList2Fit_spec [OF assms, of r] by (simp add: ids k_def)
  have same: "r\<lparr>ilr_identities := page\<rparr> = r" by (simp add: r_def)
  have "query_LIST MemoryIdentityService storage retSize q =
      answer_list (r\<lparr>ilr_identities := take k page\<rparr>)"
    using size all
    by (simp add: query_LIST_def ids0 list Let_def r_def [symmetric] short ids same)
  moreover have "r\<lparr>ilr_identities := take k page\<rparr> =
      (IdentityListResponse_op q)\<lparr>ior_response := 0, ilr_identities := take k page\<rparr>"
    unfolding r_def by (cases "IdentityListResponse_op q") simp
  ultimately show ?thesis unfolding k_def page_def by (rule trans [OF _ arg_cong])
qed

lemma length_answer_list:
  assumes "\<forall>i \<in> set (ilr_identities r). wf_identity i"
  shows "length (answer_list r) = 22 + 106 * length (ilr_identities r)"
proof -
  have "length (concat (map serializeNETWORKIDENTITY l)) = 106 * length l"
    if "\<forall>i \<in> set l. wf_identity i" for l
    using that by (induction l) simp_all
  from this [of "map ntohNETWORKIDENTITY (ilr_identities r)"] assms show ?thesis
    by (simp add: answer_list_def IdentityListResponse_serialize_def) (simp add: IdentityListResponse_ntoh_def)
qed

lemma answer_list_parse:
  assumes "\<forall>i \<in> set (ilr_identities r). wf_identity i"
  shows "IdentityListResponse_parse j (answer_list r) =
    (IdentityListResponse_ntoh r)\<lparr>ior_response := of_nat (length (ilr_identities r))\<rparr>"
proof -
  have "\<forall>i \<in> set (ilr_identities (IdentityListResponse_ntoh r)). wf_identity i"
    using assms by (auto simp: IdentityListResponse_ntoh_def)
  then show ?thesis
    unfolding answer_list_def by (simp add: List_parse_serialize) (simp add: IdentityListResponse_ntoh_def)
qed

text \<open>C30: The answer to an authorised list request fits the buffer of the caller and carries as much
  of the page as fits: the client decodes the first \<open>(retSize - 22) div 106\<close> identities of
  the page that the service lists, and nothing is lost when the buffer holds the whole page.\<close>

theorem identity_list_fits:
  fixes q :: IdentityOperationRequest
  assumes "sm_tag q = 0x6C" "sends q c ac" "22 \<le> retSize"
    and "\<forall>(a, d) \<in> set storage. wf_device d"
    and "IdentityBinarySerialization_query (Some MemoryIdentityService) c ac j1 storage retSize
        (IdentityOperationRequest_serialize (IdentityOperationRequest_ntoh q)) = (ans, storage')"
  shows "length ans \<le> retSize \<and> storage' = storage \<and>
    ilr_identities (IdentityListResponse_ntoh (IdentityListResponse_parse j2 ans)) =
      take ((retSize - 22) div 106) (snd (ids_list storage [] (iop_offset q) (iop_size q)))"
proof -
  define page where "page = snd (ids_list storage [] (iop_offset q) (iop_size q))"
  define k where "k = (retSize - 22) div 106"
  define r where "r = (IdentityListResponse_op q)\<lparr>ior_response := 0, ilr_identities := take k page\<rparr>"
  have page: "query_LIST MemoryIdentityService storage retSize q = answer_list r"
    unfolding r_def k_def page_def by (rule query_LIST_page [OF assms(3)])
  have ids: "ilr_identities r = take k page" by (simp add: r_def)
  then have wf: "\<forall>i \<in> set (ilr_identities r). wf_identity i"
    using page_wf [OF assms(4)] by (auto simp: page_def dest!: in_set_takeD)
  have ans: "ans = answer_list r" and st: "storage' = storage"
    using assms(5) query_Operation [of q c ac, where rest = "[]" and svc = MemoryIdentityService]
      page assms(1,2)
    by (auto simp: IdentityBinarySerialization_query_def)
  have k: "22 + 106 * k \<le> retSize"
    using assms(3) div_times_less_eq_dividend [of "retSize - 22" 106] by (simp add: k_def)
  then have "length ans \<le> retSize"
    using length_answer_list [OF wf] min.cobounded2 [of "length page" k] by (simp add: ans ids)
  moreover have "ilr_identities (IdentityListResponse_ntoh (IdentityListResponse_parse j2 ans)) = take k page"
    by (simp add: ans answer_list_parse [OF wf] IdentityListResponse_ntoh_def comp_def ids)
  ultimately show ?thesis by (simp add: st k_def page_def)
qed

lemma identity_list_fits_witness:
  "let q = \<lparr>sm_tag = 0x6C, sm_code = 42, sm_accessCode = 7, iop_offset = 0, iop_size = 10\<rparr>;
       j = \<lparr>sm_tag = 9, sm_code = 9, sm_accessCode = 9, iop_offset = 9, iop_size = 9\<rparr>;
       st = [(3, DEVICEID_default), (8, DEVICEID_default)];
       (ans, s1) = IdentityBinarySerialization_query (Some MemoryIdentityService) 42 7 j st 200
         (IdentityOperationRequest_serialize (IdentityOperationRequest_ntoh q))
   in length ans \<le> 200 \<and>
      ilr_identities (IdentityListResponse_ntoh (IdentityListResponse_parse (IdentityListResponse_op j) ans)) =
        [\<lparr>ni_devaddr = 3, ni_devid = DEVICEID_default\<rparr>]"
proof -
  define q where "q = \<lparr>sm_tag = 0x6C, sm_code = 42, sm_accessCode = 7, iop_offset = 0, iop_size = 10\<rparr>"
  define j :: IdentityOperationRequest
    where "j = \<lparr>sm_tag = 9, sm_code = 9, sm_accessCode = 9, iop_offset = 9, iop_size = 9\<rparr>"
  define st :: identity_storage where "st = [(3, DEVICEID_default), (8, DEVICEID_default)]"
  obtain ans s1 where 1: "IdentityBinarySerialization_query (Some MemoryIdentityService) 42 7 j st 200
      (IdentityOperationRequest_serialize (IdentityOperationRequest_ntoh q)) = (ans, s1)" by fastforce
  have "\<forall>(a, d) \<in> set st. wf_device d" "sends q 42 7"
    by (simp_all add: st_def q_def sends_def wf_device_constructors)
  from identity_list_fits [OF _ this(2) _ this(1) 1, of "IdentityListResponse_op j"] have
    "length ans \<le> 200 \<and>
     ilr_identities (IdentityListResponse_ntoh (IdentityListResponse_parse (IdentityListResponse_op j) ans)) =
       take 1 (snd (ids_list st [] 0 10))"
    by (simp add: q_def)
  moreover have "take 1 (snd (ids_list st [] 0 10)) = [\<lparr>ni_devaddr = 3, ni_devid = DEVICEID_default\<rparr>]"
    by (simp add: ids_list_page st_def NETWORKIDENTITY_make_eq)
  ultimately show ?thesis
    using 1 unfolding q_def [symmetric] j_def [symmetric] st_def [symmetric] by simp
qed

text \<open>\<open>responseSizeForIdentityRequest\<close> is too small for a \<open>next\<close> request: it
  promises 22 bytes and the answer has 119, whatever size the caller passes; and the number of
  identities is cut to a byte by the binary protocol but not by the base class.\<close>

theorem identity_next_overflows:
  fixes q :: IdentityOperationRequest
  assumes "sm_tag q = 0x6E" "sends q c ac"
  shows "length (fst (IdentityBinarySerialization_query (Some MemoryIdentityService) c ac j storage retSize
        (IdentityOperationRequest_serialize (IdentityOperationRequest_ntoh q)))) = 119 \<and>
    responseSizeForIdentityRequest j (IdentityOperationRequest_serialize (IdentityOperationRequest_ntoh q)) = 22"
proof -
  have "wf_identity (igr_response (IdentityGetResponse_ntoh r))" if "igr_response r = NETWORKIDENTITY_default" for r
    using that by (simp add: IdentityGetResponse_ntoh_def)
  then have "length (query_NEXT MemoryIdentityService storage q) = 119"
    by (simp add: query_NEXT_def MemoryIdentityService_def ids_next_def answer_get_def Let_def
      IdentityGetResponse_serialize_def)
  then show ?thesis
    using query_Operation [of q c ac, where rest = "[]" and svc = MemoryIdentityService] assms
      request_first(3) [of "IdentityOperationRequest_ntoh q" "[]"]
    by (simp add: IdentityBinarySerialization_query_def responseSizeForIdentityRequest_def
      validateIdentityQuery_def sized_tag_def Let_def)
qed

lemma identity_next_overflows_witness:
  "length (fst (IdentityBinarySerialization_query (Some MemoryIdentityService) 42 7
      \<lparr>sm_tag = 9, sm_code = 9, sm_accessCode = 9, iop_offset = 9, iop_size = 9\<rparr> [] 22
      (IdentityOperationRequest_serialize (IdentityOperationRequest_ntoh
        \<lparr>sm_tag = 0x6E, sm_code = 42, sm_accessCode = 7, iop_offset = 0, iop_size = 0\<rparr>)))) = 119"
  using identity_next_overflows [of
      "\<lparr>sm_tag = 0x6E, sm_code = 42, sm_accessCode = 7, iop_offset = 0, iop_size = 0\<rparr>" 42 7]
  by (simp add: sends_def)

text \<open>\<open>validateIdentityQuery\<close> accepts exactly the requests that \<open>deserializeIdentity\<close>
  understands, except for an assign request of 17 to 118 bytes, which it accepts and which is
  then refused.\<close>

theorem identity_validate_agrees:
  "(deserializeIdentity junk buf \<noteq> None) =
    (validateIdentityQuery buf \<noteq> 0 \<and> (buf ! 0 \<noteq> 0x70 \<or> 119 \<le> length buf))"
  by (auto simp: deserializeIdentity_def validateIdentityQuery_def sized_tag_def Let_def)

lemma identity_validate_agrees_witness:
  "deserializeIdentity \<lparr>sm_tag = 9, sm_code = 9, sm_accessCode = 9, iop_offset = 9, iop_size = 9\<rparr>
     (replicate 17 0x70) = None \<and> validateIdentityQuery (replicate 17 0x70) = 0x70"
  using identity_validate_agrees [of
      "\<lparr>sm_tag = 9, sm_code = 9, sm_accessCode = 9, iop_offset = 9, iop_size = 9\<rparr>" "replicate 17 0x70"]
  by (simp add: validateIdentityQuery_def sized_tag_def Let_def)

end
