(* ===== verification/Gateway_Service.thy ===== *)
theory Gateway_Service
  imports Error_Codes Dev_Addr Ordered_Map
begin

text \<open>
  The in-memory gateway storages: \<open>MemoryGatewayService\<close>
  (\<open>lorawan/storage/service/gateway-service-mem.cpp\<close>), found by identifier or in reverse by
  socket address, and \<open>DeviceBestGatewayServiceMem\<close>
  (\<open>device-best-gateway-mem.cpp\<close>), the gateway that hears a device best.
\<close>

section \<open>Socket addresses and gateways\<close>

text \<open>The members of \<open>struct sockaddr\<close>, \<open>sockaddr_in\<close> and \<open>sockaddr_in6\<close> the code looks at.\<close>

record SOCKADDR =
  sa_family :: u16
  sin_port :: u16
  sin_addr :: bytes

abbreviation (input) AF_INET :: u16 where "AF_INET \<equiv> 2"
abbreviation (input) AF_INET6 :: u16 where "AF_INET6 \<equiv> 10"

definition sameSocketAddress :: "SOCKADDR \<Rightarrow> SOCKADDR \<Rightarrow> bool" where
  "sameSocketAddress a b =
     (if sa_family a \<noteq> sa_family b then False
      else if sa_family a = AF_INET then
        sin_port a = sin_port b \<and> memcmp (take 4 (sin_addr a)) (take 4 (sin_addr b)) = 0
      else if sa_family a = AF_INET6 then
        sin_port a = sin_port b \<and> memcmp (take 16 (sin_addr a)) (take 16 (sin_addr b)) = 0
      else False)"

definition SOCKADDR_zero :: SOCKADDR where
  "SOCKADDR_zero = \<lparr> sa_family = 0, sin_port = 0, sin_addr = replicate 16 0 \<rparr>"

record GatewayIdentity =
  gatewayId :: u64
  sockaddr :: SOCKADDR

definition GatewayIdentity_id :: "u64 \<Rightarrow> GatewayIdentity" where
  "GatewayIdentity_id aGatewayId = \<lparr>gatewayId = aGatewayId, sockaddr = SOCKADDR_zero\<rparr>"

section \<open>MemoryGatewayService\<close>

type_synonym gateway_storage = "(u64, GatewayIdentity) omap"

text \<open>\<open>for (auto &it : storage) if (sameSocketAddress(...))\<close>: the first match, with its key.\<close>

fun find_address :: "SOCKADDR \<Rightarrow> gateway_storage \<Rightarrow> (u64 \<times> GatewayIdentity) option" where
  "find_address a [] = None"
| "find_address a ((k, g) # storage) =
     (if sameSocketAddress a (sockaddr g) then Some (k, g) else find_address a storage)"

definition gws_get ::
    "gateway_storage \<Rightarrow> GatewayIdentity \<Rightarrow> GatewayIdentity \<Rightarrow> code \<times> GatewayIdentity" where
  "gws_get storage retVal request =
     (if gatewayId request \<noteq> 0 then
        (case om_find (gatewayId request) storage of
           Some g \<Rightarrow> (CODE_OK, g)
         | None \<Rightarrow> (ERR_CODE_GATEWAY_NOT_FOUND, retVal\<lparr> sockaddr := SOCKADDR_zero \<rparr>))
      else
        (case find_address (sockaddr request) storage of
           Some (k, g) \<Rightarrow> (CODE_OK, g)
         | None \<Rightarrow> (ERR_CODE_GATEWAY_NOT_FOUND, retVal)))"

definition gws_list ::
    "gateway_storage \<Rightarrow> GatewayIdentity list \<Rightarrow> u32 \<Rightarrow> u8 \<Rightarrow> code \<times> GatewayIdentity list" where
  "gws_list storage retVal offset sz =
     (CODE_OK, retVal @ map snd (page_loop 0 0 (unat offset) (unat sz) storage))"

definition gws_size :: "gateway_storage \<Rightarrow> nat" where
  "gws_size storage = length storage"

definition gws_put :: "gateway_storage \<Rightarrow> GatewayIdentity \<Rightarrow> code \<times> gateway_storage" where
  "gws_put storage request = (CODE_OK, om_assign (gatewayId request) request storage)"

definition gws_rm :: "gateway_storage \<Rightarrow> GatewayIdentity \<Rightarrow> code \<times> gateway_storage" where
  "gws_rm storage request =
     (if gatewayId request \<noteq> 0 then
        (case om_find (gatewayId request) storage of
           Some _ \<Rightarrow> (CODE_OK, om_erase (gatewayId request) storage)
         | None \<Rightarrow> (ERR_CODE_GATEWAY_NOT_FOUND, storage))
      else
        (case find_address (sockaddr request) storage of
           Some (k, _) \<Rightarrow> (CODE_OK, om_erase k storage)
         | None \<Rightarrow> (ERR_CODE_GATEWAY_NOT_FOUND, storage)))"

definition gws_clear :: "gateway_storage \<Rightarrow> gateway_storage" where
  "gws_clear storage = []"

definition gws_done :: "gateway_storage \<Rightarrow> gateway_storage" where
  "gws_done storage = gws_clear storage"

section \<open>DeviceBestGatewayServiceMem\<close>

type_synonym best_gateway_storage = "(DEVADDR, u64) omap"

definition best_get :: "best_gateway_storage \<Rightarrow> DEVADDR \<Rightarrow> u64" where
  "best_get storage a = (case om_find a storage of None \<Rightarrow> 0 | Some g \<Rightarrow> g)"

definition best_put :: "best_gateway_storage \<Rightarrow> DEVADDR \<Rightarrow> u64 \<Rightarrow> code \<times> best_gateway_storage" where
  "best_put storage a g = (CODE_OK, om_assign a g storage)"

definition best_rm :: "best_gateway_storage \<Rightarrow> DEVADDR \<Rightarrow> code \<times> best_gateway_storage" where
  "best_rm storage a =
     (case om_find a storage of
        None \<Rightarrow> (ERR_CODE_INVALID_ADDRESS, storage)
      | Some _ \<Rightarrow> (CODE_OK, om_erase a storage))"

definition best_list ::
    "best_gateway_storage \<Rightarrow> best_gateway_storage \<Rightarrow> u32 \<Rightarrow> u8 \<Rightarrow> code \<times> best_gateway_storage" where
  "best_list storage retVal offset sz =
     (CODE_OK, fold (\<lambda>(a, g) m. om_assign a g m)
        (page_loop 0 0 (unat offset) (unat sz) storage) retVal)"

definition best_size :: "best_gateway_storage \<Rightarrow> nat" where
  "best_size storage = length storage"

section \<open>Lemmas\<close>

lemma best_rm_storage: "om_sorted storage \<Longrightarrow> snd (best_rm storage a) = om_erase a storage"
  by (simp add: best_rm_def om_erase_absent split: option.splits)

interpretation best_store: key_store "\<lambda>s a. om_find a s" "\<lambda>a g s. snd (best_put s a g)"
    "\<lambda>a s. snd (best_rm s a)" om_sorted "[]"
  by unfold_locales (auto simp: best_put_def best_rm_storage om_simps fun_eq_iff)

text \<open>
  The entries of the gateway storage are filed under their own identifiers, and none under
  the identifier zero as long as zero is never stored.
\<close>

definition gws_inv :: "gateway_storage \<Rightarrow> bool" where
  "gws_inv storage \<longleftrightarrow> om_sorted storage \<and> (\<forall>(k, g) \<in> set storage. gatewayId g = k)"

lemma set_om_assign: "set (om_assign k v m) \<subseteq> insert (k, v) (set m)"
  by (induction k v m rule: om_assign.induct) auto

lemma gws_inv_put: "gws_inv storage \<Longrightarrow> gws_inv (snd (gws_put storage g))"
  using set_om_assign [of "gatewayId g" g storage] by (fastforce simp: gws_inv_def gws_put_def)

lemma gws_inv_erase: "gws_inv storage \<Longrightarrow> gws_inv (om_erase k storage)"
  by (auto simp: gws_inv_def) (auto simp: om_erase_def)

lemma gws_inv_rm: "gws_inv storage \<Longrightarrow> gws_inv (snd (gws_rm storage g))"
  by (auto simp: gws_rm_def gws_inv_erase split: option.splits)

lemma find_address_some:
  "find_address a storage = Some (k, g) \<Longrightarrow> (k, g) \<in> set storage \<and> sameSocketAddress a (sockaddr g)"
  by (induction a storage rule: find_address.induct) (auto split: if_splits)

lemma find_address_none:
  "find_address a storage = None \<longleftrightarrow> (\<forall>(k, g) \<in> set storage. \<not> sameSocketAddress a (sockaddr g))"
  by (induction a storage rule: find_address.induct) auto

lemma memcmp_symm: "(memcmp a b = 0) = (memcmp b a = 0)"
  by (induction a b rule: memcmp.induct) (auto simp: not_less)

lemma sameSocketAddress_sym: "sameSocketAddress a b = sameSocketAddress b a"
  using memcmp_symm [of "take 4 (sin_addr a)"] memcmp_symm [of "take 16 (sin_addr a)"]
  by (auto simp: sameSocketAddress_def)

text \<open>A gateway record is found by its address, once it is stored under a non-zero identifier.\<close>

lemma gws_get_after_put:
  assumes "gws_inv storage" "gatewayId g \<noteq> 0"
  shows "gws_get (snd (gws_put storage g)) r \<lparr>gatewayId = gatewayId g, sockaddr = s\<rparr> = (CODE_OK, g)"
  using assms by (simp add: gws_get_def gws_put_def om_simps gws_inv_def)

lemma gws_get_by_address:
  assumes "gws_get storage r \<lparr>gatewayId = 0, sockaddr = s\<rparr> = (CODE_OK, g)"
  shows "sameSocketAddress s (sockaddr g) \<and> g \<in> snd ` set storage"
proof -
  from assms obtain k where "find_address s storage = Some (k, g)"
    by (auto simp: gws_get_def split: option.splits)
  from find_address_some [OF this] show ?thesis by (auto intro: rev_image_eqI)
qed

lemma gws_rm_not_found:
  "om_sorted storage \<Longrightarrow> gatewayId g \<noteq> 0 \<Longrightarrow>
   om_find (gatewayId g) (snd (gws_rm storage g)) = None"
  by (auto simp: gws_rm_def om_simps split: option.splits)

section \<open>Properties\<close>

text \<open>every operation of the gateway storage keeps its entries sorted, unique and filed
  under their own identifiers, and a removal reports success exactly when one entry went.\<close>

theorem gateway_storage_invariant:
  assumes "gws_inv storage"
  shows "gws_inv (snd (gws_put storage g)) \<and> gws_inv (snd (gws_rm storage g)) \<and>
    (fst (gws_rm storage g) = CODE_OK \<longleftrightarrow> Suc (gws_size (snd (gws_rm storage g))) = gws_size storage)"
proof -
  have s: "om_sorted storage" using assms by (simp add: gws_inv_def)
  then have "Suc (length (om_erase k storage)) = length storage" if "(k, v) \<in> set storage" for k v
    using length_om_erase [of storage k v] that by (simp add: om_find_in_set)
  then have "fst (gws_rm storage g) = CODE_OK \<longleftrightarrow>
      Suc (gws_size (snd (gws_rm storage g))) = gws_size storage"
    using om_find_in_set [OF s]
    by (auto simp: gws_rm_def gws_size_def dest: find_address_some split: option.splits)
  with assms show ?thesis by (simp add: gws_inv_put gws_inv_rm)
qed

theorem gateway_storage_invariant_witness:
  "gws_inv (snd (gws_put [] \<lparr>gatewayId = 3, sockaddr = SOCKADDR_zero\<rparr>)) \<and>
   gws_inv (snd (gws_rm [] \<lparr>gatewayId = 3, sockaddr = SOCKADDR_zero\<rparr>)) \<and>
   (fst (gws_rm [] \<lparr>gatewayId = 3, sockaddr = SOCKADDR_zero\<rparr>) = CODE_OK \<longleftrightarrow>
    Suc (gws_size (snd (gws_rm [] \<lparr>gatewayId = 3, sockaddr = SOCKADDR_zero\<rparr>))) = gws_size [])"
  by (rule gateway_storage_invariant) (simp add: gws_inv_def)

text \<open>the best-gateway storage refines a partial map: after any history of writes and
  removals it answers with the last gateway written for the device, zero without one.\<close>

theorem best_gateway_history:
  "best_get (fold (store_exec (\<lambda>a g s. snd (best_put s a g)) (\<lambda>a s. snd (best_rm s a))) ops []) a =
     (case fold store_spec ops Map.empty a of None \<Rightarrow> 0 | Some g \<Rightarrow> g)"
  using fun_cong [OF best_store.history_initial, of a ops] by (simp only: best_get_def)

end
