(* ===== verification/Lora_Crypto.thy ===== *)
theory Lora_Crypto
  imports Lora_Types
begin

text \<open>
  The cryptography built on the block cipher: AES-CMAC
  (\<open>third-party/system/crypto/cmac.c\<close>), message integrity codes (\<open>lorawan/lorawan-mic.cpp\<close>),
  session keys (\<open>lorawan/lorawan-key.cpp\<close>) and payload encryption
  (\<open>lorawan/helper/aes-helper.cpp\<close>).  The cipher, \<open>aes_set_key\<close> with \<open>aes_encrypt\<close>, is the
  parameter \<open>E\<close>: the encryption of a 16-byte block under a 16-byte key.  Nothing is
  assumed of it but, where blocks are counted, that it returns 16 bytes.
\<close>

section \<open>AES-CMAC\<close>

type_synonym cipher = "KEY128 \<Rightarrow> bytes \<Rightarrow> bytes"

definition xor_bytes :: "bytes \<Rightarrow> bytes \<Rightarrow> bytes" where
  "xor_bytes v r = map2 (XOR) r v"

text \<open>\<open>LSHIFT\<close>: each byte takes the top bit of its successor.\<close>

definition LSHIFT :: "bytes \<Rightarrow> bytes" where
  "LSHIFT v =
     map (\<lambda>i. if i < 15 then push_bit 1 (v ! i) OR drop_bit 7 (v ! (i + 1)) else push_bit 1 (v ! 15))
       [0..<16]"

record AES_CMAC_CTX =
  cmac_key :: KEY128
  cmac_X :: bytes
  cmac_M_last :: bytes
  cmac_M_n :: nat

definition AES_CMAC_Init :: "AES_CMAC_CTX \<Rightarrow> AES_CMAC_CTX" where
  "AES_CMAC_Init ctx = ctx\<lparr> cmac_X := replicate 16 0, cmac_M_n := 0 \<rparr>"

definition AES_CMAC_SetKey :: "KEY128 \<Rightarrow> AES_CMAC_CTX \<Rightarrow> AES_CMAC_CTX" where
  "AES_CMAC_SetKey key ctx = ctx\<lparr> cmac_key := key \<rparr>"

text \<open>\<open>while (len > 16)\<close>: the last block, full or not, stays behind.\<close>

function cmac_blocks :: "(bytes \<Rightarrow> bytes) \<Rightarrow> bytes \<Rightarrow> bytes \<Rightarrow> bytes \<times> bytes" where
  "cmac_blocks enc X data =
     (if length data > 16 then cmac_blocks enc (enc (xor_bytes (take 16 data) X)) (drop 16 data)
      else (X, data))"
  by pat_completeness auto
termination by (relation "measure (\<lambda>(enc, X, data). length data)") auto

declare cmac_blocks.simps [simp del]

definition AES_CMAC_Update :: "cipher \<Rightarrow> bytes \<Rightarrow> AES_CMAC_CTX \<Rightarrow> AES_CMAC_CTX" where
  "AES_CMAC_Update E data ctx =
     (let enc = E (cmac_key ctx);
          finish = (\<lambda>c X d.
            let (X', rest) = cmac_blocks enc X d in
            c\<lparr> cmac_X := X', cmac_M_last := mem_write (cmac_M_last c) 0 rest,
               cmac_M_n := length rest \<rparr>)
      in if cmac_M_n ctx > 0 then
           let mlen = (if 16 - cmac_M_n ctx < length data then 16 - cmac_M_n ctx else length data);
               c = ctx\<lparr> cmac_M_last := mem_write (cmac_M_last ctx) (cmac_M_n ctx) (take mlen data),
                        cmac_M_n := cmac_M_n ctx + mlen \<rparr>
           in if cmac_M_n c < 16 \<or> length data = mlen then c
              else finish c (enc (xor_bytes (cmac_M_last c) (cmac_X c))) (drop mlen data)
         else finish ctx (cmac_X ctx) data)"

definition cmac_double :: "bytes \<Rightarrow> bytes" where
  "cmac_double K =
     (if K ! 0 AND 0x80 \<noteq> 0 then (let L = LSHIFT K in L[15 := L ! 15 XOR 0x87]) else LSHIFT K)"

definition AES_CMAC_Final :: "cipher \<Rightarrow> AES_CMAC_CTX \<Rightarrow> bytes" where
  "AES_CMAC_Final E ctx =
     (let enc = E (cmac_key ctx);
          K1 = cmac_double (enc (replicate 16 0));
          M_last = (if cmac_M_n ctx = 16 then xor_bytes K1 (cmac_M_last ctx)
                    else
                      let K2 = cmac_double K1;
                          padded = mem_write (cmac_M_last ctx) (cmac_M_n ctx)
                                     (0x80 # replicate (15 - cmac_M_n ctx) 0)
                      in xor_bytes K2 padded)
      in enc (xor_bytes M_last (cmac_X ctx)))"

text \<open>A context before \<open>AES_CMAC_Init\<close>: its buffer holds whatever the stack held.\<close>

definition cmac_ctx0 :: "bytes \<Rightarrow> AES_CMAC_CTX" where
  "cmac_ctx0 junk = \<lparr> cmac_key = [], cmac_X = [], cmac_M_last = junk, cmac_M_n = 0 \<rparr>"

definition aes_cmac :: "cipher \<Rightarrow> bytes \<Rightarrow> KEY128 \<Rightarrow> bytes list \<Rightarrow> bytes" where
  "aes_cmac E junk key chunks =
     AES_CMAC_Final E
       (fold (AES_CMAC_Update E) chunks (AES_CMAC_SetKey key (AES_CMAC_Init (cmac_ctx0 junk))))"

section \<open>Message integrity codes\<close>

definition mic_result :: "bytes \<Rightarrow> u32" where
  "mic_result mic =
     NTOH4 (push_bit 24 (ucast (mic ! 3)) OR push_bit 16 (ucast (mic ! 2)) OR
            push_bit 8 (ucast (mic ! 1)) OR ucast (mic ! 0))"

definition mic_blockB :: "u8 \<Rightarrow> u32 \<Rightarrow> u8 \<Rightarrow> DEVADDR \<Rightarrow> bytes" where
  "mic_blockB sz frameCounter direction a =
     [0x49, 0, 0, 0, 0, direction, byte_at a 0, byte_at a 1, byte_at a 2, byte_at a 3,
      ucast (frameCounter AND 0xff), ucast (drop_bit 8 frameCounter AND 0xff), 0, 0, 0, sz]"

definition calculateMICRev103 ::
    "cipher \<Rightarrow> bytes \<Rightarrow> bytes \<Rightarrow> u8 \<Rightarrow> u32 \<Rightarrow> u8 \<Rightarrow> DEVADDR \<Rightarrow> KEY128 \<Rightarrow> u32" where
  "calculateMICRev103 E junk data sz frameCounter direction a key =
     mic_result (aes_cmac E junk key [mic_blockB sz frameCounter direction a, take (unat sz) data])"

definition calculateMICFrmPayload ::
    "cipher \<Rightarrow> bytes \<Rightarrow> bytes \<Rightarrow> u8 \<Rightarrow> u32 \<Rightarrow> u8 \<Rightarrow> DEVADDR \<Rightarrow> KEY128 \<Rightarrow> u32" where
  "calculateMICFrmPayload E junk data sz frameCounter direction a key =
     calculateMICRev103 E junk data sz frameCounter direction a key"

text \<open>The pointer to a header is the bytes from there on; 19 and 13 of them are summed up.\<close>

definition calculateMICReJoinRequest :: "cipher \<Rightarrow> bytes \<Rightarrow> bytes \<Rightarrow> KEY128 \<Rightarrow> u8 \<Rightarrow> u32" where
  "calculateMICReJoinRequest E junk header key rejoinType =
     mic_result (aes_cmac E junk key [take (1 + 18) header])"

definition calculateMICJoinRequest :: "cipher \<Rightarrow> bytes \<Rightarrow> bytes \<Rightarrow> KEY128 \<Rightarrow> u32" where
  "calculateMICJoinRequest E junk header key = calculateMICReJoinRequest E junk header key 0xff"

definition calculateMICJoinResponse :: "cipher \<Rightarrow> bytes \<Rightarrow> bytes \<Rightarrow> KEY128 \<Rightarrow> u32" where
  "calculateMICJoinResponse E junk frame key =
     mic_result (aes_cmac E junk key [take (1 + 12) frame])"

section \<open>Session keys\<close>

text \<open>
  \<open>deriveKeyBlock\<close> hands \<open>&value\<close>, the address of its pointer parameter, to the CMAC: what
  is digested is the stack from that parameter on, given here as \<open>stack\<close>, and not the block.
\<close>

definition deriveKeyBlock :: "cipher \<Rightarrow> bytes \<Rightarrow> bytes \<Rightarrow> KEY128 \<Rightarrow> bytes \<Rightarrow> nat \<Rightarrow> KEY128" where
  "deriveKeyBlock E junk stack nwkKey block n = aes_cmac E junk nwkKey [take n stack]"

definition deriveKey :: "cipher \<Rightarrow> bytes \<Rightarrow> bytes \<Rightarrow> u8 \<Rightarrow> KEY128 \<Rightarrow> bytes \<Rightarrow> KEY128" where
  "deriveKey E junk stack tag nwkKey v =
     (let block = [tag] @ v @ replicate 7 0 in deriveKeyBlock E junk stack nwkKey block 16)"

definition deriveJSIntKey :: "cipher \<Rightarrow> bytes \<Rightarrow> bytes \<Rightarrow> KEY128 \<Rightarrow> DEVEUI \<Rightarrow> KEY128" where
  "deriveJSIntKey E junk stack nwkKey eui = deriveKey E junk stack 6 nwkKey (le_bytes 8 eui)"

definition deriveJSEncKey :: "cipher \<Rightarrow> bytes \<Rightarrow> bytes \<Rightarrow> KEY128 \<Rightarrow> DEVEUI \<Rightarrow> KEY128" where
  "deriveJSEncKey E junk stack nwkKey eui = deriveKey E junk stack 5 nwkKey (le_bytes 8 eui)"

definition dev_session_block :: "u8 \<Rightarrow> DEVEUI \<Rightarrow> JOINNONCE \<Rightarrow> DEVNONCE \<Rightarrow> bytes" where
  "dev_session_block tag eui joinNonce devNonce =
     [tag] @ joinNonce @ le_bytes 8 eui @ le_bytes 2 devNonce @ replicate 2 0"

definition deriveDevSessionKey ::
    "cipher \<Rightarrow> bytes \<Rightarrow> bytes \<Rightarrow> u8 \<Rightarrow> KEY128 \<Rightarrow> DEVEUI \<Rightarrow> JOINNONCE \<Rightarrow> DEVNONCE \<Rightarrow> KEY128" where
  "deriveDevSessionKey E junk stack tag key eui joinNonce devNonce =
     deriveKeyBlock E junk stack key (dev_session_block tag eui joinNonce devNonce) 16"

definition net_session_block :: "u8 \<Rightarrow> NETID \<Rightarrow> JOINNONCE \<Rightarrow> DEVNONCE \<Rightarrow> bytes" where
  "net_session_block tag netId joinNonce devNonce =
     [tag] @ joinNonce @ netid_bytes netId @ le_bytes 2 devNonce @ replicate 7 0"

definition deriveNetSessionKey ::
    "cipher \<Rightarrow> bytes \<Rightarrow> bytes \<Rightarrow> u8 \<Rightarrow> KEY128 \<Rightarrow> NETID \<Rightarrow> JOINNONCE \<Rightarrow> DEVNONCE \<Rightarrow> KEY128" where
  "deriveNetSessionKey E junk stack tag key netId joinNonce devNonce =
     deriveKeyBlock E junk stack key (net_session_block tag netId joinNonce devNonce) 16"

definition deriveOptNegFNwkSIntKey ::
    "cipher \<Rightarrow> bytes \<Rightarrow> bytes \<Rightarrow> KEY128 \<Rightarrow> DEVEUI \<Rightarrow> JOINNONCE \<Rightarrow> DEVNONCE \<Rightarrow> KEY128" where
  "deriveOptNegFNwkSIntKey E junk stack key eui joinNonce devNonce =
     deriveDevSessionKey E junk stack 1 key eui joinNonce devNonce"

definition deriveOptNegSNwkSIntKey ::
    "cipher \<Rightarrow> bytes \<Rightarrow> bytes \<Rightarrow> KEY128 \<Rightarrow> DEVEUI \<Rightarrow> JOINNONCE \<Rightarrow> DEVNONCE \<Rightarrow> KEY128" where
  "deriveOptNegSNwkSIntKey E junk stack key eui joinNonce devNonce =
     deriveDevSessionKey E junk stack 3 key eui joinNonce devNonce"

definition deriveOptNegNwkSEncKey ::
    "cipher \<Rightarrow> bytes \<Rightarrow> bytes \<Rightarrow> KEY128 \<Rightarrow> DEVEUI \<Rightarrow> JOINNONCE \<Rightarrow> DEVNONCE \<Rightarrow> KEY128" where
  "deriveOptNegNwkSEncKey E junk stack key eui joinNonce devNonce =
     deriveDevSessionKey E junk stack 4 key eui joinNonce devNonce"

definition deriveAppSKey ::
    "cipher \<Rightarrow> bytes \<Rightarrow> bytes \<Rightarrow> KEY128 \<Rightarrow> NETID \<Rightarrow> JOINNONCE \<Rightarrow> DEVNONCE \<Rightarrow> KEY128" where
  "deriveAppSKey E junk stack key netId joinNonce devNonce =
     deriveNetSessionKey E junk stack 2 key netId joinNonce devNonce"

definition deriveFNwkSIntKey ::
    "cipher \<Rightarrow> bytes \<Rightarrow> bytes \<Rightarrow> KEY128 \<Rightarrow> NETID \<Rightarrow> JOINNONCE \<Rightarrow> DEVNONCE \<Rightarrow> KEY128" where
  "deriveFNwkSIntKey E junk stack key netId joinNonce devNonce =
     deriveNetSessionKey E junk stack 1 key netId joinNonce devNonce"

section \<open>Payload encryption\<close>

definition LORAWAN_UPLINK :: u8 where "LORAWAN_UPLINK = 0"
definition LORAWAN_DOWNLINK :: u8 where "LORAWAN_DOWNLINK = 1"

definition enc_block_A :: "u32 \<Rightarrow> u8 \<Rightarrow> DEVADDR \<Rightarrow> u16 \<Rightarrow> bytes" where
  "enc_block_A frameCounter direction a ctr =
     [1, 0, 0, 0, 0, direction, byte_at a 0, byte_at a 1, byte_at a 2, byte_at a 3,
      ucast (frameCounter AND 0xff), ucast (drop_bit 8 frameCounter AND 0xff), 0, 0, 0,
      ucast (ctr AND 0xff)]"

text \<open>
  The loop over full blocks and the rest after it.  \<open>bufferIndex\<close> is an 8-bit integer, so it
  wraps after sixteen blocks.
\<close>

function encrypt_loop ::
    "(u16 \<Rightarrow> bytes) \<Rightarrow> nat \<Rightarrow> u16 \<Rightarrow> u8 \<Rightarrow> bytes \<Rightarrow> bytes" where
  "encrypt_loop keystream n ctr bufferIndex buf =
     (if n \<ge> 16 then
        encrypt_loop keystream (n - 16) (ctr + 1) (bufferIndex + 16)
          (mem_write buf (unat bufferIndex)
             (xor_bytes (keystream ctr) (mem_read buf (unat bufferIndex) 16)))
      else if n > 0 then
        mem_write buf (unat bufferIndex)
          (xor_bytes (take n (keystream ctr)) (mem_read buf (unat bufferIndex) n))
      else buf)"
  by pat_completeness auto
termination by (relation "measure (\<lambda>(keystream, n, ctr, bufferIndex, buf). n)") auto

declare encrypt_loop.simps [simp del]

definition encryptPayload ::
    "cipher \<Rightarrow> bytes \<Rightarrow> nat \<Rightarrow> u32 \<Rightarrow> u8 \<Rightarrow> DEVADDR \<Rightarrow> KEY128 \<Rightarrow> bytes" where
  "encryptPayload E payload psz frameCounter direction a appSKey =
     encrypt_loop (\<lambda>ctr. E appSKey (enc_block_A frameCounter direction a ctr)) psz 1 0 payload"

text \<open>\<open>#define decryptPayload encryptPayload\<close>\<close>

definition decryptPayload ::
    "cipher \<Rightarrow> bytes \<Rightarrow> nat \<Rightarrow> u32 \<Rightarrow> u8 \<Rightarrow> DEVADDR \<Rightarrow> KEY128 \<Rightarrow> bytes" where
  "decryptPayload E payload psz frameCounter direction a appSKey =
     encryptPayload E payload psz frameCounter direction a appSKey"

text \<open>\<open>decryptJoinAccept\<close> encrypts the blocks after the first byte in place.\<close>

function decryptJoinAccept_loop :: "(bytes \<Rightarrow> bytes) \<Rightarrow> nat \<Rightarrow> u8 \<Rightarrow> bytes \<Rightarrow> bytes" where
  "decryptJoinAccept_loop enc n bufferIndex buf =
     (if n \<ge> 16 then
        decryptJoinAccept_loop enc (n - 16) (bufferIndex + 16)
          (mem_write buf (unat bufferIndex) (enc (mem_read buf (unat bufferIndex) 16)))
      else buf)"
  by pat_completeness auto
termination by (relation "measure (\<lambda>(enc, n, bufferIndex, buf). n)") auto

declare decryptJoinAccept_loop.simps [simp del]

definition decryptJoinAccept :: "cipher \<Rightarrow> bytes \<Rightarrow> nat \<Rightarrow> KEY128 \<Rightarrow> bytes" where
  "decryptJoinAccept E payload n key =
     (if n = 0 then payload else decryptJoinAccept_loop (E key) (n - 1) 1 payload)"

text \<open>\<open>encryptJoinAcceptResponse\<close> adds the encryption of the zero block to 15 of the 16 bytes.\<close>

definition encryptJoinAcceptResponse :: "cipher \<Rightarrow> bytes \<Rightarrow> KEY128 \<Rightarrow> bytes" where
  "encryptJoinAcceptResponse E frame key =
     (let s = E key (replicate 16 0)
      in mem_write frame 0 (xor_bytes (take 15 s) (mem_read frame 0 15)))"

definition encryptJoinAcceptCFListResponse :: "cipher \<Rightarrow> bytes \<Rightarrow> KEY128 \<Rightarrow> bytes" where
  "encryptJoinAcceptCFListResponse E frame key =
     (let s = E key (replicate 16 0);
          f = mem_write frame 0 (xor_bytes s (mem_read frame 0 16))
      in mem_write f 16 (xor_bytes (take 15 s) (mem_read f 16 15)))"


section \<open>The digest is that of the concatenated chunks\<close>

text \<open>The last block of a message, completed to 16 bytes, and the digest of a whole message.\<close>

definition cmac_pad :: "bytes \<Rightarrow> bytes" where
  "cmac_pad t = t @ 0x80 # replicate (15 - length t) 0"

definition cmac_spec :: "(bytes \<Rightarrow> bytes) \<Rightarrow> bytes \<Rightarrow> bytes" where
  "cmac_spec enc m =
     (let (X, t) = cmac_blocks enc (replicate 16 0) m;
          K1 = cmac_double (enc (replicate 16 0)); K2 = cmac_double K1
      in enc (xor_bytes (if length t = 16 then xor_bytes K1 t else xor_bytes K2 (cmac_pad t)) X))"

lemma cmac_blocks_short: "length m \<le> 16 \<Longrightarrow> cmac_blocks enc X m = (X, m)"
  by (subst cmac_blocks.simps) simp

lemma cmac_blocks_long:
  "16 < length m \<Longrightarrow>
   cmac_blocks enc X m = cmac_blocks enc (enc (xor_bytes (take 16 m) X)) (drop 16 m)"
  by (subst cmac_blocks.simps) simp

lemma cmac_blocks_append:
  "cmac_blocks enc X m = (X', t) \<Longrightarrow> cmac_blocks enc X (m @ d) = cmac_blocks enc X' (t @ d)"
proof (induction enc X m rule: cmac_blocks.induct)
  case (1 enc X m)
  show ?case
  proof (cases "16 < length m")
    case True
    with 1 show ?thesis by (simp add: cmac_blocks_long)
  next
    case False
    with 1 show ?thesis by (simp add: cmac_blocks_short)
  qed
qed

lemma cmac_blocks_tail:
  "cmac_blocks enc X m = (X', t) \<Longrightarrow> length t \<le> 16 \<and> (t = [] \<longleftrightarrow> m = [])"
proof (induction enc X m rule: cmac_blocks.induct)
  case (1 enc X m)
  show ?case
  proof (cases "16 < length m")
    case True
    then have "cmac_blocks enc (enc (xor_bytes (take 16 m) X)) (drop 16 m) = (X', t)"
      using 1 (2) by (simp add: cmac_blocks_long)
    from 1 (1) [OF True this] True show ?thesis by auto
  next
    case False
    with 1 show ?thesis by (simp add: cmac_blocks_short)
  qed
qed

text \<open>A context stands for the message it has absorbed.\<close>

definition cmac_rep :: "cipher \<Rightarrow> AES_CMAC_CTX \<Rightarrow> bytes \<Rightarrow> bool" where
  "cmac_rep E ctx m \<longleftrightarrow>
     length (cmac_M_last ctx) = 16 \<and>
     cmac_blocks (E (cmac_key ctx)) (replicate 16 0) m =
       (cmac_X ctx, take (cmac_M_n ctx) (cmac_M_last ctx)) \<and> cmac_M_n ctx \<le> 16"

lemma cmac_finish_rep:
  assumes "length L = 16" "cmac_blocks enc X d = (X', rest)"
  shows "take (length rest) (mem_write L 0 rest) = rest" "length (mem_write L 0 rest) = 16"
  using assms cmac_blocks_tail [OF assms(2)] by (simp_all add: mem_write_def)

lemma cmac_rep_Update:
  assumes "cmac_rep E ctx m"
  shows "cmac_rep E (AES_CMAC_Update E d ctx) (m @ d)"
    and "cmac_key (AES_CMAC_Update E d ctx) = cmac_key ctx"
proof -
  let ?enc = "E (cmac_key ctx)" and ?n = "cmac_M_n ctx" and ?L = "cmac_M_last ctx"
  let ?mlen = "if 16 - ?n < length d then 16 - ?n else length d"
  let ?L' = "mem_write ?L ?n (take ?mlen d)"
  from assms have L: "length ?L = 16" and n: "?n \<le> 16"
    and b: "cmac_blocks ?enc (replicate 16 0) m = (cmac_X ctx, take ?n ?L)"
    by (simp_all add: cmac_rep_def)
  have bd: "cmac_blocks ?enc (replicate 16 0) (m @ d) = cmac_blocks ?enc (cmac_X ctx) (take ?n ?L @ d)"
    by (rule cmac_blocks_append [OF b])
  consider (empty) "?n = 0" | (stays) "0 < ?n" "?n + ?mlen < 16 \<or> length d = ?mlen"
    | (full) "0 < ?n" "16 - ?n < length d" by fastforce
  then have "cmac_rep E (AES_CMAC_Update E d ctx) (m @ d) \<and>
      cmac_key (AES_CMAC_Update E d ctx) = cmac_key ctx"
  proof cases
    case empty
    obtain X' rest where r: "cmac_blocks ?enc (cmac_X ctx) d = (X', rest)" by fastforce
    with empty bd L cmac_finish_rep [OF L r] cmac_blocks_tail [OF r] show ?thesis
      by (simp add: AES_CMAC_Update_def cmac_rep_def Let_def)
  next
    case stays
    then have m: "?mlen = length d" and le: "?n + length d \<le> 16" using n by (auto split: if_splits)
    have "take (?n + length d) (mem_write ?L ?n d) = take ?n ?L @ d"
      using L le by (simp add: mem_write_def)
    with stays m le L bd show ?thesis
      by (simp add: AES_CMAC_Update_def cmac_rep_def Let_def cmac_blocks_short)
  next
    case full
    let ?X1 = "?enc (xor_bytes ?L' (cmac_X ctx))"
    obtain X' rest where r: "cmac_blocks ?enc ?X1 (drop ?mlen d) = (X', rest)" by fastforce
    have L': "?L' = take 16 (take ?n ?L @ d)" "length ?L' = 16"
      using full L n by (simp_all add: mem_write_def)
    have "cmac_blocks ?enc (cmac_X ctx) (take ?n ?L @ d) = (X', rest)"
      using full L n r L' by (simp add: cmac_blocks_long)
    with full n bd L'(2) cmac_finish_rep [OF L'(2) r] cmac_blocks_tail [OF r] r show ?thesis
      by (simp add: AES_CMAC_Update_def cmac_rep_def Let_def)
  qed
  then show "cmac_rep E (AES_CMAC_Update E d ctx) (m @ d)"
    and "cmac_key (AES_CMAC_Update E d ctx) = cmac_key ctx" by auto
qed

lemma cmac_rep_Final:
  assumes "cmac_rep E ctx m"
  shows "AES_CMAC_Final E ctx = cmac_spec (E (cmac_key ctx)) m"
proof -
  let ?n = "cmac_M_n ctx" and ?L = "cmac_M_last ctx"
  from assms have L: "length ?L = 16" "?n \<le> 16"
    and b: "cmac_blocks (E (cmac_key ctx)) (replicate 16 0) m = (cmac_X ctx, take ?n ?L)"
    by (simp_all add: cmac_rep_def)
  have "mem_write ?L ?n (0x80 # replicate (15 - ?n) 0) = cmac_pad (take ?n ?L)" if "?n \<noteq> 16"
    using that L by (simp add: mem_write_def cmac_pad_def)
  with L b show ?thesis by (simp add: AES_CMAC_Final_def cmac_spec_def Let_def)
qed

lemma cmac_rep_fold:
  "cmac_rep E ctx m \<Longrightarrow> cmac_rep E (fold (AES_CMAC_Update E) chunks ctx) (m @ concat chunks) \<and>
     cmac_key (fold (AES_CMAC_Update E) chunks ctx) = cmac_key ctx"
proof (induction chunks arbitrary: ctx m)
  case (Cons c chunks)
  show ?case
    using Cons.IH [OF cmac_rep_Update(1) [OF Cons.prems, of c]] cmac_rep_Update(2) [OF Cons.prems, of c]
    by simp
qed simp

lemma aes_cmac_spec:
  assumes "length junk = 16"
  shows "aes_cmac E junk key chunks = cmac_spec (E key) (concat chunks)"
proof -
  let ?c = "AES_CMAC_SetKey key (AES_CMAC_Init (cmac_ctx0 junk))"
  have "cmac_rep E ?c []"
    using assms by (simp add: cmac_rep_def AES_CMAC_SetKey_def AES_CMAC_Init_def cmac_ctx0_def
        cmac_blocks_short)
  from cmac_rep_fold [OF this, of chunks] cmac_rep_Final show ?thesis
    by (auto simp: aes_cmac_def AES_CMAC_SetKey_def)
qed

section \<open>Codes and keys\<close>

lemma bit_NTOH4_bytes:
  "mic_result (b0 # b1 # b2 # b3 # bs) = from_le [b3, b2, b1, b0]"
  unfolding mic_result_def by (rule u32_eqI) (simp add: bit_NTOH4 bit_simps bit_from_le flip: numeral_2_eq_2)

lemma mic_frame_spec:
  assumes "length junk = 16"
  shows "calculateMICFrmPayload E junk data sz fc dir a key =
    mic_result (cmac_spec (E key) (mic_blockB sz fc dir a @ take (unat sz) data))"
  using assms by (simp add: calculateMICFrmPayload_def calculateMICRev103_def aes_cmac_spec)

section \<open>Encryption is counter mode\<close>

lemma length_xor_bytes [simp]: "length (xor_bytes v r) = min (length r) (length v)"
  by (simp add: xor_bytes_def)

lemma nth_xor_bytes: "i < length r \<Longrightarrow> i < length v \<Longrightarrow> xor_bytes v r ! i = r ! i XOR v ! i"
  by (simp add: xor_bytes_def)

lemma encrypt_step:
  assumes "s + l \<le> length buf" "length v = l"
  shows "length (mem_write buf s (xor_bytes v (mem_read buf s l))) = length buf"
    and "i < length buf \<Longrightarrow> mem_write buf s (xor_bytes v (mem_read buf s l)) ! i =
      (if s \<le> i \<and> i < s + l then buf ! i XOR v ! (i - s) else buf ! i)"
  using assms by (auto simp: mem_write_nth nth_xor_bytes mem_read_def)

lemma unat_16_k: "n + 16 * k \<le> 256 \<Longrightarrow> n > 0 \<Longrightarrow> unat (of_nat (16 * k) :: u8) = 16 * k"
  by (simp only: unat_of_nat) simp

lemma encrypt_loop_nth:
  assumes ks: "\<And>c. length (ks c) = 16"
  shows "n + 16 * k \<le> 256 \<Longrightarrow> n + 16 * k \<le> length buf \<Longrightarrow>
    length (encrypt_loop ks n (of_nat (k + 1)) (of_nat (16 * k)) buf) = length buf \<and>
    (\<forall>i < length buf. encrypt_loop ks n (of_nat (k + 1)) (of_nat (16 * k)) buf ! i =
      (if 16 * k \<le> i \<and> i < 16 * k + n
       then buf ! i XOR ks (of_nat (i div 16 + 1)) ! (i mod 16) else buf ! i))"
proof (induction n arbitrary: k buf rule: less_induct)
  case (less n)
  consider (block) "16 \<le> n" | (rest) "0 < n" "n < 16" | (stop) "n = 0" by linarith
  then show ?case
  proof cases
    case block
    let ?s = "16 * k"
    let ?b = "mem_write buf ?s (xor_bytes (ks (of_nat (k + 1))) (mem_read buf ?s 16))"
    have s: "unat (of_nat ?s :: u8) = ?s" using unat_16_k less.prems block by auto
    have eq: "encrypt_loop ks n (of_nat (k + 1)) (of_nat ?s) buf =
        encrypt_loop ks (n - 16) (of_nat (Suc k + 1)) (of_nat (16 * Suc k)) ?b"
      by (subst encrypt_loop.simps) (use block s in \<open>simp add: ac_simps\<close>)
    have le: "?s + 16 \<le> length buf" using less.prems block by linarith
    have step: "length ?b = length buf"
      "\<And>i. i < length buf \<Longrightarrow> ?b ! i =
        (if ?s \<le> i \<and> i < ?s + 16 then buf ! i XOR ks (of_nat (k + 1)) ! (i - ?s) else buf ! i)"
      using encrypt_step [OF le ks] by blast+
    have IH: "length (encrypt_loop ks (n - 16) (of_nat (Suc k + 1)) (of_nat (16 * Suc k)) ?b) = length ?b \<and>
      (\<forall>i < length ?b. encrypt_loop ks (n - 16) (of_nat (Suc k + 1)) (of_nat (16 * Suc k)) ?b ! i =
        (if 16 * Suc k \<le> i \<and> i < 16 * Suc k + (n - 16)
         then ?b ! i XOR ks (of_nat (i div 16 + 1)) ! (i mod 16) else ?b ! i))"
      by (rule less.IH) (use block less.prems step(1) in auto)
    have div: "i div 16 = k \<and> i mod 16 = i - ?s" if "?s \<le> i" "i < ?s + 16" for i
      using that by (auto simp: div_nat_eqI modulo_nat_def)
    show ?thesis
      unfolding eq using IH step block div by (auto simp del: of_nat_Suc of_nat_add)
  next
    case rest
    let ?s = "16 * k"
    have s: "unat (of_nat ?s :: u8) = ?s" using unat_16_k less.prems rest by auto
    have eq: "encrypt_loop ks n (of_nat (k + 1)) (of_nat ?s) buf =
        mem_write buf ?s (xor_bytes (take n (ks (of_nat (k + 1)))) (mem_read buf ?s n))"
      by (subst encrypt_loop.simps) (use rest s in simp)
    have le: "?s + n \<le> length buf" and l: "length (take n (ks (of_nat (k + 1)))) = n"
      using less.prems rest ks by simp_all
    have div: "i div 16 = k \<and> i mod 16 = i - ?s" if "?s \<le> i" "i < ?s + n" for i
      using that rest by (auto simp: div_nat_eqI modulo_nat_def)
    show ?thesis unfolding eq using encrypt_step [OF le l] div by auto
  next
    case stop
    then have "encrypt_loop ks n c b buf = buf" for c b by (subst encrypt_loop.simps) simp
    with stop show ?thesis by auto
  qed
qed


lemma encryptPayload_nth:
  assumes "\<And>k b. length (E k b) = 16" "n \<le> 256" "n \<le> length p"
  shows "length (encryptPayload E p n fc dir a key) = length p"
    and "i < length p \<Longrightarrow> encryptPayload E p n fc dir a key ! i =
      (if i < n
       then p ! i XOR E key (enc_block_A fc dir a (of_nat (i div 16 + 1))) ! (i mod 16)
       else p ! i)"
  using encrypt_loop_nth [of "\<lambda>c. E key (enc_block_A fc dir a c)" n 0 p] assms
  by (simp_all add: encryptPayload_def)

lemma encryptPayload_involution:
  assumes "\<And>k b. length (E k b) = 16" "n \<le> 256" "n \<le> length p"
  shows "encryptPayload E (encryptPayload E p n fc dir a key) n fc dir a key = p"
proof -
  let ?c = "encryptPayload E p n fc dir a key"
  note enc = encryptPayload_nth [OF assms, where fc = fc and dir = dir and a = a and key = key]
  have n: "n \<le> length ?c" using assms(3) enc(1) by simp
  note dec = encryptPayload_nth [OF assms(1,2) n, where fc = fc and dir = dir and a = a and key = key]
  show ?thesis
    by (rule nth_equalityI) (use enc dec in \<open>auto simp: xor.assoc\<close>)
qed

section \<open>Properties\<close>

text \<open>C10: the streaming CMAC digests the concatenation of its chunks, however the message was
  split and whatever the context's buffer held before.\<close>

theorem cmac_streaming:
  assumes "length junk = 16"
  shows "aes_cmac E junk key chunks = cmac_spec (E key) (concat chunks)"
  by (rule aes_cmac_spec [OF assms])

theorem cmac_streaming_witness:
  "aes_cmac (\<lambda>k b. xor_bytes k b) (replicate 16 9) (replicate 16 3) [[1, 2], replicate 20 5, [], [7]] =
   cmac_spec (xor_bytes (replicate 16 3)) (concat [[1, 2], replicate 20 5, [], [7]])"
  by (rule cmac_streaming) simp

text \<open>C3: payload encryption is the cipher in counter mode: byte \<open>i\<close> is combined with byte
  \<open>i mod 16\<close> of the encrypted block number \<open>i div 16 + 1\<close>, the bytes beyond the payload keep,
  and encrypting again restores the payload.\<close>

theorem payload_counter_mode:
  assumes "\<forall>k b. length (E k b) = 16" "n \<le> 256" "n \<le> length p" "i < n"
  shows "decryptPayload E (encryptPayload E p n fc dir a key) n fc dir a key = p \<and>
    encryptPayload E p n fc dir a key ! i =
       p ! i XOR E key (enc_block_A fc dir a (of_nat (i div 16 + 1))) ! (i mod 16) \<and>
    drop n (encryptPayload E p n fc dir a key) = drop n p"
proof -
  have E: "\<And>k b. length (E k b) = 16" using assms(1) by blast
  note enc = encryptPayload_nth [OF E assms(2,3), where fc = fc and dir = dir and a = a and key = key]
  have "drop n (encryptPayload E p n fc dir a key) = drop n p"
    by (rule nth_equalityI) (use enc assms(3) in auto)
  with enc(2) [of i] encryptPayload_involution [OF E assms(2,3)] assms(3,4) show ?thesis
    by (simp add: decryptPayload_def)
qed

theorem payload_counter_mode_witness:
  "decryptPayload (\<lambda>k b. replicate 16 0x5a) (encryptPayload (\<lambda>k b. replicate 16 0x5a)
       (replicate 40 1) 33 7 0 5 []) 33 7 0 5 [] = replicate 40 1 \<and>
   encryptPayload (\<lambda>k b. replicate 16 0x5a) (replicate 40 1) 33 7 0 5 [] ! 20 =
      replicate 40 1 ! 20 XOR (\<lambda>k b. replicate 16 0x5a) [] (enc_block_A 7 0 5 (of_nat (20 div 16 + 1))) ! (20 mod 16) \<and>
   drop 33 (encryptPayload (\<lambda>k b. replicate 16 0x5a) (replicate 40 1) 33 7 0 5 []) = drop 33 (replicate 40 1)"
  by (rule payload_counter_mode) simp_all

text \<open>C11: a frame's integrity code is the CMAC of the block B0 and the frame under the key,
  its first four bytes read as a big-endian number.\<close>

theorem frame_mic_spec:
  assumes "length junk = 16" "cmac_spec (E key) (mic_blockB sz fc dir a @ take (unat sz) data) = b0 # b1 # b2 # b3 # bs"
  shows "calculateMICFrmPayload E junk data sz fc dir a key = from_le [b3, b2, b1, b0]"
  by (simp add: mic_frame_spec [OF assms(1)] assms(2) bit_NTOH4_bytes)

theorem frame_mic_spec_witness:
  "calculateMICFrmPayload (\<lambda>k b. [1, 2, 3, 4]) (replicate 16 0) [] 0 0 0 0 [] = from_le [4, 3, 2, 1]"
proof (rule frame_mic_spec)
  show "cmac_spec ((\<lambda>k b. [1, 2, 3, 4]) []) (mic_blockB 0 0 0 0 @ take (unat 0) []) = [1, 2, 3, 4]"
    by (simp add: cmac_spec_def mic_blockB_def cmac_blocks_short)
qed simp

text \<open>the derived session keys depend on the base key and on stack memory only: the tag, the
  identifiers and the nonces that should separate them have no influence.\<close>

theorem derived_keys_ignore_inputs:
  "deriveOptNegFNwkSIntKey E junk stack key e1 j1 d1 = deriveOptNegSNwkSIntKey E junk stack key e2 j2 d2 \<and>
   deriveOptNegFNwkSIntKey E junk stack key e1 j1 d1 = deriveOptNegNwkSEncKey E junk stack key e2 j2 d2 \<and>
   deriveAppSKey E junk stack key n1 j1 d1 = deriveFNwkSIntKey E junk stack key n2 j2 d2 \<and>
   deriveJSIntKey E junk stack key e1 = deriveJSEncKey E junk stack key e2"
  by (simp add: deriveOptNegFNwkSIntKey_def deriveOptNegSNwkSIntKey_def deriveOptNegNwkSEncKey_def
      deriveAppSKey_def deriveFNwkSIntKey_def deriveJSIntKey_def deriveJSEncKey_def
      deriveDevSessionKey_def deriveNetSessionKey_def deriveKey_def deriveKeyBlock_def Let_def)

end
