(* ===== verification/Packet_Storage.thy ===== *)
theory Packet_Storage
  imports Device_Id Lora_Crypto
begin

text \<open>
  \<open>LORAWAN_MESSAGE_STORAGE\<close> (\<open>lorawan/lorawan-packet-storage.cpp\<close>), the radio packet as the
  server holds it, the message builders over it (\<open>lorawan/lorawan-builder.cpp\<close>) and
  \<open>NetworkIdentity\<close> (\<open>lorawan/storage/network-identity.cpp\<close>), whose keys they use.  The union
  of the message bodies is its 262 bytes: address at 0, frame control at 4, counter at 5,
  options, port and payload from 7 on.
\<close>

section \<open>NetworkIdentity\<close>

record NetworkIdentity =
  nwi_devaddr :: DEVADDR
  nwi_devid :: DEVICE_ID

text \<open>
  The class repeats the members of \<open>DEVICE_ID\<close> beside the address.  The constructor and the
  assignment copy all of them but the join nonce, \<open>set\<close> copies all.
\<close>

definition NetworkIdentity_make :: "DEVADDR \<Rightarrow> DEVICE_ID \<Rightarrow> NetworkIdentity" where
  "NetworkIdentity_make a v =
     \<lparr> nwi_devaddr = a, nwi_devid = v\<lparr> joinNonce := replicate 3 0 \<rparr> \<rparr>"

definition NetworkIdentity_devid :: "DEVICE_ID \<Rightarrow> NetworkIdentity" where
  "NetworkIdentity_devid v =
     \<lparr> nwi_devaddr = 0, nwi_devid = v\<lparr> joinNonce := replicate 3 0 \<rparr> \<rparr>"

definition NetworkIdentity_assign :: "DEVICE_ID \<Rightarrow> NetworkIdentity \<Rightarrow> NetworkIdentity" where
  "NetworkIdentity_assign v n =
     n\<lparr> nwi_devid := v\<lparr> joinNonce := joinNonce (nwi_devid n) \<rparr> \<rparr>"

definition NetworkIdentity_set :: "DEVADDR \<Rightarrow> DEVICE_ID \<Rightarrow> NetworkIdentity \<Rightarrow> NetworkIdentity" where
  "NetworkIdentity_set a v n = n\<lparr> nwi_devaddr := a, nwi_devid := v \<rparr>"

text \<open>\<open>calculateMIC\<close> over a buffer of \<open>n\<close> bytes; the length of a frame is cut to 8 bits.\<close>

definition calculateMIC ::
    "cipher \<Rightarrow> bytes \<Rightarrow> bytes option \<Rightarrow> nat \<Rightarrow> NetworkIdentity \<Rightarrow> u32" where
  "calculateMIC E junk buf n identity =
     (case buf of
        None \<Rightarrow> 0
      | Some b \<Rightarrow>
          if n < 1 then 0
          else
            let t = mhdr_mtype (b ! 0); key = nwkSKey (nwi_devid identity);
                counter = ucast (from_le (mem_read b 6 2) :: u16)
            in if t = MTYPE_JOIN_REQUEST then
                 (if n < 1 + 18 then 0 else calculateMICJoinRequest E junk (drop 1 b) key)
               else if t = MTYPE_REJOIN_REQUEST then
                 (if n < 1 + 18 then 0 else calculateMICReJoinRequest E junk (drop 1 b) key 0)
               else if t = MTYPE_JOIN_ACCEPT then
                 (if n < 1 + 16 then 0 else calculateMICJoinResponse E junk (drop 1 b) key)
               else if t = MTYPE_UNCONFIRMED_DATA_UP \<or> t = MTYPE_CONFIRMED_DATA_UP then
                 (if n < 1 + 7 then 0
                  else calculateMICFrmPayload E junk b (of_nat n) counter 0 (nwi_devaddr identity) key)
               else if t = MTYPE_UNCONFIRMED_DATA_DOWN \<or> t = MTYPE_CONFIRMED_DATA_DOWN then
                 (if n < 1 + 7 then 0
                  else calculateMICFrmPayload E junk b (of_nat n) counter 1 (nwi_devaddr identity) key)
               else 0)"

section \<open>The storage and its fields\<close>

record LORAWAN_MESSAGE_STORAGE =
  mhdr :: MHDR
  mdata :: bytes
  psize :: int

abbreviation (input) "mtype s \<equiv> mhdr_mtype (mhdr s)"

definition is_up :: "u8 \<Rightarrow> bool" where
  "is_up t \<longleftrightarrow> t = MTYPE_UNCONFIRMED_DATA_UP \<or> t = MTYPE_CONFIRMED_DATA_UP"

definition is_down :: "u8 \<Rightarrow> bool" where
  "is_down t \<longleftrightarrow> t = MTYPE_UNCONFIRMED_DATA_DOWN \<or> t = MTYPE_CONFIRMED_DATA_DOWN"

definition storage_default :: LORAWAN_MESSAGE_STORAGE where
  "storage_default = \<lparr> mhdr = 0, mdata = replicate 262 0, psize = 0 \<rparr>"

text \<open>The packed object in memory: 1, 262 and 4 bytes.\<close>

definition storage_memory :: "LORAWAN_MESSAGE_STORAGE \<Rightarrow> bytes" where
  "storage_memory s = [mhdr s] @ mdata s @ le_bytes 4 (word_of_int (psize s) :: u32)"

definition storage_of_memory :: "bytes \<Rightarrow> LORAWAN_MESSAGE_STORAGE" where
  "storage_of_memory m =
     \<lparr> mhdr = m ! 0, mdata = mem_read m 1 262, psize = sint (from_le (mem_read m 263 4) :: u32) \<rparr>"

definition st_devaddr :: "bytes \<Rightarrow> DEVADDR" where
  "st_devaddr d = from_le (mem_read d 0 4)"

definition st_foptslen :: "bytes \<Rightarrow> nat" where
  "st_foptslen d = unat (foptslen (d ! 4))"

definition st_fcnt :: "bytes \<Rightarrow> u16" where
  "st_fcnt d = from_le (mem_read d 5 2)"

text \<open>
  The accessors of \<open>UPLINK_STORAGE\<close>, which \<open>DOWNLINK_STORAGE\<close> repeats word for word.
\<close>

definition st_fopts :: "bytes \<Rightarrow> bytes" where
  "st_fopts d = mem_read d 7 (st_foptslen d)"

definition st_fport :: "bytes \<Rightarrow> u8" where
  "st_fport d = d ! (7 + st_foptslen d)"

definition st_setFport :: "u8 \<Rightarrow> bytes \<Rightarrow> bytes" where
  "st_setFport v d = d[7 + st_foptslen d := v]"

definition st_payload_offset :: "bytes \<Rightarrow> nat" where
  "st_payload_offset d = 7 + st_foptslen d + 1"

definition st_setPayload :: "bytes \<Rightarrow> u8 \<Rightarrow> bytes \<Rightarrow> bytes" where
  "st_setPayload v n d = mem_write d (st_payload_offset d) (take (unat n) v)"

definition st_setFopts :: "bytes \<Rightarrow> u8 \<Rightarrow> bytes \<Rightarrow> bytes" where
  "st_setFopts v n d =
     (let d' = d[4 := set_foptslen (n AND 0xf) (d ! 4)]
      in mem_write d' 7 (take (st_foptslen d') v))"

text \<open>\<open>setFOpts\<close> makes room first: it moves port and payload up by the size of the options.\<close>

definition st_setFOpts :: "bytes \<Rightarrow> nat \<Rightarrow> bytes \<Rightarrow> bytes" where
  "st_setFOpts v n d =
     (let n = (if n > 16 then 16 else n);
          d' = mem_write d (7 + n) (mem_read d 7 (255 - n))
      in mem_write d' 7 (take n v))"

section \<open>Filling the storage\<close>

definition storage_setSize :: "u64 \<Rightarrow> LORAWAN_MESSAGE_STORAGE \<Rightarrow> LORAWAN_MESSAGE_STORAGE" where
  "storage_setSize n s =
     (if is_up (mtype s) \<or> is_down (mtype s) then
        let p = sint (ucast (n - 1 - 7 - of_nat (st_foptslen (mdata s)) - 4) :: u32);
            p = (if p > 1 then p - 1 else p);
            p = (if p < 0 then 0 else p)
        in s\<lparr> psize := p \<rparr>
      else s)"

text \<open>From a string of any length: beyond the object's 267 bytes the copy is undefined.\<close>

definition set_storage_string ::
    "bytes \<Rightarrow> LORAWAN_MESSAGE_STORAGE \<Rightarrow> LORAWAN_MESSAGE_STORAGE option" where
  "set_storage_string bin s =
     (if length bin \<le> 267
      then Some ((storage_of_memory (mem_write (storage_memory s) 0 bin))
                   \<lparr> psize := int (length bin) mod 65536 \<rparr>)
      else None)"

text \<open>From a buffer: at most all but two bytes of the object, the payload size among them.\<close>

definition set_storage ::
    "bytes \<Rightarrow> nat \<Rightarrow> LORAWAN_MESSAGE_STORAGE \<Rightarrow> LORAWAN_MESSAGE_STORAGE" where
  "set_storage buffer n s =
     (let n = (if n > 267 - 2 then 267 - 2 else n)
      in storage_setSize (of_nat n)
           (storage_of_memory (mem_write (storage_memory s) 0 (take n buffer))))"

definition storage_setPayload ::
    "bytes \<Rightarrow> nat \<Rightarrow> LORAWAN_MESSAGE_STORAGE \<Rightarrow> LORAWAN_MESSAGE_STORAGE" where
  "storage_setPayload v n s =
     (if is_up (mtype s) then
        s\<lparr> mdata := st_setPayload v (of_nat n) (st_setPayload v (of_nat n) (mdata s)) \<rparr>
      else if is_down (mtype s) then s\<lparr> mdata := st_setPayload v (of_nat n) (mdata s) \<rparr>
      else s)"

definition storage_setFOpts ::
    "bytes \<Rightarrow> nat \<Rightarrow> LORAWAN_MESSAGE_STORAGE \<Rightarrow> LORAWAN_MESSAGE_STORAGE" where
  "storage_setFOpts v n s =
     (if is_up (mtype s) then
        s\<lparr> mdata := st_setFopts v (of_nat n) (st_setFopts v (of_nat n) (mdata s)) \<rparr>
      else if is_down (mtype s) then s\<lparr> mdata := st_setFopts v (of_nat n) (mdata s) \<rparr>
      else s)"

section \<open>Reading the storage\<close>

definition storage_getAddr :: "LORAWAN_MESSAGE_STORAGE \<Rightarrow> DEVADDR option" where
  "storage_getAddr s =
     (if mtype s \<ge> MTYPE_UNCONFIRMED_DATA_UP \<and> mtype s \<le> MTYPE_CONFIRMED_DATA_DOWN
      then Some (st_devaddr (mdata s))
      else if mtype s = MTYPE_JOIN_ACCEPT then Some (from_le (mem_read (mdata s) 6 4))
      else None)"

definition join_request_of :: "bytes \<Rightarrow> JOIN_REQUEST_FRAME" where
  "join_request_of d =
     \<lparr> joinEUI = from_le (mem_read d 0 8), jr_devEUI = from_le (mem_read d 8 8),
       jr_devNonce = from_le (mem_read d 16 2) \<rparr>"

definition storage_getJoinRequest :: "LORAWAN_MESSAGE_STORAGE \<Rightarrow> JOIN_REQUEST_FRAME option" where
  "storage_getJoinRequest s =
     (if mtype s = MTYPE_JOIN_REQUEST then Some (join_request_of (mdata s)) else None)"

definition storage_eq :: "LORAWAN_MESSAGE_STORAGE \<Rightarrow> LORAWAN_MESSAGE_STORAGE \<Rightarrow> bool" where
  "storage_eq lhs rhs =
     (if mhdr rhs \<noteq> mhdr lhs then False
      else if mtype rhs = MTYPE_JOIN_REQUEST then
        JOIN_REQUEST_eq (join_request_of (mdata rhs)) (join_request_of (mdata lhs))
      else if mtype rhs = MTYPE_JOIN_ACCEPT then
        memcmp (take 16 (mdata rhs)) (take 16 (mdata lhs)) = 0
      else if is_up (mtype rhs) then memcmp (take 262 (mdata rhs)) (take 262 (mdata lhs)) = 0
      else if is_down (mtype rhs) then memcmp (take 262 (mdata rhs)) (take 262 (mdata lhs)) = 0
      else False)"

definition storage_payloadString :: "LORAWAN_MESSAGE_STORAGE \<Rightarrow> bytes" where
  "storage_payloadString s =
     (if is_up (mtype s) \<or> is_down (mtype s)
      then mem_read (mdata s) (st_payload_offset (mdata s)) (nat (psize s)) else [])"

definition storage_foptsString :: "LORAWAN_MESSAGE_STORAGE \<Rightarrow> bytes" where
  "storage_foptsString s =
     (if is_up (mtype s) \<or> is_down (mtype s) then st_fopts (mdata s) else [])"

text \<open>\<open>mic(key)\<close> calculates the code, \<open>mic()\<close> reads the one in the packet.\<close>

definition storage_mic_key :: "cipher \<Rightarrow> bytes \<Rightarrow> KEY128 \<Rightarrow> LORAWAN_MESSAGE_STORAGE \<Rightarrow> u32" where
  "storage_mic_key E junk key s =
     (if is_up (mtype s) \<or> is_down (mtype s)
      then calculateMICFrmPayload E junk (storage_memory s)
             (word_of_int (if psize s \<noteq> 0 then psize s + 9 else 8))
             (ucast (st_fcnt (mdata s))) (mtype s AND 1) (st_devaddr (mdata s)) key
      else 0)"

definition storage_mic :: "LORAWAN_MESSAGE_STORAGE \<Rightarrow> u32" where
  "storage_mic s =
     (if is_up (mtype s) \<or> is_down (mtype s) then
        (if psize s \<le> 255 - 4
         then from_le (mem_read (storage_memory s)
                (1 + 7 + (if psize s \<noteq> 0 then 1 + nat (psize s) else 0)) 4)
         else 0)
      else 0)"

definition matchMic :: "cipher \<Rightarrow> bytes \<Rightarrow> KEY128 \<Rightarrow> LORAWAN_MESSAGE_STORAGE \<Rightarrow> bool" where
  "matchMic E junk key s \<longleftrightarrow> storage_mic s = storage_mic_key E junk key s"

section \<open>Encryption in place and the array form\<close>

definition crypt_payload ::
    "cipher \<Rightarrow> u8 \<Rightarrow> DEVADDR \<Rightarrow> KEY128 \<Rightarrow> LORAWAN_MESSAGE_STORAGE \<Rightarrow> LORAWAN_MESSAGE_STORAGE" where
  "crypt_payload E direction a key s =
     (let k = st_payload_offset (mdata s); n = nat (psize s)
      in s\<lparr> mdata := mem_write (mdata s) k
              (encryptPayload E (mem_read (mdata s) k n) n (ucast (st_fcnt (mdata s))) direction a key) \<rparr>)"

definition storage_decode ::
    "cipher \<Rightarrow> DEVADDR \<Rightarrow> KEY128 \<Rightarrow> LORAWAN_MESSAGE_STORAGE \<Rightarrow> bool \<times> LORAWAN_MESSAGE_STORAGE" where
  "storage_decode E a key s =
     (if psize s > 0 then
        if is_up (mtype s) then (True, crypt_payload E LORAWAN_UPLINK a key s)
        else if is_down (mtype s) then (True, crypt_payload E LORAWAN_DOWNLINK a key s)
        else (False, s)
      else (False, s))"

definition storage_decode_identity ::
    "cipher \<Rightarrow> NetworkIdentity option \<Rightarrow> LORAWAN_MESSAGE_STORAGE \<Rightarrow> bool \<times> LORAWAN_MESSAGE_STORAGE" where
  "storage_decode_identity E identity s =
     (case identity of
        None \<Rightarrow> (False, s)
      | Some i \<Rightarrow> storage_decode E (nwi_devaddr i) (appSKey (nwi_devid i)) s)"

text \<open>
  \<open>toArray\<close>: the required size, the buffer with what was written, and the storage, whose
  payload the method encrypts although it is \<open>const\<close>.  \<open>b\<close> is the write position: it moves
  past the header byte and past the parts of a data message, but not past a join frame.
\<close>

definition put_at :: "bool \<Rightarrow> nat \<Rightarrow> bytes \<Rightarrow> bytes \<Rightarrow> bytes" where
  "put_at fits pos v buf = (if fits then mem_write buf pos v else buf)"

definition body_toArray ::
    "LORAWAN_MESSAGE_STORAGE \<Rightarrow> nat \<Rightarrow> nat \<Rightarrow> bytes \<Rightarrow> nat \<times> nat \<times> bytes" where
  "body_toArray s n b buf =
     (let d = mdata s; p = nat (psize s) in
      if mtype s = MTYPE_JOIN_REQUEST \<or> mtype s = MTYPE_REJOIN_REQUEST then
        (19, b, put_at (n \<ge> 19) b (take 18 d) buf)
      else if mtype s = MTYPE_JOIN_ACCEPT then
        (17, b, put_at (n \<ge> 17) b (take 16 d) buf)
      else if is_up (mtype s) \<or> is_down (mtype s) then
        let buf1 = put_at (n \<ge> 8) b (take 7 d) buf;
            b1 = (if n \<ge> 8 then b + 7 else b)
        in if p \<noteq> 0 then
             let r = 8 + p + 1;
                 buf2 = put_at (n \<ge> r) b1 [st_fport d] buf1;
                 buf3 = put_at (n \<ge> r) (b1 + 1) (mem_read d (st_payload_offset d) p) buf2
             in (r, (if n \<ge> r then b1 + 1 + p else b1), buf3)
           else (8, b1, buf1)
      else (1, b, buf))"

definition storage_toArray ::
    "cipher \<Rightarrow> bytes \<Rightarrow> bytes option \<Rightarrow> nat \<Rightarrow> NetworkIdentity option \<Rightarrow> LORAWAN_MESSAGE_STORAGE \<Rightarrow>
     nat \<times> bytes option \<times> LORAWAN_MESSAGE_STORAGE" where
  "storage_toArray E junk buf n identity s =
     (let written = map_option (\<lambda>b0.
            let b1 = (if n \<ge> 1 then mem_write b0 0 [mhdr s] else b0)
            in body_toArray s n (if n \<ge> 1 then 1 else 0) b1) buf;
          r = fst (body_toArray s 0 0 []);
          s' = (case identity of
                  Some i \<Rightarrow>
                    if psize s > 0 \<and> (is_up (mtype s) \<or> is_down (mtype s))
                    then crypt_payload E LORAWAN_UPLINK (nwi_devaddr i) (appSKey (nwi_devid i)) s
                    else s
                | None \<Rightarrow> s);
          retSize = r + 4;
          buf' = (case written of
                    None \<Rightarrow> None
                  | Some (_, b, c) \<Rightarrow>
                      (case identity of
                         None \<Rightarrow> Some c
                       | Some i \<Rightarrow>
                           Some (put_at (n \<ge> retSize) b
                             (le_bytes 4 (NTOH4 (calculateMIC E junk (Some c) n i))) c)))
      in (retSize, buf', s'))"

section \<open>Builders\<close>

definition ConfirmationMessage :: "LORAWAN_MESSAGE_STORAGE \<Rightarrow> LORAWAN_MESSAGE_STORAGE" where
  "ConfirmationMessage m =
     (let c = (mdata m) ! 4
      in m\<lparr> mhdr := mhdr_set_mtype MTYPE_CONFIRMED_DATA_DOWN (mhdr m),
            mdata := (mdata m)[4 := set_fctrl_ack True (set_foptslen 0 c)],
            psize := 0 \<rparr>)"

definition DownlinkMessageBuilder ::
    "DEVADDR \<Rightarrow> u8 \<Rightarrow> bytes option \<Rightarrow> u8 \<Rightarrow> bytes option \<Rightarrow> u8 \<Rightarrow> LORAWAN_MESSAGE_STORAGE" where
  "DownlinkMessageBuilder a fport payload n fopts foptsSize =
     (let d0 = mem_write (mdata storage_default) 0 (le_bytes 4 a);
          d1 = d0[4 := set_foptslen foptsSize (d0 ! 4)];
          d2 = st_setFport fport d1;
          d3 = (case fopts of
                  Some v \<Rightarrow> if foptsSize > 0 then st_setFOpts v (unat foptsSize) d2 else d2
                | None \<Rightarrow> d2);
          d4 = (case payload of
                  Some v \<Rightarrow> if n > 0 then st_setPayload v n d3 else d3
                | None \<Rightarrow> d3)
      in \<lparr> mhdr = mhdr_set_mtype MTYPE_UNCONFIRMED_DATA_DOWN 0, mdata = d4,
           psize = int (unat n) \<rparr>)"

section \<open>Lemmas\<close>

definition wf_storage :: "LORAWAN_MESSAGE_STORAGE \<Rightarrow> bool" where
  "wf_storage s \<longleftrightarrow> length (mdata s) = 262 \<and> 0 \<le> psize s \<and> psize s < 2 ^ 31"

lemma st_foptslen_le: "st_foptslen d \<le> 15"
proof -
  have "unat (take_bit 4 (d ! 4)) = unat (d ! 4) mod 16" by (simp add: take_bit_eq_mod unat_mod)
  then show ?thesis by (simp add: st_foptslen_def foptslen_def)
qed

lemma st_payload_offset_bounds: "8 \<le> st_payload_offset d \<and> st_payload_offset d \<le> 23"
  using st_foptslen_le [of d] by (simp add: st_payload_offset_def)

lemma sint_word_of_int: "- (2 ^ 31) \<le> x \<Longrightarrow> x < 2 ^ 31 \<Longrightarrow> sint (word_of_int x :: u32) = x"
  by (simp add: signed_of_int signed_take_bit_int_eq_self)

lemma storage_of_memory_memory:
  fixes s :: LORAWAN_MESSAGE_STORAGE
  assumes "wf_storage s"
  shows "storage_of_memory (storage_memory s) = s"
proof -
  have "sint (from_le (le_bytes 4 (word_of_int (psize s) :: u32)) :: u32) = psize s"
    using assms by (simp add: from_le_le_bytes sint_word_of_int wf_storage_def)
  then show ?thesis
    using assms by (simp add: storage_of_memory_def storage_memory_def mem_read_def wf_storage_def)
qed

lemma length_storage_memory [simp]: "wf_storage s \<Longrightarrow> length (storage_memory s) = 267"
  by (simp add: storage_memory_def wf_storage_def)

text \<open>The payload size a packet of \<open>n\<close> bytes is given.\<close>

lemma ucast_word_of_int_64_32: "(ucast (word_of_int x :: u64) :: u32) = word_of_int x"
  by (rule bit_word_eqI) (simp add: bit_ucast_iff bit_word_of_int_iff)

lemma storage_setSize_psize:
  assumes "is_up (mtype s) \<or> is_down (mtype s)" "n < 2 ^ 31"
  shows "psize (storage_setSize (of_nat n) s) =
    (let q = int n - 12 - int (st_foptslen (mdata s))
     in if q > 1 then q - 1 else if q < 0 then 0 else q)"
proof -
  let ?q = "int n - 12 - int (st_foptslen (mdata s))"
  have "(of_nat n - 1 - 7 - of_nat (st_foptslen (mdata s)) - 4 :: u64) = word_of_int ?q"
    by (simp add: algebra_simps)
  then have "sint (ucast (of_nat n - 1 - 7 - of_nat (st_foptslen (mdata s)) - 4 :: u64) :: u32) = ?q"
    using assms(2) st_foptslen_le [of "mdata s"]
    by (simp only: ucast_word_of_int_64_32) (intro sint_word_of_int; simp)
  with assms(1) show ?thesis by (auto simp: storage_setSize_def Let_def)
qed

lemma storage_setSize_keeps [simp]:
  "mhdr (storage_setSize n s) = mhdr s" "mdata (storage_setSize n s) = mdata s"
  by (simp_all add: storage_setSize_def Let_def)

lemma set_storage_fields:
  assumes "wf_storage s0" "n = length b" "1 \<le> n" "n \<le> 263"
  shows "mhdr (set_storage b n s0) = b ! 0"
    and "mdata (set_storage b n s0) = drop 1 b @ drop (n - 1) (mdata s0)"
proof -
  have ne: "b \<noteq> []" using assms(2,3) by auto
  have m: "mem_write (storage_memory s0) 0 b = b @ drop (n - 1) (mdata s0) @ le_bytes 4 (word_of_int (psize s0) :: u32)"
    using assms by (simp add: mem_write_def storage_memory_def wf_storage_def drop_Cons' ne)
  have l: "length (mdata s0) = 262" using assms(1) by (simp add: wf_storage_def)
  show "mhdr (set_storage b n s0) = b ! 0"
    using assms ne by (simp add: set_storage_def storage_of_memory_def m nth_append Let_def)
  show "mdata (set_storage b n s0) = drop 1 b @ drop (n - 1) (mdata s0)"
    using assms l by (simp add: set_storage_def storage_of_memory_def m mem_read_def Let_def)
qed

lemma wf_set_storage_data:
  assumes "wf_storage s0" "n = length b" "1 \<le> n" "n \<le> 263"
    and "is_up (mhdr_mtype (b ! 0)) \<or> is_down (mhdr_mtype (b ! 0))"
  shows "wf_storage (set_storage b n s0)"
proof -
  let ?s = "set_storage b n s0"
  note f = set_storage_fields [OF assms(1-4)]
  obtain s1 where s1: "?s = storage_setSize (of_nat n) s1"
    using assms by (simp add: set_storage_def)
  then have "psize ?s = (let q = int n - 12 - int (st_foptslen (mdata s1))
      in if q > 1 then q - 1 else if q < 0 then 0 else q)"
    using storage_setSize_psize [of s1 n] assms f by simp
  then have "0 \<le> psize ?s \<and> psize ?s < 2 ^ 31"
    using assms(4) by (auto simp: Let_def split: if_splits)
  with assms f show ?thesis by (simp add: wf_storage_def)
qed

section \<open>Decoding\<close>

lemma crypt_payload_keeps:
  assumes "wf_storage s" "\<And>k b. length (E k b) = 16" "nat (psize s) \<le> 256"
    "st_payload_offset (mdata s) + nat (psize s) \<le> 262"
  shows "length (mdata (crypt_payload E dir a key s)) = 262"
    and "i < st_payload_offset (mdata s) \<Longrightarrow> mdata (crypt_payload E dir a key s) ! i = mdata s ! i"
    and "st_payload_offset (mdata (crypt_payload E dir a key s)) = st_payload_offset (mdata s)"
    and "st_fcnt (mdata (crypt_payload E dir a key s)) = st_fcnt (mdata s)"
proof -
  let ?d = "mdata s" and ?d' = "mdata (crypt_payload E dir a key s)"
  let ?k = "st_payload_offset (mdata s)" and ?n = "nat (psize s)"
  have len: "length ?d = 262" using assms(1) by (simp add: wf_storage_def)
  have l: "length (encryptPayload E (mem_read ?d ?k ?n) ?n (ucast (st_fcnt ?d)) dir a key) = ?n"
    using encryptPayload_nth(1) [OF assms(2,3)] assms(4) len by (simp add: mem_read_def)
  show len': "length ?d' = 262" using l assms(4) len by (simp add: crypt_payload_def Let_def)
  show nth: "i < ?k \<Longrightarrow> ?d' ! i = ?d ! i" for i
    using l assms(4) len by (simp add: crypt_payload_def Let_def mem_write_nth)
  have k: "8 \<le> ?k" using st_payload_offset_bounds by simp
  then show "st_payload_offset ?d' = ?k"
    by (simp add: st_payload_offset_def st_foptslen_def nth)
  have "mem_read ?d' 5 2 = mem_read ?d 5 2"
    by (rule nth_equalityI) (use k len len' in \<open>auto simp: mem_read_def nth\<close>)
  then show "st_fcnt ?d' = st_fcnt ?d" by (simp add: st_fcnt_def)
qed

lemma crypt_payload_involution:
  assumes "wf_storage s" "\<And>k b. length (E k b) = 16" "nat (psize s) \<le> 256"
    "st_payload_offset (mdata s) + nat (psize s) \<le> 262"
  shows "crypt_payload E dir a key (crypt_payload E dir a key s) = s"
proof -
  let ?d = "mdata s" and ?k = "st_payload_offset (mdata s)" and ?n = "nat (psize s)"
  let ?p = "mem_read ?d ?k ?n"
  let ?enc = "\<lambda>p. encryptPayload E p ?n (ucast (st_fcnt ?d)) dir a key"
  let ?s' = "crypt_payload E dir a key s"
  note keep = crypt_payload_keeps [OF assms, where dir = dir and a = a and key = key]
  have len: "length ?d = 262" using assms(1) by (simp add: wf_storage_def)
  have lp: "length ?p = ?n" using assms(4) len by simp
  have le: "length (?enc ?p) = ?n" using encryptPayload_nth(1) [OF assms(2,3)] lp by simp
  have d': "mdata ?s' = mem_write ?d ?k (?enc ?p)" by (simp add: crypt_payload_def Let_def)
  have "mem_read (mdata ?s') ?k ?n = ?enc ?p" using le len assms(4) by (simp add: d')
  moreover have "psize ?s' = psize s" by (simp add: crypt_payload_def Let_def)
  ultimately have "mdata (crypt_payload E dir a key ?s') = mem_write (mdata ?s') ?k (?enc (?enc ?p))"
    using keep(3,4) by (simp add: crypt_payload_def [of E dir a key ?s'] Let_def)
  also have "?enc (?enc ?p) = ?p"
    using encryptPayload_involution [OF assms(2,3)] lp by simp
  also have "mem_write (mdata ?s') ?k ?p = ?d"
    using le lp len assms(4) by (simp add: d' mem_write_write mem_write_read_same)
  finally show ?thesis by (simp add: crypt_payload_def Let_def)
qed


section \<open>The array form\<close>

lemma mtype_cases_not [simp]:
  "is_up t \<or> is_down t \<Longrightarrow> t \<noteq> 0 \<and> t \<noteq> 1 \<and> t \<noteq> 6"
  by (auto simp: is_up_def is_down_def)

lemma toArray_size_data:
  assumes "is_up (mtype s) \<or> is_down (mtype s)"
  shows "fst (storage_toArray E junk buf n identity s) =
    (if psize s > 0 then nat (psize s) + 13 else 12)"
  using assms mtype_cases_not [OF assms]
  by (simp add: storage_toArray_def body_toArray_def Let_def)

text \<open>A data message in a buffer with room: header, seven bytes, port and payload in a row.\<close>

lemma body_toArray_data:
  assumes "is_up (mtype s) \<or> is_down (mtype s)" "wf_storage s" "0 < psize s"
    and "9 + nat (psize s) \<le> n" "n \<le> length buf"
    and "st_payload_offset (mdata s) + nat (psize s) \<le> 262"
  shows "body_toArray s n 1 (mem_write buf 0 [mhdr s]) =
    (9 + nat (psize s), 9 + nat (psize s),
     mem_write buf 0 ([mhdr s] @ take 7 (mdata s) @ [st_fport (mdata s)] @ storage_payloadString s))"
proof -
  let ?d = "mdata s" and ?p = "nat (psize s)"
  let ?pl = "mem_read ?d (st_payload_offset ?d) ?p"
  have len: "length ?d = 262" using assms(2) by (simp add: wf_storage_def)
  have lp: "length ?pl = ?p" using assms(6) len by simp
  have "mem_write (mem_write (mem_write (mem_write buf 0 [mhdr s]) 1 (take 7 ?d)) 8 [st_fport ?d]) 9 ?pl =
      mem_write buf 0 ([mhdr s] @ take 7 ?d @ [st_fport ?d] @ ?pl)"
    using assms(4,5) len lp mem_write_append [of 0 "[mhdr s]" "take 7 ?d" buf]
      mem_write_append [of 0 "[mhdr s] @ take 7 ?d" "[st_fport ?d]" buf]
      mem_write_append [of 0 "[mhdr s] @ take 7 ?d @ [st_fport ?d]" ?pl buf] by simp
  with assms mtype_cases_not [OF assms(1)] show ?thesis
    by (auto simp: body_toArray_def put_at_def storage_payloadString_def Let_def)
qed

lemma toArray_data_plain:
  assumes "is_up (mtype s) \<or> is_down (mtype s)" "wf_storage s" "0 < psize s"
    and "9 + nat (psize s) \<le> n" "n \<le> length buf"
    and "st_payload_offset (mdata s) + nat (psize s) \<le> 262"
  shows "storage_toArray E junk (Some buf) n None s =
    (nat (psize s) + 13,
     Some (mem_write buf 0
       ([mhdr s] @ take 7 (mdata s) @ [st_fport (mdata s)] @ storage_payloadString s)), s)"
proof -
  have "fst (body_toArray s 0 0 []) + 4 = nat (psize s) + 13"
    using assms(1,3) mtype_cases_not [OF assms(1)] by (simp add: body_toArray_def Let_def)
  then show ?thesis
    using assms(4) body_toArray_data [OF assms] by (simp add: storage_toArray_def Let_def)
qed

text \<open>With an identity, the code follows the payload, which is still in clear.\<close>

lemma toArray_data_identity:
  assumes "is_up (mtype s) \<or> is_down (mtype s)" "wf_storage s" "0 < psize s"
    and "13 + nat (psize s) \<le> n" "n \<le> length buf"
    and "st_payload_offset (mdata s) + nat (psize s) \<le> 262"
  defines "c \<equiv> mem_write buf 0
    ([mhdr s] @ take 7 (mdata s) @ [st_fport (mdata s)] @ storage_payloadString s)"
  shows "fst (snd (storage_toArray E junk (Some buf) n (Some i) s)) =
    Some (mem_write c (9 + nat (psize s)) (le_bytes 4 (NTOH4 (calculateMIC E junk (Some c) n i))))"
proof -
  have "9 + nat (psize s) \<le> n" using assms(4) by simp
  note body = body_toArray_data [OF assms(1-3) this assms(5,6)]
  have "fst (body_toArray s 0 0 []) + 4 = nat (psize s) + 13"
    using assms(1,3) mtype_cases_not [OF assms(1)] by (simp add: body_toArray_def Let_def)
  then show ?thesis
    using assms(4) body by (simp add: storage_toArray_def put_at_def c_def Let_def)
qed

lemma toArray_data_empty:
  assumes "is_up (mtype s) \<or> is_down (mtype s)" "wf_storage s" "psize s = 0" "8 \<le> n" "n \<le> length buf"
  shows "storage_toArray E junk (Some buf) n None s =
    (12, Some (mem_write buf 0 ([mhdr s] @ take 7 (mdata s))), s)"
proof -
  have len: "length (mdata s) = 262" using assms(2) by (simp add: wf_storage_def)
  have "mem_write (mem_write buf 0 [mhdr s]) 1 (take 7 (mdata s)) = mem_write buf 0 ([mhdr s] @ take 7 (mdata s))"
    using mem_write_append [of 0 "[mhdr s]" "take 7 (mdata s)" buf] assms(4,5) len by simp
  with assms mtype_cases_not [OF assms(1)] show ?thesis
    by (simp add: storage_toArray_def body_toArray_def put_at_def Let_def)
qed

text \<open>What is written of a stored packet with \<open>f\<close> bytes of options: the first eight bytes and, from
  the port on, as many as the payload size says.\<close>

lemma toArray_set_storage:
  fixes b :: bytes
  assumes "wf_storage s0" "n = length b" "8 \<le> n" "n \<le> 263"
    and "is_up (mhdr_mtype (b ! 0)) \<or> is_down (mhdr_mtype (b ! 0))"
    and "k - 4 \<le> m" "m \<le> length buf"
    and f: "f = unat (foptslen (b ! 5))"
    and k: "k = (if n \<le> 12 + f then 12 else if n = 13 + f then 14 else n - f)"
  shows "storage_toArray E junk (Some buf) m None (set_storage b n s0) =
    (k, Some (mem_write buf 0 (take 8 b @ take (k - 12) (drop (8 + f) b))), set_storage b n s0)"
proof -
  let ?s = "set_storage b n s0"
  have n1: "1 \<le> n" using assms(3) by simp
  note s = set_storage_fields [OF assms(1,2) n1 assms(4)]
  have wf: "wf_storage ?s" using wf_set_storage_data assms n1 by blast
  have d: "mdata ?s ! i = b ! Suc i" if "Suc i < n" for i
    using that s(2) assms(2) by (simp add: nth_append less_diff_conv)
  have fl: "st_foptslen (mdata ?s) = f" using d [of 4] assms(3) f by (simp add: st_foptslen_def)
  obtain s1 where s1: "?s = storage_setSize (of_nat n) s1" using assms by (simp add: set_storage_def)
  have ps: "psize ?s = (let q = int n - 12 - int f in if q > 1 then q - 1 else if q < 0 then 0 else q)"
    using storage_setSize_psize [of s1 n] s1 assms(4,5) s fl by simp
  have ty: "is_up (mtype ?s) \<or> is_down (mtype ?s)" using assms(5) s(1) by simp
  have "length (take 1 b) = 1" using assms(2,3) by simp
  have t8: "[mhdr ?s] @ take 7 (mdata ?s) = take 8 b"
    using s assms(2,3) by (cases b) simp_all
  show ?thesis
  proof (cases "n \<le> 12 + f")
    case True
    then have "psize ?s = 0" using ps by (simp add: Let_def)
    with toArray_data_empty [OF ty wf this, of m buf E junk] assms(6,7) t8 True k show ?thesis by simp
  next
    case False
    define p where "p = nat (psize ?s)"
    have k12: "k - 12 = Suc p" "9 + f + p \<le> n"
      using False k ps by (auto simp: p_def Let_def split: if_splits)
    have "storage_payloadString ?s = take p (drop (9 + f) b)"
      using ty fl k12 s(2) assms(2) by (auto simp: storage_payloadString_def st_payload_offset_def mem_read_def p_def)
    moreover have "st_fport (mdata ?s) = b ! (8 + f)"
      using fl d [of "7 + f"] k12 by (simp add: st_fport_def)
    moreover have "take (Suc p) (drop (8 + f) b) = b ! (8 + f) # take p (drop (9 + f) b)"
      using k12 assms(2) by (simp add: Cons_nth_drop_Suc [symmetric])
    ultimately have "[mhdr ?s] @ take 7 (mdata ?s) @ [st_fport (mdata ?s)] @ storage_payloadString ?s =
        take 8 b @ take (k - 12) (drop (8 + f) b)"
      using t8 k12 by simp
    moreover have "0 < psize ?s" "9 + nat (psize ?s) \<le> m" "st_payload_offset (mdata ?s) + nat (psize ?s) \<le> 262"
      using False ps fl k12 assms(4,6) k by (auto simp: st_payload_offset_def p_def [symmetric] Let_def split: if_splits)
    moreover have "k = nat (psize ?s) + 13" using k12 by (simp add: p_def)
    ultimately show ?thesis
      using toArray_data_plain [OF ty wf _ _ assms(7), of E junk] by simp
  qed
qed


section \<open>Integrity codes and builders\<close>

lemma storage_mic_bytes:
  assumes "is_up (mtype s) \<or> is_down (mtype s)" "psize s \<le> 251"
    and "mem_read (storage_memory s) (8 + (if psize s \<noteq> 0 then 1 + nat (psize s) else 0)) 4 = [b0, b1, b2, b3]"
  shows "storage_mic s = from_le [b0, b1, b2, b3]"
  using assms by (auto simp: storage_mic_def)

lemma from_le_4_rev:
  "from_le [b0, b1, b2, b3] = (from_le [b3, b2, b1, b0] :: u32) \<longleftrightarrow> b0 = b3 \<and> b1 = b2"
proof -
  have le: "le_bytes 4 (from_le [a, b, c, d] :: u32) = [a, b, c, d]" for a b c d
    by (rule le_bytes_from_le) simp_all
  have "from_le [b0, b1, b2, b3] = (from_le [b3, b2, b1, b0] :: u32) \<longleftrightarrow>
      [b0, b1, b2, b3] = [b3, b2, b1, b0]"
    using le by metis
  then show ?thesis by (simp only: list.inject) blast
qed

lemma mhdr_set_mtype_get: "t < 8 \<Longrightarrow> mhdr_mtype (mhdr_set_mtype t h) = t"
  by (erule netid_type_cases) (simp_all add: mhdr_mtype_def mhdr_set_mtype_def u8_eq_iff bit_simps)

lemma foptslen_set: "foptslen (set_foptslen n c) = take_bit 4 n"
  by (simp add: foptslen_def set_foptslen_def u8_eq_iff bit_simps)

lemma foptslen_set_ack: "foptslen (set_fctrl_ack b c) = foptslen c" "fctrl_ack (set_fctrl_ack b c) = b"
  by (simp_all add: foptslen_def set_fctrl_ack_def fctrl_ack_def u8_eq_iff bit_simps)

text \<open>Options given to the downlink builder push its port away from where it is read.\<close>

lemma builder_port_lost:
  assumes "0 < k" "k < 16"
  shows "st_fport (mdata (DownlinkMessageBuilder a fport payload n (Some v) k)) = 0"
proof -
  define d1 where "d1 = (mem_write (mdata storage_default) 0 (le_bytes 4 a))
    [4 := set_foptslen k (mem_write (mdata storage_default) 0 (le_bytes 4 a) ! 4)]"
  define d2 where "d2 = st_setFport fport d1"
  define d3 where "d3 = st_setFOpts v (unat k) d2"
  have k: "0 < unat k" "unat k < 16" using assms by (simp_all add: word_less_nat_alt)
  have fk: "take_bit 4 k = k" using assms(2) by (intro take_bit_eq_self_word) simp_all
  have len1: "length d1 = 262" by (simp add: d1_def storage_default_def)
  have d1: "d1 ! 7 = 0" "st_foptslen d1 = unat k"
    using fk by (simp_all add: d1_def storage_default_def mem_write_nth st_foptslen_def foptslen_set)
  have d2: "length d2 = 262" "d2 ! 7 = 0" "d2 ! 4 = d1 ! 4"
    using k len1 d1 by (simp_all add: d2_def st_setFport_def)
  let ?w = "mem_write d2 (7 + unat k) (mem_read d2 7 (255 - unat k))"
  have lw: "length ?w = 262" using d2(1) k by simp
  have d3e: "d3 = mem_write ?w 7 (take (unat k) v)" using k by (simp add: d3_def st_setFOpts_def Let_def)
  have l3: "length d3 = 262" using lw k by (simp add: d3e)
  have "d3 ! 4 = d2 ! 4" "d3 ! (7 + unat k) = d2 ! 7"
    using lw d2(1) k by (simp_all add: d3e mem_write_nth mem_read_def)
  then have d3: "st_foptslen d3 = unat k" "d3 ! (7 + unat k) = 0"
    using d2 d1 by (simp_all add: st_foptslen_def)
  have pay: "st_fport (st_setPayload p n d3) = 0" for p
  proof -
    have "st_setPayload p n d3 ! i = d3 ! i" if "i < 8 + unat k" for i
      using that l3 d3(1) k
      by (simp add: st_setPayload_def st_payload_offset_def mem_write_def nth_append)
    then show ?thesis using d3 k by (simp add: st_fport_def st_foptslen_def)
  qed
  have "st_fport d3 = 0" using d3 by (simp add: st_fport_def)
  with pay assms(1) show ?thesis
    by (simp add: DownlinkMessageBuilder_def Let_def d1_def [symmetric] d2_def [symmetric]
        d3_def [symmetric] split: option.splits)
qed

section \<open>Properties\<close>



text \<open>C1: A received data packet of 8 to 263 bytes with \<open>f\<close> bytes of options, stored and written
  out again without an identity into a buffer with room: the size returned is \<open>k\<close>, and written
  are its first eight bytes and then its bytes from the port on, up to the integrity code; the
  options are left out.  So without options a packet of at least 12 bytes gives its own size and
  its bytes before the code, unless it has 13 bytes: a packet with a port and no payload comes back
  as one of 14 bytes, because the size of one byte is not reduced by the port, and the first byte of
  its code is written as a payload.  One of 8 to 11 bytes comes back with the size 12.\<close>

theorem packet_roundtrip:
  assumes "wf_storage s0" "n = length b" "8 \<le> n" "n \<le> 263"
    and "is_up (mhdr_mtype (b ! 0)) \<or> is_down (mhdr_mtype (b ! 0))"
    and "f = unat (foptslen (b ! 5))"
    and "k = (if n \<le> 12 + f then 12 else if n = 13 + f then 14 else n - f)"
    and "k - 4 \<le> m" "m \<le> length buf"
  shows "storage_toArray E junk (Some buf) m None (set_storage b n s0) =
      (k, Some (mem_write buf 0 (take 8 b @ take (k - 12) (drop (8 + f) b))), set_storage b n s0) \<and>
    (f = 0 \<and> 12 \<le> n \<and> n \<noteq> 13 \<longrightarrow> k = n \<and> take 8 b @ take (k - 12) (drop (8 + f) b) = take (n - 4) b)"
proof (intro conjI impI)
  show "storage_toArray E junk (Some buf) m None (set_storage b n s0) =
      (k, Some (mem_write buf 0 (take 8 b @ take (k - 12) (drop (8 + f) b))), set_storage b n s0)"
    by (rule toArray_set_storage [OF assms(1-5,8,9,6,7)])
next
  assume "f = 0 \<and> 12 \<le> n \<and> n \<noteq> 13"
  then show "k = n" "take 8 b @ take (k - 12) (drop (8 + f) b) = take (n - 4) b"
    using assms(7) take_add [of 8 "n - 12" b] by auto
qed

theorem packet_roundtrip_witness:
  "storage_toArray (\<lambda>k b. []) [] (Some (replicate 300 0)) 300 None
     (set_storage (0x40 # replicate 17 0) 18 storage_default) =
   (18, Some (mem_write (replicate 300 0) 0 (take 8 (0x40 # replicate 17 0) @
      take (18 - 12) (drop (8 + 0) (0x40 # replicate 17 0)))), set_storage (0x40 # replicate 17 0) 18 storage_default) \<and>
   take 8 (0x40 # replicate 17 0) @ take (18 - 12) (drop (8 + 0) (0x40 # replicate 17 0)) =
     take (18 - 4) (0x40 # replicate 17 (0 :: u8))"
proof -
  let ?b = "0x40 # replicate 17 0 :: bytes"
  have r: "storage_toArray (\<lambda>k b. []) [] (Some (replicate 300 0)) 300 None (set_storage ?b 18 storage_default) =
      (18, Some (mem_write (replicate 300 0) 0 (take 8 ?b @ take (18 - 12) (drop (8 + 0) ?b))),
        set_storage ?b 18 storage_default) \<and>
      ((0 :: nat) = 0 \<and> 12 \<le> (18 :: nat) \<and> 18 \<noteq> (13 :: nat) \<longrightarrow>
        18 = (18 :: nat) \<and> take 8 ?b @ take (18 - 12) (drop (8 + 0) ?b) = take (18 - 4) ?b)"
    by (rule packet_roundtrip)
      (simp_all add: wf_storage_def storage_default_def is_up_def mhdr_mtype_def foptslen_def)
  moreover have "(0 :: nat) = 0 \<and> 12 \<le> (18 :: nat) \<and> 18 \<noteq> (13 :: nat)" by simp
  ultimately show ?thesis by blast
qed

text \<open>the payload size given to a received data packet of any size below 2^31: what is left
  beside header, options and integrity code, less the port unless that is one byte or nothing,
  and never negative.\<close>

theorem packet_payload_size:
  assumes "is_up (mtype s) \<or> is_down (mtype s)" "n < 2 ^ 31"
  shows "psize (storage_setSize (of_nat n) s) =
    (let q = int n - 12 - int (st_foptslen (mdata s))
     in if q > 1 then q - 1 else if q < 0 then 0 else q)"
  by (rule storage_setSize_psize [OF assms])

theorem packet_payload_size_witness:
  "psize (storage_setSize (of_nat 5) \<lparr>mhdr = 0x40, mdata = replicate 262 0, psize = 0\<rparr>) =
    (let q = int 5 - 12 - int (st_foptslen (mdata \<lparr>mhdr = 0x40, mdata = replicate 262 0, psize = 0\<rparr>))
     in if q > 1 then q - 1 else if q < 0 then 0 else q)"
  by (rule packet_payload_size) (simp_all add: is_up_def mhdr_mtype_def)

text \<open>an array written with an identity carries the payload in clear; the encryption happens
  afterwards, in the message itself.\<close>

theorem array_payload_in_clear:
  assumes "is_up (mtype s) \<or> is_down (mtype s)" "wf_storage s" "0 < psize s"
    and "13 + nat (psize s) \<le> n" "n \<le> length buf"
    and "st_payload_offset (mdata s) + nat (psize s) \<le> 262"
  shows "\<exists>out. fst (snd (storage_toArray E junk (Some buf) n (Some i) s)) = Some out \<and>
    mem_read out 9 (nat (psize s)) = storage_payloadString s"
proof -
  have len: "length (mdata s) = 262" using assms(2) by (simp add: wf_storage_def)
  have lp: "length (storage_payloadString s) = nat (psize s)"
    using assms(1,6) len by (auto simp: storage_payloadString_def)
  let ?c = "mem_write buf 0
    ([mhdr s] @ take 7 (mdata s) @ [st_fport (mdata s)] @ storage_payloadString s)"
  have "take (nat (psize s)) (drop 9 ?c) = storage_payloadString s"
    using lp len by (simp add: mem_write_def)
  then have "mem_read (mem_write ?c (9 + nat (psize s)) v) 9 (nat (psize s)) = storage_payloadString s" for v
    using assms(4,5) lp len by (subst mem_read_write_before) (simp_all add: mem_read_def)
  with toArray_data_identity [OF assms, of E junk i] show ?thesis by blast
qed

theorem array_payload_in_clear_witness:
  "\<exists>out. fst (snd (storage_toArray (\<lambda>k b. replicate 16 7) [] (Some (replicate 40 0)) 40
      (Some (NetworkIdentity_make 1 DEVICEID_default)) \<lparr>mhdr = 0x40, mdata = replicate 262 3, psize = 4\<rparr>)) = Some out \<and>
    mem_read out 9 (nat (psize \<lparr>mhdr = 0x40, mdata = replicate 262 3, psize = 4\<rparr>)) =
    storage_payloadString \<lparr>mhdr = 0x40, mdata = replicate 262 3, psize = 4\<rparr>"
  by (rule array_payload_in_clear)
    (simp_all add: wf_storage_def is_up_def mhdr_mtype_def st_payload_offset_def st_foptslen_def
      foptslen_def)

text \<open>a data packet that carries the right integrity code, the first four bytes of the CMAC
  in transmission order, is accepted only if these bytes read the same backwards.\<close>

theorem match_mic_palindrome:
  assumes "is_up (mtype s) \<or> is_down (mtype s)" "psize s \<le> 251" "length junk = 16"
    and "mem_read (storage_memory s) (8 + (if psize s \<noteq> 0 then 1 + nat (psize s) else 0)) 4 = [b0, b1, b2, b3]"
    and "cmac_spec (E key)
      (mic_blockB (word_of_int (if psize s \<noteq> 0 then psize s + 9 else 8)) (ucast (st_fcnt (mdata s)))
         (mtype s AND 1) (st_devaddr (mdata s)) @
       take (unat (word_of_int (if psize s \<noteq> 0 then psize s + 9 else 8) :: u8)) (storage_memory s)) =
      b0 # b1 # b2 # b3 # bs"
  shows "matchMic E junk key s \<longleftrightarrow> b0 = b3 \<and> b1 = b2"
proof -
  have "storage_mic_key E junk key s = from_le [b3, b2, b1, b0]"
    unfolding storage_mic_key_def using assms(1)
    by (simp only: if_True mic_frame_spec [OF assms(3)] assms(5) bit_NTOH4_bytes)
  with storage_mic_bytes [OF assms(1,2,4)] show ?thesis
    by (simp only: matchMic_def from_le_4_rev)
qed

theorem match_mic_palindrome_witness:
  "\<not> matchMic (\<lambda>k b. [1, 2, 3, 4]) (replicate 16 0) []
     \<lparr>mhdr = 0x40, mdata = replicate 7 0 @ [1, 2, 3, 4] @ replicate 251 0, psize = 0\<rparr>"
  (is "\<not> matchMic ?E ?junk [] ?s")
proof -
  have "matchMic ?E ?junk [] ?s \<longleftrightarrow> (1 :: u8) = 4 \<and> (2 :: u8) = 3"
  proof (rule match_mic_palindrome)
    show "mem_read (storage_memory ?s) (8 + (if psize ?s \<noteq> 0 then 1 + nat (psize ?s) else 0)) 4 = [1, 2, 3, 4]"
      by (simp add: storage_memory_def mem_read_def)
    show "cmac_spec (?E []) (mic_blockB (word_of_int (if psize ?s \<noteq> 0 then psize ?s + 9 else 8))
          (ucast (st_fcnt (mdata ?s))) (mtype ?s AND 1) (st_devaddr (mdata ?s)) @
        take (unat (word_of_int (if psize ?s \<noteq> 0 then psize ?s + 9 else 8) :: u8)) (storage_memory ?s)) =
        [1, 2, 3, 4]"
      by (simp add: cmac_spec_def split_beta)
  qed (simp_all add: is_up_def mhdr_mtype_def)
  then show ?thesis by simp
qed

text \<open>a confirmation is a confirmed downlink with the ACK bit, without options and payload,
  for the address and counter of the message it confirms.\<close>

theorem confirmation_fields:
  assumes "length (mdata m) = 262"
  shows "mtype (ConfirmationMessage m) = MTYPE_CONFIRMED_DATA_DOWN \<and>
    fctrl_ack (mdata (ConfirmationMessage m) ! 4) \<and> st_foptslen (mdata (ConfirmationMessage m)) = 0 \<and>
    psize (ConfirmationMessage m) = 0 \<and>
    storage_getAddr (ConfirmationMessage m) = Some (st_devaddr (mdata m)) \<and>
    st_fcnt (mdata (ConfirmationMessage m)) = st_fcnt (mdata m)"
proof -
  let ?d = "mdata m" and ?c = "set_fctrl_ack True (set_foptslen 0 (mdata m ! 4))"
  have "mem_read (?d[4 := ?c]) 0 4 = mem_read ?d 0 4" "mem_read (?d[4 := ?c]) 5 2 = mem_read ?d 5 2"
    by (simp_all add: mem_read_def)
  then show ?thesis
    using assms by (simp add: ConfirmationMessage_def Let_def mhdr_set_mtype_get foptslen_set_ack
        foptslen_set st_foptslen_def storage_getAddr_def st_devaddr_def st_fcnt_def)
qed

theorem confirmation_fields_witness:
  "mtype (ConfirmationMessage storage_default) = MTYPE_CONFIRMED_DATA_DOWN \<and>
    fctrl_ack (mdata (ConfirmationMessage storage_default) ! 4) \<and>
    st_foptslen (mdata (ConfirmationMessage storage_default)) = 0 \<and>
    psize (ConfirmationMessage storage_default) = 0 \<and>
    storage_getAddr (ConfirmationMessage storage_default) = Some (st_devaddr (mdata storage_default)) \<and>
    st_fcnt (mdata (ConfirmationMessage storage_default)) = st_fcnt (mdata storage_default)"
  by (rule confirmation_fields) (simp add: storage_default_def)


text \<open>a downlink built with options has lost its port: making room for the options moves the
  port, set before, away from the place it is read from.\<close>

theorem downlink_builder_port:
  assumes "0 < k" "k < 16"
  shows "st_fport (mdata (DownlinkMessageBuilder a fport payload n (Some v) k)) = 0"
  by (rule builder_port_lost [OF assms])

theorem downlink_builder_port_witness:
  "st_fport (mdata (DownlinkMessageBuilder 1 9 (Some [1, 2]) 2 (Some [2]) 1)) = 0"
  by (rule downlink_builder_port) simp_all

end
