(* ===== verification/Mac_Commands.thy ===== *)
theory Mac_Commands
  imports Lora_Types Error_Codes
begin

text \<open>
  MAC commands of \<open>lorawan/lorawan-mac.h\<close> and \<open>lorawan-mac.cpp\<close>: the command
  identifiers, the size of every command in both directions, the parsers that copy a command out
  of a payload or point into it, the command list and the pointer list parsed from
  \<open>FOpts\<close>, and their texts.  A \<open>MAC_COMMAND\<close> is the identifier byte and the
  five bytes of the union of all payloads, kept as one little-endian 40 bit integer.
\<close>

section \<open>Command identifiers\<close>

datatype MAC_CID =
  Reset
| LinkCheck
| LinkADR
| DutyCycle
| RXParamSetup
| DevStatus
| NewChannel
| RXTimingSetup
| TXParamSetup
| DLChannel
| Rekey
| ADRParamSetup
| DeviceTime
| ForceRejoin
| RejoinParamSetup
| PingSlotInfo
| PingSlotChannel
| BeaconTiming
| BeaconFreq
| DeviceMode

primrec cid_code :: "MAC_CID \<Rightarrow> u8" where
  "cid_code Reset = 0x1"
| "cid_code LinkCheck = 0x2"
| "cid_code LinkADR = 0x3"
| "cid_code DutyCycle = 0x4"
| "cid_code RXParamSetup = 0x5"
| "cid_code DevStatus = 0x6"
| "cid_code NewChannel = 0x7"
| "cid_code RXTimingSetup = 0x8"
| "cid_code TXParamSetup = 0x9"
| "cid_code DLChannel = 0xa"
| "cid_code Rekey = 0xb"
| "cid_code ADRParamSetup = 0xc"
| "cid_code DeviceTime = 0xd"
| "cid_code ForceRejoin = 0xe"
| "cid_code RejoinParamSetup = 0xf"
| "cid_code PingSlotInfo = 0x10"
| "cid_code PingSlotChannel = 0x11"
| "cid_code BeaconTiming = 0x12"
| "cid_code BeaconFreq = 0x13"
| "cid_code DeviceMode = 0x20"

text \<open>The dispatch of a \<open>switch\<close> over the identifiers on a command byte.\<close>

definition cid_of :: "u8 \<Rightarrow> MAC_CID option" where
  "cid_of c =
    (if c = 0x1 then Some Reset
     else if c = 0x2 then Some LinkCheck
     else if c = 0x3 then Some LinkADR
     else if c = 0x4 then Some DutyCycle
     else if c = 0x5 then Some RXParamSetup
     else if c = 0x6 then Some DevStatus
     else if c = 0x7 then Some NewChannel
     else if c = 0x8 then Some RXTimingSetup
     else if c = 0x9 then Some TXParamSetup
     else if c = 0xa then Some DLChannel
     else if c = 0xb then Some Rekey
     else if c = 0xc then Some ADRParamSetup
     else if c = 0xd then Some DeviceTime
     else if c = 0xe then Some ForceRejoin
     else if c = 0xf then Some RejoinParamSetup
     else if c = 0x10 then Some PingSlotInfo
     else if c = 0x11 then Some PingSlotChannel
     else if c = 0x12 then Some BeaconTiming
     else if c = 0x13 then Some BeaconFreq
     else if c = 0x20 then Some DeviceMode
     else None)"

lemma cid_of_code [simp]: "cid_of (cid_code k) = Some k"
  by (cases k) (simp_all add: cid_of_def)

declare cid_code.simps [simp del]

lemma cid_of_SomeD: "cid_of c = Some k \<Longrightarrow> c = cid_code k"
  by (auto simp: cid_of_def cid_code.simps split: if_splits)

lemma cid_of_eq_Some [simp]: "cid_of c = Some k \<longleftrightarrow> c = cid_code k"
  using cid_of_SomeD by auto

lemma cid_code_inject [simp]: "cid_code j = cid_code k \<longleftrightarrow> j = k"
  by (metis cid_of_code option.inject)

text \<open>The identifiers are ordered by their codes.\<close>

instantiation MAC_CID :: linorder
begin

definition less_eq_MAC_CID :: "MAC_CID \<Rightarrow> MAC_CID \<Rightarrow> bool" where
  "less_eq_MAC_CID j k \<longleftrightarrow> cid_code j \<le> cid_code k"

definition less_MAC_CID :: "MAC_CID \<Rightarrow> MAC_CID \<Rightarrow> bool" where
  "less_MAC_CID j k \<longleftrightarrow> cid_code j < cid_code k"

instance
  by standard (auto simp: less_eq_MAC_CID_def less_MAC_CID_def dest: order.antisym)

end

datatype MAC_COMMAND_TYPE = MCT_KNOWN | MCT_PROPRIETARY | MCT_INVALID

definition isMACCommand :: "u8 \<Rightarrow> MAC_COMMAND_TYPE" where
  "isMACCommand cmd =
    (if 0x80 \<le> cmd then MCT_PROPRIETARY
     else if cmd = 0 \<or> (0x14 \<le> cmd \<and> cmd \<le> 0x1f) \<or> (0x21 \<le> cmd \<and> cmd \<le> 0x7f)
     then MCT_INVALID
     else MCT_KNOWN)"

definition MAC_NAME :: "string list" where
  "MAC_NAME = ['''',
    ''Reset'',
    ''LinkCheck'',
    ''LinkADR'',
    ''DutyCycle'',
    ''RXParamSetup'',
    ''DevStatus'',
    ''NewChannel'',
    ''RXTimingSetup'',
    ''TXParamSetup'',
    ''DLChannel'',
    ''Rekey'',
    ''ADRParamSetup'',
    ''DeviceTime'',
    ''ForceRejoin'',
    ''RejoinParamSetup'',
    ''PingSlotInfo'',
    ''PingSlotChannel'',
    ''BeaconTiming'',
    ''BeaconFreq'']"

definition getMACCommandName :: "u8 \<Rightarrow> string" where
  "getMACCommandName c =
    (if c \<le> 0x13 then MAC_NAME ! unat c
     else if c \<le> 0x20 then ''DeviceMode''
     else if 0x80 \<le> c then ''extension''
     else ''invalid'')"

section \<open>The command in memory\<close>

record MAC_COMMAND =
  command :: u8
  mac_data :: "40 word"

definition mac_bytes :: "MAC_COMMAND \<Rightarrow> bytes" where
  "mac_bytes c = command c # le_bytes 5 (mac_data c)"

text \<open>\<open>memmove(&retval, value, n)\<close>: the bytes behind the copied ones stay.\<close>

definition mac_write :: "MAC_COMMAND \<Rightarrow> bytes \<Rightarrow> MAC_COMMAND" where
  "mac_write c bs =
    (let m = mem_write (mac_bytes c) 0 bs
     in \<lparr>command = hd m, mac_data = from_le (tl m)\<rparr>)"

lemma length_mac_bytes [simp]: "length (mac_bytes c) = 6"
  by (simp add: mac_bytes_def)

lemma mac_bytes_write [simp]:
  assumes "length bs \<le> 6"
  shows "mac_bytes (mac_write c bs) = bs @ drop (length bs) (mac_bytes c)"
proof -
  define m where "m = mem_write (mac_bytes c) 0 bs"
  have len: "length m = 6" using assms by (simp add: m_def)
  then obtain x xs where m: "m = x # xs" by (cases m) auto
  with len have "length xs = 5" by simp
  then have "le_bytes 5 (from_le xs :: 40 word) = xs"
    by (intro le_bytes_from_le) simp_all
  moreover have "mac_write c bs = \<lparr>command = x, mac_data = from_le xs\<rparr>"
    by (simp add: mac_write_def Let_def m m_def [symmetric])
  ultimately have "mac_bytes (mac_write c bs) = m"
    by (simp add: mac_bytes_def m)
  then show ?thesis by (simp add: m_def mem_write_def)
qed

lemma mac_bytes_inject: "mac_bytes c = mac_bytes d \<longleftrightarrow> c = d"
proof
  assume "mac_bytes c = mac_bytes d"
  then have "command c = command d" and eq: "le_bytes 5 (mac_data c) = le_bytes 5 (mac_data d)"
    by (simp_all add: mac_bytes_def)
  from eq have "from_le (le_bytes 5 (mac_data c)) = (from_le (le_bytes 5 (mac_data d)) :: 40 word)"
    by simp
  then have "mac_data c = mac_data d" by (simp add: from_le_le_bytes)
  with \<open>command c = command d\<close> show "c = d" by simp
qed simp

lemma command_write: "bs \<noteq> [] \<Longrightarrow> command (mac_write c bs) = hd bs"
  by (cases bs) (simp_all add: mac_write_def mem_write_def Let_def)

section \<open>Sizes\<close>

abbreviation (input) MAC_EMPTY_SIZE :: nat where "MAC_EMPTY_SIZE \<equiv> 1"
abbreviation (input) MAC_RESET_SIZE :: nat where "MAC_RESET_SIZE \<equiv> 2"
abbreviation (input) MAC_LINK_CHECK_SIZE :: nat where "MAC_LINK_CHECK_SIZE \<equiv> 3"
abbreviation (input) MAC_LINK_ADR_REQ_SIZE :: nat where "MAC_LINK_ADR_REQ_SIZE \<equiv> 5"
abbreviation (input) MAC_LINK_ADR_RESP_SIZE :: nat where "MAC_LINK_ADR_RESP_SIZE \<equiv> 2"
abbreviation (input) MAC_DUTY_CYCLE_SIZE :: nat where "MAC_DUTY_CYCLE_SIZE \<equiv> 2"
abbreviation (input) MAC_RXRARAMSETUP_REQ_SIZE :: nat where "MAC_RXRARAMSETUP_REQ_SIZE \<equiv> 5"
abbreviation (input) MAC_RXRARAMSETUP_RESP_SIZE :: nat where "MAC_RXRARAMSETUP_RESP_SIZE \<equiv> 2"
abbreviation (input) MAC_DEVSTATUS_SIZE :: nat where "MAC_DEVSTATUS_SIZE \<equiv> 3"
abbreviation (input) MAC_NEWCHANNEL_REQ_SIZE :: nat where "MAC_NEWCHANNEL_REQ_SIZE \<equiv> 6"
abbreviation (input) MAC_NEWCHANNEL_RESP_SIZE :: nat where "MAC_NEWCHANNEL_RESP_SIZE \<equiv> 2"
abbreviation (input) MAC_TIMINGSETUP_SIZE :: nat where "MAC_TIMINGSETUP_SIZE \<equiv> 2"
abbreviation (input) MAC_TXPARAMSETUP_SIZE :: nat where "MAC_TXPARAMSETUP_SIZE \<equiv> 2"
abbreviation (input) MAC_DLCHANNEL_REQ_SIZE :: nat where "MAC_DLCHANNEL_REQ_SIZE \<equiv> 5"
abbreviation (input) MAC_DLCHANNEL_RESP_SIZE :: nat where "MAC_DLCHANNEL_RESP_SIZE \<equiv> 2"
abbreviation (input) MAC_REKEY_REQ_SIZE :: nat where "MAC_REKEY_REQ_SIZE \<equiv> 2"
abbreviation (input) MAC_REKEY_RESP_SIZE :: nat where "MAC_REKEY_RESP_SIZE \<equiv> 2"
abbreviation (input) MAC_ADRPARAMSETUP_SIZE :: nat where "MAC_ADRPARAMSETUP_SIZE \<equiv> 2"
abbreviation (input) MAC_DEVICETIME_SIZE :: nat where "MAC_DEVICETIME_SIZE \<equiv> 4"
abbreviation (input) MAC_FORCEREJOIN_SIZE :: nat where "MAC_FORCEREJOIN_SIZE \<equiv> 3"
abbreviation (input) MAC_REJOINPARAMSETUP_REQ_SIZE :: nat where "MAC_REJOINPARAMSETUP_REQ_SIZE \<equiv> 2"
abbreviation (input) MAC_REJOINPARAMSETUP_RESP_SIZE :: nat where "MAC_REJOINPARAMSETUP_RESP_SIZE \<equiv> 2"
abbreviation (input) MAC_PINGSLOTINFO_SIZE :: nat where "MAC_PINGSLOTINFO_SIZE \<equiv> 2"
abbreviation (input) MAC_PINGSLOTCHANNEL_REQ_SIZE :: nat where "MAC_PINGSLOTCHANNEL_REQ_SIZE \<equiv> 5"
abbreviation (input) MAC_PINGSLOTCHANNEL_RESP_SIZE :: nat where "MAC_PINGSLOTCHANNEL_RESP_SIZE \<equiv> 2"
abbreviation (input) MAC_BEACONTIMING_SIZE :: nat where "MAC_BEACONTIMING_SIZE \<equiv> 4"
abbreviation (input) MAC_BEACONFREQUENCY_REQ_SIZE :: nat where "MAC_BEACONFREQUENCY_REQ_SIZE \<equiv> 4"
abbreviation (input) MAC_BEACONFREQUENCY_RESP_SIZE :: nat where "MAC_BEACONFREQUENCY_RESP_SIZE \<equiv> 2"
abbreviation (input) MAC_DEVICEMODE_SIZE :: nat where "MAC_DEVICEMODE_SIZE \<equiv> 2"

definition commandSize_client :: "u8 \<Rightarrow> nat" where
  "commandSize_client c =
    (case cid_of c of None \<Rightarrow> 0
     | Some cid \<Rightarrow> (case cid of
         Reset \<Rightarrow> MAC_RESET_SIZE
       | LinkCheck \<Rightarrow> MAC_LINK_CHECK_SIZE
       | LinkADR \<Rightarrow> MAC_LINK_ADR_REQ_SIZE
       | DutyCycle \<Rightarrow> MAC_DUTY_CYCLE_SIZE
       | RXParamSetup \<Rightarrow> MAC_RXRARAMSETUP_REQ_SIZE
       | DevStatus \<Rightarrow> MAC_EMPTY_SIZE
       | NewChannel \<Rightarrow> MAC_NEWCHANNEL_REQ_SIZE
       | RXTimingSetup \<Rightarrow> MAC_TIMINGSETUP_SIZE
       | TXParamSetup \<Rightarrow> MAC_TXPARAMSETUP_SIZE
       | DLChannel \<Rightarrow> MAC_DLCHANNEL_REQ_SIZE
       | Rekey \<Rightarrow> MAC_REKEY_RESP_SIZE
       | ADRParamSetup \<Rightarrow> MAC_ADRPARAMSETUP_SIZE
       | DeviceTime \<Rightarrow> MAC_DEVICETIME_SIZE
       | ForceRejoin \<Rightarrow> MAC_FORCEREJOIN_SIZE
       | RejoinParamSetup \<Rightarrow> MAC_REJOINPARAMSETUP_REQ_SIZE
       | PingSlotInfo \<Rightarrow> MAC_EMPTY_SIZE
       | PingSlotChannel \<Rightarrow> MAC_PINGSLOTCHANNEL_REQ_SIZE
       | BeaconTiming \<Rightarrow> MAC_BEACONTIMING_SIZE
       | BeaconFreq \<Rightarrow> MAC_BEACONFREQUENCY_REQ_SIZE
       | DeviceMode \<Rightarrow> MAC_DEVICEMODE_SIZE))"

definition commandSize_server :: "u8 \<Rightarrow> nat" where
  "commandSize_server c =
    (case cid_of c of None \<Rightarrow> 0
     | Some cid \<Rightarrow> (case cid of
         Reset \<Rightarrow> MAC_RESET_SIZE
       | LinkCheck \<Rightarrow> MAC_EMPTY_SIZE
       | LinkADR \<Rightarrow> MAC_LINK_ADR_RESP_SIZE
       | DutyCycle \<Rightarrow> MAC_EMPTY_SIZE
       | RXParamSetup \<Rightarrow> MAC_RXRARAMSETUP_RESP_SIZE
       | DevStatus \<Rightarrow> MAC_DEVSTATUS_SIZE
       | NewChannel \<Rightarrow> MAC_NEWCHANNEL_RESP_SIZE
       | RXTimingSetup \<Rightarrow> MAC_EMPTY_SIZE
       | TXParamSetup \<Rightarrow> MAC_EMPTY_SIZE
       | DLChannel \<Rightarrow> MAC_DLCHANNEL_RESP_SIZE
       | Rekey \<Rightarrow> MAC_REKEY_REQ_SIZE
       | ADRParamSetup \<Rightarrow> MAC_EMPTY_SIZE
       | DeviceTime \<Rightarrow> MAC_EMPTY_SIZE
       | ForceRejoin \<Rightarrow> MAC_EMPTY_SIZE
       | RejoinParamSetup \<Rightarrow> MAC_REJOINPARAMSETUP_RESP_SIZE
       | PingSlotInfo \<Rightarrow> MAC_PINGSLOTINFO_SIZE
       | PingSlotChannel \<Rightarrow> MAC_PINGSLOTCHANNEL_RESP_SIZE
       | BeaconTiming \<Rightarrow> MAC_EMPTY_SIZE
       | BeaconFreq \<Rightarrow> MAC_BEACONFREQUENCY_RESP_SIZE
       | DeviceMode \<Rightarrow> MAC_DEVICEMODE_SIZE))"

definition commandSize :: "MAC_COMMAND \<Rightarrow> bool \<Rightarrow> nat" where
  "commandSize v clientSide =
    (if clientSide then commandSize_client (command v) else commandSize_server (command v))"

section \<open>Parsers that copy\<close>

definition COPY_MAC :: "nat \<Rightarrow> MAC_COMMAND \<Rightarrow> bytes \<Rightarrow> code \<times> MAC_COMMAND" where
  "COPY_MAC n retval v =
    (if length v < n then (ERR_CODE_MAC_TOO_SHORT, retval)
     else (int n, mac_write retval (take n v)))"

definition parseClientSide :: "MAC_COMMAND \<Rightarrow> bytes \<Rightarrow> code \<times> MAC_COMMAND" where
  "parseClientSide retval v =
    (if length v < 1 then (ERR_CODE_MAC_TOO_SHORT, retval)
     else case cid_of (v ! 0) of None \<Rightarrow> (ERR_CODE_MAC_INVALID, retval)
     | Some cid \<Rightarrow> (case cid of
         Reset \<Rightarrow> COPY_MAC MAC_RESET_SIZE retval v
       | LinkCheck \<Rightarrow> COPY_MAC MAC_LINK_CHECK_SIZE retval v
       | LinkADR \<Rightarrow> COPY_MAC MAC_LINK_ADR_REQ_SIZE retval v
       | DutyCycle \<Rightarrow> COPY_MAC MAC_DUTY_CYCLE_SIZE retval v
       | RXParamSetup \<Rightarrow> COPY_MAC MAC_RXRARAMSETUP_REQ_SIZE retval v
       | DevStatus \<Rightarrow> COPY_MAC MAC_EMPTY_SIZE retval v
       | NewChannel \<Rightarrow> COPY_MAC MAC_NEWCHANNEL_REQ_SIZE retval v
       | RXTimingSetup \<Rightarrow> COPY_MAC MAC_TIMINGSETUP_SIZE retval v
       | TXParamSetup \<Rightarrow> COPY_MAC MAC_TXPARAMSETUP_SIZE retval v
       | DLChannel \<Rightarrow> COPY_MAC MAC_DLCHANNEL_REQ_SIZE retval v
       | Rekey \<Rightarrow> COPY_MAC MAC_REKEY_RESP_SIZE retval v
       | ADRParamSetup \<Rightarrow> COPY_MAC MAC_ADRPARAMSETUP_SIZE retval v
       | DeviceTime \<Rightarrow> COPY_MAC MAC_DEVICETIME_SIZE retval v
       | ForceRejoin \<Rightarrow> COPY_MAC MAC_FORCEREJOIN_SIZE retval v
       | RejoinParamSetup \<Rightarrow> COPY_MAC MAC_REJOINPARAMSETUP_REQ_SIZE retval v
       | PingSlotInfo \<Rightarrow> COPY_MAC MAC_EMPTY_SIZE retval v
       | PingSlotChannel \<Rightarrow> COPY_MAC MAC_PINGSLOTCHANNEL_REQ_SIZE retval v
       | BeaconTiming \<Rightarrow> COPY_MAC MAC_BEACONTIMING_SIZE retval v
       | BeaconFreq \<Rightarrow> COPY_MAC MAC_BEACONFREQUENCY_REQ_SIZE retval v
       | DeviceMode \<Rightarrow> COPY_MAC MAC_DEVICEMODE_SIZE retval v))"

definition parseServerSide :: "MAC_COMMAND \<Rightarrow> bytes \<Rightarrow> code \<times> MAC_COMMAND" where
  "parseServerSide retval v =
    (if length v < 1 then (ERR_CODE_MAC_TOO_SHORT, retval)
     else case cid_of (v ! 0) of None \<Rightarrow> (ERR_CODE_MAC_INVALID, retval)
     | Some cid \<Rightarrow> (case cid of
         Reset \<Rightarrow> COPY_MAC MAC_RESET_SIZE retval v
       | LinkCheck \<Rightarrow> COPY_MAC MAC_EMPTY_SIZE retval v
       | LinkADR \<Rightarrow> COPY_MAC MAC_LINK_ADR_RESP_SIZE retval v
       | DutyCycle \<Rightarrow> COPY_MAC MAC_EMPTY_SIZE retval v
       | RXParamSetup \<Rightarrow> COPY_MAC MAC_RXRARAMSETUP_RESP_SIZE retval v
       | DevStatus \<Rightarrow> COPY_MAC MAC_DEVSTATUS_SIZE retval v
       | NewChannel \<Rightarrow> COPY_MAC MAC_NEWCHANNEL_RESP_SIZE retval v
       | RXTimingSetup \<Rightarrow> COPY_MAC MAC_EMPTY_SIZE retval v
       | TXParamSetup \<Rightarrow> COPY_MAC MAC_EMPTY_SIZE retval v
       | DLChannel \<Rightarrow> COPY_MAC MAC_DLCHANNEL_RESP_SIZE retval v
       | Rekey \<Rightarrow> COPY_MAC MAC_REKEY_REQ_SIZE retval v
       | ADRParamSetup \<Rightarrow> COPY_MAC MAC_EMPTY_SIZE retval v
       | DeviceTime \<Rightarrow> COPY_MAC MAC_EMPTY_SIZE retval v
       | ForceRejoin \<Rightarrow> COPY_MAC MAC_EMPTY_SIZE retval v
       | RejoinParamSetup \<Rightarrow> COPY_MAC MAC_REJOINPARAMSETUP_RESP_SIZE retval v
       | PingSlotInfo \<Rightarrow> COPY_MAC MAC_PINGSLOTINFO_SIZE retval v
       | PingSlotChannel \<Rightarrow> COPY_MAC MAC_PINGSLOTCHANNEL_RESP_SIZE retval v
       | BeaconTiming \<Rightarrow> COPY_MAC MAC_EMPTY_SIZE retval v
       | BeaconFreq \<Rightarrow> COPY_MAC MAC_BEACONFREQUENCY_RESP_SIZE retval v
       | DeviceMode \<Rightarrow> COPY_MAC MAC_DEVICEMODE_SIZE retval v))"

section \<open>Parsers that point into the payload\<close>

text \<open>
  The pointer the caller gives is \<open>None\<close> for \<open>NULL\<close>, else the pointer stored
  there; \<open>at\<close> is the address of the payload byte \<open>v ! 0\<close>.
\<close>

definition PTR_MAC ::
  "nat \<Rightarrow> nat option \<Rightarrow> bytes \<Rightarrow> nat \<Rightarrow> code \<times> nat option" where
  "PTR_MAC n retval v at =
    (if length v < n then (ERR_CODE_MAC_TOO_SHORT, retval)
     else (int n, case retval of None \<Rightarrow> None | Some _ \<Rightarrow> Some at))"

definition parseClientSidePtr ::
  "nat option \<Rightarrow> bytes \<Rightarrow> nat \<Rightarrow> code \<times> nat option" where
  "parseClientSidePtr retval v at =
    (if length v < 1 then (ERR_CODE_MAC_TOO_SHORT, retval)
     else case cid_of (v ! 0) of
       None \<Rightarrow> (if v ! 0 < 0x80 then (ERR_CODE_MAC_INVALID, retval)
               else (ERR_CODE_MAC_UNKNOWN_EXTENSION, retval))
     | Some cid \<Rightarrow> (case cid of
         Reset \<Rightarrow> PTR_MAC MAC_RESET_SIZE retval v at
       | LinkCheck \<Rightarrow> PTR_MAC MAC_LINK_CHECK_SIZE retval v at
       | LinkADR \<Rightarrow> PTR_MAC MAC_LINK_ADR_REQ_SIZE retval v at
       | DutyCycle \<Rightarrow> PTR_MAC MAC_DUTY_CYCLE_SIZE retval v at
       | RXParamSetup \<Rightarrow> PTR_MAC MAC_RXRARAMSETUP_REQ_SIZE retval v at
       | DevStatus \<Rightarrow> PTR_MAC MAC_EMPTY_SIZE retval v at
       | NewChannel \<Rightarrow> PTR_MAC MAC_NEWCHANNEL_REQ_SIZE retval v at
       | RXTimingSetup \<Rightarrow> PTR_MAC MAC_TIMINGSETUP_SIZE retval v at
       | TXParamSetup \<Rightarrow> PTR_MAC MAC_TXPARAMSETUP_SIZE retval v at
       | DLChannel \<Rightarrow> PTR_MAC MAC_DLCHANNEL_REQ_SIZE retval v at
       | Rekey \<Rightarrow> PTR_MAC MAC_REKEY_RESP_SIZE retval v at
       | ADRParamSetup \<Rightarrow> PTR_MAC MAC_ADRPARAMSETUP_SIZE retval v at
       | DeviceTime \<Rightarrow> PTR_MAC MAC_DEVICETIME_SIZE retval v at
       | ForceRejoin \<Rightarrow> PTR_MAC MAC_FORCEREJOIN_SIZE retval v at
       | RejoinParamSetup \<Rightarrow> PTR_MAC MAC_REJOINPARAMSETUP_REQ_SIZE retval v at
       | PingSlotInfo \<Rightarrow> PTR_MAC MAC_EMPTY_SIZE retval v at
       | PingSlotChannel \<Rightarrow> PTR_MAC MAC_PINGSLOTCHANNEL_REQ_SIZE retval v at
       | BeaconTiming \<Rightarrow> PTR_MAC MAC_BEACONTIMING_SIZE retval v at
       | BeaconFreq \<Rightarrow> PTR_MAC MAC_BEACONFREQUENCY_REQ_SIZE retval v at
       | DeviceMode \<Rightarrow> PTR_MAC MAC_DEVICEMODE_SIZE retval v at))"

definition parseServerSidePtr ::
  "nat option \<Rightarrow> bytes \<Rightarrow> nat \<Rightarrow> code \<times> nat option" where
  "parseServerSidePtr retval v at =
    (if length v < 1 then (ERR_CODE_MAC_TOO_SHORT, retval)
     else case cid_of (v ! 0) of
       None \<Rightarrow> (if v ! 0 < 0x80 then (ERR_CODE_MAC_INVALID, retval)
               else (ERR_CODE_MAC_UNKNOWN_EXTENSION, retval))
     | Some cid \<Rightarrow> (case cid of
         Reset \<Rightarrow> PTR_MAC MAC_RESET_SIZE retval v at
       | LinkCheck \<Rightarrow> PTR_MAC MAC_EMPTY_SIZE retval v at
       | LinkADR \<Rightarrow> PTR_MAC MAC_LINK_ADR_RESP_SIZE retval v at
       | DutyCycle \<Rightarrow> PTR_MAC MAC_EMPTY_SIZE retval v at
       | RXParamSetup \<Rightarrow> PTR_MAC MAC_RXRARAMSETUP_RESP_SIZE retval v at
       | DevStatus \<Rightarrow> PTR_MAC MAC_DEVSTATUS_SIZE retval v at
       | NewChannel \<Rightarrow> PTR_MAC MAC_NEWCHANNEL_RESP_SIZE retval v at
       | RXTimingSetup \<Rightarrow> PTR_MAC MAC_EMPTY_SIZE retval v at
       | TXParamSetup \<Rightarrow> PTR_MAC MAC_EMPTY_SIZE retval v at
       | DLChannel \<Rightarrow> PTR_MAC MAC_DLCHANNEL_RESP_SIZE retval v at
       | Rekey \<Rightarrow> PTR_MAC MAC_REKEY_REQ_SIZE retval v at
       | ADRParamSetup \<Rightarrow> PTR_MAC MAC_EMPTY_SIZE retval v at
       | DeviceTime \<Rightarrow> PTR_MAC MAC_EMPTY_SIZE retval v at
       | ForceRejoin \<Rightarrow> PTR_MAC MAC_EMPTY_SIZE retval v at
       | RejoinParamSetup \<Rightarrow> PTR_MAC MAC_REJOINPARAMSETUP_RESP_SIZE retval v at
       | PingSlotInfo \<Rightarrow> PTR_MAC MAC_PINGSLOTINFO_SIZE retval v at
       | PingSlotChannel \<Rightarrow> PTR_MAC MAC_PINGSLOTCHANNEL_RESP_SIZE retval v at
       | BeaconTiming \<Rightarrow> PTR_MAC MAC_EMPTY_SIZE retval v at
       | BeaconFreq \<Rightarrow> PTR_MAC MAC_BEACONFREQUENCY_RESP_SIZE retval v at
       | DeviceMode \<Rightarrow> PTR_MAC MAC_DEVICEMODE_SIZE retval v at))"

section \<open>What the parsers do\<close>

text \<open>The size table of a direction, and the call the code makes for it.\<close>

definition size_table :: "bool \<Rightarrow> u8 \<Rightarrow> nat" where
  "size_table clientSide c = (if clientSide then commandSize_client c else commandSize_server c)"

definition parse_side :: "bool \<Rightarrow> MAC_COMMAND \<Rightarrow> bytes \<Rightarrow> code \<times> MAC_COMMAND" where
  "parse_side clientSide retval v =
    (if clientSide then parseClientSide retval v else parseServerSide retval v)"

definition parse_side_ptr ::
  "bool \<Rightarrow> nat option \<Rightarrow> bytes \<Rightarrow> nat \<Rightarrow> code \<times> nat option" where
  "parse_side_ptr clientSide retval v at =
    (if clientSide then parseClientSidePtr retval v at else parseServerSidePtr retval v at)"

lemmas size_table_defs = size_table_def commandSize_client_def commandSize_server_def

lemma size_table_unknown [simp]: "size_table cs c = 0 \<longleftrightarrow> cid_of c = None"
  by (auto simp: size_table_defs split: option.splits MAC_CID.splits)

lemma size_table_known: "size_table cs (cid_code k) \<in> {1..6}"
  by (cases k; cases cs) (simp_all add: size_table_defs)

lemma size_table_le: "size_table cs c \<le> 6"
proof (cases "cid_of c")
  case None
  then show ?thesis by (simp add: size_table_defs)
next
  case (Some k)
  then show ?thesis using size_table_known [of cs k] by simp
qed

lemma commandSize_table: "commandSize m cs = size_table cs (command m)"
  by (simp add: commandSize_def size_table_def)

lemma parse_side_known:
  "v \<noteq> [] \<Longrightarrow> v ! 0 = cid_code k \<Longrightarrow>
   parse_side cs m v = COPY_MAC (size_table cs (cid_code k)) m v"
  by (cases k; cases cs)
    (simp_all add: parse_side_def parseClientSide_def parseServerSide_def size_table_defs
      Suc_le_eq)

lemma parse_side_unknown:
  "v \<noteq> [] \<Longrightarrow> cid_of (v ! 0) = None \<Longrightarrow> parse_side cs m v = (ERR_CODE_MAC_INVALID, m)"
  by (cases cs) (simp_all add: parse_side_def parseClientSide_def parseServerSide_def Suc_le_eq)

lemma parse_side_Nil [simp]: "parse_side cs m [] = (ERR_CODE_MAC_TOO_SHORT, m)"
  by (simp add: parse_side_def parseClientSide_def parseServerSide_def)

lemma parse_side_ptr_known:
  "v \<noteq> [] \<Longrightarrow> v ! 0 = cid_code k \<Longrightarrow>
   parse_side_ptr cs m v at = PTR_MAC (size_table cs (cid_code k)) m v at"
  by (cases k; cases cs)
    (simp_all add: parse_side_ptr_def parseClientSidePtr_def parseServerSidePtr_def size_table_defs
      Suc_le_eq)

lemma parse_side_ptr_unknown:
  "v \<noteq> [] \<Longrightarrow> cid_of (v ! 0) = None \<Longrightarrow>
   parse_side_ptr cs m v at =
     (if v ! 0 < 0x80 then ERR_CODE_MAC_INVALID else ERR_CODE_MAC_UNKNOWN_EXTENSION, m)"
  by (cases cs)
    (simp_all add: parse_side_ptr_def parseClientSidePtr_def parseServerSidePtr_def Suc_le_eq)

lemma parse_side_ptr_Nil [simp]: "parse_side_ptr cs m [] at = (ERR_CODE_MAC_TOO_SHORT, m)"
  by (simp add: parse_side_ptr_def parseClientSidePtr_def parseServerSidePtr_def)

text \<open>The tables of the parsers are the size table, in one equation.\<close>

lemma parse_side_spec:
  "parse_side cs m v =
    (if v = [] then (ERR_CODE_MAC_TOO_SHORT, m)
     else let n = size_table cs (hd v) in
       if n = 0 then (ERR_CODE_MAC_INVALID, m)
       else if length v < n then (ERR_CODE_MAC_TOO_SHORT, m)
       else (int n, mac_write m (take n v)))"
  by (cases v; cases "cid_of (hd v)")
    (auto simp: parse_side_unknown parse_side_known COPY_MAC_def Let_def)

lemma parse_side_ptr_spec:
  "parse_side_ptr cs p v at =
    (if v = [] then (ERR_CODE_MAC_TOO_SHORT, p)
     else let n = size_table cs (hd v) in
       if n = 0 then (if hd v < 0x80 then ERR_CODE_MAC_INVALID
                      else ERR_CODE_MAC_UNKNOWN_EXTENSION, p)
       else if length v < n then (ERR_CODE_MAC_TOO_SHORT, p)
       else (int n, map_option (\<lambda>_. at) p))"
  by (cases v; cases "cid_of (hd v)")
    (auto simp: parse_side_ptr_unknown parse_side_ptr_known PTR_MAC_def Let_def split: option.splits)

lemma isMACCommand_known: "isMACCommand c = MCT_KNOWN \<longleftrightarrow> cid_of c \<noteq> None"
proof -
  have "cid_of c \<noteq> None \<longleftrightarrow> (1 \<le> unat c \<and> unat c \<le> 0x13) \<or> unat c = 0x20"
    by (simp add: cid_of_def word_unat_eq_iff) arith
  moreover have "isMACCommand c = MCT_KNOWN \<longleftrightarrow> (1 \<le> unat c \<and> unat c \<le> 0x13) \<or> unat c = 0x20"
    by (simp add: isMACCommand_def word_unat_eq_iff word_le_nat_alt) arith
  ultimately show ?thesis by simp
qed

section \<open>MacData and the command list\<close>

record MacData =
  md_command :: MAC_COMMAND
  errcode :: code
  isClientSide :: bool

definition MacData_empty :: MacData where
  "MacData_empty =
    \<lparr>md_command = \<lparr>command = 0, mac_data = 0\<rparr>, errcode = 0, isClientSide = False\<rparr>"

definition MacData_copy :: "MacData \<Rightarrow> MacData" where
  "MacData_copy v =
    \<lparr>md_command = md_command v, errcode = errcode v, isClientSide = isClientSide v\<rparr>"

definition MacData_command :: "MAC_COMMAND \<Rightarrow> MacData" where
  "MacData_command v = \<lparr>md_command = v, errcode = 0, isClientSide = False\<rparr>"

text \<open>The constructor from a string does not clear the command: \<open>junk\<close> is its memory.\<close>

definition MacData_parse :: "MAC_COMMAND \<Rightarrow> bytes \<Rightarrow> bool \<Rightarrow> MacData" where
  "MacData_parse junk v sentByGateway =
    (let (r, c) = (if sentByGateway then parseClientSide junk v else parseServerSide junk v)
     in \<lparr>md_command = c, errcode = if r < 0 then r else 0, isClientSide = sentByGateway\<rparr>)"

definition MacData_size :: "MacData \<Rightarrow> nat" where
  "MacData_size d =
    (if errcode d \<noteq> 0 then 0 else commandSize (md_command d) (isClientSide d))"

definition MacData_toString :: "MacData \<Rightarrow> bytes" where
  "MacData_toString d = take (MacData_size d) (mac_bytes (md_command d))"

record MacDataList =
  ml_list :: "MacData list"
  ml_isClientSide :: bool

definition MacDataList_empty :: MacDataList where
  "MacDataList_empty = \<lparr>ml_list = [], ml_isClientSide = False\<rparr>"

definition MacDataList_copy :: "MacDataList \<Rightarrow> MacDataList" where
  "MacDataList_copy v = \<lparr>ml_list = ml_list v, ml_isClientSide = False\<rparr>"

text \<open>
  The loop of the list constructor.  One \<open>MacData\<close> is reused: a shorter command keeps the
  tail of the one before it, and \<open>isClientSide\<close> of the elements is never assigned.
\<close>

function mac_list_loop :: "bool \<Rightarrow> MacData \<Rightarrow> bytes \<Rightarrow> MacData list" where
  "mac_list_loop clientSide d v =
    (let (r, c) = parse_side clientSide (md_command d) v
     in if r < 0 then []
        else let d' = d\<lparr>md_command := c\<rparr>
             in d' # mac_list_loop clientSide d' (drop (nat r) v))"
  by pat_completeness auto

lemma size_table_pos [simp]: "0 < size_table cs (cid_code k)"
  using size_table_known [of cs k] by auto

lemma parse_side_progress:
  "(r, c) = parse_side cs m v \<Longrightarrow> \<not> r < 0 \<Longrightarrow> v \<noteq> [] \<and> 0 < nat r"
  by (auto simp: parse_side_spec Let_def split: if_splits)

termination mac_list_loop
  by (relation "measure (\<lambda>(_, _, v). length v)")
    (use parse_side_progress in fastforce)+

declare mac_list_loop.simps [simp del]

definition MacDataList_parse :: "bytes \<Rightarrow> bool \<Rightarrow> MacDataList" where
  "MacDataList_parse v clientSide =
    \<lparr>ml_list = mac_list_loop clientSide MacData_empty v, ml_isClientSide = clientSide\<rparr>"

definition MacDataList_size :: "MacDataList \<Rightarrow> nat" where
  "MacDataList_size l = sum_list (map MacData_size (ml_list l))"

section \<open>The pointer list\<close>

record MacPtr =
  mp_mac :: "nat list"
  mp_errorcode :: code
  mp_clientSide :: bool

text \<open>
  The loop of \<open>MacPtr::parse\<close>: \<open>r\<close> is the last code (uninitialised before the
  first turn), \<open>m\<close> the last pointer, \<open>at\<close> the read position.
\<close>

function mac_ptr_loop ::
  "bool \<Rightarrow> code \<Rightarrow> nat \<Rightarrow> bytes \<Rightarrow> nat \<Rightarrow> nat list \<Rightarrow> code \<times> nat list" where
  "mac_ptr_loop cs r m v at acc =
    (if v = [] then (r, acc)
     else let (r', q) = parse_side_ptr cs (Some m) v at in
       if r' < 0 then (r', acc)
       else let m' = (case q of None \<Rightarrow> m | Some p \<Rightarrow> p)
            in mac_ptr_loop cs r' m' (drop (nat r') v) (at + nat r') (acc @ [m']))"
  by pat_completeness auto

lemma parse_side_ptr_progress:
  "(r, q) = parse_side_ptr cs p v at \<Longrightarrow> \<not> r < 0 \<Longrightarrow> v \<noteq> [] \<and> 0 < nat r"
  by (auto simp: parse_side_ptr_spec Let_def split: if_splits)

termination mac_ptr_loop
  by (relation "measure (\<lambda>(_, _, _, v, _, _). length v)")
    (use parse_side_ptr_progress in fastforce)+

declare mac_ptr_loop.simps [simp del]

definition MacPtr_parse :: "code \<Rightarrow> nat \<Rightarrow> bytes \<Rightarrow> MacPtr \<Rightarrow> MacPtr" where
  "MacPtr_parse junk_r junk_m v p =
    (let (r, l) = mac_ptr_loop (mp_clientSide p) junk_r junk_m v 0 []
     in p\<lparr>mp_mac := l, mp_errorcode := if r < 0 then r else 0\<rparr>)"

definition MacPtr_new :: "code \<Rightarrow> nat \<Rightarrow> bytes \<Rightarrow> bool \<Rightarrow> MacPtr" where
  "MacPtr_new junk_r junk_m v aClientSide =
    MacPtr_parse junk_r junk_m v \<lparr>mp_mac = [], mp_errorcode = 0, mp_clientSide = aClientSide\<rparr>"

definition mkRequestMAC :: "MAC_COMMAND \<Rightarrow> u8 \<Rightarrow> bool \<times> MAC_COMMAND" where
  "mkRequestMAC out c =
    (let out' = out\<lparr>command := c\<rparr>
     in case cid_of c of Some DevStatus \<Rightarrow> (True, out') | _ \<Rightarrow> (False, out'))"

definition MAC_COMMANDResponse2binary :: "MAC_COMMAND \<Rightarrow> bytes" where
  "MAC_COMMANDResponse2binary c =
    (case cid_of (command c) of
       Some LinkCheck \<Rightarrow> take MAC_LINK_CHECK_SIZE (mac_bytes c)
     | _ \<Rightarrow> [])"

definition MAC_COMMANDRequest2binary :: "MAC_COMMAND \<Rightarrow> bytes" where
  "MAC_COMMANDRequest2binary c = take 1 (mac_bytes c)"

section \<open>Parsing a payload\<close>

text \<open>The bytes a command occupies in a payload.\<close>

definition cmd_bytes :: "bool \<Rightarrow> MAC_COMMAND \<Rightarrow> bytes" where
  "cmd_bytes cs c = take (commandSize c cs) (mac_bytes c)"

lemma length_cmd_bytes: "length (cmd_bytes cs c) = commandSize c cs"
  using size_table_le by (simp add: cmd_bytes_def commandSize_table)

lemma hd_mac_bytes [simp]: "hd (mac_bytes c) = command c"
  by (simp add: mac_bytes_def)

lemma parse_side_ok:
  assumes "parse_side cs m v = (r, c)" and "\<not> r < 0"
  shows "cmd_bytes cs c = take (nat r) v" "nat r = commandSize c cs" "nat r \<le> length v"
    "0 < nat r"
proof -
  define n where "n = size_table cs (hd v)"
  from assms have v: "v \<noteq> []" and n: "0 < n" "n \<le> length v" "r = int n"
    and c: "c = mac_write m (take n v)"
    by (auto simp: parse_side_spec Let_def n_def split: if_splits)
  have "n \<le> 6" unfolding n_def by (rule size_table_le)
  have cmd: "command c = hd v" using v n by (cases v; cases n) (simp_all add: c command_write)
  then have sz: "commandSize c cs = n" by (simp add: commandSize_table n_def)
  show "cmd_bytes cs c = take (nat r) v"
    using n \<open>n \<le> 6\<close> by (simp add: cmd_bytes_def sz) (simp add: c)
  show "nat r = commandSize c cs" "nat r \<le> length v" "0 < nat r" using n sz by simp_all
qed

lemma parse_side_cmd_bytes:
  assumes "cid_of (command c) \<noteq> None"
  obtains c' where "parse_side cs m (cmd_bytes cs c @ rest) = (int (commandSize c cs), c')"
    and "cmd_bytes cs c' = cmd_bytes cs c"
proof -
  define n where "n = size_table cs (command c)"
  from assms have n: "0 < n" by (simp add: n_def flip: neq0_conv)
  have sz: "commandSize c cs = n" by (simp add: commandSize_table n_def)
  have hd: "hd (cmd_bytes cs c @ rest) = command c" "cmd_bytes cs c \<noteq> []"
    using n by (simp_all add: cmd_bytes_def sz mac_bytes_def take_Cons split: nat.splits)
  have "length (cmd_bytes cs c) = n" by (simp add: length_cmd_bytes sz)
  with n hd have p: "parse_side cs m (cmd_bytes cs c @ rest) = (int n, mac_write m (cmd_bytes cs c))"
    by (simp add: parse_side_spec n_def [symmetric] Let_def)
  show thesis
    using p parse_side_ok(1) [OF p] \<open>length (cmd_bytes cs c) = n\<close> by (intro that [of "mac_write m (cmd_bytes cs c)"]) (simp_all add: sz)
qed

lemma mac_list_loop_partition:
  "\<exists>rest. v = concat (map (\<lambda>d. cmd_bytes cs (md_command d)) (mac_list_loop cs d0 v)) @ rest \<and>
    fst (parse_side cs m rest) < 0"
proof (induction cs d0 v rule: mac_list_loop.induct)
  case (1 cs d v)
  obtain r c where p: "parse_side cs (md_command d) v = (r, c)" by (cases "parse_side cs (md_command d) v")
  show ?case
  proof (cases "r < 0")
    case True
    then have "mac_list_loop cs d v = []" using p by (simp add: mac_list_loop.simps)
    moreover from p True have "fst (parse_side cs m v) < 0"
      by (auto simp: parse_side_spec Let_def split: if_splits)
    ultimately show ?thesis by (intro exI [of _ v]) simp
  next
    case False
    define d' where "d' = d\<lparr>md_command := c\<rparr>"
    define ds where "ds = mac_list_loop cs d' (drop (nat r) v)"
    from 1 [OF p [symmetric] refl False d'_def] obtain rest where
      rest: "drop (nat r) v = concat (map (\<lambda>d. cmd_bytes cs (md_command d)) ds) @ rest"
      and err: "fst (parse_side cs m rest) < 0" unfolding ds_def by auto
    have "mac_list_loop cs d v = d' # ds"
      using p False by (simp add: mac_list_loop.simps [of cs d v] d'_def ds_def Let_def)
    then have "concat (map (\<lambda>d. cmd_bytes cs (md_command d)) (mac_list_loop cs d v)) @ rest
        = cmd_bytes cs c @ drop (nat r) v"
      by (simp add: rest) (simp add: d'_def)
    also have "\<dots> = v" by (simp add: parse_side_ok(1) [OF p False])
    finally show ?thesis using err by metis
  qed
qed

lemma mac_list_loop_concat:
  assumes "\<forall>c \<in> set cs. cid_of (command c) \<noteq> None" and "fst (parse_side side m0 rest) < 0"
  shows "map (\<lambda>d. cmd_bytes side (md_command d))
      (mac_list_loop side d (concat (map (cmd_bytes side) cs) @ rest)) = map (cmd_bytes side) cs"
  using assms(1)
proof (induction cs arbitrary: d)
  case Nil
  have "fst (parse_side side (md_command d) rest) < 0"
    using assms(2) by (auto simp: parse_side_spec Let_def split: if_splits)
  then show ?case
    by (cases "parse_side side (md_command d) rest") (simp add: mac_list_loop.simps [of side d])
next
  case (Cons c cs)
  then have "cid_of (command c) \<noteq> None" by simp
  then obtain c' where
    p: "parse_side side (md_command d)
          (cmd_bytes side c @ concat (map (cmd_bytes side) cs) @ rest) = (int (commandSize c side), c')"
    and c': "cmd_bytes side c' = cmd_bytes side c"
    by (rule parse_side_cmd_bytes)
  have "drop (commandSize c side) (cmd_bytes side c @ concat (map (cmd_bytes side) cs) @ rest)
      = concat (map (cmd_bytes side) cs) @ rest"
    by (simp add: length_cmd_bytes)
  with p c' Cons show ?case
    by (simp add: mac_list_loop.simps [of side d] Let_def)
qed

lemma mac_list_loop_flags:
  "e \<in> set (mac_list_loop cs d v) \<Longrightarrow> errcode e = errcode d \<and> isClientSide e = isClientSide d"
proof (induction cs d v arbitrary: e rule: mac_list_loop.induct)
  case (1 cs d v)
  obtain r c where p: "parse_side cs (md_command d) v = (r, c)" by (cases "parse_side cs (md_command d) v")
  have "mac_list_loop cs d v = (if r < 0 then []
     else d\<lparr>md_command := c\<rparr> # mac_list_loop cs (d\<lparr>md_command := c\<rparr>) (drop (nat r) v))"
    using p by (simp add: mac_list_loop.simps [of cs d v] Let_def)
  with 1(2) 1(1) [OF p [symmetric] refl _ refl] show ?case
    by (auto split: if_splits)
qed

lemma mac_ptr_loop_positions:
  "mac_ptr_loop cs r m v at acc = (r', l) \<Longrightarrow>
   \<exists>sz. l = acc @ map (\<lambda>d. at + sum_list (take d sz)) [0..<length sz] \<and>
     sz = map (\<lambda>d. commandSize (md_command d) cs) (mac_list_loop cs d0 v)"
proof (induction cs r m v at acc arbitrary: d0 rule: mac_ptr_loop.induct)
  case (1 cs r m v at acc)
  show ?case
  proof (cases "v = [] \<or> fst (parse_side cs (md_command d0) v) < 0")
    case True
    then have "mac_list_loop cs d0 v = []"
      by (cases "parse_side cs (md_command d0) v") (auto simp: mac_list_loop.simps [of cs d0 v])
    moreover have "l = acc"
    proof (cases "v = []")
      case True
      with 1(2) show ?thesis by (simp add: mac_ptr_loop.simps [of cs r m "[]"])
    next
      case False
      with True have "fst (parse_side_ptr cs (Some m) v at) < 0"
        by (auto simp: parse_side_spec parse_side_ptr_spec Let_def split: if_splits)
      with False 1(2) show ?thesis
        by (cases "parse_side_ptr cs (Some m) v at") (simp add: mac_ptr_loop.simps [of cs r m v])
    qed
    ultimately show ?thesis by simp
  next
    case False
    define n where "n = size_table cs (hd v)"
    from False have v: "v \<noteq> []" and n: "0 < n" "n \<le> length v"
      by (auto simp: parse_side_spec n_def Let_def split: if_splits)
    define c where "c = mac_write (md_command d0) (take n v)"
    have p: "parse_side cs (md_command d0) v = (int n, c)"
      using v n by (simp add: parse_side_spec n_def [symmetric] c_def Let_def)
    have q: "parse_side_ptr cs (Some m) v at = (int n, Some at)"
      using v n by (simp add: parse_side_ptr_spec n_def [symmetric] Let_def)
    define d' where "d' = d0\<lparr>md_command := c\<rparr>"
    have l: "mac_list_loop cs d0 v = d' # mac_list_loop cs d' (drop n v)"
      using p by (simp add: mac_list_loop.simps [of cs d0 v] d'_def Let_def)
    have sz: "commandSize (md_command d') cs = n"
      using parse_side_ok(2) [OF p] by (simp add: d'_def)
    have "mac_ptr_loop cs (int n) at (drop n v) (at + n) (acc @ [at]) = (r', l)"
      using 1(2) v q by (simp add: mac_ptr_loop.simps [of cs r m v] Let_def)
    with 1(1) [OF v q [symmetric] refl _ refl, of d'] obtain ss where
      "l = acc @ at # map (\<lambda>d. at + n + sum_list (take d ss)) [0..<length ss]"
      "ss = map (\<lambda>d. commandSize (md_command d) cs) (mac_list_loop cs d' (drop n v))"
      by auto
    then show ?thesis
      by (intro exI [of _ "n # ss"]) (simp add: l sz upt_conv_Cons map_Suc_upt [symmetric] del: upt_Suc)
  qed
qed

section \<open>Properties\<close>

text \<open>\<open>parseClientSide\<close> and \<open>parseServerSide\<close> agree with \<open>isMACCommand\<close> and \<open>commandSize\<close>
  for every first byte, payload and direction: an empty payload is too short, an identifier that is not a known
  command is invalid, a payload shorter than the command is too short, and otherwise exactly the
  bytes of the command are copied over the result, the rest of which is kept; on every error the
  result is untouched.\<close>

theorem mac_parse_spec:
  "(if cs then parseClientSide m v else parseServerSide m v) =
    (let n = commandSize \<lparr>command = hd v, mac_data = 0\<rparr> cs in
     if v = [] then (ERR_CODE_MAC_TOO_SHORT, m)
     else if isMACCommand (hd v) \<noteq> MCT_KNOWN then (ERR_CODE_MAC_INVALID, m)
     else if length v < n then (ERR_CODE_MAC_TOO_SHORT, m)
     else (int n, mac_write m (take n v)))"
  unfolding parse_side_def [symmetric]
  by (auto simp: parse_side_spec commandSize_table isMACCommand_known Let_def)

text \<open>C17: \<open>MacDataList\<close> splits any payload: the commands it lists occupy, one after the
  other and without gaps, a prefix of the payload, and the rest is empty, starts with an unknown
  identifier, or is too short for its command.\<close>

theorem mac_list_partition:
  "\<exists>rest. v = concat (map (\<lambda>d. cmd_bytes cs (md_command d)) (ml_list (MacDataList_parse v cs))) @ rest \<and>
    (rest = [] \<or> isMACCommand (hd rest) \<noteq> MCT_KNOWN \<or>
     length rest < commandSize \<lparr>command = hd rest, mac_data = 0\<rparr> cs)"
proof -
  from mac_list_loop_partition [of v cs MacData_empty undefined] obtain rest where
    "v = concat (map (\<lambda>d. cmd_bytes cs (md_command d)) (mac_list_loop cs MacData_empty v)) @ rest"
    and "fst (parse_side cs undefined rest) < 0" by blast
  then show ?thesis
    by (intro exI [of _ rest])
      (auto simp: MacDataList_parse_def parse_side_spec isMACCommand_known commandSize_table Let_def
        split: if_splits)
qed

theorem mac_list_partition_witness:
  "\<exists>rest. [0x02, 0x0b, 5, 6, 7] =
      concat (map (\<lambda>d. cmd_bytes True (md_command d))
        (ml_list (MacDataList_parse [0x02, 0x0b, 5, 6, 7] True))) @ rest \<and>
    (rest = [] \<or> isMACCommand (hd rest) \<noteq> MCT_KNOWN \<or>
     length rest < commandSize \<lparr>command = hd rest, mac_data = 0\<rparr> True)"
  by (rule mac_list_partition)

text \<open>C18: Parsing the concatenated commands of a payload gives back the same commands, in order,
  each with its own bytes, in both directions, when every command is known and nothing that
  parses follows.\<close>

theorem mac_list_roundtrip:
  assumes "\<forall>c \<in> set cmds. isMACCommand (command c) = MCT_KNOWN"
  shows "map (\<lambda>d. cmd_bytes cs (md_command d))
      (ml_list (MacDataList_parse (concat (map (cmd_bytes cs) cmds)) cs)) = map (cmd_bytes cs) cmds"
proof -
  from assms have "\<forall>c \<in> set cmds. cid_of (command c) \<noteq> None"
    by (simp add: isMACCommand_known)
  from mac_list_loop_concat [OF this, of cs undefined "[]" MacData_empty] show ?thesis
    by (simp add: MacDataList_parse_def)
qed

lemma mac_list_roundtrip_witness:
  "map (\<lambda>d. cmd_bytes True (md_command d)) (ml_list (MacDataList_parse
      (concat (map (cmd_bytes True) [\<lparr>command = 2, mac_data = 0x114\<rparr>, \<lparr>command = 6, mac_data = 0\<rparr>])) True))
   = [[2, 0x14, 1], [6]]"
proof -
  have "\<forall>c \<in> set [\<lparr>command = 2, mac_data = 0x114\<rparr>, \<lparr>command = 6, mac_data = 0\<rparr>].
    isMACCommand (command c) = MCT_KNOWN"
    by (simp add: isMACCommand_def word_le_nat_alt)
  from mac_list_roundtrip [OF this, of True] show ?thesis
    by (simp add: cmd_bytes_def mac_bytes_def commandSize_def commandSize_client_def cid_of_def
      le_bytes_def byte_at_def upt_rec)
qed

text \<open>\<open>MacPtr\<close> finds the commands where \<open>MacDataList\<close> copies them from: its
  pointers are the offsets of the consecutive commands, as many as the list has.\<close>

theorem mac_pointers_agree:
  "mp_mac (MacPtr_new jr jm v cs) =
    (let sz = map (\<lambda>d. commandSize (md_command d) cs) (ml_list (MacDataList_parse v cs))
     in map (\<lambda>i. sum_list (take i sz)) [0..<length sz])"
proof -
  obtain r l where rl: "mac_ptr_loop cs jr jm v 0 [] = (r, l)"
    by (cases "mac_ptr_loop cs jr jm v 0 []")
  from mac_ptr_loop_positions [OF this, of MacData_empty] show ?thesis
    by (simp add: MacPtr_new_def MacPtr_parse_def rl MacDataList_parse_def Let_def)
qed

text \<open>The elements of a parsed list never learn the direction: \<open>MacDataList::size\<close> adds
  up the sizes of the commands of an end device even for a list sent by the gateway.\<close>

theorem mac_list_size_ignores_direction:
  "MacDataList_size (MacDataList_parse v cs) =
    sum_list (map (\<lambda>d. commandSize (md_command d) False) (ml_list (MacDataList_parse v cs)))"
proof -
  have "MacData_size d = commandSize (md_command d) False"
    if "d \<in> set (mac_list_loop cs MacData_empty v)" for d
    using mac_list_loop_flags [OF that] by (simp add: MacData_size_def MacData_empty_def)
  then have "map MacData_size (mac_list_loop cs MacData_empty v) =
      map (\<lambda>d. commandSize (md_command d) False) (mac_list_loop cs MacData_empty v)"
    by (intro map_cong) auto
  then show ?thesis
    by (simp only: MacDataList_size_def MacDataList_parse_def MacDataList.simps)
qed

end
