(* ===== verification/Mac_Fields.thy ===== *)
theory Mac_Fields
  imports Mac_Commands
begin

text \<open>
  The payload structures of \<open>lorawan/lorawan-mac.h\<close>: a record per structure with its
  bit fields at their widths, and its place in the union \<open>MAC_DATA\<close> as a pair of
  functions that read it from, and write it over, the 40 bits of the union.  Bit fields are
  allocated from the low bit; the three frequency bytes are one little-endian 24 bit field.  The
  locale \<open>overlay\<close> is the contract of a union member.
\<close>

section \<open>Bit fields\<close>

definition getf :: "nat \<Rightarrow> 40 word \<Rightarrow> 'a::len word" where
  "getf p d = ucast (drop_bit p d)"

definition putf :: "nat \<Rightarrow> 'a::len word \<Rightarrow> 40 word \<Rightarrow> 40 word" where
  "putf p v d = (d AND NOT (push_bit p (mask LENGTH('a)))) OR push_bit p (ucast v)"

lemma bit_getf: "bit (getf p d :: 'a::len word) n \<longleftrightarrow> n < LENGTH('a) \<and> bit d (p + n)"
  by (auto simp: getf_def bit_simps dest: bit_imp_le_length)

lemma bit_putf:
  "bit (putf p (v :: 'a::len word) d) n \<longleftrightarrow>
    (if p \<le> n \<and> n < p + LENGTH('a) then n < 40 \<and> bit v (n - p) else bit d n)"
  by (auto simp: putf_def bit_simps dest: bit_imp_le_length)

named_theorems field_simps_mac \<open>reading and writing bit fields\<close>

lemma getf_putf_same [field_simps_mac]:
  "p + LENGTH('a) \<le> 40 \<Longrightarrow> getf p (putf p (v :: 'a::len word) d) = v"
  by (rule bit_word_eqI) (auto simp: bit_getf bit_putf)

lemma getf_putf_other [field_simps_mac]:
  "p + LENGTH('a) \<le> q \<or> q + LENGTH('b) \<le> p \<Longrightarrow>
   (getf p (putf q (v :: 'b::len word) d) :: 'a::len word) = getf p d"
  by (rule bit_word_eqI) (auto simp: bit_getf bit_putf)

lemma putf_getf [field_simps_mac]: "putf p (getf p d :: 'a::len word) d = d"
  by (rule bit_word_eqI) (auto simp: bit_getf bit_putf)

lemma putf_putf_same [field_simps_mac]:
  "putf p (v :: 'a::len word) (putf p (w :: 'a word) d) = putf p v d"
  by (rule bit_word_eqI) (auto simp: bit_putf)

lemma putf_commute [field_simps_mac]:
  "q + LENGTH('b) \<le> p \<Longrightarrow>
   putf p (v :: 'a::len word) (putf q (w :: 'b::len word) d) = putf q w (putf p v d)"
  by (rule bit_word_eqI) (auto simp: bit_putf)

section \<open>Members of a union\<close>

locale overlay =
  fixes get :: "40 word \<Rightarrow> 's" and put :: "'s \<Rightarrow> 40 word \<Rightarrow> 40 word"
  assumes get_put: "get (put s d) = s"
    and put_get: "put (get d) d = d"
    and put_put: "put s (put t d) = put s d"
begin

lemma put_eq_iff: "put s d = d \<longleftrightarrow> get d = s"
  by (metis get_put put_get)

lemma put_inject: "put s d = put t d \<longleftrightarrow> s = t"
  by (metis get_put)

end

text \<open>Assigning fields of a member in place: \<open>data.member.field = value\<close>.\<close>

definition over ::
  "(40 word \<Rightarrow> 's) \<Rightarrow> ('s \<Rightarrow> 40 word \<Rightarrow> 40 word) \<Rightarrow> ('s \<Rightarrow> 's) \<Rightarrow> 40 word \<Rightarrow> 40 word" where
  "over get put f d = put (f (get d)) d"

context overlay begin

lemma get_over: "get (over get put f d) = f (get d)"
  by (simp add: over_def get_put)

lemma over_over: "over get put f (over get put g d) = over get put (\<lambda>s. f (g s)) d"
  by (simp add: over_def get_put put_put)

lemma over_const: "over get put (\<lambda>_. s) d = put s d"
  by (simp add: over_def)

end

section \<open>The structures\<close>

named_theorems mac_views \<open>the union members, read and written\<close>

record MAC_RESET =
  reset_minor :: "4 word"
  reset_rfu :: "4 word"

definition reset :: "40 word \<Rightarrow> MAC_RESET" where
  "reset d =
    \<lparr>reset_minor = getf 0 d,
     reset_rfu = getf 4 d\<rparr>"

definition put_reset :: "MAC_RESET \<Rightarrow> 40 word \<Rightarrow> 40 word" where
  "put_reset s d =
      putf 0 (reset_minor s) 
      (putf 4 (reset_rfu s) d)"

lemmas reset_views [mac_views] = reset_def put_reset_def

interpretation reset: overlay reset put_reset
  by unfold_locales (simp_all add: reset_views field_simps_mac)

record MAC_LINK_CHECK =
  linkcheck_margin :: "8 word"
  linkcheck_gwcnt :: "8 word"

definition linkcheck :: "40 word \<Rightarrow> MAC_LINK_CHECK" where
  "linkcheck d =
    \<lparr>linkcheck_margin = getf 0 d,
     linkcheck_gwcnt = getf 8 d\<rparr>"

definition put_linkcheck :: "MAC_LINK_CHECK \<Rightarrow> 40 word \<Rightarrow> 40 word" where
  "put_linkcheck s d =
      putf 0 (linkcheck_margin s) 
      (putf 8 (linkcheck_gwcnt s) d)"

lemmas linkcheck_views [mac_views] = linkcheck_def put_linkcheck_def

interpretation linkcheck: overlay linkcheck put_linkcheck
  by unfold_locales (simp_all add: linkcheck_views field_simps_mac)

record MAC_LINK_ADR_REQ =
  linkadrreq_txpower :: "4 word"
  linkadrreq_datarate :: "4 word"
  linkadrreq_chmask :: "16 word"
  linkadrreq_nbtans :: "4 word"
  linkadrreq_chmaskcntl :: "3 word"
  linkadrreq_rfu :: "1 word"

definition linkadrreq :: "40 word \<Rightarrow> MAC_LINK_ADR_REQ" where
  "linkadrreq d =
    \<lparr>linkadrreq_txpower = getf 0 d,
     linkadrreq_datarate = getf 4 d,
     linkadrreq_chmask = getf 8 d,
     linkadrreq_nbtans = getf 24 d,
     linkadrreq_chmaskcntl = getf 28 d,
     linkadrreq_rfu = getf 31 d\<rparr>"

definition put_linkadrreq :: "MAC_LINK_ADR_REQ \<Rightarrow> 40 word \<Rightarrow> 40 word" where
  "put_linkadrreq s d =
      putf 0 (linkadrreq_txpower s) 
      (putf 4 (linkadrreq_datarate s) 
      (putf 8 (linkadrreq_chmask s) 
      (putf 24 (linkadrreq_nbtans s) 
      (putf 28 (linkadrreq_chmaskcntl s) 
      (putf 31 (linkadrreq_rfu s) d)))))"

lemmas linkadrreq_views [mac_views] = linkadrreq_def put_linkadrreq_def

interpretation linkadrreq: overlay linkadrreq put_linkadrreq
  by unfold_locales (simp_all add: linkadrreq_views field_simps_mac)

record MAC_LINK_ADR_RESP =
  linkadrresp_channelmaskack :: "1 word"
  linkadrresp_datarateack :: "1 word"
  linkadrresp_powerack :: "1 word"
  linkadrresp_rfu :: "5 word"

definition linkadrresp :: "40 word \<Rightarrow> MAC_LINK_ADR_RESP" where
  "linkadrresp d =
    \<lparr>linkadrresp_channelmaskack = getf 0 d,
     linkadrresp_datarateack = getf 1 d,
     linkadrresp_powerack = getf 2 d,
     linkadrresp_rfu = getf 3 d\<rparr>"

definition put_linkadrresp :: "MAC_LINK_ADR_RESP \<Rightarrow> 40 word \<Rightarrow> 40 word" where
  "put_linkadrresp s d =
      putf 0 (linkadrresp_channelmaskack s) 
      (putf 1 (linkadrresp_datarateack s) 
      (putf 2 (linkadrresp_powerack s) 
      (putf 3 (linkadrresp_rfu s) d)))"

lemmas linkadrresp_views [mac_views] = linkadrresp_def put_linkadrresp_def

interpretation linkadrresp: overlay linkadrresp put_linkadrresp
  by unfold_locales (simp_all add: linkadrresp_views field_simps_mac)

record MAC_DUTY_CYCLE =
  dutycycle_maxdccycle :: "4 word"
  dutycycle_rfu :: "4 word"

definition dutycycle :: "40 word \<Rightarrow> MAC_DUTY_CYCLE" where
  "dutycycle d =
    \<lparr>dutycycle_maxdccycle = getf 0 d,
     dutycycle_rfu = getf 4 d\<rparr>"

definition put_dutycycle :: "MAC_DUTY_CYCLE \<Rightarrow> 40 word \<Rightarrow> 40 word" where
  "put_dutycycle s d =
      putf 0 (dutycycle_maxdccycle s) 
      (putf 4 (dutycycle_rfu s) d)"

lemmas dutycycle_views [mac_views] = dutycycle_def put_dutycycle_def

interpretation dutycycle: overlay dutycycle put_dutycycle
  by unfold_locales (simp_all add: dutycycle_views field_simps_mac)

record MAC_RXRARAMSETUP_REQ =
  rxparamsetupreq_rx2datatrate :: "4 word"
  rxparamsetupreq_rx1droffset :: "3 word"
  rxparamsetupreq_rfu :: "1 word"
  rxparamsetupreq_frequency :: "24 word"

definition rxparamsetupreq :: "40 word \<Rightarrow> MAC_RXRARAMSETUP_REQ" where
  "rxparamsetupreq d =
    \<lparr>rxparamsetupreq_rx2datatrate = getf 0 d,
     rxparamsetupreq_rx1droffset = getf 4 d,
     rxparamsetupreq_rfu = getf 7 d,
     rxparamsetupreq_frequency = getf 8 d\<rparr>"

definition put_rxparamsetupreq :: "MAC_RXRARAMSETUP_REQ \<Rightarrow> 40 word \<Rightarrow> 40 word" where
  "put_rxparamsetupreq s d =
      putf 0 (rxparamsetupreq_rx2datatrate s) 
      (putf 4 (rxparamsetupreq_rx1droffset s) 
      (putf 7 (rxparamsetupreq_rfu s) 
      (putf 8 (rxparamsetupreq_frequency s) d)))"

lemmas rxparamsetupreq_views [mac_views] = rxparamsetupreq_def put_rxparamsetupreq_def

interpretation rxparamsetupreq: overlay rxparamsetupreq put_rxparamsetupreq
  by unfold_locales (simp_all add: rxparamsetupreq_views field_simps_mac)

record MAC_RXRARAMSETUP_RESP =
  rxparamsetupresp_channelack :: "1 word"
  rxparamsetupresp_rx2datatrateack :: "1 word"
  rxparamsetupresp_rx1droffsetack :: "1 word"
  rxparamsetupresp_rfu :: "5 word"

definition rxparamsetupresp :: "40 word \<Rightarrow> MAC_RXRARAMSETUP_RESP" where
  "rxparamsetupresp d =
    \<lparr>rxparamsetupresp_channelack = getf 0 d,
     rxparamsetupresp_rx2datatrateack = getf 1 d,
     rxparamsetupresp_rx1droffsetack = getf 2 d,
     rxparamsetupresp_rfu = getf 3 d\<rparr>"

definition put_rxparamsetupresp :: "MAC_RXRARAMSETUP_RESP \<Rightarrow> 40 word \<Rightarrow> 40 word" where
  "put_rxparamsetupresp s d =
      putf 0 (rxparamsetupresp_channelack s) 
      (putf 1 (rxparamsetupresp_rx2datatrateack s) 
      (putf 2 (rxparamsetupresp_rx1droffsetack s) 
      (putf 3 (rxparamsetupresp_rfu s) d)))"

lemmas rxparamsetupresp_views [mac_views] = rxparamsetupresp_def put_rxparamsetupresp_def

interpretation rxparamsetupresp: overlay rxparamsetupresp put_rxparamsetupresp
  by unfold_locales (simp_all add: rxparamsetupresp_views field_simps_mac)

record MAC_DEVSTATUS =
  devstatus_battery :: "8 word"
  devstatus_margin :: "8 word"

definition devstatus :: "40 word \<Rightarrow> MAC_DEVSTATUS" where
  "devstatus d =
    \<lparr>devstatus_battery = getf 0 d,
     devstatus_margin = getf 8 d\<rparr>"

definition put_devstatus :: "MAC_DEVSTATUS \<Rightarrow> 40 word \<Rightarrow> 40 word" where
  "put_devstatus s d =
      putf 0 (devstatus_battery s) 
      (putf 8 (devstatus_margin s) d)"

lemmas devstatus_views [mac_views] = devstatus_def put_devstatus_def

interpretation devstatus: overlay devstatus put_devstatus
  by unfold_locales (simp_all add: devstatus_views field_simps_mac)

record MAC_NEWCHANNEL_REQ =
  newchacnnelreq_chindex :: "8 word"
  newchacnnelreq_frequency :: "24 word"
  newchacnnelreq_mindr :: "4 word"
  newchacnnelreq_maxdr :: "4 word"

definition newchacnnelreq :: "40 word \<Rightarrow> MAC_NEWCHANNEL_REQ" where
  "newchacnnelreq d =
    \<lparr>newchacnnelreq_chindex = getf 0 d,
     newchacnnelreq_frequency = getf 8 d,
     newchacnnelreq_mindr = getf 32 d,
     newchacnnelreq_maxdr = getf 36 d\<rparr>"

definition put_newchacnnelreq :: "MAC_NEWCHANNEL_REQ \<Rightarrow> 40 word \<Rightarrow> 40 word" where
  "put_newchacnnelreq s d =
      putf 0 (newchacnnelreq_chindex s) 
      (putf 8 (newchacnnelreq_frequency s) 
      (putf 32 (newchacnnelreq_mindr s) 
      (putf 36 (newchacnnelreq_maxdr s) d)))"

lemmas newchacnnelreq_views [mac_views] = newchacnnelreq_def put_newchacnnelreq_def

interpretation newchacnnelreq: overlay newchacnnelreq put_newchacnnelreq
  by unfold_locales (simp_all add: newchacnnelreq_views field_simps_mac)

record MAC_NEWCHANNEL_RESP =
  newchacnnelresp_channelfrequencyack :: "1 word"
  newchacnnelresp_datarateack :: "1 word"
  newchacnnelresp_rfu :: "6 word"

definition newchacnnelresp :: "40 word \<Rightarrow> MAC_NEWCHANNEL_RESP" where
  "newchacnnelresp d =
    \<lparr>newchacnnelresp_channelfrequencyack = getf 0 d,
     newchacnnelresp_datarateack = getf 1 d,
     newchacnnelresp_rfu = getf 2 d\<rparr>"

definition put_newchacnnelresp :: "MAC_NEWCHANNEL_RESP \<Rightarrow> 40 word \<Rightarrow> 40 word" where
  "put_newchacnnelresp s d =
      putf 0 (newchacnnelresp_channelfrequencyack s) 
      (putf 1 (newchacnnelresp_datarateack s) 
      (putf 2 (newchacnnelresp_rfu s) d))"

lemmas newchacnnelresp_views [mac_views] = newchacnnelresp_def put_newchacnnelresp_def

interpretation newchacnnelresp: overlay newchacnnelresp put_newchacnnelresp
  by unfold_locales (simp_all add: newchacnnelresp_views field_simps_mac)

record MAC_TIMINGSETUP =
  timingsetup_delay :: "4 word"
  timingsetup_rfu :: "4 word"

definition timingsetup :: "40 word \<Rightarrow> MAC_TIMINGSETUP" where
  "timingsetup d =
    \<lparr>timingsetup_delay = getf 0 d,
     timingsetup_rfu = getf 4 d\<rparr>"

definition put_timingsetup :: "MAC_TIMINGSETUP \<Rightarrow> 40 word \<Rightarrow> 40 word" where
  "put_timingsetup s d =
      putf 0 (timingsetup_delay s) 
      (putf 4 (timingsetup_rfu s) d)"

lemmas timingsetup_views [mac_views] = timingsetup_def put_timingsetup_def

interpretation timingsetup: overlay timingsetup put_timingsetup
  by unfold_locales (simp_all add: timingsetup_views field_simps_mac)

record MAC_TXPARAMSETUP =
  txparamsetup_maxeirp :: "4 word"
  txparamsetup_uplinkdwelltime :: "1 word"
  txparamsetup_downlinkdwelltime :: "1 word"
  txparamsetup_rfu :: "2 word"

definition txparamsetup :: "40 word \<Rightarrow> MAC_TXPARAMSETUP" where
  "txparamsetup d =
    \<lparr>txparamsetup_maxeirp = getf 0 d,
     txparamsetup_uplinkdwelltime = getf 4 d,
     txparamsetup_downlinkdwelltime = getf 5 d,
     txparamsetup_rfu = getf 6 d\<rparr>"

definition put_txparamsetup :: "MAC_TXPARAMSETUP \<Rightarrow> 40 word \<Rightarrow> 40 word" where
  "put_txparamsetup s d =
      putf 0 (txparamsetup_maxeirp s) 
      (putf 4 (txparamsetup_uplinkdwelltime s) 
      (putf 5 (txparamsetup_downlinkdwelltime s) 
      (putf 6 (txparamsetup_rfu s) d)))"

lemmas txparamsetup_views [mac_views] = txparamsetup_def put_txparamsetup_def

interpretation txparamsetup: overlay txparamsetup put_txparamsetup
  by unfold_locales (simp_all add: txparamsetup_views field_simps_mac)

record MAC_DLCHANNEL_REQ =
  dlcchannelreq_chindex :: "8 word"
  dlcchannelreq_frequency :: "24 word"

definition dlcchannelreq :: "40 word \<Rightarrow> MAC_DLCHANNEL_REQ" where
  "dlcchannelreq d =
    \<lparr>dlcchannelreq_chindex = getf 0 d,
     dlcchannelreq_frequency = getf 8 d\<rparr>"

definition put_dlcchannelreq :: "MAC_DLCHANNEL_REQ \<Rightarrow> 40 word \<Rightarrow> 40 word" where
  "put_dlcchannelreq s d =
      putf 0 (dlcchannelreq_chindex s) 
      (putf 8 (dlcchannelreq_frequency s) d)"

lemmas dlcchannelreq_views [mac_views] = dlcchannelreq_def put_dlcchannelreq_def

interpretation dlcchannelreq: overlay dlcchannelreq put_dlcchannelreq
  by unfold_locales (simp_all add: dlcchannelreq_views field_simps_mac)

record MAC_DLCHANNEL_RESP =
  dlcchannelresp_channelfrequencyack :: "1 word"
  dlcchannelresp_uplinkfrequencyexistsack :: "1 word"
  dlcchannelresp_rfu :: "6 word"

definition dlcchannelresp :: "40 word \<Rightarrow> MAC_DLCHANNEL_RESP" where
  "dlcchannelresp d =
    \<lparr>dlcchannelresp_channelfrequencyack = getf 0 d,
     dlcchannelresp_uplinkfrequencyexistsack = getf 1 d,
     dlcchannelresp_rfu = getf 2 d\<rparr>"

definition put_dlcchannelresp :: "MAC_DLCHANNEL_RESP \<Rightarrow> 40 word \<Rightarrow> 40 word" where
  "put_dlcchannelresp s d =
      putf 0 (dlcchannelresp_channelfrequencyack s) 
      (putf 1 (dlcchannelresp_uplinkfrequencyexistsack s) 
      (putf 2 (dlcchannelresp_rfu s) d))"

lemmas dlcchannelresp_views [mac_views] = dlcchannelresp_def put_dlcchannelresp_def

interpretation dlcchannelresp: overlay dlcchannelresp put_dlcchannelresp
  by unfold_locales (simp_all add: dlcchannelresp_views field_simps_mac)

record MAC_REKEY_REQ =
  rekeyreq_minor :: "4 word"
  rekeyreq_rfu :: "4 word"

definition rekeyreq :: "40 word \<Rightarrow> MAC_REKEY_REQ" where
  "rekeyreq d =
    \<lparr>rekeyreq_minor = getf 0 d,
     rekeyreq_rfu = getf 4 d\<rparr>"

definition put_rekeyreq :: "MAC_REKEY_REQ \<Rightarrow> 40 word \<Rightarrow> 40 word" where
  "put_rekeyreq s d =
      putf 0 (rekeyreq_minor s) 
      (putf 4 (rekeyreq_rfu s) d)"

lemmas rekeyreq_views [mac_views] = rekeyreq_def put_rekeyreq_def

interpretation rekeyreq: overlay rekeyreq put_rekeyreq
  by unfold_locales (simp_all add: rekeyreq_views field_simps_mac)

record MAC_REKEY_RESP =
  rekeyresp_version :: "8 word"

definition rekeyresp :: "40 word \<Rightarrow> MAC_REKEY_RESP" where
  "rekeyresp d =
    \<lparr>rekeyresp_version = getf 0 d\<rparr>"

definition put_rekeyresp :: "MAC_REKEY_RESP \<Rightarrow> 40 word \<Rightarrow> 40 word" where
  "put_rekeyresp s d =
      putf 0 (rekeyresp_version s) d"

lemmas rekeyresp_views [mac_views] = rekeyresp_def put_rekeyresp_def

interpretation rekeyresp: overlay rekeyresp put_rekeyresp
  by unfold_locales (simp_all add: rekeyresp_views field_simps_mac)

record MAC_ADRPARAMSETUP =
  adrparamsetup_delayexp :: "4 word"
  adrparamsetup_limitexp :: "4 word"

definition adrparamsetup :: "40 word \<Rightarrow> MAC_ADRPARAMSETUP" where
  "adrparamsetup d =
    \<lparr>adrparamsetup_delayexp = getf 0 d,
     adrparamsetup_limitexp = getf 4 d\<rparr>"

definition put_adrparamsetup :: "MAC_ADRPARAMSETUP \<Rightarrow> 40 word \<Rightarrow> 40 word" where
  "put_adrparamsetup s d =
      putf 0 (adrparamsetup_delayexp s) 
      (putf 4 (adrparamsetup_limitexp s) d)"

lemmas adrparamsetup_views [mac_views] = adrparamsetup_def put_adrparamsetup_def

interpretation adrparamsetup: overlay adrparamsetup put_adrparamsetup
  by unfold_locales (simp_all add: adrparamsetup_views field_simps_mac)

record MAC_DEVICETIME =
  devicetime_gpstime :: "32 word"
  devicetime_frac :: "8 word"

definition devicetime :: "40 word \<Rightarrow> MAC_DEVICETIME" where
  "devicetime d =
    \<lparr>devicetime_gpstime = getf 0 d,
     devicetime_frac = getf 32 d\<rparr>"

definition put_devicetime :: "MAC_DEVICETIME \<Rightarrow> 40 word \<Rightarrow> 40 word" where
  "put_devicetime s d =
      putf 0 (devicetime_gpstime s) 
      (putf 32 (devicetime_frac s) d)"

lemmas devicetime_views [mac_views] = devicetime_def put_devicetime_def

interpretation devicetime: overlay devicetime put_devicetime
  by unfold_locales (simp_all add: devicetime_views field_simps_mac)

record MAC_FORCEREJOIN =
  forcerejoin_dr :: "4 word"
  forcerejoin_rejointype :: "3 word"
  forcerejoin_rfu :: "1 word"
  forcerejoin_maxretries :: "3 word"
  forcerejoin_period :: "3 word"
  forcerejoin_rfu2 :: "2 word"

definition forcerejoin :: "40 word \<Rightarrow> MAC_FORCEREJOIN" where
  "forcerejoin d =
    \<lparr>forcerejoin_dr = getf 0 d,
     forcerejoin_rejointype = getf 4 d,
     forcerejoin_rfu = getf 7 d,
     forcerejoin_maxretries = getf 8 d,
     forcerejoin_period = getf 11 d,
     forcerejoin_rfu2 = getf 14 d\<rparr>"

definition put_forcerejoin :: "MAC_FORCEREJOIN \<Rightarrow> 40 word \<Rightarrow> 40 word" where
  "put_forcerejoin s d =
      putf 0 (forcerejoin_dr s) 
      (putf 4 (forcerejoin_rejointype s) 
      (putf 7 (forcerejoin_rfu s) 
      (putf 8 (forcerejoin_maxretries s) 
      (putf 11 (forcerejoin_period s) 
      (putf 14 (forcerejoin_rfu2 s) d)))))"

lemmas forcerejoin_views [mac_views] = forcerejoin_def put_forcerejoin_def

interpretation forcerejoin: overlay forcerejoin put_forcerejoin
  by unfold_locales (simp_all add: forcerejoin_views field_simps_mac)

record MAC_REJOINPARAMSETUP_REQ =
  rejoinparamsetupreq_maxccount :: "4 word"
  rejoinparamsetupreq_maxtime :: "4 word"

definition rejoinparamsetupreq :: "40 word \<Rightarrow> MAC_REJOINPARAMSETUP_REQ" where
  "rejoinparamsetupreq d =
    \<lparr>rejoinparamsetupreq_maxccount = getf 0 d,
     rejoinparamsetupreq_maxtime = getf 4 d\<rparr>"

definition put_rejoinparamsetupreq :: "MAC_REJOINPARAMSETUP_REQ \<Rightarrow> 40 word \<Rightarrow> 40 word" where
  "put_rejoinparamsetupreq s d =
      putf 0 (rejoinparamsetupreq_maxccount s) 
      (putf 4 (rejoinparamsetupreq_maxtime s) d)"

lemmas rejoinparamsetupreq_views [mac_views] = rejoinparamsetupreq_def put_rejoinparamsetupreq_def

interpretation rejoinparamsetupreq: overlay rejoinparamsetupreq put_rejoinparamsetupreq
  by unfold_locales (simp_all add: rejoinparamsetupreq_views field_simps_mac)

record MAC_REJOINPARAMSETUP_RESP =
  rejoinparamsetupresp_timeack :: "1 word"
  rejoinparamsetupresp_rfu :: "7 word"

definition rejoinparamsetupresp :: "40 word \<Rightarrow> MAC_REJOINPARAMSETUP_RESP" where
  "rejoinparamsetupresp d =
    \<lparr>rejoinparamsetupresp_timeack = getf 0 d,
     rejoinparamsetupresp_rfu = getf 1 d\<rparr>"

definition put_rejoinparamsetupresp :: "MAC_REJOINPARAMSETUP_RESP \<Rightarrow> 40 word \<Rightarrow> 40 word" where
  "put_rejoinparamsetupresp s d =
      putf 0 (rejoinparamsetupresp_timeack s) 
      (putf 1 (rejoinparamsetupresp_rfu s) d)"

lemmas rejoinparamsetupresp_views [mac_views] = rejoinparamsetupresp_def put_rejoinparamsetupresp_def

interpretation rejoinparamsetupresp: overlay rejoinparamsetupresp put_rejoinparamsetupresp
  by unfold_locales (simp_all add: rejoinparamsetupresp_views field_simps_mac)

record MAC_PINGSLOTINFO =
  pinginfoslot_periodicity :: "3 word"
  pinginfoslot_rfu :: "5 word"

definition pinginfoslot :: "40 word \<Rightarrow> MAC_PINGSLOTINFO" where
  "pinginfoslot d =
    \<lparr>pinginfoslot_periodicity = getf 0 d,
     pinginfoslot_rfu = getf 3 d\<rparr>"

definition put_pinginfoslot :: "MAC_PINGSLOTINFO \<Rightarrow> 40 word \<Rightarrow> 40 word" where
  "put_pinginfoslot s d =
      putf 0 (pinginfoslot_periodicity s) 
      (putf 3 (pinginfoslot_rfu s) d)"

lemmas pinginfoslot_views [mac_views] = pinginfoslot_def put_pinginfoslot_def

interpretation pinginfoslot: overlay pinginfoslot put_pinginfoslot
  by unfold_locales (simp_all add: pinginfoslot_views field_simps_mac)

record MAC_PINGSLOTCHANNEL_REQ =
  pingslotchannelreq_dr :: "4 word"
  pingslotchannelreq_rfu :: "4 word"
  pingslotchannelreq_frequency :: "24 word"

definition pingslotchannelreq :: "40 word \<Rightarrow> MAC_PINGSLOTCHANNEL_REQ" where
  "pingslotchannelreq d =
    \<lparr>pingslotchannelreq_dr = getf 0 d,
     pingslotchannelreq_rfu = getf 4 d,
     pingslotchannelreq_frequency = getf 8 d\<rparr>"

definition put_pingslotchannelreq :: "MAC_PINGSLOTCHANNEL_REQ \<Rightarrow> 40 word \<Rightarrow> 40 word" where
  "put_pingslotchannelreq s d =
      putf 0 (pingslotchannelreq_dr s) 
      (putf 4 (pingslotchannelreq_rfu s) 
      (putf 8 (pingslotchannelreq_frequency s) d))"

lemmas pingslotchannelreq_views [mac_views] = pingslotchannelreq_def put_pingslotchannelreq_def

interpretation pingslotchannelreq: overlay pingslotchannelreq put_pingslotchannelreq
  by unfold_locales (simp_all add: pingslotchannelreq_views field_simps_mac)

record MAC_PINGSLOTCHANNEL_RESP =
  pingslotchannelresp_frequencyack :: "1 word"
  pingslotchannelresp_drack :: "1 word"
  pingslotchannelresp_rfu :: "6 word"

definition pingslotchannelresp :: "40 word \<Rightarrow> MAC_PINGSLOTCHANNEL_RESP" where
  "pingslotchannelresp d =
    \<lparr>pingslotchannelresp_frequencyack = getf 0 d,
     pingslotchannelresp_drack = getf 1 d,
     pingslotchannelresp_rfu = getf 2 d\<rparr>"

definition put_pingslotchannelresp :: "MAC_PINGSLOTCHANNEL_RESP \<Rightarrow> 40 word \<Rightarrow> 40 word" where
  "put_pingslotchannelresp s d =
      putf 0 (pingslotchannelresp_frequencyack s) 
      (putf 1 (pingslotchannelresp_drack s) 
      (putf 2 (pingslotchannelresp_rfu s) d))"

lemmas pingslotchannelresp_views [mac_views] = pingslotchannelresp_def put_pingslotchannelresp_def

interpretation pingslotchannelresp: overlay pingslotchannelresp put_pingslotchannelresp
  by unfold_locales (simp_all add: pingslotchannelresp_views field_simps_mac)

record MAC_BEACONTIMING =
  beacontiming_channel :: "8 word"
  beacontiming_delay :: "16 word"

definition beacontiming :: "40 word \<Rightarrow> MAC_BEACONTIMING" where
  "beacontiming d =
    \<lparr>beacontiming_channel = getf 0 d,
     beacontiming_delay = getf 8 d\<rparr>"

definition put_beacontiming :: "MAC_BEACONTIMING \<Rightarrow> 40 word \<Rightarrow> 40 word" where
  "put_beacontiming s d =
      putf 0 (beacontiming_channel s) 
      (putf 8 (beacontiming_delay s) d)"

lemmas beacontiming_views [mac_views] = beacontiming_def put_beacontiming_def

interpretation beacontiming: overlay beacontiming put_beacontiming
  by unfold_locales (simp_all add: beacontiming_views field_simps_mac)

record MAC_BEACONFREQUENCY_REQ =
  beaconfrequencyreq_frequency :: "24 word"

definition beaconfrequencyreq :: "40 word \<Rightarrow> MAC_BEACONFREQUENCY_REQ" where
  "beaconfrequencyreq d =
    \<lparr>beaconfrequencyreq_frequency = getf 0 d\<rparr>"

definition put_beaconfrequencyreq :: "MAC_BEACONFREQUENCY_REQ \<Rightarrow> 40 word \<Rightarrow> 40 word" where
  "put_beaconfrequencyreq s d =
      putf 0 (beaconfrequencyreq_frequency s) d"

lemmas beaconfrequencyreq_views [mac_views] = beaconfrequencyreq_def put_beaconfrequencyreq_def

interpretation beaconfrequencyreq: overlay beaconfrequencyreq put_beaconfrequencyreq
  by unfold_locales (simp_all add: beaconfrequencyreq_views field_simps_mac)

record MAC_BEACONFREQUENCY_RESP =
  beaconfrequencyresp_frequencyack :: "1 word"
  beaconfrequencyresp_rfu :: "7 word"

definition beaconfrequencyresp :: "40 word \<Rightarrow> MAC_BEACONFREQUENCY_RESP" where
  "beaconfrequencyresp d =
    \<lparr>beaconfrequencyresp_frequencyack = getf 0 d,
     beaconfrequencyresp_rfu = getf 1 d\<rparr>"

definition put_beaconfrequencyresp :: "MAC_BEACONFREQUENCY_RESP \<Rightarrow> 40 word \<Rightarrow> 40 word" where
  "put_beaconfrequencyresp s d =
      putf 0 (beaconfrequencyresp_frequencyack s) 
      (putf 1 (beaconfrequencyresp_rfu s) d)"

lemmas beaconfrequencyresp_views [mac_views] = beaconfrequencyresp_def put_beaconfrequencyresp_def

interpretation beaconfrequencyresp: overlay beaconfrequencyresp put_beaconfrequencyresp
  by unfold_locales (simp_all add: beaconfrequencyresp_views field_simps_mac)

record MAC_DEVICEMODE =
  devicemode_cl :: "8 word"

definition devicemode :: "40 word \<Rightarrow> MAC_DEVICEMODE" where
  "devicemode d =
    \<lparr>devicemode_cl = getf 0 d\<rparr>"

definition put_devicemode :: "MAC_DEVICEMODE \<Rightarrow> 40 word \<Rightarrow> 40 word" where
  "put_devicemode s d =
      putf 0 (devicemode_cl s) d"

lemmas devicemode_views [mac_views] = devicemode_def put_devicemode_def

interpretation devicemode: overlay devicemode put_devicemode
  by unfold_locales (simp_all add: devicemode_views field_simps_mac)

lemmas over_get =
  reset.get_over
  linkcheck.get_over
  linkadrreq.get_over
  linkadrresp.get_over
  dutycycle.get_over
  rxparamsetupreq.get_over
  rxparamsetupresp.get_over
  devstatus.get_over
  newchacnnelreq.get_over
  newchacnnelresp.get_over
  timingsetup.get_over
  txparamsetup.get_over
  dlcchannelreq.get_over
  dlcchannelresp.get_over
  rekeyreq.get_over
  rekeyresp.get_over
  adrparamsetup.get_over
  devicetime.get_over
  forcerejoin.get_over
  rejoinparamsetupreq.get_over
  rejoinparamsetupresp.get_over
  pinginfoslot.get_over
  pingslotchannelreq.get_over
  pingslotchannelresp.get_over
  beacontiming.get_over
  beaconfrequencyreq.get_over
  beaconfrequencyresp.get_over
  devicemode.get_over

end
