(* ===== verification/Gps_Time.thy ===== *)
theory Gps_Time
  imports Tlns_Prelude
begin

text \<open>
  Conversion between Unix and GPS seconds (\<open>lorawan/lorawan-date.cpp\<close>): the table of leap
  seconds, \<open>utc2gps\<close> and \<open>gps2utc\<close>.  \<open>time_t\<close> is an \<open>int\<close> here
  (64 bits in the code), the GPS time is \<open>uint32_t\<close> and wraps.
\<close>

definition gpsUnixEpochDiff :: u32 where
  "gpsUnixEpochDiff = 315964800"

definition gpsLeap :: "u32 list" where
  "gpsLeap = [
    46828800, 78364801, 109900802, 173059203, 252028804, 315187205, 346723206,
    393984007, 425520008, 457056009, 504489610, 551750411, 599184012, 820108813,
    914803214, 1025136015, 1119744016, 1167264017]"

definition shouldAddLeap :: "u32 \<Rightarrow> u32 \<Rightarrow> u32 \<Rightarrow> bool \<Rightarrow> bool" where
  "shouldAddLeap gps curGPSLeap totalLeaps isUnixToGPS =
    (if isUnixToGPS then curGPSLeap - totalLeaps \<le> gps else curGPSLeap \<le> gps)"

definition countLeaps :: "u32 \<Rightarrow> bool \<Rightarrow> u32" where
  "countLeaps gps isUnixToGPS =
    fold (\<lambda>i numLeaps. if shouldAddLeap gps (gpsLeap ! i) (of_nat i) isUnixToGPS
                       then numLeaps + 1 else numLeaps)
      [0..<length gpsLeap] 0"

definition gps2utc :: "u32 \<Rightarrow> int" where
  "gps2utc v = uint (v + gpsUnixEpochDiff - countLeaps v False)"

definition utc2gps :: "int \<Rightarrow> u32" where
  "utc2gps v =
    (let gps = v - uint gpsUnixEpochDiff
     in word_of_int (gps + uint (countLeaps (word_of_int gps) True)))"

section \<open>Counting leap seconds\<close>

lemma fold_count:
  "fold (\<lambda>i n. if P i then n + 1 else n) xs (m::u32) = m + of_nat (length (filter P xs))"
  by (induction xs arbitrary: m) simp_all

lemma countLeaps_filter:
  "countLeaps g b =
    of_nat (length (filter (\<lambda>i. shouldAddLeap g (gpsLeap ! i) (of_nat i) b) [0..<18]))"
proof -
  have "length gpsLeap = 18" by (simp add: gpsLeap_def)
  then show ?thesis by (simp only: countLeaps_def fold_count add_0_left)
qed

lemma length_filter_prefix:
  assumes "i < k" and "\<And>i j. i \<le> j \<Longrightarrow> j < k \<Longrightarrow> P j \<Longrightarrow> P i"
  shows "P i \<longleftrightarrow> i < length (filter P [0..<k])"
  using assms
proof (induction k arbitrary: i)
  case (Suc k)
  show ?case
  proof (cases "P k")
    case True
    have all: "P j" if "j < Suc k" for j
      using Suc.prems(2) [of j k] that True by (simp del: upt_Suc)
    then have "filter P [0..<Suc k] = [0..<Suc k]" by (intro filter_True) (simp del: upt_Suc)
    with all [OF Suc.prems(1)] Suc.prems(1) show ?thesis by (simp del: upt_Suc)
  next
    case False
    have "length (filter P [0..<k]) \<le> k" using length_filter_le [of P "[0..<k]"] by simp
    with False Suc.prems Suc.IH [of i] show ?thesis
      by (cases "i = k") (auto simp: less_Suc_eq)
  qed
qed simp

definition leap_at :: "nat \<Rightarrow> nat" where
  "leap_at i = unat (gpsLeap ! i)"

lemma gpsLeap_sorted: "sorted_wrt (<) (map unat gpsLeap)" "length gpsLeap = 18"
  by (simp_all add: gpsLeap_def)

lemma leap_at_step: "i < 17 \<Longrightarrow> leap_at i < leap_at (Suc i)"
  using sorted_wrt_nth_less [OF gpsLeap_sorted(1), of i "Suc i"] gpsLeap_sorted(2)
  by (simp add: leap_at_def)

lemma leap_at_mono: "i \<le> j \<Longrightarrow> j < 18 \<Longrightarrow> leap_at i + (j - i) \<le> leap_at j"
proof (induction j)
  case (Suc j)
  then show ?case using leap_at_step [of j] by (cases "i = Suc j") auto
qed simp

lemma leap_at_ge: "i < 18 \<Longrightarrow> i \<le> leap_at i"
  using leap_at_mono [of 0 i] by simp

lemma leap_unix: "i < 18 \<Longrightarrow> unat (gpsLeap ! i - of_nat i) = leap_at i - i"
proof -
  assume i: "i < 18"
  then have "i \<le> unat (gpsLeap ! i)" using leap_at_ge [of i] by (simp add: leap_at_def)
  moreover have "unat (of_nat i :: u32) = i" using i by (simp add: unat_of_nat take_bit_nat_eq_self)
  ultimately show ?thesis by (simp add: leap_at_def unat_sub word_le_nat_alt)
qed

lemma countLeaps_True:
  "countLeaps g True = of_nat (length (filter (\<lambda>i. leap_at i \<le> unat g + i) [0..<18]))"
proof -
  have "filter (\<lambda>i. shouldAddLeap g (gpsLeap ! i) (of_nat i) True) [0..<18] =
      filter (\<lambda>i. leap_at i \<le> unat g + i) [0..<18]"
    by (intro filter_cong) (auto simp: shouldAddLeap_def word_le_nat_alt leap_unix)
  then show ?thesis by (simp only: countLeaps_filter)
qed

lemma countLeaps_False:
  "countLeaps g False = of_nat (length (filter (\<lambda>i. leap_at i \<le> unat g) [0..<18]))"
  by (simp add: countLeaps_filter shouldAddLeap_def word_le_nat_alt leap_at_def)

lemma leap_count_agrees:
  fixes x :: nat
  defines "n \<equiv> length (filter (\<lambda>i. leap_at i \<le> x + i) [0..<18])"
  shows "length (filter (\<lambda>i. leap_at i \<le> x + n) [0..<18]) = n"
proof -
  have "leap_at i \<le> x + i \<longleftrightarrow> i < n" if "i < 18" for i
    unfolding n_def
  proof (rule length_filter_prefix [OF that])
    fix i j assume "i \<le> j" "j < 18" "leap_at j \<le> x + j"
    then show "leap_at i \<le> x + i" using leap_at_mono [of i j] by simp
  qed
  then have "leap_at i \<le> x + n \<longleftrightarrow> leap_at i \<le> x + i" if "i < 18" for i
    using that by (cases "i < n") (fastforce+)
  then have "filter (\<lambda>i. leap_at i \<le> x + n) [0..<18] = filter (\<lambda>i. leap_at i \<le> x + i) [0..<18]"
    by (intro filter_cong) auto
  then show ?thesis by (simp only: n_def)
qed

section \<open>Properties\<close>

text \<open>A Unix time from the GPS epoch (6 January 1980) up to 2106 is converted to GPS seconds
  and back without loss, whatever leap seconds lie between.\<close>

theorem gps_roundtrip:
  assumes "315964800 \<le> t" and "t < 2 ^ 32"
  shows "gps2utc (utc2gps t) = t"
proof -
  define x where "x = nat (t - 315964800)"
  define n where "n = length (filter (\<lambda>i. leap_at i \<le> x + i) [0..<18])"
  have t: "t = int x + 315964800" using assms by (simp add: x_def)
  have xb: "x + 315964800 < 2 ^ 32" using assms t by simp
  have n18: "n \<le> 18" unfolding n_def using length_filter_le [of _ "[0..<18]"] by simp
  have ux: "unat (of_nat x :: u32) = x" using xb by (simp add: unat_of_nat take_bit_nat_eq_self)
  have un: "uint (of_nat n :: u32) = int n"
    using n18 by (simp add: unsigned_of_nat take_bit_nat_eq_self)
  have "word_of_int (t - 315964800) = (of_nat x :: u32)" by (simp add: t)
  then have g: "utc2gps t = of_nat (x + n)"
    by (simp add: utc2gps_def gpsUnixEpochDiff_def Let_def countLeaps_True ux n_def [symmetric] un t)
  have "unat (of_nat (x + n) :: u32) = x + n"
    using xb n18 by (simp only: unat_of_nat) (simp add: take_bit_nat_eq_self)
  then have "countLeaps (utc2gps t) False = of_nat n"
    unfolding g countLeaps_False using leap_count_agrees [of x] by (simp add: n_def)
  then have "gps2utc (utc2gps t) = uint (of_nat (x + 315964800) :: u32)"
    by (simp add: gps2utc_def g gpsUnixEpochDiff_def)
  also have "\<dots> = t"
    using xb t by (simp add: unsigned_of_nat take_bit_nat_eq_self del: of_nat_add)
  finally show ?thesis .
qed

lemma gps_roundtrip_witness: "gps2utc (utc2gps 1700000000) = 1700000000"
  by (rule gps_roundtrip) simp_all

end
