(* ===== verification/C_Text.thy ===== *)
theory C_Text
  imports Tlns_Prelude
begin

text \<open>
  Text as the C and C++ library reads and writes it: character classes, numbers in a base with
  the saturation of \<open>strtol\<close> and \<open>strtoull\<close>, reading a number from a stream, and the
  formatting of streams.  A text is a list of characters; a C string ends at its first NUL,
  which is no digit and no space, so the readers stop there.
\<close>

section \<open>Characters\<close>

definition isspace :: "char \<Rightarrow> bool" where
  "isspace c \<longleftrightarrow> (let n = of_char c :: nat in n = 32 \<or> 9 \<le> n \<and> n \<le> 13)"

definition isdigit :: "char \<Rightarrow> bool" where
  "isdigit c \<longleftrightarrow> (let n = of_char c :: nat in 48 \<le> n \<and> n \<le> 57)"

definition toupper :: "char \<Rightarrow> char" where
  "toupper c = (let n = of_char c :: nat in if 97 \<le> n \<and> n \<le> 122 then char_of (n - 32) else c)"

text \<open>The value of a digit; what is no digit or letter has none below any base.\<close>

definition digit_value :: "char \<Rightarrow> nat" where
  "digit_value c =
    (let n = of_char c :: nat
     in if 48 \<le> n \<and> n \<le> 57 then n - 48
        else if 97 \<le> n \<and> n \<le> 122 then n - 87
        else if 65 \<le> n \<and> n \<le> 90 then n - 55
        else 99)"

definition digit_char :: "nat \<Rightarrow> char" where
  "digit_char d = (if d < 10 then char_of (48 + d) else char_of (87 + d))"

text \<open>Text in memory: a character is its byte.\<close>

definition text_bytes :: "string \<Rightarrow> bytes" where
  "text_bytes = map of_char"

definition bytes_text :: "bytes \<Rightarrow> string" where
  "bytes_text = map (\<lambda>b. char_of (unat b))"

definition c_string :: "string \<Rightarrow> string" where
  "c_string s = takeWhile (\<lambda>c. c \<noteq> CHR 0x00) s"

text \<open>The pieces between the occurrences of a character, as a loop of \<open>find\<close> and \<open>substr\<close>
  cuts them.\<close>

fun split_at_char :: "char \<Rightarrow> string \<Rightarrow> string list" where
  "split_at_char d [] = [[]]"
| "split_at_char d (c # s) =
    (if c = d then [] # split_at_char d s
     else case split_at_char d s of p # ps \<Rightarrow> (c # p) # ps | [] \<Rightarrow> [[c]])"

section \<open>Writing numbers\<close>

fun show_base :: "nat \<Rightarrow> nat \<Rightarrow> string" where
  "show_base b n =
    (if b \<le> 1 \<or> n < b then [digit_char n] else show_base b (n div b) @ [digit_char (n mod b)])"

declare show_base.simps [simp del]

abbreviation show_nat :: "nat \<Rightarrow> string" where "show_nat \<equiv> show_base 10"
abbreviation show_hex :: "nat \<Rightarrow> string" where "show_hex \<equiv> show_base 16"

definition show_int :: "int \<Rightarrow> string" where
  "show_int i = (if i < 0 then CHR 0x2D # show_nat (nat (- i)) else show_nat (nat i))"

definition show_word :: "'a::len word \<Rightarrow> string" where
  "show_word w = show_nat (unat w)"

definition show_bool :: "bool \<Rightarrow> string" where
  "show_bool b = (if b then ''true'' else ''false'')"

definition quoted :: "string \<Rightarrow> string" where
  "quoted s = CHR 0x22 # s @ [CHR 0x22]"

text \<open>\<open>std::setw(k) << std::setfill(c)\<close>.\<close>

definition pad :: "nat \<Rightarrow> char \<Rightarrow> string \<Rightarrow> string" where
  "pad k c s = replicate (k - length s) c @ s"

section \<open>Reading numbers\<close>

definition number_value :: "nat \<Rightarrow> string \<Rightarrow> nat" where
  "number_value b ds = foldl (\<lambda>v c. v * b + digit_value c) 0 ds"

fun strip_sign :: "string \<Rightarrow> bool \<times> string" where
  "strip_sign (c # s) = (if c = CHR 0x2D then (True, s) else if c = CHR 0x2B then (False, s) else (False, c # s))"
| "strip_sign [] = (False, [])"

text \<open>In base 16 a prefix \<open>0x\<close> is skipped when a digit follows it.\<close>

fun strip_0x :: "string \<Rightarrow> string" where
  "strip_0x (z # x # d # s) =
    (if z = CHR ''0'' \<and> (x = CHR ''x'' \<or> x = CHR ''X'') \<and> digit_value d < 16 then d # s
     else z # x # d # s)"
| "strip_0x s = s"

definition scan_number :: "nat \<Rightarrow> string \<Rightarrow> bool \<times> nat" where
  "scan_number b s =
    (let (neg, t) = strip_sign (dropWhile isspace s);
         t = (if b = 16 then strip_0x t else t)
     in (neg, number_value b (takeWhile (\<lambda>c. digit_value c < b) t)))"

text \<open>On the target \<open>long\<close> has 64 bits, so \<open>strtoul\<close> and \<open>strtoull\<close> are the same.\<close>

definition strtoull :: "nat \<Rightarrow> string \<Rightarrow> u64" where
  "strtoull b s =
    (let (neg, v) = scan_number b s
     in if v \<ge> 2 ^ 64 then -1 else if neg then - of_nat v else of_nat v)"

definition strtol :: "nat \<Rightarrow> string \<Rightarrow> int" where
  "strtol b s =
    (let (neg, v) = scan_number b s
     in if neg then max (- (2 ^ 63)) (- int v) else min (2 ^ 63 - 1) (int v))"

definition atoi :: "string \<Rightarrow> int" where
  "atoi s = signed_take_bit 31 (strtol 10 s)"

section \<open>Input streams\<close>

record istream =
  is_rest :: string
  is_eof :: bool
  is_fail :: bool

definition stringstream :: "string \<Rightarrow> istream" where
  "stringstream s = \<lparr>is_rest = s, is_eof = False, is_fail = False\<rparr>"

text \<open>The sentry of a formatted read: it skips spaces, and fails at the end.\<close>

definition sentry :: "istream \<Rightarrow> bool \<times> istream" where
  "sentry i =
    (if is_eof i \<or> is_fail i then (False, i\<lparr>is_fail := True\<rparr>)
     else
       let t = dropWhile isspace (is_rest i)
       in if t = [] then (False, \<lparr>is_rest = [], is_eof = True, is_fail = True\<rparr>)
          else (True, i\<lparr>is_rest := t\<rparr>))"

text \<open>\<open>>>\<close> into an \<open>int\<close>: without digits the value becomes 0, beyond the range the nearest
  bound, and the read fails; where the sentry fails the value stays.\<close>

definition stream_int :: "istream \<Rightarrow> int \<Rightarrow> int \<times> istream" where
  "stream_int i v =
    (case sentry i of
       (False, j) \<Rightarrow> (v, j)
     | (True, j) \<Rightarrow>
         let (neg, t) = strip_sign (is_rest j);
             ds = takeWhile isdigit t; rest = dropWhile isdigit t;
             n = int (number_value 10 ds); n = (if neg then - n else n);
             n' = max (- (2 ^ 31)) (min (2 ^ 31 - 1) n)
         in (if ds = [] then 0 else n',
             \<lparr>is_rest = rest, is_eof = (rest = []), is_fail = (ds = [] \<or> n \<noteq> n')\<rparr>))"

definition stream_char :: "istream \<Rightarrow> char \<Rightarrow> char \<times> istream" where
  "stream_char i c =
    (case sentry i of
       (False, j) \<Rightarrow> (c, j)
     | (True, j) \<Rightarrow> (hd (is_rest j), j\<lparr>is_rest := tl (is_rest j)\<rparr>))"

section \<open>Bytes in hexadecimal\<close>

definition hex :: "u8 \<Rightarrow> string" where
  "hex b = pad 2 (CHR ''0'') (show_hex (unat b))"

definition hexString :: "bytes \<Rightarrow> string" where
  "hexString bs = concat (map hex bs)"

section \<open>Lemmas\<close>

named_theorems text_simps \<open>digits read back\<close>

lemma split_at_char_skip: "d \<notin> set p \<Longrightarrow> split_at_char d (p @ d # s) = p # split_at_char d s"
  by (induction p) auto

lemma split_at_char_none: "d \<notin> set p \<Longrightarrow> split_at_char d p = [p]"
  by (induction p) auto

lemma of_char_char_of_small: "n < 256 \<Longrightarrow> of_char (char_of n :: char) = (n :: nat)"
  by simp

lemma digit_value_char [text_simps]: "d < 16 \<Longrightarrow> digit_value (digit_char d) = d"
  by (simp add: digit_value_def digit_char_def Let_def)

lemma digit_value_mod:
  assumes "2 \<le> b" "b \<le> 16"
  shows "digit_value (digit_char (n mod b)) = n mod b"
proof -
  have "n mod b < b" using assms(1) by simp
  then have "n mod b < 16" using assms(2) by linarith
  then show ?thesis by (rule digit_value_char)
qed

lemma number_value_Nil [simp]: "number_value b [] = 0"
  by (simp add: number_value_def)

lemma number_value_snoc [simp]: "number_value b (ds @ [c]) = number_value b ds * b + digit_value c"
  by (simp add: number_value_def)

lemma number_value_append:
  "number_value b (ds @ es) = number_value b ds * b ^ length es + number_value b es"
  by (induction es rule: rev_induct) (simp_all add: append_assoc [symmetric] algebra_simps del: append_assoc)

lemma number_value_zeros [simp]: "number_value b (replicate k (CHR ''0'') @ ds) = number_value b ds"
proof -
  have "number_value b (replicate k (CHR ''0'')) = 0"
    by (induction k) (simp_all add: replicate_append_same [symmetric] digit_value_def)
  then show ?thesis by (simp add: number_value_append)
qed

lemma show_base_digits:
  assumes "2 \<le> b" "b \<le> 16"
  shows "list_all (\<lambda>c. digit_value c < b) (show_base b n)"
  using assms
proof (induction b n rule: show_base.induct)
  case (1 b n)
  then show ?case
    by (subst show_base.simps) (auto simp: digit_value_char digit_value_mod)
qed

lemma number_value_show_base:
  assumes "2 \<le> b" "b \<le> 16"
  shows "number_value b (show_base b n) = n"
  using assms
proof (induction b n rule: show_base.induct)
  case (1 b n)
  show ?case
  proof (cases "n < b")
    case True
    with 1 have "show_base b n = [] @ [digit_char n]" by (subst show_base.simps) simp
    with True 1 show ?thesis by (simp add: digit_value_char del: append_Nil)
  next
    case False
    with 1 show ?thesis
      by (subst show_base.simps) (simp add: digit_value_mod)
  qed
qed

lemma show_base_nonempty [simp]: "show_base b n \<noteq> []"
  by (subst show_base.simps) simp

lemma length_show_base: "2 \<le> b \<Longrightarrow> n < b ^ Suc k \<Longrightarrow> length (show_base b n) \<le> Suc k"
proof (induction k arbitrary: n)
  case 0
  then show ?case by (subst show_base.simps) simp
next
  case (Suc k)
  show ?case
  proof (cases "n < b")
    case True
    then show ?thesis by (subst show_base.simps) simp
  next
    case False
    have "n div b < b ^ Suc k"
      using Suc.prems by (simp add: div_less_iff_less_mult mult.commute)
    with Suc False show ?thesis by (subst show_base.simps) simp
  qed
qed

lemma strip_0x_digits: "list_all (\<lambda>c. digit_value c < 16) s \<Longrightarrow> strip_0x s = s"
  by (induction s rule: strip_0x.induct) (auto simp: digit_value_def)

lemma digit_not_space: "digit_value c < 16 \<Longrightarrow> \<not> isspace c"
  by (auto simp: digit_value_def isspace_def Let_def split: if_splits)

lemma strip_sign_digit: "digit_value c < 16 \<Longrightarrow> strip_sign (c # s) = (False, c # s)"
  by (auto simp: digit_value_def)

text \<open>Digits read back as their value, whatever follows them that is no digit.\<close>

lemma scan_number_digits:
  assumes "list_all (\<lambda>c. digit_value c < b) ds" "b \<le> 16" "ds \<noteq> []"
  shows "scan_number b ds = (False, number_value b ds)"
proof -
  obtain c cs where ds: "ds = c # cs" using assms(3) by (cases ds) auto
  then have c: "digit_value c < 16" using assms(1,2) by simp
  have d: "dropWhile isspace ds = ds" using digit_not_space [OF c] by (simp add: ds)
  have g: "strip_sign ds = (False, ds)" using strip_sign_digit [OF c] by (simp add: ds)
  have x: "b = 16 \<Longrightarrow> strip_0x ds = ds" using strip_0x_digits assms(1) by simp
  have t: "takeWhile (\<lambda>c. digit_value c < b) ds = ds"
    using assms(1) by (simp add: takeWhile_eq_all_conv list_all_iff)
  have "takeWhile (\<lambda>c. digit_value c < b) (if b = 16 then strip_0x ds else ds) = ds"
    using t x by auto
  then show ?thesis by (simp add: scan_number_def d g)
qed

lemma length_hex [simp]: "length (hex b) = 2"
proof -
  have "unat b < 16 ^ Suc 1" using unsigned_less [of b, where 'a = nat] by simp
  then have "length (show_hex (unat b)) \<le> Suc 1" by (rule length_show_base [rotated]) simp
  then show ?thesis by (simp add: hex_def pad_def)
qed

lemma number_value_hex [text_simps]: "number_value 16 (hex b) = unat b"
  by (simp add: hex_def pad_def number_value_show_base)

lemma hex_digits: "list_all (\<lambda>c. digit_value c < 16) (hex b)"
  using show_base_digits [of 16 "unat b"]
  by (simp add: hex_def pad_def list_all_iff) (auto simp: digit_value_def)

lemma hexString_simps [simp]:
  "hexString [] = []" "hexString (b # bs) = hex b @ hexString bs"
  "hexString (bs @ cs) = hexString bs @ hexString cs"
  by (simp_all add: hexString_def)

lemma hexString_digits: "list_all (\<lambda>c. digit_value c < 16) (hexString bs)"
  using hex_digits by (induction bs) auto

lemma length_hexString [simp]: "length (hexString bs) = 2 * length bs"
  by (induction bs) auto

lemma hexString_empty [simp]: "hexString bs = [] \<longleftrightarrow> bs = []"
  using length_hexString [of bs] by (metis length_0_conv mult_is_0 zero_neq_numeral)

lemma strtoull_digits:
  assumes "list_all (\<lambda>c. digit_value c < b) ds" "b \<le> 16" "ds \<noteq> []" "number_value b ds < 2 ^ 64"
  shows "strtoull b ds = of_nat (number_value b ds)"
  using assms by (simp add: strtoull_def scan_number_digits)

lemma strtol_digits:
  assumes "list_all (\<lambda>c. digit_value c < b) ds" "b \<le> 16" "ds \<noteq> []" "number_value b ds < 2 ^ 63"
  shows "strtol b ds = int (number_value b ds)"
  using assms by (simp add: strtol_def scan_number_digits)

lemma strtoull_show: "2 \<le> b \<Longrightarrow> b \<le> 16 \<Longrightarrow> n < 2 ^ 64 \<Longrightarrow> strtoull b (show_base b n) = of_nat n"
  using strtoull_digits [OF show_base_digits] by (simp add: number_value_show_base)

lemma strtol_show: "2 \<le> b \<Longrightarrow> b \<le> 16 \<Longrightarrow> n < 2 ^ 63 \<Longrightarrow> strtol b (show_base b n) = int n"
  using strtol_digits [OF show_base_digits] by (simp add: number_value_show_base)

lemma bytes_text_inverse [simp]: "text_bytes (bytes_text bs) = bs"
proof -
  have "of_char (char_of (unat b) :: char) = b" for b :: u8
  proof -
    have "unat b < 256" using unsigned_less [of b, where 'a = nat] by simp
    then have "(of_char (char_of (unat b) :: char) :: nat) = unat b" by simp
    then have "of_nat (of_char (char_of (unat b) :: char)) = b" by simp
    then show ?thesis by (simp only: of_nat_of_char)
  qed
  then show ?thesis by (simp add: text_bytes_def bytes_text_def o_def)
qed

lemma text_bytes_inverse: "bytes_text (text_bytes s) = s"
proof -
  have "char_of (unat (of_char c :: u8)) = c" for c
  proof -
    have "(of_char c :: u8) = of_nat (of_char c)" by (rule of_nat_of_char [symmetric])
    then have "unat (of_char c :: u8) = of_char c mod 256" by (simp only: unat_of_nat) simp
    then show ?thesis by (simp add: char_of_mod_256)
  qed
  then show ?thesis by (simp add: text_bytes_def bytes_text_def o_def)
qed

lemma length_bytes_text [simp]: "length (bytes_text bs) = length bs"
  by (simp add: bytes_text_def)

lemma length_text_bytes [simp]: "length (text_bytes s) = length s"
  by (simp add: text_bytes_def)

end
