(* ===== verification/Mac_Data.thy ===== *)
theory Mac_Data
  imports Mac_Fields Gps_Time C_Text
begin

text \<open>
  Building and showing MAC commands (\<open>lorawan/lorawan-mac.cpp\<close>): \<open>MacData::set\<close>
  from an array of parameters, the constructors of the single commands, and the JSON text.
  \<open>int\<close> parameters are 32 bit words; the assignment to a bit field truncates.  The clock that
  \<open>gettimeofday\<close> reads is a parameter.
\<close>

section \<open>Setting a command from parameters\<close>

definition SET_FREQUENCY :: "u32 \<Rightarrow> 24 word" where
  "SET_FREQUENCY v =
    set_byte (set_byte (set_byte 0 0 (ucast (v AND 0xff))) 1 (ucast (drop_bit 8 v AND 0xff)))
      2 (ucast (drop_bit 16 v AND 0xff))"

lemma SET_FREQUENCY_ucast [simp]: "SET_FREQUENCY v = ucast v"
  by (rule bit_word_eqI)
    (auto simp: SET_FREQUENCY_def bit_set_byte ff_eq_mask bit_simps)

definition mac_set_client :: "int \<Rightarrow> int \<Rightarrow> MAC_CID \<Rightarrow> u32 list \<Rightarrow> 40 word \<Rightarrow> 40 word" where
  "mac_set_client tv_sec tv_usec cid values d =
    (case cid of
       Reset \<Rightarrow> (over reset put_reset (\<lambda>s. s\<lparr>
              reset_rfu := 0, reset_minor := 1\<rparr>) d)
     | LinkCheck \<Rightarrow> (if length values < 2 then d else
           over linkcheck put_linkcheck (\<lambda>s. s\<lparr>
              linkcheck_margin := ucast (values ! 0),
              linkcheck_gwcnt := ucast (values ! 1)\<rparr>) d)
     | LinkADR \<Rightarrow> (if length values < 5 then d else
           over linkadrreq put_linkadrreq (\<lambda>s. s\<lparr>
              linkadrreq_txpower := ucast (values ! 0),
              linkadrreq_datarate := ucast (values ! 1),
              linkadrreq_chmask := ucast (values ! 2),
              linkadrreq_nbtans := ucast (values ! 3),
              linkadrreq_chmaskcntl := ucast (values ! 4), linkadrreq_rfu := 0\<rparr>) d)
     | DutyCycle \<Rightarrow> (if length values < 1 then d else
           over dutycycle put_dutycycle (\<lambda>s. s\<lparr>
              dutycycle_maxdccycle := ucast (values ! 0), dutycycle_rfu := 0\<rparr>) d)
     | RXParamSetup \<Rightarrow> (if length values < 3 then d else
           over rxparamsetupreq put_rxparamsetupreq (\<lambda>s. s\<lparr>
              rxparamsetupreq_frequency := SET_FREQUENCY (values ! 0),
              rxparamsetupreq_rx1droffset := ucast (values ! 1),
              rxparamsetupreq_rx2datatrate := ucast (values ! 2),
              rxparamsetupreq_rfu := 0\<rparr>) d)
     | DevStatus \<Rightarrow> d
     | NewChannel \<Rightarrow> (if length values < 4 then d else
           over newchacnnelreq put_newchacnnelreq (\<lambda>s. s\<lparr>
              newchacnnelreq_chindex := ucast (values ! 0),
              newchacnnelreq_frequency := SET_FREQUENCY (values ! 1),
              newchacnnelreq_mindr := ucast (values ! 2),
              newchacnnelreq_maxdr := ucast (values ! 3)\<rparr>) d)
     | RXTimingSetup \<Rightarrow> (if length values < 1 then d else
           over timingsetup put_timingsetup (\<lambda>s. s\<lparr>
              timingsetup_delay := ucast (values ! 0), timingsetup_rfu := 0\<rparr>) d)
     | TXParamSetup \<Rightarrow> (if length values < 3 then d else
           over txparamsetup put_txparamsetup (\<lambda>s. s\<lparr>
              txparamsetup_downlinkdwelltime := ucast (values ! 0),
              txparamsetup_uplinkdwelltime := ucast (values ! 1),
              txparamsetup_maxeirp := ucast (values ! 2), txparamsetup_rfu := 0\<rparr>) d)
     | DLChannel \<Rightarrow> (if length values < 2 then d else
           over dlcchannelreq put_dlcchannelreq (\<lambda>s. s\<lparr>
              dlcchannelreq_chindex := ucast (values ! 0),
              dlcchannelreq_frequency := SET_FREQUENCY (values ! 1)\<rparr>) d)
     | Rekey \<Rightarrow> (over rekeyreq put_rekeyreq (\<lambda>s. s\<lparr>
              rekeyreq_minor := 1, rekeyreq_rfu := 0\<rparr>) d)
     | ADRParamSetup \<Rightarrow> (if length values < 2 then d else
           over adrparamsetup put_adrparamsetup (\<lambda>s. s\<lparr>
              adrparamsetup_limitexp := ucast (values ! 0),
              adrparamsetup_delayexp := ucast (values ! 1)\<rparr>) d)
     | DeviceTime \<Rightarrow> (over devicetime put_devicetime (\<lambda>s. s\<lparr>
              devicetime_gpstime := utc2gps tv_sec,
              devicetime_frac := word_of_int tv_usec\<rparr>) d)
     | ForceRejoin \<Rightarrow> (if length values < 3 then d else
           over forcerejoin put_forcerejoin (\<lambda>s. s\<lparr>
              forcerejoin_period := ucast (values ! 0),
              forcerejoin_maxretries := ucast (values ! 1),
              forcerejoin_rejointype := ucast (values ! 2), forcerejoin_rfu := 0,
              forcerejoin_rfu2 := 0\<rparr>) d)
     | RejoinParamSetup \<Rightarrow> (if length values < 2 then d else
           over rejoinparamsetupreq put_rejoinparamsetupreq (\<lambda>s. s\<lparr>
              rejoinparamsetupreq_maxtime := ucast (values ! 0),
              rejoinparamsetupreq_maxccount := ucast (values ! 1)\<rparr>) d)
     | PingSlotInfo \<Rightarrow> d
     | PingSlotChannel \<Rightarrow> (if length values < 2 then d else
           over pingslotchannelreq put_pingslotchannelreq (\<lambda>s. s\<lparr>
              pingslotchannelreq_frequency := SET_FREQUENCY (values ! 0),
              pingslotchannelreq_dr := ucast (values ! 1), pingslotchannelreq_rfu := 0\<rparr>) d)
     | BeaconTiming \<Rightarrow> (if length values < 2 then d else
           over beacontiming put_beacontiming (\<lambda>s. s\<lparr>
              beacontiming_delay := ucast (values ! 0),
              beacontiming_channel := ucast (values ! 1)\<rparr>) d)
     | BeaconFreq \<Rightarrow> (if length values < 1 then d else
           over beaconfrequencyreq put_beaconfrequencyreq (\<lambda>s. s\<lparr>
              beaconfrequencyreq_frequency := SET_FREQUENCY (values ! 0)\<rparr>) d)
     | DeviceMode \<Rightarrow> (if length values < 1 then d else
           over devicemode put_devicemode (\<lambda>s. s\<lparr>
              devicemode_cl := ucast (values ! 0)\<rparr>) d))"

definition mac_set_server :: "MAC_CID \<Rightarrow> u32 list \<Rightarrow> 40 word \<Rightarrow> 40 word" where
  "mac_set_server cid values d =
    (case cid of
       Reset \<Rightarrow> (over reset put_reset (\<lambda>s. s\<lparr>
              reset_rfu := 0, reset_minor := 1\<rparr>) d)
     | LinkCheck \<Rightarrow> d
     | LinkADR \<Rightarrow> (if length values < 3 then d else
           over linkadrresp put_linkadrresp (\<lambda>s. s\<lparr>
              linkadrresp_powerack := ucast (values ! 0),
              linkadrresp_datarateack := ucast (values ! 1),
              linkadrresp_channelmaskack := ucast (values ! 2), linkadrresp_rfu := 0\<rparr>) d)
     | DutyCycle \<Rightarrow> d
     | RXParamSetup \<Rightarrow> (if length values < 3 then d else
           over rxparamsetupresp put_rxparamsetupresp (\<lambda>s. s\<lparr>
              rxparamsetupresp_rx1droffsetack := ucast (values ! 0),
              rxparamsetupresp_rx2datatrateack := ucast (values ! 1),
              rxparamsetupresp_channelack := ucast (values ! 2),
              rxparamsetupresp_rfu := 0\<rparr>) d)
     | DevStatus \<Rightarrow> (if length values < 2 then d else
           over devstatus put_devstatus (\<lambda>s. s\<lparr>
              devstatus_battery := ucast (values ! 0),
              devstatus_margin := ucast (values ! 1)\<rparr>) d)
     | NewChannel \<Rightarrow> (if length values < 2 then d else
           over newchacnnelresp put_newchacnnelresp (\<lambda>s. s\<lparr>
              newchacnnelresp_channelfrequencyack := ucast (values ! 0),
              newchacnnelresp_datarateack := ucast (values ! 1),
              newchacnnelresp_rfu := 0\<rparr>) d)
     | RXTimingSetup \<Rightarrow> d
     | TXParamSetup \<Rightarrow> d
     | DLChannel \<Rightarrow> (if length values < 2 then d else
           over dlcchannelresp put_dlcchannelresp (\<lambda>s. s\<lparr>
              dlcchannelresp_channelfrequencyack := ucast (values ! 0),
              dlcchannelresp_uplinkfrequencyexistsack := ucast (values ! 1),
              dlcchannelresp_rfu := 0\<rparr>) d)
     | Rekey \<Rightarrow> (over rekeyreq put_rekeyreq (\<lambda>s. s\<lparr>
              rekeyreq_minor := 1, rekeyreq_rfu := 0\<rparr>) d)
     | ADRParamSetup \<Rightarrow> d
     | DeviceTime \<Rightarrow> d
     | ForceRejoin \<Rightarrow> d
     | RejoinParamSetup \<Rightarrow> (if length values < 1 then d else
           over rejoinparamsetupresp put_rejoinparamsetupresp (\<lambda>s. s\<lparr>
              rejoinparamsetupresp_timeack := ucast (values ! 0),
              rejoinparamsetupresp_rfu := 0\<rparr>) d)
     | PingSlotInfo \<Rightarrow> (if length values < 1 then d else
           over pinginfoslot put_pinginfoslot (\<lambda>s. s\<lparr>
              pinginfoslot_periodicity := ucast (values ! 0), pinginfoslot_rfu := 0\<rparr>) d)
     | PingSlotChannel \<Rightarrow> (if length values < 2 then d else
           over pingslotchannelresp put_pingslotchannelresp (\<lambda>s. s\<lparr>
              pingslotchannelresp_drack := ucast (values ! 0),
              pingslotchannelresp_frequencyack := ucast (values ! 1),
              pingslotchannelresp_rfu := 0\<rparr>) d)
     | BeaconTiming \<Rightarrow> d
     | BeaconFreq \<Rightarrow> (if length values < 1 then d else
           over beaconfrequencyresp put_beaconfrequencyresp (\<lambda>s. s\<lparr>
              beaconfrequencyresp_frequencyack := ucast (values ! 0),
              beaconfrequencyresp_rfu := 0\<rparr>) d)
     | DeviceMode \<Rightarrow> (if length values < 1 then d else
           over devicemode put_devicemode (\<lambda>s. s\<lparr>
              devicemode_cl := ucast (values ! 0)\<rparr>) d))"

definition MacData_set ::
  "int \<Rightarrow> int \<Rightarrow> MAC_CID \<Rightarrow> u32 list \<Rightarrow> bool \<Rightarrow> MacData \<Rightarrow> bool \<times> MacData" where
  "MacData_set tv_sec tv_usec cid values clientSide m =
    (let d = mac_data (md_command m);
         d' = (if clientSide then mac_set_client tv_sec tv_usec cid values d
               else mac_set_server cid values d)
     in (True, m\<lparr>md_command := \<lparr>command = cid_code cid, mac_data = d'\<rparr>,
                 isClientSide := clientSide\<rparr>))"

section \<open>JSON\<close>

text \<open>\<open>MDPREFIX\<close>, \<open>MD2JSONSS\<close>, the commas and \<open>MDSUFFIX\<close>.\<close>

definition MD2JSONSS :: "string \<times> int \<Rightarrow> string" where
  "MD2JSONSS f = quoted (fst f) @ '': '' @ show_int (snd f)"

fun comma_list :: "string list \<Rightarrow> string" where
  "comma_list [] = []"
| "comma_list [s] = s"
| "comma_list (s # ss) = s @ '', '' @ comma_list ss"

definition md_object :: "string \<Rightarrow> (string \<times> int) list \<Rightarrow> string" where
  "md_object name fs = quoted name @ '': {'' @ comma_list (map MD2JSONSS fs) @ ''}''"

definition mac_json_client :: "MAC_CID \<Rightarrow> 40 word \<Rightarrow> string" where
  "mac_json_client cid d =
    (case cid of
       Reset \<Rightarrow> md_object ''reset'' [(''rfu'', uint (reset_rfu (reset d))),
           (''minor'', uint (reset_minor (reset d)))]
     | LinkCheck \<Rightarrow> md_object ''linkcheck'' [(''margin'', uint (linkcheck_margin (linkcheck d))),
           (''gwcnt'', uint (linkcheck_gwcnt (linkcheck d)))]
     | LinkADR \<Rightarrow> md_object ''linkadrreq'' [(''txpower'', uint (linkadrreq_txpower (linkadrreq d))),
           (''datarate'', uint (linkadrreq_datarate (linkadrreq d))),
           (''chmask'', uint (linkadrreq_chmask (linkadrreq d))),
           (''nbtans'', uint (linkadrreq_nbtans (linkadrreq d))),
           (''chmaskcntl'', uint (linkadrreq_chmaskcntl (linkadrreq d))),
           (''rfu'', uint (linkadrreq_rfu (linkadrreq d)))]
     | DutyCycle \<Rightarrow> md_object ''dutycycle'' [(''maxdccycle'', uint (dutycycle_maxdccycle (dutycycle d))),
           (''rfu'', uint (dutycycle_rfu (dutycycle d)))]
     | RXParamSetup \<Rightarrow> md_object ''rxparamsetupreq'' [(''frequency'', uint (rxparamsetupreq_frequency (rxparamsetupreq d))),
           (''rx1droffset'', uint (rxparamsetupreq_rx1droffset (rxparamsetupreq d))),
           (''rx2datatrate'', uint (rxparamsetupreq_rx2datatrate (rxparamsetupreq d))),
           (''rfu'', uint (rxparamsetupreq_rfu (rxparamsetupreq d)))]
     | DevStatus \<Rightarrow> md_object ''devstatus'' []
     | NewChannel \<Rightarrow> md_object ''newchacnnelreq'' [(''chindex'', uint (newchacnnelreq_chindex (newchacnnelreq d))),
           (''frequency'', uint (newchacnnelreq_frequency (newchacnnelreq d))),
           (''mindr'', uint (newchacnnelreq_mindr (newchacnnelreq d))),
           (''maxdr'', uint (newchacnnelreq_maxdr (newchacnnelreq d)))]
     | RXTimingSetup \<Rightarrow> md_object ''timingsetup'' [(''delay'', uint (timingsetup_delay (timingsetup d))),
           (''rfu'', uint (timingsetup_rfu (timingsetup d)))]
     | TXParamSetup \<Rightarrow> md_object ''txparamsetup'' [(''downlinkdwelltime'', uint (txparamsetup_downlinkdwelltime (txparamsetup d))),
           (''uplinkdwelltime'', uint (txparamsetup_uplinkdwelltime (txparamsetup d))),
           (''maxeirp'', uint (txparamsetup_maxeirp (txparamsetup d))),
           (''rfu'', uint (txparamsetup_rfu (txparamsetup d)))]
     | DLChannel \<Rightarrow> md_object ''dlcchannelreq'' [(''chindex'', uint (dlcchannelreq_chindex (dlcchannelreq d))),
           (''frequency'', uint (dlcchannelreq_frequency (dlcchannelreq d)))]
     | Rekey \<Rightarrow> md_object ''rekeyreq'' [(''minor'', uint (rekeyreq_minor (rekeyreq d))),
           (''rfu'', uint (rekeyreq_rfu (rekeyreq d)))]
     | ADRParamSetup \<Rightarrow> md_object ''adrparamsetup'' [(''limitexp'', uint (adrparamsetup_limitexp (adrparamsetup d))),
           (''delayexp'', uint (adrparamsetup_delayexp (adrparamsetup d)))]
     | DeviceTime \<Rightarrow> md_object ''devicetime'' [(''gpstime'', sint (devicetime_gpstime (devicetime d))),
           (''frac'', uint (devicetime_frac (devicetime d)))]
     | ForceRejoin \<Rightarrow> md_object ''forcerejoin'' [(''period'', uint (forcerejoin_period (forcerejoin d))),
           (''maxretries'', uint (forcerejoin_maxretries (forcerejoin d))),
           (''rejointype'', uint (forcerejoin_rejointype (forcerejoin d))),
           (''rfu'', uint (forcerejoin_rfu (forcerejoin d))),
           (''rfu2'', uint (forcerejoin_rfu2 (forcerejoin d)))]
     | RejoinParamSetup \<Rightarrow> md_object ''rejoinparamsetupreq'' [(''maxtime'', uint (rejoinparamsetupreq_maxtime (rejoinparamsetupreq d))),
           (''maxccount'', uint (rejoinparamsetupreq_maxccount (rejoinparamsetupreq d)))]
     | PingSlotInfo \<Rightarrow> md_object ''pinginfoslot'' []
     | PingSlotChannel \<Rightarrow> md_object ''pingslotchannelreq'' [(''frequency'', uint (pingslotchannelreq_frequency (pingslotchannelreq d))),
           (''dr'', uint (pingslotchannelreq_dr (pingslotchannelreq d))),
           (''rfu'', uint (pingslotchannelreq_rfu (pingslotchannelreq d)))]
     | BeaconTiming \<Rightarrow> md_object ''beacontiming'' [(''delay'', uint (beacontiming_delay (beacontiming d))),
           (''channel'', uint (beacontiming_channel (beacontiming d)))]
     | BeaconFreq \<Rightarrow> md_object ''beaconfrequencyreq'' [(''frequency'', uint (beaconfrequencyreq_frequency (beaconfrequencyreq d)))]
     | DeviceMode \<Rightarrow> md_object ''devicemode'' [(''cl'', uint (devicemode_cl (devicemode d)))])"

definition mac_json_server :: "MAC_CID \<Rightarrow> 40 word \<Rightarrow> string" where
  "mac_json_server cid d =
    (case cid of
       Reset \<Rightarrow> md_object ''reset'' [(''minor'', uint (reset_minor (reset d))),
           (''rfu'', uint (reset_rfu (reset d)))]
     | LinkCheck \<Rightarrow> md_object ''linkcheck'' []
     | LinkADR \<Rightarrow> md_object ''linkadrresp'' [(''powerack'', uint (linkadrresp_powerack (linkadrresp d))),
           (''datarateack'', uint (linkadrresp_datarateack (linkadrresp d))),
           (''channelmaskack'', uint (linkadrresp_channelmaskack (linkadrresp d))),
           (''rfu'', uint (linkadrresp_rfu (linkadrresp d)))]
     | DutyCycle \<Rightarrow> md_object ''dutycycle'' []
     | RXParamSetup \<Rightarrow> md_object ''rxparamsetupresp'' [(''rx1droffsetack'', uint (rxparamsetupresp_rx1droffsetack (rxparamsetupresp d))),
           (''rx2datatrateack'', uint (rxparamsetupresp_rx2datatrateack (rxparamsetupresp d))),
           (''channelack'', uint (rxparamsetupresp_channelack (rxparamsetupresp d))),
           (''rfu'', uint (rxparamsetupresp_rfu (rxparamsetupresp d)))]
     | DevStatus \<Rightarrow> md_object ''devstatus'' [(''battery'', uint (devstatus_battery (devstatus d))),
           (''margin'', sint (devstatus_margin (devstatus d)))]
     | NewChannel \<Rightarrow> md_object ''newchacnnelresp'' [(''channelfrequencyack'', uint (newchacnnelresp_channelfrequencyack (newchacnnelresp d))),
           (''channelfrequencyack'', uint (newchacnnelresp_channelfrequencyack (newchacnnelresp d))),
           (''rfu'', uint (newchacnnelresp_rfu (newchacnnelresp d)))]
     | RXTimingSetup \<Rightarrow> md_object ''rxtimingsetup'' []
     | TXParamSetup \<Rightarrow> md_object ''txtimingsetup'' []
     | DLChannel \<Rightarrow> md_object ''dlcchannelresp'' [(''channelfrequencyack'', uint (dlcchannelresp_channelfrequencyack (dlcchannelresp d))),
           (''uplinkfrequencyexistsack'', uint (dlcchannelresp_uplinkfrequencyexistsack (dlcchannelresp d))),
           (''rfu'', uint (dlcchannelresp_rfu (dlcchannelresp d)))]
     | Rekey \<Rightarrow> md_object ''rekeyreq'' [(''minor'', uint (rekeyreq_minor (rekeyreq d))),
           (''rfu'', uint (rekeyreq_rfu (rekeyreq d)))]
     | ADRParamSetup \<Rightarrow> md_object ''adrparamsetup'' []
     | DeviceTime \<Rightarrow> md_object ''devicetime'' []
     | ForceRejoin \<Rightarrow> md_object ''forcerejoin'' []
     | RejoinParamSetup \<Rightarrow> md_object ''rejoinparamsetupresp'' [(''timeack'', uint (rejoinparamsetupresp_timeack (rejoinparamsetupresp d))),
           (''rfu'', uint (rejoinparamsetupresp_rfu (rejoinparamsetupresp d)))]
     | PingSlotInfo \<Rightarrow> md_object ''pinginfoslot'' [(''periodicity'', uint (pinginfoslot_periodicity (pinginfoslot d))),
           (''rfu'', uint (pinginfoslot_rfu (pinginfoslot d)))]
     | PingSlotChannel \<Rightarrow> md_object ''pingslotchannelresp'' [(''drack'', uint (pingslotchannelresp_drack (pingslotchannelresp d))),
           (''frequencyack'', uint (pingslotchannelresp_frequencyack (pingslotchannelresp d))),
           (''rfu'', uint (pingslotchannelresp_rfu (pingslotchannelresp d)))]
     | BeaconTiming \<Rightarrow> md_object ''beacontiming'' []
     | BeaconFreq \<Rightarrow> md_object ''beaconfrequencyresp'' [(''frequencyack'', uint (beaconfrequencyresp_frequencyack (beaconfrequencyresp d)))]
     | DeviceMode \<Rightarrow> md_object ''devicemode'' [(''cl'', uint (devicemode_cl (devicemode d)))])"

definition MAC_DATA2JSONString :: "MAC_COMMAND \<Rightarrow> bool \<Rightarrow> string" where
  "MAC_DATA2JSONString c clientSide =
    (case cid_of (command c) of None \<Rightarrow> []
     | Some cid \<Rightarrow>
         if clientSide then mac_json_client cid (mac_data c) else mac_json_server cid (mac_data c))"

definition MacData_toJSONString :: "MacData \<Rightarrow> string" where
  "MacData_toJSONString m = MAC_DATA2JSONString (md_command m) (isClientSide m)"

definition MacDataList_toJSONString :: "MacDataList \<Rightarrow> string" where
  "MacDataList_toJSONString l =
    ''['' @ comma_list (map MacData_toJSONString (ml_list l)) @ '']''"

section \<open>What \<open>set\<close> stores\<close>

text \<open>
  The parameters of a command: the width of the field that takes each value, in the order of
  the parameter array, and the values the fields hold.
\<close>

definition mac_widths :: "bool \<Rightarrow> MAC_CID \<Rightarrow> nat list" where
  "mac_widths cs cid =
    (if cs then (case cid of
       LinkCheck \<Rightarrow> [8, 8] | LinkADR \<Rightarrow> [4, 4, 16, 4, 3] | DutyCycle \<Rightarrow> [4]
     | RXParamSetup \<Rightarrow> [24, 3, 4] | NewChannel \<Rightarrow> [8, 24, 4, 4] | RXTimingSetup \<Rightarrow> [4]
     | TXParamSetup \<Rightarrow> [1, 1, 4] | DLChannel \<Rightarrow> [8, 24] | ADRParamSetup \<Rightarrow> [4, 4]
     | ForceRejoin \<Rightarrow> [3, 3, 3] | RejoinParamSetup \<Rightarrow> [4, 4] | PingSlotChannel \<Rightarrow> [24, 4]
     | BeaconTiming \<Rightarrow> [16, 8] | BeaconFreq \<Rightarrow> [24] | DeviceMode \<Rightarrow> [8] | _ \<Rightarrow> [])
     else (case cid of
       LinkADR \<Rightarrow> [1, 1, 1] | RXParamSetup \<Rightarrow> [1, 1, 1] | DevStatus \<Rightarrow> [8, 8]
     | NewChannel \<Rightarrow> [1, 1] | DLChannel \<Rightarrow> [1, 1] | RejoinParamSetup \<Rightarrow> [1]
     | PingSlotInfo \<Rightarrow> [3] | PingSlotChannel \<Rightarrow> [1, 1] | BeaconFreq \<Rightarrow> [1]
     | DeviceMode \<Rightarrow> [8] | _ \<Rightarrow> []))"

definition mac_params :: "bool \<Rightarrow> MAC_CID \<Rightarrow> 40 word \<Rightarrow> nat list" where
  "mac_params cs cid d =
    (if cs then (case cid of
       LinkCheck \<Rightarrow> (let s = linkcheck d in [unat (linkcheck_margin s), unat (linkcheck_gwcnt s)])
     | LinkADR \<Rightarrow> (let s = linkadrreq d in
         [unat (linkadrreq_txpower s), unat (linkadrreq_datarate s), unat (linkadrreq_chmask s),
          unat (linkadrreq_nbtans s), unat (linkadrreq_chmaskcntl s)])
     | DutyCycle \<Rightarrow> [unat (dutycycle_maxdccycle (dutycycle d))]
     | RXParamSetup \<Rightarrow> (let s = rxparamsetupreq d in
         [unat (rxparamsetupreq_frequency s), unat (rxparamsetupreq_rx1droffset s),
          unat (rxparamsetupreq_rx2datatrate s)])
     | NewChannel \<Rightarrow> (let s = newchacnnelreq d in
         [unat (newchacnnelreq_chindex s), unat (newchacnnelreq_frequency s),
          unat (newchacnnelreq_mindr s), unat (newchacnnelreq_maxdr s)])
     | RXTimingSetup \<Rightarrow> [unat (timingsetup_delay (timingsetup d))]
     | TXParamSetup \<Rightarrow> (let s = txparamsetup d in
         [unat (txparamsetup_downlinkdwelltime s), unat (txparamsetup_uplinkdwelltime s),
          unat (txparamsetup_maxeirp s)])
     | DLChannel \<Rightarrow> (let s = dlcchannelreq d in
         [unat (dlcchannelreq_chindex s), unat (dlcchannelreq_frequency s)])
     | ADRParamSetup \<Rightarrow> (let s = adrparamsetup d in
         [unat (adrparamsetup_limitexp s), unat (adrparamsetup_delayexp s)])
     | ForceRejoin \<Rightarrow> (let s = forcerejoin d in
         [unat (forcerejoin_period s), unat (forcerejoin_maxretries s), unat (forcerejoin_rejointype s)])
     | RejoinParamSetup \<Rightarrow> (let s = rejoinparamsetupreq d in
         [unat (rejoinparamsetupreq_maxtime s), unat (rejoinparamsetupreq_maxccount s)])
     | PingSlotChannel \<Rightarrow> (let s = pingslotchannelreq d in
         [unat (pingslotchannelreq_frequency s), unat (pingslotchannelreq_dr s)])
     | BeaconTiming \<Rightarrow> (let s = beacontiming d in
         [unat (beacontiming_delay s), unat (beacontiming_channel s)])
     | BeaconFreq \<Rightarrow> [unat (beaconfrequencyreq_frequency (beaconfrequencyreq d))]
     | DeviceMode \<Rightarrow> [unat (devicemode_cl (devicemode d))]
     | _ \<Rightarrow> [])
     else (case cid of
       LinkADR \<Rightarrow> (let s = linkadrresp d in
         [unat (linkadrresp_powerack s), unat (linkadrresp_datarateack s),
          unat (linkadrresp_channelmaskack s)])
     | RXParamSetup \<Rightarrow> (let s = rxparamsetupresp d in
         [unat (rxparamsetupresp_rx1droffsetack s), unat (rxparamsetupresp_rx2datatrateack s),
          unat (rxparamsetupresp_channelack s)])
     | DevStatus \<Rightarrow> (let s = devstatus d in
         [unat (devstatus_battery s), unat (devstatus_margin s)])
     | NewChannel \<Rightarrow> (let s = newchacnnelresp d in
         [unat (newchacnnelresp_channelfrequencyack s), unat (newchacnnelresp_datarateack s)])
     | DLChannel \<Rightarrow> (let s = dlcchannelresp d in
         [unat (dlcchannelresp_channelfrequencyack s), unat (dlcchannelresp_uplinkfrequencyexistsack s)])
     | RejoinParamSetup \<Rightarrow> [unat (rejoinparamsetupresp_timeack (rejoinparamsetupresp d))]
     | PingSlotInfo \<Rightarrow> [unat (pinginfoslot_periodicity (pinginfoslot d))]
     | PingSlotChannel \<Rightarrow> (let s = pingslotchannelresp d in
         [unat (pingslotchannelresp_drack s), unat (pingslotchannelresp_frequencyack s)])
     | BeaconFreq \<Rightarrow> [unat (beaconfrequencyresp_frequencyack (beaconfrequencyresp d))]
     | DeviceMode \<Rightarrow> [unat (devicemode_cl (devicemode d))]
     | _ \<Rightarrow> []))"

definition mac_set_data :: "int \<Rightarrow> int \<Rightarrow> bool \<Rightarrow> MAC_CID \<Rightarrow> u32 list \<Rightarrow> 40 word \<Rightarrow> 40 word" where
  "mac_set_data sec usec cs cid values d =
    (if cs then mac_set_client sec usec cid values d else mac_set_server cid values d)"

lemma MacData_set_data:
  "MacData_set sec usec cid values cs m =
    (True, m\<lparr>md_command := \<lparr>command = cid_code cid,
               mac_data = mac_set_data sec usec cs cid values (mac_data (md_command m))\<rparr>,
             isClientSide := cs\<rparr>)"
  by (simp add: MacData_set_def mac_set_data_def Let_def)

lemma mac_set_too_few:
  "length values < length (mac_widths cs cid) \<Longrightarrow> mac_set_data sec usec cs cid values d = d"
  by (cases cid; cases cs)
    (simp_all add: mac_widths_def mac_set_data_def mac_set_client_def mac_set_server_def)

lemma unat_ucast_mod:
  "unat (ucast (v::u32) :: 'a::len word) = unat v mod 2 ^ LENGTH('a)"
  by (simp add: unsigned_ucast_eq take_bit_eq_mod)

lemma map2_nth_unroll:
  "length ws \<le> length vs \<Longrightarrow> map2 f ws vs = map (\<lambda>i. f (ws ! i) (vs ! i)) [0..<length ws]"
  by (intro nth_equalityI) simp_all

lemma nth_Suc_numeral:
  "xs ! Suc (Suc 0) = xs ! 2" "xs ! Suc (Suc (Suc 0)) = xs ! 3"
  "xs ! Suc (Suc (Suc (Suc 0))) = xs ! 4"
  by (simp_all add: eval_nat_numeral)

lemma mac_set_data_params:
  "length (mac_widths cs cid) \<le> length values \<Longrightarrow>
   mac_params cs cid (mac_set_data sec usec cs cid values d) =
     map2 (\<lambda>w v. unat v mod 2 ^ w) (mac_widths cs cid) values"
  unfolding map2_nth_unroll
  by (cases cid; cases cs)
    (simp_all add: mac_widths_def mac_params_def mac_set_data_def mac_set_client_def
      mac_set_server_def over_get unat_ucast_mod Let_def upt_rec
      nth_Suc_numeral Suc_le_eq)

lemma mac_set_bits_fixed:
  assumes "length (mac_widths cs cid) \<le> length values" and "\<not> (cs \<and> cid = ForceRejoin)"
    and "k < 8 * (size_table cs (cid_code cid) - 1)"
  shows "bit (mac_set_data sec usec cs cid values d) k \<longleftrightarrow> bit (mac_set_data sec usec cs cid values d') k"
  using assms
  by (cases cid; cases cs)
    (simp_all add: mac_widths_def size_table_defs mac_set_data_def mac_set_client_def
      mac_set_server_def over_def mac_views bit_putf Suc_le_eq not_less)

lemma mac_set_bits_frame:
  assumes "\<not> (cs \<and> cid = DeviceTime)" and "8 * (size_table cs (cid_code cid) - 1) \<le> k"
  shows "bit (mac_set_data sec usec cs cid values d) k \<longleftrightarrow> bit d k"
  using assms
  by (cases cid; cases cs)
    (simp_all add: size_table_defs mac_set_data_def mac_set_client_def
      mac_set_server_def over_def mac_views bit_putf)

lemma le_bytes_take_cong:
  assumes "\<And>k. k < 8 * n \<Longrightarrow> bit d k \<longleftrightarrow> bit d' k"
  shows "take n (le_bytes m d) = take n (le_bytes m d')"
proof -
  have "byte_at d i = byte_at d' i" if "i < n" for i
  proof (rule bit_word_eqI)
    fix j assume "j < LENGTH(8)"
    then have "8 * i + j < 8 * n" using that by simp
    then show "bit (byte_at d i) j = bit (byte_at d' i) j"
      using assms \<open>j < LENGTH(8)\<close> by (simp add: bit_byte_at)
  qed
  then show ?thesis by (auto simp: le_bytes_def intro!: nth_equalityI)
qed

section \<open>Constructors of single commands\<close>

text \<open>
  Every constructor runs the default constructor first, which clears the command, then casts the
  command to its structure and assigns the fields.
\<close>

definition mac_ctor :: "MAC_CID \<Rightarrow> (40 word \<Rightarrow> 40 word) \<Rightarrow> MacData" where
  "mac_ctor cid f = MacData_empty
    \<lparr>md_command := \<lparr>command = cid_code cid, mac_data = f (mac_data (md_command MacData_empty))\<rparr>,
     errcode := 0, isClientSide := False\<rparr>"

definition DEF_FREQUENCY_100 :: u32 where
  "DEF_FREQUENCY_100 = 868900"

definition MacDataClientReset :: "MacData" where
  "MacDataClientReset = mac_ctor Reset (over reset put_reset (\<lambda>s. s\<lparr>
      reset_rfu := 0,
      reset_minor := 1\<rparr>))"

definition MacDataClientLinkCheck_default :: "MacData" where
  "MacDataClientLinkCheck_default = mac_ctor LinkCheck (over linkcheck put_linkcheck (\<lambda>s. s\<lparr>
      linkcheck_gwcnt := 1,
      linkcheck_margin := 20\<rparr>))"

definition MacDataClientLinkCheck :: "u8 \<Rightarrow> u8 \<Rightarrow> MacData" where
  "MacDataClientLinkCheck linkMarginDb gatewaysReceivedRequestCount = mac_ctor LinkCheck (over linkcheck put_linkcheck (\<lambda>s. s\<lparr>
      linkcheck_gwcnt := gatewaysReceivedRequestCount,
      linkcheck_margin := linkMarginDb\<rparr>))"

definition MacDataClientLinkADR_default :: "MacData" where
  "MacDataClientLinkADR_default = mac_ctor LinkADR (over linkadrreq put_linkadrreq (\<lambda>s. s\<lparr>
      linkadrreq_txpower := 0xf,
      linkadrreq_datarate := 0,
      linkadrreq_chmask := 0xffff,
      linkadrreq_nbtans := 1,
      linkadrreq_chmaskcntl := 0,
      linkadrreq_rfu := 0\<rparr>))"

definition MacDataClientLinkADR :: "u8 \<Rightarrow> u8 \<Rightarrow> u16 \<Rightarrow> u8 \<Rightarrow> u8 \<Rightarrow> MacData" where
  "MacDataClientLinkADR txpower datarate chmask nbtans chmaskcntl = mac_ctor LinkADR (over linkadrreq put_linkadrreq (\<lambda>s. s\<lparr>
      linkadrreq_txpower := 0xf,
      linkadrreq_datarate := 0,
      linkadrreq_chmask := 0xffff,
      linkadrreq_nbtans := 1,
      linkadrreq_chmaskcntl := 0,
      linkadrreq_rfu := 0\<rparr>))"

definition MacDataClientDutyCycle_default :: "MacData" where
  "MacDataClientDutyCycle_default = mac_ctor DutyCycle (over dutycycle put_dutycycle (\<lambda>s. s\<lparr>
      dutycycle_maxdccycle := 0,
      dutycycle_rfu := 0\<rparr>))"

definition MacDataClientDutyCycle :: "u8 \<Rightarrow> MacData" where
  "MacDataClientDutyCycle v = mac_ctor DutyCycle (over dutycycle put_dutycycle (\<lambda>s. s\<lparr>
      dutycycle_maxdccycle := ucast (v AND 0xf),
      dutycycle_rfu := 0\<rparr>))"

definition MacDataClientRXParamSetup_default :: "MacData" where
  "MacDataClientRXParamSetup_default = mac_ctor RXParamSetup (over rxparamsetupreq put_rxparamsetupreq (\<lambda>s. s\<lparr>
      rxparamsetupreq_frequency := SET_FREQUENCY DEF_FREQUENCY_100,
      rxparamsetupreq_rx1droffset := 0,
      rxparamsetupreq_rx2datatrate := 0,
      rxparamsetupreq_rfu := 0\<rparr>))"

definition MacDataClientRXParamSetup :: "u32 \<Rightarrow> u8 \<Rightarrow> u8 \<Rightarrow> MacData" where
  "MacDataClientRXParamSetup frequency rx1droffset rx2datatrate = mac_ctor RXParamSetup (over rxparamsetupreq put_rxparamsetupreq (\<lambda>s. s\<lparr>
      rxparamsetupreq_frequency := SET_FREQUENCY frequency,
      rxparamsetupreq_rx1droffset := ucast (rx1droffset AND 0x7),
      rxparamsetupreq_rx2datatrate := ucast (rx1droffset AND 0xf),
      rxparamsetupreq_rfu := 0\<rparr>))"

definition MacDataClientDevStatus :: "MacData" where
  "MacDataClientDevStatus = mac_ctor DevStatus (\<lambda>d. d)"

definition MacDataClientNewChannel_default :: "MacData" where
  "MacDataClientNewChannel_default = mac_ctor NewChannel (over newchacnnelreq put_newchacnnelreq (\<lambda>s. s\<lparr>
      newchacnnelreq_chindex := 0,
      newchacnnelreq_frequency := SET_FREQUENCY DEF_FREQUENCY_100,
      newchacnnelreq_mindr := 0,
      newchacnnelreq_maxdr := 0\<rparr>))"

definition MacDataClientNewChannel :: "u8 \<Rightarrow> u32 \<Rightarrow> u8 \<Rightarrow> u8 \<Rightarrow> MacData" where
  "MacDataClientNewChannel channelIndex frequency mindr maxdr = mac_ctor NewChannel (over newchacnnelreq put_newchacnnelreq (\<lambda>s. s\<lparr>
      newchacnnelreq_chindex := channelIndex AND 0xf,
      newchacnnelreq_frequency := SET_FREQUENCY frequency,
      newchacnnelreq_mindr := ucast (mindr AND 0xf),
      newchacnnelreq_maxdr := ucast (maxdr AND 0xf)\<rparr>))"

definition MacDataClientRXTimingSetup_default :: "MacData" where
  "MacDataClientRXTimingSetup_default = mac_ctor RXTimingSetup (over timingsetup put_timingsetup (\<lambda>s. s\<lparr>
      timingsetup_delay := 0,
      timingsetup_rfu := 0\<rparr>))"

definition MacDataClientRXTimingSetup :: "u8 \<Rightarrow> MacData" where
  "MacDataClientRXTimingSetup secomdsPlus1 = mac_ctor RXTimingSetup (over timingsetup put_timingsetup (\<lambda>s. s\<lparr>
      timingsetup_delay := ucast secomdsPlus1,
      timingsetup_rfu := 0\<rparr>))"

definition MacDataTXParamSetup :: "bool \<Rightarrow> bool \<Rightarrow> u8 \<Rightarrow> MacData" where
  "MacDataTXParamSetup downlinkDwellTime uplinkDwellTime maxEIRP = mac_ctor TXParamSetup (over txparamsetup put_txparamsetup (\<lambda>s. s\<lparr>
      txparamsetup_downlinkdwelltime := (if downlinkDwellTime then 1 else 0),
      txparamsetup_uplinkdwelltime := (if uplinkDwellTime then 1 else 0),
      txparamsetup_maxeirp := ucast (maxEIRP AND 0xf),
      txparamsetup_rfu := 0\<rparr>))"

definition MacDataDLChannel_default :: "MacData" where
  "MacDataDLChannel_default = mac_ctor DLChannel (over dlcchannelreq put_dlcchannelreq (\<lambda>s. s\<lparr>
      dlcchannelreq_chindex := 0,
      dlcchannelreq_frequency := SET_FREQUENCY DEF_FREQUENCY_100\<rparr>))"

definition MacDataDLChannel :: "u8 \<Rightarrow> u32 \<Rightarrow> MacData" where
  "MacDataDLChannel chindex frequency = mac_ctor DLChannel (over dlcchannelreq put_dlcchannelreq (\<lambda>s. s\<lparr>
      dlcchannelreq_chindex := chindex AND 0xf,
      dlcchannelreq_frequency := SET_FREQUENCY frequency\<rparr>))"

definition MacDataRekey :: "MacData" where
  "MacDataRekey = mac_ctor Rekey (over rekeyreq put_rekeyreq (\<lambda>s. s\<lparr>
      rekeyreq_minor := 1,
      rekeyreq_rfu := 0\<rparr>))"

definition MacDataADRParamSetup_default :: "MacData" where
  "MacDataADRParamSetup_default = mac_ctor ADRParamSetup (over adrparamsetup put_adrparamsetup (\<lambda>s. s\<lparr>
      adrparamsetup_delayexp := 0,
      adrparamsetup_limitexp := 0\<rparr>))"

definition MacDataADRParamSetup :: "u8 \<Rightarrow> u8 \<Rightarrow> MacData" where
  "MacDataADRParamSetup ackLimit ackDelay = mac_ctor ADRParamSetup (over adrparamsetup put_adrparamsetup (\<lambda>s. s\<lparr>
      adrparamsetup_delayexp := ucast (ackLimit AND 0xf),
      adrparamsetup_limitexp := ucast (ackDelay AND 0xf)\<rparr>))"

definition MacDataDeviceTime :: "int \<Rightarrow> int \<Rightarrow> MacData" where
  "MacDataDeviceTime tv_sec tv_usec = mac_ctor DeviceTime (over devicetime put_devicetime (\<lambda>s. s\<lparr>
      devicetime_gpstime := utc2gps tv_sec,
      devicetime_frac := word_of_int tv_usec\<rparr>))"

definition MacDataForceRejoin_default :: "MacData" where
  "MacDataForceRejoin_default = mac_ctor ForceRejoin (over forcerejoin put_forcerejoin (\<lambda>s. s\<lparr>
      forcerejoin_period := 0,
      forcerejoin_maxretries := 0,
      forcerejoin_rejointype := 0,
      forcerejoin_rfu := 0,
      forcerejoin_rfu2 := 0\<rparr>))"

definition MacDataForceRejoin :: "u8 \<Rightarrow> u8 \<Rightarrow> u8 \<Rightarrow> u8 \<Rightarrow> MacData" where
  "MacDataForceRejoin period maxretries rejointype dr = mac_ctor ForceRejoin (over forcerejoin put_forcerejoin (\<lambda>s. s\<lparr>
      forcerejoin_period := ucast (period AND 7),
      forcerejoin_maxretries := ucast (maxretries AND 7),
      forcerejoin_rejointype := ucast (rejointype AND 7),
      forcerejoin_dr := ucast (dr AND 0xf),
      forcerejoin_rfu := 0,
      forcerejoin_rfu2 := 0\<rparr>))"

definition MacDataRejoinParamSetup_default :: "MacData" where
  "MacDataRejoinParamSetup_default = mac_ctor ForceRejoin (over rejoinparamsetupreq put_rejoinparamsetupreq (\<lambda>s. s\<lparr>
      rejoinparamsetupreq_maxtime := 0,
      rejoinparamsetupreq_maxccount := 0\<rparr>))"

definition MacDataRejoinParamSetup :: "u8 \<Rightarrow> u8 \<Rightarrow> MacData" where
  "MacDataRejoinParamSetup maxtime maxcount = mac_ctor ForceRejoin (over rejoinparamsetupreq put_rejoinparamsetupreq (\<lambda>s. s\<lparr>
      rejoinparamsetupreq_maxtime := ucast (maxtime AND 0xf),
      rejoinparamsetupreq_maxccount := ucast (maxcount AND 0xf)\<rparr>))"

definition MacDataPingSlotInfo :: "MacData" where
  "MacDataPingSlotInfo = mac_ctor PingSlotInfo (\<lambda>d. d)"

definition MacDataPingSlotChannel_default :: "MacData" where
  "MacDataPingSlotChannel_default = mac_ctor PingSlotChannel (over pingslotchannelreq put_pingslotchannelreq (\<lambda>s. s\<lparr>
      pingslotchannelreq_dr := 0,
      pingslotchannelreq_frequency := SET_FREQUENCY DEF_FREQUENCY_100,
      pingslotchannelreq_rfu := 0\<rparr>))"

definition MacDataPingSlotChannel :: "u32 \<Rightarrow> u8 \<Rightarrow> MacData" where
  "MacDataPingSlotChannel frequency datarate = mac_ctor PingSlotChannel (over pingslotchannelreq put_pingslotchannelreq (\<lambda>s. s\<lparr>
      pingslotchannelreq_dr := ucast (datarate AND 0xf),
      pingslotchannelreq_frequency := SET_FREQUENCY frequency,
      pingslotchannelreq_rfu := 0\<rparr>))"

definition MacDataBeaconTiming_default :: "MacData" where
  "MacDataBeaconTiming_default = mac_ctor BeaconFreq (over beacontiming put_beacontiming (\<lambda>s. s\<lparr>
      beacontiming_channel := 0,
      beacontiming_delay := 0\<rparr>))"

definition MacDataBeaconTiming :: "u16 \<Rightarrow> u8 \<Rightarrow> MacData" where
  "MacDataBeaconTiming delay channel = mac_ctor BeaconTiming (over beacontiming put_beacontiming (\<lambda>s. s\<lparr>
      beacontiming_channel := channel AND 0xf,
      beacontiming_delay := delay\<rparr>))"

definition MacDataBeaconFreq_default :: "MacData" where
  "MacDataBeaconFreq_default = mac_ctor BeaconFreq (over beaconfrequencyreq put_beaconfrequencyreq (\<lambda>s. s\<lparr>
      beaconfrequencyreq_frequency := SET_FREQUENCY DEF_FREQUENCY_100\<rparr>))"

definition MacDataBeaconFreq :: "u32 \<Rightarrow> MacData" where
  "MacDataBeaconFreq frequency = mac_ctor BeaconFreq (over beaconfrequencyreq put_beaconfrequencyreq (\<lambda>s. s\<lparr>
      beaconfrequencyreq_frequency := SET_FREQUENCY frequency\<rparr>))"

definition MacDataDeviceMode_default :: "MacData" where
  "MacDataDeviceMode_default = mac_ctor DeviceMode (over devicemode put_devicemode (\<lambda>s. s\<lparr>
      devicemode_cl := 0\<rparr>))"

definition MacDataDeviceMode :: "bool \<Rightarrow> MacData" where
  "MacDataDeviceMode classC = mac_ctor DeviceMode (over devicemode put_devicemode (\<lambda>s. s\<lparr>
      devicemode_cl := (if classC then 2 else 0)\<rparr>))"

lemmas mac_ctor_defs =
  mac_ctor_def MacData_empty_def
  MacDataClientReset_def
  MacDataClientLinkCheck_default_def
  MacDataClientLinkCheck_def
  MacDataClientLinkADR_default_def
  MacDataClientLinkADR_def
  MacDataClientDutyCycle_default_def
  MacDataClientDutyCycle_def
  MacDataClientRXParamSetup_default_def
  MacDataClientRXParamSetup_def
  MacDataClientDevStatus_def
  MacDataClientNewChannel_default_def
  MacDataClientNewChannel_def
  MacDataClientRXTimingSetup_default_def
  MacDataClientRXTimingSetup_def
  MacDataTXParamSetup_def
  MacDataDLChannel_default_def
  MacDataDLChannel_def
  MacDataRekey_def
  MacDataADRParamSetup_default_def
  MacDataADRParamSetup_def
  MacDataDeviceTime_def
  MacDataForceRejoin_default_def
  MacDataForceRejoin_def
  MacDataRejoinParamSetup_default_def
  MacDataRejoinParamSetup_def
  MacDataPingSlotInfo_def
  MacDataPingSlotChannel_default_def
  MacDataPingSlotChannel_def
  MacDataBeaconTiming_default_def
  MacDataBeaconTiming_def
  MacDataBeaconFreq_default_def
  MacDataBeaconFreq_def
  MacDataDeviceMode_default_def
  MacDataDeviceMode_def

section \<open>Properties\<close>

lemma getf_take:
  "p + LENGTH('a) \<le> n \<Longrightarrow> (getf p (take_bit n d) :: 'a::len word) = getf p d"
  by (intro bit_word_eqI) (auto simp: bit_getf bit_take_bit_iff)

lemma mac_params_take:
  "mac_params cs cid (take_bit (8 * (size_table cs (cid_code cid) - 1)) d) = mac_params cs cid d"
  by (cases cid; cases cs)
    (simp_all add: mac_params_def size_table_defs mac_views getf_take Let_def)

lemma mac_params_cong:
  assumes "\<And>k. k < 8 * (size_table cs (cid_code cid) - 1) \<Longrightarrow> bit d k \<longleftrightarrow> bit d' k"
  shows "mac_params cs cid d = mac_params cs cid d'"
proof -
  have "take_bit (8 * (size_table cs (cid_code cid) - 1)) d =
      take_bit (8 * (size_table cs (cid_code cid) - 1)) d'"
    using assms by (intro bit_word_eqI) (auto simp: bit_take_bit_iff)
  then show ?thesis by (metis mac_params_take)
qed

lemma bit_le_bytes_cong:
  assumes "take n (le_bytes 5 (d::40 word)) = take n (le_bytes 5 (d'::40 word))" and "k < 8 * n"
  shows "bit d k \<longleftrightarrow> bit d' k"
proof (cases "k < 40")
  case True
  then have i: "k div 8 < 5" "k div 8 < n" "k mod 8 < 8" using assms(2) by auto
  then have "take n (le_bytes 5 d) ! (k div 8) = byte_at d (k div 8)"
    "take n (le_bytes 5 d') ! (k div 8) = byte_at d' (k div 8)"
    by (simp_all add: le_bytes_def)
  with assms(1) have "byte_at d (k div 8) = byte_at d' (k div 8)" by simp
  then have "bit (byte_at d (k div 8)) (k mod 8) = bit (byte_at d' (k div 8)) (k mod 8)" by simp
  then show ?thesis using i by (simp add: bit_byte_at)
next
  case False
  then show ?thesis using bit_imp_le_length [of d k] bit_imp_le_length [of d' k] by auto
qed

lemma cmd_bytes_cid:
  "cmd_bytes cs \<lparr>command = cid_code cid, mac_data = d\<rparr> =
    cid_code cid # take (size_table cs (cid_code cid) - 1) (le_bytes 5 d)"
  using size_table_pos [of cs cid]
  by (cases "size_table cs (cid_code cid)")
    (simp_all add: cmd_bytes_def commandSize_table mac_bytes_def del: size_table_pos)

text \<open>\<open>MacData::set\<close> always reports success and sets the identifier and the direction.  With
  enough parameters every field that takes one holds it, cut to the width of the field; with too
  few the payload is left as it was.\<close>

theorem mac_set_params:
  "let (ok, m') = MacData_set sec usec cid values cs m in
    ok \<and> command (md_command m') = cid_code cid \<and> isClientSide m' = cs \<and>
    (if length (mac_widths cs cid) \<le> length values
     then mac_params cs cid (mac_data (md_command m')) =
            map2 (\<lambda>w v. unat v mod 2 ^ w) (mac_widths cs cid) values
     else mac_data (md_command m') = mac_data (md_command m))"
  by (simp add: MacData_set_data mac_set_data_params mac_set_too_few)

text \<open>C22: What \<open>set\<close> builds for any command, with any parameters, in an object without an error
  survives the wire.  The text of the command is as long as the size table says; parsing it on the
  other side, into any memory and with anything behind it, consumes exactly that many bytes and finds
  the same identifier and the same bytes, and so the same parameters.  What is not in the text is not
  found: of the five bytes of a DeviceTime the table leaves three.\<close>

theorem mac_set_parse_roundtrip:
  assumes "MacData_set sec usec cid values cs m = (ok, m')" and "errcode m = 0"
  shows "length (MacData_toString m') = commandSize (md_command m') cs \<and>
    (\<exists>c'. (if cs then parseClientSide c0 (MacData_toString m' @ rest)
               else parseServerSide c0 (MacData_toString m' @ rest))
        = (int (commandSize (md_command m') cs), c') \<and>
      command c' = cid_code cid \<and>
      take (commandSize c' cs) (mac_bytes c') = MacData_toString m' \<and>
      mac_params cs cid (mac_data c') = mac_params cs cid (mac_data (md_command m')))"
proof -
  define d where "d = mac_set_data sec usec cs cid values (mac_data (md_command m))"
  have m': "md_command m' = \<lparr>command = cid_code cid, mac_data = d\<rparr>" "errcode m' = 0"
    "isClientSide m' = cs"
    using assms by (auto simp: MacData_set_data d_def)
  then have str: "MacData_toString m' = cmd_bytes cs (md_command m')"
    by (simp add: MacData_toString_def MacData_size_def cmd_bytes_def)
  have "cid_of (command (md_command m')) \<noteq> None" by (simp add: m')
  then obtain c' where
    p: "parse_side cs c0 (cmd_bytes cs (md_command m') @ rest) = (int (commandSize (md_command m') cs), c')"
    and c': "cmd_bytes cs c' = cmd_bytes cs (md_command m')"
    by (rule parse_side_cmd_bytes)
  have cmd: "command c' = cid_code cid"
  proof -
    have "hd (cmd_bytes cs c') = command c'" if "cmd_bytes cs c' \<noteq> []"
      using that by (cases "commandSize c' cs") (simp_all add: cmd_bytes_def mac_bytes_def)
    with c' show ?thesis by (simp add: m' cmd_bytes_cid)
  qed
  then have "c' = \<lparr>command = cid_code cid, mac_data = mac_data c'\<rparr>" by simp
  with c' have "cmd_bytes cs \<lparr>command = cid_code cid, mac_data = mac_data c'\<rparr> =
      cmd_bytes cs \<lparr>command = cid_code cid, mac_data = d\<rparr>" by (simp add: m')
  then have "take (size_table cs (cid_code cid) - 1) (le_bytes 5 (mac_data c')) =
      take (size_table cs (cid_code cid) - 1) (le_bytes 5 d)" by (simp add: cmd_bytes_cid)
  from mac_params_cong [OF bit_le_bytes_cong [OF this]] have
    "mac_params cs cid (mac_data c') = mac_params cs cid d" .
  moreover have "take (commandSize c' cs) (mac_bytes c') = cmd_bytes cs (md_command m')"
    using c' by (simp add: cmd_bytes_def)
  ultimately show ?thesis
    using p cmd unfolding str parse_side_def
    by (intro conjI exI [of _ c'] length_cmd_bytes) (simp_all add: m')
qed

lemma mac_set_parse_roundtrip_witness:
  "length (MacData_toString (snd (MacData_set 0 0 LinkADR [1, 5, 7, 2, 0] True MacData_empty))) = 5 \<and>
   (\<exists>c'. parseClientSide \<lparr>command = 9, mac_data = 77\<rparr>
      (MacData_toString (snd (MacData_set 0 0 LinkADR [1, 5, 7, 2, 0] True MacData_empty)) @ [1, 2])
        = (5, c') \<and> command c' = 3 \<and>
      take (commandSize c' True) (mac_bytes c') =
        MacData_toString (snd (MacData_set 0 0 LinkADR [1, 5, 7, 2, 0] True MacData_empty)) \<and>
      mac_params True LinkADR (mac_data c') = [1, 5, 7, 2, 0])"
proof -
  define m' where "m' = snd (MacData_set 0 0 LinkADR [1, 5, 7, 2, 0] True MacData_empty)"
  have s: "MacData_set 0 0 LinkADR [1, 5, 7, 2, 0] True MacData_empty = (True, m')"
    by (simp add: m'_def MacData_set_data)
  have "mac_params True LinkADR (mac_data (md_command m')) = [1, 5, 7, 2, 0]"
    by (simp add: m'_def MacData_set_data mac_set_data_params mac_widths_def)
  moreover have "commandSize (md_command m') True = 5"
    by (simp add: m'_def MacData_set_data commandSize_table size_table_defs)
  moreover have "errcode MacData_empty = 0" by (simp add: MacData_empty_def)
  ultimately show ?thesis
    using mac_set_parse_roundtrip [OF s, of "\<lparr>command = 9, mac_data = 77\<rparr>" "[1, 2]"]
    unfolding m'_def [symmetric] by (simp add: cid_code.simps)
qed

text \<open>With enough parameters the bytes of the command depend on the parameters only, not on what
  the object held before, for every command but \<open>ForceRejoin\<close>, whose data rate \<open>set\<close> never
  assigns; and nothing behind the command is touched, but by \<open>DeviceTime\<close>, whose structure is a
  byte longer than its declared size.\<close>

theorem mac_set_determines_bytes:
  "(length (mac_widths cs cid) \<le> length values \<longrightarrow> \<not> (cs \<and> cid = ForceRejoin) \<longrightarrow>
      cmd_bytes cs (md_command (snd (MacData_set sec usec cid values cs m1))) =
      cmd_bytes cs (md_command (snd (MacData_set sec usec cid values cs m2)))) \<and>
   (\<not> (cs \<and> cid = DeviceTime) \<longrightarrow>
      drop_bit (8 * (size_table cs (cid_code cid) - 1))
        (mac_data (md_command (snd (MacData_set sec usec cid values cs m1)))) =
      drop_bit (8 * (size_table cs (cid_code cid) - 1)) (mac_data (md_command m1)))"
proof (intro conjI impI)
  assume "length (mac_widths cs cid) \<le> length values" "\<not> (cs \<and> cid = ForceRejoin)"
  from mac_set_bits_fixed [OF this] show
    "cmd_bytes cs (md_command (snd (MacData_set sec usec cid values cs m1))) =
      cmd_bytes cs (md_command (snd (MacData_set sec usec cid values cs m2)))"
    by (simp add: MacData_set_data cmd_bytes_cid) (rule le_bytes_take_cong)
next
  assume "\<not> (cs \<and> cid = DeviceTime)"
  from mac_set_bits_frame [OF this] show
    "drop_bit (8 * (size_table cs (cid_code cid) - 1))
        (mac_data (md_command (snd (MacData_set sec usec cid values cs m1)))) =
      drop_bit (8 * (size_table cs (cid_code cid) - 1)) (mac_data (md_command m1))"
    by (intro bit_word_eqI) (simp add: MacData_set_data bit_drop_bit_eq)
qed

lemma mac_set_determines_bytes_witness:
  "cmd_bytes True (md_command (snd (MacData_set 0 0 DutyCycle [3] True MacData_empty))) =
   cmd_bytes True (md_command (snd (MacData_set 0 0 DutyCycle [3] True
     (MacData_command \<lparr>command = 1, mac_data = 0xffff\<rparr>)))) \<and>
   drop_bit 8 (mac_data (md_command (snd (MacData_set 0 0 DutyCycle [3] True
     (MacData_command \<lparr>command = 1, mac_data = 0xffff\<rparr>))))) = 0xff"
proof -
  have "size_table True (cid_code DutyCycle) = 2" by (simp add: size_table_defs)
  then show ?thesis
    using mac_set_determines_bytes [of True DutyCycle "[3]" 0 0 MacData_empty
        "MacData_command \<lparr>command = 1, mac_data = 0xffff\<rparr>"]
      mac_set_determines_bytes [of True DutyCycle "[3]" 0 0 "MacData_command \<lparr>command = 1, mac_data = 0xffff\<rparr>"
        MacData_empty]
    by (simp add: mac_widths_def MacData_command_def)
qed

lemma ucast_masked:
  "(ucast (a AND 0xf) :: 4 word) = ucast (a::u8)" "(ucast (a AND 7) :: 3 word) = ucast a"
  by (auto intro!: bit_word_eqI simp: bit_simps bit_numeral_rec less_Suc_eq numeral_eq_Suc)

lemma ucast_twice:
  "(ucast (ucast (a::u8) :: u32) :: 4 word) = ucast a" "(ucast (ucast a :: u32) :: u8) = a"
  "(ucast (ucast a :: u32) :: 3 word) = ucast a"
  by (auto intro!: bit_word_eqI simp: bit_simps)

text \<open>The constructors with parameters build the command that \<open>set\<close> builds from the same
  parameters, for the link check, duty cycle, receive delay, transmit parameters, ping slot
  channel, beacon frequency, device mode and device time commands.\<close>

theorem mac_constructors_agree:
  "md_command (MacDataClientLinkCheck a b) =
     md_command (snd (MacData_set s u LinkCheck [ucast a, ucast b] True MacData_empty)) \<and>
   md_command (MacDataClientDutyCycle a) =
     md_command (snd (MacData_set s u DutyCycle [ucast a] True MacData_empty)) \<and>
   md_command (MacDataClientRXTimingSetup a) =
     md_command (snd (MacData_set s u RXTimingSetup [ucast a] True MacData_empty)) \<and>
   md_command (MacDataTXParamSetup p q a) =
     md_command (snd (MacData_set s u TXParamSetup
       [if p then 1 else 0, if q then 1 else 0, ucast a] True MacData_empty)) \<and>
   md_command (MacDataPingSlotChannel f a) =
     md_command (snd (MacData_set s u PingSlotChannel [f, ucast a] True MacData_empty)) \<and>
   md_command (MacDataBeaconFreq f) =
     md_command (snd (MacData_set s u BeaconFreq [f] True MacData_empty)) \<and>
   md_command (MacDataDeviceMode p) =
     md_command (snd (MacData_set s u DeviceMode [if p then 2 else 0] True MacData_empty)) \<and>
   md_command (MacDataDeviceTime s u) =
     md_command (snd (MacData_set s u DeviceTime [] True MacData_empty))"
  by (simp add: mac_ctor_defs MacData_set_data mac_set_data_def mac_set_client_def ucast_masked
    ucast_twice over_def linkcheck_def pingslotchannelreq_def)

text \<open>Constructors that do not build what their parameters say: \<open>LinkADR\<close> ignores all five,
  \<open>RXParamSetup\<close> stores the RX1 offset as the RX2 data rate, \<open>ADRParamSetup\<close> swaps limit and
  delay, \<open>RejoinParamSetup\<close> builds a \<open>ForceRejoin\<close> and the default beacon timing a
  \<open>BeaconFreq\<close>; and the text of a gateway command is cut to the size of the device's answer.\<close>

theorem mac_constructor_defects:
  "md_command (MacDataClientLinkADR a b c d e) = md_command MacDataClientLinkADR_default \<and>
   rxparamsetupreq_rx2datatrate (rxparamsetupreq (mac_data (md_command (MacDataClientRXParamSetup f a b)))) =
     ucast a \<and>
   adrparamsetup_limitexp (adrparamsetup (mac_data (md_command (MacDataADRParamSetup a b)))) = ucast b \<and>
   adrparamsetup_delayexp (adrparamsetup (mac_data (md_command (MacDataADRParamSetup a b)))) = ucast a \<and>
   command (md_command (MacDataRejoinParamSetup a b)) = cid_code ForceRejoin \<and>
   command (md_command MacDataBeaconTiming_default) = cid_code BeaconFreq \<and>
   length (MacData_toString (MacDataClientLinkADR a b c d e)) = 2 \<and>
   commandSize (md_command (MacDataClientLinkADR a b c d e)) True = 5"
  by (simp add: mac_ctor_defs over_get ucast_masked MacData_toString_def MacData_size_def
    commandSize_table size_table_defs)

text \<open>The JSON text hides a field of two commands: neither the data rate acknowledgement of a
  \<open>NewChannel\<close> answer nor the data rate of a \<open>ForceRejoin\<close> request changes it.\<close>

theorem mac_json_hides_fields:
  "MAC_DATA2JSONString \<lparr>command = 7, mac_data = over newchacnnelresp put_newchacnnelresp
      (\<lambda>s. s\<lparr>newchacnnelresp_datarateack := x\<rparr>) d\<rparr> False =
   MAC_DATA2JSONString \<lparr>command = 7, mac_data = d\<rparr> False \<and>
   MAC_DATA2JSONString \<lparr>command = 0xe, mac_data = over forcerejoin put_forcerejoin
      (\<lambda>s. s\<lparr>forcerejoin_dr := y\<rparr>) d\<rparr> True =
   MAC_DATA2JSONString \<lparr>command = 0xe, mac_data = d\<rparr> True"
  by (simp add: MAC_DATA2JSONString_def cid_of_def mac_json_client_def mac_json_server_def over_get)

end
