(* ===== verification/Gw_Data.thy ===== *)
theory Gw_Data
  imports Packet_Storage
begin

text \<open>
  What a gateway sends with a packet (\<open>lorawan/lorawan-types.h\<close>,
  \<open>lorawan/proto/gw/gw.h\<close>, \<open>gw.cpp\<close>): the reception and transmission metadata
  as packed structures, and the push, pull and response messages.  Enumerations are the
  32-bit numbers they are stored as; a \<open>float\<close> is its 32 bits.
\<close>

section \<open>Single precision numbers\<close>

definition float_nan :: "u32 \<Rightarrow> bool" where
  "float_nan f \<longleftrightarrow> f AND 0x7f800000 = 0x7f800000 \<and> f AND 0x7fffff \<noteq> 0"

text \<open>The bits of a number that is not \<open>NaN\<close> are its sign and the rank of its magnitude.\<close>

definition float_rank :: "u32 \<Rightarrow> int" where
  "float_rank f = (if bit f 31 then - uint (f AND 0x7fffffff) else uint (f AND 0x7fffffff))"

definition float_greater :: "u32 \<Rightarrow> u32 \<Rightarrow> bool" where
  "float_greater a b \<longleftrightarrow> \<not> float_nan a \<and> \<not> float_nan b \<and> float_rank a > float_rank b"

abbreviation (input) FLOAT_LOWEST :: u32 where "FLOAT_LOWEST \<equiv> 0xff7fffff"

section \<open>Metadata\<close>

abbreviation (input) "MODU_UNDEFINED \<equiv> 0 :: u32"
abbreviation (input) "MODU_LORA \<equiv> 0x10 :: u32"
abbreviation (input) "MODU_FSK \<equiv> 0x20 :: u32"

record SEMTECH_PROTOCOL_METADATA_RX =
  rx_gatewayId :: u64
  rx_t :: u64
  rx_tmst :: u32
  rx_chan :: u8
  rx_rfch :: u8
  rx_freq :: u32
  rx_stat :: u8
  rx_modu :: u32
  rx_bandwidth :: u32
  rx_spreadingFactor :: u32
  rx_codingRate :: u32
  rx_bps :: u32
  rx_rssi :: u16
  rx_lsnr :: u32

record SEMTECH_PROTOCOL_METADATA_TX =
  tx_freq_hz :: u32
  tx_mode :: u8
  tx_count_us :: u32
  tx_rf_chain :: u8
  tx_rf_power :: u8
  tx_modulation :: u8
  tx_bandwidth :: u8
  tx_datarate :: u32
  tx_coderate :: u8
  tx_invert_pol :: bool
  tx_f_dev :: u8
  tx_preamble :: u16
  tx_no_crc :: bool
  tx_no_header :: bool
  tx_size :: u16

abbreviation (input) SIZE_RX :: nat where "SIZE_RX \<equiv> 53"
abbreviation (input) SIZE_TX :: nat where "SIZE_TX \<equiv> 26"

definition rx_bytes :: "SEMTECH_PROTOCOL_METADATA_RX \<Rightarrow> bytes" where
  "rx_bytes m =
    le_bytes 8 (rx_gatewayId m) @ le_bytes 8 (rx_t m) @ le_bytes 4 (rx_tmst m) @
    [rx_chan m, rx_rfch m] @ le_bytes 4 (rx_freq m) @ [rx_stat m] @ le_bytes 4 (rx_modu m) @
    le_bytes 4 (rx_bandwidth m) @ le_bytes 4 (rx_spreadingFactor m) @
    le_bytes 4 (rx_codingRate m) @ le_bytes 4 (rx_bps m) @ le_bytes 2 (rx_rssi m) @
    le_bytes 4 (rx_lsnr m)"

definition bool_byte :: "bool \<Rightarrow> u8" where
  "bool_byte b = (if b then 1 else 0)"

definition rx_of_bytes :: "bytes \<Rightarrow> SEMTECH_PROTOCOL_METADATA_RX" where
  "rx_of_bytes b =
    \<lparr> rx_gatewayId = from_le (mem_read b 0 8), rx_t = from_le (mem_read b 8 8),
      rx_tmst = from_le (mem_read b 16 4), rx_chan = b ! 20, rx_rfch = b ! 21,
      rx_freq = from_le (mem_read b 22 4), rx_stat = b ! 26, rx_modu = from_le (mem_read b 27 4),
      rx_bandwidth = from_le (mem_read b 31 4), rx_spreadingFactor = from_le (mem_read b 35 4),
      rx_codingRate = from_le (mem_read b 39 4), rx_bps = from_le (mem_read b 43 4),
      rx_rssi = from_le (mem_read b 47 2), rx_lsnr = from_le (mem_read b 49 4) \<rparr>"

text \<open>The transmission metadata in the memory of the union; a \<open>bool\<close> is its byte's low bit.\<close>

definition tx_of_bytes :: "bytes \<Rightarrow> SEMTECH_PROTOCOL_METADATA_TX" where
  "tx_of_bytes b =
    \<lparr> tx_freq_hz = from_le (mem_read b 0 4), tx_mode = b ! 4,
      tx_count_us = from_le (mem_read b 5 4), tx_rf_chain = b ! 9, tx_rf_power = b ! 10,
      tx_modulation = b ! 11, tx_bandwidth = b ! 12, tx_datarate = from_le (mem_read b 13 4),
      tx_coderate = b ! 17, tx_invert_pol = bit (b ! 18) 0, tx_f_dev = b ! 19,
      tx_preamble = from_le (mem_read b 20 2), tx_no_crc = bit (b ! 22) 0,
      tx_no_header = bit (b ! 23) 0, tx_size = from_le (mem_read b 24 2) \<rparr>"

section \<open>Messages\<close>

record GwPushData =
  rxData :: LORAWAN_MESSAGE_STORAGE
  rxMetadata :: SEMTECH_PROTOCOL_METADATA_RX

record GwPullData =
  txData :: LORAWAN_MESSAGE_STORAGE
  txMetadata :: SEMTECH_PROTOCOL_METADATA_TX

record GwPullResp =
  resp_gwId :: u64
  resp_txData :: LORAWAN_MESSAGE_STORAGE
  resp_txMetadata :: SEMTECH_PROTOCOL_METADATA_TX

definition push_needConfirmation :: "GwPushData \<Rightarrow> bool" where
  "push_needConfirmation d \<longleftrightarrow> mtype (rxData d) = MTYPE_CONFIRMED_DATA_UP"

definition push_isMetadataValid :: "GwPushData \<Rightarrow> bool" where
  "push_isMetadataValid d \<longleftrightarrow>
    rx_modu (rxMetadata d) = MODU_LORA \<or> rx_modu (rxMetadata d) = MODU_FSK"

definition pull_needConfirmation :: "GwPullData \<Rightarrow> bool" where
  "pull_needConfirmation d \<longleftrightarrow> mtype (txData d) = MTYPE_CONFIRMED_DATA_DOWN"

definition pull_isMetadataValid :: "GwPullData \<Rightarrow> bool" where
  "pull_isMetadataValid d \<longleftrightarrow>
    tx_modulation (txMetadata d) = 0x10 \<or> tx_modulation (txMetadata d) = 0x20"

definition resp_needConfirmation :: "GwPullResp \<Rightarrow> bool" where
  "resp_needConfirmation d \<longleftrightarrow> mtype (resp_txData d) = MTYPE_CONFIRMED_DATA_DOWN"

definition resp_isMetadataValid :: "GwPullResp \<Rightarrow> bool" where
  "resp_isMetadataValid d \<longleftrightarrow>
    tx_modulation (resp_txMetadata d) = 0x10 \<or> tx_modulation (resp_txMetadata d) = 0x20"

section \<open>Lemmas\<close>

lemma length_rx_bytes [simp]: "length (rx_bytes m) = SIZE_RX"
  by (simp add: rx_bytes_def)

lemma rx_of_bytes_rx_bytes [simp]: "rx_of_bytes (rx_bytes m @ rest) = m"
  by (simp add: rx_of_bytes_def rx_bytes_def mem_read_def nth_append from_le_le_bytes)

lemma float_greater_irrefl [simp]: "\<not> float_greater f f"
  by (simp add: float_greater_def)

lemma float_greater_trans: "float_greater a b \<Longrightarrow> float_greater b c \<Longrightarrow> float_greater a c"
  by (auto simp: float_greater_def)

lemma float_greater_total:
  "\<not> float_nan a \<Longrightarrow> \<not> float_nan b \<Longrightarrow> \<not> float_greater a b \<longleftrightarrow> float_rank a \<le> float_rank b"
  by (auto simp: float_greater_def)

lemma float_nan_lowest [simp]: "\<not> float_nan FLOAT_LOWEST"
  by (simp add: float_nan_def)

end
