(* ===== verification/Time_Addr.thy ===== *)
theory Time_Addr
  imports Dev_Addr Ordered_Map
begin

text \<open>
  The set of addresses that wait for a response, by time (\<open>lorawan/task/task-time-addr.cpp\<close>).
  \<open>TASK_TIME\<close> counts the nanoseconds of the system clock.  \<open>pop\<close> reads the address of
  a map entry after it erased the entry: \<open>freed a\<close> is what that read finds where the
  address \<open>a\<close> was stored.
\<close>

type_synonym TASK_TIME = int

section \<open>TimeAddr\<close>

record TimeAddr =
  startTime :: TASK_TIME
  ta_addr :: DEVADDR

definition TimeAddr_default :: TimeAddr where
  "TimeAddr_default = \<lparr>startTime = 0, ta_addr = 0\<rparr>"

definition TimeAddr_eq :: "TimeAddr \<Rightarrow> TimeAddr \<Rightarrow> bool" where
  "TimeAddr_eq a b \<longleftrightarrow> startTime a = startTime b \<and> ta_addr a = ta_addr b"

definition TimeAddr_greater :: "TimeAddr \<Rightarrow> TimeAddr \<Rightarrow> bool" where
  "TimeAddr_greater a b \<longleftrightarrow>
    startTime a > startTime b \<or> startTime a = startTime b \<and> ta_addr a > ta_addr b"

definition TimeAddr_less :: "TimeAddr \<Rightarrow> TimeAddr \<Rightarrow> bool" where
  "TimeAddr_less a b \<longleftrightarrow>
    startTime a < startTime b \<or> startTime a = startTime b \<and> ta_addr a < ta_addr b"

definition TimeAddr_neq :: "TimeAddr \<Rightarrow> TimeAddr \<Rightarrow> bool" where
  "TimeAddr_neq a b \<longleftrightarrow> startTime a \<noteq> startTime b \<or> ta_addr a \<noteq> ta_addr b"

section \<open>TimeAddrSet\<close>

record TimeAddrSet =
  timeAddr :: "(TASK_TIME, DEVADDR) omap"
  addrTime :: "(DEVADDR, TASK_TIME) omap"

definition TimeAddrSet_empty :: TimeAddrSet where
  "TimeAddrSet_empty = \<lparr>timeAddr = [], addrTime = []\<rparr>"

text \<open>\<open>push\<close> returns when the set is not empty, whatever the address.\<close>

definition tas_push :: "DEVADDR option \<Rightarrow> TASK_TIME \<Rightarrow> TimeAddrSet \<Rightarrow> TimeAddrSet" where
  "tas_push a time s =
    (case a of
       None \<Rightarrow> s
     | Some a \<Rightarrow>
         if timeAddr s \<noteq> [] then s
         else s\<lparr>timeAddr := om_assign time a (timeAddr s),
                addrTime := om_assign a time (addrTime s)\<rparr>)"

definition tas_peek :: "TimeAddr \<Rightarrow> TimeAddrSet \<Rightarrow> bool \<times> TimeAddr" where
  "tas_peek retVal s =
    (case timeAddr s of
       [] \<Rightarrow> (False, retVal)
     | (t, a) # _ \<Rightarrow> (True, \<lparr>startTime = t, ta_addr = a\<rparr>))"

text \<open>
  \<open>pop(TimeAddr*)\<close> removes the address from the second map only when it is not there:
  \<open>erase(end())\<close>, which has no defined result (\<open>None\<close>).
\<close>

definition tas_pop_ptr ::
    "(DEVADDR \<Rightarrow> DEVADDR) \<Rightarrow> TimeAddr option \<Rightarrow> TimeAddrSet \<Rightarrow>
     (bool \<times> TimeAddr option \<times> TimeAddrSet) option" where
  "tas_pop_ptr freed retVal s =
    (case timeAddr s of
       [] \<Rightarrow> Some (False, retVal, s)
     | (t, a) # _ \<Rightarrow>
         let retVal' = map_option (\<lambda>_. \<lparr>startTime = t, ta_addr = a\<rparr>) retVal
         in case om_find (freed a) (addrTime s) of
              None \<Rightarrow> None
            | Some _ \<Rightarrow> Some (True, retVal', s\<lparr>timeAddr := om_erase t (timeAddr s)\<rparr>))"

abbreviation (input) WAIT_TIME_NS :: int where "WAIT_TIME_NS \<equiv> 500000 * 1000"

definition tas_pop ::
    "(DEVADDR \<Rightarrow> DEVADDR) \<Rightarrow> TimeAddr \<Rightarrow> TASK_TIME \<Rightarrow> TimeAddrSet \<Rightarrow>
     bool \<times> TimeAddr \<times> TimeAddrSet" where
  "tas_pop freed retVal time s =
    (case timeAddr s of
       [] \<Rightarrow> (False, retVal, s)
     | (t, a) # _ \<Rightarrow>
         if t > time - WAIT_TIME_NS then (False, retVal, s)
         else
           (True, \<lparr>startTime = t, ta_addr = a\<rparr>,
            s\<lparr>timeAddr := om_erase t (timeAddr s),
              addrTime :=
                (case om_find (freed a) (addrTime s) of
                   None \<Rightarrow> addrTime s
                 | Some _ \<Rightarrow> om_erase (freed a) (addrTime s))\<rparr>))"

text \<open>\<open>duration_cast\<close> from nanoseconds divides towards zero.\<close>

definition ns_to_us :: "int \<Rightarrow> int" where
  "ns_to_us d = (if d < 0 then - (- d div 1000) else d div 1000)"

definition waitTimeForAllGatewaysInMicroseconds :: "TASK_TIME \<Rightarrow> TimeAddrSet \<Rightarrow> int" where
  "waitTimeForAllGatewaysInMicroseconds since s =
    (case timeAddr s of
       [] \<Rightarrow> - 1
     | (t, _) # _ \<Rightarrow> let r = ns_to_us (t + WAIT_TIME_NS - since) in if r < 0 then 0 else r)"

definition tas_has :: "DEVADDR \<Rightarrow> TimeAddrSet \<Rightarrow> bool" where
  "tas_has a s \<longleftrightarrow> om_find a (addrTime s) \<noteq> None"

definition tas_taskTime :: "DEVADDR \<Rightarrow> TimeAddrSet \<Rightarrow> TASK_TIME" where
  "tas_taskTime a s = (case om_find a (addrTime s) of Some t \<Rightarrow> t | None \<Rightarrow> 0)"

text \<open>\<open>clear\<close> walks the first map and erases the entries that are not before the given time.\<close>

fun tas_clear_loop :: "TASK_TIME \<Rightarrow> (TASK_TIME \<times> DEVADDR) list \<Rightarrow> TimeAddrSet \<Rightarrow> TimeAddrSet" where
  "tas_clear_loop expiration [] s = s"
| "tas_clear_loop expiration ((t, a) # rest) s =
    tas_clear_loop expiration rest
      (if t \<ge> expiration then
         s\<lparr>addrTime := (case om_find a (addrTime s) of
                           None \<Rightarrow> addrTime s
                         | Some _ \<Rightarrow> om_erase a (addrTime s)),
           timeAddr := om_erase t (timeAddr s)\<rparr>
       else s)"

definition tas_clear :: "TASK_TIME option \<Rightarrow> TimeAddrSet \<Rightarrow> TimeAddrSet" where
  "tas_clear expiration s =
    (case expiration of
       None \<Rightarrow> s\<lparr>addrTime := [], timeAddr := []\<rparr>
     | Some e \<Rightarrow> tas_clear_loop e (timeAddr s) s)"

definition tas_size :: "TimeAddrSet \<Rightarrow> nat" where
  "tas_size s = length (addrTime s)"

section \<open>Lemmas\<close>

text \<open>
  The set as what it is: a place for one waiting address.  \<open>tas_of\<close> is the set that
  holds what a place holds.
\<close>

type_synonym place = "(DEVADDR \<times> TASK_TIME) option"

definition tas_of :: "place \<Rightarrow> TimeAddrSet" where
  "tas_of p = (case p of
     None \<Rightarrow> TimeAddrSet_empty
   | Some (a, t) \<Rightarrow> \<lparr>timeAddr = [(t, a)], addrTime = [(a, t)]\<rparr>)"

lemma tas_of_simps [simp]:
  "timeAddr (tas_of None) = []" "addrTime (tas_of None) = []"
  "timeAddr (tas_of (Some (a, t))) = [(t, a)]" "addrTime (tas_of (Some (a, t))) = [(a, t)]"
  by (simp_all add: tas_of_def TimeAddrSet_empty_def)

lemma tas_of_eq:
  "tas_of None = \<lparr>timeAddr = [], addrTime = []\<rparr>"
  "tas_of (Some (a, t)) = \<lparr>timeAddr = [(t, a)], addrTime = [(a, t)]\<rparr>"
  by (simp_all add: tas_of_def TimeAddrSet_empty_def)

definition place_push :: "DEVADDR option \<Rightarrow> TASK_TIME \<Rightarrow> place \<Rightarrow> place" where
  "place_push a t p = (if p = None then map_option (\<lambda>a. (a, t)) a else p)"

definition place_pop :: "TASK_TIME \<Rightarrow> place \<Rightarrow> place" where
  "place_pop time p = (case p of
     Some (a, t) \<Rightarrow> if t + WAIT_TIME_NS \<le> time then None else p | None \<Rightarrow> None)"

definition place_clear :: "TASK_TIME option \<Rightarrow> place \<Rightarrow> place" where
  "place_clear e p = (case (e, p) of
     (Some e, Some (a, t)) \<Rightarrow> if e \<le> t then None else p | _ \<Rightarrow> None)"

named_theorems place_simps \<open>operations of the set on a place\<close>

lemma tas_push_place [place_simps]: "tas_push a t (tas_of p) = tas_of (place_push a t p)"
  by (cases p; cases a) (auto simp: tas_push_def place_push_def tas_of_eq)

lemma tas_pop_place [place_simps]:
  "freed = (\<lambda>a. a) \<Longrightarrow> snd (snd (tas_pop freed r time (tas_of p))) = tas_of (place_pop time p)"
  by (cases p) (auto simp: tas_pop_def place_pop_def tas_of_eq om_erase_def)

lemma tas_pop_result:
  "fst (tas_pop freed r time (tas_of p)) =
     (case p of Some (a, t) \<Rightarrow> t + WAIT_TIME_NS \<le> time | None \<Rightarrow> False)"
  "fst (tas_pop freed r time (tas_of p)) \<Longrightarrow>
     p = Some (ta_addr (fst (snd (tas_pop freed r time (tas_of p)))),
               startTime (fst (snd (tas_pop freed r time (tas_of p)))))"
proof -
  show "fst (tas_pop freed r time (tas_of p)) =
     (case p of Some (a, t) \<Rightarrow> t + WAIT_TIME_NS \<le> time | None \<Rightarrow> False)"
    by (cases p) (auto simp: tas_pop_def split: if_splits)
  show "p = Some (ta_addr (fst (snd (tas_pop freed r time (tas_of p)))),
               startTime (fst (snd (tas_pop freed r time (tas_of p)))))"
    if "fst (tas_pop freed r time (tas_of p))"
    using that by (cases p) (auto simp: tas_pop_def split: if_splits)
qed

lemma tas_clear_place [place_simps]: "tas_clear e (tas_of p) = tas_of (place_clear e p)"
  by (cases p; cases e) (auto simp: tas_clear_def place_clear_def tas_of_eq om_erase_def)

text \<open>Histories of the set.\<close>

datatype tas_op = Push "DEVADDR option" TASK_TIME | Pop TASK_TIME | Clear "TASK_TIME option"

fun tas_exec :: "(DEVADDR \<Rightarrow> DEVADDR) \<Rightarrow> tas_op \<Rightarrow> TimeAddrSet \<Rightarrow> TimeAddrSet" where
  "tas_exec freed (Push a t) s = tas_push a t s"
| "tas_exec freed (Pop t) s = snd (snd (tas_pop freed TimeAddr_default t s))"
| "tas_exec freed (Clear e) s = tas_clear e s"

fun place_exec :: "tas_op \<Rightarrow> place \<Rightarrow> place" where
  "place_exec (Push a t) p = place_push a t p"
| "place_exec (Pop t) p = place_pop t p"
| "place_exec (Clear e) p = place_clear e p"

lemma tas_exec_place: "tas_exec (\<lambda>a. a) oper (tas_of p) = tas_of (place_exec oper p)"
  by (cases oper) (simp_all add: place_simps)

lemma tas_fold_place: "fold (tas_exec (\<lambda>a. a)) ops (tas_of p) = tas_of (fold place_exec ops p)"
  by (induction ops arbitrary: p) (simp_all add: tas_exec_place)

lemma wait_place:
  "waitTimeForAllGatewaysInMicroseconds since (tas_of (Some (a, t))) =
     max 0 (ns_to_us (t + WAIT_TIME_NS - since))"
  "waitTimeForAllGatewaysInMicroseconds since (tas_of None) = - 1"
  by (simp_all add: waitTimeForAllGatewaysInMicroseconds_def Let_def)

text \<open>Whatever the erased entry reads as, the first map never holds two entries.\<close>

lemma length_om_erase_le: "length (om_erase k m) \<le> length m"
  by (simp add: om_erase_def)

lemma tas_clear_loop_length:
  "length (timeAddr s) \<le> n \<Longrightarrow> length (timeAddr (tas_clear_loop e l s)) \<le> n"
proof (induction e l s rule: tas_clear_loop.induct)
  case (2 e t a rest s)
  then show ?case
    using length_om_erase_le [of t "timeAddr s"] by (simp split: if_splits)
qed simp

lemma tas_exec_length:
  assumes "length (timeAddr s) \<le> 1"
  shows "length (timeAddr (tas_exec freed oper s)) \<le> 1"
proof (cases oper)
  case (Push a t)
  then show ?thesis using assms by (auto simp: tas_push_def split: option.splits)
next
  case (Pop t)
  have "length (timeAddr (snd (snd (tas_pop freed TimeAddr_default t s)))) \<le> length (timeAddr s)"
    using length_om_erase_le [of _ "timeAddr s"] by (fastforce simp: tas_pop_def split: list.splits)
  with assms Pop show ?thesis by simp
next
  case (Clear e)
  then show ?thesis
    using assms by (auto simp: tas_clear_def tas_clear_loop_length [where n = 1, simplified] split: option.splits)
qed

section \<open>Properties\<close>

text \<open>The set of waiting addresses is a place for one address: over any history of
  pushes, pops and clears it holds what a single place holds that refuses an address while
  it is taken, gives it back half a second after its time, and forgets it on a clear.\<close>

theorem time_set_is_one_place:
  assumes "freed = (\<lambda>a. a)"
  shows "fold (tas_exec freed) ops TimeAddrSet_empty = tas_of (fold place_exec ops None)"
  using tas_fold_place [of ops None] assms by (simp add: tas_of_def)

theorem time_set_is_one_place_witness:
  "fold (tas_exec (\<lambda>a. a)) [Push (Some 5) 10, Push (Some 6) 20, Pop 500000010, Push (Some 7) 30]
     TimeAddrSet_empty =
   tas_of (fold place_exec [Push (Some 5) 10, Push (Some 6) 20, Pop 500000010, Push (Some 7) 30] None)"
  by (rule time_set_is_one_place) simp

text \<open>While an address waits, a further address is lost: over any history, and whatever
  the memory of erased entries reads as, at most one address waits for its response.\<close>

theorem time_set_loses_addresses:
  "length (timeAddr (fold (tas_exec freed) ops TimeAddrSet_empty)) \<le> 1"
proof -
  have "length (timeAddr s) \<le> 1 \<Longrightarrow> length (timeAddr (fold (tas_exec freed) ops s)) \<le> 1" for s
  proof (induction ops arbitrary: s)
    case (Cons oper ops)
    then show ?case using tas_exec_length by simp
  qed simp
  then show ?thesis by (simp add: TimeAddrSet_empty_def)
qed

end
