(* ===== verification/Message_Queue.thy ===== *)
theory Message_Queue
  imports Gw_Data Gateway_Service Time_Addr
begin

text \<open>
  The message queue of the dispatcher (\<open>lorawan/task/message-queue.cpp\<close>), its items
  (\<open>message-queue-item.cpp\<close>) and task descriptors (\<open>task-descriptor.cpp\<close>).
  Sockets and protocol parsers are known by numbers, which stand for their pointers.  A field no
  constructor sets has the value found in memory, which is the argument \<open>u\<close>.  The pointer
  of an item to its queue is left out: no operation follows it.
\<close>

section \<open>Task descriptors\<close>

datatype TaskStage =
    TASK_STAGE_RECEIVED | TASK_STAGE_GATEWAY_REQUEST | TASK_STAGE_GATEWAY_RESPONSE
  | TASK_STAGE_IDENTIFIED | TASK_STAGE_DECIPHERED | TASK_STAGE_MAC_PROCESS
  | TASK_STAGE_MAC_RESPONSE_SEND | TASK_STAGE_MAC_RESPONSE_GW_SELECT
  | TASK_STAGE_MAC_RESPONSE_GW_SELECTED | TASK_STAGE_MAC_RESPONSE_SENT
  | TASK_STAGE_PAYLOAD_PROCESS | TASK_STAGE_PAYLOAD_SEND | TASK_STAGE_PAYLOAD_SENT
  | TASK_STAGE_FINISHED

datatype TaskState = TASK_STATE_RETURNED | TASK_STATE_IN_PROGRESS

record TaskDescriptor =
  stage :: TaskStage
  tstate :: TaskState
  errorCode :: int
  repeats :: int
  deviceId :: NetworkIdentity
  task_gateway :: GatewayIdentity

definition NetworkIdentity_default :: "DEVICE_ID \<Rightarrow> NetworkIdentity" where
  "NetworkIdentity_default u =
    \<lparr> nwi_devaddr = 0,
      nwi_devid = DEVICEID_default\<lparr>activation := activation u, deviceclass := deviceclass u,
        version := LORAWAN_VERSION_default,
        token := token u, region := region u, subRegion := subRegion u\<rparr> \<rparr>"

definition TaskDescriptor_default :: "TaskDescriptor \<Rightarrow> TaskDescriptor" where
  "TaskDescriptor_default u =
    u\<lparr>errorCode := CODE_OK, repeats := 0,
      deviceId := NetworkIdentity_default (nwi_devid (deviceId u)),
      task_gateway := GatewayIdentity_id 0\<rparr>"

section \<open>Items\<close>

datatype METADATA_TYPE = METADATA_TYPE_RX | METADATA_TYPE_TX

text \<open>The union of both metadata is its bytes, as many as the longer of them has.\<close>

record GatewayMetadata =
  gm_taskSocket :: "nat option"
  gm_addr :: SOCKADDR
  gm_typ :: METADATA_TYPE
  gm_radio :: bytes
  gm_parser :: "nat option"

definition gm_rx :: "GatewayMetadata \<Rightarrow> SEMTECH_PROTOCOL_METADATA_RX" where
  "gm_rx m = rx_of_bytes (gm_radio m)"

definition gm_tx :: "GatewayMetadata \<Rightarrow> SEMTECH_PROTOCOL_METADATA_TX" where
  "gm_tx m = tx_of_bytes (gm_radio m)"

definition GatewayMetadata_default :: "bytes \<Rightarrow> GatewayMetadata" where
  "GatewayMetadata_default u =
    \<lparr>gm_taskSocket = None, gm_addr = SOCKADDR_zero, gm_typ = METADATA_TYPE_RX, gm_radio = u,
     gm_parser = None\<rparr>"

definition GatewayMetadata_rx ::
    "nat option \<Rightarrow> SOCKADDR \<Rightarrow> METADATA_TYPE \<Rightarrow> SEMTECH_PROTOCOL_METADATA_RX \<Rightarrow> nat option \<Rightarrow>
     GatewayMetadata" where
  "GatewayMetadata_rx taskSocket a typ rx parser =
    \<lparr>gm_taskSocket = taskSocket, gm_addr = a, gm_typ = typ, gm_radio = rx_bytes rx,
     gm_parser = parser\<rparr>"

record MessageQueueItem =
  tim :: TASK_TIME
  radioPacket :: LORAWAN_MESSAGE_STORAGE
  metadata :: "(u64, GatewayMetadata) omap"
  task :: TaskDescriptor

text \<open>What the memory of an item holds before it is constructed.\<close>

record raw_memory =
  raw_task :: TaskDescriptor
  raw_radio :: bytes

definition MessageQueueItem_time :: "raw_memory \<Rightarrow> TASK_TIME \<Rightarrow> MessageQueueItem" where
  "MessageQueueItem_time u time =
    \<lparr>tim = time, radioPacket = storage_default, metadata = [],
     task = TaskDescriptor_default (raw_task u)\<rparr>"

definition MessageQueueItem_make ::
    "raw_memory \<Rightarrow> TASK_TIME \<Rightarrow> u64 \<Rightarrow> nat option \<Rightarrow> MessageQueueItem" where
  "MessageQueueItem_make u time gwId parser =
    (let i = MessageQueueItem_time u time; t = task i
     in i\<lparr>task := t\<lparr>task_gateway := (task_gateway t)\<lparr>gatewayId := gwId\<rparr>\<rparr>,
          metadata := [(gwId, (GatewayMetadata_default (raw_radio u))\<lparr>gm_parser := parser\<rparr>)]\<rparr>)"

text \<open>\<open>duration_cast\<close> to seconds divides towards zero; an item expires after 60 of them.\<close>

definition ns_to_s :: "int \<Rightarrow> int" where
  "ns_to_s d = (if d < 0 then - (- d div 1000000000) else d div 1000000000)"

definition expired :: "TASK_TIME \<Rightarrow> MessageQueueItem \<Rightarrow> bool" where
  "expired since i \<longleftrightarrow> ns_to_s (since - tim i) > 60"

definition item_getAddr :: "MessageQueueItem \<Rightarrow> DEVADDR option" where
  "item_getAddr i =
    (if mtype (radioPacket i) \<ge> MTYPE_UNCONFIRMED_DATA_UP \<and>
        mtype (radioPacket i) \<le> MTYPE_CONFIRMED_DATA_DOWN
     then Some (st_devaddr (mdata (radioPacket i))) else None)"

definition item_getJoinRequestFrame :: "MessageQueueItem \<Rightarrow> JOIN_REQUEST_FRAME option" where
  "item_getJoinRequestFrame i =
    (if mtype (radioPacket i) \<ge> MTYPE_JOIN_REQUEST
     then Some (join_request_of (mdata (radioPacket i))) else None)"

text \<open>The loop keeps the best signal so far and the gateway and metadata it came with.\<close>

definition best_step ::
    "u64 \<times> GatewayMetadata \<Rightarrow> u64 \<times> GatewayMetadata \<times> u32 \<Rightarrow> u64 \<times> GatewayMetadata \<times> u32" where
  "best_step = (\<lambda>(g, m) (r, retVal, f).
    if float_greater (rx_lsnr (gm_rx m)) f then (g, m, rx_lsnr (gm_rx m)) else (r, retVal, f))"

definition getBestGatewayAddress ::
    "GatewayMetadata \<Rightarrow> MessageQueueItem \<Rightarrow> u64 \<times> GatewayMetadata" where
  "getBestGatewayAddress retVal i =
    (let (r, m, f) = fold best_step (metadata i) (0, retVal, FLOAT_LOWEST) in (r, m))"

definition item_needConfirmation :: "MessageQueueItem \<Rightarrow> bool" where
  "item_needConfirmation i \<longleftrightarrow>
    mtype (radioPacket i) = MTYPE_CONFIRMED_DATA_UP \<or> mtype (radioPacket i) = MTYPE_CONFIRMED_DATA_DOWN"

section \<open>The queue\<close>

record MessageQueue =
  uplinkMessages :: "(DEVADDR, MessageQueueItem) omap"
  joins :: "(JOIN_REQUEST_FRAME \<times> MessageQueueItem) list"
  downlinkMessages :: "(DEVADDR, MessageQueueItem) omap"
  time2ResponseAddr :: TimeAddrSet

definition MessageQueue_empty :: MessageQueue where
  "MessageQueue_empty =
    \<lparr>uplinkMessages = [], joins = [], downlinkMessages = [], time2ResponseAddr = TimeAddrSet_empty\<rparr>"

definition getUplink :: "DEVADDR \<Rightarrow> MessageQueue \<Rightarrow> MessageQueueItem option" where
  "getUplink a q = om_find a (uplinkMessages q)"

text \<open>\<open>find\<close> of the map of joins takes two frames as equal when neither is less.\<close>

definition getJoinRequest :: "JOIN_REQUEST_FRAME \<Rightarrow> MessageQueue \<Rightarrow> MessageQueueItem option" where
  "getJoinRequest a q =
    map_option snd (find (\<lambda>(k, _). \<not> JOIN_REQUEST_less k a \<and> \<not> JOIN_REQUEST_less a k) (joins q))"

definition getDownlink :: "DEVADDR \<Rightarrow> MessageQueue \<Rightarrow> MessageQueueItem option" where
  "getDownlink a q = om_find a (downlinkMessages q)"

definition set_metadata ::
    "u64 \<Rightarrow> GatewayMetadata \<Rightarrow> MessageQueueItem \<Rightarrow> MessageQueueItem" where
  "set_metadata g m i = i\<lparr>metadata := om_assign g m (metadata i)\<rparr>"

definition putUplink_radio ::
    "raw_memory \<Rightarrow> TASK_TIME \<Rightarrow> nat option \<Rightarrow> LORAWAN_MESSAGE_STORAGE \<Rightarrow> SOCKADDR \<Rightarrow> u64 \<Rightarrow>
     SEMTECH_PROTOCOL_METADATA_RX \<Rightarrow> nat option \<Rightarrow> MessageQueue \<Rightarrow> MessageQueue" where
  "putUplink_radio u time taskSocket packet addr gwId rx parser q =
    (case storage_getAddr packet of
       Some a \<Rightarrow>
         let m = GatewayMetadata_rx taskSocket addr METADATA_TYPE_RX rx parser
         in (case om_find a (uplinkMessages q) of
               Some i \<Rightarrow> q\<lparr>uplinkMessages := om_assign a (set_metadata gwId m i) (uplinkMessages q)\<rparr>
             | None \<Rightarrow>
                 q\<lparr>uplinkMessages :=
                     om_insert a (set_metadata gwId m (MessageQueueItem_make u time gwId parser))
                       (uplinkMessages q)\<rparr>)
     | None \<Rightarrow> q)"

text \<open>
  \<open>putUplink\<close> of a push message.  \<open>svc\<close> is \<open>get\<close> of the identity service when the
  queue has a dispatcher with a client; the code it returns is not looked at.
\<close>

type_synonym identity_get = "DEVICE_ID \<Rightarrow> DEVADDR \<Rightarrow> code \<times> DEVICE_ID"

definition uplink_item ::
    "raw_memory \<Rightarrow> identity_get option \<Rightarrow> TASK_TIME \<Rightarrow> nat option \<Rightarrow> SOCKADDR \<Rightarrow> GwPushData \<Rightarrow>
     nat option \<Rightarrow> DEVADDR \<Rightarrow> MessageQueueItem" where
  "uplink_item u svc time taskSocket srcAddr pushData parser a =
    (let g = rx_gatewayId (rxMetadata pushData);
         qi = MessageQueueItem_make u time g parser;
         t0 = (task qi)\<lparr>stage := TASK_STAGE_GATEWAY_REQUEST\<rparr>;
         t1 = (case svc of
                 None \<Rightarrow> t0
               | Some get \<Rightarrow>
                   t0\<lparr>deviceId := NetworkIdentity_set a (snd (get DEVICEID_default a)) (deviceId t0)\<rparr>);
         qi' = set_metadata g
                 (GatewayMetadata_rx taskSocket srcAddr METADATA_TYPE_RX (rxMetadata pushData) parser) qi
     in qi'\<lparr>task := t1\<lparr>task_gateway := GatewayIdentity_id g,
                       deviceId := (deviceId t1)\<lparr>nwi_devaddr := a\<rparr>,
                       repeats := 0, errorCode := 0\<rparr>,
            radioPacket := rxData pushData\<rparr>)"

definition putUplink ::
    "raw_memory \<Rightarrow> identity_get option \<Rightarrow> TASK_TIME \<Rightarrow> nat option \<Rightarrow> SOCKADDR \<Rightarrow> GwPushData \<Rightarrow>
     nat option \<Rightarrow> MessageQueue \<Rightarrow> bool \<times> MessageQueue" where
  "putUplink u svc time taskSocket srcAddr pushData parser q =
    (case storage_getAddr (rxData pushData) of
       None \<Rightarrow> (False, q)
     | Some a \<Rightarrow>
         let same = (case om_find a (uplinkMessages q) of
                       None \<Rightarrow> None
                     | Some i \<Rightarrow> if storage_eq (radioPacket i) (rxData pushData) then Some i else None)
         in (case same of
               Some i \<Rightarrow>
                 (False, q\<lparr>uplinkMessages :=
                     om_assign a
                       (set_metadata (rx_gatewayId (rxMetadata pushData))
                         (GatewayMetadata_rx taskSocket srcAddr METADATA_TYPE_RX
                            (rxMetadata pushData) parser) i)
                       (uplinkMessages q)\<rparr>)
             | None \<Rightarrow>
                 (True, q\<lparr>uplinkMessages :=
                     om_insert a (uplink_item u svc time taskSocket srcAddr pushData parser a)
                       (uplinkMessages q)\<rparr>)))"

text \<open>
  A downlink message is built for a task; \<open>get\<close> writes its array form, enciphered for the
  device, over the packet of the new item.  \<open>payloadSize\<close> of the builder is a byte.
\<close>

record DownlinkMessage =
  dm_msg :: LORAWAN_MESSAGE_STORAGE
  dm_task :: TaskDescriptor
  dm_payloadSize :: u8

definition DownlinkMessage_make ::
    "TaskDescriptor \<Rightarrow> u8 \<Rightarrow> bytes option \<Rightarrow> u8 \<Rightarrow> bytes option \<Rightarrow> u8 \<Rightarrow> DownlinkMessage" where
  "DownlinkMessage_make t fport payload n fopts foptsSize =
    \<lparr>dm_msg = DownlinkMessageBuilder (nwi_devaddr (deviceId t)) fport payload n fopts foptsSize,
     dm_task = t, dm_payloadSize = n + foptsSize\<rparr>"

definition downlink_item ::
    "cipher \<Rightarrow> bytes \<Rightarrow> raw_memory \<Rightarrow> TASK_TIME \<Rightarrow> DownlinkMessage \<Rightarrow> NetworkIdentity \<Rightarrow> u64 \<Rightarrow>
     nat option \<Rightarrow> MessageQueueItem" where
  "downlink_item E junk u time msg networkIdentity gwId proto =
    (let qi = MessageQueueItem_make u time gwId proto;
         (n, out, s) = storage_toArray E junk (Some (storage_memory (radioPacket qi))) 262
                         (Some (deviceId (dm_task msg))) (dm_msg msg);
         packet = storage_of_memory (the out);
         write_tx = (\<lambda>m. m\<lparr>gm_radio :=
           mem_write (mem_write (mem_write (gm_radio m) 0 (le_bytes 4 (0 :: u32))) 18 [1]) 22 [1]\<rparr>)
     in qi\<lparr>task := (task qi)\<lparr>deviceId := networkIdentity\<rparr>,
           radioPacket := packet\<lparr>psize := int (unat (dm_payloadSize msg))\<rparr>,
           metadata := map (\<lambda>(g, m). (g, if g = gwId then write_tx m else m)) (metadata qi)\<rparr>)"

definition putDownlink ::
    "cipher \<Rightarrow> bytes \<Rightarrow> raw_memory \<Rightarrow> TASK_TIME \<Rightarrow> DownlinkMessage \<Rightarrow> NetworkIdentity \<Rightarrow> u64 \<Rightarrow>
     nat option \<Rightarrow> MessageQueue \<Rightarrow> MessageQueue" where
  "putDownlink E junk u time msg networkIdentity gwId proto q =
    (let a = nwi_devaddr (deviceId (dm_task msg));
         q' = (case om_find a (downlinkMessages q) of
                 Some _ \<Rightarrow> q
               | None \<Rightarrow>
                   q\<lparr>downlinkMessages :=
                       om_insert a (downlink_item E junk u time msg networkIdentity gwId proto)
                         (downlinkMessages q)\<rparr>)
     in q'\<lparr>time2ResponseAddr := tas_push (storage_getAddr (dm_msg msg)) time (time2ResponseAddr q')\<rparr>)"

definition rmUplink :: "DEVADDR \<Rightarrow> MessageQueue \<Rightarrow> MessageQueue" where
  "rmUplink a q =
    (case om_find a (uplinkMessages q) of
       None \<Rightarrow> q | Some _ \<Rightarrow> q\<lparr>uplinkMessages := om_erase a (uplinkMessages q)\<rparr>)"

definition rmDownlink :: "DEVADDR \<Rightarrow> MessageQueue \<Rightarrow> MessageQueue" where
  "rmDownlink a q =
    (case om_find a (downlinkMessages q) of
       None \<Rightarrow> q | Some _ \<Rightarrow> q\<lparr>downlinkMessages := om_erase a (downlinkMessages q)\<rparr>)"

definition findUplink :: "DEVADDR \<Rightarrow> MessageQueue \<Rightarrow> MessageQueueItem option" where
  "findUplink a q = map_option snd (find (\<lambda>(k, _). k = a) (uplinkMessages q))"

definition findJoinRequest :: "JOIN_REQUEST_FRAME \<Rightarrow> MessageQueue \<Rightarrow> MessageQueueItem option" where
  "findJoinRequest f q =
    map_option snd (find (\<lambda>(_, i). case item_getJoinRequestFrame i of
        None \<Rightarrow> False | Some a \<Rightarrow> JOIN_REQUEST_eq a f) (joins q))"

text \<open>The loops that erase the items older than a time, and count them.\<close>

fun clear_old ::
    "TASK_TIME \<Rightarrow> (DEVADDR \<times> MessageQueueItem) list \<Rightarrow> nat \<times> (DEVADDR, MessageQueueItem) omap" where
  "clear_old since [] = (0, [])"
| "clear_old since ((a, i) # m) =
    (let (r, m') = clear_old since m
     in if tim i < since then (r + 1, m') else (r, (a, i) # m'))"

definition clearOldUplinkMessages :: "TASK_TIME \<Rightarrow> MessageQueue \<Rightarrow> nat \<times> MessageQueue" where
  "clearOldUplinkMessages since q =
    (let (r, m) = clear_old since (uplinkMessages q) in (r, q\<lparr>uplinkMessages := m\<rparr>))"

definition clearOldDownlinkMessages :: "TASK_TIME \<Rightarrow> MessageQueue \<Rightarrow> nat \<times> MessageQueue" where
  "clearOldDownlinkMessages since q =
    (let (r, m) = clear_old since (downlinkMessages q) in (r, q\<lparr>downlinkMessages := m\<rparr>))"

section \<open>Lemmas\<close>

abbreviation (input) "lsnr m \<equiv> rx_lsnr (gm_rx m)"

lemma gm_rx_make [simp]: "gm_rx (GatewayMetadata_rx s a t rx p) = rx"
  using rx_of_bytes_rx_bytes [of rx "[]"] by (simp add: gm_rx_def GatewayMetadata_rx_def)

lemma float_greater_not_nan: "float_greater a b \<Longrightarrow> \<not> float_nan a \<and> \<not> float_nan b"
  by (simp add: float_greater_def)

lemma float_not_greater:
  "\<not> float_greater a b \<Longrightarrow> \<not> float_nan b \<Longrightarrow> float_greater c b \<Longrightarrow> float_nan a \<or> float_greater c a"
  by (auto simp: float_greater_def)

lemma fold_best_step:
  assumes "\<not> float_nan f" "fold best_step xs (r, m, f) = (r', m', f')"
  shows "(\<forall>(_, x) \<in> set xs. \<not> float_greater (lsnr x) f) \<and> (r', m', f') = (r, m, f) \<or>
    (\<exists>pre post. xs = pre @ (r', m') # post \<and> f' = lsnr m' \<and> float_greater f' f \<and>
      (\<forall>(_, x) \<in> set pre. float_nan (lsnr x) \<or> float_greater f' (lsnr x)) \<and>
      (\<forall>(_, x) \<in> set post. \<not> float_greater (lsnr x) f'))"
  using assms
proof (induction xs arbitrary: r m f)
  case Nil
  then show ?case by simp
next
  case (Cons gx xs)
  obtain g x where gx: "gx = (g, x)" by fastforce
  show ?case
  proof (cases "float_greater (lsnr x) f")
    case True
    then have nan: "\<not> float_nan (lsnr x)" by (simp add: float_greater_not_nan)
    from True Cons.prems(2) gx
    have f: "fold best_step xs (g, x, lsnr x) = (r', m', f')" by (simp add: best_step_def)
    from Cons.IH [OF nan f] show ?thesis
    proof
      assume a: "(\<forall>(_, y) \<in> set xs. \<not> float_greater (lsnr y) (lsnr x)) \<and>
        (r', m', f') = (g, x, lsnr x)"
      show ?thesis
        using a True gx by (intro disjI2 exI [of _ "[]"] exI [of _ xs]) auto
    next
      assume "\<exists>pre post. xs = pre @ (r', m') # post \<and> f' = lsnr m' \<and> float_greater f' (lsnr x) \<and>
        (\<forall>(_, x) \<in> set pre. float_nan (lsnr x) \<or> float_greater f' (lsnr x)) \<and>
        (\<forall>(_, x) \<in> set post. \<not> float_greater (lsnr x) f')"
      then obtain pre post where "xs = pre @ (r', m') # post" "f' = lsnr m'"
        "float_greater f' (lsnr x)"
        "\<forall>(_, x) \<in> set pre. float_nan (lsnr x) \<or> float_greater f' (lsnr x)"
        "\<forall>(_, x) \<in> set post. \<not> float_greater (lsnr x) f'" by blast
      with True gx float_greater_trans [of f' "lsnr x" f] show ?thesis
        by (intro disjI2 exI [of _ "(g, x) # pre"] exI [of _ post]) auto
    qed
  next
    case False
    with Cons.prems(2) gx
    have f: "fold best_step xs (r, m, f) = (r', m', f')" by (simp add: best_step_def)
    from Cons.IH [OF Cons.prems(1) f] show ?thesis
    proof
      assume "(\<forall>(_, x) \<in> set xs. \<not> float_greater (lsnr x) f) \<and> (r', m', f') = (r, m, f)"
      with False gx show ?thesis by auto
    next
      assume "\<exists>pre post. xs = pre @ (r', m') # post \<and> f' = lsnr m' \<and> float_greater f' f \<and>
        (\<forall>(_, x) \<in> set pre. float_nan (lsnr x) \<or> float_greater f' (lsnr x)) \<and>
        (\<forall>(_, x) \<in> set post. \<not> float_greater (lsnr x) f')"
      then obtain pre post where p: "xs = pre @ (r', m') # post" "f' = lsnr m'" "float_greater f' f"
        "\<forall>(_, x) \<in> set pre. float_nan (lsnr x) \<or> float_greater f' (lsnr x)"
        "\<forall>(_, x) \<in> set post. \<not> float_greater (lsnr x) f'" by blast
      with False gx float_not_greater [OF False Cons.prems(1) p(3)] show ?thesis
        by (intro disjI2 exI [of _ "(g, x) # pre"] exI [of _ post]) auto
    qed
  qed
qed

text \<open>The invariant of the queue.\<close>

definition wf_item :: "DEVADDR \<Rightarrow> MessageQueueItem \<Rightarrow> bool" where
  "wf_item a i \<longleftrightarrow>
    storage_getAddr (radioPacket i) = Some a \<and> nwi_devaddr (deviceId (task i)) = a \<and>
    om_sorted (metadata i) \<and> metadata i \<noteq> [] \<and>
    (\<forall>(g, m) \<in> set (metadata i). rx_gatewayId (gm_rx m) = g)"

definition queue_inv :: "MessageQueue \<Rightarrow> bool" where
  "queue_inv q \<longleftrightarrow>
    om_sorted (uplinkMessages q) \<and> om_sorted (downlinkMessages q) \<and> joins q = [] \<and>
    (\<forall>(a, i) \<in> set (uplinkMessages q). wf_item a i) \<and>
    length (timeAddr (time2ResponseAddr q)) \<le> 1"

lemma queue_inv_empty [simp]: "queue_inv MessageQueue_empty"
  by (simp add: queue_inv_def MessageQueue_empty_def TimeAddrSet_empty_def)

lemma om_assign_not_Nil [simp]: "om_assign k v m \<noteq> []"
  by (induction k v m rule: om_assign.induct) auto

lemma wf_set_metadata:
  assumes "wf_item a i" "rx_gatewayId (gm_rx m) = g"
  shows "wf_item a (set_metadata g m i)"
  using assms set_om_assign [of g m "metadata i"]
  by (fastforce simp: wf_item_def set_metadata_def om_sorted_assign)

lemma wf_uplink_item:
  assumes "storage_getAddr (rxData p) = Some a"
  shows "wf_item a (uplink_item u svc time s src p parser a)"
  using assms
  by (auto simp: wf_item_def uplink_item_def set_metadata_def MessageQueueItem_make_def
      MessageQueueItem_time_def Let_def NetworkIdentity_set_def split: option.splits)

lemma om_insert_set: "set (om_insert k v m) \<subseteq> insert (k, v) (set m)"
  using set_om_assign [of k v m] by (auto simp: om_insert_def split: option.splits)

lemma clear_old_filter:
  "clear_old since m = (length (filter (\<lambda>(_, i). tim i < since) m), filter (\<lambda>(_, i). \<not> tim i < since) m)"
  by (induction m rule: clear_old.induct) (auto split: prod.splits)

lemma om_sorted_filter: "om_sorted m \<Longrightarrow> om_sorted (filter P m)"
  by (induction m) auto

lemma queue_inv_putUplink:
  assumes "queue_inv q"
  shows "queue_inv (snd (putUplink u svc time s src p parser q))"
proof (cases "storage_getAddr (rxData p)")
  case None
  with assms show ?thesis by (simp add: putUplink_def)
next
  case (Some a)
  have s: "om_sorted (uplinkMessages q)" using assms by (simp add: queue_inv_def)
  show ?thesis
  proof (cases "om_find a (uplinkMessages q)")
    case None
    with Some assms wf_uplink_item [OF Some]
      om_insert_set [of a "uplink_item u svc time s src p parser a" "uplinkMessages q"] s
    show ?thesis
      by (fastforce simp: putUplink_def queue_inv_def om_sorted_insert)
  next
    case f: (Some i)
    with s om_find_in_set [OF s] have i: "(a, i) \<in> set (uplinkMessages q)" by simp
    then have "wf_item a i" using assms by (auto simp: queue_inv_def)
    then have "wf_item a (set_metadata (rx_gatewayId (rxMetadata p))
        (GatewayMetadata_rx s src METADATA_TYPE_RX (rxMetadata p) parser) i)"
      by (rule wf_set_metadata) simp
    with Some f assms s set_om_assign [of a _ "uplinkMessages q"] show ?thesis
      by (fastforce simp: putUplink_def queue_inv_def om_sorted_assign om_insert_def)
  qed
qed

lemma queue_inv_clearOldUplink:
  "queue_inv q \<Longrightarrow> queue_inv (snd (clearOldUplinkMessages since q))"
  by (auto simp: queue_inv_def clearOldUplinkMessages_def clear_old_filter om_sorted_filter)

lemma queue_inv_clearOldDownlink:
  "queue_inv q \<Longrightarrow> queue_inv (snd (clearOldDownlinkMessages since q))"
  by (auto simp: queue_inv_def clearOldDownlinkMessages_def clear_old_filter om_sorted_filter)

lemma tas_push_length: "length (timeAddr s) \<le> 1 \<Longrightarrow> length (timeAddr (tas_push a t s)) \<le> 1"
  using tas_exec_length [of s _ "Push a t"] by simp

lemma tas_pop_length: "length (timeAddr s) \<le> 1 \<Longrightarrow> length (timeAddr (snd (snd (tas_pop f r t s)))) \<le> 1"
  using length_om_erase_le [of _ "timeAddr s"] by (fastforce simp: tas_pop_def split: list.splits)

lemma queue_inv_putDownlink:
  "queue_inv q \<Longrightarrow> queue_inv (putDownlink E junk u time msg ni g p q)"
  using tas_push_length [of "time2ResponseAddr q"]
  by (auto simp: queue_inv_def putDownlink_def Let_def om_sorted_insert split: option.splits)

lemma queue_inv_rm:
  "queue_inv q \<Longrightarrow> queue_inv (rmUplink a q)" "queue_inv q \<Longrightarrow> queue_inv (rmDownlink a q)"
  by (auto simp: queue_inv_def rmUplink_def rmDownlink_def om_sorted_erase split: option.splits)
    (auto simp: om_erase_def)

lemma storage_eq_refl: "storage_getAddr s = Some a \<Longrightarrow> storage_eq s s"
proof -
  assume g: "storage_getAddr s = Some a"
  have all: "t < 2 \<or> t > 5 \<or> t = 2 \<or> t = 3 \<or> t = 4 \<or> t = 5" for t :: u8
  proof -
    have "unat t < 2 \<or> unat t > 5 \<or> unat t = 2 \<or> unat t = 3 \<or> unat t = 4 \<or> unat t = 5" by arith
    then show ?thesis by (auto simp: word_less_nat_alt word_unat_eq_iff)
  qed
  then have "mtype s = MTYPE_JOIN_ACCEPT \<or> is_up (mtype s) \<or> is_down (mtype s)"
    using g all [of "mtype s"]
    by (auto simp: storage_getAddr_def is_up_def is_down_def not_less [symmetric] split: if_splits)
  then show ?thesis by (auto simp: storage_eq_def memcmp_refl)
qed

lemma getUplink_find:
  "om_sorted (uplinkMessages q) \<Longrightarrow> findUplink a q = getUplink a q"
proof -
  assume s: "om_sorted (uplinkMessages q)"
  have "map_option snd (find (\<lambda>(k, _). k = a) m) = map_of m a" for m :: "(DEVADDR \<times> MessageQueueItem) list"
    by (induction m) auto
  then show ?thesis using s by (simp add: findUplink_def getUplink_def om_find_map_of)
qed

lemma putUplink_frame [simp]:
  "downlinkMessages (snd (putUplink u svc time s src p parser q)) = downlinkMessages q"
  "joins (snd (putUplink u svc time s src p parser q)) = joins q"
  "time2ResponseAddr (snd (putUplink u svc time s src p parser q)) = time2ResponseAddr q"
  by (simp_all add: putUplink_def split: option.splits)

text \<open>The metadata of an item after receptions of its packet through several gateways.\<close>

record reception =
  rc_time :: TASK_TIME
  rc_socket :: "nat option"
  rc_addr :: SOCKADDR
  rc_rx :: SEMTECH_PROTOCOL_METADATA_RX
  rc_parser :: "nat option"

definition receive ::
    "raw_memory \<Rightarrow> identity_get option \<Rightarrow> LORAWAN_MESSAGE_STORAGE \<Rightarrow> reception \<Rightarrow> MessageQueue \<Rightarrow> MessageQueue" where
  "receive u svc packet r q =
    snd (putUplink u svc (rc_time r) (rc_socket r) (rc_addr r)
      \<lparr>rxData = packet, rxMetadata = rc_rx r\<rparr> (rc_parser r) q)"

definition reception_metadata :: "reception \<Rightarrow> u64 \<times> GatewayMetadata" where
  "reception_metadata r =
    (rx_gatewayId (rc_rx r),
     GatewayMetadata_rx (rc_socket r) (rc_addr r) METADATA_TYPE_RX (rc_rx r) (rc_parser r))"

lemma receive_again:
  assumes "queue_inv q" "storage_getAddr packet = Some a"
    and "getUplink a q = Some i" "radioPacket i = packet"
  shows "getUplink a (receive u svc packet r q) =
    Some (set_metadata (fst (reception_metadata r)) (snd (reception_metadata r)) i)"
  using assms storage_eq_refl [OF assms(2)]
  by (simp add: receive_def putUplink_def getUplink_def queue_inv_def om_simps reception_metadata_def)

lemma receive_many:
  assumes "queue_inv q" "storage_getAddr packet = Some a"
    and "getUplink a q = Some i" "radioPacket i = packet"
  shows "getUplink a (fold (receive u svc packet) rs q) =
    Some (i\<lparr>metadata := fold (\<lambda>(g, m). om_assign g m) (map reception_metadata rs) (metadata i)\<rparr>)"
  using assms
proof (induction rs arbitrary: q i)
  case (Cons r rs)
  have q: "queue_inv (receive u svc packet r q)"
    unfolding receive_def by (rule queue_inv_putUplink) (rule Cons.prems)
  from Cons.IH [OF q Cons.prems(2) receive_again [OF Cons.prems]] Cons.prems(4)
  show ?case by (simp add: set_metadata_def split_beta)
qed simp

lemma om_find_fold_assign:
  "om_sorted m \<Longrightarrow> om_find k (fold (\<lambda>(k, v). om_assign k v) kvs m) =
     (case map_of (rev kvs) k of Some v \<Rightarrow> Some v | None \<Rightarrow> om_find k m)"
proof (induction kvs arbitrary: m)
  case (Cons kv kvs)
  then show ?case
    by (cases kv) (auto simp: om_simps map_of_append map_add_def split: option.splits)
qed simp

text \<open>Some memory, for examples.\<close>

definition u0 :: raw_memory where
  "u0 = \<lparr>raw_task = \<lparr>stage = TASK_STAGE_RECEIVED, tstate = TASK_STATE_RETURNED, errorCode = 0,
     repeats = 0, deviceId = NetworkIdentity_default DEVICEID_default,
     task_gateway = GatewayIdentity_id 0\<rparr>, raw_radio = replicate 53 0\<rparr>"

section \<open>Properties\<close>

text \<open>C9: Storing a received packet into a queue in order has four outcomes.  A packet without an
  address (a join or rejoin request or a proprietary packet) is passed over and reported as not new.  The first
  packet of a device is queued under its address; the same packet through another gateway adds that
  gateway's metadata, or replaces them, and is no new packet; a different packet, while one of the
  device is queued, is reported as new and lost.  Nothing else in the queue changes: no uplink of
  another device, no downlink, no join request and no waiting answer.\<close>

theorem uplink_put_cases:
  assumes "queue_inv q"
  shows "let (isNew, q') = putUplink u svc time s src p parser q
    in (case storage_getAddr (rxData p) of
          None \<Rightarrow> \<not> isNew \<and> q' = q
        | Some a \<Rightarrow>
            (case getUplink a q of
               None \<Rightarrow> isNew \<and> getUplink a q' = Some (uplink_item u svc time s src p parser a)
             | Some i \<Rightarrow>
                 if storage_eq (radioPacket i) (rxData p) then
                   \<not> isNew \<and> getUplink a q' = Some (set_metadata (rx_gatewayId (rxMetadata p))
                     (GatewayMetadata_rx s src METADATA_TYPE_RX (rxMetadata p) parser) i)
                 else isNew \<and> q' = q) \<and>
            getUplink b q' = (if b = a then getUplink a q' else getUplink b q)) \<and>
       q' = q\<lparr>uplinkMessages := uplinkMessages q'\<rparr>"
proof -
  have so: "om_sorted (uplinkMessages q)" using assms by (simp add: queue_inv_def)
  show ?thesis
    using so by (auto simp: putUplink_def getUplink_def om_simps om_insert_def split: option.splits)
qed

theorem uplink_put_cases_witness:
  "let p = \<lparr>rxData = \<lparr>mhdr = 0x40, mdata = [4, 3, 2, 1] @ replicate 258 0, psize = 0\<rparr>,
            rxMetadata = rx_of_bytes (replicate 53 7)\<rparr>;
       (isNew, q') = putUplink u0 None 100 None SOCKADDR_zero p None MessageQueue_empty
   in (case storage_getAddr (rxData p) of
         None \<Rightarrow> \<not> isNew \<and> q' = MessageQueue_empty
       | Some a \<Rightarrow>
           (case getUplink a MessageQueue_empty of
              None \<Rightarrow> isNew \<and> getUplink a q' = Some (uplink_item u0 None 100 None SOCKADDR_zero p None a)
            | Some i \<Rightarrow>
                if storage_eq (radioPacket i) (rxData p) then
                  \<not> isNew \<and> getUplink a q' = Some (set_metadata (rx_gatewayId (rxMetadata p))
                    (GatewayMetadata_rx None SOCKADDR_zero METADATA_TYPE_RX (rxMetadata p) None) i)
                else isNew \<and> q' = MessageQueue_empty) \<and>
           getUplink 5 q' = (if 5 = a then getUplink a q' else getUplink 5 MessageQueue_empty)) \<and>
      q' = MessageQueue_empty\<lparr>uplinkMessages := uplinkMessages q'\<rparr>"
  unfolding Let_def [where 'a = GwPushData]
  by (rule uplink_put_cases) simp



text \<open>C21: The gateway chosen for a device is the one whose metadata have the highest ratio of signal
  to noise (\<open>lsnr\<close>, not the signal power), and of several with the same ratio the first in the order
  of identifiers.  A ratio that is not a number, or is not above the lowest finite number, never
  counts, and without any other the answer is the identifier 0 with the metadata \<open>none\<close> passed in.\<close>

theorem best_gateway_has_highest_ratio:
  "let (g, m) = getBestGatewayAddress none i
   in (\<exists>pre post. metadata i = pre @ (g, m) # post \<and> float_greater (lsnr m) FLOAT_LOWEST \<and>
         list_all (\<lambda>(_, x). float_nan (lsnr x) \<or> float_greater (lsnr m) (lsnr x)) pre \<and>
         list_all (\<lambda>(_, x). \<not> float_greater (lsnr x) (lsnr m)) post) \<or>
      g = 0 \<and> m = none \<and>
      list_all (\<lambda>(_, x). \<not> float_greater (lsnr x) FLOAT_LOWEST) (metadata i)"
proof -
  obtain g m f where f: "fold best_step (metadata i) (0, none, FLOAT_LOWEST) = (g, m, f)"
    by (metis prod_cases3)
  from fold_best_step [OF float_nan_lowest f] f show ?thesis
    by (fastforce simp: getBestGatewayAddress_def list_all_iff)
qed

text \<open>Clearing old messages removes exactly the uplink messages received before the given
  time, counts them, and leaves every other message and its place as it was.\<close>

theorem clear_old_uplink_partition:
  assumes "queue_inv q"
  shows "let (n, q') = clearOldUplinkMessages since q
   in getUplink a q' = (case getUplink a q of
        None \<Rightarrow> None | Some i \<Rightarrow> if tim i < since then None else Some i) \<and>
      n + length (uplinkMessages q') = length (uplinkMessages q) \<and>
      q' = q\<lparr>uplinkMessages := uplinkMessages q'\<rparr> \<and> queue_inv q'"
proof -
  let ?keep = "filter (\<lambda>(_, i). \<not> tim i < since) (uplinkMessages q)"
  have s: "om_sorted (uplinkMessages q)" using assms by (simp add: queue_inv_def)
  have "map_of (filter (\<lambda>(_, i). \<not> tim i < since) m) a =
      (case map_of m a of None \<Rightarrow> None | Some i \<Rightarrow> if tim i < since then None else Some i)"
    if "om_sorted m" for m :: "(DEVADDR, MessageQueueItem) omap"
    using that
  proof (induction m)
    case (Cons e m)
    moreover have "map_of m (fst e) = None" using Cons.prems by (cases e) (auto simp: map_of_eq_None_iff)
    ultimately show ?case by (cases e) (auto split: option.splits)
  qed simp
  moreover have "length (filter (\<lambda>(_, i). tim i < since) (uplinkMessages q)) + length ?keep =
      length (uplinkMessages q)"
    using sum_length_filter_compl [of "\<lambda>(_, i). tim i < since" "uplinkMessages q"]
    by (simp add: split_beta')
  ultimately show ?thesis
    using s queue_inv_clearOldUplink [OF assms, of since]
    by (simp add: clearOldUplinkMessages_def clear_old_filter getUplink_def om_find_map_of
        om_sorted_filter)
qed

theorem clear_old_uplink_partition_witness:
  "let (n, q') = clearOldUplinkMessages 10 MessageQueue_empty
   in getUplink 3 q' = (case getUplink 3 MessageQueue_empty of
        None \<Rightarrow> None | Some i \<Rightarrow> if tim i < 10 then None else Some i) \<and>
      n + length (uplinkMessages q') = length (uplinkMessages MessageQueue_empty) \<and>
      q' = MessageQueue_empty\<lparr>uplinkMessages := uplinkMessages q'\<rparr> \<and> queue_inv q'"
  by (rule clear_old_uplink_partition) simp

end
