(* ===== verification/Dispatcher.thy ===== *)
theory Dispatcher
  imports Message_Queue
begin

text \<open>
  The message dispatcher (\<open>lorawan/task/message-task-dispatcher.cpp\<close>): its handlers as
  functions from the dispatcher to the dispatcher they leave and the effects they have outside,
  and \<open>runUplink\<close>, the thread around them, as a step relation.  Virtual methods of protocol
  parsers and services are functions in records, as are the calls of the operating system.  A
  handler that follows a null pointer has no result (\<open>None\<close>).  Text written to the console
  is left out.
\<close>

section \<open>Sockets, services and parsers\<close>

datatype ENUM_SOCKET_ACCEPT = SA_NONE | SA_ACCEPT_REQUIRE | SA_ACCEPTED | SA_TIMER | SA_EVENTFD

record TaskSocket =
  ts_id :: nat
  ts_sock :: int
  ts_accept :: ENUM_SOCKET_ACCEPT
  ts_lastError :: int
  ts_customWrite :: bool

record GatewayPingTimeNSocket =
  ping_taskSocket :: "TaskSocket option"
  ping_tim :: TASK_TIME

record gateway_access =
  ga_get :: "GatewayIdentity \<Rightarrow> GatewayIdentity \<Rightarrow> code \<times> GatewayIdentity"
  ga_list :: "GatewayIdentity list \<Rightarrow> u32 \<Rightarrow> u8 \<Rightarrow> code \<times> GatewayIdentity list"

record DirectClient =
  svcIdentity :: "identity_get option"
  svcGateway :: "gateway_access option"

datatype pr_union = PR_push GwPushData | PR_pull GwPullData | PR_resp GwPullResp

record ParseResult =
  pr_tag :: u8
  pr_token :: u16
  pr_data :: pr_union
  pr_gwId :: u64
  pr_code :: u32

text \<open>
  A parser changes the packet it reads in place, so the packet is returned; an exception that
  leaves it is no result (\<open>None\<close>), and ends the program.  \<open>makePull\<close> returns a size and what the buffer of the given size holds.
\<close>

record ProtoGwParser =
  p_parse :: "ParseResult \<Rightarrow> bytes \<Rightarrow> TASK_TIME \<Rightarrow> (code \<times> ParseResult \<times> bytes) option"
  p_ack :: "nat \<Rightarrow> bytes \<Rightarrow> int \<times> bytes"
  p_makePull :: "nat \<Rightarrow> u64 \<Rightarrow> LORAWAN_MESSAGE_STORAGE \<times> TaskDescriptor \<Rightarrow> u16 \<Rightarrow>
    SEMTECH_PROTOCOL_METADATA_TX option \<Rightarrow> nat option \<Rightarrow> MessageQueueItem \<Rightarrow> int \<times> bytes"

section \<open>The dispatcher\<close>

datatype TASK_STATE = TASK_STOPPED | TASK_START | TASK_RUN | TASK_STOP

text \<open>
  \<open>d_timer\<close> is what the timer descriptor is set to.  Callbacks are known by whether they are
  set; the filter of raw data is the function itself.
\<close>

record Dispatcher =
  d_controlSocket :: "TaskSocket option"
  d_timerSocket :: bool
  d_timer :: "TASK_TIME option"
  d_appBridges :: "nat list"
  d_bestGateway :: "best_gateway_storage option option"
  d_queue :: MessageQueue
  d_sockets :: "TaskSocket list"
  d_state :: TASK_STATE
  d_onReceiveRawData :: "(bytes \<Rightarrow> TASK_TIME \<Rightarrow> bool) option"
  d_onPushData :: bool
  d_onPullResp :: bool
  d_onTxPkAck :: bool
  d_onError :: bool
  d_onStart :: bool
  d_onStop :: bool
  d_onGatewayPing :: bool
  d_parsers :: "nat list"
  d_regionalPlan :: "nat option"
  d_identityClient :: "DirectClient option"
  d_gatewaySocket :: "(u64, GatewayPingTimeNSocket) omap"

datatype effect =
    Control bytes
  | SendTo TaskSocket SOCKADDR bytes
  | CustomWrite TaskSocket "NetworkIdentity option" bytes
  | Confirmation u64 int bytes
  | Payload nat MessageQueueItem bool bool
  | On_push_data MessageQueueItem
  | On_pull_resp pr_union
  | On_tx_ack u32
  | On_error code
  | On_start
  | On_stop
  | On_gateway_ping u64 "TaskSocket option"
  | Bridge_done nat

text \<open>What surrounds the dispatcher: the system calls, the cipher, and memory not yet written.\<close>

record env =
  e_sendto :: "TaskSocket \<Rightarrow> SOCKADDR \<Rightarrow> bytes \<Rightarrow> int"
  e_settime :: "TASK_TIME \<Rightarrow> int"
  e_open :: "TaskSocket \<Rightarrow> int"
  e_bridge_init :: "nat \<Rightarrow> code"
  e_parser :: "nat \<Rightarrow> ProtoGwParser"
  e_cipher :: cipher
  e_stack :: bytes
  e_raw :: raw_memory
  e_freed :: "DEVADDR \<Rightarrow> DEVADDR"

definition on_queue :: "(MessageQueue \<Rightarrow> MessageQueue) \<Rightarrow> Dispatcher \<Rightarrow> Dispatcher" where
  "on_queue f d = d\<lparr>d_queue := f (d_queue d)\<rparr>"

section \<open>Handlers\<close>

definition send2uplink :: "Dispatcher \<Rightarrow> bytes \<Rightarrow> effect list" where
  "send2uplink d cmd = (if d_controlSocket d = None then [] else [Control cmd])"

definition prepareSendConfirmation ::
    "DEVADDR option \<Rightarrow> TASK_TIME \<Rightarrow> Dispatcher \<Rightarrow> Dispatcher" where
  "prepareSendConfirmation a receivedTime =
    on_queue (\<lambda>q. q\<lparr>time2ResponseAddr := tas_push a receivedTime (time2ResponseAddr q)\<rparr>)"

text \<open>\<open>get\<close> of the client's identity service, which the queue calls when there is a client.\<close>

definition client_get :: "Dispatcher \<Rightarrow> identity_get option option" where
  "client_get d =
    (case d_identityClient d of None \<Rightarrow> Some None | Some c \<Rightarrow> map_option Some (svcIdentity c))"

definition pushData ::
    "env \<Rightarrow> TaskSocket \<Rightarrow> SOCKADDR \<Rightarrow> GwPushData \<Rightarrow> TASK_TIME \<Rightarrow> nat \<Rightarrow> Dispatcher \<Rightarrow>
     (Dispatcher \<times> effect list) option" where
  "pushData env s addr p receivedTime parser d =
    (let put = (\<lambda>get. putUplink (e_raw env) get receivedTime (Some (ts_id s)) addr p (Some parser)
           (d_queue d));
         a = storage_getAddr (rxData p);
         run = (\<lambda>get.
           let d1 = on_queue (\<lambda>_. snd (put get)) d;
               e = (case a of Some a \<Rightarrow> send2uplink d1 (le_bytes 4 a) | None \<Rightarrow> [])
           in (if push_needConfirmation p then prepareSendConfirmation a receivedTime d1 else d1, e))
     in case client_get d of
          Some get \<Rightarrow> Some (run get)
        | None \<Rightarrow> if fst (put None) then None else Some (run None))"

text \<open>One turn of the loop of \<open>sendQueue\<close>: the datagram is composed in a 512 byte buffer and
  shown, and that is all that is done with it.\<close>

definition send_confirmation ::
    "env \<Rightarrow> u16 \<Rightarrow> DEVADDR \<Rightarrow> Dispatcher \<Rightarrow> Dispatcher \<times> effect list" where
  "send_confirmation env tok a d =
    (case om_find a (uplinkMessages (d_queue d)) of
       None \<Rightarrow> (d, [])
     | Some m \<Rightarrow>
         if item_needConfirmation m then
           let msg = (ConfirmationMessage (radioPacket m), task m);
               (g, gm) = getBestGatewayAddress (GatewayMetadata_default (raw_radio (e_raw env))) m;
               m' = m\<lparr>task := (task m)\<lparr>task_gateway := GatewayIdentity_id g\<rparr>\<rparr>;
               d1 = on_queue (\<lambda>q. q\<lparr>uplinkMessages := om_assign a m' (uplinkMessages q)\<rparr>) d
           in if g \<noteq> 0 then
                (d1\<lparr>d_bestGateway := map_option (map_option (\<lambda>st. snd (best_put st a g))) (d_bestGateway d1)\<rparr>,
                 case gm_parser gm of
                   None \<Rightarrow> []
                 | Some p \<Rightarrow>
                     let (sz, sb) = p_makePull (e_parser env p) 512 g msg tok (Some (gm_tx gm))
                           (d_regionalPlan d) m'
                     in [Confirmation g sz sb])
              else (d1, [])
         else (d, []))"

lemma send_confirmation_waiting [simp]:
  "time2ResponseAddr (d_queue (fst (send_confirmation env tok a d))) = time2ResponseAddr (d_queue d)"
  by (simp add: send_confirmation_def on_queue_def Let_def split: option.splits prod.splits)

lemma tas_pop_shrinks:
  "fst (tas_pop f r t s) \<Longrightarrow> length (timeAddr (snd (snd (tas_pop f r t s)))) < length (timeAddr s)"
  by (auto simp: tas_pop_def om_erase_def less_Suc_eq_le split: list.splits if_splits)

function sendQueue ::
    "env \<Rightarrow> TASK_TIME \<Rightarrow> u16 \<Rightarrow> Dispatcher \<Rightarrow> Dispatcher \<times> effect list" where
  "sendQueue env now tok d =
    (let (b, ta, s) = tas_pop (e_freed env) TimeAddr_default now (time2ResponseAddr (d_queue d));
         d1 = on_queue (\<lambda>q. q\<lparr>time2ResponseAddr := s\<rparr>) d
     in if b then
          let (d2, e) = send_confirmation env tok (ta_addr ta) d1;
              (d3, e') = sendQueue env now tok d2
          in (d3, e @ e')
        else (d1, []))"
  by pat_completeness auto

termination sendQueue
proof (relation "measure (\<lambda>(_, _, _, d). length (timeAddr (time2ResponseAddr (d_queue d))))", goal_cases)
  case 1
  then show ?case by simp
next
  case (2 env now tok d x b y ta s d1 u d2 e)
  have pop: "tas_pop (e_freed env) TimeAddr_default now (time2ResponseAddr (d_queue d)) = (b, ta, s)"
    using 2(1,2,3) by simp
  have "length (timeAddr s) < length (timeAddr (time2ResponseAddr (d_queue d)))"
    using tas_pop_shrinks [of "e_freed env" TimeAddr_default now "time2ResponseAddr (d_queue d)"] 2(5)
    unfolding pop by simp
  moreover have "d2 = fst (send_confirmation env tok (ta_addr ta) d1)"
    using 2(6,7) by (metis fst_conv)
  then have "time2ResponseAddr (d_queue d2) = s"
    using 2(4) by (simp add: on_queue_def)
  ultimately show ?case by simp
qed

declare sendQueue.simps [simp del]

text \<open>
  \<open>timerfd_settime\<close> returns 0 when it has set the timer; the caller takes 0 as failure.
\<close>

definition setStartupTime :: "env \<Rightarrow> TASK_TIME \<Rightarrow> Dispatcher \<Rightarrow> int \<times> Dispatcher" where
  "setStartupTime env t d =
    (e_settime env t, if e_settime env t = 0 then d\<lparr>d_timer := Some t\<rparr> else d)"

definition isTimeProcessQueueOrSetTimer ::
    "env \<Rightarrow> TASK_TIME \<Rightarrow> Dispatcher \<Rightarrow> (bool \<times> Dispatcher \<times> effect list) option" where
  "isTimeProcessQueueOrSetTimer env now d =
    (let w = waitTimeForAllGatewaysInMicroseconds now (time2ResponseAddr (d_queue d))
     in if w < 0 then Some (False, d, [])
        else if w < 9000 then Some (True, d, [])
        else if \<not> d_timerSocket d then None
        else
          let (r, d') = setStartupTime env (now + w * 1000) d
          in if r = 0 then Some (True, d', if d_onError d' then [On_error r] else [])
             else Some (False, d', []))"

definition sendDownlink ::
    "env \<Rightarrow> Dispatcher \<Rightarrow> u64 \<Rightarrow> NetworkIdentity option \<Rightarrow> bytes option \<Rightarrow> (int \<times> effect list) option" where
  "sendDownlink env d gwId networkIdentity buffer =
    (case buffer of
       None \<Rightarrow> Some (ERR_CODE_PARAM_INVALID, [])
     | Some buf \<Rightarrow>
         if buf = [] then Some (ERR_CODE_PARAM_INVALID, [])
         else
           (case Option.bind (om_find gwId (d_gatewaySocket d)) ping_taskSocket of
              None \<Rightarrow> Some (ERR_CODE_GATEWAY_NOT_FOUND, [])
            | Some s \<Rightarrow>
                map_option (\<lambda>ga.
                  let gw = GatewayIdentity_id gwId; (r, gw') = ga_get ga gw gw
                  in if r \<noteq> 0 then (r, [])
                     else if ts_customWrite s then (r, [CustomWrite s networkIdentity buf])
                     else
                       let r = e_sendto env s (sockaddr gw') buf
                       in (if r > 0 then 0 else r, [SendTo s (sockaddr gw') buf]))
                  (Option.bind (d_identityClient d) svcGateway)))"

definition sendACK ::
    "env \<Rightarrow> TaskSocket \<Rightarrow> SOCKADDR \<Rightarrow> bytes \<Rightarrow> nat option \<Rightarrow> int \<times> effect list" where
  "sendACK env s destAddr packet parser =
    (case parser of
       None \<Rightarrow> (ERR_CODE_SEND_ACK, [])
     | Some p \<Rightarrow>
         let (sz, ack) = p_ack (e_parser env p) 8 packet
         in if sz \<le> 0 then (sz, [])
            else (e_sendto env s destAddr (take (nat sz) ack), [SendTo s destAddr (take (nat sz) ack)]))"

text \<open>One gateway of the loops of \<open>sendQueuedDownlinkMessages\<close>: the token is 1, there are no
  transmission metadata, and the code of \<open>sendDownlink\<close> is ignored.\<close>

definition send_downlink_via ::
    "env \<Rightarrow> Dispatcher \<Rightarrow> nat \<Rightarrow> MessageQueueItem \<Rightarrow> u64 \<Rightarrow> effect list option" where
  "send_downlink_via env d proto it gw =
    (let (sz, buf) = p_makePull (e_parser env proto) 4096 gw (radioPacket it, task it) 1 None
           (d_regionalPlan d) it
     in if sz > 0 then map_option snd (sendDownlink env d gw (Some (deviceId (task it)))
           (Some (take (nat sz) buf)))
        else Some [])"

fun each :: "('a \<Rightarrow> effect list option) \<Rightarrow> 'a list \<Rightarrow> effect list option" where
  "each f [] = Some []"
| "each f (x # xs) = Option.bind (f x) (\<lambda>e. map_option (\<lambda>e'. e @ e') (each f xs))"

definition send_queued_downlink ::
    "env \<Rightarrow> Dispatcher \<Rightarrow> nat \<Rightarrow> MessageQueueItem \<Rightarrow> effect list option" where
  "send_queued_downlink env d proto it =
    (let gw = gatewayId (task_gateway (task it));
         gw = (if gw = 0
               then fst (getBestGatewayAddress (GatewayMetadata_default (raw_radio (e_raw env))) it)
               else gw)
     in if gw \<noteq> 0 then send_downlink_via env d proto it gw
        else
          Option.bind (Option.bind (d_identityClient d) svcGateway)
            (\<lambda>ga. each (\<lambda>g. send_downlink_via env d proto it (gatewayId g)) (snd (ga_list ga [] 0 10))))"

definition sendQueuedDownlinkMessages ::
    "env \<Rightarrow> nat \<Rightarrow> Dispatcher \<Rightarrow> (Dispatcher \<times> effect list) option" where
  "sendQueuedDownlinkMessages env proto d =
    map_option (\<lambda>e. (on_queue (\<lambda>q. q\<lparr>downlinkMessages := []\<rparr>) d, e))
      (each (\<lambda>(a, it). send_queued_downlink env d proto it) (downlinkMessages (d_queue d)))"

definition cleanupOldMessages :: "TASK_TIME \<Rightarrow> Dispatcher \<Rightarrow> Dispatcher" where
  "cleanupOldMessages now = on_queue (\<lambda>q. snd (clearOldUplinkMessages (now - 1000000000) q))"

definition downlink_task ::
    "env \<Rightarrow> Dispatcher \<Rightarrow> identity_get \<Rightarrow> best_gateway_storage \<Rightarrow> gateway_access option \<Rightarrow> DEVADDR \<Rightarrow>
     code + TaskDescriptor" where
  "downlink_task env d get best gws a =
    (case getUplink a (d_queue d) of
       Some item \<Rightarrow> Inr (task item)
     | None \<Rightarrow>
         let (r, did) = get DEVICEID_default a
         in if r \<noteq> 0 then Inl r
            else
              let td = TaskDescriptor_default (raw_task (e_raw env));
                  td = td\<lparr>deviceId := NetworkIdentity_assign did ((deviceId td)\<lparr>nwi_devaddr := a\<rparr>)\<rparr>;
                  gwId = best_get best a
              in if gwId \<noteq> 0 then Inr (td\<lparr>task_gateway := GatewayIdentity_id gwId\<rparr>)
                 else
                   (case gws of
                      None \<Rightarrow> Inl ERR_CODE_WRONG_PARAM
                    | Some ga \<Rightarrow>
                        let (r, ls) = ga_list ga [] 0 1
                        in if r < 0 then Inl ERR_CODE_WRONG_PARAM
                           else
                             (case ls of
                                [] \<Rightarrow> Inl ERR_CODE_WRONG_PARAM
                              | g # _ \<Rightarrow> Inr (td\<lparr>task_gateway := g\<rparr>))))"

text \<open>The guard \<open>payloadSize > 255\<close> of a byte is never true.\<close>

definition enqueueDownlink ::
    "env \<Rightarrow> TASK_TIME \<Rightarrow> DEVADDR \<Rightarrow> bytes option \<Rightarrow> bytes option \<Rightarrow> u8 \<Rightarrow> u8 \<Rightarrow> u8 \<Rightarrow> nat option \<Rightarrow>
     Dispatcher \<Rightarrow> code \<times> Dispatcher" where
  "enqueueDownlink env t a payload fOpts fPort n fOptsSize proto d =
    (if fOptsSize > 15 then (ERR_CODE_MAC_INVALID, d)
     else
       (case d_identityClient d of
          None \<Rightarrow> (ERR_CODE_WRONG_PARAM, d)
        | Some c \<Rightarrow>
            (case svcIdentity c of
               None \<Rightarrow> (ERR_CODE_WRONG_PARAM, d)
             | Some get \<Rightarrow>
                 (case Option.bind (d_bestGateway d) id of
                    None \<Rightarrow> (ERR_CODE_WRONG_PARAM, d)
                  | Some best \<Rightarrow>
                      (case downlink_task env d get best (svcGateway c) a of
                         Inl r \<Rightarrow> (r, d)
                       | Inr td \<Rightarrow>
                           (CODE_OK,
                            on_queue (putDownlink (e_cipher env) (e_stack env) (e_raw env) t
                              (DownlinkMessage_make td fPort payload n fOpts fOptsSize)
                              (deviceId td) (gatewayId (task_gateway td)) proto) d))))))"

definition gatewayPing ::
    "TASK_TIME \<Rightarrow> u64 \<Rightarrow> TaskSocket option \<Rightarrow> Dispatcher \<Rightarrow> Dispatcher \<times> effect list" where
  "gatewayPing now gwId s d =
    (d\<lparr>d_gatewaySocket := om_assign gwId \<lparr>ping_taskSocket = s, ping_tim = now\<rparr> (d_gatewaySocket d)\<rparr>,
     if d_onGatewayPing d then [On_gateway_ping gwId s] else [])"

text \<open>The packet is deciphered where it lies in the queue, before the bridges see it.\<close>

definition sendPayloadOverBridge ::
    "env \<Rightarrow> Dispatcher \<Rightarrow> MessageQueueItem \<Rightarrow> MessageQueueItem \<times> effect list" where
  "sendPayloadOverBridge env d item =
    (let micMatched = matchMic (e_cipher env) (e_stack env) (nwkSKey (nwi_devid (deviceId (task item))))
           (radioPacket item);
         (decoded, s) = storage_decode_identity (e_cipher env) (Some (deviceId (task item)))
           (radioPacket item);
         item' = item\<lparr>radioPacket := s\<rparr>
     in (item', map (\<lambda>b. Payload b item' decoded micMatched) (d_appBridges d)))"

definition on_address :: "env \<Rightarrow> DEVADDR \<Rightarrow> Dispatcher \<Rightarrow> Dispatcher \<times> effect list" where
  "on_address env a d =
    (case findUplink a (d_queue d) of
       None \<Rightarrow> (d, [])
     | Some item \<Rightarrow>
         let (item', e) = sendPayloadOverBridge env d item
         in (on_queue (\<lambda>q. q\<lparr>uplinkMessages := om_assign a item' (uplinkMessages q)\<rparr>) d,
             e @ (if d_onPushData d then [On_push_data item'] else [])))"

section \<open>Input\<close>

text \<open>A message a parser accepted.  The callback for acknowledgements is called unchecked.\<close>

definition on_parsed ::
    "env \<Rightarrow> TASK_TIME \<Rightarrow> TaskSocket \<Rightarrow> SOCKADDR \<Rightarrow> nat \<Rightarrow> ParseResult \<Rightarrow> bytes \<Rightarrow> Dispatcher \<Rightarrow>
     (Dispatcher \<times> effect list) option" where
  "on_parsed env now s src parser pr buf d =
    (if pr_tag pr = 0 then
       (case pr_data pr of PR_push p \<Rightarrow> pushData env s src p now parser d | _ \<Rightarrow> None)
     else if pr_tag pr = 2 then
       map_option (\<lambda>(r, e). (d, e)) (sendDownlink env d (pr_gwId pr) None (Some buf))
     else if pr_tag pr = 3 then
       Some (d, if d_onPullResp d then [On_pull_resp (pr_data pr)] else [])
     else if pr_tag pr = 5 then
       (if d_onTxPkAck d then Some (d, [On_tx_ack (pr_code pr)]) else None)
     else Some (d, []))"

fun parse_all ::
    "env \<Rightarrow> TASK_TIME \<Rightarrow> TaskSocket \<Rightarrow> SOCKADDR \<Rightarrow> nat list \<Rightarrow> ParseResult \<Rightarrow> bytes \<Rightarrow> Dispatcher \<Rightarrow>
     (Dispatcher \<times> ParseResult \<times> effect list) option" where
  "parse_all env now s src [] pr buf d = Some (d, pr, [])"
| "parse_all env now s src (p # ps) pr buf d =
    (case p_parse (e_parser env p) pr buf now of
       None \<Rightarrow> None
     | Some (c, pr', buf') \<Rightarrow>
         if c \<noteq> CODE_OK then parse_all env now s src ps pr' buf' d
         else
           Option.bind (on_parsed env now s src p pr' buf' d) (\<lambda>(d', e).
             map_option (\<lambda>(d2, pr2, e2). (d2, pr2, e @ snd (sendACK env s src buf' (Some p)) @ e2))
               (parse_all env now s src ps pr' buf' d')))"

text \<open>Of the bytes read, four are the address of a device that something happened to.\<close>

definition on_data ::
    "env \<Rightarrow> TASK_TIME \<Rightarrow> TaskSocket \<Rightarrow> SOCKADDR \<Rightarrow> bytes \<Rightarrow> Dispatcher \<Rightarrow> ParseResult \<Rightarrow>
     (Dispatcher \<times> ParseResult \<times> effect list) option" where
  "on_data env now s src buf d pr =
    (if length buf < 4 then Some (d, pr, [])
     else if length buf = 4 then
       let (d', e) = on_address env (from_le buf) d in Some (d', pr, e)
     else if (case d_onReceiveRawData d of None \<Rightarrow> False | Some f \<Rightarrow> \<not> f buf now) then Some (d, pr, [])
     else parse_all env now s src (d_parsers d) pr buf d)"

definition on_timer ::
    "env \<Rightarrow> TASK_TIME \<Rightarrow> ParseResult \<Rightarrow> Dispatcher \<Rightarrow> (Dispatcher \<times> effect list) option" where
  "on_timer env now pr d =
    (let (d1, e1) = sendQueue env now (pr_token pr) (d\<lparr>d_timer := None\<rparr>)
     in map_option (\<lambda>(_, d2, e2). (cleanupOldMessages now d2, e1 @ e2))
          (isTimeProcessQueueOrSetTimer env now d1))"

text \<open>What \<open>select\<close> found ready: a connection (with the new object's number and its
  descriptor), the timer, data, or an error of \<open>recvfrom\<close>.\<close>

datatype input =
    In_Accept TaskSocket nat int
  | In_Timer
  | In_Data TaskSocket SOCKADDR bytes
  | In_Error TaskSocket

definition TaskAcceptedSocket :: "TaskSocket \<Rightarrow> nat \<Rightarrow> int \<Rightarrow> TaskSocket" where
  "TaskAcceptedSocket s n cfd =
    \<lparr>ts_id = n, ts_sock = cfd, ts_accept = SA_ACCEPTED, ts_lastError = CODE_OK,
     ts_customWrite = ts_customWrite s\<rparr>"

record loop_state =
  l_disp :: Dispatcher
  l_pr :: ParseResult
  l_accepted :: "TaskSocket list"
  l_removed :: "TaskSocket list"

definition on_input ::
    "env \<Rightarrow> TASK_TIME \<Rightarrow> input \<Rightarrow> loop_state \<Rightarrow> (loop_state \<times> effect list) option" where
  "on_input env now i l =
    (case i of
       In_Accept s n cfd \<Rightarrow>
         Some (if cfd > 0 then l\<lparr>l_accepted := l_accepted l @ [TaskAcceptedSocket s n cfd]\<rparr> else l, [])
     | In_Timer \<Rightarrow> map_option (\<lambda>(d, e). (l\<lparr>l_disp := d\<rparr>, e)) (on_timer env now (l_pr l) (l_disp l))
     | In_Data s src buf \<Rightarrow>
         map_option (\<lambda>(d, pr, e). (l\<lparr>l_disp := d, l_pr := pr\<rparr>, e))
           (on_data env now s src buf (l_disp l) (l_pr l))
     | In_Error s \<Rightarrow>
         Some (if ts_accept s = SA_ACCEPTED then l\<lparr>l_removed := l_removed l @ [s]\<rparr> else l, []))"

fun on_inputs ::
    "env \<Rightarrow> TASK_TIME \<Rightarrow> input list \<Rightarrow> loop_state \<Rightarrow> (loop_state \<times> effect list) option" where
  "on_inputs env now [] l = Some (l, [])"
| "on_inputs env now (i # is) l =
    Option.bind (on_input env now i l) (\<lambda>(l', e).
      map_option (\<lambda>(l2, e2). (l2, e @ e2)) (on_inputs env now is l'))"

text \<open>\<open>getMaxDescriptor1\<close> sorts the sockets by descriptor.\<close>

definition getMaxDescriptor1 :: "Dispatcher \<Rightarrow> Dispatcher" where
  "getMaxDescriptor1 d = d\<lparr>d_sockets := sort_key ts_sock (d_sockets d)\<rparr>"

definition end_round :: "loop_state \<Rightarrow> Dispatcher" where
  "end_round l =
    (let d = l_disp l;
         d1 = (if l_accepted l = [] then d
               else getMaxDescriptor1 (d\<lparr>d_sockets := d_sockets d @ l_accepted l\<rparr>))
     in if l_removed l = [] then d1
        else getMaxDescriptor1
          (d1\<lparr>d_sockets := fold (\<lambda>s ss. remove1 s ss) (l_removed l) (d_sockets d1)\<rparr>))"

definition round ::
    "env \<Rightarrow> TASK_TIME \<Rightarrow> input list \<Rightarrow> Dispatcher \<Rightarrow> ParseResult \<Rightarrow>
     (Dispatcher \<times> ParseResult \<times> effect list) option" where
  "round env now is d pr =
    map_option (\<lambda>(l, e). (end_round l, l_pr l, e))
      (on_inputs env now is \<lparr>l_disp = d, l_pr = pr, l_accepted = [], l_removed = []\<rparr>)"

definition on_timeout :: "env \<Rightarrow> TASK_TIME \<Rightarrow> Dispatcher \<Rightarrow> (Dispatcher \<times> effect list) option" where
  "on_timeout env now d =
    map_option (\<lambda>(d', e). (cleanupOldMessages now d', e))
      (case d_parsers d of
         [] \<Rightarrow> Some (d, [])
       | p # _ \<Rightarrow> sendQueuedDownlinkMessages env p d)"

section \<open>Opening and closing\<close>

fun open_loop :: "env \<Rightarrow> TaskSocket list \<Rightarrow> bool \<times> TaskSocket list" where
  "open_loop env [] = (True, [])"
| "open_loop env (s # ss) =
    (if ts_lastError s \<noteq> 0 then (False, s # ss)
     else
       let s' = s\<lparr>ts_sock := e_open env s\<rparr>
       in if ts_sock s' = - 1 then (False, s' # ss)
          else let (r, ss') = open_loop env ss in (r, s' # ss'))"

text \<open>The timer is opened once more after the loop; a new timer is not set.\<close>

definition openSockets :: "env \<Rightarrow> Dispatcher \<Rightarrow> bool \<times> Dispatcher" where
  "openSockets env d =
    (let (r, ss) = open_loop env (d_sockets d);
         ss' = (if d_timerSocket d
                then map (\<lambda>s. if ts_accept s = SA_TIMER then s\<lparr>ts_sock := e_open env s\<rparr> else s) ss
                else ss)
     in (r, d\<lparr>d_sockets := ss', d_timer := None\<rparr>))"

definition closeSockets :: "Dispatcher \<Rightarrow> Dispatcher" where
  "closeSockets d =
    d\<lparr>d_sockets := map (\<lambda>s. s\<lparr>ts_sock := - 1\<rparr>) (d_sockets d), d_timerSocket := False,
      d_timer := None\<rparr>"

text \<open>A bridge that fails to start is reported, without a check of the callback, and dropped.\<close>

fun init_loop :: "env \<Rightarrow> bool \<Rightarrow> nat list \<Rightarrow> (nat list \<times> effect list) option" where
  "init_loop env cb [] = Some ([], [])"
| "init_loop env cb (b # bs) =
    (let r = e_bridge_init env b
     in if r \<noteq> 0 then
          (if cb then map_option (\<lambda>(bs', e). (bs', On_error r # e)) (init_loop env cb bs) else None)
        else map_option (\<lambda>(bs', e). (b # bs', e)) (init_loop env cb bs))"

definition initBridges :: "env \<Rightarrow> Dispatcher \<Rightarrow> (Dispatcher \<times> effect list) option" where
  "initBridges env d =
    map_option (\<lambda>(bs, e). (d\<lparr>d_appBridges := bs\<rparr>, e)) (init_loop env (d_onError d) (d_appBridges d))"

definition doneBridges :: "Dispatcher \<Rightarrow> effect list" where
  "doneBridges d = map Bridge_done (d_appBridges d)"

section \<open>The thread\<close>

text \<open>
  \<open>Idle\<close>: no thread runs; \<open>Opening\<close>: before \<open>state = TASK_RUN\<close>; \<open>Looping\<close>: at
  the head of the loop; \<open>Closing\<close>: after it.
\<close>

datatype pc = Idle | Opening | Looping | Closing

record thread =
  th_pc :: pc
  th_disp :: Dispatcher
  th_pr :: ParseResult

definition ParseResult_default :: "ParseResult \<Rightarrow> ParseResult" where
  "ParseResult_default u = u\<lparr>pr_tag := 0, pr_token := 0, pr_code := 0\<rparr>"

text \<open>An input can be there when its socket is watched, the timer when its time has come.\<close>

definition input_ready :: "TASK_TIME \<Rightarrow> Dispatcher \<Rightarrow> input \<Rightarrow> bool" where
  "input_ready now d i =
    (case i of
       In_Accept s _ _ \<Rightarrow> s \<in> set (d_sockets d) \<and> ts_accept s = SA_ACCEPT_REQUIRE
     | In_Timer \<Rightarrow>
         (case d_timer d of None \<Rightarrow> False | Some t \<Rightarrow> t \<le> now)
     | In_Data s _ _ \<Rightarrow> s \<in> set (d_sockets d) \<and> ts_accept s \<notin> {SA_ACCEPT_REQUIRE, SA_TIMER}
     | In_Error s \<Rightarrow> s \<in> set (d_sockets d))"

inductive thread_step :: "env \<Rightarrow> thread \<Rightarrow> effect list \<Rightarrow> thread \<Rightarrow> bool" for env where
  no_sockets: "th_pc t = Opening \<Longrightarrow> d_sockets (th_disp t) = [] \<Longrightarrow>
    thread_step env t [] (t\<lparr>th_pc := Idle, th_disp := (th_disp t)\<lparr>d_state := TASK_STOPPED\<rparr>\<rparr>)"
| open_fails: "th_pc t = Opening \<Longrightarrow> d_sockets (th_disp t) \<noteq> [] \<Longrightarrow>
    openSockets env (th_disp t) = (False, d) \<Longrightarrow>
    thread_step env t [] (t\<lparr>th_pc := Idle, th_disp := (closeSockets d)\<lparr>d_state := TASK_STOPPED\<rparr>\<rparr>)"
| open_succeeds: "th_pc t = Opening \<Longrightarrow> d_sockets (th_disp t) \<noteq> [] \<Longrightarrow>
    openSockets env (th_disp t) = (True, d) \<Longrightarrow>
    initBridges env (d\<lparr>d_state := TASK_RUN\<rparr>) = Some (d', e) \<Longrightarrow>
    thread_step env t (e @ (if d_onStart d' then [On_start] else []))
      (t\<lparr>th_pc := Looping, th_disp := getMaxDescriptor1 d', th_pr := ParseResult_default (th_pr t)\<rparr>)"
| timeout: "th_pc t = Looping \<Longrightarrow> d_state (th_disp t) = TASK_RUN \<Longrightarrow>
    on_timeout env now (th_disp t) = Some (d, e) \<Longrightarrow> thread_step env t e (t\<lparr>th_disp := d\<rparr>)"
| inputs: "th_pc t = Looping \<Longrightarrow> d_state (th_disp t) = TASK_RUN \<Longrightarrow>
    list_all (input_ready now (th_disp t)) is \<Longrightarrow>
    round env now is (th_disp t) (th_pr t) = Some (d, pr, e) \<Longrightarrow>
    thread_step env t e (t\<lparr>th_disp := d, th_pr := pr\<rparr>)"
| select_error: "th_pc t = Looping \<Longrightarrow> d_state (th_disp t) = TASK_RUN \<Longrightarrow>
    thread_step env t [] (t\<lparr>th_pc := Closing\<rparr>)"
| leave: "th_pc t = Looping \<Longrightarrow> d_state (th_disp t) \<noteq> TASK_RUN \<Longrightarrow>
    thread_step env t [] (t\<lparr>th_pc := Closing\<rparr>)"
| finish: "th_pc t = Closing \<Longrightarrow>
    thread_step env t
      (doneBridges (th_disp t) @ (if d_onStop (th_disp t) then [On_stop] else []))
      (t\<lparr>th_pc := Idle, th_disp := (closeSockets (th_disp t))\<lparr>d_state := TASK_STOPPED\<rparr>\<rparr>)"

text \<open>Calls from other threads, between the steps of the thread.\<close>

inductive call_step :: "env \<Rightarrow> thread \<Rightarrow> effect list \<Rightarrow> thread \<Rightarrow> bool" for env where
  startUplink: "th_pc t = Idle \<Longrightarrow> d_state (th_disp t) \<noteq> TASK_RUN \<Longrightarrow>
    call_step env t [] (t\<lparr>th_pc := Opening, th_disp := (th_disp t)\<lparr>d_state := TASK_START\<rparr>\<rparr>)"
| stopUplink: "d_state (th_disp t) \<noteq> TASK_STOPPED \<Longrightarrow>
    call_step env t (send2uplink (th_disp t) [0x71])
      (t\<lparr>th_disp := (th_disp t)\<lparr>d_state := TASK_STOP\<rparr>\<rparr>)"
| enqueue: "enqueueDownlink env tm a payload fOpts fPort n fOptsSize proto (th_disp t) = (c, d) \<Longrightarrow>
    call_step env t [] (t\<lparr>th_disp := d\<rparr>)"
| ping: "gatewayPing now gwId s (th_disp t) = (d, e) \<Longrightarrow> call_step env t e (t\<lparr>th_disp := d\<rparr>)"

inductive reaches :: "env \<Rightarrow> thread \<Rightarrow> effect list \<Rightarrow> thread \<Rightarrow> bool" for env where
  stay: "reaches env t [] t"
| thread: "reaches env t tr t1 \<Longrightarrow> thread_step env t1 e t2 \<Longrightarrow> reaches env t (tr @ e) t2"
| call: "reaches env t tr t1 \<Longrightarrow> call_step env t1 e t2 \<Longrightarrow> reaches env t (tr @ e) t2"

section \<open>No timer, no confirmation\<close>

fun confirms :: "effect \<Rightarrow> bool" where
  "confirms (Confirmation g sz buf) = True"
| "confirms _ = False"

definition quiet :: "effect list \<Rightarrow> bool" where
  "quiet e \<longleftrightarrow> filter confirms e = []"

lemma quiet_simps [simp]:
  "quiet []" "quiet (x # e) \<longleftrightarrow> \<not> confirms x \<and> quiet e" "quiet (e @ e') \<longleftrightarrow> quiet e \<and> quiet e'"
  by (simp_all add: quiet_def)

lemma quiet_map: "(\<And>x. \<not> confirms (f x)) \<Longrightarrow> quiet (map f xs)"
  by (induction xs) auto

named_theorems keeps \<open>handlers leave the timer alone and confirm nothing\<close>

lemma on_queue_timer [simp]: "d_timer (on_queue f d) = d_timer d"
  by (simp add: on_queue_def)

lemma quiet_send2uplink [simp]: "quiet (send2uplink d cmd)"
  by (simp add: send2uplink_def)

lemma pushData_keeps [keeps]:
  "pushData env s src p now parser d = Some (d', e) \<Longrightarrow> d_timer d' = d_timer d \<and> quiet e"
  by (auto simp: pushData_def prepareSendConfirmation_def Let_def split: option.splits if_splits)

lemma sendDownlink_keeps [keeps]: "sendDownlink env d gw ni buf = Some (r, e) \<Longrightarrow> quiet e"
  by (auto simp: sendDownlink_def Let_def split_beta split: option.splits if_splits)

lemma sendACK_keeps [keeps]: "quiet (snd (sendACK env s src buf p))"
  by (auto simp: sendACK_def split: option.splits prod.splits)

lemma on_parsed_keeps [keeps]:
  "on_parsed env now s src p pr buf d = Some (d', e) \<Longrightarrow> d_timer d' = d_timer d \<and> quiet e"
  by (auto simp: on_parsed_def dest: pushData_keeps sendDownlink_keeps
      split: pr_union.splits if_splits)

lemma parse_all_keeps [keeps]:
  "parse_all env now s src ps pr buf d = Some (d', pr', e) \<Longrightarrow> d_timer d' = d_timer d \<and> quiet e"
proof (induction ps arbitrary: pr buf d d' pr' e)
  case (Cons p ps)
  from Cons.prems obtain c pr1 buf1 where p: "p_parse (e_parser env p) pr buf now = Some (c, pr1, buf1)"
    by (auto split: option.splits)
  show ?case
  proof (cases "c = CODE_OK")
    case False
    with Cons p show ?thesis by simp
  next
    case True
    with Cons.prems p obtain d1 e1 d2 pr2 e2 where
      o: "on_parsed env now s src p pr1 buf1 d = Some (d1, e1)"
      and r: "parse_all env now s src ps pr1 buf1 d1 = Some (d2, pr2, e2)"
      and "d' = d2" "e = e1 @ snd (sendACK env s src buf1 (Some p)) @ e2"
      by (auto simp: bind_eq_Some_conv)
    with Cons.IH [OF r] on_parsed_keeps [OF o] sendACK_keeps
    show ?thesis by simp
  qed
qed simp

lemma on_address_keeps [keeps]:
  "on_address env a d = (d', e) \<Longrightarrow> d_timer d' = d_timer d \<and> quiet e"
  by (auto simp: on_address_def sendPayloadOverBridge_def Let_def split_beta quiet_map
      split: option.splits)

lemma on_data_keeps [keeps]:
  "on_data env now s src buf d pr = Some (d', pr', e) \<Longrightarrow> d_timer d' = d_timer d \<and> quiet e"
  by (auto simp: on_data_def dest: on_address_keeps parse_all_keeps split: if_splits prod.splits)

lemma on_input_keeps [keeps]:
  "on_input env now i l = Some (l', e) \<Longrightarrow> i \<noteq> In_Timer \<Longrightarrow>
   d_timer (l_disp l') = d_timer (l_disp l) \<and> quiet e"
  by (auto simp: on_input_def dest: on_data_keeps split: input.splits if_splits)

lemma on_inputs_keeps [keeps]:
  "on_inputs env now is l = Some (l', e) \<Longrightarrow> In_Timer \<notin> set is \<Longrightarrow>
   d_timer (l_disp l') = d_timer (l_disp l) \<and> quiet e"
proof (induction env now "is" l arbitrary: l' e rule: on_inputs.induct)
  case (2 env now i "is" l)
  from 2(2) obtain l1 e1 l2 e2 where i: "on_input env now i l = Some (l1, e1)"
    and r: "on_inputs env now is l1 = Some (l2, e2)" and "l' = l2" "e = e1 @ e2"
    by (auto simp: bind_eq_Some_conv)
  with 2(1) [OF i refl r] 2(3) on_input_keeps [OF i] show ?case by auto
qed simp

lemma end_round_timer [simp]: "d_timer (end_round l) = d_timer (l_disp l)"
  by (simp add: end_round_def Let_def getMaxDescriptor1_def)

lemma ready_no_timer:
  "d_timer d = None \<Longrightarrow> list_all (input_ready now d) is \<Longrightarrow> In_Timer \<notin> set is"
  by (auto simp: list_all_iff input_ready_def)

lemma round_keeps [keeps]:
  "round env now is d pr = Some (d', pr', e) \<Longrightarrow> In_Timer \<notin> set is \<Longrightarrow>
   d_timer d' = d_timer d \<and> quiet e"
  by (auto simp: round_def dest: on_inputs_keeps)

lemma each_quiet:
  "each f xs = Some e \<Longrightarrow> (\<And>x e. f x = Some e \<Longrightarrow> quiet e) \<Longrightarrow> quiet e"
  by (induction f xs arbitrary: e rule: each.induct) (auto simp: bind_eq_Some_conv)

lemma send_downlink_via_keeps [keeps]: "send_downlink_via env d p it g = Some e \<Longrightarrow> quiet e"
  by (auto simp: send_downlink_via_def dest: sendDownlink_keeps split: prod.splits if_splits)

lemma send_queued_downlink_keeps [keeps]: "send_queued_downlink env d p it = Some e \<Longrightarrow> quiet e"
  by (auto simp: send_queued_downlink_def Let_def bind_eq_Some_conv
      dest: send_downlink_via_keeps each_quiet split: if_splits)

lemma on_timeout_keeps [keeps]:
  "on_timeout env now d = Some (d', e) \<Longrightarrow> d_timer d' = d_timer d \<and> quiet e"
  by (auto simp: on_timeout_def cleanupOldMessages_def sendQueuedDownlinkMessages_def
      dest: each_quiet [OF _ send_queued_downlink_keeps] split: list.splits)
    (auto dest!: each_quiet dest: send_queued_downlink_keeps)

lemma openSockets_timer [simp]: "openSockets env d = (r, d') \<Longrightarrow> d_timer d' = None"
  by (auto simp: openSockets_def split: prod.splits)

lemma init_loop_keeps: "init_loop env cb bs = Some (bs', e) \<Longrightarrow> quiet e"
  by (induction env cb bs arbitrary: bs' e rule: init_loop.induct)
    (auto simp: Let_def split: if_splits)

lemma initBridges_keeps [keeps]:
  "initBridges env d = Some (d', e) \<Longrightarrow> d_timer d' = d_timer d \<and> quiet e"
  by (auto simp: initBridges_def dest: init_loop_keeps)

lemma enqueue_timer: "enqueueDownlink env tm a x f p n k pr d = (c, d') \<Longrightarrow> d_timer d' = d_timer d"
  by (auto simp: enqueueDownlink_def split: if_splits option.splits sum.splits)

lemma thread_step_keeps:
  assumes "thread_step env t e t'" "d_timer (th_disp t) = None"
  shows "d_timer (th_disp t') = None \<and> quiet e"
  using assms
  by (induction rule: thread_step.induct)
    (auto simp: closeSockets_def getMaxDescriptor1_def doneBridges_def quiet_map
      dest: initBridges_keeps on_timeout_keeps round_keeps ready_no_timer)

lemma call_step_keeps:
  assumes "call_step env t e t'" "d_timer (th_disp t) = None"
  shows "d_timer (th_disp t') = None \<and> quiet e"
  using assms
  by (induction rule: call_step.induct)
    (auto simp: gatewayPing_def dest: enqueue_timer split: if_splits)

lemma reaches_keeps:
  assumes "reaches env t tr t'" "d_timer (th_disp t) = None"
  shows "d_timer (th_disp t') = None \<and> quiet tr"
  using assms
  by (induction rule: reaches.induct) (auto dest: thread_step_keeps call_step_keeps)

section \<open>The queue stays well formed\<close>

text \<open>A packet keeps its address when it is deciphered in place.\<close>

lemma getAddr_decode:
  assumes "storage_getAddr s = Some a" "23 \<le> length (mdata s)"
  shows "storage_getAddr (snd (storage_decode_identity E i s)) = Some a"
    and "length (mdata s) \<le> length (mdata (snd (storage_decode_identity E i s)))"
proof -
  let ?k = "st_payload_offset (mdata s)"
  have k: "8 \<le> ?k" "?k \<le> length (mdata s)"
    using st_payload_offset_bounds [of "mdata s"] assms(2) by auto
  have "mem_read (mdata (crypt_payload E dir x key s)) p 4 = mem_read (mdata s) p 4" if "p + 4 \<le> 8" for dir x key p
    using k that by (simp add: crypt_payload_def Let_def mem_read_write_before)
  moreover have "mhdr (crypt_payload E dir x key s) = mhdr s" for dir x key
    by (simp add: crypt_payload_def Let_def)
  ultimately show "storage_getAddr (snd (storage_decode_identity E i s)) = Some a"
    using assms(1)
    by (auto simp: storage_decode_identity_def storage_decode_def storage_getAddr_def st_devaddr_def
        is_up_def is_down_def split: option.splits if_splits)
  have "length (mdata s) \<le> length (mem_write (mdata s) ?k x)" for x
    using k(2) by (simp add: mem_write_def)
  then show "length (mdata s) \<le> length (mdata (snd (storage_decode_identity E i s)))"
    by (auto simp: storage_decode_identity_def storage_decode_def crypt_payload_def Let_def
        split: option.splits)
qed

definition roomy :: "MessageQueue \<Rightarrow> bool" where
  "roomy q \<longleftrightarrow> (\<forall>(a, i) \<in> set (uplinkMessages q). 23 \<le> length (mdata (radioPacket i)))"

definition disp_inv :: "Dispatcher \<Rightarrow> bool" where
  "disp_inv d \<longleftrightarrow> queue_inv (d_queue d) \<and> roomy (d_queue d)"

text \<open>Parsers deliver packets of the size of the type.\<close>

definition env_ok :: "env \<Rightarrow> bool" where
  "env_ok env \<longleftrightarrow> (\<forall>p pr buf now. case p_parse (e_parser env p) pr buf now of
     None \<Rightarrow> True
   | Some (c, pr', buf') \<Rightarrow> c \<noteq> CODE_OK \<or> pr_tag pr' \<noteq> 0 \<or>
       (case pr_data pr' of PR_push g \<Rightarrow> length (mdata (rxData g)) = 262 | _ \<Rightarrow> True))"

lemma disp_inv_queue [simp]:
  "disp_inv (d\<lparr>d_timer := x1\<rparr>) = disp_inv d" "disp_inv (d\<lparr>d_bestGateway := x2\<rparr>) = disp_inv d"
  "disp_inv (d\<lparr>d_sockets := x3\<rparr>) = disp_inv d" "disp_inv (d\<lparr>d_state := x4\<rparr>) = disp_inv d"
  "disp_inv (d\<lparr>d_appBridges := x5\<rparr>) = disp_inv d" "disp_inv (d\<lparr>d_timerSocket := x6\<rparr>) = disp_inv d"
  "disp_inv (d\<lparr>d_gatewaySocket := x7\<rparr>) = disp_inv d"
  by (simp_all add: disp_inv_def)

lemma disp_inv_on_queue:
  "disp_inv d \<Longrightarrow> queue_inv (f (d_queue d)) \<Longrightarrow> roomy (f (d_queue d)) \<Longrightarrow> disp_inv (on_queue f d)"
  by (simp add: disp_inv_def on_queue_def)

lemma om_set_assign_mono: "(\<forall>(k, v) \<in> set m. P k v) \<Longrightarrow> P k v \<Longrightarrow> \<forall>(k, v) \<in> set (om_assign k v m). P k v"
  using set_om_assign [of k v m] by fastforce

lemma om_set_insert_mono: "(\<forall>(k, v) \<in> set m. P k v) \<Longrightarrow> P k v \<Longrightarrow> \<forall>(k, v) \<in> set (om_insert k v m). P k v"
  using om_insert_set [of k v m] by fastforce

lemma om_find_set: "om_sorted m \<Longrightarrow> om_find k m = Some v \<Longrightarrow> \<forall>(k, v) \<in> set m. P k v \<Longrightarrow> P k v"
  by (auto simp: om_find_in_set)

lemma roomy_putUplink:
  assumes "queue_inv q" "roomy q" "length (mdata (rxData p)) = 262"
  shows "roomy (snd (putUplink u svc time s src p parser q))"
proof -
  have so: "om_sorted (uplinkMessages q)" using assms(1) by (simp add: queue_inv_def)
  have new: "23 \<le> length (mdata (radioPacket (uplink_item u svc time s src p parser a)))" for a
    using assms(3) by (simp add: uplink_item_def Let_def)
  have old: "23 \<le> length (mdata (radioPacket (set_metadata g m i)))"
    if "om_find a (uplinkMessages q) = Some i" for a i g m
    using om_find_set [OF so that] assms(2) by (auto simp: roomy_def set_metadata_def)
  show ?thesis
    using assms(2) new old
    by (auto simp: putUplink_def roomy_def split: option.splits
        intro!: om_set_assign_mono [where P = "\<lambda>a i. 23 \<le> length (mdata (radioPacket i))", THEN bspec]
          om_set_insert_mono [where P = "\<lambda>a i. 23 \<le> length (mdata (radioPacket i))", THEN bspec])
      (fastforce dest: subsetD [OF set_om_assign] subsetD [OF om_insert_set])+
qed

named_theorems inv_intros \<open>handlers keep the queue well formed\<close>

lemma disp_inv_prepare [inv_intros]: "disp_inv d \<Longrightarrow> disp_inv (prepareSendConfirmation a t d)"
  using tas_push_length [of "time2ResponseAddr (d_queue d)" a t]
  by (simp add: disp_inv_def prepareSendConfirmation_def on_queue_def queue_inv_def roomy_def)

lemma pushData_inv [inv_intros]:
  assumes "disp_inv d" "length (mdata (rxData p)) = 262"
    and "pushData env s src p now parser d = Some (d', e)"
  shows "disp_inv d'"
proof -
  have put: "disp_inv (on_queue (\<lambda>_. snd (putUplink u get now x src p y (d_queue d))) d)" for u get x y
    using assms(1,2) by (simp add: disp_inv_def on_queue_def queue_inv_putUplink roomy_putUplink)
  then show ?thesis
    using assms(3)
    by (auto simp: pushData_def Let_def intro: disp_inv_prepare split: option.splits if_splits)
qed

lemma on_parsed_inv [inv_intros]:
  assumes "disp_inv d" "on_parsed env now s src p pr buf d = Some (d', e)"
    and "pr_tag pr \<noteq> 0 \<or> (case pr_data pr of PR_push g \<Rightarrow> length (mdata (rxData g)) = 262 | _ \<Rightarrow> True)"
  shows "disp_inv d'"
  using assms by (auto simp: on_parsed_def intro: pushData_inv split: pr_union.splits if_splits)

lemma parse_all_inv [inv_intros]:
  "env_ok env \<Longrightarrow> disp_inv d \<Longrightarrow> parse_all env now s src ps pr buf d = Some (d', pr', e) \<Longrightarrow> disp_inv d'"
proof (induction ps arbitrary: pr buf d d' pr' e)
  case (Cons p ps)
  from Cons.prems obtain c pr1 buf1 where p: "p_parse (e_parser env p) pr buf now = Some (c, pr1, buf1)"
    by (auto split: option.splits)
  have ok: "c \<noteq> CODE_OK \<or> pr_tag pr1 \<noteq> 0 \<or>
      (case pr_data pr1 of PR_push g \<Rightarrow> length (mdata (rxData g)) = 262 | _ \<Rightarrow> True)"
    using Cons.prems(1) [unfolded env_ok_def, rule_format, of p pr buf now] by (simp add: p)
  show ?case
  proof (cases "c = CODE_OK")
    case False
    with Cons p show ?thesis by simp
  next
    case True
    with Cons.prems p obtain d1 e1 d2 pr2 e2 where
      o: "on_parsed env now s src p pr1 buf1 d = Some (d1, e1)"
      and r: "parse_all env now s src ps pr1 buf1 d1 = Some (d2, pr2, e2)" and "d' = d2"
      by (auto simp: bind_eq_Some_conv)
    with Cons.IH [OF Cons.prems(1) _ r] True ok on_parsed_inv [OF Cons.prems(2) o]
    show ?thesis by simp
  qed
qed simp

lemma queue_sorted: "disp_inv d \<Longrightarrow> om_sorted (uplinkMessages (d_queue d))"
  by (simp add: disp_inv_def queue_inv_def)

text \<open>Replacing a queued item by one of the same address.\<close>

lemma disp_inv_replace:
  assumes "disp_inv d" "wf_item a i" "23 \<le> length (mdata (radioPacket i))"
  shows "disp_inv (on_queue (\<lambda>q. q\<lparr>uplinkMessages := om_assign a i (uplinkMessages q)\<rparr>) d)"
  using assms om_set_assign_mono [of "uplinkMessages (d_queue d)" wf_item a i]
    om_set_assign_mono [of "uplinkMessages (d_queue d)" "\<lambda>_ i. 23 \<le> length (mdata (radioPacket i))" a i]
  by (simp add: disp_inv_def on_queue_def queue_inv_def roomy_def)

lemma disp_inv_item:
  assumes "disp_inv d" "om_find a (uplinkMessages (d_queue d)) = Some i"
  shows "wf_item a i" "23 \<le> length (mdata (radioPacket i))"
  using assms om_find_set [OF queue_sorted [OF assms(1)] assms(2)]
  by (auto simp: disp_inv_def queue_inv_def roomy_def)

lemma on_address_inv [inv_intros]:
  assumes "disp_inv d" "on_address env a d = (d', e)"
  shows "disp_inv d'"
proof (cases "om_find a (uplinkMessages (d_queue d))")
  case None
  with assms show ?thesis
    by (simp add: on_address_def getUplink_find [OF queue_sorted] getUplink_def)
next
  case (Some i)
  let ?i = "fst (sendPayloadOverBridge env d i)"
  note wf = disp_inv_item [OF assms(1) Some]
  have "?i = i\<lparr>radioPacket :=
      snd (storage_decode_identity (e_cipher env) (Some (deviceId (task i))) (radioPacket i))\<rparr>"
    by (simp add: sendPayloadOverBridge_def Let_def split_beta)
  with wf getAddr_decode [of "radioPacket i" a "e_cipher env" "Some (deviceId (task i))"]
  have "wf_item a ?i" "23 \<le> length (mdata (radioPacket ?i))"
    by (auto simp: wf_item_def)
  from disp_inv_replace [OF assms(1) this] Some assms show ?thesis
    by (auto simp: on_address_def getUplink_find [OF queue_sorted] getUplink_def split_beta Let_def)
qed

lemma on_data_inv [inv_intros]:
  "env_ok env \<Longrightarrow> disp_inv d \<Longrightarrow> on_data env now s src buf d pr = Some (d', pr', e) \<Longrightarrow> disp_inv d'"
  by (auto simp: on_data_def intro: on_address_inv parse_all_inv split: if_splits prod.splits)

lemma send_confirmation_inv [inv_intros]:
  assumes "disp_inv d"
  shows "disp_inv (fst (send_confirmation env tok a d))"
proof (cases "om_find a (uplinkMessages (d_queue d))")
  case (Some i)
  have "wf_item a (i\<lparr>task := (task i)\<lparr>task_gateway := g\<rparr>\<rparr>)" for g
    using disp_inv_item [OF assms Some] by (simp add: wf_item_def)
  from disp_inv_replace [OF assms this] disp_inv_item [OF assms Some] Some assms show ?thesis
    by (auto simp: send_confirmation_def Let_def split_beta)
qed (simp add: send_confirmation_def assms)

lemma sendQueue_inv [inv_intros]: "disp_inv d \<Longrightarrow> disp_inv (fst (sendQueue env now tok d))"
proof (induction env now tok d rule: sendQueue.induct)
  case (1 env now tok d)
  obtain b ta s where p: "tas_pop (e_freed env) TimeAddr_default now (time2ResponseAddr (d_queue d)) = (b, ta, s)"
    by (metis prod_cases3)
  let ?d1 = "on_queue (\<lambda>q. q\<lparr>time2ResponseAddr := s\<rparr>) d"
  have i: "disp_inv ?d1"
    using 1(2) tas_pop_length [of "time2ResponseAddr (d_queue d)" "e_freed env" TimeAddr_default now] p
    by (simp add: disp_inv_def on_queue_def queue_inv_def roomy_def)
  obtain d2 e where c: "send_confirmation env tok (ta_addr ta) ?d1 = (d2, e)" by fastforce
  with send_confirmation_inv [OF i, of env tok "ta_addr ta"] have i2: "disp_inv d2" by simp
  show ?case
  proof (cases b)
    case True
    from 1(1) [OF p [symmetric] refl refl refl True c [symmetric] refl i2] True p c show ?thesis
      by (subst sendQueue.simps) (simp add: split_beta Let_def)
  next
    case False
    with p i show ?thesis by (subst sendQueue.simps) simp
  qed
qed

lemma roomy_clearOld: "roomy q \<Longrightarrow> roomy (snd (clearOldUplinkMessages since q))"
  by (auto simp: roomy_def clearOldUplinkMessages_def clear_old_filter)

lemma cleanup_inv [inv_intros]: "disp_inv d \<Longrightarrow> disp_inv (cleanupOldMessages now d)"
  by (auto simp: cleanupOldMessages_def disp_inv_def on_queue_def queue_inv_clearOldUplink roomy_clearOld)

lemma isTime_inv [inv_intros]:
  "disp_inv d \<Longrightarrow> isTimeProcessQueueOrSetTimer env now d = Some (b, d', e) \<Longrightarrow> disp_inv d'"
  by (auto simp: isTimeProcessQueueOrSetTimer_def setStartupTime_def Let_def split: if_splits)

lemma on_timer_inv [inv_intros]:
  assumes "disp_inv d" "on_timer env now pr d = Some (d', e)"
  shows "disp_inv d'"
proof -
  have "disp_inv (fst (sendQueue env now (pr_token pr) (d\<lparr>d_timer := None\<rparr>)))"
    using assms(1) by (simp add: sendQueue_inv)
  with assms(2) show ?thesis
    by (auto simp: on_timer_def split_beta intro: cleanup_inv isTime_inv)
qed

lemma on_input_inv [inv_intros]:
  "env_ok env \<Longrightarrow> disp_inv (l_disp l) \<Longrightarrow> on_input env now i l = Some (l', e) \<Longrightarrow> disp_inv (l_disp l')"
  by (auto simp: on_input_def intro: on_data_inv on_timer_inv split: input.splits if_splits)

lemma on_inputs_inv [inv_intros]:
  "env_ok env \<Longrightarrow> disp_inv (l_disp l) \<Longrightarrow> on_inputs env now is l = Some (l', e) \<Longrightarrow> disp_inv (l_disp l')"
proof (induction env now "is" l arbitrary: l' e rule: on_inputs.induct)
  case (2 env now i "is" l)
  from 2(4) obtain l1 e1 l2 e2 where i: "on_input env now i l = Some (l1, e1)"
    and r: "on_inputs env now is l1 = Some (l2, e2)" and "l' = l2"
    by (auto simp: bind_eq_Some_conv)
  with 2(1) [OF i refl 2(2) on_input_inv [OF 2(2,3) i] r] show ?case by simp
qed simp

lemma round_inv [inv_intros]:
  "env_ok env \<Longrightarrow> disp_inv d \<Longrightarrow> round env now is d pr = Some (d', pr', e) \<Longrightarrow> disp_inv d'"
  using on_inputs_inv [of env "\<lparr>l_disp = d, l_pr = pr, l_accepted = [], l_removed = []\<rparr>" now "is"]
  by (auto simp: round_def end_round_def Let_def getMaxDescriptor1_def)

lemma on_timeout_inv [inv_intros]:
  assumes "disp_inv d" "on_timeout env now d = Some (d', e)"
  shows "disp_inv d'"
proof -
  have "disp_inv (on_queue (\<lambda>q. q\<lparr>downlinkMessages := []\<rparr>) d)"
    using assms(1) by (simp add: disp_inv_def on_queue_def queue_inv_def roomy_def)
  with assms show ?thesis
    by (auto simp: on_timeout_def sendQueuedDownlinkMessages_def intro: cleanup_inv split: list.splits)
qed

lemma enqueue_inv [inv_intros]:
  "disp_inv d \<Longrightarrow> enqueueDownlink env tm a x f p n k pr d = (c, d') \<Longrightarrow> disp_inv d'"
proof -
  have "disp_inv d \<Longrightarrow> disp_inv (on_queue (putDownlink E j u t m ni g p) d)" for E j u t m ni g p
    using queue_inv_putDownlink [of "d_queue d"]
    by (simp add: disp_inv_def on_queue_def) (simp add: roomy_def putDownlink_def Let_def split: option.splits)
  then show "disp_inv d \<Longrightarrow> enqueueDownlink env tm a x f p n k pr d = (c, d') \<Longrightarrow> disp_inv d'"
    by (auto simp: enqueueDownlink_def split: if_splits option.splits sum.splits)
qed

lemma thread_step_inv:
  assumes "thread_step env t e t'" "env_ok env" "disp_inv (th_disp t)"
  shows "disp_inv (th_disp t')"
  using assms
  by (induction rule: thread_step.induct)
    (auto simp: closeSockets_def getMaxDescriptor1_def openSockets_def initBridges_def split_beta
      intro: on_timeout_inv round_inv)

lemma call_step_inv:
  assumes "call_step env t e t'" "disp_inv (th_disp t)"
  shows "disp_inv (th_disp t')"
  using assms by (induction rule: call_step.induct) (auto simp: gatewayPing_def intro: enqueue_inv)

section \<open>Examples of dispatchers\<close>

text \<open>The constructor: only the timer among the sockets, no clients, no callbacks.\<close>

definition MessageTaskDispatcher :: "TaskSocket \<Rightarrow> Dispatcher" where
  "MessageTaskDispatcher timer =
    \<lparr>d_controlSocket = None, d_timerSocket = True, d_timer = None, d_appBridges = [],
     d_bestGateway = None, d_queue = MessageQueue_empty, d_sockets = [timer],
     d_state = TASK_STOPPED, d_onReceiveRawData = None, d_onPushData = False, d_onPullResp = False,
     d_onTxPkAck = False, d_onError = False, d_onStart = False, d_onStop = False,
     d_onGatewayPing = False, d_parsers = [], d_regionalPlan = None, d_identityClient = None,
     d_gatewaySocket = []\<rparr>"

definition timer0 :: TaskSocket where
  "timer0 = \<lparr>ts_id = 0, ts_sock = - 1, ts_accept = SA_TIMER, ts_lastError = 0, ts_customWrite = False\<rparr>"

definition parser0 :: ProtoGwParser where
  "parser0 = \<lparr>p_parse = (\<lambda>pr buf now. Some (ERR_CODE_PARAM_INVALID, pr, buf)),
     p_ack = (\<lambda>n buf. (0, [])), p_makePull = (\<lambda>n g b tok tx plan i. (3, [1, 2, 3]))\<rparr>"

definition env0 :: env where
  "env0 = \<lparr>e_sendto = (\<lambda>s a b. int (length b)), e_settime = (\<lambda>t. 0), e_open = (\<lambda>s. 5),
     e_bridge_init = (\<lambda>b. 0), e_parser = (\<lambda>p. parser0), e_cipher = (\<lambda>k b. replicate 16 0x33),
     e_stack = replicate 16 0, e_raw = u0, e_freed = (\<lambda>a. a)\<rparr>"

definition pr0 :: ParseResult where
  "pr0 = \<lparr>pr_tag = 0, pr_token = 0,
     pr_data = PR_push \<lparr>rxData = storage_default, rxMetadata = rx_of_bytes (replicate 53 0)\<rparr>,
     pr_gwId = 0, pr_code = 0\<rparr>"

definition thread0 :: "Dispatcher \<Rightarrow> thread" where
  "thread0 d = \<lparr>th_pc = Idle, th_disp = d, th_pr = pr0\<rparr>"

definition item0 :: MessageQueueItem where
  "item0 = \<lparr>tim = 0, radioPacket = \<lparr>mhdr = 0x80, mdata = [4, 3, 2, 1] @ replicate 258 0, psize = 20\<rparr>,
     metadata = [(7, GatewayMetadata_rx None SOCKADDR_zero METADATA_TYPE_RX
       (rx_of_bytes (replicate 53 0)) (Some 0))],
     task = raw_task u0\<rparr>"

definition disp0 :: Dispatcher where
  "disp0 = (MessageTaskDispatcher timer0)\<lparr>d_queue := MessageQueue_empty
     \<lparr>uplinkMessages := [(0x01020304, item0)], downlinkMessages := [(0x01020304, item0)],
      time2ResponseAddr := tas_of (Some (0x01020304, 0))\<rparr>\<rparr>"

lemma thread_starts: "call_step env (thread0 (MessageTaskDispatcher s)) []
    ((thread0 (MessageTaskDispatcher s))\<lparr>th_pc := Opening,
      th_disp := (MessageTaskDispatcher s)\<lparr>d_state := TASK_START\<rparr>\<rparr>)"
  using call_step.startUplink [of "thread0 (MessageTaskDispatcher s)" env]
  by (simp add: thread0_def MessageTaskDispatcher_def)

section \<open>Properties\<close>

text \<open>C39: No confirmation is ever composed.  The timer is set only where it is handled, so a
  dispatcher that starts without a timer never gets one: over any run of the thread and any calls
  from outside, the timer stays unset and the queue of waiting addresses is never sent.\<close>

theorem no_confirmation_ever:
  assumes "reaches env t tr t'" "d_timer (th_disp t) = None"
  shows "d_timer (th_disp t') = None \<and> filter confirms tr = []"
  using reaches_keeps [OF assms] by (simp add: quiet_def)

theorem no_confirmation_ever_witness:
  "d_timer (th_disp ((thread0 (MessageTaskDispatcher timer0))\<lparr>th_pc := Opening,
      th_disp := (MessageTaskDispatcher timer0)\<lparr>d_state := TASK_START\<rparr>\<rparr>)) = None \<and>
   filter confirms ([] @ []) = []"
  by (rule no_confirmation_ever [OF reaches.call [OF reaches.stay thread_starts [of env0 timer0]]])
    (simp add: thread0_def MessageTaskDispatcher_def)

text \<open>C4: Over any run of the thread and any calls from outside the queue stays well formed:
  both message maps ordered, every uplink message filed under the address in its packet and in
  its task with at least one gateway's metadata filed under that gateway, and at most one address
  waiting.\<close>

theorem dispatcher_invariant:
  assumes "reaches env t tr t'" "env_ok env" "disp_inv (th_disp t)"
  shows "disp_inv (th_disp t')"
  using assms by (induction rule: reaches.induct) (auto dest: thread_step_inv call_step_inv)

theorem dispatcher_invariant_witness:
  "disp_inv (th_disp ((thread0 (MessageTaskDispatcher timer0))\<lparr>th_pc := Opening,
      th_disp := (MessageTaskDispatcher timer0)\<lparr>d_state := TASK_START\<rparr>\<rparr>))"
proof (rule dispatcher_invariant [OF reaches.call [OF reaches.stay thread_starts [of env0 timer0]]])
  show "env_ok env0"
    by (auto simp: env_ok_def env0_def parser0_def)
qed (simp add: thread0_def MessageTaskDispatcher_def disp_inv_def roomy_def MessageQueue_empty_def
    queue_inv_def TimeAddrSet_empty_def)



text \<open>C20: The message of a device is deciphered where it lies in the queue each time the device's
  address arrives on the socket of the dispatcher, which happens once for every gateway that received
  the message.  The second time the payload is enciphered again: the queue is then as it was before
  the first, and each of the application bridges is given the ciphertext, reported as decoded, with
  the verdict on its integrity code.  That holds for every data message in a queue in order with a payload within
  the 262 bytes behind its header byte (as that of a received packet of up to 263 bytes is) and every
  cipher with blocks of 16 bytes; a handler for pushed data is given the enciphered message too.\<close>

theorem second_notice_hands_out_ciphertext:
  assumes "om_sorted (uplinkMessages (d_queue d))" "om_find a (uplinkMessages (d_queue d)) = Some i"
    and "\<forall>k b. length (e_cipher env k b) = 16" "wf_storage (radioPacket i)" "0 < psize (radioPacket i)"
    and "st_payload_offset (mdata (radioPacket i)) + nat (psize (radioPacket i)) \<le> 262"
    and "is_up (mtype (radioPacket i)) \<or> is_down (mtype (radioPacket i))"
  shows "let (d1, e1) = on_address env a d; (d2, e2) = on_address env a d1
    in d2 = d \<and>
      e2 = map (\<lambda>b. Payload b i True (matchMic (e_cipher env) (e_stack env)
             (nwkSKey (nwi_devid (deviceId (task i))))
             (snd (storage_decode_identity (e_cipher env) (Some (deviceId (task i))) (radioPacket i)))))
           (d_appBridges d) @ (if d_onPushData d then [On_push_data i] else [])"
proof -
  let ?ident = "deviceId (task i)"
  let ?key = "appSKey (nwi_devid ?ident)" and ?addr = "nwi_devaddr ?ident"
  let ?dec = "\<lambda>s. storage_decode (e_cipher env) ?addr ?key s"
  let ?s1 = "snd (?dec (radioPacket i))" and ?i1 = "i\<lparr>radioPacket := snd (?dec (radioPacket i))\<rparr>"
  have n: "nat (psize (radioPacket i)) \<le> 256"
    using assms(6) st_payload_offset_bounds [of "mdata (radioPacket i)"] by auto
  have E: "\<And>k b. length (e_cipher env k b) = 16" using assms(3) by blast
  have "crypt_payload (e_cipher env) dir ?addr ?key
      (crypt_payload (e_cipher env) dir ?addr ?key (radioPacket i)) = radioPacket i" for dir
    by (rule crypt_payload_involution [OF assms(4) E n assms(6)])
  then have again: "?dec ?s1 = (True, radioPacket i)"
    using assms(5,7) by (auto simp: storage_decode_def crypt_payload_def Let_def)
  let ?d1 = "on_queue (\<lambda>q. q\<lparr>uplinkMessages := om_assign a ?i1 (uplinkMessages q)\<rparr>) d"
  have d1: "fst (on_address env a d) = ?d1"
    using assms(1,2)
    by (simp add: on_address_def getUplink_find getUplink_def sendPayloadOverBridge_def
        storage_decode_identity_def split_beta Let_def)
  have f1: "findUplink a (d_queue ?d1) = Some ?i1"
    using assms(1) by (simp add: on_queue_def getUplink_find getUplink_def om_simps)
  have "om_assign a i (om_assign a ?i1 m) = m" if "om_sorted m" "om_find a m = Some i"
    for m :: "(DEVADDR, MessageQueueItem) omap"
    using that by (induction a ?i1 m rule: om_assign.induct) (auto split: if_splits)
  then have "on_queue (\<lambda>q. q\<lparr>uplinkMessages := om_assign a i (uplinkMessages q)\<rparr>) ?d1 = d"
    using assms(1,2) by (cases d; cases "d_queue d") (simp add: on_queue_def)
  moreover have "d_onPushData ?d1 = d_onPushData d" "d_appBridges ?d1 = d_appBridges d"
    by (simp_all add: on_queue_def)
  ultimately have "on_address env a ?d1 = (d, map (\<lambda>b. Payload b i True (matchMic (e_cipher env)
      (e_stack env) (nwkSKey (nwi_devid ?ident)) ?s1)) (d_appBridges d) @
      (if d_onPushData d then [On_push_data i] else []))"
    using again
    by (simp add: on_address_def f1 sendPayloadOverBridge_def storage_decode_identity_def split_beta
        Let_def)
  with d1 show ?thesis
    by (simp add: split_beta Let_def storage_decode_identity_def)
qed

theorem second_notice_hands_out_ciphertext_witness:
  "let (d1, e1) = on_address env0 0x01020304 (disp0\<lparr>d_appBridges := [1]\<rparr>);
       (d2, e2) = on_address env0 0x01020304 d1
   in d2 = disp0\<lparr>d_appBridges := [1]\<rparr> \<and>
      e2 = map (\<lambda>b. Payload b item0 True (matchMic (e_cipher env0) (e_stack env0)
             (nwkSKey (nwi_devid (deviceId (task item0))))
             (snd (storage_decode_identity (e_cipher env0) (Some (deviceId (task item0)))
               (radioPacket item0)))))
           (d_appBridges (disp0\<lparr>d_appBridges := [1]\<rparr>)) @
         (if d_onPushData (disp0\<lparr>d_appBridges := [1]\<rparr>) then [On_push_data item0] else [])"
  by (rule second_notice_hands_out_ciphertext)
    (simp_all add: disp0_def env0_def item0_def wf_storage_def is_up_def mhdr_mtype_def
      MessageTaskDispatcher_def st_payload_offset_def st_foptslen_def foptslen_def)

text \<open>When \<open>select\<close> times out, every queued downlink message is dropped, sent or not: as
  long as no gateway has reported itself, none of them is sent to anyone.\<close>

theorem downlinks_lost_without_gateway:
  assumes "on_timeout env now d = Some (d', e)" "d_parsers d \<noteq> []" "d_gatewaySocket d = []"
  shows "downlinkMessages (d_queue d') = [] \<and> e = []"
proof -
  have s: "sendDownlink env d g ni b = Some (r, e1) \<Longrightarrow> e1 = []" for g ni b r e1
    using assms(3) by (auto simp: sendDownlink_def split: option.splits if_splits)
  then have v: "send_downlink_via env d p it g = Some e1 \<Longrightarrow> e1 = []" for p it g e1
    by (auto simp: send_downlink_via_def split: prod.splits if_splits)
  have eachI: "each f xs = Some e1 \<Longrightarrow> (\<And>x e. f x = Some e \<Longrightarrow> e = []) \<Longrightarrow> e1 = []"
    for f :: "'x \<Rightarrow> effect list option" and xs e1
    by (induction f xs arbitrary: e1 rule: each.induct) (auto simp: bind_eq_Some_conv)
  from eachI [OF _ v] v have "send_queued_downlink env d p it = Some e1 \<Longrightarrow> e1 = []" for p it e1
    by (auto simp: send_queued_downlink_def Let_def bind_eq_Some_conv split: if_splits)
  then have q: "each (\<lambda>(a, it). send_queued_downlink env d p it) m = Some e1 \<Longrightarrow> e1 = []"
    for p m e1 using eachI [of "\<lambda>(a, it). send_queued_downlink env d p it" m e1] by auto
  from assms(1,2) obtain p where
    "each (\<lambda>(a, it). send_queued_downlink env d p it) (downlinkMessages (d_queue d)) = Some e"
    and "d' = cleanupOldMessages now (on_queue (\<lambda>q. q\<lparr>downlinkMessages := []\<rparr>) d)"
    by (cases "d_parsers d") (auto simp: on_timeout_def sendQueuedDownlinkMessages_def)
  then show ?thesis
    using q by (auto simp: cleanupOldMessages_def on_queue_def clearOldUplinkMessages_def split_beta)
qed

theorem downlinks_lost_without_gateway_witness:
  "let d = disp0\<lparr>d_parsers := [0]\<rparr>
   in downlinkMessages (d_queue (fst (the (on_timeout env0 5 d)))) = [] \<and>
      snd (the (on_timeout env0 5 d)) = []"
proof -
  let ?d = "disp0\<lparr>d_parsers := [0]\<rparr>"
  have "fst (getBestGatewayAddress (GatewayMetadata_default (raw_radio (e_raw env0))) item0) = 7"
    by (simp add: env0_def) code_simp
  moreover have "gatewayId (task_gateway (task item0)) = 0"
    by (simp add: item0_def u0_def GatewayIdentity_id_def)
  moreover have "send_downlink_via env0 ?d 0 item0 7 = Some []"
    by (simp add: send_downlink_via_def sendDownlink_def env0_def parser0_def disp0_def
        MessageTaskDispatcher_def split_beta)
  ultimately have "send_queued_downlink env0 ?d 0 item0 = Some []"
    by (simp add: send_queued_downlink_def)
  then have "on_timeout env0 5 ?d \<noteq> None"
    by (simp add: on_timeout_def sendQueuedDownlinkMessages_def) (simp add: disp0_def)
  then have "on_timeout env0 5 ?d =
      Some (fst (the (on_timeout env0 5 ?d)), snd (the (on_timeout env0 5 ?d)))" by simp
  from downlinks_lost_without_gateway [OF this] show ?thesis
    by (simp add: disp0_def MessageTaskDispatcher_def)
qed

text \<open>The cases of a step, for the position the thread is at.\<close>

inductive_cases thread_stepE: "thread_step env t e t'"
inductive_simps thread_step_iff: "thread_step env t e t'"

lemma openSockets_state:
  "openSockets env (d\<lparr>d_state := st\<rparr>) =
     (fst (openSockets env d), (snd (openSockets env d))\<lparr>d_state := st\<rparr>)"
  by (cases "open_loop env (d_sockets d)") (simp add: openSockets_def)

lemma openSockets_keeps:
  "d_appBridges (snd (openSockets env d)) = d_appBridges d"
  "d_onStart (snd (openSockets env d)) = d_onStart d"
  by (simp_all add: openSockets_def split_beta)

text \<open>A stop requested while the thread still opens its sockets is lost: the thread then sets
  its state to running, whatever it was, and enters the loop.\<close>

theorem stop_request_lost_while_opening:
  assumes "th_pc t = Opening" "d_state (th_disp t) = TASK_START" "d_sockets (th_disp t) \<noteq> []"
    and "openSockets env (th_disp t) = (True, d)" "d_appBridges (th_disp t) = []"
  shows "\<exists>e t1 t2. call_step env t e t1 \<and> d_state (th_disp t1) = TASK_STOP \<and>
    thread_step env t1 (if d_onStart (th_disp t) then [On_start] else []) t2 \<and>
    th_pc t2 = Looping \<and> d_state (th_disp t2) = TASK_RUN"
proof -
  let ?t1 = "t\<lparr>th_disp := (th_disp t)\<lparr>d_state := TASK_STOP\<rparr>\<rparr>"
  have c: "call_step env t (send2uplink (th_disp t) [0x71]) ?t1"
    by (rule call_step.stopUplink) (simp add: assms(2))
  have keep: "d_appBridges d = []" "d_onStart d = d_onStart (th_disp t)"
    using openSockets_keeps [of env "th_disp t"] assms(4,5) by simp_all
  have "openSockets env (th_disp ?t1) = (True, d\<lparr>d_state := TASK_STOP\<rparr>)"
    using assms(4) by (simp add: openSockets_state)
  moreover have "initBridges env ((d\<lparr>d_state := TASK_STOP\<rparr>)\<lparr>d_state := TASK_RUN\<rparr>) =
      Some (d\<lparr>d_state := TASK_RUN\<rparr>, [])"
    using keep by (simp add: initBridges_def)
  ultimately have "thread_step env ?t1 ([] @ (if d_onStart (d\<lparr>d_state := TASK_RUN\<rparr>) then [On_start] else []))
      (?t1\<lparr>th_pc := Looping, th_disp := getMaxDescriptor1 (d\<lparr>d_state := TASK_RUN\<rparr>),
        th_pr := ParseResult_default (th_pr ?t1)\<rparr>)"
    by (intro thread_step.open_succeeds [where d = "d\<lparr>d_state := TASK_STOP\<rparr>"])
      (simp_all add: assms(1,3))
  with c keep(2) show ?thesis
    by (intro exI [of _ "send2uplink (th_disp t) [0x71]"] exI [of _ ?t1]
        exI [of _ "?t1\<lparr>th_pc := Looping, th_disp := getMaxDescriptor1 (d\<lparr>d_state := TASK_RUN\<rparr>),
          th_pr := ParseResult_default (th_pr ?t1)\<rparr>"])
      (simp add: getMaxDescriptor1_def)
qed

theorem stop_request_lost_while_opening_witness:
  "\<exists>e t1 t2. call_step env0 ((thread0 (disp0\<lparr>d_state := TASK_START\<rparr>))\<lparr>th_pc := Opening\<rparr>) e t1 \<and>
    d_state (th_disp t1) = TASK_STOP \<and>
    thread_step env0 t1 (if d_onStart (th_disp ((thread0 (disp0\<lparr>d_state := TASK_START\<rparr>))\<lparr>th_pc := Opening\<rparr>))
      then [On_start] else []) t2 \<and>
    th_pc t2 = Looping \<and> d_state (th_disp t2) = TASK_RUN"
  by (rule stop_request_lost_while_opening)
    (simp_all add: thread0_def disp0_def MessageTaskDispatcher_def openSockets_def env0_def timer0_def)

end
