(* ===== verification/Lora_Text.thy ===== *)
theory Lora_Text
  imports C_Text Device_Id "HOL-Library.Signed_Division"
begin

text \<open>
  The text of the protocol's values (\<open>lorawan/lorawan-string.cpp\<close>): hexadecimal of keys,
  addresses and nonces, names of enumerations, data rates, frequencies, versions, and the
  identity in one line.  An enumeration is its 32-bit number, as casts put any number there.
  A function the code may leave by an exception, or that does not return, has no result
  (\<open>None\<close>).
\<close>

section \<open>Strings\<close>

definition ltrim :: "string \<Rightarrow> string" where
  "ltrim s = dropWhile isspace s"

definition rtrim :: "string \<Rightarrow> string" where
  "rtrim s = rev (dropWhile isspace (rev s))"

definition trim :: "string \<Rightarrow> string" where
  "trim s = rtrim (ltrim s)"

definition concatenateWordsWithSpace :: "string \<Rightarrow> string \<Rightarrow> string" where
  "concatenateWordsWithSpace sLeft sRight = rtrim sLeft @ '' '' @ ltrim sRight"

text \<open>\<open>std::string::find\<close>.\<close>

fun find_sub :: "string \<Rightarrow> string \<Rightarrow> nat option" where
  "find_sub p [] = (if p = [] then Some 0 else None)"
| "find_sub p (c # s) =
    (if take (length p) (c # s) = p then Some 0 else map_option Suc (find_sub p s))"

text \<open>The loop of \<open>replaceAll\<close>, on what lies behind \<open>start_pos\<close>.  It does not end for an
  empty \<open>from\<close>, which is found again where it was.\<close>

partial_function (option) replace_loop :: "string \<Rightarrow> string \<Rightarrow> string \<Rightarrow> string option" where
  "replace_loop pat rep s =
    (case find_sub pat s of
       None \<Rightarrow> Some s
     | Some k \<Rightarrow>
         Option.bind (replace_loop pat rep (drop (k + length pat) s)) (\<lambda>r. Some (take k s @ rep @ r)))"

definition replaceAll :: "string \<Rightarrow> string \<Rightarrow> string \<Rightarrow> string option" where
  "replaceAll str pat rep = replace_loop pat rep str"

definition uint64_t2string :: "u64 \<Rightarrow> string" where
  "uint64_t2string v = hexString (le_bytes 8 (NTOH8 v))"

definition isHex :: "string \<Rightarrow> bool" where
  "isHex s = list_all (\<lambda>c. digit_value c < 16) s"

definition isDec :: "string \<Rightarrow> bool" where
  "isDec s \<longleftrightarrow> s \<noteq> [] \<and> list_all isdigit s"

fun readHex :: "string \<Rightarrow> string" where
  "readHex (a # b # s) = char_of (nat (strtol 16 (c_string [a, b]) mod 256)) # readHex s"
| "readHex _ = []"

definition hex2string :: "string \<Rightarrow> string" where
  "hex2string s = readHex s"

text \<open>Without \<open>ENABLE_UNICODE\<close>, in the locale \<open>C\<close>.\<close>

definition toUpperCase :: "string \<Rightarrow> string" where
  "toUpperCase = map toupper"

fun firstCharToUpperCase :: "string \<Rightarrow> string" where
  "firstCharToUpperCase [] = []"
| "firstCharToUpperCase (c # s) = toupper c # s"

section \<open>Addresses, keys, nonces\<close>

definition gatewayId2str :: "u64 \<Rightarrow> string" where
  "gatewayId2str v = show_hex (unat v)"

definition string2gatewayId :: "string \<Rightarrow> u64" where
  "string2gatewayId s = strtoull 16 s"

definition MIC2String :: "u32 \<Rightarrow> string" where
  "MIC2String v = hexString (le_bytes 4 (NTOH4 v))"

definition DEVADDR2string :: "DEVADDR \<Rightarrow> string" where
  "DEVADDR2string a = hexString (le_bytes 4 (NTOH4 a))"

definition string2DEVADDR :: "string \<Rightarrow> DEVADDR" where
  "string2DEVADDR s = ucast (strtoull 16 s)"

definition DEVEUI2string :: "DEVEUI \<Rightarrow> string" where
  "DEVEUI2string e = hexString (le_bytes 8 (NTOH8 e))"

definition string2DEVEUI :: "string \<Rightarrow> DEVEUI" where
  "string2DEVEUI s = strtoull 16 s"

definition string2DEVEUI_ptr :: "string option \<Rightarrow> DEVEUI \<Rightarrow> DEVEUI" where
  "string2DEVEUI_ptr s e = (case s of None \<Rightarrow> e | Some s \<Rightarrow> strtoull 16 s)"

definition KEY2string :: "KEY128 \<Rightarrow> string" where
  "KEY2string k = hexString k"

text \<open>The loop of \<open>string2KEY\<close> from the \<open>i\<close>-th byte on: two characters make a byte.\<close>

fun string2KEY_loop :: "nat \<Rightarrow> string \<Rightarrow> KEY128 \<Rightarrow> KEY128" where
  "string2KEY_loop i (a # b # s) k =
    (let k' = k[i := word_of_int (strtol 16 [a, b])]
     in if i + 1 > 15 then k' else string2KEY_loop (i + 1) s k')"
| "string2KEY_loop i _ k = k"

definition string2KEY :: "string option \<Rightarrow> KEY128 \<Rightarrow> KEY128" where
  "string2KEY s k = (case s of None \<Rightarrow> k | Some s \<Rightarrow> string2KEY_loop 0 (c_string s) k)"

definition KEY128_string :: "string \<Rightarrow> KEY128 \<Rightarrow> KEY128" where
  "KEY128_string s memory = string2KEY (Some s) memory"

definition DEVNONCE2string :: "DEVNONCE \<Rightarrow> string" where
  "DEVNONCE2string n = hexString (le_bytes 2 n)"

definition string2DEVNONCE :: "string option \<Rightarrow> DEVNONCE" where
  "string2DEVNONCE s = (case s of None \<Rightarrow> 0 | Some s \<Rightarrow> NTOH2 (ucast (strtoull 16 s)))"

definition JOINNONCE2string :: "JOINNONCE \<Rightarrow> string" where
  "JOINNONCE2string n = hexString n"

definition string2JOINNONCE :: "string option \<Rightarrow> JOINNONCE \<Rightarrow> JOINNONCE" where
  "string2JOINNONCE s n =
    (case s of
       None \<Rightarrow> n
     | Some s \<Rightarrow>
         let r = word_of_int (strtol 16 s) :: u32
         in [ucast (drop_bit 16 r AND 0xff), ucast (drop_bit 8 r AND 0xff), ucast (r AND 0xff)])"

definition string2APPNONCE :: "string \<Rightarrow> APPNONCE" where
  "string2APPNONCE s =
    (let r = word_of_int (strtol 16 s) :: u32
     in [ucast (drop_bit 16 r AND 0xff), ucast (drop_bit 8 r AND 0xff), ucast (r AND 0xff)])"

definition token2string :: "u32 \<Rightarrow> string" where
  "token2string v = show_word (v AND 0xffff)"

definition string2token :: "string \<Rightarrow> u32" where
  "string2token s = ucast (strtoull 10 s)"

definition region2string :: "u8 \<Rightarrow> string" where
  "region2string r = show_word r"

definition string2region :: "string \<Rightarrow> u8" where
  "string2region s = ucast (strtoull 10 s)"

definition subRegion2string :: "u8 \<Rightarrow> string" where
  "subRegion2string r = show_word r"

definition string2subRegion :: "string \<Rightarrow> u8" where
  "string2subRegion s = ucast (strtoull 10 s)"

definition NETID2String :: "NETID \<Rightarrow> string" where
  "NETID2String n = pad 6 (CHR ''0'') (show_hex (unat (NETID2int n)))"

text \<open>
  \<open>string2NETID\<close> and \<open>string2FREQUENCY\<close> write into the memory that begins with the
  object.  The address that is to be cleared is a pointer to the array plus the length, so each
  step is three bytes: the zeros land behind the object, whose own bytes stay.
\<close>

definition hex_to_3_bytes :: "string \<Rightarrow> bytes \<Rightarrow> bytes" where
  "hex_to_3_bytes value memory =
    (let str = text_bytes (hex2string (c_string value));
         len = min (length str) 3;
         m = mem_write memory 0 (take len str)
     in if len < 3 then mem_write m (3 * len) (replicate (3 - len) 0) else m)"

definition string2NETID :: "string \<Rightarrow> bytes \<Rightarrow> bytes" where
  "string2NETID value memory = hex_to_3_bytes value memory"

definition string2FREQUENCY :: "string \<Rightarrow> bytes \<Rightarrow> bytes" where
  "string2FREQUENCY value memory = hex_to_3_bytes value memory"

text \<open>The multiplication and the division are of \<open>int\<close>, the subtraction is unsigned.\<close>

definition freq2string :: "u32 \<Rightarrow> string" where
  "freq2string freq =
    (let mhz = sint freq sdiv 1000000
     in show_int mhz @ ''.'' @ show_word (freq - word_of_int (mhz * 1000000)))"

definition frequency2string :: "bytes \<Rightarrow> string" where
  "frequency2string v = freq2string (FREQUENCY2int v)"

section \<open>Names of enumerations\<close>

definition ACTIVATION_NAMES :: "string list" where
  "ACTIVATION_NAMES = [''ABP'', ''OTAA'']"

definition activation2string :: "u32 \<Rightarrow> string" where
  "activation2string v = ACTIVATION_NAMES ! unat (if v > OTAA then ABP else v)"

definition string2activation :: "string \<Rightarrow> u32" where
  "string2activation s = (if s = ''OTAA'' then OTAA else ABP)"

definition string2activation_ptr :: "string \<Rightarrow> u32" where
  "string2activation_ptr s = (if c_string s = ''OTAA'' then OTAA else ABP)"

fun find_name :: "string list \<Rightarrow> string \<Rightarrow> nat option" where
  "find_name [] s = None"
| "find_name (n # ns) s = (if n = s then Some 0 else map_option Suc (find_name ns s))"

definition pchar2activation :: "string \<Rightarrow> u32" where
  "pchar2activation s =
    (case find_name ACTIVATION_NAMES (c_string s) of None \<Rightarrow> ABP | Some i \<Rightarrow> of_nat i)"

definition MODULATION2String :: "u32 \<Rightarrow> string" where
  "MODULATION2String v =
    (if v = MOD_LORA then ''LORA'' else if v = MOD_FSK then ''FSK'' else ''UNDEFINED'')"

definition string2MODULATION :: "string \<Rightarrow> u32" where
  "string2MODULATION s =
    (if c_string s = ''FSK'' then MOD_FSK
     else if c_string s = ''LORA'' then MOD_LORA
     else MOD_UNDEFINED)"

definition BANDWIDTH2String :: "u32 \<Rightarrow> string" where
  "BANDWIDTH2String v =
    (if v = BW_7 then ''7.8'' else if v = BW_10 then ''10.4'' else if v = BW_15 then ''15.6''
     else if v = BW_20 then ''20.8'' else if v = BW_31 then ''31.2'' else if v = BW_41 then ''41.6''
     else if v = BW_62 then ''62.5'' else if v = BW_125 then ''125'' else if v = BW_250 then ''250''
     else if v = BW_500 then ''500'' else ''7.8'')"

definition string2BANDWIDTH :: "string \<Rightarrow> u32" where
  "string2BANDWIDTH value =
    (let s = c_string value in
     if s = ''7.8'' then BW_7 else if s = ''10.4'' then BW_10 else if s = ''15.6'' then BW_15
     else if s = ''20.8'' then BW_20 else if s = ''31.2'' then BW_31 else if s = ''41.6'' then BW_41
     else if s = ''62.5'' then BW_62 else if s = ''125'' then BW_125 else if s = ''250'' then BW_250
     else if s = ''500'' then BW_500 else BW_125)"

definition deviceclass2string :: "u32 \<Rightarrow> string" where
  "deviceclass2string v = (if v = CLASS_A then ''A'' else if v = CLASS_B then ''B'' else ''C'')"

fun string2deviceclass :: "string \<Rightarrow> u32" where
  "string2deviceclass [] = CLASS_C"
| "string2deviceclass (c # s) =
    (if c = CHR ''A'' \<or> c = CHR ''a'' then CLASS_A
     else if c = CHR ''B'' \<or> c = CHR ''b'' then CLASS_B
     else CLASS_C)"

definition string2deviceclass_ptr :: "string option \<Rightarrow> u32" where
  "string2deviceclass_ptr s =
    (case s of None \<Rightarrow> CLASS_C | Some s \<Rightarrow> string2deviceclass (c_string s))"

definition string2mtype :: "string \<Rightarrow> u8" where
  "string2mtype s =
    (if s = ''join-request'' then MTYPE_JOIN_REQUEST
     else if s = ''join-accept'' then MTYPE_JOIN_ACCEPT
     else if s = ''unconfirmed-data-up'' then MTYPE_UNCONFIRMED_DATA_UP
     else if s = ''unconfirmed-data-down'' then MTYPE_UNCONFIRMED_DATA_DOWN
     else if s = ''confirmed-data-up'' then MTYPE_CONFIRMED_DATA_UP
     else if s = ''confirmed-data-down'' then MTYPE_CONFIRMED_DATA_DOWN
     else if s = ''rejoin-request'' then MTYPE_REJOIN_REQUEST
     else if s = ''proprietary-radio'' then MTYPE_PROPRIETARYRADIO
     else MTYPE_JOIN_REQUEST)"

definition mtype2string :: "u8 \<Rightarrow> string" where
  "mtype2string v =
    (if v = MTYPE_JOIN_REQUEST then ''join-request''
     else if v = MTYPE_JOIN_ACCEPT then ''join-accept''
     else if v = MTYPE_UNCONFIRMED_DATA_UP then ''unconfirmed-data-up''
     else if v = MTYPE_UNCONFIRMED_DATA_DOWN then ''unconfirmed-data-down''
     else if v = MTYPE_CONFIRMED_DATA_UP then ''confirmed-data-up''
     else if v = MTYPE_CONFIRMED_DATA_DOWN then ''confirmed-data-down''
     else if v = MTYPE_REJOIN_REQUEST then ''rejoin-request''
     else if v = MTYPE_PROPRIETARYRADIO then ''proprietary-radio''
     else [])"

definition string2mhdr :: "string \<Rightarrow> MHDR" where
  "string2mhdr s = push_bit 5 (string2mtype s)"

definition mhdr2string :: "MHDR \<Rightarrow> string" where
  "mhdr2string h = mtype2string (mhdr_mtype h)"

definition ERR_CODE_TX_STR :: "string list" where
  "ERR_CODE_TX_STR =
    [''NONE'', ''TOO_LATE'', ''TOO_EARLY'', ''FULL'', ''EMPTY'', ''COLLISION_PACKET'',
     ''COLLISION_BEACON'', ''TX_FREQ'', ''TX_POWER'', ''GPS_UNLOCKED'', ''INVALID'']"

definition ERR_CODE_TX2string :: "u32 \<Rightarrow> string" where
  "ERR_CODE_TX2string c = ERR_CODE_TX_STR ! unat (if c > 10 then 10 else c)"

definition string2ERR_CODE_TX :: "string \<Rightarrow> u32" where
  "string2ERR_CODE_TX s =
    (case find_name ERR_CODE_TX_STR s of None \<Rightarrow> 10 | Some i \<Rightarrow> of_nat i)"

section \<open>Coding and data rates\<close>

text \<open>Only the length and the third character count.\<close>

definition string2codingRate :: "string \<Rightarrow> u32" where
  "string2codingRate s =
    (if length s = 3 then
       (let c = s ! 2 in
        if c = CHR ''5'' then CR_4_5
        else if c = CHR ''3'' \<or> c = CHR ''6'' then CR_4_6
        else if c = CHR ''7'' then CR_4_7
        else if c = CHR ''1'' \<or> c = CHR ''4'' then CR_4_8
        else CR_4_6)
     else if length s = 5 then
       (let c = s ! 2 in
        if c = CHR ''5'' then CR_LI_4_5
        else if c = CHR ''6'' then CR_LI_4_6
        else if c = CHR ''8'' then CR_LI_4_8
        else CR_4_6)
     else CR_4_6)"

definition codingRate2string :: "u32 \<Rightarrow> string" where
  "codingRate2string v =
    (if v = CR_OFF then [] else if v = CR_4_5 then ''4/5'' else if v = CR_4_6 then ''4/6''
     else if v = CR_4_7 then ''4/7'' else if v = CR_4_8 then ''4/8''
     else if v = CR_LI_4_5 then ''4/5LI'' else if v = CR_LI_4_6 then ''4/6LI''
     else if v = CR_LI_4_8 then ''4/8LI'' else ''4/6'')"

definition khz_bandwidth :: "int \<Rightarrow> u32" where
  "khz_bandwidth v =
    (if v = 7 then BW_7 else if v = 10 then BW_10 else if v = 15 then BW_15
     else if v = 20 then BW_20 else if v = 31 then BW_31 else if v = 41 then BW_41
     else if v = 62 then BW_62 else if v = 125 then BW_125 else if v = 250 then BW_250
     else if v = 500 then BW_500 else BW_250)"

definition bandwidth_khz :: "u32 \<Rightarrow> int" where
  "bandwidth_khz v =
    (if v = BW_7 then 7 else if v = BW_10 then 10 else if v = BW_15 then 15
     else if v = BW_20 then 20 else if v = BW_31 then 31 else if v = BW_41 then 41
     else if v = BW_62 then 62 else if v = BW_125 then 125 else if v = BW_250 then 250
     else if v = BW_500 then 500 else 250)"

text \<open>
  \<open>substr(2, p - 2)\<close>: where \<open>p\<close> is below 2 the unsigned difference wraps and the rest is
  taken; \<open>substr(p + 2)\<close> beyond the end raises an exception.  The bandwidth is left alone
  on the early returns.
\<close>

definition substr :: "nat \<Rightarrow> nat \<Rightarrow> string \<Rightarrow> string option" where
  "substr at n s = (if at > length s then None else Some (take n (drop at s)))"

definition datr_sf_text :: "nat \<Rightarrow> string \<Rightarrow> string" where
  "datr_sf_text p s = (if p < 2 then drop 2 s else take (p - 2) (drop 2 s))"

definition string2datr :: "u32 \<Rightarrow> string \<Rightarrow> (u32 \<times> u32) option" where
  "string2datr bandwidth value =
    (if length value < 3 then Some (SF5, bandwidth)
     else
       (case find_sub ''B'' value of
          None \<Rightarrow> Some (SF5, bandwidth)
        | Some p \<Rightarrow>
            let sf = word_of_int (strtol 10 (datr_sf_text p value))
            in (case substr (p + 2) (length value) value of
                  None \<Rightarrow> None
                | Some s \<Rightarrow> Some (sf, khz_bandwidth (signed_take_bit 31 (strtol 10 s))))))"

definition datr2string :: "u32 \<Rightarrow> u32 \<Rightarrow> string" where
  "datr2string spreadingFactor bandwidth =
    ''SF'' @ show_int (sint spreadingFactor) @ ''BW'' @ show_int (bandwidth_khz bandwidth)"

text \<open>A data rate is here its bandwidth and its spreading factor, as the numbers they are.  The
  spreading factor is set before the exception.\<close>

definition DATA_RATE2string :: "u32 \<times> u32 \<Rightarrow> string" where
  "DATA_RATE2string r =
    ''SF'' @ show_int (sint (snd r)) @ ''BW'' @ show_int (bandwidth_khz (fst r))"

definition DATA_RATE2string2 :: "u32 \<Rightarrow> u32 \<Rightarrow> string" where
  "DATA_RATE2string2 bandwidth spreadingFactor =
    ''SF'' @ show_int (sint spreadingFactor) @ ''BW'' @ show_int (bandwidth_khz bandwidth)"

definition string2DATA_RATE :: "string \<Rightarrow> u32 \<times> u32 \<Rightarrow> bool \<times> u32 \<times> u32" where
  "string2DATA_RATE value r =
    (if length value < 3 then (True, r)
     else
       (case find_sub ''B'' value of
          None \<Rightarrow> (True, r)
        | Some p \<Rightarrow>
            let sf = word_of_int (atoi (datr_sf_text p value))
            in (case substr (p + 2) (length value) value of
                  None \<Rightarrow> (False, fst r, sf)
                | Some s \<Rightarrow> (True, khz_bandwidth (atoi s), sf))))"

section \<open>Versions\<close>

definition LORAWAN_VERSION2string :: "LORAWAN_VERSION \<Rightarrow> string" where
  "LORAWAN_VERSION2string v =
    show_word (version_major v) @ ''.'' @ show_word (version_minor v) @ ''.'' @
    show_word (version_release v)"

text \<open>A read whose guard \<open>!ss.eof()\<close> fails is left out.\<close>

definition unless_eof :: "(istream \<Rightarrow> 'a \<Rightarrow> 'a \<times> istream) \<Rightarrow> istream \<Rightarrow> 'a \<Rightarrow> 'a \<times> istream" where
  "unless_eof get i v = (if is_eof i then (v, i) else get i v)"

definition read_version :: "char \<Rightarrow> string \<Rightarrow> int \<times> int \<times> int" where
  "read_version dot s =
    (let (ma, i) = unless_eof stream_int (stringstream s) 1;
         (dot, i) = unless_eof stream_char i dot;
         (mi, i) = unless_eof stream_int i 0;
         (dot, i) = unless_eof stream_char i dot;
         (re, i) = unless_eof stream_int i 0
     in (ma, mi, re))"

definition string2LORAWAN_VERSION :: "string \<Rightarrow> LORAWAN_VERSION" where
  "string2LORAWAN_VERSION s =
    (let (ma, mi, re) = read_version (CHR 0x00) (c_string s)
     in LORAWAN_VERSION_make (word_of_int ma AND 3) (word_of_int mi AND 3) (word_of_int re AND 0xf))"

definition REGIONAL_PARAMETERS_VERSION2string :: "LORAWAN_VERSION \<Rightarrow> string" where
  "REGIONAL_PARAMETERS_VERSION2string v = LORAWAN_VERSION2string v"

definition string2REGIONAL_PARAMETERS_VERSION :: "string \<Rightarrow> LORAWAN_VERSION" where
  "string2REGIONAL_PARAMETERS_VERSION s =
    (let (ma, mi, re) = read_version (CHR 0x00) s
     in LORAWAN_VERSION_make (word_of_int ma AND 3) (word_of_int mi AND 3) (word_of_int re AND 0xf))"

section \<open>An identity in one line\<close>

text \<open>Texts with a separator between them.\<close>

fun join :: "string \<Rightarrow> string list \<Rightarrow> string" where
  "join sep [] = []"
| "join sep [p] = p"
| "join sep (p # ps) = p @ sep @ join sep ps"

text \<open>\<open>DEVICEID::toString\<close> (\<open>lorawan-types.cpp\<close>): the address, when there is one, and
  fifteen fields.\<close>

definition identity_fields :: "DEVICE_ID \<Rightarrow> string list" where
  "identity_fields d =
    [activation2string (activation d), deviceclass2string (deviceclass d),
     DEVEUI2string (devEUI d), KEY2string (nwkSKey d), KEY2string (appSKey d),
     LORAWAN_VERSION2string (version d), DEVEUI2string (appEUI d), KEY2string (appKey d),
     KEY2string (nwkKey d), DEVNONCE2string (devNonce d), JOINNONCE2string (joinNonce d),
     token2string (token d), region2string (region d), subRegion2string (subRegion d),
     bytes_text (DEVICENAME2string (name d))]"

definition DEVICEID_toString :: "DEVADDR \<Rightarrow> DEVICE_ID \<Rightarrow> string" where
  "DEVICEID_toString a d =
    join '','' ((if isDEVADDREmpty a then [] else [DEVADDR2string a]) @ identity_fields d)"

definition NETWORKIDENTITY_toString :: "NETWORKIDENTITY \<Rightarrow> string" where
  "NETWORKIDENTITY_toString n = DEVICEID_toString (ni_devaddr n) (ni_devid n)"

definition on_id :: "(DEVICE_ID \<Rightarrow> DEVICE_ID) \<Rightarrow> NETWORKIDENTITY \<Rightarrow> NETWORKIDENTITY" where
  "on_id f n = n\<lparr>ni_devid := f (ni_devid n)\<rparr>"

definition setIdentity :: "int \<Rightarrow> string \<Rightarrow> NETWORKIDENTITY \<Rightarrow> NETWORKIDENTITY" where
  "setIdentity prop s n =
    (if prop = NIP_ADDRESS then n\<lparr>ni_devaddr := string2DEVADDR s\<rparr>
     else if prop = NIP_ACTIVATION then on_id (activation_update (\<lambda>_. string2activation s)) n
     else if prop = NIP_DEVICE_CLASS then on_id (deviceclass_update (\<lambda>_. string2deviceclass s)) n
     else if prop = NIP_DEVEUI then on_id (devEUI_update (\<lambda>_. string2DEVEUI s)) n
     else if prop = NIP_NWKSKEY then on_id (nwkSKey_update (string2KEY (Some s))) n
     else if prop = NIP_APPSKEY then on_id (appSKey_update (string2KEY (Some s))) n
     else if prop = NIP_LORAWAN_VERSION then
       on_id (version_update (\<lambda>_. string2LORAWAN_VERSION s)) n
     else if prop = NIP_APPEUI then on_id (appEUI_update (\<lambda>_. string2DEVEUI s)) n
     else if prop = NIP_APPKEY then on_id (appKey_update (string2KEY (Some s))) n
     else if prop = NIP_NWKKEY then on_id (nwkKey_update (string2KEY (Some s))) n
     else if prop = NIP_DEVNONCE then
       on_id (devNonce_update (\<lambda>_. string2DEVNONCE (Some s))) n
     else if prop = NIP_JOINNONCE then on_id (joinNonce_update (string2JOINNONCE (Some s))) n
     else if prop = NIP_DEVICENAME then
       on_id (name_update (string2DEVICENAME (text_bytes s))) n
     else n)"

text \<open>The loop of \<open>string2NETWORKIDENTITY\<close>: \<open>start\<close> is the text since the last comma.\<close>

fun identity_loop :: "int \<Rightarrow> string \<Rightarrow> string \<Rightarrow> NETWORKIDENTITY \<Rightarrow> NETWORKIDENTITY" where
  "identity_loop c start [] n = setIdentity c start n"
| "identity_loop c start (x # p) n =
    (if x = CHR '','' then identity_loop (c + 1) [] p (setIdentity c start n)
     else identity_loop c (start @ [x]) p n)"

definition string2NETWORKIDENTITY :: "string \<Rightarrow> NETWORKIDENTITY \<Rightarrow> bool \<times> NETWORKIDENTITY" where
  "string2NETWORKIDENTITY s n = (True, identity_loop NIP_ADDRESS [] (c_string s) n)"

section \<open>Lemmas on hexadecimal\<close>

lemma number_value_hexString [text_simps]: "number_value 16 (hexString bs) = be_val bs"
proof (induction bs)
  case (Cons b bs)
  have "(16::nat) ^ (2 * length bs) = 256 ^ length bs"
    by (simp add: power_mult)
  with Cons show ?case by (simp add: number_value_append number_value_hex)
qed simp

lemma from_le_be_val: "from_le bs = (of_nat (be_val (rev bs)) :: 'a::len word)"
proof (induction bs)
  case (Cons b bs)
  have d: "\<not> bit (ucast b :: 'a word) n \<or> \<not> bit (push_bit 8 (from_le bs) :: 'a word) n" for n
    by (cases "n < 8") (auto simp: bit_simps)
  have "(from_le (b # bs) :: 'a word) = ucast b + push_bit 8 (from_le bs)"
    using d by (simp add: disjunctive_add)
  also have "\<dots> = of_nat (unat b + 256 * be_val (rev bs))"
    by (simp add: Cons push_bit_eq_mult)
  finally show ?case by (simp add: be_val_append algebra_simps)
qed simp

lemma unat_from_le:
  assumes "8 * length bs \<le> LENGTH('a)"
  shows "unat (from_le bs :: 'a::len word) = be_val (rev bs)"
proof -
  have "be_val (rev bs) < 256 ^ length bs" using be_val_bound [of "rev bs"] by simp
  also have "\<dots> = (2::nat) ^ (8 * length bs)" by (simp add: power_mult)
  also have "\<dots> \<le> 2 ^ LENGTH('a)" using assms by (intro power_increasing) simp_all
  finally show ?thesis by (simp add: from_le_be_val unsigned_of_nat take_bit_nat_eq_self)
qed

lemma le_bytes_empty [simp]: "le_bytes n w = [] \<longleftrightarrow> n = 0"
  by (simp add: le_bytes_def)

lemma strtoull_hexString:
  assumes "bs \<noteq> []" "length bs \<le> 8"
  shows "strtoull 16 (hexString bs) = of_nat (be_val bs)"
proof -
  have "be_val bs < 256 ^ length bs" by (rule be_val_bound)
  also have "\<dots> \<le> (256::nat) ^ 8" using assms(2) by (intro power_increasing) simp_all
  finally have "number_value 16 (hexString bs) < 2 ^ 64" by (simp add: text_simps)
  then show ?thesis
    using strtoull_digits [OF hexString_digits] assms(1) by (simp add: text_simps)
qed

lemma strtol_hexString:
  assumes "bs \<noteq> []" "length bs \<le> 7"
  shows "strtol 16 (hexString bs) = int (be_val bs)"
proof -
  have "be_val bs < 256 ^ length bs" by (rule be_val_bound)
  also have "\<dots> \<le> (256::nat) ^ 7" using assms(2) by (intro power_increasing) simp_all
  finally have "number_value 16 (hexString bs) < 2 ^ 63" by (simp add: text_simps)
  then show ?thesis
    using strtol_digits [OF hexString_digits] assms(1) by (simp add: text_simps)
qed

lemma le_bytes_NTOH:
  "le_bytes 2 (NTOH2 n) = rev (le_bytes 2 n)" "le_bytes 4 (NTOH4 a) = rev (le_bytes 4 a)"
  "le_bytes 8 (NTOH8 e) = rev (le_bytes 8 e)"
  unfolding NTOH2_def NTOH4_def NTOH8_def by (rule le_bytes_from_le; simp)+

lemma of_nat_be_val_le_bytes:
  "LENGTH('a) \<le> 8 * n \<Longrightarrow> of_nat (be_val (rev (le_bytes n w))) = (w :: 'a::len word)"
  using from_le_be_val [of "le_bytes n w", where 'a = 'a] by (simp add: from_le_le_bytes)

lemma DEVADDR_text [text_simps]: "string2DEVADDR (DEVADDR2string a) = a"
proof -
  have l: "be_val (rev (le_bytes 4 a)) < 256 ^ 4" using be_val_bound [of "rev (le_bytes 4 a)"] by simp
  have "strtoull 16 (DEVADDR2string a) = of_nat (be_val (rev (le_bytes 4 a)))"
    by (simp add: DEVADDR2string_def le_bytes_NTOH strtoull_hexString)
  then have "string2DEVADDR (DEVADDR2string a) = of_nat (be_val (rev (le_bytes 4 a)))"
    using l by (simp add: string2DEVADDR_def unsigned_of_nat take_bit_nat_eq_self)
  then show ?thesis by (simp add: of_nat_be_val_le_bytes)
qed

lemma DEVEUI_text [text_simps]: "string2DEVEUI (DEVEUI2string e) = e"
proof -
  have "strtoull 16 (DEVEUI2string e) = of_nat (be_val (rev (le_bytes 8 e)))"
    by (simp add: DEVEUI2string_def le_bytes_NTOH strtoull_hexString)
  then show ?thesis by (simp add: string2DEVEUI_def of_nat_be_val_le_bytes)
qed

lemma DEVNONCE_text [text_simps]: "string2DEVNONCE (Some (DEVNONCE2string n)) = n"
proof -
  have l: "be_val (le_bytes 2 n) < 256 ^ 2" using be_val_bound [of "le_bytes 2 n"] by simp
  have "strtoull 16 (DEVNONCE2string n) = of_nat (be_val (le_bytes 2 n))"
    by (simp add: DEVNONCE2string_def strtoull_hexString)
  then have "(ucast (strtoull 16 (DEVNONCE2string n)) :: u16) = of_nat (be_val (le_bytes 2 n))"
    using l by (simp add: unsigned_of_nat take_bit_nat_eq_self)
  then have "NTOH2 (ucast (strtoull 16 (DEVNONCE2string n))) = NTOH2 (NTOH2 n)"
    using from_le_be_val [of "rev (le_bytes 2 n)", where 'a = 16] by (simp add: NTOH2_def)
  moreover have "NTOH2 (NTOH2 n) = n"
    using le_bytes_NTOH(1) [of n] by (simp add: NTOH2_def [of "NTOH2 n"] from_le_le_bytes)
  ultimately show ?thesis by (simp add: string2DEVNONCE_def)
qed

lemma gatewayId_text [text_simps]: "string2gatewayId (gatewayId2str g) = g"
  using unsigned_less [of g, where 'a = nat]
  by (simp add: string2gatewayId_def gatewayId2str_def strtoull_show)

lemma hex_cases: "\<exists>a b. hex x = [a, b]"
  using length_hex [of x] by (cases "hex x" rule: remdups_adj.cases) auto

lemma strtol_hex: "strtol 16 (hex x) = int (unat x)"
proof -
  have "unat x < 256" using unsigned_less [of x, where 'a = nat] by simp
  moreover have "hex x \<noteq> []" using length_hex [of x] by force
  ultimately show ?thesis
    using strtol_digits [OF hex_digits] by (simp add: text_simps)
qed

lemma digit_not_NUL: "digit_value c < 16 \<Longrightarrow> c \<noteq> CHR 0x00"
  by (auto simp: digit_value_def)

lemma c_string_id: "list_all (\<lambda>c. c \<noteq> CHR 0x00) s \<Longrightarrow> c_string s = s"
  by (simp add: c_string_def takeWhile_eq_all_conv list_all_iff)

lemma c_string_digits: "list_all (\<lambda>c. digit_value c < 16) s \<Longrightarrow> c_string s = s"
  by (rule c_string_id) (auto simp: list_all_iff dest: digit_not_NUL)

lemma c_string_hexString [simp]: "c_string (hexString bs) = hexString bs"
  using hexString_digits by (rule c_string_digits)

lemma hex2string_hexString: "hex2string (hexString bs) = bytes_text bs"
proof (induction bs)
  case (Cons x bs)
  obtain a b where h: "hex x = [a, b]" using hex_cases by blast
  have "c_string [a, b] = [a, b]" using c_string_digits [OF hex_digits, of x] by (simp add: h)
  moreover have "strtol 16 [a, b] = int (unat x)" using strtol_hex [of x] by (simp add: h)
  moreover have "unat x < 256" using unsigned_less [of x, where 'a = nat] by simp
  ultimately show ?case using Cons by (simp add: hex2string_def h bytes_text_def nat_mod_distrib)
qed (simp add: hex2string_def bytes_text_def)

lemma string2KEY_loop_hexString:
  "i + length bs \<le> 16 \<Longrightarrow> length k = 16 \<Longrightarrow>
   string2KEY_loop i (hexString bs) k = take i k @ bs @ drop (i + length bs) k"
proof (induction bs arbitrary: i k)
  case (Cons x bs)
  obtain a b where h: "hex x = [a, b]" using hex_cases by blast
  have "strtol 16 [a, b] = int (unat x)" using strtol_hex [of x] by (simp add: h)
  then have w: "word_of_int (strtol 16 [a, b]) = x" by simp
  have i: "i < length k" using Cons.prems by simp
  show ?case
  proof (cases "i = 15")
    case True
    with Cons.prems show ?thesis by (simp add: h w Let_def upd_conv_take_nth_drop)
  next
    case False
    have "string2KEY_loop i (hexString (x # bs)) k = string2KEY_loop (i + 1) (hexString bs) (k[i := x])"
      using False Cons.prems by (simp add: h w Let_def)
    also have "\<dots> = take (i + 1) (k[i := x]) @ bs @ drop (i + 1 + length bs) (k[i := x])"
      using Cons.prems by (intro Cons.IH) simp_all
    also have "\<dots> = take i k @ (x # bs) @ drop (i + length (x # bs)) k"
      using i by (simp add: take_Suc_conv_app_nth)
    finally show ?thesis .
  qed
qed simp

lemma KEY_text [text_simps]: "length k = 16 \<Longrightarrow> length m = 16 \<Longrightarrow> string2KEY (Some (KEY2string k)) m = k"
  using string2KEY_loop_hexString [of 0 k m] by (simp add: string2KEY_def KEY2string_def)

lemma be_val_3: "be_val [a, b, c] = unat a * 65536 + unat b * 256 + unat c"
  by simp

lemma JOINNONCE_text [text_simps]:
  assumes "length n = 3"
  shows "string2JOINNONCE (Some (JOINNONCE2string n)) m = n"
proof -
  obtain a b c where n: "n = [a, b, c]"
    using assms by (auto simp: length_Suc_conv numeral_3_eq_3)
  have w: "word_of_int (strtol 16 (hexString [a, b, c])) = (from_le [c, b, a] :: u32)"
  proof -
    have "strtol 16 (hexString [a, b, c]) = int (be_val [a, b, c])"
      by (rule strtol_hexString) simp_all
    then show ?thesis using from_le_be_val [of "[c, b, a]", where 'a = 32] by (simp del: from_le.simps be_val.simps hexString_simps)
  qed
  have bits: "ucast (drop_bit 16 (from_le [c, b, a] :: u32) AND 0xff) = a"
    "ucast (drop_bit 8 (from_le [c, b, a] :: u32) AND 0xff) = b"
    "ucast ((from_le [c, b, a] :: u32) AND 0xff) = c"
    by (rule bit_word_eqI, simp only: ff_eq_mask, auto simp: bit_simps)+
  show ?thesis by (simp only: string2JOINNONCE_def JOINNONCE2string_def n option.case Let_def w bits)
qed

lemma NETID_show_length: "length (NETID2String n) = 6"
proof -
  have "unat (NETID2int n) < 16 ^ Suc 5"
  proof -
    have e: "NETID2int n = from_le [nid_c0 n, nid_c1 n, nid_c2 n]"
      unfolding NETID2int_def
      by (rule bit_word_eqI) (auto simp: bit_simps disjunctive_add)
    have "unat (NETID2int n) = be_val [nid_c2 n, nid_c1 n, nid_c0 n]"
      unfolding e by (subst unat_from_le) simp_all
    then show ?thesis using be_val_bound [of "[nid_c2 n, nid_c1 n, nid_c0 n]"] by simp
  qed
  then have "length (show_hex (unat (NETID2int n))) \<le> Suc 5" by (rule length_show_base [rotated]) simp
  then show ?thesis by (simp add: NETID2String_def pad_def)
qed

section \<open>Lemmas on numbers in streams and versions\<close>

lemma isdigit_iff: "isdigit c \<longleftrightarrow> digit_value c < 10"
  by (auto simp: isdigit_def digit_value_def Let_def)

lemma show_nat_digits: "list_all isdigit (show_nat n)"
  using show_base_digits [of 10 n] by (simp add: list_all_iff isdigit_iff)

lemma sentry_digits:
  assumes "s \<noteq> []" "\<not> isspace (hd s)"
  shows "sentry \<lparr>is_rest = s, is_eof = False, is_fail = False\<rparr> =
    (True, \<lparr>is_rest = s, is_eof = False, is_fail = False\<rparr>)"
  using assms by (cases s) (simp_all add: sentry_def)

lemma stream_int_show:
  assumes "n < 2 ^ 31" "rest = [] \<or> \<not> isdigit (hd rest)"
  shows "stream_int \<lparr>is_rest = show_nat n @ rest, is_eof = False, is_fail = False\<rparr> v =
    (int n, \<lparr>is_rest = rest, is_eof = (rest = []), is_fail = False\<rparr>)"
proof -
  obtain c cs where s: "show_nat n = c # cs" by (meson list.exhaust show_base_nonempty)
  have d: "list_all isdigit (c # cs)" using show_nat_digits [of n] by (simp add: s)
  then have c: "digit_value c < 16" by (simp add: isdigit_iff)
  have t: "takeWhile isdigit (cs @ rest) = cs" and r: "dropWhile isdigit (cs @ rest) = rest"
    using d assms(2) by (cases rest; simp add: takeWhile_append2 dropWhile_append2 list_all_iff)+
  have n: "number_value 10 (c # cs) = n" using number_value_show_base [of 10 n] by (simp add: s)
  have y: "sentry \<lparr>is_rest = c # cs @ rest, is_eof = False, is_fail = False\<rparr> =
      (True, \<lparr>is_rest = c # cs @ rest, is_eof = False, is_fail = False\<rparr>)"
    using sentry_digits [of "c # cs @ rest"] digit_not_space [OF c] by simp
  show ?thesis
    using assms(1) d
    by (simp add: stream_int_def s y strip_sign_digit [OF c] t r n
        del: dropWhile_eq_Nil_conv strip_sign.simps)
qed

lemma stream_char_dot:
  "stream_char \<lparr>is_rest = CHR ''.'' # s, is_eof = False, is_fail = False\<rparr> c =
    (CHR ''.'', \<lparr>is_rest = s, is_eof = False, is_fail = False\<rparr>)"
  using sentry_digits [of "CHR ''.'' # s"] by (simp add: stream_char_def isspace_def)

lemma read_version_show:
  assumes "ma < 2 ^ 31" "mi < 2 ^ 31" "re < 2 ^ 31"
  shows "read_version dot (show_nat ma @ ''.'' @ show_nat mi @ ''.'' @ show_nat re) =
    (int ma, int mi, int re)"
proof -
  have d: "\<not> isdigit (hd (''.'' @ s))" for s by (simp add: isdigit_def)
  show ?thesis
    using stream_int_show [OF assms(1), of "''.'' @ show_nat mi @ ''.'' @ show_nat re"]
      stream_int_show [OF assms(2), of "''.'' @ show_nat re"] stream_int_show [OF assms(3), of "[]"]
    by (simp add: read_version_def stringstream_def unless_eof_def stream_char_dot isdigit_def)
qed

lemma VERSION_text [text_simps]: "string2LORAWAN_VERSION (LORAWAN_VERSION2string v) = v"
proof -
  have b: "unat x < 2 ^ 31" for x :: u8 using unsigned_less [of x, where 'a = nat] by simp
  have "list_all (\<lambda>c. c \<noteq> CHR 0x00) (LORAWAN_VERSION2string v)"
  proof -
    have "CHR 0x00 \<notin> set (show_nat n)" for n
      using show_nat_digits [of n] by (auto simp: list_all_iff isdigit_def Let_def)
    then show ?thesis by (auto simp: LORAWAN_VERSION2string_def show_word_def list_all_iff)
  qed
  then have c: "c_string (LORAWAN_VERSION2string v) = LORAWAN_VERSION2string v" by (rule c_string_id)
  have "read_version (CHR 0x00) (LORAWAN_VERSION2string v) =
    (int (unat (version_major v)), int (unat (version_minor v)), int (unat (version_release v)))"
    using read_version_show [OF b b b, of "CHR 0x00" "version_major v" "version_minor v" "version_release v"]
    by (simp add: LORAWAN_VERSION2string_def show_word_def)
  then have "string2LORAWAN_VERSION (LORAWAN_VERSION2string v) =
    LORAWAN_VERSION_make (version_major v AND 3) (version_minor v AND 3) (version_release v AND 0xf)"
    by (simp add: string2LORAWAN_VERSION_def c)
  also have "\<dots> = v"
    unfolding u8_eq_iff
    by (simp add: LORAWAN_VERSION_make_def version_major_def version_minor_def version_release_def
        bit_simps)
  finally show ?thesis .
qed

section \<open>Lemmas on names and rates\<close>

lemma word_of_unat: "unat w = n \<Longrightarrow> w = of_nat n"
  by auto

lemma sint_small: "w < 2 ^ 31 \<Longrightarrow> sint w = int (unat w)" for w :: u32
proof -
  assume "w < 2 ^ 31"
  then have "uint w < 2 ^ 31" by (simp add: word_less_def)
  moreover have "- (2 ^ 31) \<le> uint w" by (rule order_trans [OF _ uint_ge_0]) simp
  ultimately show ?thesis by (simp add: sint_uint signed_take_bit_int_eq_self)
qed

lemma mtype_text: "m < 8 \<Longrightarrow> string2mtype (mtype2string m) = m"
proof -
  assume "m < 8"
  then have "unat m < 8" by (simp add: word_less_nat_alt)
  then have "unat m \<in> {0, 1, 2, 3, 4, 5, 6, 7}" by (rule less_8_cases)
  then have "m \<in> {0, 1, 2, 3, 4, 5, 6, 7}" by (auto dest!: word_of_unat)
  then show ?thesis by (elim insertE) (simp_all add: mtype2string_def string2mtype_def)
qed

lemma find_name_nth:
  "distinct ns \<Longrightarrow> i < length ns \<Longrightarrow> find_name ns (ns ! i) = Some i"
  by (induction ns arbitrary: i) (auto simp: nth_Cons' split: if_splits)

lemma ERR_CODE_TX_text:
  assumes "c \<le> 10"
  shows "string2ERR_CODE_TX (ERR_CODE_TX2string c) = c"
proof -
  have "unat c < length ERR_CODE_TX_STR" using assms by (simp add: ERR_CODE_TX_STR_def word_le_nat_alt)
  moreover have "distinct ERR_CODE_TX_STR" by (simp add: ERR_CODE_TX_STR_def)
  ultimately have "find_name ERR_CODE_TX_STR (ERR_CODE_TX_STR ! unat c) = Some (unat c)"
    by (rule find_name_nth [rotated])
  moreover have "\<not> 10 < c" using assms by simp
  ultimately show ?thesis by (simp add: string2ERR_CODE_TX_def ERR_CODE_TX2string_def)
qed

lemma activation_text: "a \<le> 1 \<Longrightarrow> string2activation (activation2string a) = a"
proof -
  assume "a \<le> 1"
  then have "unat a = 0 \<or> unat a = 1" by (simp add: word_le_nat_alt) linarith
  then have "a = 0 \<or> a = 1" by (auto dest!: word_of_unat)
  then show ?thesis by (auto simp: activation2string_def string2activation_def ACTIVATION_NAMES_def)
qed

lemma deviceclass_text: "c \<le> 2 \<Longrightarrow> string2deviceclass (deviceclass2string c) = c"
proof -
  assume "c \<le> 2"
  then have "unat c = 0 \<or> unat c = 1 \<or> unat c = 2" by (simp add: word_le_nat_alt) linarith
  then have "c = 0 \<or> c = 1 \<or> c = 2" by (auto dest!: word_of_unat)
  then show ?thesis by (auto simp: deviceclass2string_def)
qed

lemma khz_of_bandwidth: "b < 10 \<Longrightarrow> khz_bandwidth (bandwidth_khz b) = b"
proof -
  assume "b < 10"
  then have "unat b < 10" by (simp add: word_less_nat_alt)
  then have "unat b \<in> {0, 1, 2, 3, 4, 5, 6, 7, 8, 9}" by auto
  then have "b \<in> {0, 1, 2, 3, 4, 5, 6, 7, 8, 9}" by (auto dest!: word_of_unat)
  then show ?thesis by (elim insertE) (simp_all add: khz_bandwidth_def bandwidth_khz_def)
qed

lemma bandwidth_khz_small: "0 \<le> bandwidth_khz b \<and> bandwidth_khz b \<le> 500"
  by (simp add: bandwidth_khz_def)

lemma find_sub_char: "c \<notin> set s \<Longrightarrow> find_sub [c] (s @ c # t) = Some (length s)"
  by (induction s) auto

lemma strtol_show_nat: "n < 2 ^ 63 \<Longrightarrow> strtol 10 (show_nat n) = int n"
  using strtol_show [of 10 n] by simp

lemma datr_text:
  assumes "sf < 2 ^ 31" "b < 10"
  shows "string2datr b0 (datr2string sf b) = Some (sf, b)"
proof -
  let ?s = "show_nat (unat sf)" and ?w = "show_nat (nat (bandwidth_khz b))"
  have sf: "sint sf = int (unat sf)"
    using assms(1) by (rule sint_small)
  have t: "datr2string sf b = ''SF'' @ ?s @ CHR ''B'' # CHR ''W'' # ?w"
    using bandwidth_khz_small [of b] by (simp add: datr2string_def show_int_def sf)
  have nb: "CHR ''B'' \<notin> set (''SF'' @ ?s)"
    using show_nat_digits [of "unat sf"] by (auto simp: list_all_iff isdigit_def Let_def)
  have f: "find_sub ''B'' (datr2string sf b) = Some (2 + length ?s)"
    using find_sub_char [OF nb, of "CHR ''W'' # ?w"] by (simp add: t)
  have n: "strtol 10 ?s = int (unat sf)" "strtol 10 ?w = bandwidth_khz b"
    using unsigned_less [of sf, where 'a = nat] bandwidth_khz_small [of b]
      strtol_show_nat [of "unat sf"] strtol_show_nat [of "nat (bandwidth_khz b)"]
    by (simp_all add: nat_less_iff)
  have "bandwidth_khz b < 2 ^ 31" using bandwidth_khz_small [of b] by simp
  then have "signed_take_bit 31 (bandwidth_khz b) = bandwidth_khz b"
    using bandwidth_khz_small [of b] by (simp add: signed_take_bit_int_eq_self)
  then show ?thesis
    unfolding string2datr_def f
    by (simp add: t datr_sf_text_def substr_def n khz_of_bandwidth [OF assms(2)])
qed

section \<open>Lemmas on replacing and on identities\<close>

lemma find_sub_some:
  "find_sub p s = Some k \<Longrightarrow> k + length p \<le> length s \<and> take (length p) (drop k s) = p"
proof (induction p s arbitrary: k rule: find_sub.induct)
  case (2 p c s)
  show ?case
  proof (cases "take (length p) (c # s) = p")
    case True
    moreover have "length p \<le> length (c # s)" using arg_cong [OF True, of length] by simp
    ultimately show ?thesis using 2 by simp
  next
    case False
    with 2 show ?thesis by auto
  qed
qed (auto split: if_splits)

lemma find_sub_take:
  "find_sub p s = Some k \<Longrightarrow> p \<noteq> [] \<Longrightarrow> find_sub p (take k s @ p) = Some k"
proof (induction p s arbitrary: k rule: find_sub.induct)
  case (2 p c s)
  show ?case
  proof (cases k)
    case 0
    with 2 show ?thesis by (cases p) auto
  next
    case (Suc j)
    then have j: "find_sub p s = Some j" and n: "take (length p) (c # s) \<noteq> p"
      using 2 by (auto split: if_splits)
    have l: "take (length p) (drop j s) = p" "j + length p \<le> length s"
      using find_sub_some [OF j] by auto
    have "take (length p) (c # take j s @ p) = take (length p) (c # s)"
    proof -
      have "s = take j s @ p @ drop (j + length p) s"
        using l by (metis append.assoc append_take_drop_id drop_drop add.commute)
      then have "take (length p) (c # s) = take (length p) ((c # take j s @ p) @ drop (j + length p) s)"
        by simp
      also have "\<dots> = take (length p) (c # take j s @ p)" by (subst take_append) simp
      finally show ?thesis by simp
    qed
    with Suc n j 2 show ?thesis by simp
  qed
qed auto

lemma join_Cons: "ps \<noteq> [] \<Longrightarrow> join sep (p # ps) = p @ sep @ join sep ps"
  by (cases ps) auto

lemma replace_loop_parts:
  assumes "pat \<noteq> []"
  shows "\<exists>parts. parts \<noteq> [] \<and> s = join pat parts \<and> replace_loop pat rep s = Some (join rep parts) \<and>
    list_all (\<lambda>p. find_sub pat (p @ pat) = Some (length p)) (butlast parts) \<and>
    find_sub pat (last parts) = None"
proof (induction "length s" arbitrary: s rule: less_induct)
  case less
  show ?case
  proof (cases "find_sub pat s")
    case None
    then have "replace_loop pat rep s = Some s" by (subst replace_loop.simps) simp
    with None show ?thesis by (intro exI [of _ "[s]"]) simp
  next
    case (Some k)
    let ?r = "drop (k + length pat) s"
    have f: "k + length pat \<le> length s" "take (length pat) (drop k s) = pat"
      using find_sub_some [OF Some] by auto
    have s: "s = take k s @ pat @ ?r"
      using f by (metis append.assoc append_take_drop_id drop_drop add.commute)
    have "length ?r < length s" using f(1) assms by (cases pat) auto
    then obtain ps where ps: "ps \<noteq> []" "?r = join pat ps" "replace_loop pat rep ?r = Some (join rep ps)"
      "list_all (\<lambda>p. find_sub pat (p @ pat) = Some (length p)) (butlast ps)"
      "find_sub pat (last ps) = None"
      using less by blast
    have "replace_loop pat rep s = Some (take k s @ rep @ join rep ps)"
      using Some ps(3) by (subst replace_loop.simps) simp
    moreover have "find_sub pat (take k s @ pat) = Some (length (take k s))"
      using find_sub_take [OF Some assms] f(1) by simp
    ultimately show ?thesis
      using ps s by (intro exI [of _ "take k s # ps"]) (simp add: join_Cons)
  qed
qed

lemma find_sub_empty [simp]: "find_sub [] s = Some 0"
  by (cases s) auto

lemma replace_loop_empty: "replace_loop [] rep s = None"
proof -
  have "pat \<noteq> []" if "replace_loop pat rep s = Some r" for pat rep s r
    using that
  proof (rule replace_loop.raw_induct [where P = "\<lambda>pat rep s r. pat \<noteq> []", rotated])
    fix f :: "string \<Rightarrow> string \<Rightarrow> string \<Rightarrow> string option" and pat rep s r
    assume "\<And>pat rep s r. f pat rep s = Some r \<Longrightarrow> pat \<noteq> []"
      and "(case find_sub pat s of None \<Rightarrow> Some s
        | Some k \<Rightarrow> Option.bind (f pat rep (drop (k + length pat) s))
            (\<lambda>r. Some (take k s @ rep @ r))) = Some r"
    then show "pat \<noteq> []" by (cases "find_sub pat s") (auto simp: bind_eq_Some_conv)
  qed
  then show ?thesis by (cases "replace_loop [] rep s") auto
qed

lemma identity_loop_field:
  "list_all (\<lambda>x. x \<noteq> CHR '','') s \<Longrightarrow>
   identity_loop c start (s @ CHR '','' # p) n = identity_loop (c + 1) [] p (setIdentity c (start @ s) n)"
  by (induction s arbitrary: start) auto

lemma identity_loop_last:
  "list_all (\<lambda>x. x \<noteq> CHR '','') s \<Longrightarrow> identity_loop c start s n = setIdentity c (start @ s) n"
  by (induction s arbitrary: start) auto

section \<open>Properties\<close>

definition plain :: "char \<Rightarrow> bool" where
  "plain c \<longleftrightarrow> c \<noteq> CHR '','' \<and> c \<noteq> CHR 0x00"

lemma plain_digits: "list_all (\<lambda>c. digit_value c < 16) s \<Longrightarrow> list_all plain s"
  by (auto simp: list_all_iff plain_def digit_value_def)

lemma plain_hexString: "list_all plain (hexString bs)"
  by (rule plain_digits) (rule hexString_digits)

lemma plain_show: "list_all plain (show_word w)"
  unfolding show_word_def
  using show_nat_digits [of "unat w"] by (auto simp: list_all_iff plain_def isdigit_def Let_def)

lemma plain_version: "list_all plain (LORAWAN_VERSION2string v)"
proof -
  have "list_all plain (show_nat n)" for n
    using show_nat_digits [of n] by (auto simp: list_all_iff plain_def isdigit_def Let_def)
  then show ?thesis
    by (simp add: LORAWAN_VERSION2string_def show_word_def) (simp add: plain_def)
qed

lemma plain_names: "list_all plain (activation2string a)" "list_all plain (deviceclass2string c)"
proof -
  have "activation2string a = ''ABP'' \<or> activation2string a = ''OTAA''"
  proof (cases "a > 1")
    case False
    then have "unat a = 0 \<or> unat a = 1" by (simp add: word_less_nat_alt) linarith
    then show ?thesis by (auto simp: activation2string_def ACTIVATION_NAMES_def)
  qed (simp add: activation2string_def ACTIVATION_NAMES_def)
  then show "list_all plain (activation2string a)" by (auto simp: plain_def)
qed (simp add: deviceclass2string_def plain_def)

lemma plain_no_comma: "list_all plain s \<Longrightarrow> list_all (\<lambda>x. x \<noteq> CHR '','') s"
  by (auto simp: list_all_iff plain_def)

lemma identity_fields_plain:
  "list_all plain (bytes_text (DEVICENAME2string (name d))) \<Longrightarrow>
   list_all (list_all plain) (identity_fields d)"
  by (simp add: identity_fields_def plain_names plain_version plain_hexString plain_show
      token2string_def region2string_def subRegion2string_def DEVEUI2string_def KEY2string_def DEVNONCE2string_def JOINNONCE2string_def)

lemma join_no_NUL: "list_all (list_all plain) fs \<Longrightarrow> list_all (\<lambda>c. c \<noteq> CHR 0x00) (join '','' fs)"
proof (induction fs rule: induct_list012)
  case (3 p q ps)
  have "list_all (\<lambda>c. c \<noteq> CHR 0x00) p" using 3(3) by (auto simp: list_all_iff plain_def)
  with 3 show ?case by simp
qed (auto simp: list_all_iff plain_def)

text \<open>The line read back is a fold of \<open>setIdentity\<close> over the fields.\<close>

fun set_fields :: "int \<Rightarrow> string list \<Rightarrow> NETWORKIDENTITY \<Rightarrow> NETWORKIDENTITY" where
  "set_fields c [] n = n"
| "set_fields c (f # fs) n = set_fields (c + 1) fs (setIdentity c f n)"

lemma identity_loop_join:
  "list_all (list_all plain) fs \<Longrightarrow> fs \<noteq> [] \<Longrightarrow>
   identity_loop c [] (join '','' fs) n = set_fields c fs n"
proof (induction fs arbitrary: c n rule: induct_list012)
  case (2 p)
  then show ?case by (simp add: identity_loop_last plain_no_comma)
next
  case (3 p q ps)
  then show ?case
    using identity_loop_field [of p c "[]" "join '','' (q # ps)" n] plain_no_comma [of p]
    by (simp del: identity_loop.simps)
qed simp

text \<open>The line of an identity, as \<open>toString\<close> writes it, is not what
  \<open>string2NETWORKIDENTITY\<close> reads: the reader restores the address and eleven fields, takes
  the token for the name, and leaves token and regions as they were.\<close>

theorem identity_line_reread:
  assumes "wf_device d" "wf_device (ni_devid n)" "activation d \<le> OTAA" "deviceclass d \<le> CLASS_C"
    and "list_all plain (bytes_text (DEVICENAME2string (name d)))" "a \<noteq> 0"
  shows "string2NETWORKIDENTITY (NETWORKIDENTITY_toString \<lparr>ni_devaddr = a, ni_devid = d\<rparr>) n =
    (True, n\<lparr>ni_devaddr := a, ni_devid :=
       d\<lparr>token := token (ni_devid n), region := region (ni_devid n),
         subRegion := subRegion (ni_devid n),
         name := string2DEVICENAME (text_bytes (token2string (token d))) (name (ni_devid n))\<rparr>\<rparr>)"
proof -
  let ?fs = "DEVADDR2string a # identity_fields d"
  have pl: "list_all (list_all plain) ?fs"
    using identity_fields_plain [OF assms(5)] by (simp add: DEVADDR2string_def plain_hexString)
  have "c_string (join '','' ?fs) = join '','' ?fs" by (rule c_string_id) (rule join_no_NUL [OF pl])
  then have "string2NETWORKIDENTITY (join '','' ?fs) n = (True, set_fields NIP_ADDRESS ?fs n)"
    using identity_loop_join [OF pl] by (simp add: string2NETWORKIDENTITY_def)
  moreover have "NETWORKIDENTITY_toString \<lparr>ni_devaddr = a, ni_devid = d\<rparr> = join '','' ?fs"
    using assms(6) by (simp add: NETWORKIDENTITY_toString_def DEVICEID_toString_def isDEVADDREmpty_def)
  ultimately show ?thesis
    using assms(1-4)
    by (simp add: identity_fields_def setIdentity_def on_id_def text_simps activation_text
        deviceclass_text wf_device_def wf_KEY128_def)
qed

theorem identity_line_reread_witness:
  "string2NETWORKIDENTITY (NETWORKIDENTITY_toString \<lparr>ni_devaddr = 0x01020304, ni_devid = DEVICEID_default\<rparr>)
     \<lparr>ni_devaddr = 7, ni_devid = DEVICEID_default\<rparr> =
   (True, \<lparr>ni_devaddr = 7, ni_devid = DEVICEID_default\<rparr>
     \<lparr>ni_devaddr := 0x01020304, ni_devid := DEVICEID_default
       \<lparr>token := token (ni_devid \<lparr>ni_devaddr = 7, ni_devid = DEVICEID_default\<rparr>),
        region := region (ni_devid \<lparr>ni_devaddr = 7, ni_devid = DEVICEID_default\<rparr>),
        subRegion := subRegion (ni_devid \<lparr>ni_devaddr = 7, ni_devid = DEVICEID_default\<rparr>),
        name := string2DEVICENAME (text_bytes (token2string (token DEVICEID_default)))
          (name (ni_devid \<lparr>ni_devaddr = 7, ni_devid = DEVICEID_default\<rparr>))\<rparr>\<rparr>)"
  by (rule identity_line_reread)
    (simp_all add: DEVICEID_default_def wf_device_def wf_KEY128_def KEY128_zero_def
      DEVICENAME2string_def c_str_def bytes_text_def)

text \<open>C35: \<open>replaceAll\<close> returns for every text and every pattern that is not empty: the
  text is cut at the occurrences of the pattern, the first one first and none overlapping, and
  the parts are joined by the replacement.  For the empty pattern it does not return.\<close>

theorem replaceAll_terminates:
  "if pat = [] then replaceAll s pat rep = None
   else \<exists>parts. s = join pat parts \<and> replaceAll s pat rep = Some (join rep parts) \<and>
     list_all (\<lambda>p. find_sub pat (p @ pat) = Some (length p)) (butlast parts) \<and>
     find_sub pat (last parts) = None"
  using replace_loop_parts [of pat s rep] by (auto simp: replaceAll_def replace_loop_empty)

text \<open>What a frequency's text says, read as a decimal number of megahertz, in hertz.\<close>

definition decimal_mhz :: "string \<Rightarrow> nat" where
  "decimal_mhz s =
    (let m = takeWhile isdigit s; f = drop (Suc (length m)) s
     in number_value 10 m * 1000000 + number_value 10 f * 10 ^ (6 - length f))"

lemma freq2string_small:
  assumes "f < 2 ^ 31"
  shows "freq2string f = show_nat (unat f div 1000000) @ ''.'' @ show_nat (unat f mod 1000000)"
proof -
  have s: "sint f = int (unat f)" using assms by (rule sint_small)
  have d: "sint f sdiv 1000000 = int (unat f div 1000000)"
    by (cases "f = 0") (simp_all add: s signed_divide_int_def zdiv_int)
  have "(word_of_int (int (unat f div 1000000) * 1000000) :: u32) = of_nat (unat f div 1000000 * 1000000)"
    by simp
  then have "f - word_of_int (int (unat f div 1000000) * 1000000) =
      of_nat (unat f) - (of_nat (unat f div 1000000 * 1000000) :: u32)"
    by simp
  also have "\<dots> = of_nat (unat f - unat f div 1000000 * 1000000)"
    by (simp only: of_nat_diff div_times_less_eq_dividend)
  finally have "f - word_of_int (int (unat f div 1000000) * 1000000) = of_nat (unat f mod 1000000)"
    by (simp only: minus_div_mult_eq_mod)
  moreover have "unat (of_nat (unat f mod 1000000) :: u32) = unat f mod 1000000"
    by (simp add: unsigned_of_nat take_bit_nat_eq_self)
  ultimately show ?thesis
    unfolding freq2string_def d Let_def by (simp add: show_int_def show_word_def)
qed

lemma length_show_nat_less: "n < 10 ^ Suc k \<Longrightarrow> length (show_nat n) \<le> Suc k"
  by (rule length_show_base) simp_all

lemma length_show_nat_ge: "10 ^ k \<le> n \<Longrightarrow> k < length (show_nat n)"
proof (induction k arbitrary: n)
  case (Suc k)
  then have "10 \<le> n" by (metis power_Suc le_trans mult_le_mono2 mult.right_neutral one_le_numeral one_le_power)
  moreover have "10 ^ k \<le> n div 10" using Suc.prems by (simp add: less_eq_div_iff_mult_less_eq mult.commute)
  ultimately show ?case using Suc.IH [of "n div 10"] by (subst show_base.simps) simp
qed simp

text \<open>The text of a frequency names that frequency, as a decimal number of megahertz,
  only when its part below a megahertz is 0 or has six digits: the zeros in front of that part
  are not printed.\<close>

theorem freq_text_value:
  assumes "f < 2 ^ 31"
  shows "decimal_mhz (freq2string f) = unat f \<longleftrightarrow>
    unat f mod 1000000 = 0 \<or> 100000 \<le> unat f mod 1000000"
proof -
  let ?m = "unat f div 1000000" and ?r = "unat f mod 1000000"
  have "takeWhile isdigit (show_nat ?m @ CHR ''.'' # show_nat ?r) = show_nat ?m"
    using show_nat_digits [of ?m] by (simp add: takeWhile_append2 list_all_iff isdigit_def)
  then have v: "decimal_mhz (freq2string f) =
      ?m * 1000000 + ?r * 10 ^ (6 - length (show_nat ?r))"
    using freq2string_small [OF assms] by (simp add: decimal_mhz_def number_value_show_base)
  have "?r < 10 ^ Suc 5" by simp
  then have l: "length (show_nat ?r) \<le> 6" using length_show_nat_less by fastforce
  have "decimal_mhz (freq2string f) = unat f \<longleftrightarrow> ?r * 10 ^ (6 - length (show_nat ?r)) = ?r"
    unfolding v using div_mult_mod_eq [of "unat f" 1000000] by linarith
  also have "\<dots> \<longleftrightarrow> ?r = 0 \<or> 6 - length (show_nat ?r) = 0" by (auto simp: nat_power_eq_Suc_0_iff)
  also have "\<dots> \<longleftrightarrow> ?r = 0 \<or> 100000 \<le> ?r"
    using l length_show_nat_less [of ?r 4] length_show_nat_ge [of 5 ?r] by fastforce
  finally show ?thesis .
qed

theorem freq_text_value_witness:
  "decimal_mhz (freq2string 868050000) = unat (868050000 :: u32) \<longleftrightarrow>
     unat (868050000 :: u32) mod 1000000 = 0 \<or> 100000 \<le> unat (868050000 :: u32) mod 1000000"
  by (rule freq_text_value) simp

text \<open>A network identifier given with too few digits is read into its first bytes; the
  bytes that should be cleared keep what they held, and as many bytes of the memory behind the
  object are cleared instead.\<close>

theorem short_netid_clears_memory_behind:
  assumes "0 < length bs" "length bs < 3" "9 \<le> length memory"
  shows "mem_read (string2NETID (hexString bs) memory) 0 3 =
      bs @ mem_read memory (length bs) (3 - length bs) \<and>
    mem_read (string2NETID (hexString bs) memory) (3 * length bs) (3 - length bs) =
      replicate (3 - length bs) 0"
proof -
  have e: "string2NETID (hexString bs) memory =
      mem_write (mem_write memory 0 bs) (3 * length bs) (replicate (3 - length bs) 0)"
    using assms by (simp add: string2NETID_def hex_to_3_bytes_def hex2string_hexString Let_def)
  have "mem_read (mem_write memory 0 bs) 0 3 = bs @ mem_read memory (length bs) (3 - length bs)"
    using assms by (simp add: mem_read_def mem_write_def)
  moreover have "0 + 3 \<le> 3 * length bs" using assms(1) by (cases bs) simp_all
  then have "mem_read (mem_write (mem_write memory 0 bs) (3 * length bs) (replicate (3 - length bs) 0)) 0 3 =
      mem_read (mem_write memory 0 bs) 0 3"
    by (rule mem_read_write_before) (use assms in simp)
  ultimately show ?thesis using assms by (simp add: e)
qed

theorem short_netid_clears_memory_behind_witness:
  "mem_read (string2NETID (hexString [0xab]) (replicate 9 1)) 0 3 =
      [0xab] @ mem_read (replicate 9 1) (length [0xab :: u8]) (3 - length [0xab :: u8]) \<and>
    mem_read (string2NETID (hexString [0xab]) (replicate 9 1)) (3 * length [0xab :: u8]) (3 - length [0xab :: u8]) =
      replicate (3 - length [0xab :: u8]) 0"
  by (rule short_netid_clears_memory_behind) simp_all

text \<open>A data rate written as text reads back, for every bandwidth there is and every
  spreading factor that is not negative as an \<open>int\<close>; the bandwidth given does not matter.\<close>

theorem datr_roundtrip:
  assumes "sf < 2 ^ 31" "b < 10"
  shows "string2datr b0 (datr2string sf b) = Some (sf, b)"
  using assms by (rule datr_text)

theorem datr_roundtrip_witness: "string2datr 0 (datr2string 7 7) = Some (7, 7)"
  by (rule datr_roundtrip) simp_all

lemma datr_exception: "string2datr b ''SF7B'' = None"
  by (simp add: string2datr_def substr_def)

text \<open>A coding rate written as text reads back, but for two: 4/8 and the rate that is off
  read back as 4/6.\<close>

theorem coding_rate_text:
  assumes "c < 8"
  shows "string2codingRate (codingRate2string c) = (if c = CR_OFF \<or> c = CR_4_8 then CR_4_6 else c)"
proof -
  have "unat c < 8" using assms by (simp add: word_less_nat_alt)
  then have "unat c \<in> {0, 1, 2, 3, 4, 5, 6, 7}" by (rule less_8_cases)
  then have "c \<in> {0, 1, 2, 3, 4, 5, 6, 7}" by (auto dest!: word_of_unat)
  then show ?thesis by (elim insertE) (simp_all add: codingRate2string_def string2codingRate_def)
qed

theorem coding_rate_text_witness:
  "string2codingRate (codingRate2string 4) = (if (4::u32) = CR_OFF \<or> 4 = CR_4_8 then CR_4_6 else 4)"
  by (rule coding_rate_text) simp

lemma bandwidth_text: "b < 10 \<Longrightarrow> string2BANDWIDTH (BANDWIDTH2String b) = b"
proof -
  assume "b < 10"
  then have "unat b < 10" by (simp add: word_less_nat_alt)
  then have "unat b \<in> {0, 1, 2, 3, 4, 5, 6, 7, 8, 9}" by auto
  then have "b \<in> {0, 1, 2, 3, 4, 5, 6, 7, 8, 9}" by (auto dest!: word_of_unat)
  then show ?thesis
    by (elim insertE) (simp_all add: BANDWIDTH2String_def string2BANDWIDTH_def c_string_def)
qed

end
