(* ===== verification/Frame_Text.thy ===== *)
theory Frame_Text
  imports Lora_Text Mac_Data Gw_Data
begin

text \<open>
  Frames and metadata as JSON text (\<open>lorawan/lorawan-string.cpp\<close>, and the \<open>toString\<close>
  methods of \<open>lorawan-types.cpp\<close>, \<open>lorawan-packet-storage.cpp\<close>,
  \<open>storage/network-identity.cpp\<close>).  A frame in a buffer is the memory from its first byte
  on, which goes on behind the frame, and the size the code was given.  A function has no result
  (\<open>None\<close>) where a negative length is taken as an unsigned one.
\<close>

section \<open>JSON\<close>

definition json_key :: "string \<Rightarrow> string" where
  "json_key k = quoted k @ '': ''"

definition json_members :: "(string \<times> string) list \<Rightarrow> string" where
  "json_members ms = comma_list (map (\<lambda>(k, v). json_key k @ v) ms)"

definition json_object :: "(string \<times> string) list \<Rightarrow> string" where
  "json_object ms = ''{'' @ json_members ms @ ''}''"

text \<open>Members that follow others.\<close>

definition more_members :: "(string \<times> string) list \<Rightarrow> string" where
  "more_members ms = concat (map (\<lambda>(k, v). '', '' @ json_key k @ v) ms)"

section \<open>Headers\<close>

definition fctrl_fpending :: "u8 \<Rightarrow> bool" where
  "fctrl_fpending c = bit c 4"

definition fctrl_rfu :: "u8 \<Rightarrow> u8" where
  "fctrl_rfu c = take_bit 1 (drop_bit 6 c)"

definition fctrl_classb :: "u8 \<Rightarrow> bool" where
  "fctrl_classb c = bit c 4"

definition fctrl_addrackreq :: "u8 \<Rightarrow> bool" where
  "fctrl_addrackreq c = bit c 6"

definition MHDR2String :: "MHDR \<Rightarrow> string" where
  "MHDR2String h = json_object
    [(''mtype'', show_word (mhdr_mtype h)), (''m_type'', quoted (mtype2string (mhdr_mtype h))),
     (''major'', show_word (mhdr_major h)), (''rfu'', show_word (mhdr_rfu h))]"

text \<open>The object is not closed; the fields of an uplink are shown for a downlink.\<close>

definition FHDR2String :: "FHDR \<Rightarrow> bool \<Rightarrow> string" where
  "FHDR2String f downLink =
    ''{'' @ json_members
      ([(''addr'', quoted (DEVADDR2string (devaddr f))), (''foptslen'', show_word (foptslen (fctrl f)))] @
       (if downLink
        then [(''classb'', show_bool (fctrl_classb (fctrl f))), (''ack'', show_bool (fctrl_ack (fctrl f))),
              (''addrackreq'', show_bool (fctrl_addrackreq (fctrl f)))]
        else [(''fpending'', show_bool (fctrl_fpending (fctrl f))), (''ack'', show_bool (fctrl_ack (fctrl f)))]) @
       [(''adr'', show_bool (fctrl_adr (fctrl f)))])"

definition isDownlink :: "MHDR \<Rightarrow> bool" where
  "isDownlink h \<longleftrightarrow>
    mhdr_mtype h = MTYPE_UNCONFIRMED_DATA_DOWN \<or> mhdr_mtype h = MTYPE_CONFIRMED_DATA_DOWN"

definition isDownlink_ptr :: "bytes option \<Rightarrow> nat \<Rightarrow> bool" where
  "isDownlink_ptr m n \<longleftrightarrow> (case m of None \<Rightarrow> False | Some b \<Rightarrow> n \<ge> 1 \<and> isDownlink (b ! 0))"

definition isUplink :: "MHDR \<Rightarrow> bool" where
  "isUplink h \<longleftrightarrow>
    mhdr_mtype h = MTYPE_UNCONFIRMED_DATA_UP \<or> mhdr_mtype h = MTYPE_CONFIRMED_DATA_UP"

record RFM_HEADER =
  macheader :: MHDR
  fhdr :: FHDR

text \<open>The flags of the frame control byte, which both texts name in the same order.\<close>

definition fctrl_flags :: "RFM_HEADER \<Rightarrow> string list" where
  "fctrl_flags hdr =
    (let h = macheader hdr; c = fctrl (fhdr hdr) in
     (if isDownlink h \<and> fctrl_fpending c then [''pending''] else []) @
     (if isUplink h \<and> fctrl_classb c then [''classB''] else []) @
     (if fctrl_ack c then [''ack''] else []) @
     (if isUplink h \<and> fctrl_addrackreq c then [''addrAckReq''] else []) @
     (if fctrl_adr c then [''adr''] else []))"

definition fctrl2string :: "RFM_HEADER option \<Rightarrow> string" where
  "fctrl2string hdr =
    (case hdr of
       None \<Rightarrow> []
     | Some h \<Rightarrow> show_word (foptslen (fctrl (fhdr h))) @ concat (map (\<lambda>f. '', '' @ f) (fctrl_flags h)))"

definition fctrl2json :: "RFM_HEADER option \<Rightarrow> string" where
  "fctrl2json hdr =
    (case hdr of
       None \<Rightarrow> ''{}''
     | Some h \<Rightarrow> ''{'' @ json_key ''foptslen'' @ show_word (foptslen (fctrl (fhdr h))) @
         more_members (map (\<lambda>f. (f, ''true'')) (fctrl_flags h)) @ ''}'')"

definition cid2string :: "u8 \<Rightarrow> string" where
  "cid2string cid = getMACCommandName cid"

definition mac2string :: "bytes \<Rightarrow> u8 \<Rightarrow> nat \<Rightarrow> string" where
  "mac2string v foptSize bufferSize =
    (let sz = min (unat foptSize) bufferSize
     in if sz = 0 then [] else hexString (take sz v) @ '' ('' @ cid2string (v ! 0) @ '')'')"

definition rfm_header2string :: "RFM_HEADER \<Rightarrow> string" where
  "rfm_header2string h =
    mhdr2string (macheader h) @ '', '' @ DEVADDR2string (devaddr (fhdr h)) @ '', '' @
    fctrl2string (Some h) @ '', '' @ show_word (fcnt (fhdr h))"

text \<open>Neither the type is quoted nor the object closed.\<close>

definition rfm_header2json :: "RFM_HEADER \<Rightarrow> string" where
  "rfm_header2json h =
    ''{'' @ json_key ''mhdr'' @ mhdr2string (macheader h) @ '', '' @
    json_key ''addr'' @ quoted (DEVADDR2string (devaddr (fhdr h))) @ '', '' @
    fctrl2json (Some h) @ '', '' @ json_key ''fcnt'' @ show_word (fcnt (fhdr h))"

section \<open>Join frames\<close>

definition JOIN_REQUEST_FRAME2string :: "JOIN_REQUEST_FRAME \<Rightarrow> string" where
  "JOIN_REQUEST_FRAME2string r = json_object
    [(''joinEUI'', quoted (DEVEUI2string (joinEUI r))), (''devEUI'', quoted (DEVEUI2string (jr_devEUI r))),
     (''devNonce'', quoted (DEVNONCE2string (jr_devNonce r)))]"

definition JOIN_ACCEPT_FRAME_HEADER2string :: "JOIN_ACCEPT_FRAME_HEADER \<Rightarrow> string" where
  "JOIN_ACCEPT_FRAME_HEADER2string h = json_object
    [(''joinNonce'', quoted (JOINNONCE2string (ja_joinNonce h))),
     (''netId'', quoted (NETID2String (ja_netId h))),
     (''devAddr'', quoted (DEVADDR2string (ja_devAddr h))),
     (''dlSettings'', json_object
       [(''RX2DataRate'', show_word (DLSETTINGS_RX2DataRate (ja_dlSettings h))),
        (''RX1DROffset'', show_word (DLSETTINGS_RX1DROffset (ja_dlSettings h))),
        (''optNeg'', show_nat (if DLSETTINGS_optNeg (ja_dlSettings h) then 1 else 0))]),
     (''rxDelay'', quoted (show_word (ja_rxDelay h)))]"

definition JOIN_ACCEPT_FRAME2string :: "JOIN_ACCEPT_FRAME \<Rightarrow> string" where
  "JOIN_ACCEPT_FRAME2string f = json_object
    [(''header'', JOIN_ACCEPT_FRAME_HEADER2string (ja_hdr f)), (''mic'', quoted (MIC2String (ja_mic f)))]"

record CFLIST =
  cf_frequency :: "bytes list"
  cf_cflisttype :: u8

definition CFLIST2string :: "CFLIST \<Rightarrow> string" where
  "CFLIST2string c = json_object
    [(''cflisttype'', show_word (cf_cflisttype c)),
     (''frequency'', ''['' @ comma_list (map (\<lambda>i. show_word (FREQUENCY2int (cf_frequency c ! i))) [0..<5]) @ '']'')]"

record JOIN_ACCEPT_FRAME_CFLIST =
  jc_hdr :: JOIN_ACCEPT_FRAME_HEADER
  jc_cflist :: CFLIST
  jc_mic :: u32

text \<open>The commas are doubled.\<close>

definition JOIN_ACCEPT_FRAME_CFLIST2string :: "JOIN_ACCEPT_FRAME_CFLIST \<Rightarrow> string" where
  "JOIN_ACCEPT_FRAME_CFLIST2string f =
    ''{'' @ json_key ''header'' @ JOIN_ACCEPT_FRAME_HEADER2string (jc_hdr f) @ '', '' @
    '', '' @ json_key ''cflist'' @ CFLIST2string (jc_cflist f) @ '', '' @
    '', '' @ json_key ''mic'' @ quoted (MIC2String (jc_mic f)) @ ''}''"

section \<open>Commands in the options\<close>

text \<open>\<open>MacPtr\<close> points into the memory it parsed; a command there is its byte and the five
  that follow, also behind the parsed bytes.\<close>

definition command_at :: "bytes \<Rightarrow> nat \<Rightarrow> MAC_COMMAND" where
  "command_at m p = \<lparr>command = m ! p, mac_data = from_le (mem_read m (p + 1) 5)\<rparr>"

definition MacPtr_toJSONString :: "bytes \<Rightarrow> MacPtr \<Rightarrow> string" where
  "MacPtr_toJSONString m p =
    ''['' @ comma_list (map (\<lambda>i. ''{'' @ MAC_DATA2JSONString (command_at m i) (mp_clientSide p) @ ''}'')
      (mp_mac p)) @ '']''"

section \<open>Data frames\<close>

definition UPLINK_STORAGE_rest :: "code \<Rightarrow> nat \<Rightarrow> bytes \<Rightarrow> bool \<Rightarrow> string" where
  "UPLINK_STORAGE_rest jr jm d cs =
    (if st_foptslen d = 0 then []
     else '', '' @ json_key ''fopts'' @ quoted (hexString (st_fopts d)) @ '', '' @ json_key ''mac'' @
       MacPtr_toJSONString (drop 7 d) (MacPtr_new jr jm (st_fopts d) cs))"

definition payload_members :: "bytes \<Rightarrow> nat \<Rightarrow> string" where
  "payload_members d n =
    more_members [(''fport'', quoted (show_word (st_fport d))),
      (''payload'', quoted (hexString (mem_read d (st_payload_offset d) n)))]"

text \<open>A size below the length of the options makes the length of the payload negative.\<close>

definition DOWNLINK_STORAGE2String :: "code \<Rightarrow> nat \<Rightarrow> bytes \<Rightarrow> int \<Rightarrow> string option" where
  "DOWNLINK_STORAGE2String jr jm d n =
    (let c = d ! 4;
         psz = n - int (st_foptslen d);
         psz = (if psz > 255 then 255 else psz);
         t = ''{'' @ json_members
           [(''addr'', quoted (DEVADDR2string (st_devaddr d))), (''foptslen'', show_nat (st_foptslen d)),
            (''fpending'', show_bool (fctrl_fpending c)), (''ack'', show_bool (fctrl_ack c)),
            (''rfu'', show_word (fctrl_rfu c)), (''adr'', show_bool (fctrl_adr c)),
            (''fcnt'', show_word (st_fcnt d))] @ UPLINK_STORAGE_rest jr jm d True
     in if psz < 0 then None
        else Some (t @ (if psz = 0 then [] else payload_members d (nat psz)) @ ''}''))"

definition UPLINK_STORAGE2String :: "code \<Rightarrow> nat \<Rightarrow> bytes \<Rightarrow> int \<Rightarrow> string" where
  "UPLINK_STORAGE2String jr jm d n =
    (let c = d ! 4;
         psz = n - int (st_foptslen d);
         psz = (if psz > 255 then 255 else if psz < 0 then 0 else psz);
         t = ''{'' @ json_members
           [(''addr'', quoted (DEVADDR2string (st_devaddr d))), (''foptslen'', show_nat (st_foptslen d)),
            (''classb'', show_bool (fctrl_classb c)), (''ack'', show_bool (fctrl_ack c)),
            (''addrackreq'', show_nat (if fctrl_addrackreq c then 1 else 0)),
            (''adr'', show_bool (fctrl_adr c)), (''fcnt'', show_word (st_fcnt d))] @
           UPLINK_STORAGE_rest jr jm d False
     in t @ (if psz = 0 then [] else payload_members d (nat psz)) @ ''}'')"

definition join_accept_of :: "bytes \<Rightarrow> JOIN_ACCEPT_FRAME" where
  "join_accept_of b =
    \<lparr> ja_hdr = \<lparr> ja_joinNonce = mem_read b 0 3,
        ja_netId = \<lparr>nid_c0 = b ! 3, nid_c1 = b ! 4, nid_c2 = b ! 5\<rparr>,
        ja_devAddr = from_le (mem_read b 6 4), ja_dlSettings = b ! 10, ja_rxDelay = b ! 11 \<rparr>,
      ja_mic = from_le (mem_read b 12 4) \<rparr>"

definition STORAGE_toString :: "code \<Rightarrow> nat \<Rightarrow> LORAWAN_MESSAGE_STORAGE \<Rightarrow> string option" where
  "STORAGE_toString jr jm s =
    (let t = mtype s; h = ''{'' @ json_key ''mhdr'' @ MHDR2String (mhdr s) in
     if t = MTYPE_JOIN_REQUEST \<or> t = MTYPE_REJOIN_REQUEST then
       Some (h @ more_members [(''joinRequest'', JOIN_REQUEST_FRAME2string (join_request_of (mdata s)))] @ ''}'')
     else if t = MTYPE_JOIN_ACCEPT then
       Some (h @ more_members [(''joinResponse'', JOIN_ACCEPT_FRAME2string (join_accept_of (mdata s)))] @ ''}'')
     else if t = MTYPE_UNCONFIRMED_DATA_UP \<or> t = MTYPE_CONFIRMED_DATA_UP then
       Some (h @ more_members [(''uplink'', UPLINK_STORAGE2String jr jm (mdata s) (psize s))] @ ''}'')
     else if t = MTYPE_UNCONFIRMED_DATA_DOWN \<or> t = MTYPE_CONFIRMED_DATA_DOWN then
       map_option (\<lambda>x. h @ more_members [(''downlink'', x)] @ ''}'')
         (DOWNLINK_STORAGE2String jr jm (mdata s) (psize s))
     else Some (h @ ''}''))"

section \<open>A frame in a radio buffer\<close>

definition rfmMac2string :: "bytes option \<Rightarrow> u16 \<Rightarrow> string" where
  "rfmMac2string buf n =
    (case buf of
       None \<Rightarrow> []
     | Some b \<Rightarrow>
         if unat n < 8 then []
         else if rfm_foptslen b + 8 > unat n then []
         else hexString (mem_read b 8 (rfm_foptslen b)))"

definition rfmPort :: "bytes option \<Rightarrow> u16 \<Rightarrow> int" where
  "rfmPort buf n =
    (case buf of
       None \<Rightarrow> -1
     | Some b \<Rightarrow>
         if unat n < 8 then -1
         else if rfm_foptslen b + 9 > unat n then -1
         else uint (b ! (8 + rfm_foptslen b)))"

definition rfmMic :: "bytes option \<Rightarrow> u16 \<Rightarrow> u32" where
  "rfmMic buf n =
    (case buf of
       None \<Rightarrow> -1
     | Some b \<Rightarrow>
         if unat n < 8 then -1
         else if rfm_foptslen b + 13 > unat n then -1
         else NTOH4 (from_le (mem_read b (unat n - 4) 4)))"

text \<open>The guard leaves out the integrity code, so the length may be negative.\<close>

definition rfmPayload2string :: "bytes option \<Rightarrow> u16 \<Rightarrow> string option" where
  "rfmPayload2string buf n =
    (case buf of
       None \<Rightarrow> Some []
     | Some b \<Rightarrow>
         if unat n < 8 then Some []
         else if rfm_foptslen b + 9 > unat n then Some []
         else if rfm_foptslen b + 13 > unat n then None
         else Some (hexString (mem_read b (9 + rfm_foptslen b) (unat n - 13 - rfm_foptslen b))))"

definition fhdr_of :: "bytes \<Rightarrow> FHDR" where
  "fhdr_of b = \<lparr>devaddr = from_le (mem_read b 0 4), fctrl = b ! 4, fcnt = from_le (mem_read b 5 2)\<rparr>"

text \<open>
  \<open>printRFM2json\<close> returns its code and what it wrote.  The header of a data frame is printed for
  every type, and the join frames are read behind it.
\<close>

definition rfm_data_members :: "bytes \<Rightarrow> u16 \<Rightarrow> string option" where
  "rfm_data_members b n =
    map_option (\<lambda>payload.
        ''}, '' @ json_key ''mac'' @ CHR 0x22 # rfmMac2string (Some b) n @
        (if rfmPort (Some b) n \<ge> 0
         then CHR 0x22 # '', '' @ json_key ''fport'' @ show_int (rfmPort (Some b) n) @
           '', '' @ json_key ''payload'' @ CHR 0x22 # payload
         else []) @
        CHR 0x22 # '', '' @ json_key ''mic'' @ quoted (pad 8 (CHR ''0'') (show_hex (unat (rfmMic (Some b) n)))))
      (if rfmPort (Some b) n \<ge> 0 then rfmPayload2string (Some b) n else Some [])"

definition printRFM2json :: "bytes \<Rightarrow> u16 \<Rightarrow> (code \<times> string) option" where
  "printRFM2json b n =
    (if unat n < 1 then Some (ERR_CODE_INVALID_PACKET, [])
     else
       let m = ''{'' @ json_key ''mhdr'' @ MHDR2String (b ! 0)
       in if unat n < 8 then Some (CODE_OK, m @ ''}'')
          else
            let f = m @ '', '' @ json_key ''fhdr'' @ FHDR2String (fhdr_of (drop 1 b)) (isDownlink (b ! 0));
                pp = drop 8 b; t = mhdr_mtype (b ! 0)
            in if t = MTYPE_JOIN_REQUEST then
                 Some (CODE_OK, f @ '', '' @ JOIN_REQUEST_FRAME2string (join_request_of pp) @ ''}'')
               else if t = MTYPE_JOIN_ACCEPT then
                 Some (CODE_OK, f @ '', '' @ JOIN_ACCEPT_FRAME2string (join_accept_of pp) @ ''}'')
               else if is_up t \<or> is_down t then
                 map_option (\<lambda>d. (CODE_OK, f @ d @ ''}'')) (rfm_data_members b n)
               else Some (CODE_OK, f @ ''}''))"

section \<open>Metadata\<close>

text \<open>
  \<open>std::fixed << std::setprecision(2)\<close> of a \<open>float\<close>: the decimal number with two digits
  nearest to its value, the even one of two as near.  \<open>scaled\<close> is a hundred times the
  magnitude as a fraction.
\<close>

definition round_half_even :: "nat \<Rightarrow> nat \<Rightarrow> nat" where
  "round_half_even p q =
    (let d = p div q; r = p mod q
     in if 2 * r < q then d else if 2 * r > q then d + 1 else if even d then d else d + 1)"

definition float_scaled :: "u32 \<Rightarrow> nat \<times> nat" where
  "float_scaled f =
    (let e = unat (drop_bit 23 f AND 0xff); m = unat (f AND 0x7fffff);
         m' = (if e = 0 then m else m + 2 ^ 23); e' = (if e = 0 then 1 else e)
     in if e' \<ge> 150 then (100 * m' * 2 ^ (e' - 150), 1) else (100 * m', 2 ^ (150 - e')))"

definition show_float2 :: "u32 \<Rightarrow> string" where
  "show_float2 f =
    (if bit f 31 then ''-'' else []) @
    (if f AND 0x7f800000 = 0x7f800000
     then (if f AND 0x7fffff = 0 then ''inf'' else ''nan'')
     else let n = case_prod round_half_even (float_scaled f)
          in show_nat (n div 100) @ ''.'' @ pad 2 (CHR ''0'') (show_nat (n mod 100)))"

text \<open>The calendar time depends on the time zone of the server and is a parameter.\<close>

definition SEMTECH_PROTOCOL_METADATA_RX2string ::
    "(u64 \<Rightarrow> string) \<Rightarrow> SEMTECH_PROTOCOL_METADATA_RX \<Rightarrow> string" where
  "SEMTECH_PROTOCOL_METADATA_RX2string time2string v = json_object
    [(''gatewayId'', quoted (gatewayId2str (rx_gatewayId v))), (''time'', quoted (time2string (rx_t v))),
     (''tmst'', show_word (rx_tmst v)), (''chan'', show_word (rx_chan v)),
     (''rfch'', show_word (rx_rfch v)), (''freq'', show_word (rx_freq v)),
     (''stat'', show_int (sint (rx_stat v))), (''modu'', quoted (MODULATION2String (rx_modu v))),
     (''datr'', quoted (datr2string (rx_spreadingFactor v) (rx_bandwidth v))),
     (''codr'', quoted (codingRate2string (rx_codingRate v))), (''bps'', show_word (rx_bps v)),
     (''rssi'', show_int (sint (rx_rssi v))), (''lsnr'', show_float2 (rx_lsnr v))]"

definition SEMTECH_PROTOCOL_METADATA_TX2string :: "SEMTECH_PROTOCOL_METADATA_TX \<Rightarrow> string" where
  "SEMTECH_PROTOCOL_METADATA_TX2string v = json_object
    [(''freq'', show_word (tx_freq_hz v)), (''tx_mode'', show_word (tx_mode v)),
     (''count_us'', show_word (tx_count_us v)), (''rfch'', show_word (tx_rf_chain v)),
     (''powe'', show_word (tx_rf_power v)), (''modu'', quoted (MODULATION2String (ucast (tx_modulation v)))),
     (''bandwidth'', BANDWIDTH2String (ucast (tx_bandwidth v))),
     (''codr'', quoted (codingRate2string (ucast (tx_coderate v)))),
     (''ipol'', show_bool (tx_invert_pol v)), (''fdev'', show_word (tx_f_dev v)),
     (''prea'', show_word (tx_preamble v)), (''ncrc'', show_bool (tx_no_crc v)),
     (''no_header'', show_bool (tx_no_header v)), (''size'', show_word (tx_size v))]"

section \<open>Identities\<close>

text \<open>\<open>DEVICEID::toJsonString\<close>: no spaces, the address where there is one.\<close>

definition compact_object :: "(string \<times> string) list \<Rightarrow> string" where
  "compact_object ms = ''{'' @ join '','' (map (\<lambda>(k, v). quoted k @ '':'' @ v) ms) @ ''}''"

definition DEVICEID_toJsonString :: "DEVADDR \<Rightarrow> DEVICE_ID \<Rightarrow> string" where
  "DEVICEID_toJsonString a d = compact_object
    ((if isDEVADDREmpty a then [] else [(''addr'', quoted (DEVADDR2string a))]) @
     [(''activation'', quoted (activation2string (activation d))),
      (''class'', quoted (deviceclass2string (deviceclass d))),
      (''deveui'', quoted (DEVEUI2string (devEUI d))), (''nwkSKey'', quoted (KEY2string (nwkSKey d))),
      (''appSKey'', quoted (KEY2string (appSKey d))),
      (''version'', quoted (LORAWAN_VERSION2string (version d))),
      (''appeui'', quoted (DEVEUI2string (appEUI d))), (''appKey'', quoted (KEY2string (appKey d))),
      (''nwkKey'', quoted (KEY2string (nwkKey d))), (''devNonce'', quoted (DEVNONCE2string (devNonce d))),
      (''joinNonce'', quoted (JOINNONCE2string (joinNonce d))), (''token'', token2string (token d)),
      (''region'', region2string (region d)), (''subRegion'', subRegion2string (subRegion d)),
      (''name'', quoted (bytes_text (DEVICENAME2string (name d))))])"

definition NETWORKIDENTITY_toJsonString :: "NETWORKIDENTITY \<Rightarrow> string" where
  "NETWORKIDENTITY_toJsonString n = DEVICEID_toJsonString (ni_devaddr n) (ni_devid n)"

definition NetworkIdentity_toString :: "NetworkIdentity \<Rightarrow> string" where
  "NetworkIdentity_toString n =
    join '' '' (DEVADDR2string (nwi_devaddr n) # identity_fields (nwi_devid n))"

definition NetworkIdentity_toJsonString :: "NetworkIdentity \<Rightarrow> string" where
  "NetworkIdentity_toJsonString n =
    (let d = nwi_devid n in json_object
     [(''addr'', quoted (DEVADDR2string (nwi_devaddr n))),
      (''activation'', quoted (activation2string (activation d))),
      (''deviceClass'', quoted (deviceclass2string (deviceclass d))),
      (''devEUI'', quoted (DEVEUI2string (devEUI d))), (''nwkSKey'', quoted (KEY2string (nwkSKey d))),
      (''appSKey'', quoted (KEY2string (appSKey d))),
      (''version'', quoted (LORAWAN_VERSION2string (version d))),
      (''appEUI'', quoted (DEVEUI2string (appEUI d))), (''appKey'', quoted (KEY2string (appKey d))),
      (''nwkKey'', quoted (KEY2string (nwkKey d))), (''nonce'', quoted (DEVNONCE2string (devNonce d))),
      (''joinNonce'', quoted (JOINNONCE2string (joinNonce d))), (''token'', token2string (token d)),
      (''region'', region2string (region d)), (''subRegion'', subRegion2string (subRegion d)),
      (''name'', quoted (bytes_text (DEVICENAME2string (name d))))])"

section \<open>Lemmas\<close>

text \<open>The opening braces of a text less the closing ones.\<close>

definition braces :: "string \<Rightarrow> int" where
  "braces s = int (count_list s (CHR ''{'')) - int (count_list s (CHR ''}''))"

named_theorems brace_simps \<open>braces of texts\<close>

lemma braces_simps [brace_simps, simp]:
  "braces [] = 0" "braces (s @ t) = braces s + braces t"
  "braces (c # s) = (if c = CHR ''{'' then 1 else if c = CHR ''}'' then -1 else 0) + braces s"
  by (simp_all add: braces_def)

lemma braces_none: "list_all (\<lambda>c. c \<noteq> CHR ''{'' \<and> c \<noteq> CHR ''}'') s \<Longrightarrow> braces s = 0"
  by (induction s) auto

lemma braces_show [brace_simps]:
  "braces (show_nat n) = 0" "braces (show_hex n) = 0" "braces (show_word w) = 0"
  "braces (show_bool b) = 0" "braces (show_int i) = 0" "braces (hexString bs) = 0"
proof -
  have d: "list_all (\<lambda>c. digit_value c < 16) s \<Longrightarrow> braces s = 0" for s
    by (rule braces_none) (auto simp: list_all_iff digit_value_def)
  show n: "braces (show_nat n) = 0" for n
    using show_base_digits [of 10 n] by (intro d) (auto simp: list_all_iff)
  show "braces (show_hex n) = 0" using show_base_digits [of 16 n] by (intro d) simp
  show "braces (show_word w) = 0" by (simp add: show_word_def n)
  show "braces (show_bool b) = 0" by (simp add: show_bool_def)
  show "braces (show_int i) = 0" by (simp add: show_int_def n)
  show "braces (hexString bs) = 0" by (rule d) (rule hexString_digits)
qed

lemma braces_quoted [brace_simps]: "braces (quoted s) = braces s" "braces (json_key k) = braces k"
  by (simp_all add: quoted_def json_key_def)

lemma braces_pad [brace_simps]: "braces (pad k (CHR ''0'') s) = braces s"
proof -
  have "braces (replicate j (CHR ''0'')) = 0" for j by (induction j) auto
  then show ?thesis by (simp add: pad_def)
qed

lemma braces_members [brace_simps]:
  "braces (json_members ms) = sum_list (map (\<lambda>(k, v). braces k + braces v) ms)"
proof -
  have "braces (comma_list ss) = sum_list (map braces ss)" for ss
    by (induction ss rule: comma_list.induct) auto
  then show ?thesis
    by (simp add: json_members_def o_def case_prod_unfold braces_quoted)
qed

lemma braces_object [brace_simps]:
  "braces (json_object ms) = sum_list (map (\<lambda>(k, v). braces k + braces v) ms)"
  by (simp add: json_object_def braces_members)

lemma braces_values [brace_simps]:
  "braces (mtype2string t) = 0" "braces (DEVADDR2string a) = 0" "braces (DEVEUI2string e) = 0"
  "braces (DEVNONCE2string n) = 0" "braces (JOINNONCE2string j) = 0" "braces (NETID2String i) = 0"
  "braces (MIC2String m) = 0"
  by (simp_all add: mtype2string_def DEVADDR2string_def DEVEUI2string_def DEVNONCE2string_def
      JOINNONCE2string_def NETID2String_def MIC2String_def braces_show braces_pad)

lemma braces_headers [brace_simps]:
  "braces (MHDR2String h) = 0" "braces (FHDR2String f d) = 1"
  "braces (JOIN_REQUEST_FRAME2string r) = 0" "braces (JOIN_ACCEPT_FRAME2string j) = 0"
  by (simp_all add: MHDR2String_def FHDR2String_def JOIN_REQUEST_FRAME2string_def
      JOIN_ACCEPT_FRAME2string_def JOIN_ACCEPT_FRAME_HEADER2string_def brace_simps)

lemma rfmPort_nonneg: "rfmPort (Some b) n \<ge> 0 \<longleftrightarrow> 8 \<le> unat n \<and> rfm_foptslen b + 9 \<le> unat n"
  by (simp add: rfmPort_def)

lemma rfm_data_members_None:
  "8 \<le> unat n \<Longrightarrow> rfm_data_members b n = None \<longleftrightarrow>
     rfm_foptslen b + 9 \<le> unat n \<and> unat n < rfm_foptslen b + 13"
  by (auto simp: rfm_data_members_def rfmPort_nonneg rfmPayload2string_def)

lemma braces_data_members: "rfm_data_members b n = Some d \<Longrightarrow> braces d = -1"
  by (auto simp: rfm_data_members_def rfmMac2string_def rfmPayload2string_def brace_simps
      split: if_splits)

section \<open>Properties\<close>

text \<open>The text of a radio frame is complete, each brace closed, for frames of less than
  eight bytes and for data frames.  For every other frame, join requests and join answers among
  them, an object stays open.\<close>

theorem rfm_text_braces:
  assumes "printRFM2json b n = Some (c, t)"
  shows "braces t =
    (if 8 \<le> unat n \<and> \<not> (is_up (mhdr_mtype (b ! 0)) \<or> is_down (mhdr_mtype (b ! 0))) then 1 else 0)"
proof -
  have j: "\<not> (is_up 0 \<or> is_down 0)" "\<not> (is_up 1 \<or> is_down 1)" by (simp_all add: is_up_def is_down_def)
  show ?thesis
    using assms j
    by (auto simp: printRFM2json_def Let_def brace_simps dest: braces_data_members split: if_splits)
qed

theorem rfm_text_braces_witness:
  "braces (snd (the (printRFM2json (replicate 30 0) 23))) =
    (if 8 \<le> unat (23 :: u16) \<and> \<not> (is_up (mhdr_mtype (replicate 30 0 ! 0)) \<or>
       is_down (mhdr_mtype (replicate 30 0 ! 0))) then 1 else 0)"
  by (rule rfm_text_braces [where c = CODE_OK]) (simp add: printRFM2json_def mhdr_mtype_def Let_def)

text \<open>Printing a radio frame fails for no frame but a data frame that has its port and no room
  for its integrity code: there the length of the payload is negative.\<close>

theorem rfm_text_fails:
  "printRFM2json b n = None \<longleftrightarrow>
    8 \<le> unat n \<and> (is_up (mhdr_mtype (b ! 0)) \<or> is_down (mhdr_mtype (b ! 0))) \<and>
    rfm_foptslen b + 9 \<le> unat n \<and> unat n < rfm_foptslen b + 13"
proof (cases "8 \<le> unat n")
  case True
  have j: "\<not> (is_up 0 \<or> is_down 0)" "\<not> (is_up 1 \<or> is_down 1)" by (simp_all add: is_up_def is_down_def)
  show ?thesis
    using True j rfm_data_members_None [OF True, of b]
    by (auto simp: printRFM2json_def Let_def)
qed (simp add: printRFM2json_def Let_def)

lemma downlink_text_fails:
  "DOWNLINK_STORAGE2String jr jm d n = None \<longleftrightarrow> n < int (st_foptslen d)"
  by (simp add: DOWNLINK_STORAGE2String_def Let_def)

text \<open>A signal strength is shown rounded to the nearest hundredth: for a number that is not
  an infinity or \<open>NaN\<close> the digits, as hundredths, differ from the magnitude by at most a
  half.\<close>

theorem float_text_nearest:
  assumes "f AND 0x7f800000 \<noteq> 0x7f800000" "float_scaled f = (p, q)"
  shows "\<exists>h. show_float2 f = (if bit f 31 then ''-'' else []) @ show_nat (h div 100) @ ''.'' @
      pad 2 (CHR ''0'') (show_nat (h mod 100)) \<and> 2 * \<bar>int p - int h * int q\<bar> \<le> int q"
proof (intro exI conjI)
  show "show_float2 f = (if bit f 31 then ''-'' else []) @ show_nat (round_half_even p q div 100) @ ''.'' @
      pad 2 (CHR ''0'') (show_nat (round_half_even p q mod 100))"
    using assms by (simp add: show_float2_def Let_def)
  have q: "0 < q" using assms(2) by (auto simp: float_scaled_def Let_def split: if_splits)
  have e: "int p - int (p div q) * int q = int (p mod q)"
    by (simp only: of_nat_mult [symmetric] minus_div_mult_eq_mod zdiv_int zmod_int)
  have e1: "int p - int (p div q + 1) * int q = int (p mod q) - int q"
    using e by (simp add: algebra_simps)
  have "p mod q < q" using q by simp
  then show "2 * \<bar>int p - int (round_half_even p q) * int q\<bar> \<le> int q"
    unfolding round_half_even_def Let_def using e e1 by (simp split: if_split)
qed

theorem float_text_nearest_witness:
  "\<exists>h. show_float2 0x40b00000 = (if bit (0x40b00000 :: u32) 31 then ''-'' else []) @ show_nat (h div 100) @
     ''.'' @ pad 2 (CHR ''0'') (show_nat (h mod 100)) \<and>
     2 * \<bar>int (fst (float_scaled 0x40b00000)) - int h * int (snd (float_scaled 0x40b00000))\<bar> \<le>
       int (snd (float_scaled 0x40b00000))"
  by (rule float_text_nearest) simp_all

end
