(* ===== verification/Filter_Text.thy ===== *)
theory Filter_Text
  imports Lora_Text
begin

text \<open>
  Filter expressions as text (\<open>lorawan/lorawan-string.cpp\<close>): writing a list of filters and
  the state machine that reads one back.  The value of a filter lies in the first bytes of its
  16 data bytes, which are not cleared between the filters of an expression.
\<close>

section \<open>Names\<close>

definition NETWORK_IDENTITY_PROPERTY_NAMES :: "string list" where
  "NETWORK_IDENTITY_PROPERTY_NAMES =
    [[], ''addr'', ''activation'', ''class'', ''deveui'', ''nwkskey'', ''appskey'', ''version'',
     ''appeui'', ''appkey'', ''nwkkey'', ''devnonce'', ''joinnonce'', ''name'']"

definition NETWORK_IDENTITY_PROPERTY2string :: "int \<Rightarrow> string" where
  "NETWORK_IDENTITY_PROPERTY2string p =
    NETWORK_IDENTITY_PROPERTY_NAMES ! nat (if p \<ge> 14 \<or> p < 0 then 0 else p)"

definition string2NETWORK_IDENTITY_PROPERTY :: "string \<Rightarrow> int" where
  "string2NETWORK_IDENTITY_PROPERTY s =
    (case find_name NETWORK_IDENTITY_PROPERTY_NAMES (c_string s) of None \<Rightarrow> 0 | Some i \<Rightarrow> int i)"

definition COMPARISON_OPERATOR_STRING :: "string list" where
  "COMPARISON_OPERATOR_STRING = [[], ''='', ''<>'', ''>'', ''<'', ''>='', ''<='']"

text \<open>A negative operator would be an index before the table; the enumeration has none.\<close>

definition COMPARISON_OPERATOR2string :: "int \<Rightarrow> string" where
  "COMPARISON_OPERATOR2string v = COMPARISON_OPERATOR_STRING ! nat (if v \<ge> 7 then 0 else v)"

definition string2COMPARISON_OPERATOR :: "string \<Rightarrow> int" where
  "string2COMPARISON_OPERATOR s =
    (case find_name COMPARISON_OPERATOR_STRING (c_string s) of None \<Rightarrow> 0 | Some i \<Rightarrow> int i)"

definition LOGICAL_PRE_OPERATOR_STRING :: "string list" where
  "LOGICAL_PRE_OPERATOR_STRING = [[], ''and'', ''or'']"

definition LOGICAL_PRE_OPERATOR2string :: "int \<Rightarrow> string" where
  "LOGICAL_PRE_OPERATOR2string v = LOGICAL_PRE_OPERATOR_STRING ! nat (if v \<ge> 3 then 0 else v)"

definition string2LOGICAL_PRE_OPERATOR :: "string \<Rightarrow> int" where
  "string2LOGICAL_PRE_OPERATOR s =
    (case find_name LOGICAL_PRE_OPERATOR_STRING (c_string s) of None \<Rightarrow> 0 | Some i \<Rightarrow> int i)"

section \<open>Writing\<close>

definition filterValue2string :: "NETWORK_IDENTITY_FILTER \<Rightarrow> string" where
  "filterValue2string f =
    (let p = property f; d = filterData f in
     if p = NIP_ADDRESS then DEVADDR2string (from_le (mem_read d 0 4))
     else if p = NIP_ACTIVATION then activation2string (from_le (mem_read d 0 4))
     else if p = NIP_DEVICE_CLASS then deviceclass2string (from_le (mem_read d 0 4))
     else if p = NIP_DEVEUI \<or> p = NIP_APPEUI then DEVEUI2string (from_le (mem_read d 0 8))
     else if p = NIP_NWKSKEY \<or> p = NIP_APPSKEY \<or> p = NIP_APPKEY \<or> p = NIP_NWKKEY then
       KEY2string (mem_read d 0 16)
     else if p = NIP_LORAWAN_VERSION then LORAWAN_VERSION2string (d ! 0)
     else if p = NIP_DEVNONCE then DEVNONCE2string (from_le (mem_read d 0 2))
     else if p = NIP_JOINNONCE then JOINNONCE2string (mem_read d 0 3)
     else if p = NIP_DEVICENAME then bytes_text (DEVICENAME2string (mem_read d 0 8))
     else [])"

definition NETWORK_IDENTITY_FILTER2string :: "NETWORK_IDENTITY_FILTER \<Rightarrow> bool \<Rightarrow> string" where
  "NETWORK_IDENTITY_FILTER2string f isFirst =
    (if isFirst then [] else LOGICAL_PRE_OPERATOR2string (pre f) @ '' '') @
    NETWORK_IDENTITY_PROPERTY2string (property f) @ '' '' @
    COMPARISON_OPERATOR2string (comparisonOperator f) @ '' '' @
    CHR 0x27 # filterValue2string f @ [CHR 0x27]"

fun filters_text :: "bool \<Rightarrow> NETWORK_IDENTITY_FILTER list \<Rightarrow> string" where
  "filters_text isFirst [] = []"
| "filters_text isFirst (f # fs) = NETWORK_IDENTITY_FILTER2string f isFirst @ '' '' @ filters_text False fs"

definition NETWORK_IDENTITY_FILTERS2string :: "NETWORK_IDENTITY_FILTER list \<Rightarrow> string" where
  "NETWORK_IDENTITY_FILTERS2string fs = filters_text True fs"

section \<open>Reading\<close>

datatype IdentityFiltersParseState = IFPS_PROPERTY | IFPS_COMPARE | IFPS_VALUE | IFPS_AND_OR

definition is_quote :: "char \<Rightarrow> bool" where
  "is_quote c \<longleftrightarrow> c = CHR 0x22 \<or> c = CHR 0x27"

text \<open>After a single quote nothing is left, and the last character of that is read all the
  same: no result.\<close>

definition stripQuotes :: "string \<Rightarrow> string option" where
  "stripQuotes s =
    (if s = [] then Some []
     else
       let t = (if is_quote (hd s) then tl s else s)
       in if t = [] then None
          else Some (if is_quote (last t) then butlast t else t))"

text \<open>
  \<open>(DEVNONCE) f.filterData = ...\<close> makes a temporary of the data and assigns to that: the data
  stays as it was.
\<close>

definition set_filter_value :: "string \<Rightarrow> NETWORK_IDENTITY_FILTER \<Rightarrow> NETWORK_IDENTITY_FILTER" where
  "set_filter_value tok f =
    (let p = property f; d = filterData f;
         put = (\<lambda>v n. f\<lparr>filterData := mem_write d 0 v, filter_length := n\<rparr>) in
     if p = NIP_ADDRESS then put (le_bytes 4 (string2DEVADDR tok)) 4
     else if p = NIP_ACTIVATION then put (le_bytes 4 (string2activation tok)) 4
     else if p = NIP_DEVICE_CLASS then put (le_bytes 4 (string2deviceclass tok)) 4
     else if p = NIP_DEVEUI \<or> p = NIP_APPEUI then put (le_bytes 8 (string2DEVEUI tok)) 8
     else if p = NIP_NWKSKEY \<or> p = NIP_APPSKEY \<or> p = NIP_APPKEY \<or> p = NIP_NWKKEY then
       put (string2KEY (Some tok) (mem_read d 0 16)) 16
     else if p = NIP_LORAWAN_VERSION then put [string2LORAWAN_VERSION tok] 1
     else if p = NIP_DEVNONCE then f\<lparr>filter_length := 2\<rparr>
     else if p = NIP_JOINNONCE then put (string2JOINNONCE (Some tok) (mem_read d 0 3)) 3
     else if p = NIP_DEVICENAME then
       put (string2DEVICENAME (text_bytes tok) (mem_read d 0 8))
         (if length tok < 8 then of_nat (length tok) else 8)
     else f)"

record parse_state =
  ps_state :: IdentityFiltersParseState
  ps_f :: NETWORK_IDENTITY_FILTER
  ps_retVal :: "NETWORK_IDENTITY_FILTER list"

text \<open>One token; a property or a word between filters that is not known is passed over.\<close>

definition filter_token :: "string \<Rightarrow> parse_state \<Rightarrow> parse_state option" where
  "filter_token tok s =
    (let f = ps_f s in
     case ps_state s of
       IFPS_PROPERTY \<Rightarrow>
         let f' = f\<lparr>property := string2NETWORK_IDENTITY_PROPERTY tok\<rparr>
         in Some (s\<lparr>ps_f := f', ps_state := (if property f' = 0 then IFPS_PROPERTY else IFPS_COMPARE)\<rparr>)
     | IFPS_COMPARE \<Rightarrow>
         Some (s\<lparr>ps_f := f\<lparr>comparisonOperator := string2COMPARISON_OPERATOR tok\<rparr>, ps_state := IFPS_VALUE\<rparr>)
     | IFPS_VALUE \<Rightarrow>
         map_option (\<lambda>t.
             let f' = set_filter_value t f
             in s\<lparr>ps_retVal := ps_retVal s @ [f'], ps_f := f'\<lparr>property := 0\<rparr>, ps_state := IFPS_AND_OR\<rparr>)
           (stripQuotes tok)
     | IFPS_AND_OR \<Rightarrow>
         let f' = f\<lparr>pre := string2LOGICAL_PRE_OPERATOR tok\<rparr>
         in Some (s\<lparr>ps_f := f', ps_state := (if pre f' = 0 then IFPS_AND_OR else IFPS_PROPERTY)\<rparr>))"

text \<open>The loop, on the text from \<open>start\<close> on.  Where only spaces are left the token is empty.\<close>

function filters_loop :: "string \<Rightarrow> parse_state \<Rightarrow> parse_state option" where
  "filters_loop s st =
    (let t = dropWhile isspace s
     in if t = [] then Some st
        else
          (case filter_token (takeWhile (\<lambda>c. \<not> isspace c) t) st of
             None \<Rightarrow> None
           | Some st' \<Rightarrow> filters_loop (dropWhile (\<lambda>c. \<not> isspace c) t) st'))"
  by pat_completeness auto

lemma token_shorter:
  assumes "dropWhile isspace s \<noteq> []"
  shows "length (dropWhile (\<lambda>c. \<not> isspace c) (dropWhile isspace s)) < length s"
proof -
  obtain c t where t: "dropWhile isspace s = c # t" using assms by (cases "dropWhile isspace s") auto
  then have "\<not> isspace c" using hd_dropWhile [of isspace s] by simp
  then have "length (dropWhile (\<lambda>c. \<not> isspace c) (c # t)) \<le> length t"
    by (simp add: length_dropWhile_le)
  moreover have "length (c # t) \<le> length s" using t by (metis length_dropWhile_le)
  ultimately show ?thesis by (simp add: t)
qed

termination filters_loop
  by (relation "measure (\<lambda>(s, _). length s)") (use token_shorter in auto)

declare filters_loop.simps [simp del]

definition filter0 :: NETWORK_IDENTITY_FILTER where
  "filter0 = \<lparr>pre = NILPO_AND, property = 0, comparisonOperator = 0, filter_length = 0,
    filterData = replicate 16 0\<rparr>"

definition string2NETWORK_IDENTITY_FILTERS ::
    "NETWORK_IDENTITY_FILTER list \<Rightarrow> string \<Rightarrow> (int \<times> NETWORK_IDENTITY_FILTER list) option" where
  "string2NETWORK_IDENTITY_FILTERS retVal expression =
    map_option (\<lambda>st. (0, ps_retVal st))
      (filters_loop expression \<lparr>ps_state = IFPS_PROPERTY, ps_f = filter0, ps_retVal = retVal\<rparr>)"

section \<open>Lemmas\<close>

lemma filters_loop_token:
  assumes "tok \<noteq> []" "list_all (\<lambda>c. \<not> isspace c) tok"
  shows "filters_loop (tok @ '' '' @ s) st = Option.bind (filter_token tok st) (filters_loop s)"
proof -
  have sp: "isspace (CHR '' '')" by (simp add: isspace_def)
  have d: "dropWhile isspace (tok @ '' '' @ s) = tok @ '' '' @ s"
    using assms by (cases tok) auto
  have t: "takeWhile (\<lambda>c. \<not> isspace c) (tok @ '' '' @ s) = tok"
    using assms(2) sp by (simp add: takeWhile_append2 list_all_iff)
  have r: "dropWhile (\<lambda>c. \<not> isspace c) (tok @ '' '' @ s) = '' '' @ s"
    using assms(2) sp by (simp add: dropWhile_append2 list_all_iff)
  have s: "filters_loop ('' '' @ s) = filters_loop s"
  proof
    fix st show "filters_loop ('' '' @ s) st = filters_loop s st"
      by (subst (1 2) filters_loop.simps) (simp add: sp)
  qed
  show ?thesis
    using assms(1) by (subst filters_loop.simps) (simp only: Let_def d t r s, simp split: option.split)
qed

lemma filters_loop_end: "filters_loop [] st = Some st"
  by (subst filters_loop.simps) simp

lemma stripQuotes_quoted:
  assumes "list_all (\<lambda>c. \<not> is_quote c) s"
  shows "stripQuotes (CHR 0x27 # s @ [CHR 0x27]) = Some s"
  by (simp add: stripQuotes_def is_quote_def)

section \<open>Filters and their text\<close>

definition value_size :: "NETWORK_IDENTITY_FILTER \<Rightarrow> nat" where
  "value_size f = getNetworkIdentityPropertySize (property f)"

definition value_of :: "NETWORK_IDENTITY_FILTER \<Rightarrow> bytes" where
  "value_of f = take (value_size f) (filterData f)"

definition text_char :: "char \<Rightarrow> bool" where
  "text_char c \<longleftrightarrow> \<not> isspace c \<and> \<not> is_quote c"

text \<open>A filter that its text can give: a property, an operator and a word that are there, the
  length of its value, a value of the enumeration, a name of plain characters.  The device nonce
  is left out.\<close>

definition wf_filter :: "NETWORK_IDENTITY_FILTER \<Rightarrow> bool" where
  "wf_filter f \<longleftrightarrow>
    property f \<in> {1, 2, 3, 4, 5, 6, 7, 8, 9, 10, 12, 13} \<and> comparisonOperator f \<in> {1, 2, 3, 4, 5, 6} \<and>
    pre f \<in> {1, 2} \<and> length (filterData f) = 16 \<and>
    (if property f = NIP_DEVICENAME
     then (let n = DEVICENAME2string (value_of f) in
       value_of f = n @ replicate (8 - length n) 0 \<and> list_all text_char (bytes_text n) \<and>
       filter_length f = of_nat (length n))
     else filter_length f = of_nat (value_size f)) \<and>
    (if property f = NIP_ACTIVATION then from_le (value_of f) \<le> OTAA
     else if property f = NIP_DEVICE_CLASS then from_le (value_of f) \<le> CLASS_C
     else True)"

definition same_filter :: "NETWORK_IDENTITY_FILTER \<Rightarrow> NETWORK_IDENTITY_FILTER \<Rightarrow> bool" where
  "same_filter f g \<longleftrightarrow>
    pre g = pre f \<and> property g = property f \<and> comparisonOperator g = comparisonOperator f \<and>
    filter_length g = filter_length f \<and> value_of g = value_of f"

lemma sizes [simp]:
  "getNetworkIdentityPropertySize 1 = 4" "getNetworkIdentityPropertySize 2 = 4"
  "getNetworkIdentityPropertySize 3 = 4" "getNetworkIdentityPropertySize 4 = 8"
  "getNetworkIdentityPropertySize 5 = 16" "getNetworkIdentityPropertySize 6 = 16"
  "getNetworkIdentityPropertySize 7 = 1" "getNetworkIdentityPropertySize 8 = 8"
  "getNetworkIdentityPropertySize 9 = 16" "getNetworkIdentityPropertySize 10 = 16"
  "getNetworkIdentityPropertySize 12 = 3" "getNetworkIdentityPropertySize 13 = 8"
  by (simp_all add: getNetworkIdentityPropertySize_def NETWORK_IDENTITY_PROPERTY_SIZES_def)

lemma text_char_hex: "list_all text_char (hexString bs)"
  using hexString_digits [of bs]
  by (auto simp: list_all_iff text_char_def is_quote_def digit_value_def isspace_def Let_def split: if_splits)

lemma text_char_show: "list_all text_char (show_nat n)"
  using show_nat_digits [of n]
  by (auto simp: list_all_iff text_char_def is_quote_def isdigit_def isspace_def Let_def)

lemma text_char_value: "wf_filter f \<Longrightarrow> list_all text_char (filterValue2string f)"
proof -
  assume w: "wf_filter f"
  have a: "list_all text_char (activation2string a)" for a
    by (cases "a > 1"; cases "unat a = 0"; cases "unat a = 1")
      (auto simp: activation2string_def ACTIVATION_NAMES_def text_char_def is_quote_def isspace_def
        word_less_nat_alt)
  have v: "list_all text_char (LORAWAN_VERSION2string v)" for v
    by (simp add: LORAWAN_VERSION2string_def show_word_def text_char_show)
      (simp add: text_char_def is_quote_def isspace_def)
  have c: "list_all text_char (deviceclass2string c)" for c
    by (simp add: deviceclass2string_def text_char_def is_quote_def isspace_def)
  show ?thesis
    using w
    by (auto simp: filterValue2string_def Let_def a v c text_char_hex DEVADDR2string_def DEVEUI2string_def
        KEY2string_def DEVNONCE2string_def JOINNONCE2string_def wf_filter_def value_of_def value_size_def
        mem_read_def)
qed

lemma le_bytes_take:
  "n \<le> length d \<Longrightarrow> LENGTH('a) = 8 * n \<Longrightarrow> le_bytes n (from_le (take n d) :: 'a::len word) = take n d"
  by (rule le_bytes_from_le) simp_all

lemma set_filter_value_text:
  assumes "wf_filter f" "property g = property f" "length (filterData g) = 16"
  shows "set_filter_value (filterValue2string f) g =
    g\<lparr>filterData := mem_write (filterData g) 0 (value_of f), filter_length := filter_length f\<rparr>"
proof -
  have l: "length (filterData f) = 16" using assms(1) by (simp add: wf_filter_def)
  have p: "property f \<in> {1, 2, 3, 4, 5, 6, 7, 8, 9, 10, 12, 13}" using assms(1) by (simp add: wf_filter_def)
  have one: "take (Suc 0) (filterData f) = [filterData f ! 0]"
    using l by (cases "filterData f") auto
  have nm: "property f = 13 \<Longrightarrow> string2DEVICENAME (text_bytes (filterValue2string f)) m = value_of f"
    if "length m = 8" for m
  proof -
    assume p13: "property f = 13"
    let ?s = "DEVICENAME2string (value_of f)"
    have "c_str ?s = ?s"
      by (auto simp: DEVICENAME2string_def c_str_def takeWhile_eq_all_conv
          dest!: in_set_takeD set_takeWhileD)
    moreover have "length ?s \<le> 8" by (simp add: DEVICENAME2string_def)
    moreover have "value_of f = ?s @ replicate (8 - length ?s) 0"
      using assms(1) p13 by (simp add: wf_filter_def Let_def)
    moreover have "filterValue2string f = bytes_text ?s"
      using p13 by (simp add: filterValue2string_def value_of_def value_size_def mem_read_def)
    ultimately show ?thesis
      using that by (simp add: string2DEVICENAME_def strncpy_def mem_write_def)
  qed
  have len: "property f = 13 \<Longrightarrow>
      (if length (filterValue2string f) < 8 then of_nat (length (filterValue2string f)) else 8) = filter_length f"
  proof -
    assume p13: "property f = 13"
    have "length (DEVICENAME2string (value_of f)) \<le> 8" by (simp add: DEVICENAME2string_def)
    moreover have "filterValue2string f = bytes_text (DEVICENAME2string (value_of f))"
      using p13 by (simp add: filterValue2string_def value_of_def value_size_def mem_read_def)
    moreover have "filter_length f = of_nat (length (DEVICENAME2string (value_of f)))"
      using assms(1) p13 by (simp add: wf_filter_def Let_def)
    ultimately show ?thesis by (cases "length (DEVICENAME2string (value_of f)) = 8") auto
  qed
  show ?thesis
  proof (cases "property f = 13")
    case True
    then show ?thesis using assms nm [of "mem_read (filterData g) 0 8"] len
      by (simp add: set_filter_value_def)
  next
    case False
    then show ?thesis
      using p assms l
      by (elim insertE)
        (simp_all add: set_filter_value_def filterValue2string_def wf_filter_def value_of_def value_size_def
          text_simps mem_read_def le_bytes_take activation_text deviceclass_text one)
  qed
qed
text \<open>What one filter's text leaves in the reader: the filter with its value over what the data held.\<close>

definition read_filter :: "NETWORK_IDENTITY_FILTER \<Rightarrow> bytes \<Rightarrow> NETWORK_IDENTITY_FILTER" where
  "read_filter f d = f\<lparr>filterData := mem_write d 0 (value_of f)\<rparr>"

lemma value_of_length:
  assumes "wf_filter f" shows "length (value_of f) = value_size f" "value_size f \<le> 16"
proof -
  have "property f \<in> {1, 2, 3, 4, 5, 6, 7, 8, 9, 10, 12, 13}" "length (filterData f) = 16"
    using assms by (simp_all add: wf_filter_def)
  then show "length (value_of f) = value_size f" "value_size f \<le> 16"
    by (auto simp: value_of_def value_size_def)
qed

lemma read_filter_same:
  assumes "wf_filter f" "length d = 16"
  shows "same_filter f (read_filter f d)" "length (filterData (read_filter f d)) = 16"
  using value_of_length [OF assms(1)] assms(2)
  by (auto simp: same_filter_def read_filter_def value_of_def value_size_def mem_write_def)

text \<open>The names of the tables, one by one.\<close>

lemma names_reread:
  "list_all (\<lambda>p. string2NETWORK_IDENTITY_PROPERTY (NETWORK_IDENTITY_PROPERTY2string p) = p \<and>
      NETWORK_IDENTITY_PROPERTY2string p \<noteq> [] \<and> list_all (\<lambda>c. \<not> isspace c) (NETWORK_IDENTITY_PROPERTY2string p))
    [1, 2, 3, 4, 5, 6, 7, 8, 9, 10, 12, 13]"
  "list_all (\<lambda>p. string2COMPARISON_OPERATOR (COMPARISON_OPERATOR2string p) = p \<and>
      COMPARISON_OPERATOR2string p \<noteq> [] \<and> list_all (\<lambda>c. \<not> isspace c) (COMPARISON_OPERATOR2string p))
    [1, 2, 3, 4, 5, 6]"
  "list_all (\<lambda>p. string2LOGICAL_PRE_OPERATOR (LOGICAL_PRE_OPERATOR2string p) = p \<and>
      LOGICAL_PRE_OPERATOR2string p \<noteq> [] \<and> list_all (\<lambda>c. \<not> isspace c) (LOGICAL_PRE_OPERATOR2string p))
    [1, 2]"
  by code_simp+

lemma property_text:
  assumes "property f \<in> {1, 2, 3, 4, 5, 6, 7, 8, 9, 10, 12, 13}"
  shows "string2NETWORK_IDENTITY_PROPERTY (NETWORK_IDENTITY_PROPERTY2string (property f)) = property f"
    "NETWORK_IDENTITY_PROPERTY2string (property f) \<noteq> []"
    "list_all (\<lambda>c. \<not> isspace c) (NETWORK_IDENTITY_PROPERTY2string (property f))"
  using bspec [OF iffD1 [OF list_all_iff names_reread(1)], of "property f"] assms by simp_all

lemma operator_text:
  assumes "comparisonOperator f \<in> {1, 2, 3, 4, 5, 6}"
  shows "string2COMPARISON_OPERATOR (COMPARISON_OPERATOR2string (comparisonOperator f)) = comparisonOperator f"
    "COMPARISON_OPERATOR2string (comparisonOperator f) \<noteq> []"
    "list_all (\<lambda>c. \<not> isspace c) (COMPARISON_OPERATOR2string (comparisonOperator f))"
  using bspec [OF iffD1 [OF list_all_iff names_reread(2)], of "comparisonOperator f"] assms by simp_all

lemma word_text:
  assumes "pre f \<in> {1, 2}"
  shows "string2LOGICAL_PRE_OPERATOR (LOGICAL_PRE_OPERATOR2string (pre f)) = pre f"
    "LOGICAL_PRE_OPERATOR2string (pre f) \<noteq> []"
    "list_all (\<lambda>c. \<not> isspace c) (LOGICAL_PRE_OPERATOR2string (pre f))"
  using bspec [OF iffD1 [OF list_all_iff names_reread(3)], of "pre f"] assms by simp_all

lemma text_char_parts:
  "list_all text_char s \<Longrightarrow> list_all (\<lambda>c. \<not> is_quote c) s"
  "list_all text_char s \<Longrightarrow> list_all (\<lambda>c. \<not> isspace c) s"
  by (simp_all add: list_all_iff text_char_def)

lemma filters_loop_one:
  assumes w: "wf_filter f" and st: "ps_state st = IFPS_PROPERTY" "pre (ps_f st) = pre f"
    "length (filterData (ps_f st)) = 16"
  shows "filters_loop (NETWORK_IDENTITY_FILTER2string f True @ '' '' @ s) st =
    (let g = read_filter f (filterData (ps_f st))
     in filters_loop s \<lparr>ps_state = IFPS_AND_OR, ps_f = g\<lparr>property := 0\<rparr>, ps_retVal = ps_retVal st @ [g]\<rparr>)"
proof -
  have p: "property f \<in> {1, 2, 3, 4, 5, 6, 7, 8, 9, 10, 12, 13}" "comparisonOperator f \<in> {1, 2, 3, 4, 5, 6}"
    using w by (simp_all add: wf_filter_def)
  then have p0: "property f \<noteq> 0" by auto
  let ?v = "CHR 0x27 # filterValue2string f @ [CHR 0x27]"
  have v: "list_all (\<lambda>c. \<not> isspace c) ?v"
    using text_char_parts(2) [OF text_char_value [OF w]] by (simp add: isspace_def)
  have sq: "stripQuotes ?v = Some (filterValue2string f)"
    by (rule stripQuotes_quoted) (rule text_char_parts(1) [OF text_char_value [OF w]])
  have sv: "set_filter_value (filterValue2string f) ((ps_f st)\<lparr>property := property f, comparisonOperator := comparisonOperator f\<rparr>)
      = read_filter f (filterData (ps_f st))"
    using st by (subst set_filter_value_text [OF w]) (simp_all add: read_filter_def)
  have tx: "NETWORK_IDENTITY_FILTER2string f True @ '' '' @ s =
    NETWORK_IDENTITY_PROPERTY2string (property f) @ '' '' @
    COMPARISON_OPERATOR2string (comparisonOperator f) @ '' '' @ ?v @ '' '' @ s"
    by (simp add: NETWORK_IDENTITY_FILTER2string_def)
  show ?thesis
    unfolding tx filters_loop_token [OF property_text(2,3) [OF p(1)]]
    by (cases st) (use st sv in \<open>simp add: filter_token_def p0 property_text(1) [OF p(1)] operator_text(1) [OF p(2)]
        filters_loop_token [OF operator_text(2,3) [OF p(2)]] filters_loop_token [OF _ v] sq Let_def
        del: append_Cons append_Nil\<close>)
qed

text \<open>The filters after the first, each behind its word.\<close>

lemma filters_loop_rest:
  assumes "list_all wf_filter fs" "ps_state st = IFPS_AND_OR" "length (filterData (ps_f st)) = 16"
  shows "\<exists>gs st'. filters_loop (filters_text False fs) st = Some st' \<and>
    ps_retVal st' = ps_retVal st @ gs \<and> list_all2 same_filter fs gs"
  using assms
proof (induction fs arbitrary: st)
  case Nil
  then show ?case by (auto simp: filters_loop_end)
next
  case (Cons f fs)
  then have w: "wf_filter f" and p: "pre f \<in> {1, 2}" by (auto simp: wf_filter_def)
  let ?st = "st\<lparr>ps_f := (ps_f st)\<lparr>pre := pre f\<rparr>, ps_state := IFPS_PROPERTY\<rparr>"
  let ?g = "read_filter f (filterData (ps_f st))"
  let ?st2 = "\<lparr>ps_state = IFPS_AND_OR, ps_f = ?g\<lparr>property := 0\<rparr>, ps_retVal = ps_retVal st @ [?g]\<rparr>"
  have t: "filter_token (LOGICAL_PRE_OPERATOR2string (pre f)) st = Some ?st"
    using p Cons.prems(2) by (auto simp: filter_token_def word_text(1) [OF p] Let_def)
  have "filters_text False (f # fs) =
      LOGICAL_PRE_OPERATOR2string (pre f) @ '' '' @ NETWORK_IDENTITY_FILTER2string f True @ '' '' @ filters_text False fs"
    by (simp add: NETWORK_IDENTITY_FILTER2string_def)
  then have "filters_loop (filters_text False (f # fs)) st = filters_loop (filters_text False fs) ?st2"
    using filters_loop_one [OF w, of ?st "filters_text False fs"] Cons.prems(3)
    by (simp add: filters_loop_token [OF word_text(2,3) [OF p]] t Let_def del: append_Cons append_Nil)
  moreover obtain gs st' where "filters_loop (filters_text False fs) ?st2 = Some st'"
    "ps_retVal st' = ps_retVal ?st2 @ gs" "list_all2 same_filter fs gs"
    using Cons.IH [of ?st2] Cons.prems read_filter_same(2) [OF w] by auto
  ultimately show ?case using read_filter_same(1) [OF w Cons.prems(3)]
    by (intro exI [of _ "?g # gs"] exI [of _ st']) simp
qed

lemma same_filter_result:
  assumes "same_filter f g" shows "isIdentityFiltered i g = isIdentityFiltered i f"
proof -
  have "take m (filterData g) = take m (filterData f)" if "m \<le> value_size f" for m
  proof -
    have "take m (value_of g) = take m (value_of f)" using assms by (simp add: same_filter_def)
    then show ?thesis using that assms by (simp add: value_of_def value_size_def same_filter_def min_def)
  qed
  then show ?thesis
    using assms by (simp add: isIdentityFiltered_def value_size_def same_filter_def Let_def)
qed

lemma same_filters_result:
  "list_all2 same_filter fs gs \<Longrightarrow>
    filter_loop (isIdentityFiltered i) pre r gs = filter_loop (isIdentityFiltered i) pre r fs"
proof (induction fs gs arbitrary: r rule: list_all2_induct)
  case (Cons f fs g gs)
  have "pre g = pre f" using Cons.hyps(1) by (simp add: same_filter_def)
  then show ?case using Cons.IH by (simp add: same_filter_result [OF Cons.hyps(1)])
qed simp

section \<open>Properties\<close>

text \<open>C33: A list of filters written as text and read back gives filters that select the same
  identities: each has the word, the property, the operator, the length and the value bytes of the
  one it was written from.  That holds for the filters a text can carry.  The first must be joined by
  AND, because its word is not written, the others by AND or OR.  Each must be on a property other than the device nonce,
  whose value the reader drops, with one of the six operators and the full length of the property's
  value, because a shorter one is not written; a name has the length of its text, zeros behind it, and
  characters other than blanks and quotes; activations and classes are known ones.\<close>

theorem filters_roundtrip:
  assumes "list_all wf_filter fs" "fs \<noteq> [] \<Longrightarrow> pre (hd fs) = NILPO_AND"
  shows "\<exists>gs. string2NETWORK_IDENTITY_FILTERS [] (NETWORK_IDENTITY_FILTERS2string fs) = Some (0, gs) \<and>
    list_all2 same_filter fs gs \<and> (\<forall>i. isIdentityFilteredV i gs = isIdentityFilteredV i fs)"
proof (cases fs)
  case Nil
  then show ?thesis
    by (simp add: string2NETWORK_IDENTITY_FILTERS_def NETWORK_IDENTITY_FILTERS2string_def filters_loop_end)
next
  case (Cons f fr)
  let ?st = "\<lparr>ps_state = IFPS_PROPERTY, ps_f = filter0, ps_retVal = []\<rparr>"
  let ?g = "read_filter f (filterData filter0)"
  let ?st2 = "\<lparr>ps_state = IFPS_AND_OR, ps_f = ?g\<lparr>property := 0\<rparr>, ps_retVal = [?g]\<rparr>"
  have w: "wf_filter f" "list_all wf_filter fr" "pre f = NILPO_AND" using assms Cons by auto
  have d: "length (filterData filter0) = 16" by (simp add: filter0_def)
  have "filters_loop (NETWORK_IDENTITY_FILTERS2string fs) ?st = filters_loop (filters_text False fr) ?st2"
    using filters_loop_one [OF w(1), of ?st "filters_text False fr"] w(3) d
    by (simp add: NETWORK_IDENTITY_FILTERS2string_def Cons filter0_def Let_def)
  moreover obtain gs st' where "filters_loop (filters_text False fr) ?st2 = Some st'"
    "ps_retVal st' = ?g # gs" "list_all2 same_filter fr gs"
    using filters_loop_rest [OF w(2), of ?st2] read_filter_same(2) [OF w(1) d] by auto
  ultimately show ?thesis
    using read_filter_same(1) [OF w(1) d] same_filters_result [of fs "?g # gs"] Cons
    by (intro exI [of _ "?g # gs"]) (simp add: string2NETWORK_IDENTITY_FILTERS_def isIdentityFilteredV_def)
qed

definition filters_ex :: "NETWORK_IDENTITY_FILTER list" where
  "filters_ex =
    [\<lparr>pre = NILPO_AND, property = NIP_ADDRESS, comparisonOperator = NICO_GE, filter_length = 4,
      filterData = [4, 3, 2, 1] @ replicate 12 0\<rparr>,
     \<lparr>pre = NILPO_OR, property = NIP_DEVICENAME, comparisonOperator = NICO_EQ, filter_length = 2,
      filterData = [97, 98] @ replicate 14 0\<rparr>]"

lemma filters_ex_text: "NETWORK_IDENTITY_FILTERS2string filters_ex = ''addr >= '01020304' or name = 'ab' ''"
  by code_simp

lemma filters_roundtrip_witness:
  "\<exists>gs. string2NETWORK_IDENTITY_FILTERS [] (NETWORK_IDENTITY_FILTERS2string filters_ex) = Some (0, gs) \<and>
    list_all2 same_filter filters_ex gs \<and> (\<forall>i. isIdentityFilteredV i gs = isIdentityFilteredV i filters_ex)"
proof (rule filters_roundtrip)
  show "list_all wf_filter filters_ex" by code_simp
  show "pre (hd filters_ex) = NILPO_AND" by (simp add: filters_ex_def)
qed

text \<open>The value of a filter on the device nonce is lost: after \<open>devnonce = '0102'\<close> the data is
  that of the filter before it.\<close>

lemma devnonce_value_lost:
  "string2NETWORK_IDENTITY_FILTERS [] ''devnonce = '0102' '' =
    Some (0, [\<lparr>pre = 1, property = 11, comparisonOperator = 1, filter_length = 2, filterData = replicate 16 0\<rparr>])"
  by code_simp

text \<open>A token of one quote is read past its end; an expression that stops before its value is
  dropped without an error.\<close>

lemma lone_quote: "string2NETWORK_IDENTITY_FILTERS [] ''addr = ' '' = None"
  by code_simp

lemma half_filter_dropped: "string2NETWORK_IDENTITY_FILTERS [] ''addr ='' = Some (0, [])"
  by code_simp

end
