(* ===== verification/Base64.thy ===== *)
theory Base64
  imports Lora_Text Packet_Storage
begin

text \<open>
  Base 64 (\<open>third-party/base64/base64.cpp\<close>) and its use for radio packets
  (\<open>lorawan-packet-storage.cpp\<close>, \<open>lorawan-builder.cpp\<close>).  An exception is no
  result.
\<close>

section \<open>Encoding\<close>

definition base64_chars :: "bool \<Rightarrow> string" where
  "base64_chars url =
    ''ABCDEFGHIJKLMNOPQRSTUVWXYZ'' @ ''abcdefghijklmnopqrstuvwxyz'' @ ''0123456789'' @
    (if url then ''-_'' else ''+/'')"

definition trailing_char :: "bool \<Rightarrow> char" where
  "trailing_char url = (if url then CHR ''.'' else CHR ''='')"

definition b64_char :: "bool \<Rightarrow> u8 \<Rightarrow> char" where
  "b64_char url i = base64_chars url ! unat i"

definition sextet0 :: "u8 \<Rightarrow> u8" where
  "sextet0 a = drop_bit 2 (a AND 0xfc)"

definition sextet1 :: "u8 \<Rightarrow> u8 \<Rightarrow> u8" where
  "sextet1 a b = push_bit 4 (a AND 0x03) + drop_bit 4 (b AND 0xf0)"

definition sextet2 :: "u8 \<Rightarrow> u8 \<Rightarrow> u8" where
  "sextet2 b c = push_bit 2 (b AND 0x0f) + drop_bit 6 (c AND 0xc0)"

definition sextet3 :: "u8 \<Rightarrow> u8" where
  "sextet3 c = c AND 0x3f"

definition last_sextet1 :: "u8 \<Rightarrow> u8" where
  "last_sextet1 a = push_bit 4 (a AND 0x03)"

definition last_sextet2 :: "u8 \<Rightarrow> u8" where
  "last_sextet2 b = push_bit 2 (b AND 0x0f)"

fun base64_encode :: "bytes \<Rightarrow> bool \<Rightarrow> string" where
  "base64_encode [] url = []"
| "base64_encode [a] url =
    [b64_char url (sextet0 a), b64_char url (last_sextet1 a), trailing_char url, trailing_char url]"
| "base64_encode [a, b] url =
    [b64_char url (sextet0 a), b64_char url (sextet1 a b), b64_char url (last_sextet2 b),
     trailing_char url]"
| "base64_encode (a # b # c # s) url =
    [b64_char url (sextet0 a), b64_char url (sextet1 a b), b64_char url (sextet2 b c),
     b64_char url (sextet3 c)] @ base64_encode s url"

text \<open>The distance is 64 or 76.\<close>

function insert_linebreaks :: "nat \<Rightarrow> string \<Rightarrow> string" where
  "insert_linebreaks d s =
    (if d = 0 \<or> length s \<le> d then s else take d s @ CHR 0x0A # insert_linebreaks d (drop d s))"
  by pat_completeness auto
termination by (relation "measure (\<lambda>(_, s). length s)") auto

declare insert_linebreaks.simps [simp del]

definition base64_encode_pem :: "bytes \<Rightarrow> string" where
  "base64_encode_pem s = insert_linebreaks 64 (base64_encode s False)"

definition base64_encode_mime :: "bytes \<Rightarrow> string" where
  "base64_encode_mime s = insert_linebreaks 76 (base64_encode s False)"

section \<open>Decoding\<close>

definition pos_of_char :: "char \<Rightarrow> u32 option" where
  "pos_of_char c =
    (let n = of_char c :: nat in
     if 65 \<le> n \<and> n \<le> 90 then Some (of_nat (n - 65))
     else if 97 \<le> n \<and> n \<le> 122 then Some (of_nat (n - 97 + 25 + 1))
     else if 48 \<le> n \<and> n \<le> 57 then Some (of_nat (n - 48 + 25 + 25 + 2))
     else if c = CHR ''+'' \<or> c = CHR ''-'' then Some 62
     else if c = CHR ''/'' \<or> c = CHR ''_'' then Some 63
     else None)"

definition is_trailing :: "char \<Rightarrow> bool" where
  "is_trailing c \<longleftrightarrow> c = CHR ''='' \<or> c = CHR ''.''"

definition byte0 :: "u32 \<Rightarrow> u32 \<Rightarrow> u8" where
  "byte0 p0 p1 = ucast (push_bit 2 p0 + drop_bit 4 (p1 AND 0x30))"

definition byte1 :: "u32 \<Rightarrow> u32 \<Rightarrow> u8" where
  "byte1 p1 p2 = ucast (push_bit 4 (p1 AND 0x0f) + drop_bit 2 (p2 AND 0x3c))"

definition byte2 :: "u32 \<Rightarrow> u32 \<Rightarrow> u8" where
  "byte2 p2 p3 = ucast (push_bit 6 (p2 AND 0x03) + p3)"

text \<open>Four characters.  Behind the end of the string a NUL is read, which raises the exception
  before anything further behind is.\<close>

definition decode_quad :: "char \<Rightarrow> char \<Rightarrow> char \<Rightarrow> char \<Rightarrow> bytes option" where
  "decode_quad a b c d =
    (case (pos_of_char b, pos_of_char a) of
       (Some p1, Some p0) \<Rightarrow>
         if is_trailing c then Some [byte0 p0 p1]
         else (case pos_of_char c of
             None \<Rightarrow> None
           | Some p2 \<Rightarrow>
               if is_trailing d then Some [byte0 p0 p1, byte1 p1 p2]
               else map_option (\<lambda>p3. [byte0 p0 p1, byte1 p1 p2, byte2 p2 p3]) (pos_of_char d))
     | _ \<Rightarrow> None)"

fun decode_loop :: "string \<Rightarrow> bytes option" where
  "decode_loop [] = Some []"
| "decode_loop [a] = decode_quad a (CHR 0x00) (CHR 0x00) (CHR 0x00)"
| "decode_loop [a, b] = decode_quad a b (CHR 0x00) (CHR 0x00)"
| "decode_loop [a, b, c] = decode_quad a b c (CHR 0x00)"
| "decode_loop (a # b # c # d # s) =
    Option.bind (decode_quad a b c d) (\<lambda>x. map_option ((@) x) (decode_loop s))"

definition base64_decode :: "string \<Rightarrow> bool \<Rightarrow> bytes option" where
  "base64_decode s remove_linebreaks =
    (if remove_linebreaks then decode_loop (filter (\<lambda>c. c \<noteq> CHR 0x0A) s) else decode_loop s)"

section \<open>Radio packets\<close>

definition base64_set_storage ::
    "string \<Rightarrow> LORAWAN_MESSAGE_STORAGE \<Rightarrow> bool \<times> LORAWAN_MESSAGE_STORAGE" where
  "base64_set_storage s m =
    (case base64_decode s False of
       None \<Rightarrow> (False, m)
     | Some b \<Rightarrow> (True, set_storage b (length b) m))"

definition hex_set_storage ::
    "string \<Rightarrow> LORAWAN_MESSAGE_STORAGE \<Rightarrow> bool \<times> LORAWAN_MESSAGE_STORAGE" where
  "hex_set_storage s m =
    (let b = text_bytes (hex2string s) in (True, set_storage b (length b) m))"

definition storage_base64 :: "string \<Rightarrow> LORAWAN_MESSAGE_STORAGE" where
  "storage_base64 s = snd (base64_set_storage s storage_default)"

definition storage_payloadBase64 :: "LORAWAN_MESSAGE_STORAGE \<Rightarrow> string" where
  "storage_payloadBase64 s =
    (if is_up (mtype s) \<or> is_down (mtype s)
     then base64_encode (mem_read (mdata s) (st_payload_offset (mdata s)) (nat (psize s))) False
     else [])"

text \<open>The buffer of 300 bytes is on the stack and holds \<open>stack\<close>.\<close>

definition MessageBuilder_base64 ::
    "cipher \<Rightarrow> bytes \<Rightarrow> bytes \<Rightarrow> NetworkIdentity \<Rightarrow> LORAWAN_MESSAGE_STORAGE \<Rightarrow> string" where
  "MessageBuilder_base64 E junk stack deviceId msg =
    (let (sz, buf, _) = storage_toArray E junk (Some stack) 300 (Some deviceId) msg
     in base64_encode (take sz (the buf)) False)"

section \<open>Lemmas\<close>

lemma b64_table:
  "list_all (\<lambda>i. pos_of_char (base64_chars u ! i) = Some (of_nat i) \<and>
      \<not> is_trailing (base64_chars u ! i) \<and> base64_chars u ! i \<noteq> CHR 0x0A) [0..<64]"
  by (cases u; simp add: base64_chars_def pos_of_char_def is_trailing_def upt_rec numeral_nat del: upt_Suc)

lemma b64_char_pos:
  assumes "i < 64"
  shows "pos_of_char (b64_char u i) = Some (ucast i)" "\<not> is_trailing (b64_char u i)"
    "b64_char u i \<noteq> CHR 0x0A"
proof -
  have "unat i < 64" using assms by (simp add: word_less_nat_alt)
  then show "pos_of_char (b64_char u i) = Some (ucast i)" "\<not> is_trailing (b64_char u i)"
    "b64_char u i \<noteq> CHR 0x0A"
    using b64_table [of u] by (auto simp: list_all_iff b64_char_def)
qed
lemma mask_simps:
  "drop_bit 2 (a AND 0xfc) = drop_bit 2 (a :: u8)" "drop_bit 4 (a AND 0xf0) = drop_bit 4 (a :: u8)"
  "drop_bit 6 (a AND 0xc0) = drop_bit 6 (a :: u8)" "a AND 0x03 = take_bit 2 (a :: u8)"
  "a AND 0x0f = take_bit 4 (a :: u8)" "a AND 0x3f = take_bit 6 (a :: u8)"
  by (simp_all add: u8_eq_iff bit_simps bit_numeral_rec bit_take_bit_iff)

lemma mask_simps32:
  "drop_bit 4 (p AND 0x30) = take_bit 2 (drop_bit 4 (p :: u32))" "p AND 0x0f = take_bit 4 (p :: u32)"
  "drop_bit 2 (p AND 0x3c) = take_bit 4 (drop_bit 2 (p :: u32))" "p AND 0x03 = take_bit 2 (p :: u32)"
proof -
  have m: "(0x30 :: u32) = push_bit 4 (mask 2)" "(0x3c :: u32) = push_bit 2 (mask 4)" "(0x0f :: u32) = mask 4"
    "(0x03 :: u32) = mask 2"
    by (simp_all add: mask_eq_exp_minus_1)
  show "drop_bit 4 (p AND 0x30) = take_bit 2 (drop_bit 4 (p :: u32))" "p AND 0x0f = take_bit 4 (p :: u32)"
    "drop_bit 2 (p AND 0x3c) = take_bit 4 (drop_bit 2 (p :: u32))" "p AND 0x03 = take_bit 2 (p :: u32)"
    unfolding m take_bit_eq_mask
    by (rule bit_word_eqI; auto simp: bit_simps)+
qed

lemma unat_bits:
  "unat (drop_bit n w) = unat w div 2 ^ n" "unat (take_bit n w) = unat w mod 2 ^ n"
  "unat (push_bit n w) = (unat w * 2 ^ n) mod 2 ^ LENGTH('a)"
  for w :: "'a::len word"
  by (simp_all only: unsigned_drop_bit_eq unsigned_take_bit_eq unsigned_push_bit_eq
      drop_bit_eq_div [where 'a = nat] take_bit_eq_mod [where 'a = nat] push_bit_eq_mult [where 'a = nat])
    (simp_all add: mod_less [OF unsigned_less [of w, where 'a = nat]])

lemma unat_u8_less: "unat (a :: u8) < 256"
  using unsigned_less [of a, where 'a = nat] by simp

lemma sextet_unat:
  "unat (sextet0 a) = unat a div 4" "unat (last_sextet1 a) = 16 * (unat a mod 4)"
  "unat (sextet1 a b) = 16 * (unat a mod 4) + unat b div 16" "unat (last_sextet2 b) = 4 * (unat b mod 16)"
  "unat (sextet2 b c) = 4 * (unat b mod 16) + unat c div 64" "unat (sextet3 c) = unat c mod 64"
proof -
  note d = sextet0_def sextet1_def sextet2_def sextet3_def last_sextet1_def last_sextet2_def
  show "unat (sextet0 a) = unat a div 4" "unat (last_sextet1 a) = 16 * (unat a mod 4)"
    "unat (sextet1 a b) = 16 * (unat a mod 4) + unat b div 16" "unat (last_sextet2 b) = 4 * (unat b mod 16)"
    "unat (sextet2 b c) = 4 * (unat b mod 16) + unat c div 64" "unat (sextet3 c) = unat c mod 64"
    using unat_u8_less [of a] unat_u8_less [of b] unat_u8_less [of c]
    by (simp_all only: d mask_simps unat_bits unat_word_ariths) simp_all
qed

lemma byte_unat:
  "unat p0 < 64 \<Longrightarrow> unat p1 < 64 \<Longrightarrow> unat (byte0 p0 p1) = 4 * unat p0 + unat p1 div 16"
  "unat p1 < 64 \<Longrightarrow> unat p2 < 64 \<Longrightarrow> unat (byte1 p1 p2) = 16 * (unat p1 mod 16) + unat p2 div 4"
  "unat p2 < 64 \<Longrightarrow> unat p3 < 64 \<Longrightarrow> unat (byte2 p2 p3) = 64 * (unat p2 mod 4) + unat p3"
  by (simp_all only: byte0_def byte1_def byte2_def mask_simps32 unat_bits unat_word_ariths
      unsigned_ucast_eq take_bit_eq_mod [where 'a = nat]) simp_all

lemma unat_ucast_8_32: "unat (ucast (w :: u8) :: u32) = unat w"
  using unat_u8_less [of w] by (simp add: unsigned_ucast_eq take_bit_nat_eq_self)

lemma sextet_bounds: "unat (sextet0 a) < 64" "unat (last_sextet1 a) < 64" "unat (sextet1 a b) < 64"
  "unat (last_sextet2 b) < 64" "unat (sextet2 b c) < 64" "unat (sextet3 c) < 64"
  using unat_u8_less [of a] unat_u8_less [of b] unat_u8_less [of c] by (simp_all add: sextet_unat)

text \<open>What a byte is put together from are the parts it was taken into.\<close>

lemma bytes_of_sextets:
  "byte0 (ucast (sextet0 a)) (ucast (last_sextet1 a)) = a" "byte0 (ucast (sextet0 a)) (ucast (sextet1 a b)) = a"
  "byte1 (ucast (sextet1 a b)) (ucast (last_sextet2 b)) = b" "byte1 (ucast (sextet1 a b)) (ucast (sextet2 b c)) = b"
  "byte2 (ucast (sextet2 b c)) (ucast (sextet3 c)) = c"
  using unat_u8_less [of a] unat_u8_less [of b] unat_u8_less [of c]
  by (rule_tac [!] unsigned_word_eqI [where 'a = nat])
    (simp_all add: byte_unat unat_ucast_8_32 sextet_unat sextet_bounds)

lemma sextet_less: "sextet0 a < 64" "last_sextet1 a < 64" "sextet1 a b < 64" "last_sextet2 b < 64"
  "sextet2 b c < 64" "sextet3 c < 64"
  by (simp_all add: word_less_nat_alt sextet_bounds)

lemma is_trailing_char: "is_trailing (trailing_char u)" "trailing_char u \<noteq> CHR 0x0A"
  by (simp_all add: is_trailing_def trailing_char_def)

lemma decode_loop_encode: "decode_loop (base64_encode bs u) = Some bs"
  by (induction bs u rule: base64_encode.induct) (simp_all add: decode_quad_def b64_char_pos sextet_less is_trailing_char bytes_of_sextets)

lemma encode_no_linebreak: "list_all (\<lambda>c. c \<noteq> CHR 0x0A) (base64_encode bs u)"
  by (induction bs u rule: base64_encode.induct)
    (simp_all add: b64_char_pos sextet_less is_trailing_char)

lemma remove_linebreaks:
  "list_all (\<lambda>c. c \<noteq> CHR 0x0A) s \<Longrightarrow> filter (\<lambda>c. c \<noteq> CHR 0x0A) (insert_linebreaks d s) = s"
proof (induction d s rule: insert_linebreaks.induct)
  case (1 d s)
  have "filter (\<lambda>c. c \<noteq> CHR 0x0A) (take d s) = take d s"
    using "1.prems" by (auto simp: filter_id_conv list_all_iff dest: in_set_takeD)
  moreover have "list_all (\<lambda>c. c \<noteq> CHR 0x0A) (drop d s)"
    using "1.prems" by (auto simp: list_all_iff dest: in_set_dropD)
  ultimately show ?case
    using "1.IH" "1.prems"
    by (subst insert_linebreaks.simps) (auto simp: filter_id_conv list_all_iff)
qed

section \<open>Properties\<close>

text \<open>C40: Base 64 text, in either alphabet, is decoded to the bytes it was made from, and so is
  the text in lines of 64 or 76 characters when line breaks are removed.\<close>

theorem base64_roundtrip:
  "base64_decode (base64_encode bs url) False = Some bs \<and>
   base64_decode (base64_encode_pem bs) True = Some bs \<and>
   base64_decode (base64_encode_mime bs) True = Some bs"
  by (simp add: base64_decode_def base64_encode_pem_def base64_encode_mime_def
      remove_linebreaks encode_no_linebreak decode_loop_encode)

text \<open>A radio packet in base 64 is stored as the packet itself is.\<close>

lemma base64_set_storage_encode:
  "base64_set_storage (base64_encode bs url) m = (True, set_storage bs (length bs) m)"
  by (simp add: base64_set_storage_def base64_decode_def decode_loop_encode)

text \<open>Text of any other length than a multiple of four is refused, but for a missing last
  padding character.\<close>

lemma base64_length:
  "decode_loop s = Some bs \<Longrightarrow> length s mod 4 = 0 \<or> length s mod 4 = 3 \<and> is_trailing (last s)"
proof (induction s arbitrary: bs rule: decode_loop.induct)
  case (5 a b c d s)
  then show ?case by (cases "decode_loop s") (auto split: if_splits bind_splits)
qed (auto simp: decode_quad_def pos_of_char_def is_trailing_def Let_def split: option.splits if_splits)

lemma base64_unpadded: "base64_decode ''QQ='' False = Some [65]" "base64_decode ''QQ'' False = None"
  by code_simp+

end
