(* ===== verification/Region_Plan.thy ===== *)
theory Region_Plan
  imports Frame_Text
begin

text \<open>
  Channel plans of the regions (\<open>regional-parameters/regional-parameter-channel-plan.cpp\<close>)
  and the list of plans in memory (\<open>regional-parameter-channel-plan-mem.cpp\<close>).  A method has
  no result (\<open>None\<close>) where it reads behind the end of a vector.  A \<open>float\<close> is its bits; a
  plan that a method returns by its address is its position in the list.
\<close>

section \<open>Channels, defaults, sizes\<close>

record RADIO_CHANNEL =
  ch_frequency :: int
  ch_minDR :: int
  ch_maxDR :: int
  ch_enabled :: bool
  ch_custom :: bool

definition Channel_default :: RADIO_CHANNEL where
  "Channel_default =
    \<lparr>ch_frequency = 0, ch_minDR = 0, ch_maxDR = 0, ch_enabled = True, ch_custom = False\<rparr>"

definition Channel_setValue :: "int \<Rightarrow> int \<Rightarrow> int \<Rightarrow> bool \<Rightarrow> bool \<Rightarrow> RADIO_CHANNEL \<Rightarrow> RADIO_CHANNEL" where
  "Channel_setValue f mi ma e c v =
    v\<lparr>ch_frequency := f, ch_minDR := mi, ch_maxDR := ma, ch_enabled := e, ch_custom := c\<rparr>"

definition Channel_toString :: "RADIO_CHANNEL \<Rightarrow> string" where
  "Channel_toString v = json_object
    [(''frequency'', show_int (ch_frequency v)), (''minDR'', show_int (ch_minDR v)),
     (''maxDR'', show_int (ch_maxDR v)), (''enabled'', show_bool (ch_enabled v)),
     (''custom'', show_bool (ch_custom v))]"

record BAND_DEFAULTS =
  bd_RX2Frequency :: int
  bd_RX2DataRate :: int
  bd_ReceiveDelay1 :: int
  bd_ReceiveDelay2 :: int
  bd_JoinAcceptDelay1 :: int
  bd_JoinAcceptDelay2 :: int

definition BandDefaults_default :: BAND_DEFAULTS where
  "BandDefaults_default =
    \<lparr>bd_RX2Frequency = 0, bd_RX2DataRate = 0, bd_ReceiveDelay1 = 0, bd_ReceiveDelay2 = 0,
     bd_JoinAcceptDelay1 = 0, bd_JoinAcceptDelay2 = 0\<rparr>"

definition BandDefaults_setValue ::
    "int \<Rightarrow> int \<Rightarrow> int \<Rightarrow> int \<Rightarrow> int \<Rightarrow> int \<Rightarrow> BAND_DEFAULTS \<Rightarrow> BAND_DEFAULTS" where
  "BandDefaults_setValue f r d1 d2 j1 j2 v =
    v\<lparr>bd_RX2Frequency := f, bd_RX2DataRate := r, bd_ReceiveDelay1 := d1, bd_ReceiveDelay2 := d2,
      bd_JoinAcceptDelay1 := j1, bd_JoinAcceptDelay2 := j2\<rparr>"

definition BandDefaults_toString :: "BAND_DEFAULTS \<Rightarrow> string" where
  "BandDefaults_toString v = json_object
    [(''RX2Frequency'', show_int (bd_RX2Frequency v)), (''RX2DataRate'', show_int (bd_RX2DataRate v)),
     (''ReceiveDelay1'', show_int (bd_ReceiveDelay1 v)), (''ReceiveDelay2'', show_int (bd_ReceiveDelay2 v)),
     (''JoinAcceptDelay1'', show_int (bd_JoinAcceptDelay1 v)),
     (''JoinAcceptDelay2'', show_int (bd_JoinAcceptDelay2 v))]"

record MAX_PAYLOAD_SIZE =
  mp_m :: u8
  mp_n :: u8

definition MaxPayloadSize_default :: MAX_PAYLOAD_SIZE where
  "MaxPayloadSize_default = \<lparr>mp_m = 0, mp_n = 0\<rparr>"

definition MaxPayloadSize_setValue :: "u8 \<Rightarrow> u8 \<Rightarrow> MAX_PAYLOAD_SIZE \<Rightarrow> MAX_PAYLOAD_SIZE" where
  "MaxPayloadSize_setValue m n v = v\<lparr>mp_m := m, mp_n := n\<rparr>"

definition MaxPayloadSize_toString :: "MAX_PAYLOAD_SIZE \<Rightarrow> string" where
  "MaxPayloadSize_toString v = json_object [(''m'', show_word (mp_m v)), (''n'', show_word (mp_n v))]"

definition DataRate_toString :: "DATA_RATE \<Rightarrow> string" where
  "DataRate_toString v = json_object
    [(''uplink'', show_bool (dr_uplink v)), (''downlink'', show_bool (dr_downlink v)),
     (''modulation'', quoted (MODULATION2String (dr_modulation v))),
     (''bandwidth'', BANDWIDTH2String (dr_bandwidth v)),
     (''spreadingFactor'', show_word (dr_spreadingFactor v)), (''bps'', show_word (dr_bps v))]"

section \<open>The plan\<close>

abbreviation (input) "TX_POWER_OFFSET_MAX_SIZE \<equiv> 16 :: nat"
abbreviation (input) "DATA_RATE_SIZE \<equiv> 8 :: nat"

record CHANNEL_PLAN =
  cp_id :: u8
  cp_subRegion :: u8
  cp_name :: string
  cp_cn :: string
  cp_maxUplinkEIRP :: u32
  cp_defaultDownlinkTXPower :: int
  cp_pingSlotFrequency :: int
  cp_implementsTXParamSetup :: bool
  cp_defaultRegion :: bool
  cp_supportsExtraChannels :: bool
  cp_bandDefaults :: BAND_DEFAULTS
  cp_dataRates :: "DATA_RATE list"
  cp_maxPayloadSizePerDataRate :: "MAX_PAYLOAD_SIZE list"
  cp_maxPayloadSizePerDataRateRepeater :: "MAX_PAYLOAD_SIZE list"
  cp_rx1DataRateOffsets :: "u8 list list"
  cp_txPowerOffsets :: "u8 list"
  cp_uplinkChannels :: "RADIO_CHANNEL list"
  cp_downlinkChannels :: "RADIO_CHANNEL list"

definition ChannelPlan_default :: CHANNEL_PLAN where
  "ChannelPlan_default =
    \<lparr>cp_id = 0, cp_subRegion = 0, cp_name = [], cp_cn = [], cp_maxUplinkEIRP = 0,
     cp_defaultDownlinkTXPower = 0, cp_pingSlotFrequency = 0, cp_implementsTXParamSetup = False,
     cp_defaultRegion = False, cp_supportsExtraChannels = False,
     cp_bandDefaults = BandDefaults_default, cp_dataRates = [], cp_maxPayloadSizePerDataRate = [],
     cp_maxPayloadSizePerDataRateRepeater = [], cp_rx1DataRateOffsets = [], cp_txPowerOffsets = [],
     cp_uplinkChannels = [], cp_downlinkChannels = []\<rparr>"

text \<open>The values of the variable arguments; there are at least as many as \<open>count\<close> says.\<close>

definition setTxPowerOffsets :: "nat \<Rightarrow> int list \<Rightarrow> CHANNEL_PLAN \<Rightarrow> CHANNEL_PLAN" where
  "setTxPowerOffsets count vs p =
    p\<lparr>cp_txPowerOffsets := cp_txPowerOffsets p @
      map word_of_int (take (min count TX_POWER_OFFSET_MAX_SIZE) vs)\<rparr>"

definition setRx1DataRateOffsets :: "nat \<Rightarrow> nat \<Rightarrow> int list \<Rightarrow> CHANNEL_PLAN \<Rightarrow> CHANNEL_PLAN" where
  "setRx1DataRateOffsets dataRateIndex count vs p =
    (if dataRateIndex \<ge> length (cp_rx1DataRateOffsets p) then p
     else p\<lparr>cp_rx1DataRateOffsets :=
       (cp_rx1DataRateOffsets p)[dataRateIndex := map word_of_int (take count vs)]\<rparr>)"

definition joinAcceptDelay1 :: "CHANNEL_PLAN \<Rightarrow> int" where
  "joinAcceptDelay1 p = 5"

definition joinAcceptDelay2 :: "CHANNEL_PLAN \<Rightarrow> int" where
  "joinAcceptDelay2 p = 6"

text \<open>How a message of a size is sent: the first downlink channel that is enabled, and the first of
  eight data rates whose packets are not too short for the message, or else the last one.\<close>

record transmission =
  tm_freqHz :: u32
  tm_pwr :: int
  tm_bandwidth :: u32
  tm_spreadingFactor :: u32
  tm_codingRate :: u32
  tm_fdev :: u8
  tm_invert_pol :: bool
  tm_preamble_size :: u16
  tm_no_crc :: bool

definition downlink_frequency :: "CHANNEL_PLAN \<Rightarrow> u32" where
  "downlink_frequency p =
    (case find ch_enabled (cp_downlinkChannels p) of
       None \<Rightarrow> word_of_int (cp_pingSlotFrequency p)
     | Some d \<Rightarrow> word_of_int (ch_frequency d))"

function size_index :: "nat \<Rightarrow> nat \<Rightarrow> MAX_PAYLOAD_SIZE list \<Rightarrow> nat option" where
  "size_index messageSize i ms =
    (if i \<ge> 8 then Some 7
     else if i \<ge> length ms then None
     else if messageSize \<le> unat (mp_m (ms ! i)) then Some i
     else size_index messageSize (i + 1) ms)"
  by pat_completeness auto
termination by (relation "measure (\<lambda>(_, i, _). 8 - i)") auto

declare size_index.simps [simp del]

definition ChannelPlan_get :: "nat \<Rightarrow> CHANNEL_PLAN \<Rightarrow> transmission option" where
  "ChannelPlan_get messageSize p =
    (case size_index messageSize 0 (cp_maxPayloadSizePerDataRate p) of
       None \<Rightarrow> None
     | Some idx \<Rightarrow>
         if idx \<ge> length (cp_dataRates p) then None
         else Some
           \<lparr>tm_freqHz = downlink_frequency p, tm_pwr = cp_defaultDownlinkTXPower p,
            tm_bandwidth = dr_bandwidth (cp_dataRates p ! idx),
            tm_spreadingFactor = dr_spreadingFactor (cp_dataRates p ! idx), tm_codingRate = CR_4_6,
            tm_fdev = 0, tm_invert_pol = False, tm_preamble_size = 0, tm_no_crc = False\<rparr>)"

text \<open>Neither function looks at the metadata (\<open>power-dbm.cpp\<close>).\<close>

definition gwPower :: "CHANNEL_PLAN option \<Rightarrow> int" where
  "gwPower p = (case p of None \<Rightarrow> 14 | Some p \<Rightarrow> cp_defaultDownlinkTXPower p)"

definition gwPowerTx :: "CHANNEL_PLAN option \<Rightarrow> int" where
  "gwPowerTx p = (case p of None \<Rightarrow> 14 | Some p \<Rightarrow> cp_defaultDownlinkTXPower p)"

section \<open>Lists of plans\<close>

record RegionBands =
  rb_version :: LORAWAN_VERSION
  rb_bands :: "CHANNEL_PLAN list"

definition RegionBands_default :: RegionBands where
  "RegionBands_default = \<lparr>rb_version = LORAWAN_VERSION_make 0 0 0, rb_bands = []\<rparr>"

definition RegionBands_of :: "CHANNEL_PLAN list \<Rightarrow> RegionBands" where
  "RegionBands_of bands = \<lparr>rb_version = LORAWAN_VERSION_make 0 0 0, rb_bands = bands\<rparr>"

fun find_index :: "('a \<Rightarrow> bool) \<Rightarrow> 'a list \<Rightarrow> nat option" where
  "find_index P [] = None"
| "find_index P (x # xs) = (if P x then Some 0 else map_option Suc (find_index P xs))"

definition name_matches :: "string \<Rightarrow> CHANNEL_PLAN \<Rightarrow> bool" where
  "name_matches upperName p \<longleftrightarrow>
    find_sub upperName (map toupper (cp_cn p)) \<noteq> None \<or>
    find_sub upperName (map toupper (cp_name p)) \<noteq> None"

definition RegionBands_get :: "string \<Rightarrow> RegionBands \<Rightarrow> nat option" where
  "RegionBands_get nm r = find_index (name_matches (map toupper nm)) (rb_bands r)"

definition setRegionalParametersVersion :: "string \<Rightarrow> RegionBands \<Rightarrow> bool \<times> RegionBands" where
  "setRegionalParametersVersion value r =
    (True, r\<lparr>rb_version := string2REGIONAL_PARAMETERS_VERSION value\<rparr>)"

definition mem_getDefault :: "RegionBands \<Rightarrow> nat option" where
  "mem_getDefault r = find_index cp_defaultRegion (rb_bands r)"

definition mem_get_name :: "string \<Rightarrow> RegionBands \<Rightarrow> nat option" where
  "mem_get_name nm r =
    (case find_index (name_matches (map toupper nm)) (rb_bands r) of
       None \<Rightarrow> mem_getDefault r
     | Some i \<Rightarrow> Some i)"

definition mem_get_id :: "int \<Rightarrow> RegionBands \<Rightarrow> nat option" where
  "mem_get_id i r =
    (case find_index (\<lambda>p. uint (cp_id p) = i) (rb_bands r) of
       None \<Rightarrow> mem_getDefault r
     | Some k \<Rightarrow> Some k)"

section \<open>Lemmas\<close>

lemma size_index_find:
  assumes "i \<le> 8" "length ms \<ge> 8"
  shows "size_index n i ms =
    Some (case find (\<lambda>j. n \<le> unat (mp_m (ms ! j))) [i..<8] of None \<Rightarrow> 7 | Some j \<Rightarrow> j)"
  using assms
proof (induction "8 - i" arbitrary: i)
  case 0
  then show ?case by (subst size_index.simps) auto
next
  case (Suc d)
  have "d = 8 - (i + 1)" "i + 1 \<le> 8" "[i..<8] = i # [i + 1..<8]"
    using Suc.hyps(2) by (simp_all add: upt_conv_Cons)
  then show ?case
    using Suc.hyps(1) [of "i + 1"] Suc.prems by (subst size_index.simps) auto
qed

lemma find_upt_None: "find P [0..<n] = None \<longleftrightarrow> (\<forall>j < n. \<not> P j)"
  by (auto simp: find_None_iff)

lemma find_upt_Some: "find P [0..<n] = Some k \<longleftrightarrow> k < n \<and> P k \<and> (\<forall>j < k. \<not> P j)"
  by (auto simp: find_Some_iff)

lemma find_index_Some:
  "find_index P xs = Some i \<longleftrightarrow> i < length xs \<and> P (xs ! i) \<and> (\<forall>j < i. \<not> P (xs ! j))"
proof (induction xs arbitrary: i)
  case (Cons x xs)
  then show ?case by (cases i) (auto simp: nth_Cons' less_Suc_eq_0_disj)
qed simp

lemma find_index_None: "find_index P xs = None \<longleftrightarrow> (\<forall>x \<in> set xs. \<not> P x)"
  by (induction xs) auto

section \<open>Properties\<close>

text \<open>A message is sent at the first of the eight data rates that allows its size.  Where none
  allows it the last data rate is used all the same, though its packets are too short.\<close>

theorem plan_chooses_first_rate:
  assumes "length (cp_maxPayloadSizePerDataRate p) \<ge> 8" "length (cp_dataRates p) \<ge> 8"
  shows "\<exists>t k. ChannelPlan_get n p = Some t \<and> k < 8 \<and>
    tm_bandwidth t = dr_bandwidth (cp_dataRates p ! k) \<and>
    tm_spreadingFactor t = dr_spreadingFactor (cp_dataRates p ! k) \<and>
    (\<forall>j < k. unat (mp_m (cp_maxPayloadSizePerDataRate p ! j)) < n) \<and>
    (n \<le> unat (mp_m (cp_maxPayloadSizePerDataRate p ! k)) \<or>
     k = 7 \<and> (\<forall>j < 8. unat (mp_m (cp_maxPayloadSizePerDataRate p ! j)) < n))"
proof -
  let ?P = "\<lambda>j. n \<le> unat (mp_m (cp_maxPayloadSizePerDataRate p ! j))"
  let ?k = "case find ?P [0..<8] of None \<Rightarrow> 7 | Some j \<Rightarrow> j"
  have "size_index n 0 (cp_maxPayloadSizePerDataRate p) = Some ?k"
    using size_index_find [of 0] assms(1) by simp
  moreover have "?k < 8" "\<forall>j < ?k. \<not> ?P j" "?P ?k \<or> ?k = 7 \<and> (\<forall>j < 8. \<not> ?P j)"
    using find_upt_None [of ?P 8] find_upt_Some [of ?P 8] by (auto split: option.splits)
  ultimately show ?thesis
    using assms(2) by (intro exI [of _ "the (ChannelPlan_get n p)"] exI [of _ ?k])
      (auto simp: ChannelPlan_get_def not_le)
qed

definition plan_ex :: CHANNEL_PLAN where
  "plan_ex = ChannelPlan_default
    \<lparr>cp_name := ''EU863-870'', cp_cn := ''EU868'', cp_defaultRegion := True,
     cp_dataRates := map (\<lambda>sf. DataRate_lora BW_125 sf) [12, 11, 10, 9, 8, 7, 7, 7],
     cp_maxPayloadSizePerDataRate :=
       map (\<lambda>m. \<lparr>mp_m = m, mp_n = m - 8\<rparr>) [59, 59, 59, 123, 230, 230, 230, 230]\<rparr>"

theorem plan_chooses_first_rate_witness:
  "\<exists>t k. ChannelPlan_get 100 plan_ex = Some t \<and> k < 8 \<and>
    tm_bandwidth t = dr_bandwidth (cp_dataRates plan_ex ! k) \<and>
    tm_spreadingFactor t = dr_spreadingFactor (cp_dataRates plan_ex ! k) \<and>
    (\<forall>j < k. unat (mp_m (cp_maxPayloadSizePerDataRate plan_ex ! j)) < 100) \<and>
    (100 \<le> unat (mp_m (cp_maxPayloadSizePerDataRate plan_ex ! k)) \<or>
     k = 7 \<and> (\<forall>j < 8. unat (mp_m (cp_maxPayloadSizePerDataRate plan_ex ! j)) < 100))"
  by (rule plan_chooses_first_rate) (simp_all add: plan_ex_def)

text \<open>The plan that an identifier names is the first with that identifier, or else the first default
  one.\<close>

lemma plan_by_id:
  "mem_get_id i r =
    (if \<exists>p \<in> set (rb_bands r). uint (cp_id p) = i then find_index (\<lambda>p. uint (cp_id p) = i) (rb_bands r)
     else find_index cp_defaultRegion (rb_bands r))"
  using find_index_None [of "\<lambda>p. uint (cp_id p) = i" "rb_bands r"]
  by (auto simp: mem_get_id_def mem_getDefault_def split: option.split)

text \<open>The empty name is in every name.\<close>

lemma plan_by_empty_name: "rb_bands r \<noteq> [] \<Longrightarrow> mem_get_name [] r = Some 0"
proof -
  have "find_sub [] s = Some 0" for s by (cases s) simp_all
  then show "rb_bands r \<noteq> [] \<Longrightarrow> mem_get_name [] r = Some 0"
    by (cases "rb_bands r") (simp_all add: mem_get_name_def name_matches_def)
qed

end
