(* ===== verification/Json_Sax.thy ===== *)
theory Json_Sax
  imports Frame_Text
begin

text \<open>
  What the handlers of JSON documents share.  The JSON library is third-party: a document is
  the sequence of events it calls its handler with, until the handler returns false.  A number
  with a fraction or exponent comes as a \<open>double\<close>, which is its 64 bits; the library gives
  no other than finite ones.
\<close>

section \<open>Events\<close>

datatype sax_event =
    Null
  | Boolean bool
  | Number_integer int
  | Number_unsigned nat
  | Number_float u64
  | String_value string
  | Start_object
  | Key string
  | End_object
  | Start_array
  | End_array
  | Parse_error int

text \<open>A handler has no result (\<open>None\<close>) where it leaves its objects' memory.\<close>

fun sax_run :: "(sax_event \<Rightarrow> 's \<Rightarrow> (bool \<times> 's) option) \<Rightarrow> sax_event list \<Rightarrow> 's \<Rightarrow> (bool \<times> 's) option" where
  "sax_run h [] s = Some (True, s)"
| "sax_run h (e # es) s =
    (case h e s of
       None \<Rightarrow> None
     | Some (True, s') \<Rightarrow> sax_run h es s'
     | Some (False, s') \<Rightarrow> Some (False, s'))"

lemma sax_run_append:
  "sax_run h (es @ fs) s =
    (case sax_run h es s of
       None \<Rightarrow> None
     | Some (True, s') \<Rightarrow> sax_run h fs s'
     | Some (False, s') \<Rightarrow> Some (False, s'))"
  by (induction h es s rule: sax_run.induct) (auto split: option.splits bool.splits)

lemma sax_run_append_ok:
  "sax_run h es s = Some (True, s') \<Longrightarrow> sax_run h (es @ fs) s = sax_run h fs s'"
  by (simp add: sax_run_append)

text \<open>What every accepted event keeps, a run keeps.\<close>

lemma sax_run_invariant:
  assumes step: "\<And>e s ok s'. P s \<Longrightarrow> h e s = Some (ok, s') \<Longrightarrow> P s'"
    and "P s" "sax_run h es s = Some (ok, s')"
  shows "P s'"
  using assms(2,3)
proof (induction es arbitrary: s)
  case (Cons e es)
  obtain a b where h: "h e s = Some (a, b)" using Cons.prems(2) by (cases "h e s") auto
  have "P b" by (rule step [OF Cons.prems(1) h])
  then show ?case using h Cons by (cases a) auto
qed simp

text \<open>
  A document that is built in memory, and the fewest characters of its text: names and texts in
  quotes, members and elements with their separators.
\<close>

datatype json =
    J_null
  | J_boolean bool
  | J_integer int
  | J_unsigned nat
  | J_float u64
  | J_string string
  | J_array "json list"
  | J_object "(string \<times> json) list"

fun json_size :: "json \<Rightarrow> nat" where
  "json_size J_null = 4"
| "json_size (J_boolean b) = (if b then 4 else 5)"
| "json_size (J_integer i) = 2"
| "json_size (J_unsigned n) = 1"
| "json_size (J_float d) = 1"
| "json_size (J_string s) = length s + 2"
| "json_size (J_array js) = (if js = [] then 2 else 1 + sum_list (map (\<lambda>j. json_size j + 1) js))"
| "json_size (J_object ms) =
    (if ms = [] then 2 else 1 + sum_list (map (\<lambda>(k, j). length k + json_size j + 4) ms))"

fun json_is_object :: "json \<Rightarrow> bool" where
  "json_is_object (J_object ms) = True"
| "json_is_object _ = False"

fun json_member :: "string \<Rightarrow> json \<Rightarrow> json option" where
  "json_member k (J_object ms) = map_of ms k"
| "json_member k _ = None"

text \<open>The handler accepts all events, and what it makes of its state has the property \<open>Q\<close>.\<close>

definition sax_runs ::
    "(sax_event \<Rightarrow> 's \<Rightarrow> (bool \<times> 's) option) \<Rightarrow> sax_event list \<Rightarrow> 's \<Rightarrow> ('s \<Rightarrow> bool) \<Rightarrow> bool" where
  "sax_runs h es s Q \<longleftrightarrow> (\<exists>s'. sax_run h es s = Some (True, s') \<and> Q s')"

lemma runs_Nil [simp]: "sax_runs h [] s Q = Q s"
  by (simp add: sax_runs_def)

lemma runs_Cons: "sax_runs h (e # es) s Q \<longleftrightarrow> (\<exists>s'. h e s = Some (True, s') \<and> sax_runs h es s' Q)"
  by (auto simp: sax_runs_def split: option.splits bool.splits)

lemma runs_append: "sax_runs h (es @ fs) s Q \<longleftrightarrow> sax_runs h es s (\<lambda>s'. sax_runs h fs s' Q)"
  by (auto simp: sax_runs_def sax_run_append split: option.splits bool.splits)

lemma runs_mono: "sax_runs h es s P \<Longrightarrow> (\<And>s'. P s' \<Longrightarrow> Q s') \<Longrightarrow> sax_runs h es s Q"
  by (auto simp: sax_runs_def)

lemma runs_seq: "sax_runs h es s P \<Longrightarrow> (\<And>s'. P s' \<Longrightarrow> sax_runs h fs s' Q) \<Longrightarrow> sax_runs h (es @ fs) s Q"
  unfolding runs_append by (rule runs_mono)

lemma runs_enclosed:
  "sax_runs h [a] s P \<Longrightarrow> (\<And>s'. P s' \<Longrightarrow> sax_runs h es s' P') \<Longrightarrow> (\<And>s'. P' s' \<Longrightarrow> sax_runs h fs s' Q) \<Longrightarrow>
    sax_runs h (a # es @ fs) s Q"
  using runs_seq [of h "[a]" s P "es @ fs" Q] runs_seq [of h es _ P' fs Q] by simp

text \<open>\<open>I ys\<close> holds when the prefix \<open>ys\<close> of a list has been read.\<close>

lemma runs_concat:
  assumes "\<And>ys x zs s. xs = ys @ x # zs \<Longrightarrow> I ys s \<Longrightarrow> sax_runs h (ev x) s (I (ys @ [x]))" "I [] s"
  shows "sax_runs h (concat (map ev xs)) s (I xs)"
  using assms
proof (induction xs rule: rev_induct)
  case (snoc x xs)
  have "sax_runs h (concat (map ev xs)) s (I xs)"
    by (rule snoc.IH) (auto intro: snoc.prems)
  then show ?case using snoc.prems(1) [of xs x "[]"] by (simp add: runs_append runs_mono)
qed simp

section \<open>Double precision numbers\<close>

fun bit_length :: "nat \<Rightarrow> nat" where
  "bit_length n = (if n = 0 then 0 else Suc (bit_length (n div 2)))"

declare bit_length.simps [simp del]

text \<open>The magnitude of a finite double is \<open>m * 2 ^ k\<close>.\<close>

definition dbl_neg :: "u64 \<Rightarrow> bool" where
  "dbl_neg d = bit d 63"

definition dbl_parts :: "u64 \<Rightarrow> nat \<times> int" where
  "dbl_parts d =
    (let e = unat (drop_bit 52 d AND 0x7ff); m = unat (d AND 0xfffffffffffff)
     in if e = 0 then (m, - 1074) else (m + 2 ^ 52, int e - 1075))"

text \<open>Rounding to the 53 bits of a double.\<close>

definition round53 :: "nat \<times> int \<Rightarrow> nat \<times> int" where
  "round53 v =
    (case v of (n, k) \<Rightarrow>
       let s = bit_length n - 53
       in if bit_length n \<le> 53 then (n, k) else (round_half_even n (2 ^ s), k + int s))"

definition whole_part :: "nat \<times> int \<Rightarrow> nat" where
  "whole_part v = (case v of (n, k) \<Rightarrow> if k \<ge> 0 then n * 2 ^ nat k else n div 2 ^ nat (- k))"

definition signed_part :: "u64 \<Rightarrow> nat \<Rightarrow> int" where
  "signed_part d n = (if dbl_neg d then - int n else int n)"

text \<open>\<open>(T) d\<close> and \<open>(T) (d * 1000000)\<close>, before they are cut to the integer type \<open>T\<close>.\<close>

definition dbl_trunc :: "u64 \<Rightarrow> int" where
  "dbl_trunc d = signed_part d (whole_part (dbl_parts d))"

definition dbl_mega :: "u64 \<Rightarrow> int" where
  "dbl_mega d = signed_part d (whole_part (round53 (case dbl_parts d of (m, k) \<Rightarrow> (m * 1000000, k))))"

text \<open>
  The conversion to an unsigned type is defined for the values of that type; what the machine
  makes of another is a parameter.
\<close>

definition to_unsigned :: "(int \<Rightarrow> 'a word) \<Rightarrow> int \<Rightarrow> 'a::len word" where
  "to_unsigned other i = (if 0 \<le> i \<and> i < 2 ^ LENGTH('a) then word_of_int i else other i)"

text \<open>\<open>value <= c\<close>, \<open>value >= c\<close> for a double and a natural number.\<close>

definition dbl_le :: "u64 \<Rightarrow> nat \<Rightarrow> bool" where
  "dbl_le d c \<longleftrightarrow>
    dbl_neg d \<or> (case dbl_parts d of (m, k) \<Rightarrow> if k \<ge> 0 then m * 2 ^ nat k \<le> c else m \<le> c * 2 ^ nat (- k))"

definition dbl_ge :: "u64 \<Rightarrow> nat \<Rightarrow> bool" where
  "dbl_ge d c \<longleftrightarrow>
    c = 0 \<and> fst (dbl_parts d) = 0 \<or>
    \<not> dbl_neg d \<and> (case dbl_parts d of (m, k) \<Rightarrow> if k \<ge> 0 then c \<le> m * 2 ^ nat k else c * 2 ^ nat (- k) \<le> m)"

text \<open>
  The nearest \<open>float\<close> to \<open>n * 2 ^ k\<close>, the even one of two as near: 24 bits, fewer below the
  smallest exponent, infinity above the greatest.  Rounding up to the next power carries into
  the exponent.
\<close>

definition float_bits :: "bool \<Rightarrow> nat \<Rightarrow> int \<Rightarrow> u32" where
  "float_bits neg n k =
    (let q = max (int (bit_length n) - 24 + k) (- 149);
         r = (if k \<ge> q then n * 2 ^ nat (k - q) else round_half_even n (2 ^ nat (q - k)));
         b = (if n = 0 then 0 else r + nat (q + 149) * 2 ^ 23)
     in (if neg then 0x80000000 else 0) OR of_nat (min b 0x7f800000))"

definition dbl_float :: "u64 \<Rightarrow> u32" where
  "dbl_float d = case_prod (float_bits (dbl_neg d)) (dbl_parts d)"

definition int_float :: "int \<Rightarrow> u32" where
  "int_float i = float_bits (i < 0) (nat \<bar>i\<bar>) 0"

text \<open>What lies below the range of \<open>int\<close> is no bandwidth, whatever it is converted to.\<close>

definition double2BANDWIDTH :: "u64 \<Rightarrow> u32" where
  "double2BANDWIDTH value =
    (if dbl_le value 500 then int2BANDWIDTH (dbl_trunc value)
     else if dbl_ge value 125000 then BW_125
     else if dbl_ge value 250000 then BW_250
     else if dbl_ge value 500000 then BW_500
     else BW_125)"

end
