(* ===== verification/Region_Json.thy ===== *)
theory Region_Json
  imports Region_Plan Json_Sax
begin

text \<open>
  Reading channel plans from a JSON document
  (\<open>regional-parameters/regional-parameter-channel-plan-file-json.cpp\<close>): the handler of the
  document's events, a state machine with a counter for each list of a plan, and the indexes
  built over what it read.
\<close>

section \<open>Names\<close>

datatype json_state =
    JRB_NONE | JRB_ROOT | JRB_BANDS | JRB_BAND | JRB_BAND_DEFAULTS | JRB_BAND_DATA_RATES
  | JRB_BAND_DATA_RATE | JRB_BAND_P_SIZES | JRB_BAND_P_SIZE | JRB_BAND_PRPT_SIZES
  | JRB_BAND_PRPT_SIZE | JRB_BAND_RX1_DR_OFFSETS | JRB_BAND_RX1_DR_OFFSET | JRB_BAND_TX_POWER_OFS
  | JRB_BAND_UPLINKS | JRB_BAND_DOWNLINKS | JRB_BAND_CHANNEL

text \<open>For the messages; the sizes with a repeater have the name of those without.\<close>

fun state_name :: "json_state \<Rightarrow> string" where
  "state_name JRB_NONE = ''none''"
| "state_name JRB_ROOT = ''root''"
| "state_name JRB_BANDS = ''RegionBands''"
| "state_name JRB_BAND = ''RegionBands[]''"
| "state_name JRB_BAND_DEFAULTS = ''bandDefaults''"
| "state_name JRB_BAND_DATA_RATES = ''band_data_rates''"
| "state_name JRB_BAND_DATA_RATE = ''band_data_rate''"
| "state_name JRB_BAND_P_SIZES = ''band_p_sizes''"
| "state_name JRB_BAND_P_SIZE = ''band_p_size''"
| "state_name JRB_BAND_PRPT_SIZES = ''maxPayloadSizePerDataRate''"
| "state_name JRB_BAND_PRPT_SIZE = ''maxPayloadSizePerDataRateRepeater''"
| "state_name JRB_BAND_RX1_DR_OFFSETS = ''rx1DataRateOffsets''"
| "state_name JRB_BAND_RX1_DR_OFFSET = ''rx1DataRateOffsets[]''"
| "state_name JRB_BAND_TX_POWER_OFS = ''txPowerOffsets''"
| "state_name JRB_BAND_UPLINKS = ''uplinkChannels''"
| "state_name JRB_BAND_DOWNLINKS = ''downlinkChannels''"
| "state_name JRB_BAND_CHANNEL = ''up/downlinkChannels[]''"

definition ATTR_REGION_BAND_NAMES :: "string list" where
  "ATTR_REGION_BAND_NAMES =
    [[], ''regionalParametersVersion'', ''RegionBands'', ''id'', ''subRegion'', ''name'', ''cn'',
     ''maxUplinkEIRP'', ''defaultDownlinkTXPower'', ''pingSlotFrequency'',
     ''implementsTXParamSetup'', ''supportsExtraChannels'', ''defaultRegion'', ''bandDefaults'',
     ''dataRates'', ''uplinkChannels'', ''downlinkChannels'', ''maxPayloadSizePerDataRate'',
     ''maxPayloadSizePerDataRateRepeater'', ''rx1DataRateOffsets'', ''txPowerOffsets'',
     ''RX2Frequency'', ''RX2DataRate'', ''ReceiveDelay1'', ''ReceiveDelay2'', ''JoinAcceptDelay1'',
     ''JoinAcceptDelay2'', ''uplink'', ''downlink'', ''modulation'', ''bandwidth'',
     ''spreadingFactor'', ''bps'', ''m'', ''n'', ''frequency'', ''minDR'', ''maxDR'', ''enabled'',
     ''custom'']"

datatype json_key =
    JK_NONE | JK_REGIONALPARAMETERSVERSION | JK_REGIONBANDS | JK_ID | JK_SUBREGION | JK_NAME | JK_CN
  | JK_MAXUPLINKEIRP | JK_DEFAULTDOWNLINKTXPOWER | JK_PINGSLOTFREQUENCY | JK_IMPLEMENTSTXPARAMSETUP
  | JK_SUPPORTSEXTRACHANNELS | JK_DEFAULT_REGION | JK_BANDDEFAULTS | JK_DATA_RATES | JK_UPLINKCHANNELS
  | JK_DOWNLINKCHANNELS | JK_MAXPAYLOADSIZEPERDATARATE | JK_MAXPAYLOADSIZEPERDATARATEREPEATOR
  | JK_RX1DATARATEOFFSETS | JK_TXPOWEROFFSETS | JK_RX2FREQUENCY | JK_RX2DATARATE | JK_RECEIVEDELAY1
  | JK_RECEIVEDELAY2 | JK_JOINACCEPTDELAY1 | JK_JOINACCEPTDELAY2 | JK_UPLINK | JK_DOWNLINK
  | JK_MODULATION | JK_BANDWIDTH | JK_SPREADINGFACTOR | JK_BPS | JK_M | JK_N | JK_FREQUENCY | JK_MINDR
  | JK_MAXDR | JK_ENABLED | JK_CUSTOM

definition json_keys :: "json_key list" where
  "json_keys =
    [JK_NONE, JK_REGIONALPARAMETERSVERSION, JK_REGIONBANDS, JK_ID, JK_SUBREGION, JK_NAME, JK_CN,
     JK_MAXUPLINKEIRP, JK_DEFAULTDOWNLINKTXPOWER, JK_PINGSLOTFREQUENCY, JK_IMPLEMENTSTXPARAMSETUP,
     JK_SUPPORTSEXTRACHANNELS, JK_DEFAULT_REGION, JK_BANDDEFAULTS, JK_DATA_RATES, JK_UPLINKCHANNELS,
     JK_DOWNLINKCHANNELS, JK_MAXPAYLOADSIZEPERDATARATE, JK_MAXPAYLOADSIZEPERDATARATEREPEATOR,
     JK_RX1DATARATEOFFSETS, JK_TXPOWEROFFSETS, JK_RX2FREQUENCY, JK_RX2DATARATE, JK_RECEIVEDELAY1,
     JK_RECEIVEDELAY2, JK_JOINACCEPTDELAY1, JK_JOINACCEPTDELAY2, JK_UPLINK, JK_DOWNLINK,
     JK_MODULATION, JK_BANDWIDTH, JK_SPREADINGFACTOR, JK_BPS, JK_M, JK_N, JK_FREQUENCY, JK_MINDR,
     JK_MAXDR, JK_ENABLED, JK_CUSTOM]"

text \<open>The search begins at 1.\<close>

definition getAttrByName :: "string \<Rightarrow> json_key" where
  "getAttrByName s =
    (case find_name (tl ATTR_REGION_BAND_NAMES) (c_string s) of
       None \<Rightarrow> JK_NONE
     | Some i \<Rightarrow> json_keys ! Suc i)"

definition key_number :: "json_key \<Rightarrow> nat" where
  "key_number k = (case find_index ((=) k) json_keys of None \<Rightarrow> 0 | Some i \<Rightarrow> i)"

definition ERR_REGION_BAND_EMPTY :: string where
  "ERR_REGION_BAND_EMPTY = ''RegionBands array element disappeared''"

section \<open>The handler\<close>

record region_handler =
  rh_storage :: RegionBands
  rh_errDescription :: string
  rh_keyIndex :: json_key
  rh_state :: json_state
  rh_prevState :: json_state
  rh_bandCount :: nat
  rh_dataRateCount :: nat
  rh_sizeCount :: nat
  rh_sizeRepeaterCount :: nat
  rh_rx1Count :: nat
  rh_txCount :: nat
  rh_uplinkCount :: nat
  rh_downlinkCount :: nat

definition handler_new :: "RegionBands \<Rightarrow> string \<Rightarrow> region_handler" where
  "handler_new r err =
    \<lparr>rh_storage = r, rh_errDescription = err, rh_keyIndex = JK_NONE, rh_state = JRB_NONE,
     rh_prevState = JRB_NONE, rh_bandCount = 0, rh_dataRateCount = 0, rh_sizeCount = 0,
     rh_sizeRepeaterCount = 0, rh_rx1Count = 0, rh_txCount = 0, rh_uplinkCount = 0, rh_downlinkCount = 0\<rparr>"

definition applyErrorDescription :: "string \<Rightarrow> region_handler \<Rightarrow> region_handler" where
  "applyErrorDescription reason s =
    s\<lparr>rh_errDescription :=
      ''reason: '' @ reason @ '', key: '' @ ATTR_REGION_BAND_NAMES ! key_number (rh_keyIndex s) @
      ''('' @ show_nat (key_number (rh_keyIndex s)) @ ''), state: '' @ state_name (rh_state s)\<rparr>"

type_synonym handled = "(bool \<times> region_handler) option"

definition refuse :: "string \<Rightarrow> region_handler \<Rightarrow> handled" where
  "refuse reason s = Some (False, applyErrorDescription reason s)"

definition no_bands :: "region_handler \<Rightarrow> bool" where
  "no_bands s \<longleftrightarrow> rb_bands (rh_storage s) = []"

definition last_band :: "region_handler \<Rightarrow> CHANNEL_PLAN" where
  "last_band s = last (rb_bands (rh_storage s))"

definition set_last_band :: "CHANNEL_PLAN \<Rightarrow> region_handler \<Rightarrow> region_handler" where
  "set_last_band p s = s\<lparr>rh_storage := (rh_storage s)\<lparr>rb_bands := butlast (rb_bands (rh_storage s)) @ [p]\<rparr>\<rparr>"

text \<open>\<open>bands.back()\<close>, with the check for its presence and without.\<close>

definition put_checked :: "(CHANNEL_PLAN \<Rightarrow> CHANNEL_PLAN) \<Rightarrow> region_handler \<Rightarrow> handled" where
  "put_checked f s =
    (if no_bands s then refuse ERR_REGION_BAND_EMPTY s
     else Some (True, set_last_band (f (last_band s)) s))"

definition put_last :: "(CHANNEL_PLAN \<Rightarrow> CHANNEL_PLAN option) \<Rightarrow> region_handler \<Rightarrow> handled" where
  "put_last f s =
    (if no_bands s then None
     else map_option (\<lambda>p. (True, set_last_band p s)) (f (last_band s)))"

text \<open>\<open>xs[count - 1]\<close>.\<close>

definition update_at :: "nat \<Rightarrow> ('a \<Rightarrow> 'a) \<Rightarrow> 'a list \<Rightarrow> 'a list option" where
  "update_at c f xs = (if c = 0 \<or> c > length xs then None else Some (xs[c - 1 := f (xs ! (c - 1))]))"

definition c_int :: "int \<Rightarrow> int" where
  "c_int v = signed_take_bit 31 v"

text \<open>\<open>Integer\<close>, state by state.\<close>

definition integer_tx_power :: "int \<Rightarrow> region_handler \<Rightarrow> handled" where
  "integer_tx_power val s =
    (if no_bands s then Some (False, s)
     else if rh_txCount s \<ge> TX_POWER_OFFSET_MAX_SIZE then refuse ''Too many tx offsets'' s
     else
       let p = last_band s
       in Some (True, (set_last_band (p\<lparr>cp_txPowerOffsets := cp_txPowerOffsets p @ [word_of_int val]\<rparr>) s)
            \<lparr>rh_txCount := rh_txCount s + 1\<rparr>))"

definition integer_defaults :: "int \<Rightarrow> region_handler \<Rightarrow> handled" where
  "integer_defaults val s =
    (let put = (\<lambda>f. put_checked (\<lambda>p. p\<lparr>cp_bandDefaults := f (cp_bandDefaults p)\<rparr>) s) in
     case rh_keyIndex s of
       JK_RX2FREQUENCY \<Rightarrow> put (bd_RX2Frequency_update (\<lambda>_. c_int val))
     | JK_RX2DATARATE \<Rightarrow> put (bd_RX2DataRate_update (\<lambda>_. c_int val))
     | JK_RECEIVEDELAY1 \<Rightarrow> put (bd_ReceiveDelay1_update (\<lambda>_. c_int val))
     | JK_RECEIVEDELAY2 \<Rightarrow> put (bd_ReceiveDelay2_update (\<lambda>_. c_int val))
     | JK_JOINACCEPTDELAY1 \<Rightarrow> put (bd_JoinAcceptDelay1_update (\<lambda>_. c_int val))
     | JK_JOINACCEPTDELAY2 \<Rightarrow> put (bd_JoinAcceptDelay2_update (\<lambda>_. c_int val))
     | _ \<Rightarrow> refuse ERR_REGION_BAND_EMPTY s)"

definition integer_rx1_offset :: "int \<Rightarrow> region_handler \<Rightarrow> handled" where
  "integer_rx1_offset val s =
    (if no_bands s then refuse ERR_REGION_BAND_EMPTY s
     else
       let s' = (if rh_rx1Count s \<ge> DATA_RATE_SIZE
                 then applyErrorDescription ''rx1DataRateOffset more than 8 elements'' s else s)
       in put_last (\<lambda>p. map_option (\<lambda>o'. p\<lparr>cp_rx1DataRateOffsets := o'\<rparr>)
            (update_at (rh_rx1Count s) (\<lambda>v. v @ [word_of_int val]) (cp_rx1DataRateOffsets p))) s')"

definition channel_field :: "json_key \<Rightarrow> int \<Rightarrow> (RADIO_CHANNEL \<Rightarrow> RADIO_CHANNEL) option" where
  "channel_field k val =
    (case k of
       JK_FREQUENCY \<Rightarrow> Some (ch_frequency_update (\<lambda>_. c_int val))
     | JK_MINDR \<Rightarrow> Some (ch_minDR_update (\<lambda>_. c_int val))
     | JK_MAXDR \<Rightarrow> Some (ch_maxDR_update (\<lambda>_. c_int val))
     | _ \<Rightarrow> None)"

definition update_last :: "('a \<Rightarrow> 'a) \<Rightarrow> 'a list \<Rightarrow> 'a list" where
  "update_last f xs = butlast xs @ [f (last xs)]"

definition integer_channel :: "int \<Rightarrow> region_handler \<Rightarrow> handled" where
  "integer_channel val s =
    (if no_bands s then refuse ERR_REGION_BAND_EMPTY s
     else
       let p = last_band s; f = channel_field (rh_keyIndex s) val
       in if rh_prevState s = JRB_BAND_UPLINKS then
            (if cp_uplinkChannels p = [] then refuse ERR_REGION_BAND_EMPTY s
             else case f of
                 None \<Rightarrow> refuse ERR_REGION_BAND_EMPTY s
               | Some f \<Rightarrow> put_checked (cp_uplinkChannels_update (update_last f)) s)
          else if rh_prevState s = JRB_BAND_DOWNLINKS then
            (if cp_downlinkChannels p = [] then refuse ERR_REGION_BAND_EMPTY s
             else case f of
                 None \<Rightarrow> refuse ERR_REGION_BAND_EMPTY s
               | Some f \<Rightarrow> put_checked (cp_downlinkChannels_update (update_last f)) s)
          else refuse ERR_REGION_BAND_EMPTY s)"

definition size_field :: "json_key \<Rightarrow> int \<Rightarrow> (MAX_PAYLOAD_SIZE \<Rightarrow> MAX_PAYLOAD_SIZE) option" where
  "size_field k val =
    (case k of
       JK_M \<Rightarrow> Some (mp_m_update (\<lambda>_. word_of_int val))
     | JK_N \<Rightarrow> Some (mp_n_update (\<lambda>_. word_of_int val))
     | _ \<Rightarrow> None)"

definition integer_size :: "int \<Rightarrow> region_handler \<Rightarrow> handled" where
  "integer_size val s =
    (if no_bands s then refuse ERR_REGION_BAND_EMPTY s
     else
       let s' = (if rh_sizeCount s \<ge> DATA_RATE_SIZE
                 then applyErrorDescription ''UInt maxPayloadSizePerDataRate more than 8 elements'' s else s)
       in case size_field (rh_keyIndex s) val of
            None \<Rightarrow> refuse ''Unexpected number in the maxPayloadSizePerDataRate'' s'
          | Some f \<Rightarrow> put_last (\<lambda>p. map_option (\<lambda>m. p\<lparr>cp_maxPayloadSizePerDataRate := m\<rparr>)
              (update_at (rh_sizeCount s) f (cp_maxPayloadSizePerDataRate p))) s')"

definition integer_size_repeater :: "int \<Rightarrow> region_handler \<Rightarrow> handled" where
  "integer_size_repeater val s =
    (if no_bands s then refuse ERR_REGION_BAND_EMPTY s
     else
       let s' = (if rh_sizeRepeaterCount s \<ge> DATA_RATE_SIZE
                 then applyErrorDescription ''maxPayloadSizePerDataRateRepeater has more than 8 elements'' s
                 else s)
       in case size_field (rh_keyIndex s) val of
            None \<Rightarrow> refuse ERR_REGION_BAND_EMPTY s'
          | Some f \<Rightarrow> put_last (\<lambda>p. map_option (\<lambda>m. p\<lparr>cp_maxPayloadSizePerDataRateRepeater := m\<rparr>)
              (update_at (rh_sizeRepeaterCount s) f (cp_maxPayloadSizePerDataRateRepeater p))) s')"

text \<open>A field of the data rate that is read; beyond the eighth it is left out with a warning.\<close>

definition put_rate :: "string \<Rightarrow> (DATA_RATE \<Rightarrow> DATA_RATE) \<Rightarrow> region_handler \<Rightarrow> handled" where
  "put_rate warning f s =
    (if no_bands s then refuse ERR_REGION_BAND_EMPTY s
     else if rh_dataRateCount s > DATA_RATE_SIZE then Some (True, applyErrorDescription warning s)
     else put_last (\<lambda>p. map_option (\<lambda>r. p\<lparr>cp_dataRates := r\<rparr>)
            (update_at (rh_dataRateCount s) f (cp_dataRates p))) s)"

definition integer_rate :: "int \<Rightarrow> region_handler \<Rightarrow> handled" where
  "integer_rate val s =
    (case rh_keyIndex s of
       JK_BANDWIDTH \<Rightarrow> put_rate ''dataRates array size bigger than 8 elements''
         (dr_bandwidth_update (\<lambda>_. int2BANDWIDTH (c_int val))) s
     | JK_SPREADINGFACTOR \<Rightarrow> put_rate ''SF dataRates array size bigger than 8 elements''
         (dr_spreadingFactor_update (\<lambda>_. word_of_int val)) s
     | JK_BPS \<Rightarrow> put_rate ''BPS dataRates array size bigger than 8 elements''
         (dr_bps_update (\<lambda>_. word_of_int val)) s
     | _ \<Rightarrow> refuse ''Unexpected integer'' s)"

definition integer_band :: "int \<Rightarrow> region_handler \<Rightarrow> handled" where
  "integer_band val s =
    (case rh_keyIndex s of
       JK_DEFAULTDOWNLINKTXPOWER \<Rightarrow> put_checked (cp_defaultDownlinkTXPower_update (\<lambda>_. c_int val)) s
     | JK_PINGSLOTFREQUENCY \<Rightarrow> put_checked (cp_pingSlotFrequency_update (\<lambda>_. c_int val)) s
     | JK_MAXUPLINKEIRP \<Rightarrow> put_checked (cp_maxUplinkEIRP_update (\<lambda>_. int_float val)) s
     | JK_ID \<Rightarrow> put_checked (cp_id_update (\<lambda>_. word_of_int val)) s
     | JK_SUBREGION \<Rightarrow> put_checked (cp_subRegion_update (\<lambda>_. word_of_int val)) s
     | _ \<Rightarrow> refuse ''Unexpected integer value'' s)"

definition on_integer :: "int \<Rightarrow> region_handler \<Rightarrow> handled" where
  "on_integer val s =
    (case rh_state s of
       JRB_BAND_TX_POWER_OFS \<Rightarrow> integer_tx_power val s
     | JRB_BAND_DEFAULTS \<Rightarrow> integer_defaults val s
     | JRB_BAND_RX1_DR_OFFSET \<Rightarrow> integer_rx1_offset val s
     | JRB_BAND_CHANNEL \<Rightarrow> integer_channel val s
     | JRB_BAND_P_SIZE \<Rightarrow> integer_size val s
     | JRB_BAND_PRPT_SIZE \<Rightarrow> integer_size_repeater val s
     | JRB_BAND_DATA_RATE \<Rightarrow> integer_rate val s
     | JRB_BAND \<Rightarrow> integer_band val s
     | _ \<Rightarrow> refuse ''Unexpected integer value'' s)"

text \<open>Whichever list the channel is in, its flags go to the last uplink channel.\<close>

definition boolean_channel :: "bool \<Rightarrow> region_handler \<Rightarrow> handled" where
  "boolean_channel b s =
    (if rh_state s \<noteq> JRB_BAND_CHANNEL \<or> no_bands s then refuse ERR_REGION_BAND_EMPTY s
     else if rh_prevState s = JRB_BAND_UPLINKS \<and> cp_uplinkChannels (last_band s) = [] then
       refuse ''uplinkChannels array element disappeared '' s
     else if rh_prevState s = JRB_BAND_DOWNLINKS \<and> cp_downlinkChannels (last_band s) = [] then
       refuse ''downlinkChannels array element disappeared'' s
     else
       let f = (if rh_keyIndex s = JK_ENABLED then ch_enabled_update (\<lambda>_. b) else ch_custom_update (\<lambda>_. b))
       in put_last (\<lambda>p. if cp_uplinkChannels p = [] then None
            else Some (cp_uplinkChannels_update (update_last f) p)) s)"

definition on_boolean :: "bool \<Rightarrow> region_handler \<Rightarrow> handled" where
  "on_boolean b s =
    (case rh_keyIndex s of
       JK_SUPPORTSEXTRACHANNELS \<Rightarrow> put_checked (cp_supportsExtraChannels_update (\<lambda>_. b)) s
     | JK_IMPLEMENTSTXPARAMSETUP \<Rightarrow> put_checked (cp_implementsTXParamSetup_update (\<lambda>_. b)) s
     | JK_DEFAULT_REGION \<Rightarrow> put_checked (cp_defaultRegion_update (\<lambda>_. b)) s
     | JK_UPLINK \<Rightarrow>
         if rh_state s = JRB_BAND_DATA_RATE
         then put_rate ''Downlink dataRates array size bigger than 8 elements'' (dr_uplink_update (\<lambda>_. b)) s
         else refuse ''Unexpected boolean'' s
     | JK_DOWNLINK \<Rightarrow>
         if rh_state s = JRB_BAND_DATA_RATE
         then put_rate ''Downlink dataRates array size bigger than 8 elements'' (dr_downlink_update (\<lambda>_. b)) s
         else refuse ''Unexpected boolean'' s
     | JK_ENABLED \<Rightarrow> boolean_channel b s
     | JK_CUSTOM \<Rightarrow> boolean_channel b s
     | _ \<Rightarrow> refuse ''Unexpected boolean value'' s)"

definition on_float :: "u64 \<Rightarrow> region_handler \<Rightarrow> handled" where
  "on_float d s =
    (if rh_state s = JRB_BAND then
       (if rh_keyIndex s = JK_MAXUPLINKEIRP then put_checked (cp_maxUplinkEIRP_update (\<lambda>_. dbl_float d)) s
        else Some (False, s))
     else if rh_state s = JRB_BAND_DATA_RATE \<and> rh_keyIndex s = JK_BANDWIDTH then
       put_rate ''BW dataRates array size bigger than 8 elements''
         (dr_bandwidth_update (\<lambda>_. double2BANDWIDTH d)) s
     else refuse ''Unexpected float number'' s)"

definition on_string :: "string \<Rightarrow> region_handler \<Rightarrow> handled" where
  "on_string str s =
    (case rh_keyIndex s of
       JK_REGIONALPARAMETERSVERSION \<Rightarrow>
         if rh_state s = JRB_ROOT
         then Some (True, s\<lparr>rh_storage := (rh_storage s)\<lparr>rb_version := string2REGIONAL_PARAMETERS_VERSION str\<rparr>\<rparr>)
         else refuse ''String JK_REGIONALPARAMETERSVERSION'' s
     | JK_NAME \<Rightarrow>
         if rh_state s = JRB_BAND then put_checked (cp_name_update (\<lambda>_. str)) s
         else refuse ''String JK_NAME'' s
     | JK_CN \<Rightarrow>
         if rh_state s = JRB_BAND then put_checked (cp_cn_update (\<lambda>_. str)) s
         else refuse ''String JK_CN'' s
     | JK_MODULATION \<Rightarrow>
         if rh_state s = JRB_BAND_DATA_RATE
         then put_rate ''Modulation dataRates array size bigger than 8 elements''
             (dr_modulation_update (\<lambda>_. string2MODULATION str)) s
         else refuse ''Unexpected boolean'' s
     | _ \<Rightarrow> Some (False, s))"

text \<open>The counters of a band are cleared where its defaults begin.\<close>

definition on_start_object :: "region_handler \<Rightarrow> handled" where
  "on_start_object s =
    (case rh_state s of
       JRB_NONE \<Rightarrow> Some (True, s\<lparr>rh_state := JRB_ROOT\<rparr>)
     | JRB_BANDS \<Rightarrow> Some (True,
         s\<lparr>rh_state := JRB_BAND, rh_bandCount := rh_bandCount s + 1,
           rh_storage := (rh_storage s)\<lparr>rb_bands := rb_bands (rh_storage s) @ [ChannelPlan_default]\<rparr>\<rparr>)
     | JRB_BAND \<Rightarrow>
         let s' = s\<lparr>rh_dataRateCount := 0, rh_sizeCount := 0, rh_sizeRepeaterCount := 0, rh_rx1Count := 0,
           rh_txCount := 0, rh_uplinkCount := 0, rh_downlinkCount := 0\<rparr>
         in if rh_keyIndex s = JK_BANDDEFAULTS then Some (True, s'\<lparr>rh_state := JRB_BAND_DEFAULTS\<rparr>)
            else refuse ''Object JRB_BAND JK_BANDDEFAULTS'' s'
     | JRB_BAND_DATA_RATES \<Rightarrow>
         put_last (\<lambda>p. Some (p\<lparr>cp_dataRates := cp_dataRates p @ [DataRate_default]\<rparr>))
           (s\<lparr>rh_state := JRB_BAND_DATA_RATE, rh_dataRateCount := rh_dataRateCount s + 1\<rparr>)
     | JRB_BAND_P_SIZES \<Rightarrow>
         put_last (\<lambda>p. Some (p\<lparr>cp_maxPayloadSizePerDataRate :=
             cp_maxPayloadSizePerDataRate p @ [MaxPayloadSize_default]\<rparr>))
           (s\<lparr>rh_state := JRB_BAND_P_SIZE, rh_sizeCount := rh_sizeCount s + 1\<rparr>)
     | JRB_BAND_PRPT_SIZES \<Rightarrow>
         put_last (\<lambda>p. Some (p\<lparr>cp_maxPayloadSizePerDataRateRepeater :=
             cp_maxPayloadSizePerDataRateRepeater p @ [MaxPayloadSize_default]\<rparr>))
           (s\<lparr>rh_state := JRB_BAND_PRPT_SIZE, rh_sizeRepeaterCount := rh_sizeRepeaterCount s + 1\<rparr>)
     | JRB_BAND_UPLINKS \<Rightarrow>
         let s' = s\<lparr>rh_state := JRB_BAND_CHANNEL\<rparr> in
         if no_bands s then refuse ''Object JRB_BAND_UPLINKS'' s'
         else put_last (\<lambda>p. Some (p\<lparr>cp_uplinkChannels := cp_uplinkChannels p @ [Channel_default]\<rparr>))
           (s'\<lparr>rh_uplinkCount := rh_uplinkCount s + 1\<rparr>)
     | JRB_BAND_DOWNLINKS \<Rightarrow>
         let s' = s\<lparr>rh_state := JRB_BAND_CHANNEL\<rparr> in
         if no_bands s then refuse ''Object JRB_BAND_DOWNLINKS'' s'
         else put_last (\<lambda>p. Some (p\<lparr>cp_downlinkChannels := cp_downlinkChannels p @ [Channel_default]\<rparr>))
           (s'\<lparr>rh_downlinkCount := rh_downlinkCount s + 1\<rparr>)
     | _ \<Rightarrow> refuse ''Unexpected object'' s)"

definition on_key :: "string \<Rightarrow> region_handler \<Rightarrow> handled" where
  "on_key str s =
    (let s' = s\<lparr>rh_keyIndex := getAttrByName str\<rparr>
     in if rh_keyIndex s' = JK_NONE
        then refuse (''Regional settings unknown attribute '' @ str) s'
        else Some (True, s'))"

definition on_end_object :: "region_handler \<Rightarrow> handled" where
  "on_end_object s =
    (let to = (\<lambda>t. Some (True, s\<lparr>rh_state := t\<rparr>)) in
     case rh_state s of
       JRB_BAND \<Rightarrow> to JRB_BANDS
     | JRB_ROOT \<Rightarrow> to JRB_NONE
     | JRB_BAND_DEFAULTS \<Rightarrow> to JRB_BAND
     | JRB_BAND_DATA_RATE \<Rightarrow> to JRB_BAND_DATA_RATES
     | JRB_BAND_P_SIZE \<Rightarrow> to JRB_BAND_P_SIZES
     | JRB_BAND_PRPT_SIZE \<Rightarrow> to JRB_BAND_PRPT_SIZES
     | JRB_BAND_CHANNEL \<Rightarrow> to (rh_prevState s)
     | _ \<Rightarrow> refuse ''Unexpected end of object'' s)"

definition on_start_array :: "region_handler \<Rightarrow> handled" where
  "on_start_array s =
    (let to = (\<lambda>t. Some (True, s\<lparr>rh_state := t\<rparr>)) in
     case rh_state s of
       JRB_ROOT \<Rightarrow>
         if rh_keyIndex s = JK_REGIONBANDS then Some (True, s\<lparr>rh_state := JRB_BANDS, rh_bandCount := 0\<rparr>)
         else refuse ''Unexpected array'' s
     | JRB_BAND \<Rightarrow>
         (case rh_keyIndex s of
            JK_DATA_RATES \<Rightarrow> to JRB_BAND_DATA_RATES
          | JK_MAXPAYLOADSIZEPERDATARATE \<Rightarrow> to JRB_BAND_P_SIZES
          | JK_MAXPAYLOADSIZEPERDATARATEREPEATOR \<Rightarrow> to JRB_BAND_PRPT_SIZES
          | JK_RX1DATARATEOFFSETS \<Rightarrow> to JRB_BAND_RX1_DR_OFFSETS
          | JK_TXPOWEROFFSETS \<Rightarrow> to JRB_BAND_TX_POWER_OFS
          | JK_UPLINKCHANNELS \<Rightarrow>
              Some (True, s\<lparr>rh_prevState := JRB_BAND_UPLINKS, rh_state := JRB_BAND_UPLINKS\<rparr>)
          | JK_DOWNLINKCHANNELS \<Rightarrow>
              Some (True, s\<lparr>rh_prevState := JRB_BAND_DOWNLINKS, rh_state := JRB_BAND_DOWNLINKS\<rparr>)
          | _ \<Rightarrow> refuse ''Unexpected array in the band'' s)
     | JRB_BAND_RX1_DR_OFFSETS \<Rightarrow>
         put_last (\<lambda>p. Some (p\<lparr>cp_rx1DataRateOffsets := cp_rx1DataRateOffsets p @ [[]]\<rparr>))
           (s\<lparr>rh_state := JRB_BAND_RX1_DR_OFFSET, rh_rx1Count := rh_rx1Count s + 1\<rparr>)
     | JRB_BAND_RX1_DR_OFFSET \<Rightarrow>
         put_last (\<lambda>p. if cp_rx1DataRateOffsets p = [] then None
             else Some (p\<lparr>cp_rx1DataRateOffsets := update_last (\<lambda>v. v @ [0]) (cp_rx1DataRateOffsets p)\<rparr>)) s
     | _ \<Rightarrow> refuse ''Unexpected array'' s)"

definition on_end_array :: "region_handler \<Rightarrow> handled" where
  "on_end_array s =
    (let to = (\<lambda>t. Some (True, s\<lparr>rh_state := t\<rparr>)) in
     case rh_state s of
       JRB_ROOT \<Rightarrow> Some (True, s)
     | JRB_BAND \<Rightarrow> to JRB_BANDS
     | JRB_BANDS \<Rightarrow> to JRB_ROOT
     | JRB_BAND_DATA_RATES \<Rightarrow> to JRB_BAND
     | JRB_BAND_P_SIZES \<Rightarrow> to JRB_BAND
     | JRB_BAND_PRPT_SIZES \<Rightarrow> to JRB_BAND
     | JRB_BAND_RX1_DR_OFFSETS \<Rightarrow> to JRB_BAND
     | JRB_BAND_TX_POWER_OFS \<Rightarrow> to JRB_BAND
     | JRB_BAND_UPLINKS \<Rightarrow> to JRB_BAND
     | JRB_BAND_DOWNLINKS \<Rightarrow> to JRB_BAND
     | JRB_BAND_RX1_DR_OFFSET \<Rightarrow> to JRB_BAND_RX1_DR_OFFSETS
     | _ \<Rightarrow> refuse ''Unexpected end of array'' s)"

text \<open>The position and the text of a parse error are the library's.\<close>

fun handle :: "(int \<Rightarrow> string) \<Rightarrow> sax_event \<Rightarrow> region_handler \<Rightarrow> handled" where
  "handle what Null s = Some (True, s)"
| "handle what (Boolean b) s = on_boolean b s"
| "handle what (Number_integer v) s = on_integer v s"
| "handle what (Number_unsigned v) s = on_integer (signed_take_bit 63 (int v)) s"
| "handle what (Number_float d) s = on_float d s"
| "handle what (String_value v) s = on_string v s"
| "handle what Start_object s = on_start_object s"
| "handle what (Key k) s = on_key k s"
| "handle what End_object s = on_end_object s"
| "handle what Start_array s = on_start_array s"
| "handle what End_array s = on_end_array s"
| "handle what (Parse_error e) s = refuse (''Regional settings file parse error '' @ what e) s"

section \<open>The plans of a file\<close>

text \<open>Pointers to plans are their positions.\<close>

record plans_file =
  pf_storage :: RegionBands
  pf_nameIndex :: "string \<rightharpoonup> nat"
  pf_idIndex :: "int \<rightharpoonup> nat"
  pf_default :: "nat option"
  pf_errCode :: int
  pf_errDescription :: string

definition plans_file_new :: plans_file where
  "plans_file_new =
    \<lparr>pf_storage = RegionBands_default, pf_nameIndex = Map.empty, pf_idIndex = Map.empty,
     pf_default = None, pf_errCode = 0, pf_errDescription = []\<rparr>"

text \<open>The identifiers stay.\<close>

definition plans_clear :: "plans_file \<Rightarrow> plans_file" where
  "plans_clear f =
    f\<lparr>pf_storage := (pf_storage f)\<lparr>rb_bands := []\<rparr>, pf_nameIndex := Map.empty, pf_default := None\<rparr>"

fun index_bands :: "nat \<Rightarrow> CHANNEL_PLAN list \<Rightarrow> plans_file \<Rightarrow> plans_file" where
  "index_bands i [] f = f"
| "index_bands i (p # ps) f =
    index_bands (i + 1) ps
      (f\<lparr>pf_nameIndex := (pf_nameIndex f)(cp_name p \<mapsto> i), pf_idIndex := (pf_idIndex f)(uint (cp_id p) \<mapsto> i),
         pf_default := (if cp_defaultRegion p then Some i else pf_default f)\<rparr>)"

definition buildIndex :: "plans_file \<Rightarrow> code \<times> plans_file" where
  "buildIndex f =
    (let bands = rb_bands (pf_storage f);
         f1 = index_bands 0 bands (f\<lparr>pf_nameIndex := Map.empty, pf_idIndex := Map.empty, pf_default := None\<rparr>);
         f2 = (if pf_default f1 = None \<and> bands \<noteq> [] then f1\<lparr>pf_default := Some 0\<rparr> else f1)
     in (if bands = [] then ERR_CODE_INIT_REGION_NO_DEFAULT else CODE_OK, f2))"

definition file_get_name :: "string \<Rightarrow> plans_file \<Rightarrow> nat option" where
  "file_get_name nm f = (case pf_nameIndex f nm of None \<Rightarrow> pf_default f | Some i \<Rightarrow> Some i)"

definition file_get_id :: "int \<Rightarrow> plans_file \<Rightarrow> nat option" where
  "file_get_id i f = (case pf_idIndex f i of None \<Rightarrow> pf_default f | Some k \<Rightarrow> Some k)"

text \<open>The events of the document in the file; \<open>flush\<close> and \<open>done\<close> leave the plans as they are.\<close>

definition loadFile :: "(int \<Rightarrow> string) \<Rightarrow> sax_event list \<Rightarrow> plans_file \<Rightarrow> (code \<times> plans_file) option" where
  "loadFile what events f =
    map_option (\<lambda>(ok, h).
        (if ok then CODE_OK else ERR_CODE_INVALID_JSON,
         f\<lparr>pf_storage := rh_storage h, pf_errDescription := rh_errDescription h\<rparr>))
      (sax_run (handle what) events (handler_new (pf_storage f) (pf_errDescription f)))"

definition load_plans :: "(int \<Rightarrow> string) \<Rightarrow> sax_event list \<Rightarrow> plans_file \<Rightarrow> (code \<times> plans_file) option" where
  "load_plans what events f =
    (case loadFile what events (plans_clear f) of
       None \<Rightarrow> None
     | Some (r, f') \<Rightarrow> Some (if r = CODE_OK then buildIndex f' else (r, f')))"

section \<open>Documents\<close>

text \<open>
  The events of a document in the order in which \<open>toString\<close> writes the members; the parser
  gives a number without sign as an unsigned one.  The greatest power is a double, the bandwidth of a rate is its number.
\<close>

definition number :: "int \<Rightarrow> sax_event" where
  "number v = (if v < 0 then Number_integer v else Number_unsigned (nat v))"

definition number_events :: "(string \<times> int) list \<Rightarrow> sax_event list" where
  "number_events kvs = concat (map (\<lambda>(k, v). [Key k, number v]) kvs)"

definition boolean_events :: "string \<Rightarrow> bool \<Rightarrow> sax_event list" where
  "boolean_events k b = [Key k, Boolean b]"

definition string_events :: "string \<Rightarrow> string \<Rightarrow> sax_event list" where
  "string_events k v = [Key k, String_value v]"

definition object_events :: "sax_event list \<Rightarrow> sax_event list" where
  "object_events es = Start_object # es @ [End_object]"

definition array_events :: "string \<Rightarrow> ('a \<Rightarrow> sax_event list) \<Rightarrow> 'a list \<Rightarrow> sax_event list" where
  "array_events k ev xs = Key k # Start_array # concat (map ev xs) @ [End_array]"

definition defaults_events :: "BAND_DEFAULTS \<Rightarrow> sax_event list" where
  "defaults_events v = Key ''bandDefaults'' # object_events (number_events
    [(''RX2Frequency'', bd_RX2Frequency v), (''RX2DataRate'', bd_RX2DataRate v),
     (''ReceiveDelay1'', bd_ReceiveDelay1 v), (''ReceiveDelay2'', bd_ReceiveDelay2 v),
     (''JoinAcceptDelay1'', bd_JoinAcceptDelay1 v), (''JoinAcceptDelay2'', bd_JoinAcceptDelay2 v)])"

definition rate_events :: "DATA_RATE \<Rightarrow> sax_event list" where
  "rate_events r = object_events
    (boolean_events ''uplink'' (dr_uplink r) @ boolean_events ''downlink'' (dr_downlink r) @
     string_events ''modulation'' (MODULATION2String (dr_modulation r)) @
     number_events
      [(''bandwidth'', uint (dr_bandwidth r)), (''spreadingFactor'', uint (dr_spreadingFactor r)),
       (''bps'', uint (dr_bps r))])"

definition channel_events :: "RADIO_CHANNEL \<Rightarrow> sax_event list" where
  "channel_events c = object_events
    (number_events [(''frequency'', ch_frequency c), (''minDR'', ch_minDR c), (''maxDR'', ch_maxDR c)] @
     boolean_events ''enabled'' (ch_enabled c) @ boolean_events ''custom'' (ch_custom c))"

definition size_events :: "MAX_PAYLOAD_SIZE \<Rightarrow> sax_event list" where
  "size_events m = object_events (number_events [(''m'', uint (mp_m m)), (''n'', uint (mp_n m))])"

definition rx1_events :: "u8 list \<Rightarrow> sax_event list" where
  "rx1_events vs = Start_array # map (\<lambda>v. number (uint v)) vs @ [End_array]"

text \<open>The power in a document is a whole number or a float.\<close>

datatype eirp = Whole int | Real u64

fun eirp_event :: "eirp \<Rightarrow> sax_event" where
  "eirp_event (Whole v) = number v"
| "eirp_event (Real d) = Number_float d"

definition plan_events :: "eirp \<Rightarrow> CHANNEL_PLAN \<Rightarrow> sax_event list" where
  "plan_events eirp p = object_events
    (number_events [(''id'', uint (cp_id p)), (''subRegion'', uint (cp_subRegion p))] @
     string_events ''name'' (cp_name p) @ string_events ''cn'' (cp_cn p) @
     boolean_events ''implementsTXParamSetup'' (cp_implementsTXParamSetup p) @
     [Key ''maxUplinkEIRP'', eirp_event eirp] @
     number_events [(''pingSlotFrequency'', cp_pingSlotFrequency p),
       (''defaultDownlinkTXPower'', cp_defaultDownlinkTXPower p)] @
     boolean_events ''supportsExtraChannels'' (cp_supportsExtraChannels p) @
     boolean_events ''defaultRegion'' (cp_defaultRegion p) @
     defaults_events (cp_bandDefaults p) @
     array_events ''dataRates'' rate_events (cp_dataRates p) @
     array_events ''uplinkChannels'' channel_events (cp_uplinkChannels p) @
     array_events ''downlinkChannels'' channel_events (cp_downlinkChannels p) @
     array_events ''maxPayloadSizePerDataRate'' size_events (cp_maxPayloadSizePerDataRate p) @
     array_events ''maxPayloadSizePerDataRateRepeater'' size_events (cp_maxPayloadSizePerDataRateRepeater p) @
     array_events ''rx1DataRateOffsets'' rx1_events (cp_rx1DataRateOffsets p) @
     array_events ''txPowerOffsets'' (\<lambda>v. [number (sint v)]) (cp_txPowerOffsets p))"

definition document_events :: "string \<Rightarrow> (eirp \<times> CHANNEL_PLAN) list \<Rightarrow> sax_event list" where
  "document_events ver ps = object_events
    (string_events ''regionalParametersVersion'' ver @
     array_events ''RegionBands'' (\<lambda>(eirp, p). plan_events eirp p) ps)"

text \<open>What is stored for such a document.\<close>

definition stored_rate :: "DATA_RATE \<Rightarrow> DATA_RATE" where
  "stored_rate r = r\<lparr>dr_bandwidth := int2BANDWIDTH (uint (dr_bandwidth r))\<rparr>"

text \<open>From the ninth data rate on only an empty one is stored.\<close>

definition stored_rates :: "DATA_RATE list \<Rightarrow> DATA_RATE list" where
  "stored_rates rs = map stored_rate (take DATA_RATE_SIZE rs) @ replicate (length rs - DATA_RATE_SIZE) DataRate_default"

fun stored_eirp :: "eirp \<Rightarrow> u32" where
  "stored_eirp (Whole v) = int_float v"
| "stored_eirp (Real d) = dbl_float d"

definition put_flags :: "RADIO_CHANNEL \<Rightarrow> RADIO_CHANNEL \<Rightarrow> RADIO_CHANNEL" where
  "put_flags from c = c\<lparr>ch_enabled := ch_enabled from, ch_custom := ch_custom from\<rparr>"

definition stored_uplinks :: "RADIO_CHANNEL list \<Rightarrow> RADIO_CHANNEL list \<Rightarrow> RADIO_CHANNEL list" where
  "stored_uplinks ups downs = (if downs = [] then ups else update_last (put_flags (last downs)) ups)"

definition stored_plan :: "eirp \<Rightarrow> CHANNEL_PLAN \<Rightarrow> CHANNEL_PLAN" where
  "stored_plan eirp p = p
    \<lparr>cp_maxUplinkEIRP := stored_eirp eirp,
     cp_dataRates := stored_rates (cp_dataRates p),
     cp_uplinkChannels := stored_uplinks (cp_uplinkChannels p) (cp_downlinkChannels p),
     cp_downlinkChannels := map (put_flags Channel_default) (cp_downlinkChannels p)\<rparr>"

definition int_ok :: "int \<Rightarrow> bool" where
  "int_ok v \<longleftrightarrow> - (2 ^ 31) \<le> v \<and> v < 2 ^ 31"

definition defaults_ok :: "BAND_DEFAULTS \<Rightarrow> bool" where
  "defaults_ok v \<longleftrightarrow>
    int_ok (bd_RX2Frequency v) \<and> int_ok (bd_RX2DataRate v) \<and> int_ok (bd_ReceiveDelay1 v) \<and>
    int_ok (bd_ReceiveDelay2 v) \<and> int_ok (bd_JoinAcceptDelay1 v) \<and> int_ok (bd_JoinAcceptDelay2 v)"

definition channel_ok :: "RADIO_CHANNEL \<Rightarrow> bool" where
  "channel_ok c \<longleftrightarrow> int_ok (ch_frequency c) \<and> int_ok (ch_minDR c) \<and> int_ok (ch_maxDR c)"

definition rate_ok :: "DATA_RATE \<Rightarrow> bool" where
  "rate_ok r \<longleftrightarrow> string2MODULATION (MODULATION2String (dr_modulation r)) = dr_modulation r \<and>
    int_ok (uint (dr_bandwidth r))"

fun eirp_ok :: "eirp \<Rightarrow> bool" where
  "eirp_ok (Whole v) = int_ok v"
| "eirp_ok (Real d) = True"

text \<open>Numbers fit an \<open>int\<close>, modulations are known ones, there are at most 16 power offsets, and a
  band with downlink channels has uplink channels.\<close>

definition plan_ok :: "CHANNEL_PLAN \<Rightarrow> bool" where
  "plan_ok p \<longleftrightarrow>
    int_ok (cp_pingSlotFrequency p) \<and> int_ok (cp_defaultDownlinkTXPower p) \<and>
    defaults_ok (cp_bandDefaults p) \<and>
    list_all rate_ok (cp_dataRates p) \<and>
    length (cp_txPowerOffsets p) \<le> TX_POWER_OFFSET_MAX_SIZE \<and>
    list_all channel_ok (cp_uplinkChannels p) \<and> list_all channel_ok (cp_downlinkChannels p) \<and>
    (cp_uplinkChannels p = [] \<longrightarrow> cp_downlinkChannels p = [])"

section \<open>Runs of the handler\<close>

abbreviation runs :: "(int \<Rightarrow> string) \<Rightarrow> sax_event list \<Rightarrow> region_handler \<Rightarrow> (region_handler \<Rightarrow> bool) \<Rightarrow> bool" where
  "runs what \<equiv> sax_runs (handle what)"

lemma runs_array:
  assumes "runs what [Key k, Start_array] s (I [])"
    and "\<And>ys x zs s. xs = ys @ x # zs \<Longrightarrow> I ys s \<Longrightarrow> runs what (ev x) s (I (ys @ [x]))"
    and "\<And>s'. I xs s' \<Longrightarrow> runs what [End_array] s' Q"
  shows "runs what (array_events k ev xs) s Q"
proof -
  have "runs what ([Key k, Start_array] @ concat (map ev xs) @ [End_array]) s Q"
    by (rule runs_seq [OF assms(1)], rule runs_seq [OF runs_concat [of xs I, OF assms(2)] assms(3)])
  then show ?thesis by (simp add: array_events_def)
qed

lemma key_simps [simp]:
  "getAttrByName ''regionalParametersVersion'' = JK_REGIONALPARAMETERSVERSION"
  "getAttrByName ''RegionBands'' = JK_REGIONBANDS"
  "getAttrByName ''id'' = JK_ID"
  "getAttrByName ''subRegion'' = JK_SUBREGION"
  "getAttrByName ''name'' = JK_NAME"
  "getAttrByName ''cn'' = JK_CN"
  "getAttrByName ''maxUplinkEIRP'' = JK_MAXUPLINKEIRP"
  "getAttrByName ''defaultDownlinkTXPower'' = JK_DEFAULTDOWNLINKTXPOWER"
  "getAttrByName ''pingSlotFrequency'' = JK_PINGSLOTFREQUENCY"
  "getAttrByName ''implementsTXParamSetup'' = JK_IMPLEMENTSTXPARAMSETUP"
  "getAttrByName ''supportsExtraChannels'' = JK_SUPPORTSEXTRACHANNELS"
  "getAttrByName ''defaultRegion'' = JK_DEFAULT_REGION"
  "getAttrByName ''bandDefaults'' = JK_BANDDEFAULTS"
  "getAttrByName ''dataRates'' = JK_DATA_RATES"
  "getAttrByName ''uplinkChannels'' = JK_UPLINKCHANNELS"
  "getAttrByName ''downlinkChannels'' = JK_DOWNLINKCHANNELS"
  "getAttrByName ''maxPayloadSizePerDataRate'' = JK_MAXPAYLOADSIZEPERDATARATE"
  "getAttrByName ''maxPayloadSizePerDataRateRepeater'' = JK_MAXPAYLOADSIZEPERDATARATEREPEATOR"
  "getAttrByName ''rx1DataRateOffsets'' = JK_RX1DATARATEOFFSETS"
  "getAttrByName ''txPowerOffsets'' = JK_TXPOWEROFFSETS"
  "getAttrByName ''RX2Frequency'' = JK_RX2FREQUENCY"
  "getAttrByName ''RX2DataRate'' = JK_RX2DATARATE"
  "getAttrByName ''ReceiveDelay1'' = JK_RECEIVEDELAY1"
  "getAttrByName ''ReceiveDelay2'' = JK_RECEIVEDELAY2"
  "getAttrByName ''JoinAcceptDelay1'' = JK_JOINACCEPTDELAY1"
  "getAttrByName ''JoinAcceptDelay2'' = JK_JOINACCEPTDELAY2"
  "getAttrByName ''uplink'' = JK_UPLINK"
  "getAttrByName ''downlink'' = JK_DOWNLINK"
  "getAttrByName ''modulation'' = JK_MODULATION"
  "getAttrByName ''bandwidth'' = JK_BANDWIDTH"
  "getAttrByName ''spreadingFactor'' = JK_SPREADINGFACTOR"
  "getAttrByName ''bps'' = JK_BPS"
  "getAttrByName ''m'' = JK_M"
  "getAttrByName ''n'' = JK_N"
  "getAttrByName ''frequency'' = JK_FREQUENCY"
  "getAttrByName ''minDR'' = JK_MINDR"
  "getAttrByName ''maxDR'' = JK_MAXDR"
  "getAttrByName ''enabled'' = JK_ENABLED"
  "getAttrByName ''custom'' = JK_CUSTOM"
  by code_simp+

text \<open>Where the handler is in a document: in a band that is read as \<open>q\<close>, after \<open>bs\<close>.\<close>

definition at_band :: "json_state \<Rightarrow> CHANNEL_PLAN list \<Rightarrow> CHANNEL_PLAN \<Rightarrow> region_handler \<Rightarrow> bool" where
  "at_band st bs q s \<longleftrightarrow> rh_state s = st \<and> rb_bands (rh_storage s) = bs @ [q]"

text \<open>The counters of the lists that are indexed by them.\<close>

definition counted :: "CHANNEL_PLAN \<Rightarrow> region_handler \<Rightarrow> bool" where
  "counted q s \<longleftrightarrow>
    rh_dataRateCount s = length (cp_dataRates q) \<and>
    rh_sizeCount s = length (cp_maxPayloadSizePerDataRate q) \<and>
    rh_sizeRepeaterCount s = length (cp_maxPayloadSizePerDataRateRepeater q) \<and>
    rh_rx1Count s = length (cp_rx1DataRateOffsets q) \<and>
    rh_txCount s = length (cp_txPowerOffsets q)"

lemmas band_access = no_bands_def last_band_def set_last_band_def

lemma number_handled:
  "- (2 ^ 63) \<le> v \<Longrightarrow> v < 2 ^ 63 \<Longrightarrow> handle what (number v) s = on_integer v s"
  by (simp add: number_def signed_take_bit_int_eq_self)

lemma int_ok_number: "int_ok v \<Longrightarrow> handle what (number v) s = on_integer v s"
  by (rule number_handled) (simp_all add: int_ok_def)

lemma int_ok_c_int: "int_ok v \<Longrightarrow> c_int v = v"
  by (simp add: int_ok_def c_int_def signed_take_bit_int_eq_self)

lemma u8_number: "handle what (number (uint (v :: u8))) s = on_integer (uint v) s"
  using uint_lt2p [of v] by (intro number_handled order_trans [OF _ uint_ge_0]) simp_all

lemma u32_number: "handle what (number (uint (v :: u32))) s = on_integer (uint v) s"
  using uint_lt2p [of v] by (intro number_handled order_trans [OF _ uint_ge_0]) simp_all

lemma i8_number: "handle what (number (sint (v :: u8))) s = on_integer (sint v) s"
  using sint_lt [of v] sint_ge [of v] by (intro number_handled) simp_all

lemmas number_simps = int_ok_number int_ok_c_int u8_number u32_number i8_number

lemma on_key_known: "getAttrByName k \<noteq> JK_NONE \<Longrightarrow> on_key k s = Some (True, s\<lparr>rh_keyIndex := getAttrByName k\<rparr>)"
  by (simp add: on_key_def)

text \<open>A member of the band or of its defaults.\<close>

lemma runs_band_member:
  assumes "at_band JRB_BAND bs q s" "k' = getAttrByName k" "k' \<noteq> JK_NONE"
    and "\<And>s. rh_state s = JRB_BAND \<Longrightarrow> rh_keyIndex s = k' \<Longrightarrow> handle what e s = put_checked f s"
  shows "runs what [Key k, e] s (at_band JRB_BAND bs (f q))"
  using assms by (auto simp: runs_Cons on_key_known at_band_def put_checked_def band_access)

lemma eirp_handled:
  "rh_state s = JRB_BAND \<Longrightarrow> rh_keyIndex s = JK_MAXUPLINKEIRP \<Longrightarrow> eirp_ok e \<Longrightarrow>
    handle what (eirp_event e) s = put_checked (cp_maxUplinkEIRP_update (\<lambda>_. stored_eirp e)) s"
  by (cases e) (simp_all add: int_ok_number on_integer_def integer_band_def on_float_def)

lemma runs_head:
  assumes "at_band JRB_BAND bs q s" "plan_ok p" "eirp_ok eirp"
  shows "runs what
    (number_events [(''id'', uint (cp_id p)), (''subRegion'', uint (cp_subRegion p))] @
     string_events ''name'' (cp_name p) @ string_events ''cn'' (cp_cn p) @
     boolean_events ''implementsTXParamSetup'' (cp_implementsTXParamSetup p) @
     [Key ''maxUplinkEIRP'', eirp_event eirp] @
     number_events [(''pingSlotFrequency'', cp_pingSlotFrequency p),
       (''defaultDownlinkTXPower'', cp_defaultDownlinkTXPower p)] @
     boolean_events ''supportsExtraChannels'' (cp_supportsExtraChannels p) @
     boolean_events ''defaultRegion'' (cp_defaultRegion p)) s
    (at_band JRB_BAND bs
      (q\<lparr>cp_id := cp_id p, cp_subRegion := cp_subRegion p, cp_name := cp_name p, cp_cn := cp_cn p,
         cp_implementsTXParamSetup := cp_implementsTXParamSetup p, cp_maxUplinkEIRP := stored_eirp eirp,
         cp_pingSlotFrequency := cp_pingSlotFrequency p,
         cp_defaultDownlinkTXPower := cp_defaultDownlinkTXPower p,
         cp_supportsExtraChannels := cp_supportsExtraChannels p, cp_defaultRegion := cp_defaultRegion p\<rparr>))"
  using assms
  by (simp add: number_events_def string_events_def boolean_events_def runs_Cons on_key_known at_band_def
      number_simps eirp_handled plan_ok_def on_integer_def integer_band_def on_string_def on_boolean_def
      put_checked_def band_access)

lemma runs_defaults:
  assumes "at_band JRB_BAND bs q s" "defaults_ok v" "cp_dataRates q = []" "cp_maxPayloadSizePerDataRate q = []"
    "cp_maxPayloadSizePerDataRateRepeater q = []" "cp_rx1DataRateOffsets q = []" "cp_txPowerOffsets q = []"
  shows "runs what (defaults_events v) s
    (\<lambda>s'. at_band JRB_BAND bs (q\<lparr>cp_bandDefaults := v\<rparr>) s' \<and> counted (q\<lparr>cp_bandDefaults := v\<rparr>) s')"
  using assms
  by (simp add: defaults_events_def object_events_def number_events_def runs_Cons on_key_known at_band_def
      counted_def number_simps defaults_ok_def on_start_object_def on_end_object_def on_integer_def
      integer_defaults_def put_checked_def band_access Let_def)

text \<open>The members of the lists.\<close>

definition in_list :: "json_state \<Rightarrow> CHANNEL_PLAN list \<Rightarrow> CHANNEL_PLAN \<Rightarrow> region_handler \<Rightarrow> bool" where
  "in_list st bs q s \<longleftrightarrow> at_band st bs q s \<and> counted q s"

lemma runs_rate:
  assumes "in_list JRB_BAND_DATA_RATES bs q s" "rate_ok r" "length (cp_dataRates q) < 8"
  shows "runs what (rate_events r) s
    (in_list JRB_BAND_DATA_RATES bs (q\<lparr>cp_dataRates := cp_dataRates q @ [stored_rate r]\<rparr>))"
  using assms
  by (simp add: rate_events_def object_events_def number_events_def string_events_def boolean_events_def
      runs_Cons on_key_known in_list_def at_band_def counted_def number_simps rate_ok_def on_start_object_def
      on_end_object_def on_integer_def integer_rate_def on_boolean_def on_string_def put_rate_def put_last_def
      update_at_def stored_rate_def band_access Let_def)

lemma runs_rate_beyond:
  assumes "in_list JRB_BAND_DATA_RATES bs q s" "8 \<le> length (cp_dataRates q)"
  shows "runs what (rate_events r) s
    (in_list JRB_BAND_DATA_RATES bs (q\<lparr>cp_dataRates := cp_dataRates q @ [DataRate_default]\<rparr>))"
  using assms
  by (simp add: rate_events_def object_events_def number_events_def string_events_def boolean_events_def
      runs_Cons on_key_known in_list_def at_band_def counted_def number_simps u32_number on_start_object_def
      on_end_object_def on_integer_def integer_rate_def on_boolean_def on_string_def put_rate_def put_last_def
      applyErrorDescription_def band_access Let_def)

lemma stored_rates_snoc:
  "stored_rates (rs @ [r]) = stored_rates rs @ [if length rs < 8 then stored_rate r else DataRate_default]"
proof (cases "length rs < 8")
  case False
  then have "Suc (length rs) - 8 = Suc (length rs - 8)" by simp
  then show ?thesis using False by (simp add: stored_rates_def replicate_append_same [symmetric])
qed (simp add: stored_rates_def)

lemma length_stored_rates [simp]: "length (stored_rates rs) = length rs"
  by (simp add: stored_rates_def)

lemma runs_size:
  assumes "in_list JRB_BAND_P_SIZES bs q s"
  shows "runs what (size_events m) s (in_list JRB_BAND_P_SIZES bs
    (q\<lparr>cp_maxPayloadSizePerDataRate := cp_maxPayloadSizePerDataRate q @ [m]\<rparr>))"
  using assms
  by (simp add: size_events_def object_events_def number_events_def runs_Cons on_key_known in_list_def
      at_band_def counted_def number_simps on_start_object_def on_end_object_def on_integer_def
      integer_size_def size_field_def put_last_def update_at_def band_access Let_def applyErrorDescription_def)

lemma runs_size_repeater:
  assumes "in_list JRB_BAND_PRPT_SIZES bs q s"
  shows "runs what (size_events m) s (in_list JRB_BAND_PRPT_SIZES bs
    (q\<lparr>cp_maxPayloadSizePerDataRateRepeater := cp_maxPayloadSizePerDataRateRepeater q @ [m]\<rparr>))"
  using assms
  by (simp add: size_events_def object_events_def number_events_def runs_Cons on_key_known in_list_def
      at_band_def counted_def number_simps on_start_object_def on_end_object_def on_integer_def
      integer_size_repeater_def size_field_def put_last_def update_at_def band_access Let_def
      applyErrorDescription_def)

lemma runs_tx:
  assumes "in_list JRB_BAND_TX_POWER_OFS bs q s" "length (cp_txPowerOffsets q) < 16"
  shows "runs what [number (sint v)] s (in_list JRB_BAND_TX_POWER_OFS bs
    (q\<lparr>cp_txPowerOffsets := cp_txPowerOffsets q @ [v]\<rparr>))"
  using assms
  by (simp add: runs_Cons in_list_def at_band_def counted_def number_simps on_integer_def
      integer_tx_power_def band_access Let_def)

lemma runs_rx1_value:
  assumes "in_list JRB_BAND_RX1_DR_OFFSET bs (q\<lparr>cp_rx1DataRateOffsets := vs @ [v]\<rparr>) s"
  shows "runs what [number (uint (x :: u8))] s (in_list JRB_BAND_RX1_DR_OFFSET bs
    (q\<lparr>cp_rx1DataRateOffsets := vs @ [v @ [x]]\<rparr>))"
  using assms
  by (simp add: runs_Cons in_list_def at_band_def counted_def number_simps on_integer_def
      integer_rx1_offset_def put_last_def update_at_def band_access Let_def applyErrorDescription_def)

lemma runs_rx1:
  assumes "in_list JRB_BAND_RX1_DR_OFFSETS bs q s"
  shows "runs what (rx1_events v) s (in_list JRB_BAND_RX1_DR_OFFSETS bs
    (q\<lparr>cp_rx1DataRateOffsets := cp_rx1DataRateOffsets q @ [v]\<rparr>))"
proof -
  let ?I = "\<lambda>w. in_list JRB_BAND_RX1_DR_OFFSET bs (q\<lparr>cp_rx1DataRateOffsets := cp_rx1DataRateOffsets q @ [w]\<rparr>)"
  have single: "concat (map (\<lambda>x. [number (uint x)]) v) = map (\<lambda>x. number (uint x)) v"
    by (induction v) simp_all
  have "runs what [Start_array] s (?I [])"
    using assms by (simp add: runs_Cons in_list_def at_band_def counted_def on_start_array_def put_last_def
        band_access)
  moreover have "runs what (map (\<lambda>x. number (uint x)) v) s' (?I v)" if "?I [] s'" for s'
    using runs_concat [where I = ?I and ev = "\<lambda>x. [number (uint x)]" and xs = v, OF runs_rx1_value that]
    by (simp add: single)
  moreover have "runs what [End_array] s' (in_list JRB_BAND_RX1_DR_OFFSETS bs
      (q\<lparr>cp_rx1DataRateOffsets := cp_rx1DataRateOffsets q @ [v]\<rparr>))" if "?I v s'" for s'
    using that by (simp add: runs_Cons in_list_def at_band_def counted_def on_end_array_def)
  ultimately show ?thesis
    unfolding rx1_events_def by (rule runs_enclosed)
qed

text \<open>Channels: the flags of a downlink channel go to the last uplink channel.\<close>

lemma runs_uplink:
  assumes "in_list JRB_BAND_UPLINKS bs q s \<and> rh_prevState s = JRB_BAND_UPLINKS" "channel_ok c"
  shows "runs what (channel_events c) s (\<lambda>s'. in_list JRB_BAND_UPLINKS bs
      (q\<lparr>cp_uplinkChannels := cp_uplinkChannels q @ [c]\<rparr>) s' \<and> rh_prevState s' = JRB_BAND_UPLINKS)"
  using assms
  by (simp add: channel_events_def object_events_def number_events_def boolean_events_def runs_Cons
      on_key_known in_list_def at_band_def counted_def number_simps channel_ok_def on_start_object_def
      on_end_object_def on_integer_def integer_channel_def channel_field_def on_boolean_def
      boolean_channel_def put_checked_def put_last_def update_last_def band_access Let_def)

lemma runs_downlink:
  assumes "in_list JRB_BAND_DOWNLINKS bs q s \<and> rh_prevState s = JRB_BAND_DOWNLINKS" "channel_ok c"
    "cp_uplinkChannels q \<noteq> []"
  shows "runs what (channel_events c) s (\<lambda>s'. in_list JRB_BAND_DOWNLINKS bs
      (q\<lparr>cp_uplinkChannels := update_last (put_flags c) (cp_uplinkChannels q),
         cp_downlinkChannels := cp_downlinkChannels q @ [put_flags Channel_default c]\<rparr>) s' \<and>
      rh_prevState s' = JRB_BAND_DOWNLINKS)"
  using assms
  by (simp add: channel_events_def object_events_def number_events_def boolean_events_def runs_Cons
      on_key_known in_list_def at_band_def counted_def number_simps channel_ok_def on_start_object_def
      on_end_object_def on_integer_def integer_channel_def channel_field_def on_boolean_def
      boolean_channel_def put_checked_def put_last_def update_last_def put_flags_def band_access Let_def)

section \<open>Reading a plan\<close>

lemma leave_array:
  "in_list st bs q s \<Longrightarrow>
    st \<in> {JRB_BAND_DATA_RATES, JRB_BAND_P_SIZES, JRB_BAND_PRPT_SIZES, JRB_BAND_RX1_DR_OFFSETS,
      JRB_BAND_TX_POWER_OFS, JRB_BAND_UPLINKS, JRB_BAND_DOWNLINKS} \<Longrightarrow>
    runs what [End_array] s (in_list JRB_BAND bs q)"
  by (auto simp: runs_Cons in_list_def at_band_def counted_def on_end_array_def)

text \<open>A list of the band, which is \<open>g ys\<close> when \<open>ys\<close> has been read.\<close>

lemma runs_list:
  assumes "in_list JRB_BAND bs (g []) s" "getAttrByName k \<noteq> JK_NONE"
    and "\<And>s. rh_state s = JRB_BAND \<Longrightarrow> rh_keyIndex s = getAttrByName k \<Longrightarrow>
      on_start_array s = Some (True, s\<lparr>rh_state := st\<rparr>)"
    and st: "st \<in> {JRB_BAND_DATA_RATES, JRB_BAND_P_SIZES, JRB_BAND_PRPT_SIZES, JRB_BAND_RX1_DR_OFFSETS,
      JRB_BAND_TX_POWER_OFS}"
    and member: "\<And>ys x zs s. xs = ys @ x # zs \<Longrightarrow> in_list st bs (g ys) s \<Longrightarrow>
      runs what (ev x) s (in_list st bs (g (ys @ [x])))"
  shows "runs what (array_events k ev xs) s (in_list JRB_BAND bs (g xs))"
proof (rule runs_array [where I = "\<lambda>ys. in_list st bs (g ys)"])
  show "runs what [Key k, Start_array] s (in_list st bs (g []))"
    using assms(1-3) by (simp add: runs_Cons on_key_known in_list_def at_band_def counted_def)
qed (fact member, rule leave_array, use st in auto)

lemma runs_dataRates:
  assumes "in_list JRB_BAND bs (q\<lparr>cp_dataRates := []\<rparr>) s" "list_all rate_ok rs"
  shows "runs what (array_events ''dataRates'' rate_events rs) s
    (in_list JRB_BAND bs (q\<lparr>cp_dataRates := stored_rates rs\<rparr>))"
proof (rule runs_list [where g = "\<lambda>ys. q\<lparr>cp_dataRates := stored_rates ys\<rparr>" and st = JRB_BAND_DATA_RATES])
  fix ys x zs s
  assume "rs = ys @ x # zs" "in_list JRB_BAND_DATA_RATES bs (q\<lparr>cp_dataRates := stored_rates ys\<rparr>) s"
  then show "runs what (rate_events x) s
      (in_list JRB_BAND_DATA_RATES bs (q\<lparr>cp_dataRates := stored_rates (ys @ [x])\<rparr>))"
    using runs_rate [of bs "q\<lparr>cp_dataRates := stored_rates ys\<rparr>" s x]
      runs_rate_beyond [of bs "q\<lparr>cp_dataRates := stored_rates ys\<rparr>" s what x] assms(2)
    by (simp add: stored_rates_snoc)
qed (use assms in \<open>simp_all add: on_start_array_def stored_rates_def\<close>)

lemma runs_sizes:
  assumes "in_list JRB_BAND bs (q\<lparr>cp_maxPayloadSizePerDataRate := []\<rparr>) s"
  shows "runs what (array_events ''maxPayloadSizePerDataRate'' size_events ms) s
    (in_list JRB_BAND bs (q\<lparr>cp_maxPayloadSizePerDataRate := ms\<rparr>))"
  by (rule runs_list [where g = "\<lambda>ys. q\<lparr>cp_maxPayloadSizePerDataRate := ys\<rparr>" and st = JRB_BAND_P_SIZES])
    (use assms in \<open>auto simp: on_start_array_def dest: runs_size\<close>)

lemma runs_sizes_repeater:
  assumes "in_list JRB_BAND bs (q\<lparr>cp_maxPayloadSizePerDataRateRepeater := []\<rparr>) s"
  shows "runs what (array_events ''maxPayloadSizePerDataRateRepeater'' size_events ms) s
    (in_list JRB_BAND bs (q\<lparr>cp_maxPayloadSizePerDataRateRepeater := ms\<rparr>))"
  by (rule runs_list [where g = "\<lambda>ys. q\<lparr>cp_maxPayloadSizePerDataRateRepeater := ys\<rparr>" and st = JRB_BAND_PRPT_SIZES])
    (use assms in \<open>auto simp: on_start_array_def dest: runs_size_repeater\<close>)

lemma runs_rx1_offsets:
  assumes "in_list JRB_BAND bs (q\<lparr>cp_rx1DataRateOffsets := []\<rparr>) s"
  shows "runs what (array_events ''rx1DataRateOffsets'' rx1_events vs) s
    (in_list JRB_BAND bs (q\<lparr>cp_rx1DataRateOffsets := vs\<rparr>))"
  by (rule runs_list [where g = "\<lambda>ys. q\<lparr>cp_rx1DataRateOffsets := ys\<rparr>" and st = JRB_BAND_RX1_DR_OFFSETS])
    (use assms in \<open>auto simp: on_start_array_def dest: runs_rx1\<close>)

lemma runs_txPowerOffsets:
  assumes "in_list JRB_BAND bs (q\<lparr>cp_txPowerOffsets := []\<rparr>) s" "length vs \<le> 16"
  shows "runs what (array_events ''txPowerOffsets'' (\<lambda>v. [number (sint v)]) vs) s
    (in_list JRB_BAND bs (q\<lparr>cp_txPowerOffsets := vs\<rparr>))"
  by (rule runs_list [where g = "\<lambda>ys. q\<lparr>cp_txPowerOffsets := ys\<rparr>" and st = JRB_BAND_TX_POWER_OFS])
    (use assms in \<open>auto simp: on_start_array_def dest: runs_tx\<close>)

lemma runs_uplinks:
  assumes "in_list JRB_BAND bs (q\<lparr>cp_uplinkChannels := []\<rparr>) s" "list_all channel_ok cs"
  shows "runs what (array_events ''uplinkChannels'' channel_events cs) s
    (in_list JRB_BAND bs (q\<lparr>cp_uplinkChannels := cs\<rparr>))"
proof (rule runs_array [where I = "\<lambda>ys s. in_list JRB_BAND_UPLINKS bs (q\<lparr>cp_uplinkChannels := ys\<rparr>) s \<and>
      rh_prevState s = JRB_BAND_UPLINKS"])
  fix ys x zs s
  assume "cs = ys @ x # zs" "in_list JRB_BAND_UPLINKS bs (q\<lparr>cp_uplinkChannels := ys\<rparr>) s \<and>
    rh_prevState s = JRB_BAND_UPLINKS"
  then show "runs what (channel_events x) s (\<lambda>s. in_list JRB_BAND_UPLINKS bs
      (q\<lparr>cp_uplinkChannels := ys @ [x]\<rparr>) s \<and> rh_prevState s = JRB_BAND_UPLINKS)"
    using runs_uplink [of bs "q\<lparr>cp_uplinkChannels := ys\<rparr>" s x] assms(2) by simp
qed (use assms(1) in \<open>auto simp: runs_Cons on_key_known in_list_def at_band_def counted_def
      on_start_array_def on_end_array_def\<close>)

lemma stored_uplinks_snoc:
  "ups \<noteq> [] \<Longrightarrow> update_last (put_flags c) (stored_uplinks ups ds) = stored_uplinks ups (ds @ [c])"
  by (simp add: stored_uplinks_def update_last_def put_flags_def)

lemma runs_downlinks:
  assumes "in_list JRB_BAND bs (q\<lparr>cp_uplinkChannels := ups, cp_downlinkChannels := []\<rparr>) s"
    "list_all channel_ok cs" "ups = [] \<longrightarrow> cs = []"
  shows "runs what (array_events ''downlinkChannels'' channel_events cs) s
    (in_list JRB_BAND bs (q\<lparr>cp_uplinkChannels := stored_uplinks ups cs,
      cp_downlinkChannels := map (put_flags Channel_default) cs\<rparr>))"
proof -
  let ?q = "\<lambda>ys. q\<lparr>cp_uplinkChannels := stored_uplinks ups ys,
    cp_downlinkChannels := map (put_flags Channel_default) ys\<rparr>"
  let ?I = "\<lambda>ys s. in_list JRB_BAND_DOWNLINKS bs (?q ys) s \<and> rh_prevState s = JRB_BAND_DOWNLINKS"
  show ?thesis
  proof (rule runs_array [where I = ?I])
    fix ys x zs s
    assume *: "cs = ys @ x # zs" "?I ys s"
    then have "ups \<noteq> []" "stored_uplinks ups ys \<noteq> []"
      using assms(3) by (auto simp: stored_uplinks_def update_last_def)
    with * show "runs what (channel_events x) s (?I (ys @ [x]))"
      using runs_downlink [of bs "?q ys" s x] assms(2) by (simp add: stored_uplinks_snoc)
  qed (use assms(1) in \<open>auto simp: runs_Cons on_key_known in_list_def at_band_def counted_def
      on_start_array_def on_end_array_def stored_uplinks_def\<close>)
qed

definition reading :: "json_state \<Rightarrow> CHANNEL_PLAN list \<Rightarrow> region_handler \<Rightarrow> bool" where
  "reading st bs s \<longleftrightarrow> rh_state s = st \<and> rb_bands (rh_storage s) = bs"

lemma runs_plan:
  assumes "reading JRB_BANDS bs s" "plan_ok p" "eirp_ok eirp"
  shows "runs what (plan_events eirp p) s (reading JRB_BANDS (bs @ [stored_plan eirp p]))"
proof -
  let ?q0 = "ChannelPlan_default"
  let ?q1 = "?q0\<lparr>cp_id := cp_id p, cp_subRegion := cp_subRegion p, cp_name := cp_name p, cp_cn := cp_cn p,
         cp_implementsTXParamSetup := cp_implementsTXParamSetup p, cp_maxUplinkEIRP := stored_eirp eirp,
         cp_pingSlotFrequency := cp_pingSlotFrequency p,
         cp_defaultDownlinkTXPower := cp_defaultDownlinkTXPower p,
         cp_supportsExtraChannels := cp_supportsExtraChannels p, cp_defaultRegion := cp_defaultRegion p\<rparr>"
  let ?q2 = "?q1\<lparr>cp_bandDefaults := cp_bandDefaults p\<rparr>"
  let ?q3 = "?q2\<lparr>cp_dataRates := stored_rates (cp_dataRates p)\<rparr>"
  let ?q4 = "?q3\<lparr>cp_uplinkChannels := cp_uplinkChannels p\<rparr>"
  let ?q5 = "?q3\<lparr>cp_uplinkChannels := stored_uplinks (cp_uplinkChannels p) (cp_downlinkChannels p),
      cp_downlinkChannels := map (put_flags Channel_default) (cp_downlinkChannels p)\<rparr>"
  let ?q6 = "?q5\<lparr>cp_maxPayloadSizePerDataRate := cp_maxPayloadSizePerDataRate p\<rparr>"
  let ?q7 = "?q6\<lparr>cp_maxPayloadSizePerDataRateRepeater := cp_maxPayloadSizePerDataRateRepeater p\<rparr>"
  let ?q8 = "?q7\<lparr>cp_rx1DataRateOffsets := cp_rx1DataRateOffsets p\<rparr>"
  let ?q9 = "?q8\<lparr>cp_txPowerOffsets := cp_txPowerOffsets p\<rparr>"
  note ok = assms(2) [unfolded plan_ok_def]
  have start: "runs what [Start_object] s (at_band JRB_BAND bs ?q0)"
    using assms(1) by (simp add: runs_Cons reading_def at_band_def on_start_object_def)
  have step2: "runs what (defaults_events (cp_bandDefaults p)) s (in_list JRB_BAND bs ?q2)"
    if "at_band JRB_BAND bs ?q1 s" for s
    using runs_defaults [OF that, of "cp_bandDefaults p"] ok by (simp add: in_list_def [abs_def] ChannelPlan_default_def)
  have step3: "runs what (array_events ''dataRates'' rate_events (cp_dataRates p)) s (in_list JRB_BAND bs ?q3)"
    if "in_list JRB_BAND bs ?q2 s" for s
    by (rule runs_dataRates) (use that ok in \<open>simp_all add: ChannelPlan_default_def\<close>)
  have step4: "runs what (array_events ''uplinkChannels'' channel_events (cp_uplinkChannels p)) s
      (in_list JRB_BAND bs ?q4)" if "in_list JRB_BAND bs ?q3 s" for s
    by (rule runs_uplinks) (use that ok in \<open>simp_all add: ChannelPlan_default_def\<close>)
  have step5: "runs what (array_events ''downlinkChannels'' channel_events (cp_downlinkChannels p)) s
      (in_list JRB_BAND bs ?q5)" if "in_list JRB_BAND bs ?q4 s" for s
    by (rule runs_downlinks) (use that ok in \<open>simp_all add: ChannelPlan_default_def\<close>)
  have step6: "runs what (array_events ''maxPayloadSizePerDataRate'' size_events
      (cp_maxPayloadSizePerDataRate p)) s (in_list JRB_BAND bs ?q6)" if "in_list JRB_BAND bs ?q5 s" for s
    by (rule runs_sizes) (use that in \<open>simp add: ChannelPlan_default_def\<close>)
  have step7: "runs what (array_events ''maxPayloadSizePerDataRateRepeater'' size_events
      (cp_maxPayloadSizePerDataRateRepeater p)) s (in_list JRB_BAND bs ?q7)" if "in_list JRB_BAND bs ?q6 s" for s
    by (rule runs_sizes_repeater) (use that in \<open>simp add: ChannelPlan_default_def\<close>)
  have step8: "runs what (array_events ''rx1DataRateOffsets'' rx1_events (cp_rx1DataRateOffsets p)) s
      (in_list JRB_BAND bs ?q8)" if "in_list JRB_BAND bs ?q7 s" for s
    by (rule runs_rx1_offsets) (use that in \<open>simp add: ChannelPlan_default_def\<close>)
  have step9: "runs what (array_events ''txPowerOffsets'' (\<lambda>v. [number (sint v)]) (cp_txPowerOffsets p)) s
      (in_list JRB_BAND bs ?q9)" if "in_list JRB_BAND bs ?q8 s" for s
    by (rule runs_txPowerOffsets) (use that ok in \<open>simp_all add: ChannelPlan_default_def\<close>)
  have "?q9 = stored_plan eirp p" by (simp add: stored_plan_def ChannelPlan_default_def)
  then have end_: "runs what [End_object] s (reading JRB_BANDS (bs @ [stored_plan eirp p]))"
    if "in_list JRB_BAND bs ?q9 s" for s
    using that by (simp add: runs_Cons reading_def in_list_def at_band_def on_end_object_def)
  show ?thesis
    unfolding plan_events_def object_events_def append_assoc
    using runs_seq [OF start runs_seq [OF runs_head [OF _ assms(2,3)] runs_seq [OF step2 runs_seq [OF step3
      runs_seq [OF step4 runs_seq [OF step5 runs_seq [OF step6 runs_seq [OF step7 runs_seq [OF step8
      runs_seq [OF step9 end_]]]]]]]]]] by simp
qed

lemma runs_document:
  assumes "rh_state s = JRB_NONE" "rb_bands (rh_storage s) = []" "list_all (\<lambda>(e, p). eirp_ok e \<and> plan_ok p) ps"
  shows "runs what (document_events ver ps) s (reading JRB_NONE (map (case_prod stored_plan) ps))"
proof -
  let ?I = "\<lambda>ys. reading JRB_BANDS (map (case_prod stored_plan) ys)"
  have 1: "runs what (Start_object # string_events ''regionalParametersVersion'' ver) s (reading JRB_ROOT [])"
    using assms(1,2) by (simp add: string_events_def runs_Cons on_key_known on_start_object_def on_string_def
        reading_def)
  have 2: "runs what (array_events ''RegionBands'' (\<lambda>(eirp, p). plan_events eirp p) ps) s'
      (reading JRB_ROOT (map (case_prod stored_plan) ps))" if "reading JRB_ROOT [] s'" for s'
  proof (rule runs_array [where I = ?I])
    fix ys x zs s
    assume "ps = ys @ x # zs" "?I ys s"
    then show "runs what ((\<lambda>(eirp, p). plan_events eirp p) x) s (?I (ys @ [x]))"
      using runs_plan [of _ s "snd x" "fst x" what] assms(3) by (simp add: split_beta)
  qed (use that in \<open>auto simp: runs_Cons on_key_known on_start_array_def on_end_array_def reading_def\<close>)
  have 3: "runs what [End_object] s' (reading JRB_NONE bs)" if "reading JRB_ROOT bs s'" for s' bs
    using that by (simp add: runs_Cons on_end_object_def reading_def)
  show ?thesis
    using runs_seq [OF 1 runs_seq [OF 2 3]] by (simp add: document_events_def object_events_def)
qed

section \<open>The index\<close>

text \<open>The last plan with a name or an identifier, and the last default one, win.\<close>

definition last_index :: "('a \<Rightarrow> bool) \<Rightarrow> 'a list \<Rightarrow> nat option" where
  "last_index P xs = find (\<lambda>i. P (xs ! i)) (rev [0..<length xs])"

lemma last_index_snoc: "last_index P (xs @ [x]) = (if P x then Some (length xs) else last_index P xs)"
proof -
  have "find (\<lambda>i. P ((xs @ [x]) ! i)) (rev [0..<length xs]) = find (\<lambda>i. P (xs ! i)) (rev [0..<length xs])"
    by (rule find_cong) (auto simp: nth_append)
  then show ?thesis by (simp add: last_index_def)
qed

lemma index_bands_append:
  "index_bands i (ps @ qs) f = index_bands (i + length ps) qs (index_bands i ps f)"
  by (induction i ps f rule: index_bands.induct) simp_all

lemma index_bands_last:
  "pf_nameIndex (index_bands 0 ps f) nm =
    (case last_index (\<lambda>p. cp_name p = nm) ps of None \<Rightarrow> pf_nameIndex f nm | Some i \<Rightarrow> Some i) \<and>
   pf_idIndex (index_bands 0 ps f) n =
    (case last_index (\<lambda>p. uint (cp_id p) = n) ps of None \<Rightarrow> pf_idIndex f n | Some i \<Rightarrow> Some i) \<and>
   pf_default (index_bands 0 ps f) =
    (case last_index cp_defaultRegion ps of None \<Rightarrow> pf_default f | Some i \<Rightarrow> Some i) \<and>
   pf_storage (index_bands 0 ps f) = pf_storage f"
proof (induction ps rule: rev_induct)
  case Nil
  then show ?case by (simp add: last_index_def)
next
  case (snoc p ps)
  then show ?case by (auto simp: index_bands_append last_index_snoc)
qed

definition plan_or_default :: "(CHANNEL_PLAN \<Rightarrow> bool) \<Rightarrow> CHANNEL_PLAN list \<Rightarrow> nat" where
  "plan_or_default P ps =
    (case last_index P ps of Some i \<Rightarrow> i
     | None \<Rightarrow> (case last_index cp_defaultRegion ps of Some i \<Rightarrow> i | None \<Rightarrow> 0))"

lemma buildIndex_lookup:
  assumes "buildIndex f = (r, f')" "rb_bands (pf_storage f) \<noteq> []"
  shows "r = CODE_OK \<and> pf_storage f' = pf_storage f \<and>
    file_get_name nm f' = Some (plan_or_default (\<lambda>p. cp_name p = nm) (rb_bands (pf_storage f))) \<and>
    file_get_id n f' = Some (plan_or_default (\<lambda>p. uint (cp_id p) = n) (rb_bands (pf_storage f)))"
  using assms
  by (auto simp: buildIndex_def Let_def file_get_name_def file_get_id_def plan_or_default_def index_bands_last
      split: option.splits if_splits)

section \<open>Properties\<close>

text \<open>C13: A document of one or more plans, each with all its members in the order of
  \<open>plan_events\<close>, is read without error, and every plan is stored with its numbers, texts, sizes
  and offsets whatever the plans before it, with three losses.  Of the data rates the first eight are
  kept and each further one is stored as an empty one (so of the fourteen of the plan AU915-928 in
  the repository's file the last six are lost); the bandwidth is the code of the number.  The two
  flags of a downlink channel end in the last uplink channel, and the downlink channel has the
  default ones.  A name or identifier then finds the last plan that has it, or else the last default
  plan, or else the first plan.  The numbers must fit an \<open>int\<close>, the power be a whole number or a
  float, the modulations known, the power offsets at most 16, and a band with downlink channels must
  have uplink channels.\<close>

theorem plans_document_stored:
  assumes "list_all (\<lambda>(e, p). eirp_ok e \<and> plan_ok p) ps" "ps \<noteq> []"
  shows "\<exists>f'. load_plans what (document_events ver ps) f = Some (CODE_OK, f') \<and>
    rb_bands (pf_storage f') = map (case_prod stored_plan) ps \<and>
    file_get_name nm f' = Some (plan_or_default (\<lambda>p. cp_name p = nm) (map (case_prod stored_plan) ps)) \<and>
    file_get_id n f' = Some (plan_or_default (\<lambda>p. uint (cp_id p) = n) (map (case_prod stored_plan) ps))"
proof -
  let ?h = "handler_new (pf_storage (plans_clear f)) (pf_errDescription (plans_clear f))"
  have "runs what (document_events ver ps) ?h (reading JRB_NONE (map (case_prod stored_plan) ps))"
    by (rule runs_document [OF _ _ assms(1)]) (simp_all add: handler_new_def plans_clear_def)
  then obtain h where h: "sax_run (handle what) (document_events ver ps) ?h = Some (True, h)"
      "rb_bands (rh_storage h) = map (case_prod stored_plan) ps"
    by (auto simp: sax_runs_def reading_def)
  obtain r f' where b: "buildIndex ((plans_clear f)\<lparr>pf_storage := rh_storage h,
      pf_errDescription := rh_errDescription h\<rparr>) = (r, f')" by fastforce
  show ?thesis
    using buildIndex_lookup [OF b] h b assms(2) by (simp add: load_plans_def loadFile_def)
qed

definition plan_doc_ex :: CHANNEL_PLAN where
  "plan_doc_ex = plan_ex
    \<lparr>cp_dataRates := map (\<lambda>sf. \<lparr>dr_uplink = True, dr_downlink = True, dr_modulation = MOD_LORA, dr_bandwidth = 125,
       dr_spreadingFactor = sf, dr_bps = 250\<rparr>) [12, 11, 10, 9, 8, 7, 7, 7, 12, 11],
     cp_uplinkChannels := [\<lparr>ch_frequency = 868100000, ch_minDR = 0, ch_maxDR = 5, ch_enabled = True, ch_custom = False\<rparr>],
     cp_downlinkChannels := [\<lparr>ch_frequency = 868100000, ch_minDR = 0, ch_maxDR = 5, ch_enabled = False, ch_custom = True\<rparr>]\<rparr>"

theorem plans_document_stored_witness:
  "\<exists>f'. load_plans (\<lambda>_. []) (document_events ''1.0'' [(Whole 16, plan_doc_ex)]) plans_file_new = Some (CODE_OK, f') \<and>
    rb_bands (pf_storage f') = map (case_prod stored_plan) [(Whole 16, plan_doc_ex)] \<and>
    file_get_name ''EU868'' f' = Some (plan_or_default (\<lambda>p. cp_name p = ''EU868'')
      (map (case_prod stored_plan) [(Whole 16, plan_doc_ex)])) \<and>
    file_get_id 7 f' = Some (plan_or_default (\<lambda>p. uint (cp_id p) = 7)
      (map (case_prod stored_plan) [(Whole 16, plan_doc_ex)]))"
proof (rule plans_document_stored)
  have [simp]: "c_string ''LORA'' = ''LORA''" by code_simp
  show "list_all (\<lambda>(e, p). eirp_ok e \<and> plan_ok p) [(Whole 16, plan_doc_ex)]"
    by (simp add: plan_doc_ex_def plan_ex_def plan_ok_def int_ok_def defaults_ok_def channel_ok_def rate_ok_def
        ChannelPlan_default_def BandDefaults_default_def MODULATION2String_def string2MODULATION_def)
qed simp

text \<open>A plan whose sub-region is a text, as \<open>toString\<close> writes it, is refused.\<close>

lemma subregion_text_refused:
  assumes "rh_state s = JRB_BAND"
  shows "\<exists>s'. sax_run (handle what) [Key ''subRegion'', String_value v] s = Some (False, s')"
  using assms by (simp add: on_key_known on_string_def)

text \<open>The flags of a downlink channel in a band without uplink channels are written out of bounds.\<close>

lemma downlink_flags_out_of_bounds:
  assumes "rh_state s = JRB_BAND_CHANNEL" "rh_prevState s = JRB_BAND_DOWNLINKS" "rb_bands (rh_storage s) = bs @ [p]"
    "cp_uplinkChannels p = []" "cp_downlinkChannels p \<noteq> []"
  shows "sax_run (handle what) [Key ''enabled'', Boolean b] s = None"
  using assms by (simp add: on_key_known on_boolean_def boolean_channel_def put_last_def band_access Let_def)

end
