(* ===== verification/Gw_Udp.thy ===== *)
theory Gw_Udp
  imports Dispatcher Base64 Region_Plan Json_Sax
begin

text \<open>
  The Semtech gateway protocol (\<open>proto/gw/basic-udp.cpp\<close>): a prefix of 4 or 12 bytes and a JSON
  document.  The handlers of its events store numbers and texts as they come; the parser reads
  the document behind the prefix; answers are built from the packet in place.  The JSON library,
  the C library's dates, what lies behind the packet in memory and what the machine makes of a
  conversion that C++ leaves undefined are the arguments of a record.
\<close>

section \<open>What the code relies on\<close>

record gw_lib =
  gl_sax :: "bytes \<Rightarrow> sax_event list"
  gl_dom :: "bytes \<Rightarrow> json option"
  gl_date :: "string \<Rightarrow> u64"
  gl_bandwidth :: u32
  gl_u16 :: "int \<Rightarrow> u16"
  gl_u32 :: "int \<Rightarrow> u32"
  gl_push :: "pr_union \<Rightarrow> GwPushData"
  gl_resp :: "pr_union \<Rightarrow> GwPullResp"
  gl_behind :: bytes

section \<open>Upstream: \<open>rxpk\<close>\<close>

definition SAX_METADATA_RX_NAMES :: "string list" where
  "SAX_METADATA_RX_NAMES =
    [''rxpk'', ''time'', ''tmms'', ''tmst'', ''freq'', ''chan'', ''rfch'', ''stat'', ''modu'', ''datr'',
     ''codr'', ''rssi'', ''lsnr'', ''size'', ''data'']"

text \<open>An unknown name counts as the first.\<close>

definition getMetadataRxNameIndex :: "string \<Rightarrow> nat" where
  "getMetadataRxNameIndex s =
    (case find_name SAX_METADATA_RX_NAMES (c_string s) of None \<Rightarrow> 0 | Some i \<Rightarrow> i)"

record 'i sax_handler =
  sh_nameIndex :: nat
  sh_startItem :: int
  sh_item :: 'i
  sh_parseError :: int

definition SaxPushData :: "GwPushData \<Rightarrow> u64 \<Rightarrow> TASK_TIME \<Rightarrow> GwPushData sax_handler" where
  "SaxPushData item gwId receivedTime =
    \<lparr>sh_nameIndex = 0, sh_startItem = 0,
     sh_item = item\<lparr>rxMetadata := (rxMetadata item)
       \<lparr>rx_gatewayId := gwId, rx_t := word_of_int (ns_to_s receivedTime)\<rparr>\<rparr>,
     sh_parseError = CODE_OK\<rparr>"

type_synonym metadata_rx = SEMTECH_PROTOCOL_METADATA_RX
type_synonym metadata_tx = SEMTECH_PROTOCOL_METADATA_TX

definition push_integer :: "nat \<Rightarrow> int \<Rightarrow> metadata_rx \<Rightarrow> metadata_rx" where
  "push_integer n val m =
    (if n = 11 then m\<lparr>rx_rssi := word_of_int val\<rparr>
     else if n = 12 then m\<lparr>rx_lsnr := int_float val\<rparr>
     else m)"

definition push_unsigned :: "nat \<Rightarrow> nat \<Rightarrow> metadata_rx \<Rightarrow> metadata_rx" where
  "push_unsigned n val m =
    (if n = 2 then m\<lparr>rx_tmst := word_of_int (gps2utc (of_nat val))\<rparr>
     else if n = 3 then m\<lparr>rx_tmst := of_nat val\<rparr>
     else if n = 4 then m\<lparr>rx_freq := of_nat (val * 1000000)\<rparr>
     else if n = 5 then m\<lparr>rx_chan := of_nat val\<rparr>
     else if n = 6 then m\<lparr>rx_rfch := of_nat val\<rparr>
     else if n = 7 then m\<lparr>rx_stat := of_nat val\<rparr>
     else if n = 9 then m\<lparr>rx_bps := of_nat val\<rparr>
     else if n = 11 then m\<lparr>rx_rssi := of_nat val\<rparr>
     else if n = 12 then m\<lparr>rx_lsnr := int_float (int val)\<rparr>
     else m)"

text \<open>The frequency goes through 16 bits.\<close>

definition push_float :: "gw_lib \<Rightarrow> nat \<Rightarrow> u64 \<Rightarrow> metadata_rx \<Rightarrow> metadata_rx" where
  "push_float L n val m =
    (if n = 4 then m\<lparr>rx_freq := ucast (to_unsigned (gl_u16 L) (dbl_mega val))\<rparr>
     else if n = 12 then m\<lparr>rx_lsnr := dbl_float val\<rparr>
     else m)"

text \<open>\<open>string2datr\<close> may raise an exception, which leaves the parser; on its early returns the
  local bandwidth is not set.\<close>

definition push_string :: "gw_lib \<Rightarrow> nat \<Rightarrow> string \<Rightarrow> GwPushData \<Rightarrow> GwPushData option" where
  "push_string L n val d =
    (let put = (\<lambda>f. d\<lparr>rxMetadata := f (rxMetadata d)\<rparr>) in
     if n = 1 then Some (put (rx_t_update (\<lambda>_. gl_date L (c_string val))))
     else if n = 8 then Some (put (rx_modu_update (\<lambda>_. string2MODULATION val)))
     else if n = 9 then
       (case string2datr (gl_bandwidth L) val of
          None \<Rightarrow> None
        | Some (sf, b) \<Rightarrow> Some (put (\<lambda>m. m\<lparr>rx_spreadingFactor := sf, rx_bandwidth := b\<rparr>)))
     else if n = 10 then Some (put (rx_codingRate_update (\<lambda>_. string2codingRate val)))
     else if n = 14 then Some (d\<lparr>rxData := snd (base64_set_storage val (rxData d))\<rparr>)
     else Some d)"

text \<open>What the three handlers have in common; \<open>numbers\<close>, \<open>flags\<close> and \<open>texts\<close> differ.\<close>

definition on_item :: "('i \<Rightarrow> 'i option) \<Rightarrow> 'i sax_handler \<Rightarrow> (bool \<times> 'i sax_handler) option" where
  "on_item f s = map_option (\<lambda>i. (True, s\<lparr>sh_item := i\<rparr>)) (f (sh_item s))"

fun push_event :: "gw_lib \<Rightarrow> sax_event \<Rightarrow> GwPushData sax_handler \<Rightarrow> (bool \<times> GwPushData sax_handler) option" where
  "push_event L (Number_integer v) s =
    on_item (\<lambda>d. Some (d\<lparr>rxMetadata := push_integer (sh_nameIndex s) v (rxMetadata d)\<rparr>)) s"
| "push_event L (Number_unsigned v) s =
    on_item (\<lambda>d. Some (d\<lparr>rxMetadata := push_unsigned (sh_nameIndex s) v (rxMetadata d)\<rparr>)) s"
| "push_event L (Number_float v) s =
    on_item (\<lambda>d. Some (d\<lparr>rxMetadata := push_float L (sh_nameIndex s) v (rxMetadata d)\<rparr>)) s"
| "push_event L (String_value v) s = on_item (push_string L (sh_nameIndex s) v) s"
| "push_event L Start_object s = Some (True, s\<lparr>sh_startItem := sh_startItem s + 1\<rparr>)"
| "push_event L End_object s = Some (True, s\<lparr>sh_startItem := sh_startItem s - 1\<rparr>)"
| "push_event L (Key k) s = Some (True, s\<lparr>sh_nameIndex := getMetadataRxNameIndex k\<rparr>)"
| "push_event L (Parse_error e) s = Some (False, s\<lparr>sh_parseError := - e\<rparr>)"
| "push_event L _ s = Some (True, s)"

section \<open>Downstream: \<open>txpk\<close>\<close>

definition SAX_METADATA_TX_NAMES :: "string list" where
  "SAX_METADATA_TX_NAMES =
    [''txpk'', ''imme'', ''tmst'', ''tmms'', ''freq'', ''rfch'', ''powe'', ''modu'', ''datr'', ''codr'',
     ''fdev'', ''ipol'', ''prea'', ''size'', ''data'', ''ncrc'']"

definition getMetadataTxNameIndex :: "string \<Rightarrow> nat" where
  "getMetadataTxNameIndex s =
    (case find_name SAX_METADATA_TX_NAMES (c_string s) of None \<Rightarrow> 0 | Some i \<Rightarrow> i)"

text \<open>The memory of the message is cleared.\<close>

definition pull_zero :: GwPullData where
  "pull_zero = \<lparr>txData = storage_default, txMetadata = tx_of_bytes (replicate SIZE_TX 0)\<rparr>"

definition SaxPullData :: "GwPullData sax_handler" where
  "SaxPullData = \<lparr>sh_nameIndex = 0, sh_startItem = 0, sh_item = pull_zero, sh_parseError = CODE_OK\<rparr>"

definition pull_boolean :: "nat \<Rightarrow> bool \<Rightarrow> metadata_tx \<Rightarrow> metadata_tx" where
  "pull_boolean n val m =
    (if n = 1 then m\<lparr>tx_mode := (if val then 0 else 1)\<rparr>
     else if n = 11 then m\<lparr>tx_invert_pol := val\<rparr>
     else if n = 15 then m\<lparr>tx_no_crc := val\<rparr>
     else m)"

definition pull_unsigned :: "nat \<Rightarrow> nat \<Rightarrow> metadata_tx \<Rightarrow> metadata_tx" where
  "pull_unsigned n val m =
    (if n = 2 then m\<lparr>tx_count_us := of_nat val, tx_mode := 1\<rparr>
     else if n = 3 then m\<lparr>tx_mode := 2\<rparr>
     else if n = 4 then m\<lparr>tx_freq_hz := of_nat val * 1000000\<rparr>
     else if n = 5 then m\<lparr>tx_rf_chain := of_nat val\<rparr>
     else if n = 6 then m\<lparr>tx_rf_power := of_nat val\<rparr>
     else if n = 8 then m\<lparr>tx_datarate := of_nat val\<rparr>
     else if n = 10 then m\<lparr>tx_f_dev := of_nat val\<rparr>
     else if n = 12 then m\<lparr>tx_preamble := of_nat val\<rparr>
     else if n = 13 then m\<lparr>tx_size := of_nat val\<rparr>
     else m)"

text \<open>An integer becomes an unsigned number of 64 bits.\<close>

definition pull_integer :: "nat \<Rightarrow> int \<Rightarrow> metadata_tx \<Rightarrow> metadata_tx" where
  "pull_integer n val = pull_unsigned n (nat (val mod 2 ^ 64))"

definition pull_float :: "gw_lib \<Rightarrow> nat \<Rightarrow> u64 \<Rightarrow> metadata_tx \<Rightarrow> metadata_tx" where
  "pull_float L n val m =
    (if n = 4 then m\<lparr>tx_freq_hz := to_unsigned (gl_u32 L) (dbl_mega val)\<rparr> else m)"

text \<open>Shared by the two handlers: the metadata and the packet.\<close>

definition tx_string ::
    "gw_lib \<Rightarrow> nat \<Rightarrow> string \<Rightarrow> LORAWAN_MESSAGE_STORAGE \<times> metadata_tx \<Rightarrow>
     (LORAWAN_MESSAGE_STORAGE \<times> metadata_tx) option" where
  "tx_string L n val d =
    (case d of (s, m) \<Rightarrow>
       if n = 7 then Some (s, m\<lparr>tx_modulation := ucast (string2MODULATION val)\<rparr>)
       else if n = 8 then
         (case string2datr (gl_bandwidth L) val of
            None \<Rightarrow> None
          | Some (sf, b) \<Rightarrow> Some (s, m\<lparr>tx_bandwidth := ucast b, tx_datarate := sf\<rparr>))
       else if n = 9 then Some (s, m\<lparr>tx_coderate := ucast (string2codingRate val)\<rparr>)
       else if n = 14 then Some (snd (base64_set_storage val s), m)
       else Some d)"

definition pull_string :: "gw_lib \<Rightarrow> nat \<Rightarrow> string \<Rightarrow> GwPullData \<Rightarrow> GwPullData option" where
  "pull_string L n val d =
    map_option (\<lambda>(s, m). d\<lparr>txData := s, txMetadata := m\<rparr>) (tx_string L n val (txData d, txMetadata d))"

fun pull_event :: "gw_lib \<Rightarrow> sax_event \<Rightarrow> GwPullData sax_handler \<Rightarrow> (bool \<times> GwPullData sax_handler) option" where
  "pull_event L (Boolean v) s =
    on_item (\<lambda>d. Some (d\<lparr>txMetadata := pull_boolean (sh_nameIndex s) v (txMetadata d)\<rparr>)) s"
| "pull_event L (Number_integer v) s =
    on_item (\<lambda>d. Some (d\<lparr>txMetadata := pull_integer (sh_nameIndex s) v (txMetadata d)\<rparr>)) s"
| "pull_event L (Number_unsigned v) s =
    on_item (\<lambda>d. Some (d\<lparr>txMetadata := pull_unsigned (sh_nameIndex s) v (txMetadata d)\<rparr>)) s"
| "pull_event L (Number_float v) s =
    on_item (\<lambda>d. Some (d\<lparr>txMetadata := pull_float L (sh_nameIndex s) v (txMetadata d)\<rparr>)) s"
| "pull_event L (String_value v) s = on_item (pull_string L (sh_nameIndex s) v) s"
| "pull_event L Start_object s = Some (True, s\<lparr>sh_startItem := sh_startItem s + 1\<rparr>)"
| "pull_event L End_object s = Some (True, s\<lparr>sh_startItem := sh_startItem s - 1\<rparr>)"
| "pull_event L (Key k) s = Some (True, s\<lparr>sh_nameIndex := getMetadataTxNameIndex k\<rparr>)"
| "pull_event L (Parse_error e) s = Some (False, s\<lparr>sh_parseError := - e\<rparr>)"
| "pull_event L _ s = Some (True, s)"

section \<open>The response with a packet to send\<close>

definition SaxPullResp :: "GwPullResp \<Rightarrow> u64 \<Rightarrow> GwPullResp sax_handler" where
  "SaxPullResp item gwId =
    \<lparr>sh_nameIndex = 0, sh_startItem = 0, sh_item = item\<lparr>resp_gwId := gwId\<rparr>, sh_parseError = CODE_OK\<rparr>"

text \<open>Immediate whatever the flag says.\<close>

definition resp_boolean :: "nat \<Rightarrow> bool \<Rightarrow> metadata_tx \<Rightarrow> metadata_tx" where
  "resp_boolean n val m =
    (if n = 1 then m\<lparr>tx_mode := 0\<rparr>
     else if n = 11 then m\<lparr>tx_invert_pol := val\<rparr>
     else if n = 15 then m\<lparr>tx_no_crc := val\<rparr>
     else m)"

definition resp_unsigned :: "nat \<Rightarrow> nat \<Rightarrow> metadata_tx \<Rightarrow> metadata_tx" where
  "resp_unsigned n val m =
    (if n = 2 then m\<lparr>tx_count_us := word_of_int (gps2utc (of_nat val))\<rparr>
     else if n = 3 then m\<lparr>tx_count_us := of_nat val\<rparr>
     else if n = 4 then m\<lparr>tx_freq_hz := of_nat (val * 1000000)\<rparr>
     else if n = 5 then m\<lparr>tx_rf_chain := of_nat val\<rparr>
     else if n = 6 then m\<lparr>tx_rf_power := of_nat val\<rparr>
     else if n = 8 then m\<lparr>tx_datarate := of_nat val\<rparr>
     else if n = 10 then m\<lparr>tx_f_dev := of_nat val\<rparr>
     else if n = 12 then m\<lparr>tx_preamble := of_nat val\<rparr>
     else m)"

text \<open>The fraction is lost before the frequency is in Hz.\<close>

definition resp_float :: "gw_lib \<Rightarrow> nat \<Rightarrow> u64 \<Rightarrow> metadata_tx \<Rightarrow> metadata_tx" where
  "resp_float L n val m =
    (if n = 4 then m\<lparr>tx_freq_hz := to_unsigned (gl_u32 L) (dbl_trunc val) * 1000000\<rparr> else m)"

definition resp_string :: "gw_lib \<Rightarrow> nat \<Rightarrow> string \<Rightarrow> GwPullResp \<Rightarrow> GwPullResp option" where
  "resp_string L n val d =
    map_option (\<lambda>(s, m). d\<lparr>resp_txData := s, resp_txMetadata := m\<rparr>)
      (tx_string L n val (resp_txData d, resp_txMetadata d))"

fun resp_event :: "gw_lib \<Rightarrow> sax_event \<Rightarrow> GwPullResp sax_handler \<Rightarrow> (bool \<times> GwPullResp sax_handler) option" where
  "resp_event L (Boolean v) s =
    on_item (\<lambda>d. Some (d\<lparr>resp_txMetadata := resp_boolean (sh_nameIndex s) v (resp_txMetadata d)\<rparr>)) s"
| "resp_event L (Number_unsigned v) s =
    on_item (\<lambda>d. Some (d\<lparr>resp_txMetadata := resp_unsigned (sh_nameIndex s) v (resp_txMetadata d)\<rparr>)) s"
| "resp_event L (Number_float v) s =
    on_item (\<lambda>d. Some (d\<lparr>resp_txMetadata := resp_float L (sh_nameIndex s) v (resp_txMetadata d)\<rparr>)) s"
| "resp_event L (String_value v) s = on_item (resp_string L (sh_nameIndex s) v) s"
| "resp_event L Start_object s = Some (True, s\<lparr>sh_startItem := sh_startItem s + 1\<rparr>)"
| "resp_event L End_object s = Some (True, s\<lparr>sh_startItem := sh_startItem s - 1\<rparr>)"
| "resp_event L (Key k) s = Some (True, s\<lparr>sh_nameIndex := getMetadataTxNameIndex k\<rparr>)"
| "resp_event L (Parse_error e) s = Some (False, s\<lparr>sh_parseError := - e\<rparr>)"
| "resp_event L _ s = Some (True, s)"


section \<open>Parsing\<close>

definition SIZE_SEMTECH_PREFIX :: nat where "SIZE_SEMTECH_PREFIX = 4"
definition SIZE_SEMTECH_PREFIX_GW :: nat where "SIZE_SEMTECH_PREFIX_GW = 12"

text \<open>The prefix in memory: version, token, tag, and the identifier of the gateway.\<close>

definition prefix_token :: "bytes \<Rightarrow> u16" where
  "prefix_token m = from_le (mem_read m 1 2)"

definition prefix_mac :: "bytes \<Rightarrow> u64" where
  "prefix_mac m = from_le (mem_read m 4 8)"

definition parsePushData ::
    "gw_lib \<Rightarrow> GwPushData \<Rightarrow> bytes \<Rightarrow> u64 \<Rightarrow> TASK_TIME \<Rightarrow> (code \<times> GwPushData) option" where
  "parsePushData L retVal json gwId receivedTime =
    map_option (\<lambda>(_, s). (sh_parseError s, sh_item s))
      (sax_run (push_event L) (gl_sax L json) (SaxPushData retVal gwId receivedTime))"

definition parsePullData :: "gw_lib \<Rightarrow> bytes \<Rightarrow> (code \<times> GwPullData) option" where
  "parsePullData L json =
    map_option (\<lambda>(_, s). (sh_parseError s, sh_item s)) (sax_run (pull_event L) (gl_sax L json) SaxPullData)"

definition parsePullResp :: "gw_lib \<Rightarrow> GwPullResp \<Rightarrow> bytes \<Rightarrow> u64 \<Rightarrow> (code \<times> GwPullResp) option" where
  "parsePullResp L retVal json gwId =
    map_option (\<lambda>(_, s). (sh_parseError s, sh_item s))
      (sax_run (resp_event L) (gl_sax L json) (SaxPullResp retVal gwId))"

text \<open>The error is looked up beside the acknowledgement, not in it.\<close>

definition parseTxAck :: "gw_lib \<Rightarrow> u32 \<Rightarrow> bytes \<Rightarrow> (code \<times> u32) option" where
  "parseTxAck L retVal json =
    map_option (\<lambda>js.
      case json_member ''txpk_ack'' js of
        None \<Rightarrow> (ERR_CODE_INVALID_JSON, retVal)
      | Some jAck \<Rightarrow>
          if \<not> json_is_object jAck then (ERR_CODE_INVALID_JSON, retVal)
          else
            (case json_member ''error'' js of
               Some (J_string e) \<Rightarrow> (CODE_OK, string2ERR_CODE_TX e)
             | _ \<Rightarrow> (ERR_CODE_INVALID_JSON, retVal)))
      (gl_dom L json)"

text \<open>
  \<open>buf\<close> is the packet, \<open>gl_behind\<close> the memory behind it.  \<open>ntoh_SEMTECH_PREFIX_GW\<close> changes nothing:
  its function is compiled under \<open>IS_LITTLE_ENDIAN\<close>, which nothing defines, and without it the name
  is a macro with an empty block.  So the token and the identifier are read as the machine orders
  their bytes, and the packet stays as it came.  The size of a document that would begin behind the
  end of the packet wraps, and the JSON parser leaves the memory; the document of an acknowledgement
  is taken to have the size of the prefix.
\<close>

definition udp_parse ::
    "gw_lib \<Rightarrow> ParseResult \<Rightarrow> bytes \<Rightarrow> TASK_TIME \<Rightarrow> (code \<times> ParseResult \<times> bytes) option" where
  "udp_parse L pr buf receivedTime =
    (if length buf \<le> SIZE_SEMTECH_PREFIX then Some (ERR_CODE_INVALID_PACKET, pr, buf)
     else if buf ! 0 \<noteq> 2 then Some (ERR_CODE_INVALID_PACKET, pr, buf)
     else
       let tag = buf ! 3;
           pr = pr\<lparr>pr_tag := tag, pr_token := prefix_token buf\<rparr>;
           m = buf @ gl_behind L;
           gw = prefix_mac m;
           prg = pr\<lparr>pr_gwId := gw\<rparr>
       in
         if tag = 0 then
           (if length buf < SIZE_SEMTECH_PREFIX_GW then None
            else map_option (\<lambda>(r, d). (r, prg\<lparr>pr_data := PR_push d\<rparr>, buf))
              (parsePushData L (gl_push L (pr_data pr)) (drop SIZE_SEMTECH_PREFIX_GW buf) gw receivedTime))
         else if tag = 2 then
           (if length buf < SIZE_SEMTECH_PREFIX_GW then None
            else map_option (\<lambda>(r, d). (r, prg\<lparr>pr_data := PR_pull d\<rparr>, buf))
              (parsePullData L (drop SIZE_SEMTECH_PREFIX_GW buf)))
         else if tag = 3 then
           map_option (\<lambda>(r, d). (r, pr\<lparr>pr_gwId := 0, pr_data := PR_resp d\<rparr>, buf))
             (parsePullResp L (gl_resp L (pr_data pr)) (drop SIZE_SEMTECH_PREFIX buf) 0)
         else if tag = 5 then
           (if length m < 2 * SIZE_SEMTECH_PREFIX_GW then None
            else map_option (\<lambda>(r, c). (r, prg\<lparr>pr_code := c\<rparr>, buf))
              (parseTxAck L (pr_code pr) (mem_read m SIZE_SEMTECH_PREFIX_GW SIZE_SEMTECH_PREFIX_GW)))
         else Some (ERR_CODE_INVALID_PACKET, pr, buf))"

section \<open>Acknowledging and sending\<close>

definition SIZE_SEMTECH_ACK :: nat where "SIZE_SEMTECH_ACK = 4"

text \<open>The packet with the next tag; the size of the buffer is not looked at.  The buffer keeps what
  was copied before the version is checked.\<close>

definition udp_ack :: "nat \<Rightarrow> bytes \<Rightarrow> int \<times> bytes" where
  "udp_ack retSize packet =
    (if length packet < SIZE_SEMTECH_ACK then (ERR_CODE_SEND_ACK, [])
     else
       let a = take SIZE_SEMTECH_ACK packet
       in if a ! 0 \<noteq> 2 then (ERR_CODE_SEND_ACK, a)
          else (int SIZE_SEMTECH_ACK, a[3 := a ! 3 + 1]))"

definition tmstAddMS :: "u32 \<Rightarrow> u32 \<Rightarrow> u32" where
  "tmstAddMS value addValue = value + addValue * 1000"

definition udp_prefix :: "u16 \<Rightarrow> u64 \<Rightarrow> bytes" where
  "udp_prefix tok gwId = [2] @ le_bytes 2 tok @ [2] @ le_bytes 8 gwId"

text \<open>
  The JSON text of a packet to send.  \<open>name n\<close> is a member's name in quotes.  With metadata a
  quote follows the frequency deviation, which is a number; the last quote belongs to the packet
  and is written also where there is none.
\<close>

definition tx_name :: "nat \<Rightarrow> string" where
  "tx_name n = [CHR 0x22] @ SAX_METADATA_TX_NAMES ! n @ [CHR 0x22]"

definition tx_tail :: "bool \<Rightarrow> u16 \<Rightarrow> bool \<Rightarrow> nat \<Rightarrow> string \<Rightarrow> string" where
  "tx_tail invert_pol preamble no_crc sz data =
    tx_name 11 @ '': '' @ show_bool invert_pol @ '','' @ tx_name 12 @ '': '' @ show_word preamble @ '','' @
    tx_name 15 @ '': '' @ show_bool no_crc @ '','' @ tx_name 13 @ '':'' @ show_nat sz @
    (if data = [] then [] else '','' @ tx_name 14 @ '':'' @ CHR 0x22 # data)"

definition tx_radio :: "u32 \<Rightarrow> int \<Rightarrow> u32 \<Rightarrow> u32 \<Rightarrow> u32 \<Rightarrow> u32 \<Rightarrow> string" where
  "tx_radio freq pwr modu bandwidth sf cr =
    '','' @ tx_name 4 @ '':'' @ freq2string freq @ '','' @ tx_name 5 @ '':0,'' @ tx_name 6 @ '':'' @
    show_int pwr @ '','' @ tx_name 7 @ '':'' @ quoted (MODULATION2String modu) @ '','' @
    tx_name 8 @ '':'' @ quoted (DATA_RATE2string2 bandwidth sf) @ '','' @
    tx_name 9 @ '':'' @ quoted (codingRate2string cr) @ '','' @ tx_name 10 @ '': ''"

definition pull_with_metadata ::
    "metadata_tx \<Rightarrow> CHANNEL_PLAN option \<Rightarrow> nat \<Rightarrow> string \<Rightarrow> string" where
  "pull_with_metadata m plan sz data =
    (if tx_count_us m \<noteq> 0 then tx_name 2 @ '':'' @ show_word (tmstAddMS (tx_count_us m) 1000)
     else tx_name 1 @ '':true'') @
    tx_radio (tx_freq_hz m) (gwPowerTx plan) (ucast (tx_modulation m)) (ucast (tx_bandwidth m)) (tx_datarate m)
      (ucast (tx_coderate m)) @
    show_word (tx_f_dev m) @ CHR 0x22 # '','' @
    tx_tail (tx_invert_pol m) (tx_preamble m) (tx_no_crc m) sz data"

definition pull_with_plan :: "transmission \<Rightarrow> nat \<Rightarrow> string \<Rightarrow> string" where
  "pull_with_plan t sz data =
    tx_name 1 @ '':true'' @
    tx_radio (tm_freqHz t) (tm_pwr t) MOD_LORA (tm_bandwidth t) (tm_spreadingFactor t) (tm_codingRate t) @
    show_word (tm_fdev t) @ '','' @ tx_tail (tm_invert_pol t) (tm_preamble_size t) (tm_no_crc t) sz data"

text \<open>
  \<open>base64\<close> leaves the packet of the builder enciphered, \<open>size\<close> sees it so.  \<open>beyond\<close> is what
  a plan that is too short gives; \<open>Some\<close> is true.
\<close>

definition makePullStream ::
    "cipher \<Rightarrow> bytes \<Rightarrow> bytes \<Rightarrow> (CHANNEL_PLAN \<Rightarrow> nat \<Rightarrow> transmission) \<Rightarrow> u64 \<Rightarrow>
     LORAWAN_MESSAGE_STORAGE \<times> TaskDescriptor \<Rightarrow> u16 \<Rightarrow> metadata_tx option \<Rightarrow> CHANNEL_PLAN option \<Rightarrow>
     bytes option" where
  "makePullStream E junk stack beyond gwId builder tok meta plan =
    (case builder of (msg, td) \<Rightarrow>
       let (_, _, msg') = storage_toArray E junk (Some stack) 300 (Some (deviceId td)) msg;
           data = MessageBuilder_base64 E junk stack (deviceId td) msg;
           sz = fst (storage_toArray E junk None 0 (Some (deviceId td)) msg');
           head = udp_prefix tok gwId @ text_bytes (''{'' @ tx_name 0 @ '':{'');
           body = (case meta of
               Some m \<Rightarrow> Some (pull_with_metadata m plan sz data)
             | None \<Rightarrow> map_option (\<lambda>p.
                 pull_with_plan (case ChannelPlan_get sz p of Some t \<Rightarrow> t | None \<Rightarrow> beyond p sz) sz data) plan)
       in map_option (\<lambda>b. head @ text_bytes (b @ [CHR 0x22] @ ''}}'')) body)"

text \<open>The size of the text, also where the buffer is too small and left as it is.\<close>

definition udp_makePull ::
    "cipher \<Rightarrow> bytes \<Rightarrow> bytes \<Rightarrow> (CHANNEL_PLAN \<Rightarrow> nat \<Rightarrow> transmission) \<Rightarrow> bytes \<Rightarrow> nat \<Rightarrow> u64 \<Rightarrow>
     LORAWAN_MESSAGE_STORAGE \<times> TaskDescriptor \<Rightarrow> u16 \<Rightarrow> metadata_tx option \<Rightarrow> CHANNEL_PLAN option \<Rightarrow>
     int \<times> bytes" where
  "udp_makePull E junk stack beyond retBuf retSize gwId builder tok meta plan =
    (case makePullStream E junk stack beyond gwId builder tok meta plan of
       None \<Rightarrow> (ERR_CODE_PARAM_INVALID, retBuf)
     | Some s \<Rightarrow> (int (length s), if retSize \<ge> length s then mem_write retBuf 0 s else retBuf))"

definition udp_name :: string where "udp_name = ''LNS''"
definition udp_tag :: int where "udp_tag = 1"

text \<open>The parser as the dispatcher knows it; \<open>retBuf\<close> is the dispatcher's buffer on the stack,
  \<open>plans\<close> the objects its plan pointers point to.\<close>

definition GatewayBasicUdpProtocol ::
    "gw_lib \<Rightarrow> cipher \<Rightarrow> bytes \<Rightarrow> bytes \<Rightarrow> (CHANNEL_PLAN \<Rightarrow> nat \<Rightarrow> transmission) \<Rightarrow> bytes \<Rightarrow> (nat \<Rightarrow> CHANNEL_PLAN) \<Rightarrow>
     ProtoGwParser" where
  "GatewayBasicUdpProtocol L E junk stack beyond retBuf plans =
    \<lparr>p_parse = udp_parse L, p_ack = udp_ack,
     p_makePull = (\<lambda>n gw b tok meta plan it.
       udp_makePull E junk stack beyond retBuf n gw b tok meta (map_option plans plan))\<rparr>"

section \<open>Lemmas\<close>

lemma storage_memory_size: "length (storage_memory s) = length (mdata s) + 5"
  by (simp add: storage_memory_def)

lemma length_set_storage: "length (mdata s) = 262 \<Longrightarrow> length (mdata (set_storage b n s)) = 262"
  by (auto simp: set_storage_def Let_def storage_of_memory_def mem_read_def storage_memory_size mem_write_def)

lemma length_base64_set_storage:
  "length (mdata s) = 262 \<Longrightarrow> length (mdata (snd (base64_set_storage v s))) = 262"
  by (auto simp: base64_set_storage_def length_set_storage split: option.split)

lemma push_event_size:
  "length (mdata (rxData (sh_item s))) = 262 \<Longrightarrow> push_event L e s = Some (ok, s') \<Longrightarrow>
    length (mdata (rxData (sh_item s'))) = 262"
  by (cases e) (auto simp: on_item_def push_string_def length_base64_set_storage Let_def
      split: if_splits option.splits)

text \<open>The union's memory always has the size of the packet in it, and a message in it is read as it
  was written.\<close>

definition lib_ok :: "gw_lib \<Rightarrow> bool" where
  "lib_ok L \<longleftrightarrow> (\<forall>u. length (mdata (rxData (gl_push L u))) = 262) \<and>
    (\<forall>g. length (mdata (rxData g)) = 262 \<longrightarrow> gl_push L (PR_push g) = g)"

lemma udp_parse_size:
  assumes "lib_ok L" "udp_parse L pr buf t = Some (CODE_OK, pr', buf')" "pr_data pr' = PR_push g"
    "pr_tag pr' = 0"
  shows "length (mdata (rxData g)) = 262"
proof -
  from assms(2-4) obtain gw s where "sax_run (push_event L) (gl_sax L (drop 12 buf')) (SaxPushData (gl_push L (pr_data pr)) gw t)
      = Some s" "g = sh_item (snd s)"
    by (auto simp: udp_parse_def parsePushData_def Let_def SIZE_SEMTECH_PREFIX_GW_def
        split: if_splits)
  then show ?thesis
    using sax_run_invariant [where P = "\<lambda>s. length (mdata (rxData (sh_item s))) = 262" and h = "push_event L",
        OF push_event_size, where s = "SaxPushData (gl_push L (pr_data pr)) gw t" and s' = "snd s"
          and es = "gl_sax L (drop 12 buf')" and ok = "fst s"] assms(1)
    by (simp add: SaxPushData_def lib_ok_def)
qed

text \<open>A gateway's environment with this parser is one the dispatcher relies on.\<close>

lemma udp_env_ok:
  assumes "\<And>p. \<exists>E junk stack beyond retBuf plans. e_parser env p = GatewayBasicUdpProtocol L E junk stack beyond retBuf plans"
    "lib_ok L"
  shows "env_ok env"
proof -
  have "p_parse (e_parser env p) = udp_parse L" for p
    using assms(1) [of p] by (auto simp: GatewayBasicUdpProtocol_def)
  then show ?thesis
    using udp_parse_size [OF assms(2)]
    by (auto simp: env_ok_def split: option.split pr_union.split)
qed

section \<open>Documents of gateways\<close>

text \<open>A packet in the list \<open>rxpk\<close>; the texts are as the gateway writes them.\<close>

record rxpk =
  k_tmst :: u32
  k_chan :: u8
  k_rfch :: u8
  k_freq :: u64
  k_stat :: u8
  k_modu :: string
  k_datr :: string
  k_codr :: string
  k_rssi :: u16
  k_lsnr :: u64
  k_data :: bytes

definition packet_events :: "rxpk \<Rightarrow> sax_event list" where
  "packet_events r =
    [Start_object, Key ''tmst'', Number_unsigned (unat (k_tmst r)), Key ''chan'', Number_unsigned (unat (k_chan r)),
     Key ''rfch'', Number_unsigned (unat (k_rfch r)), Key ''freq'', Number_float (k_freq r),
     Key ''stat'', Number_unsigned (unat (k_stat r)), Key ''modu'', String_value (k_modu r),
     Key ''datr'', String_value (k_datr r), Key ''codr'', String_value (k_codr r),
     Key ''lsnr'', Number_float (k_lsnr r), Key ''rssi'', Number_integer (sint (k_rssi r)),
     Key ''size'', Number_unsigned (length (k_data r)),
     Key ''data'', String_value (base64_encode (k_data r) False), End_object]"

definition rxpk_events :: "rxpk list \<Rightarrow> sax_event list" where
  "rxpk_events rs =
    Start_object # Key ''rxpk'' # Start_array # concat (map packet_events rs) @ [End_array, End_object]"

definition stored_rx :: "gw_lib \<Rightarrow> rxpk \<Rightarrow> metadata_rx \<Rightarrow> metadata_rx" where
  "stored_rx L r m =
    m\<lparr>rx_tmst := k_tmst r, rx_chan := k_chan r, rx_rfch := k_rfch r,
      rx_freq := ucast (to_unsigned (gl_u16 L) (dbl_mega (k_freq r))), rx_stat := k_stat r,
      rx_modu := string2MODULATION (k_modu r),
      rx_spreadingFactor := fst (the (string2datr (gl_bandwidth L) (k_datr r))),
      rx_bandwidth := snd (the (string2datr (gl_bandwidth L) (k_datr r))),
      rx_codingRate := string2codingRate (k_codr r), rx_lsnr := dbl_float (k_lsnr r), rx_rssi := k_rssi r\<rparr>"

lemma rx_name_simps [simp]:
  "getMetadataRxNameIndex ''rxpk'' = 0" "getMetadataRxNameIndex ''time'' = 1"
  "getMetadataRxNameIndex ''tmst'' = 3" "getMetadataRxNameIndex ''freq'' = 4"
  "getMetadataRxNameIndex ''chan'' = 5" "getMetadataRxNameIndex ''rfch'' = 6"
  "getMetadataRxNameIndex ''stat'' = 7" "getMetadataRxNameIndex ''modu'' = 8"
  "getMetadataRxNameIndex ''datr'' = 9" "getMetadataRxNameIndex ''codr'' = 10"
  "getMetadataRxNameIndex ''rssi'' = 11" "getMetadataRxNameIndex ''lsnr'' = 12"
  "getMetadataRxNameIndex ''size'' = 13" "getMetadataRxNameIndex ''data'' = 14"
  by code_simp+

text \<open>The state of the handler: the packet is over an older one, the error is none.\<close>

definition push_at :: "(GwPushData \<Rightarrow> bool) \<Rightarrow> GwPushData sax_handler \<Rightarrow> bool" where
  "push_at P s \<longleftrightarrow> P (sh_item s) \<and> sh_parseError s = CODE_OK"

lemma runs_packet:
  assumes "string2datr (gl_bandwidth L) (k_datr r) \<noteq> None" "sh_parseError s = CODE_OK"
  shows "sax_runs (push_event L) (packet_events r) s
    (push_at (\<lambda>d. d = \<lparr>rxData = set_storage (k_data r) (length (k_data r)) (rxData (sh_item s)),
      rxMetadata = stored_rx L r (rxMetadata (sh_item s))\<rparr>))"
proof -
  obtain sf b where d: "string2datr (gl_bandwidth L) (k_datr r) = Some (sf, b)" using assms(1) by auto
  have e: "base64_set_storage (base64_encode (k_data r) False) m = (True, set_storage (k_data r) (length (k_data r)) m)" for m
    by (rule base64_set_storage_encode)
  show ?thesis
    using assms(2) d
    by (simp add: packet_events_def runs_Cons on_item_def push_unsigned_def push_float_def push_string_def
        push_integer_def push_at_def stored_rx_def e Let_def)
qed

lemma mac_behind: "12 \<le> length buf \<Longrightarrow> prefix_mac (buf @ m) = from_le (mem_read buf 4 8)"
  by (simp add: prefix_mac_def mem_read_def)

lemma runs_rxpk:
  assumes "list_all (\<lambda>r. string2datr (gl_bandwidth L) (k_datr r) \<noteq> None) rs" "rs \<noteq> []"
    "sh_parseError s = CODE_OK"
  shows "sax_runs (push_event L) (rxpk_events rs) s
    (push_at (\<lambda>d. \<exists>old m. d = \<lparr>rxData = set_storage (k_data (last rs)) (length (k_data (last rs))) old,
      rxMetadata = stored_rx L (last rs) m\<rparr> \<and> rx_gatewayId m = rx_gatewayId (rxMetadata (sh_item s)) \<and>
      rx_t m = rx_t (rxMetadata (sh_item s)) \<and> rx_bps m = rx_bps (rxMetadata (sh_item s))))"
proof -
  define same :: "metadata_rx \<Rightarrow> bool" where "same m \<longleftrightarrow> rx_gatewayId m = rx_gatewayId (rxMetadata (sh_item s)) \<and>
      rx_t m = rx_t (rxMetadata (sh_item s)) \<and> rx_bps m = rx_bps (rxMetadata (sh_item s))" for m
  have same_stored: "same (stored_rx L r m) = same m" for r m by (simp add: same_def stored_rx_def)
  define I where "I ys = push_at (\<lambda>d. same (rxMetadata d) \<and>
    (ys \<noteq> [] \<longrightarrow> (\<exists>old m. same m \<and> d = \<lparr>rxData = set_storage (k_data (last ys)) (length (k_data (last ys))) old,
      rxMetadata = stored_rx L (last ys) m\<rparr>)))" for ys :: "rxpk list"
  have start: "sax_runs (push_event L) [Start_object, Key ''rxpk'', Start_array] s (I [])"
    using assms(3) by (simp add: runs_Cons I_def push_at_def same_def)
  have member: "sax_runs (push_event L) (packet_events x) s' (I (ys @ [x]))"
    if "rs = ys @ x # zs" "I ys s'" for ys x zs s'
  proof (rule runs_mono [OF runs_packet])
    show "string2datr (gl_bandwidth L) (k_datr x) \<noteq> None" using assms(1) that(1) by simp
  qed (use that(2) in \<open>auto simp: I_def push_at_def same_stored\<close>)
  have finish: "sax_runs (push_event L) [End_array, End_object] s' (push_at P)" if "push_at P s'" for s' P
    using that by (simp add: runs_Cons push_at_def)
  have "sax_runs (push_event L) ([Start_object, Key ''rxpk'', Start_array] @ concat (map packet_events rs) @
      [End_array, End_object]) s (I rs)"
    unfolding I_def
    by (rule runs_seq [OF start runs_seq [OF runs_concat [of rs I, OF member] finish]]) (simp_all add: I_def)
  then have "sax_runs (push_event L) (rxpk_events rs) s (I rs)" by (simp add: rxpk_events_def)
  then show ?thesis
    by (rule runs_mono) (use assms(2) in \<open>auto simp: I_def push_at_def same_def\<close>)
qed

section \<open>Reports\<close>

fun scalar :: "sax_event \<Rightarrow> bool" where
  "scalar Null = True"
| "scalar (Boolean b) = True"
| "scalar (Number_integer i) = True"
| "scalar (Number_unsigned n) = True"
| "scalar (Number_float d) = True"
| "scalar (String_value s) = True"
| "scalar _ = False"

text \<open>The report on a gateway: members none of which belongs to a packet, but perhaps a time.\<close>

definition stat_events :: "(string \<times> sax_event) list \<Rightarrow> sax_event list" where
  "stat_events kvs =
    Start_object # Key ''stat'' # Start_object # concat (map (\<lambda>(k, v). [Key k, v]) kvs) @ [End_object, End_object]"

definition report_ok :: "(string \<times> sax_event) list \<Rightarrow> bool" where
  "report_ok kvs \<longleftrightarrow> list_all (\<lambda>(k, v). getMetadataRxNameIndex k \<le> 1 \<and> scalar v) kvs"

definition seen_by :: "u64 \<Rightarrow> GwPushData \<Rightarrow> GwPushData \<Rightarrow> bool" where
  "seen_by gw g d \<longleftrightarrow>
    (\<exists>x. d = g\<lparr>rxMetadata := (rxMetadata g)\<lparr>rx_gatewayId := gw, rx_t := x\<rparr>\<rparr>)"

lemma seen_by_time: "seen_by gw g d \<Longrightarrow> seen_by gw g (d\<lparr>rxMetadata := (rxMetadata d)\<lparr>rx_t := x\<rparr>\<rparr>)"
  by (auto simp: seen_by_def)

lemma push_event_time:
  assumes "sh_nameIndex s \<le> 1" "scalar v" "push_at (seen_by gw g) s"
  shows "sax_runs (push_event L) [v] s (push_at (seen_by gw g))"
proof -
  have "sh_nameIndex s = 0 \<or> sh_nameIndex s = 1" using assms(1) by auto
  then have "push_integer (sh_nameIndex s) i m = m" "push_unsigned (sh_nameIndex s) n m = m"
    "push_float L (sh_nameIndex s) x m = m"
    "push_string L (sh_nameIndex s) w d \<in> {Some d, Some (d\<lparr>rxMetadata := (rxMetadata d)\<lparr>rx_t := gl_date L (c_string w)\<rparr>\<rparr>)}"
    for i m n x w d
    by (elim disjE; simp add: push_integer_def push_unsigned_def push_float_def push_string_def)+
  note same = this
  show ?thesis
  proof (cases v)
    case (String_value w)
    then show ?thesis
      using assms(3) same(4) [of w "sh_item s"]
      by (auto simp: runs_Cons on_item_def push_at_def seen_by_time)
  qed (use assms(2,3) in \<open>simp_all add: runs_Cons on_item_def push_at_def same(1-3)\<close>)
qed

lemma runs_stat:
  assumes "report_ok kvs" "push_at (seen_by gw g) s"
  shows "sax_runs (push_event L) (stat_events kvs) s (push_at (seen_by gw g))"
proof -
  let ?I = "push_at (seen_by gw g)"
  have start: "sax_runs (push_event L) [Start_object, Key ''stat'', Start_object] s ?I"
    using assms(2) by (simp add: runs_Cons push_at_def)
  have member: "sax_runs (push_event L) ((\<lambda>(k, v). [Key k, v]) x) s' ?I"
    if "kvs = ys @ x # zs" "?I s'" for ys x zs s'
  proof (cases x)
    case (Pair k v)
    then have "getMetadataRxNameIndex k \<le> 1" "scalar v" using assms(1) that(1) by (auto simp: report_ok_def)
    then show ?thesis
      using push_event_time [of "s'\<lparr>sh_nameIndex := getMetadataRxNameIndex k\<rparr>" v gw g L] that(2)
      by (simp add: Pair runs_Cons [of _ "Key k"] push_at_def)
  qed
  have finish: "sax_runs (push_event L) [End_object, End_object] s' ?I" if "?I s'" for s'
    using that by (simp add: runs_Cons push_at_def)
  have "sax_runs (push_event L) ([Start_object, Key ''stat'', Start_object] @
      concat (map (\<lambda>(k, v). [Key k, v]) kvs) @ [End_object, End_object]) s ?I"
    by (rule runs_seq [OF start runs_seq [OF runs_concat [of kvs "\<lambda>_. ?I", OF member] finish]]) simp_all
  then show ?thesis by (simp add: stat_events_def)
qed

lemma sum_list_two:
  fixes f :: "string \<times> json \<Rightarrow> nat"
  shows "map_of ms k = Some a \<Longrightarrow> map_of ms l = Some b \<Longrightarrow> k \<noteq> l \<Longrightarrow> f (k, a) + f (l, b) \<le> sum_list (map f ms)"
proof (induction ms)
  case (Cons p ms)
  have one: "map_of ms i = Some c \<Longrightarrow> f (i, c) \<le> sum_list (map f ms)" for i c
    by (rule member_le_sum_list) (auto dest: map_of_SomeD)
  show ?case
    using Cons one [of k a] one [of l b] by (cases p) (auto split: if_splits)
qed simp

lemma ack_document_size:
  assumes "json_member ''txpk_ack'' js = Some jAck" "json_is_object jAck" "json_member ''error'' js = Some (J_string e)"
  shows "26 \<le> json_size js"
proof (cases js)
  case (J_object ms)
  have "2 \<le> json_size jAck"
  proof (cases jAck)
    case (J_object xs)
    then show ?thesis by (cases xs) auto
  qed (use assms(2) in auto)
  then show ?thesis
    using sum_list_two [of ms "''txpk_ack''" jAck "''error''" "J_string e" "\<lambda>(k, j). length k + json_size j + 4"]
      assms J_object by (cases ms) auto
qed (use assms in auto)

section \<open>Examples\<close>

definition push0 :: GwPushData where
  "push0 = \<lparr>rxData = storage_default, rxMetadata = rx_of_bytes (replicate 53 0)\<rparr>"

text \<open>A JSON library that reads the same document from any text.\<close>

definition udp_lib :: "sax_event list \<Rightarrow> gw_lib" where
  "udp_lib es =
    \<lparr>gl_sax = (\<lambda>_. es), gl_dom = (\<lambda>b. if 2 \<le> length b then Some (J_object []) else None), gl_date = (\<lambda>_. 0),
     gl_bandwidth = 0, gl_u16 = word_of_int, gl_u32 = word_of_int,
     gl_push = (\<lambda>u. case u of PR_push g \<Rightarrow> if length (mdata (rxData g)) = 262 then g else push0 | _ \<Rightarrow> push0),
     gl_resp = (\<lambda>u. \<lparr>resp_gwId = 0, resp_txData = storage_default, resp_txMetadata = txMetadata pull_zero\<rparr>),
     gl_behind = replicate 64 0\<rparr>"

definition datagram :: "u8 \<Rightarrow> bytes" where
  "datagram tag = [2, 0x12, 0x34, tag, 0xaa, 0x55, 0x5a, 0, 0, 0, 1, 1, 0x7b, 0x7d]"

lemma datagram_simps [simp]:
  "length (datagram t) = 14" "datagram t ! 0 = 2" "datagram t ! 3 = t"
  by (simp_all add: datagram_def)

definition rxpk_ex :: rxpk where
  "rxpk_ex = \<lparr>k_tmst = 3512348611, k_chan = 2, k_rfch = 0, k_freq = 0x408b20c9ba5e353f, k_stat = 1, k_modu = ''LORA'',
     k_datr = ''SF7BW125'', k_codr = ''4/6'', k_rssi = 0xffdd, k_lsnr = 0x4014666666666666,
     k_data = [0x40, 4, 3, 2, 1, 0, 1, 0, 1, 0xaa, 1, 2, 3, 4]\<rparr>"

lemma rxpk_ex_datr: "string2datr 0 (k_datr rxpk_ex) \<noteq> None"
  by code_simp

section \<open>Properties\<close>

text \<open>C8: A datagram of at least 12 bytes, of version 2 and with the tag of pushed data, is accepted
  when its document is a list of one or more packets, each with the members of \<open>packet_events\<close> in
  that order and a data rate that can be read.  Of its packets the last is stored: its bytes, its time
  stamp, channel, chain, status, modulation, rates, signal strength and noise ratio, with the time of
  reception in seconds and the identifier of the gateway, whose eight bytes in the prefix are read low
  byte first.  The packets before it are lost.  The frequency is below 65536, whatever the gateway
  wrote, because it is cut to 16 bits.\<close>

theorem push_keeps_last_packet:
  assumes "length buf \<ge> 12" "buf ! 0 = 2" "buf ! 3 = 0" "gl_sax L (drop 12 buf) = rxpk_events rs" "rs \<noteq> []"
    "list_all (\<lambda>r. string2datr (gl_bandwidth L) (k_datr r) \<noteq> None) rs"
  shows "\<exists>pr' buf' old m. udp_parse L pr buf t = Some (CODE_OK, pr', buf') \<and>
    pr_data pr' = PR_push \<lparr>rxData = set_storage (k_data (last rs)) (length (k_data (last rs))) old,
      rxMetadata = stored_rx L (last rs) m\<rparr> \<and>
    rx_gatewayId m = from_le (mem_read buf 4 8) \<and> rx_t m = word_of_int (ns_to_s t) \<and>
    pr_tag pr' = 0 \<and> pr_gwId pr' = from_le (mem_read buf 4 8) \<and>
    unat (rx_freq (stored_rx L (last rs) m)) < 65536"
proof -
  let ?m = "buf @ gl_behind L"
  have m: "prefix_mac ?m = from_le (mem_read buf 4 8)" by (rule mac_behind [OF assms(1)])
  let ?s = "SaxPushData (gl_push L (pr_data pr)) (prefix_mac ?m) t"
  obtain s' where s': "sax_run (push_event L) (rxpk_events rs) ?s = Some (True, s')" "sh_parseError s' = CODE_OK"
    and "\<exists>old m. sh_item s' = \<lparr>rxData = set_storage (k_data (last rs)) (length (k_data (last rs))) old,
      rxMetadata = stored_rx L (last rs) m\<rparr> \<and> rx_gatewayId m = rx_gatewayId (rxMetadata (sh_item ?s)) \<and>
      rx_t m = rx_t (rxMetadata (sh_item ?s))"
    using runs_rxpk [OF assms(6,5), of ?s] by (auto simp: sax_runs_def push_at_def SaxPushData_def)
  then obtain old m where item: "sh_item s' = \<lparr>rxData = set_storage (k_data (last rs)) (length (k_data (last rs))) old,
      rxMetadata = stored_rx L (last rs) m\<rparr>" "rx_gatewayId m = prefix_mac ?m" "rx_t m = word_of_int (ns_to_s t)"
    by (auto simp: SaxPushData_def)
  have "unat (ucast (v :: u16) :: u32) < 65536" for v
    using unsigned_less [of v, where ?'a = nat] by (simp add: unsigned_ucast_eq take_bit_nat_eq_self)
  then have f: "unat (rx_freq (stored_rx L (last rs) m)) < 65536" by (simp add: stored_rx_def)
  show ?thesis
    using assms(1-4) m s' item f
    by (auto simp: udp_parse_def Let_def SIZE_SEMTECH_PREFIX_def SIZE_SEMTECH_PREFIX_GW_def parsePushData_def)
qed

theorem push_keeps_last_packet_witness:
  "\<exists>pr' buf' old m. udp_parse (udp_lib (rxpk_events [rxpk_ex, rxpk_ex])) pr0 (datagram 0) 0 = Some (CODE_OK, pr', buf') \<and>
    pr_data pr' = PR_push \<lparr>rxData = set_storage (k_data (last [rxpk_ex, rxpk_ex])) (length (k_data (last [rxpk_ex, rxpk_ex]))) old,
      rxMetadata = stored_rx (udp_lib (rxpk_events [rxpk_ex, rxpk_ex])) (last [rxpk_ex, rxpk_ex]) m\<rparr> \<and>
    rx_gatewayId m = from_le (mem_read (datagram 0) 4 8) \<and> rx_t m = word_of_int (ns_to_s 0) \<and>
    pr_tag pr' = 0 \<and> pr_gwId pr' = from_le (mem_read (datagram 0) 4 8) \<and>
    unat (rx_freq (stored_rx (udp_lib (rxpk_events [rxpk_ex, rxpk_ex])) (last [rxpk_ex, rxpk_ex]) m)) < 65536"
  by (rule push_keeps_last_packet) (simp_all add: udp_lib_def rxpk_ex_datr [simplified])

text \<open>A report on a gateway's state, or any other object without the members of a packet, is
  accepted as a packet: the one parsed before, from whatever gateway, now with the identifier of the
  gateway that reports and perhaps another time.  The dispatcher takes it for a reception of that
  packet by that gateway.\<close>

theorem report_repeats_packet:
  assumes "length buf \<ge> 12" "buf ! 0 = 2" "buf ! 3 = 0" "gl_sax L (drop 12 buf) = stat_events kvs" "report_ok kvs"
    "pr_data pr = PR_push g" "gl_push L (PR_push g) = g"
  shows "\<exists>pr' buf' d. udp_parse L pr buf t = Some (CODE_OK, pr', buf') \<and>
    seen_by (from_le (mem_read buf 4 8)) g d \<and>
    on_parsed env t sock src p pr' buf' disp = pushData env sock src d t p disp"
proof -
  let ?m = "buf @ gl_behind L"
  have m: "prefix_mac ?m = from_le (mem_read buf 4 8)" by (rule mac_behind [OF assms(1)])
  let ?s = "SaxPushData (gl_push L (pr_data pr)) (prefix_mac ?m) t"
  have start: "push_at (seen_by (prefix_mac ?m) g) ?s"
    using assms(6,7) by (auto simp: push_at_def seen_by_def SaxPushData_def)
  then obtain s' where "sax_run (push_event L) (stat_events kvs) ?s = Some (True, s')" "sh_parseError s' = CODE_OK"
    "seen_by (prefix_mac ?m) g (sh_item s')"
    using runs_stat [OF assms(5) start, of L] by (auto simp: sax_runs_def push_at_def)
  then show ?thesis
    using assms(1-4) m
    by (auto simp: udp_parse_def Let_def SIZE_SEMTECH_PREFIX_def SIZE_SEMTECH_PREFIX_GW_def parsePushData_def
        on_parsed_def)
qed

theorem report_repeats_packet_witness:
  "\<exists>pr' buf' d. udp_parse (udp_lib (stat_events [(''rxnb'', Number_unsigned 2)])) pr0 (datagram 0) 0 = Some (CODE_OK, pr', buf') \<and>
    seen_by (from_le (mem_read (datagram 0) 4 8)) push0 d \<and>
    on_parsed env0 0 timer0 SOCKADDR_zero 0 pr' buf' (MessageTaskDispatcher timer0) =
      pushData env0 timer0 SOCKADDR_zero d 0 0 (MessageTaskDispatcher timer0)"
proof (rule report_repeats_packet)
  have "getMetadataRxNameIndex ''rxnb'' = 0" by code_simp
  then show "report_ok [(''rxnb'', Number_unsigned 2)]" by (simp add: report_ok_def)
qed (simp_all add: udp_lib_def pr0_def push0_def storage_default_def)

text \<open>The acknowledgement of a datagram that was parsed has the version and the token as they came;
  a request for data is answered with the tag of a response with data (3), where 4 acknowledges it.\<close>

theorem ack_has_token:
  assumes "udp_parse L pr buf t = Some (c, pr', buf')" "length buf \<ge> 12" "buf ! 0 = 2" "buf ! 3 \<in> {0, 2}"
  shows "udp_ack n buf' = (4, [2, buf ! 1, buf ! 2, buf ! 3 + 1])"
proof -
  have "buf' = buf"
    using assms by (auto simp: udp_parse_def Let_def SIZE_SEMTECH_PREFIX_def SIZE_SEMTECH_PREFIX_GW_def)
  moreover have "\<exists>a0 a1 a2 a3 r. buf = a0 # a1 # a2 # a3 # r \<and> 8 \<le> length r"
    using assms(2) by (auto simp: numeral_eq_Suc Suc_le_length_iff)
  ultimately show ?thesis
    using assms(2-4) by (auto simp: udp_ack_def SIZE_SEMTECH_ACK_def mem_read_def numeral_2_eq_2
        numeral_3_eq_3 numeral_eq_Suc)
qed

theorem ack_has_token_witness:
  "udp_ack 8 (datagram 2) = (4, [2, datagram 2 ! 1, datagram 2 ! 2, datagram 2 ! 3 + 1])"
  by (rule ack_has_token [of "udp_lib [Parse_error 101]" pr0 "datagram 2" 0 "- 101"
        "pr0\<lparr>pr_tag := 2, pr_token := prefix_token (datagram 2),
          pr_gwId := prefix_mac (datagram 2 @ replicate 64 0), pr_data := PR_pull pull_zero\<rparr>"])
    (simp_all add: udp_parse_def parsePullData_def SaxPullData_def udp_lib_def Let_def
      SIZE_SEMTECH_PREFIX_def SIZE_SEMTECH_PREFIX_GW_def)

text \<open>No acknowledgement of a transmission is ever accepted: the parser reads only twelve bytes
  of its document, and looks for the error beside the acknowledgement, where 26 would be needed.
  Either the JSON library raises an exception, which ends the program, or the packet is refused.\<close>

theorem tx_ack_never_accepted:
  assumes "\<And>b j. gl_dom L b = Some j \<Longrightarrow> json_size j \<le> length b"
    "udp_parse L pr buf t = Some (c, pr', buf')" "length buf > 4" "buf ! 0 = 2" "buf ! 3 = 5"
  shows "c = ERR_CODE_INVALID_JSON \<and> pr_code pr' = pr_code pr"
proof -
  let ?b = "mem_read (buf @ gl_behind L) 12 12"
  obtain x where p: "parseTxAck L (pr_code pr) ?b = Some (c, x)" "pr_code pr' = x"
    using assms(2-5)
    by (auto simp: udp_parse_def Let_def SIZE_SEMTECH_PREFIX_def SIZE_SEMTECH_PREFIX_GW_def split: if_splits)
  then obtain js where js: "gl_dom L ?b = Some js" by (auto simp: parseTxAck_def)
  have "json_size js \<le> 12" using assms(1) [OF js] by (simp add: mem_read_def)
  then show ?thesis
    using p js ack_document_size [of js]
    by (fastforce simp: parseTxAck_def split: option.splits if_splits json.splits)
qed

theorem tx_ack_never_accepted_witness:
  "ERR_CODE_INVALID_JSON = ERR_CODE_INVALID_JSON \<and>
    pr_code (pr0\<lparr>pr_tag := 5, pr_token := prefix_token (datagram 5),
      pr_gwId := prefix_mac (datagram 5 @ replicate 64 0)\<rparr>) = pr_code pr0"
proof (rule tx_ack_never_accepted [where L = "udp_lib []" and buf = "datagram 5" and t = 0 and buf' = "datagram 5"])
  show "udp_parse (udp_lib []) pr0 (datagram 5) 0 = Some (ERR_CODE_INVALID_JSON,
      pr0\<lparr>pr_tag := 5, pr_token := prefix_token (datagram 5),
        pr_gwId := prefix_mac (datagram 5 @ replicate 64 0)\<rparr>, datagram 5)"
    by (simp add: udp_parse_def parseTxAck_def udp_lib_def Let_def mem_read_def pr0_def
        SIZE_SEMTECH_PREFIX_def SIZE_SEMTECH_PREFIX_GW_def)
qed (auto simp: udp_lib_def split: if_splits)

text \<open>What is sent to a gateway begins with the prefix of a request for data, with the gateway's
  identifier in the byte order of the machine, as the parser reads it.\<close>

lemma makePull_prefix:
  assumes "makePullStream E junk stack beyond gw b tok meta plan = Some s"
  shows "take 12 s = udp_prefix tok gw" "s ! 3 = 2" "prefix_mac s = gw"
proof -
  obtain r where s: "s = udp_prefix tok gw @ r"
    using assms by (auto simp: makePullStream_def Let_def split: prod.splits option.splits)
  show "take 12 s = udp_prefix tok gw" "s ! 3 = 2"
    by (simp_all add: s udp_prefix_def nth_append)
  have "mem_read s 4 8 = le_bytes 8 gw" by (simp add: s udp_prefix_def mem_read_def)
  then show "prefix_mac s = gw" by (simp add: prefix_mac_def from_le_le_bytes)
qed

text \<open>Without metadata and without a plan nothing is composed.\<close>

lemma makePull_needs_plan:
  "udp_makePull E junk stack beyond buf n gw b tok None None = (ERR_CODE_PARAM_INVALID, buf)"
  by (simp add: udp_makePull_def makePullStream_def Let_def split: prod.split)

text \<open>A datagram shorter than its prefix ends in the JSON parser reading behind it.\<close>

lemma short_prefix_out_of_bounds:
  assumes "4 < length buf" "length buf < 12" "buf ! 0 = 2" "buf ! 3 \<in> {0, 2}"
  shows "udp_parse L pr buf t = None"
  using assms by (auto simp: udp_parse_def Let_def SIZE_SEMTECH_PREFIX_def SIZE_SEMTECH_PREFIX_GW_def)

end
