(* ===== verification/Gw_Wired.thy ===== *)
theory Gw_Wired
  imports Gw_Udp
begin

text \<open>
  The JSON protocol of simulated gateways (\<open>proto/gw/json-wired.cpp\<close>): one object with tag, token,
  gateway, device address, options and payload.  Its handler has the name of the one in
  \<open>basic-udp.cpp\<close>; here each file is taken to be linked with its own.
\<close>

section \<open>Reading\<close>

definition SAX_JSON_WIRED_NAMES :: "string list" where
  "SAX_JSON_WIRED_NAMES = [''tag'', ''token'', ''gateway'', ''devaddr'', ''fopts'', ''payload'']"

text \<open>The search reads a seventh name: an unknown name has no result.\<close>

definition getNameIndex :: "string \<Rightarrow> nat option" where
  "getNameIndex s = find_name SAX_JSON_WIRED_NAMES (c_string s)"

definition wired_push :: "gw_lib \<Rightarrow> ParseResult \<Rightarrow> GwPushData" where
  "wired_push L pr = gl_push L (pr_data pr)"

definition on_push :: "gw_lib \<Rightarrow> (GwPushData \<Rightarrow> GwPushData) \<Rightarrow> ParseResult \<Rightarrow> ParseResult" where
  "on_push L f pr = pr\<lparr>pr_data := PR_push (f (wired_push L pr))\<rparr>"

definition SaxWired :: "gw_lib \<Rightarrow> ParseResult \<Rightarrow> TASK_TIME \<Rightarrow> ParseResult sax_handler" where
  "SaxWired L pr receivedTime =
    \<lparr>sh_nameIndex = 0, sh_startItem = 0,
     sh_item = on_push L (\<lambda>d. d\<lparr>rxMetadata := (rxMetadata d)\<lparr>rx_t := word_of_int (ns_to_s receivedTime)\<rparr>\<rparr>) pr,
     sh_parseError = CODE_OK\<rparr>"

definition wired_number :: "gw_lib \<Rightarrow> nat \<Rightarrow> int \<Rightarrow> ParseResult \<Rightarrow> ParseResult" where
  "wired_number L n val pr =
    (if n = 0 then
       on_push L (\<lambda>d. d\<lparr>rxData := (rxData d)\<lparr>mhdr := mhdr_set_mtype (word_of_int val) (mhdr (rxData d))\<rparr>\<rparr>)
         (pr\<lparr>pr_tag := word_of_int val\<rparr>)
     else if n = 1 then pr\<lparr>pr_token := word_of_int val\<rparr>
     else pr)"

text \<open>
  A payload that reaches beyond the packet's memory has no result.  The size of the payload is
  not stored.
\<close>

definition wired_string :: "gw_lib \<Rightarrow> nat \<Rightarrow> string \<Rightarrow> ParseResult \<Rightarrow> ParseResult option" where
  "wired_string L n val pr =
    (let s = rxData (wired_push L pr);
         h = text_bytes (hex2string val);
         put = (\<lambda>s'. on_push L (\<lambda>d. d\<lparr>rxData := s'\<rparr>) pr) in
     if n = 2 then
       Some (on_push L (\<lambda>d. d\<lparr>rxMetadata := (rxMetadata d)\<lparr>rx_gatewayId := string2gatewayId val\<rparr>\<rparr>) pr)
     else if n = 3 then
       Some (put (s\<lparr>mhdr := mhdr_set_mtype MTYPE_UNCONFIRMED_DATA_UP (mhdr s),
                    mdata := mem_write (mdata s) 0 (le_bytes 4 (string2DEVADDR val))\<rparr>))
     else if n = 4 then Some (put (storage_setFOpts h (length h) s))
     else if n = 5 then
       (if st_payload_offset (mdata s) + length h mod 256 > 262 then None
        else Some (put (storage_setPayload h (length h) s)))
     else Some pr)"

fun wired_event :: "gw_lib \<Rightarrow> sax_event \<Rightarrow> ParseResult sax_handler \<Rightarrow> (bool \<times> ParseResult sax_handler) option" where
  "wired_event L (Number_integer v) s = on_item (\<lambda>pr. Some (wired_number L (sh_nameIndex s) v pr)) s"
| "wired_event L (Number_unsigned v) s = on_item (\<lambda>pr. Some (wired_number L (sh_nameIndex s) (int v) pr)) s"
| "wired_event L (String_value v) s = on_item (wired_string L (sh_nameIndex s) v) s"
| "wired_event L Start_object s = Some (True, s\<lparr>sh_startItem := sh_startItem s + 1\<rparr>)"
| "wired_event L End_object s = Some (True, s\<lparr>sh_startItem := sh_startItem s - 1\<rparr>)"
| "wired_event L (Key k) s =
    (case getNameIndex k of None \<Rightarrow> None | Some i \<Rightarrow> Some (True, s\<lparr>sh_nameIndex := i\<rparr>))"
| "wired_event L (Parse_error e) s = Some (False, s\<lparr>sh_parseError := - e\<rparr>)"
| "wired_event L _ s = Some (True, s)"

definition wired_parsePushData ::
    "gw_lib \<Rightarrow> ParseResult \<Rightarrow> bytes \<Rightarrow> TASK_TIME \<Rightarrow> (code \<times> ParseResult) option" where
  "wired_parsePushData L pr json receivedTime =
    map_option (\<lambda>(_, s). (sh_parseError s, sh_item s))
      (sax_run (wired_event L) (gl_sax L json) (SaxWired L pr receivedTime))"

definition wired_parse ::
    "gw_lib \<Rightarrow> ParseResult \<Rightarrow> bytes \<Rightarrow> TASK_TIME \<Rightarrow> (code \<times> ParseResult \<times> bytes) option" where
  "wired_parse L pr packet receivedTime =
    map_option (\<lambda>(c, pr'). (c, pr', packet)) (wired_parsePushData L pr packet receivedTime)"

section \<open>Acknowledgements\<close>

record GatewayJsonWiredAck =
  wa_tag :: u8
  wa_token :: u16

definition GatewayJsonWiredAck_default :: GatewayJsonWiredAck where
  "GatewayJsonWiredAck_default = \<lparr>wa_tag = 1, wa_token = 0\<rparr>"

definition SAX_JSON_ACK_NAMES :: "string list" where
  "SAX_JSON_ACK_NAMES = [''tag'', ''token'']"

definition getAckIndex :: "string \<Rightarrow> nat option" where
  "getAckIndex s = find_name SAX_JSON_ACK_NAMES (c_string s)"

definition SaxAck :: "GatewayJsonWiredAck option \<Rightarrow> GatewayJsonWiredAck option sax_handler" where
  "SaxAck a = \<lparr>sh_nameIndex = 0, sh_startItem = 0, sh_item = a, sh_parseError = CODE_OK\<rparr>"

definition ack_number :: "nat \<Rightarrow> int \<Rightarrow> GatewayJsonWiredAck option \<Rightarrow> GatewayJsonWiredAck option" where
  "ack_number n val =
    map_option (\<lambda>a. if n = 0 then a\<lparr>wa_tag := word_of_int val\<rparr>
      else if n = 1 then a\<lparr>wa_token := word_of_int val\<rparr> else a)"

fun ack_event ::
    "sax_event \<Rightarrow> GatewayJsonWiredAck option sax_handler \<Rightarrow> (bool \<times> GatewayJsonWiredAck option sax_handler) option" where
  "ack_event (Number_integer v) s = on_item (\<lambda>a. Some (ack_number (sh_nameIndex s) v a)) s"
| "ack_event (Number_unsigned v) s = on_item (\<lambda>a. Some (ack_number (sh_nameIndex s) (int v) a)) s"
| "ack_event (Key k) s =
    (case getAckIndex k of None \<Rightarrow> None | Some i \<Rightarrow> Some (True, s\<lparr>sh_nameIndex := i\<rparr>))"
| "ack_event (Parse_error e) s = Some (False, s\<lparr>sh_parseError := - e\<rparr>)"
| "ack_event _ s = Some (True, s)"

definition parseAck ::
    "gw_lib \<Rightarrow> GatewayJsonWiredAck option \<Rightarrow> bytes \<Rightarrow> (code \<times> GatewayJsonWiredAck option) option" where
  "parseAck L retVal json =
    map_option (\<lambda>(_, s). (sh_parseError s, sh_item s)) (sax_run ack_event (gl_sax L json) (SaxAck retVal))"

text \<open>
  The result of parsing is not looked at; \<open>u\<close> is the new object's memory.  The text goes to the
  caller's buffer whatever its size \<open>retSize\<close> is.
\<close>

definition wired_ack :: "gw_lib \<Rightarrow> ParseResult \<Rightarrow> TASK_TIME \<Rightarrow> nat \<Rightarrow> bytes \<Rightarrow> (int \<times> bytes) option" where
  "wired_ack L u receivedTime retSize packet =
    map_option (\<lambda>(_, pr).
      let s = text_bytes (''{'' @ [CHR 0x22] @ ''tag'' @ [CHR 0x22] @ '': 1, '' @ [CHR 0x22] @ ''token'' @ [CHR 0x22] @
        '': '' @ show_word (pr_token pr) @ ''}'')
      in if length packet < length s then (ERR_CODE_SEND_ACK, []) else (int (length s), s))
      (wired_parsePushData L (ParseResult_default u) packet receivedTime)"

section \<open>Sending\<close>

definition wired_name :: "string \<Rightarrow> string" where
  "wired_name k = [CHR 0x22] @ k @ [CHR 0x22] @ '': ''"

definition makeMessage :: "u16 \<Rightarrow> u64 \<Rightarrow> DEVADDR option \<Rightarrow> bytes \<Rightarrow> bytes \<Rightarrow> string" where
  "makeMessage tok gw a fopts payload =
    ''{'' @ wired_name ''tag'' @ ''0, '' @ wired_name ''token'' @ show_word tok @ '', '' @
    wired_name ''gateway'' @ [CHR 0x22] @ gatewayId2str gw @
    (case a of None \<Rightarrow> [] | Some a \<Rightarrow> [CHR 0x22] @ '', '' @ wired_name ''devaddr'' @ [CHR 0x22] @ DEVADDR2string a) @
    [CHR 0x22] @ '', '' @ wired_name ''fopts'' @ [CHR 0x22] @ hexString fopts @ [CHR 0x22] @ '', '' @
    wired_name ''payload'' @ [CHR 0x22] @ hexString payload @ [CHR 0x22] @ ''}''"

text \<open>The message is written twice; the second time a packet without address has no result.\<close>

definition makeMessage2GatewayStream ::
    "u64 \<Rightarrow> LORAWAN_MESSAGE_STORAGE \<Rightarrow> u16 \<Rightarrow> metadata_tx option \<Rightarrow> (bool \<times> string) option" where
  "makeMessage2GatewayStream gw msg tok meta =
    (case meta of
       None \<Rightarrow> Some (False, [])
     | Some _ \<Rightarrow>
         (case storage_getAddr msg of
            None \<Rightarrow> None
          | Some a \<Rightarrow>
              let m = makeMessage tok gw (Some a) (storage_foptsString msg) (storage_payloadString msg)
              in Some (True, m @ m)))"

definition wired_makePull ::
    "bytes \<Rightarrow> nat \<Rightarrow> u64 \<Rightarrow> LORAWAN_MESSAGE_STORAGE \<Rightarrow> u16 \<Rightarrow> metadata_tx option \<Rightarrow> (int \<times> bytes) option" where
  "wired_makePull retBuf retSize gw msg tok meta =
    map_option (\<lambda>(ok, s).
      if \<not> ok then (ERR_CODE_PARAM_INVALID, retBuf)
      else (int (length s), if retSize \<ge> length s then mem_write retBuf 0 (text_bytes s) else retBuf))
      (makeMessage2GatewayStream gw msg tok meta)"

definition wired_protocol_name :: string where "wired_protocol_name = ''Simple simulation wired JSON protocol''"
definition wired_protocol_tag :: int where "wired_protocol_tag = 11"

section \<open>Lemmas\<close>

lemma mem_read_write: "off + length v \<le> length d \<Longrightarrow> mem_read (mem_write d off v) off (length v) = v"
  by (simp add: mem_read_def mem_write_def)

lemma take_mem_write: "k \<le> off \<Longrightarrow> off \<le> length d \<Longrightarrow> take k (mem_write d off v) = take k d"
  by (simp add: mem_write_def)

lemma nth_mem_write: "k < off \<Longrightarrow> off \<le> length d \<Longrightarrow> mem_write d off v ! k = d ! k"
  by (simp add: mem_write_def nth_append)

text \<open>Options and payload in the memory of a packet.\<close>

lemma setFopts_memory:
  assumes "length d = 262" "length v \<le> 15"
  shows "length (st_setFopts v (of_nat (length v)) d) = 262"
    "st_foptslen (st_setFopts v (of_nat (length v)) d) = length v"
    "st_fopts (st_setFopts v (of_nat (length v)) d) = v"
    "take 4 (st_setFopts v (of_nat (length v)) d) = take 4 d"
proof -
  let ?n = "of_nat (length v) :: u8"
  let ?d = "d[4 := set_foptslen (?n AND 0xf) (d ! 4)]"
  have n: "take_bit 4 (?n AND 0xf) = ?n"
  proof -
    have "unat ?n = length v" using assms(2) by (simp add: unsigned_of_nat take_bit_nat_eq_self)
    then have "take_bit 4 ?n = ?n" using assms(2) by (intro take_bit_eq_self_word) (simp_all add: word_less_nat_alt)
    moreover have "?n AND 0xf = take_bit 4 ?n" by (simp add: take_bit_eq_mask mask_numeral)
    ultimately show ?thesis by simp
  qed
  have f: "foptslen (set_foptslen (?n AND 0xf) c) = ?n" for c by (simp only: foptslen_set n)
  have l: "st_foptslen ?d = length v"
    using assms by (simp add: st_foptslen_def f unsigned_of_nat take_bit_nat_eq_self)
  have e: "st_setFopts v ?n d = mem_write ?d 7 v" by (simp add: st_setFopts_def Let_def l)
  show "length (st_setFopts v ?n d) = 262" using assms by (simp add: e)
  show "take 4 (st_setFopts v ?n d) = take 4 d" using assms(1) by (simp add: e take_mem_write)
  show "st_foptslen (st_setFopts v ?n d) = length v"
    using l assms(1) by (simp add: e st_foptslen_def nth_mem_write)
  then show "st_fopts (st_setFopts v ?n d) = v"
    using assms by (simp add: st_fopts_def e mem_read_write)
qed

lemma setPayload_memory:
  assumes "length d = 262" "st_payload_offset d + length v \<le> 262" "length v < 256"
  shows "length (st_setPayload v (of_nat (length v)) d) = 262"
    "st_foptslen (st_setPayload v (of_nat (length v)) d) = st_foptslen d"
    "st_fopts (st_setPayload v (of_nat (length v)) d) = st_fopts d"
    "take 4 (st_setPayload v (of_nat (length v)) d) = take 4 d"
    "mem_read (st_setPayload v (of_nat (length v)) d) (st_payload_offset d) (length v) = v"
proof -
  have n: "unat (of_nat (length v) :: u8) = length v"
    using assms(3) by (simp add: unsigned_of_nat take_bit_nat_eq_self)
  have e: "st_setPayload v (of_nat (length v)) d = mem_write d (st_payload_offset d) v"
    by (simp add: st_setPayload_def n)
  have o: "7 + st_foptslen d < st_payload_offset d" "8 \<le> st_payload_offset d"
    using st_payload_offset_bounds [of d] by (simp_all add: st_payload_offset_def)
  show "length (st_setPayload v (of_nat (length v)) d) = 262"
    "take 4 (st_setPayload v (of_nat (length v)) d) = take 4 d"
    "mem_read (st_setPayload v (of_nat (length v)) d) (st_payload_offset d) (length v) = v"
    using assms(1,2) o by (simp_all add: e take_mem_write mem_read_write)
  show l: "st_foptslen (st_setPayload v (of_nat (length v)) d) = st_foptslen d"
    using assms(1,2) o by (simp add: e st_foptslen_def nth_mem_write)
  have "take (st_foptslen d) (drop 7 (take (7 + st_foptslen d) (mem_write d (st_payload_offset d) v))) =
      take (st_foptslen d) (drop 7 (take (7 + st_foptslen d) d))"
    using assms(1,2) o by (simp add: take_mem_write)
  then show "st_fopts (st_setPayload v (of_nat (length v)) d) = st_fopts d"
    by (simp add: st_fopts_def mem_read_def l [unfolded e] e drop_take)
qed

lemma wired_name_simps [simp]:
  "getNameIndex ''tag'' = Some 0" "getNameIndex ''token'' = Some 1" "getNameIndex ''gateway'' = Some 2"
  "getNameIndex ''devaddr'' = Some 3" "getNameIndex ''fopts'' = Some 4" "getNameIndex ''payload'' = Some 5"
  by code_simp+

definition message_events :: "u16 \<Rightarrow> u64 \<Rightarrow> DEVADDR \<Rightarrow> bytes \<Rightarrow> bytes \<Rightarrow> sax_event list" where
  "message_events tok gw a fopts payload =
    [Start_object, Key ''tag'', Number_unsigned 0, Key ''token'', Number_unsigned (unat tok),
     Key ''gateway'', String_value (gatewayId2str gw), Key ''devaddr'', String_value (DEVADDR2string a),
     Key ''fopts'', String_value (hexString fopts), Key ''payload'', String_value (hexString payload), End_object]"

lemma push_push [simp]:
  "lib_ok L \<Longrightarrow> pr_data pr = PR_push d \<Longrightarrow> length (mdata (rxData d)) = 262 \<Longrightarrow> wired_push L pr = d"
  by (simp add: lib_ok_def wired_push_def)

lemma text_bytes_hex: "text_bytes (hex2string (hexString bs)) = bs"
  by (simp add: hex2string_hexString text_simps)

text \<open>What the handler holds after each member.\<close>

definition wired_at :: "ParseResult \<Rightarrow> GwPushData \<Rightarrow> ParseResult sax_handler \<Rightarrow> bool" where
  "wired_at pr d s \<longleftrightarrow> sh_parseError s = CODE_OK \<and> sh_item s = pr\<lparr>pr_data := PR_push d\<rparr>"

lemma runs_wired_number:
  assumes "lib_ok L" "wired_at pr d s" "length (mdata (rxData d)) = 262"
  shows "sax_runs (wired_event L) [Key ''tag'', Number_unsigned n] s
      (wired_at (pr\<lparr>pr_tag := of_nat n\<rparr>) (d\<lparr>rxData := (rxData d)\<lparr>mhdr := mhdr_set_mtype (of_nat n) (mhdr (rxData d))\<rparr>\<rparr>))"
    "sax_runs (wired_event L) [Key ''token'', Number_unsigned n] s (wired_at (pr\<lparr>pr_token := of_nat n\<rparr>) d)"
  using assms by (simp_all add: runs_Cons wired_at_def on_item_def wired_number_def on_push_def)

lemma runs_wired_string:
  assumes "lib_ok L" "wired_at pr d s" "length (mdata (rxData d)) = 262"
  shows "sax_runs (wired_event L) [Key ''gateway'', String_value v] s
      (wired_at pr (d\<lparr>rxMetadata := (rxMetadata d)\<lparr>rx_gatewayId := string2gatewayId v\<rparr>\<rparr>))"
    "sax_runs (wired_event L) [Key ''devaddr'', String_value v] s
      (wired_at pr (d\<lparr>rxData := (rxData d)
        \<lparr>mhdr := mhdr_set_mtype MTYPE_UNCONFIRMED_DATA_UP (mhdr (rxData d)),
         mdata := mem_write (mdata (rxData d)) 0 (le_bytes 4 (string2DEVADDR v))\<rparr>\<rparr>))"
    "sax_runs (wired_event L) [Key ''fopts'', String_value (hexString b)] s
      (wired_at pr (d\<lparr>rxData := storage_setFOpts b (length b) (rxData d)\<rparr>))"
    "st_payload_offset (mdata (rxData d)) + length b mod 256 \<le> 262 \<Longrightarrow>
      sax_runs (wired_event L) [Key ''payload'', String_value (hexString b)] s
      (wired_at pr (d\<lparr>rxData := storage_setPayload b (length b) (rxData d)\<rparr>))"
  using assms by (simp_all add: runs_Cons wired_at_def on_item_def wired_string_def on_push_def Let_def text_bytes_hex)

text \<open>The packet of a message before and after its options and payload.\<close>

definition wired_storage :: "DEVADDR \<Rightarrow> bytes \<Rightarrow> bytes \<Rightarrow> LORAWAN_MESSAGE_STORAGE \<Rightarrow> LORAWAN_MESSAGE_STORAGE" where
  "wired_storage a fopts payload s =
    (let s1 = s\<lparr>mhdr := mhdr_set_mtype MTYPE_UNCONFIRMED_DATA_UP (mhdr_set_mtype 0 (mhdr s)),
                mdata := mem_write (mdata s) 0 (le_bytes 4 a)\<rparr>
     in storage_setPayload payload (length payload) (storage_setFOpts fopts (length fopts) s1))"

lemma wired_storage_read:
  assumes "length (mdata s) = 262" "length fopts \<le> 15" "length fopts + length payload \<le> 254"
  shows "mtype (wired_storage a fopts payload s) = MTYPE_UNCONFIRMED_DATA_UP"
    "storage_getAddr (wired_storage a fopts payload s) = Some a"
    "storage_foptsString (wired_storage a fopts payload s) = fopts"
    "mem_read (mdata (wired_storage a fopts payload s)) (st_payload_offset (mdata (wired_storage a fopts payload s)))
      (length payload) = payload"
    "psize (wired_storage a fopts payload s) = psize s"
proof -
  let ?t = "mhdr_set_mtype MTYPE_UNCONFIRMED_DATA_UP (mhdr_set_mtype 0 (mhdr s))"
  let ?d1 = "mem_write (mdata s) 0 (le_bytes 4 a)"
  let ?d2 = "st_setFopts fopts (of_nat (length fopts)) (st_setFopts fopts (of_nat (length fopts)) ?d1)"
  let ?d3 = "st_setPayload payload (of_nat (length payload)) (st_setPayload payload (of_nat (length payload)) ?d2)"
  have up: "mhdr_mtype ?t = MTYPE_UNCONFIRMED_DATA_UP" "is_up MTYPE_UNCONFIRMED_DATA_UP"
    by (simp_all add: mhdr_set_mtype_get is_up_def)
  have w: "wired_storage a fopts payload s = s\<lparr>mhdr := ?t, mdata := ?d3\<rparr>"
    by (simp add: wired_storage_def Let_def storage_setFOpts_def storage_setPayload_def up(1) is_up_def)
  have d1: "length ?d1 = 262" "take 4 ?d1 = le_bytes 4 a" using assms(1) by (simp_all add: mem_write_def)
  note d1' = setFopts_memory [OF d1(1) assms(2)]
  note d2 = setFopts_memory [OF d1'(1) assms(2)]
  have o: "st_payload_offset ?d2 = 8 + length fopts" by (simp add: st_payload_offset_def d2(2))
  have "st_payload_offset ?d2 + length payload \<le> 262" "length payload < 256" using assms(3) o by simp_all
  note d2' = setPayload_memory [OF d2(1) this]
  have o': "st_payload_offset (st_setPayload payload (of_nat (length payload)) ?d2) = 8 + length fopts"
    by (simp add: st_payload_offset_def d2'(2) d2(2))
  have "st_payload_offset (st_setPayload payload (of_nat (length payload)) ?d2) + length payload \<le> 262"
    "length payload < 256" using assms(3) o' by simp_all
  note d3 = setPayload_memory [OF d2'(1) this]
  have "take 4 ?d3 = le_bytes 4 a" by (simp add: d3(4) d2'(4) d2(4) d1'(4) d1(2))
  then have addr: "st_devaddr ?d3 = a" by (simp add: st_devaddr_def mem_read_def from_le_le_bytes)
  show "mtype (wired_storage a fopts payload s) = MTYPE_UNCONFIRMED_DATA_UP" by (simp add: w up)
  show "storage_getAddr (wired_storage a fopts payload s) = Some a" by (simp add: w storage_getAddr_def up addr)
  show "storage_foptsString (wired_storage a fopts payload s) = fopts"
    by (simp add: w storage_foptsString_def up d3(3) d2'(3) d2(3))
  have "st_payload_offset ?d3 = 8 + length fopts"
    by (simp add: st_payload_offset_def d3(2) d2'(2) d2(2))
  then show "mem_read (mdata (wired_storage a fopts payload s))
      (st_payload_offset (mdata (wired_storage a fopts payload s))) (length payload) = payload"
    using d3(5) o' by (simp add: w)
  show "psize (wired_storage a fopts payload s) = psize s" by (simp add: w)
qed

lemma udp_lib_ok: "lib_ok (udp_lib es)"
  by (auto simp: lib_ok_def udp_lib_def push0_def storage_default_def split: pr_union.split)

section \<open>Properties\<close>

text \<open>The acknowledgement of the simulated protocol is text of at least 22 characters, which is
  written to the caller's buffer without a look at its size; the dispatcher's has 8 bytes.  So
  every acknowledged packet overwrites the dispatcher's stack.\<close>

theorem wired_ack_overflows:
  assumes "wired_ack L u t n packet = Some (sz, a)"
  shows "sz = ERR_CODE_SEND_ACK \<or> sz \<ge> 22 \<and> sz = int (length a) \<and> length packet \<ge> length a"
proof -
  have "show_word (pr_token pr) \<noteq> []" for pr :: ParseResult
    by (simp add: show_word_def show_base.simps)
  then have "length (show_word (pr_token pr)) \<ge> 1" for pr :: ParseResult
    by (simp add: Suc_le_eq)
  note len = this
  show ?thesis
    using assms
    by (auto simp: wired_ack_def Let_def text_bytes_def split: if_splits) (use len in \<open>simp_all add: Suc_le_eq\<close>)
qed

theorem wired_ack_overflows_witness:
  "(22 :: int) = ERR_CODE_SEND_ACK \<or> (22 :: int) \<ge> 22 \<and> 22 = int (length (text_bytes (CHR 0x7B # wired_name ''tag'' @ ''1, '' @
      wired_name ''token'' @ ''0}''))) \<and>
    length (replicate 30 (0 :: u8)) \<ge> length (text_bytes (CHR 0x7B # wired_name ''tag'' @ ''1, '' @
      wired_name ''token'' @ ''0}''))"
proof (rule wired_ack_overflows [where L = "udp_lib []" and u = pr0 and t = 0 and n = 8])
  have [simp]: "char_of (48 :: nat) = CHR ''0''" by code_simp
  show "wired_ack (udp_lib []) pr0 0 8 (replicate 30 0) =
      Some (22, text_bytes (CHR 0x7B # wired_name ''tag'' @ ''1, '' @ wired_name ''token'' @ ''0}''))"
    by (simp add: wired_ack_def wired_parsePushData_def udp_lib_def SaxWired_def on_push_def ParseResult_default_def
      pr0_def wired_name_def text_bytes_def show_word_def show_base.simps digit_char_def Let_def)
qed

text \<open>A message as the protocol writes it is read back: tag, token, gateway, address, options and
  payload.  The size of the payload is the exception: it stays that of the packet parsed before.\<close>

theorem wired_message_roundtrip:
  assumes "lib_ok L" "gl_sax L packet = message_events tok gw a fopts payload"
    "length fopts \<le> 15" "length fopts + length payload \<le> 254"
  shows "\<exists>pr' d. wired_parse L pr packet t = Some (CODE_OK, pr', packet) \<and> pr_tag pr' = 0 \<and> pr_token pr' = tok \<and>
    pr_data pr' = PR_push d \<and> rx_gatewayId (rxMetadata d) = gw \<and> rx_t (rxMetadata d) = word_of_int (ns_to_s t) \<and>
    mtype (rxData d) = MTYPE_UNCONFIRMED_DATA_UP \<and> storage_getAddr (rxData d) = Some a \<and>
    storage_foptsString (rxData d) = fopts \<and>
    mem_read (mdata (rxData d)) (st_payload_offset (mdata (rxData d))) (length payload) = payload \<and>
    psize (rxData d) = psize (rxData (gl_push L (pr_data pr)))"
proof -
  let ?h = "wired_event L"
  define d0 where "d0 = (wired_push L pr)\<lparr>rxMetadata := (rxMetadata (wired_push L pr))\<lparr>rx_t := word_of_int (ns_to_s t)\<rparr>\<rparr>"
  define d1 where "d1 = d0\<lparr>rxData := (rxData d0)\<lparr>mhdr := mhdr_set_mtype (of_nat 0) (mhdr (rxData d0))\<rparr>\<rparr>"
  define d2 where "d2 = d1\<lparr>rxMetadata := (rxMetadata d1)\<lparr>rx_gatewayId := string2gatewayId (gatewayId2str gw)\<rparr>\<rparr>"
  define d3 where "d3 = d2\<lparr>rxData := (rxData d2)
        \<lparr>mhdr := mhdr_set_mtype MTYPE_UNCONFIRMED_DATA_UP (mhdr (rxData d2)),
         mdata := mem_write (mdata (rxData d2)) 0 (le_bytes 4 (string2DEVADDR (DEVADDR2string a)))\<rparr>\<rparr>"
  define d4 where "d4 = d3\<lparr>rxData := storage_setFOpts fopts (length fopts) (rxData d3)\<rparr>"
  define d5 where "d5 = d4\<lparr>rxData := storage_setPayload payload (length payload) (rxData d4)\<rparr>"
  have len: "length (mdata (rxData d0)) = 262" using assms(1) by (simp add: d0_def lib_ok_def wired_push_def)
  have len1: "length (mdata (rxData d1)) = 262" by (simp add: d1_def len)
  have len2: "length (mdata (rxData d2)) = 262" by (simp add: d2_def len1)
  have len3: "length (mdata (rxData d3)) = 262" using len2 by (simp add: d3_def)
  have up: "is_up (mtype (rxData d3))" by (simp add: d3_def mhdr_set_mtype_get is_up_def)
  note f = setFopts_memory [OF setFopts_memory(1) [OF len3 assms(3)] assms(3)]
  have d4: "mdata (rxData d4) = st_setFopts fopts (of_nat (length fopts)) (st_setFopts fopts (of_nat (length fopts)) (mdata (rxData d3)))"
    using up by (simp add: d4_def storage_setFOpts_def)
  have len4: "length (mdata (rxData d4)) = 262" by (simp add: d4 f(1))
  have off: "st_payload_offset (mdata (rxData d4)) + length payload mod 256 \<le> 262"
    using assms(3,4) f(2) by (simp add: st_payload_offset_def d4)
  have s5: "rxData d5 = wired_storage a fopts payload (rxData (wired_push L pr))"
    by (simp add: d5_def d4_def d3_def d2_def d1_def d0_def wired_storage_def DEVADDR_text)
  have start: "sax_runs ?h [Start_object] (SaxWired L pr t) (wired_at pr d0)"
    by (simp add: runs_Cons SaxWired_def wired_at_def d0_def on_push_def)
  let ?pr = "pr\<lparr>pr_tag := of_nat 0, pr_token := of_nat (unat tok)\<rparr>"
  note tag = runs_wired_number(1) [OF assms(1) _ len, where n = 0, folded d1_def]
  note token = runs_wired_number(2) [OF assms(1) _ len1, where n = "unat tok"]
  note gateway = runs_wired_string(1) [OF assms(1) _ len1, where v = "gatewayId2str gw", folded d2_def]
  note devaddr = runs_wired_string(2) [OF assms(1) _ len2, where v = "DEVADDR2string a", folded d3_def]
  note fopts = runs_wired_string(3) [OF assms(1) _ len3, where b = fopts, folded d4_def]
  note payload = runs_wired_string(4) [OF assms(1) _ len4 off, folded d5_def]
  have finish: "sax_runs ?h [End_object] s (wired_at p d)" if "wired_at p d s" for s p d
    using that by (simp add: runs_Cons wired_at_def)
  have "sax_runs ?h (message_events tok gw a fopts payload) (SaxWired L pr t) (wired_at ?pr d5)"
    using runs_seq [OF start runs_seq [OF tag runs_seq [OF token runs_seq [OF gateway runs_seq [OF devaddr
      runs_seq [OF fopts runs_seq [OF payload finish]]]]]]]
    by (simp add: message_events_def)
  then obtain s' where s': "sax_run ?h (message_events tok gw a fopts payload) (SaxWired L pr t) = Some (True, s')"
      "sh_parseError s' = CODE_OK" "sh_item s' = ?pr\<lparr>pr_data := PR_push d5\<rparr>"
    by (auto simp: sax_runs_def wired_at_def)
  have l: "length (mdata (rxData (wired_push L pr))) = 262" using assms(1) by (simp add: lib_ok_def wired_push_def)
  have meta: "rx_gatewayId (rxMetadata d5) = gw" "rx_t (rxMetadata d5) = word_of_int (ns_to_s t)"
    by (simp_all add: d5_def d4_def d3_def d2_def d1_def d0_def gatewayId_text)
  show ?thesis
    using s' assms(2) meta wired_storage_read [OF l assms(3,4), of a]
    by (auto simp: wired_parse_def wired_parsePushData_def s5 wired_push_def)
qed

theorem wired_message_roundtrip_witness:
  "\<exists>pr' d. wired_parse (udp_lib (message_events 7 0xaabb 0x01020304 [2] [9, 8])) pr0 [0x7b] 0 = Some (CODE_OK, pr', [0x7b]) \<and>
    pr_tag pr' = 0 \<and> pr_token pr' = 7 \<and>
    pr_data pr' = PR_push d \<and> rx_gatewayId (rxMetadata d) = 0xaabb \<and> rx_t (rxMetadata d) = word_of_int (ns_to_s 0) \<and>
    mtype (rxData d) = MTYPE_UNCONFIRMED_DATA_UP \<and> storage_getAddr (rxData d) = Some 0x01020304 \<and>
    storage_foptsString (rxData d) = [2] \<and>
    mem_read (mdata (rxData d)) (st_payload_offset (mdata (rxData d))) (length [9, 8 :: u8]) = [9, 8] \<and>
    psize (rxData d) = psize (rxData (gl_push (udp_lib (message_events 7 0xaabb 0x01020304 [2] [9, 8])) (pr_data pr0)))"
  by (rule wired_message_roundtrip [OF udp_lib_ok]) (simp_all add: udp_lib_def)

end
