(* ===== verification/Ip_Address.thy ===== *)
theory Ip_Address
  imports Gateway_Service Lora_Types C_Text
begin

text \<open>
  Socket addresses (\<open>lorawan/helper/ip-address.cpp\<close>, \<open>ip-helper.cpp\<close>), their form on the wire
  (\<open>serializeSocketAddress\<close> in \<open>service-serialization.cpp\<close>) and the constructors of
  \<open>GatewayIdentity\<close>.  The functions take a \<open>struct sockaddr *\<close> and cast it to the
  structure of the family they find: here a pointer is the memory of the object it points to, and
  an access behind that object is the result \<open>None\<close>.  A \<open>struct sockaddr\<close> has 16 bytes, a
  \<open>struct sockaddr_in6\<close> 28.  The conversions of IPv6 texts, \<open>inet_ntop\<close> and
  \<open>inet_pton\<close> of the operating system, are the parameters \<open>ntop6\<close> and \<open>pton6\<close>.
\<close>

section \<open>Layout\<close>

abbreviation (input) AF_UNIX :: u16 where "AF_UNIX \<equiv> 1"
abbreviation (input) sizeof_sockaddr :: nat where "sizeof_sockaddr \<equiv> 16"
abbreviation (input) sizeof_sockaddr_in6 :: nat where "sizeof_sockaddr_in6 \<equiv> 28"
abbreviation (input) sizeof_sockaddr_un :: nat where "sizeof_sockaddr_un \<equiv> 110"

definition mem_family :: "bytes \<Rightarrow> u16" where
  "mem_family m = from_le (mem_read m 0 2)"

definition mem_port :: "bytes \<Rightarrow> u16" where
  "mem_port m = from_le (mem_read m 2 2)"

text \<open>
  A \<open>struct sockaddr\<close> as the storages see it and as memory: the IPv4 address and the zeros
  behind it are the first 12 bytes of \<open>sin_addr\<close>.
\<close>

definition sockaddr_memory :: "SOCKADDR \<Rightarrow> bytes" where
  "sockaddr_memory a = le_bytes 2 (sa_family a) @ le_bytes 2 (sin_port a) @ take 12 (sin_addr a)"

definition sockaddr_of_memory :: "bytes \<Rightarrow> SOCKADDR" where
  "sockaddr_of_memory m =
    \<lparr>sa_family = mem_family m, sin_port = mem_port m, sin_addr = mem_read m 4 12 @ replicate 4 0\<rparr>"

definition isIPv6 :: "bytes \<Rightarrow> bool" where
  "isIPv6 m \<longleftrightarrow> mem_family m = AF_INET6"

definition isIP :: "bytes \<Rightarrow> bool" where
  "isIP m \<longleftrightarrow> mem_family m = AF_INET \<or> mem_family m = AF_INET6"

text \<open>The default case is the size of the parameter, which is a pointer.\<close>

definition addressLength :: "bytes option \<Rightarrow> nat" where
  "addressLength p =
    (case p of None \<Rightarrow> 0
     | Some m \<Rightarrow>
         if mem_family m = AF_INET then 16
         else if mem_family m = AF_INET6 then sizeof_sockaddr_in6
         else if mem_family m = AF_UNIX then sizeof_sockaddr_un
         else 8)"

text \<open>The results of \<open>NTOH2\<close> are dropped: reading the port is all that happens.\<close>

definition sockaddrNtoh :: "bytes \<Rightarrow> bytes" where
  "sockaddrNtoh m =
    (if mem_family m = AF_INET6 then let _ = NTOH2 (mem_port m) in m
     else if mem_family m = AF_INET then let _ = NTOH2 (mem_port m) in m
     else m)"

section \<open>Text\<close>

definition inet_ntop4 :: "bytes \<Rightarrow> string" where
  "inet_ntop4 b =
    show_word (b ! 0) @ ''.'' @ show_word (b ! 1) @ ''.'' @ show_word (b ! 2) @ ''.'' @
    show_word (b ! 3)"

text \<open>Four decimal parts without leading zeros, each at most 255.\<close>

definition octet :: "string \<Rightarrow> bool" where
  "octet p \<longleftrightarrow> p \<noteq> [] \<and> list_all isdigit p \<and> number_value 10 p \<le> 255 \<and>
    (hd p = CHR ''0'' \<longrightarrow> length p = 1)"

definition inet_pton4 :: "string \<Rightarrow> bytes option" where
  "inet_pton4 s =
    (let ps = split_at_char (CHR ''.'') (c_string s)
     in if length ps = 4 \<and> list_all octet ps
        then Some (map (\<lambda>p. of_nat (number_value 10 p)) ps) else None)"

text \<open>The text of a Unix socket ends at its first NUL, which has to come in the object.\<close>

definition sun_path :: "bytes \<Rightarrow> string option" where
  "sun_path m = (if 0 \<in> set (drop 2 m) then Some (bytes_text (takeWhile (\<lambda>b. b \<noteq> 0) (drop 2 m))) else None)"

definition sockaddr2string :: "(bytes \<Rightarrow> string) \<Rightarrow> bytes \<Rightarrow> string option" where
  "sockaddr2string ntop6 m =
    (if mem_family m = AF_INET then
       Some (inet_ntop4 (mem_read m 4 4) @ '':'' @ show_word (NTOH2 (mem_port m)))
     else if mem_family m = AF_INET6 then
       (if length m < 24 then None
        else Some (ntop6 (mem_read m 8 16) @ '':'' @ show_word (NTOH2 (mem_port m))))
     else if mem_family m = AF_UNIX then sun_path m
     else Some [])"

text \<open>\<open>strtoul\<close> with base 0: the prefix of the digits chooses the base.\<close>

definition strtoul0 :: "string \<Rightarrow> u64" where
  "strtoul0 s =
    (let (neg, t) = strip_sign (dropWhile isspace s)
     in if strip_0x t \<noteq> t then strtoull 16 s
        else if t \<noteq> [] \<and> hd t = CHR ''0'' then strtoull 8 s
        else strtoull 10 s)"

text \<open>\<open>find_last_of(':')\<close>: the text before the last colon, and the text behind it.\<close>

fun split_last :: "char \<Rightarrow> string \<Rightarrow> (string \<times> string) option" where
  "split_last d [] = None"
| "split_last d (c # s) =
    (case split_last d s of
       Some (a, b) \<Rightarrow> Some (c # a, b)
     | None \<Rightarrow> if c = d then Some ([], s) else None)"

definition splitAddress :: "string \<Rightarrow> (string \<times> u16) option" where
  "splitAddress address =
    (case split_last (CHR '':'') address of
       None \<Rightarrow> None
     | Some (a, p) \<Rightarrow> Some (a, ucast (strtoul0 (c_string p))))"

definition isAddrStringIPv6 :: "(string \<Rightarrow> bytes option) \<Rightarrow> string \<Rightarrow> bool" where
  "isAddrStringIPv6 pton6 s \<longleftrightarrow> pton6 (c_string s) \<noteq> None"

text \<open>\<open>htons(port)\<close> and the family go to the same places in both structures.\<close>

definition string2sockaddr_port ::
    "(string \<Rightarrow> bytes option) \<Rightarrow> bytes \<Rightarrow> string \<Rightarrow> u16 \<Rightarrow> (bool \<times> bytes) option" where
  "string2sockaddr_port pton6 m address port =
    (case pton6 (c_string address) of
       Some a \<Rightarrow>
         if length m < 24 then None
         else Some (True, mem_write (mem_write (mem_write m 8 a) 0 (le_bytes 2 AF_INET6)) 2
                           (le_bytes 2 (NTOH2 port)))
     | None \<Rightarrow>
         (case inet_pton4 address of
            Some a \<Rightarrow>
              Some (True, mem_write (mem_write (mem_write m 4 a) 0 (le_bytes 2 AF_INET)) 2
                           (le_bytes 2 (NTOH2 port)))
          | None \<Rightarrow> Some (False, m)))"

definition string2sockaddr ::
    "(string \<Rightarrow> bytes option) \<Rightarrow> bytes \<Rightarrow> string \<Rightarrow> (bool \<times> bytes) option" where
  "string2sockaddr pton6 m s =
    (case splitAddress s of
       None \<Rightarrow> Some (False, m)
     | Some (address, port) \<Rightarrow> string2sockaddr_port pton6 m address port)"

section \<open>The wire\<close>

definition socketAddressSize :: "bytes \<Rightarrow> nat" where
  "socketAddressSize m =
    (if mem_family m = AF_INET then 7 else if mem_family m = AF_INET6 then 19 else 0)"

definition serializeSocketAddress :: "bytes \<Rightarrow> bytes option" where
  "serializeSocketAddress m =
    (if mem_family m = AF_INET then
       Some ([2] @ mem_read m 2 2 @ mem_read m 4 4)
     else if mem_family m = AF_INET6 then
       (if length m < 24 then None else Some ([10] @ mem_read m 2 2 @ mem_read m 8 16))
     else Some [])"

text \<open>The bytes read and the address, which is changed in place.\<close>

definition deserializeSocketAddress :: "bytes \<Rightarrow> bytes \<Rightarrow> (nat \<times> bytes) option" where
  "deserializeSocketAddress m buf =
    (if length buf < 1 then Some (0, m)
     else if buf ! 0 = 2 then
       (if length buf < 7 then Some (0, m)
        else Some (7, mem_write (mem_write (mem_write m 0 (le_bytes 2 AF_INET)) 2 (mem_read buf 1 2)) 4
                        (mem_read buf 3 4)))
     else if buf ! 0 = 10 then
       (if length buf < 19 then Some (0, m)
        else if length m < 24 then None
        else Some (19, mem_write (mem_write (mem_write m 0 (le_bytes 2 AF_INET6)) 2 (mem_read buf 1 2)) 8
                        (mem_read buf 3 16)))
     else Some (0, m))"

section \<open>GatewayIdentity\<close>

definition GatewayIdentity_default :: GatewayIdentity where
  "GatewayIdentity_default = \<lparr>gatewayId = 0, sockaddr = SOCKADDR_zero\<rparr>"

definition GatewayIdentity_addr :: "u64 \<Rightarrow> SOCKADDR \<Rightarrow> GatewayIdentity" where
  "GatewayIdentity_addr aGatewayId addr = \<lparr>gatewayId = aGatewayId, sockaddr = addr\<rparr>"

text \<open>The constructors from a text do not look whether it was an address; \<open>junk\<close> is the
  memory of the object.\<close>

definition GatewayIdentity_text ::
    "(string \<Rightarrow> bytes option) \<Rightarrow> SOCKADDR \<Rightarrow> u64 \<Rightarrow> string \<Rightarrow> GatewayIdentity option" where
  "GatewayIdentity_text pton6 junk aGatewayId addressNport =
    map_option (\<lambda>(_, m). \<lparr>gatewayId = aGatewayId, sockaddr = sockaddr_of_memory m\<rparr>)
      (string2sockaddr pton6 (sockaddr_memory junk) addressNport)"

definition GatewayIdentity_text_port ::
    "(string \<Rightarrow> bytes option) \<Rightarrow> SOCKADDR \<Rightarrow> u64 \<Rightarrow> string \<Rightarrow> u16 \<Rightarrow> GatewayIdentity option" where
  "GatewayIdentity_text_port pton6 junk aGatewayId address port =
    map_option (\<lambda>(_, m). \<lparr>gatewayId = aGatewayId, sockaddr = sockaddr_of_memory m\<rparr>)
      (string2sockaddr_port pton6 (sockaddr_memory junk) address port)"

text \<open>
  The copy constructor chooses the number of bytes by the family of the new object, which is
  zero: it always copies 16.
\<close>

definition GatewayIdentity_copy :: "GatewayIdentity \<Rightarrow> GatewayIdentity" where
  "GatewayIdentity_copy v =
    (let own = sockaddr_memory SOCKADDR_zero;
         n = (if mem_family own = AF_INET then 16
              else if mem_family own = AF_INET6 then sizeof_sockaddr_in6
              else if mem_family own = AF_UNIX then sizeof_sockaddr_un
              else sizeof_sockaddr)
     in \<lparr>gatewayId = gatewayId v,
         sockaddr = sockaddr_of_memory (mem_write own 0 (take n (sockaddr_memory (sockaddr v))))\<rparr>)"

definition GatewayIdentity_equal :: "GatewayIdentity \<Rightarrow> GatewayIdentity \<Rightarrow> bool" where
  "GatewayIdentity_equal a b \<longleftrightarrow> gatewayId a = gatewayId b"

definition GatewayIdentity_toString :: "(bytes \<Rightarrow> string) \<Rightarrow> GatewayIdentity \<Rightarrow> string option" where
  "GatewayIdentity_toString ntop6 g =
    map_option (\<lambda>a. show_hex (unat (gatewayId g)) @ '' '' @ a)
      (sockaddr2string ntop6 (sockaddr_memory (sockaddr g)))"

definition GatewayIdentity_toJsonString :: "(bytes \<Rightarrow> string) \<Rightarrow> GatewayIdentity \<Rightarrow> string option" where
  "GatewayIdentity_toJsonString ntop6 g =
    map_option (\<lambda>a. ''{'' @ quoted ''gwid'' @ '': '' @ quoted (show_hex (unat (gatewayId g))) @ '', '' @
        quoted ''addr'' @ '': '' @ quoted a @ ''}'')
      (sockaddr2string ntop6 (sockaddr_memory (sockaddr g)))"
section \<open>Lemmas: memory\<close>

lemma mem_read_join:
  "mem_read m 0 2 @ mem_read m 2 2 = mem_read m 0 4"
  "mem_read m 0 4 @ mem_read m 4 4 = mem_read m 0 8"
  "mem_read m 0 4 @ mem_read m 4 12 = mem_read m 0 16"
  by (simp_all add: mem_read_def flip: take_add)

lemma mem_read_mem_read: "i + k \<le> n \<Longrightarrow> mem_read (mem_read m 0 n) i k = mem_read m i k"
  by (simp add: mem_read_def drop_take)

lemma mem_read_part:
  assumes "mem_read a 0 n = mem_read b 0 n" "4 \<le> n"
  shows "mem_read a 0 2 = mem_read b 0 2" "mem_read a 2 2 = mem_read b 2 2"
    "8 \<le> n \<Longrightarrow> mem_read a 4 4 = mem_read b 4 4"
  using arg_cong [OF assms(1), of "\<lambda>x. mem_read x 0 2"] arg_cong [OF assms(1), of "\<lambda>x. mem_read x 2 2"]
    arg_cong [OF assms(1), of "\<lambda>x. mem_read x 4 4"] assms(2) by (simp_all add: mem_read_mem_read)

lemma mem_write_join:
  "i + length v = j \<Longrightarrow> j + length w \<le> length m \<Longrightarrow>
   mem_write (mem_write m i v) j w = mem_write m i (v @ w)"
  using mem_write_append by auto

lemma family_bytes: "2 \<le> length m \<Longrightarrow> le_bytes 2 (mem_family m) = mem_read m 0 2"
  unfolding mem_family_def by (rule le_bytes_from_le) simp_all

lemma port_bytes: "4 \<le> length m \<Longrightarrow> le_bytes 2 (mem_port m) = mem_read m 2 2"
  unfolding mem_port_def by (rule le_bytes_from_le) simp_all

text \<open>The storages' view of a \<open>struct sockaddr\<close> and its memory.\<close>

definition wf_sockaddr :: "SOCKADDR \<Rightarrow> bool" where
  "wf_sockaddr a \<longleftrightarrow> length (sin_addr a) = 16 \<and> drop 12 (sin_addr a) = replicate 4 0"

lemma wf_sockaddr_zero [simp]: "wf_sockaddr SOCKADDR_zero"
  by (simp add: wf_sockaddr_def SOCKADDR_zero_def)

lemma length_sockaddr_memory [simp]: "wf_sockaddr a \<Longrightarrow> length (sockaddr_memory a) = 16"
  by (simp add: sockaddr_memory_def wf_sockaddr_def)

lemma sockaddr_memory_fields [simp]:
  "mem_family (sockaddr_memory a) = sa_family a" "mem_port (sockaddr_memory a) = sin_port a"
  "mem_read (sockaddr_memory a) 4 12 = take 12 (sin_addr a)"
  by (simp_all add: sockaddr_memory_def mem_family_def mem_port_def mem_read_def from_le_le_bytes)

lemma sockaddr_of_memory_inverse [simp]:
  assumes "wf_sockaddr a"
  shows "sockaddr_of_memory (sockaddr_memory a) = a"
proof -
  have "take 12 (sin_addr a) @ replicate 4 0 = sin_addr a"
    using assms append_take_drop_id [of 12 "sin_addr a"] by (simp add: wf_sockaddr_def)
  then show ?thesis by (simp add: sockaddr_of_memory_def)
qed

lemma wf_sockaddr_of_memory [simp]: "16 \<le> length m \<Longrightarrow> wf_sockaddr (sockaddr_of_memory m)"
  by (simp add: wf_sockaddr_def sockaddr_of_memory_def)

lemma sockaddr_memory_inverse [simp]:
  assumes "length m = 16"
  shows "sockaddr_memory (sockaddr_of_memory m) = m"
proof -
  have "mem_read m 0 2 @ mem_read m 2 2 @ mem_read m 4 12 = mem_read m 0 16"
    by (simp only: mem_read_join append_assoc [symmetric])
  with assms show ?thesis
    by (simp add: sockaddr_memory_def sockaddr_of_memory_def family_bytes port_bytes)
      (simp add: mem_read_def)
qed

lemma GatewayIdentity_copy_same: "wf_sockaddr (sockaddr g) \<Longrightarrow> GatewayIdentity_copy g = g"
  using length_sockaddr_memory [OF wf_sockaddr_zero]
  by (simp add: GatewayIdentity_copy_def Let_def mem_write_def)

lemma sockaddrNtoh_same [simp]: "sockaddrNtoh m = m"
  by (simp add: sockaddrNtoh_def)

section \<open>Lemmas: the wire\<close>

lemma serialize_size:
  "24 \<le> length m \<or> \<not> isIPv6 m \<Longrightarrow> 8 \<le> length m \<Longrightarrow>
   map_option length (serializeSocketAddress m) = Some (socketAddressSize m)"
  by (auto simp: serializeSocketAddress_def socketAddressSize_def isIPv6_def)

lemma serialize_struct_sockaddr:
  "length m = 16 \<Longrightarrow> serializeSocketAddress m = None \<longleftrightarrow> isIPv6 m"
  by (simp add: serializeSocketAddress_def isIPv6_def)

lemma wire_ip4:
  assumes "mem_family m = AF_INET" "8 \<le> length m" "8 \<le> length z"
  shows "\<exists>b. serializeSocketAddress m = Some b \<and> length b = 7 \<and>
    deserializeSocketAddress z (b @ rest) = Some (7, mem_write z 0 (mem_read m 0 8))"
proof -
  have f: "le_bytes 2 AF_INET = mem_read m 0 2" using family_bytes [of m] assms by simp
  have b: "serializeSocketAddress m = Some ([2] @ mem_read m 2 2 @ mem_read m 4 4)"
    using assms by (simp add: serializeSocketAddress_def)
  have l: "length (mem_read m 2 2) = 2" "length (mem_read m 4 4) = 4" "length (mem_read m 0 2) = 2"
    "length (mem_read m 0 4) = 4" using assms by simp_all
  have r: "mem_read ([2] @ mem_read m 2 2 @ mem_read m 4 4 @ rest) 1 2 = mem_read m 2 2"
    "mem_read ([2] @ mem_read m 2 2 @ mem_read m 4 4 @ rest) 3 4 = mem_read m 4 4"
    using l by (simp_all add: mem_read_def [of "2 # _"])
  have "mem_write (mem_write (mem_write z 0 (mem_read m 0 2)) 2 (mem_read m 2 2)) 4 (mem_read m 4 4) =
      mem_write z 0 (mem_read m 0 8)"
    using l assms by (simp add: mem_write_join mem_read_join)
  then show ?thesis
    using l by (simp add: b deserializeSocketAddress_def f r [simplified])
qed

lemma wire_ip6:
  assumes "isIPv6 m" "24 \<le> length m" "24 \<le> length z"
  shows "\<exists>b. serializeSocketAddress m = Some b \<and> length b = 19 \<and>
    deserializeSocketAddress z (b @ rest) =
      Some (19, mem_write (mem_write z 0 (mem_read m 0 4)) 8 (mem_read m 8 16))"
proof -
  have fam: "mem_family m = AF_INET6" using assms(1) by (simp add: isIPv6_def)
  have f: "le_bytes 2 AF_INET6 = mem_read m 0 2" using family_bytes [of m] assms fam by simp
  have b: "serializeSocketAddress m = Some ([10] @ mem_read m 2 2 @ mem_read m 8 16)"
    using assms fam by (simp add: serializeSocketAddress_def)
  have l: "length (mem_read m 2 2) = 2" "length (mem_read m 8 16) = 16" "length (mem_read m 0 2) = 2"
    using assms by simp_all
  have r: "mem_read ([10] @ mem_read m 2 2 @ mem_read m 8 16 @ rest) 1 2 = mem_read m 2 2"
    "mem_read ([10] @ mem_read m 2 2 @ mem_read m 8 16 @ rest) 3 16 = mem_read m 8 16"
    using l by (simp_all add: mem_read_def [of "10 # _"])
  have "mem_write (mem_write z 0 (mem_read m 0 2)) 2 (mem_read m 2 2) = mem_write z 0 (mem_read m 0 4)"
    using l assms by (simp add: mem_write_join mem_read_join)
  with l assms show ?thesis
    by (simp add: b deserializeSocketAddress_def f r [simplified])
qed
section \<open>Lemmas: text\<close>

lemma split_last_none: "d \<notin> set s \<Longrightarrow> split_last d s = None"
  by (induction s) auto

lemma split_last_append: "d \<notin> set s \<Longrightarrow> split_last d (a @ d # s) = Some (a, s)"
  by (induction a) (simp_all add: split_last_none)

lemma show_nat_isdigit: "list_all isdigit (show_nat n)"
proof -
  have "isdigit c" if "digit_value c < 10" for c
    using that by (auto simp: digit_value_def isdigit_def Let_def split: if_splits)
  with show_base_digits [of 10 n] show ?thesis by (auto simp: list_all_iff)
qed

lemma show_nat_chars: "\<not> isdigit c \<Longrightarrow> c \<notin> set (show_nat n)"
  using show_nat_isdigit [of n] by (auto simp: list_all_iff)

lemma show_nat_no_separators [simp]:
  "CHR ''.'' \<notin> set (show_nat n)" "CHR '':'' \<notin> set (show_nat n)" "CHR 0x00 \<notin> set (show_nat n)"
  by (rule show_nat_chars; simp add: isdigit_def)+

lemma show_nat_leading_zero: "hd (show_nat n) = CHR ''0'' \<Longrightarrow> n = 0"
proof (induction "10::nat" n rule: show_base.induct)
  case (1 n)
  show ?case
  proof (cases "n < 10")
    case True
    with 1(2) have "digit_value (digit_char n) = digit_value (CHR ''0'')"
      by (simp add: show_base.simps [of 10 n])
    then show ?thesis using True by (simp add: digit_value_char) (simp add: digit_value_def)
  next
    case False
    with 1(2) have "hd (show_nat (n div 10)) = CHR ''0''" by (simp add: show_base.simps [of 10 n])
    with 1(1) False show ?thesis by simp
  qed
qed

lemma octet_show: "octet (show_word (b::u8))"
proof -
  have "unat b < 256" using unsigned_less [of b, where 'a = nat] by simp
  moreover have "unat b = 0 \<Longrightarrow> length (show_nat (unat b)) = 1" by (simp add: show_base.simps)
  ultimately show ?thesis
    using show_nat_leading_zero [of "unat b"]
    by (auto simp: octet_def show_word_def show_nat_isdigit number_value_show_base)
qed

lemma strtoul0_show: "n < 2 ^ 64 \<Longrightarrow> strtoul0 (show_nat n) = of_nat n"
proof -
  assume n: "n < 2 ^ 64"
  obtain c cs where s: "show_nat n = c # cs" by (cases "show_nat n") auto
  have d: "list_all (\<lambda>c. digit_value c < 16) (show_nat n)"
    using show_base_digits [of 10 n] by (auto simp: list_all_iff)
  then have c: "digit_value c < 16" by (simp add: s)
  have w: "dropWhile isspace (show_nat n) = show_nat n" using digit_not_space [OF c] by (simp add: s)
  have g: "strip_sign (show_nat n) = (False, show_nat n)" using strip_sign_digit [OF c] by (simp add: s)
  have e: "strtoull 8 (show_nat 0) = 0"
    using strtoull_digits [of 8 "show_nat 0"] by (simp add: show_base.simps digit_char_def digit_value_def)
      (simp add: number_value_def digit_value_def)
  show ?thesis
  proof (cases "hd (show_nat n) = CHR ''0''")
    case True
    then have "n = 0" by (rule show_nat_leading_zero)
    with e w g show ?thesis using True strip_0x_digits [OF d] by (simp add: strtoul0_def)
  next
    case False
    with w g show ?thesis using strip_0x_digits [OF d] strtoull_show [of 10 n] n
      by (simp add: strtoul0_def)
  qed
qed

lemma inet_text:
  assumes "length b = 4"
  shows "inet_pton4 (inet_ntop4 b) = Some b" "CHR 0x00 \<notin> set (inet_ntop4 b)"
proof -
  obtain p q r s where b: "b = [p, q, r, s]"
    using assms by (auto simp: numeral_eq_Suc length_Suc_conv)
  show n: "CHR 0x00 \<notin> set (inet_ntop4 b)" by (simp add: inet_ntop4_def show_word_def)
  then have "c_string (inet_ntop4 b) = inet_ntop4 b"
    by (auto simp: c_string_def takeWhile_eq_all_conv)
  moreover have "split_at_char (CHR ''.'') (inet_ntop4 b) =
      [show_word p, show_word q, show_word r, show_word s]"
    by (simp add: inet_ntop4_def b show_word_def split_at_char_skip split_at_char_none)
  ultimately show "inet_pton4 (inet_ntop4 b) = Some b"
    by (simp add: inet_pton4_def octet_show) (simp add: b show_word_def number_value_show_base)
qed

lemma c_string_plain: "CHR 0x00 \<notin> set s \<Longrightarrow> c_string s = s"
  by (auto simp: c_string_def takeWhile_eq_all_conv)

lemma splitAddress_show:
  assumes "CHR 0x00 \<notin> set a"
  shows "splitAddress (a @ CHR '':'' # show_word (p::u16)) = Some (a, p)"
proof -
  have "unat p < 2 ^ 64" using unsigned_less [of p, where 'a = nat] by simp
  then have "strtoul0 (show_nat (unat p)) = of_nat (unat p)" by (rule strtoul0_show)
  then have "ucast (strtoul0 (show_nat (unat p))) = p"
    by (intro bit_word_eqI) (auto simp: bit_simps)
  then show ?thesis
    by (simp add: splitAddress_def show_word_def split_last_append c_string_plain)
qed

section \<open>Properties\<close>

text \<open>
  an IPv4 address printed as text and read back is the same address: the text of one structure,
  read into another one, sets its family, port and address and leaves the rest, as long as the
  system does not take a dotted text for an IPv6 address.
\<close>

theorem address_text_roundtrip:
  assumes "mem_family m = AF_INET" "length m = sizeof_sockaddr" "length z = sizeof_sockaddr"
    and "\<And>b. pton6 (inet_ntop4 b) = None"
  shows "\<exists>t. sockaddr2string ntop6 m = Some t \<and>
    string2sockaddr pton6 z t = Some (True, take 8 m @ drop 8 z)"
proof -
  let ?a = "mem_read m 4 4"
  have l: "length ?a = 4" using assms(2) by simp
  have c: "c_string (inet_ntop4 ?a) = inet_ntop4 ?a" using inet_text(2) [OF l] by (rule c_string_plain)
  have port: "le_bytes 2 (mem_port m) = mem_read m 2 2" using assms(2) by (simp add: port_bytes)
  have f: "le_bytes 2 AF_INET = mem_read m 0 2" using family_bytes [of m] assms(1,2) by simp
  have "mem_write (mem_write (mem_write z 4 ?a) 0 (mem_read m 0 2)) 2 (mem_read m 2 2) =
      take 8 m @ drop 8 z"
  proof -
    have "mem_write (mem_write (mem_write z 4 ?a) 0 (mem_read m 0 2)) 2 (mem_read m 2 2) =
        mem_write (mem_write z 4 ?a) 0 (mem_read m 0 4)"
      using assms(2,3) by (simp add: mem_write_join mem_read_join)
    also have "\<dots> = mem_read m 0 4 @ ?a @ drop 8 z"
      using assms(2,3) by (simp add: mem_write_def)
    finally show ?thesis by (simp add: append_assoc [symmetric] mem_read_join) (simp add: mem_read_def)
  qed
  then show ?thesis
    using assms(1) inet_text [OF l]
    by (simp add: sockaddr2string_def string2sockaddr_def splitAddress_show string2sockaddr_port_def
      c assms(4) port f NTOH_twice)
qed

theorem address_text_roundtrip_witness:
  "\<exists>t. sockaddr2string (\<lambda>_. []) ([2, 0, 6, 0x8f, 10, 8, 0, 255] @ replicate 8 0) = Some t \<and>
    string2sockaddr (\<lambda>_. None) (replicate 16 0) t =
      Some (True, take 8 ([2, 0, 6, 0x8f, 10, 8, 0, 255] @ replicate 8 0) @ drop 8 (replicate 16 0))"
  by (rule address_text_roundtrip) (simp_all add: mem_family_def mem_read_def)

text \<open>C34: An address on the wire is the number of its family (2 or 10), the two bytes of its port and the
  four or sixteen of the address as they stand in memory.  Reading that back over any address of the
  same structure, with anything behind it, consumes as many bytes as were written and gives the same
  family, port and address; the rest of the structure, with the flow label of IPv6, stays as it was.
  IPv4 may be in any structure of at least 16 bytes, IPv6 must be in one of 28 bytes.\<close>

theorem address_wire_roundtrip:
  assumes "isIP m" "length m = length z" "isIPv6 m \<longrightarrow> length m = sizeof_sockaddr_in6"
    and "sizeof_sockaddr \<le> length m"
    and "(k, n) = (if isIPv6 m then (8, 16) else (4, 4))"
  shows "\<exists>b z'. serializeSocketAddress m = Some b \<and> length b = socketAddressSize m \<and>
    b = (if isIPv6 m then 10 else 2) # mem_read m 2 2 @ mem_read m k n \<and>
    deserializeSocketAddress z (b @ rest) = Some (length b, z') \<and>
    mem_family z' = mem_family m \<and> mem_read z' 2 2 = mem_read m 2 2 \<and> mem_read z' k n = mem_read m k n \<and>
    mem_read z' 4 (k - 4) = mem_read z 4 (k - 4) \<and> drop (k + n) z' = drop (k + n) z"
proof (cases "isIPv6 m")
  case True
  define z' where "z' = mem_write (mem_write z 0 (mem_read m 0 4)) 8 (mem_read m 8 16)"
  have l: "length z = 28" using True assms(2,3) by simp
  have f: "mem_family m = AF_INET6" using True by (simp add: isIPv6_def)
  have kn: "k = 8" "n = 16" using True assms(5) by simp_all
  have "mem_read z' 0 4 = mem_read m 0 4" "mem_read z' 8 16 = mem_read m 8 16" "length z' = 28"
    using l assms(2) by (simp_all add: z'_def mem_simps)
  then have "mem_family z' = mem_family m \<and> mem_read z' 2 2 = mem_read m 2 2 \<and>
      mem_read z' 8 16 = mem_read m 8 16"
    using mem_read_part [of z' 4 m] by (simp add: mem_family_def)
  moreover have "mem_read z' 4 4 = mem_read z 4 4" "drop 24 z' = drop 24 z"
    using l assms(2) by (simp_all add: z'_def mem_read_def mem_write_def)
  moreover have "24 \<le> length m" "24 \<le> length z" using l assms(2) by simp_all
  moreover from this have "serializeSocketAddress m = Some (10 # mem_read m 2 2 @ mem_read m 8 16)"
    using f by (simp add: serializeSocketAddress_def)
  ultimately show ?thesis
    using wire_ip6 [OF True, of z rest] f True by (auto simp: socketAddressSize_def z'_def kn)
next
  case False
  define z' where "z' = mem_write z 0 (mem_read m 0 8)"
  have f: "mem_family m = AF_INET" using False assms(1) by (simp add: isIPv6_def isIP_def)
  have kn: "k = 4" "n = 4" using False assms(5) by simp_all
  have "mem_read z' 0 8 = mem_read m 0 8"
    using assms(2,4) by (simp add: z'_def mem_simps)
  then have "mem_family z' = mem_family m \<and> mem_read z' 2 2 = mem_read m 2 2 \<and>
      mem_read z' 4 4 = mem_read m 4 4"
    using mem_read_part [of z' 8 m] by (simp add: mem_family_def)
  moreover have "drop 8 z' = drop 8 z" "mem_read z' 4 0 = mem_read z 4 0"
    using assms(2,4) by (simp_all add: z'_def mem_read_def mem_write_def)
  moreover have "8 \<le> length m" "8 \<le> length z" using assms(2,4) by simp_all
  moreover have "serializeSocketAddress m = Some (2 # mem_read m 2 2 @ mem_read m 4 4)"
    using f by (simp add: serializeSocketAddress_def)
  ultimately show ?thesis
    using wire_ip4 [OF f, of z rest] f False by (auto simp: socketAddressSize_def z'_def kn)
qed

theorem address_wire_roundtrip_witness:
  "\<exists>b z'. serializeSocketAddress ([10, 0, 6, 0x8f] @ replicate 24 7) = Some b \<and>
    length b = socketAddressSize ([10, 0, 6, 0x8f] @ replicate 24 7) \<and>
    b = (if isIPv6 ([10, 0, 6, 0x8f] @ replicate 24 7) then 10 else 2) #
      mem_read ([10, 0, 6, 0x8f] @ replicate 24 7) 2 2 @ mem_read ([10, 0, 6, 0x8f] @ replicate 24 7) 8 16 \<and>
    deserializeSocketAddress (replicate 28 0) (b @ [1]) = Some (length b, z') \<and>
    mem_family z' = mem_family ([10, 0, 6, 0x8f] @ replicate 24 7) \<and>
    mem_read z' 2 2 = mem_read ([10, 0, 6, 0x8f] @ replicate 24 7) 2 2 \<and>
    mem_read z' 8 16 = mem_read ([10, 0, 6, 0x8f] @ replicate 24 7) 8 16 \<and>
    mem_read z' 4 (8 - 4) = mem_read (replicate 28 0) 4 (8 - 4) \<and> drop (8 + 16) z' = drop (8 + 16) (replicate 28 0)"
  by (rule address_wire_roundtrip) (simp_all add: isIP_def isIPv6_def mem_family_def mem_read_def)

end
