(* ===== verification/Gateway_Binary.thy ===== *)
theory Gateway_Binary
  imports Identity_Binary Ip_Address
begin

text \<open>
  The binary protocol of the gateway service
  (\<open>lorawan/storage/serialization/gateway-binary-serialization.cpp\<close>): the messages and their
  bytes, the checks of a request, and \<open>query\<close>, which answers a request from a gateway service.
  The layout follows \<open>Identity_Binary\<close>, from where \<open>ServiceMessage\<close> comes.  The result
  \<open>None\<close> is an access behind a \<open>struct sockaddr\<close> (16 bytes) or behind the request; a field
  that no constructor sets is read from a parameter \<open>junk\<close>.
\<close>

section \<open>Requests\<close>

abbreviation (input) QUERY_GATEWAY_NONE :: u8 where "QUERY_GATEWAY_NONE \<equiv> 0"
abbreviation (input) QUERY_GATEWAY_ADDR :: u8 where "QUERY_GATEWAY_ADDR \<equiv> 0x41"
abbreviation (input) QUERY_GATEWAY_ID :: u8 where "QUERY_GATEWAY_ID \<equiv> 0x49"
abbreviation (input) QUERY_GATEWAY_LIST :: u8 where "QUERY_GATEWAY_LIST \<equiv> 0x4C"
abbreviation (input) QUERY_GATEWAY_COUNT :: u8 where "QUERY_GATEWAY_COUNT \<equiv> 0x43"
abbreviation (input) QUERY_GATEWAY_ASSIGN :: u8 where "QUERY_GATEWAY_ASSIGN \<equiv> 0x50"
abbreviation (input) QUERY_GATEWAY_RM :: u8 where "QUERY_GATEWAY_RM \<equiv> 0x52"
abbreviation (input) QUERY_GATEWAY_FORCE_SAVE :: u8 where "QUERY_GATEWAY_FORCE_SAVE \<equiv> 0x53"
abbreviation (input) QUERY_GATEWAY_CLOSE_RESOURCES :: u8
  where "QUERY_GATEWAY_CLOSE_RESOURCES \<equiv> 0x45"

abbreviation (input) SIZE_GATEWAY_ID_REQUEST :: nat where "SIZE_GATEWAY_ID_REQUEST \<equiv> 21"
abbreviation (input) SIZE_GATEWAY_ADDR_REQUEST :: nat where "SIZE_GATEWAY_ADDR_REQUEST \<equiv> 20"
abbreviation (input) SIZE_DEVICE_EUI_ADDR_REQUEST :: nat where "SIZE_DEVICE_EUI_ADDR_REQUEST \<equiv> 28"
abbreviation (input) SIZE_DEVICE_GET_ADDR_6_RESPONSE :: nat
  where "SIZE_DEVICE_GET_ADDR_6_RESPONSE \<equiv> 40"

text \<open>A \<open>struct sockaddr\<close> member read from a buffer.\<close>

definition read_sockaddr :: "SOCKADDR \<Rightarrow> bytes \<Rightarrow> (nat \<times> SOCKADDR) option" where
  "read_sockaddr a buf =
    map_option (\<lambda>(n, m). (n, sockaddr_of_memory m)) (deserializeSocketAddress (sockaddr_memory a) buf)"

definition ntoh_identity :: "GatewayIdentity \<Rightarrow> GatewayIdentity" where
  "ntoh_identity g =
    \<lparr>gatewayId = NTOH8 (gatewayId g),
     sockaddr = sockaddr_of_memory (sockaddrNtoh (sockaddr_memory (sockaddr g)))\<rparr>"

record GatewayIdRequest = ServiceMessage +
  gir_id :: u64

definition GatewayIdRequest_default :: GatewayIdRequest where
  "GatewayIdRequest_default =
    \<lparr>sm_tag = QUERY_GATEWAY_ADDR, sm_code = 0, sm_accessCode = 0, gir_id = 0\<rparr>"

definition GatewayIdRequest_of :: "u8 \<Rightarrow> u64 \<Rightarrow> u32 \<Rightarrow> u64 \<Rightarrow> GatewayIdRequest" where
  "GatewayIdRequest_of aTag aId code accessCode =
    \<lparr>sm_tag = aTag, sm_code = code, sm_accessCode = accessCode, gir_id = aId\<rparr>"

definition GatewayIdRequest_parse :: "GatewayIdRequest \<Rightarrow> bytes \<Rightarrow> GatewayIdRequest" where
  "GatewayIdRequest_parse m buf =
    (let m = ServiceMessage_parse m buf in
     if SIZE_GATEWAY_ID_REQUEST \<le> length buf
     then m\<lparr>gir_id := from_le (mem_read buf SIZE_SERVICE_MESSAGE 8)\<rparr> else m)"

definition GatewayIdRequest_ntoh :: "GatewayIdRequest \<Rightarrow> GatewayIdRequest" where
  "GatewayIdRequest_ntoh m = (ServiceMessage_ntoh m)\<lparr>gir_id := NTOH8 (gir_id m)\<rparr>"

definition GatewayIdRequest_serialize :: "GatewayIdRequest \<Rightarrow> bytes" where
  "GatewayIdRequest_serialize m = ServiceMessage_serialize m @ le_bytes 8 (gir_id m)"

definition GatewayIdRequest_toJsonString :: "GatewayIdRequest \<Rightarrow> string" where
  "GatewayIdRequest_toJsonString m = quoted ''gwid'' @ '':'' @ [CHR 0x22] @ show_hex (unat (gir_id m))"

record GatewayAddrRequest = ServiceMessage +
  gar_addr :: SOCKADDR

definition GatewayAddrRequest_default :: GatewayAddrRequest where
  "GatewayAddrRequest_default =
    \<lparr>sm_tag = QUERY_GATEWAY_ID, sm_code = 0, sm_accessCode = 0, gar_addr = SOCKADDR_zero\<rparr>"

definition GatewayAddrRequest_of :: "SOCKADDR \<Rightarrow> u32 \<Rightarrow> u64 \<Rightarrow> GatewayAddrRequest" where
  "GatewayAddrRequest_of aAddr code accessCode =
    \<lparr>sm_tag = QUERY_GATEWAY_ID, sm_code = code, sm_accessCode = accessCode, gar_addr = aAddr\<rparr>"

definition GatewayAddrRequest_parse ::
    "GatewayAddrRequest \<Rightarrow> bytes \<Rightarrow> GatewayAddrRequest option" where
  "GatewayAddrRequest_parse m buf =
    (let m = ServiceMessage_parse m buf in
     if SIZE_SERVICE_MESSAGE \<le> length buf
     then map_option (\<lambda>(_, a). m\<lparr>gar_addr := a\<rparr>)
            (read_sockaddr (gar_addr m) (drop SIZE_SERVICE_MESSAGE buf))
     else Some m)"

definition GatewayAddrRequest_serializedSize :: "GatewayAddrRequest \<Rightarrow> nat" where
  "GatewayAddrRequest_serializedSize m =
    (if isIPv6 (sockaddr_memory (gar_addr m)) then SIZE_SERVICE_MESSAGE + 3 + 4
     else SIZE_SERVICE_MESSAGE + 3 + 16)"

definition GatewayAddrRequest_ntoh :: "GatewayAddrRequest \<Rightarrow> GatewayAddrRequest" where
  "GatewayAddrRequest_ntoh m =
    (ServiceMessage_ntoh m)
      \<lparr>gar_addr := sockaddr_of_memory (sockaddrNtoh (sockaddr_memory (gar_addr m)))\<rparr>"

definition GatewayAddrRequest_serialize :: "GatewayAddrRequest \<Rightarrow> bytes option" where
  "GatewayAddrRequest_serialize m =
    map_option (\<lambda>a. ServiceMessage_serialize m @ a)
      (serializeSocketAddress (sockaddr_memory (gar_addr m)))"

definition GatewayAddrRequest_toJsonString :: "(bytes \<Rightarrow> string) \<Rightarrow> GatewayAddrRequest \<Rightarrow> string option" where
  "GatewayAddrRequest_toJsonString ntop6 m =
    map_option (\<lambda>a. ''{'' @ quoted ''addr'' @ '': '' @ quoted a @ ''}'')
      (sockaddr2string ntop6 (sockaddr_memory (gar_addr m)))"

record GatewayIdAddrRequest = ServiceMessage +
  gia_identity :: GatewayIdentity

definition GatewayIdAddrRequest_default :: GatewayIdAddrRequest where
  "GatewayIdAddrRequest_default =
    \<lparr>sm_tag = QUERY_GATEWAY_ASSIGN, sm_code = 0, sm_accessCode = 0,
     gia_identity = GatewayIdentity_default\<rparr>"

definition GatewayIdAddrRequest_of :: "u8 \<Rightarrow> GatewayIdentity \<Rightarrow> u32 \<Rightarrow> u64 \<Rightarrow> GatewayIdAddrRequest" where
  "GatewayIdAddrRequest_of aTag aIdentity code accessCode =
    \<lparr>sm_tag = aTag, sm_code = code, sm_accessCode = accessCode,
     gia_identity = GatewayIdentity_copy aIdentity\<rparr>"

definition GatewayIdAddrRequest_parse ::
    "GatewayIdAddrRequest \<Rightarrow> bytes \<Rightarrow> GatewayIdAddrRequest option" where
  "GatewayIdAddrRequest_parse m buf =
    (let m = ServiceMessage_parse m buf in
     if SIZE_GATEWAY_ID_REQUEST \<le> length buf
     then map_option (\<lambda>(_, a). m\<lparr>gia_identity :=
              \<lparr>gatewayId = from_le (mem_read buf SIZE_SERVICE_MESSAGE 8), sockaddr = a\<rparr>\<rparr>)
            (read_sockaddr (sockaddr (gia_identity m)) (drop SIZE_GATEWAY_ID_REQUEST buf))
     else Some m)"

definition GatewayIdAddrRequest_serializedSize :: "GatewayIdAddrRequest \<Rightarrow> nat" where
  "GatewayIdAddrRequest_serializedSize m =
    SIZE_GATEWAY_ID_REQUEST + 3 +
    (if isIPv6 (sockaddr_memory (sockaddr (gia_identity m))) then 16 else 4)"

definition GatewayIdAddrRequest_ntoh :: "GatewayIdAddrRequest \<Rightarrow> GatewayIdAddrRequest" where
  "GatewayIdAddrRequest_ntoh m =
    (ServiceMessage_ntoh m)\<lparr>gia_identity := ntoh_identity (gia_identity m)\<rparr>"

definition GatewayIdAddrRequest_serialize :: "GatewayIdAddrRequest \<Rightarrow> bytes option" where
  "GatewayIdAddrRequest_serialize m =
    map_option (\<lambda>a. ServiceMessage_serialize m @ le_bytes 8 (gatewayId (gia_identity m)) @ a)
      (serializeSocketAddress (sockaddr_memory (sockaddr (gia_identity m))))"

definition GatewayIdAddrRequest_toJsonString ::
    "(bytes \<Rightarrow> string) \<Rightarrow> GatewayIdAddrRequest \<Rightarrow> string option" where
  "GatewayIdAddrRequest_toJsonString ntop6 m =
    map_option (\<lambda>a. ''{'' @ quoted ''identity'' @ '': '' @ quoted a @ ''}'')
      (GatewayIdentity_toJsonString ntop6 (gia_identity m))"

record GatewayOperationRequest = ServiceMessage +
  gop_offset :: u32
  gop_size :: u8

definition GatewayOperationRequest_default :: GatewayOperationRequest where
  "GatewayOperationRequest_default =
    \<lparr>sm_tag = QUERY_GATEWAY_LIST, sm_code = 0, sm_accessCode = 0, gop_offset = 0, gop_size = 0\<rparr>"

definition GatewayOperationRequest_of ::
    "u8 \<Rightarrow> nat \<Rightarrow> nat \<Rightarrow> u32 \<Rightarrow> u64 \<Rightarrow> GatewayOperationRequest" where
  "GatewayOperationRequest_of aTag aOffset aSize code accessCode =
    \<lparr>sm_tag = aTag, sm_code = code, sm_accessCode = accessCode, gop_offset = of_nat aOffset,
     gop_size = of_nat aSize\<rparr>"

definition GatewayOperationRequest_parse ::
    "'a GatewayOperationRequest_scheme \<Rightarrow> bytes \<Rightarrow> 'a GatewayOperationRequest_scheme" where
  "GatewayOperationRequest_parse m buf =
    (let m = ServiceMessage_parse m buf in
     if SIZE_OPERATION_REQUEST \<le> length buf
     then m\<lparr>gop_offset := from_le (mem_read buf SIZE_SERVICE_MESSAGE 4), gop_size := buf ! 17\<rparr>
     else m)"

definition GatewayOperationRequest_ntoh ::
    "'a GatewayOperationRequest_scheme \<Rightarrow> 'a GatewayOperationRequest_scheme" where
  "GatewayOperationRequest_ntoh m = (ServiceMessage_ntoh m)\<lparr>gop_offset := NTOH4 (gop_offset m)\<rparr>"

definition GatewayOperationRequest_serialize :: "'a GatewayOperationRequest_scheme \<Rightarrow> bytes" where
  "GatewayOperationRequest_serialize m =
    ServiceMessage_serialize m @ le_bytes 4 (gop_offset m) @ [gop_size m]"

definition GatewayOperationRequest_toJsonString :: "'a GatewayOperationRequest_scheme \<Rightarrow> string" where
  "GatewayOperationRequest_toJsonString m =
    ''{'' @ quoted ''offset'' @ '': '' @ show_word (gop_offset m) @ '', '' @ quoted ''size'' @ '': '' @
    show_word (gop_size m) @ ''}''"

section \<open>Responses\<close>

record GatewayGetResponse = ServiceMessage +
  ggr_response :: GatewayIdentity

definition GatewayGetResponse_addr :: "GatewayAddrRequest \<Rightarrow> GatewayGetResponse" where
  "GatewayGetResponse_addr req =
    \<lparr>sm_tag = sm_tag req, sm_code = sm_code req, sm_accessCode = sm_accessCode req,
     ggr_response = GatewayIdentity_default\<rparr>"

definition GatewayGetResponse_id :: "GatewayIdRequest \<Rightarrow> GatewayGetResponse" where
  "GatewayGetResponse_id req =
    \<lparr>sm_tag = sm_tag req, sm_code = sm_code req, sm_accessCode = sm_accessCode req,
     ggr_response = GatewayIdentity_id (gir_id req)\<rparr>"

definition GatewayGetResponse_parse ::
    "GatewayGetResponse \<Rightarrow> bytes \<Rightarrow> GatewayGetResponse option" where
  "GatewayGetResponse_parse m buf =
    (let m = ServiceMessage_parse m buf in
     if SIZE_SERVICE_MESSAGE + 8 \<le> length buf
     then map_option (\<lambda>(_, a). m\<lparr>ggr_response :=
              \<lparr>gatewayId = from_le (mem_read buf SIZE_SERVICE_MESSAGE 8), sockaddr = a\<rparr>\<rparr>)
            (read_sockaddr (sockaddr (ggr_response m)) (drop (SIZE_SERVICE_MESSAGE + 8) buf))
     else Some m)"

definition GatewayGetResponse_serializedSize :: "GatewayGetResponse \<Rightarrow> nat" where
  "GatewayGetResponse_serializedSize m =
    SIZE_SERVICE_MESSAGE + 8 + 3 +
    (if isIPv6 (sockaddr_memory (sockaddr (ggr_response m))) then 16 else 4)"

definition GatewayGetResponse_ntoh :: "GatewayGetResponse \<Rightarrow> GatewayGetResponse" where
  "GatewayGetResponse_ntoh m =
    (ServiceMessage_ntoh m)\<lparr>ggr_response := ntoh_identity (ggr_response m)\<rparr>"

definition GatewayGetResponse_serialize :: "GatewayGetResponse \<Rightarrow> bytes option" where
  "GatewayGetResponse_serialize m =
    map_option (\<lambda>a. ServiceMessage_serialize m @ le_bytes 8 (gatewayId (ggr_response m)) @ a)
      (serializeSocketAddress (sockaddr_memory (sockaddr (ggr_response m))))"

definition GatewayGetResponse_toJsonString ::
    "(bytes \<Rightarrow> string) \<Rightarrow> GatewayGetResponse \<Rightarrow> string option" where
  "GatewayGetResponse_toJsonString ntop6 m = GatewayIdentity_toJsonString ntop6 (ggr_response m)"

record GatewayOperationResponse = GatewayOperationRequest +
  gor_response :: u32

definition GatewayOperationResponse_default :: GatewayOperationResponse where
  "GatewayOperationResponse_default =
    GatewayOperationRequest.extend GatewayOperationRequest_default (GatewayOperationResponse.fields 0)"

text \<open>These three constructors leave \<open>response\<close> unset.\<close>

definition GatewayOperationResponse_copy ::
    "u32 \<Rightarrow> GatewayOperationResponse \<Rightarrow> GatewayOperationResponse" where
  "GatewayOperationResponse_copy junk resp = resp\<lparr>gor_response := junk\<rparr>"

definition GatewayOperationResponse_id ::
    "u32 \<Rightarrow> GatewayIdAddrRequest \<Rightarrow> GatewayOperationResponse" where
  "GatewayOperationResponse_id junk req =
    GatewayOperationRequest.extend
      (GatewayOperationRequest_of (sm_tag req) 0 0 (sm_code req) (sm_accessCode req))
      (GatewayOperationResponse.fields junk)"

definition GatewayOperationResponse_op ::
    "u32 \<Rightarrow> GatewayOperationRequest \<Rightarrow> GatewayOperationResponse" where
  "GatewayOperationResponse_op junk req =
    GatewayOperationRequest.extend req (GatewayOperationResponse.fields junk)"

definition GatewayOperationResponse_parse ::
    "'a GatewayOperationResponse_scheme \<Rightarrow> bytes \<Rightarrow> 'a GatewayOperationResponse_scheme" where
  "GatewayOperationResponse_parse m buf =
    (let m = GatewayOperationRequest_parse m buf in
     if SIZE_OPERATION_RESPONSE \<le> length buf
     then m\<lparr>gor_response := from_le (mem_read buf SIZE_OPERATION_REQUEST 4)\<rparr> else m)"

definition GatewayOperationResponse_ntoh ::
    "'a GatewayOperationResponse_scheme \<Rightarrow> 'a GatewayOperationResponse_scheme" where
  "GatewayOperationResponse_ntoh m =
    (GatewayOperationRequest_ntoh m)\<lparr>gor_response := NTOH4 (gor_response m)\<rparr>"

definition GatewayOperationResponse_serialize :: "'a GatewayOperationResponse_scheme \<Rightarrow> bytes" where
  "GatewayOperationResponse_serialize m =
    GatewayOperationRequest_serialize m @ le_bytes 4 (gor_response m)"

definition GatewayOperationResponse_toJsonString :: "'a GatewayOperationResponse_scheme \<Rightarrow> string" where
  "GatewayOperationResponse_toJsonString m =
    ''{'' @ quoted ''request'' @ '': '' @ GatewayOperationRequest_toJsonString m @ '', '' @
    quoted ''response'' @ '': '' @ show_word (gor_response m) @ ''}''"
section \<open>Recognising requests\<close>

datatype gateway_message =
    G_Id GatewayIdRequest
  | G_Addr GatewayAddrRequest
  | G_IdAddr GatewayIdAddrRequest
  | G_Operation GatewayOperationRequest

text \<open>
  \<open>deserializeGateway\<close>: \<open>Some None\<close> is the null pointer.  The sizes that are checked cover
  every field but the address, which keeps what it held, \<open>junk\<close>, where the family is unknown.
\<close>

definition deserializeGateway :: "SOCKADDR \<Rightarrow> bytes \<Rightarrow> gateway_message option option" where
  "deserializeGateway junk buf =
    (let operation = (if length buf < SIZE_OPERATION_REQUEST then Some None
           else Some (Some (G_Operation (GatewayOperationRequest_ntoh
             (GatewayOperationRequest_parse GatewayOperationRequest_default buf)))));
         id_addr = map_option (\<lambda>m. Some (G_IdAddr (GatewayIdAddrRequest_ntoh m)))
             (GatewayIdAddrRequest_parse GatewayIdAddrRequest_default buf)
     in
     if length buf < SIZE_SERVICE_MESSAGE then Some None
     else if buf ! 0 = QUERY_GATEWAY_ADDR then
       (if length buf < SIZE_GATEWAY_ID_REQUEST then Some None
        else Some (Some (G_Id (GatewayIdRequest_ntoh
          (GatewayIdRequest_parse GatewayIdRequest_default buf)))))
     else if buf ! 0 = QUERY_GATEWAY_ID then
       (if length buf < SIZE_GATEWAY_ADDR_REQUEST then Some None
        else map_option (\<lambda>m. Some (G_Addr (GatewayAddrRequest_ntoh m)))
          (GatewayAddrRequest_parse (GatewayAddrRequest_default\<lparr>gar_addr := junk\<rparr>) buf))
     else if buf ! 0 = QUERY_GATEWAY_ASSIGN then
       (if length buf < SIZE_DEVICE_EUI_ADDR_REQUEST then Some None else id_addr)
     else if buf ! 0 = QUERY_GATEWAY_RM then
       (if length buf < SIZE_GATEWAY_ID_REQUEST then Some None else id_addr)
     else if buf ! 0 = QUERY_GATEWAY_LIST then operation
     else if buf ! 0 = QUERY_GATEWAY_COUNT then operation
     else if buf ! 0 = QUERY_GATEWAY_FORCE_SAVE then operation
     else if buf ! 0 = QUERY_GATEWAY_CLOSE_RESOURCES then operation
     else Some None)"

text \<open>The first byte is read whatever the size is.\<close>

definition validateGatewayQuery :: "bytes \<Rightarrow> u8 option" where
  "validateGatewayQuery buf =
    (if buf = [] then None
     else let t = buf ! 0 in
       Some (if t = QUERY_GATEWAY_ADDR then sized_tag buf SIZE_GATEWAY_ID_REQUEST t
         else if t = QUERY_GATEWAY_ID then sized_tag buf SIZE_GATEWAY_ADDR_REQUEST t
         else if t = QUERY_GATEWAY_ASSIGN then sized_tag buf SIZE_GATEWAY_ADDR_REQUEST t
         else if t = QUERY_GATEWAY_RM then sized_tag buf SIZE_GATEWAY_ADDR_REQUEST t
         else if t = QUERY_GATEWAY_LIST then sized_tag buf SIZE_OPERATION_REQUEST t
         else if t = QUERY_GATEWAY_COUNT then sized_tag buf SIZE_OPERATION_REQUEST t
         else if t = QUERY_GATEWAY_FORCE_SAVE then sized_tag buf SIZE_OPERATION_REQUEST t
         else if t = QUERY_GATEWAY_CLOSE_RESOURCES then sized_tag buf SIZE_OPERATION_REQUEST t
         else QUERY_GATEWAY_NONE))"

definition getMaxGatewayListResponseSize :: "nat \<Rightarrow> nat" where
  "getMaxGatewayListResponseSize n = SIZE_OPERATION_RESPONSE + n * (8 + 19)"

definition responseSizeForGatewayRequest :: "bytes \<Rightarrow> nat option" where
  "responseSizeForGatewayRequest buf =
    (case validateGatewayQuery buf of
       None \<Rightarrow> None
     | Some tag \<Rightarrow> Some
        (if tag = QUERY_GATEWAY_ADDR \<or> tag = QUERY_GATEWAY_ID then SIZE_DEVICE_GET_ADDR_6_RESPONSE
         else if tag = QUERY_GATEWAY_LIST then
           getMaxGatewayListResponseSize (unat (gop_size
             (GatewayOperationRequest_parse GatewayOperationRequest_default buf)))
         else SIZE_OPERATION_RESPONSE))"

definition gatewayTag2string :: "u8 \<Rightarrow> string" where
  "gatewayTag2string v =
    (if v = QUERY_GATEWAY_ADDR then ''gw-address''
     else if v = QUERY_GATEWAY_ID then ''gw-identifier''
     else if v = QUERY_GATEWAY_LIST then ''gw-list''
     else if v = QUERY_GATEWAY_COUNT then ''gw-count''
     else if v = QUERY_GATEWAY_ASSIGN then ''gw-assign''
     else if v = QUERY_GATEWAY_RM then ''gw-remove''
     else if v = QUERY_GATEWAY_FORCE_SAVE then ''gw-save''
     else if v = QUERY_GATEWAY_CLOSE_RESOURCES then ''gw-close''
     else [])"

definition gatewayCommandSet :: string where
  "gatewayCommandSet = ''AILCPRSE''"

definition isGatewayTag :: "bytes \<Rightarrow> bool" where
  "isGatewayTag buf \<longleftrightarrow> length buf \<noteq> 0 \<and>
    buf ! 0 \<in> {QUERY_GATEWAY_ADDR, QUERY_GATEWAY_ID, QUERY_GATEWAY_LIST, QUERY_GATEWAY_COUNT,
      QUERY_GATEWAY_ASSIGN, QUERY_GATEWAY_RM, QUERY_GATEWAY_FORCE_SAVE,
      QUERY_GATEWAY_CLOSE_RESOURCES}"

fun find_gateway_tag :: "string \<Rightarrow> string \<Rightarrow> u8" where
  "find_gateway_tag [] tag = QUERY_GATEWAY_NONE"
| "find_gateway_tag (c # cs) tag =
    (if gatewayTag2string (of_char c) = tag then of_char c else find_gateway_tag cs tag)"

text \<open>\<open>isGatewayTag(const char *)\<close>: \<open>None\<close> is the null pointer, a text has no NUL.\<close>

definition isGatewayTag_text :: "string option \<Rightarrow> u8" where
  "isGatewayTag_text p =
    (case p of None \<Rightarrow> QUERY_GATEWAY_NONE
     | Some tag \<Rightarrow>
         if length tag = 1 then
           (if hd tag \<in> set gatewayCommandSet then of_char (hd tag) else QUERY_GATEWAY_NONE)
         else find_gateway_tag gatewayCommandSet tag)"

section \<open>Lists\<close>

record GatewayListResponse = GatewayOperationResponse +
  glr_identities :: "GatewayIdentity list"

definition GatewayListResponse_default :: GatewayListResponse where
  "GatewayListResponse_default =
    GatewayOperationResponse.extend GatewayOperationResponse_default (GatewayListResponse.fields [])"

text \<open>The copy constructor leaves the list empty.\<close>

definition GatewayListResponse_copy :: "u32 \<Rightarrow> GatewayListResponse \<Rightarrow> GatewayListResponse" where
  "GatewayListResponse_copy junk m =
    GatewayOperationResponse.extend
      (GatewayOperationResponse_copy junk (GatewayOperationResponse.truncate m))
      (GatewayListResponse.fields [])"

definition GatewayListResponse_op :: "u32 \<Rightarrow> GatewayOperationRequest \<Rightarrow> GatewayListResponse" where
  "GatewayListResponse_op junk req =
    GatewayOperationResponse.extend (GatewayOperationResponse_op junk req)
      (GatewayListResponse.fields [])"

function gateway_list_loop :: "bytes \<Rightarrow> GatewayIdentity list option" where
  "gateway_list_loop buf =
    (if buf = [] then Some []
     else if length buf < 8 then None
     else case read_sockaddr (sockaddr GatewayIdentity_default) (drop 8 buf) of
         None \<Rightarrow> None
       | Some (n, a) \<Rightarrow>
           map_option (\<lambda>gs. GatewayIdentity_copy \<lparr>gatewayId = from_le (mem_read buf 0 8), sockaddr = a\<rparr> # gs)
             (gateway_list_loop (drop (8 + n) buf)))"
  by pat_completeness auto
termination
  by (relation "measure length") auto

declare gateway_list_loop.simps [simp del]

text \<open>The constructor also calls \<open>deserializeGateway\<close> and drops the object.\<close>

definition GatewayListResponse_parse ::
    "SOCKADDR \<Rightarrow> GatewayListResponse \<Rightarrow> bytes \<Rightarrow> GatewayListResponse option" where
  "GatewayListResponse_parse junk m buf =
    (let m = GatewayOperationResponse_parse m buf in
     case deserializeGateway junk buf of
       None \<Rightarrow> None
     | Some _ \<Rightarrow>
         map_option (\<lambda>gs. m\<lparr>glr_identities := gs, gor_response := of_nat (length gs)\<rparr>)
           (gateway_list_loop (drop SIZE_OPERATION_RESPONSE buf)))"

definition GatewayListResponse_serializedSize :: "GatewayListResponse \<Rightarrow> nat" where
  "GatewayListResponse_serializedSize m =
    foldl (\<lambda>ofs g. ofs + (8 + 3 + (if isIPv6 (sockaddr_memory (sockaddr g)) then 16 else 4)))
      SIZE_OPERATION_RESPONSE (glr_identities m)"

definition GatewayListResponse_ntoh :: "GatewayListResponse \<Rightarrow> GatewayListResponse" where
  "GatewayListResponse_ntoh m =
    (GatewayOperationResponse_ntoh m)\<lparr>glr_identities := map ntoh_identity (glr_identities m)\<rparr>"

fun serialize_gateways :: "GatewayIdentity list \<Rightarrow> bytes option" where
  "serialize_gateways [] = Some []"
| "serialize_gateways (g # gs) =
    (case serializeSocketAddress (sockaddr_memory (sockaddr g)) of
       None \<Rightarrow> None
     | Some a \<Rightarrow> map_option (\<lambda>r. le_bytes 8 (gatewayId g) @ a @ r) (serialize_gateways gs))"

definition GatewayListResponse_serialize :: "GatewayListResponse \<Rightarrow> bytes option" where
  "GatewayListResponse_serialize m =
    map_option (\<lambda>r. GatewayOperationResponse_serialize m @ r) (serialize_gateways (glr_identities m))"

text \<open>\<open>getListResponseSize\<close>, and \<open>serialize(nullptr)\<close>, which is the same sum.\<close>

definition getListResponseSize :: "GatewayIdentity list \<Rightarrow> nat" where
  "getListResponseSize gs =
    foldl (\<lambda>r g. r + (8 + socketAddressSize (sockaddr_memory (sockaddr g)))) SIZE_OPERATION_RESPONSE gs"

definition GatewayListResponse_size :: "GatewayListResponse \<Rightarrow> nat" where
  "GatewayListResponse_size m = getListResponseSize (glr_identities m)"

function gateway_shortenList2Fit :: "nat \<Rightarrow> GatewayListResponse \<Rightarrow> nat \<times> GatewayListResponse" where
  "gateway_shortenList2Fit serializedSize m =
    (let r = GatewayListResponse_size m in
     if glr_identities m \<noteq> [] \<and> serializedSize < r
     then gateway_shortenList2Fit serializedSize (m\<lparr>glr_identities := butlast (glr_identities m)\<rparr>)
     else (r, m))"
  by pat_completeness auto
termination
  by (relation "measure (\<lambda>(_, m). length (glr_identities m))") auto

declare gateway_shortenList2Fit.simps [simp del]

text \<open>The text goes through \<open>response\<close> elements, whether the vector has them or not.\<close>

fun gateways_text :: "(bytes \<Rightarrow> string) \<Rightarrow> bool \<Rightarrow> nat \<Rightarrow> GatewayIdentity list \<Rightarrow> string option" where
  "gateways_text ntop6 isFirst 0 gs = Some []"
| "gateways_text ntop6 isFirst (Suc n) [] = None"
| "gateways_text ntop6 isFirst (Suc n) (g # gs) =
    (case (GatewayIdentity_toJsonString ntop6 g, gateways_text ntop6 False n gs) of
       (Some t, Some r) \<Rightarrow> Some ((if isFirst then [] else '', '') @ t @ r)
     | _ \<Rightarrow> None)"

definition GatewayListResponse_toJsonString ::
    "(bytes \<Rightarrow> string) \<Rightarrow> GatewayListResponse \<Rightarrow> string option" where
  "GatewayListResponse_toJsonString ntop6 m =
    map_option (\<lambda>t. ''{'' @ quoted ''result'' @ '': '' @ GatewayOperationResponse_toJsonString m @
        '', '' @ quoted ''gateways'' @ '': ['' @ t @ '']}'')
      (gateways_text ntop6 True (unat (gor_response m)) (glr_identities m))"

section \<open>Answering a request\<close>

text \<open>The virtual functions of \<open>GatewayService\<close> that \<open>query\<close> calls, on a state \<open>'s\<close>;
  \<open>get\<close> is called with the same object as request and result.\<close>

record 's GatewayService =
  gsv_get :: "'s \<Rightarrow> GatewayIdentity \<Rightarrow> code \<times> GatewayIdentity"
  gsv_put :: "'s \<Rightarrow> GatewayIdentity \<Rightarrow> code \<times> 's"
  gsv_rm :: "'s \<Rightarrow> GatewayIdentity \<Rightarrow> code \<times> 's"
  gsv_list :: "'s \<Rightarrow> GatewayIdentity list \<Rightarrow> u32 \<Rightarrow> u8 \<Rightarrow> code \<times> GatewayIdentity list"
  gsv_size :: "'s \<Rightarrow> nat"

definition MemoryGatewayService :: "gateway_storage GatewayService" where
  "MemoryGatewayService =
    \<lparr>gsv_get = (\<lambda>s g. gws_get s g g), gsv_put = gws_put, gsv_rm = gws_rm, gsv_list = gws_list,
     gsv_size = gws_size\<rparr>"

text \<open>The bytes written to the buffer, and the size that is returned.\<close>

definition sized_answer :: "bytes option \<Rightarrow> (bytes \<times> nat) option" where
  "sized_answer r = map_option (\<lambda>b. (b, length b)) r"

definition answer_gateway :: "GatewayGetResponse \<Rightarrow> (bytes \<times> nat) option" where
  "answer_gateway r = sized_answer (GatewayGetResponse_serialize (GatewayGetResponse_ntoh r))"

definition answer_operation :: "GatewayOperationResponse \<Rightarrow> (bytes \<times> nat) option" where
  "answer_operation r =
    sized_answer (Some (GatewayOperationResponse_serialize (GatewayOperationResponse_ntoh r)))"

definition answer_gateways :: "GatewayListResponse \<Rightarrow> (bytes \<times> nat) option" where
  "answer_gateways r = sized_answer (GatewayListResponse_serialize (GatewayListResponse_ntoh r))"

text \<open>The eight bytes of the identifier are moved over the beginning of the address.\<close>

definition query_gateway_ADDR :: "'s GatewayService \<Rightarrow> 's \<Rightarrow> GatewayIdRequest \<Rightarrow> (bytes \<times> nat) option" where
  "query_gateway_ADDR svc s gr =
    (let r = GatewayGetResponse_id gr;
         a = sockaddr_of_memory
               (mem_write (sockaddr_memory (sockaddr (ggr_response r))) 0 (le_bytes 8 (gir_id gr)));
         (_, g) = gsv_get svc s ((ggr_response r)\<lparr>sockaddr := a\<rparr>)
     in answer_gateway (r\<lparr>ggr_response := g\<rparr>))"

definition query_gateway_ID :: "'s GatewayService \<Rightarrow> 's \<Rightarrow> GatewayAddrRequest \<Rightarrow> (bytes \<times> nat) option" where
  "query_gateway_ID svc s gr =
    (let r = GatewayGetResponse_addr gr;
         (c, g) = gsv_get svc s ((ggr_response r)\<lparr>sockaddr := gar_addr gr\<rparr>)
     in answer_gateway (r\<lparr>ggr_response := g, sm_code := word_of_int c\<rparr>))"

definition operation_result :: "code \<Rightarrow> GatewayOperationResponse \<Rightarrow> GatewayOperationResponse" where
  "operation_result errCode r =
    (let r = r\<lparr>gor_response := word_of_int errCode\<rparr>
     in if errCode = 0 then r\<lparr>gop_size := 1\<rparr> else r)"

definition query_gateway_ASSIGN ::
    "'s GatewayService \<Rightarrow> u32 \<Rightarrow> 's \<Rightarrow> GatewayIdAddrRequest \<Rightarrow> (bytes \<times> nat) option \<times> 's" where
  "query_gateway_ASSIGN svc junk s gr =
    (let (errCode, s') = gsv_put svc s (gia_identity gr)
     in (answer_operation (operation_result errCode (GatewayOperationResponse_id junk gr)), s'))"

definition query_gateway_RM ::
    "'s GatewayService \<Rightarrow> u32 \<Rightarrow> 's \<Rightarrow> GatewayIdAddrRequest \<Rightarrow> (bytes \<times> nat) option \<times> 's" where
  "query_gateway_RM svc junk s gr =
    (let (errCode, s') = gsv_rm svc s (gia_identity gr)
     in (answer_operation (operation_result errCode (GatewayOperationResponse_id junk gr)), s'))"

definition query_gateway_LIST ::
    "'s GatewayService \<Rightarrow> u32 \<Rightarrow> 's \<Rightarrow> nat \<Rightarrow> GatewayOperationRequest \<Rightarrow> (bytes \<times> nat) option" where
  "query_gateway_LIST svc junk s retSize gr =
    (let r = GatewayListResponse_op junk gr;
         (_, gs) = gsv_list svc s (glr_identities r) (gop_offset gr) (gop_size gr);
         r = r\<lparr>glr_identities := gs\<rparr>;
         serSize = getListResponseSize (glr_identities r)
     in
     if retSize < serSize then
       (let (serSize, r) = gateway_shortenList2Fit serSize r
        in if retSize < serSize then Some ([], 0) else answer_gateways r)
     else answer_gateways r)"

definition query_gateway_COUNT ::
    "'s GatewayService \<Rightarrow> u32 \<Rightarrow> 's \<Rightarrow> GatewayOperationRequest \<Rightarrow> (bytes \<times> nat) option" where
  "query_gateway_COUNT svc junk s gr =
    answer_operation ((GatewayOperationResponse_op junk gr)
      \<lparr>sm_tag := sm_tag gr, sm_code := word_of_int CODE_OK, sm_accessCode := sm_accessCode gr,
       gor_response := of_nat (gsv_size svc s)\<rparr>)"

text \<open>22 bytes are written; the size returned is that of the object, 40 bytes with its table
  of virtual functions and its padding.\<close>

definition gateway_access_denied :: "(bytes \<times> nat) option" where
  "gateway_access_denied =
    Some (GatewayOperationResponse_serialize (GatewayOperationResponse_ntoh
      (GatewayOperationResponse_default\<lparr>sm_code := word_of_int ERR_CODE_ACCESS_DENIED\<rparr>)), 40)"

fun gateway_header :: "gateway_message \<Rightarrow> ServiceMessage" where
  "gateway_header (G_Id m) = ServiceMessage.truncate m"
| "gateway_header (G_Addr m) = ServiceMessage.truncate m"
| "gateway_header (G_IdAddr m) = ServiceMessage.truncate m"
| "gateway_header (G_Operation m) = ServiceMessage.truncate m"

definition gateway_dispatch ::
    "'s GatewayService \<Rightarrow> u32 \<Rightarrow> 's \<Rightarrow> nat \<Rightarrow> u8 \<Rightarrow> gateway_message \<Rightarrow> (bytes \<times> nat) option \<times> 's" where
  "gateway_dispatch svc junk s retSize tag msg =
    (case msg of
       G_Id gr \<Rightarrow> (query_gateway_ADDR svc s gr, s)
     | G_Addr gr \<Rightarrow> (query_gateway_ID svc s gr, s)
     | G_IdAddr gr \<Rightarrow>
         if tag = QUERY_GATEWAY_ASSIGN then query_gateway_ASSIGN svc junk s gr
         else query_gateway_RM svc junk s gr
     | G_Operation gr \<Rightarrow>
         if tag = QUERY_GATEWAY_LIST then (query_gateway_LIST svc junk s retSize gr, s)
         else if tag = QUERY_GATEWAY_COUNT then (query_gateway_COUNT svc junk s gr, s)
         else (Some ([], 0), s))"

text \<open>\<open>junk\<close> and \<open>junk_addr\<close>: what unset fields hold.\<close>

definition gateway_query ::
    "'s GatewayService option \<Rightarrow> u32 \<Rightarrow> u64 \<Rightarrow> u32 \<Rightarrow> SOCKADDR \<Rightarrow> 's \<Rightarrow> nat \<Rightarrow> bytes \<Rightarrow>
     (bytes \<times> nat) option \<times> 's" where
  "gateway_query svc code accessCode junk junk_addr s retSize request =
    (case svc of None \<Rightarrow> (Some ([], 0), s)
     | Some svc \<Rightarrow>
         if length request < SIZE_SERVICE_MESSAGE then (Some ([], 0), s)
         else case deserializeGateway junk_addr request of
           None \<Rightarrow> (None, s)
         | Some None \<Rightarrow> (Some ([], 0), s)
         | Some (Some msg) \<Rightarrow>
             if sm_code (gateway_header msg) \<noteq> code \<or> sm_accessCode (gateway_header msg) \<noteq> accessCode
             then (gateway_access_denied, s)
             else gateway_dispatch svc junk s retSize (request ! 0) msg)"
section \<open>Lemmas: addresses\<close>

definition put_ip4 :: "SOCKADDR \<Rightarrow> SOCKADDR \<Rightarrow> SOCKADDR" where
  "put_ip4 z a =
    \<lparr>sa_family = AF_INET, sin_port = sin_port a, sin_addr = take 4 (sin_addr a) @ drop 4 (sin_addr z)\<rparr>"

text \<open>An IPv4 address as \<open>sockaddr_in\<close> has it: zeros behind the four bytes.\<close>

definition ip4 :: "SOCKADDR \<Rightarrow> bool" where
  "ip4 a \<longleftrightarrow> sa_family a = AF_INET \<and> length (sin_addr a) = 16 \<and> drop 4 (sin_addr a) = replicate 12 0"

lemma ip4_wf [simp]:
  assumes "ip4 a"
  shows "wf_sockaddr a" "sa_family a = AF_INET" "length (sin_addr a) = 16"
proof -
  have "drop 12 (sin_addr a) = drop 8 (drop 4 (sin_addr a))" by simp
  also have "\<dots> = replicate 4 0" using assms by (simp only: ip4_def drop_replicate) simp
  finally show "wf_sockaddr a" using assms by (simp add: wf_sockaddr_def ip4_def)
qed (use assms in \<open>auto simp only: ip4_def\<close>)

lemma put_ip4_zero:
  assumes "ip4 a"
  shows "put_ip4 SOCKADDR_zero a = a"
proof -
  have "drop 4 (sin_addr a) = replicate 12 0" "sa_family a = AF_INET"
    using assms unfolding ip4_def by blast+
  then have "take 4 (sin_addr a) @ replicate 12 0 = sin_addr a"
    by (metis append_take_drop_id)
  then have "take 4 (sin_addr a) @ drop 4 (sin_addr SOCKADDR_zero) = sin_addr a"
    by (simp only: SOCKADDR_zero_def SOCKADDR.simps drop_replicate) simp
  with \<open>sa_family a = AF_INET\<close> show ?thesis
    by (cases a) (simp only: put_ip4_def SOCKADDR.simps)
qed

lemma put_ip4_same: "ip4 a \<Longrightarrow> sameSocketAddress (put_ip4 z a) a"
  by (simp add: put_ip4_def sameSocketAddress_def)

lemma put_ip4_wf:
  assumes "wf_sockaddr z" "length (sin_addr a) = 16"
  shows "wf_sockaddr (put_ip4 z a)"
  using assms by (simp add: wf_sockaddr_def put_ip4_def)

definition ip4_bytes :: "SOCKADDR \<Rightarrow> bytes" where
  "ip4_bytes a = [2] @ le_bytes 2 (sin_port a) @ take 4 (sin_addr a)"

lemma length_ip4_bytes [simp]: "ip4 a \<Longrightarrow> length (ip4_bytes a) = 7"
  by (simp add: ip4_bytes_def)

lemma serialize_ip4 [wire_simps]:
  assumes "ip4 a"
  shows "serializeSocketAddress (sockaddr_memory a) = Some (ip4_bytes a)"
proof -
  have "mem_read (sockaddr_memory a) 4 4 = take 4 (mem_read (sockaddr_memory a) 4 12)"
    by (simp only: mem_read_def take_take) simp
  moreover have "mem_read (sockaddr_memory a) 2 2 = le_bytes 2 (sin_port a)"
    using port_bytes [of "sockaddr_memory a"] assms by simp
  ultimately show ?thesis using assms by (simp add: serializeSocketAddress_def ip4_bytes_def)
qed

lemma read_ip4 [wire_simps]:
  assumes "ip4 a" "wf_sockaddr z"
  shows "read_sockaddr z (ip4_bytes a @ rest) = Some (7, put_ip4 z a)"
proof -
  obtain b where b: "serializeSocketAddress (sockaddr_memory a) = Some b" and
    d: "deserializeSocketAddress (sockaddr_memory z) (b @ rest) =
      Some (7, mem_write (sockaddr_memory z) 0 (mem_read (sockaddr_memory a) 0 8))"
    using wire_ip4 [of "sockaddr_memory a" "sockaddr_memory z" rest] assms by auto
  have e: "b = ip4_bytes a" using b serialize_ip4 [OF assms(1)] by simp
  have "mem_read (sockaddr_memory a) 0 8 = le_bytes 2 AF_INET @ le_bytes 2 (sin_port a) @ take 4 (sin_addr a)"
    using assms(1) by (simp add: sockaddr_memory_def mem_read_def)
  then have "mem_write (sockaddr_memory z) 0 (mem_read (sockaddr_memory a) 0 8) =
      sockaddr_memory (put_ip4 z a)"
    using assms by (simp add: sockaddr_memory_def put_ip4_def mem_write_def drop_take)
  with d e put_ip4_wf [OF assms(2)] assms(1) show ?thesis by (simp add: read_sockaddr_def)
qed

lemma ntoh_identity_simp [wire_simps]:
  "wf_sockaddr (sockaddr g) \<Longrightarrow> ntoh_identity g = g\<lparr>gatewayId := NTOH8 (gatewayId g)\<rparr>"
  by (simp add: ntoh_identity_def)

section \<open>Lemmas: requests\<close>

lemma gateway_operation_parse [wire_simps]:
  fixes m :: GatewayOperationRequest
  shows "GatewayOperationRequest_parse j (GatewayOperationRequest_serialize m @ rest) = m"
  by (simp add: GatewayOperationRequest_parse_def GatewayOperationRequest_serialize_def Let_def
    wire_simps mem_read_skip mem_read_head nth_append from_le_le_bytes)

lemma gateway_id_parse [wire_simps]:
  "GatewayIdRequest_parse j (GatewayIdRequest_serialize m @ rest) = m"
  by (simp add: GatewayIdRequest_parse_def GatewayIdRequest_serialize_def Let_def wire_simps
    mem_read_skip mem_read_head from_le_le_bytes)

lemma gateway_addr_parse [wire_simps]:
  assumes "ip4 (gar_addr m)" "wf_sockaddr (gar_addr j)"
  shows "GatewayAddrRequest_parse j (ServiceMessage_serialize m @ ip4_bytes (gar_addr m) @ rest) =
    Some (m\<lparr>gar_addr := put_ip4 (gar_addr j) (gar_addr m)\<rparr>)"
  using assms by (simp add: GatewayAddrRequest_parse_def Let_def wire_simps)

lemma gateway_id_addr_parse [wire_simps]:
  assumes "ip4 (sockaddr (gia_identity m))" "wf_sockaddr (sockaddr (gia_identity j))"
  shows "GatewayIdAddrRequest_parse j (ServiceMessage_serialize m @
      le_bytes 8 (gatewayId (gia_identity m)) @ ip4_bytes (sockaddr (gia_identity m)) @ rest) =
    Some (m\<lparr>gia_identity := \<lparr>gatewayId = gatewayId (gia_identity m),
      sockaddr = put_ip4 (sockaddr (gia_identity j)) (sockaddr (gia_identity m))\<rparr>\<rparr>)"
  using assms by (simp add: GatewayIdAddrRequest_parse_def Let_def wire_simps mem_read_skip
    mem_read_head from_le_le_bytes)

text \<open>What a client sends: the request in network order.\<close>

definition send_id :: "GatewayIdRequest \<Rightarrow> bytes" where
  "send_id m = GatewayIdRequest_serialize (GatewayIdRequest_ntoh m)"

definition send_addr :: "GatewayAddrRequest \<Rightarrow> bytes" where
  "send_addr m = the (GatewayAddrRequest_serialize (GatewayAddrRequest_ntoh m))"

definition send_id_addr :: "GatewayIdAddrRequest \<Rightarrow> bytes" where
  "send_id_addr m = the (GatewayIdAddrRequest_serialize (GatewayIdAddrRequest_ntoh m))"

definition send_operation :: "GatewayOperationRequest \<Rightarrow> bytes" where
  "send_operation m = GatewayOperationRequest_serialize (GatewayOperationRequest_ntoh m)"

lemma send_id_addr_bytes:
  assumes "ip4 (sockaddr (gia_identity m))"
  shows "send_id_addr m = ServiceMessage_serialize (ServiceMessage_ntoh m) @
    le_bytes 8 (NTOH8 (gatewayId (gia_identity m))) @ ip4_bytes (sockaddr (gia_identity m))"
    "GatewayIdAddrRequest_serialize (GatewayIdAddrRequest_ntoh m) = Some (send_id_addr m)"
  using assms by (simp_all add: send_id_addr_def GatewayIdAddrRequest_serialize_def
    GatewayIdAddrRequest_ntoh_def wire_simps ServiceMessage_ntoh_def ServiceMessage_serialize_def)

lemma send_addr_bytes:
  assumes "ip4 (gar_addr m)"
  shows "send_addr m = ServiceMessage_serialize (ServiceMessage_ntoh m) @ ip4_bytes (gar_addr m)"
    "GatewayAddrRequest_serialize (GatewayAddrRequest_ntoh m) = Some (send_addr m)"
  using assms by (simp_all add: send_addr_def GatewayAddrRequest_serialize_def
    GatewayAddrRequest_ntoh_def wire_simps ServiceMessage_ntoh_def ServiceMessage_serialize_def)

lemma send_first [simp]:
  "send_id m1 ! 0 = sm_tag m1" "ip4 (gar_addr m2) \<Longrightarrow> send_addr m2 ! 0 = sm_tag m2"
  "ip4 (sockaddr (gia_identity m3)) \<Longrightarrow> send_id_addr m3 ! 0 = sm_tag m3"
  "send_operation m4 ! 0 = sm_tag m4"
  by (simp_all add: send_id_def send_addr_bytes send_id_addr_bytes send_operation_def
    GatewayIdRequest_serialize_def GatewayIdRequest_ntoh_def GatewayOperationRequest_serialize_def
    GatewayOperationRequest_ntoh_def)

lemma send_lengths [simp]:
  "length (send_id m1) = 21" "ip4 (gar_addr m2) \<Longrightarrow> length (send_addr m2) = 20"
  "ip4 (sockaddr (gia_identity m3)) \<Longrightarrow> length (send_id_addr m3) = 28"
  "length (send_operation m4) = 18"
  by (simp_all add: send_id_def send_addr_bytes send_id_addr_bytes send_operation_def
    GatewayIdRequest_serialize_def GatewayOperationRequest_serialize_def)

lemma ServiceMessage_ntoh_twice [simp]: "ServiceMessage_ntoh (ServiceMessage_ntoh m) = m"
  by (simp add: ServiceMessage_ntoh_def)

lemma deserialize_send_id [wire_simps]:
  assumes "sm_tag m = QUERY_GATEWAY_ADDR"
  shows "deserializeGateway junk (send_id m) = Some (Some (G_Id m))"
proof -
  have "GatewayIdRequest_parse j (send_id m) = GatewayIdRequest_ntoh m" for j
    using gateway_id_parse [of j "GatewayIdRequest_ntoh m" "[]"] by (simp add: send_id_def)
  then have "GatewayIdRequest_ntoh (GatewayIdRequest_parse j (send_id m)) = m" for j
    by (simp add: GatewayIdRequest_ntoh_def ServiceMessage_ntoh_def)
  then show ?thesis using assms by (simp add: deserializeGateway_def Let_def)
qed

lemma deserialize_send_operation [wire_simps]:
  assumes "sm_tag m \<in> {QUERY_GATEWAY_LIST, QUERY_GATEWAY_COUNT, QUERY_GATEWAY_FORCE_SAVE,
    QUERY_GATEWAY_CLOSE_RESOURCES}"
  shows "deserializeGateway junk (send_operation m) = Some (Some (G_Operation m))"
proof -
  have "GatewayOperationRequest_parse j (send_operation m) = GatewayOperationRequest_ntoh m" for j
    using gateway_operation_parse [of j "GatewayOperationRequest_ntoh m" "[]"]
    by (simp add: send_operation_def)
  then have "GatewayOperationRequest_ntoh (GatewayOperationRequest_parse j (send_operation m)) = m" for j
    by (simp add: GatewayOperationRequest_ntoh_def ServiceMessage_ntoh_def)
  then show ?thesis using assms by (auto simp: deserializeGateway_def Let_def)
qed

lemma deserialize_send_addr [wire_simps]:
  assumes "sm_tag m = QUERY_GATEWAY_ID" "ip4 (gar_addr m)" "wf_sockaddr junk"
  shows "deserializeGateway junk (send_addr m) =
    Some (Some (G_Addr (m\<lparr>gar_addr := put_ip4 junk (gar_addr m)\<rparr>)))"
proof -
  define n where "n = ServiceMessage_ntoh m"
  have n: "ip4 (gar_addr n)" "gar_addr n = gar_addr m" "ServiceMessage_ntoh n = m"
    using assms(2) by (simp_all add: n_def ServiceMessage_ntoh_def)
  have "GatewayAddrRequest_parse (GatewayAddrRequest_default\<lparr>gar_addr := junk\<rparr>) (send_addr m) =
      Some (n\<lparr>gar_addr := put_ip4 junk (gar_addr m)\<rparr>)"
    using gateway_addr_parse [of n "GatewayAddrRequest_default\<lparr>gar_addr := junk\<rparr>" "[]"] n assms(3)
    by (simp add: send_addr_bytes assms(2) n_def [symmetric])
  moreover have "wf_sockaddr (put_ip4 junk (gar_addr m))" using assms by (simp add: put_ip4_wf)
  ultimately show ?thesis
    using assms by (simp add: deserializeGateway_def Let_def GatewayAddrRequest_ntoh_def n_def)
      (simp add: ServiceMessage_ntoh_def)
qed

lemma deserialize_send_id_addr [wire_simps]:
  assumes "sm_tag m \<in> {QUERY_GATEWAY_ASSIGN, QUERY_GATEWAY_RM}" "ip4 (sockaddr (gia_identity m))"
  shows "deserializeGateway junk (send_id_addr m) = Some (Some (G_IdAddr m))"
proof -
  define n where "n = GatewayIdAddrRequest_ntoh m"
  have n: "n = (ServiceMessage_ntoh m)
      \<lparr>gia_identity := (gia_identity m)\<lparr>gatewayId := NTOH8 (gatewayId (gia_identity m))\<rparr>\<rparr>"
    using assms(2) by (simp add: n_def GatewayIdAddrRequest_ntoh_def wire_simps)
  have s: "send_id_addr m = ServiceMessage_serialize n @ le_bytes 8 (gatewayId (gia_identity n)) @
      ip4_bytes (sockaddr (gia_identity n)) @ []"
    by (simp add: send_id_addr_bytes assms(2)) (simp add: n ServiceMessage_serialize_def)
  have "GatewayIdAddrRequest_parse GatewayIdAddrRequest_default (send_id_addr m) = Some n"
    unfolding s using assms(2)
    by (subst gateway_id_addr_parse) (simp_all add: n GatewayIdAddrRequest_default_def
      GatewayIdentity_default_def put_ip4_zero)
  moreover have "GatewayIdAddrRequest_ntoh n = m"
    using assms(2) by (simp add: n GatewayIdAddrRequest_ntoh_def wire_simps)
      (simp add: ServiceMessage_ntoh_def)
  ultimately show ?thesis
    using assms by (auto simp: deserializeGateway_def Let_def)
qed

section \<open>Lemmas: answers\<close>

lemma answer_gateway_ip4 [wire_simps]:
  assumes "ip4 (sockaddr (ggr_response r))"
  shows "answer_gateway r = Some (ServiceMessage_serialize (ServiceMessage_ntoh r) @
    le_bytes 8 (NTOH8 (gatewayId (ggr_response r))) @ ip4_bytes (sockaddr (ggr_response r)), 28)"
  using assms by (simp add: answer_gateway_def sized_answer_def GatewayGetResponse_serialize_def
    GatewayGetResponse_ntoh_def wire_simps ServiceMessage_ntoh_def ServiceMessage_serialize_def)

lemma answer_operation_size:
  "\<exists>b. answer_operation r = Some (b, 22) \<and> length b = 22"
  by (simp add: answer_operation_def sized_answer_def GatewayOperationResponse_serialize_def
    GatewayOperationRequest_serialize_def)

lemma truncated_header [simp]:
  "sm_code (ServiceMessage.truncate m) = sm_code m"
  "sm_accessCode (ServiceMessage.truncate m) = sm_accessCode m"
  by (simp_all add: ServiceMessage.truncate_def)

section \<open>Properties\<close>

text \<open>C27: A gateway with an IPv4 address (the unused bytes of its structure zero) and an identifier
  other than 0, assigned over the binary protocol with the codes of the service to a storage in order,
  is found by the next request: the storage holds exactly the assigned entry under its identifier, the
  other entries are unchanged, and the request for the identifier answers with its address and leaves
  the storage alone.  The two conditions are the program's: an IPv6 address is written behind its
  structure, and a request with the identifier 0 is looked up by address.\<close>

theorem gateway_assign_then_get:
  assumes "gws_inv s" "ip4 (sockaddr g)" "gatewayId g \<noteq> 0"
  shows "\<exists>answer s'.
    gateway_query (Some MemoryGatewayService) code ac junk junk_addr s retSize
      (send_id_addr (GatewayIdAddrRequest_of QUERY_GATEWAY_ASSIGN g code ac)) = (Some (answer, 22), s') \<and>
    om_find (gatewayId g) s' = Some g \<and> (\<forall>k. k \<noteq> gatewayId g \<longrightarrow> om_find k s' = om_find k s) \<and>
    gateway_query (Some MemoryGatewayService) code ac junk junk_addr s' retSize
      (send_id (GatewayIdRequest_of QUERY_GATEWAY_ADDR (gatewayId g) code ac)) =
      (Some (QUERY_GATEWAY_ADDR # le_bytes 4 (NTOH4 code) @ le_bytes 8 (NTOH8 ac) @
        le_bytes 8 (NTOH8 (gatewayId g)) @ ip4_bytes (sockaddr g), 28), s')"
proof -
  let ?assign = "GatewayIdAddrRequest_of QUERY_GATEWAY_ASSIGN g code ac"
  let ?ask = "GatewayIdRequest_of QUERY_GATEWAY_ADDR (gatewayId g) code ac"
  define s' where "s' = om_assign (gatewayId g) g s"
  have sorted: "om_sorted s" using assms(1) by (simp add: gws_inv_def)
  have copy: "GatewayIdentity_copy g = g" using assms(2) by (simp add: GatewayIdentity_copy_same)
  have d: "deserializeGateway junk_addr (send_id_addr ?assign) = Some (Some (G_IdAddr ?assign))"
    by (rule deserialize_send_id_addr) (simp_all add: GatewayIdAddrRequest_of_def copy assms(2))
  have e: "deserializeGateway junk_addr (send_id ?ask) = Some (Some (G_Id ?ask))"
    by (rule deserialize_send_id) (simp add: GatewayIdRequest_of_def)
  obtain b where b: "answer_operation (operation_result CODE_OK (GatewayOperationResponse_id junk ?assign)) =
      Some (b, 22)" using answer_operation_size by blast
  have i: "ip4 (sockaddr (gia_identity ?assign))"
    by (simp add: GatewayIdAddrRequest_of_def copy assms(2))
  have 1: "gateway_query (Some MemoryGatewayService) code ac junk junk_addr s retSize
      (send_id_addr ?assign) = (Some (b, 22), s')"
    using b i by (simp add: gateway_query_def d gateway_dispatch_def query_gateway_ASSIGN_def
      MemoryGatewayService_def gws_put_def) (simp add: GatewayIdAddrRequest_of_def copy s'_def)
  have f: "om_find (gatewayId g) s' = Some g" "k \<noteq> gatewayId g \<Longrightarrow> om_find k s' = om_find k s" for k
    using sorted by (simp_all add: s'_def om_simps)
  have "gateway_query (Some MemoryGatewayService) code ac junk junk_addr s' retSize (send_id ?ask) =
      (query_gateway_ADDR MemoryGatewayService s' ?ask, s')"
    by (simp add: gateway_query_def e gateway_dispatch_def) (simp add: GatewayIdRequest_of_def)
  moreover have "query_gateway_ADDR MemoryGatewayService s' ?ask =
      answer_gateway ((GatewayGetResponse_id ?ask)\<lparr>ggr_response := g\<rparr>)"
    using f(1) assms(3) by (simp add: query_gateway_ADDR_def MemoryGatewayService_def gws_get_def
      GatewayGetResponse_id_def GatewayIdentity_id_def GatewayIdRequest_of_def Let_def)
  ultimately show ?thesis
    using 1 f assms(2) by (auto simp: answer_gateway_ip4 GatewayGetResponse_id_def
      ServiceMessage_ntoh_def ServiceMessage_serialize_def GatewayIdRequest_of_def)
qed

theorem gateway_assign_then_get_witness:
  "\<exists>answer s'.
    gateway_query (Some MemoryGatewayService) 42 7 9 SOCKADDR_zero [] 100
      (send_id_addr (GatewayIdAddrRequest_of QUERY_GATEWAY_ASSIGN
        \<lparr>gatewayId = 0x16c001, sockaddr = \<lparr>sa_family = 2, sin_port = 0x8f06, sin_addr = [10, 0, 0, 1] @ replicate 12 0\<rparr>\<rparr>
        42 7)) = (Some (answer, 22), s') \<and>
    om_find 0x16c001 s' = Some
      \<lparr>gatewayId = 0x16c001, sockaddr = \<lparr>sa_family = 2, sin_port = 0x8f06, sin_addr = [10, 0, 0, 1] @ replicate 12 0\<rparr>\<rparr> \<and>
    (\<forall>k. k \<noteq> 0x16c001 \<longrightarrow> om_find k s' = om_find k []) \<and>
    gateway_query (Some MemoryGatewayService) 42 7 9 SOCKADDR_zero s' 100
      (send_id (GatewayIdRequest_of QUERY_GATEWAY_ADDR 0x16c001 42 7)) =
      (Some (QUERY_GATEWAY_ADDR # le_bytes 4 (NTOH4 42) @ le_bytes 8 (NTOH8 7) @ le_bytes 8 (NTOH8 0x16c001) @
        ip4_bytes \<lparr>sa_family = 2, sin_port = 0x8f06, sin_addr = [10, 0, 0, 1] @ replicate 12 0\<rparr>, 28), s')"
  using gateway_assign_then_get [of "[]"
    "\<lparr>gatewayId = 0x16c001, sockaddr = \<lparr>sa_family = 2, sin_port = 0x8f06, sin_addr = [10, 0, 0, 1] @ replicate 12 0\<rparr>\<rparr>"
    42 7 9 SOCKADDR_zero 100] by (simp add: gws_inv_def ip4_def)

lemma wire_size_le:
  assumes "serializeSocketAddress (sockaddr_memory a) = Some b"
  shows "length b \<le> 7"
proof -
  have "length (sockaddr_memory a) \<le> 16" by (simp add: sockaddr_memory_def)
  then show ?thesis
    using assms by (auto simp: serializeSocketAddress_def mem_read_def split: if_splits)
qed

lemma answer_operation_sizes: "answer_operation r = Some (b, n) \<Longrightarrow> n = 22 \<and> length b = 22"
  using answer_operation_size [of r] by auto

lemma answer_gateway_size: "answer_gateway r = Some (b, n) \<Longrightarrow> n = length b \<and> length b \<le> 28"
  by (auto simp: answer_gateway_def sized_answer_def GatewayGetResponse_serialize_def
    dest: wire_size_le)

lemma serialize_gateways_size: "serialize_gateways gs = Some b \<Longrightarrow> length b \<le> 15 * length gs"
  by (induction gs arbitrary: b) (fastforce split: option.splits dest: wire_size_le)+

lemma answer_gateways_size:
  "answer_gateways r = Some (b, n) \<Longrightarrow> n = length b \<and> length b \<le> 22 + 15 * length (glr_identities r)"
  by (auto simp: answer_gateways_def sized_answer_def GatewayListResponse_serialize_def
    GatewayListResponse_ntoh_def GatewayOperationResponse_serialize_def
    GatewayOperationRequest_serialize_def dest: serialize_gateways_size)

lemma shorten_identities:
  "length (glr_identities (snd (gateway_shortenList2Fit n r))) \<le> length (glr_identities r)"
  by (induction n r rule: gateway_shortenList2Fit.induct)
    (subst gateway_shortenList2Fit.simps, fastforce simp: Let_def)

lemma query_gateway_LIST_size:
  assumes "query_gateway_LIST MemoryGatewayService junk s retSize gr = Some (b, n)"
  shows "n = length b \<and> length b \<le> 22 + 15 * unat (gop_size gr)"
proof -
  define r where "r = (GatewayListResponse_op junk gr)
    \<lparr>glr_identities := snd (gws_list s [] (gop_offset gr) (gop_size gr))\<rparr>"
  have "glr_identities (GatewayListResponse_op junk gr) = []"
    by (simp add: GatewayListResponse_op_def GatewayOperationResponse.extend_def GatewayListResponse.fields_def)
  then have e: "query_gateway_LIST MemoryGatewayService junk s retSize gr =
    (let serSize = getListResponseSize (glr_identities r) in
     if retSize < serSize then
       (let (serSize, r) = gateway_shortenList2Fit serSize r
        in if retSize < serSize then Some ([], 0) else answer_gateways r)
     else answer_gateways r)"
    by (simp add: query_gateway_LIST_def MemoryGatewayService_def r_def case_prod_beta Let_def)
  have l: "length (glr_identities r) \<le> unat (gop_size gr)"
    by (simp add: r_def gws_list_def page_loop_eq)
  show ?thesis
  proof (cases "b = [] \<and> n = 0")
    case False
    then obtain r' where "answer_gateways r' = Some (b, n)"
      "length (glr_identities r') \<le> length (glr_identities r)"
      using assms shorten_identities [of "getListResponseSize (glr_identities r)" r] unfolding e
      by (auto simp: Let_def case_prod_beta split: if_splits)
    with l answer_gateways_size [of r' b n] show ?thesis by simp
  qed simp
qed

lemma deserialize_length:
  assumes "deserializeGateway junk buf = Some (Some msg)"
  shows "18 \<le> length buf"
  using assms by (auto simp: deserializeGateway_def Let_def split: if_splits)

lemma sized_tag_cases: "sized_tag buf n t = (if length buf < n then 0 else t)"
  by (simp add: sized_tag_def)

lemma response_size_cases:
  assumes "responseSizeForGatewayRequest buf = Some k"
  shows "22 \<le> k" "\<lbrakk>buf ! 0 = QUERY_GATEWAY_ADDR; 21 \<le> length buf\<rbrakk> \<Longrightarrow> k = 40"
    "\<lbrakk>buf ! 0 = QUERY_GATEWAY_ID; 20 \<le> length buf\<rbrakk> \<Longrightarrow> k = 40"
    "\<lbrakk>buf ! 0 = QUERY_GATEWAY_LIST; 18 \<le> length buf\<rbrakk> \<Longrightarrow> k = 22 + unat (buf ! 17) * 27"
  using assms by (auto simp: responseSizeForGatewayRequest_def validateGatewayQuery_def sized_tag_cases
    getMaxGatewayListResponseSize_def GatewayOperationRequest_parse_def Let_def
    split: option.splits if_splits)

text \<open>
  the advertised size of an answer is enough: whatever the request and the storage, the
  bytes written are at most those that \<open>responseSizeForGatewayRequest\<close> asks the caller to
  provide, and the size returned is their number, but for a refused access, where 40 bytes are
  announced and 22 written.
\<close>

theorem gateway_answer_fits:
  assumes "gateway_query (Some MemoryGatewayService) code ac junk junk_addr s retSize request =
      (Some (b, n), s')"
    and "responseSizeForGatewayRequest request = Some k"
  shows "length b \<le> k \<and> (n = length b \<or> n = 40 \<and> length b = 22)"
proof (cases "length request < 13 \<or> deserializeGateway junk_addr request = Some None")
  case True
  with assms(1) show ?thesis by (auto simp: gateway_query_def split: if_splits)
next
  case False
  with assms(1) obtain msg where d: "deserializeGateway junk_addr request = Some (Some msg)"
    by (auto simp: gateway_query_def split: option.splits if_splits)
  note k = response_size_cases [OF assms(2)]
  have denied: "gateway_access_denied = Some (b, n) \<Longrightarrow> length b = 22 \<and> n = 40"
    by (auto simp: gateway_access_denied_def GatewayOperationResponse_serialize_def
      GatewayOperationRequest_serialize_def)
  consider "gateway_access_denied = Some (b, n)"
    | "fst (gateway_dispatch MemoryGatewayService junk s retSize (request ! 0) msg) = Some (b, n)"
    using assms(1) d False by (auto simp: gateway_query_def split: if_splits)
  then show ?thesis
  proof cases
    case 1
    with denied k(1) show ?thesis by simp
  next
    case 2
    show ?thesis
    proof (cases msg)
      case (G_Id gr)
      with d have "k = 40" by (intro k(2)) (auto simp: deserializeGateway_def Let_def split: if_splits)
      with 2 G_Id show ?thesis
        by (auto simp: gateway_dispatch_def query_gateway_ADDR_def Let_def case_prod_beta
          dest: answer_gateway_size)
    next
      case (G_Addr gr)
      with d have "k = 40" by (intro k(3)) (auto simp: deserializeGateway_def Let_def split: if_splits)
      with 2 G_Addr show ?thesis
        by (auto simp: gateway_dispatch_def query_gateway_ID_def Let_def case_prod_beta
          dest: answer_gateway_size)
    next
      case (G_IdAddr gr)
      with 2 have "\<exists>r. answer_operation r = Some (b, n)"
        by (auto simp: gateway_dispatch_def query_gateway_ASSIGN_def query_gateway_RM_def
          case_prod_beta split: if_splits)
      then show ?thesis using k(1) by (auto dest: answer_operation_sizes)
    next
      case (G_Operation gr)
      have size: "gop_size gr = request ! 17"
        using d G_Operation deserialize_length [OF d]
        by (auto simp: deserializeGateway_def Let_def GatewayOperationRequest_ntoh_def
          GatewayOperationRequest_parse_def ServiceMessage_ntoh_def split: if_splits)
      consider "request ! 0 = QUERY_GATEWAY_LIST" "query_gateway_LIST MemoryGatewayService junk s retSize gr = Some (b, n)"
        | "query_gateway_COUNT MemoryGatewayService junk s gr = Some (b, n)" | "b = []" "n = 0"
        using 2 G_Operation by (auto simp: gateway_dispatch_def split: if_splits)
      then show ?thesis
      proof cases
        case 1
        with k(4) deserialize_length [OF d] query_gateway_LIST_size [OF 1(2)] size show ?thesis by simp
      next
        case 2
        then show ?thesis
          using k(1) by (auto simp: query_gateway_COUNT_def dest: answer_operation_sizes)
      qed simp
    qed
  qed
qed

theorem gateway_answer_fits_witness:
  "\<exists>b n s' k. gateway_query (Some MemoryGatewayService) 42 7 9 SOCKADDR_zero [] 100
      (send_id (GatewayIdRequest_of QUERY_GATEWAY_ADDR 5 42 8)) = (Some (b, n), s') \<and>
    responseSizeForGatewayRequest (send_id (GatewayIdRequest_of QUERY_GATEWAY_ADDR 5 42 8)) = Some k \<and>
    length b \<le> k \<and> (n = length b \<or> n = 40 \<and> length b = 22)"
proof -
  let ?ask = "GatewayIdRequest_of QUERY_GATEWAY_ADDR 5 42 8"
  have d: "deserializeGateway SOCKADDR_zero (send_id ?ask) = Some (Some (G_Id ?ask))"
    by (rule deserialize_send_id) (simp add: GatewayIdRequest_of_def)
  obtain b n where a: "gateway_access_denied = Some (b, n)" by (auto simp: gateway_access_denied_def)
  have q: "gateway_query (Some MemoryGatewayService) 42 7 9 SOCKADDR_zero [] 100 (send_id ?ask) =
      (Some (b, n), [])"
    using a by (simp add: gateway_query_def d) (simp add: GatewayIdRequest_of_def)
  have "send_id ?ask \<noteq> []"
    using send_lengths(1) [of ?ask] by (metis list.size(3) zero_neq_numeral)
  then obtain k where "responseSizeForGatewayRequest (send_id ?ask) = Some k"
    by (auto simp: responseSizeForGatewayRequest_def validateGatewayQuery_def Let_def)
  with q gateway_answer_fits [OF q] show ?thesis by blast
qed

section \<open>Lists\<close>

lemma list_size_sum:
  "getListResponseSize gs = 22 + sum_list (map (\<lambda>g. 8 + socketAddressSize (sockaddr_memory (sockaddr g))) gs)"
proof -
  have "foldl (\<lambda>r g. r + f g) n gs = n + sum_list (map f gs)" for f :: "GatewayIdentity \<Rightarrow> nat" and n
    by (induction gs arbitrary: n) simp_all
  then show ?thesis by (simp add: getListResponseSize_def)
qed

definition gateway_bytes :: "GatewayIdentity list \<Rightarrow> bytes" where
  "gateway_bytes gs = concat (map (\<lambda>g. le_bytes 8 (gatewayId g) @ ip4_bytes (sockaddr g)) gs)"

lemma serialize_gateways_ip4:
  "\<forall>g \<in> set gs. ip4 (sockaddr g) \<Longrightarrow> serialize_gateways gs = Some (gateway_bytes gs)"
  by (induction gs) (simp_all add: gateway_bytes_def wire_simps)

lemma list_size_ip4: "\<forall>g \<in> set gs. ip4 (sockaddr g) \<Longrightarrow> getListResponseSize gs = 22 + 15 * length gs"
  unfolding list_size_sum by (induction gs) (simp_all add: socketAddressSize_def)

lemma list_loop_ip4:
  "\<forall>g \<in> set gs. ip4 (sockaddr g) \<Longrightarrow> gateway_list_loop (gateway_bytes gs) = Some gs"
proof (induction gs)
  case Nil
  show ?case by (subst gateway_list_loop.simps) (simp add: gateway_bytes_def)
next
  case (Cons g gs)
  then have g: "ip4 (sockaddr g)" by simp
  have b: "gateway_bytes (g # gs) = le_bytes 8 (gatewayId g) @ ip4_bytes (sockaddr g) @ gateway_bytes gs"
    by (simp add: gateway_bytes_def)
  have "read_sockaddr SOCKADDR_zero (ip4_bytes (sockaddr g) @ gateway_bytes gs) = Some (7, sockaddr g)"
    using g by (simp add: read_ip4 put_ip4_zero)
  moreover have "GatewayIdentity_copy \<lparr>gatewayId = gatewayId g, sockaddr = sockaddr g\<rparr> = g"
    using g by (simp add: GatewayIdentity_copy_same)
  moreover have "le_bytes 8 (gatewayId g) \<noteq> []"
    by (metis length_le_bytes list.size(3) zero_neq_numeral)
  moreover have "mem_read (gateway_bytes (g # gs)) 0 8 = le_bytes 8 (gatewayId g)"
    by (simp add: b mem_read_def)
  ultimately show ?case
    using Cons g by (subst gateway_list_loop.simps)
      (simp add: b GatewayIdentity_default_def from_le_le_bytes mem_read_def)
qed

lemma shorten_same:
  assumes "GatewayListResponse_size r \<le> n"
  shows "gateway_shortenList2Fit n r = (GatewayListResponse_size r, r)"
  using assms by (subst gateway_shortenList2Fit.simps) (simp add: Let_def)

text \<open>
  a request for a page of gateways is answered with the whole page or not at all: when the
  page fits the buffer the client reads back exactly the stored gateways of the page, in order;
  when it does not, nothing is answered, since the page is shortened to its own size.
\<close>

theorem gateway_page_whole_or_nothing:
  assumes page: "page = take (unat (gop_size gr)) (drop (unat (gop_offset gr)) (map snd s))"
    and ip4: "\<forall>g \<in> set page. ip4 (sockaddr g)"
    and gr: "sm_tag gr = QUERY_GATEWAY_LIST" "sm_code gr = code" "sm_accessCode gr = ac"
  shows "\<exists>answer. gateway_query (Some MemoryGatewayService) code ac junk junk_addr s retSize
      (send_operation gr) =
      (Some (if 22 + 15 * length page \<le> retSize then (answer, 22 + 15 * length page) else ([], 0)), s) \<and>
    map_option (\<lambda>r. glr_identities (GatewayListResponse_ntoh r))
      (GatewayListResponse_parse junk_addr GatewayListResponse_default answer) = Some page"
proof -
  define r where "r = (GatewayListResponse_op junk gr)\<lparr>glr_identities := page\<rparr>"
  have ids: "glr_identities (GatewayListResponse_op junk gr) = []" "glr_identities r = page"
    by (simp_all add: r_def GatewayListResponse_op_def GatewayOperationResponse.extend_def
      GatewayListResponse.fields_def)
  define swapped where "swapped = map (\<lambda>g. g\<lparr>gatewayId := NTOH8 (gatewayId g)\<rparr>) page"
  have sw: "\<forall>g \<in> set swapped. ip4 (sockaddr g)" "map ntoh_identity page = swapped"
    using ip4 by (auto simp: swapped_def wire_simps)
  define hd where "hd = GatewayOperationResponse_serialize (GatewayListResponse_ntoh r)"
  define answer where "answer = hd @ gateway_bytes swapped"
  have hl: "length hd = 22"
    by (simp add: hd_def GatewayOperationResponse_serialize_def GatewayOperationRequest_serialize_def)
  have "length (gateway_bytes gs) = 15 * length gs" if "\<forall>g \<in> set gs. ip4 (sockaddr g)" for gs
    using that by (induction gs) (simp_all add: gateway_bytes_def)
  with sw(1) hl have al: "length answer = 22 + 15 * length page"
    by (simp add: answer_def) (simp add: swapped_def)
  have "glr_identities (GatewayListResponse_ntoh r) = swapped"
    by (simp add: GatewayListResponse_ntoh_def ids sw(2))
  then have ans: "answer_gateways r = Some (answer, 22 + 15 * length page)"
    using al by (simp add: answer_gateways_def sized_answer_def GatewayListResponse_serialize_def
      serialize_gateways_ip4 sw(1) answer_def hd_def)
  have d: "deserializeGateway junk_addr (send_operation gr) = Some (Some (G_Operation gr))"
    by (rule deserialize_send_operation) (simp add: gr)
  have pg: "map snd (take (unat (gop_size gr)) (drop (unat (gop_offset gr)) s)) = page"
    by (simp add: page take_map drop_map)
  have "query_gateway_LIST MemoryGatewayService junk s retSize gr =
      Some (if 22 + 15 * length page \<le> retSize then (answer, 22 + 15 * length page) else ([], 0))"
    using ids ip4 ans by (simp add: query_gateway_LIST_def MemoryGatewayService_def gws_list_def
      page_loop_eq pg r_def [symmetric] list_size_ip4 Let_def
      shorten_same GatewayListResponse_size_def)
  then have "gateway_query (Some MemoryGatewayService) code ac junk junk_addr s retSize (send_operation gr) =
      (Some (if 22 + 15 * length page \<le> retSize then (answer, 22 + 15 * length page) else ([], 0)), s)"
    by (simp add: gateway_query_def d gr gateway_dispatch_def)
  moreover have "map_option (\<lambda>r. glr_identities (GatewayListResponse_ntoh r))
      (GatewayListResponse_parse junk_addr GatewayListResponse_default answer) = Some page"
  proof -
    have h0: "answer ! 0 = QUERY_GATEWAY_LIST"
      by (simp add: answer_def hd_def r_def GatewayOperationResponse_serialize_def
        GatewayOperationRequest_serialize_def GatewayListResponse_ntoh_def GatewayOperationResponse_ntoh_def
        GatewayOperationRequest_ntoh_def ServiceMessage_serialize_def ServiceMessage_ntoh_def
        GatewayListResponse_op_def GatewayOperationResponse_op_def gr(1)
        GatewayOperationResponse.extend_def GatewayOperationRequest.extend_def)
    have "deserializeGateway junk_addr answer \<noteq> None"
      using al by (simp add: deserializeGateway_def Let_def h0)
    moreover have "gateway_list_loop (drop 22 answer) = Some swapped"
      using hl sw(1) by (simp add: answer_def list_loop_ip4)
    moreover have "map ntoh_identity swapped = page"
      using ip4 by (auto simp: swapped_def wire_simps intro: map_idI)
    ultimately show ?thesis
      by (auto simp: GatewayListResponse_parse_def Let_def GatewayListResponse_ntoh_def)
  qed
  ultimately show ?thesis by blast
qed

theorem gateway_page_whole_or_nothing_witness:
  "\<exists>answer. gateway_query (Some MemoryGatewayService) 42 7 9 SOCKADDR_zero
      [(5, \<lparr>gatewayId = 5, sockaddr = \<lparr>sa_family = 2, sin_port = 0x8f06, sin_addr = [10, 0, 0, 1] @ replicate 12 0\<rparr>\<rparr>)] 36
      (send_operation (GatewayOperationRequest_of QUERY_GATEWAY_LIST 0 10 42 7)) =
      (Some (if 22 + 15 * length
          [\<lparr>gatewayId = 5, sockaddr = \<lparr>sa_family = 2, sin_port = 0x8f06, sin_addr = [10, 0, 0, 1] @ replicate 12 0\<rparr>\<rparr>] \<le> 36
        then (answer, 22 + 15 * length
          [\<lparr>gatewayId = 5, sockaddr = \<lparr>sa_family = 2, sin_port = 0x8f06, sin_addr = [10, 0, 0, 1] @ replicate 12 0\<rparr>\<rparr>])
        else ([], 0)),
       [(5, \<lparr>gatewayId = 5, sockaddr = \<lparr>sa_family = 2, sin_port = 0x8f06, sin_addr = [10, 0, 0, 1] @ replicate 12 0\<rparr>\<rparr>)]) \<and>
    map_option (\<lambda>r. glr_identities (GatewayListResponse_ntoh r))
      (GatewayListResponse_parse SOCKADDR_zero GatewayListResponse_default answer) =
      Some [\<lparr>gatewayId = 5, sockaddr = \<lparr>sa_family = 2, sin_port = 0x8f06, sin_addr = [10, 0, 0, 1] @ replicate 12 0\<rparr>\<rparr>]"
  by (rule gateway_page_whole_or_nothing) (simp_all add: GatewayOperationRequest_of_def ip4_def)

text \<open>C37: 
  a request that carries an IPv6 address makes the server write behind the 16 bytes of its
  \<open>struct sockaddr\<close>: it has no defined outcome, before the access code is looked at.
\<close>

theorem ip6_request_overflows:
  assumes "request ! 0 = QUERY_GATEWAY_ID \<and> request ! 13 = 10 \<and> 32 \<le> length request \<or>
    request ! 0 \<in> {QUERY_GATEWAY_ASSIGN, QUERY_GATEWAY_RM} \<and> request ! 21 = 10 \<and> 40 \<le> length request"
  shows "gateway_query (Some svc) code ac junk junk_addr s retSize request = (None, s)"
proof -
  have small: "length (sockaddr_memory a) < 24" for a by (simp add: sockaddr_memory_def)
  have none: "read_sockaddr a buf = None" if "buf ! 0 = 10" "19 \<le> length buf" for a buf
    using that small [of a] by (auto simp: read_sockaddr_def deserializeSocketAddress_def)
  have "deserializeGateway junk_addr request = None"
    using assms by (auto simp: deserializeGateway_def Let_def GatewayAddrRequest_parse_def
      GatewayIdAddrRequest_parse_def none)
  moreover have "13 \<le> length request" using assms by auto
  ultimately show ?thesis by (simp add: gateway_query_def)
qed

theorem ip6_request_overflows_witness:
  "gateway_query (Some MemoryGatewayService) 42 7 9 SOCKADDR_zero [] 100
    (QUERY_GATEWAY_ID # replicate 12 0 @ 10 # replicate 18 0) = (None, [])"
  by (rule ip6_request_overflows) (simp add: nth_append nth_Cons')

text \<open>A page of gateways is sent with a result that nobody has set.\<close>

lemma page_result_unset:
  "gor_response ((GatewayListResponse_op junk gr)\<lparr>glr_identities := gs\<rparr>) = junk"
  by (simp add: GatewayListResponse_op_def GatewayOperationResponse_op_def
    GatewayOperationResponse.extend_def GatewayOperationRequest.extend_def
    GatewayOperationResponse.fields_def)

text \<open>The two sizes of an address request are exchanged.\<close>

lemma addr_request_size_wrong:
  assumes "ip4 (gar_addr m)"
  shows "GatewayAddrRequest_serializedSize m \<noteq> length (send_addr m)"
  using assms by (simp add: GatewayAddrRequest_serializedSize_def isIPv6_def)

text \<open>Requests are recognised by their names as they are by their letters.\<close>

lemma tag_names_read_back:
  assumes "c \<in> set gatewayCommandSet"
  shows "isGatewayTag_text (Some (gatewayTag2string (of_char c))) = of_char c"
    "isGatewayTag_text (Some [c]) = of_char c" "isGatewayTag [of_char c]"
  using assms by (auto simp: gatewayCommandSet_def isGatewayTag_text_def gatewayTag2string_def
    isGatewayTag_def)

end
