(* ===== verification/Identity_Gen.thy ===== *)
theory Identity_Gen
  imports Identity_Binary Lora_Crypto Lora_Text
begin

text \<open>
  Generated keys (\<open>lorawan/helper/key128gen.cpp\<close>) and the identity service that stores nothing
  and generates every identity from a master key
  (\<open>lorawan/storage/service/identity-service-gen.cpp\<close>).  The block cipher \<open>E\<close> is a parameter as
  in \<open>Lora_Crypto\<close>; \<open>junk\<close> is the buffer of a CMAC context before its first use, and
  \<open>stk1\<close>, \<open>stk2\<close> the stack memory that the derivation of session keys digests.
\<close>

section \<open>Keys\<close>

abbreviation (input) KEY_NUMBER_EUI :: u32 where "KEY_NUMBER_EUI \<equiv> 1"
abbreviation (input) KEY_NUMBER_NWK :: u32 where "KEY_NUMBER_NWK \<equiv> 2"
abbreviation (input) KEY_NUMBER_APP :: u32 where "KEY_NUMBER_APP \<equiv> 3"

definition keyGen_blockB :: "u32 \<Rightarrow> u32 \<Rightarrow> bytes" where
  "keyGen_blockB keyNumber devAddr =
    [65, 78, 68, 89] @ le_bytes 4 keyNumber @ le_bytes 4 devAddr @ [69, 78, 90, 73]"

definition keyGen :: "cipher \<Rightarrow> bytes \<Rightarrow> u32 \<Rightarrow> KEY128 \<Rightarrow> u32 \<Rightarrow> KEY128" where
  "keyGen E junk keyNumber key devAddr = aes_cmac E junk key [keyGen_blockB keyNumber devAddr]"

definition euiGen :: "cipher \<Rightarrow> bytes \<Rightarrow> u32 \<Rightarrow> KEY128 \<Rightarrow> u32 \<Rightarrow> bytes" where
  "euiGen E junk keyNumber key devAddr = take 8 (keyGen E junk keyNumber key devAddr)"

definition phrase2key :: "cipher \<Rightarrow> bytes \<Rightarrow> bytes \<Rightarrow> KEY128" where
  "phrase2key E junk phrase =
    (let sz = (if length phrase < 16 then length phrase else 16);
         key = mem_write (replicate 16 0) 0 (take sz phrase)
     in aes_cmac E junk key
          [[65, 78, 68, 89, 0, 0, 0, 0, 0, 0, 0, 0, 69, 78, 90, 73], phrase])"

text \<open>\<open>memset(a, '\0', 0)\<close> clears nothing: the last seven bytes are what the stack held.\<close>

definition sessionKeyGen ::
    "cipher \<Rightarrow> bytes \<Rightarrow> KEY128 \<Rightarrow> u8 \<Rightarrow> APPNONCE \<Rightarrow> NETID \<Rightarrow> DEVNONCE \<Rightarrow> KEY128" where
  "sessionKeyGen E a key keyType appNonce netId dn =
    E key (mem_write a 0 ([keyType] @ take 3 appNonce @ netid_bytes netId @ le_bytes 2 dn))"

text \<open>
  \<open>rnd2key\<close>: four numbers of the library's generator, which is seeded with 0;
  \<open>mt19937\<close> gives the numbers that follow a seed.
\<close>

definition rnd2key :: "(u32 \<Rightarrow> nat \<Rightarrow> u32) \<Rightarrow> bytes \<Rightarrow> bytes" where
  "rnd2key mt19937 retVal =
    (let g = mt19937 0 in foldl (\<lambda>r i. mem_write r 0 (le_bytes 4 (g i))) retVal [0..<4])"

section \<open>GenIdentityService\<close>

record GenIdentityService =
  gen_netid :: NETID
  gen_key :: KEY128
  gen_maxDevNwkAddr :: u32

definition gen_setMasterKey ::
    "cipher \<Rightarrow> bytes \<Rightarrow> bytes \<Rightarrow> GenIdentityService \<Rightarrow> GenIdentityService" where
  "gen_setMasterKey E junk masterKey s = s\<lparr>gen_key := phrase2key E junk masterKey\<rparr>"

definition gen_clear :: "GenIdentityService \<Rightarrow> GenIdentityService" where
  "gen_clear s = s\<lparr>gen_maxDevNwkAddr := 0\<rparr>"

text \<open>
  \<open>keyGen\<close> writes 16 bytes over the eight of the application identifier: the other eight fall
  on the application key behind it.
\<close>

definition put_appEUI :: "KEY128 \<Rightarrow> DEVICE_ID \<Rightarrow> DEVICE_ID" where
  "put_appEUI k d =
    d\<lparr>appEUI := from_le (take 8 k), appKey := mem_write (appKey d) 0 (drop 8 k)\<rparr>"

definition gen_get ::
    "cipher \<Rightarrow> bytes \<Rightarrow> bytes \<Rightarrow> bytes \<Rightarrow> GenIdentityService \<Rightarrow> DEVICE_ID \<Rightarrow> DEVADDR \<Rightarrow> code \<times> DEVICE_ID" where
  "gen_get E junk stk1 stk2 s retval dev =
    (let k = gen_key s;
         d = retval\<lparr>activation := ABP, deviceclass := CLASS_A,
                    devEUI := from_le (euiGen E junk KEY_NUMBER_EUI k dev)\<rparr>;
         d = put_appEUI (keyGen E junk KEY_NUMBER_EUI k dev) d;
         d = d\<lparr>nwkKey := keyGen E junk KEY_NUMBER_NWK k dev\<rparr>;
         d = d\<lparr>appKey := keyGen E junk KEY_NUMBER_APP k dev\<rparr>;
         d = d\<lparr>joinNonce := replicate 3 0, devNonce := 0\<rparr>;
         d = d\<lparr>nwkSKey := deriveOptNegFNwkSIntKey E junk stk1 k (appEUI d) (joinNonce d) (devNonce d)\<rparr>;
         d = d\<lparr>appSKey := deriveOptNegFNwkSIntKey E junk stk2 k (appEUI d) (joinNonce d) (devNonce d)\<rparr>
     in (0, d\<lparr>version := LORAWAN_VERSION_make 1 0 0,
             name := string2DEVICENAME (text_bytes (DEVADDR2string dev)) (name d)\<rparr>))"

definition gen_getNetworkIdentity ::
    "GenIdentityService \<Rightarrow> NETWORKIDENTITY \<Rightarrow> DEVEUI \<Rightarrow> code \<times> NETWORKIDENTITY" where
  "gen_getNetworkIdentity s retval eui = (ERR_CODE_DEVICE_EUI_NOT_FOUND, retval)"

text \<open>\<open>DEVADDR(netid, nwkAddr)\<close> drops the code of \<open>set\<close> and does not clear the object
  before: \<open>obj\<close> is what it held.\<close>

definition DEVADDR_netid :: "DEVADDR \<Rightarrow> NETID \<Rightarrow> u32 \<Rightarrow> DEVADDR" where
  "DEVADDR_netid obj netid nwkAddr = snd (devaddr_set_netid netid nwkAddr obj)"

definition gen_gen ::
    "cipher \<Rightarrow> bytes \<Rightarrow> bytes \<Rightarrow> bytes \<Rightarrow> DEVADDR \<Rightarrow> GenIdentityService \<Rightarrow> NETWORKIDENTITY \<Rightarrow> u32 \<Rightarrow>
     NETWORKIDENTITY" where
  "gen_gen E junk stk1 stk2 obj s retVal nwkAddr =
    (let k = gen_key s;
         a = DEVADDR_netid obj (gen_netid s) nwkAddr;
         d = (ni_devid retVal)\<lparr>devEUI := from_le (euiGen E junk KEY_NUMBER_EUI k a)\<rparr>;
         d = put_appEUI (keyGen E junk KEY_NUMBER_EUI k a) d;
         d = d\<lparr>nwkKey := keyGen E junk KEY_NUMBER_NWK k a\<rparr>;
         d = d\<lparr>appKey := keyGen E junk KEY_NUMBER_APP k a\<rparr>;
         d = d\<lparr>joinNonce := replicate 3 0, devNonce := 0\<rparr>;
         d = d\<lparr>nwkSKey := deriveOptNegFNwkSIntKey E junk stk1 (nwkKey d) (appEUI d) (joinNonce d) (devNonce d)\<rparr>;
         d = d\<lparr>appSKey := deriveOptNegFNwkSIntKey E junk stk2 (appKey d) (appEUI d) (joinNonce d) (devNonce d)\<rparr>;
         d = d\<lparr>version := LORAWAN_VERSION_make 1 0 0,
               name := string2DEVICENAME (text_bytes (DEVADDR2string a)) (name d)\<rparr>
     in retVal\<lparr>ni_devaddr := a, ni_devid := d\<rparr>)"

text \<open>\<open>for (int i = 0; i < size; i++)\<close> with \<open>a > netid.size()\<close> as the other way out.\<close>

fun gen_list_loop :: "(u32 \<Rightarrow> NETWORKIDENTITY) \<Rightarrow> nat \<Rightarrow> nat \<Rightarrow> u32 \<Rightarrow> NETWORKIDENTITY list" where
  "gen_list_loop gen sz 0 a = []"
| "gen_list_loop gen sz (Suc n) a =
    (if unat a > sz then [] else gen a # gen_list_loop gen sz n (a + 1))"

definition gen_list ::
    "(u32 \<Rightarrow> NETWORKIDENTITY) \<Rightarrow> GenIdentityService \<Rightarrow> NETWORKIDENTITY list \<Rightarrow> u32 \<Rightarrow> u8 \<Rightarrow>
     code \<times> NETWORKIDENTITY list" where
  "gen_list gen s retVal offset sz =
    (CODE_OK, retVal @ gen_list_loop gen (netid_size (gen_netid s)) (unat sz) offset)"

definition gen_size :: "GenIdentityService \<Rightarrow> nat" where
  "gen_size s = netid_size (gen_netid s)"

definition gen_put :: "GenIdentityService \<Rightarrow> DEVADDR \<Rightarrow> DEVICE_ID \<Rightarrow> code \<times> GenIdentityService" where
  "gen_put s a d = (CODE_OK, s)"

definition gen_rm :: "GenIdentityService \<Rightarrow> DEVADDR \<Rightarrow> code \<times> GenIdentityService" where
  "gen_rm s a = (CODE_OK, s)"

definition gen_init ::
    "cipher \<Rightarrow> bytes \<Rightarrow> bytes \<Rightarrow> NETID option \<Rightarrow> GenIdentityService \<Rightarrow> code \<times> GenIdentityService" where
  "gen_init E junk option data s =
    (let s = gen_setMasterKey E junk option s
     in (CODE_OK, s\<lparr>gen_netid := (case data of Some n \<Rightarrow> n | None \<Rightarrow> int2NETID 0)\<rparr>))"

definition gen_next :: "GenIdentityService \<Rightarrow> NETWORKIDENTITY \<Rightarrow> code \<times> NETWORKIDENTITY" where
  "gen_next s retVal = (ERR_CODE_ADDR_SPACE_FULL, retVal)"

definition gen_nextBruteForce :: "GenIdentityService \<Rightarrow> NETWORKIDENTITY \<Rightarrow> code \<times> NETWORKIDENTITY" where
  "gen_nextBruteForce s retVal = (ERR_CODE_ADDR_SPACE_FULL, retVal)"

definition gen_setOption ::
    "cipher \<Rightarrow> bytes \<Rightarrow> int \<Rightarrow> bytes option \<Rightarrow> GenIdentityService \<Rightarrow> GenIdentityService" where
  "gen_setOption E junk option value s =
    (case value of None \<Rightarrow> s
     | Some v \<Rightarrow> if option = 0 then gen_setMasterKey E junk v s else s)"

text \<open>An identity that does not pass is generated again, until the count is used up.\<close>

fun gen_filter_loop ::
    "(u32 \<Rightarrow> NETWORKIDENTITY) \<Rightarrow> NETWORK_IDENTITY_FILTER list \<Rightarrow> nat \<Rightarrow> nat \<Rightarrow> u32 \<Rightarrow> NETWORKIDENTITY list" where
  "gen_filter_loop gen filters sz 0 a = []"
| "gen_filter_loop gen filters sz (Suc n) a =
    (if unat a > sz then []
     else let v = gen a in
       if \<not> isIdentityFilteredV v filters then gen_filter_loop gen filters sz n a
       else v # gen_filter_loop gen filters sz n (a + 1))"

definition gen_filter ::
    "(u32 \<Rightarrow> NETWORKIDENTITY) \<Rightarrow> GenIdentityService \<Rightarrow> NETWORKIDENTITY list \<Rightarrow>
     NETWORK_IDENTITY_FILTER list \<Rightarrow> u32 \<Rightarrow> u8 \<Rightarrow> code \<times> NETWORKIDENTITY list" where
  "gen_filter gen s retVal filters offset sz =
    (CODE_OK, retVal @ gen_filter_loop gen filters (netid_size (gen_netid s)) (unat sz) offset)"

section \<open>Asynchronous imitation\<close>

text \<open>The results are reported to the client as by the service in memory.\<close>

definition gen_cGet ::
    "cipher \<Rightarrow> bytes \<Rightarrow> bytes \<Rightarrow> bytes \<Rightarrow> bool \<Rightarrow> GenIdentityService \<Rightarrow> DEVADDR \<Rightarrow> code \<times> identity_event list" where
  "gen_cGet E junk stk1 stk2 client s request =
    (let r = NETWORKIDENTITY_default\<lparr>ni_devaddr := request\<rparr>;
         (_, d) = gen_get E junk stk1 stk2 s (ni_devid r) request
     in (CODE_OK, notify client (OnIdentityGet (r\<lparr>ni_devid := d\<rparr>))))"

definition gen_cGetNetworkIdentity ::
    "bool \<Rightarrow> GenIdentityService \<Rightarrow> DEVEUI \<Rightarrow> code \<times> identity_event list" where
  "gen_cGetNetworkIdentity client s eui =
    (let (_, r) = gen_getNetworkIdentity s NETWORKIDENTITY_default eui
     in (CODE_OK, notify client (OnIdentityGet r)))"

definition gen_cPut ::
    "bool \<Rightarrow> GenIdentityService \<Rightarrow> DEVADDR \<Rightarrow> DEVICE_ID \<Rightarrow> code \<times> identity_event list \<times> GenIdentityService" where
  "gen_cPut client s a d =
    (let (response, s') = gen_put s a d
     in (CODE_OK, notify client (OnIdentityOperation response 0), s'))"

definition gen_cRm ::
    "bool \<Rightarrow> GenIdentityService \<Rightarrow> DEVADDR \<Rightarrow> code \<times> identity_event list \<times> GenIdentityService" where
  "gen_cRm client s a =
    (let (response, s') = gen_rm s a
     in (CODE_OK, notify client (OnIdentityOperation response 0), s'))"

definition gen_cList ::
    "(u32 \<Rightarrow> NETWORKIDENTITY) \<Rightarrow> bool \<Rightarrow> GenIdentityService \<Rightarrow> u32 \<Rightarrow> u8 \<Rightarrow> code \<times> identity_event list" where
  "gen_cList gen client s offset sz =
    (let (response, identities) = gen_list gen s [] offset sz
     in (CODE_OK, notify client (OnIdentityList response (of_nat (length identities)) identities)))"

definition gen_cSize :: "bool \<Rightarrow> GenIdentityService \<Rightarrow> code \<times> identity_event list" where
  "gen_cSize client s = (CODE_OK, notify client (OnIdentityOperation 0 (of_nat (gen_size s))))"

definition gen_cNext :: "bool \<Rightarrow> GenIdentityService \<Rightarrow> code \<times> identity_event list" where
  "gen_cNext client s =
    (let (_, r) = gen_next s NETWORKIDENTITY_default in (CODE_OK, notify client (OnIdentityGet r)))"

text \<open>The filters are not used.\<close>

definition gen_cFilter ::
    "(u32 \<Rightarrow> NETWORKIDENTITY) \<Rightarrow> bool \<Rightarrow> GenIdentityService \<Rightarrow> NETWORK_IDENTITY_FILTER list \<Rightarrow> u32 \<Rightarrow> u8 \<Rightarrow>
     code \<times> identity_event list" where
  "gen_cFilter gen client s filters offset sz = gen_cList gen client s offset sz"

text \<open>The service as the binary protocol calls it.\<close>

definition GenIdentityService_ops ::
    "cipher \<Rightarrow> bytes \<Rightarrow> bytes \<Rightarrow> bytes \<Rightarrow> DEVADDR \<Rightarrow> GenIdentityService IdentityService" where
  "GenIdentityService_ops E junk stk1 stk2 obj =
    \<lparr>svc_get = gen_get E junk stk1 stk2, svc_getNetworkIdentity = gen_getNetworkIdentity,
     svc_put = gen_put, svc_rm = gen_rm,
     svc_list = (\<lambda>s. gen_list (gen_gen E junk stk1 stk2 obj s NETWORKIDENTITY_default) s),
     svc_size = gen_size, svc_next = gen_next\<rparr>"
section \<open>Lemmas\<close>

lemma keyGen_spec:
  "length junk = 16 \<Longrightarrow> keyGen E junk n key a = cmac_spec (E key) (keyGen_blockB n a)"
  by (simp add: keyGen_def aes_cmac_spec)

lemma phrase2key_spec:
  "length junk = 16 \<Longrightarrow> phrase2key E junk phrase =
    cmac_spec (E (take 16 phrase @ replicate (16 - length phrase) 0))
      ([65, 78, 68, 89, 0, 0, 0, 0, 0, 0, 0, 0, 69, 78, 90, 73] @ phrase)"
  by (auto simp: phrase2key_def aes_cmac_spec mem_write_def Let_def)

text \<open>The number of a key and the address of the device stand apart in the block.\<close>

lemma keyGen_blockB_inj: "keyGen_blockB n a = keyGen_blockB n' a' \<Longrightarrow> n = n' \<and> a = a'"
proof -
  assume e: "keyGen_blockB n a = keyGen_blockB n' a'"
  have "le_bytes 4 n = le_bytes 4 n'" "le_bytes 4 a = le_bytes 4 a'"
    using arg_cong [OF e, of "\<lambda>b. take 4 (drop 4 b)"] arg_cong [OF e, of "\<lambda>b. take 4 (drop 8 b)"]
    by (simp_all add: keyGen_blockB_def)
  then have "from_le (le_bytes 4 n) = (from_le (le_bytes 4 n') :: u32)"
    "from_le (le_bytes 4 a) = (from_le (le_bytes 4 a') :: u32)" by simp_all
  then show ?thesis by (simp add: from_le_le_bytes)
qed

lemma gen_list_loop_nth:
  assumes "unat a + n \<le> Suc sz" "sz < 2 ^ 32 - 1"
  shows "length (gen_list_loop gen sz n a) = n \<and>
    (\<forall>i < n. gen_list_loop gen sz n a ! i = gen (a + of_nat i))"
  using assms(1)
proof (induction n arbitrary: a)
  case (Suc n)
  show ?case
  proof (cases "n = 0")
    case True
    with Suc.prems show ?thesis by simp
  next
    case False
    then have "unat a + 1 < 2 ^ 32" using Suc.prems assms(2) by simp
    then have "unat (a + 1) = unat a + 1" by (simp add: unat_word_ariths)
    then have "unat (a + 1) + n \<le> Suc sz" using Suc.prems by simp
    note IH = Suc.IH [OF this]
    have "gen_list_loop gen sz (Suc n) a ! i = gen (a + of_nat i)" if "i < Suc n" for i
      using that IH Suc.prems by (cases i) (auto simp: add.assoc)
    with IH Suc.prems show ?thesis by simp
  qed
qed simp

lemma netid_nwk_id_fits:
  assumes "sound_id_type (netid_getType n)"
  shows "netid_getNwkId n < 2 ^ nwk_id_bits (netid_getType n)"
    "netid_size n = 2 ^ nwk_addr_bits (netid_getType n) - 1"
proof -
  have "NETID2int n AND (2 ^ k - 1) < 2 ^ k" if "k < 32" for k
    using that and_mask_less' [of k "NETID2int n"] by (simp add: mask_eq_exp_minus_1)
  from this [of 6] this [of 9] this [of 15] this [of 17] assms
  show "netid_getNwkId n < 2 ^ nwk_id_bits (netid_getType n)"
    by (auto simp: sound_id_type_def netid_getNwkId_def MASK_NWK_ID_def addr_widths)
  from assms show "netid_size n = 2 ^ nwk_addr_bits (netid_getType n) - 1"
    by (auto simp: sound_id_type_def netid_size_def DEVADDR_TYPE_SIZES_1_0_def addr_widths)
qed

lemma string2DEVICENAME_full:
  assumes "length obj = 8" "length t = 8" "0 \<notin> set t"
  shows "string2DEVICENAME t obj = t"
  using assms c_str_no_nul [of t] by (simp add: string2DEVICENAME_def strncpy_def mem_write_def)

lemma hex_text_no_nul: "0 \<notin> set (text_bytes (hexString bs))"
proof
  assume "0 \<in> set (text_bytes (hexString bs))"
  then obtain c where c: "c \<in> set (hexString bs)" "of_char c = (0::u8)"
    by (auto simp: text_bytes_def)
  have "of_nat (of_char c :: nat) = (0::u8)" using c(2) by (simp only: of_nat_of_char)
  then have "(of_char c :: nat) mod 256 = 0" by (simp add: word_eq_iff_unsigned unat_of_nat flip: unat_eq_zero)
  moreover have "(of_char c :: nat) < 256" by (rule nat_of_char_less_256)
  ultimately have "(of_char c :: nat) = 0" by simp
  then have "c = char_of (0::nat)" by (metis char_of_char)
  then have "c = CHR 0x00" by (simp add: char_of_def)
  moreover have "digit_value c < 16" using hexString_digits [of bs] c(1) by (simp add: list_all_iff)
  ultimately show False by (simp add: digit_value_def)
qed

lemma u32_power: "k < 32 \<Longrightarrow> unat ((2::u32) ^ k) = 2 ^ k"
proof -
  assume "k < 32"
  then have "(2::nat) ^ k < 2 ^ 32" by (intro power_strict_increasing) simp_all
  then have "unat (of_nat (2 ^ k) :: u32) = 2 ^ k" by (simp add: unat_of_nat del: of_nat_power)
  then show ?thesis by simp
qed

lemma nwk_addr_bits_le: "sound_id_type t \<Longrightarrow> nwk_addr_bits t \<le> 25"
  by (auto simp: sound_id_type_def addr_widths)

section \<open>Properties\<close>

text \<open>
  a page of the generating service holds one identity per address, in order, without a
  gap: the \<open>i\<close>-th entry has the type and the network of the service and the address
  \<open>offset + i\<close>, for networks of types 0, 1, 2, 6 and 7 and pages inside the network.
\<close>

theorem generated_page_addresses:
  fixes s :: GenIdentityService and obj :: DEVADDR
  assumes "sound_id_type (netid_getType (gen_netid s))"
    and "unat offset + unat sz \<le> 2 ^ nwk_addr_bits (netid_getType (gen_netid s))"
    and "i < unat sz"
  shows "case gen_list (gen_gen E junk stk1 stk2 obj s NETWORKIDENTITY_default) s [] offset sz of
    (c, page) \<Rightarrow> c = CODE_OK \<and> length page = unat sz \<and>
      getNetIdType (ni_devaddr (page ! i)) = netid_getType (gen_netid s) \<and>
      getNwkId (ni_devaddr (page ! i)) = netid_getNwkId (gen_netid s) \<and>
      getNwkAddr (ni_devaddr (page ! i)) = offset + of_nat i"
proof -
  let ?t = "netid_getType (gen_netid s)" and ?gen = "gen_gen E junk stk1 stk2 obj s NETWORKIDENTITY_default"
  let ?page = "gen_list_loop ?gen (netid_size (gen_netid s)) (unat sz) offset"
  note b = nwk_addr_bits_le [OF assms(1)] and n = netid_nwk_id_fits [OF assms(1)]
  have "(2::nat) ^ nwk_addr_bits ?t \<le> 2 ^ 25" using b by (intro power_increasing) simp_all
  then have "length ?page = unat sz \<and> ?page ! i = ?gen (offset + of_nat i)"
    using gen_list_loop_nth [of offset "unat sz" "netid_size (gen_netid s)" ?gen] assms(2,3) n(2) by simp
  moreover have "unat (offset + of_nat i) = unat offset + i"
    using assms(2,3) \<open>2 ^ nwk_addr_bits ?t \<le> 2 ^ 25\<close> by (simp add: unat_word_ariths unat_of_nat)
  then have "offset + of_nat i < 2 ^ nwk_addr_bits ?t"
    using assms(2,3) b by (simp add: word_less_nat_alt u32_power)
  note ok = devaddr_set3_ok [OF assms(1) n(1) this, of obj]
  have "ni_devaddr (?gen a) = snd (devaddr_set3 ?t (netid_getNwkId (gen_netid s)) a obj)" for a
    by (simp add: gen_gen_def Let_def DEVADDR_netid_def devaddr_set_netid_def)
  ultimately show ?thesis using ok by (simp add: gen_list_def)
qed

theorem generated_page_addresses_witness:
  "case gen_list (gen_gen xor_bytes (replicate 16 0) [] [] 0 \<lparr>gen_netid = \<lparr>nid_c0 = 19, nid_c1 = 0, nid_c2 = 0\<rparr>, gen_key = replicate 16 7, gen_maxDevNwkAddr = 0\<rparr> NETWORKIDENTITY_default) \<lparr>gen_netid = \<lparr>nid_c0 = 19, nid_c1 = 0, nid_c2 = 0\<rparr>, gen_key = replicate 16 7, gen_maxDevNwkAddr = 0\<rparr> [] 0x100 3 of
    (c, page) \<Rightarrow> c = CODE_OK \<and> length page = unat (3::u8) \<and>
      getNetIdType (ni_devaddr (page ! 2)) = netid_getType (gen_netid \<lparr>gen_netid = \<lparr>nid_c0 = 19, nid_c1 = 0, nid_c2 = 0\<rparr>, gen_key = replicate 16 7, gen_maxDevNwkAddr = 0\<rparr>) \<and>
      getNwkId (ni_devaddr (page ! 2)) = netid_getNwkId (gen_netid \<lparr>gen_netid = \<lparr>nid_c0 = 19, nid_c1 = 0, nid_c2 = 0\<rparr>, gen_key = replicate 16 7, gen_maxDevNwkAddr = 0\<rparr>) \<and>
      getNwkAddr (ni_devaddr (page ! 2)) = 0x100 + of_nat 2"
  by (rule generated_page_addresses)
    (simp_all add: netid_getType_def sound_id_type_def addr_widths)

text \<open>
  the service is consistent with itself: asked for the address of an identity it has
  listed, it gives the same identifiers, root keys, version and name; only the session keys
  differ, which \<open>get\<close> derives from the master key.
\<close>

theorem generated_identity_stable:
  assumes "v = gen_gen E junk stk1 stk2 obj s NETWORKIDENTITY_default a"
    and "length (name d0) = 8"
  shows "case gen_get E junk stk1' stk2' s d0 (ni_devaddr v) of
    (c, d) \<Rightarrow> c = CODE_OK \<and> devEUI d = devEUI (ni_devid v) \<and> appEUI d = appEUI (ni_devid v) \<and>
      nwkKey d = nwkKey (ni_devid v) \<and> appKey d = appKey (ni_devid v) \<and>
      version d = version (ni_devid v) \<and> name d = name (ni_devid v) \<and>
      nwkSKey d = deriveOptNegFNwkSIntKey E junk stk1' (gen_key s) (appEUI d) (replicate 3 0) 0 \<and>
      nwkSKey (ni_devid v) =
        deriveOptNegFNwkSIntKey E junk stk1 (nwkKey d) (appEUI d) (replicate 3 0) 0"
proof -
  define b where "b = ni_devaddr v"
  have "string2DEVICENAME (text_bytes (DEVADDR2string b)) n = text_bytes (DEVADDR2string b)"
    if "length n = 8" for n
    using that by (rule string2DEVICENAME_full) (simp_all add: DEVADDR2string_def hex_text_no_nul)
  then have "string2DEVICENAME (text_bytes (DEVADDR2string b)) (name d0) =
      string2DEVICENAME (text_bytes (DEVADDR2string b)) (name (ni_devid NETWORKIDENTITY_default))"
    using assms(2) by (simp add: NETWORKIDENTITY_default_def DEVICEID_default_def)
  then show ?thesis
    unfolding b_def assms(1) by (simp add: gen_get_def gen_gen_def Let_def put_appEUI_def)
qed

theorem generated_identity_stable_witness:
  "case gen_get xor_bytes (replicate 16 0) [1] [2] \<lparr>gen_netid = \<lparr>nid_c0 = 19, nid_c1 = 0, nid_c2 = 0\<rparr>, gen_key = replicate 16 7, gen_maxDevNwkAddr = 0\<rparr> DEVICEID_default
      (ni_devaddr (gen_gen xor_bytes (replicate 16 0) [] [] 0 \<lparr>gen_netid = \<lparr>nid_c0 = 19, nid_c1 = 0, nid_c2 = 0\<rparr>, gen_key = replicate 16 7, gen_maxDevNwkAddr = 0\<rparr> NETWORKIDENTITY_default 5)) of
    (c, d) \<Rightarrow> c = CODE_OK \<and>
      devEUI d = devEUI (ni_devid (gen_gen xor_bytes (replicate 16 0) [] [] 0 \<lparr>gen_netid = \<lparr>nid_c0 = 19, nid_c1 = 0, nid_c2 = 0\<rparr>, gen_key = replicate 16 7, gen_maxDevNwkAddr = 0\<rparr> NETWORKIDENTITY_default 5)) \<and>
      appEUI d = appEUI (ni_devid (gen_gen xor_bytes (replicate 16 0) [] [] 0 \<lparr>gen_netid = \<lparr>nid_c0 = 19, nid_c1 = 0, nid_c2 = 0\<rparr>, gen_key = replicate 16 7, gen_maxDevNwkAddr = 0\<rparr> NETWORKIDENTITY_default 5)) \<and>
      nwkKey d = nwkKey (ni_devid (gen_gen xor_bytes (replicate 16 0) [] [] 0 \<lparr>gen_netid = \<lparr>nid_c0 = 19, nid_c1 = 0, nid_c2 = 0\<rparr>, gen_key = replicate 16 7, gen_maxDevNwkAddr = 0\<rparr> NETWORKIDENTITY_default 5)) \<and>
      appKey d = appKey (ni_devid (gen_gen xor_bytes (replicate 16 0) [] [] 0 \<lparr>gen_netid = \<lparr>nid_c0 = 19, nid_c1 = 0, nid_c2 = 0\<rparr>, gen_key = replicate 16 7, gen_maxDevNwkAddr = 0\<rparr> NETWORKIDENTITY_default 5)) \<and>
      version d = version (ni_devid (gen_gen xor_bytes (replicate 16 0) [] [] 0 \<lparr>gen_netid = \<lparr>nid_c0 = 19, nid_c1 = 0, nid_c2 = 0\<rparr>, gen_key = replicate 16 7, gen_maxDevNwkAddr = 0\<rparr> NETWORKIDENTITY_default 5)) \<and>
      name d = name (ni_devid (gen_gen xor_bytes (replicate 16 0) [] [] 0 \<lparr>gen_netid = \<lparr>nid_c0 = 19, nid_c1 = 0, nid_c2 = 0\<rparr>, gen_key = replicate 16 7, gen_maxDevNwkAddr = 0\<rparr> NETWORKIDENTITY_default 5)) \<and>
      nwkSKey d = deriveOptNegFNwkSIntKey xor_bytes (replicate 16 0) [1] (gen_key \<lparr>gen_netid = \<lparr>nid_c0 = 19, nid_c1 = 0, nid_c2 = 0\<rparr>, gen_key = replicate 16 7, gen_maxDevNwkAddr = 0\<rparr>) (appEUI d) (replicate 3 0) 0 \<and>
      nwkSKey (ni_devid (gen_gen xor_bytes (replicate 16 0) [] [] 0 \<lparr>gen_netid = \<lparr>nid_c0 = 19, nid_c1 = 0, nid_c2 = 0\<rparr>, gen_key = replicate 16 7, gen_maxDevNwkAddr = 0\<rparr> NETWORKIDENTITY_default 5)) =
        deriveOptNegFNwkSIntKey xor_bytes (replicate 16 0) [] (nwkKey d) (appEUI d) (replicate 3 0) 0"
  by (rule generated_identity_stable) (simp_all add: DEVICEID_default_def)

text \<open>
  a filtered page of the generating service is the beginning of the page up to the first
  identity that does not pass: the loop never gets beyond it.
\<close>

theorem generated_filter_stops:
  "gen_filter gen s retVal filters offset sz =
    (CODE_OK, retVal @ takeWhile (\<lambda>v. isIdentityFilteredV v filters)
      (gen_list_loop gen (netid_size (gen_netid s)) (unat sz) offset))"
proof -
  have "gen_filter_loop gen filters n k a =
      takeWhile (\<lambda>v. isIdentityFilteredV v filters) (gen_list_loop gen n k a)" for n k a
  proof (induction k arbitrary: a)
    case (Suc k)
    have "\<not> isIdentityFilteredV (gen a) filters \<Longrightarrow>
        takeWhile (\<lambda>v. isIdentityFilteredV v filters) (gen_list_loop gen n k a) = []"
      by (cases k) simp_all
    with Suc show ?case by (simp add: Let_def)
  qed simp
  then show ?thesis by (simp add: gen_filter_def)
qed

end
