(* ===== verification/Urn.thy ===== *)
theory Urn
  imports Identity_Binary Lora_Text
begin

text \<open>
  Identities as URNs (\<open>lorawan/storage/serialization/urn-helper.cpp\<close>), the text that QR codes of
  devices carry, with the checksums of \<open>lorawan/helper/crc-helper.cpp\<close>, \<open>PROFILEID\<close> of
  \<open>lorawan-types.cpp\<close> and the text protocol over it
  (\<open>identity-text-urn-serialization.cpp\<close>), which answers from any identity service.
\<close>

section \<open>Checksums\<close>

definition crc_xmodem_step :: "u16 \<Rightarrow> u16" where
  "crc_xmodem_step r = (if r AND 0x8000 \<noteq> 0 then push_bit 1 r XOR 0x1021 else push_bit 1 r)"

definition crc16xmodem :: "bytes \<Rightarrow> u16" where
  "crc16xmodem data =
    foldl (\<lambda>r b. (crc_xmodem_step ^^ 8) (r XOR push_bit 8 (ucast b))) 0 data"

definition crc_modbus_step :: "u16 \<Rightarrow> u16" where
  "crc_modbus_step r = (if r AND 1 \<noteq> 0 then drop_bit 1 r XOR 0xA001 else drop_bit 1 r)"

definition crc16modbus :: "bytes \<Rightarrow> u16" where
  "crc16modbus data = foldl (\<lambda>r b. (crc_modbus_step ^^ 8) (r XOR ucast b)) 0xffff data"

definition calcCheckSum :: "string \<Rightarrow> u16" where
  "calcCheckSum urn = crc16modbus (text_bytes urn)"

section \<open>PROFILEID\<close>

type_synonym PROFILEID = u32

definition PROFILEID_default :: PROFILEID where
  "PROFILEID_default = 0xffff0000"

text \<open>The empty text counts as hexadecimal.\<close>

definition PROFILEID_text :: "string \<Rightarrow> PROFILEID" where
  "PROFILEID_text s = (if isHex s then ucast (strtoull 16 s) else PROFILEID_default)"

section \<open>LorawanIdentificationURN\<close>

record LorawanIdentificationURN =
  urn_identity :: NETWORKIDENTITY
  urn_profileId :: PROFILEID
  urn_crc :: u16
  urn_ownerToken :: string
  urn_serialNumber :: string
  urn_command :: char
  urn_offset :: u32
  urn_size :: u8

definition LorawanIdentificationURN_default :: LorawanIdentificationURN where
  "LorawanIdentificationURN_default =
    \<lparr>urn_identity = NETWORKIDENTITY_default, urn_profileId = PROFILEID_default, urn_crc = 0xffff,
     urn_ownerToken = [], urn_serialNumber = [], urn_command = CHR 0x00, urn_offset = 0, urn_size = 0\<rparr>"

definition on_devid :: "(DEVICE_ID \<Rightarrow> DEVICE_ID) \<Rightarrow> LorawanIdentificationURN \<Rightarrow> LorawanIdentificationURN" where
  "on_devid f u = u\<lparr>urn_identity := on_id f (urn_identity u)\<rparr>"

text \<open>
  The proprietary tokens, by their second character; \<open>v\<close> is the token without its first two.
  The command is read behind the text when there is nothing else, which is its NUL.
\<close>

definition parseProprietary ::
    "char \<Rightarrow> string \<Rightarrow> LorawanIdentificationURN \<Rightarrow> LorawanIdentificationURN option" where
  "parseProprietary c v u =
    (if c = CHR ''D'' then Some (u\<lparr>urn_identity := (urn_identity u)\<lparr>ni_devaddr := string2DEVADDR v\<rparr>\<rparr>)
     else if c = CHR ''T'' then Some (on_devid (activation_update (\<lambda>_. string2activation v)) u)
     else if c = CHR ''C'' then Some (on_devid (deviceclass_update (\<lambda>_. string2deviceclass v)) u)
     else if c = CHR ''W'' then Some (on_devid (nwkSKey_update (string2KEY (Some v))) u)
     else if c = CHR ''S'' then Some (on_devid (appSKey_update (string2KEY (Some v))) u)
     else if c = CHR ''V'' then Some (on_devid (version_update (\<lambda>_. string2LORAWAN_VERSION v)) u)
     else if c = CHR ''A'' then Some (on_devid (appKey_update (string2KEY (Some v))) u)
     else if c = CHR ''N'' then Some (on_devid (nwkKey_update (string2KEY (Some v))) u)
     else if c = CHR ''O'' then Some (on_devid (devNonce_update (\<lambda>_. string2DEVNONCE (Some v))) u)
     else if c = CHR ''J'' then Some (on_devid (joinNonce_update (string2JOINNONCE (Some v))) u)
     else if c = CHR ''M'' then Some (on_devid (name_update (string2DEVICENAME (text_bytes v))) u)
     else if c = CHR ''E'' then Some (on_devid (token_update (\<lambda>_. string2token v)) u)
     else if c = CHR ''R'' then Some (on_devid (region_update (\<lambda>_. string2region v)) u)
     else if c = CHR ''G'' then Some (on_devid (subRegion_update (\<lambda>_. string2subRegion v)) u)
     else if c = CHR ''X'' then Some (u\<lparr>urn_command := (case v of [] \<Rightarrow> CHR 0x00 | x # _ \<Rightarrow> x)\<rparr>)
     else if c = CHR ''F'' then
       Some (u\<lparr>urn_offset := ucast (ucast (strtoull 16 v) :: u8)\<rparr>)
     else if c = CHR ''Z'' then
       Some (u\<lparr>urn_size := ucast (ucast (strtoull 16 v) :: u32)\<rparr>)
     else None)"

text \<open>The token behind the two mandatory identifiers; \<open>O\<close> falls through to \<open>S\<close>.\<close>

definition parseOptional ::
    "string \<Rightarrow> LorawanIdentificationURN \<Rightarrow> LorawanIdentificationURN option" where
  "parseOptional tok u =
    (case tok of
       [] \<Rightarrow> None
     | c # v \<Rightarrow>
         if c = CHR ''C'' then Some (u\<lparr>urn_crc := ucast (strtoull 16 v)\<rparr>)
         else if c = CHR ''O'' then Some (u\<lparr>urn_ownerToken := v, urn_serialNumber := v\<rparr>)
         else if c = CHR ''S'' then Some (u\<lparr>urn_serialNumber := v\<rparr>)
         else if c = CHR ''P'' then
           (case v of [] \<Rightarrow> None | d # w \<Rightarrow> parseProprietary d w u)
         else None)"

definition parseToken ::
    "string \<Rightarrow> nat \<Rightarrow> LorawanIdentificationURN \<Rightarrow> LorawanIdentificationURN option" where
  "parseToken tok count u =
    (if count = 0 then (if tok = ''LW'' then Some u else None)
     else if count = 1 then (if tok = ''D0'' then Some u else None)
     else if count = 2 then Some (on_devid (appEUI_update (\<lambda>_. string2DEVEUI tok)) u)
     else if count = 3 then Some (on_devid (devEUI_update (\<lambda>_. string2DEVEUI tok)) u)
     else parseOptional tok u)"

text \<open>The tokens of the text; an empty last one is not looked at.  What was read before a bad
  token stays.\<close>

fun parse_tokens ::
    "nat \<Rightarrow> string list \<Rightarrow> LorawanIdentificationURN \<Rightarrow> bool \<times> LorawanIdentificationURN" where
  "parse_tokens count [] u = (True, u)"
| "parse_tokens count (tok # toks) u =
    (if toks = [] \<and> tok = [] then (True, u)
     else case parseToken tok count u of
         None \<Rightarrow> (False, u)
       | Some u \<Rightarrow> parse_tokens (Suc count) toks u)"

definition urn_parse :: "string \<Rightarrow> LorawanIdentificationURN \<Rightarrow> bool \<times> LorawanIdentificationURN" where
  "urn_parse urn u = parse_tokens 0 (split_at_char (CHR '':'') urn) u"

definition LorawanIdentificationURN_text :: "string \<Rightarrow> LorawanIdentificationURN" where
  "LorawanIdentificationURN_text urn = snd (urn_parse urn LorawanIdentificationURN_default)"

definition mkURN ::
    "DEVEUI \<Rightarrow> DEVEUI \<Rightarrow> PROFILEID \<Rightarrow> string \<Rightarrow> string \<Rightarrow> string list option \<Rightarrow> bool \<Rightarrow> string" where
  "mkURN appEui devEui profileId ownerToken serialNumber extraProprietary addCheckSum =
    (let ss = ''LW:'' @ ''D0:'' @ DEVEUI2string appEui @ '':'' @ DEVEUI2string devEui @ '':'' @
           pad 8 (CHR ''0'') (show_hex (unat profileId));
         ss = ss @ (if ownerToken = [] then [] else '':O'' @ ownerToken);
         ss = ss @ (if serialNumber = [] then [] else '':S'' @ serialNumber);
         ss = ss @ (case extraProprietary of None \<Rightarrow> []
                    | Some ps \<Rightarrow> concat (map (\<lambda>p. '':P'' @ p) ps));
         r = toUpperCase ss
     in if addCheckSum
        then toUpperCase (ss @ '':C'' @ pad 4 (CHR ''0'') (show_hex (unat (calcCheckSum r))))
        else r)"

definition proprietary_fields :: "NETWORKIDENTITY \<Rightarrow> string list" where
  "proprietary_fields n =
    (let d = ni_devid n in
     [''D'' @ DEVADDR2string (ni_devaddr n), ''T'' @ activation2string (activation d),
      ''C'' @ deviceclass2string (deviceclass d), ''W'' @ KEY2string (nwkSKey d),
      ''S'' @ KEY2string (appSKey d), ''V'' @ LORAWAN_VERSION2string (version d),
      ''A'' @ KEY2string (appKey d), ''N'' @ KEY2string (nwkKey d),
      ''O'' @ DEVNONCE2string (devNonce d), ''J'' @ JOINNONCE2string (joinNonce d)] @
     (if DEVICENAME_empty (name d) then [] else [''M'' @ bytes_text (DEVICENAME2string (name d))]) @
     (if token d = 0 then [] else [''E'' @ token2string (token d)]) @
     (if region d = 0 then [] else [''R'' @ region2string (region d)]) @
     (if subRegion d = 0 then [] else [''G'' @ subRegion2string (subRegion d)]))"

definition NETWORKIDENTITY2URN ::
    "NETWORKIDENTITY \<Rightarrow> string \<Rightarrow> string \<Rightarrow> bool \<Rightarrow> bool \<Rightarrow> string list option \<Rightarrow> string" where
  "NETWORKIDENTITY2URN n ownerToken serialNumber addProprietary addCheckSum extraProprietary =
    (let pid = PROFILEID_text (bytes_text (DEVICENAME2string (name (ni_devid n))));
         proprietary = (case extraProprietary of None \<Rightarrow> [] | Some ps \<Rightarrow> ps);
         proprietary = proprietary @ (if addProprietary then proprietary_fields n else [])
     in mkURN (appEUI (ni_devid n)) (devEUI (ni_devid n)) pid ownerToken serialNumber
          (Some proprietary) addCheckSum)"

definition urn_toString :: "LorawanIdentificationURN \<Rightarrow> string" where
  "urn_toString u =
    NETWORKIDENTITY2URN (urn_identity u) (urn_ownerToken u) (urn_serialNumber u) True False None"

text \<open>A text that does not fit the buffer is not returned at all.\<close>

definition returnStr :: "nat \<Rightarrow> string \<Rightarrow> int \<Rightarrow> bytes" where
  "returnStr retSize value errCode = (if length value \<le> retSize then text_bytes value else [])"

definition returnURN :: "nat \<Rightarrow> LorawanIdentificationURN \<Rightarrow> int \<Rightarrow> bytes" where
  "returnURN retSize value errCode =
    (let s = urn_toString value in if length s \<le> retSize then text_bytes s else [])"

text \<open>Each token is taken with the colon behind it.\<close>

fun strip_tokens :: "string list \<Rightarrow> string" where
  "strip_tokens [] = []"
| "strip_tokens [tok] = (if tok \<noteq> [] \<and> hd tok \<noteq> CHR ''P'' then tok else [])"
| "strip_tokens (tok # toks) =
    (let c = tok @ '':''
     in (if \<not> (c \<noteq> [] \<and> hd c = CHR ''P'') then c else []) @ strip_tokens toks)"

definition stripURNProprietary :: "string \<Rightarrow> string" where
  "stripURNProprietary urn = strip_tokens (split_at_char (CHR '':'') urn)"

section \<open>The text protocol\<close>

fun urn_list_text :: "bool \<Rightarrow> NETWORKIDENTITY list \<Rightarrow> string" where
  "urn_list_text isFirst [] = []"
| "urn_list_text isFirst (ni # nis) =
    (if isFirst then [] else '';'') @
    urn_toString (LorawanIdentificationURN_default\<lparr>urn_identity := ni\<rparr>) @ urn_list_text False nis"

text \<open>Neither the code nor the access code of the service is looked at.\<close>

definition urn_query ::
    "'s IdentityService option \<Rightarrow> u32 \<Rightarrow> u64 \<Rightarrow> 's \<Rightarrow> nat \<Rightarrow> bytes \<Rightarrow> bytes \<times> 's" where
  "urn_query svc code accessCode s retSize request =
    (case svc of None \<Rightarrow> ([], s)
     | Some svc \<Rightarrow>
      (let urn = LorawanIdentificationURN_text (bytes_text request);
           ni = urn_identity urn;
           get = (let (r, d) = svc_get svc s (ni_devid ni) (ni_devaddr ni)
                  in (returnURN retSize (urn\<lparr>urn_identity := ni\<lparr>ni_devid := d\<rparr>\<rparr>) r, s))
       in
       if urn_command urn = CHR ''A'' then
         (if isDEVADDREmpty (ni_devaddr ni) then
            (let (r, i) = svc_getNetworkIdentity svc s ni (devEUI (ni_devid ni))
             in (returnURN retSize (urn\<lparr>urn_identity := i\<rparr>) r, s))
          else get)
       else if urn_command urn = CHR ''I'' then get
       else if urn_command urn = CHR ''L'' then
         (let (r, nis) = svc_list svc s [] (urn_offset urn) (urn_size urn)
          in (returnStr retSize (if r = CODE_OK then urn_list_text True nis else []) r, s))
       else if urn_command urn = CHR ''c'' then
         (returnStr retSize (show_nat (svc_size svc s)) 0, s)
       else if urn_command urn = CHR ''n'' then
         (let (r, i) = svc_next svc s ni in (returnURN retSize (urn\<lparr>urn_identity := i\<rparr>) r, s))
       else if urn_command urn = CHR ''p'' then
         (let (r, s') = svc_put svc s (ni_devaddr ni) (ni_devid ni)
          in (returnStr retSize (show_int r) 0, s'))
       else if urn_command urn = CHR ''r'' then
         (let (r, s') = svc_rm svc s (ni_devaddr ni) in (returnStr retSize (show_int r) 0, s'))
       else if urn_command urn = CHR ''s'' then (returnStr retSize (show_int CODE_OK) 0, s)
       else if urn_command urn = CHR ''e'' then (returnStr retSize (show_int CODE_OK) 0, s)
       else ([], s)))"
section \<open>Lemmas: checksums\<close>

lemma bit_u16_ge [simp]: "16 \<le> n \<Longrightarrow> \<not> bit (b::u16) n"
  by (auto dest: bit_imp_le_length)

lemma modbus_shift:
  assumes "\<forall>i < k. \<not> bit r i"
  shows "(crc_modbus_step ^^ k) r = drop_bit k r"
  using assms
proof (induction k)
  case (Suc k)
  then have "\<not> bit (drop_bit k r) 0" by (simp add: bit_drop_bit_eq)
  then have "drop_bit k r AND 2 ^ 0 = 0" by (simp only: and_exp_eq_0_iff_not_bit not_False_eq_True)
  then have "drop_bit k r AND 1 = 0" by (simp only: power_0)
  with Suc show ?case by (simp add: crc_modbus_step_def)
qed simp

lemma xmodem_shift:
  assumes "\<forall>i < k. \<not> bit r (15 - i)" "k \<le> 16"
  shows "(crc_xmodem_step ^^ k) r = push_bit k r"
  using assms
proof (induction k)
  case (Suc k)
  then have "\<not> bit (push_bit k r) 15" by (auto simp: bit_push_bit_iff)
  then have "push_bit k r AND 2 ^ 15 = 0" by (simp only: and_exp_eq_0_iff_not_bit not_False_eq_True)
  then have "push_bit k r AND 0x8000 = 0" by simp
  with Suc show ?case by (simp add: crc_xmodem_step_def)
qed simp

text \<open>
  the residue of both checksums: a text followed by its own checksum, low byte first for
  the one and high byte first for the other, has the checksum zero.
\<close>

theorem checksum_residue:
  "crc16modbus (data @ le_bytes 2 (crc16modbus data)) = 0 \<and>
   crc16xmodem (data @ rev (le_bytes 2 (crc16xmodem data))) = 0"
proof -
  have bytes: "le_bytes 2 (r::u16) = [byte_at r 0, byte_at r (Suc 0)]" for r
    by (simp add: le_bytes_def numeral_2_eq_2)
  have zero: "(crc_modbus_step ^^ 8) 0 = 0" "(crc_xmodem_step ^^ 8) 0 = 0"
    using modbus_shift [of 8 0] xmodem_shift [of 8 0] by simp_all
  have m1: "(crc_modbus_step ^^ 8) (r XOR ucast (byte_at r 0)) = drop_bit 8 r" for r :: u16
  proof -
    have "(crc_modbus_step ^^ 8) (r XOR ucast (byte_at r 0)) = drop_bit 8 (r XOR ucast (byte_at r 0))"
      by (rule modbus_shift) (auto simp: bit_simps bit_byte_at)
    also have "\<dots> = drop_bit 8 r" by (auto intro!: bit_word_eqI simp: bit_simps bit_byte_at)
    finally show ?thesis .
  qed
  have m2: "drop_bit 8 r XOR ucast (byte_at r (Suc 0)) = 0" for r :: u16
    by (auto intro!: bit_word_eqI simp: bit_simps bit_byte_at)
  have x1: "(crc_xmodem_step ^^ 8) (r XOR push_bit 8 (ucast (byte_at r (Suc 0)))) = push_bit 8 r" for r :: u16
  proof -
    have "(crc_xmodem_step ^^ 8) (r XOR push_bit 8 (ucast (byte_at r (Suc 0)))) =
        push_bit 8 (r XOR push_bit 8 (ucast (byte_at r (Suc 0))))"
      by (rule xmodem_shift) (auto simp: bit_simps bit_byte_at)
    also have "\<dots> = push_bit 8 r"
      by (auto intro!: bit_word_eqI simp: bit_simps bit_byte_at dest: bit_imp_le_length)
    finally show ?thesis .
  qed
  have x2: "push_bit 8 r XOR push_bit 8 (ucast (byte_at r 0)) = 0" for r :: u16
    by (auto intro!: bit_word_eqI simp: bit_simps bit_byte_at)
  show ?thesis
    by (simp add: crc16modbus_def crc16xmodem_def bytes m1 m2 x1 x2 zero)
qed

section \<open>Lemmas: tokens\<close>

lemma split_join:
  assumes "toks \<noteq> []" "\<forall>t \<in> set toks. d \<notin> set t"
  shows "split_at_char d (join [d] toks) = toks"
  using assms
proof (induction toks)
  case (Cons t ts)
  then show ?case
    by (cases "ts = []") (simp_all add: split_at_char_none join_Cons split_at_char_skip)
qed simp

lemma split_pieces: "t \<in> set (split_at_char d s) \<Longrightarrow> d \<notin> set t"
  by (induction s arbitrary: t) (auto split: if_splits list.splits)

lemma split_nonempty [simp]: "split_at_char d s \<noteq> []"
  by (induction s) (auto split: list.splits)

definition proprietary :: "string \<Rightarrow> bool" where
  "proprietary t \<longleftrightarrow> t \<noteq> [] \<and> hd t = CHR ''P''"

lemma split_strip:
  assumes "toks \<noteq> []" "\<forall>t \<in> set toks. CHR '':'' \<notin> set t"
  shows "split_at_char (CHR '':'') (strip_tokens toks) =
    filter (\<lambda>t. \<not> proprietary t) (butlast toks) @ [if proprietary (last toks) then [] else last toks]"
  using assms
proof (induction toks rule: strip_tokens.induct)
  case (2 t)
  then show ?case by (auto simp: proprietary_def split_at_char_none)
next
  case (3 t t' ts)
  have "hd (t @ '':'') = CHR ''P'' \<longleftrightarrow> proprietary t" by (cases t) (auto simp: proprietary_def)
  with 3 show ?case by (auto simp: Let_def split_at_char_skip)
qed simp

text \<open>
  removing the proprietary tokens from a URN leaves exactly its other tokens, in order; a
  proprietary last token leaves an empty one, behind the colon that stays.
\<close>

theorem strip_keeps_the_others:
  "split_at_char (CHR '':'') (stripURNProprietary urn) =
    (let toks = split_at_char (CHR '':'') urn
     in filter (\<lambda>t. \<not> proprietary t) (butlast toks) @
        [if proprietary (last toks) then [] else last toks])"
  using split_strip [of "split_at_char (CHR '':'') urn"] split_pieces
  by (auto simp: stripURNProprietary_def Let_def)

section \<open>Lemmas: values\<close>

lemma digit_value_toupper [simp]: "digit_value (toupper c) = digit_value c"
proof (cases "97 \<le> (of_char c :: nat) \<and> (of_char c :: nat) \<le> 122")
  case True
  define n where "n = (of_char c :: nat)"
  have "n - 32 < 256" using True unfolding n_def by linarith
  then have "(of_char (toupper c) :: nat) = n - 32"
    using True by (simp add: toupper_def n_def [symmetric] Let_def)
  with True show ?thesis by (auto simp: digit_value_def n_def Let_def)
next
  case False
  then have "toupper c = c" by (auto simp: toupper_def Let_def)
  then show ?thesis by simp
qed

lemma number_value_toupper [simp]: "number_value b (toUpperCase s) = number_value b s"
proof -
  have "foldl (\<lambda>v c. v * b + digit_value c) n (map toupper s) = foldl (\<lambda>v c. v * b + digit_value c) n s" for n
    by (induction s arbitrary: n) simp_all
  then show ?thesis by (simp add: number_value_def toUpperCase_def)
qed

lemma DEVEUI_upper: "string2DEVEUI (toUpperCase (DEVEUI2string e)) = e"
proof -
  let ?h = "DEVEUI2string e"
  have d: "list_all (\<lambda>c. digit_value c < 16) ?h" by (simp add: DEVEUI2string_def hexString_digits)
  then have u: "list_all (\<lambda>c. digit_value c < 16) (toUpperCase ?h)"
    by (simp add: toUpperCase_def list_all_iff)
  have n: "?h \<noteq> []" "toUpperCase ?h \<noteq> []" by (simp_all add: DEVEUI2string_def toUpperCase_def)
  have "number_value 16 ?h < 2 ^ 64"
    using be_val_bound [of "le_bytes 8 (NTOH8 e)"] by (simp add: DEVEUI2string_def number_value_hexString)
  then have "strtoull 16 (toUpperCase ?h) = strtoull 16 ?h"
    using strtoull_digits [OF d _ n(1)] strtoull_digits [OF u _ n(2)] by simp
  then show ?thesis using DEVEUI_text [of e] by (simp add: string2DEVEUI_def)
qed

lemma token_text: "v < 0x10000 \<Longrightarrow> string2token (token2string v) = v"
proof -
  assume "v < 0x10000"
  then have "v AND 0xffff = v"
    using take_bit_eq_self_word [of v 16] by (simp add: take_bit_eq_mask mask_eq_exp_minus_1)
  moreover have "unat v < 2 ^ 64" using unsigned_less [of v, where 'a = nat] by simp
  then have "strtoull 10 (show_nat (unat v)) = of_nat (unat v)" by (intro strtoull_show) simp_all
  ultimately show ?thesis
    by (auto simp: string2token_def token2string_def show_word_def bit_simps intro!: bit_word_eqI)
qed

lemma region_text: "string2region (region2string r) = r" "string2subRegion (subRegion2string r) = r"
proof -
  have "unat r < 2 ^ 64" using unsigned_less [of r, where 'a = nat] by simp
  then have "strtoull 10 (show_nat (unat r)) = of_nat (unat r)" by (intro strtoull_show) simp_all
  then show "string2region (region2string r) = r" "string2subRegion (subRegion2string r) = r"
    by (auto simp: string2region_def region2string_def string2subRegion_def subRegion2string_def
      show_word_def bit_simps intro!: bit_word_eqI)
qed

text \<open>A name in memory: its text, and zeros up to eight bytes.\<close>

definition name_holds :: "DEVICENAME \<Rightarrow> bytes \<Rightarrow> bool" where
  "name_holds n t \<longleftrightarrow> length t \<le> 8 \<and> 0 \<notin> set t \<and> n = t @ replicate (8 - length t) 0"

lemma name_text:
  assumes "name_holds n t"
  shows "DEVICENAME2string n = t" "string2DEVICENAME t (replicate 8 0) = n"
    "DEVICENAME_empty n \<Longrightarrow> n = replicate 8 0"
proof -
  have t: "c_str t = t" "length t \<le> 8" and n: "n = t @ replicate (8 - length t) 0"
    using assms c_str_no_nul [of t] by (simp_all add: name_holds_def)
  have "takeWhile (\<lambda>b. b \<noteq> 0) (replicate k (0::u8)) = []" for k by (cases k) simp_all
  then have "c_str n = t" using t n assms by (simp add: c_str_def takeWhile_append name_holds_def)
  with t show "DEVICENAME2string n = t" by (simp add: DEVICENAME2string_def)
  show "string2DEVICENAME t (replicate 8 0) = n"
    using t n by (simp add: string2DEVICENAME_def strncpy_def mem_write_def)
  show "n = replicate 8 0" if "DEVICENAME_empty n"
    using that n assms by (cases t) (auto simp: DEVICENAME_empty_def name_holds_def)
qed

section \<open>Lemmas: the fields of an identity\<close>

lemma no_colon_digits: "list_all (\<lambda>c. digit_value c < 16) s \<Longrightarrow> CHR '':'' \<notin> set s"
  by (auto simp: list_all_iff digit_value_def)

lemma no_colon:
  "CHR '':'' \<notin> set (hexString bs)" "CHR '':'' \<notin> set (show_word w)"
  "CHR '':'' \<notin> set (LORAWAN_VERSION2string v)"
  "CHR '':'' \<notin> set (activation2string a)" "CHR '':'' \<notin> set (deviceclass2string c)"
proof -
  show "CHR '':'' \<notin> set (hexString bs)" by (rule no_colon_digits) (rule hexString_digits)
  have n: "CHR '':'' \<notin> set (show_nat n)" for n
    using show_nat_digits [of n] by (auto simp: list_all_iff isdigit_def)
  then show "CHR '':'' \<notin> set (show_word w)" by (simp add: show_word_def)
  show "CHR '':'' \<notin> set (LORAWAN_VERSION2string v)"
    using n by (simp add: LORAWAN_VERSION2string_def show_word_def)
  have "activation2string a = ''ABP'' \<or> activation2string a = ''OTAA''"
  proof (cases "a > 1")
    case False
    then have "unat a = 0 \<or> unat a = 1" by (simp add: word_less_nat_alt) linarith
    then show ?thesis by (auto simp: activation2string_def ACTIVATION_NAMES_def)
  qed (simp add: activation2string_def ACTIVATION_NAMES_def)
  then show "CHR '':'' \<notin> set (activation2string a)" by auto
  show "CHR '':'' \<notin> set (deviceclass2string c)" by (simp add: deviceclass2string_def)
qed

lemma fields_no_colon:
  assumes "CHR '':'' \<notin> set (bytes_text (DEVICENAME2string (name (ni_devid n))))"
  shows "\<forall>p \<in> set (proprietary_fields n). CHR '':'' \<notin> set p"
  using assms by (simp add: proprietary_fields_def Let_def no_colon DEVADDR2string_def KEY2string_def
    DEVNONCE2string_def JOINNONCE2string_def token2string_def region2string_def subRegion2string_def)

text \<open>Reading proprietary tokens one after the other.\<close>

fun read_fields :: "string list \<Rightarrow> LorawanIdentificationURN \<Rightarrow> LorawanIdentificationURN option" where
  "read_fields [] u = Some u"
| "read_fields (p # ps) u =
    (case p of [] \<Rightarrow> None | c # v \<Rightarrow> Option.bind (parseProprietary c v u) (read_fields ps))"

lemma parse_tokens_fields:
  "read_fields ps u = Some u' \<Longrightarrow> 4 \<le> k \<Longrightarrow>
   parse_tokens k (map (\<lambda>p. CHR ''P'' # p) ps) u = (True, u')"
proof (induction ps arbitrary: k u)
  case (Cons p ps)
  from Cons.prems obtain c v u1 where "p = c # v" "parseProprietary c v u = Some u1"
    "read_fields ps u1 = Some u'" by (auto simp: bind_eq_Some_conv split: list.splits)
  with Cons.IH [of u1 "Suc k"] Cons.prems(2) show ?case by (simp add: parseToken_def parseOptional_def)
qed simp

lemma read_fields_append:
  "read_fields (ps @ qs) u = Option.bind (read_fields ps u) (read_fields qs)"
proof (induction ps arbitrary: u)
  case (Cons p ps)
  show ?case
  proof (cases p)
    case p: (Cons c v)
    show ?thesis by (cases "parseProprietary c v u") (simp_all add: p Cons.IH)
  qed simp
qed simp

lemma read_field_if:
  "read_fields (if b then [] else [c # v]) u = (if b then Some u else parseProprietary c v u)"
  by (cases "parseProprietary c v u") simp_all

lemma read_identity_fields:
  assumes "wf_device (ni_devid i)" "activation (ni_devid i) \<le> OTAA" "deviceclass (ni_devid i) \<le> CLASS_C"
    and "token (ni_devid i) < 0x10000" "name_holds (name (ni_devid i)) t"
    and "urn_identity u = NETWORKIDENTITY_default\<lparr>ni_devid := DEVICEID_default
      \<lparr>appEUI := appEUI (ni_devid i), devEUI := devEUI (ni_devid i)\<rparr>\<rparr>"
  shows "read_fields (proprietary_fields i) u = Some (u\<lparr>urn_identity := i\<rparr>)"
proof -
  obtain a d where i: "i = \<lparr>ni_devaddr = a, ni_devid = d\<rparr>" by (cases i)
  note w = assms(1) [unfolded i wf_device_def wf_KEY128_def]
  have n: "string2DEVICENAME (DEVICENAME2string (name d)) (replicate 8 0) = name d"
    "DEVICENAME_empty (name d) \<Longrightarrow> replicate 8 0 = name d"
    using name_text [OF assms(5)] by (simp_all add: i)
  show ?thesis
    using assms(2-4,6) w n
    by (cases d) (auto simp: proprietary_fields_def i read_fields_append read_field_if parseProprietary_def
      Let_def on_devid_def on_id_def text_simps activation_text deviceclass_text token_text region_text
      NETWORKIDENTITY_default_def DEVICEID_default_def KEY128_zero_def)
qed

section \<open>Properties\<close>

text \<open>The text of a request: the tokens of an identity, and a command.\<close>

definition request_tokens :: "NETWORKIDENTITY \<Rightarrow> char \<Rightarrow> string list" where
  "request_tokens i command =
    [''LW'', ''D0'', DEVEUI2string (appEUI (ni_devid i)), DEVEUI2string (devEUI (ni_devid i))] @
    map (\<lambda>p. CHR ''P'' # p) (proprietary_fields i @ [''X'' @ [command]])"

lemma bytes_text_of_text: "bytes_text (text_bytes s) = s"
proof -
  have "char_of (unat (of_char c :: u8)) = c" for c
  proof -
    have "(of_char c :: nat) < 256" by (rule nat_of_char_less_256)
    then have "unat (of_nat (of_char c :: nat) :: u8) = of_char c" by (simp add: unat_of_nat)
    then have "unat (of_char c :: u8) = of_char c" by (simp only: of_nat_of_char)
    then show ?thesis by (simp add: char_of_char)
  qed
  then show ?thesis by (simp add: bytes_text_def text_bytes_def o_def)
qed

lemma request_read:
  assumes "wf_device (ni_devid i)" "activation (ni_devid i) \<le> OTAA" "deviceclass (ni_devid i) \<le> CLASS_C"
    and "token (ni_devid i) < 0x10000" "name_holds (name (ni_devid i)) t"
    and "CHR '':'' \<notin> set (bytes_text t)" "command \<noteq> CHR '':''"
  shows "LorawanIdentificationURN_text (join '':'' (request_tokens i command)) =
    LorawanIdentificationURN_default\<lparr>urn_identity := i, urn_command := command\<rparr>"
proof -
  let ?u = "LorawanIdentificationURN_default\<lparr>urn_identity := NETWORKIDENTITY_default\<lparr>ni_devid := DEVICEID_default
      \<lparr>appEUI := appEUI (ni_devid i), devEUI := devEUI (ni_devid i)\<rparr>\<rparr>\<rparr>"
  have nc: "\<forall>p \<in> set (proprietary_fields i). CHR '':'' \<notin> set p"
    using fields_no_colon [of i] name_text(1) [OF assms(5)] assms(6) by simp
  have "split_at_char (CHR '':'') (join '':'' (request_tokens i command)) = request_tokens i command"
    by (rule split_join) (use nc assms(7) in \<open>auto simp: request_tokens_def no_colon DEVEUI2string_def\<close>)
  moreover have "read_fields (proprietary_fields i @ [''X'' @ [command]]) ?u =
      Some (?u\<lparr>urn_identity := i, urn_command := command\<rparr>)"
    using read_identity_fields [OF assms(1-5), of ?u]
    by (simp add: read_fields_append parseProprietary_def)
  ultimately show ?thesis
    by (simp add: LorawanIdentificationURN_text_def urn_parse_def request_tokens_def parseToken_def
      parse_tokens_fields DEVEUI_text on_devid_def on_id_def LorawanIdentificationURN_default_def
      NETWORKIDENTITY_default_def del: map_append)
qed

text \<open>
  A URN without the profile identifier, which \<open>mkURN\<close> always writes, is assigned as it is, with
  whatever access code: every field survives the text, for a device with a token below 65536, a name
  of at most eight bytes without a colon, and fields of their widths.
\<close>

theorem urn_assign_stores:
  assumes "wf_device (ni_devid i)" "activation (ni_devid i) \<le> OTAA" "deviceclass (ni_devid i) \<le> CLASS_C"
    and "token (ni_devid i) < 0x10000" "name_holds (name (ni_devid i)) t"
    and "CHR '':'' \<notin> set (bytes_text t)" "0 < retSize"
  shows "urn_query (Some MemoryIdentityService) code accessCode s retSize
      (text_bytes (join '':'' (request_tokens i (CHR ''p'')))) =
    (text_bytes ''0'', snd (ids_put s (ni_devaddr i) (ni_devid i)))"
proof -
  have "LorawanIdentificationURN_text (join '':'' (request_tokens i (CHR ''p''))) =
      LorawanIdentificationURN_default\<lparr>urn_identity := i, urn_command := CHR ''p''\<rparr>"
    by (rule request_read [OF assms(1-6)]) simp
  moreover have "show_int 0 = ''0''" by code_simp
  ultimately show ?thesis
    using assms(7) by (simp add: urn_query_def bytes_text_of_text Let_def MemoryIdentityService_def
      ids_put_def returnStr_def)
qed

theorem urn_assign_stores_witness:
  "urn_query (Some MemoryIdentityService) 42 7 [] 10
      (text_bytes (join '':'' (request_tokens \<lparr>ni_devaddr = 0x01020304, ni_devid = DEVICEID_default
        \<lparr>devEUI := 0x1122, name := [0x61, 0x62, 0, 0, 0, 0, 0, 0], region := 3\<rparr>\<rparr> (CHR ''p'')))) =
    (text_bytes ''0'', snd (ids_put []
      (ni_devaddr \<lparr>ni_devaddr = 0x01020304, ni_devid = DEVICEID_default
        \<lparr>devEUI := 0x1122, name := [0x61, 0x62, 0, 0, 0, 0, 0, 0], region := 3\<rparr>\<rparr>)
      (ni_devid \<lparr>ni_devaddr = 0x01020304, ni_devid = DEVICEID_default
        \<lparr>devEUI := 0x1122, name := [0x61, 0x62, 0, 0, 0, 0, 0, 0], region := 3\<rparr>\<rparr>)))"
proof -
  have holds: "name_holds [0x61, 0x62, 0, 0, 0, 0, 0, 0] [0x61, 0x62]"
    by code_simp
  have name_text: "CHR '':'' \<notin> set (bytes_text [0x61, 0x62])" by code_simp
  show ?thesis
    by (rule urn_assign_stores [where t = "[0x61, 0x62]"]) (simp_all add: wf_device_def wf_KEY128_def DEVICEID_default_def
      KEY128_zero_def holds name_text)
qed

text \<open>C31: A URN that the program writes for an identity, with any owner and serial number, is not
  read back by its own parser: the parser answers that it failed, and of the identity it has the two
  identifiers \<open>appEUI\<close> and \<open>devEUI\<close> only, all else as by default.  It stops at the profile identifier,
  which \<open>mkURN\<close> writes without the letter of a token.  The one exception are profile identifiers
  whose first digit is \<open>C\<close>: these are taken for a check sum.\<close>

theorem urn_reread_identifiers_only:
  assumes "pid = PROFILEID_text (bytes_text (DEVICENAME2string (name (ni_devid (urn_identity u)))))"
    and "hd (toUpperCase (pad 8 (CHR ''0'') (show_hex (unat pid)))) \<noteq> CHR ''C''"
  shows "urn_parse (urn_toString u) LorawanIdentificationURN_default =
    (False, LorawanIdentificationURN_default\<lparr>urn_identity := NETWORKIDENTITY_default\<lparr>ni_devid := DEVICEID_default
      \<lparr>appEUI := appEUI (ni_devid (urn_identity u)), devEUI := devEUI (ni_devid (urn_identity u))\<rparr>\<rparr>\<rparr>)"
proof -
  let ?d = "ni_devid (urn_identity u)"
  define ds where "ds = pad 8 (CHR ''0'') (show_hex (unat pid))"
  have hex: "list_all (\<lambda>c. digit_value c < 16) ds" "ds \<noteq> []"
    using show_base_digits [of 16 "unat pid"] by (auto simp: ds_def pad_def list_all_iff digit_value_def)
  obtain rest where urn: "urn_toString u = toUpperCase (''LW:D0:'' @ DEVEUI2string (appEUI ?d) @ '':'' @
      DEVEUI2string (devEUI ?d) @ '':'' @ ds @ '':'' @ rest)"
  proof
    show "urn_toString u = toUpperCase (''LW:D0:'' @ DEVEUI2string (appEUI ?d) @ '':'' @
        DEVEUI2string (devEUI ?d) @ '':'' @ ds @ '':'' @
        tl ((if urn_ownerToken u = [] then [] else '':O'' @ urn_ownerToken u) @
          (if urn_serialNumber u = [] then [] else '':S'' @ urn_serialNumber u) @
          concat (map (\<lambda>p. '':P'' @ p) (proprietary_fields (urn_identity u)))))"
      by (simp add: urn_toString_def NETWORKIDENTITY2URN_def mkURN_def assms(1) ds_def
        Let_def proprietary_fields_def)
  qed
  have up: "toUpperCase (s @ t) = toUpperCase s @ toUpperCase t"
    "toUpperCase (c # s) = toupper c # toUpperCase s" "toUpperCase [] = []" for s t c
    by (simp_all add: toUpperCase_def)
  have upper: "toupper (CHR '':'') = CHR '':''" "toupper (CHR ''L'') = CHR ''L''"
    "toupper (CHR ''W'') = CHR ''W''" "toupper (CHR ''D'') = CHR ''D''" "toupper (CHR ''0'') = CHR ''0''"
    by code_simp+
  have upper_hex: "list_all (\<lambda>c. digit_value c < 16) (toUpperCase s)" if "list_all (\<lambda>c. digit_value c < 16) s" for s
    using that by (simp add: toUpperCase_def list_all_iff)
  have nc: "CHR '':'' \<notin> set (toUpperCase (DEVEUI2string e))" "CHR '':'' \<notin> set (toUpperCase ds)" for e
    by (auto intro!: no_colon_digits upper_hex hex simp: DEVEUI2string_def hexString_digits)
  obtain x xs where x: "toUpperCase ds = x # xs" using hex(2) by (cases ds) (auto simp: toUpperCase_def)
  then have "digit_value x < 16" using upper_hex [OF hex(1)] by simp
  moreover have "x \<noteq> CHR ''C''" using assms(2) x by (simp add: ds_def)
  ultimately have stop: "parseOptional (x # xs) v = None" for v
    by (auto simp: parseOptional_def digit_value_def)
  have "x \<noteq> CHR '':''" using nc(2) x by auto
  then have "split_at_char (CHR '':'') (urn_toString u) =
      [''LW'', ''D0'', toUpperCase (DEVEUI2string (appEUI ?d)), toUpperCase (DEVEUI2string (devEUI ?d)),
       x # xs] @ split_at_char (CHR '':'') (toUpperCase rest)"
    using nc(2) by (simp add: urn up upper split_at_char_skip nc(1) x)
  then show ?thesis
    by (simp add: urn_parse_def parseToken_def stop DEVEUI_upper on_devid_def on_id_def
      LorawanIdentificationURN_default_def NETWORKIDENTITY_default_def)
qed

theorem urn_reread_identifiers_only_witness:
  "fst (urn_parse (urn_toString (LorawanIdentificationURN_default\<lparr>urn_identity := NETWORKIDENTITY_default
      \<lparr>ni_devid := DEVICEID_default\<lparr>name := [0x78, 0x79, 0, 0, 0, 0, 0, 0]\<rparr>\<rparr>\<rparr>)) LorawanIdentificationURN_default)
    = False"
proof -
  have "\<not> isHex (bytes_text (DEVICENAME2string [0x78, 0x79, 0, 0, 0, 0, 0, 0]))" by code_simp
  then have "PROFILEID_text (bytes_text (DEVICENAME2string [0x78, 0x79, 0, 0, 0, 0, 0, 0])) = 0xffff0000"
    by (simp add: PROFILEID_text_def PROFILEID_default_def)
  moreover have "hd (toUpperCase (pad 8 (CHR ''0'') (show_hex (unat (0xffff0000 :: u32))))) \<noteq> CHR ''C''"
    by (simp add: show_base.simps digit_char_def pad_def char_of_def bit_0) code_simp
  ultimately show ?thesis
    by (subst urn_reread_identifiers_only [where pid = "0xffff0000"]) (simp_all del: unsigned_numeral)
qed

end
