(* ===== verification/Payload_Command.thy ===== *)
theory Payload_Command
  imports Urn "HOL-Library.Sublist"
begin

text \<open>
  The commands that clients type to send payloads to devices
  (\<open>proto/payload2device/payload2device-parser.cpp\<close>): the parser with the flags it keeps of
  the options it has seen, its text, and the completion of a line that is being typed.  Dates are
  read and written by \<open>parseDate\<close> and \<open>time2string\<close> through the time zone of the system;
  they are the parameters \<open>parseDate\<close> and \<open>time2string\<close> here.
\<close>

section \<open>Words\<close>

definition concatenateWordsWithSpace :: "string \<Rightarrow> string \<Rightarrow> string" where
  "concatenateWordsWithSpace sLeft sRight = rtrim sLeft @ '' '' @ ltrim sRight"

definition isalpha :: "char \<Rightarrow> bool" where
  "isalpha c \<longleftrightarrow> (let n = of_char c :: nat in 65 \<le> n \<and> n \<le> 90 \<or> 97 \<le> n \<and> n \<le> 122)"

text \<open>\<open>strncmp\<close> is zero: equal up to the number of characters, or up to a common NUL.\<close>

definition strncmp_equal :: "string \<Rightarrow> string \<Rightarrow> nat \<Rightarrow> bool" where
  "strncmp_equal a b n \<longleftrightarrow> take n (c_string a @ [CHR 0x00]) = take n (c_string b @ [CHR 0x00])"

section \<open>Payload2DeviceParser\<close>

datatype PAYLOAD2DEVICE_COMMAND = COMMAND_NONE | COMMAND_PING | COMMAND_SEND | COMMAND_QUIT

datatype PAYLOAD2DEVICE_PARSER_STATE =
    STATE_START | STATE_COMMAND | STATE_ADDRESS | STATE_FPORT | STATE_PAYLOAD | STATE_FOPTS
  | STATE_TIME | STATE_PROTO

primrec state_number :: "PAYLOAD2DEVICE_PARSER_STATE \<Rightarrow> nat" where
  "state_number STATE_START = 0"
| "state_number STATE_COMMAND = 1"
| "state_number STATE_ADDRESS = 2"
| "state_number STATE_FPORT = 3"
| "state_number STATE_PAYLOAD = 4"
| "state_number STATE_FOPTS = 5"
| "state_number STATE_TIME = 6"
| "state_number STATE_PROTO = 7"

definition RESERVED_WORDS :: "string list" where
  "RESERVED_WORDS = [''send'', ''ping'', ''quit'', ''payload'', ''fport'', ''fopts'', ''at'', ''proto'']"

record Payload2DeviceParser =
  flagsStateClause :: u8
  flagsStateValue :: u8
  pp_state :: PAYLOAD2DEVICE_PARSER_STATE
  lastSendOption :: PAYLOAD2DEVICE_PARSER_STATE
  lastToken :: string
  pp_command :: PAYLOAD2DEVICE_COMMAND
  pp_addresses :: "DEVADDR list"
  pp_fport :: u8
  pp_proto :: u8
  pp_payload :: string
  pp_fopts :: string
  pp_tim :: int

definition Payload2DeviceParser_default :: Payload2DeviceParser where
  "Payload2DeviceParser_default =
    \<lparr>flagsStateClause = 0, flagsStateValue = 0, pp_state = STATE_START, lastSendOption = STATE_START,
     lastToken = [], pp_command = COMMAND_NONE, pp_addresses = [], pp_fport = 1, pp_proto = 0,
     pp_payload = [], pp_fopts = [], pp_tim = 0\<rparr>"

definition hasSendOptionName :: "PAYLOAD2DEVICE_PARSER_STATE \<Rightarrow> Payload2DeviceParser \<Rightarrow> bool" where
  "hasSendOptionName st p \<longleftrightarrow> push_bit (state_number st) 1 AND flagsStateClause p \<noteq> 0"

definition hasSendOptionValue :: "PAYLOAD2DEVICE_PARSER_STATE \<Rightarrow> Payload2DeviceParser \<Rightarrow> bool" where
  "hasSendOptionValue st p \<longleftrightarrow> push_bit (state_number st) 1 AND flagsStateValue p \<noteq> 0"

definition setFlagSendOptionName ::
    "PAYLOAD2DEVICE_PARSER_STATE \<Rightarrow> Payload2DeviceParser \<Rightarrow> Payload2DeviceParser" where
  "setFlagSendOptionName st p =
    p\<lparr>flagsStateClause := flagsStateClause p OR push_bit (state_number st) 1\<rparr>"

definition setFlagOptionValue ::
    "PAYLOAD2DEVICE_PARSER_STATE \<Rightarrow> Payload2DeviceParser \<Rightarrow> Payload2DeviceParser" where
  "setFlagOptionValue st p =
    p\<lparr>flagsStateValue := flagsStateValue p OR push_bit (state_number st) 1\<rparr>"

definition canInsertAddress :: "Payload2DeviceParser \<Rightarrow> bool" where
  "canInsertAddress p \<longleftrightarrow> pp_command p = COMMAND_SEND \<and>
    flagsStateClause p AND push_bit (state_number STATE_FPORT) 1 = 0 \<and>
    flagsStateClause p AND push_bit (state_number STATE_PAYLOAD) 1 = 0 \<and>
    flagsStateClause p AND push_bit (state_number STATE_FOPTS) 1 = 0 \<and>
    flagsStateClause p AND push_bit (state_number STATE_TIME) 1 = 0 \<and>
    flagsStateClause p AND push_bit (state_number STATE_PROTO) 1 = 0"

section \<open>Parsing\<close>

text \<open>The next word and what is behind it.\<close>

definition read_token :: "string \<Rightarrow> string \<times> string" where
  "read_token s =
    (let t = dropWhile isspace s
     in (takeWhile (\<lambda>c. \<not> isspace c) t, dropWhile (\<lambda>c. \<not> isspace c) t))"

definition option_state :: "string \<Rightarrow> PAYLOAD2DEVICE_PARSER_STATE" where
  "option_state tok =
    (if tok = RESERVED_WORDS ! 4 then STATE_FPORT
     else if tok = RESERVED_WORDS ! 3 then STATE_PAYLOAD
     else if tok = RESERVED_WORDS ! 5 then STATE_FOPTS
     else if tok = RESERVED_WORDS ! 6 then STATE_TIME
     else if tok = RESERVED_WORDS ! 7 then STATE_PROTO
     else STATE_ADDRESS)"

definition read_name :: "PAYLOAD2DEVICE_PARSER_STATE \<Rightarrow> Payload2DeviceParser \<Rightarrow> Payload2DeviceParser" where
  "read_name st p = (setFlagSendOptionName st p)\<lparr>pp_state := st, lastSendOption := st\<rparr>"

definition read_address :: "string \<Rightarrow> Payload2DeviceParser \<Rightarrow> Payload2DeviceParser" where
  "read_address tok p =
    (let p = p\<lparr>pp_state := STATE_ADDRESS\<rparr>
     in if canInsertAddress p \<and> isHex tok
        then (setFlagOptionValue STATE_ADDRESS (setFlagSendOptionName STATE_ADDRESS
          (p\<lparr>pp_addresses := pp_addresses p @ [string2DEVADDR tok]\<rparr>)))\<lparr>lastSendOption := STATE_ADDRESS\<rparr>
        else p\<lparr>lastToken := tok\<rparr>)"

definition read_value ::
    "(string \<Rightarrow> int) \<Rightarrow> PAYLOAD2DEVICE_PARSER_STATE \<Rightarrow> string \<Rightarrow> Payload2DeviceParser \<Rightarrow>
     Payload2DeviceParser" where
  "read_value parseDate st tok p =
    (case st of
       STATE_FPORT \<Rightarrow>
         if \<not> isDec tok then p\<lparr>lastToken := tok\<rparr>
         else (setFlagOptionValue STATE_FPORT p)\<lparr>pp_fport := ucast (strtoull 10 tok)\<rparr>
     | STATE_PAYLOAD \<Rightarrow>
         if \<not> isHex tok then p\<lparr>lastToken := tok\<rparr>
         else (let p = p\<lparr>pp_payload := hex2string tok\<rparr>
               in if pp_payload p \<noteq> [] then setFlagOptionValue STATE_PAYLOAD p else p)
     | STATE_FOPTS \<Rightarrow>
         if \<not> isHex tok then p\<lparr>lastToken := tok\<rparr>
         else (let p = p\<lparr>pp_fopts := hex2string tok\<rparr>
               in if pp_fopts p \<noteq> [] then setFlagOptionValue STATE_FOPTS p else p)
     | STATE_TIME \<Rightarrow>
         (let p = p\<lparr>pp_tim := parseDate (c_string tok)\<rparr>
          in if pp_tim p \<noteq> 0 then setFlagOptionValue STATE_TIME p else p\<lparr>lastToken := tok\<rparr>)
     | STATE_PROTO \<Rightarrow>
         if \<not> isDec tok then p\<lparr>lastToken := tok\<rparr>
         else setFlagOptionValue STATE_PROTO (p\<lparr>pp_proto := ucast (strtoull 10 tok)\<rparr>)
     | _ \<Rightarrow> p\<lparr>lastToken := tok\<rparr>)"

lemma read_token_le: "read_token s = (tok, rest) \<Longrightarrow> length rest + length tok \<le> length s"
proof -
  assume r: "read_token s = (tok, rest)"
  define t where "t = dropWhile isspace s"
  have "tok @ rest = t" using r by (auto simp: read_token_def Let_def t_def)
  moreover have "length t \<le> length s" by (simp add: t_def length_dropWhile_le)
  ultimately show ?thesis by auto
qed

text \<open>
  The words behind \<open>send\<close>.  A line that ends with blanks, or with the name of an option,
  leaves through a \<open>return\<close>, which passes by the last correction of the port.
\<close>

function options_loop ::
    "(string \<Rightarrow> int) \<Rightarrow> string \<Rightarrow> Payload2DeviceParser \<Rightarrow> Payload2DeviceParser" where
  "options_loop parseDate rest p =
    (if rest = [] then (if pp_payload p = [] then p\<lparr>pp_fport := 0\<rparr> else p)
     else case read_token rest of (tok, rest) \<Rightarrow>
       if tok = [] then p
       else let st = option_state tok
         in if st = STATE_ADDRESS then options_loop parseDate rest (read_address tok p)
            else case read_token rest of (val, rest) \<Rightarrow>
              if val = [] then read_name st p
              else options_loop parseDate rest (read_value parseDate st val (read_name st p)))"
  by pat_completeness auto

termination
  by (relation "measure (\<lambda>(_, rest, _). length rest)")
    (auto dest!: read_token_le [OF sym] simp flip: length_greater_0_conv)

declare options_loop.simps [simp del]

text \<open>The port and the protocol are not reset.\<close>

definition parser_clear :: "Payload2DeviceParser \<Rightarrow> Payload2DeviceParser" where
  "parser_clear p =
    p\<lparr>lastToken := [], pp_payload := [], pp_fopts := [], pp_tim := 0, flagsStateClause := 0,
      flagsStateValue := 0, lastSendOption := STATE_START, pp_state := STATE_START,
      pp_command := COMMAND_NONE, pp_addresses := []\<rparr>"

definition read_command :: "PAYLOAD2DEVICE_COMMAND \<Rightarrow> Payload2DeviceParser \<Rightarrow> Payload2DeviceParser" where
  "read_command c p = setFlagSendOptionName STATE_COMMAND (p\<lparr>pp_command := c, pp_state := STATE_COMMAND\<rparr>)"

definition parse_command ::
    "(string \<Rightarrow> int) \<Rightarrow> string \<Rightarrow> Payload2DeviceParser \<Rightarrow> Payload2DeviceParser" where
  "parse_command parseDate expression p =
    (let p = parser_clear p;
         s = dropWhile isspace expression;
         tok = takeWhile isalpha s
     in if tok = RESERVED_WORDS ! 0
        then options_loop parseDate (dropWhile isalpha s) (read_command COMMAND_SEND p)
        else if tok = RESERVED_WORDS ! 1 then read_command COMMAND_PING p
        else if tok = RESERVED_WORDS ! 2 then read_command COMMAND_QUIT p
        else p)"

text \<open>From a buffer; a size of 0 stands for a C string.\<close>

definition parse_command_buffer ::
    "(string \<Rightarrow> int) \<Rightarrow> string \<Rightarrow> nat \<Rightarrow> Payload2DeviceParser \<Rightarrow> Payload2DeviceParser" where
  "parse_command_buffer parseDate expression sz p =
    parse_command parseDate (if sz = 0 then c_string expression else take sz expression) p"

section \<open>Text\<close>

definition command_words :: "(int \<Rightarrow> string) \<Rightarrow> Payload2DeviceParser \<Rightarrow> string list" where
  "command_words time2string p =
    map DEVADDR2string (pp_addresses p) @
    (if pp_payload p = [] then []
     else [RESERVED_WORDS ! 3, hexString (text_bytes (pp_payload p)), RESERVED_WORDS ! 4,
       show_word (pp_fport p)]) @
    (if pp_fopts p = [] then [] else [RESERVED_WORDS ! 5, hexString (text_bytes (pp_fopts p))]) @
    (if pp_tim p = 0 then [] else [RESERVED_WORDS ! 6, time2string (pp_tim p)]) @
    (if 0 < pp_proto p then [RESERVED_WORDS ! 7, show_word (pp_proto p)] else [])"

definition command_toString :: "(int \<Rightarrow> string) \<Rightarrow> Payload2DeviceParser \<Rightarrow> string" where
  "command_toString time2string p =
    (case pp_command p of
       COMMAND_PING \<Rightarrow> RESERVED_WORDS ! 1
     | COMMAND_SEND \<Rightarrow> RESERVED_WORDS ! 0 @ concat (map (\<lambda>w. '' '' @ w) (command_words time2string p))
     | _ \<Rightarrow> [])"

section \<open>Completion\<close>

text \<open>\<open>&word[n]\<close>, which is outside of the word behind its NUL.\<close>

definition word_from :: "string \<Rightarrow> nat \<Rightarrow> string option" where
  "word_from w n = (if n \<le> length w then Some (drop n w) else None)"

definition complition :: "(string \<Rightarrow> int) \<Rightarrow> string \<Rightarrow> string option" where
  "complition parseDate expression =
    (let p = parse_command parseDate expression Payload2DeviceParser_default;
         len = length expression;
         start = state_number (pp_state p) \<le> state_number STATE_COMMAND;
         word = find (\<lambda>w. strncmp_equal expression w len) (take 3 RESERVED_WORDS)
     in if start \<and> len = 0 then Some (RESERVED_WORDS ! 0)
        else if start \<and> word \<noteq> None then word
        else if \<not> hasSendOptionValue (lastSendOption p) p then Some expression
        else if lastToken p \<noteq> [] then
          (if state_number (lastSendOption p) \<le> state_number STATE_COMMAND \<or>
              hasSendOptionValue (lastSendOption p) p
           then (case find (\<lambda>w. strncmp_equal (lastToken p) w (length (lastToken p))) (drop 3 RESERVED_WORDS) of
                   Some w \<Rightarrow> map_option (\<lambda>t. expression @ t) (word_from w (length (lastToken p)))
                 | None \<Rightarrow> Some expression)
           else Some expression)
        else if hasSendOptionValue (lastSendOption p) p then
          (if \<not> hasSendOptionName STATE_PAYLOAD p then Some (concatenateWordsWithSpace expression ''payload'')
           else if \<not> hasSendOptionName STATE_FOPTS p then Some (concatenateWordsWithSpace expression ''fopts'')
           else if \<not> hasSendOptionName STATE_FPORT p then Some (concatenateWordsWithSpace expression ''fport'')
           else if \<not> hasSendOptionName STATE_TIME p then Some (concatenateWordsWithSpace expression ''at'')
           else if \<not> hasSendOptionName STATE_PROTO p then Some (concatenateWordsWithSpace expression ''proto'')
           else Some expression)
        else Some expression)"

section \<open>Lemmas: flags\<close>

lemma flag_bit: "push_bit n (1::u8) AND f \<noteq> 0 \<longleftrightarrow> bit f n" if "n < 8"
proof
  assume "bit f n"
  then have "bit (push_bit n 1 AND f) n" using that by (simp add: bit_simps)
  then show "push_bit n 1 AND f \<noteq> 0" by auto
next
  assume "push_bit n (1::u8) AND f \<noteq> 0"
  then obtain k where "bit (push_bit n (1::u8) AND f) k" by (auto simp: bit_eq_iff)
  then show "bit f n" by (auto simp: bit_simps)
qed

lemma state_number_less: "state_number st < 8" by (cases st) simp_all

lemma state_number_eq [simp]: "state_number st = state_number st' \<longleftrightarrow> st = st'"
  by (cases st; cases st') simp_all

named_theorems flag_simps \<open>flags of the options seen\<close>

lemma has_name [flag_simps]: "hasSendOptionName st p \<longleftrightarrow> bit (flagsStateClause p) (state_number st)"
  "hasSendOptionValue st p \<longleftrightarrow> bit (flagsStateValue p) (state_number st)"
  by (simp_all add: hasSendOptionName_def hasSendOptionValue_def flag_bit state_number_less del: push_bit_of_1)

lemma set_flag_bit:
  "bit (f OR push_bit (state_number st) (1::u8)) (state_number st') \<longleftrightarrow> st = st' \<or> bit f (state_number st')"
  using state_number_less [of st] state_number_less [of st'] by (auto simp: bit_simps)

lemma set_flag [flag_simps]:
  "bit (flagsStateClause (setFlagSendOptionName st p)) (state_number st') \<longleftrightarrow>
    st = st' \<or> bit (flagsStateClause p) (state_number st')"
  "bit (flagsStateValue (setFlagOptionValue st p)) (state_number st') \<longleftrightarrow>
    st = st' \<or> bit (flagsStateValue p) (state_number st')"
  "flagsStateValue (setFlagSendOptionName st p) = flagsStateValue p"
  "flagsStateClause (setFlagOptionValue st p) = flagsStateClause p"
  by (simp_all add: setFlagSendOptionName_def setFlagOptionValue_def set_flag_bit del: push_bit_of_1)

definition option_states :: "PAYLOAD2DEVICE_PARSER_STATE list" where
  "option_states = [STATE_FPORT, STATE_PAYLOAD, STATE_FOPTS, STATE_TIME, STATE_PROTO]"

lemma can_insert [flag_simps]:
  "canInsertAddress p \<longleftrightarrow> pp_command p = COMMAND_SEND \<and>
    (\<forall>st \<in> set option_states. \<not> bit (flagsStateClause p) (state_number st))"
proof -
  have "f AND push_bit n (1::u8) = 0 \<longleftrightarrow> \<not> bit f n" if "n < 8" for f n
    using flag_bit [OF that, of f] by (metis and.commute)
  then show ?thesis by (simp add: canInsertAddress_def option_states_def del: push_bit_of_1)
qed

section \<open>Lemmas: words of a line\<close>

definition word :: "string \<Rightarrow> bool" where
  "word w \<longleftrightarrow> w \<noteq> [] \<and> list_all (\<lambda>c. \<not> isspace c) w"

definition line :: "string list \<Rightarrow> string" where
  "line ws = concat (map (\<lambda>w. '' '' @ w) ws)"

lemma line_simps [simp]: "line [] = []" "line (w # ws) = CHR '' '' # w @ line ws"
  by (simp_all add: line_def)

lemma space_is_space [simp]: "isspace (CHR '' '')" by code_simp

lemma read_token_line: "word w \<Longrightarrow> read_token (line (w # ws)) = (w, line ws)"
proof -
  assume w: "word w"
  have "dropWhile isspace (line (w # ws)) = w @ line ws"
    using w by (cases w) (simp_all add: word_def)
  moreover have "takeWhile (\<lambda>c. \<not> isspace c) (w @ line ws) = w"
    "dropWhile (\<lambda>c. \<not> isspace c) (w @ line ws) = line ws"
    using w by (cases ws; auto simp: word_def list_all_iff takeWhile_append dropWhile_append)+
  ultimately show ?thesis by (simp add: read_token_def)
qed

lemma word_hex: "bs \<noteq> [] \<Longrightarrow> word (hexString bs)"
  using hexString_digits [of bs] by (auto simp: word_def list_all_iff dest: digit_not_space)

lemma word_dec: "word (show_word n)" "isDec (show_word n)"
proof -
  have d: "list_all (\<lambda>c. digit_value c < 10) (show_word n)"
    unfolding show_word_def by (rule show_base_digits) simp_all
  then show "isDec (show_word n)"
    using show_nat_digits [of "unat n"] by (auto simp: isDec_def show_word_def)
  from d have "\<forall>c \<in> set (show_word n). digit_value c < 16" by (auto simp: list_all_iff)
  then show "word (show_word n)"
    by (auto simp: word_def list_all_iff show_word_def dest: digit_not_space)
qed

lemma option_state_hex: "isHex tok \<Longrightarrow> option_state tok = STATE_ADDRESS"
proof -
  have "\<not> isHex (RESERVED_WORDS ! 3)" "\<not> isHex (RESERVED_WORDS ! 4)" "\<not> isHex (RESERVED_WORDS ! 5)"
    "\<not> isHex (RESERVED_WORDS ! 6)" "\<not> isHex (RESERVED_WORDS ! 7)" by code_simp+
  moreover assume "isHex tok"
  ultimately show ?thesis by (auto simp: option_state_def)
qed

lemma option_state_words:
  "option_state (RESERVED_WORDS ! 3) = STATE_PAYLOAD" "option_state (RESERVED_WORDS ! 4) = STATE_FPORT"
  "option_state (RESERVED_WORDS ! 5) = STATE_FOPTS" "option_state (RESERVED_WORDS ! 6) = STATE_TIME"
  "option_state (RESERVED_WORDS ! 7) = STATE_PROTO"
  by (simp_all add: option_state_def RESERVED_WORDS_def)

lemma word_reserved: "3 \<le> n \<Longrightarrow> n < 8 \<Longrightarrow> word (RESERVED_WORDS ! n)"
proof -
  have "list_all word RESERVED_WORDS" by code_simp
  moreover have "length RESERVED_WORDS = 8" by (simp add: RESERVED_WORDS_def)
  moreover assume "n < 8"
  ultimately show ?thesis by (simp add: list_all_length)
qed

lemma options_loop_end: "options_loop D [] p = (if pp_payload p = [] then p\<lparr>pp_fport := 0\<rparr> else p)"
  by (subst options_loop.simps) simp

lemma options_loop_address:
  assumes "isHex tok" "word tok"
  shows "options_loop D (line (tok # ws)) p = options_loop D (line ws) (read_address tok p)"
proof -
  have "line (tok # ws) \<noteq> []" "tok \<noteq> []" using assms(2) by (simp_all add: word_def)
  then show ?thesis
    using assms by (subst options_loop.simps) (simp add: read_token_line option_state_hex del: line_simps)
qed

lemma options_loop_option:
  assumes "option_state w = st" "st \<noteq> STATE_ADDRESS" "word w" "word v"
  shows "options_loop D (line (w # v # ws)) p =
    options_loop D (line ws) (read_value D st v (read_name st p))"
proof -
  have "line (w # v # ws) \<noteq> []" "w \<noteq> []" "v \<noteq> []" using assms by (simp_all add: word_def)
  then show ?thesis
    using assms by (subst options_loop.simps) (simp add: read_token_line del: line_simps)
qed

section \<open>Properties\<close>

lemma append_one: "(@) [c] = (#) c"
  by (simp add: fun_eq_iff)

text \<open>What a command asks for.\<close>

definition request :: "Payload2DeviceParser \<Rightarrow>
    PAYLOAD2DEVICE_COMMAND \<times> DEVADDR list \<times> u8 \<times> u8 \<times> string \<times> string \<times> int" where
  "request p = (pp_command p, pp_addresses p, pp_fport p, pp_proto p, pp_payload p, pp_fopts p, pp_tim p)"

lemma request_flags [simp]:
  "request (setFlagSendOptionName st p) = request p" "request (setFlagOptionValue st p) = request p"
  "request (read_name st p) = request p"
  by (simp_all add: request_def setFlagSendOptionName_def setFlagOptionValue_def read_name_def)

lemma addresses_read:
  assumes "canInsertAddress p" "request p = (c, as, rest)"
  obtains p' where "request p' = (c, as @ bs, rest)"
    and "options_loop D (line (map DEVADDR2string bs @ ws)) p = options_loop D (line ws) p'"
  using assms
proof (induction bs arbitrary: p as thesis)
  case Nil
  show ?case using Nil.prems(1) [of p] Nil.prems(3) by simp
next
  case (Cons b bs)
  let ?q = "read_address (DEVADDR2string b) p"
  have hex: "isHex (DEVADDR2string b)" "word (DEVADDR2string b)"
    by (simp_all add: isHex_def DEVADDR2string_def hexString_digits word_hex)
  have can: "canInsertAddress (p\<lparr>pp_state := STATE_ADDRESS\<rparr>)" using Cons.prems(2) by (simp add: canInsertAddress_def)
  then have "canInsertAddress ?q" "request ?q = (c, as @ [b], rest)"
    using hex(1) Cons.prems(2,3) by (auto simp: read_address_def flag_simps option_states_def request_def
      setFlagSendOptionName_def setFlagOptionValue_def text_simps set_flag_bit bit_simps simp del: push_bit_of_1)
  then obtain p' where "request p' = (c, (as @ [b]) @ bs, rest)"
    and "options_loop D (line (map DEVADDR2string bs @ ws)) ?q = options_loop D (line ws) p'"
    using Cons.IH by metis
  with options_loop_address [OF hex, of D "map DEVADDR2string bs @ ws" p] show ?case
    by (intro Cons.prems(1)) (simp_all del: line_simps)
qed

lemma payload_read: "read_value D STATE_PAYLOAD (hexString (text_bytes s)) p =
    (if s \<noteq> [] then setFlagOptionValue STATE_PAYLOAD (p\<lparr>pp_payload := s\<rparr>) else p\<lparr>pp_payload := s\<rparr>)"
  by (simp add: read_value_def isHex_def hexString_digits hex2string_hexString bytes_text_of_text)

lemma fopts_read: "read_value D STATE_FOPTS (hexString (text_bytes s)) p =
    (if s \<noteq> [] then setFlagOptionValue STATE_FOPTS (p\<lparr>pp_fopts := s\<rparr>) else p\<lparr>pp_fopts := s\<rparr>)"
  by (simp add: read_value_def isHex_def hexString_digits hex2string_hexString bytes_text_of_text)

lemma show_word_read: "ucast (strtoull 10 (show_word (n::u8))) = n"
proof -
  have "unat n < 2 ^ 64" using unsigned_less [of n, where 'a = nat] by simp
  then have "strtoull 10 (show_word n) = of_nat (unat n)" by (simp add: show_word_def strtoull_show)
  then show ?thesis by (auto simp: bit_simps intro!: bit_word_eqI)
qed

lemma options_loop_if:
  assumes "option_state w = st" "st \<noteq> STATE_ADDRESS" "word w" "\<not> b \<longrightarrow> word v"
  shows "options_loop D (line ((if b then [] else [w, v]) @ ws)) p =
    options_loop D (line ws) (if b then p else read_value D st v (read_name st p))"
  using options_loop_option [OF assms(1-3), of v D ws p] assms(4) by simp

text \<open>The words of a command, option by option.\<close>

lemma command_words_options:
  "command_words T p = map DEVADDR2string (pp_addresses p) @
    (if pp_payload p = [] then [] else [RESERVED_WORDS ! 3, hexString (text_bytes (pp_payload p))]) @
    (if pp_payload p = [] then [] else [RESERVED_WORDS ! 4, show_word (pp_fport p)]) @
    (if pp_fopts p = [] then [] else [RESERVED_WORDS ! 5, hexString (text_bytes (pp_fopts p))]) @
    (if pp_tim p = 0 then [] else [RESERVED_WORDS ! 6, T (pp_tim p)]) @
    (if pp_proto p = 0 then [] else [RESERVED_WORDS ! 7, show_word (pp_proto p)]) @ []"
  by (simp add: command_words_def word_gt_0)

lemma options_read:
  assumes "request p0 = (COMMAND_SEND, pp_addresses p, 1, 0, [], [], 0)"
    and "pp_command p = COMMAND_SEND" "pp_payload p = [] \<longrightarrow> pp_fport p = 0"
    and "pp_tim p \<noteq> 0 \<longrightarrow> word (T (pp_tim p)) \<and> D (c_string (T (pp_tim p))) = pp_tim p"
    and ws: "command_words T p = map DEVADDR2string (pp_addresses p) @ ws"
  shows "request (options_loop D (line ws) p0) = request p"
proof -
  have hex: "word (hexString (text_bytes s))" if "s \<noteq> []" for s
    using that by (intro word_hex) (metis length_text_bytes length_0_conv)
  note loop = options_loop_if [OF option_state_words(1) _ word_reserved] options_loop_if [OF option_state_words(2) _ word_reserved]
    options_loop_if [OF option_state_words(3) _ word_reserved] options_loop_if [OF option_state_words(4) _ word_reserved]
    options_loop_if [OF option_state_words(5) _ word_reserved]
  have "ws = (if pp_payload p = [] then [] else [RESERVED_WORDS ! 3, hexString (text_bytes (pp_payload p))]) @
    (if pp_payload p = [] then [] else [RESERVED_WORDS ! 4, show_word (pp_fport p)]) @
    (if pp_fopts p = [] then [] else [RESERVED_WORDS ! 5, hexString (text_bytes (pp_fopts p))]) @
    (if pp_tim p = 0 then [] else [RESERVED_WORDS ! 6, T (pp_tim p)]) @
    (if pp_proto p = 0 then [] else [RESERVED_WORDS ! 7, show_word (pp_proto p)]) @ []"
    using ws unfolding command_words_options by simp
  then show ?thesis
    using assms(1-4) hex
    by (simp add: loop word_dec options_loop_end payload_read fopts_read read_value_def [of _ STATE_FPORT]
      read_value_def [of _ STATE_TIME] read_value_def [of _ STATE_PROTO] show_word_read request_def
      setFlagSendOptionName_def setFlagOptionValue_def read_name_def del: line_simps(2) append.simps append_Nil2)
qed

lemma parse_send:
  assumes "s \<noteq> [] \<longrightarrow> hd s = CHR '' ''"
  shows "parse_command D (''send'' @ s) p = options_loop D s (read_command COMMAND_SEND (parser_clear p))"
proof -
  have "isalpha (CHR ''s'')" "isalpha (CHR ''e'')" "isalpha (CHR ''n'')" "isalpha (CHR ''d'')"
    "\<not> isalpha (CHR '' '')" "\<not> isspace (CHR ''s'')" by code_simp+
  then show ?thesis
    using assms by (cases s) (simp_all add: parse_command_def Let_def RESERVED_WORDS_def)
qed

text \<open>C32: 
  a command to send, written as text and parsed again by a fresh parser, asks for the same:
  the addresses in order, the port, the payload, the options, the time and the protocol are read
  back, when the dates of the system read back and a command without payload has port 0.
\<close>

theorem send_command_roundtrip:
  assumes "pp_command p = COMMAND_SEND" "pp_payload p = [] \<longrightarrow> pp_fport p = 0"
    and "pp_tim p \<noteq> 0 \<longrightarrow> word (time2string (pp_tim p)) \<and> parseDate (c_string (time2string (pp_tim p))) = pp_tim p"
  shows "request (parse_command parseDate (command_toString time2string p) Payload2DeviceParser_default) = request p"
proof -
  let ?start = "read_command COMMAND_SEND (parser_clear Payload2DeviceParser_default)"
  obtain ws where ws: "command_words time2string p = map DEVADDR2string (pp_addresses p) @ ws"
    by (simp add: command_words_def)
  have "command_toString time2string p = ''send'' @ line (command_words time2string p)"
    using assms(1) by (simp add: command_toString_def line_def RESERVED_WORDS_def append_one)
  then have parse: "parse_command parseDate (command_toString time2string p) Payload2DeviceParser_default =
      options_loop parseDate (line (command_words time2string p)) ?start"
    using parse_send [of "line (command_words time2string p)"] by (cases "command_words time2string p") simp_all
  have "canInsertAddress ?start" "request ?start = (COMMAND_SEND, [], 1, 0, [], [], 0)"
    by (simp_all add: read_command_def parser_clear_def Payload2DeviceParser_default_def flag_simps
      option_states_def request_def setFlagSendOptionName_def bit_simps)
  then obtain p0 where "request p0 = (COMMAND_SEND, pp_addresses p, 1, 0, [], [], 0)"
    and "options_loop parseDate (line (command_words time2string p)) ?start = options_loop parseDate (line ws) p0"
    using addresses_read ws by (metis append_Nil)
  with options_read [where T = time2string and D = parseDate, OF this(1) assms ws] parse show ?thesis by simp
qed

theorem send_command_roundtrip_witness:
  "request (parse_command (\<lambda>_. 1000) (command_toString (\<lambda>_. ''1970-01-01'') (Payload2DeviceParser_default
      \<lparr>pp_command := COMMAND_SEND, pp_addresses := [0x01020304, 0xff], pp_fport := 5, pp_payload := ''ab'',
       pp_tim := 1000\<rparr>)) Payload2DeviceParser_default) =
    (COMMAND_SEND, [0x01020304, 0xff], 5, 0, ''ab'', [], 1000)"
proof -
  have "word ''1970-01-01''" by code_simp
  then show ?thesis
    by (subst send_command_roundtrip) (simp_all add: request_def Payload2DeviceParser_default_def)
qed

text \<open>What the parser knows about a line: the options it has seen, and the values it has read.\<close>

definition parser_inv :: "Payload2DeviceParser \<Rightarrow> bool" where
  "parser_inv p \<longleftrightarrow>
    (\<forall>st \<in> {STATE_START, STATE_COMMAND, STATE_ADDRESS, STATE_FPORT, STATE_PAYLOAD, STATE_FOPTS, STATE_TIME, STATE_PROTO}.
      hasSendOptionValue st p \<longrightarrow> hasSendOptionName st p) \<and>
    (pp_addresses p \<noteq> [] \<longleftrightarrow> hasSendOptionValue STATE_ADDRESS p) \<and>
    (pp_payload p \<noteq> [] \<longrightarrow> hasSendOptionValue STATE_PAYLOAD p) \<and>
    (pp_fopts p \<noteq> [] \<longrightarrow> hasSendOptionValue STATE_FOPTS p) \<and>
    (pp_tim p \<noteq> 0 \<longrightarrow> hasSendOptionValue STATE_TIME p) \<and>
    (lastSendOption p \<noteq> STATE_START \<longrightarrow> hasSendOptionName (lastSendOption p) p)"

lemma set_flag_fields [flag_simps]:
  "pp_addresses (setFlagSendOptionName st p) = pp_addresses p" "pp_addresses (setFlagOptionValue st p) = pp_addresses p"
  "pp_payload (setFlagSendOptionName st p) = pp_payload p" "pp_payload (setFlagOptionValue st p) = pp_payload p"
  "pp_fopts (setFlagSendOptionName st p) = pp_fopts p" "pp_fopts (setFlagOptionValue st p) = pp_fopts p"
  "pp_tim (setFlagSendOptionName st p) = pp_tim p" "pp_tim (setFlagOptionValue st p) = pp_tim p"
  "lastSendOption (setFlagSendOptionName st p) = lastSendOption p" "lastSendOption (setFlagOptionValue st p) = lastSendOption p"
  "lastToken (setFlagSendOptionName st p) = lastToken p" "lastToken (setFlagOptionValue st p) = lastToken p"
  by (simp_all add: setFlagSendOptionName_def setFlagOptionValue_def)

lemma set_flag_number [flag_simps]:
  "bit (flagsStateClause (setFlagSendOptionName st p)) n \<longleftrightarrow> state_number st = n \<or> bit (flagsStateClause p) n"
  "bit (flagsStateValue (setFlagOptionValue st p)) n \<longleftrightarrow> state_number st = n \<or> bit (flagsStateValue p) n"
  using state_number_less [of st]
  by (auto simp: setFlagSendOptionName_def setFlagOptionValue_def bit_simps simp del: push_bit_of_1)

lemma address_keeps_inv: "parser_inv p \<Longrightarrow> parser_inv (read_address tok p)"
  by (auto simp: parser_inv_def read_address_def Let_def flag_simps simp del: push_bit_of_1)

lemma name_keeps_inv: "parser_inv p \<Longrightarrow> parser_inv (read_name st p)"
  by (auto simp: parser_inv_def read_name_def Let_def flag_simps simp del: push_bit_of_1)

lemma value_keeps_inv:
  "parser_inv p \<Longrightarrow> bit (flagsStateClause p) (state_number st) \<Longrightarrow> parser_inv (read_value D st tok p)"
  by (cases st) (auto simp: parser_inv_def read_value_def Let_def flag_simps simp del: push_bit_of_1)

lemma options_loop_inv: "parser_inv p \<Longrightarrow> parser_inv (options_loop D s p)"
proof (induction D s p rule: options_loop.induct)
  case (1 D s p)
  have named: "bit (flagsStateClause (read_name st p)) (state_number st)" for st
    by (simp add: read_name_def flag_simps)
  have port: "parser_inv (p\<lparr>pp_fport := 0\<rparr>)"
    using 1(3) by (simp add: parser_inv_def flag_simps)
  show ?case
    using 1 port by (subst options_loop.simps)
      (auto simp: Let_def address_keeps_inv name_keeps_inv value_keeps_inv named split: prod.splits)
qed

text \<open>C5: 
  after any line, whatever the parser had parsed before, the flags tell what was read: a value
  is only noted for an option that was named, there are addresses exactly when an address was
  noted, and a payload, options or a time only when they were.
\<close>

theorem parser_flags_tell: "parser_inv (parse_command parseDate expression p)"
proof -
  have "parser_inv (read_command c (parser_clear p))" "parser_inv (parser_clear p)" for c
    by (auto simp: parser_inv_def read_command_def parser_clear_def flag_simps bit_simps
      simp del: push_bit_of_1)
  then show ?thesis by (simp add: parse_command_def Let_def options_loop_inv)
qed

lemma read_token_set: "read_token s = (tok, rest) \<Longrightarrow> set tok \<subseteq> set s \<and> set rest \<subseteq> set s"
  by (auto simp: read_token_def Let_def dest: set_takeWhileD set_dropWhileD)

lemma options_loop_token: "set (lastToken (options_loop D s p)) \<subseteq> set (lastToken p) \<union> set s"
proof (induction D s p rule: options_loop.induct)
  case (1 D s p)
  have address: "set (lastToken (read_address tok p)) \<subseteq> set (lastToken p) \<union> set tok" for tok
    by (auto simp: read_address_def Let_def flag_simps)
  have val: "set (lastToken (read_value D st tok q)) \<subseteq> set (lastToken q) \<union> set tok" for st tok q
    by (cases st) (auto simp: read_value_def Let_def flag_simps)
  have name: "lastToken (read_name st p) = lastToken p" for st
    by (simp add: read_name_def flag_simps)
  show ?case
  proof (cases "s = []")
    case True
    then show ?thesis by (subst options_loop.simps) simp
  next
    case False
    obtain tok rest where t: "read_token s = (tok, rest)" by fastforce
    obtain v rest' where v: "read_token rest = (v, rest')" by fastforce
    have sets: "set tok \<subseteq> set s" "set rest' \<subseteq> set s" "set rest \<subseteq> set s" "set v \<subseteq> set s"
      using read_token_set [OF t] read_token_set [OF v] by auto
    let ?st = "option_state tok"
    consider "tok = []" | "tok \<noteq> []" "?st = STATE_ADDRESS" | "tok \<noteq> []" "?st \<noteq> STATE_ADDRESS" "v = []"
      | "tok \<noteq> []" "?st \<noteq> STATE_ADDRESS" "v \<noteq> []" by blast
    then show ?thesis
    proof cases
      case 2
      with 1(1) [OF False t [symmetric] _ refl] address [of tok] sets have
        "set (lastToken (options_loop D rest (read_address tok p))) \<subseteq> set (lastToken p) \<union> set s" by blast
      with 2 False t show ?thesis by (subst options_loop.simps) simp
    next
      case 4
      have "set (lastToken (read_value D ?st v (read_name ?st p))) \<subseteq> set (lastToken p) \<union> set s"
        using val [of ?st v "read_name ?st p"] sets(4) unfolding name by blast
      moreover note 1(2) [OF False t [symmetric] 4(1) refl 4(2) v [symmetric] 4(3)]
      ultimately have
        "set (lastToken (options_loop D rest' (read_value D ?st v (read_name ?st p)))) \<subseteq> set (lastToken p) \<union> set s"
        using sets(2) by blast
      with 4 False t v show ?thesis by (subst options_loop.simps) (simp add: Let_def)
    qed (use False t v name in \<open>subst options_loop.simps; auto simp: Let_def\<close>)+
  qed
qed

lemma strncmp_word:
  assumes "strncmp_equal s w (length s)" "CHR 0x00 \<notin> set s" "CHR 0x00 \<notin> set w"
  shows "prefix s w"
proof -
  have "c_string s = s" "c_string w = w" using assms by (auto simp: c_string_def takeWhile_eq_all_conv)
  then have "s = take (length s) (w @ [CHR 0x00])" using assms(1) by (simp add: strncmp_equal_def)
  moreover have "length s \<le> length w"
  proof (rule ccontr)
    assume "\<not> length s \<le> length w"
    then have "take (length s) (w @ [CHR 0x00]) = w @ [CHR 0x00]" by simp
    with \<open>s = _\<close> have "CHR 0x00 \<in> set s" by (metis in_set_conv_decomp)
    with assms(2) show False by simp
  qed
  ultimately show ?thesis by (metis prefixI append_take_drop_id take_append diff_is_0_eq take0 append_Nil2)
qed

lemma reserved_no_nul: "w \<in> set RESERVED_WORDS \<Longrightarrow> CHR 0x00 \<notin> set w"
  by (auto simp: RESERVED_WORDS_def)

lemma find_found: "find P xs = Some x \<Longrightarrow> x \<in> set xs \<and> P x"
  by (auto simp: find_Some_iff)

lemma rtrim_prefix: "prefix (rtrim s) s"
proof -
  have "s = rtrim s @ rev (takeWhile isspace (rev s))"
    by (metis rtrim_def rev_append rev_rev_ident takeWhile_dropWhile_id)
  then show ?thesis by (metis prefixI)
qed

definition extends_line :: "string \<Rightarrow> string option \<Rightarrow> bool" where
  "extends_line expression r \<longleftrightarrow> (\<exists>t. r = Some t \<and> prefix (rtrim expression) t)"

lemma extends_if:
  "(c \<Longrightarrow> extends_line e a) \<Longrightarrow> (\<not> c \<Longrightarrow> extends_line e b) \<Longrightarrow> extends_line e (if c then a else b)"
  by simp

text \<open>
  completion never takes away what was typed: whatever the line, there is a completion, and
  it begins with the line, up to blanks at its end.
\<close>

theorem completion_extends:
  assumes "CHR 0x00 \<notin> set expression"
  shows "\<exists>t. complition parseDate expression = Some t \<and> prefix (rtrim expression) t"
proof -
  define p where "p = parse_command parseDate expression Payload2DeviceParser_default"
  have "set (lastToken p) \<subseteq> set expression"
  proof -
    let ?s = "dropWhile isalpha (dropWhile isspace expression)"
    have "set ?s \<subseteq> set expression" by (auto dest: set_dropWhileD)
    moreover have "lastToken (read_command c (parser_clear q)) = []" "lastToken (parser_clear q) = []" for c q
      by (simp_all add: read_command_def parser_clear_def flag_simps)
    ultimately show ?thesis
      using options_loop_token [of parseDate ?s "read_command COMMAND_SEND (parser_clear Payload2DeviceParser_default)"]
      by (auto simp: p_def parse_command_def Let_def)
  qed
  with assms have tok: "CHR 0x00 \<notin> set (lastToken p)" by auto
  have self: "extends_line expression (Some (expression @ t))" for t
    using prefix_order.trans [OF rtrim_prefix [of expression]] by (simp add: extends_line_def)
  have concat: "extends_line expression (Some (concatenateWordsWithSpace expression w))" for w
    by (simp add: extends_line_def concatenateWordsWithSpace_def)
  have whole: "extends_line expression (Some w)"
    if "find (\<lambda>w. strncmp_equal expression w (length expression)) (take 3 RESERVED_WORDS) = Some w" for w
  proof -
    from that have "w \<in> set RESERVED_WORDS" "strncmp_equal expression w (length expression)"
      using find_found in_set_takeD by metis+
    with strncmp_word assms reserved_no_nul have "prefix expression w" by blast
    with prefix_order.trans [OF rtrim_prefix] show ?thesis by (simp add: extends_line_def)
  qed
  have ended: "extends_line expression (map_option (\<lambda>t. expression @ t) (word_from w (length (lastToken p))))"
    if "find (\<lambda>w. strncmp_equal (lastToken p) w (length (lastToken p))) (drop 3 RESERVED_WORDS) = Some w" for w
  proof -
    from that have "w \<in> set RESERVED_WORDS" "strncmp_equal (lastToken p) w (length (lastToken p))"
      using find_found in_set_dropD by metis+
    with strncmp_word tok reserved_no_nul have "prefix (lastToken p) w" by blast
    then show ?thesis using self by (simp add: word_from_def prefix_length_le)
  qed
  have "extends_line expression (complition parseDate expression)"
    unfolding complition_def Let_def p_def [symmetric]
  proof (intro extends_if)
    assume "state_number (pp_state p) \<le> state_number STATE_COMMAND \<and> length expression = 0"
    then show "extends_line expression (Some (RESERVED_WORDS ! 0))" by (simp add: extends_line_def rtrim_def)
  next
    assume "state_number (pp_state p) \<le> state_number STATE_COMMAND \<and>
      find (\<lambda>w. strncmp_equal expression w (length expression)) (take 3 RESERVED_WORDS) \<noteq> None"
    then show "extends_line expression (find (\<lambda>w. strncmp_equal expression w (length expression)) (take 3 RESERVED_WORDS))"
      using whole by auto
  next
    show "extends_line expression (case find (\<lambda>w. strncmp_equal (lastToken p) w (length (lastToken p)))
          (drop 3 RESERVED_WORDS) of
        None \<Rightarrow> Some expression
      | Some w \<Rightarrow> map_option ((@) expression) (word_from w (length (lastToken p))))"
      using ended self [of "[]"] by (simp split: option.split)
  qed (use self [of "[]"] concat in simp_all)
  then show ?thesis by (simp add: extends_line_def)
qed

text \<open>The line \<open>send 01 pay\<close> is completed to \<open>send 01 payload\<close>.\<close>

theorem completion_extends_witness:
  "\<exists>t. complition (\<lambda>_. 0) ''send 01 pay'' = Some t \<and> prefix (rtrim ''send 01 pay'') t"
  by (rule completion_extends) simp

text \<open>A blank behind the last word keeps the port of a command without payload from being
  set to 0, and a protocol once read stays for the lines after it.\<close>

lemma blank_keeps_port:
  "pp_fport (parse_command D ''send'' Payload2DeviceParser_default) = 0"
  "pp_fport (parse_command D (''send'' @ '' '') Payload2DeviceParser_default) = 1"
proof -
  have "options_loop D '' '' p = p" for p
    by (subst options_loop.simps) (simp add: read_token_def)
  then show "pp_fport (parse_command D (''send'' @ '' '') Payload2DeviceParser_default) = 1"
    by (subst parse_send) (simp_all add: read_command_def parser_clear_def Payload2DeviceParser_default_def
      setFlagSendOptionName_def)
  show "pp_fport (parse_command D ''send'' Payload2DeviceParser_default) = 0"
    using parse_send [of "[]"] by (simp add: options_loop_end read_command_def parser_clear_def
      Payload2DeviceParser_default_def setFlagSendOptionName_def)
qed

lemma protocol_stays: "pp_proto (parse_command D ''send'' p) = pp_proto p"
  using parse_send [of "[]"] by (simp add: options_loop_end read_command_def parser_clear_def
    setFlagSendOptionName_def)

end
