(* ===== verification/Storage_Client.thy ===== *)
theory Storage_Client
  imports Gateway_Binary Lora_Text
begin

text \<open>
  The two ends of the binary protocols: the client over UDP (\<open>storage/client/udp-client.cpp\<close>),
  the client of a service in a plugin (\<open>plugin-query-client.cpp\<close>), the answer of the listener
  (\<open>storage/listener/udp-listener.cpp\<close>) and the identity service that is such a client
  (\<open>storage/service/identity-service-udp.cpp\<close>).  Sockets are not modelled: what is sent is a
  result of a step, what is received is an argument of the next.  The result \<open>None\<close> is an
  access behind a buffer.
\<close>

abbreviation (input) ERR_CODE_SOCKET_READ :: code where "ERR_CODE_SOCKET_READ \<equiv> - 5017"
abbreviation (input) ERR_CODE_SOCKET_WRITE :: code where "ERR_CODE_SOCKET_WRITE \<equiv> - 5018"
abbreviation (input) ERR_CODE_STOPPED :: code where "ERR_CODE_STOPPED \<equiv> - 5181"

abbreviation (input) QUERY_IDENTITY_FILTER :: u8 where "QUERY_IDENTITY_FILTER \<equiv> 0x66"

section \<open>Requests and responses\<close>

text \<open>A \<open>ServiceMessage *\<close> to one of the requests, with its virtual functions.\<close>

datatype service_request =
    R_EUI IdentityEUIRequest
  | R_Addr IdentityAddrRequest
  | R_Assign IdentityAssignRequest
  | R_Operation IdentityOperationRequest
  | R_GatewayId GatewayIdRequest
  | R_GatewayAddr GatewayAddrRequest
  | R_GatewayIdAddr GatewayIdAddrRequest
  | R_GatewayOperation GatewayOperationRequest

fun request_ntoh :: "service_request \<Rightarrow> service_request" where
  "request_ntoh (R_EUI m) = R_EUI (IdentityEUIRequest_ntoh m)"
| "request_ntoh (R_Addr m) = R_Addr (IdentityAddrRequest_ntoh m)"
| "request_ntoh (R_Assign m) = R_Assign (IdentityAssignRequest_ntoh m)"
| "request_ntoh (R_Operation m) = R_Operation (IdentityOperationRequest_ntoh m)"
| "request_ntoh (R_GatewayId m) = R_GatewayId (GatewayIdRequest_ntoh m)"
| "request_ntoh (R_GatewayAddr m) = R_GatewayAddr (GatewayAddrRequest_ntoh m)"
| "request_ntoh (R_GatewayIdAddr m) = R_GatewayIdAddr (GatewayIdAddrRequest_ntoh m)"
| "request_ntoh (R_GatewayOperation m) = R_GatewayOperation (GatewayOperationRequest_ntoh m)"

fun request_serialize :: "service_request \<Rightarrow> bytes option" where
  "request_serialize (R_EUI m) = Some (IdentityEUIRequest_serialize m)"
| "request_serialize (R_Addr m) = Some (IdentityAddrRequest_serialize m)"
| "request_serialize (R_Assign m) = Some (IdentityAssignRequest_serialize m)"
| "request_serialize (R_Operation m) = Some (IdentityOperationRequest_serialize m)"
| "request_serialize (R_GatewayId m) = Some (GatewayIdRequest_serialize m)"
| "request_serialize (R_GatewayAddr m) = GatewayAddrRequest_serialize m"
| "request_serialize (R_GatewayIdAddr m) = GatewayIdAddrRequest_serialize m"
| "request_serialize (R_GatewayOperation m) = Some (GatewayOperationRequest_serialize m)"

text \<open>The calls on \<open>ResponseClient\<close>.\<close>

datatype response_event =
    OnIdentityGet IdentityGetResponse
  | OnIdentityOperation IdentityOperationResponse
  | OnIdentityList IdentityListResponse
  | OnGatewayGet GatewayGetResponse
  | OnGatewayOperation GatewayOperationResponse
  | OnGatewayList GatewayListResponse
  | OnError code

text \<open>What the objects of a client hold before their constructors read a buffer.\<close>

record client_memory =
  cm_request :: IdentityOperationRequest
  cm_get :: IdentityGetResponse
  cm_operation :: IdentityOperationResponse
  cm_list :: IdentityListResponse
  cm_gateway :: GatewayGetResponse
  cm_gateway_operation :: GatewayOperationResponse
  cm_gateway_list :: GatewayListResponse
  cm_address :: SOCKADDR

definition parse_identity_response :: "client_memory \<Rightarrow> bytes \<Rightarrow> response_event" where
  "parse_identity_response m buf =
    (let tag = validateIdentityQuery buf
     in if tag = QUERY_IDENTITY_EUI \<or> tag = QUERY_IDENTITY_ADDR
        then OnIdentityGet (IdentityGetResponse_ntoh (IdentityGetResponse_parse (cm_get m) buf))
        else if tag = QUERY_IDENTITY_LIST
        then (let gr = IdentityListResponse_parse (cm_list m) buf;
                  gr = gr\<lparr>ior_response := NTOH4 (ior_response gr)\<rparr>
              in OnIdentityList (IdentityListResponse_ntoh gr))
        else OnIdentityOperation (IdentityOperationResponse_ntoh
          (IdentityOperationResponse_parse (cm_operation m) buf)))"

text \<open>
  An empty answer is read at its first byte, which is in the buffer of the caller; whatever it is,
  no tag is accepted with that size.
\<close>

definition parse_gateway_response :: "client_memory \<Rightarrow> bytes \<Rightarrow> response_event option" where
  "parse_gateway_response m buf =
    (let tag = (case validateGatewayQuery buf of None \<Rightarrow> QUERY_GATEWAY_NONE | Some t \<Rightarrow> t)
     in if tag = QUERY_GATEWAY_ADDR \<or> tag = QUERY_GATEWAY_ID
        then map_option (\<lambda>gr. OnGatewayGet (GatewayGetResponse_ntoh gr))
          (GatewayGetResponse_parse (cm_gateway m) buf)
        else if tag = QUERY_GATEWAY_LIST
        then map_option (\<lambda>gr. OnGatewayList (GatewayListResponse_ntoh
            (gr\<lparr>gor_response := NTOH4 (gor_response gr)\<rparr>)))
          (GatewayListResponse_parse (cm_address m) (cm_gateway_list m) buf)
        else Some (OnGatewayOperation (GatewayOperationResponse_ntoh
          (GatewayOperationResponse_parse (cm_gateway_operation m) buf))))"

definition parseResponse :: "client_memory \<Rightarrow> bytes \<Rightarrow> response_event option" where
  "parseResponse m buf =
    (if isIdentityTag buf then Some (parse_identity_response m buf) else parse_gateway_response m buf)"

section \<open>UDPClient\<close>

record UDPClient =
  uc_query :: "service_request option"
  uc_status :: code

definition UDPClient_init :: UDPClient where
  "UDPClient_init = \<lparr>uc_query = None, uc_status = CODE_OK\<rparr>"

definition udp_request :: "service_request option \<Rightarrow> UDPClient \<Rightarrow> service_request option \<times> UDPClient" where
  "udp_request q c = (uc_query c, c\<lparr>uc_query := q\<rparr>)"

definition udp_stop :: "UDPClient \<Rightarrow> UDPClient" where
  "udp_stop c = c\<lparr>uc_status := ERR_CODE_STOPPED\<rparr>"

text \<open>
  Up to \<open>sendto\<close>: without a query the client stops; the query is turned into network order
  where it lies, and written to a buffer of 110 bytes.
\<close>

definition udp_send :: "UDPClient \<Rightarrow> (UDPClient \<times> bytes option) option" where
  "udp_send c =
    (case uc_query c of
       None \<Rightarrow> Some (udp_stop c, None)
     | Some q \<Rightarrow>
        (let q = request_ntoh q
         in case request_serialize q of
              None \<Rightarrow> None
            | Some b \<Rightarrow> if 110 < length b then None else Some (c\<lparr>uc_query := Some q\<rparr>, Some b)))"

definition udp_receive_size :: "client_memory \<Rightarrow> bytes \<Rightarrow> nat option" where
  "udp_receive_size m sent =
    (if isIdentityTag sent then Some (responseSizeForIdentityRequest (cm_request m) sent)
     else responseSizeForGatewayRequest sent)"

text \<open>What the network did: the datagram could not be sent, nothing came back, or a datagram,
  which is cut to the buffer.\<close>

datatype network = NotSent | NothingReceived | Received bytes

definition udp_receive ::
    "client_memory \<Rightarrow> UDPClient \<Rightarrow> bytes \<Rightarrow> network \<Rightarrow> (UDPClient \<times> response_event) option" where
  "udp_receive m c sent net =
    (case net of
       NotSent \<Rightarrow> Some (c\<lparr>uc_status := ERR_CODE_SOCKET_WRITE\<rparr>, OnError ERR_CODE_SOCKET_WRITE)
     | NothingReceived \<Rightarrow>
         map_option (\<lambda>_. (c\<lparr>uc_status := ERR_CODE_SOCKET_READ\<rparr>, OnError ERR_CODE_SOCKET_READ))
           (udp_receive_size m sent)
     | Received datagram \<Rightarrow>
         Option.bind (udp_receive_size m sent)
           (\<lambda>rxSize. map_option (\<lambda>e. (c, e)) (parseResponse m (take rxSize datagram))))"

section \<open>UDPListener\<close>

text \<open>
  The identity protocol is asked first, the gateway protocol when it has no answer.  \<open>rBuf\<close>
  is the buffer of 2048 bytes as the answer before left it; a datagram is cut to 306 bytes.
\<close>

definition listener_answer ::
    "('s \<Rightarrow> nat \<Rightarrow> bytes \<Rightarrow> bytes \<times> 's) \<Rightarrow> ('g \<Rightarrow> nat \<Rightarrow> bytes \<Rightarrow> (bytes \<times> nat) option \<times> 'g) \<Rightarrow>
     bytes \<Rightarrow> 's \<times> 'g \<Rightarrow> bytes \<Rightarrow> (bytes option \<times> 's \<times> 'g) option" where
  "listener_answer identityQuery gatewayQuery rBuf st datagram =
    (let (s, g) = st;
         rxBuf = take 306 datagram
     in if rxBuf = [] then Some (None, s, g)
        else let (answer, s) = identityQuery s 2048 rxBuf
          in if answer \<noteq> [] then Some (Some answer, s, g)
             else case gatewayQuery g 2048 rxBuf of
                 (None, g) \<Rightarrow> None
               | (Some (answer, sz), g) \<Rightarrow>
                   if sz = 0 then Some (None, s, g)
                   else Some (Some (take sz (mem_write rBuf 0 answer)), s, g))"

text \<open>One request from a client, over a network that loses nothing, to a listener and back.\<close>

definition udp_exchange ::
    "client_memory \<Rightarrow> ('st \<Rightarrow> bytes \<Rightarrow> (bytes option \<times> 'st) option) \<Rightarrow> UDPClient \<Rightarrow> 'st \<Rightarrow>
     (UDPClient \<times> response_event option \<times> 'st) option" where
  "udp_exchange m listener c st =
    (case udp_send c of
       None \<Rightarrow> None
     | Some (c, None) \<Rightarrow> Some (c, None, st)
     | Some (c, Some sent) \<Rightarrow>
        (case listener st sent of
           None \<Rightarrow> None
         | Some (reply, st) \<Rightarrow>
             map_option (\<lambda>(c, e). (c, Some e, st))
               (udp_receive m c sent (case reply of None \<Rightarrow> NothingReceived | Some r \<Rightarrow> Received r))))"

section \<open>PluginQueryClient\<close>

text \<open>
  One pass of the loop in \<open>start\<close>: the query is written as it is, without \<open>ntoh\<close>, and the
  answer is found in a buffer of 307 bytes.
\<close>

definition plugin_round ::
    "client_memory \<Rightarrow> ('s \<Rightarrow> nat \<Rightarrow> bytes \<Rightarrow> bytes \<times> 's) \<Rightarrow>
     ('g \<Rightarrow> nat \<Rightarrow> bytes \<Rightarrow> (bytes \<times> nat) option \<times> 'g) \<Rightarrow> bytes \<Rightarrow> UDPClient \<Rightarrow> 's \<times> 'g \<Rightarrow>
     (UDPClient \<times> response_event option \<times> 's \<times> 'g) option" where
  "plugin_round m identityQuery gatewayQuery rBuf c st =
    (case uc_query c of
       None \<Rightarrow> Some (udp_stop c, None, st)
     | Some q \<Rightarrow>
        (case request_serialize q of
           None \<Rightarrow> None
         | Some qBuf \<Rightarrow>
            (let (s, g) = st; (answer, s) = identityQuery s 307 qBuf
             in if answer \<noteq> [] then map_option (\<lambda>e. (c, Some e, s, g)) (parseResponse m answer)
                else case gatewayQuery g 307 qBuf of
                    (None, g) \<Rightarrow> None
                  | (Some (answer, sz), g) \<Rightarrow>
                      map_option (\<lambda>e. (c, Some e, s, g))
                        (parseResponse m (take sz (mem_write rBuf 0 answer))))))"

section \<open>ClientUDPIdentityService\<close>

record ClientUDPIdentityService =
  cs_addr :: string
  cs_port :: u16
  cs_code :: u32
  cs_accessCode :: u64
  cs_client :: "UDPClient option"
  cs_retCode :: code
  cs_verbose :: int

definition ClientUDPIdentityService_init :: ClientUDPIdentityService where
  "ClientUDPIdentityService_init =
    \<lparr>cs_addr = [], cs_port = 0, cs_code = 0, cs_accessCode = 0, cs_client = None, cs_retCode = CODE_OK,
     cs_verbose = 0\<rparr>"

text \<open>\<open>SyncQueryClient::request\<close> does nothing with the request.\<close>

definition sync_request :: "service_request \<Rightarrow> service_request option" where
  "sync_request q = None"

definition operation_request ::
    "ClientUDPIdentityService \<Rightarrow> u8 \<Rightarrow> u32 \<Rightarrow> u8 \<Rightarrow> service_request" where
  "operation_request s tag offset sz =
    R_Operation \<lparr>sm_tag = tag, sm_code = cs_code s, sm_accessCode = cs_accessCode s,
      iop_offset = offset, iop_size = sz\<rparr>"

definition addr_request :: "ClientUDPIdentityService \<Rightarrow> u8 \<Rightarrow> DEVADDR \<Rightarrow> service_request" where
  "addr_request s tag a =
    R_Addr \<lparr>sm_tag = tag, sm_code = cs_code s, sm_accessCode = cs_accessCode s, iar_addr = a\<rparr>"

definition eui_request :: "ClientUDPIdentityService \<Rightarrow> u8 \<Rightarrow> DEVEUI \<Rightarrow> service_request" where
  "eui_request s tag e =
    R_EUI \<lparr>sm_tag = tag, sm_code = cs_code s, sm_accessCode = cs_accessCode s, ier_eui = e\<rparr>"

definition assign_request :: "ClientUDPIdentityService \<Rightarrow> DEVADDR \<Rightarrow> DEVICE_ID \<Rightarrow> service_request" where
  "assign_request s a d =
    R_Assign \<lparr>sm_tag = QUERY_IDENTITY_ASSIGN, sm_code = cs_code s, sm_accessCode = cs_accessCode s,
      ias_identity = NETWORKIDENTITY_make a d\<rparr>"

definition cs_get :: "ClientUDPIdentityService \<Rightarrow> DEVICE_ID \<Rightarrow> DEVADDR \<Rightarrow> code \<times> DEVICE_ID" where
  "cs_get s retVal a = (let _ = sync_request (addr_request s QUERY_IDENTITY_EUI a) in (CODE_OK, retVal))"

definition cs_list ::
    "ClientUDPIdentityService \<Rightarrow> NETWORKIDENTITY list \<Rightarrow> u32 \<Rightarrow> u8 \<Rightarrow> code \<times> NETWORKIDENTITY list" where
  "cs_list s retVal offset sz =
    (let _ = sync_request (operation_request s QUERY_IDENTITY_LIST offset sz) in (CODE_OK, retVal))"

definition cs_size :: "ClientUDPIdentityService \<Rightarrow> nat" where
  "cs_size s = (let _ = sync_request (operation_request s QUERY_IDENTITY_COUNT 0 0) in 0)"

definition cs_getNetworkIdentity ::
    "ClientUDPIdentityService \<Rightarrow> NETWORKIDENTITY \<Rightarrow> DEVEUI \<Rightarrow> code \<times> NETWORKIDENTITY" where
  "cs_getNetworkIdentity s retVal e =
    (let _ = sync_request (eui_request s QUERY_IDENTITY_ADDR e) in (CODE_OK, retVal))"

definition cs_put ::
    "ClientUDPIdentityService \<Rightarrow> DEVADDR \<Rightarrow> DEVICE_ID \<Rightarrow> code \<times> ClientUDPIdentityService" where
  "cs_put s a d = (let _ = sync_request (assign_request s a d) in (CODE_OK, s))"

definition cs_rm :: "ClientUDPIdentityService \<Rightarrow> DEVADDR \<Rightarrow> code \<times> ClientUDPIdentityService" where
  "cs_rm s a = (let _ = sync_request (addr_request s QUERY_IDENTITY_RM a) in (CODE_OK, s))"

definition cs_next :: "ClientUDPIdentityService \<Rightarrow> NETWORKIDENTITY \<Rightarrow> code \<times> NETWORKIDENTITY" where
  "cs_next s retVal =
    (let _ = sync_request (operation_request s QUERY_IDENTITY_NEXT 0 0) in (CODE_OK, retVal))"

text \<open>The service that the code makes of it; its state is the object.\<close>

definition ClientUDPIdentityService_ops :: "ClientUDPIdentityService IdentityService" where
  "ClientUDPIdentityService_ops =
    \<lparr>svc_get = cs_get, svc_getNetworkIdentity = cs_getNetworkIdentity, svc_put = cs_put, svc_rm = cs_rm,
     svc_list = cs_list, svc_size = cs_size, svc_next = cs_next\<rparr>"

text \<open>
  The asynchronous calls leave the request with the client, as a pointer to an object that is
  gone when the call returns; \<open>cGet\<close> asks for the address in the name of the server.  A call
  before \<open>init\<close> goes through a null pointer.
\<close>

definition cs_hand ::
    "service_request \<Rightarrow> ClientUDPIdentityService \<Rightarrow> (code \<times> ClientUDPIdentityService) option" where
  "cs_hand q s = map_option (\<lambda>c. (CODE_OK, s\<lparr>cs_client := Some (snd (udp_request (Some q) c))\<rparr>)) (cs_client s)"

definition cs_cGet ::
    "ClientUDPIdentityService \<Rightarrow> DEVADDR \<Rightarrow> (code \<times> ClientUDPIdentityService) option" where
  "cs_cGet s request = cs_hand (addr_request s QUERY_IDENTITY_EUI (string2DEVADDR (cs_addr s))) s"

definition cs_cGetNetworkIdentity ::
    "ClientUDPIdentityService \<Rightarrow> DEVEUI \<Rightarrow> (code \<times> ClientUDPIdentityService) option" where
  "cs_cGetNetworkIdentity s e = cs_hand (eui_request s QUERY_IDENTITY_ADDR e) s"

definition cs_cPut ::
    "ClientUDPIdentityService \<Rightarrow> DEVADDR \<Rightarrow> DEVICE_ID \<Rightarrow> (code \<times> ClientUDPIdentityService) option" where
  "cs_cPut s a d = cs_hand (assign_request s a d) s"

definition cs_cRm ::
    "ClientUDPIdentityService \<Rightarrow> DEVADDR \<Rightarrow> (code \<times> ClientUDPIdentityService) option" where
  "cs_cRm s a = cs_hand (addr_request s QUERY_IDENTITY_RM a) s"

definition cs_cList ::
    "ClientUDPIdentityService \<Rightarrow> u32 \<Rightarrow> u8 \<Rightarrow> (code \<times> ClientUDPIdentityService) option" where
  "cs_cList s offset sz = cs_hand (operation_request s QUERY_IDENTITY_LIST offset sz) s"

definition cs_cSize :: "ClientUDPIdentityService \<Rightarrow> (code \<times> ClientUDPIdentityService) option" where
  "cs_cSize s = cs_hand (operation_request s QUERY_IDENTITY_COUNT 0 0) s"

definition cs_cNext :: "ClientUDPIdentityService \<Rightarrow> (code \<times> ClientUDPIdentityService) option" where
  "cs_cNext s = cs_hand (operation_request s QUERY_IDENTITY_NEXT 0 0) s"

text \<open>The filters are not sent.\<close>

definition cs_filter ::
    "ClientUDPIdentityService \<Rightarrow> NETWORKIDENTITY list \<Rightarrow> NETWORK_IDENTITY_FILTER list \<Rightarrow> u32 \<Rightarrow> u8 \<Rightarrow>
     code \<times> NETWORKIDENTITY list" where
  "cs_filter s retVal filters offset sz =
    (let _ = sync_request (operation_request s QUERY_IDENTITY_FILTER offset sz) in (CODE_OK, retVal))"

definition cs_cFilter ::
    "ClientUDPIdentityService \<Rightarrow> NETWORK_IDENTITY_FILTER list \<Rightarrow> u32 \<Rightarrow> u8 \<Rightarrow>
     (code \<times> ClientUDPIdentityService) option" where
  "cs_cFilter s filters offset sz = cs_hand (operation_request s QUERY_IDENTITY_FILTER offset sz) s"

text \<open>\<open>init\<close> starts the client at once, which stops since it has no query yet.\<close>

definition cs_start :: "string \<Rightarrow> ClientUDPIdentityService \<Rightarrow> code \<times> ClientUDPIdentityService" where
  "cs_start addrPort s =
    (let s = (case splitAddress addrPort of
           None \<Rightarrow> s
         | Some (a, p) \<Rightarrow> s\<lparr>cs_addr := a, cs_port := p\<rparr>)
     in (CODE_OK, s\<lparr>cs_client := Some (udp_stop UDPClient_init)\<rparr>))"

definition cs_done :: "ClientUDPIdentityService \<Rightarrow> ClientUDPIdentityService" where
  "cs_done s = s\<lparr>cs_client := None\<rparr>"

definition cs_setOption :: "int \<Rightarrow> u64 option \<Rightarrow> ClientUDPIdentityService \<Rightarrow> ClientUDPIdentityService" where
  "cs_setOption option v s =
    (case v of
       None \<Rightarrow> s
     | Some v \<Rightarrow>
         if option = 1 then s\<lparr>cs_code := ucast v\<rparr>
         else if option = 2 then s\<lparr>cs_accessCode := v\<rparr> else s)"

text \<open>What the response client of the service does with an error; the other calls print.\<close>

definition cs_onError :: "code \<Rightarrow> ClientUDPIdentityService \<Rightarrow> ClientUDPIdentityService" where
  "cs_onError code s = s\<lparr>cs_client := map_option udp_stop (cs_client s), cs_retCode := code\<rparr>"

section \<open>Lemmas: answers read by the client\<close>

lemma answer_first [simp]:
  "answer_get r ! 0 = sm_tag r" "answer_op p ! 0 = sm_tag p" "answer_list l ! 0 = sm_tag l"
  by (simp_all add: answer_get_def answer_op_def answer_list_def IdentityGetResponse_serialize_def
    IdentityOperationResponse_serialize_def IdentityOperationRequest_serialize_def IdentityListResponse_serialize_def
    IdentityGetResponse_ntoh_def IdentityOperationResponse_ntoh_def IdentityOperationRequest_ntoh_def
    IdentityListResponse_ntoh_def ServiceMessage_ntoh_def ServiceMessage_serialize_def)

lemma answer_lengths [simp]:
  "length (answer_op p) = 22" "wf_identity (igr_response r) \<Longrightarrow> length (answer_get r) = 119"
  "22 \<le> length (answer_list l)"
  by (simp_all add: answer_get_def answer_op_def answer_list_def IdentityGetResponse_serialize_def
    IdentityListResponse_serialize_def) (simp add: IdentityGetResponse_ntoh_def)

lemma answer_nonempty [simp]:
  "answer_op p \<noteq> []" "wf_identity (igr_response r) \<Longrightarrow> answer_get r \<noteq> []" "answer_list l \<noteq> []"
proof -
  show "answer_op p \<noteq> []" using answer_lengths(1) [of p] by fastforce
  show "answer_get r \<noteq> []" if "wf_identity (igr_response r)" using answer_lengths(2) [OF that] by fastforce
  show "answer_list l \<noteq> []" using answer_lengths(3) [of l] by fastforce
qed

lemma receive_get:
  assumes "sm_tag r = QUERY_IDENTITY_ADDR \<or> sm_tag r = QUERY_IDENTITY_EUI" "wf_identity (igr_response r)"
  shows "parseResponse m (answer_get r) = Some (OnIdentityGet r)"
proof -
  have "IdentityGetResponse_parse j (answer_get r @ []) = IdentityGetResponse_ntoh r" for j
    unfolding answer_get_def by (rule Get_parse_serialize) (use assms(2) in \<open>simp add: IdentityGetResponse_ntoh_def\<close>)
  then show ?thesis
    using assms by (auto simp: parseResponse_def parse_identity_response_def isIdentityTag_def
      validateIdentityQuery_def sized_tag_def Let_def)
qed

lemma receive_operation:
  assumes "sm_tag r \<in> {QUERY_IDENTITY_COUNT, QUERY_IDENTITY_ASSIGN, QUERY_IDENTITY_RM}"
  shows "parseResponse m (answer_op r) = Some (OnIdentityOperation r)"
proof -
  have "IdentityOperationResponse_parse j (answer_op r) = IdentityOperationResponse_ntoh r"
    for j :: IdentityOperationResponse
    by (simp add: answer_op_def OperationResponse_parse_exact)
  then show ?thesis
    using assms by (auto simp: parseResponse_def parse_identity_response_def isIdentityTag_def
      validateIdentityQuery_def sized_tag_def Let_def)
qed

lemma receive_list:
  assumes "sm_tag r = QUERY_IDENTITY_LIST" "\<forall>i \<in> set (ilr_identities r). wf_identity i"
  shows "parseResponse m (answer_list r) =
    Some (OnIdentityList (r\<lparr>ior_response := of_nat (length (ilr_identities r))\<rparr>))"
proof -
  have "validateIdentityQuery (answer_list r) = QUERY_IDENTITY_LIST"
    using assms(1) answer_lengths(3) [of r] order_trans [OF _ answer_lengths(3), of 18 r]
    by (auto simp: validateIdentityQuery_def sized_tag_def Let_def not_less)
  moreover have "IdentityListResponse_ntoh ((IdentityListResponse_ntoh r)\<lparr>ior_response := NTOH4 n\<rparr>) =
      r\<lparr>ior_response := n\<rparr>" for n
    by (simp add: IdentityListResponse_ntoh_def IdentityOperationResponse_ntoh_def
      IdentityOperationRequest_ntoh_def ServiceMessage_ntoh_def comp_def)
  ultimately show ?thesis
    using assms by (simp add: parseResponse_def parse_identity_response_def isIdentityTag_def Let_def
      answer_list_parse [OF assms(2)])
qed

section \<open>Lemmas: an exchange\<close>

lemma exchange_identity:
  assumes "uc_query c = Some q" "request_serialize (request_ntoh q) = Some b" "length b \<le> 110" "isIdentityTag b"
    and "identityQuery s 2048 b = (ans, s')" "ans \<noteq> []"
    and "length ans \<le> responseSizeForIdentityRequest (cm_request m) b" "parseResponse m ans = Some e"
  shows "udp_exchange m (listener_answer identityQuery gatewayQuery rBuf) c (s, g) =
    Some (c\<lparr>uc_query := Some (request_ntoh q)\<rparr>, Some e, s', g)"
proof -
  have "b \<noteq> []" using assms(4) by (auto simp: isIdentityTag_def)
  with assms show ?thesis
    by (simp add: udp_exchange_def udp_send_def listener_answer_def udp_receive_def udp_receive_size_def Let_def)
qed

lemma sent_lengths [simp]:
  "length (IdentityEUIRequest_serialize e) = 21" "length (IdentityAddrRequest_serialize a) = 17"
  by (simp_all add: IdentityEUIRequest_serialize_def IdentityAddrRequest_serialize_def)

lemma sent_nonempty [simp]:
  "IdentityEUIRequest_serialize e \<noteq> []" "IdentityAddrRequest_serialize a \<noteq> []"
  "IdentityOperationRequest_serialize p \<noteq> []"
  by (simp_all add: IdentityEUIRequest_serialize_def IdentityAddrRequest_serialize_def
    IdentityOperationRequest_serialize_def ServiceMessage_serialize_def)

lemma sent_first [simp]:
  "IdentityEUIRequest_serialize e ! 0 = sm_tag e" "IdentityAddrRequest_serialize a ! 0 = sm_tag a"
  "IdentityOperationRequest_serialize p ! 0 = sm_tag p"
  by (simp_all add: IdentityEUIRequest_serialize_def IdentityAddrRequest_serialize_def
    IdentityOperationRequest_serialize_def)

section \<open>The service as the client sees it\<close>

text \<open>What the storage itself answers to a request, and the storage afterwards: the device it has
  under an address (an empty one where it has none; the answer has no field for the code of the
  operation), the identity of a device, the whole page, the number of its identities, the code of a
  removal.\<close>

definition answered_list :: "identity_storage \<Rightarrow> IdentityOperationRequest \<Rightarrow> response_event" where
  "answered_list s q =
    (let page = snd (ids_list s [] (iop_offset q) (iop_size q))
     in OnIdentityList \<lparr>sm_tag = sm_tag q, sm_code = sm_code q, sm_accessCode = sm_accessCode q,
       iop_offset = iop_offset q, iop_size = iop_size q, ior_response = of_nat (length page),
       ilr_identities = page\<rparr>)"

definition answered_count :: "identity_storage \<Rightarrow> IdentityOperationRequest \<Rightarrow> response_event" where
  "answered_count s q = OnIdentityOperation \<lparr>sm_tag = sm_tag q, sm_code = sm_code q, sm_accessCode = sm_accessCode q,
    iop_offset = iop_offset q, iop_size = iop_size q, ior_response = of_nat (ids_size s)\<rparr>"

text \<open>What the way through the listener's buffer and the client makes of an answer: of a page the
  first 19 identities are left, of a number of identities its low byte, and the code with it is 0.\<close>

fun as_sent :: "response_event \<Rightarrow> response_event" where
  "as_sent (OnIdentityList r) =
    OnIdentityList (r\<lparr>ilr_identities := take 19 (ilr_identities r),
      ior_response := of_nat (length (take 19 (ilr_identities r)))\<rparr>)"
| "as_sent (OnIdentityOperation r) =
    OnIdentityOperation
      (if sm_tag r = QUERY_IDENTITY_COUNT then r\<lparr>sm_code := 0, ior_response := take_bit 8 (ior_response r)\<rparr> else r)"
| "as_sent e = e"

text \<open>The answers as they come to the client.\<close>

definition served_get :: "identity_storage \<Rightarrow> IdentityAddrRequest \<Rightarrow> response_event" where
  "served_get s a = OnIdentityGet \<lparr>sm_tag = sm_tag a, sm_code = sm_code a, sm_accessCode = sm_accessCode a,
    igr_response = \<lparr>ni_devaddr = iar_addr a, ni_devid = snd (ids_get s DEVICEID_default (iar_addr a))\<rparr>\<rparr>"

definition served_find :: "identity_storage \<Rightarrow> IdentityEUIRequest \<Rightarrow> response_event" where
  "served_find s e =
    (let (c, i) = ids_getNetworkIdentity s (NETWORKIDENTITY_devid (DEVICEID_eui (ier_eui e))) (ier_eui e)
     in OnIdentityGet \<lparr>sm_tag = sm_tag e, sm_code = sm_code e, sm_accessCode = sm_accessCode e,
       igr_response = (if c = CODE_OK then i else i\<lparr>ni_devid := (ni_devid i)\<lparr>devEUI := 0\<rparr>\<rparr>)\<rparr>)"

definition served_rm :: "identity_storage \<Rightarrow> IdentityAddrRequest \<Rightarrow> response_event" where
  "served_rm s a =
    (let c = fst (ids_rm s (iar_addr a))
     in OnIdentityOperation \<lparr>sm_tag = sm_tag a, sm_code = sm_code a, sm_accessCode = sm_accessCode a,
       iop_offset = 0, iop_size = (if c = CODE_OK then 1 else 0), ior_response = word_of_int c\<rparr>)"

definition served_list :: "identity_storage \<Rightarrow> IdentityOperationRequest \<Rightarrow> response_event" where
  "served_list s q =
    (let page = take 19 (snd (ids_list s [] (iop_offset q) (iop_size q)))
     in OnIdentityList \<lparr>sm_tag = sm_tag q, sm_code = sm_code q, sm_accessCode = sm_accessCode q,
       iop_offset = iop_offset q, iop_size = iop_size q, ior_response = of_nat (length page),
       ilr_identities = page\<rparr>)"

definition served_count :: "identity_storage \<Rightarrow> IdentityOperationRequest \<Rightarrow> response_event" where
  "served_count s q = OnIdentityOperation \<lparr>sm_tag = sm_tag q, sm_code = 0, sm_accessCode = sm_accessCode q,
    iop_offset = iop_offset q, iop_size = iop_size q, ior_response = of_nat (ids_size s mod 256)\<rparr>"

fun served :: "identity_storage \<Rightarrow> service_request \<Rightarrow> (response_event \<times> identity_storage) option" where
  "served s (R_EUI e) = (if sm_tag e = QUERY_IDENTITY_ADDR then Some (served_find s e, s) else None)"
| "served s (R_Addr a) =
    (if sm_tag a = QUERY_IDENTITY_EUI then Some (served_get s a, s)
     else if sm_tag a = QUERY_IDENTITY_RM then Some (served_rm s a, snd (ids_rm s (iar_addr a))) else None)"
| "served s (R_Operation q) =
    (if sm_tag q = QUERY_IDENTITY_LIST then Some (served_list s q, s)
     else if sm_tag q = QUERY_IDENTITY_COUNT then Some (served_count s q, s) else None)"
| "served s _ = None"

fun answered :: "identity_storage \<Rightarrow> service_request \<Rightarrow> (response_event \<times> identity_storage) option" where
  "answered s (R_EUI e) = (if sm_tag e = QUERY_IDENTITY_ADDR then Some (served_find s e, s) else None)"
| "answered s (R_Addr a) =
    (if sm_tag a = QUERY_IDENTITY_EUI then Some (served_get s a, s)
     else if sm_tag a = QUERY_IDENTITY_RM then Some (served_rm s a, snd (ids_rm s (iar_addr a))) else None)"
| "answered s (R_Operation q) =
    (if sm_tag q = QUERY_IDENTITY_LIST then Some (answered_list s q, s)
     else if sm_tag q = QUERY_IDENTITY_COUNT then Some (answered_count s q, s) else None)"
| "answered s _ = None"

lemma served_as_sent:
  assumes "answered s q = Some (e, s')"
  shows "served s q = Some (as_sent e, s')"
proof (cases q)
  case (R_EUI r)
  then show ?thesis using assms by (auto simp: served_find_def split: if_splits prod.splits)
next
  case (R_Addr r)
  then show ?thesis using assms by (auto simp: served_get_def served_rm_def Let_def split: if_splits)
next
  case (R_Operation r)
  have "take_bit 8 (of_nat n :: u32) = of_nat (n mod 256)" for n
    using of_nat_take_bit [of 8 n, where 'a = u32] by (simp add: take_bit_eq_mod)
  then show ?thesis
    using assms
    by (auto simp: R_Operation answered_list_def served_list_def answered_count_def served_count_def Let_def
        split: if_splits)
qed (use assms in simp_all)

fun request_header :: "service_request \<Rightarrow> u32 \<times> u64" where
  "request_header (R_EUI m) = (sm_code m, sm_accessCode m)"
| "request_header (R_Addr m) = (sm_code m, sm_accessCode m)"
| "request_header (R_Assign m) = (sm_code m, sm_accessCode m)"
| "request_header (R_Operation m) = (sm_code m, sm_accessCode m)"
| "request_header (R_GatewayId m) = (sm_code m, sm_accessCode m)"
| "request_header (R_GatewayAddr m) = (sm_code m, sm_accessCode m)"
| "request_header (R_GatewayIdAddr m) = (sm_code m, sm_accessCode m)"
| "request_header (R_GatewayOperation m) = (sm_code m, sm_accessCode m)"

abbreviation memory_query ::
    "u32 \<Rightarrow> u64 \<Rightarrow> IdentityOperationRequest \<Rightarrow> identity_storage \<Rightarrow> nat \<Rightarrow> bytes \<Rightarrow> bytes \<times> identity_storage" where
  "memory_query code ac junk \<equiv> IdentityBinarySerialization_query (Some MemoryIdentityService) code ac junk"

lemma query_EUI_request:
  assumes "sm_tag e = QUERY_IDENTITY_ADDR" "sends e c ac"
  shows "identity_query cast (Some svc) c ac junk s n
     (IdentityEUIRequest_serialize (IdentityEUIRequest_ntoh e)) = (query_ADDR svc s e, s)"
  using assms deserialize_EUI [OF assms(1), of junk "[]"]
  by (simp add: identity_query_def sends_def header_sends identity_dispatch_def del: message_header.simps)

lemma found_wf:
  assumes "\<forall>(a, d) \<in> set s. wf_device d"
  shows "wf_device d0 \<Longrightarrow> wf_device (snd (ids_get s d0 a))"
    and "wf_identity i0 \<Longrightarrow> wf_identity (snd (ids_getNetworkIdentity s i0 e))"
proof -
  have "om_find a s = Some d \<Longrightarrow> (a, d) \<in> set s" for d
    by (induction s) (auto split: if_splits)
  then show "wf_device (snd (ids_get s d0 a))" if "wf_device d0"
    using assms that by (auto simp: ids_get_def split: option.split)
  show "wf_identity (snd (ids_getNetworkIdentity s i0 e))" if "wf_identity i0"
    using assms that by (induction s i0 e rule: ids_getNetworkIdentity.induct) (auto simp: wf_identity_def)
qed

lemma get_served:
  assumes "sm_tag a = QUERY_IDENTITY_EUI" "\<forall>(a, d) \<in> set s. wf_device d"
  shows "parseResponse m (query_EUI MemoryIdentityService s a) = Some (served_get s a)"
    and "length (query_EUI MemoryIdentityService s a) = 119"
proof -
  let ?r = "\<lparr>sm_tag = sm_tag a, sm_code = sm_code a, sm_accessCode = sm_accessCode a,
    igr_response = \<lparr>ni_devaddr = iar_addr a, ni_devid = snd (ids_get s DEVICEID_default (iar_addr a))\<rparr>\<rparr>"
  have wf: "wf_identity (igr_response ?r)"
    using found_wf(1) [OF assms(2) wf_device_constructors(1)] by (simp add: wf_identity_def)
  have q: "query_EUI MemoryIdentityService s a = answer_get ?r"
    by (simp add: query_EUI_def MemoryIdentityService_def IdentityGetResponse_addr_def Let_def
      NETWORKIDENTITY_addr_def case_prod_beta DEVICEID_set_eq)
      (simp add: DEVICEID_u64_def DEVICEID_default_def)
  show "parseResponse m (query_EUI MemoryIdentityService s a) = Some (served_get s a)"
    unfolding q served_get_def by (rule receive_get) (use wf assms(1) in simp_all)
  show "length (query_EUI MemoryIdentityService s a) = 119"
    unfolding q by (rule answer_lengths(2)) (use wf in simp)
qed

lemma find_served:
  assumes "sm_tag e = QUERY_IDENTITY_ADDR" "\<forall>(a, d) \<in> set s. wf_device d"
  shows "parseResponse m (query_ADDR MemoryIdentityService s e) = Some (served_find s e)"
    and "length (query_ADDR MemoryIdentityService s e) = 119"
proof -
  obtain c i where ci: "ids_getNetworkIdentity s (NETWORKIDENTITY_devid (DEVICEID_eui (ier_eui e))) (ier_eui e) = (c, i)"
    by fastforce
  let ?r = "\<lparr>sm_tag = sm_tag e, sm_code = sm_code e, sm_accessCode = sm_accessCode e,
    igr_response = (if c = CODE_OK then i else i\<lparr>ni_devid := (ni_devid i)\<lparr>devEUI := 0\<rparr>\<rparr>)\<rparr>"
  have "wf_identity (snd (ids_getNetworkIdentity s (NETWORKIDENTITY_devid (DEVICEID_eui (ier_eui e))) (ier_eui e)))"
    by (rule found_wf(2) [OF assms(2)])
      (simp add: wf_identity_def NETWORKIDENTITY_devid_def DEVICEID_set_eq wf_device_constructors)
  then have "wf_identity i" unfolding ci by simp
  then have wf: "wf_identity (igr_response ?r)" by (simp add: wf_identity_def wf_device_def)
  have same: "(NETWORKIDENTITY_devid (DEVICEID_eui u))\<lparr>ni_devid := (ni_devid (NETWORKIDENTITY_devid (DEVICEID_eui u)))\<lparr>devEUI := u\<rparr>\<rparr> =
      NETWORKIDENTITY_devid (DEVICEID_eui u)" for u
    by (simp add: NETWORKIDENTITY_devid_def DEVICEID_set_eq DEVICEID_eui_def)
  have q: "query_ADDR MemoryIdentityService s e = answer_get ?r"
    using ci same [of "ier_eui e"] by (simp add: query_ADDR_def MemoryIdentityService_def IdentityGetResponse_eui_def Let_def)
      (simp add: NETWORKIDENTITY_devid_def isDEVADDREmpty_def DEVICEID_set_eq DEVICEID_eui_def)
  show "parseResponse m (query_ADDR MemoryIdentityService s e) = Some (served_find s e)"
    unfolding q served_find_def ci prod.case Let_def by (rule receive_get) (use wf assms(1) in simp_all)
  show "length (query_ADDR MemoryIdentityService s e) = 119"
    unfolding q by (rule answer_lengths(2)) (use wf in simp)
qed

lemma rm_served:
  assumes "sm_tag a = QUERY_IDENTITY_RM"
  shows "query_RM MemoryIdentityService s a = (ans, s') \<Longrightarrow>
    parseResponse m ans = Some (served_rm s a) \<and> length ans = 22 \<and> s' = snd (ids_rm s (iar_addr a))"
proof -
  obtain c t where rm: "ids_rm s (iar_addr a) = (c, t)" by fastforce
  have "word_of_int c = (0::u32) \<longleftrightarrow> c = 0"
    using rm by (auto simp: ids_rm_def split: option.splits)
  then have "query_RM MemoryIdentityService s a = (answer_op
      \<lparr>sm_tag = sm_tag a, sm_code = sm_code a, sm_accessCode = sm_accessCode a, iop_offset = 0,
       iop_size = (if c = CODE_OK then 1 else 0), ior_response = word_of_int c\<rparr>, t)"
    by (simp add: query_RM_def MemoryIdentityService_def IdentityOperationResponse_of_def rm)
  moreover assume "query_RM MemoryIdentityService s a = (ans, s')"
  ultimately show ?thesis using assms by (auto simp: receive_operation served_rm_def rm)
qed

lemma list_served:
  assumes "sm_tag q = QUERY_IDENTITY_LIST" "\<forall>(a, d) \<in> set s. wf_device d"
  shows "parseResponse m (query_LIST MemoryIdentityService s 2048 q) = Some (served_list s q)"
    and "length (query_LIST MemoryIdentityService s 2048 q) \<le> 22 + unat (iop_size q) * 106"
proof -
  define page where "page = take 19 (snd (ids_list s [] (iop_offset q) (iop_size q)))"
  let ?r = "(IdentityListResponse_op q)\<lparr>ior_response := 0, ilr_identities := page\<rparr>"
  have r: "query_LIST MemoryIdentityService s 2048 q = answer_list ?r"
    using query_LIST_page [of 2048 s q] by (simp add: page_def)
  have wf: "\<forall>i \<in> set (ilr_identities ?r). wf_identity i"
    using page_wf [OF assms(2)] by (auto simp: page_def dest: in_set_takeD)
  have fields: "?r = \<lparr>sm_tag = sm_tag q, sm_code = sm_code q, sm_accessCode = sm_accessCode q,
      iop_offset = iop_offset q, iop_size = iop_size q, ior_response = 0, ilr_identities = page\<rparr>"
    by (simp add: IdentityListResponse_op_def IdentityOperationResponse_op_def
      IdentityOperationResponse.defs IdentityListResponse.defs)
  show "parseResponse m (query_LIST MemoryIdentityService s 2048 q) = Some (served_list s q)"
    using receive_list [OF _ wf, of m] assms(1)
    by (simp add: r fields served_list_def page_def [symmetric] Let_def)
  have "length page \<le> unat (iop_size q)" by (simp add: page_def ids_list_page min_le_iff_disj)
  then show "length (query_LIST MemoryIdentityService s 2048 q) \<le> 22 + unat (iop_size q) * 106"
    using length_answer_list [OF wf] by (simp add: r)
qed

lemma count_served:
  assumes "sm_tag q = QUERY_IDENTITY_COUNT"
  shows "parseResponse m (query_COUNT (\<lambda>n. ucast (of_nat n :: u8)) MemoryIdentityService s q) = Some (served_count s q)"
    and "length (query_COUNT (\<lambda>n. ucast (of_nat n :: u8)) MemoryIdentityService s q) = 22"
    and "query_COUNT (\<lambda>n. ucast (of_nat n :: u8)) MemoryIdentityService s q \<noteq> []"
proof -
  have "(ucast (of_nat n :: u8) :: u32) = of_nat (n mod 256)" for n
    by (simp add: unsigned_of_nat take_bit_eq_mod)
  then have "query_COUNT (\<lambda>n. ucast (of_nat n :: u8)) MemoryIdentityService s q = answer_op
      \<lparr>sm_tag = sm_tag q, sm_code = 0, sm_accessCode = sm_accessCode q, iop_offset = iop_offset q,
       iop_size = iop_size q, ior_response = of_nat (ids_size s mod 256)\<rparr>"
    by (simp add: query_COUNT_def IdentityOperationResponse_op_def MemoryIdentityService_def)
  then show "parseResponse m (query_COUNT (\<lambda>n. ucast (of_nat n :: u8)) MemoryIdentityService s q) = Some (served_count s q)"
    "length (query_COUNT (\<lambda>n. ucast (of_nat n :: u8)) MemoryIdentityService s q) = 22"
    "query_COUNT (\<lambda>n. ucast (of_nat n :: u8)) MemoryIdentityService s q \<noteq> []"
    using assms by (simp_all add: receive_operation served_count_def)
qed

lemma expected_size:
  "validateIdentityQuery b = QUERY_IDENTITY_ADDR \<or> validateIdentityQuery b = QUERY_IDENTITY_EUI \<Longrightarrow>
    responseSizeForIdentityRequest j b = 119"
  "22 \<le> responseSizeForIdentityRequest j b"
  "validateIdentityQuery b = QUERY_IDENTITY_LIST \<Longrightarrow>
    responseSizeForIdentityRequest j b = 22 + unat (iop_size (IdentityOperationRequest_parse j b)) * 106"
  by (auto simp: responseSizeForIdentityRequest_def getMaxIdentityListResponseSize_def Let_def)

lemma udp_exchange_served:
  assumes "served s q = Some (e, s')" "request_header q = (code, ac)" "\<forall>(a, d) \<in> set s. wf_device d"
    and "uc_query c = Some q"
  shows "udp_exchange m (listener_answer (memory_query code ac junk) gatewayQuery rBuf) c (s, g) =
    Some (c\<lparr>uc_query := Some (request_ntoh q)\<rparr>, Some e, s', g)"
proof (cases q)
  case (R_EUI r)
  let ?b = "IdentityEUIRequest_serialize (IdentityEUIRequest_ntoh r)"
  have r: "sm_tag r = QUERY_IDENTITY_ADDR" "e = served_find s r" "s' = s" "sends r code ac"
    using assms(1,2) by (auto simp: R_EUI sends_def split: if_splits)
  have "validateIdentityQuery ?b = QUERY_IDENTITY_ADDR" "isIdentityTag ?b"
    using r(1) by (simp_all add: validateIdentityQuery_def isIdentityTag_def sized_tag_def)
  moreover have "memory_query code ac junk s 2048 ?b = (query_ADDR MemoryIdentityService s r, s)"
    unfolding IdentityBinarySerialization_query_def by (rule query_EUI_request [OF r(1,4)])
  ultimately show ?thesis
    using find_served [OF r(1) assms(3)] expected_size(1) r assms(4)
    by (intro exchange_identity [where b = ?b and ans = "query_ADDR MemoryIdentityService s r"]) (auto simp: R_EUI)
next
  case (R_Addr r)
  let ?b = "IdentityAddrRequest_serialize (IdentityAddrRequest_ntoh r)"
  have tag: "sm_tag r \<in> {QUERY_IDENTITY_EUI, QUERY_IDENTITY_RM}" "sends r code ac"
    using assms(1,2) by (auto simp: R_Addr sends_def split: if_splits)
  have id: "isIdentityTag ?b" using tag by (auto simp: isIdentityTag_def)
  note query = query_Addr [where cast = "\<lambda>n. ucast (of_nat n :: u8)" and svc = MemoryIdentityService and junk = junk
      and s = s and n = 2048 and rest = "[]", OF tag, folded IdentityBinarySerialization_query_def]
  show ?thesis
  proof (cases "sm_tag r = QUERY_IDENTITY_EUI")
    case True
    then have v: "validateIdentityQuery ?b = QUERY_IDENTITY_EUI"
      by (simp add: validateIdentityQuery_def sized_tag_def)
    show ?thesis
      using get_served [OF True assms(3)] expected_size(1) v True id query assms(1,4)
      by (intro exchange_identity [where b = ?b and ans = "query_EUI MemoryIdentityService s r"]) (auto simp: R_Addr)
  next
    case False
    with tag have rm: "sm_tag r = QUERY_IDENTITY_RM" by simp
    obtain ans t where q: "query_RM MemoryIdentityService s r = (ans, t)" by fastforce
    note served = rm_served [OF rm q, of m]
    show ?thesis
      using served expected_size(2) [of "cm_request m" ?b] id query assms(1,4) rm q
      by (intro exchange_identity [where b = ?b and ans = ans]) (auto simp: R_Addr)
  qed
next
  case (R_Operation r)
  let ?b = "IdentityOperationRequest_serialize (IdentityOperationRequest_ntoh r)"
  have tag: "sm_tag r \<in> {QUERY_IDENTITY_LIST, QUERY_IDENTITY_COUNT, QUERY_IDENTITY_NEXT}" "sends r code ac"
    using assms(1,2) by (auto simp: R_Operation sends_def split: if_splits)
  note query = query_Operation [where cast = "\<lambda>n. ucast (of_nat n :: u8)" and svc = MemoryIdentityService and junk = junk
      and s = s and n = 2048 and rest = "[]", OF tag, folded IdentityBinarySerialization_query_def]
  show ?thesis
  proof (cases "sm_tag r = QUERY_IDENTITY_LIST")
    case True
    then have v: "validateIdentityQuery ?b = QUERY_IDENTITY_LIST" "isIdentityTag ?b"
      by (simp_all add: validateIdentityQuery_def sized_tag_def isIdentityTag_def)
    have "IdentityOperationRequest_parse (cm_request m) ?b = IdentityOperationRequest_ntoh r"
      using Operation_parse_exact [where rest = "[]"] by simp
    then have "iop_size (IdentityOperationRequest_parse (cm_request m) ?b) = iop_size r"
      by (simp add: IdentityOperationRequest_ntoh_def ServiceMessage_ntoh_def)
    with list_served [OF True assms(3)] expected_size(3) [OF v(1)] v True query assms(1,4) show ?thesis
      by (intro exchange_identity [where b = ?b and ans = "query_LIST MemoryIdentityService s 2048 r"])
        (auto simp: R_Operation query_LIST_page)
  next
    case False
    then have count: "sm_tag r = QUERY_IDENTITY_COUNT" using assms(1) by (auto simp: R_Operation split: if_splits)
    then have id: "isIdentityTag ?b" by (simp add: isIdentityTag_def)
    show ?thesis
      using count_served [OF count] expected_size(2) [of "cm_request m" ?b] id query assms(1,4) count
      by (intro exchange_identity [where b = ?b and
            ans = "query_COUNT (\<lambda>n. ucast (of_nat n :: u8)) MemoryIdentityService s r"])
        (auto simp: R_Operation)
  qed
qed (use assms(1) in simp_all)

section \<open>Properties\<close>

text \<open>C6: What a client over UDP is called back with, for a request by address or by device, for a
  page, a count or a removal, sent with the codes of the service to a listener whose devices have
  fields of their widths: the answer of the storage itself, with the losses that \<open>as_sent\<close> names.
  A page is cut to its first 19 identities, of the number of identities the low byte is left (0 of
  256), and the code in the answer to a count is 0; all else comes as the storage has it, and a
  device that is not there as an empty one.  The storage is left as the operation leaves it, whatever
  the buffers held before, and the client's query is left in network order.\<close>

theorem udp_client_refines_storage:
  assumes "answered s q = Some (e, s')" "request_header q = (code, ac)" "\<forall>(a, d) \<in> set s. wf_device d"
    and "uc_query c = Some q"
  shows "udp_exchange m (listener_answer (memory_query code ac junk) gatewayQuery rBuf) c (s, g) =
    Some (c\<lparr>uc_query := Some (request_ntoh q)\<rparr>, Some (as_sent e), s', g)"
  by (rule udp_exchange_served [OF served_as_sent [OF assms(1)] assms(2-4)])

theorem udp_client_refines_storage_witness:
  "udp_exchange \<lparr>cm_request = \<lparr>sm_tag = 9, sm_code = 9, sm_accessCode = 9, iop_offset = 9, iop_size = 9\<rparr>,
      cm_get = \<lparr>sm_tag = 9, sm_code = 9, sm_accessCode = 9, igr_response = NETWORKIDENTITY_default\<rparr>,
      cm_operation = IdentityOperationResponse_default,
      cm_list = IdentityListResponse_op \<lparr>sm_tag = 9, sm_code = 9, sm_accessCode = 9, iop_offset = 9, iop_size = 9\<rparr>,
      cm_gateway = GatewayGetResponse_id GatewayIdRequest_default,
      cm_gateway_operation = GatewayOperationResponse_default, cm_gateway_list = GatewayListResponse_default,
      cm_address = SOCKADDR_zero\<rparr>
      (listener_answer (memory_query 42 7 \<lparr>sm_tag = 9, sm_code = 9, sm_accessCode = 9, iop_offset = 9, iop_size = 9\<rparr>)
        (\<lambda>g n b. (None, g)) [])
      \<lparr>uc_query = Some (R_Addr \<lparr>sm_tag = 0x72, sm_code = 42, sm_accessCode = 7, iar_addr = 5\<rparr>), uc_status = 0\<rparr>
      ([(5, DEVICEID_default)], ()) =
    Some (\<lparr>uc_query = Some (R_Addr (IdentityAddrRequest_ntoh
        \<lparr>sm_tag = 0x72, sm_code = 42, sm_accessCode = 7, iar_addr = 5\<rparr>)), uc_status = 0\<rparr>,
      Some (OnIdentityOperation \<lparr>sm_tag = 0x72, sm_code = 42, sm_accessCode = 7, iop_offset = 0, iop_size = 1,
        ior_response = 0\<rparr>), [], ())"
proof -
  have s: "answered [(5, DEVICEID_default)] (R_Addr \<lparr>sm_tag = 0x72, sm_code = 42, sm_accessCode = 7, iar_addr = 5\<rparr>) =
      Some (OnIdentityOperation \<lparr>sm_tag = 0x72, sm_code = 42, sm_accessCode = 7, iop_offset = 0, iop_size = 1,
        ior_response = 0\<rparr>, [])"
    by (simp add: served_rm_def ids_rm_def om_erase_def)
  show ?thesis
    by (subst udp_client_refines_storage [OF s]) (simp_all add: wf_device_constructors)
qed

text \<open>
  an identity cannot be assigned over UDP: its request has 119 bytes and is written to a
  buffer of 110, whatever the identity is.
\<close>

theorem udp_assign_overflows:
  assumes "uc_query c = Some (R_Assign r)" "wf_identity (ias_identity r)"
  shows "udp_send c = None"
proof -
  have "length (IdentityAssignRequest_serialize (IdentityAssignRequest_ntoh r)) = 119"
    using assms(2) by (simp add: IdentityAssignRequest_serialize_def)
  then show ?thesis using assms(1) by (simp add: udp_send_def)
qed

theorem udp_assign_overflows_witness:
  "udp_send \<lparr>uc_query = Some (R_Assign \<lparr>sm_tag = 0x70, sm_code = 42, sm_accessCode = 7,
    ias_identity = NETWORKIDENTITY_default\<rparr>), uc_status = 0\<rparr> = None"
  by (rule udp_assign_overflows, simp, simp)

lemma receive_denied:
  "parseResponse m access_denied = Some (OnIdentityList
    \<lparr>sm_tag = QUERY_IDENTITY_LIST, sm_code = word_of_int ERR_CODE_ACCESS_DENIED, sm_accessCode = 0,
     iop_offset = 0, iop_size = 0, ior_response = 0, ilr_identities = []\<rparr>)"
proof -
  let ?r = "\<lparr>sm_tag = QUERY_IDENTITY_LIST, sm_code = word_of_int ERR_CODE_ACCESS_DENIED, sm_accessCode = 0,
     iop_offset = 0, iop_size = 0, ior_response = 0, ilr_identities = []\<rparr>"
  have "access_denied = answer_list ?r"
    by (simp add: access_denied_def answer_op_def answer_list_def IdentityOperationResponse_default_def
      IdentityListResponse_serialize_def IdentityListResponse_ntoh_def IdentityOperationResponse_serialize_def
      IdentityOperationResponse_ntoh_def IdentityOperationRequest_ntoh_def ServiceMessage_ntoh_def
      IdentityOperationRequest_serialize_def ServiceMessage_serialize_def)
  then show ?thesis using receive_list [of ?r m] by simp
qed

text \<open>A request of the identity protocol with other codes than those of the service.\<close>

lemma query_refused:
  assumes "deserializeIdentity junk b = Some msg" "13 \<le> length b"
    and "sm_code (message_header msg) \<noteq> code \<or> sm_accessCode (message_header msg) \<noteq> ac"
  shows "memory_query code ac junk s n b = (access_denied, s)"
  using assms by (auto simp: IdentityBinarySerialization_query_def identity_query_def)

lemma access_denied_length: "length access_denied = 22" "access_denied \<noteq> []" "isIdentityTag access_denied"
  by (simp_all add: access_denied_def) (simp add: isIdentityTag_def IdentityOperationResponse_default_def)

text \<open>What the server finds in a request of these kinds.\<close>

lemma identity_request_read:
  assumes "served s q = Some x"
  shows "\<exists>b msg. request_serialize (request_ntoh q) = Some b \<and> 13 \<le> length b \<and> length b \<le> 110 \<and> isIdentityTag b \<and>
      deserializeIdentity junk b = Some msg \<and>
      request_header q = (sm_code (message_header msg), sm_accessCode (message_header msg))"
proof (cases q)
    case (R_EUI r)
    then have "sm_tag r = QUERY_IDENTITY_ADDR" using assms by (simp split: if_splits)
    with deserialize_EUI [of r junk "[]"] show ?thesis
      by (auto simp: R_EUI header_sends isIdentityTag_def simp del: message_header.simps)
next
    case (R_Addr r)
    then have "sm_tag r \<in> {QUERY_IDENTITY_EUI, QUERY_IDENTITY_RM}" using assms by (simp split: if_splits)
    with deserialize_Addr [of r junk "[]"] show ?thesis
      by (auto simp: R_Addr header_sends isIdentityTag_def simp del: message_header.simps)
next
    case (R_Operation r)
    then have "sm_tag r \<in> {QUERY_IDENTITY_LIST, QUERY_IDENTITY_COUNT}" using assms by (simp split: if_splits)
    with deserialize_Operation [of r junk "[]"] show ?thesis
      by (auto simp: R_Operation header_sends isIdentityTag_def simp del: message_header.simps)
  qed (use assms in simp_all)

text \<open>
  a client with the wrong codes is told that the storage is empty: the refusal of the server
  carries the tag of a list, and the client calls back with a list of no identities.
\<close>

theorem denied_looks_empty:
  assumes "served s q = Some (e, s')" "request_header q \<noteq> (code, ac)" "uc_query c = Some q"
  shows "udp_exchange m (listener_answer (memory_query code ac junk) gatewayQuery rBuf) c (s, g) =
    Some (c\<lparr>uc_query := Some (request_ntoh q)\<rparr>, Some (OnIdentityList
      \<lparr>sm_tag = QUERY_IDENTITY_LIST, sm_code = word_of_int ERR_CODE_ACCESS_DENIED, sm_accessCode = 0,
       iop_offset = 0, iop_size = 0, ior_response = 0, ilr_identities = []\<rparr>), s, g)"
proof -
  obtain b msg where b: "request_serialize (request_ntoh q) = Some b" "13 \<le> length b" "length b \<le> 110"
    "isIdentityTag b" "deserializeIdentity junk b = Some msg"
    "request_header q = (sm_code (message_header msg), sm_accessCode (message_header msg))"
    using identity_request_read [OF assms(1)] by blast
  have "memory_query code ac junk s 2048 b = (access_denied, s)"
    using query_refused [OF b(5,2)] assms(2) b(6) by auto
  then show ?thesis
    using b(1,3,4) assms(3) receive_denied access_denied_length expected_size(2) [of "cm_request m" b]
    by (intro exchange_identity [where b = b and ans = access_denied]) simp_all
qed

theorem denied_looks_empty_witness:
  "\<exists>c' e. udp_exchange m (listener_answer (memory_query 42 7 junk) (\<lambda>g n b. (None, g)) [])
      \<lparr>uc_query = Some (R_Addr \<lparr>sm_tag = 0x69, sm_code = 42, sm_accessCode = 8, iar_addr = 5\<rparr>), uc_status = 0\<rparr>
      ([(5, DEVICEID_default)], ()) = Some (c', Some (OnIdentityList e), [(5, DEVICEID_default)], ()) \<and>
    ilr_identities e = []"
proof -
  have s: "served [(5, DEVICEID_default)] (R_Addr \<lparr>sm_tag = 0x69, sm_code = 42, sm_accessCode = 8, iar_addr = 5\<rparr>) =
      Some (served_get [(5, DEVICEID_default)] \<lparr>sm_tag = 0x69, sm_code = 42, sm_accessCode = 8, iar_addr = 5\<rparr>,
        [(5, DEVICEID_default)])"
    by simp
  show ?thesis by (subst denied_looks_empty [OF s]) simp_all
qed

lemma request_ntoh_header:
  "request_header (request_ntoh q) = (NTOH4 (fst (request_header q)), NTOH8 (snd (request_header q)))"
  by (cases q) (simp_all add: IdentityEUIRequest_ntoh_def IdentityAddrRequest_ntoh_def
    IdentityAssignRequest_ntoh_def IdentityOperationRequest_ntoh_def GatewayIdRequest_ntoh_def
    GatewayAddrRequest_ntoh_def GatewayIdAddrRequest_ntoh_def GatewayOperationRequest_ntoh_def
    ServiceMessage_ntoh_def Let_def)

lemma served_ntoh:
  "served s q = Some x \<Longrightarrow> \<exists>y. served s (request_ntoh q) = Some y"
  "served s q = Some x \<Longrightarrow> request_ntoh (request_ntoh q) = q"
  by (cases q; simp split: if_splits)+

text \<open>
  the client of a plugin is refused by the service it has loaded, unless both codes read the
  same in both byte orders: it writes its request without turning it into network order, and gets
  an empty list for any request, with the storage left alone.
\<close>

theorem plugin_client_refused:
  assumes "served s q = Some (e, s')" "request_header q = (code, ac)" "NTOH4 code \<noteq> code \<or> NTOH8 ac \<noteq> ac"
    and "uc_query c = Some q"
  shows "plugin_round m (memory_query code ac junk) gatewayQuery rBuf c (s, g) =
    Some (c, Some (OnIdentityList
      \<lparr>sm_tag = QUERY_IDENTITY_LIST, sm_code = word_of_int ERR_CODE_ACCESS_DENIED, sm_accessCode = 0,
       iop_offset = 0, iop_size = 0, ior_response = 0, ilr_identities = []\<rparr>), s, g)"
proof -
  obtain y where y: "served s (request_ntoh q) = Some y" using served_ntoh(1) [OF assms(1)] by blast
  obtain b msg where b: "request_serialize q = Some b" "13 \<le> length b" "deserializeIdentity junk b = Some msg"
    "request_header (request_ntoh q) = (sm_code (message_header msg), sm_accessCode (message_header msg))"
    using identity_request_read [OF y, of junk] served_ntoh(2) [OF assms(1)] by auto
  have "memory_query code ac junk s 307 b = (access_denied, s)"
    using query_refused [OF b(3,2)] b(4) assms(2,3) by (auto simp: request_ntoh_header)
  then show ?thesis
    using assms(4) b(1) receive_denied access_denied_length by (simp add: plugin_round_def)
qed

theorem plugin_client_refused_witness:
  "\<forall>m junk. \<exists>e. plugin_round m (memory_query 42 7 junk) (\<lambda>g n b. (None, g)) []
      \<lparr>uc_query = Some (R_Addr \<lparr>sm_tag = 0x69, sm_code = 42, sm_accessCode = 7, iar_addr = 5\<rparr>), uc_status = 0\<rparr>
      ([(5, DEVICEID_default)], ()) =
    Some (\<lparr>uc_query = Some (R_Addr \<lparr>sm_tag = 0x69, sm_code = 42, sm_accessCode = 7, iar_addr = 5\<rparr>), uc_status = 0\<rparr>,
      Some (OnIdentityList e), [(5, DEVICEID_default)], ()) \<and> ilr_identities e = []"
proof -
  have s: "served [(5, DEVICEID_default)] (R_Addr \<lparr>sm_tag = 0x69, sm_code = 42, sm_accessCode = 7, iar_addr = 5\<rparr>) =
      Some (served_get [(5, DEVICEID_default)] \<lparr>sm_tag = 0x69, sm_code = 42, sm_accessCode = 7, iar_addr = 5\<rparr>,
        [(5, DEVICEID_default)])"
    by simp
  have n: "NTOH4 42 \<noteq> 42" by code_simp
  show ?thesis by (intro allI, subst plugin_client_refused [OF s]) (simp_all add: n)
qed

text \<open>A client whose query is left in place sends it again in the other byte order.\<close>

lemma second_exchange_refused:
  assumes "served s q = Some (e, s')" "request_header q = (code, ac)" "NTOH4 code \<noteq> code \<or> NTOH8 ac \<noteq> ac"
  shows "\<exists>e. udp_exchange m (listener_answer (memory_query code ac junk) gatewayQuery rBuf)
      (c\<lparr>uc_query := Some (request_ntoh q)\<rparr>) (s, g) = Some (c\<lparr>uc_query := Some q\<rparr>, Some (OnIdentityList e), s, g) \<and>
    ilr_identities e = []"
proof -
  obtain y where y: "served s (request_ntoh q) = Some y" using served_ntoh(1) [OF assms(1)] by blast
  obtain b msg where b: "request_serialize (request_ntoh (request_ntoh q)) = Some b" "13 \<le> length b" "length b \<le> 110"
    "isIdentityTag b" "deserializeIdentity junk b = Some msg"
    "request_header (request_ntoh q) = (sm_code (message_header msg), sm_accessCode (message_header msg))"
    using identity_request_read [OF y, of junk] by blast
  have "memory_query code ac junk s 2048 b = (access_denied, s)"
    using query_refused [OF b(5,2)] b(6) assms(2,3) by (auto simp: request_ntoh_header)
  then have "udp_exchange m (listener_answer (memory_query code ac junk) gatewayQuery rBuf)
      (c\<lparr>uc_query := Some (request_ntoh q)\<rparr>) (s, g) =
    Some ((c\<lparr>uc_query := Some (request_ntoh q)\<rparr>)\<lparr>uc_query := Some (request_ntoh (request_ntoh q))\<rparr>, Some (OnIdentityList
      \<lparr>sm_tag = QUERY_IDENTITY_LIST, sm_code = word_of_int ERR_CODE_ACCESS_DENIED, sm_accessCode = 0,
       iop_offset = 0, iop_size = 0, ior_response = 0, ilr_identities = []\<rparr>), s, g)"
    using b(1,3,4) receive_denied access_denied_length expected_size(2) [of "cm_request m" b]
    by (intro exchange_identity [where b = b and ans = access_denied]) simp_all
  then show ?thesis using served_ntoh(2) [OF assms(1)] by simp
qed

text \<open>The answer to a request for the next address does not fit, and is not known as one of
  identities.\<close>

lemma next_not_recognised:
  assumes "sm_tag q = QUERY_IDENTITY_NEXT"
  shows "udp_receive_size m (IdentityOperationRequest_serialize q) = Some 22"
    and "b ! 0 = QUERY_IDENTITY_NEXT \<Longrightarrow> b \<noteq> [] \<Longrightarrow> parseResponse m b = Some (OnGatewayOperation
      (GatewayOperationResponse_ntoh (GatewayOperationResponse_parse (cm_gateway_operation m) b)))"
  using assms by (simp_all add: udp_receive_size_def isIdentityTag_def responseSizeForGatewayRequest_def
    validateGatewayQuery_def parseResponse_def parse_gateway_response_def Let_def)

text \<open>The synchronous calls of the service leave their result as it was.\<close>

lemma sync_calls_answer_nothing:
  "svc_get ClientUDPIdentityService_ops s r a = (CODE_OK, r)"
  "svc_list ClientUDPIdentityService_ops s l offset sz = (CODE_OK, l)"
  "svc_size ClientUDPIdentityService_ops s = 0"
  by (simp_all add: ClientUDPIdentityService_ops_def cs_get_def cs_list_def cs_size_def)

end
