(* ===== verification/Identity_Wrapper.thy ===== *)
theory Identity_Wrapper
  imports Identity_Binary Filter_Text
begin

text \<open>
  The base class of the identity services (\<open>storage/service/identity-service.cpp\<close>) with its
  answer to a join request, and the functions that C programs call
  (\<open>storage/service/identity-service-c-wrapper.cpp\<close>): structures and texts converted both ways
  around the virtual functions of a service.  Arrays of the caller are lists of the length they
  have; the result \<open>None\<close> is an access behind one of them or through a null pointer.
\<close>

section \<open>IdentityService\<close>

text \<open>The remaining virtual functions; what \<open>init\<close> and \<open>setOption\<close> point to is a \<open>'v\<close>.\<close>

record ('s, 'v) IdentityServiceObject = "'s IdentityService" +
  svc_filter :: "'s \<Rightarrow> NETWORKIDENTITY list \<Rightarrow> NETWORK_IDENTITY_FILTER list \<Rightarrow> u32 \<Rightarrow> u8 \<Rightarrow>
    code \<times> NETWORKIDENTITY list"
  svc_flush :: "'s \<Rightarrow> 's"
  svc_init :: "'s \<Rightarrow> string \<Rightarrow> 'v \<Rightarrow> code \<times> 's"
  svc_done :: "'s \<Rightarrow> 's"
  svc_setOption :: "'s \<Rightarrow> int \<Rightarrow> 'v \<Rightarrow> 's"

text \<open>An object is the member \<open>netid\<close> of the base class and the state of the class itself.\<close>

record 's service_object =
  so_netid :: NETID
  so_state :: 's

definition getNetworkId :: "'s service_object \<Rightarrow> NETID" where
  "getNetworkId o' = so_netid o'"

definition setNetworkId :: "NETID \<Rightarrow> 's service_object \<Rightarrow> 's service_object" where
  "setNetworkId value o' = o'\<lparr>so_netid := value\<rparr>"

definition joinAccept ::
    "('s, 'v, 'z) IdentityServiceObject_scheme \<Rightarrow> 's service_object \<Rightarrow> JOIN_ACCEPT_FRAME_HEADER \<Rightarrow>
     NETWORKIDENTITY \<Rightarrow> code \<times> JOIN_ACCEPT_FRAME_HEADER \<times> NETWORKIDENTITY" where
  "joinAccept svc o' retval networkIdentity =
    (if isDEVADDREmpty (ni_devaddr networkIdentity) then
       let retval = retval\<lparr>ja_netId := so_netid o'\<rparr>;
           (r, new) = svc_next svc (so_state o') networkIdentity
       in if r \<noteq> 0 then (r, retval, networkIdentity)
          else (0, retval\<lparr>ja_netId := so_netid o', ja_devAddr := ni_devaddr new,
                  ja_joinNonce := joinNonce (ni_devid new)\<rparr>,
                networkIdentity\<lparr>ni_devaddr := ni_devaddr new\<rparr>)
     else (0, retval\<lparr>ja_netId := so_netid o', ja_devAddr := ni_devaddr networkIdentity,
               ja_joinNonce := joinNonce (ni_devid networkIdentity)\<rparr>, networkIdentity))"

text \<open>\<open>MemoryIdentityService\<close> as such an object: its \<open>flush\<close>, \<open>init\<close> and
  \<open>setOption\<close> do nothing.\<close>

definition MemoryIdentityObject :: "(identity_storage, bytes) IdentityServiceObject" where
  "MemoryIdentityObject = IdentityService.extend MemoryIdentityService
    \<lparr>svc_filter = ids_filter, svc_flush = (\<lambda>s. s), svc_init = (\<lambda>s option data. (CODE_OK, s)),
     svc_done = ids_done, svc_setOption = (\<lambda>s option value. s)\<rparr>"

section \<open>The structures of C\<close>

record C_DEVICEID =
  c_activation :: u8
  c_deviceclass :: u8
  c_devEUI :: u64
  c_nwkSKey :: bytes
  c_appSKey :: bytes
  c_version :: u8
  c_appEUI :: u64
  c_appKey :: bytes
  c_nwkKey :: bytes
  c_devNonce :: u16
  c_joinNonce :: bytes
  c_token :: u32
  c_region :: u8
  c_subRegion :: u8
  c_name :: bytes

record C_NETWORKIDENTITY =
  cn_devaddr :: u32
  cn_devid :: C_DEVICEID

record C_NETWORK_IDENTITY_FILTER =
  cf_pre :: int
  cf_property :: int
  cf_comparisonOperator :: int
  cf_length :: u8
  cf_filterData :: bytes

record C_JOIN_ACCEPT_FRAME_HEADER =
  cj_joinNonce :: bytes
  cj_netId :: bytes
  cj_devAddr :: u32
  cj_dlSettings :: u8
  cj_rxDelay :: u8

text \<open>The numbers of \<open>C_NETWORK_IDENTITY_PROPERTY\<close> that are not those of the C++ side.\<close>

abbreviation (input) C_NIP_TOKEN :: int where "C_NIP_TOKEN \<equiv> 13"
abbreviation (input) C_NIP_REGION :: int where "C_NIP_REGION \<equiv> 14"
abbreviation (input) C_NIP_SUBREGION :: int where "C_NIP_SUBREGION \<equiv> 15"
abbreviation (input) C_NIP_DEVICENAME :: int where "C_NIP_DEVICENAME \<equiv> 16"

definition DEVICEID2C_DEVICEID :: "DEVICE_ID \<Rightarrow> C_DEVICEID" where
  "DEVICEID2C_DEVICEID did =
    \<lparr>c_activation = ucast (activation did), c_deviceclass = ucast (deviceclass did),
     c_devEUI = devEUI did, c_nwkSKey = nwkSKey did, c_appSKey = appSKey did,
     c_version = version did, c_appEUI = appEUI did, c_appKey = appKey did, c_nwkKey = nwkKey did,
     c_devNonce = devNonce did, c_joinNonce = joinNonce did, c_token = token did,
     c_region = region did, c_subRegion = subRegion did, c_name = name did\<rparr>"

definition NETWORKIDENTITY2C_NETWORKIDENTITY :: "NETWORKIDENTITY \<Rightarrow> C_NETWORKIDENTITY" where
  "NETWORKIDENTITY2C_NETWORKIDENTITY nid =
    \<lparr>cn_devaddr = ni_devaddr nid, cn_devid = DEVICEID2C_DEVICEID (ni_devid nid)\<rparr>"

definition C_DEVICEID2DEVICEID :: "C_DEVICEID \<Rightarrow> DEVICE_ID" where
  "C_DEVICEID2DEVICEID did =
    \<lparr>activation = ucast (c_activation did), deviceclass = ucast (c_deviceclass did),
     devEUI = c_devEUI did, nwkSKey = c_nwkSKey did, appSKey = c_appSKey did,
     version = c_version did, appEUI = c_appEUI did, appKey = c_appKey did, nwkKey = c_nwkKey did,
     devNonce = c_devNonce did, joinNonce = c_joinNonce did, token = c_token did,
     region = c_region did, subRegion = c_subRegion did, name = c_name did\<rparr>"

definition C_NETWORKIDENTITY2NETWORKIDENTITY :: "C_NETWORKIDENTITY \<Rightarrow> NETWORKIDENTITY" where
  "C_NETWORKIDENTITY2NETWORKIDENTITY nid =
    \<lparr>ni_devaddr = cn_devaddr nid, ni_devid = C_DEVICEID2DEVICEID (cn_devid nid)\<rparr>"

definition C_NETWORK_IDENTITY_FILTER2NETWORK_IDENTITY_FILTER ::
    "C_NETWORK_IDENTITY_FILTER \<Rightarrow> NETWORK_IDENTITY_FILTER" where
  "C_NETWORK_IDENTITY_FILTER2NETWORK_IDENTITY_FILTER f =
    \<lparr>pre = cf_pre f, property = cf_property f, comparisonOperator = cf_comparisonOperator f,
     filter_length = cf_length f, filterData = cf_filterData f\<rparr>"

definition JOIN_ACCEPT_FRAME_HEADER2C_JOIN_ACCEPT_FRAME_HEADER ::
    "JOIN_ACCEPT_FRAME_HEADER \<Rightarrow> C_JOIN_ACCEPT_FRAME_HEADER" where
  "JOIN_ACCEPT_FRAME_HEADER2C_JOIN_ACCEPT_FRAME_HEADER hdr =
    \<lparr>cj_joinNonce = [ja_joinNonce hdr ! 0, ja_joinNonce hdr ! 1, ja_joinNonce hdr ! 2],
     cj_netId = [nid_c0 (ja_netId hdr), nid_c1 (ja_netId hdr), nid_c2 (ja_netId hdr)],
     cj_devAddr = ja_devAddr hdr, cj_dlSettings = ja_dlSettings hdr, cj_rxDelay = ja_rxDelay hdr\<rparr>"

section \<open>Calls\<close>

definition c_get ::
    "('s, 'v, 'z) IdentityServiceObject_scheme \<Rightarrow> 's service_object \<Rightarrow> u32 \<Rightarrow> code \<times> C_DEVICEID" where
  "c_get svc o' devAddr =
    (let (r, did) = svc_get svc (so_state o') DEVICEID_default devAddr in (r, DEVICEID2C_DEVICEID did))"

definition c_getNetworkIdentity ::
    "('s, 'v, 'z) IdentityServiceObject_scheme \<Rightarrow> 's service_object \<Rightarrow> u64 \<Rightarrow> code \<times> C_NETWORKIDENTITY" where
  "c_getNetworkIdentity svc o' eui =
    (let (r, nid) = svc_getNetworkIdentity svc (so_state o') NETWORKIDENTITY_default eui
     in (r, NETWORKIDENTITY2C_NETWORKIDENTITY nid))"

text \<open>The name goes through the constructor of \<open>DEVICENAME\<close> from a text.\<close>

definition c_put_device :: "C_DEVICEID \<Rightarrow> DEVICE_ID" where
  "c_put_device d =
    DEVICEID_full (ucast (c_activation d)) (ucast (c_deviceclass d)) (c_devEUI d) (c_nwkSKey d) (c_appSKey d)
      (c_version d) (c_appEUI d) (c_appKey d) (c_nwkKey d) (c_devNonce d) (c_joinNonce d) (c_token d)
      (c_region d) (c_subRegion d) (DEVICENAME_cstr (c_name d) (replicate 8 0))"

definition c_put ::
    "('s, 'v, 'z) IdentityServiceObject_scheme \<Rightarrow> 's service_object \<Rightarrow> u32 \<Rightarrow> C_DEVICEID \<Rightarrow>
     code \<times> 's service_object" where
  "c_put svc o' a d =
    (let (r, s) = svc_put svc (so_state o') a (c_put_device d) in (r, o'\<lparr>so_state := s\<rparr>))"

definition c_rm ::
    "('s, 'v, 'z) IdentityServiceObject_scheme \<Rightarrow> 's service_object \<Rightarrow> u32 \<Rightarrow> code \<times> 's service_object" where
  "c_rm svc o' addr = (let (r, s) = svc_rm svc (so_state o') addr in (r, o'\<lparr>so_state := s\<rparr>))"

text \<open>The entries of a vector are written to the array of the caller, whose size is not known.\<close>

fun write_identities ::
    "nat \<Rightarrow> NETWORKIDENTITY list \<Rightarrow> C_NETWORKIDENTITY list \<Rightarrow> C_NETWORKIDENTITY list option" where
  "write_identities i [] retVal = Some retVal"
| "write_identities i (n # v) retVal =
    (if i < length retVal
     then write_identities (i + 1) v (retVal[i := NETWORKIDENTITY2C_NETWORKIDENTITY n])
     else None)"

definition c_count :: "code \<Rightarrow> NETWORKIDENTITY list \<Rightarrow> code" where
  "c_count r v = (if r < 0 then r else int (length v))"

definition c_list ::
    "('s, 'v, 'z) IdentityServiceObject_scheme \<Rightarrow> 's service_object \<Rightarrow> C_NETWORKIDENTITY list \<Rightarrow> u32 \<Rightarrow> u8 \<Rightarrow>
     (code \<times> C_NETWORKIDENTITY list) option" where
  "c_list svc o' retVal offset sz =
    (let (r, v) = svc_list svc (so_state o') [] offset sz
     in map_option (Pair (c_count r v)) (if r \<ge> 0 then write_identities 0 v retVal else Some retVal))"

definition c_filter ::
    "('s, 'v, 'z) IdentityServiceObject_scheme \<Rightarrow> 's service_object \<Rightarrow> C_NETWORKIDENTITY list \<Rightarrow>
     C_NETWORK_IDENTITY_FILTER list \<Rightarrow> u32 \<Rightarrow> u8 \<Rightarrow> (code \<times> C_NETWORKIDENTITY list) option" where
  "c_filter svc o' retVal filters offset sz =
    (let f = map C_NETWORK_IDENTITY_FILTER2NETWORK_IDENTITY_FILTER filters;
         (r, v) = svc_filter svc (so_state o') [] f offset sz
     in map_option (Pair (c_count r v)) (write_identities 0 v retVal))"

definition c_filterExpression ::
    "('s, 'v, 'z) IdentityServiceObject_scheme \<Rightarrow> 's service_object \<Rightarrow> C_NETWORKIDENTITY list \<Rightarrow> string \<Rightarrow>
     u32 \<Rightarrow> u8 \<Rightarrow> (code \<times> C_NETWORKIDENTITY list) option" where
  "c_filterExpression svc o' retVal expression offset sz =
    Option.bind (string2NETWORK_IDENTITY_FILTERS [] expression)
      (\<lambda>(_, f). let (r, v) = svc_filter svc (so_state o') [] f offset sz
         in map_option (Pair (c_count r v)) (write_identities 0 v retVal))"

definition c_size :: "('s, 'v, 'z) IdentityServiceObject_scheme \<Rightarrow> 's service_object \<Rightarrow> nat" where
  "c_size svc o' = svc_size svc (so_state o')"

definition c_next ::
    "('s, 'v, 'z) IdentityServiceObject_scheme \<Rightarrow> 's service_object \<Rightarrow> code \<times> C_NETWORKIDENTITY" where
  "c_next svc o' =
    (let (r, nid) = svc_next svc (so_state o') NETWORKIDENTITY_default
     in (r, NETWORKIDENTITY2C_NETWORKIDENTITY nid))"

definition c_flush ::
    "('s, 'v, 'z) IdentityServiceObject_scheme \<Rightarrow> 's service_object \<Rightarrow> 's service_object" where
  "c_flush svc o' = o'\<lparr>so_state := svc_flush svc (so_state o')\<rparr>"

definition c_init ::
    "('s, 'v, 'z) IdentityServiceObject_scheme \<Rightarrow> 's service_object \<Rightarrow> string \<Rightarrow> 'v \<Rightarrow> code \<times> 's service_object" where
  "c_init svc o' option data =
    (let (r, s) = svc_init svc (so_state o') option data in (r, o'\<lparr>so_state := s\<rparr>))"

definition c_done ::
    "('s, 'v, 'z) IdentityServiceObject_scheme \<Rightarrow> 's service_object \<Rightarrow> 's service_object" where
  "c_done svc o' = (let o' = c_flush svc o' in o'\<lparr>so_state := svc_done svc (so_state o')\<rparr>)"

definition c_setOption ::
    "('s, 'v, 'z) IdentityServiceObject_scheme \<Rightarrow> 's service_object \<Rightarrow> int \<Rightarrow> 'v \<Rightarrow> 's service_object" where
  "c_setOption svc o' option value = o'\<lparr>so_state := svc_setOption svc (so_state o') option value\<rparr>"

definition c_getNetworkId :: "'s service_object \<Rightarrow> bytes" where
  "c_getNetworkId o' = netid_bytes (getNetworkId o')"

text \<open>
  \<open>value\<close> points to an array of three bytes, so \<open>*value[1]\<close> is the first byte of the next
  such array.  The argument is the memory from there on.
\<close>

definition c_setNetworkId :: "bytes \<Rightarrow> 's service_object \<Rightarrow> 's service_object option" where
  "c_setNetworkId value o' =
    (if length value < 7 then None
     else Some (setNetworkId \<lparr>nid_c0 = value ! 0, nid_c1 = value ! 3, nid_c2 = value ! 6\<rparr> o'))"

text \<open>\<open>dlSettings\<close> and \<open>rxDelay\<close> have no constructor: they are what the stack holds.\<close>

definition c_joinAccept ::
    "('s, 'v, 'z) IdentityServiceObject_scheme \<Rightarrow> u8 \<Rightarrow> u8 \<Rightarrow> 's service_object \<Rightarrow> C_NETWORKIDENTITY \<Rightarrow>
     code \<times> C_JOIN_ACCEPT_FRAME_HEADER" where
  "c_joinAccept svc dlSettings rxDelay o' networkIdentity =
    (let (r, path, _) = joinAccept svc o'
           \<lparr>ja_joinNonce = replicate 3 0, ja_netId = \<lparr>nid_c0 = 0, nid_c1 = 0, nid_c2 = 0\<rparr>,
            ja_devAddr = 0, ja_dlSettings = dlSettings, ja_rxDelay = rxDelay\<rparr>
           (C_NETWORKIDENTITY2NETWORKIDENTITY networkIdentity)
     in (r, JOIN_ACCEPT_FRAME_HEADER2C_JOIN_ACCEPT_FRAME_HEADER path))"

section \<open>Texts\<close>

text \<open>
  An array of lines holds pointers.  A null pointer where the code builds a \<open>std::string\<close> or
  compares it, or an array of fewer than sixteen pointers, is \<open>None\<close>.
\<close>

definition text2c_devaddr :: "string option \<Rightarrow> u32 option" where
  "text2c_devaddr expr = map_option string2DEVADDR expr"

definition text2c_deviceid ::
    "C_DEVICEID option \<Rightarrow> string option list option \<Rightarrow> C_DEVICEID option option" where
  "text2c_deviceid retVal lines =
    (case (retVal, lines) of
       (Some _, Some ls) \<Rightarrow>
         let did = DEVICEID_default in
         if length ls < 16 \<or> list_ex (\<lambda>i. ls ! i = None) [1, 6, 12, 13, 14] then None
         else Some (Some (DEVICEID2C_DEVICEID
           \<lparr>activation = string2activation_ptr (the (ls ! 1)),
            deviceclass = string2deviceclass_ptr (ls ! 2),
            devEUI = string2DEVEUI_ptr (ls ! 3) (devEUI did),
            nwkSKey = string2KEY (ls ! 4) (nwkSKey did),
            appSKey = string2KEY (ls ! 5) (appSKey did),
            version = string2LORAWAN_VERSION (the (ls ! 6)),
            appEUI = string2DEVEUI_ptr (ls ! 7) (appEUI did),
            appKey = string2KEY (ls ! 8) (appKey did),
            nwkKey = string2KEY (ls ! 9) (nwkKey did),
            devNonce = string2DEVNONCE (ls ! 10),
            joinNonce = string2JOINNONCE (ls ! 11) (joinNonce did),
            token = string2token (the (ls ! 12)),
            region = ucast (string2token (the (ls ! 13))),
            subRegion = ucast (string2token (the (ls ! 14))),
            name = (case ls ! 15 of None \<Rightarrow> name did
              | Some s \<Rightarrow> string2DEVICENAME (text_bytes s) (name did))\<rparr>))
     | _ \<Rightarrow> Some retVal)"

definition text2c_networkidentity :: "string option list \<Rightarrow> C_NETWORKIDENTITY \<Rightarrow> C_NETWORKIDENTITY option" where
  "text2c_networkidentity lines retval =
    (if lines = [] then None
     else Option.bind (text2c_devaddr (lines ! 0))
       (\<lambda>a. Option.bind (text2c_deviceid (Some (cn_devid retval)) (Some lines))
         (map_option (\<lambda>d. \<lparr>cn_devaddr = a, cn_devid = d\<rparr>))))"

text \<open>
  In the other direction \<open>buffer\<close> is a place in the memory \<open>mem\<close>, and so are the pointers
  that are left in the array \<open>retVal\<close>.
\<close>

definition addString2Buffer ::
    "nat \<Rightarrow> nat \<Rightarrow> nat \<Rightarrow> nat \<Rightarrow> string \<Rightarrow> bytes \<times> nat option list \<Rightarrow> nat \<times> bytes \<times> nat option list" where
  "addString2Buffer buffer position bufferSize index s st =
    (let (mem, retVal) = st; len = length s + 1
     in (len, if position + len \<le> bufferSize
         then (mem_write mem (buffer + position) (text_bytes s @ [0]), retVal[index := Some (buffer + position)])
         else (mem, retVal[index := None])))"

fun add_strings ::
    "nat \<Rightarrow> nat \<Rightarrow> nat \<Rightarrow> nat \<Rightarrow> string list \<Rightarrow> bytes \<times> nat option list \<Rightarrow> bytes \<times> nat option list" where
  "add_strings buffer position bufferSize index [] st = st"
| "add_strings buffer position bufferSize index (s # ss) st =
    (let (len, st) = addString2Buffer buffer position bufferSize index s st
     in add_strings buffer (position + len) bufferSize (index + 1) ss st)"

definition c_devaddr2text :: "bytes \<Rightarrow> nat \<Rightarrow> nat \<Rightarrow> u32 \<Rightarrow> nat \<times> bytes" where
  "c_devaddr2text mem buffer bufferSize addr =
    (let r = DEVADDR2string addr; sz = length r
     in (sz, if sz \<le> bufferSize then mem_write mem buffer (text_bytes r) else mem))"

text \<open>The array of the caller has sixteen pointers.\<close>

definition c_deviceid2text ::
    "bytes \<Rightarrow> nat option \<Rightarrow> nat \<Rightarrow> nat option list option \<Rightarrow> C_DEVICEID \<Rightarrow> bytes \<times> nat option list option" where
  "c_deviceid2text mem buffer bufferSize retVal deviceId =
    (case (buffer, retVal) of
       (Some b, Some rv) \<Rightarrow>
         if bufferSize = 0 then (mem, retVal)
         else
           let did = C_DEVICEID2DEVICEID deviceId;
               (mem, rv) = add_strings b 0 bufferSize 1
                 [activation2string (activation did), deviceclass2string (deviceclass did),
                  DEVEUI2string (devEUI did), KEY2string (nwkSKey did), KEY2string (appSKey did),
                  LORAWAN_VERSION2string (version did), DEVEUI2string (appEUI did),
                  KEY2string (nwkKey did), KEY2string (appKey did), DEVNONCE2string (devNonce did),
                  JOINNONCE2string (joinNonce did), token2string (token did),
                  region2string (region did), subRegion2string (subRegion did),
                  bytes_text (DEVICENAME2string (name did))] (mem, rv)
           in (mem, Some rv)
     | _ \<Rightarrow> (mem, retVal))"

definition c_networkidentity2text ::
    "bytes \<Rightarrow> nat option \<Rightarrow> nat \<Rightarrow> nat option list option \<Rightarrow> C_NETWORKIDENTITY \<Rightarrow>
     bytes \<times> nat option list option" where
  "c_networkidentity2text mem buffer bufferSize retVal networkIdentity =
    (case (buffer, retVal) of
       (Some b, Some rv) \<Rightarrow>
         if bufferSize = 0 then (mem, retVal)
         else
           let (position, mem) = c_devaddr2text mem b bufferSize (cn_devaddr networkIdentity)
           in if position \<ge> bufferSize then (mem, retVal)
              else c_deviceid2text (mem_write mem (b + position) [0]) (Some (b + (position + 1)))
                (bufferSize - (position + 1)) (Some (rv[0 := Some b])) (cn_devid networkIdentity)
     | _ \<Rightarrow> (mem, retVal))"

section \<open>Lemmas: pages\<close>

lemma write_identities_room:
  "i + length v \<le> length retVal \<Longrightarrow>
   write_identities i v retVal =
     Some (take i retVal @ map NETWORKIDENTITY2C_NETWORKIDENTITY v @ drop (i + length v) retVal)"
proof (induction v arbitrary: i retVal)
  case (Cons n v)
  have "write_identities i (n # v) retVal =
      write_identities (Suc i) v (retVal[i := NETWORKIDENTITY2C_NETWORKIDENTITY n])"
    using Cons.prems by simp
  also have "\<dots> = Some (take (Suc i) (retVal[i := NETWORKIDENTITY2C_NETWORKIDENTITY n]) @
      map NETWORKIDENTITY2C_NETWORKIDENTITY v @ drop (Suc i + length v) retVal)"
    using Cons by simp
  finally show ?case using Cons.prems by (simp add: take_Suc_conv_app_nth)
qed simp

lemma write_identities_behind:
  "length retVal < i + length v \<Longrightarrow> i \<le> length retVal \<Longrightarrow> write_identities i v retVal = None"
  by (induction v arbitrary: i retVal) auto

lemma memory_object_simps [simp]:
  "svc_get MemoryIdentityObject = ids_get" "svc_put MemoryIdentityObject = ids_put"
  "svc_rm MemoryIdentityObject = ids_rm" "svc_list MemoryIdentityObject = ids_list"
  "svc_next MemoryIdentityObject = ids_next" "svc_filter MemoryIdentityObject = ids_filter"
  "svc_getNetworkIdentity MemoryIdentityObject = ids_getNetworkIdentity"
  by (simp_all add: MemoryIdentityObject_def MemoryIdentityService_def IdentityService.extend_def)

section \<open>Lemmas: texts in memory\<close>

text \<open>What a C program reads at a pointer.\<close>

definition line_at :: "bytes \<Rightarrow> nat option \<Rightarrow> string option" where
  "line_at mem p = map_option (\<lambda>p. bytes_text (c_str (drop p mem))) p"

definition no_nul :: "string \<Rightarrow> bool" where
  "no_nul s \<longleftrightarrow> 0 \<notin> set (text_bytes s)"

lemma line_at_written:
  assumes "no_nul s" "take (q + Suc (length s)) mem = before @ text_bytes s @ [0]" "length before = q"
  shows "line_at mem (Some q) = Some s"
proof -
  have "mem = (before @ text_bytes s @ [0]) @ drop (q + Suc (length s)) mem"
    by (metis append_take_drop_id assms(2))
  then have "drop q mem = text_bytes s @ 0 # drop (q + Suc (length s)) mem"
    using assms(3) by (metis append.assoc append_Cons append_Nil append_eq_conv_conj)
  then show ?thesis
    using assms(1) by (simp add: line_at_def no_nul_def c_str_append_nul text_bytes_inverse)
qed

text \<open>The room that texts take with their terminators.\<close>

definition room :: "string list \<Rightarrow> nat" where
  "room ss = (\<Sum>s\<leftarrow>ss. length s + 1)"

lemma add_strings_lines:
  assumes "list_all no_nul ss" "position + room ss \<le> bufferSize" "buffer + bufferSize \<le> length mem"
    and "index + length ss \<le> length retVal"
    and "add_strings buffer position bufferSize index ss (mem, retVal) = (mem', retVal')"
  shows "length mem' = length mem \<and> length retVal' = length retVal \<and>
    take (buffer + position) mem' = take (buffer + position) mem \<and> take index retVal' = take index retVal \<and>
    map (line_at mem') (take (length ss) (drop index retVal')) = map Some ss"
  using assms
proof (induction ss arbitrary: position index mem retVal)
  case Nil
  then show ?case by simp
next
  case (Cons s ss)
  let ?q = "buffer + position"
  let ?m = "mem_write mem ?q (text_bytes s @ [0])" and ?r = "retVal[index := Some ?q]"
  have fits: "?q + Suc (length s) \<le> length mem" "position + Suc (length s) + room ss \<le> bufferSize"
    using Cons.prems by (simp_all add: room_def)
  then have m: "length ?m = length mem" by simp
  have rest: "add_strings buffer (position + Suc (length s)) bufferSize (Suc index) ss (?m, ?r) = (mem', retVal')"
    using Cons.prems(5) fits by (simp add: addString2Buffer_def)
  have IH: "length mem' = length mem" "length retVal' = length retVal"
    "take (?q + Suc (length s)) mem' = take (?q + Suc (length s)) ?m" "take (Suc index) retVal' = take (Suc index) ?r"
    "map (line_at mem') (take (length ss) (drop (Suc index) retVal')) = map Some ss"
    using Cons.IH [OF _ _ _ _ rest] Cons.prems fits m by (simp_all add: add.assoc)
  have w: "take (?q + Suc (length s)) mem' = take ?q mem @ text_bytes s @ [0]"
    using IH(3) fits by (simp add: mem_write_def)
  have at: "line_at mem' (Some ?q) = Some s"
    by (rule line_at_written [OF _ w]) (use Cons.prems fits in \<open>simp_all\<close>)
  have i: "index < length retVal'" using Cons.prems IH(2) by simp
  have "retVal' ! index = take (Suc index) retVal' ! index" by simp
  also have "\<dots> = Some ?q" unfolding IH(4) using i IH(2) by simp
  finally have r: "retVal' ! index = Some ?q" .
  have "take index retVal' = take index (take (Suc index) retVal')" by simp
  also have "\<dots> = take index retVal" unfolding IH(4) by simp
  moreover have "take ?q mem' = take ?q (take (?q + Suc (length s)) mem')" by simp
  moreover have "\<dots> = take ?q mem" unfolding w using fits by simp
  moreover have "map (line_at mem') (take (length (s # ss)) (drop index retVal')) = map Some (s # ss)"
    using IH(5) at r i by (simp flip: Cons_nth_drop_Suc)
  ultimately show ?case using IH(1,2) by simp
qed

lemma no_nul_plain: "list_all plain s \<Longrightarrow> no_nul s"
proof -
  have "of_char c = (0::u8) \<Longrightarrow> c = CHR 0x00" for c
    using text_bytes_inverse [of "[c]"] by (simp add: text_bytes_def bytes_text_def char_of_def)
  then show "list_all plain s \<Longrightarrow> no_nul s"
    by (fastforce simp: no_nul_def text_bytes_def list_all_iff plain_def)
qed

lemma no_nul_name: "no_nul (bytes_text (DEVICENAME2string n))"
proof -
  have "0 \<notin> set (c_str n)" by (auto simp: c_str_def dest: set_takeWhileD)
  then show ?thesis by (auto simp: no_nul_def DEVICENAME2string_def dest: in_set_takeD)
qed

lemma fields_no_nul: "list_all no_nul (identity_fields d)"
  by (simp add: identity_fields_def no_nul_name no_nul_plain plain_names plain_version plain_hexString plain_show
      token2string_def region2string_def subRegion2string_def DEVEUI2string_def KEY2string_def
      DEVNONCE2string_def JOINNONCE2string_def)

lemma show_word_lengths:
  "length (show_word (r :: u8)) \<le> 3" "length (show_word (v AND 0xffff :: u32)) \<le> 5"
proof -
  have "unat r < 10 ^ Suc 2" using unsigned_less [of r, where 'a = nat] by simp
  then have "length (show_word r) \<le> Suc 2" unfolding show_word_def by (rule length_show_nat_less)
  then show "length (show_word r) \<le> 3" by simp
  have "v AND 0xffff \<le> 0xffff" by (rule word_and_le1)
  then have "unat (v AND 0xffff) < 10 ^ Suc 4" by (simp add: word_le_nat_alt)
  then have "length (show_word (v AND 0xffff)) \<le> Suc 4" unfolding show_word_def by (rule length_show_nat_less)
  then show "length (show_word (v AND 0xffff)) \<le> 5" by simp
qed

lemma version_length: "length (LORAWAN_VERSION2string v) \<le> 11"
  using show_word_lengths(1) [of "version_major v"] show_word_lengths(1) [of "version_minor v"]
    show_word_lengths(1) [of "version_release v"]
  by (simp add: LORAWAN_VERSION2string_def)

lemma fields_room:
  assumes "wf_device d"
  shows "room (identity_fields d) \<le> 220"
proof -
  have "length (activation2string (activation d)) \<le> 4"
  proof (cases "activation d > 1")
    case False
    then have "unat (activation d) < length ACTIVATION_NAMES"
      by (simp add: ACTIVATION_NAMES_def word_less_nat_alt)
    then have "ACTIVATION_NAMES ! unat (activation d) \<in> set ACTIVATION_NAMES" by (rule nth_mem)
    with False show ?thesis by (auto simp: activation2string_def ACTIVATION_NAMES_def)
  qed (simp add: activation2string_def ACTIVATION_NAMES_def)
  moreover have "length (deviceclass2string (deviceclass d)) = 1" by (simp add: deviceclass2string_def)
  moreover have "length (DEVICENAME2string (name d)) \<le> 8" by (simp add: DEVICENAME2string_def)
  ultimately show ?thesis
    using assms show_word_lengths(1) [of "region d"] show_word_lengths(1) [of "subRegion d"]
      show_word_lengths(2) [of "token d"] version_length [of "version d"]
    by (simp add: room_def identity_fields_def wf_device_def wf_KEY128_def token2string_def region2string_def
        subRegion2string_def DEVEUI2string_def KEY2string_def DEVNONCE2string_def JOINNONCE2string_def)
qed

lemma strtoull_show_word:
  fixes w :: "'a::len word"
  assumes "LENGTH('a) \<le> 64"
  shows "strtoull 10 (show_word w) = ucast w"
proof -
  have "unat w < 2 ^ LENGTH('a)" by (rule unsigned_less)
  also have "\<dots> \<le> 2 ^ 64" using assms by (intro power_increasing) simp_all
  finally have "strtoull 10 (show_nat (unat w)) = of_nat (unat w)" by (intro strtoull_show) simp_all
  then show ?thesis by (simp add: show_word_def)
qed

lemma unat_enum: "unat (ucast w :: u32) = unat w" for w :: u8
  by (rule unsigned_ucast_eq [THEN trans]) (simp add: take_bit_nat_eq_self_iff less_trans [OF unsigned_less])

lemma token_low_text [text_simps]: "string2token (token2string v) = v AND 0xffff"
  by (simp add: string2token_def token2string_def strtoull_show_word ucast_back)

lemma region_token_text [text_simps]:
  "ucast (string2token (region2string r)) = r" "ucast (string2token (subRegion2string r)) = r" for r :: u8
  by (simp_all add: string2token_def region2string_def subRegion2string_def strtoull_show_word)
    (rule bit_word_eqI; auto simp: bit_simps)+

text \<open>The lines of a device are the fields of its text form, the root keys exchanged.\<close>

definition swap_keys :: "DEVICE_ID \<Rightarrow> DEVICE_ID" where
  "swap_keys d = d\<lparr>appKey := nwkKey d, nwkKey := appKey d\<rparr>"

lemma c_deviceid2text_fields:
  assumes "0 < bufferSize"
    and "c_deviceid2text mem (Some b) bufferSize (Some rv) d = (mem', Some rv')"
  shows "add_strings b 0 bufferSize 1 (identity_fields (swap_keys (C_DEVICEID2DEVICEID d))) (mem, rv) = (mem', rv')"
  using assms by (simp add: c_deviceid2text_def identity_fields_def swap_keys_def Let_def case_prod_beta'
      prod_eq_iff del: add_strings.simps)

lemma c_networkidentity2text_fields:
  assumes "9 < bufferSize"
    and "c_networkidentity2text mem (Some b) bufferSize (Some rv) n = (mem', Some rv')"
  shows "add_strings (b + 9) 0 (bufferSize - 9) 1 (identity_fields (swap_keys (C_DEVICEID2DEVICEID (cn_devid n))))
    (mem_write (mem_write mem b (text_bytes (DEVADDR2string (cn_devaddr n)))) (b + 8) [0], rv[0 := Some b]) =
    (mem', rv')"
proof -
  have "length (DEVADDR2string (cn_devaddr n)) = 8" by (simp add: DEVADDR2string_def)
  then show ?thesis
    using assms by (intro c_deviceid2text_fields) (simp_all add: c_networkidentity2text_def c_devaddr2text_def)
qed

lemma c_str_length: "length (c_str s) \<le> length s"
  by (simp add: c_str_def length_takeWhile_le)

lemma name_text_read:
  "length n = 8 \<Longrightarrow> string2DEVICENAME (DEVICENAME2string n) (replicate 8 0) = string2DEVICENAME (c_str n) (replicate 8 0)"
  using c_str_length [of n] by (simp add: DEVICENAME2string_def)

definition padded_name :: "bytes \<Rightarrow> bytes" where
  "padded_name n = c_str n @ replicate (8 - length (c_str n)) 0"

lemma c_str_twice: "c_str (c_str s) = c_str s"
  by (rule c_str_no_nul) (auto simp: c_str_def dest: set_takeWhileD)

lemma name_from_cstr:
  assumes "length n = 8"
  shows "DEVICENAME_cstr n (replicate 8 0) = padded_name n" "string2DEVICENAME (c_str n) (replicate 8 0) = padded_name n"
  using c_str_length [of n] assms
  by (auto simp: DEVICENAME_cstr_def string2DEVICENAME_def strncpy_def mem_write_def padded_name_def c_str_twice Let_def
      min_def)

lemma c_string_field: "list_all plain s \<Longrightarrow> c_string s = s"
  by (rule c_string_id) (auto simp: list_all_iff plain_def)

lemma fields_read:
  assumes "wf_device x" "activation x \<le> 1" "deviceclass x \<le> 2"
  shows "text2c_networkidentity (map Some (DEVADDR2string a # identity_fields x)) n =
    Some \<lparr>cn_devaddr = a, cn_devid =
      DEVICEID2C_DEVICEID (x\<lparr>token := token x AND 0xffff, name := padded_name (name x)\<rparr>)\<rparr>"
proof -
  have "string2activation_ptr (activation2string (activation x)) = activation x"
    using activation_text [OF assms(2)] plain_names
    by (simp add: string2activation_ptr_def string2activation_def c_string_field)
  moreover have "string2deviceclass_ptr (Some (deviceclass2string (deviceclass x))) = deviceclass x"
    using deviceclass_text [OF assms(3)] plain_names by (simp add: string2deviceclass_ptr_def c_string_field)
  moreover have "string2DEVEUI_ptr (Some (DEVEUI2string e)) e' = e" for e e'
    using DEVEUI_text [of e] by (simp add: string2DEVEUI_ptr_def string2DEVEUI_def)
  moreover have "string2DEVICENAME (DEVICENAME2string (name x)) (name DEVICEID_default) = padded_name (name x)"
    using assms(1) name_text_read [of "name x"] name_from_cstr(2) [of "name x"]
    by (simp add: wf_device_def DEVICEID_default_def)
  moreover have "length (nwkSKey DEVICEID_default) = 16" "length (appSKey DEVICEID_default) = 16"
    "length (appKey DEVICEID_default) = 16" "length (nwkKey DEVICEID_default) = 16"
    "length (joinNonce DEVICEID_default) = 3"
    using wf_device_constructors(1) by (simp_all add: wf_device_def wf_KEY128_def)
  ultimately show ?thesis
    using assms(1)
    by (cases x) (simp add: identity_fields_def text2c_networkidentity_def text2c_devaddr_def text2c_deviceid_def
        Let_def text_simps wf_device_def wf_KEY128_def)
qed

section \<open>Properties\<close>

text \<open>A device that is put through the C interface is got back as it was, but for the bytes of
  its name behind a NUL; the other addresses are not touched.\<close>

theorem c_put_then_get:
  assumes "om_sorted (so_state o')" "length (c_name d) = 8" "c_put MemoryIdentityObject o' a d = (r, o'')"
  shows "r = CODE_OK \<and> c_get MemoryIdentityObject o'' b =
    (if b = a then (CODE_OK, d\<lparr>c_name := padded_name (c_name d)\<rparr>) else c_get MemoryIdentityObject o' b)"
proof -
  have "DEVICEID2C_DEVICEID (c_put_device d) = d\<lparr>c_name := padded_name (c_name d)\<rparr>"
    using assms(2)
    by (cases d) (simp add: DEVICEID2C_DEVICEID_def c_put_device_def DEVICEID_full_def name_from_cstr ucast_back)
  then show ?thesis
    using assms(1,3) by (cases "b = a") (auto simp: c_put_def c_get_def ids_put_def ids_get_def om_find_assign)
qed

theorem c_put_then_get_witness:
  "c_get MemoryIdentityObject
      (snd (c_put MemoryIdentityObject \<lparr>so_netid = \<lparr>nid_c0 = 0, nid_c1 = 0, nid_c2 = 0\<rparr>, so_state = []\<rparr> 5
        (DEVICEID2C_DEVICEID DEVICEID_default))) 5 =
    (CODE_OK, DEVICEID2C_DEVICEID DEVICEID_default
      \<lparr>c_name := padded_name (c_name (DEVICEID2C_DEVICEID DEVICEID_default))\<rparr>)"
proof -
  let ?o = "\<lparr>so_netid = \<lparr>nid_c0 = 0, nid_c1 = 0, nid_c2 = 0\<rparr>, so_state = [] :: identity_storage\<rparr>"
  let ?d = "DEVICEID2C_DEVICEID DEVICEID_default"
  have "length (c_name ?d) = 8" by (simp add: DEVICEID2C_DEVICEID_def DEVICEID_default_def)
  then show ?thesis
    using c_put_then_get [of ?o ?d 5 _ _ 5, OF _ _ prod.collapse [symmetric]] by simp
qed

text \<open>An array of as many entries as were asked for is never left, whatever is stored; the
  page is written to its beginning.\<close>

theorem c_list_page:
  assumes "unat sz \<le> length retVal"
  shows "c_list MemoryIdentityObject o' retVal offset sz =
    (let page = take (unat sz) (drop (unat offset) (so_state o'))
     in Some (int (length page),
       map (\<lambda>(a, d). NETWORKIDENTITY2C_NETWORKIDENTITY (NETWORKIDENTITY_make a d)) page @
       drop (length page) retVal))"
  using assms
  by (simp add: c_list_def ids_list_def page_loop_eq c_count_def write_identities_room Let_def
      case_prod_beta' o_def)

theorem c_list_page_witness:
  "c_list MemoryIdentityObject
      \<lparr>so_netid = \<lparr>nid_c0 = 0, nid_c1 = 0, nid_c2 = 0\<rparr>, so_state = [(5, DEVICEID_default), (6, DEVICEID_default)]\<rparr>
      [NETWORKIDENTITY2C_NETWORKIDENTITY NETWORKIDENTITY_default] 1 1 =
    Some (1, [NETWORKIDENTITY2C_NETWORKIDENTITY (NETWORKIDENTITY_make 6 DEVICEID_default)])"
  by (subst c_list_page) (simp_all add: Let_def)

text \<open>C24: The C header numbers the name of a device 16, which is no property of the library: the
  filter "name equal to" that a C program writes lets every device through, whatever the name.\<close>

theorem c_name_filter_passes_all:
  assumes "cf_property f = C_NIP_DEVICENAME" "cf_comparisonOperator f = NICO_EQ"
  shows "c_filter MemoryIdentityObject o' retVal [f] offset sz = c_list MemoryIdentityObject o' retVal offset sz"
proof -
  have "isIdentityFilteredV2 a d [C_NETWORK_IDENTITY_FILTER2NETWORK_IDENTITY_FILTER f]" for a d
    using assms
    by (simp add: isIdentityFilteredV2_def isIdentityFiltered2_def getNetworkIdentityPropertySize_def
        C_NETWORK_IDENTITY_FILTER2NETWORK_IDENTITY_FILTER_def)
  then show ?thesis
    by (simp add: c_filter_def c_list_def ids_filter_def ids_list_def filter_page_loop_eq)
qed

theorem c_name_filter_passes_all_witness:
  "c_filter MemoryIdentityObject
      \<lparr>so_netid = \<lparr>nid_c0 = 0, nid_c1 = 0, nid_c2 = 0\<rparr>, so_state = [(5, DEVICEID_default)]\<rparr>
      [NETWORKIDENTITY2C_NETWORKIDENTITY NETWORKIDENTITY_default]
      [\<lparr>cf_pre = NILPO_AND, cf_property = C_NIP_DEVICENAME, cf_comparisonOperator = NICO_EQ, cf_length = 8,
         cf_filterData = replicate 16 0x41\<rparr>] 0 1 =
    Some (1, [NETWORKIDENTITY2C_NETWORKIDENTITY (NETWORKIDENTITY_make 5 DEVICEID_default)])"
  by (subst c_name_filter_passes_all)
    (simp_all add: c_list_def ids_list_def c_count_def)

text \<open>C23: The lines that \<open>c_networkidentity2text\<close> leaves in a buffer with enough room, read by
  \<open>text2c_networkidentity\<close>, give the identity with its two root keys exchanged, the token cut
  to 16 bits and the name cut at a NUL.\<close>

theorem c_text_swaps_keys:
  assumes "wf_device (C_DEVICEID2DEVICEID d)" "c_activation d \<le> 1" "c_deviceclass d \<le> 2"
    and "229 \<le> bufferSize" "buffer + bufferSize \<le> length mem" "length retVal = 16"
    and "c_networkidentity2text mem (Some buffer) bufferSize (Some retVal) \<lparr>cn_devaddr = a, cn_devid = d\<rparr> =
      (mem', Some retVal')"
  shows "text2c_networkidentity (map (line_at mem') retVal') n =
    Some \<lparr>cn_devaddr = a, cn_devid =
      d\<lparr>c_appKey := c_nwkKey d, c_nwkKey := c_appKey d, c_token := c_token d AND 0xffff,
        c_name := padded_name (c_name d)\<rparr>\<rparr>"
proof -
  let ?d = "C_DEVICEID2DEVICEID d"
  let ?x = "swap_keys ?d"
  let ?m = "mem_write (mem_write mem buffer (text_bytes (DEVADDR2string a))) (buffer + 8) [0]"
  let ?r = "retVal[0 := Some buffer]"
  have addr: "length (DEVADDR2string a) = 8" by (simp add: DEVADDR2string_def)
  have added: "add_strings (buffer + 9) 0 (bufferSize - 9) 1 (identity_fields ?x) (?m, ?r) = (mem', retVal')"
    using c_networkidentity2text_fields [OF _ assms(7)] assms(4) by simp
  have fields: "length (identity_fields ?x) = 15" by (simp add: identity_fields_def)
  have x: "wf_device ?x" using assms(1) by (simp add: wf_device_def swap_keys_def)
  have m: "length ?m = length mem" using assms(4,5) addr by simp
  have r: "take 1 ?r = [Some buffer]" using assms(6) by (cases retVal) simp_all
  note L = add_strings_lines [OF fields_no_nul _ _ _ added, unfolded fields]
  have lines: "take (buffer + 9) mem' = take (buffer + 9) ?m" "take 1 retVal' = [Some buffer]" "length retVal' = 16"
    "map (line_at mem') (take 15 (drop 1 retVal')) = map Some (identity_fields ?x)"
    using L fields_room [OF x] assms(4-6) m r by (simp_all del: take_all)
  have "take (buffer + Suc 8) mem' = take buffer mem @ text_bytes (DEVADDR2string a) @ [0]"
    using lines(1) assms(4,5) addr by (simp add: mem_write_def)
  moreover have "length (take buffer mem) = buffer" using assms(4,5) by simp
  ultimately have "line_at mem' (Some buffer) = Some (DEVADDR2string a)"
    using addr
    by (intro line_at_written [where before = "take buffer mem"]) (simp_all add: DEVADDR2string_def no_nul_plain plain_hexString)
  moreover have "retVal' = take 1 retVal' @ take 15 (drop 1 retVal')" using lines(3) by simp
  ultimately have "map (line_at mem') retVal' = map Some (DEVADDR2string a # identity_fields ?x)"
    using lines(2,4) by (metis append_Cons append_Nil list.simps(9) map_append)
  then have "text2c_networkidentity (map (line_at mem') retVal') n =
      text2c_networkidentity (map Some (DEVADDR2string a # identity_fields ?x)) n"
    by simp
  also have "\<dots> = Some \<lparr>cn_devaddr = a, cn_devid = DEVICEID2C_DEVICEID
      (?x\<lparr>token := token ?d AND 0xffff, name := padded_name (name ?d)\<rparr>)\<rparr>"
    using fields_read [of ?x a n] x assms(2,3) by (simp add: swap_keys_def C_DEVICEID2DEVICEID_def word_le_nat_alt unat_enum)
  finally show ?thesis by (cases d) (simp add: DEVICEID2C_DEVICEID_def C_DEVICEID2DEVICEID_def swap_keys_def ucast_back)
qed

theorem c_text_swaps_keys_witness:
  "\<exists>mem' retVal'.
    c_networkidentity2text (replicate 300 0) (Some 10) 280 (Some (replicate 16 None))
      \<lparr>cn_devaddr = 0x01020304, cn_devid = DEVICEID2C_DEVICEID (DEVICEID_default\<lparr>appKey := replicate 16 1\<rparr>)\<rparr> =
      (mem', Some retVal') \<and>
    map_option (\<lambda>n. (cn_devaddr n, c_appKey (cn_devid n), c_nwkKey (cn_devid n)))
      (text2c_networkidentity (map (line_at mem') retVal') (NETWORKIDENTITY2C_NETWORKIDENTITY NETWORKIDENTITY_default)) =
      Some (0x01020304, replicate 16 0, replicate 16 1)"
proof -
  let ?d = "DEVICEID2C_DEVICEID (DEVICEID_default\<lparr>appKey := replicate 16 1\<rparr>)"
  let ?t = "c_networkidentity2text (replicate 300 0) (Some 10) 280 (Some (replicate 16 None))
    \<lparr>cn_devaddr = 0x01020304, cn_devid = ?d\<rparr>"
  have wf: "wf_device (C_DEVICEID2DEVICEID ?d)" "c_activation ?d \<le> 1" "c_deviceclass ?d \<le> 2"
    by (simp_all add: wf_device_def wf_KEY128_def C_DEVICEID2DEVICEID_def DEVICEID2C_DEVICEID_def
        DEVICEID_default_def KEY128_zero_def)
  have "\<exists>rv. snd ?t = Some rv"
    by (simp add: c_networkidentity2text_def c_devaddr2text_def c_deviceid2text_def DEVADDR2string_def
        case_prod_beta' Let_def del: add_strings.simps)
  then obtain mem' retVal' where t: "?t = (mem', Some retVal')" by (metis prod.collapse)
  have "text2c_networkidentity (map (line_at mem') retVal') (NETWORKIDENTITY2C_NETWORKIDENTITY NETWORKIDENTITY_default) =
    Some \<lparr>cn_devaddr = 0x01020304, cn_devid =
      ?d\<lparr>c_appKey := c_nwkKey ?d, c_nwkKey := c_appKey ?d, c_token := c_token ?d AND 0xffff,
        c_name := padded_name (c_name ?d)\<rparr>\<rparr>"
    by (rule c_text_swaps_keys [OF wf _ _ _ t]) simp_all
  with t show ?thesis by (simp add: DEVICEID2C_DEVICEID_def DEVICEID_default_def KEY128_zero_def)
qed

text \<open>Setting the network identifier that was got fails: behind the three bytes of the array it
  reads bytes 3 and 6.\<close>

lemma c_netid_not_restored: "c_setNetworkId (c_getNetworkId o') o' = None"
  by (simp add: c_setNetworkId_def c_getNetworkId_def netid_bytes_def)

text \<open>Two members of an answer to a join request are never written.\<close>

lemma c_joinAccept_unset:
  "cj_dlSettings (snd (c_joinAccept svc x y o' n)) = x" "cj_rxDelay (snd (c_joinAccept svc x y o' n)) = y"
  by (simp_all add: c_joinAccept_def joinAccept_def JOIN_ACCEPT_FRAME_HEADER2C_JOIN_ACCEPT_FRAME_HEADER_def
      case_prod_beta' Let_def)

text \<open>An address that the answer gives is not stored: two devices without one are given the same.\<close>

lemma join_addresses_repeat:
  assumes "isDEVADDREmpty (ni_devaddr n)" "isDEVADDREmpty (ni_devaddr n')"
    and "\<And>x y. ni_devaddr (snd (svc_next svc (so_state o') x)) = ni_devaddr (snd (svc_next svc (so_state o') y))"
    and "fst (joinAccept svc o' h n) = 0" "fst (joinAccept svc o' h' n') = 0"
  shows "ja_devAddr (fst (snd (joinAccept svc o' h n))) = ja_devAddr (fst (snd (joinAccept svc o' h' n')))"
  using assms by (auto simp: joinAccept_def case_prod_beta' Let_def split: if_splits)

end
