(* ===== verification/Gateway_Settings.thy ===== *)
theory Gateway_Settings
  imports Json_Sax
begin

text \<open>
  The settings of a gateway and the JSON file they are kept in
  (\<open>proto/gw/gateway-file-json.cpp\<close>, with the structures of \<open>gateway-lora.h\<close> and
  \<open>loragw_hal.h\<close>).  The JSON library is third-party: a document is a value of \<open>json\<close>, and
  where the library or the standard library throws, the result is the exception.  What the
  objects hold after an exception is not modelled.  A \<open>float\<close> and a \<open>double\<close> are their bits,
  numbers of narrower signed types are words that are read as signed.
\<close>

datatype failure =
    Exc_invalid_iterator
  | Exc_type_error
  | Exc_invalid_argument
  | Exc_out_of_range
  | Undefined

section \<open>Structures\<close>

record spectral_scan_t =
  ss_enable :: bool
  ss_freq_hz_start :: u32
  ss_nb_chan :: u8
  ss_nb_scan :: u16
  ss_pace_s :: u32

record lgw_conf_chan_lbt_s =
  lc_freq_hz :: u32
  lc_bandwidth :: u8
  lc_scan_time_us :: u32
  lc_transmit_time_ms :: u16

record lgw_conf_lbt_s =
  lbt_enable :: bool
  lbt_rssi_target :: u8
  lbt_nb_channel :: u8
  lbt_channels :: "lgw_conf_chan_lbt_s list"

record lgw_conf_sx1261_s =
  sx_enable :: bool
  sx_spi_path :: bytes
  sx_rssi_offset :: u8
  sx_lbt_conf :: lgw_conf_lbt_s

record sx1261_config_t =
  sc_sx1261 :: lgw_conf_sx1261_s
  sc_spectralScan :: spectral_scan_t
  sc_lbt :: lgw_conf_lbt_s

datatype lgw_com_type_t = LGW_COM_SPI | LGW_COM_USB | LGW_COM_UNKNOWN

record lgw_conf_board_s =
  bc_lorawan_public :: bool
  bc_clksrc :: u8
  bc_full_duplex :: bool
  bc_com_type :: lgw_com_type_t
  bc_com_path :: bytes

datatype lgw_ftime_mode_t = LGW_FTIME_MODE_HIGH_CAPACITY | LGW_FTIME_MODE_ALL_SF

record lgw_conf_ftime_s =
  ft_enable :: bool
  ft_mode :: lgw_ftime_mode_t

datatype lgw_radio_type_t =
    LGW_RADIO_TYPE_NONE
  | LGW_RADIO_TYPE_SX1255
  | LGW_RADIO_TYPE_SX1257
  | LGW_RADIO_TYPE_SX1272
  | LGW_RADIO_TYPE_SX1276
  | LGW_RADIO_TYPE_SX1250

record lgw_rssi_tcomp_s =
  tc_coeff_a :: u32
  tc_coeff_b :: u32
  tc_coeff_c :: u32
  tc_coeff_d :: u32
  tc_coeff_e :: u32

record lgw_conf_rxrf_s =
  rf_enable :: bool
  rf_freq_hz :: u32
  rf_rssi_offset :: u32
  rf_rssi_tcomp :: lgw_rssi_tcomp_s
  rf_type :: lgw_radio_type_t
  rf_tx_enable :: bool
  rf_single_input_mode :: bool

record lgw_tx_gain_s =
  tg_rf_power :: u8
  tg_dig_gain :: u8
  tg_pa_gain :: u8
  tg_dac_gain :: u8
  tg_mix_gain :: u8
  tg_offset_i :: u8
  tg_offset_q :: u8
  tg_pwr_idx :: u8

record lgw_tx_gain_lut_s =
  tl_lut :: "lgw_tx_gain_s list"
  tl_size :: u8

record lgw_conf_rxif_s =
  if_enable :: bool
  if_rf_chain :: u8
  if_freq_hz :: u32
  if_bandwidth :: u8
  if_datarate :: u32
  if_sync_word_size :: u8
  if_sync_word :: u64
  if_implicit_hdr :: bool
  if_implicit_payload_length :: u8
  if_implicit_crc_en :: bool
  if_implicit_coderate :: u8

text \<open>\<open>sx130x_config_t\<close>; what it has for each of the two radios stands together.\<close>

record radio_config =
  rc_rfConf :: lgw_conf_rxrf_s
  rc_tx_freq_min :: u32
  rc_tx_freq_max :: u32
  rc_txLut :: lgw_tx_gain_lut_s

record sx130x_config_t =
  s3_boardConf :: lgw_conf_board_s
  s3_antennaGain :: u8
  s3_tsConf :: lgw_conf_ftime_s
  s3_radios :: "radio_config list"
  s3_ifConfs :: "lgw_conf_rxif_s list"
  s3_ifStdConf :: lgw_conf_rxif_s
  s3_ifFSKConf :: lgw_conf_rxif_s
  s3_multisf_datarate :: u8

record GatewaySX130xConfig =
  gx_sx1261Config :: sx1261_config_t
  gx_value :: sx130x_config_t

text \<open>\<open>gateway_t\<close> and the two strings beside it; \<open>timeval\<close> has 64-bit members.\<close>

record GatewayGatewayConfig =
  gw_gatewayId :: u64
  gw_serverPortUp :: u16
  gw_serverPortDown :: u16
  gw_keepaliveInterval :: u32
  gw_statInterval :: u32
  gw_push_sec :: int
  gw_push_usec :: int
  gw_forwardCRCValid :: bool
  gw_forwardCRCError :: bool
  gw_forwardCRCDisabled :: bool
  gw_gpsEnabled :: bool
  gw_lat :: u64
  gw_lon :: u64
  gw_alt :: u16
  gw_fakeGPS :: bool
  gw_beaconPeriod :: u32
  gw_beaconFreqHz :: u32
  gw_beaconFreqNb :: u8
  gw_beaconFreqStep :: u32
  gw_beaconDataRate :: u8
  gw_beaconBandwidthHz :: u32
  gw_beaconPower :: u8
  gw_beaconInfoDesc :: u8
  gw_autoQuitThreshold :: u32
  gw_serverAddr :: string
  gw_gpsTtyPath :: string

record conf_ref_payload_s =
  rp_id :: u32
  rp_payload :: bytes
  rp_prev_cnt :: u32

record GatewayDebugConfig =
  db_nb_ref_payload :: u8
  db_ref_payload :: "conf_ref_payload_s list"
  db_log_file_name :: bytes

record GatewayConfigFileJson =
  gf_sx130xConf :: GatewaySX130xConfig
  gf_gatewayConf :: GatewayGatewayConfig
  gf_debugConf :: GatewayDebugConfig

section \<open>Members of a document\<close>

text \<open>
  \<open>find\<close>, the comparison with \<open>end\<close> and the test of the type, then the conversion.  A number
  without sign is also an integer.
\<close>

definition read_boolean :: "string \<Rightarrow> (bool \<Rightarrow> 's \<Rightarrow> 's) \<Rightarrow> json \<Rightarrow> 's \<Rightarrow> 's" where
  "read_boolean k f j s = (case json_member k j of Some (J_boolean b) \<Rightarrow> f b s | _ \<Rightarrow> s)"

definition read_unsigned :: "string \<Rightarrow> (nat \<Rightarrow> 's \<Rightarrow> 's) \<Rightarrow> json \<Rightarrow> 's \<Rightarrow> 's" where
  "read_unsigned k f j s = (case json_member k j of Some (J_unsigned n) \<Rightarrow> f n s | _ \<Rightarrow> s)"

definition read_integer :: "string \<Rightarrow> (int \<Rightarrow> 's \<Rightarrow> 's) \<Rightarrow> json \<Rightarrow> 's \<Rightarrow> 's" where
  "read_integer k f j s =
    (case json_member k j of Some (J_unsigned n) \<Rightarrow> f (int n) s | Some (J_integer i) \<Rightarrow> f i s | _ \<Rightarrow> s)"

definition read_string :: "string \<Rightarrow> (string \<Rightarrow> 's \<Rightarrow> 's) \<Rightarrow> json \<Rightarrow> 's \<Rightarrow> 's" where
  "read_string k f j s = (case json_member k j of Some (J_string t) \<Rightarrow> f t s | _ \<Rightarrow> s)"

definition has_member :: "string \<Rightarrow> json \<Rightarrow> bool" where
  "has_member k j \<longleftrightarrow> json_member k j \<noteq> None"

definition read_object :: "string \<Rightarrow> (json \<Rightarrow> 's \<Rightarrow> 's) \<Rightarrow> json \<Rightarrow> 's \<Rightarrow> 's" where
  "read_object k f j s = (case json_member k j of Some (J_object ms) \<Rightarrow> f (J_object ms) s | _ \<Rightarrow> s)"

text \<open>A text shorter than the array of \<open>n\<close> characters, copied with \<open>strncpy\<close>.\<close>

definition put_path :: "nat \<Rightarrow> string \<Rightarrow> bytes \<Rightarrow> bytes" where
  "put_path n s p = (if length s < n then (strncpy p (text_bytes s) n)[length s := 0] else p)"

definition path_text :: "bytes \<Rightarrow> string" where
  "path_text p = bytes_text (c_str p)"

definition hz2bandwidth :: "u32 \<Rightarrow> u8" where
  "hz2bandwidth bw = (if bw = 500000 then 6 else if bw = 250000 then 5 else if bw = 125000 then 4 else 0)"

definition bandwidthIndex2hz :: "u8 \<Rightarrow> int" where
  "bandwidthIndex2hz i =
    (if i = 6 then 500000 else if i = 5 then 250000 else if i = 4 then 125000 else if i = 3 then 62000
     else if i = 2 then 41000 else if i = 1 then 31000 else if i = 0 then 20000 else 15000)"

section \<open>GatewaySX1261Config\<close>

definition lbt_zero :: lgw_conf_lbt_s where
  "lbt_zero = \<lparr>lbt_enable = False, lbt_rssi_target = 0, lbt_nb_channel = 0, lbt_channels =
    replicate 16 \<lparr>lc_freq_hz = 0, lc_bandwidth = 0, lc_scan_time_us = 0, lc_transmit_time_ms = 0\<rparr>\<rparr>"

definition GatewaySX1261Config_reset :: sx1261_config_t where
  "GatewaySX1261Config_reset =
    \<lparr>sc_sx1261 = \<lparr>sx_enable = False, sx_spi_path = replicate 64 0, sx_rssi_offset = 0, sx_lbt_conf = lbt_zero\<rparr>,
     sc_spectralScan = \<lparr>ss_enable = False, ss_freq_hz_start = 0, ss_nb_chan = 0, ss_nb_scan = 0, ss_pace_s = 0\<rparr>,
     sc_lbt = lbt_zero\<rparr>"

definition GatewaySX1261Config_eq :: "sx1261_config_t \<Rightarrow> sx1261_config_t \<Rightarrow> bool" where
  "GatewaySX1261Config_eq a b \<longleftrightarrow>
    lbt_nb_channel (sc_lbt a) = lbt_nb_channel (sc_lbt b) \<and> sc_sx1261 a = sc_sx1261 b \<and>
    sc_spectralScan a = sc_spectralScan b \<and>
    take (unat (lbt_nb_channel (sc_lbt a))) (lbt_channels (sc_lbt a)) =
    take (unat (lbt_nb_channel (sc_lbt a))) (lbt_channels (sc_lbt b))"

definition parse_spectral_scan :: "json \<Rightarrow> sx1261_config_t \<Rightarrow> sx1261_config_t" where
  "parse_spectral_scan j c =
    (if has_member ''enable'' j then
       let s = read_boolean ''enable'' (\<lambda>b s. s\<lparr>ss_enable := b\<rparr>) j (sc_spectralScan c);
           x = (if ss_enable s then (sc_sx1261 c)\<lparr>sx_enable := True\<rparr> else sc_sx1261 c);
           s = read_unsigned ''freq_start'' (\<lambda>n s. s\<lparr>ss_freq_hz_start := of_nat n\<rparr>) j s;
           s = read_unsigned ''nb_chan'' (\<lambda>n s. s\<lparr>ss_nb_chan := of_nat n\<rparr>) j s;
           s = read_unsigned ''nb_scan'' (\<lambda>n s. s\<lparr>ss_nb_scan := of_nat n\<rparr>) j s;
           s = read_unsigned ''pace_s'' (\<lambda>n s. s\<lparr>ss_pace_s := of_nat n\<rparr>) j s
       in c\<lparr>sc_sx1261 := x, sc_spectralScan := s\<rparr>
     else c)"

text \<open>
  The iterator of \<open>enable\<close> in the section is compared with the end of the object \<open>lbt\<close>, which
  throws: nothing behind that is reached.
\<close>

definition GatewaySX1261Config_parse :: "json \<Rightarrow> sx1261_config_t \<Rightarrow> failure + sx1261_config_t" where
  "GatewaySX1261Config_parse j c =
    (let x = sc_sx1261 c;
         x = read_boolean ''enable'' (\<lambda>b x. x\<lparr>sx_enable := b\<rparr>) j x;
         x = read_string ''spi_path'' (\<lambda>s x. x\<lparr>sx_spi_path := put_path 64 s (sx_spi_path x)\<rparr>) j x;
         x = read_integer ''rssi_offset'' (\<lambda>i x. x\<lparr>sx_rssi_offset := word_of_int i\<rparr>) j x;
         c = read_object ''spectral_scan'' parse_spectral_scan j (c\<lparr>sc_sx1261 := x\<rparr>)
     in case json_member ''lbt'' j of
          Some (J_object _) \<Rightarrow> Inl Exc_invalid_iterator
        | _ \<Rightarrow> Inr c)"

text \<open>An array that nothing was pushed to is \<open>null\<close>.\<close>

definition pushed :: "json list \<Rightarrow> json" where
  "pushed js = (if js = [] then J_null else J_array js)"

definition lbt_channel_json :: "lgw_conf_chan_lbt_s \<Rightarrow> json" where
  "lbt_channel_json c = J_object
    [(''freq_hz'', J_unsigned (unat (lc_freq_hz c))),
     (''bandwidth'', J_integer (bandwidthIndex2hz (lc_bandwidth c))),
     (''scan_time_us'', J_unsigned (unat (lc_scan_time_us c))),
     (''transmit_time_ms'', J_unsigned (unat (lc_transmit_time_ms c)))]"

definition GatewaySX1261Config_toJSON :: "sx1261_config_t \<Rightarrow> json" where
  "GatewaySX1261Config_toJSON c = J_object
    [(''spi_path'', J_string (path_text (sx_spi_path (sc_sx1261 c)))),
     (''rssi_offset'', J_integer (sint (sx_rssi_offset (sc_sx1261 c)))),
     (''spectral_scan'', J_object
       [(''enable'', J_boolean (ss_enable (sc_spectralScan c))),
        (''freq_start'', J_unsigned (unat (ss_freq_hz_start (sc_spectralScan c)))),
        (''nb_chan'', J_unsigned (unat (ss_nb_chan (sc_spectralScan c)))),
        (''nb_scan'', J_unsigned (unat (ss_nb_scan (sc_spectralScan c)))),
        (''pace_s'', J_unsigned (unat (ss_pace_s (sc_spectralScan c))))]),
     (''lbt'', J_object
       [(''enable'', J_boolean (lbt_enable (sc_lbt c))),
        (''rssi_target'', J_integer (sint (lbt_rssi_target (sc_lbt c)))),
        (''channels'', pushed (map lbt_channel_json
          (take (unat (lbt_nb_channel (sc_lbt c))) (lbt_channels (sc_lbt c)))))])]"

section \<open>GatewaySX130xConfig\<close>

definition rxif_zero :: lgw_conf_rxif_s where
  "rxif_zero =
    \<lparr>if_enable = False, if_rf_chain = 0, if_freq_hz = 0, if_bandwidth = 0, if_datarate = 0,
     if_sync_word_size = 0, if_sync_word = 0, if_implicit_hdr = False, if_implicit_payload_length = 0,
     if_implicit_crc_en = False, if_implicit_coderate = 0\<rparr>"

definition tx_gain_zero :: lgw_tx_gain_s where
  "tx_gain_zero = \<lparr>tg_rf_power = 0, tg_dig_gain = 0, tg_pa_gain = 0, tg_dac_gain = 0, tg_mix_gain = 0,
    tg_offset_i = 0, tg_offset_q = 0, tg_pwr_idx = 0\<rparr>"

definition radio_zero :: radio_config where
  "radio_zero =
    \<lparr>rc_rfConf = \<lparr>rf_enable = False, rf_freq_hz = 0, rf_rssi_offset = 0,
       rf_rssi_tcomp = \<lparr>tc_coeff_a = 0, tc_coeff_b = 0, tc_coeff_c = 0, tc_coeff_d = 0, tc_coeff_e = 0\<rparr>,
       rf_type = LGW_RADIO_TYPE_NONE, rf_tx_enable = False, rf_single_input_mode = False\<rparr>,
     rc_tx_freq_min = 0, rc_tx_freq_max = 0,
     rc_txLut = \<lparr>tl_lut = replicate 16 tx_gain_zero, tl_size = 0\<rparr>\<rparr>"

definition GatewaySX130xConfig_reset :: GatewaySX130xConfig where
  "GatewaySX130xConfig_reset =
    \<lparr>gx_sx1261Config = GatewaySX1261Config_reset,
     gx_value = \<lparr>s3_boardConf = \<lparr>bc_lorawan_public = False, bc_clksrc = 0, bc_full_duplex = False,
         bc_com_type = LGW_COM_SPI, bc_com_path = replicate 64 0\<rparr>,
       s3_antennaGain = 0, s3_tsConf = \<lparr>ft_enable = False, ft_mode = LGW_FTIME_MODE_HIGH_CAPACITY\<rparr>,
       s3_radios = replicate 2 radio_zero, s3_ifConfs = replicate 8 rxif_zero,
       s3_ifStdConf = rxif_zero, s3_ifFSKConf = rxif_zero, s3_multisf_datarate = 0\<rparr>\<rparr>"

definition GatewaySX130xConfig_eq :: "GatewaySX130xConfig \<Rightarrow> GatewaySX130xConfig \<Rightarrow> bool" where
  "GatewaySX130xConfig_eq a b \<longleftrightarrow>
    (let x = gx_value a; y = gx_value b; p = s3_boardConf x; q = s3_boardConf y
     in s3_radios x = s3_radios y \<and> s3_ifConfs x = s3_ifConfs y \<and>
       GatewaySX1261Config_eq (gx_sx1261Config a) (gx_sx1261Config b) \<and>
       s3_antennaGain x = s3_antennaGain y \<and> bc_lorawan_public p = bc_lorawan_public q \<and>
       bc_clksrc p = bc_clksrc q \<and> bc_full_duplex p = bc_full_duplex q \<and> bc_com_type p = bc_com_type q \<and>
       c_str (take 64 (bc_com_path p)) = c_str (take 64 (bc_com_path q)) \<and>
       s3_ifStdConf x = s3_ifStdConf y \<and> s3_ifFSKConf x = s3_ifFSKConf y \<and>
       s3_multisf_datarate x = s3_multisf_datarate y \<and> s3_tsConf x = s3_tsConf y)"

definition getUsbPath :: "GatewaySX130xConfig \<Rightarrow> string" where
  "getUsbPath c =
    (let p = bc_com_path (s3_boardConf (gx_value c))
     in if p ! 63 = 0 then path_text p else bytes_text (take 64 p))"

text \<open>A text shorter than the array is copied without its terminator.\<close>

definition setUsbPath :: "string \<Rightarrow> GatewaySX130xConfig \<Rightarrow> GatewaySX130xConfig" where
  "setUsbPath val c =
    (let sz = min (length val) 64; v = gx_value c; b = s3_boardConf v
     in c\<lparr>gx_value := v\<lparr>s3_boardConf := b\<lparr>bc_com_path := strncpy (bc_com_path b) (text_bytes val) sz\<rparr>\<rparr>\<rparr>)"

text \<open>A conversion of a number to \<open>float\<close>.\<close>

fun json_float :: "json \<Rightarrow> u32 option" where
  "json_float (J_unsigned n) = Some (int_float (int n))"
| "json_float (J_integer i) = Some (int_float i)"
| "json_float (J_float d) = Some (dbl_float d)"
| "json_float _ = None"

text \<open>The coefficients: a negative integer is neither unsigned nor a float.\<close>

definition read_coefficient :: "string \<Rightarrow> (u32 \<Rightarrow> 's \<Rightarrow> 's) \<Rightarrow> json \<Rightarrow> 's \<Rightarrow> 's" where
  "read_coefficient k f j s =
    (case json_member k j of
       Some (J_unsigned n) \<Rightarrow> f (int_float (int n)) s
     | Some (J_float d) \<Rightarrow> f (dbl_float d) s
     | _ \<Rightarrow> s)"

definition read_rssi_offset :: "json \<Rightarrow> lgw_conf_rxrf_s \<Rightarrow> lgw_conf_rxrf_s" where
  "read_rssi_offset j r =
    (case Option.bind (json_member ''rssi_offset'' j) json_float of
       None \<Rightarrow> r | Some f \<Rightarrow> r\<lparr>rf_rssi_offset := f\<rparr>)"

definition parse_rssi_tcomp :: "json \<Rightarrow> lgw_rssi_tcomp_s \<Rightarrow> lgw_rssi_tcomp_s" where
  "parse_rssi_tcomp j t =
    (let t = read_coefficient ''coeff_a'' (\<lambda>f t. t\<lparr>tc_coeff_a := f\<rparr>) j t;
         t = read_coefficient ''coeff_b'' (\<lambda>f t. t\<lparr>tc_coeff_b := f\<rparr>) j t;
         t = read_coefficient ''coeff_c'' (\<lambda>f t. t\<lparr>tc_coeff_c := f\<rparr>) j t;
         t = read_coefficient ''coeff_d'' (\<lambda>f t. t\<lparr>tc_coeff_d := f\<rparr>) j t
     in read_coefficient ''coeff_e'' (\<lambda>f t. t\<lparr>tc_coeff_e := f\<rparr>) j t)"

definition parse_tx_gain :: "json \<Rightarrow> lgw_tx_gain_s \<Rightarrow> lgw_tx_gain_s" where
  "parse_tx_gain j g =
    (let g = read_unsigned ''pwr_idx'' (\<lambda>n g. g\<lparr>tg_pwr_idx := of_nat n, tg_mix_gain := 5\<rparr>) j g;
         g = read_integer ''rf_power'' (\<lambda>i g. g\<lparr>tg_rf_power := word_of_int i\<rparr>) j g;
         g = read_unsigned ''pa_gain'' (\<lambda>n g. g\<lparr>tg_pa_gain := of_nat n\<rparr>) j g;
         g = read_unsigned ''dig_gain'' (\<lambda>n g. g\<lparr>tg_dig_gain := of_nat n\<rparr>) j g;
         g = read_unsigned ''dac_gain'' (\<lambda>n g. g\<lparr>tg_dac_gain := of_nat n\<rparr>) j g
     in read_unsigned ''mix_gain'' (\<lambda>n g. g\<lparr>tg_mix_gain := of_nat n\<rparr>) j g)"

fun parse_gains :: "nat \<Rightarrow> json list \<Rightarrow> lgw_tx_gain_s list \<Rightarrow> lgw_tx_gain_s list" where
  "parse_gains i [] lut = lut"
| "parse_gains i (j # js) lut =
    parse_gains (i + 1) js (if json_is_object j then lut[i := parse_tx_gain j (lut ! i)] else lut)"

definition radio_type_of :: "string \<Rightarrow> lgw_radio_type_t" where
  "radio_type_of s =
    (if s = ''SX1255'' then LGW_RADIO_TYPE_SX1255
     else if s = ''SX1257'' then LGW_RADIO_TYPE_SX1257
     else if s = ''SX1250'' then LGW_RADIO_TYPE_SX1250
     else LGW_RADIO_TYPE_NONE)"

definition parse_enabled_radio :: "json \<Rightarrow> radio_config \<Rightarrow> radio_config" where
  "parse_enabled_radio j c =
    (let r = rc_rfConf c;
         r = read_string ''type'' (\<lambda>s r. r\<lparr>rf_type := radio_type_of s\<rparr>) j r;
         r = read_unsigned ''freq'' (\<lambda>n r. r\<lparr>rf_freq_hz := of_nat n\<rparr>) j r;
         r = read_rssi_offset j r;
         r = read_object ''rssi_tcomp'' (\<lambda>t r. r\<lparr>rf_rssi_tcomp := parse_rssi_tcomp t (rf_rssi_tcomp r)\<rparr>) j r;
         r = read_boolean ''single_input_mode'' (\<lambda>b r. r\<lparr>rf_single_input_mode := b\<rparr>) j r;
         r = read_boolean ''tx_enable'' (\<lambda>b r. r\<lparr>rf_tx_enable := b\<rparr>) j r;
         c = c\<lparr>rc_rfConf := r\<rparr>;
         c = read_unsigned ''tx_freq_min'' (\<lambda>n c. c\<lparr>rc_tx_freq_min := of_nat n\<rparr>) j c;
         c = read_unsigned ''tx_freq_max'' (\<lambda>n c. c\<lparr>rc_tx_freq_max := of_nat n\<rparr>) j c
     in case json_member ''tx_gain_lut'' j of
          Some (J_array js) \<Rightarrow>
            c\<lparr>rc_txLut := \<lparr>tl_lut = parse_gains 0 (take 16 js) (tl_lut (rc_txLut c)),
                tl_size = of_nat (min (length js) 16)\<rparr>\<rparr>
        | _ \<Rightarrow> c)"

definition parse_radio :: "json \<Rightarrow> radio_config \<Rightarrow> radio_config" where
  "parse_radio j c =
    (if has_member ''enable'' j then
       let r = read_boolean ''enable'' (\<lambda>b r. r\<lparr>rf_enable := b\<rparr>) j (rc_rfConf c);
           c = c\<lparr>rc_rfConf := r\<lparr>rf_type := LGW_RADIO_TYPE_NONE\<rparr>\<rparr>
       in if rf_enable r then parse_enabled_radio j c else c
     else c)"

text \<open>
  \<open>uint8_t n = ...\<close> takes any number or truth value; a \<open>double\<close> that is no value of
  \<open>uint8_t\<close> has none.  The shift is defined for 0 to 31 places.
\<close>

fun json_uint8 :: "json \<Rightarrow> failure + u8" where
  "json_uint8 (J_unsigned n) = Inr (of_nat n)"
| "json_uint8 (J_integer i) = Inr (word_of_int i)"
| "json_uint8 (J_float d) =
    (if 0 \<le> dbl_trunc d \<and> dbl_trunc d < 256 then Inr (word_of_int (dbl_trunc d)) else Inl Undefined)"
| "json_uint8 (J_boolean b) = Inr (of_bool b)"
| "json_uint8 _ = Inl Exc_type_error"

fun parse_factors :: "json list \<Rightarrow> u8 \<Rightarrow> failure + u8" where
  "parse_factors [] m = Inr m"
| "parse_factors (j # js) m =
    (case json_uint8 j of
       Inl e \<Rightarrow> Inl e
     | Inr n \<Rightarrow>
         if n < 5 \<or> n > 36 then Inl Undefined
         else parse_factors js (m OR push_bit (unat n - 5) 1))"

definition parse_demod :: "json \<Rightarrow> failure + u8" where
  "parse_demod j =
    (case Option.bind (json_member ''chan_multiSF_All'' j) (json_member ''spreading_factor_enable'') of
       Some (J_array js) \<Rightarrow> parse_factors js 0
     | _ \<Rightarrow> Inr 0xff)"

definition parse_multi_channel :: "json \<Rightarrow> lgw_conf_rxif_s \<Rightarrow> lgw_conf_rxif_s" where
  "parse_multi_channel j c =
    (if has_member ''enable'' j then
       let c = read_boolean ''enable'' (\<lambda>b c. c\<lparr>if_enable := b\<rparr>) j c;
           c = read_unsigned ''radio'' (\<lambda>n c. c\<lparr>if_rf_chain := of_nat n\<rparr>) j c
       in read_integer ''if'' (\<lambda>i c. c\<lparr>if_freq_hz := word_of_int i\<rparr>) j c
     else c)"

text \<open>
  The coding rate: when the document has one, the member \<open>implicit_crc_en\<close> is looked at
  instead, and when there is none the iterator is that of the end.
\<close>

definition parse_std_channel :: "json \<Rightarrow> lgw_conf_rxif_s \<Rightarrow> failure + lgw_conf_rxif_s" where
  "parse_std_channel j c =
    (if has_member ''enable'' j then
       let c = read_boolean ''enable'' (\<lambda>b c. c\<lparr>if_enable := b\<rparr>) j c;
           c = read_unsigned ''radio'' (\<lambda>n c. c\<lparr>if_rf_chain := of_nat n\<rparr>) j c;
           c = read_integer ''if'' (\<lambda>i c. c\<lparr>if_freq_hz := word_of_int i\<rparr>) j c;
           c = read_unsigned ''bandwidth'' (\<lambda>n c. c\<lparr>if_bandwidth := hz2bandwidth (of_nat n)\<rparr>) j c;
           c = read_unsigned ''spread_factor'' (\<lambda>n c. c\<lparr>if_datarate := of_nat n\<rparr>) j c
       in if has_member ''implicit_hdr'' j then
            let c = read_boolean ''implicit_hdr'' (\<lambda>b c. c\<lparr>if_implicit_hdr := b\<rparr>) j c;
                c = read_unsigned ''implicit_payload_length''
                  (\<lambda>n c. c\<lparr>if_implicit_payload_length := of_nat n\<rparr>) j c;
                c = read_boolean ''implicit_crc_en'' (\<lambda>b c. c\<lparr>if_implicit_crc_en := b\<rparr>) j c
            in if has_member ''implicit_coderate'' j then
                 if has_member ''implicit_crc_en'' j
                 then Inr (read_unsigned ''implicit_crc_en'' (\<lambda>n c. c\<lparr>if_implicit_coderate := of_nat n\<rparr>) j c)
                 else Inl Undefined
               else Inr c
          else Inr c
     else Inr c)"

definition fsk_bandwidth :: "u32 \<Rightarrow> u8" where
  "fsk_bandwidth bw =
    (if bw = 0 then 0 else if bw \<le> 125000 then 4 else if bw \<le> 250000 then 5
     else if bw \<le> 500000 then 6 else 0)"

definition parse_fsk_channel :: "json \<Rightarrow> lgw_conf_rxif_s \<Rightarrow> lgw_conf_rxif_s" where
  "parse_fsk_channel j c =
    (if has_member ''enable'' j then
       let c = read_boolean ''enable'' (\<lambda>b c. c\<lparr>if_enable := b\<rparr>) j c;
           c = read_integer ''radio'' (\<lambda>i c. c\<lparr>if_rf_chain := word_of_int i\<rparr>) j c;
           c = read_unsigned ''if'' (\<lambda>n c. c\<lparr>if_freq_hz := of_nat n\<rparr>) j c;
           bw = read_unsigned ''bandwidth'' (\<lambda>n _. of_nat n) j 0;
           deviation = read_unsigned ''freq_deviation'' (\<lambda>n _. of_nat n) j 0;
           c = read_unsigned ''datarate'' (\<lambda>n c. c\<lparr>if_datarate := of_nat n\<rparr>) j c;
           bw = (if bw = 0 \<and> deviation \<noteq> 0 then 2 * deviation + if_datarate c else bw)
       in c\<lparr>if_bandwidth := fsk_bandwidth bw\<rparr>
     else c)"

definition parse_ftime :: "json \<Rightarrow> lgw_conf_ftime_s \<Rightarrow> lgw_conf_ftime_s" where
  "parse_ftime j t =
    (if has_member ''enable'' j then
       let t = read_boolean ''enable'' (\<lambda>b t. t\<lparr>ft_enable := b\<rparr>) j t;
           t = t\<lparr>ft_mode := LGW_FTIME_MODE_HIGH_CAPACITY\<rparr>
       in if ft_enable t then
            read_string ''mode'' (\<lambda>s t. if s = ''all_sf'' \<or> s = ''ALL_SF''
              then t\<lparr>ft_mode := LGW_FTIME_MODE_ALL_SF\<rparr>
              else if s = ''high_capacity'' \<or> s = ''HIGH_CAPACITY''
              then t\<lparr>ft_mode := LGW_FTIME_MODE_HIGH_CAPACITY\<rparr> else t) j t
          else t
     else t)"

definition parse_board :: "json \<Rightarrow> lgw_conf_board_s \<Rightarrow> lgw_conf_board_s" where
  "parse_board j b =
    (let b = read_string ''com_path'' (\<lambda>s b. b\<lparr>bc_com_path := put_path 64 s (bc_com_path b)\<rparr>) j b;
         b = read_boolean ''lorawan_public'' (\<lambda>x b. b\<lparr>bc_lorawan_public := x\<rparr>) j b;
         b = read_unsigned ''clksrc'' (\<lambda>n b. b\<lparr>bc_clksrc := of_nat n\<rparr>) j b
     in read_boolean ''full_duplex'' (\<lambda>x b. b\<lparr>bc_full_duplex := x\<rparr>) j b)"

definition com_type_of :: "string \<Rightarrow> lgw_com_type_t" where
  "com_type_of s =
    (if s = ''SPI'' \<or> s = ''spi'' then LGW_COM_SPI
     else if s = ''USB'' \<or> s = ''usb'' then LGW_COM_USB else LGW_COM_UNKNOWN)"

text \<open>The members named by an index, \<open>radio_0\<close> and so on.\<close>

fun parse_indexed :: "string \<Rightarrow> (json \<Rightarrow> 's \<Rightarrow> 's) \<Rightarrow> json \<Rightarrow> nat \<Rightarrow> 's list \<Rightarrow> 's list" where
  "parse_indexed k f j i [] = []"
| "parse_indexed k f j i (s # ss) = read_object (k @ [digit_char i]) f j s # parse_indexed k f j (i + 1) ss"

definition GatewaySX130xConfig_parse :: "json \<Rightarrow> failure + code \<times> GatewaySX130xConfig" where
  "GatewaySX130xConfig_parse j =
    (let c = GatewaySX130xConfig_reset
     in case (case json_member ''sx1261_conf'' j of
                None \<Rightarrow> Inr (gx_sx1261Config c)
              | Some x \<Rightarrow> GatewaySX1261Config_parse x (gx_sx1261Config c)) of
          Inl e \<Rightarrow> Inl e
        | Inr x \<Rightarrow>
           (let c = c\<lparr>gx_sx1261Config := x\<rparr>;
                v = gx_value c;
                com = read_string ''com_type'' (\<lambda>s _. com_type_of s) j LGW_COM_UNKNOWN;
                v = v\<lparr>s3_boardConf := (s3_boardConf v)\<lparr>bc_com_type := com\<rparr>\<rparr>
            in if com = LGW_COM_UNKNOWN then Inr (ERR_CODE_INVALID_JSON, c\<lparr>gx_value := v\<rparr>)
               else
                 let v = v\<lparr>s3_boardConf := parse_board j (s3_boardConf v)\<rparr>;
                     v = read_unsigned ''antenna_gain'' (\<lambda>n v. v\<lparr>s3_antennaGain := of_nat n\<rparr>) j v;
                     v = v\<lparr>s3_tsConf := read_object ''fine_timestamp'' parse_ftime j (s3_tsConf v),
                         s3_radios := parse_indexed ''radio_'' parse_radio j 0 (s3_radios v)\<rparr>
                 in case parse_demod j of
                      Inl e \<Rightarrow> Inl e
                    | Inr m \<Rightarrow>
                       (let v = v\<lparr>s3_multisf_datarate := m,
                              s3_ifConfs := parse_indexed ''chan_multiSF_'' parse_multi_channel j 0 (s3_ifConfs v)\<rparr>;
                            std = (s3_ifStdConf v)\<lparr>if_enable := False\<rparr>
                        in case (case json_member ''chan_Lora_std'' j of
                                   Some (J_object ms) \<Rightarrow> parse_std_channel (J_object ms) std
                                 | _ \<Rightarrow> Inr std) of
                             Inl e \<Rightarrow> Inl e
                           | Inr std \<Rightarrow>
                               Inr (CODE_OK, c\<lparr>gx_value := v\<lparr>s3_ifStdConf := std,
                                 s3_ifFSKConf := read_object ''chan_FSK'' parse_fsk_channel j
                                   ((s3_ifFSKConf v)\<lparr>if_enable := False\<rparr>)\<rparr>\<rparr>))))"

text \<open>The \<open>double\<close> of a \<open>float\<close>, which is exact.\<close>

definition float_dbl :: "u32 \<Rightarrow> u64" where
  "float_dbl f =
    (let e = unat (drop_bit 23 f AND 0xff); m = unat (f AND 0x7fffff); l = bit_length m;
         b = (if e = 255 then 0x7ff * 2 ^ 52 + m * 2 ^ 29
              else if e > 0 then (e + 896) * 2 ^ 52 + m * 2 ^ 29
              else if m = 0 then 0
              else (l + 873) * 2 ^ 52 + m * 2 ^ (53 - l))
     in (if bit f 31 then 0x8000000000000000 else 0) OR of_nat b)"

definition lgw_com_type_t2string :: "lgw_com_type_t \<Rightarrow> string" where
  "lgw_com_type_t2string t =
    (case t of LGW_COM_SPI \<Rightarrow> ''SPI'' | LGW_COM_USB \<Rightarrow> ''USB'' | LGW_COM_UNKNOWN \<Rightarrow> ''unknown'')"

definition lgw_ftime_mode_t2string :: "lgw_ftime_mode_t \<Rightarrow> string" where
  "lgw_ftime_mode_t2string m =
    (case m of LGW_FTIME_MODE_HIGH_CAPACITY \<Rightarrow> ''high_capacity'' | LGW_FTIME_MODE_ALL_SF \<Rightarrow> ''all_sf'')"

definition lgw_radio_type_t2string :: "lgw_radio_type_t \<Rightarrow> string" where
  "lgw_radio_type_t2string t =
    (case t of
       LGW_RADIO_TYPE_SX1255 \<Rightarrow> ''SX1255'' | LGW_RADIO_TYPE_SX1257 \<Rightarrow> ''SX1257''
     | LGW_RADIO_TYPE_SX1272 \<Rightarrow> ''SX1272'' | LGW_RADIO_TYPE_SX1276 \<Rightarrow> ''SX1276''
     | LGW_RADIO_TYPE_SX1250 \<Rightarrow> ''SX1250'' | LGW_RADIO_TYPE_NONE \<Rightarrow> ''none'')"

definition tx_gain_json :: "lgw_tx_gain_s \<Rightarrow> json" where
  "tx_gain_json g = J_object
    [(''rf_power'', J_integer (sint (tg_rf_power g))), (''pa_gain'', J_unsigned (unat (tg_pa_gain g))),
     (''pwr_idx'', J_unsigned (unat (tg_pwr_idx g))), (''dig_gain'', J_unsigned (unat (tg_dig_gain g))),
     (''dac_gain'', J_unsigned (unat (tg_dac_gain g))), (''mix_gain'', J_unsigned (unat (tg_mix_gain g)))]"

definition radio_json :: "radio_config \<Rightarrow> json" where
  "radio_json c =
    (let r = rc_rfConf c; t = rf_rssi_tcomp r
     in J_object
      [(''enable'', J_boolean (rf_enable r)),
       (''type'', J_string (lgw_radio_type_t2string (rf_type r))),
       (''freq'', J_unsigned (unat (rf_freq_hz r))),
       (''rssi_offset'', J_float (float_dbl (rf_rssi_offset r))),
       (''rssi_tcomp'', J_object
         [(''coeff_a'', J_float (float_dbl (tc_coeff_a t))), (''coeff_b'', J_float (float_dbl (tc_coeff_b t))),
          (''coeff_c'', J_float (float_dbl (tc_coeff_c t))), (''coeff_d'', J_float (float_dbl (tc_coeff_d t))),
          (''coeff_e'', J_float (float_dbl (tc_coeff_e t)))]),
       (''tx_enable'', J_boolean (rf_tx_enable r)),
       (''single_input_mode'', J_boolean (rf_single_input_mode r)),
       (''tx_freq_min'', J_unsigned (unat (rc_tx_freq_min c))),
       (''tx_freq_max'', J_unsigned (unat (rc_tx_freq_max c))),
       (''tx_gain_lut'', pushed (map tx_gain_json
         (take (unat (tl_size (rc_txLut c))) (tl_lut (rc_txLut c)))))])"

definition factors_json :: "u8 \<Rightarrow> json" where
  "factors_json m = J_object [(''spreading_factor_enable'',
    pushed (map (\<lambda>n. J_integer (int n + 5)) (filter (bit m) [0..<8])))]"

definition multi_channel_json :: "lgw_conf_rxif_s \<Rightarrow> json" where
  "multi_channel_json c = J_object
    [(''enable'', J_boolean (if_enable c)), (''radio'', J_unsigned (unat (if_rf_chain c))),
     (''if'', J_integer (sint (if_freq_hz c)))]"

definition std_channel_json :: "lgw_conf_rxif_s \<Rightarrow> json" where
  "std_channel_json c = J_object
    [(''enable'', J_boolean (if_enable c)), (''radio'', J_unsigned (unat (if_rf_chain c))),
     (''if'', J_integer (sint (if_freq_hz c))),
     (''bandwidth'', J_integer (bandwidthIndex2hz (if_bandwidth c))),
     (''spread_factor'', J_unsigned (unat (if_datarate c))),
     (''implicit_hdr'', J_boolean (if_implicit_hdr c)),
     (''implicit_payload_length'', J_unsigned (unat (if_implicit_payload_length c))),
     (''implicit_crc_en'', J_boolean (if_implicit_crc_en c)),
     (''implicit_coderate'', J_unsigned (unat (if_implicit_coderate c)))]"

definition fsk_channel_json :: "lgw_conf_rxif_s \<Rightarrow> json" where
  "fsk_channel_json c = J_object
    [(''enable'', J_boolean (if_enable c)), (''radio'', J_unsigned (unat (if_rf_chain c))),
     (''if'', J_integer (sint (if_freq_hz c))),
     (''bandwidth'', J_integer (bandwidthIndex2hz (if_bandwidth c))),
     (''datarate'', J_unsigned (unat (if_datarate c)))]"

fun indexed :: "string \<Rightarrow> nat \<Rightarrow> json list \<Rightarrow> (string \<times> json) list" where
  "indexed k i [] = []"
| "indexed k i (j # js) = (k @ [digit_char i], j) # indexed k (i + 1) js"

definition GatewaySX130xConfig_toJSON :: "GatewaySX130xConfig \<Rightarrow> json" where
  "GatewaySX130xConfig_toJSON c =
    (let v = gx_value c; b = s3_boardConf v
     in J_object (
      [(''sx1261_conf'', GatewaySX1261Config_toJSON (gx_sx1261Config c)),
       (''com_type'', J_string (lgw_com_type_t2string (bc_com_type b))),
       (''com_path'', J_string (path_text (bc_com_path b))),
       (''lorawan_public'', J_boolean (bc_lorawan_public b)),
       (''clksrc'', J_unsigned (unat (bc_clksrc b))),
       (''antenna_gain'', J_integer (sint (s3_antennaGain v))),
       (''full_duplex'', J_boolean (bc_full_duplex b)),
       (''fine_timestamp'', J_object
         [(''enable'', J_boolean (ft_enable (s3_tsConf v))),
          (''mode'', J_string (lgw_ftime_mode_t2string (ft_mode (s3_tsConf v))))])] @
      indexed ''radio_'' 0 (map radio_json (s3_radios v)) @
      indexed ''chan_multiSF_'' 0 (map multi_channel_json (s3_ifConfs v)) @
      [(''chan_multiSF_All'', factors_json (s3_multisf_datarate v)),
       (''chan_Lora_std'', std_channel_json (s3_ifStdConf v)),
       (''chan_FSK'', fsk_channel_json (s3_ifFSKConf v))]))"

section \<open>GatewayGatewayConfig\<close>

text \<open>\<open>std::stoull\<close>: it throws without digits and beyond the range.  In base 0 the prefix says
  the base.\<close>

definition stoull_digits :: "nat \<Rightarrow> bool \<Rightarrow> string \<Rightarrow> failure + u64" where
  "stoull_digits b neg t =
    (let ds = takeWhile (\<lambda>c. digit_value c < b) t; v = number_value b ds
     in if ds = [] then Inl Exc_invalid_argument
        else if v \<ge> 2 ^ 64 then Inl Exc_out_of_range
        else Inr (if neg then - of_nat v else of_nat v))"

definition stoull :: "nat \<Rightarrow> string \<Rightarrow> failure + u64" where
  "stoull b s =
    (let (neg, t) = strip_sign (dropWhile isspace (c_string s))
     in if b = 16 then stoull_digits 16 neg (strip_0x t)
        else if b = 0 then
          (if strip_0x t \<noteq> t then stoull_digits 16 neg (strip_0x t)
           else if t \<noteq> [] \<and> hd t = CHR ''0'' then stoull_digits 8 neg t
           else stoull_digits 10 neg t)
        else stoull_digits b neg t)"

text \<open>A conversion of an integer to \<open>double\<close>, and of a number to it.\<close>

definition int_dbl :: "int \<Rightarrow> u64" where
  "int_dbl i =
    (let n = nat \<bar>i\<bar>; l = bit_length n;
         r = (if l \<le> 53 then n * 2 ^ (53 - l) else round_half_even n (2 ^ (l - 53)));
         b = (if n = 0 then 0 else r + (l + 1021) * 2 ^ 52)
     in (if i < 0 then 0x8000000000000000 else 0) OR of_nat b)"

fun json_double :: "json \<Rightarrow> u64 option" where
  "json_double (J_unsigned n) = Some (int_dbl (int n))"
| "json_double (J_integer i) = Some (int_dbl i)"
| "json_double (J_float d) = Some d"
| "json_double _ = None"

definition read_double :: "string \<Rightarrow> (u64 \<Rightarrow> 's \<Rightarrow> 's) \<Rightarrow> json \<Rightarrow> 's \<Rightarrow> 's" where
  "read_double k f j s =
    (case Option.bind (json_member k j) json_double of None \<Rightarrow> s | Some d \<Rightarrow> f d s)"

text \<open>A number as \<open>short\<close>: what the conversion makes of a \<open>double\<close> out of range is not defined.\<close>

fun json_short :: "json \<Rightarrow> failure + u16" where
  "json_short (J_unsigned n) = Inr (of_nat n)"
| "json_short (J_integer i) = Inr (word_of_int i)"
| "json_short (J_float d) =
    (if - (2 ^ 15) \<le> dbl_trunc d \<and> dbl_trunc d < 2 ^ 15 then Inr (word_of_int (dbl_trunc d)) else Inl Undefined)"
| "json_short _ = Inl Exc_type_error"

definition is_number :: "json \<Rightarrow> bool" where
  "is_number j \<longleftrightarrow> json_double j \<noteq> None"

definition GatewayGatewayConfig_reset :: "GatewayGatewayConfig \<Rightarrow> GatewayGatewayConfig" where
  "GatewayGatewayConfig_reset g =
    g\<lparr>gw_gatewayId := 0, gw_serverPortUp := 0, gw_serverPortDown := 0, gw_keepaliveInterval := 0,
      gw_statInterval := 5, gw_forwardCRCValid := False, gw_forwardCRCError := False,
      gw_forwardCRCDisabled := False, gw_gpsEnabled := False, gw_fakeGPS := False, gw_beaconPeriod := 0,
      gw_beaconFreqHz := 869525000, gw_beaconFreqNb := 1, gw_beaconFreqStep := 0, gw_beaconDataRate := 9,
      gw_beaconBandwidthHz := 125000, gw_beaconPower := 14, gw_beaconInfoDesc := 0,
      gw_autoQuitThreshold := 0, gw_push_sec := 0, gw_push_usec := 0, gw_lat := 0, gw_lon := 0, gw_alt := 0\<rparr>"

text \<open>\<open>m * 500\<close> in \<open>int\<close>.\<close>

definition read_push_timeout :: "json \<Rightarrow> GatewayGatewayConfig \<Rightarrow> failure + GatewayGatewayConfig" where
  "read_push_timeout j g =
    (let m = read_integer ''push_timeout_ms'' (\<lambda>i _. Some (signed_take_bit 31 i)) j None
     in case m of
          None \<Rightarrow> Inr g
        | Some m \<Rightarrow>
            if m * 500 < - (2 ^ 31) \<or> 2 ^ 31 \<le> m * 500 then Inl Undefined
            else Inr (g\<lparr>gw_push_sec := 0, gw_push_usec := m * 500\<rparr>))"

definition read_altitude :: "json \<Rightarrow> GatewayGatewayConfig \<Rightarrow> failure + GatewayGatewayConfig" where
  "read_altitude j g =
    (case json_member ''ref_altitude'' j of
       None \<Rightarrow> Inr g
     | Some v \<Rightarrow> if is_number v then map_sum id (\<lambda>a. g\<lparr>gw_alt := a\<rparr>) (json_short v) else Inr g)"

definition read_gateway_id :: "json \<Rightarrow> GatewayGatewayConfig \<Rightarrow> failure + GatewayGatewayConfig" where
  "read_gateway_id j g =
    (case json_member ''gateway_ID'' j of
       Some (J_string s) \<Rightarrow> map_sum id (\<lambda>i. g\<lparr>gw_gatewayId := i\<rparr>) (stoull 16 s)
     | _ \<Rightarrow> Inr g)"

definition parse_server :: "json \<Rightarrow> GatewayGatewayConfig \<Rightarrow> GatewayGatewayConfig" where
  "parse_server j g =
    (let g = read_string ''server_address'' (\<lambda>s g. g\<lparr>gw_serverAddr := s\<rparr>) j g;
         g = read_unsigned ''serv_port_up'' (\<lambda>n g. g\<lparr>gw_serverPortUp := of_nat n\<rparr>) j g;
         g = read_unsigned ''serv_port_down'' (\<lambda>n g. g\<lparr>gw_serverPortDown := of_nat n\<rparr>) j g;
         g = read_integer ''keepalive_interval'' (\<lambda>i g. g\<lparr>gw_keepaliveInterval := word_of_int i\<rparr>) j
           (g\<lparr>gw_keepaliveInterval := 5\<rparr>)
     in read_integer ''stat_interval'' (\<lambda>i g. g\<lparr>gw_statInterval := word_of_int i\<rparr>) j g)"

definition parse_forward :: "json \<Rightarrow> GatewayGatewayConfig \<Rightarrow> GatewayGatewayConfig" where
  "parse_forward j g =
    (let g = read_boolean ''forward_crc_valid'' (\<lambda>b g. g\<lparr>gw_forwardCRCValid := b\<rparr>) j g;
         g = read_boolean ''forward_crc_error'' (\<lambda>b g. g\<lparr>gw_forwardCRCError := b\<rparr>) j g;
         g = read_boolean ''forward_crc_disabled'' (\<lambda>b g. g\<lparr>gw_forwardCRCDisabled := b\<rparr>) j g;
         g = read_string ''gps_tty_path'' (\<lambda>s g. g\<lparr>gw_gpsTtyPath := s, gw_gpsEnabled := s \<noteq> []\<rparr>) j g;
         g = read_double ''ref_latitude'' (\<lambda>d g. g\<lparr>gw_lat := d\<rparr>) j g
     in read_double ''ref_longitude'' (\<lambda>d g. g\<lparr>gw_lon := d\<rparr>) j g)"

definition parse_beacon :: "json \<Rightarrow> GatewayGatewayConfig \<Rightarrow> GatewayGatewayConfig" where
  "parse_beacon j g =
    (let g = read_boolean ''fake_gps'' (\<lambda>b g. g\<lparr>gw_fakeGPS := b\<rparr>) j g;
         g = read_integer ''beacon_period'' (\<lambda>i g. g\<lparr>gw_beaconPeriod := word_of_int i\<rparr>) j g;
         g = read_integer ''beacon_freq_hz'' (\<lambda>i g. g\<lparr>gw_beaconFreqHz := word_of_int i\<rparr>) j
           (g\<lparr>gw_beaconFreqHz := 869525000\<rparr>);
         g = read_integer ''beacon_freq_nb'' (\<lambda>i g. g\<lparr>gw_beaconFreqNb := word_of_int i\<rparr>) j
           (g\<lparr>gw_beaconFreqNb := 1\<rparr>);
         g = read_integer ''beacon_freq_step'' (\<lambda>i g. g\<lparr>gw_beaconFreqStep := word_of_int i\<rparr>) j g;
         g = read_integer ''beacon_datarate'' (\<lambda>i g. g\<lparr>gw_beaconDataRate := word_of_int i\<rparr>) j
           (g\<lparr>gw_beaconDataRate := 9\<rparr>);
         g = read_integer ''beacon_bw_hz'' (\<lambda>i g. g\<lparr>gw_beaconBandwidthHz := word_of_int i\<rparr>) j
           (g\<lparr>gw_beaconBandwidthHz := 125000\<rparr>);
         g = read_integer ''beacon_power'' (\<lambda>i g. g\<lparr>gw_beaconPower := word_of_int i\<rparr>) j
           (g\<lparr>gw_beaconPower := 14\<rparr>);
         g = read_integer ''beacon_infodesc'' (\<lambda>i g. g\<lparr>gw_beaconInfoDesc := word_of_int i\<rparr>) j g
     in read_integer ''autoquit_threshold'' (\<lambda>i g. g\<lparr>gw_autoQuitThreshold := word_of_int i\<rparr>) j g)"

definition GatewayGatewayConfig_parse ::
    "json \<Rightarrow> GatewayGatewayConfig \<Rightarrow> failure + code \<times> GatewayGatewayConfig" where
  "GatewayGatewayConfig_parse j g =
    (case read_gateway_id j (GatewayGatewayConfig_reset g) of
       Inl e \<Rightarrow> Inl e
     | Inr g \<Rightarrow>
        (case read_push_timeout j (parse_server j g) of
           Inl e \<Rightarrow> Inl e
         | Inr g \<Rightarrow>
            (case read_altitude j (parse_forward j g) of
               Inl e \<Rightarrow> Inl e
             | Inr g \<Rightarrow> Inr (CODE_OK, parse_beacon j g))))"

text \<open>\<open>tv_usec / 500\<close> is cut towards zero.\<close>

definition GatewayGatewayConfig_toJSON :: "GatewayGatewayConfig \<Rightarrow> json" where
  "GatewayGatewayConfig_toJSON g = J_object
    [(''gateway_ID'', J_string (pad 16 (CHR ''0'') (show_hex (unat (gw_gatewayId g))))),
     (''server_address'', J_string (gw_serverAddr g)),
     (''serv_port_up'', J_unsigned (unat (gw_serverPortUp g))),
     (''serv_port_down'', J_unsigned (unat (gw_serverPortDown g))),
     (''keepalive_interval'', J_unsigned (unat (gw_keepaliveInterval g))),
     (''stat_interval'', J_unsigned (unat (gw_statInterval g))),
     (''push_timeout_ms'', J_integer (sgn (gw_push_usec g) * (\<bar>gw_push_usec g\<bar> div 500))),
     (''forward_crc_valid'', J_boolean (gw_forwardCRCValid g)),
     (''forward_crc_error'', J_boolean (gw_forwardCRCError g)),
     (''forward_crc_disabled'', J_boolean (gw_forwardCRCDisabled g)),
     (''gps_tty_path'', J_string (gw_gpsTtyPath g)),
     (''ref_latitude'', J_float (gw_lat g)),
     (''ref_longitude'', J_float (gw_lon g)),
     (''ref_altitude'', J_integer (sint (gw_alt g))),
     (''fake_gps'', J_boolean (gw_fakeGPS g)),
     (''beacon_period'', J_unsigned (unat (gw_beaconPeriod g))),
     (''beacon_freq_hz'', J_unsigned (unat (gw_beaconFreqHz g))),
     (''beacon_freq_nb'', J_unsigned (unat (gw_beaconFreqNb g))),
     (''beacon_freq_step'', J_unsigned (unat (gw_beaconFreqStep g))),
     (''beacon_datarate'', J_unsigned (unat (gw_beaconDataRate g))),
     (''beacon_bw_hz'', J_unsigned (unat (gw_beaconBandwidthHz g))),
     (''beacon_power'', J_unsigned (unat (gw_beaconPower g))),
     (''beacon_infodesc'', J_unsigned (unat (gw_beaconInfoDesc g))),
     (''autoquit_threshold'', J_unsigned (unat (gw_autoQuitThreshold g)))]"

text \<open>Coordinates are the same when the machine's difference is below 0.00001; that comparison is
  a parameter.\<close>

definition GatewayGatewayConfig_eq ::
    "(u64 \<Rightarrow> u64 \<Rightarrow> bool) \<Rightarrow> GatewayGatewayConfig \<Rightarrow> GatewayGatewayConfig \<Rightarrow> bool" where
  "GatewayGatewayConfig_eq near a b \<longleftrightarrow>
    near (gw_lat a) (gw_lat b) \<and> near (gw_lon a) (gw_lon b) \<and>
    a = b\<lparr>gw_lat := gw_lat a, gw_lon := gw_lon a, gw_gpsEnabled := gw_gpsEnabled a\<rparr>"

section \<open>GatewayDebugConfig\<close>

definition ref_payload_zero :: conf_ref_payload_s where
  "ref_payload_zero = \<lparr>rp_id = 0, rp_payload = replicate 255 0, rp_prev_cnt = 0\<rparr>"

definition GatewayDebugConfig_reset :: GatewayDebugConfig where
  "GatewayDebugConfig_reset =
    \<lparr>db_nb_ref_payload = 0, db_ref_payload = replicate 16 ref_payload_zero, db_log_file_name = replicate 128 0\<rparr>"

fun parse_ref_payloads ::
    "nat \<Rightarrow> json list \<Rightarrow> conf_ref_payload_s list \<Rightarrow> failure + conf_ref_payload_s list" where
  "parse_ref_payloads i [] ps = Inr ps"
| "parse_ref_payloads i (j # js) ps =
    (case json_member ''id'' j of
       Some (J_string s) \<Rightarrow>
         (case stoull 0 s of
            Inl e \<Rightarrow> Inl e
          | Inr v \<Rightarrow> parse_ref_payloads (i + 1) js (ps[i := (ps ! i)\<lparr>rp_id := ucast v\<rparr>]))
     | _ \<Rightarrow> parse_ref_payloads (i + 1) js ps)"

text \<open>The number of elements is cut to a byte before it is compared with 16.\<close>

definition GatewayDebugConfig_parse :: "json \<Rightarrow> failure + code \<times> GatewayDebugConfig" where
  "GatewayDebugConfig_parse j =
    (let d = GatewayDebugConfig_reset;
         d = read_string ''log_file'' (\<lambda>s d. d\<lparr>db_log_file_name := put_path 128 s (db_log_file_name d)\<rparr>) j d
     in case json_member ''ref_payload'' j of
          Some (J_array js) \<Rightarrow>
            (let nb = of_nat (length js) :: u8; nb = (if nb > 16 then 16 else nb)
             in map_sum id (\<lambda>ps. (CODE_OK, d\<lparr>db_nb_ref_payload := nb, db_ref_payload := ps\<rparr>))
                  (parse_ref_payloads 0 (take (unat nb) js) (db_ref_payload d)))
        | _ \<Rightarrow> Inr (CODE_OK, d))"

definition ref_payload_json :: "conf_ref_payload_s \<Rightarrow> json" where
  "ref_payload_json p =
    J_object [(''id'', J_string (''0x'' @ pad 8 (CHR ''0'') (show_hex (unat (rp_id p)))))]"

definition GatewayDebugConfig_toJSON :: "GatewayDebugConfig \<Rightarrow> json" where
  "GatewayDebugConfig_toJSON d = J_object
    [(''ref_payload'', pushed (map ref_payload_json (take (unat (db_nb_ref_payload d)) (db_ref_payload d)))),
     (''log_file'', J_string (path_text (db_log_file_name d)))]"

definition GatewayDebugConfig_eq :: "GatewayDebugConfig \<Rightarrow> GatewayDebugConfig \<Rightarrow> bool" where
  "GatewayDebugConfig_eq a b \<longleftrightarrow> a = b"

section \<open>GatewayConfigFileJson\<close>

definition GatewayConfigFileJson_reset :: "GatewayConfigFileJson \<Rightarrow> GatewayConfigFileJson" where
  "GatewayConfigFileJson_reset c =
    \<lparr>gf_sx130xConf = GatewaySX130xConfig_reset, gf_gatewayConf = GatewayGatewayConfig_reset (gf_gatewayConf c),
     gf_debugConf = GatewayDebugConfig_reset\<rparr>"

definition GatewayConfigFileJson_parse ::
    "json \<Rightarrow> GatewayConfigFileJson \<Rightarrow> failure + code \<times> GatewayConfigFileJson" where
  "GatewayConfigFileJson_parse j c =
    (case (case json_member ''SX130x_conf'' j of
             None \<Rightarrow> Inr (CODE_OK, gf_sx130xConf c)
           | Some x \<Rightarrow> GatewaySX130xConfig_parse x) of
       Inl e \<Rightarrow> Inl e
     | Inr (r, x) \<Rightarrow>
        (let c = c\<lparr>gf_sx130xConf := x\<rparr>
         in if r \<noteq> 0 then Inr (r, c)
            else case (case json_member ''gateway_conf'' j of
                         None \<Rightarrow> Inr (r, gf_gatewayConf c)
                       | Some x \<Rightarrow> GatewayGatewayConfig_parse x (gf_gatewayConf c)) of
                   Inl e \<Rightarrow> Inl e
                 | Inr (r, g) \<Rightarrow>
                    (let c = c\<lparr>gf_gatewayConf := g\<rparr>
                     in if r \<noteq> 0 then Inr (r, c)
                        else case json_member ''debug_conf'' j of
                               None \<Rightarrow> Inr (r, c)
                             | Some x \<Rightarrow>
                                 map_sum id (\<lambda>(r, d). (r, c\<lparr>gf_debugConf := d\<rparr>)) (GatewayDebugConfig_parse x))))"

text \<open>\<open>parseString\<close>: the library's reading of the text, or its refusal, is the argument.\<close>

definition GatewayConfigFileJson_parseString ::
    "json option \<Rightarrow> GatewayConfigFileJson \<Rightarrow> failure + code \<times> GatewayConfigFileJson" where
  "GatewayConfigFileJson_parseString doc c =
    (case doc of
       None \<Rightarrow> Inr (ERR_CODE_INVALID_JSON, c)
     | Some j \<Rightarrow> GatewayConfigFileJson_parse j c)"

definition GatewayConfigFileJson_toJSON :: "GatewayConfigFileJson \<Rightarrow> json" where
  "GatewayConfigFileJson_toJSON c = J_object
    [(''SX130x_conf'', GatewaySX130xConfig_toJSON (gf_sx130xConf c)),
     (''gateway_conf'', GatewayGatewayConfig_toJSON (gf_gatewayConf c)),
     (''debug_conf'', GatewayDebugConfig_toJSON (gf_debugConf c))]"

definition GatewayConfigFileJson_eq ::
    "(u64 \<Rightarrow> u64 \<Rightarrow> bool) \<Rightarrow> GatewayConfigFileJson \<Rightarrow> GatewayConfigFileJson \<Rightarrow> bool" where
  "GatewayConfigFileJson_eq near a b \<longleftrightarrow>
    GatewaySX130xConfig_eq (gf_sx130xConf a) (gf_sx130xConf b) \<and>
    GatewayGatewayConfig_eq near (gf_gatewayConf a) (gf_gatewayConf b) \<and>
    GatewayDebugConfig_eq (gf_debugConf a) (gf_debugConf b)"

section \<open>Documents written and read again\<close>

text \<open>
  The document that the library reads from the text it wrote for one: an integer that is not
  negative comes back without sign, a \<open>double\<close> as it was, and one that is not finite as
  \<open>null\<close>.
\<close>

definition dbl_finite :: "u64 \<Rightarrow> bool" where
  "dbl_finite d \<longleftrightarrow> drop_bit 52 d AND 0x7ff \<noteq> 0x7ff"

fun as_read :: "json \<Rightarrow> json" where
  "as_read (J_integer i) = (if i \<ge> 0 then J_unsigned (nat i) else J_integer i)"
| "as_read (J_float d) = (if dbl_finite d then J_float d else J_null)"
| "as_read (J_array js) = J_array (map as_read js)"
| "as_read (J_object ms) = J_object (map (\<lambda>(k, j). (k, as_read j)) ms)"
| "as_read j = j"

lemma member_as_read [simp]: "json_member k (as_read j) = map_option as_read (json_member k j)"
proof (cases j)
  case (J_object ms)
  then show ?thesis by (induction ms arbitrary: j) auto
qed simp_all

section \<open>Properties\<close>

text \<open>C29: A file that the program wrote cannot be read by it: whatever the settings, reading throws,
  since the section of the SX1261 radio is written with an object \<open>lbt\<close>.\<close>

theorem written_settings_unreadable:
  "GatewayConfigFileJson_parseString (Some (as_read (GatewayConfigFileJson_toJSON c))) c0 = Inl Exc_invalid_iterator"
  by (simp add: GatewayConfigFileJson_parseString_def GatewayConfigFileJson_parse_def
      GatewayConfigFileJson_toJSON_def GatewaySX130xConfig_parse_def GatewaySX130xConfig_toJSON_def
      GatewaySX1261Config_parse_def GatewaySX1261Config_toJSON_def Let_def)

lemma member_Cons: "json_member k (J_object ((k', j) # ms)) = (if k = k' then Some j else json_member k (J_object ms))"
  by simp

lemma read_written [simp]:
  "json_member k j = Some (J_boolean b) \<Longrightarrow> read_boolean k f (as_read j) s = f b s"
  "json_member k j = Some (J_unsigned n) \<Longrightarrow> read_unsigned k g (as_read j) s = g n s"
  "json_member k j = Some (J_unsigned n) \<Longrightarrow> read_integer k h (as_read j) s = h (int n) s"
  "json_member k j = Some (J_integer i) \<Longrightarrow> read_integer k h (as_read j) s = h i s"
  "json_member k j = Some (J_string t) \<Longrightarrow> read_string k l (as_read j) s = l t s"
  "json_member k j = Some (J_float d) \<Longrightarrow> dbl_finite d \<Longrightarrow> read_double k m (as_read j) s = m d s"
  by (simp_all add: read_boolean_def read_unsigned_def read_integer_def read_string_def read_double_def)

lemma written_number [simp]:
  "json_short (as_read (J_integer i)) = Inr (word_of_int i)" "is_number (as_read (J_integer i))"
  by (simp_all add: is_number_def)

text \<open>Identifiers in hexadecimal.\<close>

lemma hex_text:
  fixes w :: "'a::len word" and k :: nat
  defines "ds \<equiv> pad k (CHR ''0'') (show_hex (unat w))"
  shows "list_all (\<lambda>c. digit_value c < 16) ds" "ds \<noteq> []" "number_value 16 ds = unat w"
  using show_base_digits [of 16 "unat w"]
  by (auto simp: ds_def pad_def number_value_show_base list_all_iff digit_value_def)

lemma digits_read:
  assumes "list_all (\<lambda>c. digit_value c < 16) ds" "ds \<noteq> []" "number_value 16 ds < 2 ^ 64"
  shows "stoull_digits 16 False ds = Inr (of_nat (number_value 16 ds))"
    "strip_sign (dropWhile isspace ds) = (False, ds)" "strip_0x ds = ds" "c_string ds = ds"
proof -
  obtain c cs where ds: "ds = c # cs" using assms(2) by (cases ds) auto
  then have c: "digit_value c < 16" using assms(1) by simp
  show "c_string ds = ds" by (rule c_string_digits) (rule assms(1))
  show "strip_sign (dropWhile isspace ds) = (False, ds)"
    using digit_not_space [OF c] strip_sign_digit [OF c] by (simp add: ds)
  show "strip_0x ds = ds" by (rule strip_0x_digits) (rule assms(1))
  have t: "takeWhile (\<lambda>c. digit_value c < 16) ds = ds"
    using assms(1) by (simp add: takeWhile_eq_all_conv list_all_iff)
  show "stoull_digits 16 False ds = Inr (of_nat (number_value 16 ds))"
    using assms(2,3) by (simp add: stoull_digits_def t Let_def)
qed

lemma hex_id_read:
  fixes w :: "'a::len word"
  assumes "LENGTH('a) \<le> 64"
  shows "stoull 16 (pad k (CHR ''0'') (show_hex (unat w))) = Inr (ucast w)"
    "stoull 0 (CHR ''0'' # CHR ''x'' # pad k (CHR ''0'') (show_hex (unat w))) = Inr (ucast w)"
proof -
  let ?ds = "pad k (CHR ''0'') (show_hex (unat w))"
  have "unat w < 2 ^ LENGTH('a)" by (rule unsigned_less)
  also have "\<dots> \<le> 2 ^ 64" using assms by (intro power_increasing) simp_all
  finally have "number_value 16 ?ds < 2 ^ 64" by (simp add: hex_text(3))
  note r = digits_read [OF hex_text(1,2) this]
  show "stoull 16 ?ds = Inr (ucast w)" by (simp add: stoull_def r hex_text(3) del: dropWhile.simps)
  obtain d ds where ds: "?ds = d # ds" using hex_text(2) [of k w] by (cases ?ds) auto
  have "digit_value d < 16" using hex_text(1) [of k w] by (simp add: ds)
  then have x: "strip_0x (CHR ''0'' # CHR ''x'' # ?ds) = ?ds" by (simp add: ds)
  have c: "c_string (CHR ''0'' # CHR ''x'' # ?ds) = CHR ''0'' # CHR ''x'' # ?ds"
    using r(4) by (simp add: c_string_def)
  have "\<not> isspace (CHR ''0'')" by (rule digit_not_space) (simp add: digit_value_def)
  then have "strip_sign (dropWhile isspace (CHR ''0'' # CHR ''x'' # ?ds)) = (False, CHR ''0'' # CHR ''x'' # ?ds)"
    by simp
  then show "stoull 0 (CHR ''0'' # CHR ''x'' # ?ds) = Inr (ucast w)"
    using x r(1) unfolding stoull_def c by (simp add: hex_text(3) del: dropWhile.simps strip_0x.simps)
qed

text \<open>C19: The section of the gateway is read back as it was written, over any settings before it, but
  for two fields.  The time to push is cut towards zero to a multiple of 500 microseconds, without its
  seconds, because only the microseconds are written, in units of 500.  Whether there is a GPS is not
  written and is taken from the path of its device: settings with the flag off and a path, as they
  arise when a section without a path is read over one with a path, come back with it on.  The
  microseconds must fit an \<open>int\<close>, the coordinates be finite (others cannot be written).\<close>

theorem gateway_conf_roundtrip:
  assumes "\<bar>gw_push_usec g\<bar> < 2 ^ 31" "dbl_finite (gw_lat g)" "dbl_finite (gw_lon g)"
  shows "GatewayGatewayConfig_parse (as_read (GatewayGatewayConfig_toJSON g)) g0 =
    Inr (CODE_OK, g\<lparr>gw_gpsEnabled := gw_gpsTtyPath g \<noteq> [], gw_push_sec := 0,
      gw_push_usec := sgn (gw_push_usec g) * (\<bar>gw_push_usec g\<bar> div 500 * 500)\<rparr>)"
proof -
  let ?j = "GatewayGatewayConfig_toJSON g"
  define m where "m = sgn (gw_push_usec g) * (\<bar>gw_push_usec g\<bar> div 500)"
  have m: "\<bar>m * 500\<bar> < 2 ^ 31"
    unfolding m_def using assms(1) by (cases "gw_push_usec g" "0 :: int" rule: linorder_cases) auto
  then have s: "signed_take_bit 31 m = m" by (intro signed_take_bit_int_eq_self) linarith+
  have "\<not> (m * 500 < - (2 ^ 31) \<or> 2 ^ 31 \<le> m * 500)" using m by linarith
  then have push: "read_push_timeout (as_read ?j) x = Inr (x\<lparr>gw_push_sec := 0, gw_push_usec := m * 500\<rparr>)" for x
    using s by (simp add: read_push_timeout_def GatewayGatewayConfig_toJSON_def m_def [symmetric] del: as_read.simps)
  have alt: "read_altitude (as_read ?j) x = Inr (x\<lparr>gw_alt := gw_alt g\<rparr>)" for x
    by (simp add: read_altitude_def GatewayGatewayConfig_toJSON_def del: as_read.simps)
  have gid: "read_gateway_id (as_read ?j) x = Inr (x\<lparr>gw_gatewayId := gw_gatewayId g\<rparr>)" for x
    using hex_id_read(1) [of 16 "gw_gatewayId g"] by (simp add: read_gateway_id_def GatewayGatewayConfig_toJSON_def)
  have server: "parse_server (as_read ?j) x = x\<lparr>gw_serverAddr := gw_serverAddr g,
      gw_serverPortUp := gw_serverPortUp g, gw_serverPortDown := gw_serverPortDown g,
      gw_keepaliveInterval := gw_keepaliveInterval g, gw_statInterval := gw_statInterval g\<rparr>" for x
    by (simp add: parse_server_def GatewayGatewayConfig_toJSON_def del: as_read.simps)
  have forward: "parse_forward (as_read ?j) x = x\<lparr>gw_forwardCRCValid := gw_forwardCRCValid g,
      gw_forwardCRCError := gw_forwardCRCError g, gw_forwardCRCDisabled := gw_forwardCRCDisabled g,
      gw_gpsTtyPath := gw_gpsTtyPath g, gw_gpsEnabled := gw_gpsTtyPath g \<noteq> [],
      gw_lat := gw_lat g, gw_lon := gw_lon g\<rparr>" for x
    using assms(2,3) by (simp add: parse_forward_def GatewayGatewayConfig_toJSON_def del: as_read.simps)
  have beacon: "parse_beacon (as_read ?j) x = x\<lparr>gw_fakeGPS := gw_fakeGPS g,
      gw_beaconPeriod := gw_beaconPeriod g, gw_beaconFreqHz := gw_beaconFreqHz g,
      gw_beaconFreqNb := gw_beaconFreqNb g, gw_beaconFreqStep := gw_beaconFreqStep g,
      gw_beaconDataRate := gw_beaconDataRate g, gw_beaconBandwidthHz := gw_beaconBandwidthHz g,
      gw_beaconPower := gw_beaconPower g, gw_beaconInfoDesc := gw_beaconInfoDesc g,
      gw_autoQuitThreshold := gw_autoQuitThreshold g\<rparr>" for x
    by (simp add: parse_beacon_def GatewayGatewayConfig_toJSON_def del: as_read.simps)
  show ?thesis
    by (simp add: GatewayGatewayConfig_parse_def push alt gid server forward beacon m_def mult.assoc)
qed

theorem gateway_conf_roundtrip_witness:
  "\<exists>g g'. gw_gatewayId g = 0xAA555A0000000101 \<and> gw_push_usec g = 50700 \<and> \<not> gw_gpsEnabled g \<and>
    GatewayGatewayConfig_parse (as_read (GatewayGatewayConfig_toJSON g)) g = Inr (CODE_OK, g') \<and>
    gw_gatewayId g' = 0xAA555A0000000101 \<and> gw_push_usec g' = 50500 \<and> gw_gpsEnabled g'"
proof -
  define g where "g = (GatewayGatewayConfig_reset undefined)
    \<lparr>gw_gatewayId := 0xAA555A0000000101, gw_push_usec := 50700, gw_alt := - 5, gw_serverAddr := ''localhost'',
     gw_gpsTtyPath := ''/dev/tty0''\<rparr>"
  have "GatewayGatewayConfig_parse (as_read (GatewayGatewayConfig_toJSON g)) g =
      Inr (CODE_OK, g\<lparr>gw_gpsEnabled := gw_gpsTtyPath g \<noteq> [], gw_push_sec := 0,
        gw_push_usec := sgn (gw_push_usec g) * (\<bar>gw_push_usec g\<bar> div 500 * 500)\<rparr>)"
    by (rule gateway_conf_roundtrip) (simp_all add: g_def GatewayGatewayConfig_reset_def dbl_finite_def)
  moreover have "gw_gatewayId g = 0xAA555A0000000101" "gw_push_usec g = 50700" "\<not> gw_gpsEnabled g"
    "gw_gpsTtyPath g \<noteq> []"
    by (simp_all add: g_def GatewayGatewayConfig_reset_def)
  ultimately show ?thesis by - (rule exI [of _ g], simp)
qed

section \<open>Spreading factors\<close>

lemma parse_factors_fold:
  "list_all (\<lambda>n. n < 32) ns \<Longrightarrow>
   parse_factors (map (\<lambda>n. as_read (J_integer (int n + 5))) ns) m = Inr (foldl (\<lambda>m n. m OR push_bit n 1) m ns)"
proof (induction ns arbitrary: m)
  case (Cons n ns)
  have "json_uint8 (as_read (J_integer (int n + 5))) = Inr (of_nat (n + 5))"
    by (simp add: nat_add_distrib)
  moreover have "unat (of_nat (n + 5) :: u8) = n + 5"
    using Cons.prems unat_of_nat [of "n + 5", where 'a = 8] by (simp del: of_nat_add)
  ultimately show ?case
    using Cons by (simp add: word_less_nat_alt del: as_read.simps of_nat_add)
qed simp

lemma bit_fold_or: "bit (foldl (\<lambda>m n. m OR push_bit n 1) m ns) k \<longleftrightarrow> bit m k \<or> k < 8 \<and> k \<in> set ns" for m :: u8
  by (induction ns arbitrary: m) (auto simp: bit_simps)

lemma indexed_other: "length key \<noteq> Suc (length k) \<Longrightarrow> map_of (indexed k i js) key = None"
  by (induction js arbitrary: i) auto

text \<open>The enabled spreading factors are read back as they were written, unless there are none:
  then all are enabled.\<close>

theorem factors_reread:
  "parse_demod (as_read (GatewaySX130xConfig_toJSON c)) =
    Inr (if s3_multisf_datarate (gx_value c) = 0 then 0xff else s3_multisf_datarate (gx_value c))"
proof -
  let ?m = "s3_multisf_datarate (gx_value c)" and ?j = "GatewaySX130xConfig_toJSON c"
  let ?ns = "filter (bit ?m) [0..<8]"
  have member: "json_member ''chan_multiSF_All'' ?j = Some (factors_json ?m)"
    by (simp add: GatewaySX130xConfig_toJSON_def Let_def map_of_append map_add_def indexed_other)
  have fold: "foldl (\<lambda>m n. m OR push_bit n 1) 0 ?ns = ?m"
    by (rule bit_word_eqI) (unfold bit_fold_or, auto)
  show ?thesis
  proof (cases "?ns = []")
    case True
    then have "?m = 0" using fold by simp
    then show ?thesis by (simp add: parse_demod_def member factors_json_def pushed_def)
  next
    case False
    then have "?m \<noteq> 0" by auto
    moreover have "parse_factors (map (\<lambda>n. as_read (J_integer (int n + 5))) ?ns) 0 = Inr ?m"
      using parse_factors_fold [of ?ns 0] fold by (simp add: list_all_iff)
    ultimately show ?thesis using False
      by (simp add: parse_demod_def member factors_json_def pushed_def o_def)
  qed
qed

section \<open>Debug section\<close>

lemma parse_ref_payloads_written:
  "length ids \<le> n \<Longrightarrow>
   parse_ref_payloads (length before) (map (\<lambda>i. as_read (ref_payload_json (ref_payload_zero\<lparr>rp_id := i\<rparr>))) ids)
     (before @ replicate n ref_payload_zero) =
   Inr (before @ map (\<lambda>i. ref_payload_zero\<lparr>rp_id := i\<rparr>) ids @ replicate (n - length ids) ref_payload_zero)"
proof (induction ids arbitrary: before n)
  case (Cons i ids)
  obtain n' where n: "n = Suc n'" using Cons.prems by (cases n) auto
  have id: "stoull 0 (''0x'' @ pad 8 (CHR ''0'') (show_hex (unat i))) = Inr (ucast i)"
    using hex_id_read(2) [of 8 i] by simp
  show ?case
    using Cons.IH [of n' "before @ [ref_payload_zero\<lparr>rp_id := i\<rparr>]"] Cons.prems id
    by (simp add: n ref_payload_json_def ucast_back nth_append list_update_append)
qed simp

lemma put_path_written:
  assumes "length t < n" "0 \<notin> set (text_bytes t)"
  shows "put_path n t (replicate n 0) = text_bytes t @ replicate (n - length t) 0"
proof -
  obtain k where k: "n = length t + Suc k" using assms(1) less_imp_Suc_add by fastforce
  have "strncpy (replicate n 0) (text_bytes t) n = text_bytes t @ 0 # replicate k 0"
    using assms(2) by (simp add: strncpy_def c_str_no_nul mem_write_def k)
  then show ?thesis using list_update_length [of "text_bytes t" 0 "replicate k 0" 0] by (simp add: put_path_def k)
qed

text \<open>The debugging section is read back as it was written, if its identifiers fit the array and
  the name of the log file fits with its terminator.\<close>

theorem debug_conf_roundtrip:
  assumes "length ids \<le> 16" "length t < 128" "0 \<notin> set (text_bytes t)"
    and "d = \<lparr>db_nb_ref_payload = of_nat (length ids),
      db_ref_payload = map (\<lambda>i. ref_payload_zero\<lparr>rp_id := i\<rparr>) ids @ replicate (16 - length ids) ref_payload_zero,
      db_log_file_name = text_bytes t @ replicate (128 - length t) 0\<rparr>"
  shows "GatewayDebugConfig_parse (as_read (GatewayDebugConfig_toJSON d)) = Inr (CODE_OK, d)"
proof -
  have nb: "unat (of_nat (length ids) :: u8) = length ids" using assms(1) by (simp add: unat_of_nat)
  have path: "path_text (db_log_file_name d) = t"
    using assms(2-4) by (cases "128 - length t") (simp_all add: path_text_def c_str_append_nul text_bytes_inverse)
  have log: "read_string ''log_file'' f (as_read (GatewayDebugConfig_toJSON d)) x = f t x" for f and x :: GatewayDebugConfig
    using path by (intro read_written(5)) (simp add: GatewayDebugConfig_toJSON_def)
  have ids: "json_member ''ref_payload'' (as_read (GatewayDebugConfig_toJSON d)) =
      Some (as_read (pushed (map (\<lambda>i. ref_payload_json (ref_payload_zero\<lparr>rp_id := i\<rparr>)) ids)))"
    using nb by (simp add: GatewayDebugConfig_toJSON_def assms(4) take_map o_def)
  have m: "\<not> (16 :: u8) < of_nat (length ids)"
    using assms(1) nb by (simp add: word_less_nat_alt)
  have p: "put_path 128 t (replicate 128 0) = db_log_file_name d"
    unfolding assms(4) using put_path_written [OF assms(2,3)] by simp
  show ?thesis
  proof (cases "ids = []")
    case True
    then show ?thesis
      unfolding GatewayDebugConfig_parse_def Let_def log ids
      using p by (simp add: pushed_def GatewayDebugConfig_reset_def assms(4))
  next
    case False
    have "parse_ref_payloads 0 (map (\<lambda>i. as_read (ref_payload_json (ref_payload_zero\<lparr>rp_id := i\<rparr>))) ids)
        (replicate 16 ref_payload_zero) = Inr (db_ref_payload d)"
      using parse_ref_payloads_written [OF assms(1), of "[]"] by (simp add: assms(4))
    then show ?thesis
      unfolding GatewayDebugConfig_parse_def Let_def log ids
      using p False nb m by (simp add: pushed_def GatewayDebugConfig_reset_def o_def) (simp add: assms(4))
  qed
qed

theorem debug_conf_roundtrip_witness:
  "\<exists>d. db_nb_ref_payload d = 2 \<and>
    GatewayDebugConfig_parse (as_read (GatewayDebugConfig_toJSON d)) = Inr (CODE_OK, d)"
proof -
  let ?ids = "[0xCAFE1234, 0xCAFE2345] :: u32 list" and ?t = "''loragw_hal.log''"
  define d where "d = \<lparr>db_nb_ref_payload = of_nat (length ?ids),
    db_ref_payload = map (\<lambda>i. ref_payload_zero\<lparr>rp_id := i\<rparr>) ?ids @ replicate (16 - length ?ids) ref_payload_zero,
    db_log_file_name = text_bytes ?t @ replicate (128 - length ?t) 0\<rparr>"
  have "GatewayDebugConfig_parse (as_read (GatewayDebugConfig_toJSON d)) = Inr (CODE_OK, d)"
    by (rule debug_conf_roundtrip [OF _ _ _ d_def]) (simp_all add: text_bytes_def)
  moreover have "db_nb_ref_payload d = 2" by (simp add: d_def)
  ultimately show ?thesis by blast
qed

text \<open>Of 256 identifiers none is kept: their number is cut to a byte before it is bounded.\<close>

lemma ref_payload_count_wraps:
  assumes "json_member ''ref_payload'' j = Some (J_array js)" "length js = 256 * n"
  shows "\<exists>d. GatewayDebugConfig_parse j = Inr (CODE_OK, d) \<and> db_nb_ref_payload d = 0"
proof -
  have "(256 :: u8) = 0" by simp
  then have "of_nat (256 * n) = (0 :: u8)" by (simp only: of_nat_mult of_nat_numeral mult_zero_left)
  then show ?thesis using assms by (simp add: GatewayDebugConfig_parse_def Let_def)
qed

section \<open>Lost values\<close>

text \<open>A negative frequency of the FSK channel is written and not read.\<close>

lemma fsk_offset_lost:
  assumes "sint (if_freq_hz c) < 0"
  shows "if_freq_hz (parse_fsk_channel (as_read (fsk_channel_json c)) c0) = if_freq_hz c0"
  using assms by (simp add: parse_fsk_channel_def fsk_channel_json_def has_member_def Let_def read_unsigned_def
      read_integer_def read_boolean_def)

text \<open>The coding rate of the standard channel is written and never read.\<close>

lemma coderate_lost:
  "map_sum id if_implicit_coderate (parse_std_channel (as_read (std_channel_json c)) c0) =
    Inr (if_implicit_coderate c0)"
  by (simp add: parse_std_channel_def std_channel_json_def has_member_def Let_def read_unsigned_def
      read_integer_def read_boolean_def)

text \<open>Without a known type of communication nothing else is read.\<close>

lemma com_type_needed:
  assumes "json_member ''sx1261_conf'' j = None" "read_string ''com_type'' (\<lambda>s _. com_type_of s) j LGW_COM_UNKNOWN = LGW_COM_UNKNOWN"
  shows "\<exists>c. GatewaySX130xConfig_parse j = Inr (ERR_CODE_INVALID_JSON, c) \<and> s3_radios (gx_value c) = replicate 2 radio_zero"
  using assms by (simp add: GatewaySX130xConfig_parse_def GatewaySX130xConfig_reset_def Let_def)


end
