(* ===== verification/Json_Reader.thy ===== *)
theory Json_Reader
  imports Json_Sax Ip_Address
begin

text \<open>
  What the program relies on when the JSON library reads a text that the program wrote itself:
  a reader of a part of RFC 8259, numbers without sign and fraction, texts without escapes,
  arrays and objects, with white space between the tokens.  It has no result where a text is
  outside of that part, nor for an object that names a member twice.  The members of an object
  are in the order of the text, and are used by their names only.
\<close>

section \<open>The reader\<close>

definition json_space :: "char \<Rightarrow> bool" where
  "json_space c \<longleftrightarrow> c \<in> {CHR 0x20, CHR 0x09, CHR 0x0A, CHR 0x0D}"

definition skip_space :: "string \<Rightarrow> string" where
  "skip_space s = dropWhile json_space s"

text \<open>A character that stands for itself in a text.\<close>

definition json_plain :: "char \<Rightarrow> bool" where
  "json_plain c \<longleftrightarrow>
    (let n = of_char c :: nat in 32 \<le> n \<and> n < 128 \<and> c \<noteq> CHR 0x22 \<and> c \<noteq> CHR 0x5C)"

text \<open>A text behind its opening quotation mark.\<close>

fun read_chars :: "string \<Rightarrow> (string \<times> string) option" where
  "read_chars [] = None"
| "read_chars (c # s) =
    (if c = CHR 0x22 then Some ([], s)
     else if json_plain c then map_option (\<lambda>(t, r). (c # t, r)) (read_chars s)
     else None)"

definition no_number_char :: "string \<Rightarrow> bool" where
  "no_number_char r \<longleftrightarrow> (case r of [] \<Rightarrow> True | c # _ \<Rightarrow> c \<notin> {CHR ''.'', CHR ''e'', CHR ''E''})"

definition read_number :: "string \<Rightarrow> (json \<times> string) option" where
  "read_number s =
    (let ds = takeWhile isdigit s; r = dropWhile isdigit s
     in if ds \<noteq> [] \<and> (length ds = 1 \<or> hd ds \<noteq> CHR ''0'') \<and> no_number_char r \<and> number_value 10 ds < 2 ^ 64
        then Some (J_unsigned (number_value 10 ds), r) else None)"

text \<open>The first argument bounds the depth of the calls.\<close>

fun read_value :: "nat \<Rightarrow> string \<Rightarrow> (json \<times> string) option"
  and read_elements :: "nat \<Rightarrow> string \<Rightarrow> (json list \<times> string) option"
  and read_members :: "nat \<Rightarrow> string \<Rightarrow> ((string \<times> json) list \<times> string) option"
where
  "read_value 0 s = None"
| "read_value (Suc n) s =
    (case skip_space s of
       [] \<Rightarrow> None
     | c # r \<Rightarrow>
         if c = CHR 0x22 then map_option (\<lambda>(t, r). (J_string t, r)) (read_chars r)
         else if c = CHR ''['' then
           (if take 1 (skip_space r) = '']'' then Some (J_array [], drop 1 (skip_space r))
            else map_option (\<lambda>(js, r). (J_array js, r)) (read_elements n r))
         else if c = CHR ''{'' then
           (if take 1 (skip_space r) = ''}'' then Some (J_object [], drop 1 (skip_space r))
            else case read_members n r of
              None \<Rightarrow> None
            | Some (ms, r) \<Rightarrow> if distinct (map fst ms) then Some (J_object ms, r) else None)
         else read_number (c # r))"
| "read_elements 0 s = None"
| "read_elements (Suc n) s =
    (case read_value n s of
       None \<Rightarrow> None
     | Some (j, r) \<Rightarrow>
         (case skip_space r of
            [] \<Rightarrow> None
          | c # r \<Rightarrow>
              if c = CHR '','' then map_option (\<lambda>(js, r). (j # js, r)) (read_elements n r)
              else if c = CHR '']'' then Some ([j], r)
              else None))"
| "read_members 0 s = None"
| "read_members (Suc n) s =
    (case skip_space s of
       [] \<Rightarrow> None
     | q # r \<Rightarrow>
         if q \<noteq> CHR 0x22 then None
         else case read_chars r of
           None \<Rightarrow> None
         | Some (k, r) \<Rightarrow>
             if take 1 (skip_space r) \<noteq> '':'' then None
             else case read_value n (drop 1 (skip_space r)) of
               None \<Rightarrow> None
             | Some (j, r) \<Rightarrow>
                 (case skip_space r of
                    [] \<Rightarrow> None
                  | c # r \<Rightarrow>
                      if c = CHR '','' then map_option (\<lambda>(ms, r). ((k, j) # ms, r)) (read_members n r)
                      else if c = CHR ''}'' then Some ([(k, j)], r)
                      else None))"

definition read_json :: "string \<Rightarrow> json option" where
  "read_json s =
    (case read_value (length s) s of
       Some (j, r) \<Rightarrow> if skip_space r = [] then Some j else None
     | None \<Rightarrow> None)"

text \<open>A function reads what the reader reads, as the library does.\<close>

definition reads_json :: "(string \<Rightarrow> json option) \<Rightarrow> bool" where
  "reads_json parse \<longleftrightarrow> (\<forall>s j. read_json s = Some j \<longrightarrow> parse s = Some j)"

lemma reads_json_self: "reads_json read_json"
  by (simp add: reads_json_def)

lemma reads_jsonD: "reads_json parse \<Longrightarrow> read_json s = Some j \<Longrightarrow> parse s = Some j"
  by (simp add: reads_json_def)

section \<open>Tokens\<close>

lemma json_space_simps [simp]:
  "\<not> json_space (CHR 0x22)" "\<not> json_space (CHR '','')" "\<not> json_space (CHR '':'')"
  "\<not> json_space (CHR ''['')" "\<not> json_space (CHR '']'')" "\<not> json_space (CHR ''{'')" "\<not> json_space (CHR ''}'')"
  "json_space (CHR 0x0A)" "json_space (CHR 0x20)"
  by (simp_all add: json_space_def)

lemma skip_space_simps [simp]:
  "skip_space [] = []" "json_space c \<Longrightarrow> skip_space (c # s) = skip_space s"
  "\<not> json_space c \<Longrightarrow> skip_space (c # s) = c # s"
  by (simp_all add: skip_space_def)

lemma skip_space_append [simp]: "list_all json_space w \<Longrightarrow> skip_space (w @ s) = skip_space s"
  by (induction w) simp_all

lemma read_chars_quoted:
  "list_all json_plain t \<Longrightarrow> read_chars (t @ CHR 0x22 # r) = Some (t, r)"
  by (induction t) (auto simp: json_plain_def Let_def)

lemma isdigit_no_space: "isdigit c \<Longrightarrow> \<not> json_space c"
  by (auto simp: isdigit_def json_space_def Let_def)

text \<open>What may follow a value.\<close>

definition delimited :: "string \<Rightarrow> bool" where
  "delimited r \<longleftrightarrow> (case r of [] \<Rightarrow> True | c # _ \<Rightarrow> \<not> isdigit c \<and> c \<notin> {CHR ''.'', CHR ''e'', CHR ''E''})"

lemma delimited_simps [simp]:
  "delimited []" "delimited (CHR '','' # r)" "delimited (CHR ''}'' # r)" "delimited (CHR '']'' # r)"
  by (simp_all add: delimited_def isdigit_def)

lemma takeWhile_delimited:
  "list_all isdigit ds \<Longrightarrow> delimited r \<Longrightarrow> takeWhile isdigit (ds @ r) = ds \<and> dropWhile isdigit (ds @ r) = r"
  by (induction ds) (auto simp: delimited_def split: list.splits)

definition reads :: "nat \<Rightarrow> string \<Rightarrow> json \<Rightarrow> bool" where
  "reads n t j \<longleftrightarrow> (\<forall>m r. n \<le> m \<longrightarrow> delimited r \<longrightarrow> read_value m (t @ r) = Some (j, r))"

lemma readsD: "reads n t j \<Longrightarrow> n \<le> m \<Longrightarrow> delimited r \<Longrightarrow> read_value m (t @ r) = Some (j, r)"
  by (simp add: reads_def)

lemma reads_mono: "reads n t j \<Longrightarrow> n \<le> m \<Longrightarrow> reads m t j"
  by (auto simp: reads_def)

lemma reads_string: "list_all json_plain s \<Longrightarrow> reads (Suc 0) (quoted s) (J_string s)"
  unfolding reads_def
proof (intro allI impI)
  fix m :: nat and r assume "list_all json_plain s" "Suc 0 \<le> m" "delimited r"
  then show "read_value m (quoted s @ r) = Some (J_string s, r)"
    by (cases m) (simp_all add: quoted_def read_chars_quoted)
qed

lemma reads_number: "n < 2 ^ 64 \<Longrightarrow> reads (Suc 0) (show_nat n) (J_unsigned n)"
  unfolding reads_def
proof (intro allI impI)
  fix m :: nat and r assume n: "n < 2 ^ 64" and m: "Suc 0 \<le> m" and r: "delimited r"
  let ?s = "show_nat n @ r"
  obtain c t where ct: "show_nat n = c # t" by (cases "show_nat n") simp_all
  have d: "isdigit c" using show_nat_isdigit [of n] by (simp add: ct)
  then have c: "\<not> json_space c" "c \<noteq> CHR 0x22" "c \<noteq> CHR ''[''" "c \<noteq> CHR ''{''"
    by (auto simp: isdigit_no_space isdigit_def)
  have "length (show_nat 0) = 1" by (simp add: show_base.simps)
  then have z: "length (show_nat n) = 1 \<or> hd (show_nat n) \<noteq> CHR ''0''"
    using show_nat_leading_zero [of n] by (cases "n = 0") auto
  have e: "takeWhile isdigit ?s = show_nat n" "dropWhile isdigit ?s = r"
    using takeWhile_delimited [OF show_nat_isdigit r] by simp_all
  have r': "no_number_char r" using r by (auto simp: delimited_def no_number_char_def split: list.splits)
  have "read_number ?s = Some (J_unsigned n, r)"
    using z r' n by (simp add: read_number_def e number_value_show_base)
  then show "read_value m ?s = Some (J_unsigned n, r)"
    using m c by (cases m) (simp_all add: ct)
qed

section \<open>Arrays and objects\<close>

lemma read_space:
  assumes "list_all json_space w"
  shows "read_value m (w @ s) = read_value m s" "read_members m (w @ s) = read_members m s"
    "read_elements m (w @ s) = read_elements m s"
proof -
  show v: "read_value m (w @ s) = read_value m s" for m using assms by (cases m) simp_all
  show "read_members m (w @ s) = read_members m s" using assms by (cases m) simp_all
  show "read_elements m (w @ s) = read_elements m s" by (cases m) (simp_all add: v)
qed

lemma read_elements_join:
  assumes "list_all2 (reads n) ts js" "ts \<noteq> []" "length ts + n \<le> m" "list_all json_space w"
  shows "read_elements m (join (CHR '','' # w) ts @ CHR '']'' # r) = Some (js, r)"
  using assms
proof (induction ts js arbitrary: m rule: list_all2_induct)
  case (Cons t ts j js)
  obtain m' where m: "m = Suc m'" "n \<le> m'" "length ts + n \<le> m'"
    using Cons.prems(2) by (cases m) simp_all
  show ?case
  proof (cases "ts = []")
    case True
    with Cons.hyps have "js = []" by simp
    with True show ?thesis by (simp add: m readsD [OF Cons.hyps(1) m(2)])
  next
    case False
    show ?thesis
      by (simp add: m join_Cons [OF False] readsD [OF Cons.hyps(1) m(2)] read_space [OF assms(4)]
          Cons.IH [OF False m(3) assms(4)])
  qed
qed simp

lemma reads_array:
  assumes "list_all2 (reads n) ts js" "\<And>t. t \<in> set ts \<Longrightarrow> hd t = CHR ''{''" "[] \<notin> set ts"
    and "list_all json_space w" "list_all json_space u"
  shows "reads (Suc (length ts + n)) (CHR ''['' # u @ join (CHR '','' # w) ts @ '']'') (J_array js)"
  unfolding reads_def
proof (intro allI impI)
  fix m r assume m: "Suc (length ts + n) \<le> m" and "delimited r"
  obtain m' where m': "m = Suc m'" "length ts + n \<le> m'" using m by (cases m) simp_all
  show "read_value m ((CHR ''['' # u @ join (CHR '','' # w) ts @ '']'') @ r) = Some (J_array js, r)"
  proof (cases ts)
    case Nil
    then show ?thesis using assms(1,5) by (simp add: m')
  next
    case (Cons t ts')
    obtain t' where t: "t = CHR ''{'' # t'" using assms(2) [of t] assms(3) Cons by (cases t) auto
    have "take 1 (skip_space (join (CHR '','' # w) ts @ CHR '']'' # r)) \<noteq> '']''"
      using t Cons by (cases ts') simp_all
    then show ?thesis
      using read_elements_join [OF assms(1) _ m'(2) assms(4), of r] assms(5) Cons
      by (simp add: m' read_space)
  qed
qed

text \<open>A member is its name, the text of its value and the value.\<close>

type_synonym member = "string \<times> string \<times> json"

definition member_text :: "string \<Rightarrow> member \<Rightarrow> string" where
  "member_text u = (\<lambda>(k, t, j). quoted k @ CHR '':'' # u @ t)"

definition member_read :: "nat \<Rightarrow> member \<Rightarrow> bool" where
  "member_read n = (\<lambda>(k, t, j). list_all json_plain k \<and> reads n t j)"

definition member_value :: "member \<Rightarrow> string \<times> json" where
  "member_value = (\<lambda>(k, t, j). (k, j))"

lemma member_simps [simp]:
  "member_text u (k, t, j) = quoted k @ CHR '':'' # u @ t"
  "member_read n (k, t, j) \<longleftrightarrow> list_all json_plain k \<and> reads n t j"
  "member_value (k, t, j) = (k, j)"
  by (simp_all add: member_text_def member_read_def member_value_def)

lemma read_members_join:
  assumes "list_all (member_read n) ms" "ms \<noteq> []" "length ms + n \<le> m"
    and "list_all json_space w" "list_all json_space u"
  shows "read_members m (join (CHR '','' # w) (map (member_text u) ms) @ CHR ''}'' # r) =
    Some (map member_value ms, r)"
  using assms
proof (induction ms arbitrary: m)
  case (Cons e ms)
  obtain m' where m: "m = Suc m'" "n \<le> m'" "length ms + n \<le> m'"
    using Cons.prems(3) by (cases m) simp_all
  obtain k t j where e: "e = (k, t, j)" by (cases e)
  have k: "list_all json_plain k" and t: "reads n t j"
    using Cons.prems(1) by (simp_all add: e)
  show ?case
  proof (cases "ms = []")
    case True
    then show ?thesis
      by (simp add: m e quoted_def read_chars_quoted [OF k]
          read_space [OF assms(5)] readsD [OF t m(2)])
  next
    case False
    have IH: "read_members m' (join (CHR '','' # w) (map (member_text u) ms) @ CHR ''}'' # r) =
        Some (map member_value ms, r)"
      using Cons.prems False m(3) by (intro Cons.IH) simp_all
    show ?thesis
      using False
      by (simp add: m e join_Cons quoted_def read_chars_quoted [OF k] read_space [OF assms(5)]
          read_space [OF assms(4)] readsD [OF t m(2)] IH)
  qed
qed simp

lemma reads_object:
  assumes "list_all (member_read n) ms" "ms \<noteq> []" "distinct (map fst ms)"
    and "list_all json_space w" "list_all json_space u"
  shows "reads (Suc (length ms + n))
    (CHR ''{'' # join (CHR '','' # w) (map (member_text u) ms) @ ''}'') (J_object (map member_value ms))"
  unfolding reads_def
proof (intro allI impI)
  fix m r assume m: "Suc (length ms + n) \<le> m" and "delimited r"
  obtain m' where m': "m = Suc m'" "length ms + n \<le> m'" using m by (cases m) simp_all
  let ?s = "join (CHR '','' # w) (map (member_text u) ms) @ CHR ''}'' # r"
  obtain k t j ms' where ms: "ms = (k, t, j) # ms'" using assms(2) by (cases ms) auto
  have "take 1 (skip_space ?s) \<noteq> ''}''"
    by (cases ms') (simp_all add: ms quoted_def)
  moreover have "map fst (map member_value ms) = map fst ms"
    by (simp add: member_value_def case_prod_beta)
  ultimately show "read_value m ((CHR ''{'' # join (CHR '','' # w) (map (member_text u) ms) @ ''}'') @ r) =
      Some (J_object (map member_value ms), r)"
    using read_members_join [OF assms(1,2) m'(2) assms(4,5), of r] assms(3)
    by (simp add: m' del: map_map)
qed

lemma read_json_reads:
  assumes "reads n t j" "n \<le> length t" "list_all json_space w"
  shows "read_json (t @ w) = Some j"
proof -
  have "delimited w"
    using assms(3) by (cases w) (auto simp: delimited_def json_space_def isdigit_def)
  then have "read_value (length (t @ w)) (t @ w) = Some (j, w)"
    using assms(1,2) by (simp add: reads_def)
  then show ?thesis using skip_space_append [OF assms(3), of "[]"] by (simp add: read_json_def)
qed

end
