(* ===== verification/Json_Storage.thy ===== *)
theory Json_Storage
  imports Json_Reader Gateway_Settings Gateway_Binary Identity_Binary Frame_Text
begin

text \<open>
  The storages that are kept in JSON files: \<open>storage/service/identity-service-json.cpp\<close> and
  \<open>gateway-service-json.cpp\<close>.  A file system is a map of names to texts.  The text is written
  character by character; it is read by the JSON library, a parameter that has no result where
  the library throws.  What the library throws later, at a member that is no text, is not caught
  in the services: it is the result of the call.
\<close>

type_synonym files = "string \<Rightarrow> string option"

text \<open>A file that is not there reads as empty.\<close>

definition file_text :: "files \<Rightarrow> string \<Rightarrow> string" where
  "file_text files f = (case files f of None \<Rightarrow> [] | Some t \<Rightarrow> t)"

text \<open>A file that cannot be opened for writing stays as it is, and nobody is told.\<close>

definition file_write :: "(string \<Rightarrow> bool) \<Rightarrow> files \<Rightarrow> string \<Rightarrow> string \<Rightarrow> files" where
  "file_write opens files f t = (if opens f then files(f \<mapsto> t) else files)"

text \<open>The entries between brackets, each but the first behind a comma and the end of a line.\<close>

fun json_entries :: "bool \<Rightarrow> string list \<Rightarrow> string" where
  "json_entries isFirst [] = []"
| "json_entries isFirst (t # ts) = (if isFirst then [] else [CHR '','', CHR 0x0A]) @ t @ json_entries False ts"

definition json_file :: "string list \<Rightarrow> string" where
  "json_file ts = [CHR ''['', CHR 0x0A] @ json_entries True ts @ [CHR '']'', CHR 0x0A]"

section \<open>JsonIdentityService\<close>

record JsonIdentityService =
  jis_storage :: identity_storage
  jis_fileName :: string

definition jis_get :: "JsonIdentityService \<Rightarrow> DEVICE_ID \<Rightarrow> DEVADDR \<Rightarrow> code \<times> DEVICE_ID" where
  "jis_get s retVal request =
    (case om_find request (jis_storage s) of
       Some d \<Rightarrow> (CODE_OK, d)
     | None \<Rightarrow> (ERR_CODE_GATEWAY_NOT_FOUND, retVal))"

definition jis_list ::
    "JsonIdentityService \<Rightarrow> NETWORKIDENTITY list \<Rightarrow> u32 \<Rightarrow> u8 \<Rightarrow> code \<times> NETWORKIDENTITY list" where
  "jis_list s retVal offset sz =
    (CODE_OK, retVal @ map (\<lambda>(a, d). NETWORKIDENTITY_make a d)
       (page_loop 0 0 (unat offset) (unat sz) (jis_storage s)))"

definition jis_size :: "JsonIdentityService \<Rightarrow> nat" where
  "jis_size s = length (jis_storage s)"

fun jis_find_eui :: "identity_storage \<Rightarrow> NETWORKIDENTITY \<Rightarrow> DEVEUI \<Rightarrow> code \<times> NETWORKIDENTITY" where
  "jis_find_eui [] retVal eui = (ERR_CODE_DEVICE_EUI_NOT_FOUND, retVal)"
| "jis_find_eui ((a, d) # storage) retVal eui =
    (if devEUI d = eui then (CODE_OK, retVal\<lparr>ni_devaddr := a, ni_devid := d\<rparr>)
     else jis_find_eui storage retVal eui)"

definition jis_getNetworkIdentity ::
    "JsonIdentityService \<Rightarrow> NETWORKIDENTITY \<Rightarrow> DEVEUI \<Rightarrow> code \<times> NETWORKIDENTITY" where
  "jis_getNetworkIdentity s retVal eui = jis_find_eui (jis_storage s) retVal eui"

definition jis_put :: "JsonIdentityService \<Rightarrow> DEVADDR \<Rightarrow> DEVICE_ID \<Rightarrow> code \<times> JsonIdentityService" where
  "jis_put s a d = (CODE_OK, s\<lparr>jis_storage := om_assign a d (jis_storage s)\<rparr>)"

definition jis_rm :: "JsonIdentityService \<Rightarrow> DEVADDR \<Rightarrow> code \<times> JsonIdentityService" where
  "jis_rm s a =
    (case om_find a (jis_storage s) of
       Some _ \<Rightarrow> (CODE_OK, s\<lparr>jis_storage := om_erase a (jis_storage s)\<rparr>)
     | None \<Rightarrow> (ERR_CODE_DEVICE_ADDRESS_NOTFOUND, s))"

definition jis_next :: "JsonIdentityService \<Rightarrow> NETWORKIDENTITY \<Rightarrow> code \<times> NETWORKIDENTITY" where
  "jis_next s retVal = (ERR_CODE_ADDR_SPACE_FULL, retVal)"

definition jis_done :: "JsonIdentityService \<Rightarrow> JsonIdentityService" where
  "jis_done s = s\<lparr>jis_storage := []\<rparr>"

definition JsonIdentityService_functions :: "JsonIdentityService IdentityService" where
  "JsonIdentityService_functions =
    \<lparr>svc_get = jis_get, svc_getNetworkIdentity = jis_getNetworkIdentity, svc_put = jis_put,
     svc_rm = jis_rm, svc_list = jis_list, svc_size = jis_size, svc_next = jis_next\<rparr>"

text \<open>The members of a device that are read, with what their texts do.\<close>

definition device_fields :: "(string \<times> (string \<Rightarrow> DEVICE_ID \<Rightarrow> DEVICE_ID)) list" where
  "device_fields =
    [(''activation'', \<lambda>t d. d\<lparr>activation := string2activation t\<rparr>),
     (''class'', \<lambda>t d. DEVICEID_setClass (string2deviceclass t) d),
     (''deveui'', \<lambda>t d. d\<lparr>devEUI := string2DEVEUI t\<rparr>),
     (''nwkSKey'', \<lambda>t d. d\<lparr>nwkSKey := string2KEY (Some t) (nwkSKey d)\<rparr>),
     (''appSKey'', \<lambda>t d. d\<lparr>appSKey := string2KEY (Some t) (appSKey d)\<rparr>),
     (''version'', \<lambda>t d. d\<lparr>version := string2LORAWAN_VERSION t\<rparr>),
     (''appeui'', \<lambda>t d. d\<lparr>appEUI := string2DEVEUI t\<rparr>),
     (''appKey'', \<lambda>t d. d\<lparr>appKey := string2KEY (Some t) (appKey d)\<rparr>),
     (''nwkKey'', \<lambda>t d. d\<lparr>nwkKey := string2KEY (Some t) (nwkKey d)\<rparr>),
     (''devNonce'', \<lambda>t d. d\<lparr>devNonce := string2DEVNONCE (Some t)\<rparr>),
     (''joinNonce'', \<lambda>t d. d\<lparr>joinNonce := string2JOINNONCE (Some t) (joinNonce d)\<rparr>),
     (''name'', \<lambda>t d. d\<lparr>name := string2DEVICENAME (text_bytes t) (name d)\<rparr>)]"

definition load_member :: "json \<Rightarrow> string \<times> (string \<Rightarrow> DEVICE_ID \<Rightarrow> DEVICE_ID) \<Rightarrow> failure + DEVICE_ID \<Rightarrow> failure + DEVICE_ID" where
  "load_member j = (\<lambda>(k, f) r.
    case r of
      Inl e \<Rightarrow> Inl e
    | Inr d \<Rightarrow>
        (case json_member k j of
           None \<Rightarrow> Inr d
         | Some (J_string t) \<Rightarrow> Inr (f t d)
         | Some _ \<Rightarrow> Inl Exc_type_error))"

definition load_device :: "json \<Rightarrow> failure + DEVICE_ID" where
  "load_device j = fold (load_member j) device_fields (Inr DEVICEID_default)"

text \<open>The loop over the array; the entries before the one that throws are in the storage.\<close>

fun load_identities :: "json list \<Rightarrow> identity_storage \<Rightarrow> failure option \<times> identity_storage" where
  "load_identities [] storage = (None, storage)"
| "load_identities (j # js) storage =
    (case json_member ''addr'' j of
       None \<Rightarrow> load_identities js storage
     | Some (J_string t) \<Rightarrow>
         (case load_device j of
            Inl e \<Rightarrow> (Some e, storage)
          | Inr d \<Rightarrow> load_identities js (om_assign (string2DEVADDR t) d storage))
     | Some _ \<Rightarrow> (Some Exc_type_error, storage))"

definition jis_load ::
    "(string \<Rightarrow> json option) \<Rightarrow> files \<Rightarrow> JsonIdentityService \<Rightarrow> (failure + bool) \<times> JsonIdentityService" where
  "jis_load parse files s =
    (case parse (file_text files (jis_fileName s)) of
       Some (J_array js) \<Rightarrow>
         (case load_identities js (jis_storage s) of
            (None, storage) \<Rightarrow> (Inr True, s\<lparr>jis_storage := storage\<rparr>)
          | (Some e, storage) \<Rightarrow> (Inl e, s\<lparr>jis_storage := storage\<rparr>))
     | _ \<Rightarrow> (Inr False, s))"

definition jis_store :: "(string \<Rightarrow> bool) \<Rightarrow> JsonIdentityService \<Rightarrow> files \<Rightarrow> bool \<times> files" where
  "jis_store opens s files =
    (True, file_write opens files (jis_fileName s)
      (json_file (map (\<lambda>(a, d). DEVICEID_toJsonString a d) (jis_storage s))))"

definition jis_init ::
    "(string \<Rightarrow> json option) \<Rightarrow> files \<Rightarrow> string \<Rightarrow> JsonIdentityService \<Rightarrow> (failure + code) \<times> JsonIdentityService" where
  "jis_init parse files databaseName s =
    (case jis_load parse files (s\<lparr>jis_fileName := databaseName\<rparr>) of
       (Inl e, s') \<Rightarrow> (Inl e, s')
     | (Inr ok, s') \<Rightarrow> (Inr (if ok then CODE_OK else ERR_CODE_INVALID_JSON), s'))"

definition jis_flush :: "(string \<Rightarrow> bool) \<Rightarrow> JsonIdentityService \<Rightarrow> files \<Rightarrow> files" where
  "jis_flush opens s files = snd (jis_store opens s files)"

section \<open>JsonGatewayService\<close>

record JsonGatewayService =
  jgs_storage :: gateway_storage
  jgs_fileName :: string

definition jgs_get :: "JsonGatewayService \<Rightarrow> GatewayIdentity \<Rightarrow> GatewayIdentity \<Rightarrow> code \<times> GatewayIdentity" where
  "jgs_get s retVal request =
    (if gatewayId request \<noteq> 0 then
       (case om_find (gatewayId request) (jgs_storage s) of
          Some g \<Rightarrow> (CODE_OK, g)
        | None \<Rightarrow> (ERR_CODE_GATEWAY_NOT_FOUND, retVal\<lparr>sockaddr := SOCKADDR_zero\<rparr>))
     else
       (case find_address (sockaddr request) (jgs_storage s) of
          Some (k, g) \<Rightarrow> (CODE_OK, g)
        | None \<Rightarrow> (ERR_CODE_GATEWAY_NOT_FOUND, retVal)))"

definition jgs_list ::
    "JsonGatewayService \<Rightarrow> GatewayIdentity list \<Rightarrow> u32 \<Rightarrow> u8 \<Rightarrow> code \<times> GatewayIdentity list" where
  "jgs_list s retVal offset sz =
    (CODE_OK, retVal @ map snd (page_loop 0 0 (unat offset) (unat sz) (jgs_storage s)))"

definition jgs_size :: "JsonGatewayService \<Rightarrow> nat" where
  "jgs_size s = length (jgs_storage s)"

definition jgs_put :: "JsonGatewayService \<Rightarrow> GatewayIdentity \<Rightarrow> code \<times> JsonGatewayService" where
  "jgs_put s request = (CODE_OK, s\<lparr>jgs_storage := om_assign (gatewayId request) request (jgs_storage s)\<rparr>)"

definition jgs_rm :: "JsonGatewayService \<Rightarrow> GatewayIdentity \<Rightarrow> code \<times> JsonGatewayService" where
  "jgs_rm s request =
    (if gatewayId request \<noteq> 0 then
       (case om_find (gatewayId request) (jgs_storage s) of
          Some _ \<Rightarrow> (CODE_OK, s\<lparr>jgs_storage := om_erase (gatewayId request) (jgs_storage s)\<rparr>)
        | None \<Rightarrow> (ERR_CODE_GATEWAY_NOT_FOUND, s))
     else
       (case find_address (sockaddr request) (jgs_storage s) of
          Some (k, _) \<Rightarrow> (CODE_OK, s\<lparr>jgs_storage := om_erase k (jgs_storage s)\<rparr>)
        | None \<Rightarrow> (ERR_CODE_GATEWAY_NOT_FOUND, s)))"

definition JsonGatewayService_functions :: "JsonGatewayService GatewayService" where
  "JsonGatewayService_functions =
    \<lparr>gsv_get = (\<lambda>s g. jgs_get s g g), gsv_put = jgs_put, gsv_rm = jgs_rm, gsv_list = jgs_list,
     gsv_size = jgs_size\<rparr>"

text \<open>
  An entry without the two texts is passed over.  The constructor takes any text for an address;
  \<open>junk\<close> is the memory of the object of the \<open>i\<close>-th entry.
\<close>

fun load_gateways ::
    "(string \<Rightarrow> bytes option) \<Rightarrow> (nat \<Rightarrow> SOCKADDR) \<Rightarrow> nat \<Rightarrow> json list \<Rightarrow> gateway_storage \<Rightarrow>
     failure option \<times> gateway_storage" where
  "load_gateways pton6 junk i [] storage = (None, storage)"
| "load_gateways pton6 junk i (j # js) storage =
    (case (json_member ''gwid'' j, json_member ''addr'' j) of
       (Some (J_string g), Some (J_string a)) \<Rightarrow>
         (case GatewayIdentity_text pton6 (junk i) (string2gatewayId g) a of
            None \<Rightarrow> (Some Undefined, storage)
          | Some gi \<Rightarrow>
              load_gateways pton6 junk (Suc i) js (om_assign (string2gatewayId g) gi storage))
     | _ \<Rightarrow> load_gateways pton6 junk (Suc i) js storage)"

definition jgs_load ::
    "(string \<Rightarrow> json option) \<Rightarrow> (string \<Rightarrow> bytes option) \<Rightarrow> (nat \<Rightarrow> SOCKADDR) \<Rightarrow> files \<Rightarrow>
     JsonGatewayService \<Rightarrow> (failure + bool) \<times> JsonGatewayService" where
  "jgs_load parse pton6 junk files s =
    (case parse (file_text files (jgs_fileName s)) of
       Some (J_array js) \<Rightarrow>
         (case load_gateways pton6 junk 0 js (jgs_storage s) of
            (None, storage) \<Rightarrow> (Inr True, s\<lparr>jgs_storage := storage\<rparr>)
          | (Some e, storage) \<Rightarrow> (Inl e, s\<lparr>jgs_storage := storage\<rparr>))
     | _ \<Rightarrow> (Inr False, s))"

text \<open>No result where an address is read behind its object.\<close>

definition jgs_store ::
    "(bytes \<Rightarrow> string) \<Rightarrow> (string \<Rightarrow> bool) \<Rightarrow> JsonGatewayService \<Rightarrow> files \<Rightarrow> (bool \<times> files) option" where
  "jgs_store ntop6 opens s files =
    (let ts = map (\<lambda>(_, g). GatewayIdentity_toJsonString ntop6 g) (jgs_storage s)
     in if None \<in> set ts then None
        else Some (True, file_write opens files (jgs_fileName s) (json_file (map the ts))))"

definition jgs_init ::
    "(string \<Rightarrow> json option) \<Rightarrow> (string \<Rightarrow> bytes option) \<Rightarrow> (nat \<Rightarrow> SOCKADDR) \<Rightarrow> files \<Rightarrow> string \<Rightarrow>
     JsonGatewayService \<Rightarrow> (failure + code) \<times> JsonGatewayService" where
  "jgs_init parse pton6 junk files option s =
    (case jgs_load parse pton6 junk files (s\<lparr>jgs_fileName := option\<rparr>) of
       (Inl e, s') \<Rightarrow> (Inl e, s')
     | (Inr _, s') \<Rightarrow> (Inr CODE_OK, s'))"

definition jgs_flush ::
    "(bytes \<Rightarrow> string) \<Rightarrow> (string \<Rightarrow> bool) \<Rightarrow> JsonGatewayService \<Rightarrow> files \<Rightarrow> files option" where
  "jgs_flush ntop6 opens s files = map_option snd (jgs_store ntop6 opens s files)"

definition jgs_done :: "JsonGatewayService \<Rightarrow> JsonGatewayService" where
  "jgs_done s = s\<lparr>jgs_storage := gws_clear (jgs_storage s)\<rparr>"

section \<open>The same answers as the storages in memory\<close>

text \<open>
  A service whose functions do to their state what the functions of another one do to a view of
  it: requests get the same answers from both.
\<close>

locale identity_simulation =
  fixes svc :: "'s IdentityService" and spec :: "'t IdentityService" and view :: "'s \<Rightarrow> 't"
  assumes get: "svc_get svc s r a = svc_get spec (view s) r a"
    and eui: "svc_getNetworkIdentity svc s i e = svc_getNetworkIdentity spec (view s) i e"
    and put: "map_prod id view (svc_put svc s a d) = svc_put spec (view s) a d"
    and rm: "map_prod id view (svc_rm svc s a) = svc_rm spec (view s) a"
    and list: "svc_list svc s l n m = svc_list spec (view s) l n m"
    and size: "svc_size svc s = svc_size spec (view s)"
    and "next": "svc_next svc s i = svc_next spec (view s) i"
begin

lemma put_cases: "svc_put svc s a d = (c, s') \<Longrightarrow> svc_put spec (view s) a d = (c, view s')"
  using put [of s a d] by simp

lemma rm_cases: "svc_rm svc s a = (c, s') \<Longrightarrow> svc_rm spec (view s) a = (c, view s')"
  using rm [of s a] by simp

lemma assign: "map_prod id view (query_ASSIGN svc s gr) = query_ASSIGN spec (view s) gr"
  by (cases "svc_put svc s (ni_devaddr (ias_identity gr)) (ni_devid (ias_identity gr))")
    (simp add: query_ASSIGN_def put_cases Let_def)

lemma remove: "map_prod id view (query_RM svc s gr) = query_RM spec (view s) gr"
  by (cases "svc_rm svc s (iar_addr gr)") (simp add: query_RM_def rm_cases Let_def)

lemma reading:
  "query_ADDR svc s er = query_ADDR spec (view s) er"
  "query_EUI svc s ar = query_EUI spec (view s) ar"
  "query_LIST svc s n gr = query_LIST spec (view s) n gr"
  "query_COUNT cast svc s gr = query_COUNT cast spec (view s) gr"
  "query_NEXT svc s gr = query_NEXT spec (view s) gr"
  by (simp_all add: query_ADDR_def query_EUI_def query_LIST_def query_COUNT_def query_NEXT_def
      get eui list size "next" Let_def)

lemma query:
  "map_prod id view (identity_query cast (Some svc) c ac junk s n req) =
    identity_query cast (Some spec) c ac junk (view s) n req"
  by (simp add: identity_query_def identity_dispatch_def assign remove reading
      split: option.split identity_message.split)

end

locale gateway_simulation =
  fixes svc :: "'s GatewayService" and spec :: "'t GatewayService" and view :: "'s \<Rightarrow> 't"
  assumes get: "gsv_get svc s g = gsv_get spec (view s) g"
    and put: "map_prod id view (gsv_put svc s g) = gsv_put spec (view s) g"
    and rm: "map_prod id view (gsv_rm svc s g) = gsv_rm spec (view s) g"
    and list: "gsv_list svc s l n m = gsv_list spec (view s) l n m"
    and size: "gsv_size svc s = gsv_size spec (view s)"
begin

lemma put_cases: "gsv_put svc s g = (c, s') \<Longrightarrow> gsv_put spec (view s) g = (c, view s')"
  using put [of s g] by simp

lemma rm_cases: "gsv_rm svc s g = (c, s') \<Longrightarrow> gsv_rm spec (view s) g = (c, view s')"
  using rm [of s g] by simp

lemma assign: "map_prod id view (query_gateway_ASSIGN svc junk s gr) = query_gateway_ASSIGN spec junk (view s) gr"
  by (cases "gsv_put svc s (gia_identity gr)") (simp add: query_gateway_ASSIGN_def put_cases)

lemma remove: "map_prod id view (query_gateway_RM svc junk s gr) = query_gateway_RM spec junk (view s) gr"
  by (cases "gsv_rm svc s (gia_identity gr)") (simp add: query_gateway_RM_def rm_cases)

lemma reading:
  "query_gateway_ADDR svc s ir = query_gateway_ADDR spec (view s) ir"
  "query_gateway_ID svc s ar = query_gateway_ID spec (view s) ar"
  "query_gateway_LIST svc junk s n gr = query_gateway_LIST spec junk (view s) n gr"
  "query_gateway_COUNT svc junk s gr = query_gateway_COUNT spec junk (view s) gr"
  by (simp_all add: query_gateway_ADDR_def query_gateway_ID_def query_gateway_LIST_def
      query_gateway_COUNT_def get list size Let_def)

lemma query:
  "map_prod id view (gateway_query (Some svc) c ac junk junk_addr s n req) =
    gateway_query (Some spec) c ac junk junk_addr (view s) n req"
  by (simp add: gateway_query_def gateway_dispatch_def assign remove reading
      split: option.split gateway_message.split)

end

lemma jis_find_eui_same: "jis_find_eui storage r e = ids_getNetworkIdentity storage r e"
  by (induction storage r e rule: jis_find_eui.induct) simp_all

interpretation json_identities: identity_simulation JsonIdentityService_functions MemoryIdentityService jis_storage
  by unfold_locales
    (simp_all add: JsonIdentityService_functions_def MemoryIdentityService_def jis_get_def ids_get_def
      jis_getNetworkIdentity_def jis_find_eui_same jis_put_def ids_put_def jis_rm_def ids_rm_def
      jis_list_def ids_list_def jis_size_def ids_size_def jis_next_def ids_next_def split: option.split)

text \<open>the binary protocol answers from a storage in a JSON file as from one in memory with
  the same entries, and changes it in the same way.\<close>

theorem json_identities_answer:
  "map_prod id jis_storage
      (IdentityBinarySerialization_query (Some JsonIdentityService_functions) c ac junk s n req) =
    IdentityBinarySerialization_query (Some MemoryIdentityService) c ac junk (jis_storage s) n req"
  unfolding IdentityBinarySerialization_query_def by (rule json_identities.query)

interpretation json_gateways: gateway_simulation JsonGatewayService_functions MemoryGatewayService jgs_storage
  by unfold_locales
    (simp_all add: JsonGatewayService_functions_def MemoryGatewayService_def jgs_get_def gws_get_def
      jgs_put_def gws_put_def jgs_rm_def gws_rm_def jgs_list_def gws_list_def jgs_size_def gws_size_def
      split: option.split)

theorem json_gateways_answer:
  "map_prod id jgs_storage (gateway_query (Some JsonGatewayService_functions) c ac junk junk_addr s n req) =
    gateway_query (Some MemoryGatewayService) c ac junk junk_addr (jgs_storage s) n req"
  by (rule json_gateways.query)

section \<open>The text of a storage\<close>

lemma json_entries_join: "json_entries False ts = concat (map (\<lambda>t. [CHR '','', CHR 0x0A] @ t) ts)"
  by (induction ts) simp_all

lemma join_concat: "join sep (t # ts) = t @ concat (map (\<lambda>t. sep @ t) ts)"
  by (induction ts arbitrary: t) simp_all

lemma json_file_join: "json_file ts = CHR ''['' # [CHR 0x0A] @ join (CHR '','' # [CHR 0x0A]) ts @ '']'' @ [CHR 0x0A]"
  by (cases ts) (simp_all add: json_file_def json_entries_join join_concat)

lemma length_join: "(\<And>t. t \<in> set ts \<Longrightarrow> k \<le> length t) \<Longrightarrow> k * length ts \<le> length (join sep ts)"
proof (induction ts)
  case (Cons t ts)
  then have "k \<le> length t" "k * length ts \<le> length (join sep ts)" by simp_all
  then show ?case by (cases ts) simp_all
qed simp

text \<open>A file of objects is read as the array of their values.\<close>

lemma read_json_file:
  assumes "list_all2 (reads n) ts js" "\<And>t. t \<in> set ts \<Longrightarrow> hd t = CHR ''{'' \<and> n < length t"
  shows "read_json (json_file ts) = Some (J_array js)"
proof -
  let ?t = "CHR ''['' # [CHR 0x0A] @ join (CHR '','' # [CHR 0x0A]) ts @ '']''"
  define k where "k = (if ts = [] then 0 else n)"
  have "reads (Suc (length ts + k)) ?t (J_array js)"
  proof (rule reads_array)
    show "list_all2 (reads k) ts js" using assms(1) by (cases ts) (simp_all add: k_def)
    show "[] \<notin> set ts" using assms(2) by fastforce
  qed (use assms(2) in simp_all)
  moreover have "Suc (length ts + k) \<le> length ?t"
  proof (cases ts)
    case (Cons t ts')
    have "Suc n * length ts \<le> length (join (CHR '','' # [CHR 0x0A]) ts)"
      by (rule length_join) (use assms(2) in force)
    moreover have "n * 1 \<le> n * length ts" using Cons by (intro mult_le_mono2) simp
    ultimately have "length ts + n \<le> length (join (CHR '','' # [CHR 0x0A]) ts)"
      unfolding mult_Suc mult_1_right by (rule order_trans [OF add_left_mono, rotated])
    then show ?thesis by (simp add: k_def)
  qed (simp add: k_def)
  ultimately have "read_json (?t @ [CHR 0x0A]) = Some (J_array js)" by (rule read_json_reads) simp
  then show ?thesis by (simp add: json_file_join)
qed

section \<open>Identities written and read\<close>

definition text_member :: "string \<Rightarrow> string \<Rightarrow> member" where
  "text_member k t = (k, quoted t, J_string t)"

definition word_member :: "string \<Rightarrow> 'a::len word \<Rightarrow> member" where
  "word_member k w = (k, show_word w, J_unsigned (unat w))"

text \<open>The members of the text of a device, with their values.\<close>

definition device_members :: "DEVADDR \<Rightarrow> DEVICE_ID \<Rightarrow> member list" where
  "device_members a d =
    (if isDEVADDREmpty a then [] else [text_member ''addr'' (DEVADDR2string a)]) @
    [text_member ''activation'' (activation2string (activation d)),
     text_member ''class'' (deviceclass2string (deviceclass d)),
     text_member ''deveui'' (DEVEUI2string (devEUI d)), text_member ''nwkSKey'' (KEY2string (nwkSKey d)),
     text_member ''appSKey'' (KEY2string (appSKey d)),
     text_member ''version'' (LORAWAN_VERSION2string (version d)),
     text_member ''appeui'' (DEVEUI2string (appEUI d)), text_member ''appKey'' (KEY2string (appKey d)),
     text_member ''nwkKey'' (KEY2string (nwkKey d)), text_member ''devNonce'' (DEVNONCE2string (devNonce d)),
     text_member ''joinNonce'' (JOINNONCE2string (joinNonce d)), word_member ''token'' (token d AND 0xffff),
     word_member ''region'' (region d), word_member ''subRegion'' (subRegion d),
     text_member ''name'' (bytes_text (DEVICENAME2string (name d)))]"

definition device_document :: "DEVADDR \<Rightarrow> DEVICE_ID \<Rightarrow> json" where
  "device_document a d = J_object (map member_value (device_members a d))"

text \<open>
  What a text can hold of a device: the enumerations have names, the name is of characters that
  stand for themselves, and nothing is behind it.
\<close>

definition storable :: "DEVICE_ID \<Rightarrow> bool" where
  "storable d \<longleftrightarrow>
    wf_device d \<and> activation d \<le> OTAA \<and> deviceclass d \<le> CLASS_C \<and>
    list_all json_plain (bytes_text (DEVICENAME2string (name d))) \<and>
    name d = c_str (name d) @ replicate (8 - length (c_str (name d))) 0"

text \<open>What is read is the device without its token and regions.\<close>

definition reread :: "DEVICE_ID \<Rightarrow> DEVICE_ID" where
  "reread d = d\<lparr>token := 0, region := 0, subRegion := 0\<rparr>"

lemma device_text: "DEVICEID_toJsonString a d = CHR ''{'' # join (CHR '','' # []) (map (member_text []) (device_members a d)) @ ''}''"
  by (simp add: DEVICEID_toJsonString_def compact_object_def device_members_def text_member_def word_member_def
      token2string_def region2string_def subRegion2string_def)

lemma json_plain_hex: "list_all json_plain (hexString bs)"
  using hexString_digits [of bs]
  by (auto simp: list_all_iff json_plain_def digit_value_def Let_def split: if_splits)

lemma json_plain_nat: "list_all json_plain (show_nat n)"
  using show_nat_isdigit [of n] by (auto simp: list_all_iff json_plain_def isdigit_def Let_def)

lemma member_read_text: "list_all json_plain k \<Longrightarrow> list_all json_plain t \<Longrightarrow> member_read (Suc 0) (text_member k t)"
  by (simp add: text_member_def reads_string)

lemma member_read_word:
  assumes "list_all json_plain k" "LENGTH('a::len) \<le> 64"
  shows "member_read (Suc 0) (word_member k (w :: 'a word))"
proof -
  have "unat w < 2 ^ LENGTH('a)" by (rule unsigned_less)
  also have "(2::nat) ^ LENGTH('a) \<le> 2 ^ 64" using assms(2) by (rule power_increasing) simp
  finally show ?thesis using assms(1) by (simp add: word_member_def show_word_def reads_number)
qed

lemma activation_plain: "list_all json_plain (activation2string v)"
  by (cases "v > OTAA"; cases "unat v = 0"; cases "unat v = 1")
    (auto simp: activation2string_def ACTIVATION_NAMES_def json_plain_def word_less_nat_alt)

lemma device_members_read: "storable d \<Longrightarrow> list_all (member_read (Suc 0)) (device_members a d)"
  by (simp add: device_members_def member_read_text member_read_word storable_def DEVADDR2string_def
      DEVEUI2string_def KEY2string_def DEVNONCE2string_def JOINNONCE2string_def json_plain_hex
      activation_plain deviceclass2string_def LORAWAN_VERSION2string_def show_word_def json_plain_nat
      json_plain_def Let_def)

lemma device_reads: "storable d \<Longrightarrow> reads 18 (DEVICEID_toJsonString a d) (device_document a d)"
proof -
  assume d: "storable d"
  have "reads (Suc (length (device_members a d) + Suc 0)) (DEVICEID_toJsonString a d) (device_document a d)"
    unfolding device_text device_document_def
    by (rule reads_object [OF device_members_read [OF d]])
      (simp_all add: device_members_def text_member_def word_member_def)
  then show ?thesis by (rule reads_mono) (simp add: device_members_def)
qed

lemma device_text_long: "18 < length (DEVICEID_toJsonString a d)"
  by (simp add: DEVICEID_toJsonString_def compact_object_def quoted_def)

text \<open>The members of a document by their names.\<close>

lemma device_document_members:
  "a \<noteq> 0 \<Longrightarrow> json_member ''addr'' (device_document a d) = Some (J_string (DEVADDR2string a))"
  "json_member ''activation'' (device_document a d) = Some (J_string (activation2string (activation d)))"
  "json_member ''class'' (device_document a d) = Some (J_string (deviceclass2string (deviceclass d)))"
  "json_member ''deveui'' (device_document a d) = Some (J_string (DEVEUI2string (devEUI d)))"
  "json_member ''nwkSKey'' (device_document a d) = Some (J_string (KEY2string (nwkSKey d)))"
  "json_member ''appSKey'' (device_document a d) = Some (J_string (KEY2string (appSKey d)))"
  "json_member ''version'' (device_document a d) = Some (J_string (LORAWAN_VERSION2string (version d)))"
  "json_member ''appeui'' (device_document a d) = Some (J_string (DEVEUI2string (appEUI d)))"
  "json_member ''appKey'' (device_document a d) = Some (J_string (KEY2string (appKey d)))"
  "json_member ''nwkKey'' (device_document a d) = Some (J_string (KEY2string (nwkKey d)))"
  "json_member ''devNonce'' (device_document a d) = Some (J_string (DEVNONCE2string (devNonce d)))"
  "json_member ''joinNonce'' (device_document a d) = Some (J_string (JOINNONCE2string (joinNonce d)))"
  "json_member ''name'' (device_document a d) = Some (J_string (bytes_text (DEVICENAME2string (name d))))"
  by (simp_all add: device_document_def device_members_def text_member_def word_member_def isDEVADDREmpty_def)

lemma name_reread:
  assumes "storable d"
  shows "string2DEVICENAME (text_bytes (bytes_text (DEVICENAME2string (name d)))) (replicate 8 0) = name d"
proof -
  let ?n = "c_str (name d)"
  have l: "length (name d) = 8" and n: "name d = ?n @ replicate (8 - length ?n) 0"
    using assms by (simp_all add: storable_def wf_device_def)
  have "length ?n \<le> 8" using l length_takeWhile_le [of "\<lambda>b. b \<noteq> 0" "name d"] by (simp add: c_str_def)
  moreover have "0 \<notin> set ?n" by (auto simp: c_str_def dest: set_takeWhileD)
  ultimately have "string2DEVICENAME (take 8 ?n) (replicate 8 0) = ?n @ replicate (8 - length ?n) 0"
    by (simp add: string2DEVICENAME_def strncpy_def c_str_no_nul mem_write_def Let_def)
  with n show ?thesis by (simp add: DEVICENAME2string_def text_bytes_inverse)
qed

lemma default_fields:
  "length (nwkSKey DEVICEID_default) = 16" "length (appSKey DEVICEID_default) = 16"
  "length (appKey DEVICEID_default) = 16" "length (nwkKey DEVICEID_default) = 16"
  "length (joinNonce DEVICEID_default) = 3" "name DEVICEID_default = replicate 8 0"
  "token DEVICEID_default = 0" "region DEVICEID_default = 0" "subRegion DEVICEID_default = 0"
  by (simp_all add: DEVICEID_default_def KEY128_zero_def)

lemma load_device_document:
  assumes "storable d"
  shows "load_device (device_document a d) = Inr (reread d)"
proof -
  have "wf_device d" "activation d \<le> OTAA" "deviceclass d \<le> CLASS_C" using assms by (simp_all add: storable_def)
  then show ?thesis
    using name_reread [OF assms]
    by (simp add: load_device_def device_fields_def load_member_def device_document_members text_simps
        activation_text deviceclass_text wf_device_def wf_KEY128_def default_fields reread_def
        DEVICEID_setClass_def)
qed

lemma om_assign_above: "(\<And>k'. k' \<in> fst ` set m \<Longrightarrow> k' < k) \<Longrightarrow> om_assign k v m = m @ [(k, v)]"
  by (induction k v m rule: om_assign.induct) (auto dest: less_asym)

text \<open>Entries behind all that are in the storage are put at its end.\<close>

lemma load_documents:
  assumes "om_sorted rest" "\<And>k k'. k \<in> fst ` set st \<Longrightarrow> k' \<in> fst ` set rest \<Longrightarrow> k < k'"
    and "list_all (\<lambda>(a, d). a \<noteq> 0 \<and> storable d) rest"
  shows "load_identities (map (\<lambda>(a, d). device_document a d) rest) st =
    (None, st @ map (\<lambda>(a, d). (a, reread d)) rest)"
  using assms
proof (induction rest arbitrary: st)
  case (Cons e rest)
  obtain a d where e: "e = (a, d)" by (cases e)
  have ad: "a \<noteq> 0" "storable d" using Cons.prems(3) by (simp_all add: e)
  have "om_assign a (reread d) st = st @ [(a, reread d)]"
    using Cons.prems(2) by (intro om_assign_above) (simp add: e)
  moreover have "load_identities (map (\<lambda>(a, d). device_document a d) rest) (st @ [(a, reread d)]) =
      (None, (st @ [(a, reread d)]) @ map (\<lambda>(a, d). (a, reread d)) rest)"
    using Cons.prems by (intro Cons.IH) (auto simp: e)
  ultimately show ?case
    by (simp add: e device_document_members(1) [OF ad(1)] load_device_document [OF ad(2)] text_simps)
qed simp

lemma stored_text:
  assumes "list_all (\<lambda>(a, d). storable d) st"
  shows "read_json (json_file (map (\<lambda>(a, d). DEVICEID_toJsonString a d) st)) =
    Some (J_array (map (\<lambda>(a, d). device_document a d) st))"
proof (rule read_json_file)
  show "list_all2 (reads 18) (map (\<lambda>(a, d). DEVICEID_toJsonString a d) st)
      (map (\<lambda>(a, d). device_document a d) st)"
    using assms by (induction st) (auto simp: device_reads)
  fix t assume "t \<in> set (map (\<lambda>(a, d). DEVICEID_toJsonString a d) st)"
  then obtain a d where "t = DEVICEID_toJsonString a d" by auto
  then show "hd t = CHR ''{'' \<and> 18 < length t" by (simp add: device_text_long) (simp add: device_text)
qed

section \<open>Gateways written and read\<close>

definition ip4_text :: "SOCKADDR \<Rightarrow> string" where
  "ip4_text a = inet_ntop4 (take 4 (sin_addr a)) @ '':'' @ show_word (NTOH2 (sin_port a))"

definition gateway_members :: "GatewayIdentity \<Rightarrow> member list" where
  "gateway_members g =
    [text_member ''gwid'' (gatewayId2str (gatewayId g)), text_member ''addr'' (ip4_text (sockaddr g))]"

definition gateway_document :: "GatewayIdentity \<Rightarrow> json" where
  "gateway_document g = J_object (map member_value (gateway_members g))"

definition gateway_text :: "GatewayIdentity \<Rightarrow> string" where
  "gateway_text g = CHR ''{'' # join (CHR '','' # '' '') (map (member_text '' '') (gateway_members g)) @ ''}''"

text \<open>A gateway with an IPv4 address, filed under its identifier.\<close>

definition ip4_entry :: "u64 \<times> GatewayIdentity \<Rightarrow> bool" where
  "ip4_entry = (\<lambda>(k, g). gatewayId g = k \<and> wf_sockaddr (sockaddr g) \<and> sa_family (sockaddr g) = AF_INET)"

text \<open>What is read again: family, port and address, the rest of the object is what it was.\<close>

definition reread_gateway :: "SOCKADDR \<Rightarrow> GatewayIdentity \<Rightarrow> GatewayIdentity" where
  "reread_gateway z g = \<lparr>gatewayId = gatewayId g, sockaddr = put_ip4 z (sockaddr g)\<rparr>"

lemma ip4_memory_text:
  "wf_sockaddr a \<Longrightarrow> sa_family a = AF_INET \<Longrightarrow> sockaddr2string ntop6 (sockaddr_memory a) = Some (ip4_text a)"
  by (simp add: sockaddr2string_def ip4_text_def sockaddr_memory_def mem_family_def mem_port_def mem_read_def
      from_le_le_bytes wf_sockaddr_def)

lemma gateway_toJson: "ip4_entry (k, g) \<Longrightarrow> GatewayIdentity_toJsonString ntop6 g = Some (gateway_text g)"
  by (simp add: ip4_entry_def GatewayIdentity_toJsonString_def ip4_memory_text gateway_text_def
      gateway_members_def text_member_def gatewayId2str_def)

lemma ip4_text_plain: "list_all json_plain (ip4_text a)"
  by (simp add: ip4_text_def inet_ntop4_def show_word_def json_plain_nat) (simp add: json_plain_def)

lemma gateway_reads: "reads 4 (gateway_text g) (gateway_document g)"
proof -
  have hex: "list_all json_plain (gatewayId2str v)" for v
    using show_base_digits [of 16 "unat v"]
    by (auto simp: gatewayId2str_def list_all_iff json_plain_def digit_value_def Let_def split: if_splits)
  have names: "list_all json_plain ''gwid''" "list_all json_plain ''addr''"
    by (simp_all add: json_plain_def)
  have "list_all (member_read (Suc 0)) (gateway_members g)"
    using member_read_text [OF names(1) hex] member_read_text [OF names(2) ip4_text_plain]
    by (simp add: gateway_members_def)
  then have "reads (Suc (length (gateway_members g) + Suc 0)) (gateway_text g) (gateway_document g)"
    unfolding gateway_text_def gateway_document_def
    by (rule reads_object) (simp_all add: gateway_members_def text_member_def)
  then show ?thesis by (simp add: gateway_members_def numeral_eq_Suc)
qed

lemma put_ip4_memory:
  assumes "wf_sockaddr a" "wf_sockaddr z" "sa_family a = AF_INET"
  shows "sockaddr_of_memory (take 8 (sockaddr_memory a) @ drop 8 (sockaddr_memory z)) = put_ip4 z a"
proof -
  have "take 8 (drop 4 (sin_addr z)) @ replicate 4 0 = drop 4 (sin_addr z)"
    using assms(2) append_take_drop_id [of 8 "drop 4 (sin_addr z)"] by (simp add: wf_sockaddr_def)
  then show ?thesis
    using assms
    by (simp add: put_ip4_def sockaddr_of_memory_def sockaddr_memory_def mem_family_def mem_port_def
        mem_read_def from_le_le_bytes wf_sockaddr_def take_drop min_def)
qed

lemma ip4_text_read:
  assumes "wf_sockaddr a" "sa_family a = AF_INET" "wf_sockaddr z" "\<And>b. pton6 (inet_ntop4 b) = None"
  shows "string2sockaddr pton6 (sockaddr_memory z) (ip4_text a) =
    Some (True, take 8 (sockaddr_memory a) @ drop 8 (sockaddr_memory z))"
proof -
  let ?m = "sockaddr_memory a" and ?z = "sockaddr_memory z"
  have "\<exists>t. sockaddr2string ntop6 ?m = Some t \<and> string2sockaddr pton6 ?z t = Some (True, take 8 ?m @ drop 8 ?z)"
    for ntop6
    by (rule address_text_roundtrip) (simp_all add: assms)
  then show ?thesis by (simp add: ip4_memory_text assms(1,2))
qed

lemma gateway_reread:
  assumes "ip4_entry (k, g)" "wf_sockaddr z" "\<And>b. pton6 (inet_ntop4 b) = None"
  shows "GatewayIdentity_text pton6 z k (ip4_text (sockaddr g)) = Some (reread_gateway z g)"
proof -
  have w: "wf_sockaddr (sockaddr g)" "sa_family (sockaddr g) = AF_INET" "gatewayId g = k"
    using assms(1) by (simp_all add: ip4_entry_def)
  have "string2sockaddr pton6 (sockaddr_memory z) (ip4_text (sockaddr g)) =
      Some (True, take 8 (sockaddr_memory (sockaddr g)) @ drop 8 (sockaddr_memory z))"
    by (rule ip4_text_read) (simp_all add: w assms)
  then show ?thesis
    by (simp add: GatewayIdentity_text_def reread_gateway_def put_ip4_memory w assms(2))
qed

lemma load_gateway_documents:
  assumes "om_sorted rest" "\<And>k k'. k \<in> fst ` set st \<Longrightarrow> k' \<in> fst ` set rest \<Longrightarrow> k < k'"
    and "list_all ip4_entry rest" "\<And>i. wf_sockaddr (junk i)" "\<And>b. pton6 (inet_ntop4 b) = None"
  shows "load_gateways pton6 junk i (map (\<lambda>(k, g). gateway_document g) rest) st =
    (None, st @ map (\<lambda>(n, k, g). (k, reread_gateway (junk n) g)) (enumerate i rest))"
  using assms(1-3)
proof (induction rest arbitrary: i st)
  case (Cons e rest)
  obtain k g where e: "e = (k, g)" by (cases e)
  have g: "ip4_entry (k, g)" using Cons.prems(3) by (simp add: e)
  then have k: "gatewayId g = k" by (simp add: ip4_entry_def)
  let ?g = "reread_gateway (junk i) g"
  have "om_assign k ?g st = st @ [(k, ?g)]"
    using Cons.prems(2) by (intro om_assign_above) (simp add: e)
  moreover have "load_gateways pton6 junk (Suc i) (map (\<lambda>(k, g). gateway_document g) rest) (st @ [(k, ?g)]) =
      (None, (st @ [(k, ?g)]) @ map (\<lambda>(n, k, g). (k, reread_gateway (junk n) g)) (enumerate (Suc i) rest))"
    using Cons.prems by (intro Cons.IH) (auto simp: e)
  moreover have "GatewayIdentity_text pton6 (junk i) k (ip4_text (sockaddr g)) = Some ?g"
    by (rule gateway_reread [OF g assms(4)]) (rule assms(5))
  ultimately show ?case
    by (simp add: e gateway_document_def gateway_members_def text_member_def k text_simps)
qed simp

section \<open>Properties of the files\<close>

text \<open>C7: a storage of identities written to its file and opened again has the same addresses,
  each with its device without the token and the regions, which the file has and the reader
  passes over; it is so for addresses that are not zero, devices whose enumerations have names
  and names of plain characters.\<close>

theorem stored_identities_reloaded:
  assumes "reads_json parse" "opens f" "om_sorted st" "list_all (\<lambda>(a, d). a \<noteq> 0 \<and> storable d) st"
  shows "jis_init parse (jis_flush opens \<lparr>jis_storage = st, jis_fileName = f\<rparr> files) f
      \<lparr>jis_storage = [], jis_fileName = g\<rparr> =
    (Inr CODE_OK, \<lparr>jis_storage = map (\<lambda>(a, d). (a, reread d)) st, jis_fileName = f\<rparr>)"
proof -
  let ?docs = "map (\<lambda>(a, d). device_document a d) st"
  have "list_all (\<lambda>(a, d). storable d) st" using assms(4) by (auto simp: list_all_iff)
  then have "parse (json_file (map (\<lambda>(a, d). DEVICEID_toJsonString a d) st)) = Some (J_array ?docs)"
    by (rule reads_jsonD [OF assms(1) stored_text])
  moreover have "load_identities ?docs [] = (None, [] @ map (\<lambda>(a, d). (a, reread d)) st)"
    by (rule load_documents) (use assms(3,4) in auto)
  ultimately show ?thesis
    using assms(2)
    by (simp add: jis_init_def jis_flush_def jis_store_def jis_load_def file_write_def file_text_def)
qed

theorem stored_identities_reloaded_witness:
  "jis_init read_json (jis_flush (\<lambda>_. True)
      \<lparr>jis_storage = [(0x01020304, DEVICEID_default\<lparr>token := 9\<rparr>), (0x01020305, DEVICEID_eui 7)], jis_fileName = ''i''\<rparr>
      (\<lambda>_. None)) ''i'' \<lparr>jis_storage = [], jis_fileName = []\<rparr> =
    (Inr CODE_OK, \<lparr>jis_storage = map (\<lambda>(a, d). (a, reread d))
      [(0x01020304, DEVICEID_default\<lparr>token := 9\<rparr>), (0x01020305, DEVICEID_eui 7)], jis_fileName = ''i''\<rparr>)"
  by (rule stored_identities_reloaded [OF reads_json_self])
    (simp_all add: storable_def wf_device_def wf_KEY128_def DEVICEID_default_def DEVICEID_eui_def
      KEY128_zero_def DEVICENAME2string_def c_str_def bytes_text_def)

text \<open>a device without an address is in the file, but is passed over when it is read.\<close>

theorem address_zero_not_reloaded:
  assumes "reads_json parse" "opens f" "storable d"
  shows "jis_init parse (jis_flush opens \<lparr>jis_storage = [(0, d)], jis_fileName = f\<rparr> files) f
      \<lparr>jis_storage = [], jis_fileName = g\<rparr> =
    (Inr CODE_OK, \<lparr>jis_storage = [], jis_fileName = f\<rparr>)"
proof -
  have "read_json (json_file (map (\<lambda>(a, d). DEVICEID_toJsonString a d) [(0, d)])) =
      Some (J_array [device_document 0 d])"
    using stored_text [of "[(0, d)]"] assms(3) by simp
  then have "parse (json_file [DEVICEID_toJsonString 0 d]) = Some (J_array [device_document 0 d])"
    using reads_jsonD [OF assms(1)] by simp
  moreover have "json_member ''addr'' (device_document 0 d) = None"
    by (simp add: device_document_def device_members_def isDEVADDREmpty_def text_member_def word_member_def)
  ultimately show ?thesis
    using assms(2)
    by (simp add: jis_init_def jis_flush_def jis_store_def jis_load_def file_write_def file_text_def)
qed

theorem address_zero_not_reloaded_witness:
  "jis_init read_json (jis_flush (\<lambda>_. True) \<lparr>jis_storage = [(0, DEVICEID_default)], jis_fileName = ''i''\<rparr>
      (\<lambda>_. None)) ''i'' \<lparr>jis_storage = [], jis_fileName = []\<rparr> =
    (Inr CODE_OK, \<lparr>jis_storage = [], jis_fileName = ''i''\<rparr>)"
  by (rule address_zero_not_reloaded [OF reads_json_self])
    (simp_all add: storable_def wf_device_def wf_KEY128_def DEVICEID_default_def
      KEY128_zero_def DEVICENAME2string_def c_str_def bytes_text_def)

text \<open>an entry whose address is no text ends the loading: what was read before stays, and the
  exception leaves \<open>init\<close>.\<close>

theorem load_throws_at_number:
  assumes "parse (file_text files f) = Some (J_array (map (\<lambda>(a, d). device_document a d) st @ j # js))"
    and "om_sorted st" "list_all (\<lambda>(a, d). a \<noteq> 0 \<and> storable d) st"
    and "json_member ''addr'' j = Some (J_unsigned n)"
  shows "jis_init parse files f \<lparr>jis_storage = [], jis_fileName = g\<rparr> =
    (Inl Exc_type_error, \<lparr>jis_storage = map (\<lambda>(a, d). (a, reread d)) st, jis_fileName = f\<rparr>)"
proof -
  have app: "load_identities (as @ j # js) s = (Some Exc_type_error, s')"
    if "load_identities as s = (None, s')" for as s s'
    using that assms(4)
    by (induction as s rule: load_identities.induct) (auto split: option.splits json.splits sum.splits)
  have "load_identities (map (\<lambda>(a, d). device_document a d) st) [] =
      (None, [] @ map (\<lambda>(a, d). (a, reread d)) st)"
    by (rule load_documents) (use assms(2,3) in auto)
  then show ?thesis using assms(1) app by (simp add: jis_init_def jis_load_def)
qed

theorem load_throws_at_number_witness:
  "jis_init read_json [''i'' \<mapsto> ''[{'' @ quoted ''addr'' @ '':7}]''] ''i'' \<lparr>jis_storage = [], jis_fileName = []\<rparr> =
    (Inl Exc_type_error, \<lparr>jis_storage = map (\<lambda>(a, d). (a, reread d)) [], jis_fileName = ''i''\<rparr>)"
  by (rule load_throws_at_number [where j = "J_object [(''addr'', J_unsigned 7)]" and js = "[]" and n = 7])
    (simp_all add: file_text_def read_json_def quoted_def skip_space_def json_space_def json_plain_def
      read_number_def no_number_char_def isdigit_def number_value_def digit_value_def)

text \<open>C28: gateways with IPv4 addresses, written to their file and read again, are filed under the
  same identifiers with the same family, port and address; the last eight bytes of their
  addresses are those that the objects had on the stack.\<close>

theorem stored_gateways_reloaded:
  assumes "reads_json parse" "opens f" "om_sorted st" "list_all ip4_entry st"
    and "\<And>i. wf_sockaddr (junk i)" "\<And>b. pton6 (inet_ntop4 b) = None"
  shows "map_option (\<lambda>files. jgs_init parse pton6 junk files f \<lparr>jgs_storage = [], jgs_fileName = g\<rparr>)
      (jgs_flush ntop6 opens \<lparr>jgs_storage = st, jgs_fileName = f\<rparr> files) =
    Some (Inr CODE_OK, \<lparr>jgs_storage = map (\<lambda>(n, k, g). (k, reread_gateway (junk n) g)) (enumerate 0 st),
      jgs_fileName = f\<rparr>)"
proof -
  have t: "map (\<lambda>(_, g). GatewayIdentity_toJsonString ntop6 g) st = map Some (map (\<lambda>(_, g). gateway_text g) st)"
    using assms(4) by (induction st) (auto simp: gateway_toJson)
  have "read_json (json_file (map (\<lambda>(_, g). gateway_text g) st)) =
      Some (J_array (map (\<lambda>(k, g). gateway_document g) st))"
  proof (rule read_json_file)
    show "list_all2 (reads 4) (map (\<lambda>(_, g). gateway_text g) st) (map (\<lambda>(k, g). gateway_document g) st)"
      by (induction st) (auto simp: gateway_reads)
    fix t assume "t \<in> set (map (\<lambda>(_, g). gateway_text g) st)"
    then show "hd t = CHR ''{'' \<and> 4 < length t"
      by (auto simp: gateway_text_def gateway_members_def text_member_def quoted_def)
  qed
  then have "parse (json_file (map (\<lambda>(_, g). gateway_text g) st)) =
      Some (J_array (map (\<lambda>(k, g). gateway_document g) st))"
    by (rule reads_jsonD [OF assms(1)])
  moreover have "load_gateways pton6 junk 0 (map (\<lambda>(k, g). gateway_document g) st) [] =
      (None, [] @ map (\<lambda>(n, k, g). (k, reread_gateway (junk n) g)) (enumerate 0 st))"
    by (rule load_gateway_documents) (use assms(3-6) in auto)
  moreover have "map the (map Some ts) = ts" "None \<notin> set (map Some ts)" for ts :: "string list"
    by (auto simp: comp_def)
  ultimately show ?thesis
    using assms(2)
    by (simp add: jgs_flush_def jgs_store_def jgs_init_def jgs_load_def t file_write_def file_text_def
        del: map_map set_map)
qed

theorem stored_gateways_reloaded_witness:
  "map_option (\<lambda>files. jgs_init read_json (\<lambda>_. None) (\<lambda>_. SOCKADDR_zero) files ''g''
        \<lparr>jgs_storage = [], jgs_fileName = []\<rparr>)
      (jgs_flush (\<lambda>_. []) (\<lambda>_. True) \<lparr>jgs_storage =
        [(5, \<lparr>gatewayId = 5, sockaddr = \<lparr>sa_family = 2, sin_port = 0x8f06, sin_addr = [10, 8, 0, 255] @ replicate 12 0\<rparr>\<rparr>)],
        jgs_fileName = ''g''\<rparr> (\<lambda>_. None)) =
    Some (Inr CODE_OK, \<lparr>jgs_storage = map (\<lambda>(n, k, g). (k, reread_gateway SOCKADDR_zero g)) (enumerate 0
        [(5, \<lparr>gatewayId = 5, sockaddr = \<lparr>sa_family = 2, sin_port = 0x8f06, sin_addr = [10, 8, 0, 255] @ replicate 12 0\<rparr>\<rparr>)]),
      jgs_fileName = ''g''\<rparr>)"
  by (rule stored_gateways_reloaded [OF reads_json_self])
    (simp_all add: ip4_entry_def wf_sockaddr_def SOCKADDR_zero_def)

end
