(* ===== verification/Json_Service.thy ===== *)
theory Json_Service
  imports Json_Storage
begin

text \<open>
  The services answering requests that are JSON texts
  (\<open>storage/serialization/json-helper.cpp\<close>, \<open>identity-text-json-serialization.cpp\<close>,
  \<open>gateway-text-json-serialization.cpp\<close>).  Reading a text to a document, \<open>parse\<close>, and writing
  a document, \<open>dump\<close>, is the JSON library.  A query gives the text that is written to the buffer,
  which is empty when the size returned is zero, and the new state of the service.
\<close>

section \<open>Answers and credentials\<close>

definition retStr :: "nat \<Rightarrow> string \<Rightarrow> string" where
  "retStr retSize s = (if length s \<le> retSize then s else [])"

definition retJs :: "(json \<Rightarrow> string) \<Rightarrow> nat \<Rightarrow> json \<Rightarrow> string" where
  "retJs dump retSize js = (let s = dump js in if length s \<le> retSize then s else [])"

definition retStatusCode :: "(json \<Rightarrow> string) \<Rightarrow> nat \<Rightarrow> code \<Rightarrow> string" where
  "retStatusCode dump retSize errCode = retJs dump retSize (J_object [(''code'', J_integer errCode)])"

text \<open>A number converted to an integer type; a \<open>double\<close> has to be a value of the type.\<close>

fun json_word :: "int \<Rightarrow> int \<Rightarrow> json \<Rightarrow> failure + 'a::len word" where
  "json_word lo hi (J_unsigned n) = Inr (of_nat n)"
| "json_word lo hi (J_integer i) = Inr (word_of_int i)"
| "json_word lo hi (J_float d) = (if lo \<le> dbl_trunc d \<and> dbl_trunc d < hi then Inr (word_of_int (dbl_trunc d)) else Inl Undefined)"
| "json_word lo hi _ = Inl Exc_type_error"

definition check_code :: "json \<Rightarrow> u32 \<Rightarrow> failure + bool" where
  "check_code js code =
    (case json_member ''code'' js of
       None \<Rightarrow> Inr False
     | Some (J_string s) \<Rightarrow> Inr (code = word_of_int (strtol 16 s) \<or> code = word_of_int (strtol 10 s))
     | Some v \<Rightarrow> if is_number v then map_sum id (\<lambda>w. code = w) (json_word (- (2 ^ 31)) (2 ^ 31) v) else Inr False)"

definition check_access_code :: "json \<Rightarrow> u64 \<Rightarrow> failure + bool" where
  "check_access_code js accessCode =
    (case json_member ''accessCode'' js of
       None \<Rightarrow> Inr False
     | Some (J_string s) \<Rightarrow> Inr (accessCode = strtoull 16 s \<or> accessCode = strtoull 10 s)
     | Some v \<Rightarrow> if is_number v then map_sum id (\<lambda>w. accessCode = w) (json_word 0 (2 ^ 64) v) else Inr False)"

definition checkCredentials :: "json \<Rightarrow> u32 \<Rightarrow> u64 \<Rightarrow> failure + bool" where
  "checkCredentials js code accessCode =
    (case check_code js code of
       Inr True \<Rightarrow> check_access_code js accessCode
     | r \<Rightarrow> r)"

text \<open>\<open>contains\<close> and \<open>is_string\<close>; a variable that was not set is the empty text.\<close>

definition text_of :: "string \<Rightarrow> json \<Rightarrow> string" where
  "text_of k js = (case json_member k js of Some (J_string t) \<Rightarrow> t | _ \<Rightarrow> [])"

definition is_text :: "string \<Rightarrow> json \<Rightarrow> bool" where
  "is_text k js \<longleftrightarrow> (case json_member k js of Some (J_string t) \<Rightarrow> True | _ \<Rightarrow> False)"

definition number_of :: "string \<Rightarrow> 'a word \<Rightarrow> json \<Rightarrow> failure + 'a::len word" where
  "number_of k unset js =
    (case json_member k js of
       None \<Rightarrow> Inr unset
     | Some v \<Rightarrow> if is_number v then json_word 0 (2 ^ LENGTH('a)) v else Inr unset)"

definition list_text :: "string list \<Rightarrow> string" where
  "list_text ts = ''['' @ join '', '' ts @ '']''"

text \<open>The checks in front of both queries: the document, the credentials, the tag.\<close>

definition json_accept ::
    "(string \<Rightarrow> json option) \<Rightarrow> u32 \<Rightarrow> u64 \<Rightarrow> string \<Rightarrow> failure + (json \<times> char) option" where
  "json_accept parse code accessCode request =
    (case parse request of
       None \<Rightarrow> Inr None
     | Some js \<Rightarrow>
         if \<not> json_is_object js then Inr None
         else case checkCredentials js code accessCode of
           Inl e \<Rightarrow> Inl e
         | Inr ok \<Rightarrow>
             if \<not> ok then Inr None
             else case text_of ''tag'' js of
               [] \<Rightarrow> Inr None
             | t # _ \<Rightarrow> Inr (Some (js, t)))"

section \<open>IdentityTextJSONSerialization\<close>

definition json_query_a :: "(json \<Rightarrow> string) \<Rightarrow> 's IdentityService \<Rightarrow> 's \<Rightarrow> nat \<Rightarrow> json \<Rightarrow> string" where
  "json_query_a dump svc s retSize js =
    (let addr = text_of ''addr'' js; eui = text_of ''eui'' js
     in if addr = [] then
          (let (r, nid) = svc_getNetworkIdentity svc s NETWORKIDENTITY_default (string2DEVEUI eui)
           in if r = CODE_OK then retStr retSize (NETWORKIDENTITY_toJsonString nid)
              else retStatusCode dump retSize r)
        else
          (let (r, did) = svc_get svc s DEVICEID_default (string2DEVADDR addr)
           in if r = CODE_OK then retStr retSize (DEVICEID_toJsonString 0 did)
              else retStatusCode dump retSize r))"

definition json_query_i :: "(json \<Rightarrow> string) \<Rightarrow> 's IdentityService \<Rightarrow> 's \<Rightarrow> nat \<Rightarrow> json \<Rightarrow> string" where
  "json_query_i dump svc s retSize js =
    (let (r, did) = svc_get svc s DEVICEID_default (string2DEVADDR (text_of ''addr'' js))
     in if r = CODE_OK then retStr retSize (DEVICEID_toJsonString 0 did)
        else retStatusCode dump retSize r)"

definition json_query_l :: "(json \<Rightarrow> string) \<Rightarrow> 's IdentityService \<Rightarrow> 's \<Rightarrow> nat \<Rightarrow> json \<Rightarrow> failure + string" where
  "json_query_l dump svc s retSize js =
    (case number_of ''offset'' 0 js of
       Inl e \<Rightarrow> Inl e
     | Inr offset \<Rightarrow>
         (case number_of ''size'' 10 js of
            Inl e \<Rightarrow> Inl e
          | Inr sz \<Rightarrow>
              let (r, nis) = svc_list svc s [] offset sz
              in Inr (if r = CODE_OK then retStr retSize (list_text (map NETWORKIDENTITY_toJsonString nis))
                      else retStatusCode dump retSize r)))"

definition json_query_n :: "(json \<Rightarrow> string) \<Rightarrow> 's IdentityService \<Rightarrow> 's \<Rightarrow> nat \<Rightarrow> string" where
  "json_query_n dump svc s retSize =
    (let (r, ni) = svc_next svc s NETWORKIDENTITY_default
     in if r \<noteq> CODE_OK then retStatusCode dump retSize r else retStr retSize (NETWORKIDENTITY_toJsonString ni))"

definition read_device :: "json \<Rightarrow> DEVICE_ID" where
  "read_device js = fold (\<lambda>(k, f). read_string k f js) device_fields DEVICEID_default"

definition json_query_p ::
    "(json \<Rightarrow> string) \<Rightarrow> 's IdentityService \<Rightarrow> 's \<Rightarrow> nat \<Rightarrow> json \<Rightarrow> string \<times> 's" where
  "json_query_p dump svc s retSize js =
    (if \<not> is_text ''addr'' js then ([], s)
     else
       let (r, s') = svc_put svc s (string2DEVADDR (text_of ''addr'' js)) (read_device js)
       in (retStatusCode dump retSize r, s'))"

definition json_query_r ::
    "(json \<Rightarrow> string) \<Rightarrow> 's IdentityService \<Rightarrow> 's \<Rightarrow> nat \<Rightarrow> json \<Rightarrow> string \<times> 's" where
  "json_query_r dump svc s retSize js =
    (if \<not> is_text ''addr'' js then (retStatusCode dump retSize ERR_CODE_DEVICE_ADDRESS_NOTFOUND, s)
     else
       let (r, s') = svc_rm svc s (string2DEVADDR (text_of ''addr'' js))
       in (retStatusCode dump retSize r, s'))"

definition json_identity_dispatch ::
    "(json \<Rightarrow> string) \<Rightarrow> 's IdentityService \<Rightarrow> 's \<Rightarrow> nat \<Rightarrow> json \<Rightarrow> char \<Rightarrow> failure + string \<times> 's" where
  "json_identity_dispatch dump svc s retSize js t =
    (if t = CHR ''a'' then Inr (json_query_a dump svc s retSize js, s)
     else if t = CHR ''i'' then Inr (json_query_i dump svc s retSize js, s)
     else if t = CHR ''l'' then map_sum id (\<lambda>a. (a, s)) (json_query_l dump svc s retSize js)
     else if t = CHR ''c'' then Inr (retStr retSize (show_nat (svc_size svc s)), s)
     else if t = CHR ''n'' then Inr (json_query_n dump svc s retSize, s)
     else if t = CHR ''p'' then Inr (json_query_p dump svc s retSize js)
     else if t = CHR ''r'' then Inr (json_query_r dump svc s retSize js)
     else if t = CHR ''s'' \<or> t = CHR ''e'' then Inr (retStatusCode dump retSize CODE_OK, s)
     else Inr ([], s))"

definition IdentityTextJSONSerialization_query ::
    "(string \<Rightarrow> json option) \<Rightarrow> (json \<Rightarrow> string) \<Rightarrow> 's IdentityService option \<Rightarrow> u32 \<Rightarrow> u64 \<Rightarrow> 's \<Rightarrow> nat \<Rightarrow>
     string \<Rightarrow> failure + string \<times> 's" where
  "IdentityTextJSONSerialization_query parse dump svc code accessCode s retSize request =
    (case svc of
       None \<Rightarrow> Inr ([], s)
     | Some svc \<Rightarrow>
         (case json_accept parse code accessCode request of
            Inl e \<Rightarrow> Inl e
          | Inr None \<Rightarrow> Inr ([], s)
          | Inr (Some (js, t)) \<Rightarrow> json_identity_dispatch dump svc s retSize js t))"

section \<open>GatewayTextJSONSerialization\<close>

text \<open>\<open>string2sockaddr\<close> into the address of a gateway; nobody looks whether it was one.\<close>

definition set_sockaddr :: "(string \<Rightarrow> bytes option) \<Rightarrow> string \<Rightarrow> GatewayIdentity \<Rightarrow> failure + GatewayIdentity" where
  "set_sockaddr pton6 t g =
    (case string2sockaddr pton6 (sockaddr_memory (sockaddr g)) t of
       None \<Rightarrow> Inl Undefined
     | Some (_, m) \<Rightarrow> Inr (g\<lparr>sockaddr := sockaddr_of_memory m\<rparr>))"

definition gateway_answer ::
    "(bytes \<Rightarrow> string) \<Rightarrow> (json \<Rightarrow> string) \<Rightarrow> nat \<Rightarrow> code \<times> GatewayIdentity \<Rightarrow> failure + string" where
  "gateway_answer ntop6 dump retSize = (\<lambda>(r, g).
    if r \<noteq> CODE_OK then Inr (retStatusCode dump retSize r)
    else case GatewayIdentity_toJsonString ntop6 g of
      None \<Rightarrow> Inl Undefined
    | Some t \<Rightarrow> Inr (retStr retSize t))"

definition json_query_A ::
    "(bytes \<Rightarrow> string) \<Rightarrow> (string \<Rightarrow> bytes option) \<Rightarrow> (json \<Rightarrow> string) \<Rightarrow> 's GatewayService \<Rightarrow> 's \<Rightarrow> nat \<Rightarrow> json \<Rightarrow>
     failure + string" where
  "json_query_A ntop6 pton6 dump svc s retSize js =
    (if \<not> is_text ''addr'' js then Inr (retStatusCode dump retSize ERR_CODE_GATEWAY_NOT_FOUND)
     else case set_sockaddr pton6 (text_of ''addr'' js) GatewayIdentity_default of
       Inl e \<Rightarrow> Inl e
     | Inr gi \<Rightarrow> gateway_answer ntop6 dump retSize (gsv_get svc s gi))"

definition json_query_I ::
    "(bytes \<Rightarrow> string) \<Rightarrow> (json \<Rightarrow> string) \<Rightarrow> 's GatewayService \<Rightarrow> 's \<Rightarrow> nat \<Rightarrow> json \<Rightarrow> failure + string" where
  "json_query_I ntop6 dump svc s retSize js =
    (if \<not> is_text ''gwid'' js then Inr (retStatusCode dump retSize ERR_CODE_GATEWAY_NOT_FOUND)
     else gateway_answer ntop6 dump retSize
       (gsv_get svc s (GatewayIdentity_default\<lparr>gatewayId := string2gatewayId (text_of ''gwid'' js)\<rparr>)))"

definition json_query_L ::
    "(bytes \<Rightarrow> string) \<Rightarrow> (json \<Rightarrow> string) \<Rightarrow> 's GatewayService \<Rightarrow> 's \<Rightarrow> nat \<Rightarrow> json \<Rightarrow> failure + string" where
  "json_query_L ntop6 dump svc s retSize js =
    (case number_of ''offset'' 0 js of
       Inl e \<Rightarrow> Inl e
     | Inr offset \<Rightarrow>
         (case number_of ''size'' 10 js of
            Inl e \<Rightarrow> Inl e
          | Inr sz \<Rightarrow>
              let (r, gs) = gsv_list svc s [] offset sz; ts = map (GatewayIdentity_toJsonString ntop6) gs
              in if r \<noteq> CODE_OK then Inr (retStatusCode dump retSize r)
                 else if None \<in> set ts then Inl Undefined
                 else Inr (retStr retSize (list_text (map the ts)))))"

text \<open>The gateway that is put or removed: what is not given, or empty, stays zero.\<close>

definition given_gateway :: "(string \<Rightarrow> bytes option) \<Rightarrow> json \<Rightarrow> failure + GatewayIdentity" where
  "given_gateway pton6 js =
    (let addr = text_of ''addr'' js; gwid = text_of ''gwid'' js
     in case (if addr = [] then Inr GatewayIdentity_default else set_sockaddr pton6 addr GatewayIdentity_default) of
          Inl e \<Rightarrow> Inl e
        | Inr gi \<Rightarrow> Inr (if gwid = [] then gi else gi\<lparr>gatewayId := string2gatewayId gwid\<rparr>))"

definition json_query_P ::
    "(string \<Rightarrow> bytes option) \<Rightarrow> (json \<Rightarrow> string) \<Rightarrow> 's GatewayService \<Rightarrow> 's \<Rightarrow> nat \<Rightarrow> json \<Rightarrow> failure + string \<times> 's" where
  "json_query_P pton6 dump svc s retSize js =
    map_sum id (\<lambda>gi. let (r, s') = gsv_put svc s gi in (retStatusCode dump retSize r, s')) (given_gateway pton6 js)"

definition json_query_R ::
    "(string \<Rightarrow> bytes option) \<Rightarrow> (json \<Rightarrow> string) \<Rightarrow> 's GatewayService \<Rightarrow> 's \<Rightarrow> nat \<Rightarrow> json \<Rightarrow> failure + string \<times> 's" where
  "json_query_R pton6 dump svc s retSize js =
    map_sum id (\<lambda>gi. let (r, s') = gsv_rm svc s gi in (retStatusCode dump retSize r, s')) (given_gateway pton6 js)"

definition json_gateway_dispatch ::
    "(bytes \<Rightarrow> string) \<Rightarrow> (string \<Rightarrow> bytes option) \<Rightarrow> (json \<Rightarrow> string) \<Rightarrow> 's GatewayService \<Rightarrow> 's \<Rightarrow> nat \<Rightarrow> json \<Rightarrow>
     char \<Rightarrow> failure + string \<times> 's" where
  "json_gateway_dispatch ntop6 pton6 dump svc s retSize js t =
    (if t = CHR ''A'' then map_sum id (\<lambda>a. (a, s)) (json_query_A ntop6 pton6 dump svc s retSize js)
     else if t = CHR ''I'' then map_sum id (\<lambda>a. (a, s)) (json_query_I ntop6 dump svc s retSize js)
     else if t = CHR ''L'' then map_sum id (\<lambda>a. (a, s)) (json_query_L ntop6 dump svc s retSize js)
     else if t = CHR ''C'' then Inr (retStr retSize (show_nat (gsv_size svc s)), s)
     else if t = CHR ''P'' then json_query_P pton6 dump svc s retSize js
     else if t = CHR ''R'' then json_query_R pton6 dump svc s retSize js
     else if t = CHR ''s'' \<or> t = CHR ''e'' then Inr (retStatusCode dump retSize CODE_OK, s)
     else Inr ([], s))"

definition GatewayTextJSONSerialization_query ::
    "(string \<Rightarrow> json option) \<Rightarrow> (bytes \<Rightarrow> string) \<Rightarrow> (string \<Rightarrow> bytes option) \<Rightarrow> (json \<Rightarrow> string) \<Rightarrow>
     's GatewayService option \<Rightarrow> u32 \<Rightarrow> u64 \<Rightarrow> 's \<Rightarrow> nat \<Rightarrow> string \<Rightarrow> failure + string \<times> 's" where
  "GatewayTextJSONSerialization_query parse ntop6 pton6 dump svc code accessCode s retSize request =
    (case svc of
       None \<Rightarrow> Inr ([], s)
     | Some svc \<Rightarrow>
         (case json_accept parse code accessCode request of
            Inl e \<Rightarrow> Inl e
          | Inr None \<Rightarrow> Inr ([], s)
          | Inr (Some (js, t)) \<Rightarrow> json_gateway_dispatch ntop6 pton6 dump svc s retSize js t))"

section \<open>Requests\<close>

text \<open>A request as a client writes it, with the credentials as numbers.\<close>

definition json_request :: "u32 \<Rightarrow> u64 \<Rightarrow> string \<Rightarrow> (string \<times> json) list \<Rightarrow> json" where
  "json_request code accessCode tag ms = J_object
    ((''tag'', J_string tag) # (''code'', J_integer (sint code)) #
     (''accessCode'', J_unsigned (unat accessCode)) # ms)"

lemma json_request_members [simp]:
  "json_member ''tag'' (json_request c ac t ms) = Some (J_string t)"
  "json_member ''code'' (json_request c ac t ms) = Some (J_integer (sint c))"
  "json_member ''accessCode'' (json_request c ac t ms) = Some (J_unsigned (unat ac))"
  "k \<notin> {''tag'', ''code'', ''accessCode''} \<Longrightarrow> json_member k (json_request c ac t ms) = map_of ms k"
  "json_is_object (json_request c ac t ms)"
  by (simp_all add: json_request_def)

lemma json_request_credentials:
  "checkCredentials (json_request c' ac' t ms) c ac = Inr (c = c' \<and> ac = ac')"
  by (simp add: checkCredentials_def check_code_def check_access_code_def is_number_def split: bool.splits)

lemma json_accept_request:
  "parse req = Some (json_request c ac (t # ts) ms) \<Longrightarrow>
    json_accept parse c ac req = Inr (Some (json_request c ac (t # ts) ms, t))"
  by (simp add: json_accept_def json_request_credentials text_of_def)

lemma json_accept_some:
  assumes "json_accept parse c ac req = Inr (Some (js, t))"
  shows "parse req = Some js \<and> checkCredentials js c ac = Inr True \<and> text_of ''tag'' js \<noteq> [] \<and> hd (text_of ''tag'' js) = t"
  using assms by (auto simp: json_accept_def split: option.splits sum.splits if_splits list.splits)

text \<open>The device of a request is the one of the same members in a file.\<close>

lemma read_device_document:
  assumes "storable d" "\<And>k. k \<in> fst ` set device_fields \<Longrightarrow> json_member k js = json_member k (device_document a d)"
  shows "read_device js = reread d"
proof -
  have "fold (\<lambda>(k, f). read_string k f js) device_fields DEVICEID_default =
      fold (\<lambda>(k, f). read_string k f (device_document a d)) device_fields DEVICEID_default"
  proof (rule fold_cong)
    fix p assume p: "p \<in> set device_fields"
    have "json_member (fst p) js = json_member (fst p) (device_document a d)"
      by (rule assms(2)) (rule imageI [OF p])
    then show "(case p of (k, f) \<Rightarrow> read_string k f js) =
        (case p of (k, f) \<Rightarrow> read_string k f (device_document a d))"
      by (simp add: read_string_def case_prod_beta fun_eq_iff)
  qed simp_all
  moreover have "wf_device d" "activation d \<le> OTAA" "deviceclass d \<le> CLASS_C"
    using assms(1) by (simp_all add: storable_def)
  then have "fold (\<lambda>(k, f). read_string k f (device_document a d)) device_fields DEVICEID_default = reread d"
    using name_reread [OF assms(1)]
    by (simp add: device_fields_def read_string_def device_document_members text_simps
        activation_text deviceclass_text wf_device_def wf_KEY128_def default_fields reread_def
        DEVICEID_setClass_def)
  ultimately show ?thesis by (simp only: read_device_def)
qed

lemma request_device:
  assumes "storable d" "a \<noteq> 0"
  shows "read_device (json_request c ac t (map member_value (device_members a d))) = reread d"
    "json_member ''addr'' (json_request c ac t (map member_value (device_members a d))) =
      Some (J_string (DEVADDR2string a))"
proof -
  let ?ms = "map member_value (device_members a d)"
  have m: "json_member k (device_document a d) = map_of ?ms k" for k by (simp add: device_document_def)
  show "read_device (json_request c ac t ?ms) = reread d"
    by (rule read_device_document [OF assms(1), where a = a]) (auto simp: m device_fields_def)
  show "json_member ''addr'' (json_request c ac t ?ms) = Some (J_string (DEVADDR2string a))"
    using device_document_members(1) [OF assms(2), of d] by (simp add: m)
qed

context identity_simulation
begin

lemma json_put: "map_prod id view (json_query_p dump svc s n js) = json_query_p dump spec (view s) n js"
  by (cases "svc_put svc s (string2DEVADDR (text_of ''addr'' js)) (read_device js)")
    (simp add: json_query_p_def put_cases)

lemma json_rm: "map_prod id view (json_query_r dump svc s n js) = json_query_r dump spec (view s) n js"
  by (cases "svc_rm svc s (string2DEVADDR (text_of ''addr'' js))") (simp add: json_query_r_def rm_cases)

lemma json_reading:
  "json_query_a dump svc s n js = json_query_a dump spec (view s) n js"
  "json_query_i dump svc s n js = json_query_i dump spec (view s) n js"
  "json_query_l dump svc s n js = json_query_l dump spec (view s) n js"
  "json_query_n dump svc s n = json_query_n dump spec (view s) n"
  by (simp_all add: json_query_a_def json_query_i_def json_query_l_def json_query_n_def
      get eui list "next" Let_def cong: sum.case_cong)

lemma json_query:
  "map_sum id (map_prod id view) (IdentityTextJSONSerialization_query parse dump (Some svc) c ac s n req) =
    IdentityTextJSONSerialization_query parse dump (Some spec) c ac (view s) n req"
  by (simp add: IdentityTextJSONSerialization_query_def json_identity_dispatch_def
      json_put [unfolded id_def] json_rm [unfolded id_def]
      json_reading size sum.map_comp comp_def id_def split: option.split sum.split)

end

section \<open>Properties\<close>

text \<open>C25: a device assigned by a JSON request is stored under its address without its token and
  its regions, and a request for that address with the tag \<open>i\<close> answers with the text of what is
  stored, without the address, when the buffer has room.\<close>

theorem json_assign_then_get:
  assumes "storable d" "a \<noteq> 0" "om_sorted st"
    and "parse put = Some (json_request c ac (CHR ''p'' # u) (map member_value (device_members a d)))"
    and "parse get = Some (json_request c ac (CHR ''i'' # v) [(''addr'', J_string (DEVADDR2string a))])"
    and "IdentityTextJSONSerialization_query parse dump (Some MemoryIdentityService) c ac st n put = Inr (ans, st')"
  shows "st' = snd (ids_put st a (reread d)) \<and> ans = retStatusCode dump n CODE_OK \<and>
    IdentityTextJSONSerialization_query parse dump (Some MemoryIdentityService) c ac st' m get =
      Inr (retStr m (DEVICEID_toJsonString 0 (reread d)), st')"
proof -
  have st: "st' = om_assign a (reread d) st" "ans = retStatusCode dump n CODE_OK"
    using assms(6) request_device [OF assms(1,2)]
    by (simp_all add: IdentityTextJSONSerialization_query_def json_accept_request [where parse = parse and req = put, OF assms(4)]
        json_identity_dispatch_def json_query_p_def is_text_def text_of_def MemoryIdentityService_def
        ids_put_def text_simps)
  then show ?thesis
    using assms(3)
    by (simp add: IdentityTextJSONSerialization_query_def json_accept_request [where parse = parse and req = get, OF assms(5)]
        json_identity_dispatch_def json_query_i_def text_of_def MemoryIdentityService_def ids_put_def
        ids_get_def om_simps text_simps)
qed

definition sample_parse :: "string \<Rightarrow> json option" where
  "sample_parse req =
    (if req = ''put'' then Some (json_request 42 7 ''put'' (map member_value (device_members 5 DEVICEID_default)))
     else if req = ''get'' then Some (json_request 42 7 ''id'' [(''addr'', J_string (DEVADDR2string 5))])
     else None)"

theorem json_assign_then_get_witness:
  "\<exists>ans st'. IdentityTextJSONSerialization_query sample_parse (\<lambda>_. ''{}'') (Some MemoryIdentityService) 42 7 [] 9 ''put'' =
      Inr (ans, st') \<and>
    (st' = snd (ids_put [] 5 (reread DEVICEID_default)) \<and> ans = retStatusCode (\<lambda>_. ''{}'') 9 CODE_OK \<and>
     IdentityTextJSONSerialization_query sample_parse (\<lambda>_. ''{}'') (Some MemoryIdentityService) 42 7 st' 999 ''get'' =
       Inr (retStr 999 (DEVICEID_toJsonString 0 (reread DEVICEID_default)), st'))"
proof -
  have d: "storable DEVICEID_default"
    by (simp add: storable_def wf_device_def wf_KEY128_def DEVICEID_default_def KEY128_zero_def
        DEVICENAME2string_def c_str_def bytes_text_def)
  have p: "sample_parse ''put'' =
      Some (json_request 42 7 (CHR ''p'' # ''ut'') (map member_value (device_members 5 DEVICEID_default)))"
    and g: "sample_parse ''get'' = Some (json_request 42 7 (CHR ''i'' # ''d'') [(''addr'', J_string (DEVADDR2string 5))])"
    by (simp_all add: sample_parse_def)
  obtain ans st' where q: "IdentityTextJSONSerialization_query sample_parse (\<lambda>_. ''{}'')
      (Some MemoryIdentityService) 42 7 [] 9 ''put'' = Inr (ans, st')"
    by (simp add: IdentityTextJSONSerialization_query_def json_identity_dispatch_def
        json_accept_request [where parse = sample_parse and req = "''put''", OF p])
      (metis surj_pair)
  show ?thesis
    using json_assign_then_get [OF d _ _ p g q, of 999] q by auto
qed

text \<open>a JSON request changes the identities, or gets an answer that is not empty, only with
  the right credentials and a tag; it changes them only with the tags \<open>p\<close> and \<open>r\<close>.\<close>

theorem json_identity_guard:
  assumes "IdentityTextJSONSerialization_query parse dump (Some svc) c ac s n req = Inr (ans, s')"
    and "ans \<noteq> [] \<or> s' \<noteq> s"
  shows "\<exists>js t. parse req = Some js \<and> checkCredentials js c ac = Inr True \<and> take 1 (text_of ''tag'' js) = [t] \<and>
    (s' = s \<or> t = CHR ''p'' \<or> t = CHR ''r'')"
proof -
  obtain js t where a: "json_accept parse c ac req = Inr (Some (js, t))"
    and d: "json_identity_dispatch dump svc s n js t = Inr (ans, s')"
    using assms by (auto simp: IdentityTextJSONSerialization_query_def split: sum.splits option.splits)
  have "s' = s \<or> t = CHR ''p'' \<or> t = CHR ''r''"
    using d by (auto simp: json_identity_dispatch_def map_sum_def split: if_splits sum.splits)
  with json_accept_some [OF a] show ?thesis by (cases "text_of ''tag'' js") auto
qed

theorem json_identity_guard_witness:
  "\<exists>js t. sample_parse ''get'' = Some js \<and> checkCredentials js 42 7 = Inr True \<and> take 1 (text_of ''tag'' js) = [t] \<and>
    (([] :: identity_storage) = [] \<or> t = CHR ''p'' \<or> t = CHR ''r'')"
proof (rule json_identity_guard)
  have g: "sample_parse ''get'' = Some (json_request 42 7 (CHR ''i'' # ''d'') [(''addr'', J_string (DEVADDR2string 5))])"
    by (simp add: sample_parse_def)
  show "IdentityTextJSONSerialization_query sample_parse (\<lambda>_. ''{}'') (Some MemoryIdentityService) 42 7 [] 9 ''get'' =
      Inr (''{}'', [])"
    by (simp add: IdentityTextJSONSerialization_query_def json_identity_dispatch_def json_query_i_def
        json_accept_request [where parse = sample_parse and req = "''get''", OF g] text_of_def text_simps
        MemoryIdentityService_def ids_get_def retStatusCode_def retJs_def)
qed simp

text \<open>the JSON protocol answers from a storage in a JSON file as from one in memory.\<close>

theorem json_file_json_answers:
  "map_sum id (map_prod id jis_storage)
      (IdentityTextJSONSerialization_query parse dump (Some JsonIdentityService_functions) c ac s n req) =
    IdentityTextJSONSerialization_query parse dump (Some MemoryIdentityService) c ac (jis_storage s) n req"
  by (rule json_identities.json_query)

lemma given_texts_nonempty: "ip4_text a \<noteq> []" "gatewayId2str i \<noteq> []"
  by (simp_all add: ip4_text_def gatewayId2str_def)

text \<open>a gateway put by a JSON request with an IPv4 address is stored under its identifier, and
  a request for the identifier answers with the same identifier and address.\<close>

theorem json_gateway_put_then_get:
  assumes "i \<noteq> 0" "om_sorted st" "wf_sockaddr a" "sa_family a = AF_INET" "\<And>b. pton6 (inet_ntop4 b) = None"
    and "parse put = Some (json_request c ac (CHR ''P'' # u)
      [(''addr'', J_string (ip4_text a)), (''gwid'', J_string (gatewayId2str i))])"
    and "parse get = Some (json_request c ac (CHR ''I'' # v) [(''gwid'', J_string (gatewayId2str i))])"
    and "GatewayTextJSONSerialization_query parse ntop6 pton6 dump (Some MemoryGatewayService) c ac st n put =
      Inr (ans, st')"
  shows "st' = snd (gws_put st \<lparr>gatewayId = i, sockaddr = put_ip4 SOCKADDR_zero a\<rparr>) \<and>
    GatewayTextJSONSerialization_query parse ntop6 pton6 dump (Some MemoryGatewayService) c ac st' m get =
      Inr (retStr m (gateway_text \<lparr>gatewayId = i, sockaddr = a\<rparr>), st')"
proof -
  let ?g = "\<lparr>gatewayId = i, sockaddr = put_ip4 SOCKADDR_zero a\<rparr>"
  have "set_sockaddr pton6 (ip4_text a) GatewayIdentity_default = Inr (?g\<lparr>gatewayId := 0\<rparr>)"
    using ip4_text_read [OF assms(3,4) wf_sockaddr_zero, of pton6] assms(5)
    by (simp add: set_sockaddr_def GatewayIdentity_default_def put_ip4_memory assms(3,4))
  then have st: "st' = om_assign i ?g st"
    using assms(8)
    by (simp add: given_texts_nonempty GatewayTextJSONSerialization_query_def json_gateway_dispatch_def json_query_P_def
        given_gateway_def json_accept_request [where parse = parse and req = put, OF assms(6)]
        text_of_def MemoryGatewayService_def gws_put_def text_simps)
  have e: "ip4_entry (i, ?g)"
    using assms(3) by (simp add: ip4_entry_def put_ip4_def wf_sockaddr_def SOCKADDR_zero_def)
  have t: "gateway_text ?g = gateway_text \<lparr>gatewayId = i, sockaddr = a\<rparr>"
    using assms(3) by (simp add: gateway_text_def gateway_members_def ip4_text_def put_ip4_def wf_sockaddr_def)
  show ?thesis
    using assms(1,2) gateway_toJson [OF e, of ntop6]
    by (simp add: GatewayTextJSONSerialization_query_def json_gateway_dispatch_def json_query_I_def
        json_accept_request [where parse = parse and req = get, OF assms(7)] gateway_answer_def
        is_text_def text_of_def MemoryGatewayService_def gws_put_def gws_get_def om_simps text_simps st t
        GatewayIdentity_default_def)
qed

definition sample_address :: SOCKADDR where
  "sample_address = \<lparr>sa_family = 2, sin_port = 0x8f06, sin_addr = [10, 8, 0, 255] @ replicate 12 0\<rparr>"

definition sample_gateway_parse :: "string \<Rightarrow> json option" where
  "sample_gateway_parse req =
    (if req = ''put'' then Some (json_request 42 7 ''PUT'' [(''addr'', J_string (ip4_text sample_address)),
       (''gwid'', J_string (gatewayId2str 9))])
     else if req = ''get'' then Some (json_request 42 7 ''I'' [(''gwid'', J_string (gatewayId2str 9))])
     else if req = ''ip6'' then Some (json_request 42 7 ''A'' [(''addr'', J_string (''::1:'' @ show_word (80 :: u16)))])
     else None)"

theorem json_gateway_put_then_get_witness:
  "\<exists>ans st'. GatewayTextJSONSerialization_query sample_gateway_parse (\<lambda>_. []) (\<lambda>_. None) (\<lambda>_. ''{}'')
      (Some MemoryGatewayService) 42 7 [] 9 ''put'' = Inr (ans, st') \<and>
    (st' = snd (gws_put [] \<lparr>gatewayId = 9, sockaddr = put_ip4 SOCKADDR_zero sample_address\<rparr>) \<and>
     GatewayTextJSONSerialization_query sample_gateway_parse (\<lambda>_. []) (\<lambda>_. None) (\<lambda>_. ''{}'')
       (Some MemoryGatewayService) 42 7 st' 99 ''get'' =
       Inr (retStr 99 (gateway_text \<lparr>gatewayId = 9, sockaddr = sample_address\<rparr>), st'))"
proof -
  have w: "wf_sockaddr sample_address" "sa_family sample_address = AF_INET"
    by (simp_all add: sample_address_def wf_sockaddr_def)
  have p: "sample_gateway_parse ''put'' = Some (json_request 42 7 (CHR ''P'' # ''UT'')
      [(''addr'', J_string (ip4_text sample_address)), (''gwid'', J_string (gatewayId2str 9))])"
    and g: "sample_gateway_parse ''get'' = Some (json_request 42 7 (CHR ''I'' # []) [(''gwid'', J_string (gatewayId2str 9))])"
    by (simp_all add: sample_gateway_parse_def)
  have "string2sockaddr (\<lambda>_. None) (sockaddr_memory SOCKADDR_zero) (ip4_text sample_address) =
      Some (True, take 8 (sockaddr_memory sample_address) @ drop 8 (sockaddr_memory SOCKADDR_zero))"
    by (rule ip4_text_read [OF w wf_sockaddr_zero]) simp
  then obtain ans st' where q: "GatewayTextJSONSerialization_query sample_gateway_parse (\<lambda>_. []) (\<lambda>_. None) (\<lambda>_. ''{}'')
      (Some MemoryGatewayService) 42 7 [] 9 ''put'' = Inr (ans, st')"
    by (simp add: GatewayTextJSONSerialization_query_def json_gateway_dispatch_def json_query_P_def
        given_gateway_def json_accept_request [where parse = sample_gateway_parse and req = "''put''", OF p]
        text_of_def set_sockaddr_def GatewayIdentity_default_def MemoryGatewayService_def gws_put_def
        Let_def given_texts_nonempty)
  show ?thesis
    using json_gateway_put_then_get [OF _ _ w _ p g q, of 99] q by auto
qed

text \<open>an address of IPv6 is written behind the sixteen bytes of the object, whatever the request
  does with it.\<close>

theorem json_ip6_overruns:
  assumes "pton6 (c_string h) = Some b" "splitAddress t = Some (h, p)" "t \<noteq> []"
    and "parse req = Some (json_request c ac (tag # u) [(''addr'', J_string t)])"
    and "tag \<in> {CHR ''A'', CHR ''P'', CHR ''R''}"
  shows "GatewayTextJSONSerialization_query parse ntop6 pton6 dump (Some svc) c ac s n req = Inl Undefined"
proof -
  have "set_sockaddr pton6 t GatewayIdentity_default = Inl Undefined"
    using assms(1,2)
    by (simp add: set_sockaddr_def string2sockaddr_def string2sockaddr_port_def GatewayIdentity_default_def)
  then show ?thesis
    using assms(3,5)
    by (auto simp: GatewayTextJSONSerialization_query_def json_gateway_dispatch_def json_query_A_def
        json_query_P_def json_query_R_def given_gateway_def is_text_def text_of_def
        json_accept_request [where parse = parse and req = req, OF assms(4)])
qed

theorem json_ip6_overruns_witness:
  "GatewayTextJSONSerialization_query sample_gateway_parse (\<lambda>_. []) (\<lambda>_. Some (replicate 16 0)) (\<lambda>_. [])
    (Some MemoryGatewayService) 42 7 [] 99 ''ip6'' = Inl Undefined"
proof (rule json_ip6_overruns [where h = "''::1''" and t = "''::1:'' @ show_word (80 :: u16)" and p = 80
      and tag = "CHR ''A''" and u = "[]" and c = 42 and ac = 7])
  show "splitAddress (''::1:'' @ show_word (80 :: u16)) = Some (''::1'', 80)"
    using splitAddress_show [of "''::1''" "80 :: u16"] by simp
qed (simp_all add: sample_gateway_parse_def)

text \<open>the code of a request is compared after it was cut to 32 bits, and a code that is a text
  is read both as a hexadecimal and as a decimal number: either will do.\<close>

theorem json_code_loose:
  "check_code (J_object [(''code'', J_integer (sint c + 2 ^ 32 * k))]) c = Inr True \<and>
   check_code (J_object [(''code'', J_string ''10'')]) c = Inr (c = 10 \<or> c = 16)"
proof -
  have "(word_of_int (2 ^ 32) :: u32) = 0" by simp
  then have "(word_of_int (2 ^ 32 * k) :: u32) = 0" unfolding wi_hom_mult [symmetric] by (simp only: mult_zero_left)
  then have "word_of_int (sint c + 2 ^ 32 * k) = c" by (simp only: wi_hom_add [symmetric]) simp
  moreover have "strtol 16 ''10'' = 16" "strtol 10 ''10'' = 10" by code_simp+
  ultimately show ?thesis by (auto simp: check_code_def is_number_def)
qed

end
