(* ===== verification/Spec2Isabelle.thy ===== *)
theory Spec2Isabelle
  imports Identity_Binary Gateway_Service Packet_Storage Mac_Data Dispatcher Frame_Text Filter_Text
    Base64 Region_Json Gw_Wired Gateway_Binary Identity_Gen Urn Payload_Command
    Storage_Client Identity_Wrapper Gateway_Settings Json_Service
begin

text \<open>
  \<^bold>\<open>What the program is.\<close>  The repository is a LoRaWAN network server in C and C++.
  Gateways forward radio packets over UDP; the server decodes a packet, looks the device up by
  its address in an identity service, checks and deciphers the packet with the keys of that
  device, acts on the MAC commands in its options, and queues answers, which go out through the
  gateway that hears the device best.  Identities and gateways live in storage services, which
  are also reached over a binary protocol.  This development models the part of the server
  below the sockets, translated operation by operation from the C++ sources under
  \<open>src/lorawan\<close> and the C source of CMAC.

  \<^bold>\<open>Theories and code.\<close>
  \<^item> \<open>Tlns_Prelude\<close>: words, raw memory as byte lists, little-endian views.
    \<open>Error_Codes\<close>: the codes of \<open>lorawan-error.h\<close>.  \<open>Ordered_Map\<close>: \<open>std::map\<close> as
    an ordered list, the paging loop of the services, and the contract \<open>key_store\<close> of a
    keyed storage, interpreted on it.
  \<^item> \<open>Dev_Addr\<close>: \<open>NETID\<close> and \<open>DEVADDR\<close> of \<open>lorawan-types.cpp\<close>; bit layouts in both
    protocol versions, range-checked setters, stepping through a network.
  \<^item> \<open>Lora_Types\<close>: keys, nonces, headers, join frames, orderings, data rates and the
    conversions of \<open>lorawan-conv.cpp\<close>.
  \<^item> \<open>Device_Id\<close>: \<open>DEVICEID\<close>, \<open>NETWORKIDENTITY\<close>, the 102-byte array form, filters.
  \<^item> \<open>Lora_Crypto\<close>: \<open>cmac.c\<close>, \<open>lorawan-mic.cpp\<close>, \<open>lorawan-key.cpp\<close>,
    \<open>aes-helper.cpp\<close>, over a block cipher that is a parameter.
  \<^item> \<open>Packet_Storage\<close>: \<open>lorawan-packet-storage.cpp\<close>, \<open>lorawan-builder.cpp\<close>,
    \<open>network-identity.cpp\<close>; the packet in memory, decoding, the array form, message codes.
  \<^item> \<open>Mac_Commands\<close>, \<open>Mac_Fields\<close>, \<open>Mac_Data\<close>: \<open>lorawan-mac.h\<close> and
    \<open>lorawan-mac.cpp\<close>; parsers and lists, payload structures as members of a union (contract
    \<open>overlay\<close>, interpreted on each of them), constructors and texts.  \<open>Gps_Time\<close>:
    \<open>lorawan-date.cpp\<close>.
  \<^item> \<open>Identity_Service\<close>: \<open>identity-service-mem.cpp\<close>.  \<open>Identity_Binary\<close>:
    \<open>service-serialization.cpp\<close> and \<open>identity-binary-serialization.cpp\<close>, requests answered
    from any identity service, which is a record of its operations.
  \<^item> \<open>Gateway_Service\<close>: \<open>gateway-service-mem.cpp\<close> and
    \<open>device-best-gateway-mem.cpp\<close>.  \<open>Ip_Address\<close>: socket addresses in memory, as texts and
    in messages, of \<open>ip-address.cpp\<close>, \<open>ip-helper.cpp\<close>, \<open>gateway-identity.cpp\<close> and
    \<open>service-serialization.cpp\<close>.  \<open>Gateway_Binary\<close>:
    \<open>gateway-binary-serialization.cpp\<close>, the same protocol as that of identities, answered
    from any gateway service.
  \<^item> \<open>Identity_Gen\<close>: \<open>key128gen.cpp\<close> and \<open>identity-service-gen.cpp\<close>, identities
    made up from their addresses and a master key.  \<open>Urn\<close>: \<open>urn-helper.cpp\<close>,
    \<open>crc-helper.cpp\<close> and \<open>identity-text-urn-serialization.cpp\<close>, identities as the URNs
    of device QR codes.
  \<^item> \<open>Payload_Command\<close>: \<open>payload2device-parser.cpp\<close>, the lines that clients type to send
    payloads to devices.
  \<^item> \<open>Storage_Client\<close>: the two ends of the binary protocols, \<open>client/udp-client.cpp\<close>,
    \<open>client/plugin-query-client.cpp\<close>, \<open>listener/udp-listener.cpp\<close> and the identity
    service over a client of \<open>service/identity-service-udp.cpp\<close>.
    \<open>Identity_Wrapper\<close>: \<open>service/identity-service.cpp\<close> and the functions for C
    programs of \<open>identity-service-c-wrapper.cpp\<close>.
  \<^item> \<open>Gw_Data\<close>: the metadata and messages of \<open>proto/gw/gw.h\<close>.  \<open>Time_Addr\<close>:
    \<open>task/task-time-addr.cpp\<close>.  \<open>Message_Queue\<close>: \<open>task/message-queue.cpp\<close>,
    \<open>message-queue-item.cpp\<close>, \<open>task-descriptor.cpp\<close>.  \<open>Dispatcher\<close>:
    \<open>task/message-task-dispatcher.cpp\<close>, handlers from the dispatcher to the dispatcher they
    leave and their effects, and the uplink thread with the calls from other threads as step
    relations over them.
  \<^item> \<open>C_Text\<close>: what the code uses of \<open>ctype.h\<close>, \<open>strtol\<close>, string streams.
    \<open>Lora_Text\<close>, \<open>Frame_Text\<close>, \<open>Filter_Text\<close>: \<open>lorawan-string.cpp\<close> with
    the \<open>toString\<close> methods of the classes; values, frames and metadata as JSON, and the
    expressions that filter identities.  \<open>Base64\<close>: \<open>third-party/base64/base64.cpp\<close> and
    the packet storage on it.
  \<^item> \<open>Json_Sax\<close>: the events of the third-party JSON parser, which the handlers of the program
    are called with, and what they make of doubles.  \<open>Region_Plan\<close>: channel plans of
    \<open>regional-parameter-channel-plan.cpp\<close> and the list of plans in memory.
    \<open>Region_Json\<close>: the handler that reads plans, of
    \<open>regional-parameter-channel-plan-file-json.cpp\<close>.
  \<^item> \<open>Gw_Udp\<close>: the Semtech protocol of \<open>proto/gw/basic-udp.cpp\<close>, from datagram to the
    dispatcher's parse result and back; it provides the parser record that \<open>Dispatcher\<close> takes.
    \<open>Gw_Wired\<close>: the protocol of simulated gateways of \<open>proto/gw/json-wired.cpp\<close>.
    \<open>Gateway_Settings\<close>: the settings file of a gateway, of \<open>gateway-file-json.cpp\<close>.
  \<^item> \<open>Json_Storage\<close>: the storages in JSON files, \<open>service/identity-service-json.cpp\<close>
    and \<open>gateway-service-json.cpp\<close>; the contracts \<open>identity_simulation\<close> and
    \<open>gateway_simulation\<close> of services that answer alike, interpreted on them and the storages
    in memory.  \<open>Json_Reader\<close>: what is relied on when the JSON library reads a text of the
    program.  \<open>Json_Service\<close>: requests that are JSON texts, of \<open>json-helper.cpp\<close>,
    \<open>identity-text-json-serialization.cpp\<close> and \<open>gateway-text-json-serialization.cpp\<close>.

  \<^bold>\<open>State and operations.\<close>  A class is a record of its members (or the list of its bytes
  where the code moves bytes), a method is a function from the object to its result and the
  object it leaves behind, also on its error branches; a returned \<open>int\<close> is the code itself.
  Reading beyond a caller's buffer is never given a convenient value: the model takes the bytes
  there from an explicit argument or refuses as the code does.  Integers keep their width, and
  the target is little-endian.

  \<^bold>\<open>What the lemmas show.\<close>  Round trips: addresses and network identifiers through their
  setters, identities and packets through their array forms, requests through the binary
  protocol, MAC command lists through their bytes, and parameters through commands.  Functional
  behaviour: parsers on every identifier and length, setters on every range, filters, message
  codes and payload encryption against a textbook definition of CMAC and counter mode.
  Invariants and refinement: storages stay ordered and behave as finite maps over any history of
  operations; paging covers a storage once.  Termination of all loops is the totality of the
  functions; only the reader of \<open>Json_Reader\<close> counts its calls, and the length of the text
  is enough for every text that the program writes.  Some theorems state defects of the code as it is, so that a
  change of behaviour shows.

  \<^bold>\<open>Not modelled.\<close>  Sockets, the system's \<open>select\<close> and timers (inputs and effects of the
  dispatcher) and the radio; two uplink threads started at once; the third-party JSON parsers
  themselves; the conversions of IPv6 texts, which are the
  system's; the clients and listeners over
  libuv and HTTP; storages over SQLite and LMDB; the AES block function, which is third-party.
\<close>

end
